(* ===== verification/Prelude.thy ===== *)
theory Prelude
  imports Main "HOL-Library.Word" "HOL-Library.AList" "HOL-Library.Multiset"
    "HOL-Library.Monad_Syntax"
begin

text \<open>
  Shared vocabulary of the development: the Go types the VM uses, Go maps as association
  lists with distinct keys, Go panics as the \<open>None\<close> of the option monad, the big-endian
  byte encoding of \<open>math/big\<close>, and the generic lemmas the component theories use.

  Conventions.
  \<^item> \<open>uint8\<close>, \<open>uint32\<close>, \<open>uint64\<close> are words; \<open>int32\<close> and \<open>int64\<close> are words read with
    \<^term>\<open>sint\<close> and compared with the signed orders.
  \<^item> \<open>[]byte\<close> is a list of bytes and a Go \<open>string\<close> that holds a name or a message is a
    HOL \<open>string\<close>; a Go string that is only a map key made from a byte slice
    (\<open>string(address)\<close>) is the byte list itself.
  \<^item> \<open>*big.Int\<close> is \<open>int\<close>; a nil pointer or nil slice that the code tests for is \<open>None\<close>.
  \<^item> a Go map is an association list; its list order stands for the (unspecified) order in
    which \<open>range\<close> visits the map, and \<open>wf_map\<close> says that keys are distinct.
  \<^item> a function that may panic returns an option, \<open>None\<close> being the panic; a function that
    returns an error has a sum type or an optional error in its result.
\<close>

section \<open>Go types\<close>

type_synonym byte = "8 word"
type_synonym bytes = "byte list"
type_synonym u32 = "32 word"
type_synonym u64 = "64 word"
type_synonym i32 = "32 word"
type_synonym i64 = "64 word"
type_synonym address = bytes

abbreviation MaxUint64 :: u64 where
  "MaxUint64 \<equiv> 0xFFFFFFFFFFFFFFFF"

abbreviation MaxInt64 :: u64 where
  "MaxInt64 \<equiv> 0x7FFFFFFFFFFFFFFF"

abbreviation MinInt64 :: u64 where
  "MinInt64 \<equiv> 0x8000000000000000"

abbreviation MaxInt32 :: i32 where
  "MaxInt32 \<equiv> 0x7FFFFFFF"

section \<open>Collections of simplification rules\<close>

named_theorems go_map_simps \<open>lookups in and updates of Go maps\<close>
named_theorems gas_simps \<open>the natural-number value of gas arithmetic\<close>
named_theorems host_simps \<open>what the operations of a context read and leave alone\<close>
named_theorems wf_intros \<open>preservation of well-formedness\<close>

section \<open>Go maps\<close>

type_synonym ('k, 'v) gomap = "('k \<times> 'v) list"

definition wf_map :: "('k, 'v) gomap \<Rightarrow> bool" where
  "wf_map m \<longleftrightarrow> distinct (map fst m)"

abbreviation map_get :: "('k, 'v) gomap \<Rightarrow> 'k \<Rightarrow> 'v option" where
  "map_get \<equiv> map_of"

abbreviation map_put :: "'k \<Rightarrow> 'v \<Rightarrow> ('k, 'v) gomap \<Rightarrow> ('k, 'v) gomap" where
  "map_put \<equiv> AList.update"

abbreviation map_delete :: "'k \<Rightarrow> ('k, 'v) gomap \<Rightarrow> ('k, 'v) gomap" where
  "map_delete \<equiv> AList.delete"

text \<open>Indexing a Go map with a missing key yields the zero value of its value type.\<close>

definition map_get_or :: "'v \<Rightarrow> ('k, 'v) gomap \<Rightarrow> 'k \<Rightarrow> 'v" where
  "map_get_or z m k = (case map_get m k of None \<Rightarrow> z | Some v \<Rightarrow> v)"

definition map_vals :: "('v \<Rightarrow> 'v) \<Rightarrow> ('k, 'v) gomap \<Rightarrow> ('k, 'v) gomap" where
  "map_vals f m = map (\<lambda>(k, v). (k, f v)) m"

lemma wf_map_Nil [simp]: "wf_map []"
  by (simp add: wf_map_def)

lemma wf_map_put [simp, wf_intros]: "wf_map m \<Longrightarrow> wf_map (map_put k v m)"
  by (simp add: wf_map_def distinct_update)

lemma wf_map_delete [simp, wf_intros]: "wf_map m \<Longrightarrow> wf_map (map_delete k m)"
  by (simp add: wf_map_def distinct_delete)

lemma map_get_put [simp, go_map_simps]:
  "map_get (map_put k v m) = (map_get m)(k \<mapsto> v)"
  by (rule update_conv')

lemma map_get_delete [simp, go_map_simps]:
  "map_get (map_delete k m) = (map_get m)(k := None)"
  by (rule delete_conv')

lemma wf_map_Cons: "wf_map ((k, v) # m) \<longleftrightarrow> k \<notin> fst ` set m \<and> wf_map m"
  by (simp add: wf_map_def)

lemma map_get_mem: "wf_map m \<Longrightarrow> (k, v) \<in> set m \<longleftrightarrow> map_get m k = Some v"
  unfolding wf_map_def by (metis map_of_eq_Some_iff)

lemma map_get_None: "map_get m k = None \<longleftrightarrow> k \<notin> fst ` set m"
  by (rule map_of_eq_None_iff)

lemma map_put_new: "k \<notin> fst ` set m \<Longrightarrow> map_put k v m = m @ [(k, v)]"
  by (induction m) auto

lemma set_map_put: "wf_map m \<Longrightarrow> x \<in> set (map_put k v m) \<longleftrightarrow> x = (k, v) \<or> (x \<in> set m \<and> fst x \<noteq> k)"
  by (cases x) (auto simp: map_get_mem split: if_splits)

lemma set_map_delete: "set (map_delete k m) \<subseteq> set m"
  by (auto simp: AList.delete_eq)

lemma map_get_or_put [simp, go_map_simps]:
  "map_get_or z (map_put k v m) k' = (if k' = k then v else map_get_or z m k')"
  by (simp add: map_get_or_def)

lemma map_get_or_Nil [simp]: "map_get_or z [] k = z"
  by (simp add: map_get_or_def)

lemma fst_map_vals [simp]: "map fst (map_vals f m) = map fst m"
  by (induction m) (auto simp: map_vals_def)

lemma wf_map_vals [simp, wf_intros]: "wf_map (map_vals f m) \<longleftrightarrow> wf_map m"
  by (simp add: wf_map_def)

lemma map_get_vals [simp, go_map_simps]:
  "map_get (map_vals f m) k = map_option f (map_get m k)"
  by (induction m) (auto simp: map_vals_def)

lemma map_vals_id [simp]: "map_vals (\<lambda>v. v) m = m"
  by (simp add: map_vals_def case_prod_beta' prod.collapse)

text \<open>
  Two association lists with distinct keys represent the same Go map exactly when one is a
  permutation of the other: what a \<open>range\<close> loop computes is well defined when it does not
  change under permutations.
\<close>

lemma wf_map_perm_get:
  assumes "wf_map m" and "mset m = mset m'"
  shows "map_get m = map_get m'"
proof -
  have "mset (map fst m) = mset (map fst m')" using assms(2) by simp
  then have d: "distinct (map fst m')"
    using assms(1) unfolding wf_map_def by (metis distinct_count_atmost_1 mset_eq_setD)
  have "set m = set m'" using assms(2) by (rule mset_eq_setD)
  then show ?thesis using assms(1) d unfolding wf_map_def by (simp add: map_of_inject_set)
qed

section \<open>Panics: the option monad\<close>

lemmas bind_Some_iff = bind_eq_Some_conv bind_eq_None_conv

section \<open>Byte strings\<close>

definition bytes_of_string :: "string \<Rightarrow> bytes" where
  "bytes_of_string s = map (\<lambda>c. of_nat (of_char c)) s"

text \<open>The conversion \<open>string(b)\<close> of bytes, the inverse of the one above.\<close>

definition string_of_bytes :: "bytes \<Rightarrow> string" where
  "string_of_bytes bs = map (\<lambda>b. char_of (unat b)) bs"

lemma bytes_of_string_of_bytes [simp]: "bytes_of_string (string_of_bytes bs) = bs"
proof -
  have "unat b mod 256 = unat b" for b :: byte using unsigned_less [of b, where 'a = nat] by simp
  then show ?thesis by (induction bs) (simp_all add: string_of_bytes_def bytes_of_string_def)
qed

lemma length_bytes_of_string [simp]: "length (bytes_of_string s) = length s"
  by (simp add: bytes_of_string_def)

lemma bytes_of_string_append [simp]:
  "bytes_of_string (s @ t) = bytes_of_string s @ bytes_of_string t"
  by (simp add: bytes_of_string_def)

text \<open>\<open>bytes.HasPrefix\<close>.\<close>

definition has_prefix :: "bytes \<Rightarrow> bytes \<Rightarrow> bool" where
  "has_prefix s p \<longleftrightarrow> take (length p) s = p"

lemma has_prefix_iff: "has_prefix s p \<longleftrightarrow> (\<exists>t. s = p @ t)"
  unfolding has_prefix_def by (metis append_eq_conv_conj append_take_drop_id)

text \<open>Slicing \<open>xs[lo:hi]\<close> and \<open>xs[lo:]\<close> panics out of range; \<open>copy\<close> into \<open>xs[lo:hi]\<close>.\<close>

definition go_slice :: "bytes \<Rightarrow> int \<Rightarrow> int \<Rightarrow> bytes option" where
  "go_slice xs lo hi =
     (if 0 \<le> lo \<and> lo \<le> hi \<and> hi \<le> int (length xs)
      then Some (take (nat (hi - lo)) (drop (nat lo) xs)) else None)"

definition go_slice_from :: "bytes \<Rightarrow> int \<Rightarrow> bytes option" where
  "go_slice_from xs lo = go_slice xs lo (int (length xs))"

definition go_copy_into :: "bytes \<Rightarrow> int \<Rightarrow> int \<Rightarrow> bytes \<Rightarrow> bytes option" where
  "go_copy_into xs lo hi data =
     (if 0 \<le> lo \<and> lo \<le> hi \<and> hi \<le> int (length xs)
      then let n = min (nat (hi - lo)) (length data)
           in Some (take (nat lo) xs @ take n data @ drop (nat lo + n) xs)
      else None)"

text \<open>\<open>copy\<close> of a source into a fresh slice of \<open>n\<close> zero bytes.\<close>

definition go_copy_new :: "nat \<Rightarrow> bytes \<Rightarrow> bytes" where
  "go_copy_new n src = take n src @ replicate (n - length src) 0"

lemma length_go_copy_new [simp]: "length (go_copy_new n src) = n"
  by (simp add: go_copy_new_def)

section \<open>Big-endian encoding of naturals: \<open>big.Int.Bytes\<close> and \<open>big.Int.SetBytes\<close>\<close>

fun nat_to_be :: "nat \<Rightarrow> bytes" where
  "nat_to_be n = (if n = 0 then [] else nat_to_be (n div 256) @ [of_nat (n mod 256)])"

declare nat_to_be.simps [simp del]

definition be_to_nat :: "bytes \<Rightarrow> nat" where
  "be_to_nat bs = foldl (\<lambda>acc b. acc * 256 + unat b) 0 bs"

text \<open>\<open>Bytes\<close> encodes the absolute value and \<open>SetBytes\<close> reads an unsigned number.\<close>

definition big_Bytes :: "int \<Rightarrow> bytes" where
  "big_Bytes z = nat_to_be (nat \<bar>z\<bar>)"

definition big_SetBytes :: "bytes \<Rightarrow> int" where
  "big_SetBytes bs = int (be_to_nat bs)"

lemma be_to_nat_snoc [simp]: "be_to_nat (bs @ [b]) = be_to_nat bs * 256 + unat b"
  by (simp add: be_to_nat_def)

lemma be_to_nat_Nil [simp]: "be_to_nat [] = 0"
  by (simp add: be_to_nat_def)

lemma be_to_nat_to_be [simp]: "be_to_nat (nat_to_be n) = n"
proof (induction n rule: nat_to_be.induct)
  case (1 n)
  show ?case
  proof (cases "n = 0")
    case True
    then show ?thesis by (simp add: nat_to_be.simps)
  next
    case False
    have "unat (of_nat (n mod 256) :: byte) = n mod 256"
      by (simp add: unat_of_nat take_bit_eq_mod)
    then show ?thesis
      using 1 False by (simp add: nat_to_be.simps [of n] div_mult_mod_eq)
  qed
qed

lemma big_SetBytes_Bytes: "big_SetBytes (big_Bytes z) = \<bar>z\<bar>"
  by (simp add: big_SetBytes_def big_Bytes_def)

lemma big_SetBytes_nonneg [simp]: "0 \<le> big_SetBytes bs"
  by (simp add: big_SetBytes_def)

section \<open>Hexadecimal text: \<open>hex.EncodeToString\<close>\<close>

definition hex_digit :: "nat \<Rightarrow> byte" where
  "hex_digit n = (if n < 10 then of_nat (48 + n) else of_nat (87 + n))"

definition hex_encode :: "bytes \<Rightarrow> bytes" where
  "hex_encode bs = concat (map (\<lambda>b. [hex_digit (unat b div 16), hex_digit (unat b mod 16)]) bs)"

lemma length_hex_encode [simp]: "length (hex_encode bs) = 2 * length bs"
  by (induction bs) (auto simp: hex_encode_def)

section \<open>Words\<close>

lemma unat_less_u64 [simp]: "unat (x :: u64) < 18446744073709551616"
proof -
  have "unat x < 2 ^ LENGTH(64)" by (rule unsigned_less)
  then show ?thesis by simp
qed

lemma unat_le_u64 [simp]: "unat (x :: u64) \<le> 18446744073709551615"
  using unat_less_u64 [of x] by linarith

lemma unat_less_u32 [simp]: "unat (x :: u32) < 4294967296"
proof -
  have "unat x < 2 ^ LENGTH(32)" by (rule unsigned_less)
  then show ?thesis by simp
qed

lemma word_eqI_unat: "unat x = unat y \<Longrightarrow> x = y"
  by (simp add: word_unat_eq_iff)

text \<open>Two's complement wrap-around of a sum or difference of two values of the same width.\<close>

lemma signed_wrap:
  fixes x :: int
  assumes "- (2 ^ Suc n) \<le> x" and "x < 2 ^ Suc n"
  shows "signed_take_bit n x =
    (if x < - (2 ^ n) then x + 2 ^ Suc n else if 2 ^ n \<le> x then x - 2 ^ Suc n else x)"
proof -
  have eq: "signed_take_bit n x = (x + 2 ^ n) mod 2 ^ Suc n - 2 ^ n"
    by (simp add: signed_take_bit_eq_take_bit_shift take_bit_eq_mod)
  have pos: "(0 :: int) < 2 ^ n" by simp
  consider "x < - (2 ^ n)" | "- (2 ^ n) \<le> x" "x < 2 ^ n" | "2 ^ n \<le> x" by linarith
  then show ?thesis
  proof cases
    case 1
    have "(x + 2 ^ n) mod 2 ^ Suc n = (x + 2 ^ n + 2 ^ Suc n) mod 2 ^ Suc n"
      by (rule mod_add_self2 [symmetric])
    also have "\<dots> = x + 2 ^ n + 2 ^ Suc n" using 1 assms by (intro mod_pos_pos_trivial) auto
    finally show ?thesis using eq 1 by simp
  next
    case 2
    then have "(x + 2 ^ n) mod 2 ^ Suc n = x + 2 ^ n" by (intro mod_pos_pos_trivial) auto
    then show ?thesis using eq 2 by simp
  next
    case 3
    have "(x + 2 ^ n) mod 2 ^ Suc n = (x + 2 ^ n - 2 ^ Suc n) mod 2 ^ Suc n"
      by (rule minus_mod_self2 [symmetric])
    also have "\<dots> = x + 2 ^ n - 2 ^ Suc n" using 3 assms by (intro mod_pos_pos_trivial) auto
    finally have "signed_take_bit n x = x - 2 ^ Suc n" using eq by simp
    moreover have "\<not> x < - (2 ^ n)" using 3 pos by linarith
    ultimately show ?thesis using 3 by simp
  qed
qed

lemma of_nat_length_u64:
  "length xs < 2 ^ 64 \<Longrightarrow> unat (of_nat (length xs) :: u64) = length xs"
  by (simp add: unat_of_nat take_bit_eq_mod)

end
