(* ===== verification/Errors.thy ===== *)
theory Errors
  imports Prelude
begin

text \<open>
  The error values of the VM: the sentinel errors of \<open>vmhost/errors.go\<close>, errors that wrap
  another one (\<open>fmt.Errorf\<close> with \<open>%w\<close>), the multi-layer \<open>wrappableError\<close> of
  \<open>vmhost/errorWrapping.go\<close> and errors of code outside the repository (\<open>OtherError\<close>).
  \<open>errors_Is\<close> is the search of the standard library's \<open>errors.Is\<close> along the \<open>Unwrap\<close>
  chain; its result is an option because \<open>wrappableError.Unwrap\<close> can panic.
  A sentinel is compared by identity, every other error value by its contents: the targets
  of \<open>errors.Is\<close> in the VM are all sentinels. The source location stored by
  \<open>createErrorWithLocation\<close> comes from the Go runtime and is an argument here.
\<close>

section \<open>Error values\<close>

datatype sentinel =
    ErrReturnCodeNotOk
  | ErrInvalidCallOnReadOnlyMode
  | ErrNotEnoughGas
  | ErrUnhandledRuntimeBreakpoint
  | ErrSignalError
  | ErrExecutionFailed
  | ErrBadBounds
  | ErrBadLowerBounds
  | ErrBadUpperBounds
  | ErrNegativeLength
  | ErrFailedTransfer
  | ErrTransferInsufficientFunds
  | ErrTransferNegativeValue
  | ErrUpgradeFailed
  | ErrInvalidUpgradeArguments
  | ErrInvalidFunction
  | ErrInitFuncCalledInRun
  | ErrCallBackFuncCalledInRun
  | ErrCallBackFuncNotExpected
  | ErrFuncNotFound
  | ErrInvalidFunctionName
  | ErrFunctionNonvoidSignature
  | ErrContractInvalid
  | ErrContractNotFound
  | ErrMemoryDeclarationMissing
  | ErrMaxInstancesReached
  | ErrStoreReservedKey
  | ErrCannotWriteProtectedKey
  | ErrNonPayableFunctionEgld
  | ErrNonPayableFunctionEsdt
  | ErrArgIndexOutOfRange
  | ErrArgOutOfRange
  | ErrStorageValueOutOfRange
  | ErrDivZero
  | ErrBitwiseNegative
  | ErrShiftNegative
  | ErrAsyncContextDoesNotExist
  | ErrInvalidAccount
  | ErrDeploymentOverExistingAccount
  | ErrAccountNotPayable
  | ErrInvalidPublicKeySize
  | ErrNilCallbackFunction
  | ErrUpgradeNotAllowed
  | ErrNilContract
  | ErrBuiltinCallOnSameContextDisallowed
  | ErrSyncExecutionNotInSameShard
  | ErrInputAndOutputGasDoesNotMatch
  | ErrTransferValueOnESDTCall
  | ErrNilEnableEpochsHandler

fun sentinel_base :: "sentinel \<Rightarrow> sentinel option" where
  "sentinel_base ErrBadLowerBounds = Some ErrBadBounds"
| "sentinel_base ErrBadUpperBounds = Some ErrBadBounds"
| "sentinel_base ErrTransferInsufficientFunds = Some ErrFailedTransfer"
| "sentinel_base ErrTransferNegativeValue = Some ErrFailedTransfer"
| "sentinel_base ErrInvalidUpgradeArguments = Some ErrUpgradeFailed"
| "sentinel_base ErrInitFuncCalledInRun = Some ErrInvalidFunction"
| "sentinel_base ErrCallBackFuncCalledInRun = Some ErrInvalidFunction"
| "sentinel_base ErrCallBackFuncNotExpected = Some ErrInvalidFunction"
| "sentinel_base ErrFuncNotFound = Some ErrInvalidFunction"
| "sentinel_base ErrInvalidFunctionName = Some ErrInvalidFunction"
| "sentinel_base ErrFunctionNonvoidSignature = Some ErrInvalidFunction"
| "sentinel_base ErrContractNotFound = Some ErrContractInvalid"
| "sentinel_base ErrMemoryDeclarationMissing = Some ErrContractInvalid"
| "sentinel_base ErrMaxInstancesReached = Some ErrExecutionFailed"
| "sentinel_base _ = None"

fun sentinel_text :: "sentinel \<Rightarrow> string" where
  "sentinel_text ErrReturnCodeNotOk = ''return code is not ok''"
| "sentinel_text ErrInvalidCallOnReadOnlyMode = ''operation not permitted in read only mode''"
| "sentinel_text ErrNotEnoughGas = ''not enough gas''"
| "sentinel_text ErrUnhandledRuntimeBreakpoint = ''unhandled runtime breakpoint''"
| "sentinel_text ErrSignalError = ''error signalled by smartcontract''"
| "sentinel_text ErrExecutionFailed = ''execution failed''"
| "sentinel_text ErrBadBounds = ''bad bounds''"
| "sentinel_text ErrBadLowerBounds = ''bad bounds (lower)''"
| "sentinel_text ErrBadUpperBounds = ''bad bounds (upper)''"
| "sentinel_text ErrNegativeLength = ''negative length''"
| "sentinel_text ErrFailedTransfer = ''failed transfer''"
| "sentinel_text ErrTransferInsufficientFunds = ''failed transfer (insufficient funds)''"
| "sentinel_text ErrTransferNegativeValue = ''failed transfer (negative value)''"
| "sentinel_text ErrUpgradeFailed = ''upgrade failed''"
| "sentinel_text ErrInvalidUpgradeArguments = ''upgrade failed (invalid arguments)''"
| "sentinel_text ErrInvalidFunction = ''invalid function''"
| "sentinel_text ErrInitFuncCalledInRun = ''invalid function (calling init() directly is forbidden)''"
| "sentinel_text ErrCallBackFuncCalledInRun = ''invalid function (calling callBack() directly is forbidden)''"
| "sentinel_text ErrCallBackFuncNotExpected = ''invalid function (unexpected callback was received)''"
| "sentinel_text ErrFuncNotFound = ''invalid function (not found)''"
| "sentinel_text ErrInvalidFunctionName = ''invalid function (invalid name)''"
| "sentinel_text ErrFunctionNonvoidSignature = ''invalid function (nonvoid signature)''"
| "sentinel_text ErrContractInvalid = ''invalid contract code''"
| "sentinel_text ErrContractNotFound = ''invalid contract code (not found)''"
| "sentinel_text ErrMemoryDeclarationMissing = ''invalid contract code (missing memory declaration)''"
| "sentinel_text ErrMaxInstancesReached = ''execution failed (max instances reached)''"
| "sentinel_text ErrStoreReservedKey = ''cannot write to storage under reserved key''"
| "sentinel_text ErrCannotWriteProtectedKey = ''cannot write to protected key''"
| "sentinel_text ErrNonPayableFunctionEgld = ''function does not accept EGLD payment''"
| "sentinel_text ErrNonPayableFunctionEsdt = ''function does not accept ESDT payment''"
| "sentinel_text ErrArgIndexOutOfRange = ''argument index out of range''"
| "sentinel_text ErrArgOutOfRange = ''argument out of range''"
| "sentinel_text ErrStorageValueOutOfRange = ''storage value out of range''"
| "sentinel_text ErrDivZero = ''division by 0''"
| "sentinel_text ErrBitwiseNegative = ''bitwise operations only allowed on positive integers''"
| "sentinel_text ErrShiftNegative = ''bitwise shift operations only allowed on positive integers and by a positive amount''"
| "sentinel_text ErrAsyncContextDoesNotExist = ''async context does not exist''"
| "sentinel_text ErrInvalidAccount = ''account does not exist''"
| "sentinel_text ErrDeploymentOverExistingAccount = ''cannot deploy over existing account''"
| "sentinel_text ErrAccountNotPayable = ''sending value to non payable contract''"
| "sentinel_text ErrInvalidPublicKeySize = ''invalid public key size''"
| "sentinel_text ErrNilCallbackFunction = ''nil callback function''"
| "sentinel_text ErrUpgradeNotAllowed = ''upgrade not allowed''"
| "sentinel_text ErrNilContract = ''nil contract''"
| "sentinel_text ErrBuiltinCallOnSameContextDisallowed = ''calling built-in function on the same context is disallowed''"
| "sentinel_text ErrSyncExecutionNotInSameShard = ''sync execution request is not in the same shard''"
| "sentinel_text ErrInputAndOutputGasDoesNotMatch = ''input and output gas does not match''"
| "sentinel_text ErrTransferValueOnESDTCall = ''transfer value on esdt call''"
| "sentinel_text ErrNilEnableEpochsHandler = ''nil enable epochs handler''"

datatype go_error =
    Sentinel sentinel
  | OtherError string
  | Wrapf string go_error
  | Wrappable "error_with_location list"
and error_with_location =
  ErrorWithLocation (ewl_err: go_error) (ewl_location: string) (ewl_otherInfo: "string list option")

type_synonym wrappableError = "error_with_location list"

section \<open>\<open>wrappableError\<close>\<close>

definition createErrorWithLocation ::
  "string \<Rightarrow> go_error \<Rightarrow> string list option \<Rightarrow> error_with_location" where
  "createErrorWithLocation loc err otherInfo = ErrorWithLocation err loc otherInfo"

definition getTopErrorWithLocation :: "wrappableError \<Rightarrow> error_with_location option" where
  "getTopErrorWithLocation werr = (if werr = [] then None else Some (last werr))"

definition WrapError :: "string \<Rightarrow> go_error \<Rightarrow> string list option \<Rightarrow> wrappableError" where
  "WrapError loc err otherInfo =
     (case err of Wrappable werr \<Rightarrow> werr | _ \<Rightarrow> [createErrorWithLocation loc err otherInfo])"

definition wrapWithErrorWithSkipLevels ::
  "string \<Rightarrow> wrappableError \<Rightarrow> go_error option \<Rightarrow> string list option \<Rightarrow> wrappableError" where
  "wrapWithErrorWithSkipLevels loc werr err otherInfo =
     (case err of
        None \<Rightarrow> werr
      | Some (Wrappable inner) \<Rightarrow> werr @ inner
      | Some e \<Rightarrow> werr @ [createErrorWithLocation loc e otherInfo])"

definition WrapWithMessage :: "string \<Rightarrow> wrappableError \<Rightarrow> string \<Rightarrow> wrappableError" where
  "WrapWithMessage loc werr errMessage =
     wrapWithErrorWithSkipLevels loc werr (Some (OtherError errMessage)) None"

definition WrapWithStackTrace :: "string \<Rightarrow> wrappableError \<Rightarrow> wrappableError" where
  "WrapWithStackTrace loc werr = wrapWithErrorWithSkipLevels loc werr (Some (OtherError [])) None"

definition WrapWithError ::
  "string \<Rightarrow> wrappableError \<Rightarrow> go_error option \<Rightarrow> string list option \<Rightarrow> wrappableError" where
  "WrapWithError loc werr err otherInfo = wrapWithErrorWithSkipLevels loc werr err otherInfo"

definition GetBaseError :: "wrappableError \<Rightarrow> go_error option" where
  "GetBaseError werr = (case werr of [] \<Rightarrow> None | e # _ \<Rightarrow> Some (ewl_err e))"

definition GetLastError :: "wrappableError \<Rightarrow> go_error option" where
  "GetLastError werr = (if werr = [] then None else Some (ewl_err (last werr)))"

definition GetAllErrors :: "wrappableError \<Rightarrow> go_error list" where
  "GetAllErrors werr = map ewl_err werr"

text \<open>\<open>unwrapWrapping\<close> returns a nil pointer (\<open>None\<close>) for an empty error.\<close>

definition unwrapWrapping :: "wrappableError \<Rightarrow> wrappableError option" where
  "unwrapWrapping werr = (if werr = [] then None else Some (butlast werr))"

text \<open>
  \<open>Unwrap\<close> reads the field of the pointer \<open>unwrapWrapping\<close> returned, so it panics
  (\<open>None\<close>) when that pointer is nil.
\<close>

definition Unwrap :: "wrappableError \<Rightarrow> go_error option" where
  "Unwrap werr =
     (case unwrapWrapping werr of
        None \<Rightarrow> None
      | Some wrappingErr \<Rightarrow>
          (case wrappingErr of [e] \<Rightarrow> Some (ewl_err e) | _ \<Rightarrow> Some (Wrappable wrappingErr)))"

text \<open>\<open>errors.Is(err, target)\<close> for a sentinel target, and \<open>wrappableError.Is\<close>.\<close>

lemma ewl_err_size [simp]: "size (ewl_err e) < size e"
  by (cases e) simp

lemma Unwrap_size: "Unwrap werr = Some e \<Longrightarrow> size e < size (Wrappable werr)"
proof -
  assume u: "Unwrap werr = Some e"
  then have ne: "werr \<noteq> []" by (auto simp: Unwrap_def unwrapWrapping_def)
  then obtain ws w where werr: "werr = ws @ [w]" by (metis append_butlast_last_id)
  have pos: "0 < size w" by (cases w) simp
  show ?thesis
  proof (cases "\<exists>e0. ws = [e0]")
    case True
    then obtain e0 where "ws = [e0]" by blast
    then show ?thesis
      using u werr ewl_err_size [of e0] by (simp add: Unwrap_def unwrapWrapping_def)
  next
    case False
    then have "e = Wrappable ws"
      using u werr by (auto simp: Unwrap_def unwrapWrapping_def split: list.splits)
    then show ?thesis using werr pos by (simp add: size_list_append)
  qed
qed

function errors_Is :: "go_error \<Rightarrow> sentinel \<Rightarrow> bool option"
  and wrappable_Is :: "wrappableError \<Rightarrow> sentinel \<Rightarrow> bool option" where
  "errors_Is (Sentinel s) t = Some (s = t \<or> sentinel_base s = Some t)"
| "errors_Is (OtherError m) t = Some False"
| "errors_Is (Wrapf m e) t = errors_Is e t"
| "errors_Is (Wrappable werr) t =
     (case wrappable_Is werr t of
        None \<Rightarrow> None
      | Some True \<Rightarrow> Some True
      | Some False \<Rightarrow> (case Unwrap werr of None \<Rightarrow> None | Some e \<Rightarrow> errors_Is e t))"
| "wrappable_Is [] t = Some False"
| "wrappable_Is (e # werr) t =
     (case errors_Is (ewl_err e) t of
        None \<Rightarrow> None
      | Some True \<Rightarrow> Some True
      | Some False \<Rightarrow> wrappable_Is werr t)"
  by pat_completeness auto
termination
  by (relation "measure (\<lambda>x. case x of Inl (e, t) \<Rightarrow> 2 * size e | Inr (w, t) \<Rightarrow> 2 * size_list size w + 1)")
    (auto dest: Unwrap_size simp: less_Suc_eq trans_less_add1)

text \<open>\<open>Error()\<close>: the outermost layer comes first.\<close>

definition join_comma :: "string list \<Rightarrow> string" where
  "join_comma ss = (case ss of [] \<Rightarrow> [] | s # rest \<Rightarrow> s @ concat (map (\<lambda>t. '','' @ t) rest))"

function error_text :: "go_error \<Rightarrow> string"
  and location_text :: "error_with_location \<Rightarrow> string" where
  "error_text (Sentinel s) = sentinel_text s"
| "error_text (OtherError m) = m"
| "error_text (Wrapf m e) = m"
| "error_text (Wrappable werr) = concat (rev (map location_text werr))"
| "location_text (ErrorWithLocation e loc info) =
     (let errMsg = error_text e;
          suffix = (if errMsg \<noteq> [] then '' ['' @ errMsg @ '']'' else []);
          suffix = (case info of None \<Rightarrow> suffix | Some os \<Rightarrow> suffix @ '' ['' @ join_comma os @ '']'')
      in [CHR 0x0A, CHR 0x09] @ loc @ suffix)"
  by pat_completeness auto
termination
  by (relation "measure (\<lambda>x. case x of Inl e \<Rightarrow> size e | Inr w \<Rightarrow> size w)")
    (auto simp: less_Suc_eq_le intro: size_list_estimation')

text \<open>
  Searching a wrapped error for a sentinel never gives a wrong answer, but it panics: an
  error with a single layer that does not match makes \<open>Unwrap\<close> follow a nil pointer one layer
  further down, so \<open>errors.Is\<close> returns only when the sentinel is found.
\<close>

theorem wrapped_error_search:
  "errors_Is (Wrappable (WrapError loc (Sentinel s) info)) t =
     (if s = t \<or> sentinel_base s = Some t then Some True else None)"
  by (simp add: WrapError_def createErrorWithLocation_def Unwrap_def unwrapWrapping_def)

end
