(* ===== verification/GoMath.thy ===== *)
theory GoMath
  imports Prelude
begin

text \<open>
  The overflow-aware arithmetic of \<open>math/overflow.go\<close>, on words of the source's width.
  Every gas computation of the VM goes through these functions, so their natural-number
  (respectively integer) meaning is collected in \<open>gas_simps\<close>: additions and products
  saturate at the largest \<open>uint64\<close>, subtraction stops at 0.
\<close>

section \<open>Definitions\<close>

datatype overflow_error = ErrAdditionOverflow | ErrSubtractionUnderflow | ErrMultiplicationOverflow

definition AddUint64WithErr :: "u64 \<Rightarrow> u64 \<Rightarrow> u64 \<times> overflow_error option" where
  "AddUint64WithErr a b =
     (let s = a + b in if s \<ge> a \<and> s \<ge> b then (s, None) else (s, Some ErrAdditionOverflow))"

definition AddUint64 :: "u64 \<Rightarrow> u64 \<Rightarrow> u64" where
  "AddUint64 a b =
     (case AddUint64WithErr a b of (res, None) \<Rightarrow> res | (_, Some _) \<Rightarrow> MaxUint64)"

definition AddInt64 :: "i64 \<Rightarrow> i64 \<Rightarrow> i64" where
  "AddInt64 a b = (let res = a + b in if (a <s res) = (0 <s b) then res else MaxInt64)"

definition SubUint64 :: "u64 \<Rightarrow> u64 \<Rightarrow> u64" where
  "SubUint64 a b = (if a < b then 0 else a - b)"

definition MulUint64WithErr :: "u64 \<Rightarrow> u64 \<Rightarrow> u64 \<times> overflow_error option" where
  "MulUint64WithErr a b =
     (let res = a * b
      in if a = 0 \<or> b = 0 \<or> a = res div b then (res, None)
         else (0, Some ErrMultiplicationOverflow))"

definition MulUint64 :: "u64 \<Rightarrow> u64 \<Rightarrow> u64" where
  "MulUint64 a b =
     (case MulUint64WithErr a b of (res, None) \<Rightarrow> res | (_, Some _) \<Rightarrow> MaxUint64)"

definition AddInt32WithError :: "i32 \<Rightarrow> i32 \<Rightarrow> i32 \<times> overflow_error option" where
  "AddInt32WithError a b =
     (let res = a + b in if (a <s res) = (0 <s b) then (res, None)
      else (0, Some ErrAdditionOverflow))"

definition AddInt32 :: "i32 \<Rightarrow> i32 \<Rightarrow> i32" where
  "AddInt32 a b =
     (case AddInt32WithError a b of (res, None) \<Rightarrow> res | (_, Some _) \<Rightarrow> MaxInt32)"

text \<open>\<open>SubInt\<close> works on Go's \<open>int\<close>, which has 64 bits on the supported platforms.\<close>

definition SubInt :: "i64 \<Rightarrow> i64 \<Rightarrow> i64" where
  "SubInt a b = (let res = a - b in if (res <s a) = (0 <s b) then res else MinInt64)"

section \<open>Unsigned arithmetic saturates\<close>

abbreviation max_u64 :: nat where
  "max_u64 \<equiv> 2 ^ 64 - 1"

lemma AddUint64WithErr_iff:
  "AddUint64WithErr a b = (if unat a + unat b \<le> max_u64 then (a + b, None)
     else (a + b, Some ErrAdditionOverflow))"
proof -
  have "(a + b \<ge> a \<and> a + b \<ge> b) \<longleftrightarrow> unat a + unat b < 2 ^ 64"
    using unat_less_u64 [of a] unat_less_u64 [of b]
    by (auto simp: word_le_nat_alt unat_plus_if' simp del: unat_less_u64)
  then show ?thesis by (auto simp: AddUint64WithErr_def Let_def)
qed

lemma unat_AddUint64 [gas_simps]: "unat (AddUint64 a b) = min (unat a + unat b) max_u64"
  by (auto simp: AddUint64_def AddUint64WithErr_iff unat_plus_if')

lemma unat_SubUint64 [gas_simps]: "unat (SubUint64 a b) = unat a - unat b"
  by (auto simp: SubUint64_def word_less_nat_alt unat_sub_if_size)

lemma mul_overflow_iff:
  fixes a b :: u64
  assumes "b \<noteq> 0"
  shows "a = a * b div b \<longleftrightarrow> unat a * unat b < 2 ^ 64"
proof
  assume "a = a * b div b"
  then have "unat a * unat b = unat (a * b) div unat b * unat b"
    by (metis unat_div)
  also have "\<dots> \<le> unat (a * b)" by simp
  also have "\<dots> < 2 ^ 64" by simp
  finally show "unat a * unat b < 2 ^ 64" .
next
  assume "unat a * unat b < 2 ^ 64"
  then have "unat (a * b) = unat a * unat b" using unat_mult_lem [of a b] by simp
  moreover have "unat b \<noteq> 0" using assms by (simp add: unat_eq_0)
  ultimately have "unat (a * b div b) = unat a" by (simp add: unat_div)
  then show "a = a * b div b" by (metis word_eqI_unat)
qed

lemma unat_MulUint64 [gas_simps]: "unat (MulUint64 a b) = min (unat a * unat b) max_u64"
proof (cases "a = 0 \<or> b = 0")
  case True
  then show ?thesis by (auto simp: MulUint64_def MulUint64WithErr_def Let_def)
next
  case False
  then show ?thesis
    using mul_overflow_iff [of b a] unat_mult_lem [of a b]
    by (auto simp: MulUint64_def MulUint64WithErr_def Let_def)
qed

lemma AddUint64_assoc: "AddUint64 (AddUint64 a b) c = AddUint64 a (AddUint64 b c)"
  by (rule word_eqI_unat) (simp add: gas_simps min_def)

lemma AddUint64_commute: "AddUint64 a b = AddUint64 b a"
  by (rule word_eqI_unat) (simp add: gas_simps add.commute)

lemma AddUint64_left_commute: "AddUint64 a (AddUint64 b c) = AddUint64 b (AddUint64 a c)"
  by (metis AddUint64_assoc AddUint64_commute)

lemmas AddUint64_ac = AddUint64_assoc AddUint64_commute AddUint64_left_commute

lemma AddUint64_0 [simp]: "AddUint64 0 a = a" "AddUint64 a 0 = a"
  by (rule word_eqI_unat, simp add: gas_simps)+

lemma SubUint64_0 [simp]: "SubUint64 a 0 = a"
  by (simp add: SubUint64_def)

lemma AddUint64_exact: "unat a + unat b \<le> max_u64 \<Longrightarrow> AddUint64 a b = a + b"
  by (simp add: AddUint64_def AddUint64WithErr_iff)

lemma SubUint64_AddUint64: "unat a + unat b \<le> max_u64 \<Longrightarrow> SubUint64 (AddUint64 a b) b = a"
  by (rule word_eqI_unat) (simp add: gas_simps)

section \<open>Signed arithmetic detects overflow\<close>

lemma sint_bounds32: "- (2 ^ 31) \<le> sint (a :: i32)" "sint (a :: i32) < 2 ^ 31"
  using sint_range_size [of a] by (simp_all add: word_size)

lemma sint_bounds64: "- (2 ^ 63) \<le> sint (a :: i64)" "sint (a :: i64) < 2 ^ 63"
  using sint_range_size [of a] by (simp_all add: word_size)

lemma sint_add32:
  "sint (a + b :: i32) = (let s = sint a + sint b in
     if s < - (2 ^ 31) then s + 2 ^ 32 else if 2 ^ 31 \<le> s then s - 2 ^ 32 else s)"
  using signed_wrap [of 31 "sint a + sint b"] sint_bounds32 [of a] sint_bounds32 [of b]
  by (simp add: sint_word_add Let_def)

lemma sint_add64:
  "sint (a + b :: i64) = (let s = sint a + sint b in
     if s < - (2 ^ 63) then s + 2 ^ 64 else if 2 ^ 63 \<le> s then s - 2 ^ 64 else s)"
  using signed_wrap [of 63 "sint a + sint b"] sint_bounds64 [of a] sint_bounds64 [of b]
  by (simp add: sint_word_add Let_def)

lemma sint_diff64:
  "sint (a - b :: i64) = (let s = sint a - sint b in
     if s < - (2 ^ 63) then s + 2 ^ 64 else if 2 ^ 63 \<le> s then s - 2 ^ 64 else s)"
  using signed_wrap [of 63 "sint a - sint b"] sint_bounds64 [of a] sint_bounds64 [of b]
  by (simp add: sint_word_diff Let_def)

abbreviation fits32 :: "int \<Rightarrow> bool" where
  "fits32 z \<equiv> - (2 ^ 31) \<le> z \<and> z < 2 ^ 31"

abbreviation fits64 :: "int \<Rightarrow> bool" where
  "fits64 z \<equiv> - (2 ^ 63) \<le> z \<and> z < 2 ^ 63"

lemma AddInt32_guard: "((a <s a + b) = (0 <s b)) \<longleftrightarrow> fits32 (sint a + sint (b :: i32))"
  using sint_bounds32 [of a] sint_bounds32 [of b]
  by (auto simp: word_sless_alt sint_add32 Let_def)

lemma AddInt64_guard: "((a <s a + b) = (0 <s b)) \<longleftrightarrow> fits64 (sint a + sint (b :: i64))"
  using sint_bounds64 [of a] sint_bounds64 [of b]
  by (auto simp: word_sless_alt sint_add64 Let_def)

lemma SubInt_guard: "((a - b <s a) = (0 <s b)) \<longleftrightarrow> fits64 (sint a - sint (b :: i64))"
  using sint_bounds64 [of a] sint_bounds64 [of b]
  by (auto simp: word_sless_alt sint_diff64 Let_def)

lemma AddInt32WithError_iff:
  "AddInt32WithError a b =
     (if fits32 (sint a + sint b) then (a + b, None) else (0, Some ErrAdditionOverflow))"
  unfolding AddInt32WithError_def Let_def AddInt32_guard by simp

lemma sint_AddInt32:
  "sint (AddInt32 a b) = (if fits32 (sint a + sint b) then sint a + sint b else 2 ^ 31 - 1)"
  by (auto simp: AddInt32_def AddInt32WithError_iff sint_add32 Let_def)

lemma sint_AddInt64:
  "sint (AddInt64 a b) = (if fits64 (sint a + sint b) then sint a + sint b else 2 ^ 63 - 1)"
  unfolding AddInt64_def Let_def AddInt64_guard by (auto simp: sint_add64 Let_def)

lemma sint_SubInt:
  "sint (SubInt a b) = (if fits64 (sint a - sint b) then sint a - sint b else - (2 ^ 63))"
  unfolding SubInt_def Let_def SubInt_guard by (auto simp: sint_diff64 Let_def)

text \<open>
  C40. Unsigned gas arithmetic never wraps around: sums and products saturate at the largest
  64-bit value, differences at zero, and the variants with an error report an overflow exactly
  when the mathematical result does not fit.
\<close>

theorem gas_arithmetic_saturates:
  "unat (AddUint64 a b) = min (unat a + unat b) (2 ^ 64 - 1)
   \<and> unat (SubUint64 a b) = unat a - unat b
   \<and> unat (MulUint64 a b) = min (unat a * unat b) (2 ^ 64 - 1)
   \<and> (snd (AddUint64WithErr a b) = None \<longleftrightarrow> unat a + unat b < 2 ^ 64)
   \<and> (snd (MulUint64WithErr a b) = None \<longleftrightarrow> unat a * unat b < 2 ^ 64)"
proof (intro conjI)
  show "snd (AddUint64WithErr a b) = None \<longleftrightarrow> unat a + unat b < 2 ^ 64"
    by (auto simp: AddUint64WithErr_iff)
  show "snd (MulUint64WithErr a b) = None \<longleftrightarrow> unat a * unat b < 2 ^ 64"
    using mul_overflow_iff [of b a] by (cases "b = 0") (auto simp: MulUint64WithErr_def Let_def)
qed (simp_all add: gas_simps)

end
