(* ===== verification/GasSchedule.thy ===== *)
theory GasSchedule
  imports Prelude
begin

text \<open>
  The gas schedule of \<open>config/gasCost.go\<close>: the cost of every operation of the VM, by section.
  Fields whose names are also names of operations carry the suffix \<open>Cost\<close>, those of the
  Ethereum section the prefix \<open>Eth\<close>. The 449 opcode costs are a function of the field name.
\<close>

record BaseOperationCost =
  StorePerByte :: u64
  ReleasePerByte :: u64
  DataCopyPerByte :: u64
  PersistPerByte :: u64
  CompilePerByte :: u64
  AoTPreparePerByte :: u64
  GetCodeCost :: u64

record BaseOpsAPICost =
  GetSCAddressCost :: u64
  GetOwnerAddressCost :: u64
  IsSmartContractCost :: u64
  GetShardOfAddressCost :: u64
  GetExternalBalanceCost :: u64
  GetBlockHashCost :: u64
  TransferValueCost :: u64
  GetArgumentCost :: u64
  GetFunctionCost :: u64
  GetNumArgumentsCost :: u64
  StorageStoreCost :: u64
  StorageLoadCost :: u64
  GetCallerCost :: u64
  GetCallValueCost :: u64
  LogCost :: u64
  FinishCost :: u64
  SignalErrorCost :: u64
  GetBlockTimeStampCost :: u64
  GetGasLeftCost :: u64
  Int64GetArgumentCost :: u64
  Int64StorageStoreCost :: u64
  Int64StorageLoadCost :: u64
  Int64FinishCost :: u64
  GetStateRootHashCost :: u64
  GetBlockNonceCost :: u64
  GetBlockEpochCost :: u64
  GetBlockRoundCost :: u64
  GetBlockRandomSeedCost :: u64
  ExecuteOnSameContextCost :: u64
  ExecuteOnDestContextCost :: u64
  DelegateExecutionCost :: u64
  ExecuteReadOnlyCost :: u64
  AsyncCallStep :: u64
  AsyncCallbackGasLock :: u64
  CreateContractCost :: u64
  GetReturnDataCost :: u64
  GetNumReturnDataCost :: u64
  GetReturnDataSizeCost :: u64

record EthAPICost =
  EthUseGas :: u64
  EthGetAddress :: u64
  EthGetExternalBalance :: u64
  EthGetBlockHash :: u64
  EthCall :: u64
  EthCallDataCopy :: u64
  EthGetCallDataSize :: u64
  EthCallCode :: u64
  EthCallDelegate :: u64
  EthCallStatic :: u64
  EthStorageStore :: u64
  EthStorageLoad :: u64
  EthGetCaller :: u64
  EthGetCallValue :: u64
  EthCodeCopy :: u64
  EthGetCodeSize :: u64
  EthGetBlockCoinbase :: u64
  EthCreate :: u64
  EthGetBlockDifficulty :: u64
  EthExternalCodeCopy :: u64
  EthGetExternalCodeSize :: u64
  EthGetGasLeft :: u64
  EthGetBlockGasLimit :: u64
  EthGetTxGasPrice :: u64
  EthLog :: u64
  EthGetBlockNumber :: u64
  EthGetTxOrigin :: u64
  EthFinish :: u64
  EthRevert :: u64
  EthGetReturnDataSize :: u64
  EthReturnDataCopy :: u64
  EthSelfDestruct :: u64
  EthGetBlockTimeStamp :: u64

record BigIntAPICost =
  BigIntNew :: u64
  BigIntUnsignedByteLength :: u64
  BigIntSignedByteLength :: u64
  BigIntGetUnsignedBytes :: u64
  BigIntGetSignedBytes :: u64
  BigIntSetUnsignedBytes :: u64
  BigIntSetSignedBytes :: u64
  BigIntIsInt64 :: u64
  BigIntGetInt64 :: u64
  BigIntSetInt64 :: u64
  BigIntAdd :: u64
  BigIntSub :: u64
  BigIntMul :: u64
  BigIntTDiv :: u64
  BigIntTMod :: u64
  BigIntEDiv :: u64
  BigIntEMod :: u64
  BigIntAbs :: u64
  BigIntNeg :: u64
  BigIntSign :: u64
  BigIntCmp :: u64
  BigIntNot :: u64
  BigIntAnd :: u64
  BigIntOr :: u64
  BigIntXor :: u64
  BigIntShr :: u64
  BigIntShl :: u64
  BigIntFinishUnsigned :: u64
  BigIntFinishSigned :: u64
  BigIntStorageLoadUnsigned :: u64
  BigIntStorageStoreUnsigned :: u64
  BigIntGetUnsignedArgument :: u64
  BigIntGetSignedArgument :: u64
  BigIntGetCallValue :: u64
  BigIntGetExternalBalance :: u64

record CryptoAPICost =
  SHA256Cost :: u64
  Keccak256Cost :: u64
  Ripemd160Cost :: u64
  VerifyBLSCost :: u64
  VerifyEd25519Cost :: u64
  VerifySecp256k1Cost :: u64

type_synonym WASMOpcodeCost = "string \<Rightarrow> u32"

record GasCost =
  gc_BaseOperationCost :: BaseOperationCost
  gc_BigIntAPICost :: BigIntAPICost
  gc_EthAPICost :: EthAPICost
  gc_BaseOpsAPICost :: BaseOpsAPICost
  gc_CryptoAPICost :: CryptoAPICost
  gc_WASMOpcodeCost :: WASMOpcodeCost

end
