(* ===== verification/VMTypes.thy ===== *)
theory VMTypes
  imports Errors GoMath GasSchedule
begin

text \<open>
  The data of the VM: the structures exchanged with the node (the \<open>vmcommon\<close> and \<open>vm\<close>
  packages, of which the fields the VM reads or writes are kept), the
  state of the six contexts and the host record that owns them, and the environment: every
  piece of code the VM calls that is not part of the repository (the node behind
  \<open>BlockchainHook\<close>, the built-in function container, the Wasmer engine, hashing, the call
  argument parser and the bodies of the contracts themselves) is a function in a record that
  the definitions take as an argument.

  Pointers. A Wasmer instance is shared between the runtime context, its instance stack and
  its warm-instance field and is compared by identity, so instances live in a store
  (\<open>rc_heap\<close>) and are referred to by number. All other pointers of the contexts are copied
  before they are written again and are modelled by value. The runtime's \<open>vmInput\<close> is never
  nil: every caller of \<open>SetVMInput\<close> passes the address of a struct.
\<close>

section \<open>Data exchanged with the node\<close>

datatype CallType = DirectCall | AsynchronousCall | AsynchronousCallBack | ESDTTransferAndExecute

datatype ReturnCode =
    Ok
  | FunctionNotFound
  | FunctionWrongSignature
  | ContractNotFound
  | UserError
  | OutOfGas
  | OutOfFunds
  | ContractInvalid
  | ExecutionFailed
  | UpgradeFailed

record StorageUpdate =
  su_Offset :: bytes
  su_Data :: bytes

record OutputTransfer =
  ot_Value :: int
  ot_GasLimit :: u64
  ot_GasLocked :: u64
  ot_Data :: bytes
  ot_CallType :: CallType
  ot_SenderAddress :: address

record OutputAccount =
  oa_Address :: address
  oa_Nonce :: u64
  oa_Balance :: "int option"
  oa_BalanceDelta :: "int option"
  oa_StorageUpdates :: "(bytes, StorageUpdate) gomap"
  oa_Code :: bytes
  oa_CodeMetadata :: bytes
  oa_CodeDeployerAddress :: "address option"
  oa_OutputTransfers :: "OutputTransfer list"
  oa_GasUsed :: u64

record LogEntry =
  le_Address :: address
  le_Data :: "bytes list"
  le_Identifier :: bytes
  le_Topics :: "bytes list"

record VMOutput =
  vo_ReturnData :: "bytes list"
  vo_ReturnCode :: ReturnCode
  vo_ReturnMessage :: string
  vo_GasRemaining :: u64
  vo_GasRefund :: "int option"
  vo_OutputAccounts :: "(address, OutputAccount) gomap"
  vo_DeletedAccounts :: "address list"
  vo_TouchedAccounts :: "address list"
  vo_Logs :: "LogEntry list"

record ESDTTransfer =
  et_Value :: int
  et_TokenType :: u32
  et_TokenNonce :: u64
  et_TokenName :: bytes

record VMInput =
  vi_CallerAddr :: address
  vi_Arguments :: "bytes list"
  vi_CallValue :: "int option"
  vi_CallType :: CallType
  vi_GasPrice :: u64
  vi_GasProvided :: u64
  vi_GasLocked :: u64
  vi_ESDTTransfers :: "ESDTTransfer list"
  vi_ReturnCallAfterError :: bool
  vi_OriginalTxHash :: bytes
  vi_CurrentTxHash :: bytes
  vi_PrevTxHash :: bytes

record ContractCallInput =
  ci_VMInput :: VMInput
  ci_RecipientAddr :: address
  ci_Function :: string
  ci_AllowInitFunction :: bool

record ContractCreateInput =
  cc_VMInput :: VMInput
  cc_ContractCode :: bytes
  cc_ContractCodeMetadata :: bytes

record CodeDeployInput =
  cd_ContractCode :: bytes
  cd_ContractCodeMetadata :: bytes
  cd_ContractAddress :: address
  cd_CodeDeployerAddress :: address

record UserAccount =
  ua_Balance :: int
  ua_Nonce :: u64
  ua_CodeMetadata :: bytes
  ua_CodeHash :: bytes
  ua_OwnerAddress :: address

record ESDTMetaData =
  md_Nonce :: u64
  md_Name :: bytes
  md_Creator :: bytes
  md_Royalties :: u32
  md_Hash :: bytes
  md_URIs :: "bytes list"
  md_Attributes :: bytes

record ESDigitalToken =
  tok_Type :: u32
  tok_Value :: int
  tok_Properties :: bytes
  tok_TokenMetaData :: "ESDTMetaData option"

record CodeMetadata =
  cm_Payable :: bool
  cm_Upgradeable :: bool
  cm_Readable :: bool

section \<open>Constants of \<open>vmhost/common.go\<close>\<close>

datatype BreakpointValue =
    BreakpointNone
  | BreakpointExecutionFailed
  | BreakpointAsyncCall
  | BreakpointSignalError
  | BreakpointOutOfGas

definition CallbackFunctionName :: string where "CallbackFunctionName = ''callBack''"
definition InitFunctionName :: string where "InitFunctionName = ''init''"
definition InitFunctionNameEth :: string where "InitFunctionNameEth = ''solidity.ctor''"
definition UpgradeFunctionName :: string where "UpgradeFunctionName = ''upgradeContract''"
definition ProtectedStoragePrefix :: bytes where
  "ProtectedStoragePrefix = bytes_of_string ''ARWEN@''"
definition AsyncDataPrefix :: string where "AsyncDataPrefix = ''ARWEN@ASYNC''"
definition TimeLockKeyPrefix :: string where "TimeLockKeyPrefix = ''ARWEN@TIMELOCK''"
definition AddressLen :: nat where "AddressLen = 32"
definition HashLen :: nat where "HashLen = 32"
definition BalanceLen :: nat where "BalanceLen = 32"
definition CodeMetadataLen :: nat where "CodeMetadataLen = 2"

datatype AsyncCallExecutionMode =
    SyncCall
  | AsyncBuiltinFuncIntraShard
  | AsyncBuiltinFuncCrossShard
  | ESDTTransferOnCallBack
  | AsyncUnknown

datatype StorageStatus = StorageUnchanged | StorageModified | StorageAdded | StorageDeleted

record AsyncCallInfo =
  aci_Destination :: address
  aci_Data :: bytes
  aci_GasLimit :: u64
  aci_GasLocked :: u64
  aci_ValueBytes :: bytes

datatype AsyncCallStatus = AsyncCallPending | AsyncCallResolved | AsyncCallRejected

record AsyncGeneratedCall =
  agc_Status :: AsyncCallStatus
  agc_Destination :: address
  agc_Data :: bytes
  agc_GasLimit :: u64
  agc_ValueBytes :: bytes
  agc_SuccessCallback :: string
  agc_ErrorCallback :: string
  agc_ProvidedGas :: u64

record AsyncContext =
  ac_Callback :: string
  ac_AsyncCalls :: "AsyncGeneratedCall list"

record AsyncContextInfo =
  aco_CallerAddr :: address
  aco_ReturnData :: bytes
  aco_AsyncContextMap :: "(bytes, AsyncContext) gomap"

section \<open>Wasmer instances\<close>

type_synonym inst_ptr = nat

record WasmInstance =
  wi_PointsUsed :: u64
  wi_GasLimit :: u64
  wi_BreakpointValue :: u64
  wi_Memory :: "bytes option"
  wi_Exports :: "string list"
  wi_Signatures :: "(string, nat \<times> nat) gomap"
  wi_ImportedFunctions :: "string list"
  wi_Cleaned :: bool

section \<open>State of the contexts\<close>

record bigIntContext =
  bi_values :: "(i32, int) gomap"
  bi_stateStack :: "(i32, int) gomap list"

record blockchainContext =
  bc_stateStack :: "int list"

record meteringState =
  ms_initialGasProvided :: u64
  ms_initialCost :: u64
  ms_gasForExecution :: u64
  ms_gasUsedByAccounts :: "(address, u64) gomap"

record meteringContext =
  mc_stateStack :: "meteringState list"
  mc_gasSchedule :: GasCost
  mc_blockGasLimit :: u64
  mc_initialGasProvided :: u64
  mc_initialCost :: u64
  mc_gasForExecution :: u64
  mc_gasUsedByAccounts :: "(address, u64) gomap"

record outputContext =
  oc_outputState :: VMOutput
  oc_stateStack :: "VMOutput list"
  oc_codeUpdates :: "(address, unit) gomap"

record runtimeState =
  rs_vmInput :: VMInput
  rs_scAddress :: address
  rs_callFunction :: string
  rs_readOnly :: bool
  rs_asyncCallInfo :: "AsyncCallInfo option"
  rs_asyncContextInfo :: AsyncContextInfo

record runtimeContext =
  rc_instance :: "inst_ptr option"
  rc_vmInput :: VMInput
  rc_scAddress :: address
  rc_codeSize :: u64
  rc_callFunction :: string
  rc_vmType :: bytes
  rc_readOnly :: bool
  rc_verifyCode :: bool
  rc_stateStack :: "runtimeState list"
  rc_instanceStack :: "inst_ptr option list"
  rc_maxWasmerInstances :: u64
  rc_asyncCallInfo :: "AsyncCallInfo option"
  rc_asyncContextInfo :: AsyncContextInfo
  rc_reserved :: "string list"
  rc_useWarmInstance :: bool
  rc_warmInstanceAddress :: "address option"
  rc_warmInstance :: "inst_ptr option"
  rc_errors :: "wrappableError option"
  rc_heap :: "inst_ptr \<Rightarrow> WasmInstance"
  rc_nextInstance :: inst_ptr

record storageContext =
  sc_address :: address
  sc_stateStack :: "address list"
  sc_protectedKeyPrefix :: bytes
  sc_vmStorageProtectionEnabled :: bool

text \<open>
  The host. \<open>host_world\<close> is the state of the node behind the blockchain hook, an unspecified
  type \<open>'w\<close>.
\<close>

record 'w vmHost =
  host_bigInt :: bigIntContext
  host_blockchain :: blockchainContext
  host_metering :: meteringContext
  host_output :: outputContext
  host_runtime :: runtimeContext
  host_storage :: storageContext
  host_world :: 'w

abbreviation upd_bigInt :: "(bigIntContext \<Rightarrow> bigIntContext) \<Rightarrow> 'w vmHost \<Rightarrow> 'w vmHost" where
  "upd_bigInt f h \<equiv> h\<lparr>host_bigInt := f (host_bigInt h)\<rparr>"
abbreviation upd_blockchain ::
  "(blockchainContext \<Rightarrow> blockchainContext) \<Rightarrow> 'w vmHost \<Rightarrow> 'w vmHost" where
  "upd_blockchain f h \<equiv> h\<lparr>host_blockchain := f (host_blockchain h)\<rparr>"
abbreviation upd_metering :: "(meteringContext \<Rightarrow> meteringContext) \<Rightarrow> 'w vmHost \<Rightarrow> 'w vmHost" where
  "upd_metering f h \<equiv> h\<lparr>host_metering := f (host_metering h)\<rparr>"
abbreviation upd_output :: "(outputContext \<Rightarrow> outputContext) \<Rightarrow> 'w vmHost \<Rightarrow> 'w vmHost" where
  "upd_output f h \<equiv> h\<lparr>host_output := f (host_output h)\<rparr>"
abbreviation upd_runtime :: "(runtimeContext \<Rightarrow> runtimeContext) \<Rightarrow> 'w vmHost \<Rightarrow> 'w vmHost" where
  "upd_runtime f h \<equiv> h\<lparr>host_runtime := f (host_runtime h)\<rparr>"
abbreviation upd_storage :: "(storageContext \<Rightarrow> storageContext) \<Rightarrow> 'w vmHost \<Rightarrow> 'w vmHost" where
  "upd_storage f h \<equiv> h\<lparr>host_storage := f (host_storage h)\<rparr>"

section \<open>Environment: code outside the repository\<close>

record 'w BlockchainHook =
  hook_GetUserAccount :: "'w \<Rightarrow> address \<Rightarrow> go_error + UserAccount option"
  hook_GetStorageData :: "'w \<Rightarrow> address \<Rightarrow> bytes \<Rightarrow> bytes"
  hook_NewAddress :: "'w \<Rightarrow> address \<Rightarrow> u64 \<Rightarrow> bytes \<Rightarrow> go_error + address"
  hook_IsPayable :: "'w \<Rightarrow> address \<Rightarrow> go_error + bool"
  hook_IsSmartContract :: "'w \<Rightarrow> address \<Rightarrow> bool"
  hook_GetShardOfAddress :: "'w \<Rightarrow> address \<Rightarrow> u32"
  hook_GetCode :: "'w \<Rightarrow> UserAccount \<Rightarrow> bytes"
  hook_CurrentNonce :: "'w \<Rightarrow> u64"
  hook_CurrentRound :: "'w \<Rightarrow> u64"
  hook_CurrentEpoch :: "'w \<Rightarrow> u32"
  hook_CurrentTimeStamp :: "'w \<Rightarrow> u64"
  hook_CurrentRandomSeed :: "'w \<Rightarrow> bytes"
  hook_LastNonce :: "'w \<Rightarrow> u64"
  hook_LastRound :: "'w \<Rightarrow> u64"
  hook_LastEpoch :: "'w \<Rightarrow> u32"
  hook_LastTimeStamp :: "'w \<Rightarrow> u64"
  hook_LastRandomSeed :: "'w \<Rightarrow> bytes"
  hook_GetStateRootHash :: "'w \<Rightarrow> bytes"
  hook_GetESDTToken :: "'w \<Rightarrow> address \<Rightarrow> bytes \<Rightarrow> u64 \<Rightarrow> go_error + ESDigitalToken option"
  hook_GetBlockhash :: "'w \<Rightarrow> u64 \<Rightarrow> go_error + bytes"
  hook_GetSnapshot :: "'w \<Rightarrow> int"
  hook_RevertToSnapshot :: "'w \<Rightarrow> int \<Rightarrow> go_error option \<times> 'w"
  hook_GetCompiledCode :: "'w \<Rightarrow> bytes \<Rightarrow> bool \<times> bytes"
  hook_SaveCompiledCode :: "'w \<Rightarrow> bytes \<Rightarrow> bytes \<Rightarrow> 'w"
  hook_ProcessBuiltInFunction :: "'w \<Rightarrow> ContractCallInput \<Rightarrow> (go_error + VMOutput) \<times> 'w"

datatype EnableEpochFlag =
    SCDeployFlag
  | BuiltInFunctionsFlag
  | RepairCallbackFlag
  | AheadOfTimeGasUsageFlag

text \<open>
  \<open>env_ESDTTransfer\<close>, \<open>env_ESDTNFTTransfer\<close> and \<open>env_NonFungible\<close> are the constants
  \<open>BuiltInFunctionESDTTransfer\<close>, \<open>BuiltInFunctionESDTNFTTransfer\<close> and \<open>NonFungible\<close> of the
  package \<open>core\<close>; \<open>env_CallExport\<close> runs an exported function of the current instance, that is
  the contract's code together with every call it makes back into the host.
  \<open>env_ReturnCodeInt\<close> and \<open>env_ReturnCodeString\<close> are the numeric value and the name of a
  return code, \<open>env_JsonMarshal\<close> and \<open>env_JsonUnmarshal\<close> the JSON codec that stores pending
  asynchronous calls. \<open>env_Fungible\<close>, \<open>env_ProtectedKeyPrefix\<close> and
  \<open>env_ESDTNFTLatestNonceIdentifier\<close> are further constants of \<open>core\<close>; \<open>env_twos_ToBytes\<close> and
  \<open>env_twos_SetBytes\<close> are the two's complement codec of big integers, and the functions after
  them the cryptographic primitives (a verification returns an error for a bad signature).
\<close>

record 'w vmEnv =
  env_hook :: "'w BlockchainHook"
  env_IsFlagEnabled :: "EnableEpochFlag \<Rightarrow> bool"
  env_BuiltInGet :: "string \<Rightarrow> go_error + bool"
  env_BuiltInKeys :: "string list"
  env_CodeMetadataFromBytes :: "bytes \<Rightarrow> CodeMetadata"
  env_ParseData :: "bytes \<Rightarrow> go_error + string \<times> bytes list"
  env_Sha256 :: "bytes \<Rightarrow> go_error + bytes"
  env_NewInstanceWithOptions :: "bytes \<Rightarrow> u64 \<Rightarrow> go_error + WasmInstance"
  env_NewInstanceFromCompiledCode :: "bytes \<Rightarrow> u64 \<Rightarrow> go_error + WasmInstance"
  env_Cache :: "WasmInstance \<Rightarrow> go_error + bytes"
  env_MemoryGrow :: "bytes \<Rightarrow> u32 \<Rightarrow> go_error + bytes"
  env_CallExport :: "string \<Rightarrow> 'w vmHost \<Rightarrow> (go_error option \<times> 'w vmHost) option"
  env_location :: string
  env_ESDTTransfer :: string
  env_ESDTNFTTransfer :: string
  env_NonFungible :: u32
  env_ReturnCodeInt :: "ReturnCode \<Rightarrow> int"
  env_ReturnCodeString :: "ReturnCode \<Rightarrow> string"
  env_JsonMarshal :: "AsyncContextInfo \<Rightarrow> go_error + bytes"
  env_JsonUnmarshal :: "bytes \<Rightarrow> go_error + AsyncContextInfo"
  env_Fungible :: u32
  env_ProtectedKeyPrefix :: string
  env_ESDTNFTLatestNonceIdentifier :: string
  env_twos_ToBytes :: "int \<Rightarrow> bytes"
  env_twos_SetBytes :: "bytes \<Rightarrow> int"
  env_Keccak256 :: "bytes \<Rightarrow> go_error + bytes"
  env_Ripemd160 :: "bytes \<Rightarrow> go_error + bytes"
  env_VerifyBLS :: "bytes \<Rightarrow> bytes \<Rightarrow> bytes \<Rightarrow> go_error option"
  env_VerifyEd25519 :: "bytes \<Rightarrow> bytes \<Rightarrow> bytes \<Rightarrow> go_error option"
  env_VerifySecp256k1 :: "bytes \<Rightarrow> bytes \<Rightarrow> bytes \<Rightarrow> go_error option"

section \<open>Feature flags of the host\<close>

definition IsVMV2Enabled :: "'w vmEnv \<Rightarrow> bool" where
  "IsVMV2Enabled E = env_IsFlagEnabled E SCDeployFlag"

definition IsVMV3Enabled :: "'w vmEnv \<Rightarrow> bool" where
  "IsVMV3Enabled E = env_IsFlagEnabled E RepairCallbackFlag"

definition IsAheadOfTimeCompileEnabled :: "'w vmEnv \<Rightarrow> bool" where
  "IsAheadOfTimeCompileEnabled E = env_IsFlagEnabled E AheadOfTimeGasUsageFlag"

definition IsDynamicGasLockingEnabled :: "'w vmEnv \<Rightarrow> bool" where
  "IsDynamicGasLockingEnabled E = env_IsFlagEnabled E SCDeployFlag"

definition IsESDTFunctionsEnabled :: "'w vmEnv \<Rightarrow> bool" where
  "IsESDTFunctionsEnabled E = env_IsFlagEnabled E BuiltInFunctionsFlag"

definition IsBuiltinFunctionName :: "'w vmEnv \<Rightarrow> string \<Rightarrow> bool" where
  "IsBuiltinFunctionName E functionName =
     (case env_BuiltInGet E functionName of Inl _ \<Rightarrow> False | Inr isActive \<Rightarrow> isActive)"

end
