(* ===== verification/Sample.thy ===== *)
theory Sample
  imports VMTypes
begin

text \<open>
  A small node and a host in the middle of an execution, on which the witnesses of the
  development are evaluated. The state of the sample node is a counter of its saved versions:
  a snapshot is the current version and reverting goes back to it.
\<close>

definition sample_account :: UserAccount where
  "sample_account = \<lparr>ua_Balance = 1000, ua_Nonce = 7, ua_CodeMetadata = [], ua_CodeHash = [5],
     ua_OwnerAddress = [1]\<rparr>"

definition sample_hook :: "nat BlockchainHook" where
  "sample_hook = \<lparr>
     hook_GetUserAccount = (\<lambda>w a. if a = [1] \<or> a = [2] then Inr (Some sample_account) else Inr None),
     hook_GetStorageData = (\<lambda>w a k. if a = [1] \<and> k = [7] then [1, 2, 3] else []),
     hook_NewAddress = (\<lambda>w a n t. Inr [9]),
     hook_IsPayable = (\<lambda>w a. Inr (a = [2])),
     hook_IsSmartContract = (\<lambda>w a. a = [1] \<or> a = [9]),
     hook_GetShardOfAddress = (\<lambda>w a. 0),
     hook_GetCode = (\<lambda>w u. [0, 97, 115, 109]),
     hook_CurrentNonce = (\<lambda>w. 50), hook_CurrentRound = (\<lambda>w. 60), hook_CurrentEpoch = (\<lambda>w. 2),
     hook_CurrentTimeStamp = (\<lambda>w. 1000), hook_CurrentRandomSeed = (\<lambda>w. [8]),
     hook_LastNonce = (\<lambda>w. 49), hook_LastRound = (\<lambda>w. 59), hook_LastEpoch = (\<lambda>w. 2),
     hook_LastTimeStamp = (\<lambda>w. 994), hook_LastRandomSeed = (\<lambda>w. [7]),
     hook_GetStateRootHash = (\<lambda>w. [6]), hook_GetESDTToken = (\<lambda>w a t n. Inr None),
     hook_GetBlockhash = (\<lambda>w n. Inr [4]),
     hook_GetSnapshot = (\<lambda>w. int w),
     hook_RevertToSnapshot = (\<lambda>w s. (None, nat s)),
     hook_GetCompiledCode = (\<lambda>w c. (False, [])),
     hook_SaveCompiledCode = (\<lambda>w c d. w),
     hook_ProcessBuiltInFunction = (\<lambda>w i. (Inl (OtherError ''no such function''), w))\<rparr>"

definition sample_instance :: WasmInstance where
  "sample_instance = \<lparr>wi_PointsUsed = 10, wi_GasLimit = 1000, wi_BreakpointValue = 0,
     wi_Memory = Some [1, 2, 3, 4, 5, 6, 7, 8], wi_Exports = [''init'', ''pay''],
     wi_Signatures = [(''init'', (0, 0)), (''pay'', (0, 0))], wi_ImportedFunctions = [],
     wi_Cleaned = False\<rparr>"

text \<open>A codec of signed numbers with the round trip the VM relies on: the sign, then the magnitude.\<close>

definition sample_twos_ToBytes :: "int \<Rightarrow> bytes" where
  "sample_twos_ToBytes v = (if v < 0 then 255 else 0) # big_Bytes v"

definition sample_twos_SetBytes :: "bytes \<Rightarrow> int" where
  "sample_twos_SetBytes b =
     (case b of [] \<Rightarrow> 0 | s # m \<Rightarrow> if s = 255 then - big_SetBytes m else big_SetBytes m)"

definition sample_env :: "nat vmEnv" where
  "sample_env = \<lparr>
     env_hook = sample_hook,
     env_IsFlagEnabled = (\<lambda>_. True),
     env_BuiltInGet = (\<lambda>f. if f = ''ESDTTransfer'' then Inr True else Inl (OtherError ''not found'')),
     env_BuiltInKeys = [''ESDTTransfer''],
     env_CodeMetadataFromBytes = (\<lambda>_. \<lparr>cm_Payable = True, cm_Upgradeable = True, cm_Readable = True\<rparr>),
     env_ParseData = (\<lambda>_. Inl (OtherError ''cannot parse'')),
     env_Sha256 = (\<lambda>b. Inr b),
     env_NewInstanceWithOptions = (\<lambda>c g. Inr (sample_instance\<lparr>wi_PointsUsed := 0, wi_GasLimit := g\<rparr>)),
     env_NewInstanceFromCompiledCode = (\<lambda>c g. Inl (OtherError ''not compiled'')),
     env_Cache = (\<lambda>i. Inr [1]),
     env_MemoryGrow = (\<lambda>m p. Inr (m @ replicate (65536 * unat p) 0)),
     env_CallExport = (\<lambda>f h. Some (None, h)),
     env_location = ''file:1'',
     env_ESDTTransfer = ''ESDTTransfer'',
     env_ESDTNFTTransfer = ''ESDTNFTTransfer'',
     env_NonFungible = 1,
     env_ReturnCodeInt = (\<lambda>r. if r = Ok then 0 else 4),
     env_ReturnCodeString = (\<lambda>r. if r = Ok then ''ok'' else ''user error''),
     env_JsonMarshal = (\<lambda>i. Inr [0]),
     env_JsonUnmarshal = (\<lambda>b. Inl (OtherError ''no such data'')),
     env_Fungible = 0,
     env_ProtectedKeyPrefix = ''ELR'',
     env_ESDTNFTLatestNonceIdentifier = ''nonce'',
     env_twos_ToBytes = sample_twos_ToBytes,
     env_twos_SetBytes = sample_twos_SetBytes,
     env_Keccak256 = (\<lambda>b. Inr b),
     env_Ripemd160 = (\<lambda>b. Inr b),
     env_VerifyBLS = (\<lambda>k m s. None),
     env_VerifyEd25519 = (\<lambda>k m s. None),
     env_VerifySecp256k1 = (\<lambda>k m s. None)\<rparr>"

definition sample_BaseOpsAPICost :: BaseOpsAPICost where
  "sample_BaseOpsAPICost = \<lparr>
     GetSCAddressCost = 1, GetOwnerAddressCost = 1, IsSmartContractCost = 1,
     GetShardOfAddressCost = 1, GetExternalBalanceCost = 1, GetBlockHashCost = 1,
     TransferValueCost = 1, GetArgumentCost = 1, GetFunctionCost = 1, GetNumArgumentsCost = 1,
     StorageStoreCost = 1, StorageLoadCost = 1, GetCallerCost = 1, GetCallValueCost = 1,
     LogCost = 1, FinishCost = 1, SignalErrorCost = 1, GetBlockTimeStampCost = 1,
     GetGasLeftCost = 1, Int64GetArgumentCost = 1, Int64StorageStoreCost = 1,
     Int64StorageLoadCost = 1, Int64FinishCost = 1, GetStateRootHashCost = 1,
     GetBlockNonceCost = 1, GetBlockEpochCost = 1, GetBlockRoundCost = 1,
     GetBlockRandomSeedCost = 1, ExecuteOnSameContextCost = 1, ExecuteOnDestContextCost = 1,
     DelegateExecutionCost = 1, ExecuteReadOnlyCost = 1, AsyncCallStep = 20,
     AsyncCallbackGasLock = 30, CreateContractCost = 40, GetReturnDataCost = 1,
     GetNumReturnDataCost = 1, GetReturnDataSizeCost = 1\<rparr>"

definition sample_EthAPICost :: EthAPICost where
  "sample_EthAPICost = \<lparr>
     EthUseGas = 1, EthGetAddress = 1, EthGetExternalBalance = 1, EthGetBlockHash = 1,
     EthCall = 1, EthCallDataCopy = 1, EthGetCallDataSize = 1, EthCallCode = 1,
     EthCallDelegate = 1, EthCallStatic = 1, EthStorageStore = 1, EthStorageLoad = 1,
     EthGetCaller = 1, EthGetCallValue = 1, EthCodeCopy = 1, EthGetCodeSize = 1,
     EthGetBlockCoinbase = 1, EthCreate = 1, EthGetBlockDifficulty = 1, EthExternalCodeCopy = 1,
     EthGetExternalCodeSize = 1, EthGetGasLeft = 1, EthGetBlockGasLimit = 1,
     EthGetTxGasPrice = 1, EthLog = 1, EthGetBlockNumber = 1, EthGetTxOrigin = 1, EthFinish = 1,
     EthRevert = 1, EthGetReturnDataSize = 1, EthReturnDataCopy = 1, EthSelfDestruct = 1,
     EthGetBlockTimeStamp = 1\<rparr>"

definition sample_BigIntAPICost :: BigIntAPICost where
  "sample_BigIntAPICost = \<lparr>
     BigIntNew = 1, BigIntUnsignedByteLength = 1, BigIntSignedByteLength = 1,
     BigIntGetUnsignedBytes = 1, BigIntGetSignedBytes = 1, BigIntSetUnsignedBytes = 1,
     BigIntSetSignedBytes = 1, BigIntIsInt64 = 1, BigIntGetInt64 = 1, BigIntSetInt64 = 1,
     BigIntAdd = 1, BigIntSub = 1, BigIntMul = 1, BigIntTDiv = 1, BigIntTMod = 1,
     BigIntEDiv = 1, BigIntEMod = 1, BigIntAbs = 1, BigIntNeg = 1, BigIntSign = 1,
     BigIntCmp = 1, BigIntNot = 1, BigIntAnd = 1, BigIntOr = 1, BigIntXor = 1, BigIntShr = 1,
     BigIntShl = 1, BigIntFinishUnsigned = 1, BigIntFinishSigned = 1,
     BigIntStorageLoadUnsigned = 1, BigIntStorageStoreUnsigned = 1,
     BigIntGetUnsignedArgument = 1, BigIntGetSignedArgument = 1, BigIntGetCallValue = 1,
     BigIntGetExternalBalance = 1\<rparr>"

definition sample_CryptoAPICost :: CryptoAPICost where
  "sample_CryptoAPICost = \<lparr>
     SHA256Cost = 1, Keccak256Cost = 1, Ripemd160Cost = 1, VerifyBLSCost = 1,
     VerifyEd25519Cost = 1, VerifySecp256k1Cost = 1\<rparr>"

definition sample_schedule :: GasCost where
  "sample_schedule = \<lparr>
     gc_BaseOperationCost = \<lparr>StorePerByte = 5, ReleasePerByte = 2, DataCopyPerByte = 1,
       PersistPerByte = 3, CompilePerByte = 4, AoTPreparePerByte = 1, GetCodeCost = 6\<rparr>,
     gc_BigIntAPICost = sample_BigIntAPICost, gc_EthAPICost = sample_EthAPICost,
     gc_BaseOpsAPICost = sample_BaseOpsAPICost, gc_CryptoAPICost = sample_CryptoAPICost,
     gc_WASMOpcodeCost = (\<lambda>_. 1)\<rparr>"

definition sample_input :: VMInput where
  "sample_input = \<lparr>vi_CallerAddr = [2], vi_Arguments = [[1], [2, 3]], vi_CallValue = Some 0,
     vi_CallType = DirectCall, vi_GasPrice = 1, vi_GasProvided = 600, vi_GasLocked = 0,
     vi_ESDTTransfers = [], vi_ReturnCallAfterError = False, vi_OriginalTxHash = [],
     vi_CurrentTxHash = [], vi_PrevTxHash = []\<rparr>"

definition sample_output :: VMOutput where
  "sample_output = \<lparr>vo_ReturnData = [], vo_ReturnCode = Ok, vo_ReturnMessage = [],
     vo_GasRemaining = 0, vo_GasRefund = Some 0, vo_OutputAccounts = [],
     vo_DeletedAccounts = [], vo_TouchedAccounts = [], vo_Logs = []\<rparr>"

definition sample_runtime :: runtimeContext where
  "sample_runtime = \<lparr>rc_instance = Some 0, rc_vmInput = sample_input, rc_scAddress = [1],
     rc_codeSize = 4, rc_callFunction = ''pay'', rc_vmType = [5, 0], rc_readOnly = False,
     rc_verifyCode = False, rc_stateStack = [], rc_instanceStack = [], rc_maxWasmerInstances = 10,
     rc_asyncCallInfo = None,
     rc_asyncContextInfo = \<lparr>aco_CallerAddr = [], aco_ReturnData = [], aco_AsyncContextMap = []\<rparr>,
     rc_reserved = [], rc_useWarmInstance = False, rc_warmInstanceAddress = None,
     rc_warmInstance = None, rc_errors = None, rc_heap = (\<lambda>_. sample_instance), rc_nextInstance = 1\<rparr>"

definition sample_host :: "nat vmHost" where
  "sample_host = \<lparr>
     host_bigInt = \<lparr>bi_values = [], bi_stateStack = []\<rparr>,
     host_blockchain = \<lparr>bc_stateStack = []\<rparr>,
     host_metering = \<lparr>mc_stateStack = [], mc_gasSchedule = sample_schedule, mc_blockGasLimit = 10000,
       mc_initialGasProvided = 600, mc_initialCost = 100, mc_gasForExecution = 500,
       mc_gasUsedByAccounts = []\<rparr>,
     host_output = \<lparr>oc_outputState = sample_output, oc_stateStack = [], oc_codeUpdates = []\<rparr>,
     host_runtime = sample_runtime,
     host_storage = \<lparr>sc_address = [1], sc_stateStack = [], sc_protectedKeyPrefix = [69, 76, 82],
       sc_vmStorageProtectionEnabled = True\<rparr>,
     host_world = 3\<rparr>"

text \<open>A nested call from the running contract to the contract at [2], with a value.\<close>

definition sample_call :: "int \<Rightarrow> ContractCallInput" where
  "sample_call v = \<lparr>ci_VMInput = sample_input\<lparr>vi_CallerAddr := [1], vi_CallValue := Some v,
     vi_GasProvided := 100\<rparr>, ci_RecipientAddr = [2], ci_Function = ''pay'', ci_AllowInitFunction = False\<rparr>"

lemmas sample_defs = sample_account_def sample_hook_def sample_instance_def sample_env_def
  sample_schedule_def sample_BaseOpsAPICost_def sample_input_def sample_output_def sample_runtime_def sample_host_def

end
