(* ===== verification/Validator.thy ===== *)
theory Validator
  imports Sample
begin

text \<open>
  The code validator of \<open>vmhost/contexts/validator.go\<close> and the reserved function names of
  \<open>vmhost/contexts/reservedFunctions.go\<close>. A new contract must declare a memory and may only
  export functions with a valid, unreserved name that take and return nothing. \<open>range\<close> over
  the exports visits them in the order of the list; which error is reported depends on that
  order, whether there is one does not.
\<close>

section \<open>Reserved names\<close>

definition NewReservedFunctions :: "'w vmEnv \<Rightarrow> string list \<Rightarrow> string list" where
  "NewReservedFunctions E scAPINames =
     (let protocolFuncNames = filter (\<lambda>name. case env_BuiltInGet E name of
                                        Inl _ \<Rightarrow> False | Inr isActive \<Rightarrow> isActive) (env_BuiltInKeys E);
          functionNames = fold List.insert protocolFuncNames [];
          functionNames = fold List.insert scAPINames functionNames
      in List.insert UpgradeFunctionName functionNames)"

definition IsReserved :: "string list \<Rightarrow> string \<Rightarrow> bool" where
  "IsReserved functionNames functionName = (functionName \<in> set functionNames)"

definition GetReserved :: "string list \<Rightarrow> string list" where
  "GetReserved functionNames = functionNames"

section \<open>Checks of an instance\<close>

definition verifyMemoryDeclaration :: "WasmInstance \<Rightarrow> go_error option" where
  "verifyMemoryDeclaration inst =
     (if wi_Memory inst = None then Some (Sentinel ErrMemoryDeclarationMissing) else None)"

fun isASCIIString :: "string \<Rightarrow> bool" where
  "isASCIIString [] = True"
| "isASCIIString (c # cs) = (if (of_char c :: nat) > 127 then False else isASCIIString cs)"

definition named_error :: "sentinel \<Rightarrow> string \<Rightarrow> go_error" where
  "named_error s functionName = Wrapf (sentinel_text s @ '': '' @ functionName) (Sentinel s)"

definition verifyValidFunctionName :: "string list \<Rightarrow> string \<Rightarrow> go_error option" where
  "verifyValidFunctionName reserved functionName =
     (let errInvalidName = named_error ErrInvalidFunctionName functionName
      in if length functionName = 0 then Some errInvalidName
         else if length functionName \<ge> 256 then Some errInvalidName
         else if \<not> isASCIIString functionName then Some errInvalidName
         else if IsReserved reserved functionName then Some errInvalidName
         else None)"

definition getInputArity :: "WasmInstance \<Rightarrow> string \<Rightarrow> go_error + nat" where
  "getInputArity inst functionName =
     (case map_get (wi_Signatures inst) functionName of
        None \<Rightarrow> Inl (named_error ErrFuncNotFound functionName)
      | Some sig \<Rightarrow> Inr (fst sig))"

definition getOutputArity :: "WasmInstance \<Rightarrow> string \<Rightarrow> go_error + nat" where
  "getOutputArity inst functionName =
     (case map_get (wi_Signatures inst) functionName of
        None \<Rightarrow> Inl (named_error ErrFuncNotFound functionName)
      | Some sig \<Rightarrow> Inr (snd sig))"

definition verifyVoidFunction :: "WasmInstance \<Rightarrow> string \<Rightarrow> go_error option" where
  "verifyVoidFunction inst functionName =
     (case getInputArity inst functionName of
        Inl err \<Rightarrow> Some err
      | Inr inArity \<Rightarrow>
          (case getOutputArity inst functionName of
             Inl err \<Rightarrow> Some err
           | Inr outArity \<Rightarrow>
               if inArity = 0 \<and> outArity = 0 then None
               else Some (named_error ErrFunctionNonvoidSignature functionName)))"

fun verify_exports :: "string list \<Rightarrow> WasmInstance \<Rightarrow> string list \<Rightarrow> go_error option" where
  "verify_exports reserved inst [] = None"
| "verify_exports reserved inst (functionName # rest) =
     (case verifyValidFunctionName reserved functionName of
        Some err \<Rightarrow> Some err
      | None \<Rightarrow>
          (case verifyVoidFunction inst functionName of
             Some err \<Rightarrow> Some err
           | None \<Rightarrow> verify_exports reserved inst rest))"

definition verifyFunctions :: "string list \<Rightarrow> WasmInstance \<Rightarrow> go_error option" where
  "verifyFunctions reserved inst = verify_exports reserved inst (wi_Exports inst)"

section \<open>What a verified contract looks like\<close>

definition valid_name :: "string list \<Rightarrow> string \<Rightarrow> bool" where
  "valid_name reserved f \<longleftrightarrow>
     f \<noteq> [] \<and> length f < 256 \<and> (\<forall>c \<in> set f. (of_char c :: nat) \<le> 127) \<and> f \<notin> set reserved"

lemma isASCIIString_iff: "isASCIIString s \<longleftrightarrow> (\<forall>c \<in> set s. (of_char c :: nat) \<le> 127)"
  by (induction s) auto

lemma verifyValidFunctionName_iff: "verifyValidFunctionName reserved f = None \<longleftrightarrow> valid_name reserved f"
  by (auto simp: verifyValidFunctionName_def valid_name_def isASCIIString_iff IsReserved_def Let_def)

lemma verifyVoidFunction_iff:
  "verifyVoidFunction inst f = None \<longleftrightarrow> map_get (wi_Signatures inst) f = Some (0, 0)"
  by (auto simp: verifyVoidFunction_def getInputArity_def getOutputArity_def split: option.splits)

lemma verify_exports_iff:
  "verify_exports reserved inst fs = None \<longleftrightarrow>
     (\<forall>f \<in> set fs. valid_name reserved f \<and> map_get (wi_Signatures inst) f = Some (0, 0))"
  by (induction fs)
    (auto simp: verifyValidFunctionName_iff [symmetric] verifyVoidFunction_iff [symmetric]
      split: option.splits)

lemma verifyFunctions_iff:
  "verifyFunctions reserved inst = None \<longleftrightarrow>
     (\<forall>f \<in> set (wi_Exports inst). valid_name reserved f \<and> map_get (wi_Signatures inst) f = Some (0, 0))"
  by (simp add: verifyFunctions_def verify_exports_iff)

lemma verify_exports_plain:
  "verify_exports reserved inst fs = Some e \<Longrightarrow>
     \<exists>s f. e = named_error s f \<and> f \<in> set fs
       \<and> s \<in> {ErrInvalidFunctionName, ErrFuncNotFound, ErrFunctionNonvoidSignature}"
  by (induction fs)
    (auto simp: verifyValidFunctionName_def verifyVoidFunction_def getInputArity_def getOutputArity_def
      Let_def split: option.splits if_splits)

lemma set_NewReservedFunctions:
  "set (NewReservedFunctions E scAPINames) =
     {f \<in> set (env_BuiltInKeys E). IsBuiltinFunctionName E f} \<union> set scAPINames \<union> {UpgradeFunctionName}"
proof -
  have ins: "set (fold List.insert xs ys) = set xs \<union> set ys" for xs ys :: "string list"
    by (induction xs arbitrary: ys) auto
  show ?thesis
    by (auto simp: NewReservedFunctions_def Let_def ins IsBuiltinFunctionName_def)
qed

end
