(* ===== verification/StateStack.thy ===== *)
theory StateStack
  imports Main
begin

text \<open>
  The interface \<open>StateStack\<close> of \<open>vmhost/interface.go\<close>, which every context implements:
  \<open>PushState\<close> saves the active state, \<open>PopSetActiveState\<close> restores the saved state,
  \<open>PopDiscard\<close> drops it and \<open>ClearStateStack\<close> forgets all saved states. The host runs
  nested contract calls between a push and a pop, so what it relies on is a law about
  balanced computations: whatever runs in between, and however deeply it nests further
  calls, the pop restores the state that was pushed and leaves the caller's stack alone.
  \<open>active\<close> is the part of a context that is saved and \<open>stack\<close> the saved states, the
  latest last; \<open>ok\<close> is the context's own well-formedness.
\<close>

locale state_stack =
  fixes push :: "'s \<Rightarrow> 's"
    and pop_set :: "'s \<Rightarrow> 's"
    and pop_discard :: "'s \<Rightarrow> 's"
    and clear :: "'s \<Rightarrow> 's"
    and active :: "'s \<Rightarrow> 'a"
    and stack :: "'s \<Rightarrow> 'a list"
    and ok :: "'s \<Rightarrow> bool"
  assumes stack_push: "ok s \<Longrightarrow> stack (push s) = stack s @ [active s]"
    and active_push: "ok s \<Longrightarrow> active (push s) = active s"
    and stack_pop_set: "ok s \<Longrightarrow> stack (pop_set s) = butlast (stack s)"
    and active_pop_set: "ok s \<Longrightarrow> stack s \<noteq> [] \<Longrightarrow> active (pop_set s) = last (stack s)"
    and pop_set_empty: "ok s \<Longrightarrow> stack s = [] \<Longrightarrow> active (pop_set s) = active s"
    and stack_pop_discard: "ok s \<Longrightarrow> stack (pop_discard s) = butlast (stack s)"
    and active_pop_discard: "ok s \<Longrightarrow> active (pop_discard s) = active s"
    and stack_clear: "stack (clear s) = []"
    and active_clear: "active (clear s) = active s"
    and ok_push: "ok s \<Longrightarrow> ok (push s)"
    and ok_pop_set: "ok s \<Longrightarrow> ok (pop_set s)"
    and ok_pop_discard: "ok s \<Longrightarrow> ok (pop_discard s)"
    and ok_clear: "ok s \<Longrightarrow> ok (clear s)"
begin

lemmas stack_laws = stack_push active_push stack_pop_set active_pop_set stack_pop_discard
  active_pop_discard stack_clear active_clear

lemmas ok_laws = ok_push ok_pop_set ok_pop_discard ok_clear

lemma pop_set_push: "ok s \<Longrightarrow> active (pop_set (push s)) = active s \<and> stack (pop_set (push s)) = stack s"
  by (simp add: stack_laws ok_laws)

lemma pop_discard_push: "ok s \<Longrightarrow> active (pop_discard (push s)) = active s \<and> stack (pop_discard (push s)) = stack s"
  by (simp add: stack_laws ok_laws)

text \<open>Computations that leave the stack as they found it, possibly nesting further scopes.\<close>

inductive balanced :: "('s \<Rightarrow> 's) \<Rightarrow> bool" where
  body: "(\<And>s. ok s \<Longrightarrow> stack (f s) = stack s \<and> ok (f s)) \<Longrightarrow> balanced f"
| seq: "balanced f \<Longrightarrow> balanced g \<Longrightarrow> balanced (\<lambda>s. g (f s))"
| scoped: "balanced f \<Longrightarrow> balanced (\<lambda>s. pop_set (f (push s)))"
| kept: "balanced f \<Longrightarrow> balanced (\<lambda>s. pop_discard (f (push s)))"

lemma balanced_stack: "balanced f \<Longrightarrow> ok s \<Longrightarrow> stack (f s) = stack s \<and> ok (f s)"
proof (induction arbitrary: s rule: balanced.induct)
  case (body f)
  then show ?case by blast
next
  case (seq f g)
  then show ?case by metis
next
  case (scoped f)
  then have "ok (push s)" "stack (push s) = stack s @ [active s]" by (simp_all add: stack_laws ok_laws)
  then show ?case using scoped.IH [of "push s"] by (simp add: stack_laws ok_laws)
next
  case (kept f)
  then have "ok (push s)" "stack (push s) = stack s @ [active s]" by (simp_all add: stack_laws ok_laws)
  then show ?case using kept.IH [of "push s"] by (simp add: stack_laws ok_laws)
qed

lemma scope_restores:
  assumes "balanced f" and "ok s"
  shows "active (pop_set (f (push s))) = active s" and "stack (pop_set (f (push s))) = stack s"
proof -
  have "stack (f (push s)) = stack s @ [active s] \<and> ok (f (push s))"
    using balanced_stack [OF assms(1) ok_push [OF assms(2)]] assms(2) by (simp add: stack_push)
  then show "active (pop_set (f (push s))) = active s" "stack (pop_set (f (push s))) = stack s"
    by (simp_all add: stack_laws)
qed

end

end
