(* ===== verification/RuntimeContext.thy ===== *)
theory RuntimeContext
  imports VMTypes StateStack
begin

text \<open>
  The runtime context of \<open>vmhost/contexts/runtime.go\<close>: the input of the running call, the
  state stack and the stack of Wasmer instances, gas points and breakpoints of the current
  instance, the functions a contract exports, and the loads and stores of its linear
  memory. Creating instances, which needs the node and the validator, is in the theory
  WasmerInstances.

  A method call on a nil instance panics, so the operations that need the current instance
  return \<open>None\<close> when there is none.
\<close>

section \<open>Virtual machine input\<close>

definition emptyVMInput :: VMInput where
  "emptyVMInput = \<lparr>vi_CallerAddr = [], vi_Arguments = [], vi_CallValue = None,
     vi_CallType = DirectCall, vi_GasPrice = 0, vi_GasProvided = 0, vi_GasLocked = 0,
     vi_ESDTTransfers = [], vi_ReturnCallAfterError = False, vi_OriginalTxHash = [],
     vi_CurrentTxHash = [], vi_PrevTxHash = []\<rparr>"

definition copyESDTTransfer :: "ESDTTransfer \<Rightarrow> ESDTTransfer" where
  "copyESDTTransfer t = \<lparr>et_Value = et_Value t, et_TokenType = et_TokenType t,
     et_TokenNonce = et_TokenNonce t, et_TokenName = et_TokenName t\<rparr>"

text \<open>What \<open>SetVMInput\<close> copies: every field but \<open>PrevTxHash\<close>; a nil call value becomes 0.\<close>

definition copyVMInput :: "VMInput \<Rightarrow> VMInput" where
  "copyVMInput v = \<lparr>vi_CallerAddr = vi_CallerAddr v, vi_Arguments = vi_Arguments v,
     vi_CallValue = Some (case vi_CallValue v of None \<Rightarrow> 0 | Some x \<Rightarrow> x),
     vi_CallType = vi_CallType v, vi_GasPrice = vi_GasPrice v,
     vi_GasProvided = vi_GasProvided v, vi_GasLocked = vi_GasLocked v,
     vi_ESDTTransfers = map copyESDTTransfer (vi_ESDTTransfers v),
     vi_ReturnCallAfterError = vi_ReturnCallAfterError v,
     vi_OriginalTxHash = vi_OriginalTxHash v, vi_CurrentTxHash = vi_CurrentTxHash v,
     vi_PrevTxHash = []\<rparr>"

definition SetVMInput :: "VMInput \<Rightarrow> runtimeContext \<Rightarrow> runtimeContext" where
  "SetVMInput vmInput c = c\<lparr>rc_vmInput := copyVMInput vmInput\<rparr>"

definition emptyAsyncContextInfo :: "address \<Rightarrow> AsyncContextInfo" where
  "emptyAsyncContextInfo caller =
     \<lparr>aco_CallerAddr = caller, aco_ReturnData = [], aco_AsyncContextMap = []\<rparr>"

definition runtime_InitState :: "runtimeContext \<Rightarrow> runtimeContext" where
  "runtime_InitState c = c\<lparr>rc_vmInput := emptyVMInput, rc_scAddress := [], rc_callFunction := [],
     rc_verifyCode := False, rc_readOnly := False, rc_asyncCallInfo := None,
     rc_asyncContextInfo := emptyAsyncContextInfo [], rc_errors := None\<rparr>"

definition runtime_InitStateFromContractCallInput ::
  "ContractCallInput \<Rightarrow> runtimeContext \<Rightarrow> runtimeContext" where
  "runtime_InitStateFromContractCallInput input c =
     (SetVMInput (ci_VMInput input) c)\<lparr>rc_scAddress := ci_RecipientAddr input,
        rc_callFunction := ci_Function input,
        rc_asyncContextInfo := emptyAsyncContextInfo (vi_CallerAddr (ci_VMInput input))\<rparr>"

definition SetCustomCallFunction :: "string \<Rightarrow> runtimeContext \<Rightarrow> runtimeContext" where
  "SetCustomCallFunction callFunction c = c\<lparr>rc_callFunction := callFunction\<rparr>"

section \<open>Current instance\<close>

definition upd_instance :: "(WasmInstance \<Rightarrow> WasmInstance) \<Rightarrow> runtimeContext \<Rightarrow> runtimeContext option" where
  "upd_instance f c =
     (case rc_instance c of
        None \<Rightarrow> None
      | Some p \<Rightarrow> Some (c\<lparr>rc_heap := (rc_heap c)(p := f (rc_heap c p))\<rparr>))"

definition current_instance :: "runtimeContext \<Rightarrow> WasmInstance option" where
  "current_instance c = map_option (rc_heap c) (rc_instance c)"

text \<open>\<open>instance.Clean\<close> destroys the native instance.\<close>

definition instance_Clean :: "inst_ptr \<Rightarrow> runtimeContext \<Rightarrow> runtimeContext" where
  "instance_Clean p c = c\<lparr>rc_heap := (rc_heap c)(p := (rc_heap c p)\<lparr>wi_Cleaned := True\<rparr>)\<rparr>"

definition IsWarmInstance :: "runtimeContext \<Rightarrow> bool" where
  "IsWarmInstance c \<longleftrightarrow> rc_instance c \<noteq> None \<and> rc_instance c = rc_warmInstance c"

definition CleanWasmerInstance :: "runtimeContext \<Rightarrow> runtimeContext" where
  "CleanWasmerInstance c =
     (case rc_instance c of
        None \<Rightarrow> c
      | Some p \<Rightarrow> if IsWarmInstance c then c else (instance_Clean p c)\<lparr>rc_instance := None\<rparr>)"

definition ResetWarmInstance :: "runtimeContext \<Rightarrow> runtimeContext" where
  "ResetWarmInstance c =
     (case rc_instance c of
        None \<Rightarrow> c
      | Some p \<Rightarrow> (instance_Clean p c)\<lparr>rc_instance := None, rc_warmInstanceAddress := None,
          rc_warmInstance := None\<rparr>)"

definition MustVerifyNextContractCode :: "runtimeContext \<Rightarrow> runtimeContext" where
  "MustVerifyNextContractCode c = c\<lparr>rc_verifyCode := True\<rparr>"

definition SetMaxInstanceCount :: "u64 \<Rightarrow> runtimeContext \<Rightarrow> runtimeContext" where
  "SetMaxInstanceCount maxInstances c = c\<lparr>rc_maxWasmerInstances := maxInstances\<rparr>"

definition GetPointsUsed :: "runtimeContext \<Rightarrow> u64" where
  "GetPointsUsed c = (case rc_instance c of None \<Rightarrow> 0 | Some p \<Rightarrow> wi_PointsUsed (rc_heap c p))"

definition SetPointsUsed :: "u64 \<Rightarrow> runtimeContext \<Rightarrow> runtimeContext option" where
  "SetPointsUsed gasPoints c =
     (let gasPoints = (if gasPoints > MaxInt64 then MaxInt64 else gasPoints)
      in upd_instance (\<lambda>i. i\<lparr>wi_PointsUsed := gasPoints\<rparr>) c)"

fun breakpoint_value :: "BreakpointValue \<Rightarrow> u64" where
  "breakpoint_value BreakpointNone = 0"
| "breakpoint_value BreakpointExecutionFailed = 1"
| "breakpoint_value BreakpointAsyncCall = 2"
| "breakpoint_value BreakpointSignalError = 3"
| "breakpoint_value BreakpointOutOfGas = 4"

definition SetRuntimeBreakpointValue :: "BreakpointValue \<Rightarrow> runtimeContext \<Rightarrow> runtimeContext option" where
  "SetRuntimeBreakpointValue value c =
     upd_instance (\<lambda>i. i\<lparr>wi_BreakpointValue := breakpoint_value value\<rparr>) c"

definition GetRuntimeBreakpointValue :: "runtimeContext \<Rightarrow> u64 option" where
  "GetRuntimeBreakpointValue c = map_option wi_BreakpointValue (current_instance c)"

definition SetReadOnly :: "bool \<Rightarrow> runtimeContext \<Rightarrow> runtimeContext" where
  "SetReadOnly readOnly c = c\<lparr>rc_readOnly := readOnly\<rparr>"

definition SetSCAddress :: "address \<Rightarrow> runtimeContext \<Rightarrow> runtimeContext" where
  "SetSCAddress scAddress c = c\<lparr>rc_scAddress := scAddress\<rparr>"

section \<open>State stack and instance stack\<close>

definition pushInstance :: "runtimeContext \<Rightarrow> runtimeContext" where
  "pushInstance c = c\<lparr>rc_instanceStack := rc_instanceStack c @ [rc_instance c]\<rparr>"

definition popInstance :: "runtimeContext \<Rightarrow> runtimeContext" where
  "popInstance c =
     (if rc_instanceStack c = [] then c
      else let prevInstance = last (rc_instanceStack c);
               c = c\<lparr>rc_instanceStack := butlast (rc_instanceStack c)\<rparr>
           in if prevInstance = rc_instance c then c
              else (CleanWasmerInstance c)\<lparr>rc_instance := prevInstance\<rparr>)"

definition RunningInstancesCount :: "runtimeContext \<Rightarrow> u64" where
  "RunningInstancesCount c = of_nat (length (rc_instanceStack c))"

definition runtime_active :: "runtimeContext \<Rightarrow> runtimeState" where
  "runtime_active c = \<lparr>rs_vmInput = rc_vmInput c, rs_scAddress = rc_scAddress c,
     rs_callFunction = rc_callFunction c, rs_readOnly = rc_readOnly c,
     rs_asyncCallInfo = rc_asyncCallInfo c, rs_asyncContextInfo = rc_asyncContextInfo c\<rparr>"

definition runtime_PushState :: "runtimeContext \<Rightarrow> runtimeContext" where
  "runtime_PushState c =
     (let newState = \<lparr>rs_vmInput = copyVMInput (rc_vmInput c), rs_scAddress = rc_scAddress c,
            rs_callFunction = rc_callFunction c, rs_readOnly = rc_readOnly c,
            rs_asyncCallInfo = rc_asyncCallInfo c, rs_asyncContextInfo = rc_asyncContextInfo c\<rparr>
      in pushInstance (c\<lparr>rc_stateStack := rc_stateStack c @ [newState]\<rparr>))"

definition runtime_PopSetActiveState :: "runtimeContext \<Rightarrow> runtimeContext" where
  "runtime_PopSetActiveState c =
     (if rc_stateStack c = [] then c
      else let prevState = last (rc_stateStack c);
               c = c\<lparr>rc_stateStack := butlast (rc_stateStack c)\<rparr>;
               c = SetVMInput (rs_vmInput prevState) c
           in popInstance (c\<lparr>rc_scAddress := rs_scAddress prevState,
                rc_callFunction := rs_callFunction prevState,
                rc_readOnly := rs_readOnly prevState,
                rc_asyncCallInfo := rs_asyncCallInfo prevState,
                rc_asyncContextInfo := rs_asyncContextInfo prevState\<rparr>))"

definition runtime_PopDiscard :: "runtimeContext \<Rightarrow> runtimeContext" where
  "runtime_PopDiscard c =
     (if rc_stateStack c = [] then c
      else popInstance (c\<lparr>rc_stateStack := butlast (rc_stateStack c)\<rparr>))"

definition runtime_ClearStateStack :: "runtimeContext \<Rightarrow> runtimeContext" where
  "runtime_ClearStateStack c = c\<lparr>rc_stateStack := []\<rparr>"

fun stack_has_address :: "address \<Rightarrow> runtimeState list \<Rightarrow> bool" where
  "stack_has_address address [] = False"
| "stack_has_address address (state # rest) =
     (if address = rs_scAddress state then True else stack_has_address address rest)"

definition IsContractOnTheStack :: "address \<Rightarrow> runtimeContext \<Rightarrow> bool" where
  "IsContractOnTheStack address c = stack_has_address address (rc_stateStack c)"

section \<open>Call data and errors\<close>

definition ExtractCodeUpgradeFromArgs ::
  "runtimeContext \<Rightarrow> (go_error + bytes \<times> bytes) \<times> runtimeContext" where
  "ExtractCodeUpgradeFromArgs c =
     (case vi_Arguments (rc_vmInput c) of
        code # codeMetadata # rest \<Rightarrow>
          (Inr (code, codeMetadata), c\<lparr>rc_vmInput := (rc_vmInput c)\<lparr>vi_Arguments := rest\<rparr>\<rparr>)
      | _ \<Rightarrow> (Inl (Sentinel ErrInvalidUpgradeArguments), c))"

definition AddError ::
  "'w vmEnv \<Rightarrow> go_error option \<Rightarrow> string list option \<Rightarrow> runtimeContext \<Rightarrow> runtimeContext" where
  "AddError E err otherInfo c =
     (case err of
        None \<Rightarrow> c
      | Some e \<Rightarrow>
          (case rc_errors c of
             None \<Rightarrow> c\<lparr>rc_errors := Some (WrapError (env_location E) e otherInfo)\<rparr>
           | Some errs \<Rightarrow>
               c\<lparr>rc_errors := Some (WrapWithError (env_location E) errs (Some e) otherInfo)\<rparr>))"

section \<open>Exported functions\<close>

definition GetFunctionToCall :: "runtimeContext \<Rightarrow> (go_error + string) option" where
  "GetFunctionToCall c = do {
     inst \<leftarrow> current_instance c;
     if rc_callFunction c \<in> set (wi_Exports inst) then Some (Inr (rc_callFunction c))
     else if rc_callFunction c = CallbackFunctionName then Some (Inl (Sentinel ErrNilCallbackFunction))
     else Some (Inl (Sentinel ErrFuncNotFound))
   }"

definition GetInitFunction :: "runtimeContext \<Rightarrow> string option option" where
  "GetInitFunction c = do {
     inst \<leftarrow> current_instance c;
     Some (if InitFunctionName \<in> set (wi_Exports inst) then Some InitFunctionName else None)
   }"

definition HasCallbackMethod :: "runtimeContext \<Rightarrow> bool option" where
  "HasCallbackMethod c = do {
     inst \<leftarrow> current_instance c;
     Some (CallbackFunctionName \<in> set (wi_Exports inst))
   }"

definition IsFunctionImported :: "string \<Rightarrow> runtimeContext \<Rightarrow> bool option" where
  "IsFunctionImported name c = do {
     inst \<leftarrow> current_instance c;
     Some (name \<in> set (wi_ImportedFunctions inst))
   }"

section \<open>Asynchronous calls of the running contract\<close>

definition SetAsyncCallInfo :: "AsyncCallInfo option \<Rightarrow> runtimeContext \<Rightarrow> runtimeContext" where
  "SetAsyncCallInfo asyncCallInfo c = c\<lparr>rc_asyncCallInfo := asyncCallInfo\<rparr>"

definition AddAsyncContextCall :: "bytes \<Rightarrow> AsyncGeneratedCall \<Rightarrow> runtimeContext \<Rightarrow> runtimeContext" where
  "AddAsyncContextCall contextIdentifier asyncCall c =
     (let info = rc_asyncContextInfo c; m = aco_AsyncContextMap info;
          m = (if map_get m contextIdentifier = None
               then map_put contextIdentifier \<lparr>ac_Callback = [], ac_AsyncCalls = []\<rparr> m else m)
      in case map_get m contextIdentifier of
           None \<Rightarrow> c
         | Some ctx \<Rightarrow>
             c\<lparr>rc_asyncContextInfo := info\<lparr>aco_AsyncContextMap :=
                 map_put contextIdentifier (ctx\<lparr>ac_AsyncCalls := ac_AsyncCalls ctx @ [asyncCall]\<rparr>) m\<rparr>\<rparr>)"

definition GetAsyncContext :: "bytes \<Rightarrow> runtimeContext \<Rightarrow> go_error + AsyncContext" where
  "GetAsyncContext contextIdentifier c =
     (case map_get (aco_AsyncContextMap (rc_asyncContextInfo c)) contextIdentifier of
        None \<Rightarrow> Inl (Sentinel ErrAsyncContextDoesNotExist)
      | Some asyncContext \<Rightarrow> Inr asyncContext)"

section \<open>Linear memory\<close>

text \<open>
  \<open>Memory.Length\<close> is a \<open>uint32\<close>; slices are taken with the signed offsets. An instance
  without memory has a nil memory handler, so touching it panics.
\<close>

definition MemLoad :: "i32 \<Rightarrow> i32 \<Rightarrow> runtimeContext \<Rightarrow> (go_error + bytes) option" where
  "MemLoad offset len c =
     (if len = 0 then Some (Inr [])
      else do {
        inst \<leftarrow> current_instance c;
        memoryView \<leftarrow> wi_Memory inst;
        let memoryLength = (of_nat (length memoryView) :: u32);
        let requestedEnd = AddInt32 offset len;
        let isOffsetTooSmall = offset <s 0;
        let isOffsetTooLarge = offset > memoryLength;
        let isRequestedEndTooLarge = requestedEnd > memoryLength;
        let isLengthNegative = len <s 0;
        if isOffsetTooSmall \<or> isOffsetTooLarge
        then Some (Inl (Wrapf ''mem load: bad bounds'' (Sentinel ErrBadBounds)))
        else if isLengthNegative
        then Some (Inl (Wrapf ''mem load: negative length'' (Sentinel ErrNegativeLength)))
        else if isRequestedEndTooLarge then do {
          src \<leftarrow> go_slice_from memoryView (sint offset);
          Some (Inr (go_copy_new (nat (sint len)) src))
        } else do {
          src \<leftarrow> go_slice memoryView (sint offset) (sint requestedEnd);
          Some (Inr (go_copy_new (nat (sint len)) src))
        }
      })"

fun MemLoadMultiple :: "i32 \<Rightarrow> i32 list \<Rightarrow> runtimeContext \<Rightarrow> (go_error + bytes list) option" where
  "MemLoadMultiple offset [] c = Some (Inr [])"
| "MemLoadMultiple offset (len # lengths) c =
     (case MemLoad offset len c of
        None \<Rightarrow> None
      | Some (Inl err) \<Rightarrow> Some (Inl err)
      | Some (Inr result) \<Rightarrow>
          (case MemLoadMultiple (offset + len) lengths c of
             None \<Rightarrow> None
           | Some (Inl err) \<Rightarrow> Some (Inl err)
           | Some (Inr results) \<Rightarrow> Some (Inr (result # results))))"

definition set_memory :: "bytes \<Rightarrow> runtimeContext \<Rightarrow> runtimeContext option" where
  "set_memory mem c = upd_instance (\<lambda>i. i\<lparr>wi_Memory := Some mem\<rparr>) c"

definition MemStore ::
  "'w vmEnv \<Rightarrow> i32 \<Rightarrow> bytes \<Rightarrow> runtimeContext \<Rightarrow> (go_error option \<times> runtimeContext) option" where
  "MemStore E offset data c =
     (let dataLength = (of_nat (length data) :: i32)
      in if dataLength = 0 then Some (None, c)
         else do {
           inst \<leftarrow> current_instance c;
           memoryView \<leftarrow> wi_Memory inst;
           let requestedEnd = AddInt32 offset dataLength;
           if offset <s 0 then Some (Some (Sentinel ErrBadLowerBounds), c)
           else do {
             grown \<leftarrow> (if requestedEnd > (of_nat (length memoryView) :: u32)
               then (case env_MemoryGrow E memoryView 1 of
                       Inl err \<Rightarrow> Some (Inl err)
                     | Inr mem \<Rightarrow> do { c \<leftarrow> set_memory mem c; Some (Inr (mem, c)) })
               else Some (Inr (memoryView, c)));
             (case grown of
                Inl err \<Rightarrow> Some (Some err, c)
              | Inr (memoryView, c) \<Rightarrow>
                  if requestedEnd > (of_nat (length memoryView) :: u32)
                  then Some (Some (Sentinel ErrBadUpperBounds), c)
                  else do {
                    mem \<leftarrow> go_copy_into memoryView (sint offset) (sint requestedEnd) data;
                    c \<leftarrow> set_memory mem c;
                    Some (None, c)
                  })
           }
         })"

end
