(* ===== verification/OutputState.thy ===== *)
theory OutputState
  imports VMTypes StateStack
begin

text \<open>
  The output context of \<open>vmhost/contexts/output.go\<close>, first part: the accumulated
  \<open>VMOutput\<close>, its accounts, the merging of two outputs and the state stack. Transfers,
  logs and the final output, which involve other contexts, are in the theory
  OutputTransfers.

  A pointer to an output account returned by \<open>GetOutputAccount\<close> is written back under the
  account's address (\<open>put_account\<close>); \<open>range\<close> loops over the accounts are recursions over
  the association list.
\<close>

section \<open>Creation\<close>

definition newVMOutput :: VMOutput where
  "newVMOutput = \<lparr>vo_ReturnData = [], vo_ReturnCode = Ok, vo_ReturnMessage = [],
     vo_GasRemaining = 0, vo_GasRefund = Some 0, vo_OutputAccounts = [],
     vo_DeletedAccounts = [], vo_TouchedAccounts = [], vo_Logs = []\<rparr>"

text \<open>The zero value \<open>&vmcommon.OutputAccount{}\<close>.\<close>

definition zeroOutputAccount :: OutputAccount where
  "zeroOutputAccount = \<lparr>oa_Address = [], oa_Nonce = 0, oa_Balance = None, oa_BalanceDelta = None,
     oa_StorageUpdates = [], oa_Code = [], oa_CodeMetadata = [], oa_CodeDeployerAddress = None,
     oa_OutputTransfers = [], oa_GasUsed = 0\<rparr>"

definition NewVMOutputAccount :: "address \<Rightarrow> OutputAccount" where
  "NewVMOutputAccount address =
     zeroOutputAccount\<lparr>oa_Address := address, oa_BalanceDelta := Some 0\<rparr>"

definition output_InitState :: "outputContext \<Rightarrow> outputContext" where
  "output_InitState c = c\<lparr>oc_outputState := newVMOutput, oc_codeUpdates := []\<rparr>"

definition NewOutputContext :: outputContext where
  "NewOutputContext = \<lparr>oc_outputState = newVMOutput, oc_stateStack = [], oc_codeUpdates = []\<rparr>"

section \<open>Merging outputs\<close>

fun merge_updates :: "(bytes, StorageUpdate) gomap \<Rightarrow> (bytes, StorageUpdate) gomap \<Rightarrow>
    (bytes, StorageUpdate) gomap" where
  "merge_updates left [] = left"
| "merge_updates left ((key, update) # rest) = merge_updates (map_put key update left) rest"

definition mergeStorageUpdates :: "OutputAccount \<Rightarrow> OutputAccount \<Rightarrow> OutputAccount" where
  "mergeStorageUpdates leftAccount rightAccount =
     leftAccount\<lparr>oa_StorageUpdates :=
       merge_updates (oa_StorageUpdates leftAccount) (oa_StorageUpdates rightAccount)\<rparr>"

definition mergeOutputAccounts :: "OutputAccount \<Rightarrow> OutputAccount \<Rightarrow> OutputAccount" where
  "mergeOutputAccounts leftAccount rightAccount =
     (let l = (if oa_Address rightAccount \<noteq> [] then leftAccount\<lparr>oa_Address := oa_Address rightAccount\<rparr>
               else leftAccount);
          l = mergeStorageUpdates l rightAccount;
          l = (if oa_Balance rightAccount \<noteq> None then l\<lparr>oa_Balance := oa_Balance rightAccount\<rparr> else l);
          l = (if oa_BalanceDelta l = None then l\<lparr>oa_BalanceDelta := Some 0\<rparr> else l);
          l = (if oa_BalanceDelta rightAccount \<noteq> None
               then l\<lparr>oa_BalanceDelta := oa_BalanceDelta rightAccount\<rparr> else l);
          l = (if oa_Code rightAccount \<noteq> [] then l\<lparr>oa_Code := oa_Code rightAccount\<rparr> else l);
          l = (if oa_CodeMetadata rightAccount \<noteq> []
               then l\<lparr>oa_CodeMetadata := oa_CodeMetadata rightAccount\<rparr> else l);
          l = (if oa_Nonce rightAccount > oa_Nonce l then l\<lparr>oa_Nonce := oa_Nonce rightAccount\<rparr> else l);
          lenLeftOutTransfers = length (oa_OutputTransfers l);
          lenRightOutTransfers = length (oa_OutputTransfers rightAccount);
          l = (if lenRightOutTransfers > lenLeftOutTransfers
               then l\<lparr>oa_OutputTransfers := oa_OutputTransfers l
                        @ drop lenLeftOutTransfers (oa_OutputTransfers rightAccount)\<rparr> else l);
          l = l\<lparr>oa_GasUsed := oa_GasUsed rightAccount\<rparr>
      in if oa_CodeDeployerAddress rightAccount \<noteq> None
         then l\<lparr>oa_CodeDeployerAddress := oa_CodeDeployerAddress rightAccount\<rparr> else l)"

fun merge_accounts :: "(address, OutputAccount) gomap \<Rightarrow> (address, OutputAccount) gomap \<Rightarrow>
    (address, OutputAccount) gomap" where
  "merge_accounts left [] = left"
| "merge_accounts left ((_, rightAccount) # rest) =
     (let leftAccount = (case map_get left (oa_Address rightAccount) of
                           None \<Rightarrow> zeroOutputAccount | Some a \<Rightarrow> a)
      in merge_accounts
           (map_put (oa_Address rightAccount) (mergeOutputAccounts leftAccount rightAccount) left) rest)"

definition mergeVMOutputs :: "VMOutput \<Rightarrow> VMOutput \<Rightarrow> VMOutput" where
  "mergeVMOutputs leftOutput rightOutput =
     leftOutput\<lparr>vo_OutputAccounts :=
         merge_accounts (vo_OutputAccounts leftOutput) (vo_OutputAccounts rightOutput),
       vo_Logs := vo_Logs leftOutput @ vo_Logs rightOutput,
       vo_ReturnData := vo_ReturnData leftOutput @ vo_ReturnData rightOutput,
       vo_GasRemaining := vo_GasRemaining rightOutput,
       vo_GasRefund := (case vo_GasRefund rightOutput of None \<Rightarrow> Some 0 | Some r \<Rightarrow> Some r),
       vo_ReturnCode := vo_ReturnCode rightOutput,
       vo_ReturnMessage := vo_ReturnMessage rightOutput\<rparr>"

text \<open>
  \<open>AddToActiveState\<close> accumulates the deltas of the active accounts into the given output
  (which it mutates), appends the new transfers to the active accounts and then merges.
\<close>

fun add_to_accounts :: "(address, OutputAccount) gomap \<Rightarrow> (address, OutputAccount) gomap \<Rightarrow>
    ((address, OutputAccount) gomap \<times> (address, OutputAccount) gomap) option" where
  "add_to_accounts left [] = Some (left, [])"
| "add_to_accounts left ((k, rightAccount) # rest) =
     (case map_get left (oa_Address rightAccount) of
        None \<Rightarrow> do {
          (left, rest) \<leftarrow> add_to_accounts left rest;
          Some (left, (k, rightAccount) # rest)
        }
      | Some leftAccount \<Rightarrow> do {
          right' \<leftarrow> (case oa_BalanceDelta rightAccount of
                      None \<Rightarrow> Some rightAccount
                    | Some d \<Rightarrow> do {
                        ld \<leftarrow> oa_BalanceDelta leftAccount;
                        Some (rightAccount\<lparr>oa_BalanceDelta := Some (d + ld)\<rparr>)
                      });
          let left' = (if oa_OutputTransfers rightAccount \<noteq> []
                       then map_put (oa_Address rightAccount)
                              (leftAccount\<lparr>oa_OutputTransfers := oa_OutputTransfers leftAccount
                                 @ oa_OutputTransfers rightAccount\<rparr>) left
                       else left);
          (left'', rest') \<leftarrow> add_to_accounts left' rest;
          Some (left'', (k, right') # rest')
        })"

definition AddToActiveState :: "VMOutput \<Rightarrow> outputContext \<Rightarrow> (VMOutput \<times> outputContext) option" where
  "AddToActiveState rightOutput c = do {
     rightOutput \<leftarrow> (case vo_GasRefund rightOutput of
        None \<Rightarrow> Some rightOutput
      | Some r \<Rightarrow> do {
          lr \<leftarrow> vo_GasRefund (oc_outputState c);
          Some (rightOutput\<lparr>vo_GasRefund := Some (r + lr)\<rparr>)
        });
     (left, right) \<leftarrow> add_to_accounts (vo_OutputAccounts (oc_outputState c))
                       (vo_OutputAccounts rightOutput);
     let rightOutput = rightOutput\<lparr>vo_OutputAccounts := right\<rparr>;
     let active = (oc_outputState c)\<lparr>vo_OutputAccounts := left\<rparr>;
     Some (rightOutput, c\<lparr>oc_outputState := mergeVMOutputs active rightOutput\<rparr>)
   }"

section \<open>State stack\<close>

definition output_PushState :: "outputContext \<Rightarrow> outputContext" where
  "output_PushState c =
     c\<lparr>oc_stateStack := oc_stateStack c @ [mergeVMOutputs newVMOutput (oc_outputState c)]\<rparr>"

definition output_PopSetActiveState :: "outputContext \<Rightarrow> outputContext" where
  "output_PopSetActiveState c =
     (if oc_stateStack c = [] then c
      else c\<lparr>oc_stateStack := butlast (oc_stateStack c), oc_outputState := last (oc_stateStack c)\<rparr>)"

definition output_PopMergeActiveState :: "outputContext \<Rightarrow> outputContext" where
  "output_PopMergeActiveState c =
     (if oc_stateStack c = [] then c
      else let prevState = mergeVMOutputs (last (oc_stateStack c)) (oc_outputState c)
           in c\<lparr>oc_stateStack := butlast (oc_stateStack c),
                oc_outputState := mergeVMOutputs newVMOutput prevState\<rparr>)"

definition output_PopDiscard :: "outputContext \<Rightarrow> outputContext" where
  "output_PopDiscard c =
     (if oc_stateStack c = [] then c else c\<lparr>oc_stateStack := butlast (oc_stateStack c)\<rparr>)"

definition output_ClearStateStack :: "outputContext \<Rightarrow> outputContext" where
  "output_ClearStateStack c = c\<lparr>oc_stateStack := []\<rparr>"

definition CensorVMOutput :: "outputContext \<Rightarrow> outputContext" where
  "CensorVMOutput c = c\<lparr>oc_outputState := (oc_outputState c)\<lparr>vo_ReturnData := [],
     vo_ReturnCode := Ok, vo_ReturnMessage := [], vo_GasRemaining := 0, vo_GasRefund := Some 0,
     vo_Logs := []\<rparr>\<rparr>"

section \<open>Accounts\<close>

definition GetOutputAccounts :: "outputContext \<Rightarrow> (address, OutputAccount) gomap" where
  "GetOutputAccounts c = vo_OutputAccounts (oc_outputState c)"

definition put_account :: "address \<Rightarrow> OutputAccount \<Rightarrow> outputContext \<Rightarrow> outputContext" where
  "put_account addr a c = c\<lparr>oc_outputState := (oc_outputState c)\<lparr>vo_OutputAccounts :=
     map_put addr a (vo_OutputAccounts (oc_outputState c))\<rparr>\<rparr>"

definition GetOutputAccount :: "address \<Rightarrow> outputContext \<Rightarrow> (OutputAccount \<times> bool) \<times> outputContext" where
  "GetOutputAccount addr c =
     (case map_get (GetOutputAccounts c) addr of
        Some account \<Rightarrow> ((account, False), c)
      | None \<Rightarrow> ((NewVMOutputAccount addr, True), put_account addr (NewVMOutputAccount addr) c))"

definition DeleteOutputAccount :: "address \<Rightarrow> outputContext \<Rightarrow> outputContext" where
  "DeleteOutputAccount addr c = c\<lparr>oc_outputState := (oc_outputState c)\<lparr>vo_OutputAccounts :=
       map_delete addr (vo_OutputAccounts (oc_outputState c))\<rparr>,
     oc_codeUpdates := map_delete addr (oc_codeUpdates c)\<rparr>"

definition DeployCode :: "CodeDeployInput \<Rightarrow> outputContext \<Rightarrow> outputContext" where
  "DeployCode input c =
     (let ((newSCAccount, _), c) = GetOutputAccount (cd_ContractAddress input) c;
          c = put_account (cd_ContractAddress input)
                (newSCAccount\<lparr>oa_Code := cd_ContractCode input,
                   oa_CodeMetadata := cd_ContractCodeMetadata input,
                   oa_CodeDeployerAddress := Some (cd_CodeDeployerAddress input)\<rparr>) c
      in c\<lparr>oc_codeUpdates := map_put (cd_ContractAddress input) () (oc_codeUpdates c)\<rparr>)"

definition AddTxValueToAccount :: "address \<Rightarrow> int option \<Rightarrow> outputContext \<Rightarrow> outputContext option" where
  "AddTxValueToAccount addr value c =
     (let ((destAcc, _), c) = GetOutputAccount addr c
      in do {
        delta \<leftarrow> oa_BalanceDelta destAcc;
        v \<leftarrow> value;
        Some (put_account addr (destAcc\<lparr>oa_BalanceDelta := Some (delta + v)\<rparr>) c)
      })"

fun remove_code :: "(address, unit) gomap \<Rightarrow> (address, OutputAccount) gomap \<Rightarrow>
    (address, OutputAccount) gomap" where
  "remove_code codeUpdates [] = []"
| "remove_code codeUpdates ((addr, account) # rest) =
     (addr, if map_get codeUpdates addr = None
            then account\<lparr>oa_Code := [], oa_CodeMetadata := [], oa_CodeDeployerAddress := None\<rparr>
            else account) # remove_code codeUpdates rest"

definition removeNonUpdatedCode :: "outputContext \<Rightarrow> outputContext" where
  "removeNonUpdatedCode c = c\<lparr>oc_outputState := (oc_outputState c)\<lparr>vo_OutputAccounts :=
     remove_code (oc_codeUpdates c) (vo_OutputAccounts (oc_outputState c))\<rparr>\<rparr>"

section \<open>Simple fields\<close>

definition GetRefund :: "outputContext \<Rightarrow> u64 option" where
  "GetRefund c = map_option word_of_int (vo_GasRefund (oc_outputState c))"

definition SetRefund :: "u64 \<Rightarrow> outputContext \<Rightarrow> outputContext" where
  "SetRefund refund c = c\<lparr>oc_outputState := (oc_outputState c)\<lparr>vo_GasRefund := Some (sint refund)\<rparr>\<rparr>"

definition SetReturnCode :: "ReturnCode \<Rightarrow> outputContext \<Rightarrow> outputContext" where
  "SetReturnCode returnCode c = c\<lparr>oc_outputState := (oc_outputState c)\<lparr>vo_ReturnCode := returnCode\<rparr>\<rparr>"

definition SetReturnMessage :: "string \<Rightarrow> outputContext \<Rightarrow> outputContext" where
  "SetReturnMessage msg c = c\<lparr>oc_outputState := (oc_outputState c)\<lparr>vo_ReturnMessage := msg\<rparr>\<rparr>"

definition ClearReturnData :: "outputContext \<Rightarrow> outputContext" where
  "ClearReturnData c = c\<lparr>oc_outputState := (oc_outputState c)\<lparr>vo_ReturnData := []\<rparr>\<rparr>"

definition Finish :: "bytes \<Rightarrow> outputContext \<Rightarrow> outputContext" where
  "Finish data c = c\<lparr>oc_outputState := (oc_outputState c)\<lparr>vo_ReturnData :=
     vo_ReturnData (oc_outputState c) @ [data]\<rparr>\<rparr>"

definition PrependFinish :: "bytes \<Rightarrow> outputContext \<Rightarrow> outputContext" where
  "PrependFinish data c = c\<lparr>oc_outputState := (oc_outputState c)\<lparr>vo_ReturnData :=
     data # vo_ReturnData (oc_outputState c)\<rparr>\<rparr>"

section \<open>Well-formed outputs\<close>

text \<open>
  What every output the context builds satisfies: accounts are filed under their own address,
  have a balance delta, and there is a gas refund. The VM never fills the deleted and touched
  account lists.
\<close>

definition wf_account :: "address \<Rightarrow> OutputAccount \<Rightarrow> bool" where
  "wf_account addr a \<longleftrightarrow>
     oa_Address a = addr \<and> oa_BalanceDelta a \<noteq> None \<and> wf_map (oa_StorageUpdates a)"

definition wf_accounts :: "(address, OutputAccount) gomap \<Rightarrow> bool" where
  "wf_accounts m \<longleftrightarrow> wf_map m \<and> (\<forall>(addr, a) \<in> set m. wf_account addr a)"

definition wf_vmOutput :: "VMOutput \<Rightarrow> bool" where
  "wf_vmOutput o' \<longleftrightarrow> wf_accounts (vo_OutputAccounts o') \<and> vo_GasRefund o' \<noteq> None
     \<and> vo_DeletedAccounts o' = [] \<and> vo_TouchedAccounts o' = []"

definition wf_output :: "outputContext \<Rightarrow> bool" where
  "wf_output c \<longleftrightarrow> wf_vmOutput (oc_outputState c) \<and> (\<forall>s \<in> set (oc_stateStack c). wf_vmOutput s)"

lemma wf_accounts_Nil [simp]: "wf_accounts []"
  by (simp add: wf_accounts_def)

lemma wf_accounts_put [wf_intros]:
  "wf_accounts m \<Longrightarrow> wf_account k a \<Longrightarrow> wf_accounts (map_put k a m)"
  by (auto simp: wf_accounts_def set_map_put)

lemma wf_accounts_delete [wf_intros]: "wf_accounts m \<Longrightarrow> wf_accounts (map_delete k m)"
  using set_map_delete [of k m] by (auto simp: wf_accounts_def)

lemma wf_accounts_get: "wf_accounts m \<Longrightarrow> map_get m k = Some a \<Longrightarrow> wf_account k a"
  by (auto simp: wf_accounts_def dest: map_of_SomeD)

lemma wf_accounts_Cons:
  "wf_accounts ((k, a) # m) \<longleftrightarrow> k \<notin> fst ` set m \<and> wf_account k a \<and> wf_accounts m"
  by (auto simp: wf_accounts_def wf_map_def)

lemma wf_account_New [simp]: "wf_account addr (NewVMOutputAccount addr)"
  by (simp add: wf_account_def NewVMOutputAccount_def zeroOutputAccount_def)

lemma wf_vmOutput_new [simp]: "wf_vmOutput newVMOutput"
  by (simp add: wf_vmOutput_def newVMOutput_def)

section \<open>Merging\<close>

lemma merge_updates_get:
  "map_get (merge_updates l r) k = (case map_get (rev r) k of None \<Rightarrow> map_get l k | Some u \<Rightarrow> Some u)"
  by (induction l r rule: merge_updates.induct) (auto simp: map_add_def split: option.splits)

lemma wf_merge_updates [wf_intros]: "wf_map l \<Longrightarrow> wf_map (merge_updates l r)"
  by (induction l r rule: merge_updates.induct) auto

lemma merge_updates_append: "wf_map (l @ r) \<Longrightarrow> merge_updates l r = l @ r"
proof (induction l r rule: merge_updates.induct)
  case (1 l)
  then show ?case by simp
next
  case (2 l k u r)
  then have "k \<notin> fst ` set l" and "wf_map ((l @ [(k, u)]) @ r)" by (auto simp: wf_map_def)
  then show ?case using 2 by (simp add: map_put_new)
qed

lemmas account_if_distribs = if_distrib [of oa_Address] if_distrib [of oa_StorageUpdates]
  if_distrib [of oa_Balance] if_distrib [of oa_BalanceDelta] if_distrib [of oa_Code]
  if_distrib [of oa_CodeMetadata] if_distrib [of oa_Nonce] if_distrib [of oa_OutputTransfers]
  if_distrib [of oa_GasUsed] if_distrib [of oa_CodeDeployerAddress]

lemma merge_fields:
  "oa_Address (mergeOutputAccounts l r) = (if oa_Address r \<noteq> [] then oa_Address r else oa_Address l)"
  "oa_StorageUpdates (mergeOutputAccounts l r) = merge_updates (oa_StorageUpdates l) (oa_StorageUpdates r)"
  "oa_Balance (mergeOutputAccounts l r) = (if oa_Balance r \<noteq> None then oa_Balance r else oa_Balance l)"
  "oa_BalanceDelta (mergeOutputAccounts l r) =
     (if oa_BalanceDelta r \<noteq> None then oa_BalanceDelta r
      else if oa_BalanceDelta l = None then Some 0 else oa_BalanceDelta l)"
  "oa_Code (mergeOutputAccounts l r) = (if oa_Code r \<noteq> [] then oa_Code r else oa_Code l)"
  "oa_CodeMetadata (mergeOutputAccounts l r) =
     (if oa_CodeMetadata r \<noteq> [] then oa_CodeMetadata r else oa_CodeMetadata l)"
  "oa_Nonce (mergeOutputAccounts l r) = (if oa_Nonce r > oa_Nonce l then oa_Nonce r else oa_Nonce l)"
  "oa_OutputTransfers (mergeOutputAccounts l r) =
     oa_OutputTransfers l @ drop (length (oa_OutputTransfers l)) (oa_OutputTransfers r)"
  "oa_GasUsed (mergeOutputAccounts l r) = oa_GasUsed r"
  "oa_CodeDeployerAddress (mergeOutputAccounts l r) =
     (if oa_CodeDeployerAddress r \<noteq> None then oa_CodeDeployerAddress r else oa_CodeDeployerAddress l)"
  by (simp_all add: mergeOutputAccounts_def mergeStorageUpdates_def Let_def account_if_distribs
      if_cancel split del: if_split) auto

lemma wf_account_merge [wf_intros]:
  assumes "wf_account addr r" and "l = zeroOutputAccount \<or> wf_account addr l"
  shows "wf_account addr (mergeOutputAccounts l r)"
  using assms
  by (auto simp: wf_account_def merge_fields zeroOutputAccount_def wf_merge_updates)

lemma mergeOutputAccounts_zero:
  assumes "wf_account addr a"
  shows "mergeOutputAccounts zeroOutputAccount a = a"
proof -
  have "merge_updates [] (oa_StorageUpdates a) = oa_StorageUpdates a"
    using assms merge_updates_append [of "[]" "oa_StorageUpdates a"] by (simp add: wf_account_def)
  then show ?thesis
    using assms
    by (intro OutputAccount.equality) (auto simp: merge_fields zeroOutputAccount_def wf_account_def word_gt_0)
qed

lemma merge_accounts_append: "wf_accounts (l @ r) \<Longrightarrow> merge_accounts l r = l @ r"
proof (induction l r rule: merge_accounts.induct)
  case (1 l)
  then show ?case by simp
next
  case (2 l k a r)
  have k: "oa_Address a = k" and a: "wf_account k a" and fresh: "k \<notin> fst ` set l"
    and wf: "wf_accounts ((l @ [(k, a)]) @ r)"
    using "2.prems" by (auto simp: wf_accounts_def wf_map_def wf_account_def)
  have get: "map_get l k = None" using fresh by (simp add: map_get_None)
  have "merge_accounts (map_put k (mergeOutputAccounts zeroOutputAccount a) l) r = (l @ [(k, a)]) @ r"
    using 2 wf fresh get k by (simp add: mergeOutputAccounts_zero [OF a] map_put_new)
  then show ?case using get k by simp
qed

lemma mergeVMOutputs_new: "wf_vmOutput o' \<Longrightarrow> mergeVMOutputs newVMOutput o' = o'"
  using merge_accounts_append [of "[]" "vo_OutputAccounts o'"]
  by (cases o') (auto simp: mergeVMOutputs_def newVMOutput_def wf_vmOutput_def)

text \<open>The meaning of a merge, account by account; it does not depend on the visiting order.\<close>

lemma merge_accounts_get:
  "wf_accounts r \<Longrightarrow> map_get (merge_accounts l r) k =
     (case map_get r k of
        None \<Rightarrow> map_get l k
      | Some a \<Rightarrow> Some (mergeOutputAccounts
                    (case map_get l k of None \<Rightarrow> zeroOutputAccount | Some b \<Rightarrow> b) a))"
proof (induction l r rule: merge_accounts.induct)
  case (1 l)
  then show ?case by simp
next
  case (2 l k' a r)
  then have a: "oa_Address a = k'" "k' \<notin> fst ` set r" "wf_accounts r"
    by (auto simp: wf_accounts_Cons wf_account_def)
  then have "map_get r k' = None" by (simp add: map_get_None)
  then show ?case using 2 a by (auto simp: Let_def split: option.splits)
qed

lemma wf_merge_accounts [wf_intros]:
  "wf_accounts l \<Longrightarrow> wf_accounts r \<Longrightarrow> wf_accounts (merge_accounts l r)"
proof (induction l r rule: merge_accounts.induct)
  case (1 l)
  then show ?case by simp
next
  case (2 l k a r)
  then have a: "wf_account k a" "oa_Address a = k" "wf_accounts r"
    by (auto simp: wf_accounts_Cons wf_account_def)
  have "wf_account k (mergeOutputAccounts
      (case map_get l k of None \<Rightarrow> zeroOutputAccount | Some b \<Rightarrow> b) a)"
    using a(1) "2.prems"(1) by (intro wf_account_merge) (auto dest: wf_accounts_get split: option.splits)
  then show ?case using 2 a by (auto simp: Let_def intro: wf_accounts_put)
qed

lemma wf_mergeVMOutputs [wf_intros]:
  "wf_vmOutput l \<Longrightarrow> wf_vmOutput r \<Longrightarrow> wf_vmOutput (mergeVMOutputs l r)"
  by (auto simp: wf_vmOutput_def mergeVMOutputs_def intro: wf_merge_accounts split: option.splits)

lemma wf_output_stack_ops [wf_intros]:
  assumes "wf_output c"
  shows "wf_output (output_InitState c)" "wf_output (output_PushState c)"
    "wf_output (output_PopSetActiveState c)" "wf_output (output_PopMergeActiveState c)"
    "wf_output (output_PopDiscard c)" "wf_output (output_ClearStateStack c)"
    "wf_output (CensorVMOutput c)"
  using assms
  by (auto simp: wf_output_def output_InitState_def output_PushState_def mergeVMOutputs_new
      output_PopSetActiveState_def output_PopMergeActiveState_def output_PopDiscard_def
      output_ClearStateStack_def CensorVMOutput_def Let_def
      intro!: wf_mergeVMOutputs dest: in_set_butlastD)
    (auto simp: wf_vmOutput_def)

interpretation output_stack: state_stack output_PushState output_PopSetActiveState
    output_PopDiscard output_ClearStateStack oc_outputState oc_stateStack wf_output
  by unfold_locales
    (auto simp: wf_intros output_PushState_def output_PopSetActiveState_def output_PopDiscard_def
      output_ClearStateStack_def wf_output_def mergeVMOutputs_new dest: in_set_butlastD)

section \<open>Account access\<close>

lemma GetOutputAccount_cases:
  assumes "GetOutputAccount addr c = ((a, isNew), c')"
  shows "map_get (GetOutputAccounts c') = (map_get (GetOutputAccounts c))(addr \<mapsto> a)"
    and "vo_GasRemaining (oc_outputState c') = vo_GasRemaining (oc_outputState c)"
    and "isNew \<longleftrightarrow> map_get (GetOutputAccounts c) addr = None"
    and "isNew \<Longrightarrow> a = NewVMOutputAccount addr"
    and "wf_map (GetOutputAccounts c) \<Longrightarrow> wf_map (GetOutputAccounts c')"
  using assms
  by (auto simp: GetOutputAccount_def put_account_def GetOutputAccounts_def split: option.splits)

lemma GetOutputAccounts_put [simp, go_map_simps]:
  "GetOutputAccounts (put_account k a c) = map_put k a (GetOutputAccounts c)"
  by (simp add: GetOutputAccounts_def put_account_def)

lemma put_account_stack [simp, host_simps]: "oc_stateStack (put_account k a c) = oc_stateStack c"
  "oc_codeUpdates (put_account k a c) = oc_codeUpdates c"
  by (simp_all add: put_account_def)

lemma GetOutputAccount_stack:
  "GetOutputAccount addr c = (x, c') \<Longrightarrow> oc_stateStack c' = oc_stateStack c"
  by (auto simp: GetOutputAccount_def split: option.splits)

lemma wf_output_accounts: "wf_output c \<Longrightarrow> wf_accounts (GetOutputAccounts c)"
  by (simp add: wf_output_def wf_vmOutput_def GetOutputAccounts_def)

lemma wf_put_account [wf_intros]:
  "wf_output c \<Longrightarrow> wf_account k a \<Longrightarrow> wf_output (put_account k a c)"
  by (auto simp: wf_output_def put_account_def wf_vmOutput_def intro: wf_accounts_put)

lemma wf_GetOutputAccount:
  assumes "wf_output c" and "GetOutputAccount addr c = ((a, isNew), c')"
  shows "wf_output c'" and "wf_account addr a"
  using assms wf_accounts_get [OF wf_output_accounts [OF assms(1)], of addr a]
  by (auto simp: GetOutputAccount_def wf_put_account split: option.splits)



end
