(* ===== verification/MeteringContext.thy ===== *)
theory MeteringContext
  imports RuntimeContext OutputState Sample
begin

text \<open>
  The metering context of \<open>vmhost/contexts/metering.go\<close>. Gas that a contract uses is counted
  by its Wasmer instance (the points used), the metering context keeps what was provided,
  the initial cost of preparing the contract, what is left for execution, and the gas used
  per account once an execution has finished. Operations that write the points of the
  current instance are partial (a nil instance panics).
\<close>

section \<open>Operations on the metering context alone\<close>

definition metering_InitState :: "meteringContext \<Rightarrow> meteringContext" where
  "metering_InitState c = c\<lparr>mc_gasUsedByAccounts := [], mc_initialGasProvided := 0,
     mc_initialCost := 0, mc_gasForExecution := 0\<rparr>"

text \<open>The input is passed by reference and updated when it is an asynchronous callback.\<close>

definition unlockGasIfAsyncCallback :: "VMInput \<Rightarrow> meteringContext \<Rightarrow> VMInput \<times> meteringContext" where
  "unlockGasIfAsyncCallback input c =
     (if vi_CallType input \<noteq> AsynchronousCallBack then (input, c)
      else let gasProvided = AddUint64 (vi_GasProvided input) (vi_GasLocked input)
           in (input\<lparr>vi_GasProvided := gasProvided, vi_GasLocked := 0\<rparr>,
               c\<lparr>mc_gasForExecution := gasProvided\<rparr>))"

definition metering_InitStateFromContractCallInput ::
  "VMInput \<Rightarrow> meteringContext \<Rightarrow> VMInput \<times> meteringContext" where
  "metering_InitStateFromContractCallInput input c =
     (let (input, c) = unlockGasIfAsyncCallback input (metering_InitState c)
      in (input, c\<lparr>mc_initialGasProvided := vi_GasProvided input,
            mc_gasForExecution := vi_GasProvided input\<rparr>))"

fun clone_gas :: "(address, u64) gomap \<Rightarrow> (address, u64) gomap \<Rightarrow> (address, u64) gomap" where
  "clone_gas clone [] = clone"
| "clone_gas clone ((addr, gasUsed) # rest) = clone_gas (map_put addr gasUsed clone) rest"

definition cloneGasUsedByAccounts :: "meteringContext \<Rightarrow> (address, u64) gomap" where
  "cloneGasUsedByAccounts c = clone_gas [] (mc_gasUsedByAccounts c)"

text \<open>The Go code adds with the machine's \<open>+=\<close>, which wraps around.\<close>

fun add_gas :: "(address, u64) gomap \<Rightarrow> (address, u64) gomap \<Rightarrow> (address, u64) gomap" where
  "add_gas m [] = m"
| "add_gas m ((addr, gas) # rest) = add_gas (map_put addr (map_get_or 0 m addr + gas) m) rest"

definition addToGasUsedByAccounts :: "(address, u64) gomap \<Rightarrow> meteringContext \<Rightarrow> meteringContext" where
  "addToGasUsedByAccounts gasUsed c =
     c\<lparr>mc_gasUsedByAccounts := add_gas (mc_gasUsedByAccounts c) gasUsed\<rparr>"

definition metering_PushState :: "meteringContext \<Rightarrow> meteringContext" where
  "metering_PushState c =
     c\<lparr>mc_stateStack := mc_stateStack c @ [\<lparr>ms_initialGasProvided = mc_initialGasProvided c,
          ms_initialCost = mc_initialCost c, ms_gasForExecution = mc_gasForExecution c,
          ms_gasUsedByAccounts = cloneGasUsedByAccounts c\<rparr>]\<rparr>"

definition metering_PopSetActiveState :: "meteringContext \<Rightarrow> meteringContext" where
  "metering_PopSetActiveState c =
     (if mc_stateStack c = [] then c
      else let prevState = last (mc_stateStack c)
           in c\<lparr>mc_stateStack := butlast (mc_stateStack c),
                mc_initialGasProvided := ms_initialGasProvided prevState,
                mc_initialCost := ms_initialCost prevState,
                mc_gasForExecution := ms_gasForExecution prevState,
                mc_gasUsedByAccounts := ms_gasUsedByAccounts prevState\<rparr>)"

definition metering_PopDiscard :: "meteringContext \<Rightarrow> meteringContext" where
  "metering_PopDiscard c =
     (if mc_stateStack c = [] then c else c\<lparr>mc_stateStack := butlast (mc_stateStack c)\<rparr>)"

definition metering_PopMergeActiveState :: "meteringContext \<Rightarrow> meteringContext" where
  "metering_PopMergeActiveState c =
     (if mc_stateStack c = [] then c
      else let prevState = last (mc_stateStack c);
               c = c\<lparr>mc_stateStack := butlast (mc_stateStack c),
                     mc_initialGasProvided := ms_initialGasProvided prevState,
                     mc_initialCost := ms_initialCost prevState,
                     mc_gasForExecution := ms_gasForExecution prevState\<rparr>
           in addToGasUsedByAccounts (ms_gasUsedByAccounts prevState) c)"

definition metering_ClearStateStack :: "meteringContext \<Rightarrow> meteringContext" where
  "metering_ClearStateStack c = c\<lparr>mc_stateStack := []\<rparr>"

definition GetGasForExecution :: "meteringContext \<Rightarrow> u64" where
  "GetGasForExecution c = mc_gasForExecution c"

definition GetGasProvided :: "meteringContext \<Rightarrow> u64" where
  "GetGasProvided c = mc_initialGasProvided c"

definition GetSCPrepareInitialCost :: "meteringContext \<Rightarrow> u64" where
  "GetSCPrepareInitialCost c = mc_initialCost c"

definition BlockGasLimit :: "meteringContext \<Rightarrow> u64" where
  "BlockGasLimit c = mc_blockGasLimit c"

section \<open>Gas of the running instance\<close>

definition with_runtime ::
  "(runtimeContext \<Rightarrow> runtimeContext option) \<Rightarrow> 'w vmHost \<Rightarrow> 'w vmHost option" where
  "with_runtime f h = do { c \<leftarrow> f (host_runtime h); Some (h\<lparr>host_runtime := c\<rparr>) }"

definition UseGas :: "u64 \<Rightarrow> 'w vmHost \<Rightarrow> 'w vmHost option" where
  "UseGas gas h =
     (let gasUsed = AddUint64 (GetPointsUsed (host_runtime h)) gas
      in with_runtime (SetPointsUsed gasUsed) h)"

definition RestoreGas :: "u64 \<Rightarrow> 'w vmHost \<Rightarrow> 'w vmHost option" where
  "RestoreGas gas h =
     (let gasUsed = GetPointsUsed (host_runtime h)
      in if gas \<le> gasUsed then with_runtime (SetPointsUsed (SubUint64 gasUsed gas)) h
         else Some h)"

definition FreeGas :: "u64 \<Rightarrow> 'w vmHost \<Rightarrow> 'w vmHost option" where
  "FreeGas gas h = do {
     old \<leftarrow> GetRefund (host_output h);
     let refund = AddUint64 old gas;
     Some (upd_output (SetRefund refund) h)
   }"

definition GasLeft :: "'w vmHost \<Rightarrow> u64" where
  "GasLeft h =
     (let gasProvided = mc_gasForExecution (host_metering h);
          gasUsed = GetPointsUsed (host_runtime h)
      in if gasProvided < gasUsed then 0 else gasProvided - gasUsed)"

definition GasSpentByContract :: "'w vmEnv \<Rightarrow> 'w vmHost \<Rightarrow> u64" where
  "GasSpentByContract E h =
     (let executionGasUsed = GetPointsUsed (host_runtime h);
          gasSpent = (if IsVMV2Enabled E then mc_initialCost (host_metering h) else 0)
      in AddUint64 gasSpent executionGasUsed)"

definition GasUsedForExecution :: "'w vmEnv \<Rightarrow> 'w vmHost \<Rightarrow> u64" where
  "GasUsedForExecution E h =
     SubUint64 (GasSpentByContract E h) (mc_initialCost (host_metering h))"

definition BoundGasLimit :: "i64 \<Rightarrow> 'w vmHost \<Rightarrow> u64" where
  "BoundGasLimit value h =
     (let gasLeft = GasLeft h; limit = value in if gasLeft < limit then gasLeft else limit)"

definition UseGasBounded :: "u64 \<Rightarrow> 'w vmHost \<Rightarrow> (go_error option \<times> 'w vmHost) option" where
  "UseGasBounded gasToUse h =
     (if GasLeft h \<le> gasToUse then Some (Some (Sentinel ErrNotEnoughGas), h)
      else do { h \<leftarrow> UseGas gasToUse h; Some (None, h) })"

definition UseGasForAsyncStep :: "'w vmHost \<Rightarrow> (go_error option \<times> 'w vmHost) option" where
  "UseGasForAsyncStep h =
     UseGasBounded (AsyncCallStep (gc_BaseOpsAPICost (mc_gasSchedule (host_metering h)))) h"

definition ComputeGasLockedForAsync :: "'w vmEnv \<Rightarrow> 'w vmHost \<Rightarrow> u64" where
  "ComputeGasLockedForAsync E h =
     (let baseGasSchedule = gc_BaseOperationCost (mc_gasSchedule (host_metering h));
          apiGasSchedule = gc_BaseOpsAPICost (mc_gasSchedule (host_metering h));
          codeSize = rc_codeSize (host_runtime h);
          costPerByte = (if IsAheadOfTimeCompileEnabled E then AoTPreparePerByte baseGasSchedule
                         else CompilePerByte baseGasSchedule);
          compilationGasLock = (if IsDynamicGasLockingEnabled E then MulUint64 codeSize costPerByte
                                else 0);
          executionGasLock = AddUint64 (AsyncCallStep apiGasSchedule) (AsyncCallbackGasLock apiGasSchedule)
      in AddUint64 compilationGasLock executionGasLock)"

definition GetGasLocked :: "'w vmHost \<Rightarrow> u64" where
  "GetGasLocked h = vi_GasLocked (rc_vmInput (host_runtime h))"

definition TrackGasUsedByBuiltinFunction ::
  "ContractCallInput \<Rightarrow> VMOutput \<Rightarrow> ContractCallInput option \<Rightarrow> 'w vmHost \<Rightarrow> 'w vmHost option" where
  "TrackGasUsedByBuiltinFunction builtinInput builtinOutput postBuiltinInput h =
     (let gasUsed = SubUint64 (vi_GasProvided (ci_VMInput builtinInput)) (vo_GasRemaining builtinOutput);
          gasUsed = (case postBuiltinInput of
                       None \<Rightarrow> gasUsed
                     | Some post \<Rightarrow> SubUint64 gasUsed (vi_GasProvided (ci_VMInput post)))
      in UseGas gasUsed h)"

section \<open>Initial cost\<close>

definition deductInitialGas ::
  "bytes \<Rightarrow> u64 \<Rightarrow> u64 \<Rightarrow> 'w vmHost \<Rightarrow> go_error option \<times> 'w vmHost" where
  "deductInitialGas code baseCost costPerByte h =
     (let input = rc_vmInput (host_runtime h);
          codeLength = of_nat (length code);
          codeCost = MulUint64 codeLength costPerByte;
          initialCost = AddUint64 baseCost codeCost
      in if initialCost > vi_GasProvided input then (Some (Sentinel ErrNotEnoughGas), h)
         else (None, upd_metering (\<lambda>m. m\<lparr>mc_initialCost := initialCost,
                 mc_gasForExecution := vi_GasProvided input - initialCost\<rparr>) h))"

definition DeductInitialGasForExecution ::
  "'w vmEnv \<Rightarrow> bytes \<Rightarrow> 'w vmHost \<Rightarrow> go_error option \<times> 'w vmHost" where
  "DeductInitialGasForExecution E contract h =
     (let sched = gc_BaseOperationCost (mc_gasSchedule (host_metering h));
          (costPerByte, baseCost) =
            (if IsAheadOfTimeCompileEnabled E then (AoTPreparePerByte sched, GetCodeCost sched)
             else (CompilePerByte sched, 0))
      in deductInitialGas contract baseCost costPerByte h)"

definition DeductInitialGasForDirectDeployment ::
  "CodeDeployInput \<Rightarrow> 'w vmHost \<Rightarrow> go_error option \<times> 'w vmHost" where
  "DeductInitialGasForDirectDeployment input h =
     deductInitialGas (cd_ContractCode input)
       (CreateContractCost (gc_BaseOpsAPICost (mc_gasSchedule (host_metering h))))
       (CompilePerByte (gc_BaseOperationCost (mc_gasSchedule (host_metering h)))) h"

definition DeductInitialGasForIndirectDeployment ::
  "CodeDeployInput \<Rightarrow> 'w vmHost \<Rightarrow> go_error option \<times> 'w vmHost" where
  "DeductInitialGasForIndirectDeployment input h =
     deductInitialGas (cd_ContractCode input) 0
       (CompilePerByte (gc_BaseOperationCost (mc_gasSchedule (host_metering h)))) h"

section \<open>Accounting at the end of an execution\<close>

fun transfers_gas :: "u64 \<Rightarrow> OutputTransfer list \<Rightarrow> u64" where
  "transfers_gas gasUsed [] = gasUsed"
| "transfers_gas gasUsed (outputTransfer # rest) =
     transfers_gas (AddUint64 (AddUint64 gasUsed (ot_GasLimit outputTransfer))
       (ot_GasLocked outputTransfer)) rest"

definition getGasTransferredByAccount :: "OutputAccount \<Rightarrow> u64" where
  "getGasTransferredByAccount account = transfers_gas 0 (oa_OutputTransfers account)"

fun other_accounts_gas ::
  "address \<Rightarrow> (address, u64) gomap \<Rightarrow> u64 \<Rightarrow> (address, OutputAccount) gomap \<Rightarrow> u64" where
  "other_accounts_gas current gasUsedByAccounts acc [] = acc"
| "other_accounts_gas current gasUsedByAccounts acc ((addr, account) # rest) =
     (let gasTransferred = getGasTransferredByAccount account;
          gasUsed = (if addr \<noteq> current then map_get_or 0 gasUsedByAccounts addr else 0)
      in other_accounts_gas current gasUsedByAccounts
           (AddUint64 (AddUint64 acc gasUsed) gasTransferred) rest)"

definition getGasUsedByAllOtherAccounts :: "'w vmHost \<Rightarrow> (address, OutputAccount) gomap \<Rightarrow> u64" where
  "getGasUsedByAllOtherAccounts h outputAccounts =
     other_accounts_gas (rc_scAddress (host_runtime h)) (mc_gasUsedByAccounts (host_metering h)) 0
       outputAccounts"

definition updateSCGasUsed :: "'w vmEnv \<Rightarrow> 'w vmHost \<Rightarrow> 'w vmHost" where
  "updateSCGasUsed E h =
     (let currentAccountAddress = rc_scAddress (host_runtime h);
          ((currentContractAccount, _), out) = GetOutputAccount currentAccountAddress (host_output h);
          h = h\<lparr>host_output := out\<rparr>;
          outputAccounts = GetOutputAccounts (host_output h);
          gasTransferredByCurrentAccount = getGasTransferredByAccount currentContractAccount;
          gasUsedByOthers = getGasUsedByAllOtherAccounts h outputAccounts;
          gasUsed = GasSpentByContract E h;
          gasUsed = SubUint64 gasUsed gasTransferredByCurrentAccount;
          gasUsed = SubUint64 gasUsed gasUsedByOthers
      in upd_metering (\<lambda>m. m\<lparr>mc_gasUsedByAccounts :=
           map_put currentAccountAddress gasUsed (mc_gasUsedByAccounts m)\<rparr>) h)"

text \<open>
  \<open>setGasUsedToOutputAccounts\<close> is called on the output state of the output context, so the
  accounts it writes are that context's accounts.
\<close>

definition setGasUsedToOutputAccounts :: "'w vmHost \<Rightarrow> go_error option \<times> 'w vmHost" where
  "setGasUsedToOutputAccounts h =
     (let gasUsed = mc_gasUsedByAccounts (host_metering h);
          accounts = map (\<lambda>(addr, account). (addr, account\<lparr>oa_GasUsed := map_get_or 0 gasUsed addr\<rparr>))
                       (GetOutputAccounts (host_output h));
          h = upd_output (\<lambda>c. c\<lparr>oc_outputState := (oc_outputState c)\<lparr>vo_OutputAccounts := accounts\<rparr>\<rparr>) h
      in if list_all (\<lambda>(addr, _). map_get accounts addr \<noteq> None) gasUsed then (None, h)
         else (Some (OtherError ''expected OutputAccount has used gas but is missing''), h))"

fun total_used_gas :: "u64 \<Rightarrow> (address, OutputAccount) gomap \<Rightarrow> u64" where
  "total_used_gas gasUsed [] = gasUsed"
| "total_used_gas gasUsed ((_, outputAccount) # rest) =
     (let gasTransferred = getGasTransferredByAccount outputAccount
      in total_used_gas (AddUint64 (AddUint64 gasUsed (oa_GasUsed outputAccount)) gasTransferred) rest)"

definition getCurrentTotalUsedGas :: "'w vmHost \<Rightarrow> u64" where
  "getCurrentTotalUsedGas h = total_used_gas 0 (GetOutputAccounts (host_output h))"

definition checkGas :: "'w vmEnv \<Rightarrow> 'w vmHost \<Rightarrow> go_error option" where
  "checkGas E h =
     (if \<not> IsVMV2Enabled E then None
      else let gasUsed = getCurrentTotalUsedGas h;
               totalGas = AddUint64 gasUsed (vo_GasRemaining (oc_outputState (host_output h)));
               gasProvided = GetGasProvided (host_metering h)
           in if totalGas \<noteq> gasProvided then Some (Sentinel ErrInputAndOutputGasDoesNotMatch)
              else None)"

definition UpdateGasStateOnSuccess :: "'w vmEnv \<Rightarrow> 'w vmHost \<Rightarrow> go_error option \<times> 'w vmHost" where
  "UpdateGasStateOnSuccess E h =
     (let h = updateSCGasUsed E h;
          (err, h) = setGasUsedToOutputAccounts h
      in if err \<noteq> None then (err, h)
         else (checkGas E h, h))"

definition UpdateGasStateOnFailure :: "'w vmHost \<Rightarrow> 'w vmHost" where
  "UpdateGasStateOnFailure h =
     (let addr = rc_scAddress (host_runtime h);
          ((account, _), out) = GetOutputAccount addr (host_output h);
          account = account\<lparr>oa_GasUsed := AddUint64 (oa_GasUsed account) (GetGasProvided (host_metering h))\<rparr>
      in h\<lparr>host_output := put_account addr account out\<rparr>)"

section \<open>Points of the current instance\<close>

abbreviation max_points :: nat where
  "max_points \<equiv> 2 ^ 63 - 1"

abbreviation points :: "'w vmHost \<Rightarrow> nat" where
  "points h \<equiv> unat (GetPointsUsed (host_runtime h))"

definition has_instance :: "'w vmHost \<Rightarrow> bool" where
  "has_instance h \<longleftrightarrow> rc_instance (host_runtime h) \<noteq> None"

text \<open>Writing points changes nothing but the heap cell of the current instance.\<close>

definition set_points :: "u64 \<Rightarrow> 'w vmHost \<Rightarrow> 'w vmHost" where
  "set_points x h = upd_runtime (\<lambda>c. c\<lparr>rc_heap := (\<lambda>p. if rc_instance c = Some p
     then (rc_heap c p)\<lparr>wi_PointsUsed := x\<rparr> else rc_heap c p)\<rparr>) h"

lemma set_points_frame [simp, host_simps]:
  "host_metering (set_points x h) = host_metering h" "host_output (set_points x h) = host_output h"
  "host_storage (set_points x h) = host_storage h" "host_world (set_points x h) = host_world h"
  "host_bigInt (set_points x h) = host_bigInt h" "host_blockchain (set_points x h) = host_blockchain h"
  "rc_instance (host_runtime (set_points x h)) = rc_instance (host_runtime h)"
  "rc_vmInput (host_runtime (set_points x h)) = rc_vmInput (host_runtime h)"
  "rc_scAddress (host_runtime (set_points x h)) = rc_scAddress (host_runtime h)"
  "rc_readOnly (host_runtime (set_points x h)) = rc_readOnly (host_runtime h)"
  "rc_stateStack (host_runtime (set_points x h)) = rc_stateStack (host_runtime h)"
  "rc_instanceStack (host_runtime (set_points x h)) = rc_instanceStack (host_runtime h)"
  "rc_callFunction (host_runtime (set_points x h)) = rc_callFunction (host_runtime h)"
  "rc_asyncCallInfo (host_runtime (set_points x h)) = rc_asyncCallInfo (host_runtime h)"
  "rc_asyncContextInfo (host_runtime (set_points x h)) = rc_asyncContextInfo (host_runtime h)"
  "has_instance (set_points x h) = has_instance h"
  by (simp_all add: set_points_def has_instance_def)

lemma GetPointsUsed_set_points [simp]:
  "has_instance h \<Longrightarrow> GetPointsUsed (host_runtime (set_points x h)) = x"
  by (auto simp: set_points_def GetPointsUsed_def has_instance_def)

lemma set_points_set_points [simp]: "set_points x (set_points y h) = set_points x h"
  by (auto simp: set_points_def fun_eq_iff intro!: arg_cong [where f = "\<lambda>f. host_runtime_update f h"])

lemma set_points_id: "set_points (GetPointsUsed (host_runtime h)) h = h"
proof -
  have "(\<lambda>p. if rc_instance (host_runtime h) = Some p
      then (rc_heap (host_runtime h) p)\<lparr>wi_PointsUsed := GetPointsUsed (host_runtime h)\<rparr>
      else rc_heap (host_runtime h) p) = rc_heap (host_runtime h)"
    by (auto simp: GetPointsUsed_def fun_eq_iff)
  then show ?thesis by (simp add: set_points_def)
qed

lemma with_SetPointsUsed:
  "with_runtime (SetPointsUsed x) h =
     (if has_instance h then Some (set_points (min x MaxInt64) h) else None)"
proof (cases "rc_instance (host_runtime h)")
  case None
  then show ?thesis by (simp add: with_runtime_def SetPointsUsed_def upd_instance_def has_instance_def)
next
  case (Some p)
  have "(rc_heap (host_runtime h))(p := f (rc_heap (host_runtime h) p)) =
      (\<lambda>q. if p = q then f (rc_heap (host_runtime h) q) else rc_heap (host_runtime h) q)" for f
    by (auto simp: fun_eq_iff)
  moreover have "(if MaxInt64 < x then MaxInt64 else x) = min x MaxInt64" by (auto simp: min_def)
  ultimately show ?thesis
    using Some by (simp add: with_runtime_def SetPointsUsed_def upd_instance_def has_instance_def
        set_points_def Let_def)
qed

lemma UseGas_eq:
  "UseGas gas h = (if has_instance h
     then Some (set_points (min (AddUint64 (GetPointsUsed (host_runtime h)) gas) MaxInt64) h) else None)"
  by (simp add: UseGas_def with_SetPointsUsed)

lemma RestoreGas_eq:
  "RestoreGas gas h = (if gas \<le> GetPointsUsed (host_runtime h) then
     (if has_instance h
      then Some (set_points (min (SubUint64 (GetPointsUsed (host_runtime h)) gas) MaxInt64) h) else None)
     else Some h)"
  by (simp add: RestoreGas_def with_SetPointsUsed)

lemma unat_min_u64 [gas_simps]: "unat (min (x :: u64) y) = min (unat x) (unat y)"
  by (simp add: min_def word_le_nat_alt)

lemma UseGas_cases:
  assumes "UseGas gas h = Some h'"
  shows "has_instance h" and "\<exists>x. h' = set_points x h"
    and "points h' = min (points h + unat gas) max_points"
  using assms by (auto simp: UseGas_eq gas_simps split: if_splits)

lemma unat_GasLeft [gas_simps]:
  "unat (GasLeft h) = unat (mc_gasForExecution (host_metering h)) - points h"
  by (auto simp: GasLeft_def Let_def word_less_nat_alt unat_sub_if_size)

lemma GasLeft_UseGas:
  assumes "UseGas gas h = Some h'" and "unat (mc_gasForExecution (host_metering h)) \<le> max_points"
  shows "unat (GasLeft h') = unat (GasLeft h) - unat gas"
proof -
  have "host_metering h' = host_metering h" using UseGas_cases(2) [OF assms(1)] by auto
  then show ?thesis using UseGas_cases(3) [OF assms(1)] assms(2) by (simp add: gas_simps min_def)
qed

lemma RestoreGas_UseGas:
  assumes "UseGas gas h = Some h'" and "points h + unat gas \<le> max_points"
  shows "RestoreGas gas h' = Some h"
proof -
  have inst: "has_instance h" using UseGas_cases(1) [OF assms(1)] .
  have h': "h' = set_points (min (AddUint64 (GetPointsUsed (host_runtime h)) gas) MaxInt64) h"
    using assms(1) inst by (simp add: UseGas_eq)
  have eq: "min (AddUint64 (GetPointsUsed (host_runtime h)) gas) MaxInt64 = GetPointsUsed (host_runtime h) + gas"
    using assms(2) by (intro word_eqI_unat) (simp add: gas_simps AddUint64_exact unat_plus_if')
  have "unat gas \<le> points h'" using inst h' eq assms(2) by (simp add: unat_plus_if')
  moreover have "min (SubUint64 (GetPointsUsed (host_runtime h) + gas) gas) MaxInt64
      = GetPointsUsed (host_runtime h)"
    using assms(2) by (intro word_eqI_unat) (simp add: gas_simps unat_plus_if')
  ultimately show ?thesis
    using inst h' eq by (simp add: RestoreGas_eq word_le_nat_alt set_points_id)
qed

section \<open>Initial cost\<close>

abbreviation initial_cost :: "bytes \<Rightarrow> u64 \<Rightarrow> u64 \<Rightarrow> nat" where
  "initial_cost code baseCost costPerByte \<equiv>
     min (unat baseCost + min (length code * unat costPerByte) max_u64) max_u64"

lemma deductInitialGas_spec:
  assumes "length code < 2 ^ 64"
    and "provided = vi_GasProvided (rc_vmInput (host_runtime h))"
  shows "deductInitialGas code baseCost costPerByte h =
    (if initial_cost code baseCost costPerByte > unat provided
     then (Some (Sentinel ErrNotEnoughGas), h)
     else (None, upd_metering (\<lambda>m. m\<lparr>
         mc_initialCost := of_nat (initial_cost code baseCost costPerByte),
         mc_gasForExecution := of_nat (unat provided - initial_cost code baseCost costPerByte)\<rparr>) h))"
proof -
  define cost where "cost = AddUint64 baseCost (MulUint64 (of_nat (length code)) costPerByte)"
  define ic where "ic = initial_cost code baseCost costPerByte"
  have cost: "unat cost = ic"
    using assms(1) by (simp add: cost_def ic_def gas_simps of_nat_length_u64)
  have c: "cost = of_nat ic" unfolding cost [symmetric] by simp
  have d: "ic \<le> unat provided \<Longrightarrow> provided - cost = of_nat (unat provided - ic)"
    unfolding cost [symmetric] by (simp add: of_nat_diff)
  have guard: "provided < cost \<longleftrightarrow> unat provided < ic" by (simp add: word_less_nat_alt cost)
  have "deductInitialGas code baseCost costPerByte h =
      (if provided < cost then (Some (Sentinel ErrNotEnoughGas), h)
       else (None, upd_metering (\<lambda>m. m\<lparr>mc_initialCost := cost,
               mc_gasForExecution := provided - cost\<rparr>) h))"
    by (simp add: deductInitialGas_def Let_def cost_def assms(2))
  then show ?thesis unfolding ic_def [symmetric] guard using c d by (simp add: not_less)
qed

section \<open>Sums of gas\<close>

abbreviation transfer_gas :: "OutputTransfer \<Rightarrow> nat" where
  "transfer_gas t \<equiv> unat (ot_GasLimit t) + unat (ot_GasLocked t)"

definition gas_transferred :: "OutputAccount \<Rightarrow> nat" where
  "gas_transferred a = sum_list (map transfer_gas (oa_OutputTransfers a))"

lemma saturated_add [simp]: "min (min (a :: nat) m + b) m = min (a + b) m"
  by (simp add: min_def)

lemma saturated_add2 [simp]: "min ((a :: nat) + min b m) m = min (a + b) m"
  by (simp add: min_def)

lemma transfers_gas_sum:
  "unat (transfers_gas acc ts) = min (unat acc + sum_list (map transfer_gas ts)) max_u64"
proof (induction acc ts rule: transfers_gas.induct)
  case (1 acc)
  then show ?case by simp
next
  case (2 acc t ts)
  then show ?case by (simp add: gas_simps add.assoc min_def)
qed

lemma unat_getGasTransferredByAccount [gas_simps]:
  "unat (getGasTransferredByAccount a) = min (gas_transferred a) max_u64"
  by (simp add: getGasTransferredByAccount_def transfers_gas_sum gas_transferred_def)

lemma total_used_gas_sum:
  "unat (total_used_gas acc m) =
     min (unat acc + sum_list (map (\<lambda>(_, a). unat (oa_GasUsed a) + gas_transferred a) m)) max_u64"
proof (induction acc m rule: total_used_gas.induct)
  case (1 acc)
  then show ?case by simp
next
  case (2 acc k a m)
  then show ?case by (simp add: gas_simps Let_def add.assoc min_def)
qed

lemma other_accounts_gas_sum:
  "unat (other_accounts_gas cur g acc m) =
     min (unat acc + sum_list (map (\<lambda>(k, a). (if k \<noteq> cur then unat (map_get_or 0 g k) else 0)
        + gas_transferred a) m)) max_u64"
proof (induction cur g acc m rule: other_accounts_gas.induct)
  case (1 cur g acc)
  then show ?case by simp
next
  case (2 cur g acc k a m)
  then show ?case by (simp add: gas_simps Let_def add.assoc min_def)
qed

section \<open>State stack\<close>

definition wf_metering :: "meteringContext \<Rightarrow> bool" where
  "wf_metering c \<longleftrightarrow> wf_map (mc_gasUsedByAccounts c)
     \<and> (\<forall>s \<in> set (mc_stateStack c). wf_map (ms_gasUsedByAccounts s))"

definition metering_active :: "meteringContext \<Rightarrow> meteringState" where
  "metering_active c = \<lparr>ms_initialGasProvided = mc_initialGasProvided c,
     ms_initialCost = mc_initialCost c, ms_gasForExecution = mc_gasForExecution c,
     ms_gasUsedByAccounts = mc_gasUsedByAccounts c\<rparr>"

lemma clone_gas_append: "wf_map (l @ r) \<Longrightarrow> clone_gas l r = l @ r"
proof (induction l r rule: clone_gas.induct)
  case (1 l)
  then show ?case by simp
next
  case (2 l k u r)
  then have "k \<notin> fst ` set l" and "wf_map ((l @ [(k, u)]) @ r)" by (auto simp: wf_map_def)
  then show ?case using 2 by (simp add: map_put_new)
qed

lemma cloneGasUsedByAccounts_id: "wf_metering c \<Longrightarrow> cloneGasUsedByAccounts c = mc_gasUsedByAccounts c"
  using clone_gas_append [of "[]" "mc_gasUsedByAccounts c"]
  by (simp add: cloneGasUsedByAccounts_def wf_metering_def)

lemma wf_add_gas [wf_intros]: "wf_map m \<Longrightarrow> wf_map (add_gas m r)"
  by (induction m r rule: add_gas.induct) auto

lemma wf_metering_stack_ops [wf_intros]:
  assumes "wf_metering c"
  shows "wf_metering (metering_InitState c)" "wf_metering (metering_PushState c)"
    "wf_metering (metering_PopSetActiveState c)" "wf_metering (metering_PopDiscard c)"
    "wf_metering (metering_PopMergeActiveState c)" "wf_metering (metering_ClearStateStack c)"
  using assms
  by (auto simp: wf_metering_def metering_InitState_def metering_PushState_def
      cloneGasUsedByAccounts_id [OF assms] metering_PopSetActiveState_def metering_PopDiscard_def
      metering_PopMergeActiveState_def addToGasUsedByAccounts_def wf_add_gas
      metering_ClearStateStack_def Let_def dest: in_set_butlastD)

interpretation metering_stack: state_stack metering_PushState metering_PopSetActiveState
    metering_PopDiscard metering_ClearStateStack metering_active mc_stateStack wf_metering
  by unfold_locales
    (auto simp: wf_intros metering_active_def metering_PushState_def cloneGasUsedByAccounts_id
      metering_PopSetActiveState_def metering_PopDiscard_def metering_ClearStateStack_def wf_metering_def
      Let_def dest: in_set_butlastD)

lemma add_gas_get:
  "wf_map r \<Longrightarrow> map_get_or 0 (add_gas m r) k = map_get_or 0 m k + map_get_or 0 r k"
proof (induction m r rule: add_gas.induct)
  case (1 m)
  then show ?case by simp
next
  case (2 m k' g r)
  then have "map_get r k' = None" and "wf_map r"
    by (auto simp: wf_map_Cons map_get_None)
  then show ?case using 2 by (auto simp: map_get_or_def split: if_splits)
qed

section \<open>The gas balance of an execution\<close>

definition others_gas :: "'w vmHost \<Rightarrow> nat" where
  "others_gas h = sum_list (map (\<lambda>(k, a). (if k \<noteq> rc_scAddress (host_runtime h)
       then unat (map_get_or 0 (mc_gasUsedByAccounts (host_metering h)) k) else 0) + gas_transferred a)
     (GetOutputAccounts (host_output h)))"

definition current_transferred :: "'w vmHost \<Rightarrow> nat" where
  "current_transferred h =
     (case map_get (GetOutputAccounts (host_output h)) (rc_scAddress (host_runtime h)) of
        None \<Rightarrow> 0 | Some a \<Rightarrow> gas_transferred a)"

text \<open>
  The state in which the accounting of a finished execution starts: the remaining gas has been
  set, the provided gas splits into initial cost and gas for execution, every account with
  recorded gas has an output account, and the gas attributed to other accounts was charged on
  the current instance.
\<close>

definition gas_balanced :: "'w vmHost \<Rightarrow> bool" where
  "gas_balanced h \<longleftrightarrow>
     wf_map (GetOutputAccounts (host_output h))
     \<and> vo_GasRemaining (oc_outputState (host_output h)) = GasLeft h
     \<and> unat (mc_initialGasProvided (host_metering h)) =
         unat (mc_initialCost (host_metering h)) + unat (mc_gasForExecution (host_metering h))
     \<and> points h \<le> unat (mc_gasForExecution (host_metering h))
     \<and> list_all (\<lambda>(k, _). k = rc_scAddress (host_runtime h)
          \<or> map_get (GetOutputAccounts (host_output h)) k \<noteq> None) (mc_gasUsedByAccounts (host_metering h))
     \<and> current_transferred h + others_gas h \<le> unat (mc_initialCost (host_metering h)) + points h"

lemma sum_split_key:
  fixes f :: "'k \<Rightarrow> nat" and g :: "'v \<Rightarrow> nat"
  assumes "wf_map m" and "cur \<in> fst ` set m"
  shows "sum_list (map (\<lambda>(k, a). (if k = cur then x else f k) + g a) m)
    = x + sum_list (map (\<lambda>(k, a). (if k \<noteq> cur then f k else 0) + g a) m)"
  using assms
proof (induction m)
  case Nil
  then show ?case by simp
next
  case (Cons p m)
  obtain k a where p: "p = (k, a)" by (cases p)
  show ?case
  proof (cases "k = cur")
    case True
    then have "cur \<notin> fst ` set m" using Cons.prems p by (simp add: wf_map_def)
    then have "sum_list (map (\<lambda>(k, a). (if k = cur then x else f k) + g a) m)
        = sum_list (map (\<lambda>(k, a). (if k \<noteq> cur then f k else 0) + g a) m)"
      by (intro arg_cong [where f = sum_list] map_cong) force+
    then show ?thesis using True p by simp
  next
    case False
    then have "cur \<in> fst ` set m" and "wf_map m" using Cons.prems p by (auto simp: wf_map_def)
    then show ?thesis using Cons.IH False p by simp
  qed
qed

lemma gas_transferred_GasUsed [simp]: "gas_transferred (a\<lparr>oa_GasUsed := g\<rparr>) = gas_transferred a"
  by (simp add: gas_transferred_def)

lemma gas_transferred_New [simp]: "gas_transferred (NewVMOutputAccount addr) = 0"
  by (simp add: gas_transferred_def NewVMOutputAccount_def zeroOutputAccount_def)

lemma GetOutputAccount_sum:
  assumes "GetOutputAccount addr c = ((a, isNew), c')"
    and "f (addr, NewVMOutputAccount addr) = 0"
  shows "sum_list (map f (GetOutputAccounts c')) = sum_list (map f (GetOutputAccounts c) :: nat list)"
proof (cases "map_get (GetOutputAccounts c) addr")
  case None
  then have "map_put addr (NewVMOutputAccount addr) (GetOutputAccounts c)
      = GetOutputAccounts c @ [(addr, NewVMOutputAccount addr)]"
    by (intro map_put_new) (simp add: map_get_None)
  then show ?thesis using assms None
    by (auto simp: GetOutputAccount_def put_account_def GetOutputAccounts_def)
next
  case (Some a')
  then show ?thesis using assms by (simp add: GetOutputAccount_def)
qed

text \<open>The accounting step in one formula.\<close>

lemma UpdateGasStateOnSuccess_balance:
  assumes V2: "IsVMV2Enabled E" and bal: "gas_balanced h"
  shows "fst (UpdateGasStateOnSuccess E h) =
    (if current_transferred h = 0 then None else Some (Sentinel ErrInputAndOutputGasDoesNotMatch))"
proof -
  let ?cur = "rc_scAddress (host_runtime h)"
  let ?g = "mc_gasUsedByAccounts (host_metering h)"
  obtain a isNew out where acc: "GetOutputAccount ?cur (host_output h) = ((a, isNew), out)"
    by (metis prod.collapse)
  note accs = GetOutputAccount_cases [OF acc]
  let ?f = "\<lambda>(k, a). (if k \<noteq> ?cur then unat (map_get_or 0 ?g k) else 0) + gas_transferred a"
  let ?h1 = "h\<lparr>host_output := out\<rparr>"
  have others: "sum_list (map ?f (GetOutputAccounts out)) = others_gas h"
    unfolding others_gas_def by (rule GetOutputAccount_sum [OF acc]) simp
  have cur: "gas_transferred a = current_transferred h"
    using acc accs by (auto simp: current_transferred_def GetOutputAccount_def split: option.splits)
  define spent where "spent = unat (mc_initialCost (host_metering h)) + points h"
  have spent_le: "spent + unat (GasLeft h) = unat (mc_initialGasProvided (host_metering h))"
    and enough: "current_transferred h + others_gas h \<le> spent"
    using bal by (auto simp: gas_balanced_def spent_def gas_simps)
  then have spent_max: "spent \<le> 18446744073709551615"
    using unat_le_u64 [of "mc_initialGasProvided (host_metering h)"] by linarith
  define used where "used = SubUint64 (SubUint64 (GasSpentByContract E ?h1)
      (getGasTransferredByAccount a)) (getGasUsedByAllOtherAccounts ?h1 (GetOutputAccounts out))"
  have used: "unat used = spent - current_transferred h - others_gas h"
    using V2 spent_max enough others cur
    by (simp add: used_def gas_simps GasSpentByContract_def Let_def getGasUsedByAllOtherAccounts_def
        other_accounts_gas_sum spent_def min_def)
  let ?g' = "map_put ?cur used ?g"
  let ?accs = "map (\<lambda>(addr, account). (addr, account\<lparr>oa_GasUsed := map_get_or 0 ?g' addr\<rparr>))
      (GetOutputAccounts out)"
  have upd: "updateSCGasUsed E h = upd_metering (\<lambda>m. m\<lparr>mc_gasUsedByAccounts := ?g'\<rparr>) ?h1"
    by (simp add: updateSCGasUsed_def acc used_def Let_def)
  have keys: "fst ` set ?accs = fst ` set (GetOutputAccounts out)" by force
  have present: "list_all (\<lambda>(addr, _). map_get ?accs addr \<noteq> None) ?g'"
  proof -
    have "map_get (GetOutputAccounts out) k \<noteq> None" if "k \<in> fst ` set ?g'" for k
      using that bal accs(1)
      by (auto simp: gas_balanced_def list_all_iff dom_update split: if_splits)
    then show ?thesis unfolding list_all_iff map_get_None keys
      by (force simp: map_get_None)
  qed
  have cur_in: "?cur \<in> fst ` set (GetOutputAccounts out)"
    using accs(1) map_get_None [of "GetOutputAccounts out" ?cur] by auto
  have wf: "wf_map (GetOutputAccounts out)" using accs(5) bal by (simp add: gas_balanced_def)
  have "sum_list (map (\<lambda>(_, a). unat (oa_GasUsed a) + gas_transferred a) ?accs)
      = sum_list (map (\<lambda>(k, a). (if k = ?cur then unat used else unat (map_get_or 0 ?g k))
          + gas_transferred a) (GetOutputAccounts out))"
    by (intro arg_cong [where f = sum_list]) auto
  also have "\<dots> = unat used + others_gas h"
    using sum_split_key [OF wf cur_in] others by simp
  finally have total: "sum_list (map (\<lambda>(_, a). unat (oa_GasUsed a) + gas_transferred a) ?accs)
      = spent - current_transferred h" using used enough by simp
  let ?h2 = "upd_output (\<lambda>c. c\<lparr>oc_outputState := (oc_outputState c)\<lparr>vo_OutputAccounts := ?accs\<rparr>\<rparr>)
      (upd_metering (\<lambda>m. m\<lparr>mc_gasUsedByAccounts := ?g'\<rparr>) ?h1)"
  have set: "setGasUsedToOutputAccounts (updateSCGasUsed E h) = (None, ?h2)"
    unfolding upd setGasUsedToOutputAccounts_def using present by (simp add: Let_def)
  have "unat (getCurrentTotalUsedGas ?h2) = spent - current_transferred h"
    using spent_max total
    by (simp add: getCurrentTotalUsedGas_def total_used_gas_sum GetOutputAccounts_def [of "_\<lparr>oc_outputState := _\<rparr>"])
  moreover have "vo_GasRemaining (oc_outputState (host_output ?h2)) = GasLeft h"
    using accs(2) bal by (simp add: gas_balanced_def)
  ultimately have "unat (AddUint64 (getCurrentTotalUsedGas ?h2)
      (vo_GasRemaining (oc_outputState (host_output ?h2))))
      = spent - current_transferred h + unat (GasLeft h)"
    using spent_le unat_le_u64 [of "mc_initialGasProvided (host_metering h)"]
    by (simp add: gas_simps del: unat_le_u64)
  then have "checkGas E ?h2 = (if current_transferred h = 0 then None
      else Some (Sentinel ErrInputAndOutputGasDoesNotMatch))"
    using V2 spent_le enough
    by (auto simp: checkGas_def Let_def GetGasProvided_def word_unat_eq_iff)
  then show ?thesis by (simp add: UpdateGasStateOnSuccess_def set Let_def)
qed

text \<open>
  Using gas and restoring the same amount is the identity on the whole host, unless the
  counter of the instance saturates at the largest signed 64-bit value.
\<close>

theorem UseGas_RestoreGas:
  assumes "has_instance h" and "points h + unat gas \<le> 2 ^ 63 - 1"
  shows "Option.bind (UseGas gas h) (RestoreGas gas) = Some h
    \<and> (\<forall>h'. UseGas gas h = Some h' \<longrightarrow> points h' = points h + unat gas)"
proof -
  obtain h' where h': "UseGas gas h = Some h'" using assms(1) by (simp add: UseGas_eq)
  then show ?thesis using RestoreGas_UseGas [OF h' assms(2)] UseGas_cases(3) [OF h'] assms(2) by simp
qed

theorem UseGas_RestoreGas_witness: "Option.bind (UseGas 7 sample_host) (RestoreGas 7) = Some sample_host"
  using UseGas_RestoreGas [of sample_host 7]
  by (simp add: has_instance_def GetPointsUsed_def sample_defs)

text \<open>
  The initial cost of a contract is the base cost plus the cost per byte of code, saturated;
  if the provided gas does not cover it the call fails and nothing changes, otherwise exactly
  that cost is recorded and the rest is left for the execution, so that cost and rest add up to
  the gas provided.
\<close>

theorem deductInitialGas_splits:
  assumes "length code < 2 ^ 64"
  shows "deductInitialGas code baseCost costPerByte h =
      (Some (Sentinel ErrNotEnoughGas), h)
      \<and> unat (vi_GasProvided (rc_vmInput (host_runtime h))) < initial_cost code baseCost costPerByte
    \<or> (\<exists>h'. deductInitialGas code baseCost costPerByte h = (None, h')
        \<and> unat (mc_initialCost (host_metering h')) = initial_cost code baseCost costPerByte
        \<and> unat (mc_initialCost (host_metering h')) + unat (mc_gasForExecution (host_metering h'))
            = unat (vi_GasProvided (rc_vmInput (host_runtime h)))
        \<and> h' = h\<lparr>host_metering := (host_metering h)\<lparr>
             mc_initialCost := mc_initialCost (host_metering h'),
             mc_gasForExecution := mc_gasForExecution (host_metering h')\<rparr>\<rparr>)"
proof -
  let ?p = "vi_GasProvided (rc_vmInput (host_runtime h))"
  let ?ic = "initial_cost code baseCost costPerByte"
  note spec = deductInitialGas_spec [OF assms refl, of baseCost costPerByte h]
  have u: "unat (of_nat n :: u64) = n" if "n \<le> unat ?p" for n
  proof -
    have "n < 18446744073709551616" using that unat_less_u64 [of ?p] by linarith
    then show ?thesis by (simp add: unat_of_nat take_bit_nat_eq_self)
  qed
  define ic where "ic = ?ic"
  show ?thesis
    unfolding spec ic_def [symmetric]
  proof (cases "unat ?p < ic")
    case False
    then have "ic \<le> unat ?p" by simp
    note u [OF this] u [OF diff_le_self [of "unat ?p" ic]]
    then show "(if unat ?p < ic then (Some (Sentinel ErrNotEnoughGas), h)
        else (None, upd_metering (\<lambda>m. m\<lparr>mc_initialCost := of_nat ic, mc_gasForExecution := of_nat (unat ?p - ic)\<rparr>) h))
        = (Some (Sentinel ErrNotEnoughGas), h) \<and> unat ?p < ic \<or>
      (\<exists>h'. (if unat ?p < ic then (Some (Sentinel ErrNotEnoughGas), h)
        else (None, upd_metering (\<lambda>m. m\<lparr>mc_initialCost := of_nat ic, mc_gasForExecution := of_nat (unat ?p - ic)\<rparr>) h))
        = (None, h') \<and> unat (mc_initialCost (host_metering h')) = ic
        \<and> unat (mc_initialCost (host_metering h')) + unat (mc_gasForExecution (host_metering h')) = unat ?p
        \<and> h' = h\<lparr>host_metering := (host_metering h)\<lparr>mc_initialCost := mc_initialCost (host_metering h'),
             mc_gasForExecution := mc_gasForExecution (host_metering h')\<rparr>\<rparr>)"
      using False by (simp del: of_nat_diff unat_of_nat)
  qed simp
qed

theorem deductInitialGas_splits_witness:
  "\<exists>h'. deductInitialGas [0, 97, 115, 109] 6 1 sample_host = (None, h')
     \<and> unat (mc_initialCost (host_metering h')) = 10
     \<and> unat (mc_initialCost (host_metering h')) + unat (mc_gasForExecution (host_metering h')) = 600"
  using deductInitialGas_splits [of "[0, 97, 115, 109]" 6 1 sample_host]
  by (auto simp: sample_defs)


definition self_paying_host :: "nat vmHost" where
  "self_paying_host = upd_output (\<lambda>c. c\<lparr>oc_outputState := (oc_outputState c)\<lparr>vo_GasRemaining := 490,
     vo_OutputAccounts := [([1], (NewVMOutputAccount [1])\<lparr>oa_OutputTransfers :=
       [\<lparr>ot_Value = 0, ot_GasLimit = 3, ot_GasLocked = 2, ot_Data = [], ot_CallType = DirectCall,
         ot_SenderAddress = [1]\<rparr>]\<rparr>)]\<rparr>\<rparr>) sample_host"


end
