(* ===== verification/BlockchainContext.thy ===== *)
theory BlockchainContext
  imports MeteringContext
begin

text \<open>
  The blockchain context of \<open>vmhost/contexts/blockchain.go\<close>: a read-through cache over the
  blockchain hook. Balances, nonces and code that were read from the node are kept in the
  output accounts, where later transfers and nonce increases are added, and node snapshots
  implement its state stack. The hook is the parameter \<open>env_hook\<close>; a nil account is \<open>None\<close>.
\<close>

section \<open>Operations\<close>

abbreviation user_account :: "'w vmEnv \<Rightarrow> 'w vmHost \<Rightarrow> address \<Rightarrow> go_error + UserAccount option" where
  "user_account E h \<equiv> hook_GetUserAccount (env_hook E) (host_world h)"

definition IsSmartContract :: "'w vmEnv \<Rightarrow> address \<Rightarrow> 'w vmHost \<Rightarrow> bool" where
  "IsSmartContract E addr h = hook_IsSmartContract (env_hook E) (host_world h) addr"

definition IsPayable :: "'w vmEnv \<Rightarrow> address \<Rightarrow> 'w vmHost \<Rightarrow> go_error + bool" where
  "IsPayable E addr h = hook_IsPayable (env_hook E) (host_world h) addr"

definition GetShardOfAddress :: "'w vmEnv \<Rightarrow> address \<Rightarrow> 'w vmHost \<Rightarrow> u32" where
  "GetShardOfAddress E addr h = hook_GetShardOfAddress (env_hook E) (host_world h) addr"

definition AreInSameShard :: "'w vmEnv \<Rightarrow> address \<Rightarrow> address \<Rightarrow> 'w vmHost \<Rightarrow> bool" where
  "AreInSameShard E leftAddress rightAddress h \<longleftrightarrow>
     GetShardOfAddress E leftAddress h = GetShardOfAddress E rightAddress h"

definition AccountExists :: "'w vmEnv \<Rightarrow> address \<Rightarrow> 'w vmHost \<Rightarrow> bool" where
  "AccountExists E addr h =
     (case user_account E h addr of Inl _ \<Rightarrow> False | Inr account \<Rightarrow> account \<noteq> None)"

definition GetBalanceBigInt :: "'w vmEnv \<Rightarrow> address \<Rightarrow> 'w vmHost \<Rightarrow> (int \<times> 'w vmHost) option" where
  "GetBalanceBigInt E addr h =
     (let ((outputAccount, isNew), out) = GetOutputAccount addr (host_output h);
          h = h\<lparr>host_output := out\<rparr>
      in if \<not> isNew then
           (case oa_Balance outputAccount of
              Some b \<Rightarrow> do { delta \<leftarrow> oa_BalanceDelta outputAccount; Some (b + delta, h) }
            | None \<Rightarrow>
                (case user_account E h addr of
                   Inr (Some account) \<Rightarrow> do {
                     let h = upd_output (put_account addr
                               (outputAccount\<lparr>oa_Balance := Some (ua_Balance account)\<rparr>)) h;
                     delta \<leftarrow> oa_BalanceDelta outputAccount;
                     Some (ua_Balance account + delta, h)
                   }
                 | _ \<Rightarrow> Some (0, h)))
         else
           (case user_account E h addr of
              Inr (Some account) \<Rightarrow>
                Some (ua_Balance account,
                  upd_output (put_account addr
                    (outputAccount\<lparr>oa_Balance := Some (ua_Balance account)\<rparr>)) h)
            | _ \<Rightarrow> Some (0, h)))"

definition GetBalance :: "'w vmEnv \<Rightarrow> address \<Rightarrow> 'w vmHost \<Rightarrow> (bytes \<times> 'w vmHost) option" where
  "GetBalance E addr h = do { (b, h) \<leftarrow> GetBalanceBigInt E addr h; Some (big_Bytes b, h) }"

definition GetNonce :: "'w vmEnv \<Rightarrow> address \<Rightarrow> 'w vmHost \<Rightarrow> (u64 \<times> go_error option) \<times> 'w vmHost" where
  "GetNonce E addr h =
     (let ((outputAccount, isNew), out) = GetOutputAccount addr (host_output h);
          h = h\<lparr>host_output := out\<rparr>;
          readNonceFromBlockChain = (isNew \<or> (oa_Nonce outputAccount = 0 \<and> IsVMV3Enabled E))
      in if \<not> readNonceFromBlockChain then ((oa_Nonce outputAccount, None), h)
         else (case user_account E h addr of
                 Inl err \<Rightarrow> ((0, Some err), h)
               | Inr None \<Rightarrow> ((0, None), h)
               | Inr (Some account) \<Rightarrow>
                   ((ua_Nonce account, None),
                    upd_output (put_account addr (outputAccount\<lparr>oa_Nonce := ua_Nonce account\<rparr>)) h)))"

definition IncreaseNonce :: "'w vmEnv \<Rightarrow> address \<Rightarrow> 'w vmHost \<Rightarrow> 'w vmHost" where
  "IncreaseNonce E addr h =
     (let ((nonce, _), h) = GetNonce E addr h;
          ((outputAccount, _), out) = GetOutputAccount addr (host_output h)
      in h\<lparr>host_output := put_account addr (outputAccount\<lparr>oa_Nonce := nonce + 1\<rparr>) out\<rparr>)"

definition NewAddress :: "'w vmEnv \<Rightarrow> address \<Rightarrow> 'w vmHost \<Rightarrow> (go_error + address) \<times> 'w vmHost" where
  "NewAddress E creatorAddress h =
     (let ((nonce, err), h) = GetNonce E creatorAddress h
      in case err of
           Some e \<Rightarrow> (Inl e, h)
         | None \<Rightarrow>
             let isIndirectDeployment = (IsSmartContract E creatorAddress h \<and> IsVMV3Enabled E);
                 nonce = (if \<not> isIndirectDeployment \<and> nonce > 0 then nonce - 1 else nonce);
                 vmType = rc_vmType (host_runtime h)
             in (hook_NewAddress (env_hook E) (host_world h) creatorAddress nonce vmType, h))"

definition GetCodeHash :: "'w vmEnv \<Rightarrow> address \<Rightarrow> 'w vmHost \<Rightarrow> bytes" where
  "GetCodeHash E addr h =
     (case user_account E h addr of Inr (Some account) \<Rightarrow> ua_CodeHash account | _ \<Rightarrow> [])"

definition blockchain_GetCode ::
  "'w vmEnv \<Rightarrow> address \<Rightarrow> 'w vmHost \<Rightarrow> (go_error + bytes) \<times> 'w vmHost" where
  "blockchain_GetCode E addr h =
     (let ((outputAccount, isNew), out) = GetOutputAccount addr (host_output h);
          h = h\<lparr>host_output := out\<rparr>;
          hasCode = (\<not> isNew \<and> length (oa_Code outputAccount) > 0)
      in if hasCode then (Inr (oa_Code outputAccount), h)
         else (case user_account E h addr of
                 Inl err \<Rightarrow> (Inl err, h)
               | Inr None \<Rightarrow> (Inl (Sentinel ErrInvalidAccount), h)
               | Inr (Some account) \<Rightarrow>
                   let code = hook_GetCode (env_hook E) (host_world h) account
                   in if length code = 0 then (Inl (Sentinel ErrContractNotFound), h)
                      else (Inr code, upd_output (put_account addr (outputAccount\<lparr>oa_Code := code\<rparr>)) h)))"

definition GetCodeSize :: "'w vmEnv \<Rightarrow> address \<Rightarrow> 'w vmHost \<Rightarrow> i32 \<times> go_error option" where
  "GetCodeSize E addr h =
     (case user_account E h addr of
        Inl err \<Rightarrow> (0, Some err)
      | Inr None \<Rightarrow> (0, None)
      | Inr (Some account) \<Rightarrow>
          (of_nat (length (hook_GetCode (env_hook E) (host_world h) account)), None))"

definition GetESDTToken ::
  "'w vmEnv \<Rightarrow> address \<Rightarrow> bytes \<Rightarrow> u64 \<Rightarrow> 'w vmHost \<Rightarrow> go_error + ESDigitalToken option" where
  "GetESDTToken E addr tokenID nonce h = hook_GetESDTToken (env_hook E) (host_world h) addr tokenID nonce"

definition CurrentEpoch :: "'w vmEnv \<Rightarrow> 'w vmHost \<Rightarrow> u32" where
  "CurrentEpoch E h = hook_CurrentEpoch (env_hook E) (host_world h)"

definition CurrentNonce :: "'w vmEnv \<Rightarrow> 'w vmHost \<Rightarrow> u64" where
  "CurrentNonce E h = hook_CurrentNonce (env_hook E) (host_world h)"

definition GetStateRootHash :: "'w vmEnv \<Rightarrow> 'w vmHost \<Rightarrow> bytes" where
  "GetStateRootHash E h = hook_GetStateRootHash (env_hook E) (host_world h)"

definition LastTimeStamp :: "'w vmEnv \<Rightarrow> 'w vmHost \<Rightarrow> u64" where
  "LastTimeStamp E h = hook_LastTimeStamp (env_hook E) (host_world h)"

definition LastNonce :: "'w vmEnv \<Rightarrow> 'w vmHost \<Rightarrow> u64" where
  "LastNonce E h = hook_LastNonce (env_hook E) (host_world h)"

definition LastRound :: "'w vmEnv \<Rightarrow> 'w vmHost \<Rightarrow> u64" where
  "LastRound E h = hook_LastRound (env_hook E) (host_world h)"

definition LastEpoch :: "'w vmEnv \<Rightarrow> 'w vmHost \<Rightarrow> u32" where
  "LastEpoch E h = hook_LastEpoch (env_hook E) (host_world h)"

definition CurrentRound :: "'w vmEnv \<Rightarrow> 'w vmHost \<Rightarrow> u64" where
  "CurrentRound E h = hook_CurrentRound (env_hook E) (host_world h)"

definition CurrentTimeStamp :: "'w vmEnv \<Rightarrow> 'w vmHost \<Rightarrow> u64" where
  "CurrentTimeStamp E h = hook_CurrentTimeStamp (env_hook E) (host_world h)"

definition LastRandomSeed :: "'w vmEnv \<Rightarrow> 'w vmHost \<Rightarrow> bytes" where
  "LastRandomSeed E h = hook_LastRandomSeed (env_hook E) (host_world h)"

definition CurrentRandomSeed :: "'w vmEnv \<Rightarrow> 'w vmHost \<Rightarrow> bytes" where
  "CurrentRandomSeed E h = hook_CurrentRandomSeed (env_hook E) (host_world h)"

definition BlockHash :: "'w vmEnv \<Rightarrow> i64 \<Rightarrow> 'w vmHost \<Rightarrow> bytes" where
  "BlockHash E number h =
     (if number <s 0 then []
      else (case hook_GetBlockhash (env_hook E) (host_world h) number of
              Inl _ \<Rightarrow> [] | Inr block \<Rightarrow> block))"

definition GetOwnerAddress :: "'w vmEnv \<Rightarrow> 'w vmHost \<Rightarrow> go_error + address" where
  "GetOwnerAddress E h =
     (case user_account E h (rc_scAddress (host_runtime h)) of
        Inl err \<Rightarrow> Inl err
      | Inr None \<Rightarrow> Inr []
      | Inr (Some scAccount) \<Rightarrow> Inr (ua_OwnerAddress scAccount))"

definition SaveCompiledCode :: "'w vmEnv \<Rightarrow> bytes \<Rightarrow> bytes \<Rightarrow> 'w vmHost \<Rightarrow> 'w vmHost" where
  "SaveCompiledCode E codeHash code h =
     h\<lparr>host_world := hook_SaveCompiledCode (env_hook E) (host_world h) codeHash code\<rparr>"

definition GetCompiledCode :: "'w vmEnv \<Rightarrow> bytes \<Rightarrow> 'w vmHost \<Rightarrow> bool \<times> bytes" where
  "GetCompiledCode E codeHash h = hook_GetCompiledCode (env_hook E) (host_world h) codeHash"

definition ProcessBuiltInFunction ::
  "'w vmEnv \<Rightarrow> ContractCallInput \<Rightarrow> 'w vmHost \<Rightarrow> (go_error + VMOutput) \<times> 'w vmHost" where
  "ProcessBuiltInFunction E input h =
     (let (r, w) = hook_ProcessBuiltInFunction (env_hook E) (host_world h) input
      in (r, h\<lparr>host_world := w\<rparr>))"

section \<open>State stack: node snapshots\<close>

definition blockchain_ClearStateStack :: "'w vmHost \<Rightarrow> 'w vmHost" where
  "blockchain_ClearStateStack h = upd_blockchain (\<lambda>c. c\<lparr>bc_stateStack := []\<rparr>) h"

definition blockchain_PushState :: "'w vmEnv \<Rightarrow> 'w vmHost \<Rightarrow> 'w vmHost" where
  "blockchain_PushState E h =
     upd_blockchain (\<lambda>c. c\<lparr>bc_stateStack := bc_stateStack c
       @ [hook_GetSnapshot (env_hook E) (host_world h)]\<rparr>) h"

definition blockchain_PopSetActiveState :: "'w vmEnv \<Rightarrow> 'w vmHost \<Rightarrow> 'w vmHost" where
  "blockchain_PopSetActiveState E h =
     (if bc_stateStack (host_blockchain h) = [] then h
      else let prevSnapshot = last (bc_stateStack (host_blockchain h));
               (err, w) = hook_RevertToSnapshot (env_hook E) (host_world h) prevSnapshot
           in upd_blockchain (\<lambda>c. c\<lparr>bc_stateStack := butlast (bc_stateStack c)\<rparr>) (h\<lparr>host_world := w\<rparr>))"

definition blockchain_PopDiscard :: "'w vmHost \<Rightarrow> 'w vmHost" where
  "blockchain_PopDiscard h =
     (if bc_stateStack (host_blockchain h) = [] then h
      else upd_blockchain (\<lambda>c. c\<lparr>bc_stateStack := butlast (bc_stateStack c)\<rparr>) h)"

definition RevertToSnapshot :: "'w vmEnv \<Rightarrow> int \<Rightarrow> 'w vmHost \<Rightarrow> 'w vmHost" where
  "RevertToSnapshot E snapshot h =
     h\<lparr>host_world := snd (hook_RevertToSnapshot (env_hook E) (host_world h) snapshot)\<rparr>"

section \<open>What the cache means\<close>

text \<open>
  The balance an address has at this point of the execution: the node's balance (or the one
  already read from it) plus the delta accumulated by the execution.
\<close>

definition node_balance :: "'w vmEnv \<Rightarrow> 'w vmHost \<Rightarrow> address \<Rightarrow> int option" where
  "node_balance E h addr =
     (case user_account E h addr of Inr (Some account) \<Rightarrow> Some (ua_Balance account) | _ \<Rightarrow> None)"

definition delta_of :: "'w vmHost \<Rightarrow> address \<Rightarrow> int" where
  "delta_of h addr =
     (case map_get (GetOutputAccounts (host_output h)) addr of
        None \<Rightarrow> 0
      | Some a \<Rightarrow> (case oa_BalanceDelta a of None \<Rightarrow> 0 | Some d \<Rightarrow> d))"

definition known_balance :: "'w vmEnv \<Rightarrow> 'w vmHost \<Rightarrow> address \<Rightarrow> int option" where
  "known_balance E h addr =
     (case map_get (GetOutputAccounts (host_output h)) addr of
        None \<Rightarrow> node_balance E h addr
      | Some a \<Rightarrow> (case oa_Balance a of None \<Rightarrow> node_balance E h addr | Some b \<Rightarrow> Some b))"

definition current_balance :: "'w vmEnv \<Rightarrow> 'w vmHost \<Rightarrow> address \<Rightarrow> int" where
  "current_balance E h addr =
     (case known_balance E h addr of None \<Rightarrow> 0 | Some b \<Rightarrow> b + delta_of h addr)"

lemma GetBalanceBigInt_spec:
  assumes "wf_output (host_output h)"
  obtains h' where "GetBalanceBigInt E addr h = Some (current_balance E h addr, h')"
    and "wf_output (host_output h')"
    and "\<And>a. delta_of h' a = delta_of h a" and "\<And>a. current_balance E h' a = current_balance E h a"
    and "\<And>a. known_balance E h' a = known_balance E h a"
    and "h' = h\<lparr>host_output := host_output h'\<rparr>"
    and "oc_stateStack (host_output h') = oc_stateStack (host_output h)"
proof -
  obtain a isNew out where acc: "GetOutputAccount addr (host_output h) = ((a, isNew), out)"
    by (metis prod.collapse)
  note wf = wf_GetOutputAccount [OF assms acc]
  note accs = GetOutputAccount_cases [OF acc]
  have stk: "oc_stateStack out = oc_stateStack (host_output h)"
    using acc by (auto simp: GetOutputAccount_def put_account_def split: option.splits)
  obtain d where d: "oa_BalanceDelta a = Some d" using wf(2) by (auto simp: wf_account_def)
  show thesis
  proof (cases "isNew \<or> oa_Balance a = None")
    case False
    then have "map_get (GetOutputAccounts (host_output h)) addr = Some a"
      using acc by (auto simp: GetOutputAccount_def split: option.splits)
    moreover from this have "out = host_output h" using acc by (simp add: GetOutputAccount_def)
    ultimately show thesis
      using False acc d assms
      by (intro that [of h]) (auto simp: GetBalanceBigInt_def current_balance_def known_balance_def delta_of_def)
  next
    case True
    then have known: "known_balance E h addr = node_balance E h addr"
      and delta: "delta_of h addr = d" and new: "isNew \<Longrightarrow> d = 0"
      using accs acc d
      by (auto simp: known_balance_def delta_of_def GetOutputAccount_def NewVMOutputAccount_def
          zeroOutputAccount_def split: option.splits)
    show thesis
    proof (cases "node_balance E h addr")
      case None
      let ?h' = "h\<lparr>host_output := out\<rparr>"
      have "GetBalanceBigInt E addr h = Some (current_balance E h addr, ?h')"
        using True acc d None known
        by (auto simp: GetBalanceBigInt_def current_balance_def node_balance_def Let_def
            split: sum.splits option.splits)
      moreover have "delta_of ?h' x = delta_of h x" "current_balance E ?h' x = current_balance E h x"
        "known_balance E ?h' x = known_balance E h x" for x
        using True accs d delta known None
        by (auto simp: delta_of_def current_balance_def known_balance_def node_balance_def
            NewVMOutputAccount_def zeroOutputAccount_def split: option.splits sum.splits)
      ultimately show thesis using wf stk by (intro that [of ?h']) auto
    next
      case (Some b)
      let ?h' = "h\<lparr>host_output := put_account addr (a\<lparr>oa_Balance := Some b\<rparr>) out\<rparr>"
      have "GetBalanceBigInt E addr h = Some (current_balance E h addr, ?h')"
        using True acc d Some known delta new
        by (auto simp: GetBalanceBigInt_def current_balance_def node_balance_def Let_def
            split: sum.splits option.splits)
      moreover have "delta_of ?h' x = delta_of h x" "current_balance E ?h' x = current_balance E h x"
        "known_balance E ?h' x = known_balance E h x" for x
        using accs d delta known Some
        by (auto simp: delta_of_def current_balance_def known_balance_def node_balance_def
            split: option.splits sum.splits)
      moreover have "wf_output (host_output ?h')"
        using wf by (auto intro!: wf_put_account simp: wf_account_def)
      ultimately show thesis using stk by (intro that [of ?h']) (auto simp: put_account_def)
    qed
  qed
qed

text \<open>
  Reading a balance returns the balance the account has at this point of the execution -
  the node's balance plus the changes of the running transaction, or zero if the node does not
  know the account - and reading changes no balance.
\<close>

theorem GetBalanceBigInt_current:
  assumes "wf_output (host_output h)"
  shows "\<exists>h'. GetBalanceBigInt E addr h = Some (current_balance E h addr, h')
    \<and> wf_output (host_output h') \<and> (\<forall>a. current_balance E h' a = current_balance E h a)
    \<and> h' = h\<lparr>host_output := host_output h'\<rparr>"
  by (rule GetBalanceBigInt_spec [OF assms, of E addr]) blast

theorem GetBalanceBigInt_current_witness:
  "\<exists>h'. GetBalanceBigInt sample_env [1] sample_host = Some (1000, h')"
proof -
  have "current_balance sample_env sample_host [1] = 1000"
    by (simp add: current_balance_def known_balance_def node_balance_def delta_of_def GetOutputAccounts_def
        sample_defs)
  moreover have "wf_output (host_output sample_host)"
    by (simp add: wf_output_def wf_vmOutput_def sample_defs)
  ultimately show ?thesis using GetBalanceBigInt_current [of sample_host sample_env "[1]"] by auto
qed

end
