(* ===== verification/OutputTransfers.thy ===== *)
theory OutputTransfers
  imports BlockchainContext
begin

text \<open>
  The output context of \<open>vmhost/contexts/output.go\<close>, second part: the operations that
  involve the other contexts. Logs, value and ESDT transfers (with
  \<open>vmHost.ExecuteESDTTransfer\<close> of \<open>hostCore/execution.go\<close>, which the ESDT transfer calls),
  the final output and the output built for an error.

  The two account pointers of \<open>TransferValueOnly\<close> may be the same account: the destination is
  read again after the sender was written, which is what the shared pointer does.
\<close>

section \<open>Logs\<close>

definition WriteLog :: "address \<Rightarrow> bytes list \<Rightarrow> bytes \<Rightarrow> 'w vmHost \<Rightarrow> 'w vmHost" where
  "WriteLog addr topics data h =
     (if rc_readOnly (host_runtime h) then h
      else let newLogEntry = \<lparr>le_Address = addr, le_Data = [data], le_Identifier = [], le_Topics = []\<rparr>;
               newLogEntry = (case topics of
                                [] \<Rightarrow> newLogEntry
                              | t # ts \<Rightarrow> newLogEntry\<lparr>le_Identifier := t, le_Topics := ts\<rparr>)
           in upd_output (\<lambda>c. c\<lparr>oc_outputState := (oc_outputState c)\<lparr>vo_Logs :=
                vo_Logs (oc_outputState c) @ [newLogEntry]\<rparr>\<rparr>) h)"

section \<open>Value transfers\<close>

definition hasSufficientBalance ::
  "'w vmEnv \<Rightarrow> address \<Rightarrow> int \<Rightarrow> 'w vmHost \<Rightarrow> (bool \<times> 'w vmHost) option" where
  "hasSufficientBalance E addr value h = do {
     (senderBalance, h) \<leftarrow> GetBalanceBigInt E addr h;
     Some (senderBalance \<ge> value, h)
   }"

definition move_value :: "address \<Rightarrow> address \<Rightarrow> int \<Rightarrow> outputContext \<Rightarrow> outputContext option" where
  "move_value destination sender value c =
     (let ((senderAcc, _), c) = GetOutputAccount sender c;
          ((_, _), c) = GetOutputAccount destination c
      in do {
        senderDelta \<leftarrow> oa_BalanceDelta senderAcc;
        let c = put_account sender (senderAcc\<lparr>oa_BalanceDelta := Some (senderDelta - value)\<rparr>) c;
        let ((destAcc, _), c) = GetOutputAccount destination c;
        destDelta \<leftarrow> oa_BalanceDelta destAcc;
        Some (put_account destination (destAcc\<lparr>oa_BalanceDelta := Some (destDelta + value)\<rparr>) c)
      })"

definition TransferValueOnly ::
  "'w vmEnv \<Rightarrow> address \<Rightarrow> address \<Rightarrow> int \<Rightarrow> bool \<Rightarrow> 'w vmHost \<Rightarrow> (go_error option \<times> 'w vmHost) option" where
  "TransferValueOnly E destination sender value checkPayable h =
     (if value < 0 then Some (Some (Sentinel ErrTransferNegativeValue), h)
      else do {
        (ok, h) \<leftarrow> hasSufficientBalance E sender value h;
        if \<not> ok then Some (Some (Sentinel ErrTransferInsufficientFunds), h)
        else (case IsPayable E destination h of
                Inl err \<Rightarrow> Some (Some err, h)
              | Inr payable \<Rightarrow>
                  let isAsyncCall = (IsVMV3Enabled E
                                     \<and> vi_CallType (rc_vmInput (host_runtime h)) = AsynchronousCall);
                      checkPayable = (checkPayable \<or> \<not> IsESDTFunctionsEnabled E);
                      hasValue = (value > 0)
                  in if checkPayable \<and> \<not> payable \<and> hasValue \<and> \<not> isAsyncCall
                     then Some (Some (Sentinel ErrAccountNotPayable), h)
                     else do {
                       out \<leftarrow> move_value destination sender value (host_output h);
                       Some (None, h\<lparr>host_output := out\<rparr>)
                     })
      })"

definition append_transfer :: "address \<Rightarrow> OutputTransfer \<Rightarrow> outputContext \<Rightarrow> outputContext" where
  "append_transfer destination t c =
     (let ((destAcc, _), c) = GetOutputAccount destination c
      in put_account destination
           (destAcc\<lparr>oa_OutputTransfers := oa_OutputTransfers destAcc @ [t]\<rparr>) c)"

definition Transfer ::
  "'w vmEnv \<Rightarrow> address \<Rightarrow> address \<Rightarrow> u64 \<Rightarrow> u64 \<Rightarrow> int \<Rightarrow> bytes \<Rightarrow> CallType \<Rightarrow> 'w vmHost \<Rightarrow>
   (go_error option \<times> 'w vmHost) option" where
  "Transfer E destination sender gasLimit gasLocked value input callType h = do {
     let checkPayableIfNotCallback = (gasLimit > 0 \<and> callType \<noteq> AsynchronousCallBack);
     (err, h) \<leftarrow> TransferValueOnly E destination sender value checkPayableIfNotCallback h;
     case err of
       Some e \<Rightarrow> Some (Some e, h)
     | None \<Rightarrow>
         Some (None, upd_output (append_transfer destination
           \<lparr>ot_Value = value, ot_GasLimit = gasLimit, ot_GasLocked = gasLocked, ot_Data = input,
            ot_CallType = callType, ot_SenderAddress = sender\<rparr>) h)
   }"

section \<open>ESDT transfers\<close>

fun sub_transfers_gas :: "u64 \<Rightarrow> OutputTransfer list \<Rightarrow> u64" where
  "sub_transfers_gas gas [] = gas"
| "sub_transfers_gas gas (t # ts) = sub_transfers_gas (SubUint64 gas (ot_GasLimit t)) ts"

fun sub_accounts_gas :: "u64 \<Rightarrow> (address, OutputAccount) gomap \<Rightarrow> u64" where
  "sub_accounts_gas gas [] = gas"
| "sub_accounts_gas gas ((_, outAcc) # rest) =
     sub_accounts_gas (sub_transfers_gas gas (oa_OutputTransfers outAcc)) rest"

definition esdtTransferInput ::
  "'w vmEnv \<Rightarrow> address \<Rightarrow> address \<Rightarrow> bytes \<Rightarrow> u64 \<Rightarrow> int \<Rightarrow> CallType \<Rightarrow> 'w vmHost \<Rightarrow> ContractCallInput" where
  "esdtTransferInput E destination sender tokenIdentifier nonce value callType h =
     (let input = \<lparr>ci_VMInput =
            \<lparr>vi_CallerAddr = sender, vi_Arguments = [], vi_CallValue = Some 0, vi_CallType = callType,
             vi_GasPrice = vi_GasPrice (rc_vmInput (host_runtime h)), vi_GasProvided = GasLeft h,
             vi_GasLocked = 0, vi_ESDTTransfers = [], vi_ReturnCallAfterError = False,
             vi_OriginalTxHash = [], vi_CurrentTxHash = [], vi_PrevTxHash = []\<rparr>,
            ci_RecipientAddr = destination, ci_Function = env_ESDTTransfer E,
            ci_AllowInitFunction = False\<rparr>
      in if nonce > 0 then
           input\<lparr>ci_Function := env_ESDTNFTTransfer E, ci_RecipientAddr := sender,
             ci_VMInput := (ci_VMInput input)\<lparr>vi_Arguments :=
               [tokenIdentifier, big_Bytes (uint nonce), big_Bytes value, destination]\<rparr>\<rparr>
         else
           input\<lparr>ci_VMInput := (ci_VMInput input)\<lparr>vi_Arguments := [tokenIdentifier, big_Bytes value]\<rparr>\<rparr>)"

text \<open>The output is dropped by the only caller when there is an error.\<close>

definition ExecuteESDTTransfer ::
  "'w vmEnv \<Rightarrow> address \<Rightarrow> address \<Rightarrow> bytes \<Rightarrow> u64 \<Rightarrow> int \<Rightarrow> CallType \<Rightarrow> 'w vmHost \<Rightarrow>
   ((go_error + VMOutput) \<times> u64 \<times> 'w vmHost) option" where
  "ExecuteESDTTransfer E destination sender tokenIdentifier nonce value callType h =
     (let input = esdtTransferInput E destination sender tokenIdentifier nonce value callType h;
          gasProvided = vi_GasProvided (ci_VMInput input);
          (r, h) = ProcessBuiltInFunction E input h
      in case r of
           Inl err \<Rightarrow> Some (Inl err, gasProvided, h)
         | Inr vmOutput \<Rightarrow>
             if vo_ReturnCode vmOutput \<noteq> Ok
             then Some (Inl (Sentinel ErrExecutionFailed), gasProvided, h)
             else let gasConsumed = sub_accounts_gas
                        (SubUint64 gasProvided (vo_GasRemaining vmOutput)) (vo_OutputAccounts vmOutput)
                  in if callType \<noteq> AsynchronousCallBack then
                       if GasLeft h < gasConsumed
                       then Some (Inl (Sentinel ErrNotEnoughGas), gasProvided, h)
                       else do { h \<leftarrow> UseGas gasConsumed h; Some (Inr vmOutput, gasConsumed, h) }
                     else Some (Inr vmOutput, gasConsumed, h))"

abbreviation at_sign :: bytes where
  "at_sign \<equiv> bytes_of_string ''@''"

fun hex_args :: "bytes list \<Rightarrow> bytes" where
  "hex_args [] = []"
| "hex_args (arg # args) = at_sign @ hex_encode arg @ hex_args args"

definition esdt_transfer_data ::
  "'w vmEnv \<Rightarrow> address \<Rightarrow> bytes \<Rightarrow> u64 \<Rightarrow> int \<Rightarrow> bool \<Rightarrow> VMOutput \<Rightarrow> bytes" where
  "esdt_transfer_data E destination tokenIdentifier nonce value sameShard vmOutput =
     (if nonce > 0 then
        let data = bytes_of_string (env_ESDTNFTTransfer E) @ at_sign @ hex_encode tokenIdentifier
              @ at_sign @ hex_encode (big_Bytes (uint nonce)) @ at_sign @ hex_encode (big_Bytes value)
        in if sameShard then data @ at_sign @ hex_encode destination
           else (case map_get (vo_OutputAccounts vmOutput) destination of
                   Some outTransfer \<Rightarrow>
                     (case oa_OutputTransfers outTransfer of [t] \<Rightarrow> ot_Data t | _ \<Rightarrow> data)
                 | None \<Rightarrow> data)
      else bytes_of_string (env_ESDTTransfer E) @ at_sign @ hex_encode tokenIdentifier
             @ at_sign @ hex_encode (big_Bytes value))"

definition TransferESDT ::
  "'w vmEnv \<Rightarrow> address \<Rightarrow> address \<Rightarrow> bytes \<Rightarrow> u64 \<Rightarrow> int \<Rightarrow> ContractCallInput option \<Rightarrow> 'w vmHost \<Rightarrow>
   (u64 \<times> go_error option \<times> 'w vmHost) option" where
  "TransferESDT E destination sender tokenIdentifier nonce value callInput h = do {
     let isSmartContract = IsSmartContract E destination h;
     let sameShard = AreInSameShard E sender destination h;
     let isExecution = (isSmartContract \<and> callInput \<noteq> None);
     let callType = (if isExecution then ESDTTransferAndExecute else DirectCall);
     (r, gasConsumedByTransfer, h) \<leftarrow>
        ExecuteESDTTransfer E destination sender tokenIdentifier nonce value callType h;
     case r of
       Inl err \<Rightarrow> Some (0, Some err, h)
     | Inr vmOutput \<Rightarrow>
         (let callGas = (case callInput of
                           Some ci \<Rightarrow> if isSmartContract then Some (vi_GasProvided (ci_VMInput ci)) else None
                         | None \<Rightarrow> None)
          in case callGas of
               Some provided \<Rightarrow>
                 if gasConsumedByTransfer > provided then Some (0, Some (Sentinel ErrNotEnoughGas), h)
                 else let gasRemaining = provided - gasConsumedByTransfer
                      in if gasRemaining > GasLeft h then Some (0, Some (Sentinel ErrNotEnoughGas), h)
                         else do {
                           h \<leftarrow> (if \<not> sameShard then UseGas gasRemaining h else Some h);
                           Some (gasRemaining, None, h)
                         }
             | None \<Rightarrow> Some (0, None, h)) \<bind>
         (\<lambda>(gasRemaining, err, h).
            case err of
              Some e \<Rightarrow> Some (0, Some e, h)
            | None \<Rightarrow>
                let data = esdt_transfer_data E destination tokenIdentifier nonce value sameShard vmOutput;
                    data = (case callInput of
                              None \<Rightarrow> data
                            | Some ci \<Rightarrow> data @ at_sign @ hex_encode (bytes_of_string (ci_Function ci))
                                         @ hex_args (vi_Arguments (ci_VMInput ci)));
                    outputTransfer = \<lparr>ot_Value = 0,
                       ot_GasLimit = (if sameShard then 0 else gasRemaining), ot_GasLocked = 0,
                       ot_Data = data, ot_CallType = DirectCall, ot_SenderAddress = sender\<rparr>;
                    h = upd_output (append_transfer destination outputTransfer) h;
                    h = upd_output (\<lambda>c. c\<lparr>oc_outputState := (oc_outputState c)\<lparr>vo_Logs :=
                          vo_Logs (oc_outputState c) @ vo_Logs vmOutput\<rparr>\<rparr>) h
                in Some (gasRemaining, None, h))
   }"

section \<open>The final output\<close>

fun first_match :: "go_error \<Rightarrow> (sentinel \<times> ReturnCode) list \<Rightarrow> ReturnCode \<Rightarrow> ReturnCode option" where
  "first_match err [] fallback = Some fallback"
| "first_match err ((s, code) # rest) fallback =
     (case errors_Is err s of
        None \<Rightarrow> None
      | Some True \<Rightarrow> Some code
      | Some False \<Rightarrow> first_match err rest fallback)"

definition resolveReturnCodeFromError :: "go_error option \<Rightarrow> ReturnCode option" where
  "resolveReturnCodeFromError err =
     (case err of
        None \<Rightarrow> Some Ok
      | Some e \<Rightarrow> first_match e
          [(ErrSignalError, UserError),
           (ErrFuncNotFound, FunctionNotFound),
           (ErrFunctionNonvoidSignature, FunctionWrongSignature),
           (ErrInvalidFunction, UserError),
           (ErrNotEnoughGas, OutOfGas),
           (ErrContractNotFound, ContractNotFound),
           (ErrContractInvalid, ContractInvalid),
           (ErrUpgradeFailed, UpgradeFailed),
           (ErrTransferInsufficientFunds, OutOfFunds)] ExecutionFailed)"

text \<open>
  The output for an error; the host is returned too because the error is recorded in the
  runtime and the gas of the current account is updated. The recorded name is that of the
  function being called.
\<close>

definition CreateVMOutputInCaseOfError ::
  "'w vmEnv \<Rightarrow> go_error \<Rightarrow> 'w vmHost \<Rightarrow> (VMOutput \<times> 'w vmHost) option" where
  "CreateVMOutputInCaseOfError E err h = do {
     let h = upd_runtime (\<lambda>c. AddError E (Some err) (Some [rc_callFunction c]) c) h;
     let current = vo_ReturnMessage (oc_outputState (host_output h));
     signal \<leftarrow> errors_Is err ErrSignalError;
     let message = (if signal then current else if current \<noteq> [] then current else error_text err);
     returnCode \<leftarrow> resolveReturnCodeFromError (Some err);
     let vmOutput = \<lparr>vo_ReturnData = [], vo_ReturnCode = returnCode, vo_ReturnMessage = message,
           vo_GasRemaining = 0, vo_GasRefund = Some 0, vo_OutputAccounts = [],
           vo_DeletedAccounts = [], vo_TouchedAccounts = [], vo_Logs = []\<rparr>;
     Some (vmOutput, UpdateGasStateOnFailure h)
   }"

definition GetVMOutput :: "'w vmEnv \<Rightarrow> 'w vmHost \<Rightarrow> (VMOutput \<times> 'w vmHost) option" where
  "GetVMOutput E h =
     (let h = upd_output removeNonUpdatedCode h;
          h = upd_output (\<lambda>c. c\<lparr>oc_outputState := (oc_outputState c)\<lparr>vo_GasRemaining := GasLeft h\<rparr>\<rparr>) h;
          (err, h) = UpdateGasStateOnSuccess E h
      in case err of
           Some e \<Rightarrow> CreateVMOutputInCaseOfError E e h
         | None \<Rightarrow> Some (oc_outputState (host_output h), h))"

section \<open>Moving value\<close>

definition account_delta :: "outputContext \<Rightarrow> address \<Rightarrow> int" where
  "account_delta c addr =
     (case map_get (GetOutputAccounts c) addr of
        None \<Rightarrow> 0 | Some a \<Rightarrow> (case oa_BalanceDelta a of None \<Rightarrow> 0 | Some d \<Rightarrow> d))"

definition account_balance :: "outputContext \<Rightarrow> address \<Rightarrow> int option" where
  "account_balance c addr =
     (case map_get (GetOutputAccounts c) addr of None \<Rightarrow> None | Some a \<Rightarrow> oa_Balance a)"

lemma delta_of_account: "delta_of h = account_delta (host_output h)"
  by (simp add: delta_of_def account_delta_def fun_eq_iff)

lemma node_balance_output: "node_balance E (h\<lparr>host_output := c\<rparr>) = node_balance E h"
  by (simp add: node_balance_def fun_eq_iff)

lemma known_balance_account:
  "known_balance E h addr =
     (if account_balance (host_output h) addr = None then node_balance E h addr
      else account_balance (host_output h) addr)"
  by (simp add: known_balance_def account_balance_def split: option.splits)

lemma account_delta_put [simp]:
  "account_delta (put_account k a c) x =
     (if x = k then (case oa_BalanceDelta a of None \<Rightarrow> 0 | Some d \<Rightarrow> d) else account_delta c x)"
  by (simp add: account_delta_def)

lemma account_balance_put [simp]:
  "account_balance (put_account k a c) x = (if x = k then oa_Balance a else account_balance c x)"
  by (simp add: account_balance_def)

lemma GetOutputAccount_meaning:
  assumes "wf_output c" and "GetOutputAccount addr c = ((a, isNew), c')"
  shows "wf_output c'" and "wf_account addr a" and "oa_BalanceDelta a = Some (account_delta c addr)"
    and "oa_Balance a = account_balance c addr" and "account_delta c' = account_delta c"
    and "account_balance c' = account_balance c" and "oc_stateStack c' = oc_stateStack c"
    and "oc_codeUpdates c' = oc_codeUpdates c"
    and "map_get (GetOutputAccounts c') addr = Some a"
proof -
  show wf: "wf_output c'" "wf_account addr a" using wf_GetOutputAccount [OF assms] by auto
  note cases = GetOutputAccount_cases [OF assms(2)]
  show "map_get (GetOutputAccounts c') addr = Some a" using cases(1) by simp
  have new: "oa_BalanceDelta (NewVMOutputAccount addr) = Some 0" "oa_Balance (NewVMOutputAccount addr) = None"
    by (simp_all add: NewVMOutputAccount_def zeroOutputAccount_def)
  show "oa_BalanceDelta a = Some (account_delta c addr)" "oa_Balance a = account_balance c addr"
    "account_delta c' = account_delta c" "account_balance c' = account_balance c"
    "oc_stateStack c' = oc_stateStack c" "oc_codeUpdates c' = oc_codeUpdates c"
  proof -
    have "oa_BalanceDelta a = Some (account_delta c addr) \<and> oa_Balance a = account_balance c addr
      \<and> account_delta c' = account_delta c \<and> account_balance c' = account_balance c
      \<and> oc_stateStack c' = oc_stateStack c \<and> oc_codeUpdates c' = oc_codeUpdates c"
    proof (cases "map_get (GetOutputAccounts c) addr")
      case None
      then have "a = NewVMOutputAccount addr" "c' = put_account addr a c"
        using assms(2) by (auto simp: GetOutputAccount_def)
      then show ?thesis
        using None new by (auto simp: fun_eq_iff) (auto simp: account_delta_def account_balance_def)
    next
      case (Some b)
      then have "a = b" "c' = c" using assms(2) by (auto simp: GetOutputAccount_def)
      then show ?thesis
        using Some wf(2) by (auto simp: account_delta_def account_balance_def wf_account_def)
    qed
    then show "oa_BalanceDelta a = Some (account_delta c addr)" "oa_Balance a = account_balance c addr"
      "account_delta c' = account_delta c" "account_balance c' = account_balance c"
      "oc_stateStack c' = oc_stateStack c" "oc_codeUpdates c' = oc_codeUpdates c"
      by auto
  qed
qed

lemma move_value_spec:
  assumes "wf_output c"
  obtains c' where "move_value destination sender value c = Some c'" and "wf_output c'"
    and "\<And>a. account_delta c' a = account_delta c a - (if a = sender then value else 0)
                                   + (if a = destination then value else 0)"
    and "account_balance c' = account_balance c"
    and "oc_stateStack c' = oc_stateStack c" and "oc_codeUpdates c' = oc_codeUpdates c"
proof -
  obtain sa sn c1 where s: "GetOutputAccount sender c = ((sa, sn), c1)" by (metis prod.collapse)
  note S = GetOutputAccount_meaning [OF assms s]
  obtain da0 dn0 c2 where d0: "GetOutputAccount destination c1 = ((da0, dn0), c2)"
    by (metis prod.collapse)
  note D0 = GetOutputAccount_meaning [OF S(1) d0]
  define c3 where
    "c3 = put_account sender (sa\<lparr>oa_BalanceDelta := Some (account_delta c sender - value)\<rparr>) c2"
  have wf3: "wf_output c3"
    unfolding c3_def using D0(1) S(2) by (intro wf_put_account) (auto simp: wf_account_def)
  obtain da dn c4 where d: "GetOutputAccount destination c3 = ((da, dn), c4)" by (metis prod.collapse)
  note D = GetOutputAccount_meaning [OF wf3 d]
  let ?c' = "put_account destination
      (da\<lparr>oa_BalanceDelta := Some (account_delta c3 destination + value)\<rparr>) c4"
  have "move_value destination sender value c = Some ?c'"
    using s d0 d S(3) D(3) by (simp add: move_value_def c3_def)
  moreover have "wf_output ?c'" using D by (intro wf_put_account) (auto simp: wf_account_def)
  ultimately show thesis
    using S D0 D by (intro that [of ?c']) (auto simp: c3_def fun_eq_iff)
qed

section \<open>Value transfers\<close>

text \<open>The error a transfer returns, as a function of the balances.\<close>

definition transfer_error ::
  "'w vmEnv \<Rightarrow> address \<Rightarrow> address \<Rightarrow> int \<Rightarrow> bool \<Rightarrow> 'w vmHost \<Rightarrow> go_error option" where
  "transfer_error E destination sender value checkPayable h =
     (if value < 0 then Some (Sentinel ErrTransferNegativeValue)
      else if current_balance E h sender < value then Some (Sentinel ErrTransferInsufficientFunds)
      else case hook_IsPayable (env_hook E) (host_world h) destination of
             Inl err \<Rightarrow> Some err
           | Inr payable \<Rightarrow>
               if (checkPayable \<or> \<not> IsESDTFunctionsEnabled E) \<and> \<not> payable \<and> 0 < value
                  \<and> \<not> (IsVMV3Enabled E \<and> vi_CallType (rc_vmInput (host_runtime h)) = AsynchronousCall)
               then Some (Sentinel ErrAccountNotPayable) else None)"

lemma TransferValueOnly_spec:
  assumes wf: "wf_output (host_output h)"
  obtains h' where
    "TransferValueOnly E destination sender value checkPayable h =
       Some (transfer_error E destination sender value checkPayable h, h')"
    and "wf_output (host_output h')" and "h' = h\<lparr>host_output := host_output h'\<rparr>"
    and "oc_stateStack (host_output h') = oc_stateStack (host_output h)"
    and "\<And>a. delta_of h' a = delta_of h a +
           (if transfer_error E destination sender value checkPayable h = None
            then (if a = destination then value else 0) - (if a = sender then value else 0) else 0)"
    and "\<And>a. known_balance E h' a = None \<longleftrightarrow> known_balance E h a = None"
    and "\<And>a. current_balance E h' a = current_balance E h a +
           (if transfer_error E destination sender value checkPayable h = None \<and> known_balance E h a \<noteq> None
            then (if a = destination then value else 0) - (if a = sender then value else 0) else 0)"
proof (cases "value < 0")
  case True
  then show thesis
    by (intro that [of h]) (auto simp: TransferValueOnly_def transfer_error_def wf)
next
  case False
  note nonneg = False
  obtain h1 where bal: "GetBalanceBigInt E sender h = Some (current_balance E h sender, h1)"
    and wf1: "wf_output (host_output h1)" and delta1: "\<And>a. delta_of h1 a = delta_of h a"
    and cur1: "\<And>a. current_balance E h1 a = current_balance E h a"
    and kn1: "\<And>a. known_balance E h1 a = known_balance E h a"
    and frame1: "h1 = h\<lparr>host_output := host_output h1\<rparr>"
    and stack1: "oc_stateStack (host_output h1) = oc_stateStack (host_output h)"
    by (rule GetBalanceBigInt_spec [OF wf, of E sender]) blast
  obtain c' where mv: "move_value destination sender value (host_output h1) = Some c'"
    and wf': "wf_output c'"
    and delta': "\<And>a. account_delta c' a = account_delta (host_output h1) a
        - (if a = sender then value else 0) + (if a = destination then value else 0)"
    and bal': "account_balance c' = account_balance (host_output h1)"
    and stack': "oc_stateStack c' = oc_stateStack (host_output h1)"
    by (rule move_value_spec [OF wf1, of destination sender "value"]) blast
  have rt: "host_runtime h1 = host_runtime h" by (subst frame1) simp
  have "host_world h1 = host_world h" by (subst frame1) simp
  then have pay: "IsPayable E destination h1 = hook_IsPayable (env_hook E) (host_world h) destination"
    by (simp add: IsPayable_def)
  show thesis
  proof (cases "transfer_error E destination sender value checkPayable h")
    case None
    let ?h' = "h1\<lparr>host_output := c'\<rparr>"
    have "TransferValueOnly E destination sender value checkPayable h = Some (None, ?h')"
      using None nonneg bal pay rt mv
      by (auto simp: TransferValueOnly_def hasSufficientBalance_def transfer_error_def Let_def
          split: if_splits sum.splits)
    moreover have kn: "known_balance E ?h' a = known_balance E h a" for a
      using kn1 [of a] bal' by (auto simp: known_balance_account node_balance_output split: if_splits)
    moreover have dl: "delta_of ?h' a = delta_of h a
        + ((if a = destination then value else 0) - (if a = sender then value else 0))" for a
      using delta' [of a] delta1 [of a] by (simp add: delta_of_account)
    moreover have "?h' = h\<lparr>host_output := host_output ?h'\<rparr>" by (subst frame1) simp
    ultimately show thesis
      using None wf' stack' stack1
      by (intro that [of ?h']) (auto simp: current_balance_def split: option.splits)
  next
    case (Some e)
    have "TransferValueOnly E destination sender value checkPayable h = Some (Some e, h1)"
      using Some nonneg bal pay rt
      by (auto simp: TransferValueOnly_def hasSufficientBalance_def transfer_error_def Let_def
          split: if_splits sum.splits)
    then show thesis
      using Some wf1 delta1 cur1 kn1 frame1 stack1 by (intro that [of h1]) auto
  qed
qed

text \<open>The sum of all balance deltas: what the execution as a whole created or destroyed.\<close>

definition total_delta :: "outputContext \<Rightarrow> int" where
  "total_delta c =
     sum_list (map (\<lambda>(_, a). case oa_BalanceDelta a of None \<Rightarrow> 0 | Some d \<Rightarrow> d) (GetOutputAccounts c))"

lemma account_delta_outside: "addr \<notin> fst ` set (GetOutputAccounts c) \<Longrightarrow> account_delta c addr = 0"
  using map_get_None [of "GetOutputAccounts c" addr] by (simp add: account_delta_def)

lemma sum_list_keys:
  fixes f :: "'v \<Rightarrow> int"
  assumes "wf_map m"
  shows "sum_list (map (\<lambda>(_, v). f v) m) = (\<Sum>k \<in> fst ` set m. case map_get m k of None \<Rightarrow> 0 | Some v \<Rightarrow> f v)"
  using assms
proof (induction m)
  case (Cons kv m)
  obtain k v where kv: "kv = (k, v)" by force
  have fresh: "k \<notin> fst ` set m" using Cons.prems kv by (auto simp: wf_map_def)
  have "(\<Sum>k' \<in> fst ` set m. case map_get (kv # m) k' of None \<Rightarrow> 0 | Some v \<Rightarrow> f v) =
        (\<Sum>k' \<in> fst ` set m. case map_get m k' of None \<Rightarrow> 0 | Some v \<Rightarrow> f v)"
    using fresh by (intro sum.cong) (auto simp: kv)
  then show ?case using Cons fresh kv by (simp add: wf_map_def)
qed simp

lemma total_delta_sum:
  assumes "wf_output c" and "finite S" and "fst ` set (GetOutputAccounts c) \<subseteq> S"
  shows "total_delta c = (\<Sum>a \<in> S. account_delta c a)"
proof -
  have wf: "wf_map (GetOutputAccounts c)"
    using wf_output_accounts [OF assms(1)] by (simp add: wf_accounts_def)
  have "total_delta c = (\<Sum>a \<in> fst ` set (GetOutputAccounts c). account_delta c a)"
    unfolding total_delta_def sum_list_keys [OF wf] by (intro sum.cong) (auto simp: account_delta_def)
  also have "\<dots> = (\<Sum>a \<in> S. account_delta c a)"
    using assms(2,3) by (intro sum.mono_neutral_left) (auto simp: account_delta_outside)
  finally show ?thesis .
qed

lemma total_delta_move:
  assumes "wf_output c" and "wf_output c'"
    and "\<And>a. account_delta c' a = account_delta c a
           + ((if a = destination then v else 0) - (if a = sender then v else 0))"
  shows "total_delta c' = total_delta c"
proof -
  let ?S = "fst ` set (GetOutputAccounts c) \<union> fst ` set (GetOutputAccounts c') \<union> {sender, destination}"
  have "total_delta c' = (\<Sum>a \<in> ?S. account_delta c' a)"
    using assms(2) by (intro total_delta_sum) auto
  also have "\<dots> = (\<Sum>a \<in> ?S. account_delta c a)"
    by (simp add: assms(3) sum.distrib sum_subtractf)
  also have "\<dots> = total_delta c"
    using assms(1) by (intro total_delta_sum [symmetric]) auto
  finally show ?thesis .
qed

section \<open>Return codes of errors\<close>

lemma first_match_in: "first_match e cs d = Some r \<Longrightarrow> r = d \<or> r \<in> snd ` set cs"
  by (induction e cs d rule: first_match.induct) (auto split: option.splits bool.splits)

fun plain_error :: "go_error \<Rightarrow> bool" where
  "plain_error (Wrappable _) = False"
| "plain_error (Wrapf _ e) = plain_error e"
| "plain_error _ = True"

lemma errors_Is_plain: "plain_error e \<Longrightarrow> \<exists>b. errors_Is e s = Some b"
  by (induction e rule: plain_error.induct) auto

lemma first_match_plain: "plain_error e \<Longrightarrow> \<exists>r. first_match e cs d = Some r"
  by (induction cs) (use errors_Is_plain [of e] in \<open>auto split: option.splits bool.splits\<close>)

lemma resolveReturnCodeFromError_not_Ok: "resolveReturnCodeFromError (Some e) \<noteq> Some Ok"
proof
  assume "resolveReturnCodeFromError (Some e) = Some Ok"
  from first_match_in [OF this [unfolded resolveReturnCodeFromError_def option.case]] show False by auto
qed

lemma CreateVMOutputInCaseOfError_plain:
  assumes "plain_error e"
  obtains o' h' where "CreateVMOutputInCaseOfError E e h = Some (o', h')"
proof -
  obtain b where "errors_Is e ErrSignalError = Some b" using errors_Is_plain [OF assms] by blast
  moreover obtain r where "resolveReturnCodeFromError (Some e) = Some r"
    using first_match_plain [OF assms] unfolding resolveReturnCodeFromError_def option.case by blast
  ultimately show thesis using that by (simp add: CreateVMOutputInCaseOfError_def Let_def)
qed

lemma CreateVMOutputInCaseOfError_fields:
  assumes "CreateVMOutputInCaseOfError E e h = Some (o', h')"
  shows "vo_ReturnCode o' \<noteq> Ok" and "vo_GasRemaining o' = 0" and "vo_GasRefund o' = Some 0"
    and "vo_OutputAccounts o' = []" and "vo_ReturnData o' = []" and "vo_Logs o' = []"
    and "Some (vo_ReturnCode o') = resolveReturnCodeFromError (Some e)"
  using assms resolveReturnCodeFromError_not_Ok [of e]
  by (auto simp: CreateVMOutputInCaseOfError_def Let_def split: bind_splits)

text \<open>
  C17. A value transfer neither creates nor destroys money and never overdraws the sender: it
  returns exactly the error that \<open>transfer_error\<close> describes; without an error the sender's
  delta falls and the receiver's grows by the value while every other account and the sum of
  all deltas stay the same, and the sender had at least the value transferred; with an error
  no delta changes.
\<close>

theorem TransferValueOnly_conserves:
  assumes "wf_output (host_output h)"
  shows "\<exists>err h'. TransferValueOnly E destination sender amount checkPayable h = Some (err, h')
    \<and> err = transfer_error E destination sender amount checkPayable h
    \<and> total_delta (host_output h') = total_delta (host_output h)
    \<and> (err = None \<longrightarrow> 0 \<le> amount \<and> amount \<le> current_balance E h sender
        \<and> (\<forall>a. delta_of h' a = delta_of h a + (if a = destination then amount else 0)
                 - (if a = sender then amount else 0)))
    \<and> (err \<noteq> None \<longrightarrow> (\<forall>a. delta_of h' a = delta_of h a))"
proof -
  let ?err = "transfer_error E destination sender amount checkPayable h"
  obtain h' where run: "TransferValueOnly E destination sender amount checkPayable h = Some (?err, h')"
    and wf': "wf_output (host_output h')"
    and delta: "\<And>a. delta_of h' a = delta_of h a + (if ?err = None
      then (if a = destination then amount else 0) - (if a = sender then amount else 0) else 0)"
    by (rule TransferValueOnly_spec [OF assms, of E destination sender amount checkPayable]) blast
  let ?v = "if ?err = None then amount else 0"
  have "total_delta (host_output h') = total_delta (host_output h)"
    by (rule total_delta_move [OF assms wf', of destination ?v sender])
      (use delta in \<open>auto simp: delta_of_account\<close>)
  moreover have "0 \<le> amount \<and> amount \<le> current_balance E h sender" if "?err = None"
    using that by (auto simp: transfer_error_def split: if_splits)
  ultimately show ?thesis using run delta by (intro exI [of _ ?err] exI [of _ h']) auto
qed

theorem TransferValueOnly_conserves_witness:
  "\<exists>h'. TransferValueOnly sample_env [2] [1] 40 False sample_host = Some (None, h')
     \<and> delta_of h' [1] = -40 \<and> delta_of h' [2] = 40 \<and> total_delta (host_output h') = 0"
proof -
  have "wf_output (host_output sample_host)" by (simp add: wf_output_def wf_vmOutput_def sample_defs)
  moreover have "transfer_error sample_env [2] [1] 40 False sample_host = None"
    by (simp add: transfer_error_def current_balance_def known_balance_def node_balance_def delta_of_def
        GetOutputAccounts_def IsESDTFunctionsEnabled_def sample_defs)
  moreover have "delta_of sample_host a = 0" "total_delta (host_output sample_host) = 0" for a
    by (simp_all add: delta_of_def total_delta_def GetOutputAccounts_def sample_defs)
  ultimately show ?thesis
    using TransferValueOnly_conserves [of sample_host sample_env "[2]" "[1]" 40 False] by auto
qed

text \<open>
  An execution that ends with an error reports a failure and nothing else: the return code
  is never \<open>Ok\<close>, it is the one that belongs to the error, and the output has no gas remaining,
  no refund, no accounts, no return data and no logs. An error that does not wrap others always
  produces such an output.
\<close>

theorem CreateVMOutputInCaseOfError_no_effects:
  "(\<forall>out h'. CreateVMOutputInCaseOfError E err h = Some (out, h') \<longrightarrow>
      vo_ReturnCode out \<noteq> Ok \<and> Some (vo_ReturnCode out) = resolveReturnCodeFromError (Some err)
      \<and> vo_GasRemaining out = 0 \<and> vo_GasRefund out = Some 0 \<and> vo_OutputAccounts out = []
      \<and> vo_ReturnData out = [] \<and> vo_Logs out = [])
   \<and> (plain_error err \<longrightarrow> CreateVMOutputInCaseOfError E err h \<noteq> None)"
  using CreateVMOutputInCaseOfError_fields [of E err h] CreateVMOutputInCaseOfError_plain [of err E h]
  by (metis option.distinct(1))

theorem CreateVMOutputInCaseOfError_no_effects_witness:
  "\<exists>out h'. CreateVMOutputInCaseOfError sample_env (Sentinel ErrNotEnoughGas) sample_host = Some (out, h')
     \<and> vo_ReturnCode out = OutOfGas \<and> vo_OutputAccounts out = []"
proof -
  have "resolveReturnCodeFromError (Some (Sentinel ErrNotEnoughGas)) = Some OutOfGas"
    by (simp add: resolveReturnCodeFromError_def)
  then show ?thesis
    using CreateVMOutputInCaseOfError_no_effects [of sample_env "Sentinel ErrNotEnoughGas" sample_host]
    by fastforce
qed

end
