(* ===== verification/RuntimeProofs.thy ===== *)
theory RuntimeProofs
  imports RuntimeContext Sample
begin

text \<open>
  Properties of the runtime context: its state stack implements the interface of the theory
  StateStack, popping an instance destroys only the instance that was running on top, and
  loads and stores of the linear memory have the obvious meaning whenever they are in bounds
  and never panic. The memory specifications assume a memory of less than $2^{31}$ bytes:
  offsets are signed 32-bit integers, so nothing beyond can be addressed.
\<close>

section \<open>State stack\<close>

definition normal_input :: "VMInput \<Rightarrow> bool" where
  "normal_input v \<longleftrightarrow> vi_CallValue v \<noteq> None \<and> vi_PrevTxHash v = []"

definition wf_runtime :: "runtimeContext \<Rightarrow> bool" where
  "wf_runtime c \<longleftrightarrow> normal_input (rc_vmInput c) \<and> (\<forall>s \<in> set (rc_stateStack c). normal_input (rs_vmInput s))"

lemma copyESDTTransfer_id [simp]: "copyESDTTransfer t = t"
  by (simp add: copyESDTTransfer_def)

lemma normal_copyVMInput [simp]: "normal_input (copyVMInput v)"
  by (simp add: normal_input_def copyVMInput_def)

lemma copyVMInput_id: "normal_input v \<Longrightarrow> copyVMInput v = v"
proof -
  have id: "copyESDTTransfer = (\<lambda>t. t)" by (simp add: fun_eq_iff)
  assume "normal_input v"
  then show ?thesis by (cases v) (auto simp: normal_input_def copyVMInput_def id)
qed

lemma instance_Clean_frame [simp, host_simps]:
  "rc_stateStack (instance_Clean p c) = rc_stateStack c"
  "rc_instanceStack (instance_Clean p c) = rc_instanceStack c"
  "runtime_active (instance_Clean p c) = runtime_active c"
  "rc_vmInput (instance_Clean p c) = rc_vmInput c" "rc_instance (instance_Clean p c) = rc_instance c"
  by (simp_all add: instance_Clean_def runtime_active_def)

lemma CleanWasmerInstance_frame [simp, host_simps]:
  "rc_stateStack (CleanWasmerInstance c) = rc_stateStack c"
  "rc_instanceStack (CleanWasmerInstance c) = rc_instanceStack c"
  "runtime_active (CleanWasmerInstance c) = runtime_active c"
  "rc_vmInput (CleanWasmerInstance c) = rc_vmInput c"
  by (auto simp: CleanWasmerInstance_def runtime_active_def instance_Clean_def split: option.splits)

lemma runtime_active_instance [simp]: "runtime_active (c\<lparr>rc_instance := i\<rparr>) = runtime_active c"
  "runtime_active (c\<lparr>rc_instanceStack := is\<rparr>) = runtime_active c"
  "runtime_active (c\<lparr>rc_stateStack := ss\<rparr>) = runtime_active c"
  by (simp_all add: runtime_active_def)

lemma popInstance_frame [simp, host_simps]:
  "rc_stateStack (popInstance c) = rc_stateStack c" "runtime_active (popInstance c) = runtime_active c"
  "rc_instanceStack (popInstance c) = butlast (rc_instanceStack c)"
  "rc_vmInput (popInstance c) = rc_vmInput c"
  by (simp_all add: popInstance_def Let_def)

lemma pushInstance_frame [simp, host_simps]:
  "rc_stateStack (pushInstance c) = rc_stateStack c" "runtime_active (pushInstance c) = runtime_active c"
  "rc_vmInput (pushInstance c) = rc_vmInput c"
  by (simp_all add: pushInstance_def)

lemma runtime_PopSetActiveState_active:
  assumes "rc_stateStack c \<noteq> []"
  shows "runtime_active (runtime_PopSetActiveState c) =
    (let s = last (rc_stateStack c) in s\<lparr>rs_vmInput := copyVMInput (rs_vmInput s)\<rparr>)"
  using assms by (simp add: runtime_PopSetActiveState_def SetVMInput_def Let_def) (simp add: runtime_active_def)

lemma wf_runtime_stack_ops [wf_intros]:
  assumes "wf_runtime c"
  shows "wf_runtime (runtime_PushState c)" "wf_runtime (runtime_PopSetActiveState c)"
    "wf_runtime (runtime_PopDiscard c)" "wf_runtime (runtime_ClearStateStack c)"
    "wf_runtime (runtime_InitStateFromContractCallInput input c)"
  using assms
  by (auto simp: wf_runtime_def runtime_PushState_def runtime_PopSetActiveState_def runtime_PopDiscard_def
      runtime_ClearStateStack_def runtime_InitStateFromContractCallInput_def SetVMInput_def Let_def
      dest: in_set_butlastD)

interpretation runtime_stack: state_stack runtime_PushState runtime_PopSetActiveState
    runtime_PopDiscard runtime_ClearStateStack runtime_active rc_stateStack wf_runtime
proof unfold_locales
  fix c
  assume wf: "wf_runtime c"
  then have in_id: "copyVMInput (rc_vmInput c) = rc_vmInput c"
    by (auto simp: wf_runtime_def copyVMInput_id)
  show "rc_stateStack (runtime_PushState c) = rc_stateStack c @ [runtime_active c]"
    by (simp add: runtime_PushState_def Let_def in_id runtime_active_def)
  show "runtime_active (runtime_PopSetActiveState c) = last (rc_stateStack c)" if "rc_stateStack c \<noteq> []"
  proof -
    have "normal_input (rs_vmInput (last (rc_stateStack c)))" using wf that by (auto simp: wf_runtime_def)
    then show ?thesis using that by (simp add: runtime_PopSetActiveState_active Let_def copyVMInput_id)
  qed
qed (simp_all add: wf_runtime_stack_ops, auto simp: runtime_PushState_def runtime_PopSetActiveState_def
    runtime_PopDiscard_def runtime_ClearStateStack_def SetVMInput_def Let_def)

section \<open>Instance stack\<close>

text \<open>
  The instances the runtime still refers to: the running one, those on the stack and the warm
  one. They are alive, and all allocated.
\<close>

definition live_instances :: "runtimeContext \<Rightarrow> inst_ptr set" where
  "live_instances c = set_option (rc_instance c) \<union> (\<Union>i \<in> set (rc_instanceStack c). set_option i)
     \<union> set_option (rc_warmInstance c)"

definition instances_ok :: "runtimeContext \<Rightarrow> bool" where
  "instances_ok c \<longleftrightarrow> (\<forall>p \<in> live_instances c. \<not> wi_Cleaned (rc_heap c p) \<and> p < rc_nextInstance c)"

text \<open>The running instance is not also below it on the stack, unless it is the warm one.\<close>

definition top_unshared :: "runtimeContext \<Rightarrow> bool" where
  "top_unshared c \<longleftrightarrow> (case rc_instance c of
     None \<Rightarrow> True
   | Some p \<Rightarrow> rc_warmInstance c = Some p \<or> Some p \<notin> set (rc_instanceStack c)
       \<or> last (rc_instanceStack c) = Some p)"

lemma popInstance_ok:
  assumes "instances_ok c" and "top_unshared c"
  shows "instances_ok (popInstance c)"
proof (cases "rc_instanceStack c = []")
  case True
  then show ?thesis using assms by (simp add: popInstance_def)
next
  case False
  let ?prev = "last (rc_instanceStack c)"
  have sub: "set (butlast (rc_instanceStack c)) \<subseteq> set (rc_instanceStack c)"
    by (auto dest: in_set_butlastD)
  have prev: "?prev \<in> set (rc_instanceStack c)" using False by simp
  show ?thesis
  proof (cases "?prev = rc_instance c")
    case True
    then show ?thesis
      using assms(1) False sub
      by (auto simp: popInstance_def Let_def instances_ok_def live_instances_def)
  next
    case diff: False
    let ?c = "c\<lparr>rc_instanceStack := butlast (rc_instanceStack c)\<rparr>"
    have pop: "popInstance c = (CleanWasmerInstance ?c)\<lparr>rc_instance := ?prev\<rparr>"
      using False diff by (simp add: popInstance_def Let_def)
    show ?thesis
    proof (cases "rc_instance c")
      case None
      then show ?thesis
        using assms(1) prev sub unfolding pop
        by (auto simp: CleanWasmerInstance_def instances_ok_def live_instances_def)
    next
      case (Some p)
      show ?thesis
      proof (cases "rc_warmInstance c = Some p")
        case True
        then show ?thesis
          using assms(1) prev sub Some unfolding pop
          by (auto simp: CleanWasmerInstance_def IsWarmInstance_def instances_ok_def live_instances_def)
      next
        case False
        then have "Some p \<notin> set (rc_instanceStack c)"
          using assms(2) Some diff by (auto simp: top_unshared_def)
        then show ?thesis
          using assms(1) prev sub Some False unfolding pop
          by (fastforce simp: CleanWasmerInstance_def IsWarmInstance_def instance_Clean_def
              instances_ok_def live_instances_def)
      qed
    qed
  qed
qed

section \<open>Linear memory\<close>

definition memory_of :: "runtimeContext \<Rightarrow> bytes option" where
  "memory_of c = Option.bind (current_instance c) wi_Memory"

lemma memory_of_Some:
  "memory_of c = Some m \<longleftrightarrow> (\<exists>p. rc_instance c = Some p \<and> wi_Memory (rc_heap c p) = Some m)"
  by (auto simp: memory_of_def current_instance_def bind_eq_Some_conv)

text \<open>Reading \<open>n\<close> bytes at \<open>o\<close>; what lies beyond the end reads as zero.\<close>

definition read_bytes :: "bytes \<Rightarrow> nat \<Rightarrow> nat \<Rightarrow> bytes" where
  "read_bytes m start n = go_copy_new n (drop start m)"

definition write_bytes :: "bytes \<Rightarrow> nat \<Rightarrow> bytes \<Rightarrow> bytes" where
  "write_bytes m start data = take start m @ data @ drop (start + length data) m"

lemma length_read_bytes [simp]: "length (read_bytes m start n) = n"
  by (simp add: read_bytes_def)

lemma read_write_bytes:
  "start + length data \<le> length m \<Longrightarrow> read_bytes (write_bytes m start data) start (length data) = data"
  by (simp add: read_bytes_def write_bytes_def go_copy_new_def)

lemma length_write_bytes [simp]:
  "start + length data \<le> length m \<Longrightarrow> length (write_bytes m start data) = length m"
  by (simp add: write_bytes_def)

lemma nth_read_bytes:
  "i < n \<Longrightarrow> read_bytes m start n ! i = (if start + i < length m then m ! (start + i) else 0)"
  by (auto simp: read_bytes_def go_copy_new_def nth_append)

lemma nonneg_i32:
  fixes x :: i32
  assumes "\<not> x <s 0"
  shows "sint x = int (unat x)" and "unat x < 2 ^ 31"
proof -
  have pos: "0 \<le> sint x" using assms by (simp add: word_sless_alt)
  have "uint x = sint x mod 2 ^ 32" using uint_sint [of x] by (simp add: take_bit_eq_mod)
  also have "\<dots> = sint x" using pos sint_bounds32 [of x] by (intro mod_pos_pos_trivial) auto
  finally show "sint x = int (unat x)" by simp
  then have "int (unat x) < 2 ^ 31" using sint_bounds32 [of x] by simp
  then show "unat x < 2 ^ 31" by (simp del: of_nat_unat)
qed

lemma unat_of_nat_u32: "n < 2 ^ 32 \<Longrightarrow> unat (of_nat n :: u32) = n"
  by (simp add: unat_of_nat take_bit_nat_eq_self)

lemma requestedEnd_spec:
  assumes "\<not> offset <s 0" and "\<not> len <s 0"
  shows "unat (AddInt32 offset len) = min (unat offset + unat len) (2 ^ 31 - 1)"
    and "sint (AddInt32 offset len) = int (min (unat offset + unat len) (2 ^ 31 - 1))"
proof -
  note o = nonneg_i32 [OF assms(1)] and l = nonneg_i32 [OF assms(2)]
  show s: "sint (AddInt32 offset len) = int (min (unat offset + unat len) (2 ^ 31 - 1))"
    using o l by (auto simp: sint_AddInt32 min_def simp del: of_nat_unat)
  then have "\<not> AddInt32 offset len <s 0" by (simp add: word_sless_alt)
  from nonneg_i32(1) [OF this] s
  show "unat (AddInt32 offset len) = min (unat offset + unat len) (2 ^ 31 - 1)"
    by (simp del: of_nat_unat of_nat_min)
qed

lemma go_copy_new_take: "n \<le> k \<or> length xs \<le> k \<Longrightarrow> go_copy_new n (take k xs) = go_copy_new n xs"
  by (auto simp: go_copy_new_def min_def)

definition load_error :: "bytes \<Rightarrow> i32 \<Rightarrow> i32 \<Rightarrow> go_error option" where
  "load_error m offset len =
     (if len = 0 then None
      else if offset <s 0 \<or> length m < unat offset
      then Some (Wrapf ''mem load: bad bounds'' (Sentinel ErrBadBounds))
      else if len <s 0 then Some (Wrapf ''mem load: negative length'' (Sentinel ErrNegativeLength))
      else None)"

lemma MemLoad_spec:
  assumes mem: "memory_of c = Some m" and size: "length m < 2 ^ 31"
  shows "MemLoad offset len c =
    Some (case load_error m offset len of
            Some err \<Rightarrow> Inl err
          | None \<Rightarrow> Inr (read_bytes m (unat offset) (unat len)))"
proof -
  obtain inst where inst: "current_instance c = Some inst" "wi_Memory inst = Some m"
    using mem by (auto simp: memory_of_def bind_eq_Some_conv)
  have ml: "unat (of_nat (length m) :: u32) = length m" using size by (simp add: unat_of_nat_u32)
  have gt: "(of_nat (length m) :: u32) < x \<longleftrightarrow> length m < unat x" for x
    by (simp add: word_less_nat_alt ml)
  consider "len = 0" | "len \<noteq> 0" "offset <s 0 \<or> length m < unat offset"
    | "len \<noteq> 0" "\<not> offset <s 0" "\<not> length m < unat offset" "len <s 0"
    | "len \<noteq> 0" "\<not> offset <s 0" "\<not> length m < unat offset" "\<not> len <s 0"
    by blast
  then show ?thesis
  proof cases
    case 1
    then show ?thesis by (simp add: MemLoad_def load_error_def read_bytes_def go_copy_new_def)
  next
    case 2
    then show ?thesis using inst by (auto simp: MemLoad_def load_error_def gt Let_def)
  next
    case 3
    then show ?thesis using inst by (auto simp: MemLoad_def load_error_def gt Let_def)
  next
    case 4
    note o = nonneg_i32 [OF 4(2)] and l = nonneg_i32 [OF 4(4)] and e = requestedEnd_spec [OF 4(2,4)]
    have n: "nat (sint len) = unat len" "nat (sint offset) = unat offset" using o l by simp_all
    show ?thesis
    proof (cases "length m < unat (AddInt32 offset len)")
      case True
      then show ?thesis
        using 4 inst o n
        by (simp add: MemLoad_def load_error_def gt Let_def go_slice_from_def go_slice_def read_bytes_def
            go_copy_new_take nat_diff_distrib del: of_nat_unat)
    next
      case False
      have "unat len \<le> unat (AddInt32 offset len) - unat offset
          \<or> length (drop (unat offset) m) \<le> unat (AddInt32 offset len) - unat offset"
        using False e size by auto
      moreover have "nat (sint (AddInt32 offset len) - sint offset) = unat (AddInt32 offset len) - unat offset"
        using e o by (simp del: of_nat_unat)
      moreover have "sint offset \<le> sint (AddInt32 offset len)" "sint (AddInt32 offset len) \<le> int (length m)"
        using False e o l 4(3) by (auto simp del: of_nat_unat)
      ultimately show ?thesis
        using 4 inst n o False
        by (simp add: MemLoad_def load_error_def gt Let_def go_slice_def read_bytes_def go_copy_new_take
            del: of_nat_unat)
    qed
  qed
qed

text \<open>Replacing the memory of the current instance changes nothing else.\<close>

definition with_memory :: "bytes \<Rightarrow> runtimeContext \<Rightarrow> runtimeContext" where
  "with_memory m c = (case set_memory m c of None \<Rightarrow> c | Some c' \<Rightarrow> c')"

lemma set_memory_Some: "memory_of c = Some m \<Longrightarrow> set_memory m' c = Some (with_memory m' c)"
  by (auto simp: memory_of_Some with_memory_def set_memory_def upd_instance_def)

lemma memory_of_with_memory [simp]: "memory_of c = Some m \<Longrightarrow> memory_of (with_memory m' c) = Some m'"
  by (auto simp: memory_of_def current_instance_def with_memory_def set_memory_def upd_instance_def
      bind_eq_Some_conv)

lemma with_memory_twice [simp]: "with_memory m2 (with_memory m1 c) = with_memory m2 c"
  by (auto simp: with_memory_def set_memory_def upd_instance_def split: option.splits)

text \<open>The memory a store works on: the current one, or the one grown by a page.\<close>

definition store_memory :: "'w vmEnv \<Rightarrow> bytes \<Rightarrow> nat \<Rightarrow> go_error + bytes" where
  "store_memory E m upto_byte = (if length m < upto_byte then env_MemoryGrow E m 1 else Inr m)"

lemma MemStore_spec:
  assumes mem: "memory_of c = Some m" and data: "data \<noteq> []" "length data < 2 ^ 31"
    and off: "\<not> offset <s 0" and size: "length m < 2 ^ 31 - 1"
    and grown: "\<And>m'. length m < unat offset + length data \<Longrightarrow> env_MemoryGrow E m 1 = Inr m' \<Longrightarrow>
      length m' < 2 ^ 31 - 1"
  shows "MemStore E offset data c =
    Some (case store_memory E m (unat offset + length data) of
            Inl err \<Rightarrow> (Some err, c)
          | Inr m' \<Rightarrow> if length m' < unat offset + length data
                       then (Some (Sentinel ErrBadUpperBounds), with_memory m' c)
                       else (None, with_memory (write_bytes m' (unat offset) data) c))"
proof -
  obtain inst where inst: "current_instance c = Some inst" "wi_Memory inst = Some m"
    using mem by (auto simp: memory_of_def bind_eq_Some_conv)
  let ?dl = "of_nat (length data) :: i32"
  have dl: "unat ?dl = length data" using data(2) by (simp add: unat_of_nat_u32)
  have dl0: "?dl \<noteq> 0" using dl data(1) by auto
  have sdl: "\<not> ?dl <s 0"
    using data(2) by (simp add: word_sless_alt signed_of_nat signed_take_bit_int_eq_self)
  let ?upto = "unat offset + length data"
  note e = requestedEnd_spec [OF off sdl, unfolded dl] and o = nonneg_i32 [OF off]
  have gt: "(of_nat (length x) :: u32) < AddInt32 offset ?dl \<longleftrightarrow> length x < ?upto" if "length x < 2 ^ 31 - 1" for x :: bytes
    using that by (auto simp: word_less_nat_alt unat_of_nat_u32 e)
  have copy: "go_copy_into x (sint offset) (sint (AddInt32 offset ?dl)) data = Some (write_bytes x (unat offset) data)"
    if "\<not> length x < ?upto" "length x < 2 ^ 31 - 1" for x
    using that e o
    by (auto simp: go_copy_into_def write_bytes_def Let_def nat_diff_distrib simp del: of_nat_unat)
  show ?thesis
  proof (cases "length m < ?upto")
    case False
    then show ?thesis
      using mem inst dl0 off
      by (simp add: MemStore_def store_memory_def gt [OF size] copy [OF _ size] set_memory_Some Let_def)
  next
    case True
    show ?thesis
    proof (cases "env_MemoryGrow E m 1")
      case (Inl err)
      then show ?thesis
        using True inst dl0 off by (simp add: MemStore_def store_memory_def gt [OF size] Let_def)
    next
      case (Inr m')
      have "length m' < 2 ^ 31 - 1" using grown True Inr by blast
      then show ?thesis
        using True Inr mem inst dl0 off
        by (simp add: MemStore_def store_memory_def gt [OF size] gt copy set_memory_Some Let_def)
    qed
  qed
qed

section \<open>Properties\<close>

text \<open>
  C6. A pop after a balanced computation restores exactly the runtime state that was pushed
  (input, contract address, function, read-only flag and asynchronous data) and the caller's
  stack, for any computation built from operations that leave the stack alone and from nested
  calls.
\<close>

theorem runtime_scope_restored:
  assumes "runtime_stack.balanced f" and "wf_runtime c"
  shows "runtime_active (runtime_PopSetActiveState (f (runtime_PushState c))) = runtime_active c
    \<and> rc_stateStack (runtime_PopSetActiveState (f (runtime_PushState c))) = rc_stateStack c"
  using runtime_stack.scope_restores [OF assms] by auto

lemma sample_wf_runtime: "wf_runtime sample_runtime"
  by (simp add: wf_runtime_def normal_input_def sample_runtime_def sample_input_def)

theorem runtime_scope_restored_witness:
  "runtime_active (runtime_PopSetActiveState
     (SetReadOnly True (runtime_PopSetActiveState (runtime_PushState (runtime_PushState sample_runtime)))))
   = runtime_active sample_runtime"
proof -
  have id: "runtime_stack.balanced (\<lambda>c. c)" by (rule runtime_stack.balanced.body) auto
  have ro: "runtime_stack.balanced (SetReadOnly True)"
    by (rule runtime_stack.balanced.body) (auto simp: SetReadOnly_def wf_runtime_def)
  have "runtime_stack.balanced
      (\<lambda>c. SetReadOnly True (runtime_PopSetActiveState (runtime_PushState c)))"
    using runtime_stack.balanced.seq [OF runtime_stack.balanced.scoped [OF id] ro] .
  from runtime_scope_restored [OF this sample_wf_runtime] show ?thesis by simp
qed

text \<open>
  C7. \<open>MemLoad\<close> never panics: it fails exactly for a bad offset or a negative length, and
  otherwise returns exactly as many bytes as asked for, those of the memory followed by zeros
  for what lies beyond its end.
\<close>

theorem MemLoad_meaning:
  assumes "memory_of c = Some m" and "length m < 2 ^ 31"
  shows "MemLoad offset len c =
    Some (case load_error m offset len of
            Some err \<Rightarrow> Inl err
          | None \<Rightarrow> Inr (read_bytes m (unat offset) (unat len)))"
  using assms by (rule MemLoad_spec)

lemma sample_memory: "memory_of sample_runtime = Some [1, 2, 3, 4, 5, 6, 7, 8]"
  by (simp add: memory_of_def current_instance_def sample_runtime_def sample_instance_def)

theorem MemLoad_meaning_witness: "MemLoad 6 4 sample_runtime = Some (Inr [7, 8, 0, 0])"
proof -
  have "replicate 2 (0 :: byte) = [0, 0]" by (simp add: numeral_2_eq_2)
  then show ?thesis
    using MemLoad_meaning [OF sample_memory, of 6 4]
    by (simp add: load_error_def read_bytes_def go_copy_new_def word_sless_alt)
qed

text \<open>
  C8. A store that fits the memory succeeds without growing it, writes exactly the given bytes
  and nothing else, and loading the same range afterwards returns them.
\<close>

theorem MemStore_then_MemLoad:
  assumes "memory_of c = Some m" and "data \<noteq> []" and "\<not> offset <s 0"
    and "length m < 2 ^ 31 - 1" and "unat offset + length data \<le> length m"
  shows "MemStore E offset data c = Some (None, with_memory (write_bytes m (unat offset) data) c)
    \<and> MemLoad offset (of_nat (length data)) (with_memory (write_bytes m (unat offset) data) c) =
      Some (Inr data)"
proof -
  have len: "length data < 2 ^ 31" using assms(4,5) by linarith
  have fits: "\<not> length m < unat offset + length data" using assms(5) by simp
  have dl: "unat (of_nat (length data) :: i32) = length data" using len by (simp add: unat_of_nat_u32)
  have ne: "of_nat (length data) \<noteq> (0 :: i32)" using dl assms(2) by auto
  have sdl: "\<not> (of_nat (length data) :: i32) <s 0"
    using len by (simp add: word_sless_alt signed_of_nat signed_take_bit_int_eq_self)
  have "MemStore E offset data c = Some (None, with_memory (write_bytes m (unat offset) data) c)"
    using MemStore_spec [OF assms(1,2) len assms(3,4), of E] fits by (simp add: store_memory_def)
  moreover have "MemLoad offset (of_nat (length data)) (with_memory (write_bytes m (unat offset) data) c) =
      Some (Inr data)"
    using MemLoad_spec [of "with_memory (write_bytes m (unat offset) data) c" "write_bytes m (unat offset) data"]
      assms dl sdl ne by (simp add: load_error_def read_write_bytes)
  ultimately show ?thesis by simp
qed

theorem MemStore_then_MemLoad_witness:
  "MemLoad 2 3 (with_memory [1, 2, 9, 8, 7, 6, 7, 8] sample_runtime) = Some (Inr [9, 8, 7])
   \<and> MemStore sample_env 2 [9, 8, 7] sample_runtime =
       Some (None, with_memory [1, 2, 9, 8, 7, 6, 7, 8] sample_runtime)"
  using MemStore_then_MemLoad [OF sample_memory, of "[9, 8, 7]" 2 sample_env]
  by (simp add: word_sless_alt write_bytes_def)

text \<open>
  Whatever a store does, it never panics and never damages memory it does not own: it
  returns, a failing store leaves the old contents in place (the memory may have grown), and a
  successful one changes only the bytes it was asked to write. The engine's \<open>memory.grow\<close> is
  assumed to append to the memory and to keep it addressable by 32-bit signed offsets.
\<close>

theorem MemStore_safe:
  assumes "memory_of c = Some m" and "length m < 2 ^ 31 - 1" and "length data < 2 ^ 31"
    and "\<And>m'. env_MemoryGrow E m 1 = Inr m' \<Longrightarrow> (\<exists>z. m' = m @ z) \<and> length m' < 2 ^ 31 - 1"
  shows "\<exists>err c' m'. MemStore E offset data c = Some (err, c') \<and> memory_of c' = Some m'
    \<and> length m \<le> length m'
    \<and> (\<forall>i < length m. (err \<noteq> None \<or> int i < sint offset \<or> sint offset + int (length data) \<le> int i)
         \<longrightarrow> m' ! i = m ! i)"
proof (cases "data = [] \<or> offset <s 0")
  case True
  have "of_nat (length data) = (0 :: i32) \<longleftrightarrow> data = []"
    using assms(3) unat_of_nat_u32 [of "length data"] by (cases "data = []") (auto simp: unat_eq_zero)
  then have "\<exists>err. MemStore E offset data c = Some (err, c)"
    using True assms(1) by (auto simp: MemStore_def memory_of_def bind_eq_Some_conv Let_def)
  then show ?thesis using assms(1) by blast
next
  case False
  let ?upto = "unat offset + length data"
  have off: "sint offset = int (unat offset)" using nonneg_i32(1) False by blast
  have spec: "MemStore E offset data c =
    Some (case store_memory E m ?upto of
            Inl err \<Rightarrow> (Some err, c)
          | Inr m' \<Rightarrow> if length m' < ?upto then (Some (Sentinel ErrBadUpperBounds), with_memory m' c)
                       else (None, with_memory (write_bytes m' (unat offset) data) c))"
    using MemStore_spec [OF assms(1) _ assms(3) _ assms(2)] False assms(4) by blast
  show ?thesis
  proof (cases "store_memory E m ?upto")
    case (Inl err)
    then show ?thesis using spec assms(1) by auto
  next
    case (Inr m')
    then obtain z where m': "m' = m @ z"
      using assms(4) by (fastforce simp: store_memory_def split: if_splits)
    show ?thesis
    proof (cases "length m' < ?upto")
      case True
      then show ?thesis using spec Inr assms(1) m' by (auto simp: nth_append)
    next
      case fits: False
      have "write_bytes m' (unat offset) data ! i = m ! i"
        if "i < length m" "int i < sint offset \<or> sint offset + int (length data) \<le> int i" for i
        using that fits off m'
        by (auto simp: write_bytes_def nth_append min_def simp del: of_nat_unat)
      then show ?thesis using spec Inr fits assms(1) m' by auto
    qed
  qed
qed

theorem MemStore_safe_witness:
  "\<exists>err c' m'. MemStore sample_env 70000 [9] sample_runtime = Some (err, c')
     \<and> memory_of c' = Some m' \<and> 8 \<le> length m'"
proof -
  have "env_MemoryGrow sample_env m 1 = Inr (m @ replicate 65536 0)" for m
    by (simp add: sample_env_def)
  then show ?thesis
    using MemStore_safe [OF sample_memory, of "[9]" sample_env 70000] by fastforce
qed

text \<open>
  Returning from a nested call destroys no instance that is still in use: if all instances
  the runtime refers to are alive and the running one is not shared with the stack (or is the
  warm one), then after popping the instance all remaining ones are still alive.
\<close>

theorem popInstance_safe:
  assumes "instances_ok c" and "top_unshared c"
  shows "instances_ok (popInstance c) \<and> rc_instanceStack (popInstance c) = butlast (rc_instanceStack c)"
  using popInstance_ok [OF assms] by simp

theorem popInstance_safe_witness:
  "instances_ok (popInstance (sample_runtime\<lparr>rc_instance := Some 1, rc_instanceStack := [Some 0],
     rc_nextInstance := 2\<rparr>))"
  using popInstance_safe [of "sample_runtime\<lparr>rc_instance := Some 1, rc_instanceStack := [Some 0], rc_nextInstance := 2\<rparr>"]
  by (simp add: instances_ok_def live_instances_def top_unshared_def sample_runtime_def sample_instance_def)

end
