(* ===== verification/WasmerInstances.thy ===== *)
theory WasmerInstances
  imports Validator OutputTransfers RuntimeProofs
begin

text \<open>
  The operations of \<open>vmhost/contexts/runtime.go\<close> that involve the other contexts: starting a
  Wasmer instance (warm, from compiled code or from byte code), verifying new code, loading
  the code of the current contract, failing the execution, signalling a user error and
  preparing an asynchronous call; with \<open>WithFaultAndHost\<close> of \<open>vmhost/helpers.go\<close>.

  The instance builder is a parameter of the environment that takes the code and the gas
  limit; the other compilation options are constants of the program or of the gas schedule.
\<close>

section \<open>Creation\<close>

text \<open>What the store holds under numbers that were not given out yet.\<close>

definition no_instance :: WasmInstance where
  "no_instance = \<lparr>wi_PointsUsed = 0, wi_GasLimit = 0, wi_BreakpointValue = 0, wi_Memory = None,
     wi_Exports = [], wi_Signatures = [], wi_ImportedFunctions = [], wi_Cleaned = False\<rparr>"

definition NewRuntimeContext :: "'w vmEnv \<Rightarrow> string list \<Rightarrow> bytes \<Rightarrow> bool \<Rightarrow> runtimeContext" where
  "NewRuntimeContext E scAPINames vmType useWarmInstance =
     runtime_InitState \<lparr>rc_instance = None, rc_vmInput = emptyVMInput, rc_scAddress = [], rc_codeSize = 0,
       rc_callFunction = [], rc_vmType = vmType, rc_readOnly = False, rc_verifyCode = False,
       rc_stateStack = [], rc_instanceStack = [], rc_maxWasmerInstances = 0, rc_asyncCallInfo = None,
       rc_asyncContextInfo = emptyAsyncContextInfo [],
       rc_reserved = NewReservedFunctions E scAPINames, rc_useWarmInstance = useWarmInstance,
       rc_warmInstanceAddress = None, rc_warmInstance = None, rc_errors = None,
       rc_heap = (\<lambda>_. no_instance), rc_nextInstance = 0\<rparr>"

section \<open>Verifying new code\<close>

fun any_imported :: "string list \<Rightarrow> WasmInstance \<Rightarrow> bool" where
  "any_imported [] inst = False"
| "any_imported (name # rest) inst = (if name \<in> set (wi_ImportedFunctions inst) then True else any_imported rest inst)"

definition checkBackwardCompatibility :: "'w vmEnv \<Rightarrow> WasmInstance \<Rightarrow> go_error option" where
  "checkBackwardCompatibility E inst =
     (if IsESDTFunctionsEnabled E then None
      else if any_imported [''transferESDTExecute'', ''transferESDTNFTExecute'', ''transferValueExecute'',
             ''getESDTBalance'', ''getESDTTokenData'', ''getESDTTokenType'', ''getESDTTokenNonce'',
             ''getCurrentESDTNFTNonce'', ''getESDTNFTNameLength'', ''getESDTNFTAttributeLength'',
             ''getESDTNFTURILength'', ''bigIntGetESDTExternalBalance''] inst
      then Some (Sentinel ErrContractInvalid) else None)"

definition VerifyContractCode :: "'w vmEnv \<Rightarrow> runtimeContext \<Rightarrow> (go_error option \<times> runtimeContext) option" where
  "VerifyContractCode E c =
     (if \<not> rc_verifyCode c then Some (None, c)
      else do {
        let c = c\<lparr>rc_verifyCode := False\<rparr>;
        inst \<leftarrow> current_instance c;
        case verifyMemoryDeclaration inst of
          Some err \<Rightarrow> Some (Some err, c)
        | None \<Rightarrow>
            (case verifyFunctions (rc_reserved c) inst of
               Some err \<Rightarrow> Some (Some err, c)
             | None \<Rightarrow> Some (checkBackwardCompatibility E inst, c))
      })"

section \<open>Starting an instance\<close>

text \<open>A new instance gets a fresh number in the store.\<close>

definition new_instance :: "WasmInstance \<Rightarrow> runtimeContext \<Rightarrow> runtimeContext" where
  "new_instance inst c = c\<lparr>rc_heap := (rc_heap c)(rc_nextInstance c := inst),
     rc_instance := Some (rc_nextInstance c), rc_nextInstance := Suc (rc_nextInstance c)\<rparr>"

definition setWarmInstanceWhenNeeded :: "u64 \<Rightarrow> runtimeContext \<Rightarrow> (bool \<times> runtimeContext) option" where
  "setWarmInstanceWhenNeeded gasLimit c =
     (if rc_useWarmInstance c \<and> rc_warmInstanceAddress c = Some (rc_scAddress c)
      then do {
        let c = c\<lparr>rc_instance := rc_warmInstance c\<rparr>;
        c \<leftarrow> SetPointsUsed 0 c;
        c \<leftarrow> upd_instance (\<lambda>i. i\<lparr>wi_GasLimit := gasLimit\<rparr>) c;
        c \<leftarrow> SetRuntimeBreakpointValue BreakpointNone c;
        Some (True, c)
      }
      else Some (False, c))"

definition makeInstanceFromCompiledCode ::
  "'w vmEnv \<Rightarrow> bytes \<Rightarrow> u64 \<Rightarrow> bool \<Rightarrow> 'w vmHost \<Rightarrow> bool \<times> 'w vmHost" where
  "makeInstanceFromCompiledCode E codeHash gasLimit newCode h =
     (if \<not> IsAheadOfTimeCompileEnabled E then (False, h)
      else if newCode \<or> length codeHash = 0 then (False, h)
      else let (found, compiledCode) = GetCompiledCode E codeHash h
           in if \<not> found then (False, h)
              else (case env_NewInstanceFromCompiledCode E compiledCode gasLimit of
                      Inl err \<Rightarrow> (False, h)
                    | Inr newInstance \<Rightarrow>
                        (True, upd_runtime (\<lambda>c. (new_instance newInstance c)\<lparr>rc_verifyCode := False\<rparr>) h)))"

definition saveCompiledCode :: "'w vmEnv \<Rightarrow> bytes \<Rightarrow> 'w vmHost \<Rightarrow> 'w vmHost option" where
  "saveCompiledCode E codeHash h = do {
     inst \<leftarrow> current_instance (host_runtime h);
     Some (case env_Cache E inst of
             Inl err \<Rightarrow> h
           | Inr compiledCode \<Rightarrow> SaveCompiledCode E codeHash compiledCode h)
   }"

definition makeInstanceFromContractByteCode ::
  "'w vmEnv \<Rightarrow> bytes \<Rightarrow> bytes \<Rightarrow> u64 \<Rightarrow> bool \<Rightarrow> 'w vmHost \<Rightarrow> (go_error option \<times> 'w vmHost) option" where
  "makeInstanceFromContractByteCode E contract codeHash gasLimit newCode h =
     (case env_NewInstanceWithOptions E contract gasLimit of
        Inl err \<Rightarrow> Some (Some err, upd_runtime (\<lambda>c. c\<lparr>rc_instance := None\<rparr>) h)
      | Inr newInstance \<Rightarrow>
          let h = upd_runtime (new_instance newInstance) h;
              hash = (if newCode \<or> length codeHash = 0 then env_Sha256 E contract else Inr codeHash)
          in case hash of
               Inl err \<Rightarrow> Some (Some err, upd_runtime CleanWasmerInstance h)
             | Inr codeHash \<Rightarrow> do {
                 h \<leftarrow> saveCompiledCode E codeHash h;
                 (err, c) \<leftarrow> (if newCode then VerifyContractCode E (host_runtime h)
                              else Some (None, host_runtime h));
                 let h = h\<lparr>host_runtime := c\<rparr>;
                 if err \<noteq> None then Some (err, upd_runtime CleanWasmerInstance h)
                 else Some (None, upd_runtime (\<lambda>c. if rc_useWarmInstance c
                        then c\<lparr>rc_warmInstanceAddress := Some (rc_scAddress c),
                               rc_warmInstance := rc_instance c\<rparr>
                        else c) h)
               })"

definition StartWasmerInstance ::
  "'w vmEnv \<Rightarrow> bytes \<Rightarrow> u64 \<Rightarrow> bool \<Rightarrow> 'w vmHost \<Rightarrow> (go_error option \<times> 'w vmHost) option" where
  "StartWasmerInstance E contract gasLimit newCode h =
     (if RunningInstancesCount (host_runtime h) \<ge> rc_maxWasmerInstances (host_runtime h)
      then Some (Some (Sentinel ErrMaxInstancesReached), upd_runtime (\<lambda>c. c\<lparr>rc_instance := None\<rparr>) h)
      else do {
        (warmInstanceUsed, c) \<leftarrow> setWarmInstanceWhenNeeded gasLimit (host_runtime h);
        let h = h\<lparr>host_runtime := c\<rparr>;
        if warmInstanceUsed then Some (None, h)
        else do {
          let codeHash = GetCodeHash E (rc_scAddress (host_runtime h)) h;
          let (compiledCodeUsed, h) = makeInstanceFromCompiledCode E codeHash gasLimit newCode h;
          if compiledCodeUsed then Some (None, h)
          else makeInstanceFromContractByteCode E contract codeHash gasLimit newCode h
        }
      })"

definition GetSCCode :: "'w vmEnv \<Rightarrow> 'w vmHost \<Rightarrow> (go_error + bytes) \<times> 'w vmHost" where
  "GetSCCode E h =
     (let (r, h) = blockchain_GetCode E (rc_scAddress (host_runtime h)) h
      in case r of
           Inl err \<Rightarrow> (Inl err, h)
         | Inr code \<Rightarrow> (Inr code, upd_runtime (\<lambda>c. c\<lparr>rc_codeSize := of_nat (length code)\<rparr>) h))"

section \<open>Failing\<close>

definition FailExecution :: "'w vmEnv \<Rightarrow> go_error option \<Rightarrow> 'w vmHost \<Rightarrow> 'w vmHost option" where
  "FailExecution E err h = do {
     let h = upd_output (SetReturnCode ExecutionFailed) h;
     let message = (case err of Some e \<Rightarrow> error_text e | None \<Rightarrow> ''execution failed'');
     let h = upd_runtime (AddError E (Some (case err of Some e \<Rightarrow> e | None \<Rightarrow> OtherError message)) None) h;
     let h = upd_output (SetReturnMessage message) h;
     with_runtime (SetRuntimeBreakpointValue BreakpointExecutionFailed) h
   }"

definition SignalUserError :: "'w vmEnv \<Rightarrow> string \<Rightarrow> 'w vmHost \<Rightarrow> 'w vmHost option" where
  "SignalUserError E message h = do {
     let h = upd_output (SetReturnCode UserError) h;
     let h = upd_output (SetReturnMessage message) h;
     h \<leftarrow> with_runtime (SetRuntimeBreakpointValue BreakpointSignalError) h;
     Some (upd_runtime (AddError E (Some (OtherError message)) None) h)
   }"

definition WithFaultAndHost ::
  "'w vmEnv \<Rightarrow> go_error option \<Rightarrow> bool \<Rightarrow> 'w vmHost \<Rightarrow> (bool \<times> 'w vmHost) option" where
  "WithFaultAndHost E err failExecution h =
     (case err of
        None \<Rightarrow> Some (False, h)
      | Some e \<Rightarrow>
          if failExecution then do {
            h \<leftarrow> UseGas (GasLeft h) h;
            h \<leftarrow> FailExecution E (Some e) h;
            Some (True, h)
          }
          else Some (True, h))"

section \<open>Asynchronous calls\<close>

definition ExecuteAsyncCall ::
  "'w vmEnv \<Rightarrow> address \<Rightarrow> bytes \<Rightarrow> bytes \<Rightarrow> 'w vmHost \<Rightarrow> (go_error option \<times> 'w vmHost) option" where
  "ExecuteAsyncCall E addr data val h = do {
     (err, h) \<leftarrow> UseGasForAsyncStep h;
     if err \<noteq> None then Some (err, h)
     else do {
       hasCallback \<leftarrow> HasCallbackMethod (host_runtime h);
       let shouldLockGas = (hasCallback \<or> \<not> IsDynamicGasLockingEnabled E);
       (err, gasToLock, h) \<leftarrow>
         (if shouldLockGas then do {
            let gasToLock = ComputeGasLockedForAsync E h;
            (err, h) \<leftarrow> UseGasBounded gasToLock h;
            Some (err, gasToLock, h)
          }
          else Some (None, 0, h));
       if err \<noteq> None then Some (err, h)
       else do {
         let h = upd_runtime (SetAsyncCallInfo (Some \<lparr>aci_Destination = addr, aci_Data = data,
                   aci_GasLimit = GasLeft h, aci_GasLocked = gasToLock, aci_ValueBytes = val\<rparr>)) h;
         h \<leftarrow> with_runtime (SetRuntimeBreakpointValue BreakpointAsyncCall) h;
         Some (None, h)
       }
     }
   }"

section \<open>Instances that were started\<close>

definition verified_instance :: "'w vmEnv \<Rightarrow> string list \<Rightarrow> WasmInstance \<Rightarrow> bool" where
  "verified_instance E reserved inst \<longleftrightarrow>
     wi_Memory inst \<noteq> None
     \<and> (\<forall>f \<in> set (wi_Exports inst). valid_name reserved f \<and> map_get (wi_Signatures inst) f = Some (0, 0))
     \<and> checkBackwardCompatibility E inst = None"

lemma VerifyContractCode_ok:
  assumes "VerifyContractCode E c = Some (None, c')" and "rc_verifyCode c"
  shows "c' = c\<lparr>rc_verifyCode := False\<rparr>"
    and "\<exists>inst. current_instance c = Some inst \<and> verified_instance E (rc_reserved c) inst"
  using assms
  by (auto simp: VerifyContractCode_def verified_instance_def verifyMemoryDeclaration_def
      verifyFunctions_iff current_instance_def Let_def bind_eq_Some_conv
      split: option.splits if_splits)

definition reuses_warm :: "runtimeContext \<Rightarrow> bool" where
  "reuses_warm c \<longleftrightarrow> rc_useWarmInstance c \<and> rc_warmInstanceAddress c = Some (rc_scAddress c)"

lemma current_new_instance [simp]: "current_instance (new_instance i c) = Some i"
  by (simp add: current_instance_def new_instance_def)

lemma new_instance_frame [simp, host_simps]:
  "rc_verifyCode (new_instance i c) = rc_verifyCode c" "rc_reserved (new_instance i c) = rc_reserved c"
  "rc_instanceStack (new_instance i c) = rc_instanceStack c"
  "rc_stateStack (new_instance i c) = rc_stateStack c"
  "runtime_active (new_instance i c) = runtime_active c"
  "rc_useWarmInstance (new_instance i c) = rc_useWarmInstance c"
  by (simp_all add: new_instance_def runtime_active_def)

lemma saveCompiledCode_frame:
  assumes "saveCompiledCode E codeHash h = Some h'"
  shows "host_runtime h' = host_runtime h"
proof -
  obtain inst where "h' = (case env_Cache E inst of
      Inl err \<Rightarrow> h | Inr compiledCode \<Rightarrow> SaveCompiledCode E codeHash compiledCode h)"
    using assms by (auto simp: saveCompiledCode_def bind_eq_Some_conv)
  then show ?thesis by (cases "env_Cache E inst") (simp_all add: SaveCompiledCode_def)
qed

lemma makeInstanceFromContractByteCode_verified:
  assumes "makeInstanceFromContractByteCode E contract codeHash gasLimit True h = Some (None, h')"
    and "rc_verifyCode (host_runtime h)"
  shows "\<exists>inst. current_instance (host_runtime h') = Some inst
    \<and> verified_instance E (rc_reserved (host_runtime h)) inst"
proof -
  obtain i where i: "env_NewInstanceWithOptions E contract gasLimit = Inr i"
    using assms(1) by (cases "env_NewInstanceWithOptions E contract gasLimit")
      (auto simp: makeInstanceFromContractByteCode_def)
  let ?h1 = "upd_runtime (new_instance i) h"
  obtain hash h2 c where "saveCompiledCode E hash ?h1 = Some h2"
    and v: "VerifyContractCode E (host_runtime h2) = Some (None, c)"
    and h': "h' = upd_runtime (\<lambda>c. if rc_useWarmInstance c
        then c\<lparr>rc_warmInstanceAddress := Some (rc_scAddress c), rc_warmInstance := rc_instance c\<rparr>
        else c) (h2\<lparr>host_runtime := c\<rparr>)"
    using assms(1) i
    by (auto simp: makeInstanceFromContractByteCode_def Let_def bind_eq_Some_conv split: sum.splits if_splits)
  then have r2: "host_runtime h2 = new_instance i (host_runtime h)"
    using saveCompiledCode_frame by fastforce
  have "rc_verifyCode (host_runtime h2)" using r2 assms(2) by simp
  from VerifyContractCode_ok [OF v this] r2
  have c: "c = (new_instance i (host_runtime h))\<lparr>rc_verifyCode := False\<rparr>"
    and ok: "verified_instance E (rc_reserved (host_runtime h)) i" by auto
  have "current_instance (host_runtime h') = Some i"
    using h' c by (auto simp: current_instance_def new_instance_def)
  then show ?thesis using ok by blast
qed

lemma StartWasmerInstance_verified:
  assumes "StartWasmerInstance E contract gasLimit True h = Some (None, h')"
    and "rc_verifyCode (host_runtime h)" and "\<not> reuses_warm (host_runtime h)"
  shows "\<exists>inst. current_instance (host_runtime h') = Some inst
    \<and> verified_instance E (rc_reserved (host_runtime h)) inst"
proof -
  have "setWarmInstanceWhenNeeded gasLimit (host_runtime h) = Some (False, host_runtime h)"
    using assms(3) by (auto simp: setWarmInstanceWhenNeeded_def reuses_warm_def)
  then obtain codeHash where
    "makeInstanceFromContractByteCode E contract codeHash gasLimit True h = Some (None, h')"
    using assms(1)
    by (auto simp: StartWasmerInstance_def makeInstanceFromCompiledCode_def Let_def
        split: if_splits prod.splits)
  then show ?thesis using assms(2) by (rule makeInstanceFromContractByteCode_verified)
qed

section \<open>Gas of faults and asynchronous calls\<close>

lemma AddError_frame [simp, host_simps]:
  "rc_instance (AddError E err info c) = rc_instance c" "rc_heap (AddError E err info c) = rc_heap c"
  "rc_vmInput (AddError E err info c) = rc_vmInput c" "rc_scAddress (AddError E err info c) = rc_scAddress c"
  "rc_stateStack (AddError E err info c) = rc_stateStack c"
  "rc_instanceStack (AddError E err info c) = rc_instanceStack c"
  "runtime_active (AddError E err info c) = runtime_active c"
  by (simp_all add: AddError_def runtime_active_def split: option.splits)

lemma FailExecution_Some:
  assumes "has_instance h"
  obtains h' where "FailExecution E err h = Some h'"
    and "host_metering h' = host_metering h" and "points h' = points h"
    and "vo_ReturnCode (oc_outputState (host_output h')) = ExecutionFailed"
    and "vo_ReturnMessage (oc_outputState (host_output h')) =
           (case err of Some e \<Rightarrow> error_text e | None \<Rightarrow> ''execution failed'')"
    and "GetRuntimeBreakpointValue (host_runtime h') = Some (breakpoint_value BreakpointExecutionFailed)"
proof -
  obtain p where p: "rc_instance (host_runtime h) = Some p" using assms by (auto simp: has_instance_def)
  let ?msg = "case err of Some e \<Rightarrow> error_text e | None \<Rightarrow> ''execution failed''"
  let ?c = "AddError E (Some (case err of Some e \<Rightarrow> e | None \<Rightarrow> OtherError ?msg)) None (host_runtime h)"
  let ?h = "h\<lparr>host_output := SetReturnMessage ?msg (SetReturnCode ExecutionFailed (host_output h)),
      host_runtime := ?c\<lparr>rc_heap := (rc_heap (host_runtime h))
        (p := (rc_heap (host_runtime h) p)\<lparr>wi_BreakpointValue := 1\<rparr>)\<rparr>\<rparr>"
  have "FailExecution E err h = Some ?h"
    by (simp add: FailExecution_def with_runtime_def SetRuntimeBreakpointValue_def upd_instance_def p Let_def)
  then show thesis
    using that [of ?h] p
    by (simp add: SetReturnMessage_def SetReturnCode_def GetPointsUsed_def GetRuntimeBreakpointValue_def
        current_instance_def)
qed

lemma WithFaultAndHost_consumes:
  assumes "has_instance h" and "unat (mc_gasForExecution (host_metering h)) \<le> max_points"
  obtains h' where "WithFaultAndHost E (Some e) True h = Some (True, h')" and "GasLeft h' = 0"
    and "vo_ReturnCode (oc_outputState (host_output h')) = ExecutionFailed"
    and "vo_ReturnMessage (oc_outputState (host_output h')) = error_text e"
    and "GetRuntimeBreakpointValue (host_runtime h') = Some (breakpoint_value BreakpointExecutionFailed)"
proof -
  obtain h1 where h1: "UseGas (GasLeft h) h = Some h1" using assms(1) by (simp add: UseGas_eq)
  have "has_instance h1" and m1: "host_metering h1 = host_metering h"
    using UseGas_cases(2) [OF h1] assms(1) by auto
  then obtain h' where h': "FailExecution E (Some e) h1 = Some h'" "host_metering h' = host_metering h1"
    "points h' = points h1" "vo_ReturnCode (oc_outputState (host_output h')) = ExecutionFailed"
    "vo_ReturnMessage (oc_outputState (host_output h')) = error_text e"
    "GetRuntimeBreakpointValue (host_runtime h') = Some (breakpoint_value BreakpointExecutionFailed)"
    using FailExecution_Some [of h1 E "Some e"] by auto
  have "unat (GasLeft h') = unat (GasLeft h1)" using h'(2,3) by (simp add: unat_GasLeft)
  also have "\<dots> = 0" using GasLeft_UseGas [OF h1 assms(2)] by simp
  finally have "GasLeft h' = 0" by (simp add: unat_eq_0)
  then show thesis using that h1 h' by (simp add: WithFaultAndHost_def)
qed

lemma UseGasBounded_cases:
  assumes "has_instance h" and "unat (mc_gasForExecution (host_metering h)) \<le> max_points"
  obtains
    (failed) "UseGasBounded gas h = Some (Some (Sentinel ErrNotEnoughGas), h)" "unat (GasLeft h) \<le> unat gas"
  | (used) x h' where "UseGasBounded gas h = Some (None, h')" "h' = set_points x h"
      "unat (GasLeft h) = unat gas + unat (GasLeft h')" "GasLeft h' \<noteq> 0"
proof (cases "GasLeft h \<le> gas")
  case True
  then show thesis using failed by (simp add: UseGasBounded_def word_le_nat_alt)
next
  case False
  obtain h' where h': "UseGas gas h = Some h'" using assms(1) by (simp add: UseGas_eq)
  have left: "unat (GasLeft h') = unat (GasLeft h) - unat gas" by (rule GasLeft_UseGas [OF h' assms(2)])
  have less: "unat gas < unat (GasLeft h)" using False by (simp add: word_le_nat_alt)
  obtain x where "h' = set_points x h" using UseGas_cases(2) [OF h'] by blast
  moreover have "GasLeft h' \<noteq> 0" using left less by (auto simp: unat_eq_0 [symmetric])
  ultimately show thesis using used [of h'] False h' left less by (simp add: UseGasBounded_def)
qed

text \<open>
  What \<open>ExecuteAsyncCall\<close> prepares: the remaining gas after the step and the lock goes to the
  callee, and the instance is stopped at the asynchronous breakpoint.
\<close>

definition async_prepared :: "address \<Rightarrow> bytes \<Rightarrow> bytes \<Rightarrow> 'w vmHost \<Rightarrow> 'w vmHost \<Rightarrow> bool" where
  "async_prepared addr data val h h' \<longleftrightarrow>
     (\<exists>info. rc_asyncCallInfo (host_runtime h') = Some info
        \<and> aci_Destination info = addr \<and> aci_Data info = data \<and> aci_ValueBytes info = val
        \<and> aci_GasLimit info = GasLeft h' \<and> aci_GasLimit info \<noteq> 0
        \<and> unat (GasLeft h) = unat (AsyncCallStep (gc_BaseOpsAPICost (mc_gasSchedule (host_metering h))))
             + unat (aci_GasLocked info) + unat (aci_GasLimit info))
     \<and> GetRuntimeBreakpointValue (host_runtime h') = Some (breakpoint_value BreakpointAsyncCall)"

lemma set_async_info:
  assumes "has_instance h"
  obtains h' where
    "with_runtime (SetRuntimeBreakpointValue BreakpointAsyncCall) (upd_runtime (SetAsyncCallInfo (Some info)) h) = Some h'"
    and "rc_asyncCallInfo (host_runtime h') = Some info" and "GasLeft h' = GasLeft h"
    and "GetRuntimeBreakpointValue (host_runtime h') = Some (breakpoint_value BreakpointAsyncCall)"
proof -
  obtain p where p: "rc_instance (host_runtime h) = Some p" using assms by (auto simp: has_instance_def)
  then show thesis
    using that
    by (simp add: with_runtime_def SetRuntimeBreakpointValue_def upd_instance_def SetAsyncCallInfo_def
        GasLeft_def GetPointsUsed_def GetRuntimeBreakpointValue_def current_instance_def)
qed

lemma ExecuteAsyncCall_cases:
  assumes inst: "has_instance h" and gas: "unat (mc_gasForExecution (host_metering h)) \<le> max_points"
  obtains (ok) h' where "ExecuteAsyncCall E addr data val h = Some (None, h')" "async_prepared addr data val h h'"
  | (failed) h' x where "ExecuteAsyncCall E addr data val h = Some (Some (Sentinel ErrNotEnoughGas), h')"
      "h' = set_points x h"
proof (cases rule: UseGasBounded_cases [OF inst gas, of "AsyncCallStep (gc_BaseOpsAPICost (mc_gasSchedule (host_metering h)))"])
  case 1
  then show thesis
    using failed [of h "GetPointsUsed (host_runtime h)"]
    by (simp add: ExecuteAsyncCall_def UseGasForAsyncStep_def set_points_id)
next
  case (2 x h1)
  note step = this
  have inst1: "has_instance h1" and gas1: "unat (mc_gasForExecution (host_metering h1)) \<le> max_points"
    using step inst gas by auto
  obtain hasCallback where cb: "HasCallbackMethod (host_runtime h1) = Some hasCallback"
    using inst1 by (auto simp: HasCallbackMethod_def current_instance_def has_instance_def)
  show thesis
  proof (cases "hasCallback \<or> \<not> IsDynamicGasLockingEnabled E")
    case False
    let ?info = "\<lparr>aci_Destination = addr, aci_Data = data, aci_GasLimit = GasLeft h1,
        aci_GasLocked = 0, aci_ValueBytes = val\<rparr>"
    obtain h' where h': "with_runtime (SetRuntimeBreakpointValue BreakpointAsyncCall)
        (upd_runtime (SetAsyncCallInfo (Some ?info)) h1) = Some h'"
      "rc_asyncCallInfo (host_runtime h') = Some ?info" "GasLeft h' = GasLeft h1"
      "GetRuntimeBreakpointValue (host_runtime h') = Some (breakpoint_value BreakpointAsyncCall)"
      by (rule set_async_info [OF inst1])
    then show thesis
      using ok [of h'] False step cb
      by (simp add: ExecuteAsyncCall_def UseGasForAsyncStep_def async_prepared_def)
  next
    case True
    show thesis
    proof (cases rule: UseGasBounded_cases [OF inst1 gas1, of "ComputeGasLockedForAsync E h1"])
      case 1
      then show thesis
        using failed [of h1 x] True step cb by (simp add: ExecuteAsyncCall_def UseGasForAsyncStep_def)
    next
      case (2 y h2)
      have "has_instance h2" using 2 inst1 by simp
      let ?info = "\<lparr>aci_Destination = addr, aci_Data = data, aci_GasLimit = GasLeft h2,
          aci_GasLocked = ComputeGasLockedForAsync E h1, aci_ValueBytes = val\<rparr>"
      obtain h' where h': "with_runtime (SetRuntimeBreakpointValue BreakpointAsyncCall)
          (upd_runtime (SetAsyncCallInfo (Some ?info)) h2) = Some h'"
        "rc_asyncCallInfo (host_runtime h') = Some ?info" "GasLeft h' = GasLeft h2"
        "GetRuntimeBreakpointValue (host_runtime h') = Some (breakpoint_value BreakpointAsyncCall)"
        by (rule set_async_info [OF \<open>has_instance h2\<close>])
      then show thesis
        using ok [of h'] True step cb 2
        by (simp add: ExecuteAsyncCall_def UseGasForAsyncStep_def async_prepared_def)
    qed
  qed
qed

section \<open>Properties\<close>


abbreviation verifying_host :: "nat vmHost" where
  "verifying_host \<equiv> upd_runtime MustVerifyNextContractCode sample_host"


text \<open>
  While the warm instance belongs to the current contract it is always reused, whatever code
  is passed and whether or not that code is new: the instance keeps its memory and exports, and
  its gas counter restarts at 0, also for a caller of the contract that is still running on it.
\<close>

theorem StartWasmerInstance_warm:
  assumes "reuses_warm (host_runtime h)" and "rc_warmInstance (host_runtime h) = Some p"
    and "RunningInstancesCount (host_runtime h) < rc_maxWasmerInstances (host_runtime h)"
  shows "\<exists>h'. StartWasmerInstance E contract gasLimit newCode h = Some (None, h')
    \<and> rc_instance (host_runtime h') = Some p \<and> points h' = 0
    \<and> rc_heap (host_runtime h') p = (rc_heap (host_runtime h) p)
         \<lparr>wi_PointsUsed := 0, wi_GasLimit := gasLimit, wi_BreakpointValue := 0\<rparr>
    \<and> rc_instanceStack (host_runtime h') = rc_instanceStack (host_runtime h)
    \<and> host_world h' = host_world h"
  using assms
  by (auto simp: StartWasmerInstance_def setWarmInstanceWhenNeeded_def reuses_warm_def SetPointsUsed_def
      upd_instance_def SetRuntimeBreakpointValue_def GetPointsUsed_def Let_def)

abbreviation warm_host :: "nat vmHost" where
  "warm_host \<equiv> upd_runtime (\<lambda>c. c\<lparr>rc_useWarmInstance := True, rc_warmInstance := Some 0,
     rc_warmInstanceAddress := Some [1], rc_instanceStack := [Some 0]\<rparr>) sample_host"

theorem StartWasmerInstance_warm_witness:
  "\<exists>h'. StartWasmerInstance sample_env [1, 1, 1] 50 True warm_host = Some (None, h')
     \<and> rc_instance (host_runtime h') = Some 0 \<and> points h' = 0 \<and> points warm_host = 10"
proof -
  have "reuses_warm (host_runtime warm_host)" "rc_warmInstance (host_runtime warm_host) = Some 0"
    "RunningInstancesCount (host_runtime warm_host) < rc_maxWasmerInstances (host_runtime warm_host)"
    "points warm_host = 10"
    by (simp_all add: reuses_warm_def RunningInstancesCount_def GetPointsUsed_def sample_defs)
  then show ?thesis using StartWasmerInstance_warm [of warm_host 0 sample_env "[1, 1, 1]" 50 True] by auto
qed

text \<open>
  C12. A fault raised by a hook in the name of the running contract consumes all its remaining
  gas, sets the return code and the text of the error, and stops the instance.
\<close>

theorem WithFaultAndHost_fails_execution:
  assumes "has_instance h" and "unat (mc_gasForExecution (host_metering h)) \<le> max_points"
  shows "\<exists>h'. WithFaultAndHost E (Some e) True h = Some (True, h') \<and> GasLeft h' = 0
    \<and> vo_ReturnCode (oc_outputState (host_output h')) = ExecutionFailed
    \<and> vo_ReturnMessage (oc_outputState (host_output h')) = error_text e
    \<and> GetRuntimeBreakpointValue (host_runtime h') = Some (breakpoint_value BreakpointExecutionFailed)"
  using WithFaultAndHost_consumes [OF assms, of E e] by blast

lemma sample_gas: "has_instance sample_host" "unat (mc_gasForExecution (host_metering sample_host)) = 500"
  "unat (GasLeft sample_host) = 490"
  by (simp_all add: has_instance_def unat_GasLeft GetPointsUsed_def sample_defs)

theorem WithFaultAndHost_fails_execution_witness:
  "\<exists>h'. WithFaultAndHost sample_env (Some (Sentinel ErrArgOutOfRange)) True sample_host = Some (True, h')
     \<and> GasLeft h' = 0 \<and> vo_ReturnMessage (oc_outputState (host_output h')) = ''argument out of range''"
  using WithFaultAndHost_fails_execution [OF sample_gas(1), of sample_env "Sentinel ErrArgOutOfRange"] sample_gas(2)
  by auto



text \<open>
  Code that is not marked as new is started without any verification: whatever memory,
  exports and imports the instance has that the engine makes of it, a cold start succeeds as
  long as the code hash is known or can be computed. The host starts indirectly deployed
  contracts in this way.
\<close>

theorem StartWasmerInstance_old_code_unverified:
  assumes "RunningInstancesCount (host_runtime h) < rc_maxWasmerInstances (host_runtime h)"
    and "\<not> reuses_warm (host_runtime h)"
    and "GetCodeHash E (rc_scAddress (host_runtime h)) h = codeHash"
    and "codeHash \<noteq> [] \<or> env_Sha256 E contract = Inr hash"
    and "\<not> fst (GetCompiledCode E codeHash h)" and "env_NewInstanceWithOptions E contract gasLimit = Inr inst"
  shows "\<exists>h'. StartWasmerInstance E contract gasLimit False h = Some (None, h')
    \<and> current_instance (host_runtime h') = Some inst"
  using assms
  by (auto simp: StartWasmerInstance_def setWarmInstanceWhenNeeded_def reuses_warm_def Let_def case_prod_beta
      makeInstanceFromCompiledCode_def makeInstanceFromContractByteCode_def saveCompiledCode_def
      current_instance_def new_instance_def SaveCompiledCode_def not_le split: sum.split)

theorem StartWasmerInstance_old_code_unverified_witness:
  "\<exists>h'. StartWasmerInstance
      (sample_env\<lparr>env_NewInstanceWithOptions := (\<lambda>c g. Inr (sample_instance\<lparr>wi_Memory := None\<rparr>))\<rparr>) [1] 100 False sample_host
      = Some (None, h')
    \<and> current_instance (host_runtime h') = Some (sample_instance\<lparr>wi_Memory := None\<rparr>)"
  by (rule StartWasmerInstance_old_code_unverified [OF _ _ refl])
    (simp_all add: RunningInstancesCount_def reuses_warm_def GetCodeHash_def GetCompiledCode_def sample_defs)

end
