(* ===== verification/StorageContext.thy ===== *)
theory StorageContext
  imports BlockchainContext Sample
begin

text \<open>
  The storage context of \<open>vmhost/contexts/storage.go\<close>: storage of the current contract,
  written into and cached in the storage updates of its output account on top of the node's
  storage. Keys with the node's prefix or the VM's own prefix are protected; every byte is
  paid for. The map returned by \<open>GetStorageUpdates\<close> is the account's own map, so writing to
  it is writing the account (\<open>put_storage_update\<close>). The error of \<open>GetStorageData\<close> is dropped
  by the code; the hook returns the value.
\<close>

section \<open>State stack\<close>

definition NewStorageContext :: "bytes \<Rightarrow> go_error + storageContext" where
  "NewStorageContext protectedKeyPrefix =
     (if length protectedKeyPrefix = 0 then Inl (OtherError ''ProtectedKeyPrefix cannot be empty'')
      else Inr \<lparr>sc_address = [], sc_stateStack = [], sc_protectedKeyPrefix = protectedKeyPrefix,
                sc_vmStorageProtectionEnabled = True\<rparr>)"

definition storage_InitState :: "storageContext \<Rightarrow> storageContext" where
  "storage_InitState c = c"

definition storage_PushState :: "storageContext \<Rightarrow> storageContext" where
  "storage_PushState c = c\<lparr>sc_stateStack := sc_stateStack c @ [sc_address c]\<rparr>"

definition storage_PopSetActiveState :: "storageContext \<Rightarrow> storageContext" where
  "storage_PopSetActiveState c =
     (if sc_stateStack c = [] then c
      else c\<lparr>sc_stateStack := butlast (sc_stateStack c), sc_address := last (sc_stateStack c)\<rparr>)"

definition storage_PopDiscard :: "storageContext \<Rightarrow> storageContext" where
  "storage_PopDiscard c =
     (if sc_stateStack c = [] then c else c\<lparr>sc_stateStack := butlast (sc_stateStack c)\<rparr>)"

definition storage_ClearStateStack :: "storageContext \<Rightarrow> storageContext" where
  "storage_ClearStateStack c = c\<lparr>sc_stateStack := []\<rparr>"

definition SetAddress :: "address \<Rightarrow> storageContext \<Rightarrow> storageContext" where
  "SetAddress addr c = c\<lparr>sc_address := addr\<rparr>"

interpretation storage_stack: state_stack storage_PushState storage_PopSetActiveState
    storage_PopDiscard storage_ClearStateStack sc_address sc_stateStack "\<lambda>_. True"
  by unfold_locales
    (auto simp: storage_PushState_def storage_PopSetActiveState_def storage_PopDiscard_def
      storage_ClearStateStack_def)

section \<open>Reading\<close>

definition GetStorageUpdates ::
  "address \<Rightarrow> 'w vmHost \<Rightarrow> (bytes, StorageUpdate) gomap \<times> 'w vmHost" where
  "GetStorageUpdates addr h =
     (let ((account, _), out) = GetOutputAccount addr (host_output h)
      in (oa_StorageUpdates account, h\<lparr>host_output := out\<rparr>))"

definition put_storage_update :: "address \<Rightarrow> bytes \<Rightarrow> StorageUpdate \<Rightarrow> 'w vmHost \<Rightarrow> 'w vmHost" where
  "put_storage_update addr key u h =
     (let ((account, _), out) = GetOutputAccount addr (host_output h)
      in h\<lparr>host_output := put_account addr
            (account\<lparr>oa_StorageUpdates := map_put key u (oa_StorageUpdates account)\<rparr>) out\<rparr>)"

definition getStorageFromAddressUnmetered ::
  "'w vmEnv \<Rightarrow> address \<Rightarrow> bytes \<Rightarrow> 'w vmHost \<Rightarrow> bytes \<times> 'w vmHost" where
  "getStorageFromAddressUnmetered E addr key h =
     (let (storageUpdates, h) = GetStorageUpdates addr h
      in case map_get storageUpdates key of
           Some storageUpdate \<Rightarrow> (su_Data storageUpdate, h)
         | None \<Rightarrow>
             let v = hook_GetStorageData (env_hook E) (host_world h) addr key
             in (v, put_storage_update addr key \<lparr>su_Offset = key, su_Data = v\<rparr> h))"

definition GetStorageUnmetered :: "'w vmEnv \<Rightarrow> bytes \<Rightarrow> 'w vmHost \<Rightarrow> bytes \<times> 'w vmHost" where
  "GetStorageUnmetered E key h = getStorageFromAddressUnmetered E (sc_address (host_storage h)) key h"

abbreviation base_costs :: "'w vmHost \<Rightarrow> BaseOperationCost" where
  "base_costs h \<equiv> gc_BaseOperationCost (mc_gasSchedule (host_metering h))"

definition use_key_gas :: "bytes \<Rightarrow> 'w vmHost \<Rightarrow> 'w vmHost option" where
  "use_key_gas key h =
     (let extraBytes = int (length key) - int AddressLen
      in if extraBytes > 0
         then UseGas (MulUint64 (DataCopyPerByte (base_costs h)) (word_of_int extraBytes)) h
         else Some h)"

definition GetStorage :: "'w vmEnv \<Rightarrow> bytes \<Rightarrow> 'w vmHost \<Rightarrow> (bytes \<times> 'w vmHost) option" where
  "GetStorage E key h = do {
     h \<leftarrow> use_key_gas key h;
     let (v, h) = GetStorageUnmetered E key h;
     h \<leftarrow> UseGas (MulUint64 (DataCopyPerByte (base_costs h)) (of_nat (length v))) h;
     Some (v, h)
   }"

definition isVMProtectedKey :: "bytes \<Rightarrow> bool" where
  "isVMProtectedKey key = has_prefix key ProtectedStoragePrefix"

definition isProtocolProtectedKey :: "storageContext \<Rightarrow> bytes \<Rightarrow> bool" where
  "isProtocolProtectedKey c key = has_prefix key (sc_protectedKeyPrefix c)"

definition GetStorageFromAddress ::
  "'w vmEnv \<Rightarrow> address \<Rightarrow> bytes \<Rightarrow> 'w vmHost \<Rightarrow> (bytes \<times> 'w vmHost) option" where
  "GetStorageFromAddress E addr key h = do {
     h \<leftarrow> use_key_gas key h;
     let readable = (addr = sc_address (host_storage h)
           \<or> (case user_account E h addr of
                Inr (Some userAcc) \<Rightarrow> cm_Readable (env_CodeMetadataFromBytes E (ua_CodeMetadata userAcc))
              | _ \<Rightarrow> False));
     if \<not> readable then Some ([], h)
     else do {
       let (v, h) = (if isProtocolProtectedKey (host_storage h) key
                     then (hook_GetStorageData (env_hook E) (host_world h) addr key, h)
                     else getStorageFromAddressUnmetered E addr key h);
       h \<leftarrow> UseGas (MulUint64 (DataCopyPerByte (base_costs h)) (of_nat (length v))) h;
       Some (v, h)
     }
   }"

section \<open>Writing\<close>

definition enableStorageProtection :: "storageContext \<Rightarrow> storageContext" where
  "enableStorageProtection c = c\<lparr>sc_vmStorageProtectionEnabled := True\<rparr>"

definition disableStorageProtection :: "storageContext \<Rightarrow> storageContext" where
  "disableStorageProtection c = c\<lparr>sc_vmStorageProtectionEnabled := False\<rparr>"

text \<open>\<open>SetStorage\<close> first reads the old value, caching it in the account.\<close>

definition read_old_value :: "'w vmEnv \<Rightarrow> address \<Rightarrow> bytes \<Rightarrow> 'w vmHost \<Rightarrow> bytes \<times> 'w vmHost" where
  "read_old_value E addr key h =
     (let (storageUpdates, h) = GetStorageUpdates addr h
      in case map_get storageUpdates key of
           None \<Rightarrow>
             let (oldValue, h) = GetStorageUnmetered E key h
             in (oldValue, put_storage_update addr key \<lparr>su_Offset = key, su_Data = oldValue\<rparr> h)
         | Some update \<Rightarrow> (su_Data update, h))"

text \<open>
  Then the new value is written and the difference is charged or refunded.
\<close>

definition write_new_value :: "address \<Rightarrow> bytes \<Rightarrow> bytes \<Rightarrow> bytes \<Rightarrow> 'w vmHost \<Rightarrow>
    ((StorageStatus \<times> go_error option) \<times> 'w vmHost) option" where
  "write_new_value addr key val oldValue h =
     (if oldValue = val then do {
        h \<leftarrow> UseGas (MulUint64 (DataCopyPerByte (base_costs h)) (of_nat (length val))) h;
        Some ((StorageUnchanged, None), h)
      }
      else do {
        let h = put_storage_update addr key \<lparr>su_Offset = key, su_Data = val\<rparr> h;
        if oldValue = [] then do {
          h \<leftarrow> UseGas (MulUint64 (StorePerByte (base_costs h)) (of_nat (length val))) h;
          Some ((StorageAdded, None), h)
        }
        else if val = [] then do {
          h \<leftarrow> FreeGas (MulUint64 (ReleasePerByte (base_costs h)) (of_nat (length oldValue))) h;
          Some ((StorageDeleted, None), h)
        }
        else do {
          let newValueExtraLength = SubInt (of_nat (length val)) (of_nat (length oldValue));
          h \<leftarrow> (if 0 <s newValueExtraLength
                then UseGas (AddUint64
                       (MulUint64 (PersistPerByte (base_costs h)) (of_nat (length oldValue)))
                       (MulUint64 (StorePerByte (base_costs h)) newValueExtraLength)) h
                else Some h);
          h \<leftarrow> (if newValueExtraLength <s 0 then do {
                  h \<leftarrow> UseGas (MulUint64 (PersistPerByte (base_costs h)) (of_nat (length val))) h;
                  FreeGas (MulUint64 (ReleasePerByte (base_costs h)) (- newValueExtraLength)) h
                }
                else Some h);
          Some ((StorageModified, None), h)
        }
      })"

definition SetStorage ::
  "'w vmEnv \<Rightarrow> bytes \<Rightarrow> bytes \<Rightarrow> 'w vmHost \<Rightarrow> ((StorageStatus \<times> go_error option) \<times> 'w vmHost) option" where
  "SetStorage E key val h =
     (if rc_readOnly (host_runtime h) then Some ((StorageUnchanged, None), h)
      else if isProtocolProtectedKey (host_storage h) key
      then Some ((StorageUnchanged, Some (Sentinel ErrStoreReservedKey)), h)
      else if isVMProtectedKey key \<and> sc_vmStorageProtectionEnabled (host_storage h)
      then Some ((StorageUnchanged, Some (Sentinel ErrCannotWriteProtectedKey)), h)
      else do {
        h \<leftarrow> use_key_gas key h;
        let addr = sc_address (host_storage h);
        let (oldValue, h) = read_old_value E addr key h;
        write_new_value addr key val oldValue h
      })"

definition SetProtectedStorage ::
  "'w vmEnv \<Rightarrow> bytes \<Rightarrow> bytes \<Rightarrow> 'w vmHost \<Rightarrow> ((StorageStatus \<times> go_error option) \<times> 'w vmHost) option" where
  "SetProtectedStorage E key val h = do {
     (r, h) \<leftarrow> SetStorage E key val (upd_storage disableStorageProtection h);
     Some (r, upd_storage enableStorageProtection h)
   }"

section \<open>Storage as the contract sees it\<close>

definition cached_update :: "outputContext \<Rightarrow> address \<Rightarrow> bytes \<Rightarrow> StorageUpdate option" where
  "cached_update c addr key =
     (case map_get (GetOutputAccounts c) addr of
        None \<Rightarrow> None | Some a \<Rightarrow> map_get (oa_StorageUpdates a) key)"

definition storage_view :: "'w vmEnv \<Rightarrow> 'w vmHost \<Rightarrow> address \<Rightarrow> bytes \<Rightarrow> bytes" where
  "storage_view E h addr key =
     (if cached_update (host_output h) addr key = None
      then hook_GetStorageData (env_hook E) (host_world h) addr key
      else su_Data (the (cached_update (host_output h) addr key)))"

lemma cached_GetOutputAccount:
  assumes "GetOutputAccount addr c = ((a, isNew), c')"
  shows "cached_update c' = cached_update c" and "map_get (oa_StorageUpdates a) = cached_update c addr"
proof -
  have "cached_update c' x y = cached_update c x y" for x y
    using assms by (cases "map_get (GetOutputAccounts c) addr")
      (auto simp: cached_update_def GetOutputAccount_def NewVMOutputAccount_def zeroOutputAccount_def)
  then show "cached_update c' = cached_update c" by blast
  show "map_get (oa_StorageUpdates a) = cached_update c addr"
    using assms by (cases "map_get (GetOutputAccounts c) addr")
      (auto simp: cached_update_def GetOutputAccount_def NewVMOutputAccount_def zeroOutputAccount_def)
qed

lemma put_storage_update_frame [simp, host_simps]:
  "host_metering (put_storage_update a k u h) = host_metering h"
  "host_runtime (put_storage_update a k u h) = host_runtime h"
  "host_storage (put_storage_update a k u h) = host_storage h"
  "host_world (put_storage_update a k u h) = host_world h"
  "has_instance (put_storage_update a k u h) = has_instance h"
  by (simp_all add: put_storage_update_def has_instance_def split: prod.splits)

lemma cached_put_storage_update [simp]:
  "cached_update (host_output (put_storage_update a k u h)) x y =
     (if x = a \<and> y = k then Some u else cached_update (host_output h) x y)"
proof -
  obtain acc n out where g: "GetOutputAccount a (host_output h) = ((acc, n), out)"
    by (metis prod.collapse)
  note c = cached_GetOutputAccount [OF g]
  have "cached_update (put_account a (acc\<lparr>oa_StorageUpdates := map_put k u (oa_StorageUpdates acc)\<rparr>) out) x y
      = (if x = a then (if y = k then Some u else map_get (oa_StorageUpdates acc) y)
         else cached_update out x y)"
    by (simp add: cached_update_def)
  then show ?thesis using g c by (simp add: put_storage_update_def)
qed

lemma storage_view_cong:
  "cached_update (host_output h') = cached_update (host_output h) \<Longrightarrow> host_world h' = host_world h \<Longrightarrow>
     storage_view E h' = storage_view E h"
  by (simp add: storage_view_def fun_eq_iff)

lemma storage_view_set_points [simp]: "storage_view E (set_points x h) = storage_view E h"
  by (rule storage_view_cong) simp_all

lemma storage_view_put [simp]:
  "storage_view E (put_storage_update a k u h) x y =
     (if x = a \<and> y = k then su_Data u else storage_view E h x y)"
  by (auto simp: storage_view_def)

lemma GetStorageUpdates_spec:
  assumes "GetStorageUpdates addr h = (m, h')"
  shows "map_get m = cached_update (host_output h) addr"
    and "cached_update (host_output h') = cached_update (host_output h)"
    and "h' = h\<lparr>host_output := host_output h'\<rparr>"
  using assms cached_GetOutputAccount
  by (fastforce simp: GetStorageUpdates_def split: prod.splits)+

lemma put_storage_update_output:
  obtains acc out isNew where "GetOutputAccount a (host_output h) = ((acc, isNew), out)"
    and "put_storage_update a k u h = h\<lparr>host_output := put_account a
      (acc\<lparr>oa_StorageUpdates := map_put k u (oa_StorageUpdates acc)\<rparr>) out\<rparr>"
  using that by (cases "GetOutputAccount a (host_output h)") (auto simp: put_storage_update_def)

text \<open>What a read or a write leaves alone: everything but the cache and the gas.\<close>

definition storage_frame :: "'w vmHost \<Rightarrow> 'w vmHost \<Rightarrow> bool" where
  "storage_frame h h' \<longleftrightarrow>
     h' = set_points (GetPointsUsed (host_runtime h')) (h\<lparr>host_output := host_output h'\<rparr>)
     \<and> (wf_output (host_output h) \<longrightarrow> wf_output (host_output h'))
     \<and> oc_stateStack (host_output h') = oc_stateStack (host_output h)
     \<and> oc_codeUpdates (host_output h') = oc_codeUpdates (host_output h)
     \<and> (\<forall>a. delta_of h' a = delta_of h a)"

lemma set_points_output [simp]:
  "set_points x (h\<lparr>host_output := c\<rparr>) = (set_points x h)\<lparr>host_output := c\<rparr>"
  by (cases h) (simp add: set_points_def cong: if_cong)

lemma GetPointsUsed_output [simp]: "has_instance (h\<lparr>host_output := c\<rparr>) = has_instance h"
  by (simp add: has_instance_def)

lemma set_points_no_instance: "\<not> has_instance h \<Longrightarrow> set_points x h = h"
  by (simp add: set_points_def has_instance_def)

lemma storage_frame_refl [simp]: "storage_frame h h"
  by (simp add: storage_frame_def set_points_id)

lemma storage_frame_fields:
  assumes "storage_frame h h'"
  shows "host_metering h' = host_metering h" and "host_storage h' = host_storage h"
    and "host_world h' = host_world h" and "host_bigInt h' = host_bigInt h"
    and "host_blockchain h' = host_blockchain h" and "has_instance h' = has_instance h"
    and "rc_readOnly (host_runtime h') = rc_readOnly (host_runtime h)"
proof -
  have eq: "h' = set_points (GetPointsUsed (host_runtime h')) (h\<lparr>host_output := host_output h'\<rparr>)"
    using assms by (simp add: storage_frame_def)
  show "host_metering h' = host_metering h" "host_storage h' = host_storage h"
    "host_world h' = host_world h" "host_bigInt h' = host_bigInt h"
    "host_blockchain h' = host_blockchain h" "has_instance h' = has_instance h"
    "rc_readOnly (host_runtime h') = rc_readOnly (host_runtime h)"
    by (subst eq, simp)+
qed

lemma storage_frame_trans:
  assumes "storage_frame h h1" and "storage_frame h1 h2"
  shows "storage_frame h h2"
proof -
  have 1: "h1 = set_points (GetPointsUsed (host_runtime h1)) (h\<lparr>host_output := host_output h1\<rparr>)"
    and 2: "h2 = set_points (GetPointsUsed (host_runtime h2)) (h1\<lparr>host_output := host_output h2\<rparr>)"
    using assms by (auto simp: storage_frame_def)
  have "h2 = set_points (GetPointsUsed (host_runtime h2)) (h\<lparr>host_output := host_output h2\<rparr>)"
    by (subst 2, subst 1) simp
  then show ?thesis using assms by (auto simp: storage_frame_def)
qed

lemma storage_frame_points [simp]:
  assumes "has_instance h"
  shows "storage_frame h (set_points x h)"
  using assms by (simp add: storage_frame_def delta_of_def)

lemma storage_frame_output:
  assumes "wf_output (host_output h) \<longrightarrow> wf_output c" and "oc_stateStack c = oc_stateStack (host_output h)"
    and "oc_codeUpdates c = oc_codeUpdates (host_output h)"
    and "\<And>a. delta_of (h\<lparr>host_output := c\<rparr>) a = delta_of h a"
  shows "storage_frame h (h\<lparr>host_output := c\<rparr>)"
proof -
  have "set_points (GetPointsUsed (host_runtime h)) h = h" by (rule set_points_id)
  then show ?thesis using assms by (simp add: storage_frame_def)
qed

lemma storage_frame_account:
  assumes "GetOutputAccount addr (host_output h) = (r, out)"
  shows "storage_frame h (h\<lparr>host_output := out\<rparr>)"
proof (rule storage_frame_output)
  show "oc_stateStack out = oc_stateStack (host_output h)"
    "oc_codeUpdates out = oc_codeUpdates (host_output h)"
    using assms by (auto simp: GetOutputAccount_def split: option.splits)
  show "wf_output (host_output h) \<longrightarrow> wf_output out"
    using assms wf_GetOutputAccount by (metis prod.collapse)
  show "delta_of (h\<lparr>host_output := out\<rparr>) a = delta_of h a" for a
    using assms by (cases "map_get (GetOutputAccounts (host_output h)) addr")
      (auto simp: delta_of_def GetOutputAccount_def NewVMOutputAccount_def zeroOutputAccount_def)
qed

lemma storage_frame_put [simp]: "storage_frame h (put_storage_update addr k u h)"
proof -
  obtain acc out n where g: "GetOutputAccount addr (host_output h) = ((acc, n), out)"
    and p: "put_storage_update addr k u h = h\<lparr>host_output := put_account addr
        (acc\<lparr>oa_StorageUpdates := map_put k u (oa_StorageUpdates acc)\<rparr>) out\<rparr>"
    by (rule put_storage_update_output)
  let ?h1 = "h\<lparr>host_output := out\<rparr>"
  have get: "map_get (GetOutputAccounts out) addr = Some acc"
    using GetOutputAccount_cases(1) [OF g] by simp
  have "storage_frame ?h1 (?h1\<lparr>host_output := put_account addr
        (acc\<lparr>oa_StorageUpdates := map_put k u (oa_StorageUpdates acc)\<rparr>) out\<rparr>)"
    using get
    by (intro storage_frame_output)
      (auto simp: delta_of_def wf_account_def intro!: wf_put_account dest: wf_accounts_get [OF wf_output_accounts])
  then show ?thesis
    unfolding p using storage_frame_trans [OF storage_frame_account [OF g]] by simp
qed

section \<open>Reads\<close>

abbreviation refund_of :: "'w vmHost \<Rightarrow> int option" where
  "refund_of h \<equiv> vo_GasRefund (oc_outputState (host_output h))"

lemma refund_put_storage_update [simp]: "refund_of (put_storage_update a k u h) = refund_of h"
  by (auto simp: put_storage_update_def GetOutputAccount_def put_account_def split: option.splits)

lemma GetStorageUpdates_frame:
  assumes "GetStorageUpdates addr h = (m, h')"
  shows "storage_frame h h'" and "refund_of h' = refund_of h"
    and "GetPointsUsed (host_runtime h') = GetPointsUsed (host_runtime h)"
    and "storage_view E h' = storage_view E h"
proof -
  show "storage_frame h h'" "refund_of h' = refund_of h"
    "GetPointsUsed (host_runtime h') = GetPointsUsed (host_runtime h)"
    using assms storage_frame_account [of addr h]
    by (auto simp: GetStorageUpdates_def GetOutputAccount_def put_account_def split: prod.splits option.splits)
  then show "storage_view E h' = storage_view E h"
    using GetStorageUpdates_spec(2) [OF assms] storage_frame_fields(3) by (intro storage_view_cong)
qed

lemma getStorageFromAddressUnmetered_spec:
  obtains h' where "getStorageFromAddressUnmetered E addr key h = (storage_view E h addr key, h')"
    and "storage_view E h' = storage_view E h" and "storage_frame h h'"
    and "refund_of h' = refund_of h" and "GetPointsUsed (host_runtime h') = GetPointsUsed (host_runtime h)"
    and "cached_update (host_output h') addr key \<noteq> None"
proof -
  obtain m h1 where m: "GetStorageUpdates addr h = (m, h1)" by (metis prod.collapse)
  note S = GetStorageUpdates_spec [OF m] and F = GetStorageUpdates_frame [OF m]
  have w: "host_world h1 = host_world h" using storage_frame_fields(3) [OF F(1)] .
  show thesis
  proof (cases "map_get m key")
    case None
    let ?v = "hook_GetStorageData (env_hook E) (host_world h) addr key"
    let ?h' = "put_storage_update addr key \<lparr>su_Offset = key, su_Data = ?v\<rparr> h1"
    have view: "storage_view E h addr key = ?v" using None S(1) by (simp add: storage_view_def)
    have "getStorageFromAddressUnmetered E addr key h = (?v, ?h')"
      using m None w by (simp add: getStorageFromAddressUnmetered_def Let_def)
    moreover have "storage_view E ?h' = storage_view E h"
      using F(4) [of E] view by (auto simp: fun_eq_iff)
    ultimately show thesis
      using that [of ?h'] F view storage_frame_trans [OF F(1) storage_frame_put] by simp
  next
    case (Some u)
    then show thesis
      using that [of h1] m S F by (simp add: getStorageFromAddressUnmetered_def storage_view_def)
  qed
qed

text \<open>Gas of the part of a key beyond the free 32 bytes, and of copying a value.\<close>

definition key_cost :: "'w vmHost \<Rightarrow> bytes \<Rightarrow> nat" where
  "key_cost h key = min (unat (DataCopyPerByte (base_costs h)) * (length key - AddressLen)) max_u64"

definition copy_cost :: "'w vmHost \<Rightarrow> bytes \<Rightarrow> nat" where
  "copy_cost h val = min (unat (DataCopyPerByte (base_costs h)) * length val) max_u64"

lemma unat_of_nat_len: "n < 2 ^ 63 \<Longrightarrow> unat (of_nat n :: u64) = n"
  by (simp add: unat_of_nat take_bit_nat_eq_self)

lemma UseGas_Some:
  assumes "has_instance h"
  obtains h' where "UseGas gas h = Some h'" and "storage_frame h h'" and "host_output h' = host_output h"
    and "points h' = min (points h + unat gas) max_points" and "storage_view E h' = storage_view E h"
  using assms by (auto simp: UseGas_eq gas_simps)

lemma use_key_gas_spec:
  assumes "has_instance h" and "length key < 2 ^ 63" and "points h \<le> max_points"
  obtains h' where "use_key_gas key h = Some h'" and "storage_frame h h'"
    and "host_output h' = host_output h"
    and "points h' = min (points h + key_cost h key) max_points" and "storage_view E h' = storage_view E h"
proof (cases "length key > AddressLen")
  case True
  then have ex: "word_of_int (int (length key) - int AddressLen) = (of_nat (length key - AddressLen) :: u64)"
    by (simp add: of_nat_diff)
  have cost: "unat (MulUint64 (DataCopyPerByte (base_costs h)) (of_nat (length key - AddressLen))) = key_cost h key"
    using assms(2) by (simp add: gas_simps key_cost_def unat_of_nat_len)
  obtain h' where "UseGas (MulUint64 (DataCopyPerByte (base_costs h)) (of_nat (length key - AddressLen))) h = Some h'"
    and "storage_frame h h'" "host_output h' = host_output h"
    "points h' = min (points h + key_cost h key) max_points" "storage_view E h' = storage_view E h"
    using UseGas_Some [OF assms(1)] cost by metis
  then show thesis using that True ex by (simp add: use_key_gas_def)
next
  case False
  then show thesis using that [of h] assms(3) by (simp add: use_key_gas_def key_cost_def)
qed

lemma GetStorage_spec:
  assumes "has_instance h" and "length key < 2 ^ 63" and "points h \<le> max_points"
    and "v = storage_view E h (sc_address (host_storage h)) key" and "length v < 2 ^ 63"
  obtains h' where "GetStorage E key h = Some (v, h')" and "storage_frame h h'"
    and "storage_view E h' = storage_view E h" and "refund_of h' = refund_of h"
    and "points h' = min (points h + key_cost h key + copy_cost h v) max_points"
proof -
  obtain h1 where 1: "use_key_gas key h = Some h1" "storage_frame h h1" "host_output h1 = host_output h"
    "points h1 = min (points h + key_cost h key) max_points" "storage_view E h1 = storage_view E h"
    using use_key_gas_spec [OF assms(1-3)] by metis
  note f1 = storage_frame_fields [OF 1(2)]
  obtain h2 where 2: "getStorageFromAddressUnmetered E (sc_address (host_storage h)) key h1 = (v, h2)"
    "storage_view E h2 = storage_view E h1" "storage_frame h1 h2" "refund_of h2 = refund_of h1"
    "GetPointsUsed (host_runtime h2) = GetPointsUsed (host_runtime h1)"
    using getStorageFromAddressUnmetered_spec [of E "sc_address (host_storage h)" key h1] assms(4) 1(5) by metis
  note f2 = storage_frame_fields [OF 2(3)]
  obtain h3 where 3: "UseGas (MulUint64 (DataCopyPerByte (base_costs h)) (of_nat (length v))) h2 = Some h3"
    "storage_frame h2 h3" "host_output h3 = host_output h2"
    "points h3 = min (points h2 + copy_cost h v) max_points" "storage_view E h3 = storage_view E h2"
    using UseGas_Some [of h2 "MulUint64 (DataCopyPerByte (base_costs h)) (of_nat (length v))" E]
      f1(6) f2(6) assms(1,5)
    by (auto simp: gas_simps copy_cost_def unat_of_nat_len)
  have "GetStorage E key h = Some (v, h3)"
    using 1(1) 2(1) 3(1) f1 f2 by (simp add: GetStorage_def GetStorageUnmetered_def)
  then show thesis
    using that [of h3] 1 2 3 storage_frame_trans [OF storage_frame_trans [OF 1(2) 2(3)] 3(2)]
    by (simp add: add.assoc)
qed

section \<open>Writes\<close>

definition storage_status :: "bytes \<Rightarrow> bytes \<Rightarrow> StorageStatus" where
  "storage_status old new =
     (if old = new then StorageUnchanged else if old = [] then StorageAdded
      else if new = [] then StorageDeleted else StorageModified)"

text \<open>
  The gas of a write, by the length of the old and the new value. Note the last case: replacing
  a value by a different one of the same length is free.
\<close>

definition write_cost :: "'w vmHost \<Rightarrow> bytes \<Rightarrow> bytes \<Rightarrow> nat" where
  "write_cost h old new =
     (if old = new then copy_cost h new
      else if old = [] then min (unat (StorePerByte (base_costs h)) * length new) max_u64
      else if new = [] then 0
      else if length new > length old
      then min (unat (PersistPerByte (base_costs h)) * length old
                + unat (StorePerByte (base_costs h)) * (length new - length old)) max_u64
      else if length new < length old
      then min (unat (PersistPerByte (base_costs h)) * length new) max_u64
      else 0)"

definition write_refund :: "'w vmHost \<Rightarrow> bytes \<Rightarrow> bytes \<Rightarrow> nat" where
  "write_refund h old new =
     (if old \<noteq> [] \<and> length new < length old
      then min (unat (ReleasePerByte (base_costs h)) * (length old - length new)) max_u64 else 0)"

lemma GetRefund_SetRefund [simp]: "GetRefund (SetRefund r c) = Some r"
  by (simp add: GetRefund_def SetRefund_def)

lemma FreeGas_Some:
  assumes "GetRefund (host_output h) = Some r"
  obtains h' where "FreeGas gas h = Some h'" and "storage_frame h h'"
    and "GetRefund (host_output h') = Some (AddUint64 r gas)"
    and "GetPointsUsed (host_runtime h') = GetPointsUsed (host_runtime h)"
    and "storage_view E h' = storage_view E h"
proof -
  let ?h' = "upd_output (SetRefund (AddUint64 r gas)) h"
  have "storage_frame h ?h'"
    by (rule storage_frame_output)
      (auto simp: SetRefund_def wf_output_def wf_vmOutput_def delta_of_def GetOutputAccounts_def)
  moreover have "storage_view E ?h' = storage_view E h"
    by (rule storage_view_cong) (auto simp: SetRefund_def cached_update_def GetOutputAccounts_def fun_eq_iff)
  ultimately show thesis using that [of ?h'] assms by (simp add: FreeGas_def Let_def)
qed

lemma length_difference:
  assumes "m < 2 ^ 63" and "n < 2 ^ 63"
  defines "d \<equiv> SubInt (of_nat m) (of_nat n)"
  shows "0 <s d \<longleftrightarrow> n < m" and "d <s 0 \<longleftrightarrow> m < n"
    and "n < m \<Longrightarrow> unat d = m - n" and "m < n \<Longrightarrow> unat (- d) = n - m"
proof -
  have s: "sint (of_nat k :: i64) = int k" if "k < 2 ^ 63" for k
    using that by (simp add: signed_of_nat signed_take_bit_int_eq_self)
  have "fits64 (int m - int n)" using assms(1,2) by auto
  then have d: "sint d = int m - int n" using assms(1,2) by (simp add: d_def sint_SubInt s)
  show "0 <s d \<longleftrightarrow> n < m" "d <s 0 \<longleftrightarrow> m < n" using d by (auto simp: word_sless_alt)
  have "d = word_of_int (int m - int n)" unfolding d [symmetric] by simp
  then have w: "n < m \<Longrightarrow> d = of_nat (m - n)" "m < n \<Longrightarrow> - d = of_nat (n - m)"
    by (simp_all add: of_nat_diff)
  show "n < m \<Longrightarrow> unat d = m - n" "m < n \<Longrightarrow> unat (- d) = n - m"
    using w assms(1,2) unat_of_nat_len [of "m - n"] unat_of_nat_len [of "n - m"] by auto
qed

text \<open>The state \<open>SetStorage\<close> reaches after it read the old value.\<close>

lemma read_old_value_spec:
  assumes addr: "addr = sc_address (host_storage h)"
  obtains h2 where "read_old_value E addr key h = (storage_view E h addr key, h2)"
    and "storage_frame h h2" and "storage_view E h2 = storage_view E h" and "refund_of h2 = refund_of h"
    and "GetPointsUsed (host_runtime h2) = GetPointsUsed (host_runtime h)"
proof -
  obtain m h1 where m: "GetStorageUpdates addr h = (m, h1)" by (metis prod.collapse)
  show thesis
  proof (cases "map_get m key")
    case None
    note F = GetStorageUpdates_frame [OF m]
    have a1: "sc_address (host_storage h1) = addr" using storage_frame_fields(2) [OF F(1)] addr by simp
    obtain h2 where 2: "getStorageFromAddressUnmetered E addr key h1 = (storage_view E h addr key, h2)"
      "storage_view E h2 = storage_view E h" "storage_frame h1 h2" "refund_of h2 = refund_of h1"
      "GetPointsUsed (host_runtime h2) = GetPointsUsed (host_runtime h1)"
      using getStorageFromAddressUnmetered_spec [of E addr key h1] F(4) [of E] by metis
    let ?h3 = "put_storage_update addr key \<lparr>su_Offset = key, su_Data = storage_view E h addr key\<rparr> h2"
    have "storage_view E ?h3 = storage_view E h" using 2(2) by (auto simp: fun_eq_iff)
    then show thesis
      using that [of ?h3] None 2 F a1 storage_frame_trans [OF storage_frame_trans [OF F(1) 2(3)] storage_frame_put]
      by (simp add: read_old_value_def GetStorageUnmetered_def m)
  next
    case (Some u)
    then show thesis
      using that [of h1] GetStorageUpdates_frame [OF m] GetStorageUpdates_spec [OF m]
      by (simp add: read_old_value_def storage_view_def m)
  qed
qed

definition may_write :: "'w vmHost \<Rightarrow> bytes \<Rightarrow> bool" where
  "may_write h key \<longleftrightarrow> \<not> rc_readOnly (host_runtime h) \<and> \<not> isProtocolProtectedKey (host_storage h) key
     \<and> \<not> (isVMProtectedKey key \<and> sc_vmStorageProtectionEnabled (host_storage h))"

text \<open>One lemma for every way \<open>write_new_value\<close> can charge.\<close>

definition write_done ::
  "'w vmEnv \<Rightarrow> 'w vmHost \<Rightarrow> address \<Rightarrow> bytes \<Rightarrow> bytes \<Rightarrow> u64 \<Rightarrow> nat \<Rightarrow> nat \<Rightarrow> 'w vmHost \<Rightarrow> bool" where
  "write_done E h addr key val r cost back h' \<longleftrightarrow>
     storage_frame h h'
     \<and> (\<forall>a k. storage_view E h' a k = (if a = addr \<and> k = key then val else storage_view E h a k))
     \<and> (\<exists>r'. GetRefund (host_output h') = Some r' \<and> unat r' = min (unat r + back) max_u64)
     \<and> points h' = min (points h + cost) max_points"

lemma write_done_put:
  assumes "points h \<le> max_points" and "GetRefund (host_output h) = Some r"
  shows "write_done E h addr key val r 0 0 (put_storage_update addr key \<lparr>su_Offset = key, su_Data = val\<rparr> h)"
  using assms unat_le_u64 [of r] by (auto simp: write_done_def GetRefund_def)

lemma write_done_UseGas:
  assumes "write_done E h addr key val r cost back h1" and "has_instance h"
  obtains h' where "UseGas gas h1 = Some h'" and "write_done E h addr key val r (cost + unat gas) back h'"
    and "host_metering h' = host_metering h"
proof -
  have f: "storage_frame h h1" using assms(1) by (simp add: write_done_def)
  note fields = storage_frame_fields [OF f]
  obtain h' where h': "UseGas gas h1 = Some h'" "storage_frame h1 h'" "host_output h' = host_output h1"
    "points h' = min (points h1 + unat gas) max_points" "storage_view E h' = storage_view E h1"
    using UseGas_Some [of h1 gas E] fields(6) assms(2) by blast
  have "write_done E h addr key val r (cost + unat gas) back h'"
    using assms(1) h' storage_frame_trans [OF f h'(2)]
    by (simp add: write_done_def add.assoc)
  then show thesis using that h'(1) storage_frame_fields(1) [OF h'(2)] fields(1) by simp
qed

lemma write_done_FreeGas:
  assumes "write_done E h addr key val r cost back h1"
  obtains h' where "FreeGas gas h1 = Some h'" and "write_done E h addr key val r cost (back + unat gas) h'"
proof -
  obtain r1 where r1: "GetRefund (host_output h1) = Some r1" "unat r1 = min (unat r + back) max_u64"
    using assms by (auto simp: write_done_def)
  obtain h' where h': "FreeGas gas h1 = Some h'" "storage_frame h1 h'"
    "GetRefund (host_output h') = Some (AddUint64 r1 gas)"
    "GetPointsUsed (host_runtime h') = GetPointsUsed (host_runtime h1)"
    "storage_view E h' = storage_view E h1"
    using FreeGas_Some [OF r1(1), of gas E] by blast
  have "storage_frame h h'" using storage_frame_trans h'(2) assms by (auto simp: write_done_def)
  moreover have "unat (AddUint64 r1 gas) = min (unat r + (back + unat gas)) max_u64"
    by (simp add: gas_simps r1(2) add.assoc)
  ultimately have "write_done E h addr key val r cost (back + unat gas) h'"
    using assms h' by (simp add: write_done_def)
  then show thesis using that h'(1) by simp
qed

lemma write_new_value_spec:
  assumes inst: "has_instance h" and pts: "points h \<le> max_points"
    and r: "GetRefund (host_output h) = Some r"
    and lens: "length old < 2 ^ 63" "length val < 2 ^ 63" and old: "old = storage_view E h addr key"
  obtains h' where "write_new_value addr key val old h = Some ((storage_status old val, None), h')"
    and "write_done E h addr key val r (write_cost h old val) (write_refund h old val) h'"
proof (cases "old = val")
  case True
  obtain h' where "UseGas (MulUint64 (DataCopyPerByte (base_costs h)) (of_nat (length val))) h = Some h'"
    "storage_frame h h'" "host_output h' = host_output h" "storage_view E h' = storage_view E h"
    "points h' = min (points h + copy_cost h val) max_points"
    using UseGas_Some [OF inst, of "MulUint64 (DataCopyPerByte (base_costs h)) (of_nat (length val))" E] lens
    by (auto simp: gas_simps copy_cost_def unat_of_nat_len)
  then show thesis
    using that [of h'] True r old unat_le_u64 [of r]
    by (simp add: write_new_value_def storage_status_def write_done_def write_cost_def write_refund_def)
next
  case False
  let ?h1 = "put_storage_update addr key \<lparr>su_Offset = key, su_Data = val\<rparr> h"
  note put = write_done_put [OF pts r, of E addr key val]
  consider "old = []" | "old \<noteq> []" "val = []" | "old \<noteq> []" "val \<noteq> []" "length old < length val"
    | "old \<noteq> []" "val \<noteq> []" "length val < length old" | "old \<noteq> []" "val \<noteq> []" "length val = length old"
    by linarith
  then show thesis
  proof cases
    case 1
    obtain h' where u: "UseGas (MulUint64 (StorePerByte (base_costs h)) (of_nat (length val))) ?h1 = Some h'"
      and w: "write_done E h addr key val r (0 + unat (MulUint64 (StorePerByte (base_costs h)) (of_nat (length val)))) 0 h'"
      by (rule write_done_UseGas [OF put inst])
    have "unat (MulUint64 (StorePerByte (base_costs h)) (of_nat (length val))) = write_cost h old val"
      "write_refund h old val = 0"
      using 1 False lens by (simp_all add: gas_simps write_cost_def write_refund_def unat_of_nat_len)
    then show thesis using that u w 1 False by (simp add: write_new_value_def storage_status_def)
  next
    case 2
    obtain h' where u: "FreeGas (MulUint64 (ReleasePerByte (base_costs h)) (of_nat (length old))) ?h1 = Some h'"
      and w: "write_done E h addr key val r 0 (0 + unat (MulUint64 (ReleasePerByte (base_costs h)) (of_nat (length old)))) h'"
      by (rule write_done_FreeGas [OF put])
    have "unat (MulUint64 (ReleasePerByte (base_costs h)) (of_nat (length old))) = write_refund h old val"
      "write_cost h old val = 0"
      using 2 False lens by (simp_all add: gas_simps write_cost_def write_refund_def unat_of_nat_len)
    then show thesis using that u w 2 False by (simp add: write_new_value_def storage_status_def)
  next
    case 3
    let ?d = "SubInt (of_nat (length val)) (of_nat (length old))"
    let ?g = "AddUint64 (MulUint64 (PersistPerByte (base_costs h)) (of_nat (length old)))
                (MulUint64 (StorePerByte (base_costs h)) ?d)"
    note d = length_difference [OF lens(2) lens(1)]
    obtain h' where u: "UseGas ?g ?h1 = Some h'" and w: "write_done E h addr key val r (0 + unat ?g) 0 h'"
      by (rule write_done_UseGas [OF put inst])
    have "unat ?g = write_cost h old val" "write_refund h old val = 0"
      using 3 False lens d by (simp_all add: gas_simps write_cost_def write_refund_def unat_of_nat_len)
    then show thesis using that u w 3 d False by (simp add: write_new_value_def storage_status_def)
  next
    case 4
    let ?d = "SubInt (of_nat (length val)) (of_nat (length old))"
    let ?g = "MulUint64 (PersistPerByte (base_costs h)) (of_nat (length val))"
    let ?f = "MulUint64 (ReleasePerByte (base_costs h)) (- ?d)"
    note d = length_difference [OF lens(2) lens(1)]
    obtain h2 where u: "UseGas ?g ?h1 = Some h2" and w: "write_done E h addr key val r (0 + unat ?g) 0 h2"
      and m: "host_metering h2 = host_metering h"
      by (rule write_done_UseGas [OF put inst])
    obtain h' where f: "FreeGas ?f h2 = Some h'"
      and w': "write_done E h addr key val r (0 + unat ?g) (0 + unat ?f) h'"
      by (rule write_done_FreeGas [OF w])
    have "unat ?g = write_cost h old val" "unat ?f = write_refund h old val"
      using 4 False lens d by (simp_all add: gas_simps write_cost_def write_refund_def unat_of_nat_len)
    then show thesis using that u f w' m 4 d False by (simp add: write_new_value_def storage_status_def)
  next
    case 5
    note d = length_difference [OF lens(2) lens(1)]
    have "write_cost h old val = 0" "write_refund h old val = 0"
      using 5 False by (auto simp: write_cost_def write_refund_def)
    then show thesis using that [of ?h1] put 5 d False by (simp add: write_new_value_def storage_status_def)
  qed
qed

lemma SetStorage_spec:
  assumes may: "may_write h key" and inst: "has_instance h" and pts: "points h \<le> max_points"
    and r: "GetRefund (host_output h) = Some r" and addr: "addr = sc_address (host_storage h)"
    and old: "old = storage_view E h addr key"
    and lens: "length key < 2 ^ 63" "length old < 2 ^ 63" "length val < 2 ^ 63"
  obtains h' where "SetStorage E key val h = Some ((storage_status old val, None), h')"
    and "write_done E h addr key val r (key_cost h key + write_cost h old val) (write_refund h old val) h'"
proof -
  obtain h1 where 1: "use_key_gas key h = Some h1" "storage_frame h h1" "host_output h1 = host_output h"
    "points h1 = min (points h + key_cost h key) max_points" "storage_view E h1 = storage_view E h"
    using use_key_gas_spec [OF inst lens(1) pts] by metis
  note f1 = storage_frame_fields [OF 1(2)]
  have a1: "addr = sc_address (host_storage h1)" using addr f1(2) by simp
  obtain h2 where 2: "read_old_value E addr key h1 = (old, h2)" "storage_frame h1 h2"
    "storage_view E h2 = storage_view E h" "refund_of h2 = refund_of h"
    "GetPointsUsed (host_runtime h2) = GetPointsUsed (host_runtime h1)"
    using read_old_value_spec [OF a1, of E key] 1(3,5) old by metis
  note f2 = storage_frame_fields [OF 2(2)]
  have costs: "write_cost h2 old val = write_cost h old val" "write_refund h2 old val = write_refund h old val"
    using f1(1) f2(1) by (simp_all add: write_cost_def write_refund_def copy_cost_def)
  have "has_instance h2" "points h2 \<le> max_points" "GetRefund (host_output h2) = Some r"
    "old = storage_view E h2 addr key"
    using f1(6) f2(6) inst 1(4) 2(3,4,5) r old by (auto simp: GetRefund_def)
  from write_new_value_spec [OF this(1-3) lens(2,3) this(4)] obtain h' where
    3: "write_new_value addr key val old h2 = Some ((storage_status old val, None), h')"
    and d: "write_done E h2 addr key val r (write_cost h old val) (write_refund h old val) h'"
    unfolding costs by metis
  have "SetStorage E key val h = Some ((storage_status old val, None), h')"
    using may 1(1) 2(1) 3 a1 by (simp add: SetStorage_def may_write_def)
  moreover have "write_done E h addr key val r (key_cost h key + write_cost h old val) (write_refund h old val) h'"
    using d 1(4) 2 storage_frame_trans [OF storage_frame_trans [OF 1(2) 2(2)]]
    by (simp add: write_done_def add.assoc)
  ultimately show thesis using that by simp
qed

lemma SetStorage_refused:
  assumes "\<not> may_write h key"
  shows "SetStorage E key val h = Some ((StorageUnchanged,
    if rc_readOnly (host_runtime h) then None
    else if isProtocolProtectedKey (host_storage h) key then Some (Sentinel ErrStoreReservedKey)
    else Some (Sentinel ErrCannotWriteProtectedKey)), h)"
  using assms by (auto simp: may_write_def SetStorage_def)

section \<open>Properties\<close>


lemma sample_may_write: "may_write sample_host [7]" "has_instance sample_host"
  "points sample_host = 10" "GetRefund (host_output sample_host) = Some 0"
  "sc_address (host_storage sample_host) = [1]"
  "storage_view sample_env sample_host [1] [7] = [1, 2, 3]"
  by (simp_all add: may_write_def has_instance_def GetRefund_def isProtocolProtectedKey_def
      isVMProtectedKey_def ProtectedStoragePrefix_def has_prefix_def bytes_of_string_def
      storage_view_def cached_update_def GetOutputAccounts_def GetPointsUsed_def sample_defs)




text \<open>
  What is stored is what is read: after a permitted write, reading the same key of the
  current contract returns the written value, and all other keys still hold what they held.
\<close>

theorem storage_round_trip:
  assumes "may_write h key" and "has_instance h" and "points h \<le> max_points"
    and "GetRefund (host_output h) = Some r" and "addr = sc_address (host_storage h)"
    and "old = storage_view E h addr key"
    and "length key < 2 ^ 63" and "length old < 2 ^ 63" and "length val < 2 ^ 63"
  shows "\<exists>s h1 h2. SetStorage E key val h = Some ((s, None), h1) \<and> GetStorage E key h1 = Some (val, h2)
    \<and> (\<forall>a k. \<not> (a = addr \<and> k = key) \<longrightarrow> storage_view E h2 a k = storage_view E h a k)"
proof -
  obtain h1 where set: "SetStorage E key val h = Some ((storage_status old val, None), h1)"
    and d: "write_done E h addr key val r (key_cost h key + write_cost h old val) (write_refund h old val) h1"
    by (rule SetStorage_spec [OF assms])
  then have frame: "storage_frame h h1" and pts: "points h1 \<le> max_points"
    and view: "\<And>a k. storage_view E h1 a k = (if a = addr \<and> k = key then val else storage_view E h a k)"
    by (auto simp: write_done_def)
  note f = storage_frame_fields [OF frame]
  have inst: "has_instance h1" and v: "val = storage_view E h1 (sc_address (host_storage h1)) key"
    using f assms(2,5) view by auto
  obtain h2 where "GetStorage E key h1 = Some (val, h2)" and "storage_view E h2 = storage_view E h1"
    by (rule GetStorage_spec [OF inst assms(7) pts v assms(9)]) blast
  then show ?thesis using set view by auto
qed

theorem storage_round_trip_witness:
  "\<exists>s h1 h2. SetStorage sample_env [7] [4] sample_host = Some ((s, None), h1)
     \<and> GetStorage sample_env [7] h1 = Some ([4], h2)"
  using storage_round_trip [of sample_host "[7]" 0 "[1]" "[1, 2, 3]" sample_env "[4]"] sample_may_write by auto

text \<open>
  The VM's own writes may use the keys it reserves: unless the call is read-only or the key
  is reserved by the node, \<open>SetProtectedStorage\<close> stores the value under any key, and the
  protection is on again afterwards.
\<close>

theorem SetProtectedStorage_writes:
  assumes "\<not> rc_readOnly (host_runtime h)" and "\<not> isProtocolProtectedKey (host_storage h) key"
    and "has_instance h" and "points h \<le> max_points" and "GetRefund (host_output h) = Some r"
    and "addr = sc_address (host_storage h)" and "old = storage_view E h addr key"
    and "length key < 2 ^ 63" and "length old < 2 ^ 63" and "length val < 2 ^ 63"
  shows "\<exists>s h'. SetProtectedStorage E key val h = Some ((s, None), h') \<and> storage_view E h' addr key = val
    \<and> sc_vmStorageProtectionEnabled (host_storage h')"
proof -
  let ?h = "upd_storage disableStorageProtection h"
  have h: "may_write ?h key" "has_instance ?h" "points ?h \<le> max_points" "GetRefund (host_output ?h) = Some r"
    "addr = sc_address (host_storage ?h)" "old = storage_view E ?h addr key"
    using assms by (auto simp: may_write_def disableStorageProtection_def isProtocolProtectedKey_def
        has_instance_def storage_view_def)
  obtain h1 where set: "SetStorage E key val ?h = Some ((storage_status old val, None), h1)"
    and d: "write_done E ?h addr key val r (key_cost ?h key + write_cost ?h old val) (write_refund ?h old val) h1"
    by (rule SetStorage_spec [OF h assms(8-10)])
  have "storage_view E (upd_storage enableStorageProtection h1) = storage_view E h1"
    by (simp add: storage_view_def fun_eq_iff)
  moreover have "storage_view E h1 addr key = val" using d by (simp add: write_done_def)
  ultimately have "storage_view E (upd_storage enableStorageProtection h1) addr key = val" by simp
  then show ?thesis
    using set by (auto simp: SetProtectedStorage_def enableStorageProtection_def)
qed

theorem SetProtectedStorage_writes_witness:
  "\<exists>s h'. SetProtectedStorage sample_env (ProtectedStoragePrefix @ [1]) [4] sample_host = Some ((s, None), h')
     \<and> storage_view sample_env h' [1] (ProtectedStoragePrefix @ [1]) = [4]"
proof -
  define key where "key = ProtectedStoragePrefix @ [1]"
  have "\<not> rc_readOnly (host_runtime sample_host)" by (simp add: sample_defs)
  moreover have "\<not> isProtocolProtectedKey (host_storage sample_host) key" unfolding key_def by code_simp
  moreover have "key \<noteq> [7]" unfolding key_def by code_simp
  then have "[] = storage_view sample_env sample_host [1] key"
    by (simp add: storage_view_def cached_update_def GetOutputAccounts_def sample_hook_def sample_host_def
        sample_output_def sample_env_def)
  moreover have "length ProtectedStoragePrefix = 6" by code_simp
  then have "length key < 2 ^ 63" by (simp add: key_def)
  ultimately show ?thesis
    using SetProtectedStorage_writes [of sample_host key 0 "[1]" "[]" sample_env "[4]"]
      sample_may_write(2-5) unfolding key_def [symmetric] by auto
qed

end
