(* ===== verification/BigIntContext.thy ===== *)
theory BigIntContext
  imports VMTypes StateStack
begin

text \<open>
  The big integer context of \<open>vmhost/contexts/bigint.go\<close>: a map from \<open>int32\<close> handles to
  big integers and its state stack. The search of \<open>Put\<close> for a free handle is a loop that
  has no bound in the source and wraps around at the end of the \<open>int32\<close> range; it is a
  partial function, shown to return whenever fewer than \<open>2 ^ 32\<close> handles are in use.
\<close>

section \<open>Operations\<close>

definition NewBigIntContext :: bigIntContext where
  "NewBigIntContext = \<lparr>bi_values = [], bi_stateStack = []\<rparr>"

definition bigInt_InitState :: "bigIntContext \<Rightarrow> bigIntContext" where
  "bigInt_InitState c = c\<lparr>bi_values := []\<rparr>"

fun bigInt_clone :: "(i32, int) gomap \<Rightarrow> (i32, int) gomap \<Rightarrow> (i32, int) gomap" where
  "bigInt_clone [] newState = newState"
| "bigInt_clone ((handle, bigInt) # rest) newState =
     bigInt_clone rest (map_put handle bigInt newState)"

definition bigInt_PushState :: "bigIntContext \<Rightarrow> bigIntContext" where
  "bigInt_PushState c = c\<lparr>bi_stateStack := bi_stateStack c @ [bigInt_clone (bi_values c) []]\<rparr>"

definition bigInt_PopSetActiveState :: "bigIntContext \<Rightarrow> bigIntContext" where
  "bigInt_PopSetActiveState c =
     (if bi_stateStack c = [] then c
      else c\<lparr>bi_stateStack := butlast (bi_stateStack c), bi_values := last (bi_stateStack c)\<rparr>)"

definition bigInt_PopDiscard :: "bigIntContext \<Rightarrow> bigIntContext" where
  "bigInt_PopDiscard c =
     (if bi_stateStack c = [] then c else c\<lparr>bi_stateStack := butlast (bi_stateStack c)\<rparr>)"

definition bigInt_ClearStateStack :: "bigIntContext \<Rightarrow> bigIntContext" where
  "bigInt_ClearStateStack c = c\<lparr>bi_stateStack := []\<rparr>"

partial_function (option) free_handle :: "(i32, int) gomap \<Rightarrow> i32 \<Rightarrow> i32 option" where
  "free_handle values newHandle =
     (if map_get values newHandle = None then Some newHandle
      else free_handle values (newHandle + 1))"

declare free_handle.simps [code]

definition bigInt_Put :: "i64 \<Rightarrow> bigIntContext \<Rightarrow> (i32 \<times> bigIntContext) option" where
  "bigInt_Put value c = do {
     newHandle \<leftarrow> free_handle (bi_values c) (of_nat (length (bi_values c)));
     Some (newHandle, c\<lparr>bi_values := map_put newHandle (sint value) (bi_values c)\<rparr>)
   }"

definition bigInt_GetOne :: "i32 \<Rightarrow> bigIntContext \<Rightarrow> int \<times> bigIntContext" where
  "bigInt_GetOne handle c =
     (case map_get (bi_values c) handle of
        None \<Rightarrow> (0, c\<lparr>bi_values := map_put handle 0 (bi_values c)\<rparr>)
      | Some v \<Rightarrow> (v, c))"

definition bigInt_GetTwo :: "i32 \<Rightarrow> i32 \<Rightarrow> bigIntContext \<Rightarrow> (int \<times> int) \<times> bigIntContext" where
  "bigInt_GetTwo handle1 handle2 c =
     (let (v1, c) = bigInt_GetOne handle1 c; (v2, c) = bigInt_GetOne handle2 c in ((v1, v2), c))"

definition bigInt_GetThree ::
  "i32 \<Rightarrow> i32 \<Rightarrow> i32 \<Rightarrow> bigIntContext \<Rightarrow> (int \<times> int \<times> int) \<times> bigIntContext" where
  "bigInt_GetThree handle1 handle2 handle3 c =
     (let (v1, c) = bigInt_GetOne handle1 c; (v2, c) = bigInt_GetOne handle2 c;
          (v3, c) = bigInt_GetOne handle3 c in ((v1, v2, v3), c))"

section \<open>Well-formedness\<close>

definition wf_bigInt :: "bigIntContext \<Rightarrow> bool" where
  "wf_bigInt c \<longleftrightarrow> wf_map (bi_values c) \<and> (\<forall>m \<in> set (bi_stateStack c). wf_map m)"

text \<open>Cloning a map with distinct keys yields the same map.\<close>

lemma bigInt_clone_append:
  "wf_map (acc @ m) \<Longrightarrow> bigInt_clone m acc = acc @ m"
proof (induction m acc rule: bigInt_clone.induct)
  case (1 acc)
  then show ?case by simp
next
  case (2 k v m acc)
  then have "k \<notin> fst ` set acc" and "wf_map ((acc @ [(k, v)]) @ m)"
    by (auto simp: wf_map_def)
  then show ?case using 2 by (simp add: map_put_new)
qed

lemma bigInt_clone_id: "wf_map m \<Longrightarrow> bigInt_clone m [] = m"
  using bigInt_clone_append [of "[]" m] by simp

lemma wf_bigInt_New: "wf_bigInt NewBigIntContext"
  by (simp add: wf_bigInt_def NewBigIntContext_def)

lemma wf_bigInt_stack_ops [wf_intros]:
  assumes "wf_bigInt c"
  shows "wf_bigInt (bigInt_InitState c)" "wf_bigInt (bigInt_PushState c)"
    "wf_bigInt (bigInt_PopSetActiveState c)" "wf_bigInt (bigInt_PopDiscard c)"
    "wf_bigInt (bigInt_ClearStateStack c)"
  using assms
  by (auto simp: wf_bigInt_def bigInt_InitState_def bigInt_PushState_def bigInt_clone_id
      bigInt_PopSetActiveState_def bigInt_PopDiscard_def bigInt_ClearStateStack_def
      dest: in_set_butlastD)

interpretation bigInt_stack: state_stack bigInt_PushState bigInt_PopSetActiveState
    bigInt_PopDiscard bigInt_ClearStateStack bi_values bi_stateStack wf_bigInt
  by unfold_locales
    (auto simp: bigInt_PushState_def bigInt_clone_id bigInt_PopSetActiveState_def wf_intros
      bigInt_PopDiscard_def bigInt_ClearStateStack_def wf_bigInt_def dest: in_set_butlastD)

section \<open>Handles\<close>

lemma bigInt_GetOne_value: "fst (bigInt_GetOne h c) = map_get_or 0 (bi_values c) h"
  by (simp add: bigInt_GetOne_def map_get_or_def split: option.splits)

lemma bigInt_GetOne_get:
  "map_get (bi_values (snd (bigInt_GetOne h c))) = (map_get (bi_values c))(h \<mapsto> map_get_or 0 (bi_values c) h)"
  by (auto simp: bigInt_GetOne_def map_get_or_def split: option.splits)

lemma bigInt_GetOne_stack: "bi_stateStack (snd (bigInt_GetOne h c)) = bi_stateStack c"
  by (simp add: bigInt_GetOne_def split: option.splits)

lemma wf_bigInt_GetOne [wf_intros]: "wf_bigInt c \<Longrightarrow> wf_bigInt (snd (bigInt_GetOne h c))"
  by (auto simp: wf_bigInt_def bigInt_GetOne_def split: option.splits)

lemma free_handle_Some:
  assumes "free_handle m h = Some h'"
  shows "map_get m h' = None"
proof -
  have "map_get m h' = None"
  proof (rule free_handle.raw_induct [where P = "\<lambda>m h h'. map_get m h' = None", OF _ assms])
    fix f and m :: "(i32, int) gomap" and h h'
    assume IH: "\<And>m h h'. f m h = Some h' \<Longrightarrow> map_get m h' = None"
      and "(if map_get m h = None then Some h else f m (h + 1)) = Some h'"
    then show "map_get m h' = None" by (auto split: if_splits)
  qed
  then show ?thesis .
qed

lemma free_handle_returns:
  "map_get m (h + of_nat d) = None \<Longrightarrow> \<exists>h'. free_handle m h = Some h'"
proof (induction d arbitrary: h)
  case 0
  then show ?case by (simp add: free_handle.simps [of m h])
next
  case (Suc d)
  have "map_get m ((h + 1) + of_nat d) = None" using Suc.prems by (simp add: add.assoc)
  then have "\<exists>h'. free_handle m (h + 1) = Some h'" by (rule Suc.IH)
  then show ?case by (simp add: free_handle.simps [of m h])
qed

lemma handle_available:
  fixes m :: "(i32, int) gomap"
  assumes "length m < 2 ^ 32"
  shows "\<exists>h. map_get m h = None"
proof -
  have "card (fst ` set m) \<le> length m"
    using card_image_le card_length le_trans by (metis List.finite_set)
  also have "\<dots> < card (UNIV :: i32 set)" using assms by (simp add: card_word)
  finally have "fst ` set m \<noteq> UNIV" by auto
  then show ?thesis using map_get_None by (metis UNIV_eq_I)
qed

lemma bigInt_Put_returns:
  assumes "length (bi_values c) < 2 ^ 32"
  obtains h where "map_get (bi_values c) h = None"
    and "bigInt_Put value c = Some (h, c\<lparr>bi_values := map_put h (sint value) (bi_values c)\<rparr>)"
proof -
  obtain x where x: "map_get (bi_values c) x = None"
    using handle_available [OF assms] by blast
  let ?s = "of_nat (length (bi_values c)) :: i32"
  have "map_get (bi_values c) (?s + of_nat (unat (x - ?s))) = None" using x by simp
  then obtain h where h: "free_handle (bi_values c) ?s = Some h"
    using free_handle_returns by blast
  then have "map_get (bi_values c) h = None" by (rule free_handle_Some)
  with h show thesis using that by (simp add: bigInt_Put_def)
qed

text \<open>
  A new big integer gets a handle of its own: as long as not all 32-bit handles are taken,
  the search for one ends, the handle was unused, reading it returns the stored number, and
  every other handle still reads as before.
\<close>

theorem bigInt_Put_fresh:
  assumes "length (bi_values c) < 2 ^ 32"
  shows "\<exists>handle c'. bigInt_Put number c = Some (handle, c')
    \<and> map_get (bi_values c) handle = None
    \<and> fst (bigInt_GetOne handle c') = sint number
    \<and> (\<forall>other. other \<noteq> handle \<longrightarrow> fst (bigInt_GetOne other c') = fst (bigInt_GetOne other c))
    \<and> bi_stateStack c' = bi_stateStack c"
  by (rule bigInt_Put_returns [OF assms, of number])
    (auto simp: bigInt_GetOne_value map_get_or_def)

theorem bigInt_Put_fresh_witness:
  "\<exists>handle c'. bigInt_Put 5 \<lparr>bi_values = [(1, 7), (0, 3)], bi_stateStack = []\<rparr> = Some (handle, c')
     \<and> fst (bigInt_GetOne handle c') = 5 \<and> bi_stateStack c' = []"
proof -
  have "length (bi_values \<lparr>bi_values = [(1, 7), (0, 3)], bi_stateStack = []\<rparr>) < 2 ^ 32" by simp
  from bigInt_Put_fresh [OF this, of 5] show ?thesis by auto
qed

end
