(* ===== verification/Helpers.thy ===== *)
theory Helpers
  imports RuntimeProofs
begin

unbundle bit_operations_syntax

text \<open>
  The byte helpers of \<open>vmhost/helpers.go\<close>: guarded slices, padding, reversal, the LEB128
  encoding of numbers in WASM byte code and the storage keys of asynchronous data. A slice
  that may be nil is an option.
\<close>

section \<open>Definitions\<close>

definition CustomStorageKey :: "string \<Rightarrow> bytes \<Rightarrow> bytes" where
  "CustomStorageKey keyType associatedKey = associatedKey @ bytes_of_string keyType"

definition BooleanToInt :: "bool \<Rightarrow> int" where
  "BooleanToInt b = (if b then 1 else 0)"

text \<open>The message of a formatted error is abbreviated to its fixed part.\<close>

definition GuardedMakeByteSlice2D :: "i32 \<Rightarrow> go_error + bytes list" where
  "GuardedMakeByteSlice2D len =
     (if len <s 0 then Inl (OtherError ''GuardedMakeByteSlice2D: negative length'')
      else Inr (replicate (nat (sint len)) []))"

definition GuardedGetBytesSlice :: "bytes \<Rightarrow> i32 \<Rightarrow> i32 \<Rightarrow> (go_error + bytes) option" where
  "GuardedGetBytesSlice data offset len =
     (let dataLength = (of_nat (length data) :: u32);
          isOffsetTooSmall = offset <s 0;
          isOffsetTooLarge = offset > dataLength;
          requestedEnd = AddInt32 offset len;
          isRequestedEndTooLarge = requestedEnd > dataLength;
          isLengthNegative = len <s 0
      in if isOffsetTooSmall \<or> isOffsetTooLarge \<or> isRequestedEndTooLarge
         then Some (Inl (OtherError ''GuardedGetBytesSlice: bad bounds''))
         else if isLengthNegative
         then Some (Inl (OtherError ''GuardedGetBytesSlice: negative length''))
         else do {
           r \<leftarrow> go_slice data (sint offset) (sint requestedEnd);
           Some (Inr r)
         })"

definition PadBytesLeft :: "bytes option \<Rightarrow> i64 \<Rightarrow> bytes option" where
  "PadBytesLeft data len =
     (case data of
        None \<Rightarrow> None
      | Some d \<Rightarrow>
          if length d = 0 then Some []
          else let padSize = SubInt len (of_nat (length d))
               in if padSize \<le>s 0 then Some d
                  else Some (replicate (nat (sint padSize)) 0 @ d))"

text \<open>The loop of \<open>InverseBytes\<close>: index \<open>i\<close> of the data goes to \<open>length - i - 1\<close>.\<close>

function inverse_loop :: "bytes \<Rightarrow> nat \<Rightarrow> bytes \<Rightarrow> bytes" where
  "inverse_loop data i invBytes =
     (if i < length data
      then inverse_loop data (Suc i) (invBytes[length data - i - 1 := data ! i])
      else invBytes)"
  by pat_completeness auto
termination
  by (relation "measure (\<lambda>(data, i, _). length data - i)") auto

declare inverse_loop.simps [simp del]

definition InverseBytes :: "bytes \<Rightarrow> bytes" where
  "InverseBytes data = inverse_loop data 0 (replicate (length data) 0)"

lemma unat_drop7: "unat (drop_bit 7 (n :: u64)) = unat n div 128"
  by (simp add: drop_bit_eq_div unat_div)

lemma drop7_less: "drop_bit 7 (n :: u64) \<noteq> 0 \<Longrightarrow> unat (drop_bit 7 n) < unat n"
proof -
  assume "drop_bit 7 n \<noteq> 0"
  then have "unat n div 128 \<noteq> 0" by (metis unat_drop7 unat_eq_0)
  then show ?thesis by (simp add: unat_drop7)
qed

function leb128_loop :: "u64 \<Rightarrow> bytes \<Rightarrow> bytes" where
  "leb128_loop n acc =
     (let b = (ucast (n AND 0x7F) :: byte);
          n' = drop_bit 7 n
      in if n' = 0 then acc @ [b] else leb128_loop n' (acc @ [b OR 0x80]))"
  by pat_completeness auto
termination
  by (relation "measure (\<lambda>(n, _). unat n)") (auto dest: drop7_less)

declare leb128_loop.simps [simp del]

definition U64ToLEB128 :: "u64 \<Rightarrow> bytes" where
  "U64ToLEB128 n = leb128_loop n []"

section \<open>Reversal, slices and padding\<close>

lemma inverse_loop_nth:
  assumes "length out = length data" and "k < length data"
  shows "inverse_loop data i out ! k = (if i \<le> length data - k - 1 then data ! (length data - k - 1) else out ! k)
    \<and> length (inverse_loop data i out) = length data"
  using assms
proof (induction data i out rule: inverse_loop.induct)
  case (1 data i out)
  show ?case
  proof (cases "i < length data")
    case True
    let ?out = "out[length data - i - 1 := data ! i]"
    have IH: "inverse_loop data (Suc i) ?out ! k =
        (if Suc i \<le> length data - k - 1 then data ! (length data - k - 1) else ?out ! k)
        \<and> length (inverse_loop data (Suc i) ?out) = length data"
      using "1.IH" [OF True] "1.prems" by simp
    have eq: "inverse_loop data i out = inverse_loop data (Suc i) ?out"
      using True by (simp add: inverse_loop.simps [of data i])
    consider "i < length data - k - 1" | "i = length data - k - 1" | "length data - k - 1 < i" by linarith
    then show ?thesis
    proof cases
      case 2
      then have "length data - i - 1 = k" using "1.prems" by simp
      then show ?thesis using IH eq 2 "1.prems" by (simp add: nth_list_update)
    qed (use IH eq "1.prems" True in \<open>auto simp: nth_list_update\<close>)
  next
    case False
    then show ?thesis using "1.prems" by (auto simp: inverse_loop.simps [of data i])
  qed
qed

lemma InverseBytes_rev: "InverseBytes data = rev data"
proof (cases "data = []")
  case True
  then show ?thesis by (simp add: InverseBytes_def inverse_loop.simps)
next
  case False
  note loop = inverse_loop_nth [of "replicate (length data) 0" data, where i = 0]
  have "length (InverseBytes data) = length data" using loop [of 0] False by (simp add: InverseBytes_def)
  then show ?thesis
    using loop by (intro nth_equalityI) (auto simp: InverseBytes_def rev_nth)
qed

lemma GuardedGetBytesSlice_spec:
  assumes "length data < 2 ^ 31 - 1"
  shows "GuardedGetBytesSlice data offset len =
    Some (if offset <s 0 \<or> length data < unat offset \<or> length data < unat (AddInt32 offset len)
          then Inl (OtherError ''GuardedGetBytesSlice: bad bounds'')
          else if len <s 0 then Inl (OtherError ''GuardedGetBytesSlice: negative length'')
          else Inr (take (unat len) (drop (unat offset) data)))"
proof -
  have dl: "(of_nat (length data) :: u32) < x \<longleftrightarrow> length data < unat x" for x
    using assms by (simp add: word_less_nat_alt unat_of_nat_u32)
  have "go_slice data (sint offset) (sint (AddInt32 offset len)) = Some (take (unat len) (drop (unat offset) data))"
    if "\<not> offset <s 0" "\<not> len <s 0" "\<not> length data < unat (AddInt32 offset len)"
  proof -
    note o = nonneg_i32 [OF that(1)] and e = requestedEnd_spec [OF that(1,2)]
    have "unat offset + unat len \<le> length data" using that(3) assms e(1) by linarith
    then show ?thesis using o e assms by (simp add: go_slice_def del: of_nat_unat)
  qed
  then show ?thesis by (auto simp: GuardedGetBytesSlice_def Let_def dl)
qed

lemma PadBytesLeft_spec:
  assumes "length d < 2 ^ 63" and "n < 2 ^ 63" and "d \<noteq> []"
  shows "PadBytesLeft (Some d) (of_nat n) = Some (replicate (n - length d) 0 @ d)"
proof -
  have s: "sint (of_nat k :: i64) = int k" if "k < 2 ^ 63" for k
    using that by (simp add: signed_of_nat signed_take_bit_int_eq_self)
  have "fits64 (int n - int (length d))" using assms(1,2) by auto
  then have p: "sint (SubInt (of_nat n) (of_nat (length d))) = int n - int (length d)"
    using assms(1,2) by (simp add: sint_SubInt s)
  then show ?thesis using assms(3) by (auto simp: PadBytesLeft_def word_sle_eq Let_def)
qed

section \<open>LEB128\<close>

text \<open>Decoding: seven bits of each byte, the lowest first, until a byte without the top bit.\<close>

fun leb128_decode :: "bytes \<Rightarrow> (nat \<times> bytes) option" where
  "leb128_decode [] = None"
| "leb128_decode (b # bs) =
     (if unat b < 128 then Some (unat b, bs)
      else case leb128_decode bs of
             None \<Rightarrow> None
           | Some (n, rest) \<Rightarrow> Some (unat b - 128 + 128 * n, rest))"

lemma leb128_loop_acc: "leb128_loop n acc = acc @ leb128_loop n []"
proof (induction "unat n" arbitrary: n acc rule: less_induct)
  case less
  show ?case
  proof (cases "drop_bit 7 n = 0")
    case True
    then show ?thesis by (simp add: leb128_loop.simps [of n] Let_def)
  next
    case False
    have lt: "unat (drop_bit 7 n) < unat n" using False by (rule drop7_less)
    have "leb128_loop (drop_bit 7 n) (acc @ [x]) = acc @ [x] @ leb128_loop (drop_bit 7 n) []"
      and "leb128_loop (drop_bit 7 n) [x] = [x] @ leb128_loop (drop_bit 7 n) []" for x
      using less [OF lt, of "acc @ [x]"] less [OF lt, of "[x]"] by simp_all
    then show ?thesis using False by (simp add: leb128_loop.simps [of n] Let_def)
  qed
qed

lemma take_and_push_bit: "take_bit k x AND push_bit k y = (0 :: nat)"
  by (auto simp: bit_eq_iff bit_simps)

lemma or_128: "x < 128 \<Longrightarrow> x OR 128 = x + (128 :: nat)"
proof -
  assume "x < 128"
  then have x: "take_bit 7 x = x" by (simp add: take_bit_nat_eq_self)
  have "push_bit 7 1 = (128 :: nat)" by (simp add: push_bit_eq_mult)
  then have "take_bit 7 x AND 128 = take_bit 7 x AND push_bit 7 1" by simp
  also have "\<dots> = 0" by (rule take_and_push_bit)
  finally have "x AND 128 = 0" using x by simp
  then show ?thesis by (simp add: disjunctive_add_eq_or)
qed

lemma low_seven_bits:
  fixes n :: u64
  shows "unat (ucast (n AND 0x7F) :: byte) = unat n mod 128"
    and "unat ((ucast (n AND 0x7F) :: byte) OR 0x80) = unat n mod 128 + 128"
proof -
  have m: "n AND 0x7F = take_bit 7 n" by (simp add: take_bit_eq_mask mask_eq_exp_minus_1)
  show low: "unat (ucast (n AND 0x7F) :: byte) = unat n mod 128"
    unfolding m by (simp add: unsigned_ucast_eq unsigned_take_bit_eq take_bit_eq_mod unat_mod mod_mod_cancel)
  show "unat ((ucast (n AND 0x7F) :: byte) OR 0x80) = unat n mod 128 + 128"
    unfolding unsigned_or_eq low by (simp add: or_128)
qed

lemma leb128_decode_encode: "leb128_decode (U64ToLEB128 n @ rest) = Some (unat n, rest)"
  unfolding U64ToLEB128_def
proof (induction "unat n" arbitrary: n rule: less_induct)
  case less
  show ?case
  proof (cases "drop_bit 7 n = 0")
    case True
    then have "unat n div 128 = 0" using unat_drop7 [of n] by simp
    then have "unat n < 128" by simp
    then show ?thesis using True by (simp add: leb128_loop.simps [of n] Let_def low_seven_bits)
  next
    case False
    have IH: "leb128_decode (leb128_loop (drop_bit 7 n) [] @ rest) = Some (unat n div 128, rest)"
      using less [OF drop7_less [OF False]] by (simp add: unat_drop7)
    have "leb128_loop n [] = (ucast (n AND 0x7F) OR 0x80) # leb128_loop (drop_bit 7 n) []"
      using False leb128_loop_acc [of "drop_bit 7 n" "[ucast (n AND 0x7F) OR 0x80]"]
      by (simp add: leb128_loop.simps [of n] Let_def)
    then show ?thesis using IH by (simp add: low_seven_bits)
  qed
qed

text \<open>
  Encoding a 64-bit number in LEB128 can be undone: decoding the bytes, followed by
  anything, yields the number and what follows. Reversing bytes twice is the identity.
\<close>

theorem byte_codecs_round_trip:
  "leb128_decode (U64ToLEB128 n @ rest) = Some (unat n, rest) \<and> InverseBytes (InverseBytes data) = data"
  by (simp add: leb128_decode_encode InverseBytes_rev)

end
