(* ===== verification/HostContexts.thy ===== *)
theory HostContexts
  imports WasmerInstances StorageContext BigIntContext Helpers
begin

text \<open>
  The host of \<open>hostCore/host.go\<close> as owner of the six contexts, and the parts of
  \<open>hostCore/execution.go\<close> that do not run contract code: the checks before and after a call,
  the bookkeeping around a nested call and the calls of built-in functions. The Ethereum input
  of the host is only ever set to nil and is left out. Log messages are not modelled.
\<close>

section \<open>Resetting and cleaning\<close>

definition ClearContextStateStack :: "'w vmHost \<Rightarrow> 'w vmHost" where
  "ClearContextStateStack h = h\<lparr>
     host_bigInt := bigInt_ClearStateStack (host_bigInt h),
     host_output := output_ClearStateStack (host_output h),
     host_metering := metering_ClearStateStack (host_metering h),
     host_runtime := runtime_ClearStateStack (host_runtime h),
     host_storage := storage_ClearStateStack (host_storage h)\<rparr>"

definition initContexts :: "'w vmHost \<Rightarrow> 'w vmHost" where
  "initContexts h =
     (let h = ClearContextStateStack h
      in h\<lparr>host_bigInt := bigInt_InitState (host_bigInt h),
           host_output := output_InitState (host_output h),
           host_metering := metering_InitState (host_metering h),
           host_runtime := runtime_InitState (host_runtime h),
           host_storage := storage_InitState (host_storage h)\<rparr>)"

definition host_InitState :: "'w vmHost \<Rightarrow> 'w vmHost" where
  "host_InitState h = initContexts h"

definition host_Clean :: "'w vmHost \<Rightarrow> 'w vmHost" where
  "host_Clean h =
     (if IsWarmInstance (host_runtime h) then h else upd_runtime CleanWasmerInstance h)"

definition hasRetriableExecutionError :: "VMOutput \<Rightarrow> 'w vmHost \<Rightarrow> bool" where
  "hasRetriableExecutionError vmOutput h =
     (if \<not> IsWarmInstance (host_runtime h) then False
      else vo_ReturnMessage vmOutput = ''allocation error'')"

section \<open>Checks\<close>

definition checkGasForGetCode :: "'w vmEnv \<Rightarrow> ContractCallInput \<Rightarrow> 'w vmHost \<Rightarrow> go_error option" where
  "checkGasForGetCode E input h =
     (if \<not> IsVMV2Enabled E then None
      else if vi_GasProvided (ci_VMInput input) < GetCodeCost (base_costs h)
      then Some (Sentinel ErrNotEnoughGas) else None)"

definition copyTxHashesFromContext ::
  "bool \<Rightarrow> runtimeContext \<Rightarrow> ContractCallInput \<Rightarrow> ContractCallInput" where
  "copyTxHashesFromContext copyEnabled runtime input =
     (if \<not> copyEnabled then input
      else let current = rc_vmInput runtime;
               v = ci_VMInput input;
               v = (if length (vi_OriginalTxHash current) > 0
                    then v\<lparr>vi_OriginalTxHash := vi_OriginalTxHash current\<rparr> else v);
               v = (if length (vi_CurrentTxHash current) > 0
                    then v\<lparr>vi_CurrentTxHash := vi_CurrentTxHash current\<rparr> else v);
               v = (if length (vi_PrevTxHash current) > 0
                    then v\<lparr>vi_PrevTxHash := vi_PrevTxHash current\<rparr> else v)
           in input\<lparr>ci_VMInput := v\<rparr>)"

definition isInitFunctionBeingCalled :: "'w vmHost \<Rightarrow> bool" where
  "isInitFunctionBeingCalled h =
     (let functionName = rc_callFunction (host_runtime h)
      in functionName = InitFunctionName \<or> functionName = InitFunctionNameEth)"

definition isBuiltinFunctionBeingCalled :: "'w vmEnv \<Rightarrow> 'w vmHost \<Rightarrow> bool" where
  "isBuiltinFunctionBeingCalled E h = IsBuiltinFunctionName E (rc_callFunction (host_runtime h))"

definition checkUpgradePermission ::
  "'w vmEnv \<Rightarrow> ContractCallInput \<Rightarrow> 'w vmHost \<Rightarrow> go_error option" where
  "checkUpgradePermission E vmInput h =
     (case user_account E h (ci_RecipientAddr vmInput) of
        Inl err \<Rightarrow> Some err
      | Inr None \<Rightarrow> Some (Sentinel ErrNilContract)
      | Inr (Some contract) \<Rightarrow>
          let codeMetadata = env_CodeMetadataFromBytes E (ua_CodeMetadata contract);
              isUpgradeable = cm_Upgradeable codeMetadata;
              isCallerOwner = (vi_CallerAddr (ci_VMInput vmInput) = ua_OwnerAddress contract)
          in if isUpgradeable \<and> isCallerOwner then None else Some (Sentinel ErrUpgradeNotAllowed))"

definition verifyAllowedFunctionCall :: "'w vmHost \<Rightarrow> go_error option" where
  "verifyAllowedFunctionCall h =
     (let functionName = rc_callFunction (host_runtime h);
          isInit = (functionName = InitFunctionName \<or> functionName = InitFunctionNameEth)
      in if isInit then Some (Sentinel ErrInitFuncCalledInRun)
         else let isCallBack = (functionName = CallbackFunctionName);
                  isInAsyncCallBack = (vi_CallType (rc_vmInput (host_runtime h)) = AsynchronousCallBack)
              in if isCallBack \<and> \<not> isInAsyncCallBack then Some (Sentinel ErrCallBackFuncCalledInRun)
                 else None)"

definition checkFinalGasAfterExit :: "'w vmEnv \<Rightarrow> 'w vmHost \<Rightarrow> go_error option" where
  "checkFinalGasAfterExit E h =
     (if \<not> IsVMV2Enabled E then None
      else if GetPointsUsed (host_runtime h) > GetGasForExecution (host_metering h)
      then Some (Sentinel ErrNotEnoughGas) else None)"

section \<open>Built-in functions\<close>

definition is_esdt_transfer :: "'w vmEnv \<Rightarrow> string \<Rightarrow> bool" where
  "is_esdt_transfer E f \<longleftrightarrow> f = env_ESDTTransfer E \<or> f = env_ESDTNFTTransfer E"

text \<open>Indexing the arguments panics when there are too few.\<close>

definition arg_at :: "bytes list \<Rightarrow> nat \<Rightarrow> bytes option" where
  "arg_at args i = (if i < length args then Some (args ! i) else None)"

definition fillWithESDTValue ::
  "'w vmEnv \<Rightarrow> ContractCallInput \<Rightarrow> ContractCallInput \<Rightarrow> ContractCallInput option" where
  "fillWithESDTValue E fullVMInput newVMInput =
     (if \<not> is_esdt_transfer E (ci_Function fullVMInput) then Some newVMInput
      else do {
        let args = vi_Arguments (ci_VMInput fullVMInput);
        a0 \<leftarrow> arg_at args 0;
        a1 \<leftarrow> arg_at args 1;
        let t = \<lparr>et_Value = big_SetBytes a1, et_TokenType = 0, et_TokenNonce = 0, et_TokenName = a0\<rparr>;
        t \<leftarrow> (if ci_Function fullVMInput = env_ESDTNFTTransfer E then do {
                a2 \<leftarrow> arg_at args 2;
                Some (t\<lparr>et_TokenNonce := word_of_int (big_SetBytes a1), et_Value := big_SetBytes a2,
                        et_TokenType := env_NonFungible E\<rparr>)
              } else Some t);
        Some (newVMInput\<lparr>ci_VMInput := (ci_VMInput newVMInput)\<lparr>vi_ESDTTransfers := [t]\<rparr>\<rparr>)
      })"

definition isSCExecutionAfterBuiltInFunc ::
  "'w vmEnv \<Rightarrow> ContractCallInput \<Rightarrow> VMOutput \<Rightarrow> 'w vmHost \<Rightarrow> (go_error + ContractCallInput option) option" where
  "isSCExecutionAfterBuiltInFunc E vmInput vmOutput h =
     (if vo_ReturnCode vmOutput \<noteq> Ok then Some (Inr None)
      else do {
        let v = ci_VMInput vmInput;
        recipient \<leftarrow> (if ci_Function vmInput = env_ESDTNFTTransfer E \<and> vi_CallerAddr v = ci_RecipientAddr vmInput
                      then arg_at (vi_Arguments v) 3 else Some (ci_RecipientAddr vmInput));
        if \<not> AreInSameShard E (vi_CallerAddr v) recipient h then Some (Inr None)
        else if \<not> IsSmartContract E recipient h then Some (Inr None)
        else (case map_get (vo_OutputAccounts vmOutput) recipient of
                None \<Rightarrow> Some (Inr None)
              | Some outAcc \<Rightarrow>
                  (case oa_OutputTransfers outAcc of
                     [scCallOutTransfer] \<Rightarrow>
                       (case env_ParseData E (ot_Data scCallOutTransfer) of
                          Inl err \<Rightarrow> Some (Inl err)
                        | Inr (function, arguments) \<Rightarrow> do {
                            let newVMInput = \<lparr>ci_VMInput =
                                  \<lparr>vi_CallerAddr = vi_CallerAddr v, vi_Arguments = arguments,
                                   vi_CallValue = Some 0, vi_CallType = vi_CallType v,
                                   vi_GasPrice = vi_GasPrice v,
                                   vi_GasProvided = ot_GasLimit scCallOutTransfer,
                                   vi_GasLocked = ot_GasLocked scCallOutTransfer,
                                   vi_ESDTTransfers = [], vi_ReturnCallAfterError = False,
                                   vi_OriginalTxHash = vi_OriginalTxHash v,
                                   vi_CurrentTxHash = vi_CurrentTxHash v, vi_PrevTxHash = []\<rparr>,
                                  ci_RecipientAddr = recipient, ci_Function = function,
                                  ci_AllowInitFunction = False\<rparr>;
                            newVMInput \<leftarrow> fillWithESDTValue E vmInput newVMInput;
                            Some (Inr (Some newVMInput))
                          })
                   | _ \<Rightarrow> Some (Inr None)))
      })"

definition addOutputTransferToVMOutput ::
  "string \<Rightarrow> bytes list \<Rightarrow> address \<Rightarrow> address \<Rightarrow> CallType \<Rightarrow> VMOutput \<Rightarrow> VMOutput" where
  "addOutputTransferToVMOutput function arguments sender recipient callType vmOutput =
     (let esdtTransferTxData = bytes_of_string function @ hex_args arguments;
          outTransfer = \<lparr>ot_Value = 0, ot_GasLimit = 0, ot_GasLocked = 0, ot_Data = esdtTransferTxData,
                         ot_CallType = callType, ot_SenderAddress = sender\<rparr>;
          outAcc = (case map_get (vo_OutputAccounts vmOutput) recipient of
                      Some a \<Rightarrow> a | None \<Rightarrow> zeroOutputAccount\<lparr>oa_Address := recipient\<rparr>);
          outAcc = outAcc\<lparr>oa_OutputTransfers := oa_OutputTransfers outAcc @ [outTransfer]\<rparr>
      in vmOutput\<lparr>vo_OutputAccounts := map_put recipient outAcc (vo_OutputAccounts vmOutput)\<rparr>)"

definition addESDTTransferToVMOutputSCIntraShardCall ::
  "'w vmEnv \<Rightarrow> ContractCallInput \<Rightarrow> VMOutput \<Rightarrow> 'w vmHost \<Rightarrow> VMOutput" where
  "addESDTTransferToVMOutputSCIntraShardCall E input out h =
     (let v = ci_VMInput input
      in if vo_ReturnCode out \<noteq> Ok then out
         else if \<not> AreInSameShard E (ci_RecipientAddr input) (vi_CallerAddr v) h then out
         else if \<not> is_esdt_transfer E (ci_Function input) then out
         else if ci_Function input = env_ESDTNFTTransfer E then
           (if length (vi_Arguments v) \<noteq> 4 then out
            else addOutputTransferToVMOutput (ci_Function input) (vi_Arguments v) (vi_CallerAddr v)
                   (vi_Arguments v ! 3) (vi_CallType v) out)
         else addOutputTransferToVMOutput (ci_Function input) (vi_Arguments v) (vi_CallerAddr v)
                (ci_RecipientAddr input) (vi_CallType v) out)"

definition callBuiltinFunction ::
  "'w vmEnv \<Rightarrow> ContractCallInput \<Rightarrow> 'w vmHost \<Rightarrow>
   ((go_error + ContractCallInput option \<times> VMOutput) \<times> 'w vmHost) option" where
  "callBuiltinFunction E input h =
     (let (r, h) = ProcessBuiltInFunction E input h
      in case r of
           Inl err \<Rightarrow> do { h \<leftarrow> UseGas (vi_GasProvided (ci_VMInput input)) h; Some (Inl err, h) }
         | Inr vmOutput \<Rightarrow> do {
             r \<leftarrow> isSCExecutionAfterBuiltInFunc E input vmOutput h;
             case r of
               Inl err \<Rightarrow> do { h \<leftarrow> UseGas (vi_GasProvided (ci_VMInput input)) h; Some (Inl err, h) }
             | Inr newVMInput \<Rightarrow> do {
                 let vmOutput = (if newVMInput \<noteq> None
                       then vmOutput\<lparr>vo_OutputAccounts :=
                              map_vals (\<lambda>outAcc. outAcc\<lparr>oa_OutputTransfers := []\<rparr>) (vo_OutputAccounts vmOutput)\<rparr>
                       else vmOutput);
                 h \<leftarrow> TrackGasUsedByBuiltinFunction input vmOutput newVMInput h;
                 let vmOutput = addESDTTransferToVMOutputSCIntraShardCall E input vmOutput h;
                 Some (Inr (newVMInput, vmOutput), h)
               }
           })"

definition handleBuiltinFunctionCall ::
  "'w vmEnv \<Rightarrow> ContractCallInput \<Rightarrow> 'w vmHost \<Rightarrow>
   ((go_error + ContractCallInput option \<times> VMOutput) \<times> 'w vmHost) option" where
  "handleBuiltinFunctionCall E input h = do {
     (r, h) \<leftarrow> callBuiltinFunction E input h;
     case r of
       Inl err \<Rightarrow> Some (Inl err, h)
     | Inr (postBuiltinInput, builtinOutput) \<Rightarrow> do {
         (builtinOutput, out) \<leftarrow> AddToActiveState builtinOutput (host_output h);
         Some (Inr (postBuiltinInput, builtinOutput), h\<lparr>host_output := out\<rparr>)
       }
   }"

section \<open>Entering and leaving a nested call\<close>

definition enterDestContext ::
  "'w vmEnv \<Rightarrow> ContractCallInput \<Rightarrow> 'w vmHost \<Rightarrow> ContractCallInput \<times> 'w vmHost" where
  "enterDestContext E input h =
     (let h = upd_bigInt (\<lambda>c. bigInt_InitState (bigInt_PushState c)) h;
          h = upd_output (\<lambda>c. CensorVMOutput (output_PushState c)) h;
          input = copyTxHashesFromContext (IsESDTFunctionsEnabled E) (host_runtime h) input;
          h = upd_runtime (\<lambda>c. runtime_InitStateFromContractCallInput input (runtime_PushState c)) h;
          (v, m) = metering_InitStateFromContractCallInput (ci_VMInput input)
                     (metering_PushState (host_metering h));
          input = input\<lparr>ci_VMInput := v\<rparr>;
          h = h\<lparr>host_metering := m\<rparr>;
          h = upd_storage (\<lambda>c. SetAddress (rc_scAddress (host_runtime h)) (storage_PushState c)) h
      in (input, h))"

definition finishExecuteOnDestContext ::
  "'w vmEnv \<Rightarrow> go_error option \<Rightarrow> 'w vmHost \<Rightarrow> (VMOutput \<times> 'w vmHost) option" where
  "finishExecuteOnDestContext E executeErr h = do {
     (vmOutput, h) \<leftarrow> (case executeErr of
                         Some err \<Rightarrow> CreateVMOutputInCaseOfError E err h
                       | None \<Rightarrow> GetVMOutput E h);
     let h = upd_bigInt bigInt_PopSetActiveState h;
     let h = upd_storage storage_PopSetActiveState h;
     let h = (if vo_ReturnCode vmOutput = Ok
              then upd_output output_PopMergeActiveState (upd_metering metering_PopMergeActiveState h)
              else upd_output output_PopSetActiveState (upd_metering metering_PopSetActiveState h));
     let h = upd_runtime runtime_PopSetActiveState h;
     h \<leftarrow> RestoreGas (vo_GasRemaining vmOutput) h;
     Some (vmOutput, h)
   }"

definition enterSameContext ::
  "'w vmEnv \<Rightarrow> ContractCallInput \<Rightarrow> 'w vmHost \<Rightarrow> ContractCallInput \<times> 'w vmHost" where
  "enterSameContext E input h =
     (let h = upd_bigInt bigInt_PushState h;
          h = upd_output output_PushState h;
          input = copyTxHashesFromContext (IsESDTFunctionsEnabled E) (host_runtime h) input;
          h = upd_runtime (\<lambda>c. runtime_InitStateFromContractCallInput input (runtime_PushState c)) h;
          (v, m) = metering_InitStateFromContractCallInput (ci_VMInput input)
                     (metering_PushState (host_metering h));
          input = input\<lparr>ci_VMInput := v\<rparr>;
          h = h\<lparr>host_metering := m\<rparr>;
          h = blockchain_PushState E h
      in (input, h))"

definition finishExecuteOnSameContext ::
  "'w vmEnv \<Rightarrow> go_error option \<Rightarrow> 'w vmHost \<Rightarrow> 'w vmHost option" where
  "finishExecuteOnSameContext E executeErr h =
     (if vo_ReturnCode (oc_outputState (host_output h)) \<noteq> Ok \<or> executeErr \<noteq> None
      then Some (blockchain_PopSetActiveState E
             (upd_runtime runtime_PopSetActiveState
               (upd_output output_PopSetActiveState
                 (upd_metering metering_PopSetActiveState
                   (upd_bigInt bigInt_PopSetActiveState h)))))
      else do {
        (vmOutput, h) \<leftarrow> GetVMOutput E h;
        let h = upd_metering metering_PopMergeActiveState h;
        let h = upd_output output_PopDiscard h;
        let h = upd_bigInt bigInt_PopDiscard h;
        let h = blockchain_PopDiscard h;
        let h = upd_runtime runtime_PopSetActiveState h;
        RestoreGas (vo_GasRemaining vmOutput) h
      })"

end
