(* ===== verification/AsyncCalls.thy ===== *)
theory AsyncCalls
  imports HostContexts
begin

text \<open>
  The parts of \<open>hostCore/asyncCall.go\<close> that do not execute contracts: deciding how an
  asynchronous call is executed, building the inputs of the destination and of the callback,
  sending calls and callbacks to other shards, distributing gas among the calls of an
  asynchronous context and storing pending calls.

  Both kinds of call information implement \<open>AsyncCallInfoHandler\<close>; a generated call is turned
  into an \<open>AsyncCallInfo\<close> that answers the getters of the interface in the same way
  (\<open>generated_info\<close>, which locks no gas). Calls are shared by reference between a context and
  the pending calls extracted from it; the gas limits written to the pending calls are read
  from there only, so values are enough.
\<close>

section \<open>Execution mode\<close>

definition generated_info :: "AsyncGeneratedCall \<Rightarrow> AsyncCallInfo" where
  "generated_info ac = \<lparr>aci_Destination = agc_Destination ac, aci_Data = agc_Data ac,
     aci_GasLimit = agc_GasLimit ac, aci_GasLocked = 0, aci_ValueBytes = agc_ValueBytes ac\<rparr>"

definition isESDTTransferOnReturnDataFromFunctionAndArgs ::
  "'w vmEnv \<Rightarrow> string \<Rightarrow> bytes list \<Rightarrow> bool \<times> string \<times> bytes list" where
  "isESDTTransferOnReturnDataFromFunctionAndArgs E functionName args =
     (if functionName = env_ESDTTransfer E \<and> length args = 2 then (True, functionName, args)
      else if functionName = env_ESDTNFTTransfer E \<and> length args = 4 then (True, functionName, args)
      else (False, functionName, args))"

definition isESDTTransferOnReturnDataWithNoAdditionalData ::
  "'w vmEnv \<Rightarrow> VMOutput \<Rightarrow> bool \<times> string \<times> bytes list" where
  "isESDTTransferOnReturnDataWithNoAdditionalData E destinationVMOutput =
     (case vo_ReturnData destinationVMOutput of
        [] \<Rightarrow> (False, [], [])
      | first # _ \<Rightarrow>
          (case env_ParseData E first of
             Inl err \<Rightarrow> (False, [], [])
           | Inr (functionName, args) \<Rightarrow> isESDTTransferOnReturnDataFromFunctionAndArgs E functionName args))"

definition canExecuteSynchronously :: "'w vmEnv \<Rightarrow> address \<Rightarrow> 'w vmHost \<Rightarrow> bool \<times> 'w vmHost" where
  "canExecuteSynchronously E destination h =
     (let (r, h) = blockchain_GetCode E destination h
      in (case r of Inl err \<Rightarrow> False | Inr code \<Rightarrow> length code > 0, h))"

definition determineAsyncCallExecutionMode ::
  "'w vmEnv \<Rightarrow> AsyncCallInfo \<Rightarrow> 'w vmHost \<Rightarrow> (go_error + AsyncCallExecutionMode) \<times> 'w vmHost" where
  "determineAsyncCallExecutionMode E asyncCallInfo h =
     (case env_ParseData E (aci_Data asyncCallInfo) of
        Inl err \<Rightarrow> (Inl err, h)
      | Inr (functionName, args) \<Rightarrow>
          let runtime = host_runtime h;
              sameShard = AreInSameShard E (rc_scAddress runtime) (aci_Destination asyncCallInfo) h
          in if IsBuiltinFunctionName E functionName then
               (if sameShard then
                  let (isESDTTransfer, _, _) = isESDTTransferOnReturnDataFromFunctionAndArgs E functionName args
                  in if isESDTTransfer \<and> vi_CallType (rc_vmInput runtime) = AsynchronousCall
                        \<and> vi_CallerAddr (rc_vmInput runtime) = aci_Destination asyncCallInfo
                     then (Inr ESDTTransferOnCallBack, h)
                     else (Inr AsyncBuiltinFuncIntraShard, h)
                else (Inr AsyncBuiltinFuncCrossShard, h))
             else let (hasCode, h) = canExecuteSynchronously E (aci_Destination asyncCallInfo) h
                  in if hasCode then (Inr SyncCall, h) else (Inr AsyncUnknown, h))"

section \<open>Sending to another shard\<close>

definition fail_with_all_gas :: "'w vmEnv \<Rightarrow> go_error \<Rightarrow> 'w vmHost \<Rightarrow> (go_error option \<times> 'w vmHost) option" where
  "fail_with_all_gas E err h = do {
     h \<leftarrow> UseGas (GasLeft h) h;
     h \<leftarrow> FailExecution E (Some err) h;
     Some (Some err, h)
   }"

definition sendAsyncCallToDestination ::
  "'w vmEnv \<Rightarrow> AsyncCallInfo \<Rightarrow> 'w vmHost \<Rightarrow> (go_error option \<times> 'w vmHost) option" where
  "sendAsyncCallToDestination E asyncCallInfo h = do {
     (err, h) \<leftarrow> Transfer E (aci_Destination asyncCallInfo) (rc_scAddress (host_runtime h))
        (aci_GasLimit asyncCallInfo) (aci_GasLocked asyncCallInfo)
        (big_SetBytes (aci_ValueBytes asyncCallInfo)) (aci_Data asyncCallInfo) AsynchronousCall h;
     case err of
       Some e \<Rightarrow> fail_with_all_gas E e h
     | None \<Rightarrow> do { h \<leftarrow> UseGas (GasLeft h) h; Some (None, h) }
   }"

definition sendCallbackToCurrentCaller ::
  "'w vmEnv \<Rightarrow> 'w vmHost \<Rightarrow> (go_error option \<times> 'w vmHost) option" where
  "sendCallbackToCurrentCaller E h = do {
     let currentCall = rc_vmInput (host_runtime h);
     let out = oc_outputState (host_output h);
     let retData = at_sign @ hex_encode (bytes_of_string (env_ReturnCodeString E (vo_ReturnCode out)))
                   @ hex_args (vo_ReturnData out);
     callValue \<leftarrow> vi_CallValue currentCall;
     (err, h) \<leftarrow> Transfer E (vi_CallerAddr currentCall) (rc_scAddress (host_runtime h)) (GasLeft h) 0
        callValue retData AsynchronousCallBack h;
     case err of
       Some e \<Rightarrow> fail_with_all_gas E e h
     | None \<Rightarrow> do { h \<leftarrow> UseGas (GasLeft h) h; Some (None, h) }
   }"

definition sendStorageCallbackToDestination ::
  "'w vmEnv \<Rightarrow> address \<Rightarrow> bytes \<Rightarrow> 'w vmHost \<Rightarrow> (go_error option \<times> 'w vmHost) option" where
  "sendStorageCallbackToDestination E callerAddress returnData h = do {
     let currentCall = rc_vmInput (host_runtime h);
     callValue \<leftarrow> vi_CallValue currentCall;
     (err, h) \<leftarrow> Transfer E callerAddress (rc_scAddress (host_runtime h)) (GasLeft h) 0
        callValue returnData AsynchronousCallBack h;
     case err of
       Some e \<Rightarrow> fail_with_all_gas E e h
     | None \<Rightarrow> Some (None, h)
   }"

section \<open>Inputs of the destination and of the callback\<close>

definition createDestinationContractCallInput ::
  "'w vmEnv \<Rightarrow> AsyncCallInfo \<Rightarrow> 'w vmHost \<Rightarrow> go_error + ContractCallInput" where
  "createDestinationContractCallInput E asyncCallInfo h =
     (let runtime = host_runtime h
      in case env_ParseData E (aci_Data asyncCallInfo) of
           Inl err \<Rightarrow> Inl err
         | Inr (function, arguments) \<Rightarrow>
             Inr \<lparr>ci_VMInput =
                 \<lparr>vi_CallerAddr = rc_scAddress runtime, vi_Arguments = arguments,
                  vi_CallValue = Some (big_SetBytes (aci_ValueBytes asyncCallInfo)),
                  vi_CallType = AsynchronousCall, vi_GasPrice = vi_GasPrice (rc_vmInput runtime),
                  vi_GasProvided = GasLeft h, vi_GasLocked = aci_GasLocked asyncCallInfo,
                  vi_ESDTTransfers = [], vi_ReturnCallAfterError = False,
                  vi_OriginalTxHash = vi_OriginalTxHash (rc_vmInput runtime),
                  vi_CurrentTxHash = vi_CurrentTxHash (rc_vmInput runtime), vi_PrevTxHash = []\<rparr>,
                ci_RecipientAddr = aci_Destination asyncCallInfo, ci_Function = function,
                ci_AllowInitFunction = False\<rparr>)"

definition computeCallValueFromLastOutputTransfer ::
  "'w vmEnv \<Rightarrow> VMOutput \<Rightarrow> 'w vmHost \<Rightarrow> int" where
  "computeCallValueFromLastOutputTransfer E destinationVMOutput h =
     (if \<not> IsVMV3Enabled E then 0
      else if vo_ReturnData destinationVMOutput \<noteq> [] then 0
      else (case map_get (vo_OutputAccounts destinationVMOutput) (rc_scAddress (host_runtime h)) of
              None \<Rightarrow> 0
            | Some outAcc \<Rightarrow>
                if oa_OutputTransfers outAcc = [] then 0
                else let lastOutTransfer = last (oa_OutputTransfers outAcc)
                     in if ot_Data lastOutTransfer = [] then ot_Value lastOutTransfer else 0))"

fun data_length :: "u64 \<Rightarrow> bytes list \<Rightarrow> u64" where
  "data_length len [] = len"
| "data_length len (element # rest) = data_length (AddUint64 len (of_nat (length element))) rest"

definition computeDataLengthFromArguments :: "string \<Rightarrow> bytes list \<Rightarrow> i64" where
  "computeDataLengthFromArguments function arguments =
     (let numSeparators = length arguments
      in data_length (AddUint64 (of_nat (length function)) (of_nat numSeparators)) arguments)"

definition createCallbackContractCallInput ::
  "'w vmEnv \<Rightarrow> AsyncCallInfo \<Rightarrow> VMOutput \<Rightarrow> address \<Rightarrow> string \<Rightarrow> go_error option \<Rightarrow> 'w vmHost \<Rightarrow>
   (go_error + ContractCallInput) option" where
  "createCallbackContractCallInput E asyncCallInfo destinationVMOutput callbackInitiator callbackFunction
     destinationErr h =
     (let runtime = host_runtime h;
          codeBytes = big_Bytes (env_ReturnCodeInt E (vo_ReturnCode destinationVMOutput));
          success = (destinationErr = None \<and> vo_ReturnCode destinationVMOutput = Ok);
          (isESDTOnCallBack, functionName, esdtArgs) =
            (if success then isESDTTransferOnReturnDataWithNoAdditionalData E destinationVMOutput
             else (False, [], []));
          arguments = (if success then codeBytes # vo_ReturnData destinationVMOutput
                       else [codeBytes, bytes_of_string (vo_ReturnMessage destinationVMOutput)]);
          returnWithError = (\<not> success);
          gasLimit = vo_GasRemaining destinationVMOutput + aci_GasLocked asyncCallInfo;
          dataLength = computeDataLengthFromArguments callbackFunction arguments;
          gasToUse = AsyncCallStep (gc_BaseOpsAPICost (mc_gasSchedule (host_metering h)));
          gas = MulUint64 (DataCopyPerByte (base_costs h)) dataLength;
          gasToUse = AddUint64 gasToUse gas
      in if gasLimit \<le> gasToUse then Some (Inl (Sentinel ErrNotEnoughGas))
         else
           let gasLimit = gasLimit - gasToUse;
               input = \<lparr>ci_VMInput =
                 \<lparr>vi_CallerAddr = callbackInitiator, vi_Arguments = arguments,
                  vi_CallValue = Some (computeCallValueFromLastOutputTransfer E destinationVMOutput h),
                  vi_CallType = AsynchronousCallBack, vi_GasPrice = vi_GasPrice (rc_vmInput runtime),
                  vi_GasProvided = gasLimit, vi_GasLocked = 0, vi_ESDTTransfers = [],
                  vi_ReturnCallAfterError = returnWithError,
                  vi_OriginalTxHash = vi_OriginalTxHash (rc_vmInput runtime),
                  vi_CurrentTxHash = vi_CurrentTxHash (rc_vmInput runtime), vi_PrevTxHash = []\<rparr>,
                ci_RecipientAddr = rc_scAddress runtime, ci_Function = callbackFunction,
                ci_AllowInitFunction = False\<rparr>
           in if isESDTOnCallBack then do {
                a0 \<leftarrow> arg_at esdtArgs 0;
                a1 \<leftarrow> arg_at esdtArgs 1;
                more \<leftarrow> (if functionName = env_ESDTNFTTransfer E
                         then do { a2 \<leftarrow> arg_at esdtArgs 2; a3 \<leftarrow> arg_at esdtArgs 3; Some [a2, a3] }
                         else Some []);
                Some (Inr (input\<lparr>ci_Function := functionName,
                  ci_VMInput := (ci_VMInput input)\<lparr>vi_Arguments :=
                    [a0, a1] @ more @ [bytes_of_string callbackFunction, codeBytes]
                    @ tl (vo_ReturnData destinationVMOutput)\<rparr>\<rparr>))
              }
              else Some (Inr input))"

definition processCallbackVMOutput ::
  "'w vmEnv \<Rightarrow> VMOutput option \<Rightarrow> go_error option \<Rightarrow> 'w vmHost \<Rightarrow> 'w vmHost option" where
  "processCallbackVMOutput E callbackVMOutput callBackErr h =
     (case callBackErr of
        None \<Rightarrow> Some h
      | Some err \<Rightarrow> do {
          let h = upd_runtime (\<lambda>c. c\<lparr>rc_vmInput := (rc_vmInput c)\<lparr>vi_GasProvided := 0\<rparr>\<rparr>) h;
          (out, h) \<leftarrow> (case callbackVMOutput of
                         Some out \<Rightarrow> Some (out, h)
                       | None \<Rightarrow> CreateVMOutputInCaseOfError E err h);
          let h = upd_output (SetReturnMessage (vo_ReturnMessage out)) h;
          let h = upd_output (Finish (bytes_of_string (env_ReturnCodeString E (vo_ReturnCode out)))) h;
          Some (upd_output (Finish (vi_CurrentTxHash (rc_vmInput (host_runtime h)))) h)
        })"

section \<open>Asynchronous contexts\<close>

text \<open>The loops over all calls of all contexts.\<close>

fun needed_calls :: "u64 \<Rightarrow> AsyncGeneratedCall list \<Rightarrow> u64 \<Rightarrow> u64 \<Rightarrow>
    go_error + u64 \<times> u64 \<times> AsyncGeneratedCall list" where
  "needed_calls gasLeft [] gasNeeded callsWithZeroGas = Inr (gasNeeded, callsWithZeroGas, [])"
| "needed_calls gasLeft (asyncCall # rest) gasNeeded callsWithZeroGas =
     (case AddUint64WithErr gasNeeded (agc_ProvidedGas asyncCall) of
        (_, Some err) \<Rightarrow> Inl (OtherError ''addition overflow'')
      | (gasNeeded, None) \<Rightarrow>
          if gasNeeded > gasLeft then Inl (Sentinel ErrNotEnoughGas)
          else let zero = (agc_ProvidedGas asyncCall = 0);
                   asyncCall = (if zero then asyncCall else asyncCall\<lparr>agc_GasLimit := agc_ProvidedGas asyncCall\<rparr>)
               in case needed_calls gasLeft rest gasNeeded (if zero then callsWithZeroGas + 1 else callsWithZeroGas) of
                    Inl err \<Rightarrow> Inl err
                  | Inr (g, z, calls) \<Rightarrow> Inr (g, z, asyncCall # calls))"

fun needed_contexts :: "u64 \<Rightarrow> (bytes, AsyncContext) gomap \<Rightarrow> u64 \<Rightarrow> u64 \<Rightarrow>
    go_error + u64 \<times> u64 \<times> (bytes, AsyncContext) gomap" where
  "needed_contexts gasLeft [] gasNeeded callsWithZeroGas = Inr (gasNeeded, callsWithZeroGas, [])"
| "needed_contexts gasLeft ((identifier, asyncContext) # rest) gasNeeded callsWithZeroGas =
     (case needed_calls gasLeft (ac_AsyncCalls asyncContext) gasNeeded callsWithZeroGas of
        Inl err \<Rightarrow> Inl err
      | Inr (g, z, calls) \<Rightarrow>
          (case needed_contexts gasLeft rest g z of
             Inl err \<Rightarrow> Inl err
           | Inr (g, z, m) \<Rightarrow> Inr (g, z, (identifier, asyncContext\<lparr>ac_AsyncCalls := calls\<rparr>) # m)))"

definition share_gas :: "u64 \<Rightarrow> AsyncContext \<Rightarrow> AsyncContext" where
  "share_gas gasShare asyncContext =
     asyncContext\<lparr>ac_AsyncCalls := map (\<lambda>asyncCall. if agc_ProvidedGas asyncCall = 0
        then asyncCall\<lparr>agc_GasLimit := gasShare\<rparr> else asyncCall) (ac_AsyncCalls asyncContext)\<rparr>"

definition setupAsyncCallsGas :: "AsyncContextInfo \<Rightarrow> 'w vmHost \<Rightarrow> go_error + AsyncContextInfo" where
  "setupAsyncCallsGas asyncInfo h =
     (let gasLeft = GasLeft h
      in case needed_contexts gasLeft (aco_AsyncContextMap asyncInfo) 0 0 of
           Inl err \<Rightarrow> Inl err
         | Inr (gasNeeded, callsWithZeroGas, m) \<Rightarrow>
             if callsWithZeroGas = 0 then Inr (asyncInfo\<lparr>aco_AsyncContextMap := m\<rparr>)
             else if gasLeft \<le> gasNeeded then Inl (Sentinel ErrNotEnoughGas)
             else let gasShare = (gasLeft - gasNeeded) div callsWithZeroGas
                  in Inr (asyncInfo\<lparr>aco_AsyncContextMap := map_vals (share_gas gasShare) m\<rparr>))"

text \<open>
  The filtering loop of \<open>getPendingAsyncCalls\<close>: a context enters the result with its first
  call that is kept.
\<close>

definition keep_calls :: "(AsyncGeneratedCall \<Rightarrow> bool) \<Rightarrow> (bytes, AsyncContext) gomap \<Rightarrow> (bytes, AsyncContext) gomap" where
  "keep_calls keep m =
     filter (\<lambda>(_, asyncContext). ac_AsyncCalls asyncContext \<noteq> [])
       (map_vals (\<lambda>asyncContext. \<lparr>ac_Callback = ac_Callback asyncContext,
          ac_AsyncCalls = filter keep (ac_AsyncCalls asyncContext)\<rparr>) m)"

definition getPendingAsyncCalls :: "AsyncContextInfo \<Rightarrow> AsyncContextInfo" where
  "getPendingAsyncCalls asyncInfo =
     \<lparr>aco_CallerAddr = aco_CallerAddr asyncInfo, aco_ReturnData = aco_ReturnData asyncInfo,
      aco_AsyncContextMap = keep_calls (\<lambda>asyncCall. agc_Status asyncCall = AsyncCallPending)
        (aco_AsyncContextMap asyncInfo)\<rparr>"

definition async_storage_key :: "'w vmHost \<Rightarrow> bytes" where
  "async_storage_key h = CustomStorageKey AsyncDataPrefix (vi_OriginalTxHash (rc_vmInput (host_runtime h)))"

definition savePendingAsyncCalls ::
  "'w vmEnv \<Rightarrow> AsyncContextInfo \<Rightarrow> 'w vmHost \<Rightarrow> (go_error option \<times> 'w vmHost) option" where
  "savePendingAsyncCalls E pendingAsyncMap h =
     (if aco_AsyncContextMap pendingAsyncMap = [] then Some (None, h)
      else case env_JsonMarshal E pendingAsyncMap of
             Inl err \<Rightarrow> Some (Some err, h)
           | Inr data \<Rightarrow> do {
               ((_, err), h) \<leftarrow> SetProtectedStorage E (async_storage_key h) data h;
               Some (err, h)
             })"

text \<open>
  The loops of \<open>saveCrossShardCalls\<close>, which look up the code of each destination in turn.
\<close>

fun cross_calls :: "'w vmEnv \<Rightarrow> AsyncGeneratedCall list \<Rightarrow> 'w vmHost \<Rightarrow> AsyncGeneratedCall list \<times> 'w vmHost" where
  "cross_calls E [] h = ([], h)"
| "cross_calls E (asyncCall # rest) h =
     (let (sync, h) = canExecuteSynchronously E (agc_Destination asyncCall) h;
          (calls, h) = cross_calls E rest h
      in (if sync then calls else asyncCall # calls, h))"

fun cross_contexts ::
  "'w vmEnv \<Rightarrow> (bytes, AsyncContext) gomap \<Rightarrow> 'w vmHost \<Rightarrow> (bytes, AsyncContext) gomap \<times> 'w vmHost" where
  "cross_contexts E [] h = ([], h)"
| "cross_contexts E ((identifier, asyncContext) # rest) h =
     (let (calls, h) = cross_calls E (ac_AsyncCalls asyncContext) h;
          (m, h) = cross_contexts E rest h
      in (if calls = [] then m
          else (identifier, \<lparr>ac_Callback = ac_Callback asyncContext, ac_AsyncCalls = calls\<rparr>) # m, h))"

definition saveCrossShardCalls ::
  "'w vmEnv \<Rightarrow> AsyncContextInfo \<Rightarrow> 'w vmHost \<Rightarrow> (go_error option \<times> 'w vmHost) option" where
  "saveCrossShardCalls E asyncInfo h =
     (let (m, h) = cross_contexts E (aco_AsyncContextMap asyncInfo) h
      in savePendingAsyncCalls E \<lparr>aco_CallerAddr = aco_CallerAddr asyncInfo,
           aco_ReturnData = aco_ReturnData asyncInfo, aco_AsyncContextMap = m\<rparr> h)"

definition getCurrentAsyncInfo ::
  "'w vmEnv \<Rightarrow> 'w vmHost \<Rightarrow> (go_error + AsyncContextInfo) \<times> 'w vmHost" where
  "getCurrentAsyncInfo E h =
     (let (buff, h) = GetStorageUnmetered E (async_storage_key h) h
      in if length buff = 0
         then (Inr \<lparr>aco_CallerAddr = [], aco_ReturnData = [], aco_AsyncContextMap = []\<rparr>, h)
         else (env_JsonUnmarshal E buff, h))"

fun find_call :: "address \<Rightarrow> AsyncGeneratedCall list \<Rightarrow> nat \<Rightarrow> (nat \<times> AsyncGeneratedCall) option" where
  "find_call caller [] i = None"
| "find_call caller (asyncCall # rest) i =
     (if caller = agc_Destination asyncCall then Some (i, asyncCall) else find_call caller rest (Suc i))"

fun find_context :: "address \<Rightarrow> (bytes, AsyncContext) gomap \<Rightarrow> (bytes \<times> nat \<times> AsyncGeneratedCall) option" where
  "find_context caller [] = None"
| "find_context caller ((identifier, asyncContext) # rest) =
     (case find_call caller (ac_AsyncCalls asyncContext) 0 of
        Some (i, asyncCall) \<Rightarrow> Some (identifier, i, asyncCall)
      | None \<Rightarrow> find_context caller rest)"

text \<open>
  The function to run, where \<open>Inr None\<close> is a nil function: the code returns it without an error
  for a custom callback that the contract does not export.
\<close>

definition getFunctionByCallType ::
  "'w vmEnv \<Rightarrow> CallType \<Rightarrow> 'w vmHost \<Rightarrow> ((go_error + string option) \<times> 'w vmHost) option" where
  "getFunctionByCallType E callType h =
     (if callType \<noteq> AsynchronousCallBack then do {
        r \<leftarrow> GetFunctionToCall (host_runtime h);
        Some (case r of Inl err \<Rightarrow> Inl err | Inr f \<Rightarrow> Inr (Some f), h)
      }
      else
        let (r, h) = getCurrentAsyncInfo E h
        in case r of
             Inl err \<Rightarrow> Some (Inl err, h)
           | Inr asyncInfo \<Rightarrow> do {
               let found = find_context (vi_CallerAddr (rc_vmInput (host_runtime h)))
                             (aco_AsyncContextMap asyncInfo);
               let h = (case found of
                          Some (_, _, asyncCall) \<Rightarrow>
                            upd_runtime (SetCustomCallFunction (agc_SuccessCallback asyncCall)) h
                        | None \<Rightarrow> h);
               r \<leftarrow> GetFunctionToCall (host_runtime h);
               Some (case r of
                       Inr f \<Rightarrow> Inr (Some f)
                     | Inl err \<Rightarrow> if found = None then Inl (Sentinel ErrNilCallbackFunction) else Inr None, h)
             })"

end
