(* ===== verification/HostExecution.thy ===== *)
theory HostExecution
  imports AsyncCalls
begin

text \<open>
  Running contracts: the rest of \<open>hostCore/execution.go\<close>, \<open>hostCore/asyncCall.go\<close>,
  \<open>hostCore/breakpoints.go\<close> and the entry points of \<open>hostCore/host.go\<close>.

  Executing a contract may execute further contracts: a breakpoint for an asynchronous call and
  the processing of asynchronous contexts call \<open>ExecuteOnDestContext\<close> again. The functions in
  between take that call as their argument \<open>onDest\<close>, and \<open>ExecuteOnDestContext\<close> ties the knot
  with a fuel that bounds the nesting depth. The calls a contract makes through the hooks it
  imports are part of \<open>env_CallExport\<close>.

  Go's deferred functions run at the end of the function that declares them. When the code
  panics, the model returns \<open>None\<close>, and the state in which a panic leaves the contexts is not
  modelled.
\<close>

type_synonym dest_result = "VMOutput option \<times> AsyncContextInfo option \<times> go_error option"
type_synonym 'w dest_call = "ContractCallInput \<Rightarrow> 'w vmHost \<Rightarrow> (dest_result \<times> 'w vmHost) option"

section \<open>Asynchronous call at a breakpoint\<close>

definition executeSyncDestinationCall ::
  "'w vmEnv \<Rightarrow> 'w dest_call \<Rightarrow> AsyncCallInfo \<Rightarrow> 'w vmHost \<Rightarrow>
   ((VMOutput option \<times> go_error option) \<times> 'w vmHost) option" where
  "executeSyncDestinationCall E onDest asyncCallInfo h =
     (case createDestinationContractCallInput E asyncCallInfo h of
        Inl err \<Rightarrow> Some ((None, Some err), h)
      | Inr input \<Rightarrow> do {
          ((destinationVMOutput, _, err), h) \<leftarrow> onDest input h;
          Some ((destinationVMOutput, err), h)
        })"

definition executeSyncCallbackCall ::
  "'w vmEnv \<Rightarrow> 'w dest_call \<Rightarrow> AsyncCallInfo \<Rightarrow> VMOutput option \<Rightarrow> go_error option \<Rightarrow> 'w vmHost \<Rightarrow>
   ((VMOutput option \<times> go_error option) \<times> 'w vmHost) option" where
  "executeSyncCallbackCall E onDest asyncCallInfo destinationVMOutput destinationErr h = do {
     out \<leftarrow> destinationVMOutput;
     r \<leftarrow> createCallbackContractCallInput E asyncCallInfo out (aci_Destination asyncCallInfo)
            CallbackFunctionName destinationErr h;
     case r of
       Inl err \<Rightarrow> Some ((None, Some err), h)
     | Inr callbackCallInput \<Rightarrow> do {
         h \<leftarrow> RestoreGas (aci_GasLocked asyncCallInfo) h;
         ((callbackVMOutput, _, callBackErr), h) \<leftarrow> onDest callbackCallInput h;
         Some ((callbackVMOutput, callBackErr), h)
       }
   }"

definition handleAsyncCallBreakpoint ::
  "'w vmEnv \<Rightarrow> 'w dest_call \<Rightarrow> 'w vmHost \<Rightarrow> (go_error option \<times> 'w vmHost) option" where
  "handleAsyncCallBreakpoint E onDest h = do {
     h \<leftarrow> with_runtime (SetRuntimeBreakpointValue BreakpointNone) h;
     asyncCallInfo \<leftarrow> rc_asyncCallInfo (host_runtime h);
     let (r, h) = determineAsyncCallExecutionMode E asyncCallInfo h;
     case r of
       Inl err \<Rightarrow> Some (Some err, h)
     | Inr execMode \<Rightarrow>
         if execMode = AsyncUnknown then sendAsyncCallToDestination E asyncCallInfo h
         else if execMode = AsyncBuiltinFuncCrossShard then do {
           ((_, err), h) \<leftarrow> executeSyncDestinationCall E onDest asyncCallInfo h;
           Some (err, h)
         }
         else if execMode = ESDTTransferOnCallBack then do {
           let h = upd_output (PrependFinish (aci_Data asyncCallInfo)) h;
           h \<leftarrow> RestoreGas (aci_GasLocked asyncCallInfo) h;
           Some (None, h)
         }
         else do {
           ((destinationVMOutput, destinationErr), h) \<leftarrow> executeSyncDestinationCall E onDest asyncCallInfo h;
           ((callbackVMOutput, callBackErr), h) \<leftarrow>
             executeSyncCallbackCall E onDest asyncCallInfo destinationVMOutput destinationErr h;
           h \<leftarrow> processCallbackVMOutput E callbackVMOutput callBackErr h;
           Some (None, h)
         }
   }"

section \<open>Breakpoints\<close>

definition handleBreakpoint ::
  "'w vmEnv \<Rightarrow> 'w dest_call \<Rightarrow> u64 \<Rightarrow> 'w vmHost \<Rightarrow> (go_error option \<times> 'w vmHost) option" where
  "handleBreakpoint E onDest breakpointValue h =
     (if breakpointValue = breakpoint_value BreakpointAsyncCall then handleAsyncCallBreakpoint E onDest h
      else if breakpointValue = breakpoint_value BreakpointExecutionFailed
      then Some (Some (Sentinel ErrExecutionFailed), h)
      else if breakpointValue = breakpoint_value BreakpointSignalError
      then Some (Some (Sentinel ErrSignalError), h)
      else if breakpointValue = breakpoint_value BreakpointOutOfGas
      then Some (Some (Sentinel ErrNotEnoughGas), h)
      else Some (Some (Sentinel ErrUnhandledRuntimeBreakpoint), h))"

definition handleBreakpointIfAny ::
  "'w vmEnv \<Rightarrow> 'w dest_call \<Rightarrow> go_error option \<Rightarrow> 'w vmHost \<Rightarrow> (go_error option \<times> 'w vmHost) option" where
  "handleBreakpointIfAny E onDest executionErr h =
     (if executionErr = None then Some (None, h)
      else do {
        breakpointValue \<leftarrow> GetRuntimeBreakpointValue (host_runtime h);
        if breakpointValue \<noteq> breakpoint_value BreakpointNone then do {
          (err, h) \<leftarrow> handleBreakpoint E onDest breakpointValue h;
          Some (err, upd_runtime (AddError E err None) h)
        }
        else Some (Some (Sentinel ErrExecutionFailed), h)
      })"

section \<open>Calling exported functions\<close>

definition callInitFunction ::
  "'w vmEnv \<Rightarrow> 'w dest_call \<Rightarrow> 'w vmHost \<Rightarrow> (go_error option \<times> 'w vmHost) option" where
  "callInitFunction E onDest h = do {
     init \<leftarrow> GetInitFunction (host_runtime h);
     case init of
       None \<Rightarrow> Some (None, h)
     | Some f \<Rightarrow> do {
         (err, h) \<leftarrow> env_CallExport E f h;
         (err, h) \<leftarrow> (if err \<noteq> None then handleBreakpointIfAny E onDest err h else Some (err, h));
         Some (if err = None then checkFinalGasAfterExit E h else err, h)
       }
   }"

definition callSCMethodIndirect ::
  "'w vmEnv \<Rightarrow> 'w dest_call \<Rightarrow> 'w vmHost \<Rightarrow> (go_error option \<times> 'w vmHost) option" where
  "callSCMethodIndirect E onDest h = do {
     r \<leftarrow> GetFunctionToCall (host_runtime h);
     case r of
       Inl err \<Rightarrow> do {
         nilCallback \<leftarrow> errors_Is err ErrNilCallbackFunction;
         Some (if nilCallback then None else Some err, h)
       }
     | Inr f \<Rightarrow> do {
         (err, h) \<leftarrow> env_CallExport E f h;
         if err \<noteq> None then handleBreakpointIfAny E onDest err h else Some (None, h)
       }
   }"

definition executeUpgrade ::
  "'w vmEnv \<Rightarrow> 'w dest_call \<Rightarrow> ContractCallInput \<Rightarrow> 'w vmHost \<Rightarrow> (go_error option \<times> 'w vmHost) option" where
  "executeUpgrade E onDest input h =
     (case checkUpgradePermission E input h of
        Some err \<Rightarrow> Some (Some err, h)
      | None \<Rightarrow>
          let (r, c) = ExtractCodeUpgradeFromArgs (host_runtime h);
              h = h\<lparr>host_runtime := c\<rparr>
          in case r of
               Inl err \<Rightarrow> Some (Some (Sentinel ErrInvalidUpgradeArguments), h)
             | Inr (code, codeMetadata) \<Rightarrow>
                 let codeDeployInput = \<lparr>cd_ContractCode = code, cd_ContractCodeMetadata = codeMetadata,
                       cd_ContractAddress = ci_RecipientAddr input,
                       cd_CodeDeployerAddress = vi_CallerAddr (ci_VMInput input)\<rparr>;
                     (err, h) = DeductInitialGasForDirectDeployment codeDeployInput h
                 in if err \<noteq> None then Some (err, upd_output (SetReturnCode OutOfGas) h)
                    else do {
                      let h = upd_runtime MustVerifyNextContractCode h;
                      (err, h) \<leftarrow> StartWasmerInstance E code (GetGasForExecution (host_metering h)) True h;
                      if err \<noteq> None then Some (Some (Sentinel ErrContractInvalid), h)
                      else do {
                        (err, h) \<leftarrow> callInitFunction E onDest h;
                        if err \<noteq> None then Some (err, h)
                        else do {
                          let h = upd_output (DeployCode codeDeployInput) h;
                          if vo_ReturnCode (oc_outputState (host_output h)) \<noteq> Ok
                          then Some (Some (Sentinel ErrReturnCodeNotOk), h)
                          else Some (None, h)
                        }
                      }
                    })"

definition execute ::
  "'w vmEnv \<Rightarrow> 'w dest_call \<Rightarrow> ContractCallInput \<Rightarrow> 'w vmHost \<Rightarrow> (go_error option \<times> 'w vmHost) option" where
  "execute E onDest input h =
     (if isInitFunctionBeingCalled h \<and> \<not> ci_AllowInitFunction input
      then Some (Some (Sentinel ErrInitFuncCalledInRun), h)
      else do {
        h \<leftarrow> UseGas (vi_GasProvided (ci_VMInput input)) h;
        if ci_Function input = UpgradeFunctionName then executeUpgrade E onDest input h
        else
          let (r, h) = GetSCCode E h
          in case r of
               Inl err \<Rightarrow> Some (Some err, h)
             | Inr contract \<Rightarrow>
                 let (err, h) = DeductInitialGasForExecution E contract h
                 in if err \<noteq> None then Some (err, h)
                    else do {
                      (err, h) \<leftarrow> StartWasmerInstance E contract (GetGasForExecution (host_metering h)) False h;
                      if err \<noteq> None then Some (err, h)
                      else do {
                        (err, h) \<leftarrow> callSCMethodIndirect E onDest h;
                        if err \<noteq> None then Some (err, h)
                        else if vo_ReturnCode (oc_outputState (host_output h)) \<noteq> Ok
                        then Some (Some (Sentinel ErrReturnCodeNotOk), h)
                        else Some (None, h)
                      }
                    }
      })"

section \<open>Asynchronous contexts\<close>

definition callbackAsync ::
  "'w vmEnv \<Rightarrow> 'w dest_call \<Rightarrow> AsyncGeneratedCall \<Rightarrow> VMOutput \<Rightarrow> go_error option \<Rightarrow> 'w vmHost \<Rightarrow>
   ((go_error option \<times> AsyncGeneratedCall) \<times> 'w vmHost) option" where
  "callbackAsync E onDest asyncCall vmOutput executionError h =
     (let (status, callbackFunction) =
            (if vo_ReturnCode vmOutput \<noteq> Ok then (AsyncCallRejected, agc_ErrorCallback asyncCall)
             else (AsyncCallResolved, agc_SuccessCallback asyncCall));
          asyncCall = asyncCall\<lparr>agc_Status := status\<rparr>
      in do {
        r \<leftarrow> createCallbackContractCallInput E (generated_info asyncCall) vmOutput
               (agc_Destination asyncCall) callbackFunction executionError h;
        case r of
          Inl err \<Rightarrow> Some ((Some err, asyncCall), h)
        | Inr callbackCallInput \<Rightarrow> do {
            ((callbackVMOutput, _, callBackErr), h) \<leftarrow> onDest callbackCallInput h;
            h \<leftarrow> processCallbackVMOutput E callbackVMOutput callBackErr h;
            Some ((None, asyncCall), h)
          }
      })"

text \<open>
  The error of \<open>createDestinationContractCallInput\<close> is ignored, so a call whose data cannot be
  parsed panics in \<open>ExecuteOnDestContext\<close>, and so does a missing asynchronous context info.
\<close>

definition processAsyncCall ::
  "'w vmEnv \<Rightarrow> 'w dest_call \<Rightarrow> AsyncGeneratedCall \<Rightarrow> 'w vmHost \<Rightarrow>
   ((go_error option \<times> AsyncGeneratedCall) \<times> 'w vmHost) option" where
  "processAsyncCall E onDest asyncCall h =
     (case createDestinationContractCallInput E (generated_info asyncCall) h of
        Inl _ \<Rightarrow> None
      | Inr input \<Rightarrow> do {
          ((out, asyncMap, executionError), h) \<leftarrow> onDest input h;
          asyncInfo \<leftarrow> asyncMap;
          if aco_AsyncContextMap (getPendingAsyncCalls asyncInfo) = [] then do {
            vmOutput \<leftarrow> out;
            callbackAsync E onDest asyncCall vmOutput executionError h
          }
          else Some ((executionError, asyncCall), h)
        })"

fun process_calls ::
  "'w vmEnv \<Rightarrow> 'w dest_call \<Rightarrow> AsyncGeneratedCall list \<Rightarrow> 'w vmHost \<Rightarrow>
   ((go_error option \<times> AsyncGeneratedCall list) \<times> 'w vmHost) option" where
  "process_calls E onDest [] h = Some ((None, []), h)"
| "process_calls E onDest (asyncCall # rest) h = do {
     let (sync, h) = canExecuteSynchronously E (agc_Destination asyncCall) h;
     ((err, asyncCall), h) \<leftarrow> (if \<not> sync then Some ((None, asyncCall), h)
                                else processAsyncCall E onDest asyncCall h);
     if err \<noteq> None then Some ((err, asyncCall # rest), h)
     else do {
       ((err, rest), h) \<leftarrow> process_calls E onDest rest h;
       Some ((err, asyncCall # rest), h)
     }
   }"

fun process_contexts ::
  "'w vmEnv \<Rightarrow> 'w dest_call \<Rightarrow> (bytes, AsyncContext) gomap \<Rightarrow> 'w vmHost \<Rightarrow>
   ((go_error option \<times> (bytes, AsyncContext) gomap) \<times> 'w vmHost) option" where
  "process_contexts E onDest [] h = Some ((None, []), h)"
| "process_contexts E onDest ((identifier, asyncContext) # rest) h = do {
     ((err, calls), h) \<leftarrow> process_calls E onDest (ac_AsyncCalls asyncContext) h;
     let entry = (identifier, asyncContext\<lparr>ac_AsyncCalls := calls\<rparr>);
     if err \<noteq> None then Some ((err, entry # rest), h)
     else do {
       ((err, rest), h) \<leftarrow> process_contexts E onDest rest h;
       Some ((err, entry # rest), h)
     }
   }"

fun send_calls ::
  "'w vmEnv \<Rightarrow> AsyncGeneratedCall list \<Rightarrow> 'w vmHost \<Rightarrow> (go_error option \<times> 'w vmHost) option" where
  "send_calls E [] h = Some (None, h)"
| "send_calls E (asyncCall # rest) h = do {
     let (sync, h) = canExecuteSynchronously E (agc_Destination asyncCall) h;
     (err, h) \<leftarrow> (if \<not> sync then sendAsyncCallToDestination E (generated_info asyncCall) h
                  else Some (None, h));
     if err \<noteq> None then Some (err, h) else send_calls E rest h
   }"

fun send_contexts ::
  "'w vmEnv \<Rightarrow> (bytes, AsyncContext) gomap \<Rightarrow> 'w vmHost \<Rightarrow> (go_error option \<times> 'w vmHost) option" where
  "send_contexts E [] h = Some (None, h)"
| "send_contexts E ((_, asyncContext) # rest) h = do {
     (err, h) \<leftarrow> send_calls E (ac_AsyncCalls asyncContext) h;
     if err \<noteq> None then Some (err, h) else send_contexts E rest h
   }"

text \<open>
  The result is the pending information or an error, together with the given information as
  the calls updated it in place.
\<close>

definition processAsyncInfo ::
  "'w vmEnv \<Rightarrow> 'w dest_call \<Rightarrow> AsyncContextInfo \<Rightarrow> 'w vmHost \<Rightarrow>
   (((go_error + AsyncContextInfo) \<times> AsyncContextInfo) \<times> 'w vmHost) option" where
  "processAsyncInfo E onDest asyncInfo h =
     (if aco_AsyncContextMap asyncInfo = [] then Some ((Inr asyncInfo, asyncInfo), h)
      else case setupAsyncCallsGas asyncInfo h of
             Inl err \<Rightarrow> Some ((Inl err, asyncInfo), h)
           | Inr asyncInfo \<Rightarrow> do {
               ((err, m), h) \<leftarrow> process_contexts E onDest (aco_AsyncContextMap asyncInfo) h;
               let asyncInfo = asyncInfo\<lparr>aco_AsyncContextMap := m\<rparr>;
               case err of
                 Some e \<Rightarrow> Some ((Inl e, asyncInfo), h)
               | None \<Rightarrow>
                   let pendingMapInfo = getPendingAsyncCalls asyncInfo
                   in if aco_AsyncContextMap pendingMapInfo = [] then Some ((Inr pendingMapInfo, asyncInfo), h)
                      else do {
                        (err, h) \<leftarrow> savePendingAsyncCalls E pendingMapInfo h;
                        case err of
                          Some e \<Rightarrow> Some ((Inl e, asyncInfo), h)
                        | None \<Rightarrow>
                            (case setupAsyncCallsGas pendingMapInfo h of
                               Inl e \<Rightarrow> Some ((Inl e, asyncInfo), h)
                             | Inr pendingMapInfo \<Rightarrow> do {
                                 (err, h) \<leftarrow> send_contexts E (aco_AsyncContextMap pendingMapInfo) h;
                                 case err of
                                   Some e \<Rightarrow> Some ((Inl e, asyncInfo), h)
                                 | None \<Rightarrow> Some ((Inr pendingMapInfo, asyncInfo), h)
                               })
                      }
             })"

section \<open>Execution on the destination context\<close>

text \<open>
  The work between entering the context and leaving it: the value transfer, the execution and
  the asynchronous calls it registered.
\<close>

definition runOnDestContext ::
  "'w vmEnv \<Rightarrow> 'w dest_call \<Rightarrow> ContractCallInput \<Rightarrow> 'w vmHost \<Rightarrow>
   ((AsyncContextInfo option \<times> go_error option) \<times> 'w vmHost) option" where
  "runOnDestContext E onDest input h = do {
     let v = ci_VMInput input;
     transfer \<leftarrow> (if vi_CallType v \<noteq> AsynchronousCallBack then Some True
                  else do { x \<leftarrow> vi_CallValue v; Some (x = 0) });
     (err, h) \<leftarrow> (if transfer then do {
                     callValue \<leftarrow> vi_CallValue v;
                     TransferValueOnly E (ci_RecipientAddr input) (vi_CallerAddr v) callValue False h
                   }
                   else Some (None, h));
     if err \<noteq> None then Some ((None, err), h)
     else do {
       (err, h) \<leftarrow> execute E onDest input h;
       if err \<noteq> None then Some ((None, err), h)
       else do {
         ((r, asyncInfo), h) \<leftarrow> processAsyncInfo E onDest (rc_asyncContextInfo (host_runtime h)) h;
         Some ((Some asyncInfo, case r of Inl e \<Rightarrow> Some e | Inr _ \<Rightarrow> None), h)
       }
     }
   }"

definition executeOnDestContextNoBuiltinFunction ::
  "'w vmEnv \<Rightarrow> 'w dest_call \<Rightarrow> 'w dest_call" where
  "executeOnDestContextNoBuiltinFunction E onDest input h = do {
     let (input, h) = enterDestContext E input h;
     ((asyncInfo, err), h) \<leftarrow> runOnDestContext E onDest input h;
     (vmOutput, h) \<leftarrow> finishExecuteOnDestContext E err h;
     let err = (if err = None \<and> vo_ReturnCode vmOutput \<noteq> Ok then Some (Sentinel ErrExecutionFailed) else err);
     Some ((Some vmOutput, asyncInfo, err), h)
   }"

text \<open>The built-in function, if the call names one, and the contract call that follows it.\<close>

definition builtinStep ::
  "'w vmEnv \<Rightarrow> ContractCallInput \<Rightarrow> 'w vmHost \<Rightarrow>
   ((go_error + ContractCallInput option \<times> VMOutput option) \<times> 'w vmHost) option" where
  "builtinStep E input h =
     (if IsBuiltinFunctionName E (ci_Function input) then do {
        (r, h) \<leftarrow> handleBuiltinFunctionCall E input h;
        Some (case r of Inl err \<Rightarrow> Inl err | Inr (post, out) \<Rightarrow> Inr (post, Some out), h)
      }
      else Some (Inr (Some input, None), h))"

definition ExecuteOnDestContext_body :: "'w vmEnv \<Rightarrow> 'w dest_call \<Rightarrow> 'w dest_call" where
  "ExecuteOnDestContext_body E onDest input h = do {
     let h = blockchain_PushState E h;
     (r, h) \<leftarrow> builtinStep E input h;
     case r of
       Inl err \<Rightarrow> do {
         let h = blockchain_PopSetActiveState E h;
         let h = upd_runtime (AddError E (Some err) (Some [ci_Function input])) h;
         (vmOutput, h) \<leftarrow> CreateVMOutputInCaseOfError E err h;
         Some ((Some vmOutput, None, Some err), h)
       }
     | Inr (scExecutionInput, vmOutput) \<Rightarrow> do {
         ((vmOutput, asyncInfo, err), h) \<leftarrow>
           (case scExecutionInput of
              None \<Rightarrow> Some ((vmOutput, None, None), h)
            | Some scInput \<Rightarrow> executeOnDestContextNoBuiltinFunction E onDest scInput h);
         let h = (if err \<noteq> None then blockchain_PopSetActiveState E h else blockchain_PopDiscard h);
         Some ((vmOutput, asyncInfo, err), h)
       }
   }"

primrec ExecuteOnDestContext :: "nat \<Rightarrow> 'w vmEnv \<Rightarrow> 'w dest_call" where
  "ExecuteOnDestContext 0 E = (\<lambda>input h. None)"
| "ExecuteOnDestContext (Suc n) E = ExecuteOnDestContext_body E (ExecuteOnDestContext n E)"

section \<open>Execution on the same context, and indirect deployment\<close>

definition ExecuteOnSameContext ::
  "'w vmEnv \<Rightarrow> 'w dest_call \<Rightarrow> ContractCallInput \<Rightarrow> 'w vmHost \<Rightarrow>
   ((AsyncContextInfo option \<times> go_error option) \<times> 'w vmHost) option" where
  "ExecuteOnSameContext E onDest input h =
     (if IsBuiltinFunctionName E (ci_Function input)
      then Some ((None, Some (Sentinel ErrBuiltinCallOnSameContextDisallowed)), h)
      else do {
        let (input, h) = enterSameContext E input h;
        let v = ci_VMInput input;
        callValue \<leftarrow> vi_CallValue v;
        (err, h) \<leftarrow> TransferValueOnly E (ci_RecipientAddr input) (vi_CallerAddr v) callValue False h;
        (err, h) \<leftarrow> (if err \<noteq> None then Some (err, h) else execute E onDest input h);
        let asyncInfo = (if err = None then Some (rc_asyncContextInfo (host_runtime h)) else None);
        let h = upd_runtime (AddError E err (Some [ci_Function input])) h;
        h \<leftarrow> finishExecuteOnSameContext E err h;
        Some ((asyncInfo, err), h)
      })"

definition CreateNewContract ::
  "'w vmEnv \<Rightarrow> 'w dest_call \<Rightarrow> ContractCreateInput \<Rightarrow> 'w vmHost \<Rightarrow> ((go_error + address) \<times> 'w vmHost) option" where
  "CreateNewContract E onDest input h =
     (let codeDeployInput = \<lparr>cd_ContractCode = cc_ContractCode input,
            cd_ContractCodeMetadata = cc_ContractCodeMetadata input, cd_ContractAddress = [],
            cd_CodeDeployerAddress = vi_CallerAddr (cc_VMInput input)\<rparr>;
          (err, h) = DeductInitialGasForIndirectDeployment codeDeployInput h
      in case err of
           Some e \<Rightarrow> Some (Inl e, h)
         | None \<Rightarrow>
             if rc_readOnly (host_runtime h) then Some (Inl (Sentinel ErrInvalidCallOnReadOnlyMode), h)
             else let (r, h) = NewAddress E (vi_CallerAddr (cc_VMInput input)) h
                  in case r of
                       Inl e \<Rightarrow> Some (Inl e, h)
                     | Inr newContractAddress \<Rightarrow>
                         if AccountExists E newContractAddress h
                         then Some (Inl (Sentinel ErrDeploymentOverExistingAccount), h)
                         else do {
                           let h = upd_output (DeployCode (codeDeployInput\<lparr>cd_ContractAddress := newContractAddress\<rparr>)) h;
                           let h = upd_runtime MustVerifyNextContractCode h;
                           ((_, _, err), h) \<leftarrow> onDest \<lparr>ci_VMInput = cc_VMInput input,
                               ci_RecipientAddr = newContractAddress, ci_Function = InitFunctionName,
                               ci_AllowInitFunction = True\<rparr> h;
                           case err of
                             Some e \<Rightarrow> Some (Inl e, upd_output (DeleteOutputAccount newContractAddress) h)
                           | None \<Rightarrow> Some (Inr newContractAddress,
                                            IncreaseNonce E (vi_CallerAddr (cc_VMInput input)) h)
                         })"

end
