(* ===== verification/HostEntry.thy ===== *)
theory HostEntry
  imports HostExecution
begin

text \<open>
  The entry points of the host: direct calls, deployments and upgrades of
  \<open>hostCore/execution.go\<close>, the processing of callbacks that arrive from another shard
  (\<open>hostCore/asyncCall.go\<close>) and the recovering wrappers of \<open>hostCore/host.go\<close>. Each takes the
  nested execution \<open>onDest\<close> as in the theory HostExecution; the wrappers fix it to
  \<open>ExecuteOnDestContext\<close> with a given fuel. The read lock of the wrappers only excludes a change of the gas
  schedule and is not modelled.
\<close>

section \<open>Callbacks from another shard\<close>

text \<open>
  \<open>processCallbackStack\<close> removes the answered call from a local copy of the context's calls
  (a slice header), so the stored information changes only when a context becomes empty. The
  swap writes the last call over the answered one in the shared backing array, which nothing
  reads afterwards. A context under an empty identifier is never found. The information of the
  current call is nil in the callback input, so reading its locked gas panics.
\<close>

definition remove_answered :: "bytes \<Rightarrow> AsyncContextInfo \<Rightarrow> AsyncContextInfo" where
  "remove_answered identifier asyncInfo =
     (case map_get (aco_AsyncContextMap asyncInfo) identifier of
        None \<Rightarrow> asyncInfo
      | Some asyncContext \<Rightarrow>
          if length (ac_AsyncCalls asyncContext) - 1 = 0
          then asyncInfo\<lparr>aco_AsyncContextMap := map_delete identifier (aco_AsyncContextMap asyncInfo)\<rparr>
          else asyncInfo)"

definition processCallbackStack ::
  "'w vmEnv \<Rightarrow> 'w dest_call \<Rightarrow> 'w vmHost \<Rightarrow> (go_error option \<times> 'w vmHost) option" where
  "processCallbackStack E onDest h =
     (let storageKey = async_storage_key h;
          (buff, h) = GetStorageUnmetered E storageKey h
      in if length buff = 0 then Some (None, h)
         else case env_JsonUnmarshal E buff of
                Inl err \<Rightarrow> Some (Some err, h)
              | Inr asyncInfo \<Rightarrow>
                  (case find_context (vi_CallerAddr (rc_vmInput (host_runtime h)))
                          (filter (\<lambda>(identifier, _). identifier \<noteq> []) (aco_AsyncContextMap asyncInfo)) of
                     None \<Rightarrow> Some (Some (Sentinel ErrCallBackFuncNotExpected), h)
                   | Some (currentContextIdentifier, asyncCallPosition, _) \<Rightarrow>
                       let asyncInfo = remove_answered currentContextIdentifier asyncInfo
                       in if aco_AsyncContextMap asyncInfo \<noteq> [] then Some (None, h)
                          else do {
                            ((_, err), h) \<leftarrow> SetProtectedStorage E storageKey [] h;
                            if err \<noteq> None then Some (err, h)
                            else
                              let (sync, h) = canExecuteSynchronously E (aco_CallerAddr asyncInfo) h
                              in if \<not> sync
                                 then sendStorageCallbackToDestination E (aco_CallerAddr asyncInfo)
                                        (aco_ReturnData asyncInfo) h
                                 else None
                          }))"

section \<open>Direct calls\<close>

definition callSCMethod ::
  "'w vmEnv \<Rightarrow> 'w dest_call \<Rightarrow> 'w vmHost \<Rightarrow> (go_error option \<times> 'w vmHost) option" where
  "callSCMethod E onDest h =
     (case verifyAllowedFunctionCall h of
        Some err \<Rightarrow> Some (Some err, h)
      | None \<Rightarrow> do {
          let callType = vi_CallType (rc_vmInput (host_runtime h));
          (r, h) \<leftarrow> getFunctionByCallType E callType h;
          case r of
            Inl err \<Rightarrow> do {
              nilCallback \<leftarrow> (if callType = AsynchronousCallBack then errors_Is err ErrNilCallbackFunction
                              else Some False);
              if nilCallback then processCallbackStack E onDest h else Some (Some err, h)
            }
          | Inr function \<Rightarrow> do {
              f \<leftarrow> function;
              (err, h) \<leftarrow> env_CallExport E f h;
              (err, h) \<leftarrow> (if err \<noteq> None then handleBreakpointIfAny E onDest err h else Some (err, h));
              let err = (if err = None then checkFinalGasAfterExit E h else err);
              if err \<noteq> None then Some (err, h)
              else if callType = AsynchronousCall then do {
                ((r, _), h) \<leftarrow> processAsyncInfo E onDest (rc_asyncContextInfo (host_runtime h)) h;
                case r of
                  Inl e \<Rightarrow> Some (Some e, h)
                | Inr pendingMap \<Rightarrow>
                    if aco_AsyncContextMap pendingMap = [] then sendCallbackToCurrentCaller E h
                    else Some (None, h)
              }
              else if callType = AsynchronousCallBack then processCallbackStack E onDest h
              else do {
                ((r, _), h) \<leftarrow> processAsyncInfo E onDest (rc_asyncContextInfo (host_runtime h)) h;
                Some (case r of Inl e \<Rightarrow> Some e | Inr _ \<Rightarrow> None, h)
              }
            }
        })"

definition enterDirectCall :: "ContractCallInput \<Rightarrow> 'w vmHost \<Rightarrow> (ContractCallInput \<times> 'w vmHost) option" where
  "enterDirectCall input h = do {
     let h = host_InitState h;
     let h = upd_runtime (runtime_InitStateFromContractCallInput input) h;
     let (v, m) = metering_InitStateFromContractCallInput (ci_VMInput input) (host_metering h);
     let input = input\<lparr>ci_VMInput := v\<rparr>;
     let h = h\<lparr>host_metering := m\<rparr>;
     out \<leftarrow> AddTxValueToAccount (ci_RecipientAddr input) (vi_CallValue v) (host_output h);
     let h = h\<lparr>host_output := out\<rparr>;
     Some (input, upd_storage (SetAddress (rc_scAddress (host_runtime h))) h)
   }"

definition doRunSmartContractCall ::
  "'w vmEnv \<Rightarrow> 'w dest_call \<Rightarrow> ContractCallInput \<Rightarrow> 'w vmHost \<Rightarrow> (VMOutput \<times> 'w vmHost) option" where
  "doRunSmartContractCall E onDest input h = do {
     (input, h) \<leftarrow> enterDirectCall input h;
     (vmOutput, h) \<leftarrow>
       (if checkGasForGetCode E input h \<noteq> None
        then CreateVMOutputInCaseOfError E (Sentinel ErrNotEnoughGas) h
        else
          let (r, h) = GetSCCode E h
          in case r of
               Inl err \<Rightarrow> CreateVMOutputInCaseOfError E (Sentinel ErrContractNotFound) h
             | Inr contract \<Rightarrow>
                 let (err, h) = DeductInitialGasForExecution E contract h
                 in if err \<noteq> None then CreateVMOutputInCaseOfError E (Sentinel ErrNotEnoughGas) h
                    else do {
                      (err, h) \<leftarrow> StartWasmerInstance E contract (GetGasForExecution (host_metering h)) False h;
                      if err \<noteq> None then CreateVMOutputInCaseOfError E (Sentinel ErrContractInvalid) h
                      else do {
                        (err, h) \<leftarrow> callSCMethod E onDest h;
                        case err of
                          Some e \<Rightarrow> CreateVMOutputInCaseOfError E e h
                        | None \<Rightarrow> do {
                            (vmOutput, h) \<leftarrow> GetVMOutput E h;
                            Some (vmOutput, upd_runtime CleanWasmerInstance h)
                          }
                      }
                    });
     Some (vmOutput, host_Clean h)
   }"

section \<open>Deployment\<close>

definition performCodeDeployment ::
  "'w vmEnv \<Rightarrow> 'w dest_call \<Rightarrow> CodeDeployInput \<Rightarrow> 'w vmHost \<Rightarrow> ((go_error + VMOutput) \<times> 'w vmHost) option" where
  "performCodeDeployment E onDest input h =
     (let (err, h) = DeductInitialGasForDirectDeployment input h
      in case err of
           Some e \<Rightarrow> Some (Inl e, upd_output (SetReturnCode OutOfGas) h)
         | None \<Rightarrow> do {
             let h = upd_runtime MustVerifyNextContractCode h;
             (err, h) \<leftarrow> StartWasmerInstance E (cd_ContractCode input) (GetGasForExecution (host_metering h)) True h;
             if err \<noteq> None then Some (Inl (Sentinel ErrContractInvalid), h)
             else do {
               (err, h) \<leftarrow> callInitFunction E onDest h;
               case err of
                 Some e \<Rightarrow> Some (Inl e, h)
               | None \<Rightarrow> do {
                   let h = upd_output (DeployCode input) h;
                   (vmOutput, h) \<leftarrow> GetVMOutput E h;
                   Some (Inr vmOutput, upd_runtime CleanWasmerInstance h)
                 }
             }
           })"

definition deploymentOutput ::
  "'w vmEnv \<Rightarrow> 'w dest_call \<Rightarrow> CodeDeployInput \<Rightarrow> 'w vmHost \<Rightarrow> (VMOutput \<times> 'w vmHost) option" where
  "deploymentOutput E onDest codeDeployInput h = do {
     (r, h) \<leftarrow> performCodeDeployment E onDest codeDeployInput h;
     case r of
       Inl err \<Rightarrow> CreateVMOutputInCaseOfError E err h
     | Inr vmOutput \<Rightarrow> Some (vmOutput, h)
   }"

definition doRunSmartContractCreate ::
  "'w vmEnv \<Rightarrow> 'w dest_call \<Rightarrow> ContractCreateInput \<Rightarrow> 'w vmHost \<Rightarrow> (VMOutput \<times> 'w vmHost) option" where
  "doRunSmartContractCreate E onDest input h = do {
     let h = host_InitState h;
     let (r, h) = NewAddress E (vi_CallerAddr (cc_VMInput input)) h;
     (vmOutput, h) \<leftarrow>
       (case r of
          Inl err \<Rightarrow> CreateVMOutputInCaseOfError E err h
        | Inr addr \<Rightarrow> do {
            let h = upd_runtime (SetVMInput (cc_VMInput input)) h;
            let h = upd_runtime (SetSCAddress addr) h;
            let (v, m) = metering_InitStateFromContractCallInput (cc_VMInput input) (host_metering h);
            let h = h\<lparr>host_metering := m\<rparr>;
            out \<leftarrow> AddTxValueToAccount addr (vi_CallValue v) (host_output h);
            let h = h\<lparr>host_output := out\<rparr>;
            let h = upd_storage (SetAddress (rc_scAddress (host_runtime h))) h;
            deploymentOutput E onDest \<lparr>cd_ContractCode = cc_ContractCode input,
              cd_ContractCodeMetadata = cc_ContractCodeMetadata input, cd_ContractAddress = addr,
              cd_CodeDeployerAddress = vi_CallerAddr v\<rparr> h
          });
     Some (vmOutput, host_Clean h)
   }"

definition doRunSmartContractUpgrade ::
  "'w vmEnv \<Rightarrow> 'w dest_call \<Rightarrow> ContractCallInput \<Rightarrow> 'w vmHost \<Rightarrow> (VMOutput \<times> 'w vmHost) option" where
  "doRunSmartContractUpgrade E onDest input h = do {
     (input, h) \<leftarrow> enterDirectCall input h;
     let (r, c) = ExtractCodeUpgradeFromArgs (host_runtime h);
     let h = h\<lparr>host_runtime := c\<rparr>;
     (vmOutput, h) \<leftarrow>
       (case r of
          Inl err \<Rightarrow> CreateVMOutputInCaseOfError E (Sentinel ErrInvalidUpgradeArguments) h
        | Inr (code, codeMetadata) \<Rightarrow>
            deploymentOutput E onDest \<lparr>cd_ContractCode = code, cd_ContractCodeMetadata = codeMetadata,
              cd_ContractAddress = ci_RecipientAddr input,
              cd_CodeDeployerAddress = vi_CallerAddr (ci_VMInput input)\<rparr> h);
     Some (vmOutput, host_Clean h)
   }"

section \<open>Recovering wrappers\<close>

text \<open>A panic is recovered into an error (\<open>Inl\<close>); the contexts it leaves behind are not modelled.\<close>

definition RunSmartContractCall ::
  "nat \<Rightarrow> 'w vmEnv \<Rightarrow> ContractCallInput \<Rightarrow> 'w vmHost \<Rightarrow> go_error + VMOutput \<times> 'w vmHost" where
  "RunSmartContractCall fuel E input h =
     (let onDest = ExecuteOnDestContext fuel E
      in if ci_Function input = UpgradeFunctionName then
           (case doRunSmartContractUpgrade E onDest input h of
              None \<Rightarrow> Inl (OtherError ''vmhost.RunSmartContractUpgrade, panic'')
            | Some (vmOutput, h) \<Rightarrow> Inr (vmOutput, h))
         else
           (case doRunSmartContractCall E onDest input h of
              None \<Rightarrow> Inl (OtherError ''vmhost.RunSmartContractCall, panic'')
            | Some (vmOutput, h) \<Rightarrow>
                Inr (vmOutput,
                 if hasRetriableExecutionError vmOutput h then upd_runtime ResetWarmInstance h else h)))"

definition RunSmartContractCreate ::
  "nat \<Rightarrow> 'w vmEnv \<Rightarrow> ContractCreateInput \<Rightarrow> 'w vmHost \<Rightarrow> go_error + VMOutput \<times> 'w vmHost" where
  "RunSmartContractCreate fuel E input h =
     (case doRunSmartContractCreate E (ExecuteOnDestContext fuel E) input h of
        None \<Rightarrow> Inl (OtherError ''vmhost.RunSmartContractCreate, panic'')
      | Some (vmOutput, h) \<Rightarrow> Inr (vmOutput, h))"

end
