(* ===== verification/HostKeeps.thy ===== *)
theory HostKeeps
  imports HostEntry RuntimeProofs
begin

text \<open>
  What every operation of the host preserves: the state stacks of all contexts, the stack of
  instances and its limit, and well-formedness of the contexts. The relation \<open>keeps\<close> relates a
  host before and after, \<open>kept\<close> lifts it to operations that may panic, and the rules of the
  collection \<open>keeps_intros\<close> follow the structure of the code, so that each operation is dealt
  with by its definition and the rules of the operations it calls.
\<close>

section \<open>The relations\<close>

definition wf_host :: "'w vmHost \<Rightarrow> bool" where
  "wf_host h \<longleftrightarrow> wf_bigInt (host_bigInt h) \<and> wf_output (host_output h) \<and> wf_metering (host_metering h)
     \<and> wf_runtime (host_runtime h)"

definition keeps_output :: "outputContext \<Rightarrow> outputContext \<Rightarrow> bool" where
  "keeps_output c c' \<longleftrightarrow> oc_stateStack c' = oc_stateStack c \<and> (wf_output c \<longrightarrow> wf_output c')"

definition keeps_metering :: "meteringContext \<Rightarrow> meteringContext \<Rightarrow> bool" where
  "keeps_metering c c' \<longleftrightarrow> mc_stateStack c' = mc_stateStack c \<and> (wf_metering c \<longrightarrow> wf_metering c')"

definition keeps_runtime :: "runtimeContext \<Rightarrow> runtimeContext \<Rightarrow> bool" where
  "keeps_runtime c c' \<longleftrightarrow> rc_stateStack c' = rc_stateStack c \<and> rc_instanceStack c' = rc_instanceStack c
     \<and> rc_maxWasmerInstances c' = rc_maxWasmerInstances c \<and> (wf_runtime c \<longrightarrow> wf_runtime c')"

definition keeps_others :: "'w vmHost \<Rightarrow> 'w vmHost \<Rightarrow> bool" where
  "keeps_others h h' \<longleftrightarrow> bi_stateStack (host_bigInt h') = bi_stateStack (host_bigInt h)
     \<and> (wf_bigInt (host_bigInt h) \<longrightarrow> wf_bigInt (host_bigInt h'))
     \<and> sc_stateStack (host_storage h') = sc_stateStack (host_storage h)
     \<and> bc_stateStack (host_blockchain h') = bc_stateStack (host_blockchain h)"

definition keeps :: "'w vmHost \<Rightarrow> 'w vmHost \<Rightarrow> bool" where
  "keeps h h' \<longleftrightarrow> keeps_output (host_output h) (host_output h')
     \<and> keeps_metering (host_metering h) (host_metering h')
     \<and> keeps_runtime (host_runtime h) (host_runtime h') \<and> keeps_others h h'"

definition kept :: "'w vmHost \<Rightarrow> ('r \<times> 'w vmHost) option \<Rightarrow> bool" where
  "kept h m \<longleftrightarrow> (\<forall>r h'. m = Some (r, h') \<longrightarrow> keeps h h')"

definition kept_host :: "'w vmHost \<Rightarrow> 'w vmHost option \<Rightarrow> bool" where
  "kept_host h m \<longleftrightarrow> (\<forall>h'. m = Some h' \<longrightarrow> keeps h h')"

definition kept_output :: "outputContext \<Rightarrow> outputContext option \<Rightarrow> bool" where
  "kept_output c m \<longleftrightarrow> (\<forall>c'. m = Some c' \<longrightarrow> keeps_output c c')"

definition kept_runtime :: "runtimeContext \<Rightarrow> runtimeContext option \<Rightarrow> bool" where
  "kept_runtime c m \<longleftrightarrow> (\<forall>c'. m = Some c' \<longrightarrow> keeps_runtime c c')"

named_theorems keeps_intros

lemmas keeps_defs = keeps_output_def keeps_metering_def keeps_runtime_def keeps_others_def

lemma keeps_refls [simp, keeps_intros]:
  "keeps_output c c" "keeps_metering m m" "keeps_runtime r r" "keeps h h"
  by (simp_all add: keeps_def keeps_defs)

lemma keeps_output_trans: "keeps_output a b \<Longrightarrow> keeps_output b c \<Longrightarrow> keeps_output a c"
  by (simp add: keeps_defs)

lemma keeps_runtime_trans: "keeps_runtime a b \<Longrightarrow> keeps_runtime b c \<Longrightarrow> keeps_runtime a c"
  by (simp add: keeps_defs)

lemma keeps_metering_trans: "keeps_metering a b \<Longrightarrow> keeps_metering b c \<Longrightarrow> keeps_metering a c"
  by (simp add: keeps_defs)

lemma keeps_trans: "keeps a b \<Longrightarrow> keeps b c \<Longrightarrow> keeps a c"
  unfolding keeps_def by (auto simp: keeps_defs)

lemma keeps_wf: "keeps h h' \<Longrightarrow> wf_host h \<Longrightarrow> wf_host h'"
  by (simp add: keeps_def keeps_defs wf_host_def)

lemma kept_trans: "keeps h h' \<Longrightarrow> kept h' m \<Longrightarrow> kept h m"
  unfolding kept_def using keeps_trans by blast

lemma kept_host_trans: "keeps h h' \<Longrightarrow> kept_host h' m \<Longrightarrow> kept_host h m"
  unfolding kept_host_def using keeps_trans by blast

section \<open>Rules for the structure of the code\<close>

lemma kept_returns [simp]:
  "kept h (Some (r, h')) \<longleftrightarrow> keeps h h'" "kept h None"
  "kept_host h (Some h') \<longleftrightarrow> keeps h h'" "kept_host h None"
  "kept_output c (Some c') \<longleftrightarrow> keeps_output c c'" "kept_output c None"
  "kept_runtime r0 (Some r1) \<longleftrightarrow> keeps_runtime r0 r1" "kept_runtime r0 None"
  by (auto simp: kept_def kept_host_def kept_output_def kept_runtime_def)

lemma kept_Some [keeps_intros]: "keeps h (snd p) \<Longrightarrow> kept h (Some p)"
  by (cases p) simp

lemma kept_bind [keeps_intros]:
  "kept h m \<Longrightarrow> (\<And>r h'. keeps h h' \<Longrightarrow> kept h (f (r, h'))) \<Longrightarrow> kept h (Option.bind m f)"
  "kept_host h n \<Longrightarrow> (\<And>h'. keeps h h' \<Longrightarrow> kept h (g h')) \<Longrightarrow> kept h (Option.bind n g)"
  "kept h m \<Longrightarrow> (\<And>r h'. keeps h h' \<Longrightarrow> kept_host h (f' (r, h'))) \<Longrightarrow> kept_host h (Option.bind m f')"
  "kept_host h n \<Longrightarrow> (\<And>h'. keeps h h' \<Longrightarrow> kept_host h (g' h')) \<Longrightarrow> kept_host h (Option.bind n g')"
  by (auto simp: kept_def kept_host_def bind_eq_Some_conv)

text \<open>Reading a value that may be missing.\<close>

lemma kept_value:
  "(\<And>x. kept h (f x)) \<Longrightarrow> kept h (Option.bind v f)"
  "(\<And>x. kept_host h (f' x)) \<Longrightarrow> kept_host h (Option.bind v f')"
  by (auto simp: kept_def kept_host_def bind_eq_Some_conv)

lemmas kept_values [keeps_intros] =
  kept_value [where v = "v :: u64 option" for v] kept_value [where v = "v :: bool option" for v]
  kept_value [where v = "v :: int option" for v] kept_value [where v = "v :: VMOutput option" for v]
  kept_value [where v = "v :: AsyncCallInfo option" for v]
  kept_value [where v = "v :: AsyncContextInfo option" for v]
  kept_value [where v = "v :: string option" for v] kept_value [where v = "v :: string option option" for v]
  kept_value [where v = "v :: (go_error + string) option" for v]
  kept_value [where v = "v :: (go_error + ContractCallInput) option" for v]
  kept_value [where v = "v :: (go_error + ContractCallInput option) option" for v]

lemma keeps_output_update [keeps_intros]:
  "keeps h h' \<Longrightarrow> keeps_output (host_output h') c \<Longrightarrow> keeps h (h'\<lparr>host_output := c\<rparr>)"
  by (simp add: keeps_def keeps_others_def keeps_output_def)

lemma keeps_metering_update [keeps_intros]:
  "keeps h h' \<Longrightarrow> keeps_metering (host_metering h') c \<Longrightarrow> keeps h (h'\<lparr>host_metering := c\<rparr>)"
  by (simp add: keeps_def keeps_others_def keeps_metering_def)

lemma keeps_runtime_update [keeps_intros]:
  "keeps h h' \<Longrightarrow> keeps_runtime (host_runtime h') c \<Longrightarrow> keeps h (h'\<lparr>host_runtime := c\<rparr>)"
  by (simp add: keeps_def keeps_others_def keeps_runtime_def)

lemma keeps_world_update [keeps_intros]: "keeps h h' \<Longrightarrow> keeps h (h'\<lparr>host_world := w\<rparr>)"
  by (simp add: keeps_def keeps_others_def)

lemma keeps_storage_update [keeps_intros]:
  "keeps h h' \<Longrightarrow> sc_stateStack c = sc_stateStack (host_storage h') \<Longrightarrow> keeps h (h'\<lparr>host_storage := c\<rparr>)"
  by (simp add: keeps_def keeps_others_def)

section \<open>Output\<close>

lemma keeps_output_fields:
  assumes "vo_OutputAccounts v = vo_OutputAccounts (oc_outputState c)"
    and "vo_GasRefund v = vo_GasRefund (oc_outputState c) \<or> vo_GasRefund v \<noteq> None"
    and "vo_DeletedAccounts v = vo_DeletedAccounts (oc_outputState c)"
    and "vo_TouchedAccounts v = vo_TouchedAccounts (oc_outputState c)"
  shows "keeps_output c (c\<lparr>oc_outputState := v\<rparr>)"
  using assms by (auto simp: keeps_output_def wf_output_def wf_vmOutput_def)

lemma keeps_output_simple [keeps_intros]:
  assumes "keeps_output c c'"
  shows "keeps_output c (SetReturnCode rc c')" "keeps_output c (SetReturnMessage msg c')"
    "keeps_output c (Finish d c')" "keeps_output c (PrependFinish d c')" "keeps_output c (SetRefund r c')"
    "keeps_output c (CensorVMOutput c')" "keeps_output c (ClearReturnData c')"
  unfolding SetReturnCode_def SetReturnMessage_def Finish_def PrependFinish_def SetRefund_def
    CensorVMOutput_def ClearReturnData_def
  by (rule keeps_output_trans [OF assms], rule keeps_output_fields; simp)+

lemma keeps_GetOutputAccount [keeps_intros]:
  assumes "keeps_output c c'"
  shows "keeps_output c (snd (GetOutputAccount addr c'))"
proof -
  obtain a isNew c2 where g: "GetOutputAccount addr c' = ((a, isNew), c2)" by (metis prod.collapse)
  have "keeps_output c' c2"
    using GetOutputAccount_stack [OF g] wf_GetOutputAccount(1) [OF _ g] by (simp add: keeps_output_def)
  then show ?thesis using assms g keeps_output_trans by auto
qed

lemma wf_GetOutputAccount_fst: "wf_output c \<Longrightarrow> wf_account addr (fst (fst (GetOutputAccount addr c)))"
  by (metis prod.collapse wf_GetOutputAccount(2))

text \<open>Updating the account that was looked up, which keeps its address, delta and storage map.\<close>

lemma keeps_put_account [keeps_intros]:
  assumes "keeps_output c c'"
    and "wf_output c' \<Longrightarrow> wf_account addr (fst (fst (GetOutputAccount addr c'))) \<Longrightarrow> wf_account addr a"
  shows "keeps_output c (put_account addr a (snd (GetOutputAccount addr c')))"
proof -
  have "keeps_output c' (snd (GetOutputAccount addr c'))" by (intro keeps_intros)
  then show ?thesis
    using assms wf_GetOutputAccount_fst [of c' addr]
    by (auto simp: keeps_output_def intro: wf_put_account)
qed

text \<open>
  Operations that look an account up and update it.
\<close>

lemma keeps_output_accounts:
  assumes "keeps_output c c'" and "wf_accounts (vo_OutputAccounts (oc_outputState c')) \<Longrightarrow> wf_accounts m"
  shows "keeps_output c (c'\<lparr>oc_outputState := (oc_outputState c')\<lparr>vo_OutputAccounts := m\<rparr>\<rparr>)"
proof (rule keeps_output_trans [OF assms(1)])
  show "keeps_output c' (c'\<lparr>oc_outputState := (oc_outputState c')\<lparr>vo_OutputAccounts := m\<rparr>\<rparr>)"
    using assms(2) unfolding keeps_output_def wf_output_def wf_vmOutput_def by simp
qed

lemma keeps_codeUpdates [keeps_intros]:
  "keeps_output c c' \<Longrightarrow> keeps_output c (c'\<lparr>oc_codeUpdates := u\<rparr>)"
  by (erule keeps_output_trans) (simp add: keeps_output_def wf_output_def)

lemma keeps_DeployCode [keeps_intros]: "keeps_output c c' \<Longrightarrow> keeps_output c (DeployCode input c')"
  unfolding DeployCode_def Let_def case_prod_beta
  by (rule keeps_codeUpdates, rule keeps_put_account) (simp_all add: wf_account_def)

lemma keeps_DeleteOutputAccount [keeps_intros]:
  "keeps_output c c' \<Longrightarrow> keeps_output c (DeleteOutputAccount addr c')"
  unfolding DeleteOutputAccount_def
  by (rule keeps_codeUpdates, rule keeps_output_accounts) (auto intro: wf_accounts_delete)

lemma keeps_append_transfer [keeps_intros]:
  "keeps_output c c' \<Longrightarrow> keeps_output c (append_transfer dest t c')"
  unfolding append_transfer_def Let_def case_prod_beta
  by (rule keeps_put_account) (simp_all add: wf_account_def)

lemma wf_remove_code: "wf_accounts m \<Longrightarrow> wf_accounts (remove_code u m)"
proof (induction u m rule: remove_code.induct)
  case (2 u addr a rest)
  have "fst ` set (remove_code u rest) = fst ` set rest"
    by (induction u rest rule: remove_code.induct) auto
  then show ?case using 2 by (auto simp: wf_accounts_Cons wf_account_def)
qed simp

lemma keeps_removeNonUpdatedCode [keeps_intros]:
  "keeps_output c c' \<Longrightarrow> keeps_output c (removeNonUpdatedCode c')"
  unfolding removeNonUpdatedCode_def by (rule keeps_output_accounts) (auto intro: wf_remove_code)

section \<open>Runtime\<close>

lemma keeps_runtime_fields:
  assumes "rc_stateStack c' = rc_stateStack c" and "rc_instanceStack c' = rc_instanceStack c"
    and "rc_maxWasmerInstances c' = rc_maxWasmerInstances c" and "rc_vmInput c' = rc_vmInput c"
  shows "keeps_runtime c c'"
  using assms by (simp add: keeps_runtime_def wf_runtime_def)

lemma keeps_runtime_updates [keeps_intros]:
  assumes "keeps_runtime c c'"
  shows "keeps_runtime c (c'\<lparr>rc_instance := i\<rparr>)" "keeps_runtime c (c'\<lparr>rc_codeSize := n\<rparr>)"
    "keeps_runtime c (c'\<lparr>rc_verifyCode := b\<rparr>)" "keeps_runtime c (c'\<lparr>rc_heap := hp\<rparr>)"
    "keeps_runtime c (c'\<lparr>rc_warmInstanceAddress := wa\<rparr>)" "keeps_runtime c (c'\<lparr>rc_warmInstance := wi\<rparr>)"
    "keeps_runtime c (AddError E err info c')" "keeps_runtime c (MustVerifyNextContractCode c')"
    "keeps_runtime c (CleanWasmerInstance c')" "keeps_runtime c (new_instance inst c')"
    "keeps_runtime c (SetCustomCallFunction f c')" "keeps_runtime c (SetAsyncCallInfo info' c')"
  by (rule keeps_runtime_trans [OF assms];
      auto intro!: keeps_runtime_fields simp: AddError_def MustVerifyNextContractCode_def
        CleanWasmerInstance_def instance_Clean_def new_instance_def SetCustomCallFunction_def
        SetAsyncCallInfo_def split: option.split)+

lemma keeps_ExtractCodeUpgradeFromArgs [keeps_intros]:
  "keeps_runtime c c' \<Longrightarrow> keeps_runtime c (snd (ExtractCodeUpgradeFromArgs c'))"
  by (erule keeps_runtime_trans)
    (simp add: ExtractCodeUpgradeFromArgs_def keeps_runtime_def wf_runtime_def normal_input_def
      split: list.split)

lemma kept_runtime_instance [keeps_intros]:
  assumes "keeps_runtime c c'"
  shows "kept_runtime c (upd_instance f c')" "kept_runtime c (SetPointsUsed g c')"
    "kept_runtime c (SetRuntimeBreakpointValue bp c')"
  unfolding SetPointsUsed_def SetRuntimeBreakpointValue_def Let_def
  using keeps_runtime_updates(4) [OF assms]
  by (simp_all add: upd_instance_def split: option.split)

lemma kept_with_runtime [keeps_intros]:
  assumes "keeps h h'" and "kept_runtime (host_runtime h') (f (host_runtime h'))"
  shows "kept_host h (with_runtime f h')"
  using assms by (auto simp: with_runtime_def kept_runtime_def kept_host_def bind_eq_Some_conv
      intro: keeps_runtime_update)

section \<open>Gas\<close>

lemma kept_gas [keeps_intros]:
  assumes "keeps h h'"
  shows "kept_host h (UseGas g h')" "kept_host h (RestoreGas g h')" "kept_host h (FreeGas g h')"
    "kept_host h (use_key_gas key h')"
  unfolding UseGas_def RestoreGas_def FreeGas_def use_key_gas_def Let_def
  using assms by (auto intro!: keeps_intros kept_value)

lemma keeps_metering_fields [keeps_intros]:
  assumes "keeps_metering c c'"
  shows "keeps_metering c (c'\<lparr>mc_initialCost := a\<rparr>)" "keeps_metering c (c'\<lparr>mc_gasForExecution := b\<rparr>)"
    "keeps_metering c (c'\<lparr>mc_gasUsedByAccounts := map_put addr g (mc_gasUsedByAccounts c')\<rparr>)"
  by (rule keeps_metering_trans [OF assms], simp add: keeps_metering_def wf_metering_def)+

lemma keeps_deductInitialGas [keeps_intros]:
  assumes "keeps h h'"
  shows "keeps h (snd (deductInitialGas code baseCost costPerByte h'))"
    "keeps h (snd (DeductInitialGasForExecution E code h'))"
    "keeps h (snd (DeductInitialGasForDirectDeployment input h'))"
    "keeps h (snd (DeductInitialGasForIndirectDeployment input h'))"
  unfolding DeductInitialGasForExecution_def DeductInitialGasForDirectDeployment_def
    DeductInitialGasForIndirectDeployment_def deductInitialGas_def Let_def
  using assms by (auto intro!: keeps_intros split: prod.split)

lemma wf_accounts_map_used:
  "wf_accounts m \<Longrightarrow> wf_accounts (map (\<lambda>(addr, a). (addr, a\<lparr>oa_GasUsed := g addr\<rparr>)) m)"
  by (induction m) (force simp: wf_accounts_Cons wf_account_def split: prod.splits)+

lemma keeps_gas_state [keeps_intros]:
  assumes "keeps h h'"
  shows "keeps h (updateSCGasUsed E h')" "keeps h (snd (setGasUsedToOutputAccounts h'))"
    "keeps h (UpdateGasStateOnFailure h')"
proof -
  show "keeps h (updateSCGasUsed E h')"
    unfolding updateSCGasUsed_def Let_def case_prod_beta using assms by (simp add: keeps_intros)
  show "keeps h (UpdateGasStateOnFailure h')"
    unfolding UpdateGasStateOnFailure_def Let_def case_prod_beta
    using assms by (auto intro!: keeps_intros simp: wf_account_def)
  show "keeps h (snd (setGasUsedToOutputAccounts h'))"
    unfolding setGasUsedToOutputAccounts_def Let_def
    using assms by (auto intro!: keeps_output_update keeps_output_accounts wf_accounts_map_used
        simp: GetOutputAccounts_def)
qed

lemma keeps_UpdateGasStateOnSuccess [keeps_intros]:
  "keeps h h' \<Longrightarrow> keeps h (snd (UpdateGasStateOnSuccess E h'))"
  unfolding UpdateGasStateOnSuccess_def Let_def case_prod_beta by (simp add: keeps_gas_state)

lemma kept_CreateVMOutputInCaseOfError [keeps_intros]:
  "keeps h h' \<Longrightarrow> kept h (CreateVMOutputInCaseOfError E err h')"
  unfolding CreateVMOutputInCaseOfError_def Let_def
  by (intro kept_value) (simp add: keeps_intros)

lemma kept_GetVMOutput [keeps_intros]: "keeps h h' \<Longrightarrow> kept h (GetVMOutput E h')"
proof -
  assume "keeps h h'"
  moreover have "keeps_output c ((removeNonUpdatedCode c)\<lparr>oc_outputState :=
      (oc_outputState (removeNonUpdatedCode c))\<lparr>vo_GasRemaining := g\<rparr>\<rparr>)" for c g
    by (rule keeps_output_trans [OF keeps_removeNonUpdatedCode [OF keeps_refls(1)] keeps_output_fields]) simp_all
  ultimately show ?thesis
    unfolding GetVMOutput_def Let_def case_prod_beta by (auto intro!: keeps_intros split: option.split)
qed

section \<open>Blockchain and transfers\<close>

lemma keeps_GetCode [keeps_intros]:
  assumes "keeps h h'"
  shows "keeps h (snd (blockchain_GetCode E addr h'))" "keeps h (snd (GetSCCode E h'))"
    "keeps h (snd (canExecuteSynchronously E addr h'))"
proof -
  show code: "keeps h (snd (blockchain_GetCode E addr h'))" for addr
    unfolding blockchain_GetCode_def Let_def case_prod_beta
    using assms by (auto intro!: keeps_intros simp: wf_account_def split: sum.split option.split)
  show "keeps h (snd (GetSCCode E h'))" "keeps h (snd (canExecuteSynchronously E addr h'))"
    unfolding GetSCCode_def canExecuteSynchronously_def Let_def case_prod_beta
    using code by (auto intro!: keeps_intros split: sum.split)
qed

lemma keeps_nonce [keeps_intros]:
  assumes "keeps h h'"
  shows "keeps h (snd (GetNonce E addr h'))" "keeps h (IncreaseNonce E addr h')"
    "keeps h (snd (NewAddress E addr h'))"
proof -
  show nonce: "keeps h (snd (GetNonce E addr h'))"
    unfolding GetNonce_def Let_def case_prod_beta
    using assms by (auto intro!: keeps_intros simp: wf_account_def split: sum.split option.split)
  show "keeps h (IncreaseNonce E addr h')"
    unfolding IncreaseNonce_def Let_def case_prod_beta
    by (rule keeps_output_update [OF nonce]) (auto intro!: keeps_intros simp: wf_account_def)
  show "keeps h (snd (NewAddress E addr h'))"
    unfolding NewAddress_def Let_def case_prod_beta using nonce by (auto split: option.split)
qed

lemma kept_GetBalanceBigInt [keeps_intros]: "keeps h h' \<Longrightarrow> kept h (GetBalanceBigInt E addr h')"
  unfolding GetBalanceBigInt_def Let_def case_prod_beta
  by (auto intro!: keeps_intros kept_value simp: wf_account_def split: sum.split option.split)

lemma keeps_put_wf: "keeps_output c c' \<Longrightarrow> (wf_output c' \<Longrightarrow> wf_account k a) \<Longrightarrow> keeps_output c (put_account k a c')"
  by (auto simp: keeps_output_def intro: wf_put_account)

lemma kept_move_value: "kept_output c (move_value dest sender v c)"
proof -
  let ?c1 = "snd (GetOutputAccount sender c)"
  let ?c2 = "snd (GetOutputAccount dest ?c1)"
  have "keeps_output c ?c2" by (intro keeps_intros)
  moreover have "wf_account sender (fst (fst (GetOutputAccount sender c)))" if "wf_output c"
    using that by (rule wf_GetOutputAccount_fst)
  ultimately have "keeps_output c (put_account sender
      ((fst (fst (GetOutputAccount sender c)))\<lparr>oa_BalanceDelta := Some d\<rparr>) ?c2)" for d
    by (auto simp: keeps_output_def wf_account_def intro!: wf_put_account)
  then show ?thesis
    unfolding move_value_def Let_def case_prod_beta
    by (auto simp: kept_output_def bind_eq_Some_conv wf_account_def intro!: keeps_put_account)
qed

lemma kept_output_host:
  "kept_output (host_output h') m \<Longrightarrow> keeps h h' \<Longrightarrow>
   kept h (Option.bind m (\<lambda>out. Some (r, h'\<lparr>host_output := out\<rparr>)))"
  by (auto simp: kept_def kept_output_def bind_eq_Some_conv intro: keeps_output_update)

lemma kept_TransferValueOnly [keeps_intros]:
  assumes "keeps h h'"
  shows "kept h (TransferValueOnly E dest sender v checkPayable h')"
proof -
  have "kept h (hasSufficientBalance E sender v h')"
    unfolding hasSufficientBalance_def using assms by (auto intro!: keeps_intros)
  then show ?thesis
    unfolding TransferValueOnly_def Let_def
    using assms by (auto intro!: kept_bind(1) kept_output_host kept_move_value split: sum.split)
qed

lemma kept_Transfer [keeps_intros]:
  assumes "keeps h h'"
  shows "kept h (Transfer E dest sender gl gk v d ct h')"
  unfolding Transfer_def Let_def
  by (rule kept_bind(1)) (use assms in \<open>auto intro!: keeps_intros split: option.split\<close>)

section \<open>Storage\<close>

lemma keeps_put_storage_update [keeps_intros]:
  "keeps h h' \<Longrightarrow> keeps h (put_storage_update addr key u h')"
  unfolding put_storage_update_def Let_def case_prod_beta
  by (auto intro!: keeps_intros simp: wf_account_def)

lemma keeps_GetStorageUpdates [keeps_intros]:
  "keeps h h' \<Longrightarrow> keeps h (snd (GetStorageUpdates addr h'))"
  unfolding GetStorageUpdates_def Let_def case_prod_beta by (auto intro!: keeps_intros)

lemma keeps_storage_reads [keeps_intros]:
  "keeps h h' \<Longrightarrow> keeps h (snd (getStorageFromAddressUnmetered E addr key h'))"
  "keeps h h' \<Longrightarrow> keeps h (snd (GetStorageUnmetered E key h'))"
  unfolding getStorageFromAddressUnmetered_def GetStorageUnmetered_def Let_def case_prod_beta
  by (auto intro!: keeps_intros split: option.split)

lemma keeps_read_old_value [keeps_intros]:
  "keeps h h' \<Longrightarrow> keeps h (snd (read_old_value E addr key h'))"
  unfolding read_old_value_def Let_def case_prod_beta by (auto intro!: keeps_intros split: option.split)

lemma kept_write_new_value [keeps_intros]:
  "keeps h h' \<Longrightarrow> kept h (write_new_value addr key v oldValue h')"
  unfolding write_new_value_def Let_def by (auto intro!: keeps_intros)

lemma kept_SetStorage [keeps_intros]: "keeps h h' \<Longrightarrow> kept h (SetStorage E key v h')"
  unfolding SetStorage_def Let_def case_prod_beta by (auto intro!: keeps_intros)

lemma kept_SetProtectedStorage [keeps_intros]:
  assumes "keeps h h'"
  shows "kept h (SetProtectedStorage E key v h')"
proof -
  have "keeps h (upd_storage disableStorageProtection h')"
    using assms by (auto intro!: keeps_intros simp: disableStorageProtection_def)
  then show ?thesis
    unfolding SetProtectedStorage_def
    by (intro kept_bind(1) [OF kept_SetStorage])
      (auto intro!: keeps_storage_update simp: enableStorageProtection_def)
qed

section \<open>Instances and failures\<close>

lemma keeps_makeInstanceFromCompiledCode [keeps_intros]:
  "keeps h h' \<Longrightarrow> keeps h (snd (makeInstanceFromCompiledCode E codeHash gasLimit newCode h'))"
  unfolding makeInstanceFromCompiledCode_def Let_def case_prod_beta
  by (auto intro!: keeps_intros split: sum.split)

lemma kept_saveCompiledCode [keeps_intros]:
  "keeps h h' \<Longrightarrow> kept_host h (saveCompiledCode E codeHash h')"
  unfolding saveCompiledCode_def SaveCompiledCode_def
  by (rule kept_value) (auto intro!: keeps_intros split: sum.split)

text \<open>A step of the runtime context that also returns a result.\<close>

lemma kept_runtime_step:
  assumes "keeps h h'" and "\<And>r c. m = Some (r, c) \<Longrightarrow> keeps_runtime (host_runtime h') c"
    and "\<And>r c. keeps_runtime (host_runtime h') c \<Longrightarrow> kept h (f (r, c))"
  shows "kept h (Option.bind m f)"
  using assms by (cases m) auto

lemma VerifyContractCode_keeps:
  assumes "VerifyContractCode E c = Some (r, c')"
  shows "keeps_runtime c c'"
proof -
  have "c' = c \<or> c' = c\<lparr>rc_verifyCode := False\<rparr>"
    using assms by (auto simp: VerifyContractCode_def bind_eq_Some_conv Let_def split: if_splits option.splits)
  then show ?thesis using keeps_runtime_updates(3) [OF keeps_refls(3)] by auto
qed

lemma setWarmInstance_keeps:
  assumes "setWarmInstanceWhenNeeded gasLimit c = Some (b, c')"
  shows "keeps_runtime c c'"
proof (cases "rc_useWarmInstance c \<and> rc_warmInstanceAddress c = Some (rc_scAddress c)")
  case False
  then show ?thesis using assms by (auto simp: setWarmInstanceWhenNeeded_def)
next
  case True
  then obtain c1 c2 where "SetPointsUsed 0 (c\<lparr>rc_instance := rc_warmInstance c\<rparr>) = Some c1"
    and "upd_instance (\<lambda>i. i\<lparr>wi_GasLimit := gasLimit\<rparr>) c1 = Some c2"
    and "SetRuntimeBreakpointValue BreakpointNone c2 = Some c'"
    using assms by (auto simp: setWarmInstanceWhenNeeded_def bind_eq_Some_conv)
  then show ?thesis
    using kept_runtime_instance [where c = c] keeps_runtime_updates(1) [OF keeps_refls(3)]
    by (metis kept_returns(7))
qed

lemmas kept_runtime_steps [keeps_intros] =
  kept_runtime_step [where m = "VerifyContractCode E (host_runtime h')" and h' = h' for E h', OF _ VerifyContractCode_keeps]
  kept_runtime_step [where m = "setWarmInstanceWhenNeeded g (host_runtime h')" and h' = h' for g h', OF _ setWarmInstance_keeps]

lemma kept_makeInstanceFromContractByteCode [keeps_intros]:
  "keeps h h' \<Longrightarrow> kept h (makeInstanceFromContractByteCode E contract codeHash gasLimit newCode h')"
  unfolding makeInstanceFromContractByteCode_def Let_def
  by (auto intro!: keeps_intros split: sum.split)

lemma kept_StartWasmerInstance [keeps_intros]:
  "keeps h h' \<Longrightarrow> kept h (StartWasmerInstance E contract gasLimit newCode h')"
  unfolding StartWasmerInstance_def Let_def
  by (auto simp: case_prod_beta intro!: keeps_intros)

lemma kept_FailExecution [keeps_intros]:
  "keeps h h' \<Longrightarrow> kept_host h (FailExecution E err h')"
  unfolding FailExecution_def Let_def by (auto intro!: keeps_intros)

section \<open>Asynchronous calls\<close>

lemma kept_fail_with_all_gas [keeps_intros]: "keeps h h' \<Longrightarrow> kept h (fail_with_all_gas E err h')"
  unfolding fail_with_all_gas_def by (auto intro!: keeps_intros)

lemma kept_after_Transfer:
  assumes "keeps h h'"
  shows "kept h (Option.bind (Transfer E dest sender gl gk v d ct h') (\<lambda>(err, h). case err of
      Some e \<Rightarrow> fail_with_all_gas E e h | None \<Rightarrow> Option.bind (UseGas (GasLeft h) h) (\<lambda>h. Some (None, h))))"
    "kept h (Option.bind (Transfer E dest sender gl gk v d ct h') (\<lambda>(err, h). case err of
      Some e \<Rightarrow> fail_with_all_gas E e h | None \<Rightarrow> Some (None, h)))"
  using assms by (auto intro!: keeps_intros split: option.split)

lemma kept_sends [keeps_intros]:
  assumes "keeps h h'"
  shows "kept h (sendAsyncCallToDestination E info h')" "kept h (sendCallbackToCurrentCaller E h')"
    "kept h (sendStorageCallbackToDestination E addr d h')"
  unfolding sendAsyncCallToDestination_def sendCallbackToCurrentCaller_def
    sendStorageCallbackToDestination_def Let_def
  by (rule kept_after_Transfer [OF assms] kept_value)+

lemma keeps_determineAsyncCallExecutionMode [keeps_intros]:
  "keeps h h' \<Longrightarrow> keeps h (snd (determineAsyncCallExecutionMode E info h'))"
  unfolding determineAsyncCallExecutionMode_def Let_def case_prod_beta
  by (auto intro!: keeps_intros split: sum.split)

lemma keeps_GasProvided [keeps_intros]:
  "keeps_runtime c c' \<Longrightarrow>
   keeps_runtime c (c'\<lparr>rc_vmInput := (rc_vmInput c')\<lparr>vi_GasProvided := g\<rparr>\<rparr>)"
  by (erule keeps_runtime_trans) (simp add: keeps_runtime_def wf_runtime_def normal_input_def)

lemma kept_processCallbackVMOutput [keeps_intros]:
  "keeps h h' \<Longrightarrow> kept_host h (processCallbackVMOutput E out err h')"
  unfolding processCallbackVMOutput_def Let_def
  by (auto intro!: keeps_intros split: option.split)

lemma kept_savePendingAsyncCalls [keeps_intros]:
  "keeps h h' \<Longrightarrow> kept h (savePendingAsyncCalls E info h')"
  unfolding savePendingAsyncCalls_def case_prod_beta by (auto intro!: keeps_intros split: sum.split)

lemma kept_send_calls [keeps_intros]:
  "keeps h h' \<Longrightarrow> kept h (send_calls E calls h')"
proof (induction calls arbitrary: h')
  case (Cons call calls)
  then show ?case by (auto simp: Let_def case_prod_beta intro!: keeps_intros)
qed simp

lemma kept_send_contexts [keeps_intros]:
  "keeps h h' \<Longrightarrow> kept h (send_contexts E m h')"
proof (induction m arbitrary: h')
  case (Cons p m)
  then show ?case by (cases p) (auto intro!: keeps_intros)
qed simp

end
