(* ===== verification/HostNesting.thy ===== *)
theory HostNesting
  imports HostKeeps
begin

text \<open>
  Nested calls. The locale \<open>lawful_env\<close> states what the host relies on for code outside the
  repository: running an exported function leaves the state stacks of the contexts as it found
  them, and a built-in function files its output accounts under their own addresses. The locale
  \<open>nested_call\<close> adds the call \<open>onDest\<close> into which the execution functions recurse. Inside it,
  every execution function keeps the stacks and the well-formedness of the host, and so does
  \<open>ExecuteOnDestContext\<close> for every fuel, by induction.
\<close>

lemma keptD: "kept h m \<Longrightarrow> m = Some (r, h') \<Longrightarrow> keeps h h'"
  by (simp add: kept_def)

definition filed_accounts :: "(address, OutputAccount) gomap \<Rightarrow> bool" where
  "filed_accounts m \<longleftrightarrow> wf_map m \<and> list_all (\<lambda>(addr, a). oa_Address a = addr \<and> wf_map (oa_StorageUpdates a)) m"

locale lawful_env =
  fixes E :: "'w vmEnv"
  assumes export_keeps: "kept h (env_CallExport E f h)"
    and builtin_filed: "hook_ProcessBuiltInFunction (env_hook E) w input = (Inr out, w') \<Longrightarrow>
      filed_accounts (vo_OutputAccounts out)"

locale nested_call = lawful_env E for E :: "'w vmEnv" +
  fixes onDest :: "'w dest_call"
  assumes nested_keeps: "kept h (onDest input h)"
begin

lemma export_kept [keeps_intros]: "keeps h h' \<Longrightarrow> kept h (env_CallExport E f h')"
  using export_keeps kept_trans by blast

lemma nested_kept [keeps_intros]: "keeps h h' \<Longrightarrow> kept h (onDest input h')"
  using nested_keeps kept_trans by blast

lemma executeSync_kept [keeps_intros]:
  assumes "keeps h h'"
  shows "kept h (executeSyncDestinationCall E onDest info h')"
    "kept h (executeSyncCallbackCall E onDest info out err h')"
  unfolding executeSyncDestinationCall_def executeSyncCallbackCall_def case_prod_beta
  using assms by (auto intro!: keeps_intros split: sum.split)

lemma handleAsyncCallBreakpoint_kept [keeps_intros]:
  "keeps h h' \<Longrightarrow> kept h (handleAsyncCallBreakpoint E onDest h')"
  unfolding handleAsyncCallBreakpoint_def Let_def case_prod_beta
  by (auto intro!: keeps_intros split: sum.split)

lemma handleBreakpoint_kept [keeps_intros]:
  "keeps h h' \<Longrightarrow> kept h (handleBreakpoint E onDest bp h')"
  unfolding handleBreakpoint_def by (auto intro!: keeps_intros)

lemma handleBreakpointIfAny_kept [keeps_intros]:
  "keeps h h' \<Longrightarrow> kept h (handleBreakpointIfAny E onDest err h')"
  unfolding handleBreakpointIfAny_def case_prod_beta by (auto intro!: keeps_intros)

lemma callInitFunction_kept [keeps_intros]:
  "keeps h h' \<Longrightarrow> kept h (callInitFunction E onDest h')"
  unfolding callInitFunction_def by (auto intro!: keeps_intros split: option.split)

lemma callSCMethodIndirect_kept [keeps_intros]:
  "keeps h h' \<Longrightarrow> kept h (callSCMethodIndirect E onDest h')"
  unfolding callSCMethodIndirect_def by (auto intro!: keeps_intros split: sum.split)

lemma executeUpgrade_kept [keeps_intros]:
  "keeps h h' \<Longrightarrow> kept h (executeUpgrade E onDest input h')"
  unfolding executeUpgrade_def Let_def case_prod_beta
  by (auto intro!: keeps_intros split: option.split sum.split)

lemma execute_kept [keeps_intros]:
  "keeps h h' \<Longrightarrow> kept h (execute E onDest input h')"
  unfolding execute_def Let_def case_prod_beta
  by (auto intro!: keeps_intros split: sum.split)

lemma callbackAsync_kept [keeps_intros]:
  "keeps h h' \<Longrightarrow> kept h (callbackAsync E onDest call out err h')"
  unfolding callbackAsync_def Let_def case_prod_beta by (auto intro!: keeps_intros split: sum.split)

lemma processAsyncCall_kept [keeps_intros]:
  "keeps h h' \<Longrightarrow> kept h (processAsyncCall E onDest call h')"
  unfolding processAsyncCall_def case_prod_beta by (auto intro!: keeps_intros split: sum.split)

lemma process_calls_kept [keeps_intros]:
  "keeps h h' \<Longrightarrow> kept h (process_calls E onDest calls h')"
proof (induction calls arbitrary: h')
  case (Cons call calls)
  then show ?case by (auto simp: Let_def case_prod_beta intro!: keeps_intros)
qed simp

lemma process_contexts_kept [keeps_intros]:
  "keeps h h' \<Longrightarrow> kept h (process_contexts E onDest m h')"
proof (induction m arbitrary: h')
  case (Cons p m)
  then show ?case by (cases p) (auto simp: Let_def case_prod_beta intro!: keeps_intros)
qed simp

lemma processAsyncInfo_kept [keeps_intros]:
  "keeps h h' \<Longrightarrow> kept h (processAsyncInfo E onDest info h')"
  unfolding processAsyncInfo_def Let_def case_prod_beta
  by (auto intro!: keeps_intros split: sum.split option.split)

end

section \<open>Built-in functions\<close>

lemma filed_Cons: "filed_accounts ((k, a) # m) \<longleftrightarrow>
    k \<notin> fst ` set m \<and> oa_Address a = k \<and> wf_map (oa_StorageUpdates a) \<and> filed_accounts m"
  by (auto simp: filed_accounts_def wf_map_def)

lemma filed_put: "filed_accounts m \<Longrightarrow> oa_Address a = k \<Longrightarrow> wf_map (oa_StorageUpdates a) \<Longrightarrow>
    filed_accounts (map_put k a m)"
  by (auto simp: filed_accounts_def list_all_iff set_map_put)

lemma filed_map_vals:
  assumes "filed_accounts m" and "\<And>a. oa_Address (f a) = oa_Address a"
    and "\<And>a. oa_StorageUpdates (f a) = oa_StorageUpdates a"
  shows "filed_accounts (map_vals f m)"
  using assms
  by (auto simp: filed_accounts_def wf_map_def map_vals_def list_all_iff comp_def case_prod_beta)

lemma filed_get: "filed_accounts m \<Longrightarrow> map_get m k = Some a \<Longrightarrow>
    oa_Address a = k \<and> wf_map (oa_StorageUpdates a)"
  by (auto simp: filed_accounts_def list_all_iff dest: map_of_SomeD)

text \<open>A filed account needs no balance delta: merging supplies one.\<close>

lemma wf_account_merge_filed:
  assumes "oa_Address r = addr" "wf_map (oa_StorageUpdates r)" "l = zeroOutputAccount \<or> wf_account addr l"
  shows "wf_account addr (mergeOutputAccounts l r)"
  using assms by (auto simp: wf_account_def merge_fields zeroOutputAccount_def wf_merge_updates)

lemma wf_merge_filed: "wf_accounts l \<Longrightarrow> filed_accounts r \<Longrightarrow> wf_accounts (merge_accounts l r)"
proof (induction l r rule: merge_accounts.induct)
  case (2 l k a r)
  then have a: "oa_Address a = k" "wf_map (oa_StorageUpdates a)" "filed_accounts r"
    by (auto simp: filed_Cons)
  have "wf_account k (mergeOutputAccounts (case map_get l k of None \<Rightarrow> zeroOutputAccount | Some b \<Rightarrow> b) a)"
    using a "2.prems"(1) by (intro wf_account_merge_filed) (auto dest: wf_accounts_get split: option.splits)
  then show ?case using 2 a by (auto simp: Let_def intro: wf_accounts_put)
qed simp

lemma add_to_accounts_wf:
  "add_to_accounts l r = Some (l', r') \<Longrightarrow> wf_accounts l \<Longrightarrow> filed_accounts r \<Longrightarrow>
   wf_accounts l' \<and> filed_accounts r' \<and> fst ` set r' = fst ` set r"
proof (induction r arbitrary: l l' r')
  case (Cons p r)
  obtain k a where p: "p = (k, a)" by (cases p)
  note a = Cons.prems(3) [unfolded p filed_Cons]
  show ?case
  proof (cases "map_get l (oa_Address a)")
    case None
    then obtain r2 where r2: "add_to_accounts l r = Some (l', r2)" and r': "r' = (k, a) # r2"
      using Cons.prems(1) p by (auto simp: bind_eq_Some_conv)
    show ?thesis using Cons.IH [OF r2] Cons.prems(2) a r' p by (simp add: filed_Cons)
  next
    case (Some b)
    let ?l = "if oa_OutputTransfers a \<noteq> [] then map_put (oa_Address a)
        (b\<lparr>oa_OutputTransfers := oa_OutputTransfers b @ oa_OutputTransfers a\<rparr>) l else l"
    obtain a2 r2 where rest: "add_to_accounts ?l r = Some (l', r2)" and r': "r' = (k, a2) # r2"
      and a2: "a2 = a \<or> (\<exists>d. a2 = a\<lparr>oa_BalanceDelta := d\<rparr>)"
      using Cons.prems(1) Some p
      by (fastforce simp: bind_eq_Some_conv Let_def split: option.splits)
    have "wf_accounts ?l"
      using Cons.prems(2) wf_accounts_get [OF Cons.prems(2) Some]
      by (auto simp: wf_account_def intro!: wf_accounts_put)
    then show ?thesis using Cons.IH [OF rest] r' a p a2 by (auto simp: filed_Cons)
  qed
qed simp

lemma AddToActiveState_keeps:
  assumes "AddToActiveState out c = Some (out', c')" and "filed_accounts (vo_OutputAccounts out)"
  shows "keeps_output c c'"
proof -
  obtain right where right: "vo_OutputAccounts right = vo_OutputAccounts out"
    and rest: "Option.bind (add_to_accounts (vo_OutputAccounts (oc_outputState c)) (vo_OutputAccounts right))
      (\<lambda>(l, r). Some (right\<lparr>vo_OutputAccounts := r\<rparr>, c\<lparr>oc_outputState :=
        mergeVMOutputs ((oc_outputState c)\<lparr>vo_OutputAccounts := l\<rparr>) (right\<lparr>vo_OutputAccounts := r\<rparr>)\<rparr>))
      = Some (out', c')"
  proof (cases "vo_GasRefund out")
    case None
    then show thesis using assms(1) that [of out] by (simp add: AddToActiveState_def Let_def)
  next
    case (Some g)
    then obtain g' where "vo_GasRefund (oc_outputState c) = Some g'"
      using assms(1) by (auto simp: AddToActiveState_def bind_eq_Some_conv)
    then show thesis
      using Some assms(1) that [of "out\<lparr>vo_GasRefund := Some (g + g')\<rparr>"] by (simp add: AddToActiveState_def Let_def)
  qed
  obtain l r where add: "add_to_accounts (vo_OutputAccounts (oc_outputState c)) (vo_OutputAccounts right) = Some (l, r)"
    and c': "c' = c\<lparr>oc_outputState := mergeVMOutputs ((oc_outputState c)\<lparr>vo_OutputAccounts := l\<rparr>)
      (right\<lparr>vo_OutputAccounts := r\<rparr>)\<rparr>"
    using rest by (auto simp: bind_eq_Some_conv)
  have "wf_accounts (merge_accounts l r)" if "wf_accounts (vo_OutputAccounts (oc_outputState c))"
    using add_to_accounts_wf [OF add that] assms(2) right wf_merge_filed by auto
  then show ?thesis
    unfolding c' keeps_output_def wf_output_def wf_vmOutput_def mergeVMOutputs_def
    by (cases "vo_GasRefund right") simp_all
qed

lemma filed_addOutputTransfer:
  "filed_accounts (vo_OutputAccounts out) \<Longrightarrow>
   filed_accounts (vo_OutputAccounts (addOutputTransferToVMOutput f args sender recipient ct out))"
  unfolding addOutputTransferToVMOutput_def Let_def
  by (auto intro!: filed_put dest: filed_get simp: zeroOutputAccount_def split: option.split)

lemma filed_addESDTTransfer:
  "filed_accounts (vo_OutputAccounts out) \<Longrightarrow>
   filed_accounts (vo_OutputAccounts (addESDTTransferToVMOutputSCIntraShardCall E input out h))"
  unfolding addESDTTransferToVMOutputSCIntraShardCall_def Let_def by (simp add: filed_addOutputTransfer)

context lawful_env
begin

lemma ProcessBuiltInFunction_filed:
  "ProcessBuiltInFunction E input h = (Inr out, h') \<Longrightarrow> filed_accounts (vo_OutputAccounts out)"
  by (auto simp: ProcessBuiltInFunction_def Let_def split: prod.splits intro: builtin_filed)

lemma callBuiltinFunction_filed:
  assumes "callBuiltinFunction E input h = Some (Inr (post, out), h')"
  shows "filed_accounts (vo_OutputAccounts out)"
proof -
  obtain o1 h1 where pb: "ProcessBuiltInFunction E input h = (Inr o1, h1)"
    using assms by (auto simp: callBuiltinFunction_def Let_def bind_eq_Some_conv split: prod.splits sum.splits)
  note filed = ProcessBuiltInFunction_filed [OF pb]
  have "filed_accounts (vo_OutputAccounts (if b then o1\<lparr>vo_OutputAccounts :=
      map_vals (\<lambda>outAcc. outAcc\<lparr>oa_OutputTransfers := []\<rparr>) (vo_OutputAccounts o1)\<rparr> else o1))" for b
    using filed by (auto intro!: filed_map_vals)
  moreover obtain nv h2 where "out = addESDTTransferToVMOutputSCIntraShardCall E input
      (if nv \<noteq> (None :: ContractCallInput option) then o1\<lparr>vo_OutputAccounts :=
        map_vals (\<lambda>outAcc. outAcc\<lparr>oa_OutputTransfers := []\<rparr>) (vo_OutputAccounts o1)\<rparr> else o1) h2"
    using assms pb
    by (auto simp: callBuiltinFunction_def Let_def bind_eq_Some_conv split_sum_ex)
  ultimately show ?thesis by (simp only: filed_addESDTTransfer)
qed

lemma callBuiltinFunction_kept:
  "keeps h h' \<Longrightarrow> kept h (callBuiltinFunction E input h')"
  unfolding callBuiltinFunction_def ProcessBuiltInFunction_def TrackGasUsedByBuiltinFunction_def Let_def
    case_prod_beta
  by (auto intro!: keeps_intros split: sum.split)

lemma handleBuiltinFunctionCall_kept:
  assumes "keeps h h'"
  shows "kept h (handleBuiltinFunctionCall E input h')"
  unfolding kept_def
proof (intro allI impI)
  fix r h2
  assume *: "handleBuiltinFunctionCall E input h' = Some (r, h2)"
  then obtain r1 h1 where call: "callBuiltinFunction E input h' = Some (r1, h1)"
    by (auto simp: handleBuiltinFunctionCall_def bind_eq_Some_conv)
  then have h1: "keeps h h1" using callBuiltinFunction_kept [OF assms, of input] by (simp add: kept_def)
  show "keeps h h2"
  proof (cases r1)
    case (Inl e)
    then show ?thesis using * call h1 by (simp add: handleBuiltinFunctionCall_def)
  next
    case (Inr p)
    then obtain post out where r1: "r1 = Inr (post, out)" by (cases p) simp
    then obtain out' c where add: "AddToActiveState out (host_output h1) = Some (out', c)"
      and h2: "h2 = h1\<lparr>host_output := c\<rparr>"
      using * call by (auto simp: handleBuiltinFunctionCall_def bind_eq_Some_conv)
    show ?thesis
      unfolding h2 using h1 AddToActiveState_keeps [OF add callBuiltinFunction_filed] call r1
      by (auto intro: keeps_output_update)
  qed
qed

end

section \<open>Entering and leaving\<close>

lemma enterDestContext_spec:
  assumes "enterDestContext E input h = (input', h1)"
  shows "bi_stateStack (host_bigInt h1) = bi_stateStack (bigInt_PushState (host_bigInt h))"
    and "oc_stateStack (host_output h1) = oc_stateStack (output_PushState (host_output h))"
    and "mc_stateStack (host_metering h1) = mc_stateStack (metering_PushState (host_metering h))"
    and "rc_stateStack (host_runtime h1) = rc_stateStack (runtime_PushState (host_runtime h))"
    and "rc_instanceStack (host_runtime h1) = rc_instanceStack (host_runtime h) @ [rc_instance (host_runtime h)]"
    and "rc_maxWasmerInstances (host_runtime h1) = rc_maxWasmerInstances (host_runtime h)"
    and "sc_stateStack (host_storage h1) = sc_stateStack (host_storage h) @ [sc_address (host_storage h)]"
    and "bc_stateStack (host_blockchain h1) = bc_stateStack (host_blockchain h)"
    and "host_world h1 = host_world h"
    and "wf_bigInt (host_bigInt h) \<Longrightarrow> wf_bigInt (host_bigInt h1)"
    and "wf_output (host_output h) \<Longrightarrow> wf_output (host_output h1)"
    and "wf_metering (host_metering h) \<Longrightarrow> wf_metering (host_metering h1)"
    and "wf_runtime (host_runtime h) \<Longrightarrow> wf_runtime (host_runtime h1)"
proof -
  let ?in = "copyTxHashesFromContext (IsESDTFunctionsEnabled E) (host_runtime h) input"
  obtain v m where m: "metering_InitStateFromContractCallInput (ci_VMInput ?in)
      (metering_PushState (host_metering h)) = (v, m)" by (metis prod.collapse)
  have m_fields: "mc_gasUsedByAccounts m = []"
    and stack_m: "mc_stateStack m = mc_stateStack (metering_PushState (host_metering h))"
    using m by (auto simp: metering_InitStateFromContractCallInput_def unlockGasIfAsyncCallback_def Let_def
        metering_InitState_def split: if_splits)
  have wf_m: "wf_metering m" if "wf_metering (host_metering h)"
    using wf_metering_stack_ops(2) [OF that] m_fields stack_m by (simp add: wf_metering_def)
  note h1 = assms [unfolded enterDestContext_def Let_def]
  show "bi_stateStack (host_bigInt h1) = bi_stateStack (bigInt_PushState (host_bigInt h))"
    "oc_stateStack (host_output h1) = oc_stateStack (output_PushState (host_output h))"
    "mc_stateStack (host_metering h1) = mc_stateStack (metering_PushState (host_metering h))"
    "rc_stateStack (host_runtime h1) = rc_stateStack (runtime_PushState (host_runtime h))"
    "rc_instanceStack (host_runtime h1) = rc_instanceStack (host_runtime h) @ [rc_instance (host_runtime h)]"
    "rc_maxWasmerInstances (host_runtime h1) = rc_maxWasmerInstances (host_runtime h)"
    "sc_stateStack (host_storage h1) = sc_stateStack (host_storage h) @ [sc_address (host_storage h)]"
    "bc_stateStack (host_blockchain h1) = bc_stateStack (host_blockchain h)"
    "host_world h1 = host_world h"
    using h1 m stack_m
    by (auto simp: bigInt_InitState_def CensorVMOutput_def runtime_InitStateFromContractCallInput_def
        SetVMInput_def SetAddress_def storage_PushState_def runtime_PushState_def pushInstance_def Let_def)
  show "wf_bigInt (host_bigInt h) \<Longrightarrow> wf_bigInt (host_bigInt h1)"
    "wf_output (host_output h) \<Longrightarrow> wf_output (host_output h1)"
    "wf_metering (host_metering h) \<Longrightarrow> wf_metering (host_metering h1)"
    "wf_runtime (host_runtime h) \<Longrightarrow> wf_runtime (host_runtime h1)"
    using h1 m wf_m by (auto simp: wf_intros)
qed

lemma RestoreGas_frame:
  assumes "RestoreGas g h = Some h'"
  shows "\<exists>x. h' = set_points x h"
  using assms set_points_id [of h] by (auto simp: RestoreGas_eq split: if_splits intro: exI [of _ "GetPointsUsed (host_runtime h)"])

lemma set_points_runtime [simp]:
  "runtime_active (host_runtime (set_points x h)) = runtime_active (host_runtime h)"
  "rc_maxWasmerInstances (host_runtime (set_points x h)) = rc_maxWasmerInstances (host_runtime h)"
  "wf_runtime (host_runtime (set_points x h)) = wf_runtime (host_runtime h)"
  "wf_host (set_points x h) = wf_host h"
  by (simp_all add: set_points_def runtime_active_def wf_runtime_def wf_host_def)

lemma runtime_Pop_frame:
  "rc_instanceStack (runtime_PopSetActiveState c) =
     (if rc_stateStack c = [] then rc_instanceStack c else butlast (rc_instanceStack c))"
  "rc_maxWasmerInstances (runtime_PopSetActiveState c) = rc_maxWasmerInstances c"
  "rc_stateStack c \<noteq> [] \<Longrightarrow> rc_instanceStack c \<noteq> [] \<Longrightarrow>
     rc_instance (runtime_PopSetActiveState c) = last (rc_instanceStack c)"
proof -
  show "rc_instanceStack (runtime_PopSetActiveState c) =
     (if rc_stateStack c = [] then rc_instanceStack c else butlast (rc_instanceStack c))"
    by (simp add: runtime_PopSetActiveState_def Let_def SetVMInput_def)
  have max: "rc_maxWasmerInstances (CleanWasmerInstance c) = rc_maxWasmerInstances c" for c
    by (simp add: CleanWasmerInstance_def instance_Clean_def split: option.split)
  show "rc_maxWasmerInstances (runtime_PopSetActiveState c) = rc_maxWasmerInstances c"
    by (simp add: runtime_PopSetActiveState_def Let_def SetVMInput_def popInstance_def max)
  show "rc_instance (runtime_PopSetActiveState c) = last (rc_instanceStack c)"
    if "rc_stateStack c \<noteq> []" "rc_instanceStack c \<noteq> []"
    using that by (simp add: runtime_PopSetActiveState_def Let_def SetVMInput_def popInstance_def)
qed

text \<open>
  Leaving a nested call in two steps: the output is computed, then the states are popped; the
  remaining gas only changes the points of the restored instance.
\<close>

definition leave_dest :: "bool \<Rightarrow> 'w vmHost \<Rightarrow> 'w vmHost" where
  "leave_dest ok h = h\<lparr>host_bigInt := bigInt_PopSetActiveState (host_bigInt h),
     host_storage := storage_PopSetActiveState (host_storage h),
     host_metering := (if ok then metering_PopMergeActiveState else metering_PopSetActiveState) (host_metering h),
     host_output := (if ok then output_PopMergeActiveState else output_PopSetActiveState) (host_output h),
     host_runtime := runtime_PopSetActiveState (host_runtime h)\<rparr>"

lemma finishExecuteOnDestContext_eq:
  "finishExecuteOnDestContext E err h =
     Option.bind (case err of Some e \<Rightarrow> CreateVMOutputInCaseOfError E e h | None \<Rightarrow> GetVMOutput E h)
       (\<lambda>(out, h2). Option.bind (RestoreGas (vo_GasRemaining out) (leave_dest (vo_ReturnCode out = Ok) h2))
          (\<lambda>h'. Some (out, h')))"
  unfolding finishExecuteOnDestContext_def Let_def leave_dest_def
  by (intro Option.bind_cong refl) (simp add: case_prod_beta)

lemma finishExecuteOnDestContext_leave:
  assumes "finishExecuteOnDestContext E err h = Some (out, h')"
  obtains x h2 where "keeps h h2" and "h' = set_points x (leave_dest (vo_ReturnCode out = Ok) h2)"
    and "err \<noteq> None \<Longrightarrow> vo_ReturnCode out \<noteq> Ok"
proof -
  obtain h2 where r: "(case err of Some e \<Rightarrow> CreateVMOutputInCaseOfError E e h | None \<Rightarrow> GetVMOutput E h)
      = Some (out, h2)"
    and "RestoreGas (vo_GasRemaining out) (leave_dest (vo_ReturnCode out = Ok) h2) = Some h'"
    using assms
    by (auto simp: finishExecuteOnDestContext_eq bind_eq_Some_conv)
  then obtain x where x: "h' = set_points x (leave_dest (vo_ReturnCode out = Ok) h2)"
    using RestoreGas_frame by blast
  have k: "keeps h h2"
  proof -
    have "kept h (case err of Some e \<Rightarrow> CreateVMOutputInCaseOfError E e h | None \<Rightarrow> GetVMOutput E h)"
      by (auto intro!: keeps_intros split: option.split)
    then show ?thesis using r by (simp add: kept_def)
  qed
  have "vo_ReturnCode out \<noteq> Ok" if "err \<noteq> None"
    using r that resolveReturnCodeFromError_not_Ok
    by (auto simp: CreateVMOutputInCaseOfError_def bind_eq_Some_conv Let_def)
  with x k show thesis using that by blast
qed

text \<open>What a pop of all contexts restores after something that kept the pushed stacks.\<close>

definition returned :: "'w vmHost \<Rightarrow> 'w vmHost \<Rightarrow> bool" where
  "returned h h' \<longleftrightarrow> bi_values (host_bigInt h') = bi_values (host_bigInt h)
     \<and> sc_address (host_storage h') = sc_address (host_storage h)
     \<and> runtime_active (host_runtime h') = runtime_active (host_runtime h)
     \<and> rc_instance (host_runtime h') = rc_instance (host_runtime h)"

definition rolled_back :: "'w vmHost \<Rightarrow> 'w vmHost \<Rightarrow> bool" where
  "rolled_back h h' \<longleftrightarrow> returned h h'
     \<and> oc_outputState (host_output h') = oc_outputState (host_output h)
     \<and> metering_active (host_metering h') = metering_active (host_metering h)"

lemma pop_stacks:
  "bi_stateStack (bigInt_PopSetActiveState b) = butlast (bi_stateStack b)"
  "sc_stateStack (storage_PopSetActiveState c) = butlast (sc_stateStack c)"
  "oc_stateStack (output_PopSetActiveState oc) = butlast (oc_stateStack oc)"
  "oc_stateStack (output_PopMergeActiveState oc) = butlast (oc_stateStack oc)"
  "mc_stateStack (metering_PopSetActiveState m) = butlast (mc_stateStack m)"
  "mc_stateStack (metering_PopMergeActiveState m) = butlast (mc_stateStack m)"
  "rc_stateStack (runtime_PopSetActiveState r) = butlast (rc_stateStack r)"
  by (simp_all add: bigInt_PopSetActiveState_def storage_PopSetActiveState_def output_PopSetActiveState_def
      output_PopMergeActiveState_def metering_PopSetActiveState_def metering_PopMergeActiveState_def
      addToGasUsedByAccounts_def runtime_PopSetActiveState_def SetVMInput_def Let_def)

lemma pop_push_stacks:
  "butlast (bi_stateStack (bigInt_PushState b)) = bi_stateStack b"
  "butlast (oc_stateStack (output_PushState oc)) = oc_stateStack oc"
  "butlast (mc_stateStack (metering_PushState m)) = mc_stateStack m"
  "butlast (rc_stateStack (runtime_PushState r)) = rc_stateStack r"
  "rc_stateStack (runtime_PushState r) \<noteq> []"
  by (simp_all add: bigInt_PushState_def output_PushState_def metering_PushState_def
      runtime_PushState_def Let_def)

lemma leave_dest_spec:
  assumes enter: "enterDestContext E input h = (input', h1)" and k: "keeps h1 h2"
    and h': "h' = set_points x (leave_dest ok h2)"
  shows "keeps h h'" and "wf_host h \<Longrightarrow> returned h h'" and "wf_host h \<Longrightarrow> \<not> ok \<Longrightarrow> rolled_back h h'"
proof -
  note e = enterDestContext_spec [OF enter]
  have k_stacks: "bi_stateStack (host_bigInt h2) = bi_stateStack (host_bigInt h1)"
    "oc_stateStack (host_output h2) = oc_stateStack (host_output h1)"
    "mc_stateStack (host_metering h2) = mc_stateStack (host_metering h1)"
    "rc_stateStack (host_runtime h2) = rc_stateStack (host_runtime h1)"
    "rc_instanceStack (host_runtime h2) = rc_instanceStack (host_runtime h1)"
    "rc_maxWasmerInstances (host_runtime h2) = rc_maxWasmerInstances (host_runtime h1)"
    "sc_stateStack (host_storage h2) = sc_stateStack (host_storage h1)"
    "bc_stateStack (host_blockchain h2) = bc_stateStack (host_blockchain h1)"
    using k by (simp_all add: keeps_def keeps_defs)
  have wf2: "wf_bigInt (host_bigInt h) \<Longrightarrow> wf_bigInt (host_bigInt h2)"
    "wf_output (host_output h) \<Longrightarrow> wf_output (host_output h2)"
    "wf_metering (host_metering h) \<Longrightarrow> wf_metering (host_metering h2)"
    "wf_runtime (host_runtime h) \<Longrightarrow> wf_runtime (host_runtime h2)"
    using e(10-13) k by (simp_all add: keeps_def keeps_defs)
  show keeps: "keeps h h'"
    using e(1-8) k_stacks
    by (simp add: keeps_def keeps_defs h' leave_dest_def pop_stacks pop_push_stacks runtime_Pop_frame)
      (simp add: wf2 wf_intros)
  assume wf: "wf_host h"
  have w: "wf_bigInt (host_bigInt h2)" "wf_output (host_output h2)" "wf_metering (host_metering h2)"
    "wf_runtime (host_runtime h2)" "wf_bigInt (host_bigInt h)" "wf_output (host_output h)"
    "wf_metering (host_metering h)" "wf_runtime (host_runtime h)"
    using wf wf2 by (simp_all add: wf_host_def)
  show ret: "returned h h'"
    using w e(1-7) k_stacks bigInt_stack.active_pop_set [of "host_bigInt h2"]
      runtime_stack.active_pop_set [of "host_runtime h2"] storage_stack.active_pop_set [of "host_storage h2"]
    by (simp add: returned_def h' leave_dest_def runtime_Pop_frame bigInt_stack.stack_push
        runtime_stack.stack_push)
  assume "\<not> ok"
  then show "rolled_back h h'"
    using ret w e(1-7) k_stacks output_stack.active_pop_set [of "host_output h2"]
      metering_stack.active_pop_set [of "host_metering h2"]
    by (simp add: rolled_back_def h' leave_dest_def output_stack.stack_push metering_stack.stack_push)
qed

lemma blockchain_scope:
  assumes "keeps (blockchain_PushState E h) h2"
  shows "keeps h (blockchain_PopSetActiveState E h2)" "keeps h (blockchain_PopDiscard h2)"
    "host_world (blockchain_PopSetActiveState E h2) =
       snd (hook_RevertToSnapshot (env_hook E) (host_world h2) (hook_GetSnapshot (env_hook E) (host_world h)))"
  using assms
  by (simp_all add: keeps_def keeps_others_def blockchain_PushState_def blockchain_PopSetActiveState_def
      blockchain_PopDiscard_def Let_def case_prod_beta)

lemma blockchain_frame [simp]:
  "host_bigInt (blockchain_PopSetActiveState E h) = host_bigInt h"
  "host_output (blockchain_PopSetActiveState E h) = host_output h"
  "host_metering (blockchain_PopSetActiveState E h) = host_metering h"
  "host_runtime (blockchain_PopSetActiveState E h) = host_runtime h"
  "host_storage (blockchain_PopSetActiveState E h) = host_storage h"
  "host_bigInt (blockchain_PushState E h) = host_bigInt h"
  "host_output (blockchain_PushState E h) = host_output h"
  "host_metering (blockchain_PushState E h) = host_metering h"
  "host_runtime (blockchain_PushState E h) = host_runtime h"
  "host_storage (blockchain_PushState E h) = host_storage h"
  "host_bigInt (blockchain_PopDiscard h) = host_bigInt h"
  "host_output (blockchain_PopDiscard h) = host_output h"
  "host_metering (blockchain_PopDiscard h) = host_metering h"
  "host_runtime (blockchain_PopDiscard h) = host_runtime h"
  "host_storage (blockchain_PopDiscard h) = host_storage h"
  "wf_host (blockchain_PushState E h) = wf_host h"
  by (simp_all add: blockchain_PushState_def blockchain_PopSetActiveState_def blockchain_PopDiscard_def
      Let_def case_prod_beta wf_host_def)

lemma returned_blockchain [simp]:
  "returned (blockchain_PushState E h) h2 = returned h h2"
  "returned h (blockchain_PopSetActiveState E h2) = returned h h2"
  "returned h (blockchain_PopDiscard h2) = returned h h2"
  "rolled_back (blockchain_PushState E h) h2 = rolled_back h h2"
  "rolled_back h (blockchain_PopSetActiveState E h2) = rolled_back h h2"
  by (simp_all add: returned_def rolled_back_def)

section \<open>Execution on the destination context\<close>

lemma body_cases:
  assumes "ExecuteOnDestContext_body E onDest input h = Some (res, h')"
  obtains (builtin_error) err h1 vmOutput where
      "builtinStep E input (blockchain_PushState E h) = Some (Inl err, h1)"
      "CreateVMOutputInCaseOfError E err (upd_runtime (AddError E (Some err) (Some [ci_Function input]))
         (blockchain_PopSetActiveState E h1)) = Some (vmOutput, h')" "res = (Some vmOutput, None, Some err)"
    | (builtin_only) vmOutput h1 where
      "builtinStep E input (blockchain_PushState E h) = Some (Inr (None, vmOutput), h1)"
      "h' = blockchain_PopDiscard h1" "res = (vmOutput, None, None)"
    | (contract) scInput vmOutput h1 out info err h2 where
      "builtinStep E input (blockchain_PushState E h) = Some (Inr (Some scInput, vmOutput), h1)"
      "executeOnDestContextNoBuiltinFunction E onDest scInput h1 = Some ((out, info, err), h2)"
      "h' = (if err \<noteq> None then blockchain_PopSetActiveState E h2 else blockchain_PopDiscard h2)"
      "res = (out, info, err)"
proof -
  obtain r h1 where step: "builtinStep E input (blockchain_PushState E h) = Some (r, h1)"
    using assms by (fastforce simp: ExecuteOnDestContext_body_def bind_eq_Some_conv Let_def)
  note run = assms [unfolded ExecuteOnDestContext_body_def Let_def step]
  show thesis
  proof (cases r)
    case (Inl err)
    then show thesis using run step builtin_error by (auto simp: bind_eq_Some_conv)
  next
    case (Inr p)
    then obtain sc vm where r: "r = Inr (sc, vm)" by (cases p) simp
    show thesis
    proof (cases sc)
      case None
      then show thesis using run step r builtin_only by auto
    next
      case (Some scInput)
      then show thesis using run step r contract by (auto simp: bind_eq_Some_conv)
    qed
  qed
qed

context nested_call
begin

lemma runOnDestContext_kept [keeps_intros]:
  "keeps h h' \<Longrightarrow> kept h (runOnDestContext E onDest input h')"
  unfolding runOnDestContext_def Let_def case_prod_beta by (auto intro!: keeps_intros)

lemma NoBuiltin_spec:
  assumes run: "executeOnDestContextNoBuiltinFunction E onDest input h = Some ((out, info, err), h')"
  shows "keeps h h'" and "wf_host h \<Longrightarrow> returned h h'"
    and "wf_host h \<Longrightarrow> err \<noteq> None \<Longrightarrow> rolled_back h h'"
proof -
  obtain input' h1 where enter: "enterDestContext E input h = (input', h1)" by fastforce
  obtain err0 h2 vmOutput where r: "runOnDestContext E onDest input' h1 = Some ((info, err0), h2)"
    and f: "finishExecuteOnDestContext E err0 h2 = Some (vmOutput, h')"
    and err: "err = (if err0 = None \<and> vo_ReturnCode vmOutput \<noteq> Ok then Some (Sentinel ErrExecutionFailed) else err0)"
    using run enter by (auto simp: executeOnDestContextNoBuiltinFunction_def bind_eq_Some_conv Let_def)
  have k: "keeps h1 h2" using runOnDestContext_kept [OF keeps_refls(4)] r by (simp add: kept_def)
  obtain x h3 where h3: "keeps h2 h3" "h' = set_points x (leave_dest (vo_ReturnCode vmOutput = Ok) h3)"
    and ok: "err0 \<noteq> None \<Longrightarrow> vo_ReturnCode vmOutput \<noteq> Ok"
    by (rule finishExecuteOnDestContext_leave [OF f]) blast
  note spec = leave_dest_spec [OF enter keeps_trans [OF k h3(1)] h3(2)]
  show "keeps h h'" and "wf_host h \<Longrightarrow> returned h h'" by (rule spec)+
  show "rolled_back h h'" if "wf_host h" "err \<noteq> None"
    using spec(3) that ok err by (auto split: if_splits)
qed

lemma NoBuiltin_kept:
  assumes "keeps h h'"
  shows "kept h (executeOnDestContextNoBuiltinFunction E onDest input h')"
  unfolding kept_def
proof (intro allI impI)
  fix r h2
  assume "executeOnDestContextNoBuiltinFunction E onDest input h' = Some (r, h2)"
  then have "keeps h' h2" using NoBuiltin_spec(1) [of input h' "fst r" "fst (snd r)" "snd (snd r)" h2] by simp
  then show "keeps h h2" using keeps_trans [OF assms] by blast
qed

lemma builtinStep_kept: "keeps h h' \<Longrightarrow> kept h (builtinStep E input h')"
  unfolding builtinStep_def by (auto intro!: kept_bind(1) handleBuiltinFunctionCall_kept)

lemma body_kept: "kept h (ExecuteOnDestContext_body E onDest input h)"
  unfolding kept_def
proof (intro allI impI)
  fix res h'
  assume run: "ExecuteOnDestContext_body E onDest input h = Some (res, h')"
  have step: "keeps (blockchain_PushState E h) h1"
    if "builtinStep E input (blockchain_PushState E h) = Some (r, h1)" for r h1
    using builtinStep_kept [OF keeps_refls(4)] that by (simp add: kept_def)
  show "keeps h h'"
    using run
  proof (cases rule: body_cases)
    case (builtin_error err h1 vmOutput)
    have "keeps h (upd_runtime (AddError E (Some err) (Some [ci_Function input]))
         (blockchain_PopSetActiveState E h1))"
      using blockchain_scope(1) [OF step [OF builtin_error(1)]] by (auto intro!: keeps_intros)
    from kept_CreateVMOutputInCaseOfError [OF this] builtin_error(2) show ?thesis by (simp add: kept_def)
  next
    case (builtin_only vmOutput h1)
    then show ?thesis using blockchain_scope(2) [OF step] by simp
  next
    case (contract scInput vmOutput h1 out info err h2)
    have "keeps (blockchain_PushState E h) h2"
      using NoBuiltin_kept [OF step [OF contract(1)]] contract(2) by (simp add: kept_def)
    then show ?thesis using blockchain_scope contract(3) by auto
  qed
qed

end

text \<open>Every fuel gives a lawful nested call, so the locale holds of the model's own recursion.\<close>

lemma nested_ExecuteOnDestContext:
  assumes "lawful_env E"
  shows "nested_call E (ExecuteOnDestContext n E)"
proof (induction n)
  case 0
  show ?case using assms by (auto simp: nested_call_def nested_call_axioms_def)
next
  case (Suc n)
  show ?case
    using assms nested_call.body_kept [OF Suc] by (simp add: nested_call_def nested_call_axioms_def)
qed

section \<open>Nested calls of the model\<close>

lemma finish_error_returns:
  assumes "plain_error e" and "rc_stateStack (host_runtime h) \<noteq> []"
    and "rc_instanceStack (host_runtime h) \<noteq> []" and "last (rc_instanceStack (host_runtime h)) \<noteq> None"
  shows "\<exists>out h'. finishExecuteOnDestContext E (Some e) h = Some (out, h')"
proof -
  obtain out h2 where out: "CreateVMOutputInCaseOfError E e h = Some (out, h2)"
    using CreateVMOutputInCaseOfError_plain [OF assms(1)] by blast
  have "keeps h h2"
    using keptD [OF kept_CreateVMOutputInCaseOfError [OF keeps_refls(4)] out] .
  then have "rc_stateStack (host_runtime h2) = rc_stateStack (host_runtime h)"
    "rc_instanceStack (host_runtime h2) = rc_instanceStack (host_runtime h)"
    by (simp_all add: keeps_def keeps_runtime_def)
  then have inst: "rc_instance (runtime_PopSetActiveState (host_runtime h2)) \<noteq> None"
    using assms runtime_Pop_frame(3) by metis
  then have "\<exists>h'. RestoreGas g (leave_dest b h2) = Some h'" for g b
    by (simp add: RestoreGas_eq has_instance_def leave_dest_def)
  then show ?thesis
    using out by (simp add: finishExecuteOnDestContext_eq) (metis Option.bind.bind_lunit)
qed

end
