(* ===== verification/SameContext.thy ===== *)
theory SameContext
  imports HostNesting
begin

text \<open>
  Executing on the same context and deploying from a contract: \<open>ExecuteOnSameContext\<close> pushes
  and pops the state of every context but the storage, and a call that fails is rolled back
  like one on the destination context.
\<close>

section \<open>Entering and leaving\<close>

lemma enterSameContext_spec:
  assumes "enterSameContext E input h = (input', h1)"
  shows "bi_stateStack (host_bigInt h1) = bi_stateStack (bigInt_PushState (host_bigInt h))"
    and "oc_stateStack (host_output h1) = oc_stateStack (output_PushState (host_output h))"
    and "mc_stateStack (host_metering h1) = mc_stateStack (metering_PushState (host_metering h))"
    and "rc_stateStack (host_runtime h1) = rc_stateStack (runtime_PushState (host_runtime h))"
    and "rc_instanceStack (host_runtime h1) = rc_instanceStack (host_runtime h) @ [rc_instance (host_runtime h)]"
    and "rc_maxWasmerInstances (host_runtime h1) = rc_maxWasmerInstances (host_runtime h)"
    and "host_storage h1 = host_storage h"
    and "bc_stateStack (host_blockchain h1) = bc_stateStack (host_blockchain h) @ [hook_GetSnapshot (env_hook E) (host_world h)]"
    and "host_world h1 = host_world h"
    and "wf_bigInt (host_bigInt h) \<Longrightarrow> wf_bigInt (host_bigInt h1)"
    and "wf_output (host_output h) \<Longrightarrow> wf_output (host_output h1)"
    and "wf_metering (host_metering h) \<Longrightarrow> wf_metering (host_metering h1)"
    and "wf_runtime (host_runtime h) \<Longrightarrow> wf_runtime (host_runtime h1)"
proof -
  let ?in = "copyTxHashesFromContext (IsESDTFunctionsEnabled E) (host_runtime h) input"
  obtain v m where m: "metering_InitStateFromContractCallInput (ci_VMInput ?in)
      (metering_PushState (host_metering h)) = (v, m)" by (metis prod.collapse)
  have m_fields: "mc_gasUsedByAccounts m = []"
    and stack_m: "mc_stateStack m = mc_stateStack (metering_PushState (host_metering h))"
    using m by (auto simp: metering_InitStateFromContractCallInput_def unlockGasIfAsyncCallback_def Let_def
        metering_InitState_def split: if_splits)
  have wf_m: "wf_metering m" if "wf_metering (host_metering h)"
    using wf_metering_stack_ops(2) [OF that] m_fields stack_m by (simp add: wf_metering_def)
  note h1 = assms [unfolded enterSameContext_def Let_def blockchain_PushState_def]
  show "bi_stateStack (host_bigInt h1) = bi_stateStack (bigInt_PushState (host_bigInt h))"
    "oc_stateStack (host_output h1) = oc_stateStack (output_PushState (host_output h))"
    "mc_stateStack (host_metering h1) = mc_stateStack (metering_PushState (host_metering h))"
    "rc_stateStack (host_runtime h1) = rc_stateStack (runtime_PushState (host_runtime h))"
    "rc_instanceStack (host_runtime h1) = rc_instanceStack (host_runtime h) @ [rc_instance (host_runtime h)]"
    "rc_maxWasmerInstances (host_runtime h1) = rc_maxWasmerInstances (host_runtime h)"
    "host_storage h1 = host_storage h"
    "bc_stateStack (host_blockchain h1) = bc_stateStack (host_blockchain h) @ [hook_GetSnapshot (env_hook E) (host_world h)]"
    "host_world h1 = host_world h"
    using h1 m stack_m
    by (auto simp: runtime_InitStateFromContractCallInput_def SetVMInput_def runtime_PushState_def
        pushInstance_def Let_def)
  show "wf_bigInt (host_bigInt h) \<Longrightarrow> wf_bigInt (host_bigInt h1)"
    "wf_output (host_output h) \<Longrightarrow> wf_output (host_output h1)"
    "wf_metering (host_metering h) \<Longrightarrow> wf_metering (host_metering h1)"
    "wf_runtime (host_runtime h) \<Longrightarrow> wf_runtime (host_runtime h1)"
    using h1 m wf_m by (auto simp: wf_intros)
qed

text \<open>Popping after something that kept the pushed stacks.\<close>

definition leave_same :: "'w vmEnv \<Rightarrow> bool \<Rightarrow> 'w vmHost \<Rightarrow> 'w vmHost" where
  "leave_same E ok h =
     (let h' = h\<lparr>host_bigInt := (if ok then bigInt_PopDiscard else bigInt_PopSetActiveState) (host_bigInt h),
           host_metering := (if ok then metering_PopMergeActiveState else metering_PopSetActiveState) (host_metering h),
           host_output := (if ok then output_PopDiscard else output_PopSetActiveState) (host_output h),
           host_runtime := runtime_PopSetActiveState (host_runtime h)\<rparr>
      in if ok then blockchain_PopDiscard h' else blockchain_PopSetActiveState E h')"

lemma finishExecuteOnSameContext_eq:
  "finishExecuteOnSameContext E err h =
     (if vo_ReturnCode (oc_outputState (host_output h)) \<noteq> Ok \<or> err \<noteq> None then Some (leave_same E False h)
      else Option.bind (GetVMOutput E h) (\<lambda>(out, h2). RestoreGas (vo_GasRemaining out) (leave_same E True h2)))"
proof -
  have "blockchain_PopSetActiveState E (upd_runtime runtime_PopSetActiveState (upd_output output_PopSetActiveState
      (upd_metering metering_PopSetActiveState (upd_bigInt bigInt_PopSetActiveState h)))) = leave_same E False h"
    by (simp add: leave_same_def Let_def)
  moreover have "upd_runtime runtime_PopSetActiveState (blockchain_PopDiscard (upd_bigInt bigInt_PopDiscard
      (upd_output output_PopDiscard (upd_metering metering_PopMergeActiveState h2)))) = leave_same E True h2" for h2
    by (rule vmHost.equality) (simp_all add: leave_same_def Let_def blockchain_PopDiscard_def)
  ultimately show ?thesis
    by (simp add: finishExecuteOnSameContext_def Let_def)
qed

lemma finishExecuteOnSameContext_leave:
  assumes "finishExecuteOnSameContext E err h = Some h'"
  obtains h2 ok where "keeps h h2" and "ok \<longleftrightarrow> vo_ReturnCode (oc_outputState (host_output h)) = Ok \<and> err = None"
    and "\<not> ok \<Longrightarrow> h2 = h \<and> h' = leave_same E False h"
    and "ok \<Longrightarrow> \<exists>x. h' = set_points x (leave_same E True h2)"
proof (cases "vo_ReturnCode (oc_outputState (host_output h)) \<noteq> Ok \<or> err \<noteq> None")
  case True
  then show thesis using assms that [of h False] by (auto simp: finishExecuteOnSameContext_eq)
next
  case False
  then obtain out h2 where g: "GetVMOutput E h = Some (out, h2)"
    and r: "RestoreGas (vo_GasRemaining out) (leave_same E True h2) = Some h'"
    using assms by (auto simp: finishExecuteOnSameContext_eq bind_eq_Some_conv)
  have "keeps h h2" using keptD [OF kept_GetVMOutput [OF keeps_refls(4)] g] .
  then show thesis using that [of h2 True] False RestoreGas_frame [OF r] by auto
qed

lemma pop_discard_stacks:
  "bi_stateStack (bigInt_PopDiscard b) = butlast (bi_stateStack b)"
  "oc_stateStack (output_PopDiscard oc) = butlast (oc_stateStack oc)"
  by (simp_all add: bigInt_PopDiscard_def output_PopDiscard_def)

lemma blockchain_pop_stack [simp]:
  "bc_stateStack (host_blockchain (blockchain_PopSetActiveState E h)) = butlast (bc_stateStack (host_blockchain h))"
  "bc_stateStack (host_blockchain (blockchain_PopDiscard h)) = butlast (bc_stateStack (host_blockchain h))"
  by (simp_all add: blockchain_PopSetActiveState_def blockchain_PopDiscard_def Let_def case_prod_beta)

lemma leave_same_spec:
  assumes enter: "enterSameContext E input h = (input', h1)" and k: "keeps h1 h2"
  shows "keeps h (leave_same E ok h2)"
    and "wf_host h \<Longrightarrow> runtime_active (host_runtime (leave_same E ok h2)) = runtime_active (host_runtime h)"
    and "wf_host h \<Longrightarrow> \<not> ok \<Longrightarrow> bi_values (host_bigInt (leave_same E ok h2)) = bi_values (host_bigInt h)
      \<and> oc_outputState (host_output (leave_same E ok h2)) = oc_outputState (host_output h)
      \<and> metering_active (host_metering (leave_same E ok h2)) = metering_active (host_metering h)"
proof -
  note e = enterSameContext_spec [OF enter]
  have k_stacks: "bi_stateStack (host_bigInt h2) = bi_stateStack (host_bigInt h1)"
    "oc_stateStack (host_output h2) = oc_stateStack (host_output h1)"
    "mc_stateStack (host_metering h2) = mc_stateStack (host_metering h1)"
    "rc_stateStack (host_runtime h2) = rc_stateStack (host_runtime h1)"
    "rc_instanceStack (host_runtime h2) = rc_instanceStack (host_runtime h1)"
    "rc_maxWasmerInstances (host_runtime h2) = rc_maxWasmerInstances (host_runtime h1)"
    "sc_stateStack (host_storage h2) = sc_stateStack (host_storage h1)"
    "bc_stateStack (host_blockchain h2) = bc_stateStack (host_blockchain h1)"
    using k by (simp_all add: keeps_def keeps_defs)
  have wf2: "wf_bigInt (host_bigInt h) \<Longrightarrow> wf_bigInt (host_bigInt h2)"
    "wf_output (host_output h) \<Longrightarrow> wf_output (host_output h2)"
    "wf_metering (host_metering h) \<Longrightarrow> wf_metering (host_metering h2)"
    "wf_runtime (host_runtime h) \<Longrightarrow> wf_runtime (host_runtime h2)"
    using e(10-13) k by (simp_all add: keeps_def keeps_defs)
  show "keeps h (leave_same E ok h2)"
    using e(1-8) k_stacks
    by (simp add: keeps_def keeps_defs leave_same_def Let_def pop_stacks pop_discard_stacks pop_push_stacks
        runtime_Pop_frame)
      (simp add: wf2 wf_intros)
  assume wf: "wf_host h"
  have w: "wf_bigInt (host_bigInt h2)" "wf_output (host_output h2)" "wf_metering (host_metering h2)"
    "wf_runtime (host_runtime h2)" "wf_bigInt (host_bigInt h)" "wf_output (host_output h)"
    "wf_metering (host_metering h)" "wf_runtime (host_runtime h)"
    using wf wf2 by (simp_all add: wf_host_def)
  show "runtime_active (host_runtime (leave_same E ok h2)) = runtime_active (host_runtime h)"
    using w e(4) k_stacks(4) runtime_stack.active_pop_set [of "host_runtime h2"]
    by (simp add: leave_same_def Let_def runtime_stack.stack_push)
  assume "\<not> ok"
  then show "bi_values (host_bigInt (leave_same E ok h2)) = bi_values (host_bigInt h)
      \<and> oc_outputState (host_output (leave_same E ok h2)) = oc_outputState (host_output h)
      \<and> metering_active (host_metering (leave_same E ok h2)) = metering_active (host_metering h)"
    using w e(1-3) k_stacks(1-3) bigInt_stack.active_pop_set [of "host_bigInt h2"]
      output_stack.active_pop_set [of "host_output h2"] metering_stack.active_pop_set [of "host_metering h2"]
    by (simp add: leave_same_def Let_def bigInt_stack.stack_push output_stack.stack_push metering_stack.stack_push)
qed

lemma keeps_set_points: "keeps h h' \<Longrightarrow> keeps h (set_points x h')"
  by (simp add: keeps_def keeps_defs)

section \<open>Execution on the same context\<close>

context nested_call
begin

lemma SameContext_spec:
  assumes run: "ExecuteOnSameContext E onDest input h = Some ((info, err), h')"
  shows "keeps h h'" and "wf_host h \<Longrightarrow> runtime_active (host_runtime h') = runtime_active (host_runtime h)"
    and "wf_host h \<Longrightarrow> err \<noteq> None \<Longrightarrow> oc_outputState (host_output h') = oc_outputState (host_output h)
      \<and> metering_active (host_metering h') = metering_active (host_metering h)
      \<and> bi_values (host_bigInt h') = bi_values (host_bigInt h)"
proof -
  have "keeps h h' \<and> (wf_host h \<longrightarrow> runtime_active (host_runtime h') = runtime_active (host_runtime h)
      \<and> (err \<noteq> None \<longrightarrow> oc_outputState (host_output h') = oc_outputState (host_output h)
        \<and> metering_active (host_metering h') = metering_active (host_metering h)
        \<and> bi_values (host_bigInt h') = bi_values (host_bigInt h)))"
  proof (cases "IsBuiltinFunctionName E (ci_Function input)")
    case True
    then show ?thesis using run by (simp add: ExecuteOnSameContext_def)
  next
    case False
    obtain input' h1 where enter: "enterSameContext E input h = (input', h1)" by fastforce
    obtain callValue err1 hA h2 where
      transfer: "TransferValueOnly E (ci_RecipientAddr input') (vi_CallerAddr (ci_VMInput input')) callValue False h1
        = Some (err1, hA)"
      and exec: "(if err1 \<noteq> None then Some (err1, hA) else execute E onDest input' hA) = Some (err, h2)"
      and fin: "finishExecuteOnSameContext E err (upd_runtime (AddError E err (Some [ci_Function input'])) h2) = Some h'"
      using run False enter by (auto simp: ExecuteOnSameContext_def bind_eq_Some_conv Let_def)
    have "keeps h1 hA" using keptD [OF kept_TransferValueOnly [OF keeps_refls(4)] transfer] .
    then have "kept h1 (if err1 \<noteq> None then Some (err1, hA) else execute E onDest input' hA)"
      by (auto intro!: keeps_intros)
    then have "keeps h1 h2" using exec by (rule keptD)
    then have k: "keeps h1 (upd_runtime (AddError E err (Some [ci_Function input'])) h2)"
      by (auto intro!: keeps_intros)
    show ?thesis
    proof (rule finishExecuteOnSameContext_leave [OF fin])
      fix h3 ok
      assume k3: "keeps (upd_runtime (AddError E err (Some [ci_Function input'])) h2) h3"
        and ok: "ok \<longleftrightarrow> vo_ReturnCode (oc_outputState (host_output (upd_runtime (AddError E err (Some [ci_Function input'])) h2))) = Ok
          \<and> err = None"
        and bad: "\<not> ok \<Longrightarrow> h3 = upd_runtime (AddError E err (Some [ci_Function input'])) h2
          \<and> h' = leave_same E False (upd_runtime (AddError E err (Some [ci_Function input'])) h2)"
        and good: "ok \<Longrightarrow> \<exists>x. h' = set_points x (leave_same E True h3)"
      note spec = leave_same_spec [OF enter keeps_trans [OF k k3]]
      show ?thesis
        using spec [where ok = ok] ok bad good by (cases ok) (auto simp: keeps_set_points)
    qed
  qed
  then show "keeps h h'" and "wf_host h \<Longrightarrow> runtime_active (host_runtime h') = runtime_active (host_runtime h)"
    and "wf_host h \<Longrightarrow> err \<noteq> None \<Longrightarrow> oc_outputState (host_output h') = oc_outputState (host_output h)
      \<and> metering_active (host_metering h') = metering_active (host_metering h)
      \<and> bi_values (host_bigInt h') = bi_values (host_bigInt h)"
    by auto
qed

lemma ExecuteOnSameContext_kept [keeps_intros]:
  assumes "keeps h h'"
  shows "kept h (ExecuteOnSameContext E onDest input h')"
  unfolding kept_def
proof (intro allI impI)
  fix r h2
  assume "ExecuteOnSameContext E onDest input h' = Some (r, h2)"
  then have "keeps h' h2" using SameContext_spec(1) [of input h' "fst r" "snd r" h2] by simp
  then show "keeps h h2" using keeps_trans [OF assms] by blast
qed

lemma CreateNewContract_kept [keeps_intros]:
  "keeps h h' \<Longrightarrow> kept h (CreateNewContract E onDest input h')"
  unfolding CreateNewContract_def Let_def case_prod_beta
  by (auto intro!: keeps_intros split: option.split sum.split)

end

end
