(* ===== verification/VMHooks.thy ===== *)
theory VMHooks
  imports HostEntry Helpers
begin

text \<open>
  What the functions share that a contract imports (the packages \<open>vmhooks\<close> and \<open>cryptoapi\<close>):
  reading and writing the memory of the running instance, failing the execution with an error,
  and reading and writing big integers through their handles. A hook takes the environment, its
  arguments and the host, and returns its result and the new host, or \<open>None\<close> when it panics.
  The cgo registration of the hooks as imports of the engine is not modelled.
\<close>

type_synonym ('w, 'r) hook = "'w vmHost \<Rightarrow> ('r \<times> 'w vmHost) option"

section \<open>Costs\<close>

abbreviation baseCost :: "(BaseOperationCost \<Rightarrow> u64) \<Rightarrow> 'w vmHost \<Rightarrow> u64" where
  "baseCost f h \<equiv> f (gc_BaseOperationCost (mc_gasSchedule (host_metering h)))"
abbreviation baseOpsCost :: "(BaseOpsAPICost \<Rightarrow> u64) \<Rightarrow> 'w vmHost \<Rightarrow> u64" where
  "baseOpsCost f h \<equiv> f (gc_BaseOpsAPICost (mc_gasSchedule (host_metering h)))"
abbreviation bigIntCost :: "(BigIntAPICost \<Rightarrow> u64) \<Rightarrow> 'w vmHost \<Rightarrow> u64" where
  "bigIntCost f h \<equiv> f (gc_BigIntAPICost (mc_gasSchedule (host_metering h)))"
abbreviation cryptoCost :: "(CryptoAPICost \<Rightarrow> u64) \<Rightarrow> 'w vmHost \<Rightarrow> u64" where
  "cryptoCost f h \<equiv> f (gc_CryptoAPICost (mc_gasSchedule (host_metering h)))"

text \<open>The conversions \<open>int32(len(x))\<close> and \<open>uint64(n)\<close> of an \<open>int32\<close>, which extends its sign.\<close>

abbreviation len32 :: "'a list \<Rightarrow> i32" where
  "len32 xs \<equiv> of_nat (length xs)"
abbreviation len64 :: "'a list \<Rightarrow> u64" where
  "len64 xs \<equiv> of_nat (length xs)"
abbreviation u64_of_i32 :: "i32 \<Rightarrow> u64" where
  "u64_of_i32 n \<equiv> scast n"

text \<open>Indexing a slice, which panics out of range.\<close>

definition go_index :: "'a list \<Rightarrow> int \<Rightarrow> 'a option" where
  "go_index xs i = (if 0 \<le> i \<and> i < int (length xs) then Some (xs ! nat i) else None)"

section \<open>Failing\<close>

definition BaseOpsErrorShouldFailExecution :: bool where "BaseOpsErrorShouldFailExecution = True"
definition SyncExecAPIErrorShouldFailExecution :: bool where "SyncExecAPIErrorShouldFailExecution = True"
definition BigIntAPIErrorShouldFailExecution :: bool where "BigIntAPIErrorShouldFailExecution = True"
definition CryptoAPIErrorShouldFailExecution :: bool where "CryptoAPIErrorShouldFailExecution = True"

text \<open>
  \<open>fault\<close> is \<open>WithFault(err, ...)\<close> followed by a return. The code calls \<open>WithFault\<close> with the
  error of an operation and returns if there was one: \<open>or_fault\<close> after an operation with a
  result, \<open>no_fault\<close> after one without.
\<close>

definition fault :: "'w vmEnv \<Rightarrow> go_error \<Rightarrow> bool \<Rightarrow> 'r \<Rightarrow> ('w, 'r) hook" where
  "fault E err failExecution r h = do {
     (_, h) \<leftarrow> WithFaultAndHost E (Some err) failExecution h;
     Some (r, h)
   }"

definition or_fault ::
  "'w vmEnv \<Rightarrow> go_error + 'a \<Rightarrow> bool \<Rightarrow> 'r \<Rightarrow> 'w vmHost \<Rightarrow> ('a \<Rightarrow> ('r \<times> 'w vmHost) option) \<Rightarrow>
   ('r \<times> 'w vmHost) option" where
  "or_fault E result failExecution r h k =
     (case result of Inl err \<Rightarrow> fault E err failExecution r h | Inr v \<Rightarrow> k v)"

definition no_fault ::
  "'w vmEnv \<Rightarrow> go_error option \<Rightarrow> bool \<Rightarrow> 'r \<Rightarrow> 'w vmHost \<Rightarrow> ('r \<times> 'w vmHost) option \<Rightarrow>
   ('r \<times> 'w vmHost) option" where
  "no_fault E err failExecution r h k =
     (case err of Some e \<Rightarrow> fault E e failExecution r h | None \<Rightarrow> k)"

section \<open>Memory\<close>

definition memLoad :: "i32 \<Rightarrow> i32 \<Rightarrow> 'w vmHost \<Rightarrow> (go_error + bytes) option" where
  "memLoad offset len h = MemLoad offset len (host_runtime h)"

definition memStore :: "'w vmEnv \<Rightarrow> i32 \<Rightarrow> bytes \<Rightarrow> ('w, go_error option) hook" where
  "memStore E offset data h = do {
     (err, c) \<leftarrow> MemStore E offset data (host_runtime h);
     Some (err, h\<lparr>host_runtime := c\<rparr>)
   }"

text \<open>Loading from memory and failing the execution when that is not possible, and the same for storing.\<close>

definition load_then ::
  "'w vmEnv \<Rightarrow> i32 \<Rightarrow> i32 \<Rightarrow> bool \<Rightarrow> 'r \<Rightarrow> 'w vmHost \<Rightarrow> (bytes \<Rightarrow> ('r \<times> 'w vmHost) option) \<Rightarrow>
   ('r \<times> 'w vmHost) option" where
  "load_then E offset len failExecution r h k = do {
     result \<leftarrow> memLoad offset len h;
     or_fault E result failExecution r h k
   }"

definition store_then ::
  "'w vmEnv \<Rightarrow> i32 \<Rightarrow> bytes \<Rightarrow> bool \<Rightarrow> 'r \<Rightarrow> 'w vmHost \<Rightarrow> ('w vmHost \<Rightarrow> ('r \<times> 'w vmHost) option) \<Rightarrow>
   ('r \<times> 'w vmHost) option" where
  "store_then E offset data failExecution r h k = do {
     (err, h) \<leftarrow> memStore E offset data h;
     no_fault E err failExecution r h (k h)
   }"

section \<open>Big integers\<close>

definition getOne :: "i32 \<Rightarrow> 'w vmHost \<Rightarrow> int \<times> 'w vmHost" where
  "getOne handle h = (let (v, c) = bigInt_GetOne handle (host_bigInt h) in (v, h\<lparr>host_bigInt := c\<rparr>))"

definition getTwo :: "i32 \<Rightarrow> i32 \<Rightarrow> 'w vmHost \<Rightarrow> (int \<times> int) \<times> 'w vmHost" where
  "getTwo handle1 handle2 h =
     (let (v, c) = bigInt_GetTwo handle1 handle2 (host_bigInt h) in (v, h\<lparr>host_bigInt := c\<rparr>))"

definition getThree :: "i32 \<Rightarrow> i32 \<Rightarrow> i32 \<Rightarrow> 'w vmHost \<Rightarrow> (int \<times> int \<times> int) \<times> 'w vmHost" where
  "getThree handle1 handle2 handle3 h =
     (let (v, c) = bigInt_GetThree handle1 handle2 handle3 (host_bigInt h) in (v, h\<lparr>host_bigInt := c\<rparr>))"

text \<open>
  Writing through the pointer that \<open>GetOne\<close> returned for a handle. All methods of \<open>big.Int\<close>
  compute their result from the operands as they were, also when the destination is one of them.
\<close>

definition set_big :: "i32 \<Rightarrow> int \<Rightarrow> 'w vmHost \<Rightarrow> 'w vmHost" where
  "set_big handle v h = upd_bigInt (\<lambda>c. c\<lparr>bi_values := map_put handle v (bi_values c)\<rparr>) h"

definition IsUint64 :: "int \<Rightarrow> bool" where
  "IsUint64 v \<longleftrightarrow> 0 \<le> v \<and> v < 2 ^ 64"

definition IsInt64 :: "int \<Rightarrow> bool" where
  "IsInt64 v \<longleftrightarrow> - (2 ^ 63) \<le> v \<and> v < 2 ^ 63"

text \<open>The low 64 bits, of \<open>Uint64()\<close> and \<open>Int64()\<close>.\<close>

definition low64 :: "int \<Rightarrow> u64" where
  "low64 v = word_of_int v"

fun bit_len :: "nat \<Rightarrow> nat" where
  "bit_len n = (if n = 0 then 0 else Suc (bit_len (n div 2)))"

declare bit_len.simps [simp del]

definition BitLen :: "int \<Rightarrow> nat" where
  "BitLen v = bit_len (nat \<bar>v\<bar>)"

section \<open>Token transfers and balances\<close>

definition getFirstESDTTransferIfExist :: "VMInput \<Rightarrow> ESDTTransfer" where
  "getFirstESDTTransferIfExist vmInput =
     (case vi_ESDTTransfers vmInput of
        t # _ \<Rightarrow> t
      | [] \<Rightarrow> \<lparr>et_Value = 0, et_TokenType = 0, et_TokenNonce = 0, et_TokenName = []\<rparr>)"

definition getESDTDataFromBlockchainHook ::
  "'w vmEnv \<Rightarrow> i32 \<Rightarrow> i32 \<Rightarrow> i32 \<Rightarrow> i64 \<Rightarrow> ('w, go_error + ESDigitalToken option) hook" where
  "getESDTDataFromBlockchainHook E addressOffset tokenIDOffset tokenIDLen nonce h = do {
     h \<leftarrow> UseGas (baseOpsCost GetExternalBalanceCost h) h;
     r \<leftarrow> memLoad addressOffset (of_nat AddressLen) h;
     case r of
       Inl err \<Rightarrow> Some (Inl err, h)
     | Inr addr \<Rightarrow> do {
         r \<leftarrow> memLoad tokenIDOffset tokenIDLen h;
         case r of
           Inl err \<Rightarrow> Some (Inl err, h)
         | Inr tokenID \<Rightarrow> Some (GetESDTToken E addr tokenID nonce h, h)
       }
   }"

section \<open>Results\<close>

fun storage_status_int :: "StorageStatus \<Rightarrow> i32" where
  "storage_status_int StorageUnchanged = 0"
| "storage_status_int StorageModified = 1"
| "storage_status_int StorageAdded = 2"
| "storage_status_int StorageDeleted = 3"

end
