(* ===== verification/SmallIntOps.thy ===== *)
theory SmallIntOps
  imports VMHooks
begin

text \<open>
  The hooks for 64-bit integers of \<open>vmhooks/smallIntOps.go\<close>. A value of type \<open>int64\<close> that the
  code reads as unsigned is the word itself, read with \<^term>\<open>uint\<close>.
\<close>

definition v1_3_smallIntGetUnsignedArgument :: "'w vmEnv \<Rightarrow> i32 \<Rightarrow> ('w, i64) hook" where
  "v1_3_smallIntGetUnsignedArgument E index h = do {
     h \<leftarrow> UseGas (baseOpsCost Int64GetArgumentCost h) h;
     let args = vi_Arguments (rc_vmInput (host_runtime h));
     if index <s 0 \<or> len32 args \<le>s index
     then fault E (Sentinel ErrArgIndexOutOfRange) BaseOpsErrorShouldFailExecution 0 h
     else do {
       arg \<leftarrow> go_index args (sint index);
       let argBigInt = big_SetBytes arg;
       if \<not> IsUint64 argBigInt
       then fault E (Sentinel ErrArgOutOfRange) BaseOpsErrorShouldFailExecution 0 h
       else Some (low64 argBigInt, h)
     }
   }"

definition v1_3_smallIntGetSignedArgument :: "'w vmEnv \<Rightarrow> i32 \<Rightarrow> ('w, i64) hook" where
  "v1_3_smallIntGetSignedArgument E index h = do {
     h \<leftarrow> UseGas (baseOpsCost Int64GetArgumentCost h) h;
     let args = vi_Arguments (rc_vmInput (host_runtime h));
     if index <s 0 \<or> len32 args \<le>s index
     then fault E (Sentinel ErrArgIndexOutOfRange) BaseOpsErrorShouldFailExecution 0 h
     else do {
       arg \<leftarrow> go_index args (sint index);
       let argBigInt = env_twos_SetBytes E arg;
       if \<not> IsInt64 argBigInt
       then fault E (Sentinel ErrArgOutOfRange) BaseOpsErrorShouldFailExecution 0 h
       else Some (low64 argBigInt, h)
     }
   }"

definition v1_3_smallIntFinishUnsigned :: "'w vmEnv \<Rightarrow> i64 \<Rightarrow> ('w, unit) hook" where
  "v1_3_smallIntFinishUnsigned E value h = do {
     h \<leftarrow> UseGas (baseOpsCost Int64FinishCost h) h;
     let valueBytes = big_Bytes (uint value);
     Some ((), upd_output (Finish valueBytes) h)
   }"

definition v1_3_smallIntFinishSigned :: "'w vmEnv \<Rightarrow> i64 \<Rightarrow> ('w, unit) hook" where
  "v1_3_smallIntFinishSigned E value h = do {
     h \<leftarrow> UseGas (baseOpsCost Int64FinishCost h) h;
     let valueBytes = env_twos_ToBytes E (sint value);
     Some ((), upd_output (Finish valueBytes) h)
   }"

definition v1_3_smallIntStorageStoreUnsigned :: "'w vmEnv \<Rightarrow> i32 \<Rightarrow> i32 \<Rightarrow> i64 \<Rightarrow> ('w, i32) hook" where
  "v1_3_smallIntStorageStoreUnsigned E keyOffset keyLength value h = do {
     h \<leftarrow> UseGas (baseOpsCost Int64StorageStoreCost h) h;
     load_then E keyOffset keyLength BaseOpsErrorShouldFailExecution (-1) h (\<lambda>key. do {
       let valueBytes = big_Bytes (uint value);
       ((storageStatus, err), h) \<leftarrow> SetStorage E key valueBytes h;
       no_fault E err BaseOpsErrorShouldFailExecution (-1) h
         (Some (storage_status_int storageStatus, h))
     })
   }"

definition v1_3_smallIntStorageStoreSigned :: "'w vmEnv \<Rightarrow> i32 \<Rightarrow> i32 \<Rightarrow> i64 \<Rightarrow> ('w, i32) hook" where
  "v1_3_smallIntStorageStoreSigned E keyOffset keyLength value h = do {
     h \<leftarrow> UseGas (baseOpsCost Int64StorageStoreCost h) h;
     load_then E keyOffset keyLength BaseOpsErrorShouldFailExecution (-1) h (\<lambda>key. do {
       let valueBytes = env_twos_ToBytes E (sint value);
       ((storageStatus, err), h) \<leftarrow> SetStorage E key valueBytes h;
       no_fault E err BaseOpsErrorShouldFailExecution (-1) h
         (Some (storage_status_int storageStatus, h))
     })
   }"

definition v1_3_smallIntStorageLoadUnsigned :: "'w vmEnv \<Rightarrow> i32 \<Rightarrow> i32 \<Rightarrow> ('w, i64) hook" where
  "v1_3_smallIntStorageLoadUnsigned E keyOffset keyLength h = do {
     h \<leftarrow> UseGas (baseOpsCost Int64StorageLoadCost h) h;
     load_then E keyOffset keyLength BaseOpsErrorShouldFailExecution 0 h (\<lambda>key. do {
       (data, h) \<leftarrow> GetStorage E key h;
       let valueBigInt = big_SetBytes data;
       if \<not> IsUint64 valueBigInt
       then fault E (Sentinel ErrStorageValueOutOfRange) BaseOpsErrorShouldFailExecution 0 h
       else Some (low64 valueBigInt, h)
     })
   }"

definition v1_3_smallIntStorageLoadSigned :: "'w vmEnv \<Rightarrow> i32 \<Rightarrow> i32 \<Rightarrow> ('w, i64) hook" where
  "v1_3_smallIntStorageLoadSigned E keyOffset keyLength h = do {
     h \<leftarrow> UseGas (baseOpsCost Int64StorageLoadCost h) h;
     load_then E keyOffset keyLength BaseOpsErrorShouldFailExecution 0 h (\<lambda>key. do {
       (data, h) \<leftarrow> GetStorage E key h;
       let valueBigInt = env_twos_SetBytes E data;
       if \<not> IsInt64 valueBigInt
       then fault E (Sentinel ErrStorageValueOutOfRange) BaseOpsErrorShouldFailExecution 0 h
       else Some (low64 valueBigInt, h)
     })
   }"

text \<open>The names of older contracts.\<close>

definition v1_3_int64getArgument :: "'w vmEnv \<Rightarrow> i32 \<Rightarrow> ('w, i64) hook" where
  "v1_3_int64getArgument = v1_3_smallIntGetSignedArgument"

definition v1_3_int64finish :: "'w vmEnv \<Rightarrow> i64 \<Rightarrow> ('w, unit) hook" where
  "v1_3_int64finish = v1_3_smallIntFinishSigned"

definition v1_3_int64storageStore :: "'w vmEnv \<Rightarrow> i32 \<Rightarrow> i32 \<Rightarrow> i64 \<Rightarrow> ('w, i32) hook" where
  "v1_3_int64storageStore = v1_3_smallIntStorageStoreUnsigned"

definition v1_3_int64storageLoad :: "'w vmEnv \<Rightarrow> i32 \<Rightarrow> i32 \<Rightarrow> ('w, i64) hook" where
  "v1_3_int64storageLoad = v1_3_smallIntStorageLoadUnsigned"

end
