(* ===== verification/BigIntOps.thy ===== *)
theory BigIntOps
  imports VMHooks
begin

text \<open>
  The hooks for big integers of \<open>vmhooks/bigIntOps.go\<close>. The arithmetic of \<open>math/big\<close> is that of
  the integers; \<open>Quo\<close> and \<open>Rem\<close> truncate towards zero, \<open>Div\<close> and \<open>Mod\<close> are Euclidean.
\<close>

unbundle bit_operations_syntax

section \<open>Division\<close>

definition big_Quo :: "int \<Rightarrow> int \<Rightarrow> int" where
  "big_Quo a b = sgn a * sgn b * (\<bar>a\<bar> div \<bar>b\<bar>)"

definition big_Rem :: "int \<Rightarrow> int \<Rightarrow> int" where
  "big_Rem a b = sgn a * (\<bar>a\<bar> mod \<bar>b\<bar>)"

definition big_Div :: "int \<Rightarrow> int \<Rightarrow> int" where
  "big_Div a b = sgn b * (a div \<bar>b\<bar>)"

definition big_Mod :: "int \<Rightarrow> int \<Rightarrow> int" where
  "big_Mod a b = a mod \<bar>b\<bar>"

section \<open>Costs of long operands\<close>

definition maxBigIntByteLenForNormalCost :: nat where "maxBigIntByteLenForNormalCost = 32"

fun useExtraGasForOperations :: "int list \<Rightarrow> 'w vmHost \<Rightarrow> 'w vmHost option" where
  "useExtraGasForOperations [] h = Some h"
| "useExtraGasForOperations (val # values) h = do {
     let byteLen = BitLen val div 8;
     h \<leftarrow> (if byteLen > maxBigIntByteLenForNormalCost
          then UseGas (MulUint64 (of_nat byteLen) (baseCost DataCopyPerByte h)) h
          else Some h);
     useExtraGasForOperations values h
   }"

section \<open>Arguments, storage and balances\<close>

definition v1_3_bigIntGetUnsignedArgument ::
  "'w vmEnv \<Rightarrow> i32 \<Rightarrow> i32 \<Rightarrow> ('w, unit) hook" where
  "v1_3_bigIntGetUnsignedArgument E index destination h = do {
     h \<leftarrow> UseGas (bigIntCost BigIntGetUnsignedArgument h) h;
     let args = vi_Arguments (rc_vmInput (host_runtime h));
     if len32 args \<le>s index then Some ((), h)
     else do {
       let (_, h) = getOne destination h;
       arg \<leftarrow> go_index args (sint index);
       Some ((), set_big destination (big_SetBytes arg) h)
     }
   }"

definition v1_3_bigIntGetSignedArgument ::
  "'w vmEnv \<Rightarrow> i32 \<Rightarrow> i32 \<Rightarrow> ('w, unit) hook" where
  "v1_3_bigIntGetSignedArgument E index destination h = do {
     h \<leftarrow> UseGas (bigIntCost BigIntGetSignedArgument h) h;
     let args = vi_Arguments (rc_vmInput (host_runtime h));
     if len32 args \<le>s index then Some ((), h)
     else do {
       let (_, h) = getOne destination h;
       arg \<leftarrow> go_index args (sint index);
       Some ((), set_big destination (env_twos_SetBytes E arg) h)
     }
   }"

definition v1_3_bigIntStorageStoreUnsigned ::
  "'w vmEnv \<Rightarrow> i32 \<Rightarrow> i32 \<Rightarrow> i32 \<Rightarrow> ('w, i32) hook" where
  "v1_3_bigIntStorageStoreUnsigned E keyOffset keyLength source h = do {
     h \<leftarrow> UseGas (bigIntCost BigIntStorageStoreUnsigned h) h;
     load_then E keyOffset keyLength BigIntAPIErrorShouldFailExecution 0 h (\<lambda>key. do {
       let (val, h) = getOne source h;
       ((storageStatus, err), h) \<leftarrow> SetStorage E key (big_Bytes val) h;
       no_fault E err BigIntAPIErrorShouldFailExecution (-1) h
         (Some (storage_status_int storageStatus, h))
     })
   }"

definition v1_3_bigIntStorageLoadUnsigned ::
  "'w vmEnv \<Rightarrow> i32 \<Rightarrow> i32 \<Rightarrow> i32 \<Rightarrow> ('w, i32) hook" where
  "v1_3_bigIntStorageLoadUnsigned E keyOffset keyLength destination h = do {
     h \<leftarrow> UseGas (bigIntCost BigIntStorageLoadUnsigned h) h;
     load_then E keyOffset keyLength BigIntAPIErrorShouldFailExecution 0 h (\<lambda>key. do {
       (bytes, h) \<leftarrow> GetStorage E key h;
       let (_, h) = getOne destination h;
       Some (len32 bytes, set_big destination (big_SetBytes bytes) h)
     })
   }"

definition v1_3_bigIntGetCallValue :: "'w vmEnv \<Rightarrow> i32 \<Rightarrow> ('w, unit) hook" where
  "v1_3_bigIntGetCallValue E destination h = do {
     h \<leftarrow> UseGas (bigIntCost BigIntGetCallValue h) h;
     let (_, h) = getOne destination h;
     callValue \<leftarrow> vi_CallValue (rc_vmInput (host_runtime h));
     Some ((), set_big destination callValue h)
   }"

definition v1_3_bigIntGetESDTCallValue ::
  "'w vmEnv \<Rightarrow> i32 \<Rightarrow> ('w, unit) hook" where
  "v1_3_bigIntGetESDTCallValue E destination h = do {
     h \<leftarrow> UseGas (bigIntCost BigIntGetCallValue h) h;
     let (_, h) = getOne destination h;
     let esdtTransfer = getFirstESDTTransferIfExist (rc_vmInput (host_runtime h));
     Some ((), set_big destination (et_Value esdtTransfer) h)
   }"

definition v1_3_bigIntGetExternalBalance ::
  "'w vmEnv \<Rightarrow> i32 \<Rightarrow> i32 \<Rightarrow> ('w, unit) hook" where
  "v1_3_bigIntGetExternalBalance E addressOffset result h = do {
     h \<leftarrow> UseGas (bigIntCost BigIntGetExternalBalance h) h;
     load_then E addressOffset (of_nat AddressLen) BigIntAPIErrorShouldFailExecution () h (\<lambda>addr. do {
       (balance, h) \<leftarrow> GetBalance E addr h;
       let (_, h) = getOne result h;
       Some ((), set_big result (big_SetBytes balance) h)
     })
   }"

definition v1_3_bigIntGetESDTExternalBalance ::
  "'w vmEnv \<Rightarrow> i32 \<Rightarrow> i32 \<Rightarrow> i32 \<Rightarrow> i64 \<Rightarrow> i32 \<Rightarrow> ('w, unit) hook" where
  "v1_3_bigIntGetESDTExternalBalance E addressOffset tokenIDOffset tokenIDLen nonce result h = do {
     h \<leftarrow> UseGas (bigIntCost BigIntGetExternalBalance h) h;
     (esdtData, h) \<leftarrow> getESDTDataFromBlockchainHook E addressOffset tokenIDOffset tokenIDLen nonce h;
     or_fault E esdtData BigIntAPIErrorShouldFailExecution () h (\<lambda>token.
       case token of
         None \<Rightarrow> Some ((), h)
       | Some esdtData \<Rightarrow>
           let (_, h) = getOne result h
           in Some ((), set_big result (tok_Value esdtData) h))
   }"

section \<open>Conversions\<close>

definition v1_3_bigIntNew :: "'w vmEnv \<Rightarrow> i64 \<Rightarrow> ('w, i32) hook" where
  "v1_3_bigIntNew E smallValue h = do {
     h \<leftarrow> UseGas (bigIntCost BigIntNew h) h;
     (handle, c) \<leftarrow> bigInt_Put smallValue (host_bigInt h);
     Some (handle, h\<lparr>host_bigInt := c\<rparr>)
   }"

definition v1_3_bigIntUnsignedByteLength ::
  "'w vmEnv \<Rightarrow> i32 \<Rightarrow> ('w, i32) hook" where
  "v1_3_bigIntUnsignedByteLength E reference h = do {
     h \<leftarrow> UseGas (bigIntCost BigIntUnsignedByteLength h) h;
     let (val, h) = getOne reference h;
     let bytes = big_Bytes val;
     Some (len32 bytes, h)
   }"

definition v1_3_bigIntSignedByteLength :: "'w vmEnv \<Rightarrow> i32 \<Rightarrow> ('w, i32) hook" where
  "v1_3_bigIntSignedByteLength E reference h = do {
     h \<leftarrow> UseGas (bigIntCost BigIntSignedByteLength h) h;
     let (val, h) = getOne reference h;
     let bytes = env_twos_ToBytes E val;
     Some (len32 bytes, h)
   }"

definition v1_3_bigIntGetUnsignedBytes ::
  "'w vmEnv \<Rightarrow> i32 \<Rightarrow> i32 \<Rightarrow> ('w, i32) hook" where
  "v1_3_bigIntGetUnsignedBytes E reference byteOffset h = do {
     h \<leftarrow> UseGas (bigIntCost BigIntGetUnsignedBytes h) h;
     let (val, h) = getOne reference h;
     let bytes = big_Bytes val;
     store_then E byteOffset bytes BigIntAPIErrorShouldFailExecution 0 h (\<lambda>h. do {
       h \<leftarrow> UseGas (MulUint64 (baseCost DataCopyPerByte h) (len64 bytes)) h;
       Some (len32 bytes, h)
     })
   }"

definition v1_3_bigIntGetSignedBytes ::
  "'w vmEnv \<Rightarrow> i32 \<Rightarrow> i32 \<Rightarrow> ('w, i32) hook" where
  "v1_3_bigIntGetSignedBytes E reference byteOffset h = do {
     h \<leftarrow> UseGas (bigIntCost BigIntGetSignedBytes h) h;
     let (val, h) = getOne reference h;
     let bytes = env_twos_ToBytes E val;
     store_then E byteOffset bytes BigIntAPIErrorShouldFailExecution 0 h (\<lambda>h. do {
       h \<leftarrow> UseGas (MulUint64 (baseCost DataCopyPerByte h) (len64 bytes)) h;
       Some (len32 bytes, h)
     })
   }"

definition v1_3_bigIntSetUnsignedBytes ::
  "'w vmEnv \<Rightarrow> i32 \<Rightarrow> i32 \<Rightarrow> i32 \<Rightarrow> ('w, unit) hook" where
  "v1_3_bigIntSetUnsignedBytes E destination byteOffset byteLength h = do {
     h \<leftarrow> UseGas (bigIntCost BigIntSetUnsignedBytes h) h;
     load_then E byteOffset byteLength BigIntAPIErrorShouldFailExecution () h (\<lambda>bytes. do {
       let (_, h) = getOne destination h;
       let h = set_big destination (big_SetBytes bytes) h;
       h \<leftarrow> UseGas (MulUint64 (baseCost DataCopyPerByte h) (len64 bytes)) h;
       Some ((), h)
     })
   }"

definition v1_3_bigIntSetSignedBytes ::
  "'w vmEnv \<Rightarrow> i32 \<Rightarrow> i32 \<Rightarrow> i32 \<Rightarrow> ('w, unit) hook" where
  "v1_3_bigIntSetSignedBytes E destination byteOffset byteLength h = do {
     h \<leftarrow> UseGas (bigIntCost BigIntSetSignedBytes h) h;
     load_then E byteOffset byteLength BigIntAPIErrorShouldFailExecution () h (\<lambda>bytes. do {
       let (_, h) = getOne destination h;
       let h = set_big destination (env_twos_SetBytes E bytes) h;
       h \<leftarrow> UseGas (MulUint64 (baseCost DataCopyPerByte h) (len64 bytes)) h;
       Some ((), h)
     })
   }"

definition v1_3_bigIntIsInt64 :: "'w vmEnv \<Rightarrow> i32 \<Rightarrow> ('w, i32) hook" where
  "v1_3_bigIntIsInt64 E handle h = do {
     h \<leftarrow> UseGas (bigIntCost BigIntIsInt64 h) h;
     let (val, h) = getOne handle h;
     Some (if IsInt64 val then 1 else 0, h)
   }"

definition v1_3_bigIntGetInt64 :: "'w vmEnv \<Rightarrow> i32 \<Rightarrow> ('w, i64) hook" where
  "v1_3_bigIntGetInt64 E handle h = do {
     h \<leftarrow> UseGas (bigIntCost BigIntGetInt64 h) h;
     let (val, h) = getOne handle h;
     Some (low64 val, h)
   }"

definition v1_3_bigIntSetInt64 ::
  "'w vmEnv \<Rightarrow> i32 \<Rightarrow> i64 \<Rightarrow> ('w, unit) hook" where
  "v1_3_bigIntSetInt64 E destination val h = do {
     h \<leftarrow> UseGas (bigIntCost BigIntSub h) h;
     let (_, h) = getOne destination h;
     Some ((), set_big destination (sint val) h)
   }"

section \<open>Arithmetic\<close>

definition v1_3_bigIntAdd ::
  "'w vmEnv \<Rightarrow> i32 \<Rightarrow> i32 \<Rightarrow> i32 \<Rightarrow> ('w, unit) hook" where
  "v1_3_bigIntAdd E destination op1 op2 h = do {
     h \<leftarrow> UseGas (bigIntCost BigIntSub h) h;
     let ((dest, a, b), h) = getThree destination op1 op2 h;
     h \<leftarrow> useExtraGasForOperations [dest, a, b] h;
     Some ((), set_big destination (a + b) h)
   }"

definition v1_3_bigIntSub ::
  "'w vmEnv \<Rightarrow> i32 \<Rightarrow> i32 \<Rightarrow> i32 \<Rightarrow> ('w, unit) hook" where
  "v1_3_bigIntSub E destination op1 op2 h = do {
     h \<leftarrow> UseGas (bigIntCost BigIntSub h) h;
     let ((dest, a, b), h) = getThree destination op1 op2 h;
     h \<leftarrow> useExtraGasForOperations [dest, a, b] h;
     Some ((), set_big destination (a - b) h)
   }"

definition v1_3_bigIntMul ::
  "'w vmEnv \<Rightarrow> i32 \<Rightarrow> i32 \<Rightarrow> i32 \<Rightarrow> ('w, unit) hook" where
  "v1_3_bigIntMul E destination op1 op2 h = do {
     h \<leftarrow> UseGas (bigIntCost BigIntMul h) h;
     let ((dest, a, b), h) = getThree destination op1 op2 h;
     h \<leftarrow> useExtraGasForOperations [dest, a, b] h;
     Some ((), set_big destination (a * b) h)
   }"

definition v1_3_bigIntTDiv ::
  "'w vmEnv \<Rightarrow> i32 \<Rightarrow> i32 \<Rightarrow> i32 \<Rightarrow> ('w, unit) hook" where
  "v1_3_bigIntTDiv E destination op1 op2 h = do {
     h \<leftarrow> UseGas (bigIntCost BigIntTDiv h) h;
     let ((dest, a, b), h) = getThree destination op1 op2 h;
     h \<leftarrow> useExtraGasForOperations [dest, a, b] h;
     if b = 0 then fault E (Sentinel ErrDivZero) BigIntAPIErrorShouldFailExecution () h
     else Some ((), set_big destination (big_Quo a b) h)
   }"

definition v1_3_bigIntTMod ::
  "'w vmEnv \<Rightarrow> i32 \<Rightarrow> i32 \<Rightarrow> i32 \<Rightarrow> ('w, unit) hook" where
  "v1_3_bigIntTMod E destination op1 op2 h = do {
     h \<leftarrow> UseGas (bigIntCost BigIntSub h) h;
     let ((dest, a, b), h) = getThree destination op1 op2 h;
     h \<leftarrow> useExtraGasForOperations [dest, a, b] h;
     if b = 0 then fault E (Sentinel ErrDivZero) BigIntAPIErrorShouldFailExecution () h
     else Some ((), set_big destination (big_Rem a b) h)
   }"

definition v1_3_bigIntEDiv ::
  "'w vmEnv \<Rightarrow> i32 \<Rightarrow> i32 \<Rightarrow> i32 \<Rightarrow> ('w, unit) hook" where
  "v1_3_bigIntEDiv E destination op1 op2 h = do {
     h \<leftarrow> UseGas (bigIntCost BigIntSub h) h;
     let ((dest, a, b), h) = getThree destination op1 op2 h;
     h \<leftarrow> useExtraGasForOperations [dest, a, b] h;
     if b = 0 then fault E (Sentinel ErrDivZero) BigIntAPIErrorShouldFailExecution () h
     else Some ((), set_big destination (big_Div a b) h)
   }"

definition v1_3_bigIntEMod ::
  "'w vmEnv \<Rightarrow> i32 \<Rightarrow> i32 \<Rightarrow> i32 \<Rightarrow> ('w, unit) hook" where
  "v1_3_bigIntEMod E destination op1 op2 h = do {
     h \<leftarrow> UseGas (bigIntCost BigIntSub h) h;
     let ((dest, a, b), h) = getThree destination op1 op2 h;
     h \<leftarrow> useExtraGasForOperations [dest, a, b] h;
     if b = 0 then fault E (Sentinel ErrDivZero) BigIntAPIErrorShouldFailExecution () h
     else Some ((), set_big destination (big_Mod a b) h)
   }"

definition v1_3_bigIntAbs ::
  "'w vmEnv \<Rightarrow> i32 \<Rightarrow> i32 \<Rightarrow> ('w, unit) hook" where
  "v1_3_bigIntAbs E destination op h = do {
     h \<leftarrow> UseGas (bigIntCost BigIntSub h) h;
     let ((dest, a), h) = getTwo destination op h;
     h \<leftarrow> useExtraGasForOperations [dest, a] h;
     Some ((), set_big destination (\<bar>a\<bar>) h)
   }"

definition v1_3_bigIntNeg ::
  "'w vmEnv \<Rightarrow> i32 \<Rightarrow> i32 \<Rightarrow> ('w, unit) hook" where
  "v1_3_bigIntNeg E destination op h = do {
     h \<leftarrow> UseGas (bigIntCost BigIntSub h) h;
     let ((dest, a), h) = getTwo destination op h;
     h \<leftarrow> useExtraGasForOperations [dest, a] h;
     Some ((), set_big destination (- a) h)
   }"

definition v1_3_bigIntSign :: "'w vmEnv \<Rightarrow> i32 \<Rightarrow> ('w, i32) hook" where
  "v1_3_bigIntSign E op h = do {
     h \<leftarrow> UseGas (bigIntCost BigIntSign h) h;
     let (a, h) = getOne op h;
     h \<leftarrow> useExtraGasForOperations [a] h;
     Some (word_of_int (sgn a), h)
   }"

definition v1_3_bigIntCmp ::
  "'w vmEnv \<Rightarrow> i32 \<Rightarrow> i32 \<Rightarrow> ('w, i32) hook" where
  "v1_3_bigIntCmp E op1 op2 h = do {
     h \<leftarrow> UseGas (bigIntCost BigIntCmp h) h;
     let ((a, b), h) = getTwo op1 op2 h;
     h \<leftarrow> useExtraGasForOperations [a, b] h;
     Some (word_of_int (sgn (a - b)), h)
   }"

section \<open>Bits\<close>

definition v1_3_bigIntNot ::
  "'w vmEnv \<Rightarrow> i32 \<Rightarrow> i32 \<Rightarrow> ('w, unit) hook" where
  "v1_3_bigIntNot E destination op h = do {
     h \<leftarrow> UseGas (bigIntCost BigIntSub h) h;
     let ((dest, a), h) = getTwo destination op h;
     h \<leftarrow> useExtraGasForOperations [dest, a] h;
     if a < 0 then fault E (Sentinel ErrBitwiseNegative) BigIntAPIErrorShouldFailExecution () h
     else Some ((), set_big destination (NOT a) h)
   }"

definition v1_3_bigIntAnd ::
  "'w vmEnv \<Rightarrow> i32 \<Rightarrow> i32 \<Rightarrow> i32 \<Rightarrow> ('w, unit) hook" where
  "v1_3_bigIntAnd E destination op1 op2 h = do {
     h \<leftarrow> UseGas (bigIntCost BigIntSub h) h;
     let ((dest, a, b), h) = getThree destination op1 op2 h;
     h \<leftarrow> useExtraGasForOperations [a, b] h;
     if a < 0 \<or> b < 0 then fault E (Sentinel ErrBitwiseNegative) BigIntAPIErrorShouldFailExecution () h
     else Some ((), set_big destination (a AND b) h)
   }"

definition v1_3_bigIntOr ::
  "'w vmEnv \<Rightarrow> i32 \<Rightarrow> i32 \<Rightarrow> i32 \<Rightarrow> ('w, unit) hook" where
  "v1_3_bigIntOr E destination op1 op2 h = do {
     h \<leftarrow> UseGas (bigIntCost BigIntSub h) h;
     let ((dest, a, b), h) = getThree destination op1 op2 h;
     h \<leftarrow> useExtraGasForOperations [a, b] h;
     if a < 0 \<or> b < 0 then fault E (Sentinel ErrBitwiseNegative) BigIntAPIErrorShouldFailExecution () h
     else Some ((), set_big destination (a OR b) h)
   }"

definition v1_3_bigIntXor ::
  "'w vmEnv \<Rightarrow> i32 \<Rightarrow> i32 \<Rightarrow> i32 \<Rightarrow> ('w, unit) hook" where
  "v1_3_bigIntXor E destination op1 op2 h = do {
     h \<leftarrow> UseGas (bigIntCost BigIntSub h) h;
     let ((dest, a, b), h) = getThree destination op1 op2 h;
     h \<leftarrow> useExtraGasForOperations [a, b] h;
     if a < 0 \<or> b < 0 then fault E (Sentinel ErrBitwiseNegative) BigIntAPIErrorShouldFailExecution () h
     else Some ((), set_big destination (a XOR b) h)
   }"

definition v1_3_bigIntShr ::
  "'w vmEnv \<Rightarrow> i32 \<Rightarrow> i32 \<Rightarrow> i32 \<Rightarrow> ('w, unit) hook" where
  "v1_3_bigIntShr E destination op bits h = do {
     h \<leftarrow> UseGas (bigIntCost BigIntSub h) h;
     let ((_, a), h) = getTwo destination op h;
     h \<leftarrow> useExtraGasForOperations [a] h;
     if a < 0 \<or> bits <s 0 then fault E (Sentinel ErrShiftNegative) BigIntAPIErrorShouldFailExecution () h
     else do {
       let dest = drop_bit (nat (sint bits)) a;
       let h = set_big destination dest h;
       h \<leftarrow> useExtraGasForOperations [dest] h;
       Some ((), h)
     }
   }"

definition v1_3_bigIntShl ::
  "'w vmEnv \<Rightarrow> i32 \<Rightarrow> i32 \<Rightarrow> i32 \<Rightarrow> ('w, unit) hook" where
  "v1_3_bigIntShl E destination op bits h = do {
     h \<leftarrow> UseGas (bigIntCost BigIntSub h) h;
     let ((_, a), h) = getTwo destination op h;
     h \<leftarrow> useExtraGasForOperations [a] h;
     if a < 0 \<or> bits <s 0 then fault E (Sentinel ErrShiftNegative) BigIntAPIErrorShouldFailExecution () h
     else do {
       let dest = push_bit (nat (sint bits)) a;
       let h = set_big destination dest h;
       h \<leftarrow> useExtraGasForOperations [dest] h;
       Some ((), h)
     }
   }"

section \<open>Results\<close>

definition v1_3_bigIntFinishUnsigned :: "'w vmEnv \<Rightarrow> i32 \<Rightarrow> ('w, unit) hook" where
  "v1_3_bigIntFinishUnsigned E reference h = do {
     h \<leftarrow> UseGas (bigIntCost BigIntFinishUnsigned h) h;
     let (val, h) = getOne reference h;
     let bytes = big_Bytes val;
     let h = upd_output (Finish bytes) h;
     h \<leftarrow> UseGas (MulUint64 (baseCost PersistPerByte h) (len64 bytes)) h;
     Some ((), h)
   }"

definition v1_3_bigIntFinishSigned :: "'w vmEnv \<Rightarrow> i32 \<Rightarrow> ('w, unit) hook" where
  "v1_3_bigIntFinishSigned E reference h = do {
     h \<leftarrow> UseGas (bigIntCost BigIntFinishSigned h) h;
     let (val, h) = getOne reference h;
     let bytes = env_twos_ToBytes E val;
     let h = upd_output (Finish bytes) h;
     h \<leftarrow> UseGas (MulUint64 (baseCost PersistPerByte h) (len64 bytes)) h;
     Some ((), h)
   }"

end
