(* ===== verification/BaseOps.thy ===== *)
theory BaseOps
  imports VMHooks
begin

text \<open>
  The hooks of \<open>vmhooks/baseOps.go\<close> that read the call, the block and the accounts, access the
  storage of the contract, write logs and return data. Those that transfer value and call other
  contracts are in the theory CallOps.
\<close>

section \<open>Accounts and addresses\<close>

definition v1_3_getGasLeft :: "'w vmEnv \<Rightarrow> ('w, i64) hook" where
  "v1_3_getGasLeft E h = do {
     h \<leftarrow> UseGas (baseOpsCost GetGasLeftCost h) h;
     Some (GasLeft h, h)
   }"

definition v1_3_getSCAddress :: "'w vmEnv \<Rightarrow> i32 \<Rightarrow> ('w, unit) hook" where
  "v1_3_getSCAddress E resultOffset h = do {
     h \<leftarrow> UseGas (baseOpsCost GetSCAddressCost h) h;
     let owner = rc_scAddress (host_runtime h);
     store_then E resultOffset owner BaseOpsErrorShouldFailExecution () h (\<lambda>h. Some ((), h))
   }"

definition v1_3_getOwnerAddress :: "'w vmEnv \<Rightarrow> i32 \<Rightarrow> ('w, unit) hook" where
  "v1_3_getOwnerAddress E resultOffset h = do {
     h \<leftarrow> UseGas (baseOpsCost GetOwnerAddressCost h) h;
     or_fault E (GetOwnerAddress E h) BaseOpsErrorShouldFailExecution () h (\<lambda>owner.
       store_then E resultOffset owner BaseOpsErrorShouldFailExecution () h (\<lambda>h. Some ((), h)))
   }"

definition v1_3_getShardOfAddress :: "'w vmEnv \<Rightarrow> i32 \<Rightarrow> ('w, i32) hook" where
  "v1_3_getShardOfAddress E addressOffset h = do {
     h \<leftarrow> UseGas (baseOpsCost GetShardOfAddressCost h) h;
     load_then E addressOffset (of_nat AddressLen) BaseOpsErrorShouldFailExecution 0 h (\<lambda>addr.
       Some (GetShardOfAddress E addr h, h))
   }"

definition v1_3_isSmartContract :: "'w vmEnv \<Rightarrow> i32 \<Rightarrow> ('w, i32) hook" where
  "v1_3_isSmartContract E addressOffset h = do {
     h \<leftarrow> UseGas (baseOpsCost IsSmartContractCost h) h;
     load_then E addressOffset (of_nat AddressLen) BaseOpsErrorShouldFailExecution 0 h (\<lambda>addr.
       Some (word_of_int (BooleanToInt (IsSmartContract E addr h)), h))
   }"

definition v1_3_signalError ::
  "'w vmEnv \<Rightarrow> i32 \<Rightarrow> i32 \<Rightarrow> ('w, unit) hook" where
  "v1_3_signalError E messageOffset messageLength h = do {
     h \<leftarrow> UseGas (baseOpsCost SignalErrorCost h) h;
     load_then E messageOffset messageLength BaseOpsErrorShouldFailExecution () h (\<lambda>message. do {
       h \<leftarrow> SignalUserError E (string_of_bytes message) h;
       Some ((), h)
     })
   }"

definition v1_3_getExternalBalance ::
  "'w vmEnv \<Rightarrow> i32 \<Rightarrow> i32 \<Rightarrow> ('w, unit) hook" where
  "v1_3_getExternalBalance E addressOffset resultOffset h = do {
     h \<leftarrow> UseGas (baseOpsCost GetExternalBalanceCost h) h;
     load_then E addressOffset (of_nat AddressLen) BaseOpsErrorShouldFailExecution () h (\<lambda>addr. do {
       (balance, h) \<leftarrow> GetBalance E addr h;
       store_then E resultOffset balance BaseOpsErrorShouldFailExecution () h (\<lambda>h. Some ((), h))
     })
   }"

definition v1_3_blockHash ::
  "'w vmEnv \<Rightarrow> i64 \<Rightarrow> i32 \<Rightarrow> ('w, i32) hook" where
  "v1_3_blockHash E nonce resultOffset h = do {
     h \<leftarrow> UseGas (baseOpsCost GetBlockHashCost h) h;
     let hash = BlockHash E nonce h;
     store_then E resultOffset hash BaseOpsErrorShouldFailExecution 1 h (\<lambda>h. Some (0, h))
   }"

section \<open>Token balances\<close>

definition v1_3_getESDTBalance ::
  "'w vmEnv \<Rightarrow> i32 \<Rightarrow> i32 \<Rightarrow> i32 \<Rightarrow> i64 \<Rightarrow> i32 \<Rightarrow> ('w, i32) hook" where
  "v1_3_getESDTBalance E addressOffset tokenIDOffset tokenIDLen nonce resultOffset h = do {
     (esdtData, h) \<leftarrow> getESDTDataFromBlockchainHook E addressOffset tokenIDOffset tokenIDLen nonce h;
     or_fault E esdtData BaseOpsErrorShouldFailExecution 0 h (\<lambda>token. do {
       esdtData \<leftarrow> token;
       let valueBytes = big_Bytes (tok_Value esdtData);
       store_then E resultOffset valueBytes BaseOpsErrorShouldFailExecution 0 h (\<lambda>h. Some (len32 valueBytes, h))
     })
   }"

definition v1_3_getESDTNFTNameLength ::
  "'w vmEnv \<Rightarrow> i32 \<Rightarrow> i32 \<Rightarrow> i32 \<Rightarrow> i64 \<Rightarrow> ('w, i32) hook" where
  "v1_3_getESDTNFTNameLength E addressOffset tokenIDOffset tokenIDLen nonce h = do {
     (esdtData, h) \<leftarrow> getESDTDataFromBlockchainHook E addressOffset tokenIDOffset tokenIDLen nonce h;
     or_fault E esdtData BaseOpsErrorShouldFailExecution 0 h (\<lambda>token.
       case Option.bind token tok_TokenMetaData of
         None \<Rightarrow> Some (0, h)
       | Some metaData \<Rightarrow> Some (len32 (md_Name metaData), h))
   }"

definition v1_3_getESDTNFTAttributeLength ::
  "'w vmEnv \<Rightarrow> i32 \<Rightarrow> i32 \<Rightarrow> i32 \<Rightarrow> i64 \<Rightarrow> ('w, i32) hook" where
  "v1_3_getESDTNFTAttributeLength E addressOffset tokenIDOffset tokenIDLen nonce h = do {
     (esdtData, h) \<leftarrow> getESDTDataFromBlockchainHook E addressOffset tokenIDOffset tokenIDLen nonce h;
     or_fault E esdtData BaseOpsErrorShouldFailExecution 0 h (\<lambda>token.
       case Option.bind token tok_TokenMetaData of
         None \<Rightarrow> Some (0, h)
       | Some metaData \<Rightarrow> Some (len32 (md_Attributes metaData), h))
   }"

definition v1_3_getESDTNFTURILength ::
  "'w vmEnv \<Rightarrow> i32 \<Rightarrow> i32 \<Rightarrow> i32 \<Rightarrow> i64 \<Rightarrow> ('w, i32) hook" where
  "v1_3_getESDTNFTURILength E addressOffset tokenIDOffset tokenIDLen nonce h = do {
     (esdtData, h) \<leftarrow> getESDTDataFromBlockchainHook E addressOffset tokenIDOffset tokenIDLen nonce h;
     or_fault E esdtData BaseOpsErrorShouldFailExecution 0 h (\<lambda>token.
       case Option.bind token tok_TokenMetaData of
         None \<Rightarrow> Some (0, h)
       | Some metaData \<Rightarrow> (case md_URIs metaData of
             [] \<Rightarrow> Some (0, h)
           | uri # _ \<Rightarrow> Some (len32 uri, h)))
   }"

text \<open>The part of \<open>getESDTTokenData\<close> for a token with metadata.\<close>

definition store_meta_data ::
  "'w vmEnv \<Rightarrow> ESDTMetaData \<Rightarrow> i32 \<Rightarrow> i32 \<Rightarrow> i32 \<Rightarrow> i32 \<Rightarrow> i32 \<Rightarrow> i32 \<Rightarrow> i32 \<Rightarrow> ('w, i32) hook" where
  "store_meta_data E metaData hashOffset nameOffset attributesOffset creatorOffset royaltiesHandle urisOffset result h =
     store_then E hashOffset (md_Hash metaData) BaseOpsErrorShouldFailExecution 0 h (\<lambda>h.
     store_then E nameOffset (md_Name metaData) BaseOpsErrorShouldFailExecution 0 h (\<lambda>h.
     store_then E attributesOffset (md_Attributes metaData) BaseOpsErrorShouldFailExecution 0 h (\<lambda>h.
     store_then E creatorOffset (md_Creator metaData) BaseOpsErrorShouldFailExecution 0 h (\<lambda>h.
       let (_, h) = getOne royaltiesHandle h;
           h = set_big royaltiesHandle (uint (md_Royalties metaData)) h
       in case md_URIs metaData of
            [] \<Rightarrow> Some (result, h)
          | uri # _ \<Rightarrow>
              store_then E urisOffset uri BaseOpsErrorShouldFailExecution 0 h (\<lambda>h. Some (result, h))))))"

definition v1_3_getESDTTokenData ::
  "'w vmEnv \<Rightarrow> i32 \<Rightarrow> i32 \<Rightarrow> i32 \<Rightarrow> i64 \<Rightarrow> i32 \<Rightarrow> i32 \<Rightarrow> i32 \<Rightarrow> i32 \<Rightarrow> i32 \<Rightarrow> i32 \<Rightarrow> i32 \<Rightarrow> i32 \<Rightarrow> ('w, i32) hook" where
  "v1_3_getESDTTokenData E addressOffset tokenIDOffset tokenIDLen nonce valueHandle propertiesOffset hashOffset
     nameOffset attributesOffset creatorOffset royaltiesHandle urisOffset h = do {
     (esdtData, h) \<leftarrow> getESDTDataFromBlockchainHook E addressOffset tokenIDOffset tokenIDLen nonce h;
     or_fault E esdtData BaseOpsErrorShouldFailExecution 0 h (\<lambda>token. do {
       let (_, h) = getOne valueHandle h;
       esdtData \<leftarrow> token;
       let h = set_big valueHandle (tok_Value esdtData) h;
       let result = len32 (big_Bytes (tok_Value esdtData));
       store_then E propertiesOffset (tok_Properties esdtData) BaseOpsErrorShouldFailExecution 0 h (\<lambda>h.
         case tok_TokenMetaData esdtData of
           None \<Rightarrow> Some (result, h)
         | Some metaData \<Rightarrow> store_meta_data E metaData hashOffset nameOffset attributesOffset
             creatorOffset royaltiesHandle urisOffset result h)
     })
   }"

section \<open>The call\<close>

definition v1_3_getArgumentLength :: "'w vmEnv \<Rightarrow> i32 \<Rightarrow> ('w, i32) hook" where
  "v1_3_getArgumentLength E index h = do {
     h \<leftarrow> UseGas (baseOpsCost GetArgumentCost h) h;
     let args = vi_Arguments (rc_vmInput (host_runtime h));
     if index <s 0 \<or> len32 args \<le>s index then Some (-1, h)
     else do {
       arg \<leftarrow> go_index args (sint index);
       Some (len32 arg, h)
     }
   }"

definition v1_3_getArgument ::
  "'w vmEnv \<Rightarrow> i32 \<Rightarrow> i32 \<Rightarrow> ('w, i32) hook" where
  "v1_3_getArgument E index argOffset h = do {
     h \<leftarrow> UseGas (baseOpsCost GetArgumentCost h) h;
     let args = vi_Arguments (rc_vmInput (host_runtime h));
     if index <s 0 \<or> len32 args \<le>s index then Some (-1, h)
     else do {
       arg \<leftarrow> go_index args (sint index);
       store_then E argOffset arg BaseOpsErrorShouldFailExecution (-1) h (\<lambda>h. Some (len32 arg, h))
     }
   }"

definition v1_3_getFunction :: "'w vmEnv \<Rightarrow> i32 \<Rightarrow> ('w, i32) hook" where
  "v1_3_getFunction E functionOffset h = do {
     h \<leftarrow> UseGas (baseOpsCost GetFunctionCost h) h;
     let function = bytes_of_string (rc_callFunction (host_runtime h));
     store_then E functionOffset function BaseOpsErrorShouldFailExecution (-1) h (\<lambda>h. Some (len32 function, h))
   }"

definition v1_3_getNumArguments :: "'w vmEnv \<Rightarrow> ('w, i32) hook" where
  "v1_3_getNumArguments E h = do {
     h \<leftarrow> UseGas (baseOpsCost GetNumArgumentsCost h) h;
     Some (len32 (vi_Arguments (rc_vmInput (host_runtime h))), h)
   }"

definition v1_3_getCaller :: "'w vmEnv \<Rightarrow> i32 \<Rightarrow> ('w, unit) hook" where
  "v1_3_getCaller E resultOffset h = do {
     h \<leftarrow> UseGas (baseOpsCost GetCallerCost h) h;
     let caller = vi_CallerAddr (rc_vmInput (host_runtime h));
     store_then E resultOffset caller BaseOpsErrorShouldFailExecution () h (\<lambda>h. Some ((), h))
   }"

definition v1_3_checkNoPayment :: "'w vmEnv \<Rightarrow> ('w, unit) hook" where
  "v1_3_checkNoPayment E h = do {
     h \<leftarrow> UseGas (baseOpsCost GetCallValueCost h) h;
     let vmInput = rc_vmInput (host_runtime h);
     callValue \<leftarrow> vi_CallValue vmInput;
     if callValue > 0 then fault E (Sentinel ErrNonPayableFunctionEgld) BaseOpsErrorShouldFailExecution () h
     else if vi_ESDTTransfers vmInput \<noteq> [] then fault E (Sentinel ErrNonPayableFunctionEsdt) BaseOpsErrorShouldFailExecution () h
     else Some ((), h)
   }"

definition v1_3_callValue :: "'w vmEnv \<Rightarrow> i32 \<Rightarrow> ('w, i32) hook" where
  "v1_3_callValue E resultOffset h = do {
     h \<leftarrow> UseGas (baseOpsCost GetCallValueCost h) h;
     callValue \<leftarrow> vi_CallValue (rc_vmInput (host_runtime h));
     val \<leftarrow> PadBytesLeft (Some (big_Bytes callValue)) (of_nat BalanceLen);
     store_then E resultOffset val BaseOpsErrorShouldFailExecution (-1) h (\<lambda>h. Some (len32 val, h))
   }"

definition v1_3_getESDTValue :: "'w vmEnv \<Rightarrow> i32 \<Rightarrow> ('w, i32) hook" where
  "v1_3_getESDTValue E resultOffset h = do {
     h \<leftarrow> UseGas (baseOpsCost GetCallValueCost h) h;
     let esdtTransfer = getFirstESDTTransferIfExist (rc_vmInput (host_runtime h));
     val \<leftarrow> (if et_Value esdtTransfer > 0
       then PadBytesLeft (Some (big_Bytes (et_Value esdtTransfer))) (of_nat BalanceLen) else Some []);
     store_then E resultOffset val BaseOpsErrorShouldFailExecution (-1) h (\<lambda>h. Some (len32 val, h))
   }"

definition v1_3_getESDTTokenName :: "'w vmEnv \<Rightarrow> i32 \<Rightarrow> ('w, i32) hook" where
  "v1_3_getESDTTokenName E resultOffset h = do {
     h \<leftarrow> UseGas (baseOpsCost GetCallValueCost h) h;
     let esdtTransfer = getFirstESDTTransferIfExist (rc_vmInput (host_runtime h));
     let tokenName = et_TokenName esdtTransfer;
     store_then E resultOffset tokenName BaseOpsErrorShouldFailExecution (-1) h (\<lambda>h. Some (len32 tokenName, h))
   }"

definition v1_3_getESDTTokenNonce :: "'w vmEnv \<Rightarrow> ('w, i64) hook" where
  "v1_3_getESDTTokenNonce E h = do {
     h \<leftarrow> UseGas (baseOpsCost GetCallValueCost h) h;
     let esdtTransfer = getFirstESDTTransferIfExist (rc_vmInput (host_runtime h));
     Some (et_TokenNonce esdtTransfer, h)
   }"

definition v1_3_getESDTTokenType :: "'w vmEnv \<Rightarrow> ('w, i32) hook" where
  "v1_3_getESDTTokenType E h = do {
     h \<leftarrow> UseGas (baseOpsCost GetCallValueCost h) h;
     let esdtTransfer = getFirstESDTTransferIfExist (rc_vmInput (host_runtime h));
     Some (et_TokenType esdtTransfer, h)
   }"

text \<open>
  \<open>copy\<close> fills the length of its destination, not its capacity: a slice made with length 0
  receives nothing.
\<close>

definition v1_3_getCallValueTokenName ::
  "'w vmEnv \<Rightarrow> i32 \<Rightarrow> i32 \<Rightarrow> ('w, i32) hook" where
  "v1_3_getCallValueTokenName E callValueOffset tokenNameOffset h = do {
     h \<leftarrow> UseGas (baseOpsCost GetCallValueCost h) h;
     callValue \<leftarrow> vi_CallValue (rc_vmInput (host_runtime h));
     let esdtTransfer = getFirstESDTTransferIfExist (rc_vmInput (host_runtime h));
     let (tokenName, callValue) = (if et_TokenName esdtTransfer \<noteq> []
       then (go_copy_new 0 (et_TokenName esdtTransfer), big_Bytes (et_Value esdtTransfer))
       else ([], big_Bytes callValue));
     callValue \<leftarrow> PadBytesLeft (Some callValue) (of_nat BalanceLen);
     store_then E tokenNameOffset tokenName BaseOpsErrorShouldFailExecution (-1) h (\<lambda>h.
       store_then E callValueOffset callValue BaseOpsErrorShouldFailExecution (-1) h (\<lambda>h. Some (len32 tokenName, h)))
   }"

definition v1_3_getOriginalTxHash :: "'w vmEnv \<Rightarrow> i32 \<Rightarrow> ('w, unit) hook" where
  "v1_3_getOriginalTxHash E dataOffset h = do {
     h \<leftarrow> UseGas (baseOpsCost GetBlockHashCost h) h;
     store_then E dataOffset (vi_OriginalTxHash (rc_vmInput (host_runtime h))) BaseOpsErrorShouldFailExecution () h (\<lambda>h. Some ((), h))
   }"

section \<open>Storage\<close>

definition v1_3_storageStore ::
  "'w vmEnv \<Rightarrow> i32 \<Rightarrow> i32 \<Rightarrow> i32 \<Rightarrow> i32 \<Rightarrow> ('w, i32) hook" where
  "v1_3_storageStore E keyOffset keyLength dataOffset dataLength h = do {
     h \<leftarrow> UseGas (baseOpsCost StorageStoreCost h) h;
     load_then E keyOffset keyLength BaseOpsErrorShouldFailExecution (-1) h (\<lambda>key.
     load_then E dataOffset dataLength BaseOpsErrorShouldFailExecution (-1) h (\<lambda>data. do {
       ((storageStatus, err), h) \<leftarrow> SetStorage E key data h;
       no_fault E err BaseOpsErrorShouldFailExecution (-1) h (Some (storage_status_int storageStatus, h))
     }))
   }"

definition v1_3_storageLoadLength ::
  "'w vmEnv \<Rightarrow> i32 \<Rightarrow> i32 \<Rightarrow> ('w, i32) hook" where
  "v1_3_storageLoadLength E keyOffset keyLength h = do {
     h \<leftarrow> UseGas (baseOpsCost StorageLoadCost h) h;
     load_then E keyOffset keyLength BaseOpsErrorShouldFailExecution (-1) h (\<lambda>key.
       let (data, h) = GetStorageUnmetered E key h
       in Some (len32 data, h))
   }"

definition v1_3_storageLoadFromAddress ::
  "'w vmEnv \<Rightarrow> i32 \<Rightarrow> i32 \<Rightarrow> i32 \<Rightarrow> i32 \<Rightarrow> ('w, i32) hook" where
  "v1_3_storageLoadFromAddress E addressOffset keyOffset keyLength dataOffset h = do {
     h \<leftarrow> UseGas (baseOpsCost StorageLoadCost h) h;
     load_then E keyOffset keyLength BaseOpsErrorShouldFailExecution (-1) h (\<lambda>key.
     load_then E addressOffset (of_nat AddressLen) BaseOpsErrorShouldFailExecution (-1) h (\<lambda>addr. do {
       (data, h) \<leftarrow> GetStorageFromAddress E addr key h;
       store_then E dataOffset data BaseOpsErrorShouldFailExecution (-1) h (\<lambda>h. Some (len32 data, h))
     }))
   }"

definition v1_3_storageLoad ::
  "'w vmEnv \<Rightarrow> i32 \<Rightarrow> i32 \<Rightarrow> i32 \<Rightarrow> ('w, i32) hook" where
  "v1_3_storageLoad E keyOffset keyLength dataOffset h = do {
     h \<leftarrow> UseGas (baseOpsCost StorageLoadCost h) h;
     load_then E keyOffset keyLength BaseOpsErrorShouldFailExecution (-1) h (\<lambda>key. do {
       (data, h) \<leftarrow> GetStorage E key h;
       store_then E dataOffset data BaseOpsErrorShouldFailExecution (-1) h (\<lambda>h. Some (len32 data, h))
     })
   }"

definition v1_3_setStorageLock ::
  "'w vmEnv \<Rightarrow> i32 \<Rightarrow> i32 \<Rightarrow> i64 \<Rightarrow> ('w, i32) hook" where
  "v1_3_setStorageLock E keyOffset keyLength lockTimestamp h = do {
     h \<leftarrow> UseGas (baseOpsCost Int64StorageStoreCost h) h;
     load_then E keyOffset keyLength BaseOpsErrorShouldFailExecution (-1) h (\<lambda>key. do {
       let timeLockKey = CustomStorageKey TimeLockKeyPrefix key;
       ((storageStatus, err), h) \<leftarrow> SetProtectedStorage E timeLockKey (big_Bytes (sint lockTimestamp)) h;
       no_fault E err BaseOpsErrorShouldFailExecution (-1) h (Some (storage_status_int storageStatus, h))
     })
   }"

definition v1_3_getStorageLock ::
  "'w vmEnv \<Rightarrow> i32 \<Rightarrow> i32 \<Rightarrow> ('w, i64) hook" where
  "v1_3_getStorageLock E keyOffset keyLength h = do {
     h \<leftarrow> UseGas (baseOpsCost StorageLoadCost h) h;
     load_then E keyOffset keyLength BaseOpsErrorShouldFailExecution (-1) h (\<lambda>key. do {
       let timeLockKey = CustomStorageKey TimeLockKeyPrefix key;
       (data, h) \<leftarrow> GetStorage E timeLockKey h;
       Some (low64 (big_SetBytes data), h)
     })
   }"

definition v1_3_getBlockTimestamp :: "'w vmEnv \<Rightarrow> ('w, i64) hook" where
  "v1_3_getBlockTimestamp E h = do {
     h \<leftarrow> UseGas (baseOpsCost GetBlockTimeStampCost h) h;
     Some (CurrentTimeStamp E h, h)
   }"

definition v1_3_isStorageLocked ::
  "'w vmEnv \<Rightarrow> i32 \<Rightarrow> i32 \<Rightarrow> ('w, i32) hook" where
  "v1_3_isStorageLocked E keyOffset keyLength h = do {
     (timeLock, h) \<leftarrow> v1_3_getStorageLock E keyOffset keyLength h;
     if timeLock <s 0 then Some (-1, h)
     else do {
       (currentTimestamp, h) \<leftarrow> v1_3_getBlockTimestamp E h;
       Some (if timeLock \<le>s currentTimestamp then 0 else 1, h)
     }
   }"

definition v1_3_clearStorageLock :: "'w vmEnv \<Rightarrow> i32 \<Rightarrow> i32 \<Rightarrow> ('w, i32) hook" where
  "v1_3_clearStorageLock E keyOffset keyLength = v1_3_setStorageLock E keyOffset keyLength 0"

definition v1_3_getCurrentESDTNFTNonce ::
  "'w vmEnv \<Rightarrow> i32 \<Rightarrow> i32 \<Rightarrow> i32 \<Rightarrow> ('w, i64) hook" where
  "v1_3_getCurrentESDTNFTNonce E addressOffset tokenIDOffset tokenIDLen h = do {
     h \<leftarrow> UseGas (baseOpsCost StorageLoadCost h) h;
     r \<leftarrow> memLoad addressOffset (of_nat AddressLen) h;
     case r of
       Inl _ \<Rightarrow> Some (0, h)
     | Inr destination \<Rightarrow> do {
         r \<leftarrow> memLoad tokenIDOffset tokenIDLen h;
         case r of
           Inl _ \<Rightarrow> Some (0, h)
         | Inr tokenID \<Rightarrow> do {
             let key = bytes_of_string (env_ProtectedKeyPrefix E @ env_ESDTNFTLatestNonceIdentifier E) @ tokenID;
             (data, h) \<leftarrow> GetStorageFromAddress E destination key h;
             Some (low64 (big_SetBytes data), h)
           }
       }
   }"

section \<open>Arguments in memory\<close>

text \<open>
  The lengths of the arguments are little-endian 32-bit numbers. The code makes an array of
  \<open>numIntegers\<close> zeros and fills it from the bytes; more bytes than that would write out of
  range, fewer than four at the end would slice out of range.
\<close>

fun int32_entries :: "bytes \<Rightarrow> i32 list option" where
  "int32_entries [] = Some []"
| "int32_entries (b0 # b1 # b2 # b3 # rest) = do {
     entries \<leftarrow> int32_entries rest;
     Some ((ucast b0 + push_bit 8 (ucast b1) + push_bit 16 (ucast b2) + push_bit 24 (ucast b3)) # entries)
   }"
| "int32_entries _ = None"

definition createInt32Array :: "bytes \<Rightarrow> i32 \<Rightarrow> i32 list option" where
  "createInt32Array rawData numIntegers = do {
     entries \<leftarrow> int32_entries rawData;
     let size = nat (sint numIntegers);
     if length entries \<le> size then Some (entries @ replicate (size - length entries) 0) else None
   }"

definition getArgumentsFromMemory ::
  "i32 \<Rightarrow> i32 \<Rightarrow> i32 \<Rightarrow> 'w vmHost \<Rightarrow> (bytes list \<times> i32 \<times> go_error option) option" where
  "getArgumentsFromMemory numArguments argumentsLengthOffset dataOffset h =
     (if numArguments <s 0 then Some ([], 0, Some (OtherError ''negative numArguments''))
      else do {
        r \<leftarrow> memLoad argumentsLengthOffset (numArguments * 4) h;
        case r of
          Inl err \<Rightarrow> Some ([], 0, Some err)
        | Inr argumentsLengthData \<Rightarrow> do {
            argumentLengths \<leftarrow> createInt32Array argumentsLengthData numArguments;
            r \<leftarrow> MemLoadMultiple dataOffset argumentLengths (host_runtime h);
            case r of
              Inl err \<Rightarrow> Some ([], 0, Some err)
            | Inr data \<Rightarrow> Some (data, sum_list argumentLengths, None)
          }
      })"

section \<open>Logs and results\<close>

fun load_topics :: "i32 \<Rightarrow> nat \<Rightarrow> 'w vmHost \<Rightarrow> (go_error + bytes list) option" where
  "load_topics topicPtr 0 h = Some (Inr [])"
| "load_topics topicPtr (Suc n) h = do {
     r \<leftarrow> memLoad topicPtr (of_nat HashLen) h;
     case r of
       Inl err \<Rightarrow> Some (Inl err)
     | Inr topic \<Rightarrow> do {
         rest \<leftarrow> load_topics (topicPtr + of_nat HashLen) n h;
         Some (map_sum (\<lambda>err. err) (\<lambda>topics. topic # topics) rest)
       }
   }"

definition v1_3_writeLog ::
  "'w vmEnv \<Rightarrow> i32 \<Rightarrow> i32 \<Rightarrow> i32 \<Rightarrow> i32 \<Rightarrow> ('w, unit) hook" where
  "v1_3_writeLog E dataPointer dataLength topicPtr numTopics h = do {
     let gas = MulUint64 (baseCost PersistPerByte h) (u64_of_i32 (numTopics * of_nat HashLen + dataLength));
     h \<leftarrow> UseGas (AddUint64 (baseOpsCost LogCost h) gas) h;
     load_then E dataPointer dataLength BaseOpsErrorShouldFailExecution () h (\<lambda>log.
       or_fault E (GuardedMakeByteSlice2D numTopics) BaseOpsErrorShouldFailExecution () h (\<lambda>_. do {
         topics \<leftarrow> load_topics topicPtr (nat (sint numTopics)) h;
         or_fault E topics BaseOpsErrorShouldFailExecution () h (\<lambda>topics.
           Some ((), WriteLog (rc_scAddress (host_runtime h)) topics log h))
       }))
   }"

definition v1_3_writeEventLog ::
  "'w vmEnv \<Rightarrow> i32 \<Rightarrow> i32 \<Rightarrow> i32 \<Rightarrow> i32 \<Rightarrow> i32 \<Rightarrow> ('w, unit) hook" where
  "v1_3_writeEventLog E numTopics topicLengthsOffset topicOffset dataOffset dataLength h = do {
     (topics, topicDataTotalLen, err) \<leftarrow> getArgumentsFromMemory numTopics topicLengthsOffset topicOffset h;
     no_fault E err BaseOpsErrorShouldFailExecution () h
       (load_then E dataOffset dataLength BaseOpsErrorShouldFailExecution () h (\<lambda>data. do {
         let gasForData = MulUint64 (baseCost DataCopyPerByte h) (u64_of_i32 (topicDataTotalLen + dataLength));
         h \<leftarrow> UseGas (AddUint64 (baseOpsCost LogCost h) gasForData) h;
         Some ((), WriteLog (rc_scAddress (host_runtime h)) topics data h)
       }))
   }"

definition v1_3_returnData ::
  "'w vmEnv \<Rightarrow> i32 \<Rightarrow> i32 \<Rightarrow> ('w, unit) hook" where
  "v1_3_returnData E pointer len h = do {
     let gas = MulUint64 (baseCost PersistPerByte h) (u64_of_i32 len);
     h \<leftarrow> UseGas (AddUint64 (baseOpsCost FinishCost h) gas) h;
     load_then E pointer len BaseOpsErrorShouldFailExecution () h (\<lambda>data.
       Some ((), upd_output (Finish data) h))
   }"

definition v1_3_getNumReturnData :: "'w vmEnv \<Rightarrow> ('w, i32) hook" where
  "v1_3_getNumReturnData E h = do {
     h \<leftarrow> UseGas (baseOpsCost GetNumReturnDataCost h) h;
     let returnData = vo_ReturnData (oc_outputState (host_output h));
     Some (len32 returnData, h)
   }"

definition v1_3_getReturnDataSize :: "'w vmEnv \<Rightarrow> i32 \<Rightarrow> ('w, i32) hook" where
  "v1_3_getReturnDataSize E resultID h = do {
     h \<leftarrow> UseGas (baseOpsCost GetReturnDataSizeCost h) h;
     let returnData = vo_ReturnData (oc_outputState (host_output h));
     if len32 returnData \<le>s resultID then Some (0, h)
     else do {
       data \<leftarrow> go_index returnData (sint resultID);
       Some (len32 data, h)
     }
   }"

definition v1_3_getReturnData ::
  "'w vmEnv \<Rightarrow> i32 \<Rightarrow> i32 \<Rightarrow> ('w, i32) hook" where
  "v1_3_getReturnData E resultID dataOffset h = do {
     h \<leftarrow> UseGas (baseOpsCost GetReturnDataCost h) h;
     let returnData = vo_ReturnData (oc_outputState (host_output h));
     if len32 returnData \<le>s resultID then Some (0, h)
     else do {
       data \<leftarrow> go_index returnData (sint resultID);
       store_then E dataOffset data BaseOpsErrorShouldFailExecution 0 h (\<lambda>h. Some (len32 data, h))
     }
   }"

section \<open>The block\<close>

definition v1_3_getBlockNonce :: "'w vmEnv \<Rightarrow> ('w, i64) hook" where
  "v1_3_getBlockNonce E h = do {
     h \<leftarrow> UseGas (baseOpsCost GetBlockNonceCost h) h;
     Some (CurrentNonce E h, h)
   }"

definition v1_3_getBlockRound :: "'w vmEnv \<Rightarrow> ('w, i64) hook" where
  "v1_3_getBlockRound E h = do {
     h \<leftarrow> UseGas (baseOpsCost GetBlockRoundCost h) h;
     Some (CurrentRound E h, h)
   }"

definition v1_3_getBlockEpoch :: "'w vmEnv \<Rightarrow> ('w, i64) hook" where
  "v1_3_getBlockEpoch E h = do {
     h \<leftarrow> UseGas (baseOpsCost GetBlockEpochCost h) h;
     Some (ucast (CurrentEpoch E h), h)
   }"

definition v1_3_getBlockRandomSeed :: "'w vmEnv \<Rightarrow> i32 \<Rightarrow> ('w, unit) hook" where
  "v1_3_getBlockRandomSeed E pointer h = do {
     h \<leftarrow> UseGas (baseOpsCost GetBlockRandomSeedCost h) h;
     store_then E pointer (CurrentRandomSeed E h) BaseOpsErrorShouldFailExecution () h (\<lambda>h. Some ((), h))
   }"

definition v1_3_getStateRootHash :: "'w vmEnv \<Rightarrow> i32 \<Rightarrow> ('w, unit) hook" where
  "v1_3_getStateRootHash E pointer h = do {
     h \<leftarrow> UseGas (baseOpsCost GetStateRootHashCost h) h;
     store_then E pointer (GetStateRootHash E h) BaseOpsErrorShouldFailExecution () h (\<lambda>h. Some ((), h))
   }"

definition v1_3_getPrevBlockTimestamp :: "'w vmEnv \<Rightarrow> ('w, i64) hook" where
  "v1_3_getPrevBlockTimestamp E h = do {
     h \<leftarrow> UseGas (baseOpsCost GetBlockTimeStampCost h) h;
     Some (LastTimeStamp E h, h)
   }"

definition v1_3_getPrevBlockNonce :: "'w vmEnv \<Rightarrow> ('w, i64) hook" where
  "v1_3_getPrevBlockNonce E h = do {
     h \<leftarrow> UseGas (baseOpsCost GetBlockNonceCost h) h;
     Some (LastNonce E h, h)
   }"

definition v1_3_getPrevBlockRound :: "'w vmEnv \<Rightarrow> ('w, i64) hook" where
  "v1_3_getPrevBlockRound E h = do {
     h \<leftarrow> UseGas (baseOpsCost GetBlockRoundCost h) h;
     Some (LastRound E h, h)
   }"

definition v1_3_getPrevBlockEpoch :: "'w vmEnv \<Rightarrow> ('w, i64) hook" where
  "v1_3_getPrevBlockEpoch E h = do {
     h \<leftarrow> UseGas (baseOpsCost GetBlockEpochCost h) h;
     Some (ucast (LastEpoch E h), h)
   }"

definition v1_3_getPrevBlockRandomSeed ::
  "'w vmEnv \<Rightarrow> i32 \<Rightarrow> ('w, unit) hook" where
  "v1_3_getPrevBlockRandomSeed E pointer h = do {
     h \<leftarrow> UseGas (baseOpsCost GetBlockRandomSeedCost h) h;
     store_then E pointer (LastRandomSeed E h) BaseOpsErrorShouldFailExecution () h (\<lambda>h. Some ((), h))
   }"

end
