(* ===== verification/CallOps.thy ===== *)
theory CallOps
  imports BaseOps
begin

text \<open>
  The hooks of \<open>vmhooks/baseOps.go\<close> that transfer value, call other contracts, register
  asynchronous calls and deploy and upgrade contracts. As in the theory HostExecution, the
  nested execution is the argument \<open>onDest\<close>.
\<close>

section \<open>Preparing a call\<close>

definition isBuiltInCall :: "'w vmEnv \<Rightarrow> bytes \<Rightarrow> bool" where
  "isBuiltInCall E data =
     (let functionName = (case env_ParseData E data of Inl _ \<Rightarrow> [] | Inr (f, _) \<Rightarrow> f)
      in IsBuiltinFunctionName E functionName)"

record indirectContractCallArguments =
  ia_dest :: address
  ia_value :: "int option"
  ia_function :: bytes
  ia_args :: "bytes list"
  ia_actualLen :: i32

text \<open>The error of reading the arguments is ignored; the call then has none.\<close>

definition extractIndirectContractCallArguments ::
  "i32 \<Rightarrow> i32 \<Rightarrow> bool \<Rightarrow> i32 \<Rightarrow> i32 \<Rightarrow> i32 \<Rightarrow> i32 \<Rightarrow> i32 \<Rightarrow>
   ('w, go_error + indirectContractCallArguments) hook" where
  "extractIndirectContractCallArguments destOffset valueOffset hasValueOffset functionOffset functionLength
     numArguments argumentsLengthOffset dataOffset h = do {
     r \<leftarrow> memLoad destOffset (of_nat AddressLen) h;
     case r of
       Inl err \<Rightarrow> Some (Inl err, h)
     | Inr dest \<Rightarrow> do {
         r \<leftarrow> (if hasValueOffset then memLoad valueOffset (of_nat BalanceLen) h else Some (Inr []));
         case r of
           Inl err \<Rightarrow> Some (Inl err, h)
         | Inr valueBytes \<Rightarrow> do {
             let val = (if hasValueOffset then Some (big_SetBytes valueBytes) else None);
             r \<leftarrow> memLoad functionOffset functionLength h;
             case r of
               Inl err \<Rightarrow> Some (Inl err, h)
             | Inr function \<Rightarrow> do {
                 (args, actualLen, _) \<leftarrow> getArgumentsFromMemory numArguments argumentsLengthOffset dataOffset h;
                 h \<leftarrow> UseGas (MulUint64 (baseCost DataCopyPerByte h) (u64_of_i32 actualLen)) h;
                 Some (Inr \<lparr>ia_dest = dest, ia_value = val, ia_function = function, ia_args = args,
                   ia_actualLen = actualLen\<rparr>, h)
               }
           }
       }
   }"

definition extractIndirectContractCallArgumentsWithValue ::
  "i32 \<Rightarrow> i32 \<Rightarrow> i32 \<Rightarrow> i32 \<Rightarrow> i32 \<Rightarrow> i32 \<Rightarrow> i32 \<Rightarrow> ('w, go_error + indirectContractCallArguments) hook" where
  "extractIndirectContractCallArgumentsWithValue destOffset valueOffset functionOffset functionLength
     numArguments argumentsLengthOffset dataOffset =
     extractIndirectContractCallArguments destOffset valueOffset True functionOffset functionLength
       numArguments argumentsLengthOffset dataOffset"

definition extractIndirectContractCallArgumentsWithoutValue ::
  "i32 \<Rightarrow> i32 \<Rightarrow> i32 \<Rightarrow> i32 \<Rightarrow> i32 \<Rightarrow> i32 \<Rightarrow> ('w, go_error + indirectContractCallArguments) hook" where
  "extractIndirectContractCallArgumentsWithoutValue destOffset functionOffset functionLength
     numArguments argumentsLengthOffset dataOffset =
     extractIndirectContractCallArguments destOffset 0 False functionOffset functionLength
       numArguments argumentsLengthOffset dataOffset"

definition prepareIndirectContractCallInput ::
  "'w vmEnv \<Rightarrow> address \<Rightarrow> int option \<Rightarrow> i64 \<Rightarrow> address \<Rightarrow> bytes \<Rightarrow> bytes list \<Rightarrow> u64 \<Rightarrow> bool \<Rightarrow> 'w vmHost \<Rightarrow>
   go_error + ContractCallInput" where
  "prepareIndirectContractCallInput E sender val gasLimit destination function data gasToUse
     syncExecutionRequired h =
     (if syncExecutionRequired \<and> \<not> AreInSameShard E (rc_scAddress (host_runtime h)) destination h
      then Inl (Sentinel ErrSyncExecutionNotInSameShard)
      else Inr \<lparr>ci_VMInput = emptyVMInput\<lparr>vi_CallerAddr := sender, vi_Arguments := data,
                  vi_CallValue := val, vi_GasProvided := BoundGasLimit gasLimit h\<rparr>,
                ci_RecipientAddr = destination, ci_Function = string_of_bytes function,
                ci_AllowInitFunction = False\<rparr>)"

section \<open>Transfers\<close>

definition v1_3_transferValue :: "'w vmEnv \<Rightarrow> i32 \<Rightarrow> i32 \<Rightarrow> i32 \<Rightarrow> i32 \<Rightarrow> ('w, i32) hook" where
  "v1_3_transferValue E destOffset valueOffset dataOffset len h = do {
     h \<leftarrow> UseGas (baseOpsCost TransferValueCost h) h;
     let sender = rc_scAddress (host_runtime h);
     load_then E destOffset (of_nat AddressLen) BaseOpsErrorShouldFailExecution 1 h (\<lambda>dest.
     load_then E valueOffset (of_nat BalanceLen) BaseOpsErrorShouldFailExecution 1 h (\<lambda>valueBytes. do {
       h \<leftarrow> UseGas (MulUint64 (baseCost PersistPerByte h) (u64_of_i32 len)) h;
       load_then E dataOffset len BaseOpsErrorShouldFailExecution 1 h (\<lambda>data.
         if isBuiltInCall E data then Some (1, h)
         else do {
           (err, h) \<leftarrow> Transfer E dest sender 0 0 (big_SetBytes valueBytes) data DirectCall h;
           no_fault E err BaseOpsErrorShouldFailExecution 1 h (Some (0, h))
         })
     }))
   }"

definition makeCrossShardCallFromInput :: "ContractCallInput option \<Rightarrow> bytes" where
  "makeCrossShardCallFromInput vmInput =
     (case vmInput of
        None \<Rightarrow> []
      | Some i \<Rightarrow> bytes_of_string (ci_Function i) @ hex_args (vi_Arguments (ci_VMInput i)))"

definition TransferValueExecuteWithTypedArgs ::
  "'w vmEnv \<Rightarrow> 'w dest_call \<Rightarrow> address \<Rightarrow> int option \<Rightarrow> i64 \<Rightarrow> bytes option \<Rightarrow> bytes list \<Rightarrow> ('w, i32) hook" where
  "TransferValueExecuteWithTypedArgs E onDest dest val gasLimit function args h = do {
     let gasToUse = baseOpsCost TransferValueCost h;
     h \<leftarrow> UseGas gasToUse h;
     let sender = rc_scAddress (host_runtime h);
     let r = (case function of
                None \<Rightarrow> Inr None
              | Some f \<Rightarrow> map_sum (\<lambda>err. err) Some
                  (prepareIndirectContractCallInput E sender val gasLimit dest f args gasToUse False h));
     or_fault E r BaseOpsErrorShouldFailExecution 1 h (\<lambda>contractCallInput.
       if (case contractCallInput of Some i \<Rightarrow> IsBuiltinFunctionName E (ci_Function i) | None \<Rightarrow> False)
       then Some (1, h)
       else case (if AreInSameShard E sender dest h \<and> IsSmartContract E dest h then contractCallInput else None) of
         Some i \<Rightarrow> do {
           ((_, _, err), h) \<leftarrow> onDest i h;
           Some (if err \<noteq> None then 1 else 0, h)
         }
       | None \<Rightarrow> do {
           v \<leftarrow> val;
           (err, h) \<leftarrow> Transfer E dest sender gasLimit 0 v (makeCrossShardCallFromInput contractCallInput)
                        DirectCall h;
           no_fault E err BaseOpsErrorShouldFailExecution 1 h (Some (0, h))
         })
   }"

definition TransferValueExecuteWithHost ::
  "'w vmEnv \<Rightarrow> 'w dest_call \<Rightarrow> i32 \<Rightarrow> i32 \<Rightarrow> i64 \<Rightarrow> i32 \<Rightarrow> i32 \<Rightarrow> i32 \<Rightarrow> i32 \<Rightarrow> i32 \<Rightarrow> ('w, i32) hook" where
  "TransferValueExecuteWithHost E onDest destOffset valueOffset gasLimit functionOffset functionLength
     numArguments argumentsLengthOffset dataOffset h = do {
     h \<leftarrow> UseGas (baseOpsCost TransferValueCost h) h;
     (callArgs, h) \<leftarrow> extractIndirectContractCallArgumentsWithValue destOffset valueOffset functionOffset
        functionLength numArguments argumentsLengthOffset dataOffset h;
     or_fault E callArgs BaseOpsErrorShouldFailExecution 1 h (\<lambda>a.
       TransferValueExecuteWithTypedArgs E onDest (ia_dest a) (ia_value a) gasLimit (Some (ia_function a))
         (ia_args a) h)
   }"

definition v1_3_transferValueExecute ::
  "'w vmEnv \<Rightarrow> 'w dest_call \<Rightarrow> i32 \<Rightarrow> i32 \<Rightarrow> i64 \<Rightarrow> i32 \<Rightarrow> i32 \<Rightarrow> i32 \<Rightarrow> i32 \<Rightarrow> i32 \<Rightarrow> ('w, i32) hook" where
  "v1_3_transferValueExecute = TransferValueExecuteWithHost"

definition v1_3_transferESDT ::
  "'w vmEnv \<Rightarrow> i32 \<Rightarrow> i32 \<Rightarrow> i32 \<Rightarrow> i32 \<Rightarrow> i64 \<Rightarrow> i32 \<Rightarrow> i32 \<Rightarrow> ('w, i32) hook" where
  "v1_3_transferESDT E destOffset tokenIDOffset tokenIDLen valueOffset gasLimit dataOffset len h = do {
     h \<leftarrow> UseGas (baseOpsCost TransferValueCost h) h;
     h \<leftarrow> UseGas (MulUint64 (baseCost PersistPerByte h) (u64_of_i32 len)) h;
     Some (1, h)
   }"

text \<open>
  The call after a transfer of tokens. The snapshot is taken before the transfer; a call that
  fails reverts the node to it.
\<close>

definition TransferESDTNFTExecuteWithTypedArgs ::
  "'w vmEnv \<Rightarrow> 'w dest_call \<Rightarrow> int \<Rightarrow> bytes \<Rightarrow> address \<Rightarrow> i64 \<Rightarrow> i64 \<Rightarrow> bytes option \<Rightarrow> bytes list \<Rightarrow> ('w, i32) hook" where
  "TransferESDTNFTExecuteWithTypedArgs E onDest esdtValue esdtTokenName dest nonce gasLimit function data h = do {
     let gasToUse = baseOpsCost TransferValueCost h;
     h \<leftarrow> UseGas gasToUse h;
     let sender = rc_scAddress (host_runtime h);
     let r = (case function of
                None \<Rightarrow> Inr None
              | Some f \<Rightarrow> map_sum (\<lambda>err. err) Some
                  (prepareIndirectContractCallInput E sender (Some 0) gasLimit dest f data gasToUse False h));
     or_fault E r SyncExecAPIErrorShouldFailExecution 1 h (\<lambda>contractCallInput. do {
       let esdtTokenType = (if 0 <s nonce then env_NonFungible E else env_Fungible E);
       let contractCallInput = map_option (\<lambda>i. i\<lparr>ci_VMInput := (ci_VMInput i)\<lparr>vi_ESDTTransfers :=
             [\<lparr>et_Value = esdtValue, et_TokenType = esdtTokenType, et_TokenNonce = nonce,
               et_TokenName = esdtTokenName\<rparr>]\<rparr>\<rparr>) contractCallInput;
       let snapshotBeforeTransfer = hook_GetSnapshot (env_hook E) (host_world h);
       (gasLimitForExec, executeErr, h) \<leftarrow>
         TransferESDT E dest sender esdtTokenName nonce esdtValue contractCallInput h;
       no_fault E executeErr BaseOpsErrorShouldFailExecution 1 h
         (case (if AreInSameShard E sender dest h \<and> IsSmartContract E dest h then contractCallInput else None) of
            Some i \<Rightarrow> do {
              ((_, _, executeErr), h) \<leftarrow>
                onDest (i\<lparr>ci_VMInput := (ci_VMInput i)\<lparr>vi_GasProvided := gasLimitForExec\<rparr>\<rparr>) h;
              if executeErr \<noteq> None then Some (1, RevertToSnapshot E snapshotBeforeTransfer h)
              else Some (0, h)
            }
          | None \<Rightarrow> Some (0, h))
     })
   }"

definition TransferESDTNFTExecuteWithHost ::
  "'w vmEnv \<Rightarrow> 'w dest_call \<Rightarrow> i32 \<Rightarrow> i32 \<Rightarrow> i32 \<Rightarrow> i32 \<Rightarrow> i64 \<Rightarrow> i64 \<Rightarrow> i32 \<Rightarrow> i32 \<Rightarrow> i32 \<Rightarrow> i32 \<Rightarrow> i32 \<Rightarrow>
   ('w, i32) hook" where
  "TransferESDTNFTExecuteWithHost E onDest destOffset tokenIDOffset tokenIDLen valueOffset nonce gasLimit
     functionOffset functionLength numArguments argumentsLengthOffset dataOffset h =
     load_then E tokenIDOffset tokenIDLen BaseOpsErrorShouldFailExecution 1 h (\<lambda>tokenIdentifier. do {
       (callArgs, h) \<leftarrow> extractIndirectContractCallArgumentsWithValue destOffset valueOffset functionOffset
          functionLength numArguments argumentsLengthOffset dataOffset h;
       or_fault E callArgs BaseOpsErrorShouldFailExecution 1 h (\<lambda>a. do {
         h \<leftarrow> UseGas (MulUint64 (baseCost DataCopyPerByte h) (u64_of_i32 (ia_actualLen a))) h;
         esdtValue \<leftarrow> ia_value a;
         TransferESDTNFTExecuteWithTypedArgs E onDest esdtValue tokenIdentifier (ia_dest a) nonce gasLimit
           (Some (ia_function a)) (ia_args a) h
       })
     })"

definition v1_3_transferESDTNFTExecute ::
  "'w vmEnv \<Rightarrow> 'w dest_call \<Rightarrow> i32 \<Rightarrow> i32 \<Rightarrow> i32 \<Rightarrow> i32 \<Rightarrow> i64 \<Rightarrow> i64 \<Rightarrow> i32 \<Rightarrow> i32 \<Rightarrow> i32 \<Rightarrow> i32 \<Rightarrow> i32 \<Rightarrow>
   ('w, i32) hook" where
  "v1_3_transferESDTNFTExecute = TransferESDTNFTExecuteWithHost"

definition v1_3_transferESDTExecute ::
  "'w vmEnv \<Rightarrow> 'w dest_call \<Rightarrow> i32 \<Rightarrow> i32 \<Rightarrow> i32 \<Rightarrow> i32 \<Rightarrow> i64 \<Rightarrow> i32 \<Rightarrow> i32 \<Rightarrow> i32 \<Rightarrow> i32 \<Rightarrow> i32 \<Rightarrow>
   ('w, i32) hook" where
  "v1_3_transferESDTExecute E onDest destOffset tokenIDOffset tokenIDLen valueOffset =
     v1_3_transferESDTNFTExecute E onDest destOffset tokenIDOffset tokenIDLen valueOffset 0"

section \<open>Asynchronous calls\<close>

definition v1_3_createAsyncCall ::
  "'w vmEnv \<Rightarrow> i32 \<Rightarrow> i32 \<Rightarrow> i32 \<Rightarrow> i32 \<Rightarrow> i32 \<Rightarrow> i32 \<Rightarrow> i32 \<Rightarrow> i32 \<Rightarrow> i32 \<Rightarrow> i32 \<Rightarrow> i64 \<Rightarrow> ('w, unit) hook" where
  "v1_3_createAsyncCall E asyncContextIdentifier identifierLength destOffset valueOffset dataOffset len
     successOffset successLength errorOffset errorLength gas h =
     load_then E asyncContextIdentifier identifierLength BaseOpsErrorShouldFailExecution () h (\<lambda>acIdentifier.
     load_then E destOffset (of_nat AddressLen) BaseOpsErrorShouldFailExecution () h (\<lambda>calledSCAddress.
     load_then E valueOffset (of_nat BalanceLen) BaseOpsErrorShouldFailExecution () h (\<lambda>val.
     load_then E dataOffset len BaseOpsErrorShouldFailExecution () h (\<lambda>data.
     load_then E successOffset successLength BaseOpsErrorShouldFailExecution () h (\<lambda>successFunc.
     load_then E errorOffset errorLength BaseOpsErrorShouldFailExecution () h (\<lambda>errorFunc.
       Some ((), upd_runtime (AddAsyncContextCall acIdentifier
         \<lparr>agc_Status = AsyncCallPending, agc_Destination = calledSCAddress, agc_Data = data,
          agc_GasLimit = 0, agc_ValueBytes = val, agc_SuccessCallback = string_of_bytes successFunc,
          agc_ErrorCallback = string_of_bytes errorFunc, agc_ProvidedGas = gas\<rparr>) h)))))))"

definition set_context_callback :: "bytes \<Rightarrow> AsyncContext \<Rightarrow> runtimeContext \<Rightarrow> runtimeContext" where
  "set_context_callback identifier asyncContext c =
     c\<lparr>rc_asyncContextInfo := (rc_asyncContextInfo c)\<lparr>aco_AsyncContextMap :=
         map_put identifier asyncContext (aco_AsyncContextMap (rc_asyncContextInfo c))\<rparr>\<rparr>"

definition v1_3_setAsyncContextCallback :: "'w vmEnv \<Rightarrow> i32 \<Rightarrow> i32 \<Rightarrow> i32 \<Rightarrow> i32 \<Rightarrow> ('w, i32) hook" where
  "v1_3_setAsyncContextCallback E asyncContextIdentifier identifierLength callback callbackLength h =
     load_then E asyncContextIdentifier identifierLength BaseOpsErrorShouldFailExecution (-1) h (\<lambda>acIdentifier.
     or_fault E (GetAsyncContext acIdentifier (host_runtime h)) BaseOpsErrorShouldFailExecution (-1) h (\<lambda>asyncContext.
     load_then E callback callbackLength BaseOpsErrorShouldFailExecution (-1) h (\<lambda>callbackFunc.
       Some (0, upd_runtime (set_context_callback acIdentifier
         (asyncContext\<lparr>ac_Callback := string_of_bytes callbackFunc\<rparr>)) h))))"

definition v1_3_asyncCall :: "'w vmEnv \<Rightarrow> i32 \<Rightarrow> i32 \<Rightarrow> i32 \<Rightarrow> i32 \<Rightarrow> ('w, unit) hook" where
  "v1_3_asyncCall E destOffset valueOffset dataOffset len h = do {
     h \<leftarrow> UseGas (baseOpsCost AsyncCallStep h) h;
     load_then E destOffset (of_nat AddressLen) BaseOpsErrorShouldFailExecution () h (\<lambda>calledSCAddress.
     load_then E valueOffset (of_nat BalanceLen) BaseOpsErrorShouldFailExecution () h (\<lambda>val. do {
       h \<leftarrow> UseGas (MulUint64 (baseCost DataCopyPerByte h) (u64_of_i32 len)) h;
       load_then E dataOffset len BaseOpsErrorShouldFailExecution () h (\<lambda>data. do {
         (err, h) \<leftarrow> ExecuteAsyncCall E calledSCAddress data val h;
         outOfGas \<leftarrow> (case err of None \<Rightarrow> Some False | Some e \<Rightarrow> errors_Is e ErrNotEnoughGas);
         if outOfGas then do {
           h \<leftarrow> with_runtime (SetRuntimeBreakpointValue BreakpointOutOfGas) h;
           Some ((), h)
         }
         else no_fault E err BaseOpsErrorShouldFailExecution () h (Some ((), h))
       })
     }))
   }"

section \<open>Upgrades\<close>

definition upgradeContract_hook ::
  "'w vmEnv \<Rightarrow> address \<Rightarrow> bytes \<Rightarrow> bytes \<Rightarrow> bytes \<Rightarrow> bytes list \<Rightarrow> i64 \<Rightarrow> ('w, unit) hook" where
  "upgradeContract_hook E destContractAddress code codeMetadata val data gasLimit h =
     (let minAsyncCallCost = AddUint64 (MulUint64 2 (baseOpsCost AsyncCallStep h))
            (baseOpsCost AsyncCallbackGasLock h)
      in if gasLimit < minAsyncCallCost then do {
           h \<leftarrow> with_runtime (SetRuntimeBreakpointValue BreakpointOutOfGas) h;
           Some ((), h)
         }
         else do {
           let callData = bytes_of_string UpgradeFunctionName @ hex_args ([code, codeMetadata] @ data);
           (_, h) \<leftarrow> ExecuteAsyncCall E destContractAddress callData val h;
           Some ((), h)
         })"

definition v1_3_upgradeContract ::
  "'w vmEnv \<Rightarrow> i32 \<Rightarrow> i64 \<Rightarrow> i32 \<Rightarrow> i32 \<Rightarrow> i32 \<Rightarrow> i32 \<Rightarrow> i32 \<Rightarrow> i32 \<Rightarrow> i32 \<Rightarrow> ('w, unit) hook" where
  "v1_3_upgradeContract E destOffset gasLimit valueOffset codeOffset codeMetadataOffset len
     numArguments argumentsLengthOffset dataOffset h = do {
     h \<leftarrow> UseGas (baseOpsCost CreateContractCost h) h;
     load_then E valueOffset (of_nat BalanceLen) BaseOpsErrorShouldFailExecution () h (\<lambda>val.
     load_then E codeOffset len BaseOpsErrorShouldFailExecution () h (\<lambda>code.
     load_then E codeMetadataOffset (of_nat CodeMetadataLen) BaseOpsErrorShouldFailExecution () h (\<lambda>codeMetadata. do {
       (data, actualLen, err) \<leftarrow> getArgumentsFromMemory numArguments argumentsLengthOffset dataOffset h;
       h \<leftarrow> UseGas (MulUint64 (baseCost DataCopyPerByte h) (u64_of_i32 actualLen)) h;
       no_fault E err BaseOpsErrorShouldFailExecution () h
         (load_then E destOffset (of_nat AddressLen) BaseOpsErrorShouldFailExecution () h (\<lambda>calledSCAddress. do {
            h \<leftarrow> UseGas (MulUint64 (baseCost DataCopyPerByte h) (u64_of_i32 len)) h;
            upgradeContract_hook E calledSCAddress code codeMetadata val data gasLimit h
          }))
     })))
   }"

definition UpgradeFromSourceContractWithTypedArgs ::
  "'w vmEnv \<Rightarrow> address \<Rightarrow> address \<Rightarrow> bytes \<Rightarrow> bytes list \<Rightarrow> i64 \<Rightarrow> bytes \<Rightarrow> ('w, unit) hook" where
  "UpgradeFromSourceContractWithTypedArgs E sourceContractAddress destContractAddress val data gasLimit codeMetadata h =
     (let (r, h) = blockchain_GetCode E sourceContractAddress h
      in or_fault E r BaseOpsErrorShouldFailExecution () h (\<lambda>code.
           upgradeContract_hook E destContractAddress code codeMetadata val data gasLimit h))"

definition v1_3_upgradeFromSourceContract ::
  "'w vmEnv \<Rightarrow> i32 \<Rightarrow> i64 \<Rightarrow> i32 \<Rightarrow> i32 \<Rightarrow> i32 \<Rightarrow> i32 \<Rightarrow> i32 \<Rightarrow> i32 \<Rightarrow> ('w, unit) hook" where
  "v1_3_upgradeFromSourceContract E destOffset gasLimit valueOffset sourceContractAddressOffset codeMetadataOffset
     numArguments argumentsLengthOffset dataOffset h = do {
     h \<leftarrow> UseGas (baseOpsCost CreateContractCost h) h;
     load_then E valueOffset (of_nat BalanceLen) BaseOpsErrorShouldFailExecution () h (\<lambda>val.
     load_then E sourceContractAddressOffset (of_nat AddressLen) BaseOpsErrorShouldFailExecution () h (\<lambda>sourceContractAddress.
     load_then E codeMetadataOffset (of_nat CodeMetadataLen) BaseOpsErrorShouldFailExecution () h (\<lambda>codeMetadata. do {
       (data, actualLen, err) \<leftarrow> getArgumentsFromMemory numArguments argumentsLengthOffset dataOffset h;
       h \<leftarrow> UseGas (MulUint64 (baseCost DataCopyPerByte h) (u64_of_i32 actualLen)) h;
       no_fault E err BaseOpsErrorShouldFailExecution () h
         (load_then E destOffset (of_nat AddressLen) BaseOpsErrorShouldFailExecution () h (\<lambda>calledSCAddress.
            UpgradeFromSourceContractWithTypedArgs E sourceContractAddress calledSCAddress val data gasLimit
              codeMetadata h))
     })))
   }"

section \<open>Synchronous calls\<close>

text \<open>
  Reading the arguments of a call from memory and passing them on, for the hooks with and
  without a value.
\<close>

definition ExecuteOnSameContextWithTypedArgs ::
  "'w vmEnv \<Rightarrow> 'w dest_call \<Rightarrow> i64 \<Rightarrow> int option \<Rightarrow> bytes \<Rightarrow> address \<Rightarrow> bytes list \<Rightarrow> ('w, i32) hook" where
  "ExecuteOnSameContextWithTypedArgs E onDest gasLimit val function dest args h = do {
     let gasToUse = baseOpsCost ExecuteOnSameContextCost h;
     h \<leftarrow> UseGas gasToUse h;
     let sender = rc_scAddress (host_runtime h);
     or_fault E (prepareIndirectContractCallInput E sender val gasLimit dest function args gasToUse True h)
       BaseOpsErrorShouldFailExecution 1 h (\<lambda>contractCallInput.
       if isBuiltInCall E (bytes_of_string (ci_Function contractCallInput)) then Some (1, h)
       else do {
         ((_, err), h) \<leftarrow> ExecuteOnSameContext E onDest contractCallInput h;
         no_fault E err BaseOpsErrorShouldFailExecution 1 h (Some (0, h))
       })
   }"

definition ExecuteOnSameContextWithHost ::
  "'w vmEnv \<Rightarrow> 'w dest_call \<Rightarrow> i64 \<Rightarrow> i32 \<Rightarrow> i32 \<Rightarrow> i32 \<Rightarrow> i32 \<Rightarrow> i32 \<Rightarrow> i32 \<Rightarrow> i32 \<Rightarrow> ('w, i32) hook" where
  "ExecuteOnSameContextWithHost E onDest gasLimit addressOffset valueOffset functionOffset functionLength
     numArguments argumentsLengthOffset dataOffset h = do {
     (callArgs, h) \<leftarrow> extractIndirectContractCallArgumentsWithValue addressOffset valueOffset functionOffset
        functionLength numArguments argumentsLengthOffset dataOffset h;
     or_fault E callArgs BaseOpsErrorShouldFailExecution 1 h (\<lambda>a.
       ExecuteOnSameContextWithTypedArgs E onDest gasLimit (ia_value a) (ia_function a) (ia_dest a) (ia_args a) h)
   }"

definition v1_3_executeOnSameContext ::
  "'w vmEnv \<Rightarrow> 'w dest_call \<Rightarrow> i64 \<Rightarrow> i32 \<Rightarrow> i32 \<Rightarrow> i32 \<Rightarrow> i32 \<Rightarrow> i32 \<Rightarrow> i32 \<Rightarrow> i32 \<Rightarrow> ('w, i32) hook" where
  "v1_3_executeOnSameContext = ExecuteOnSameContextWithHost"

definition ExecuteOnDestContextWithTypedArgs ::
  "'w vmEnv \<Rightarrow> 'w dest_call \<Rightarrow> i64 \<Rightarrow> int option \<Rightarrow> bytes \<Rightarrow> address \<Rightarrow> bytes list \<Rightarrow> ('w, i32) hook" where
  "ExecuteOnDestContextWithTypedArgs E onDest gasLimit val function dest args h = do {
     let gasToUse = baseOpsCost ExecuteOnDestContextCost h;
     h \<leftarrow> UseGas gasToUse h;
     let sender = rc_scAddress (host_runtime h);
     or_fault E (prepareIndirectContractCallInput E sender val gasLimit dest function args gasToUse True h)
       BaseOpsErrorShouldFailExecution 1 h (\<lambda>contractCallInput. do {
       ((_, _, err), h) \<leftarrow> onDest contractCallInput h;
       no_fault E err BaseOpsErrorShouldFailExecution 1 h (Some (0, h))
     })
   }"

definition ExecuteOnDestContextWithHost ::
  "'w vmEnv \<Rightarrow> 'w dest_call \<Rightarrow> i64 \<Rightarrow> i32 \<Rightarrow> i32 \<Rightarrow> i32 \<Rightarrow> i32 \<Rightarrow> i32 \<Rightarrow> i32 \<Rightarrow> i32 \<Rightarrow> ('w, i32) hook" where
  "ExecuteOnDestContextWithHost E onDest gasLimit addressOffset valueOffset functionOffset functionLength
     numArguments argumentsLengthOffset dataOffset h = do {
     (callArgs, h) \<leftarrow> extractIndirectContractCallArgumentsWithValue addressOffset valueOffset functionOffset
        functionLength numArguments argumentsLengthOffset dataOffset h;
     or_fault E callArgs BaseOpsErrorShouldFailExecution 1 h (\<lambda>a.
       ExecuteOnDestContextWithTypedArgs E onDest gasLimit (ia_value a) (ia_function a) (ia_dest a) (ia_args a) h)
   }"

definition v1_3_executeOnDestContext ::
  "'w vmEnv \<Rightarrow> 'w dest_call \<Rightarrow> i64 \<Rightarrow> i32 \<Rightarrow> i32 \<Rightarrow> i32 \<Rightarrow> i32 \<Rightarrow> i32 \<Rightarrow> i32 \<Rightarrow> i32 \<Rightarrow> ('w, i32) hook" where
  "v1_3_executeOnDestContext = ExecuteOnDestContextWithHost"

definition ExecuteOnDestContextByCallerWithTypedArgs ::
  "'w vmEnv \<Rightarrow> 'w dest_call \<Rightarrow> i64 \<Rightarrow> int option \<Rightarrow> bytes \<Rightarrow> address \<Rightarrow> bytes list \<Rightarrow> ('w, i32) hook" where
  "ExecuteOnDestContextByCallerWithTypedArgs E onDest gasLimit val function dest args h = do {
     let gasToUse = baseOpsCost ExecuteOnDestContextCost h;
     h \<leftarrow> UseGas gasToUse h;
     let send = vi_CallerAddr (rc_vmInput (host_runtime h));
     or_fault E (prepareIndirectContractCallInput E send val gasLimit dest function args gasToUse True h)
       BaseOpsErrorShouldFailExecution 1 h (\<lambda>contractCallInput.
       if isBuiltInCall E (bytes_of_string (ci_Function contractCallInput)) then Some (1, h)
       else do {
         ((_, _, err), h) \<leftarrow> onDest contractCallInput h;
         no_fault E err BaseOpsErrorShouldFailExecution 1 h (Some (0, h))
       })
   }"

definition ExecuteOnDestContextByCallerWithHost ::
  "'w vmEnv \<Rightarrow> 'w dest_call \<Rightarrow> i64 \<Rightarrow> i32 \<Rightarrow> i32 \<Rightarrow> i32 \<Rightarrow> i32 \<Rightarrow> i32 \<Rightarrow> i32 \<Rightarrow> i32 \<Rightarrow> ('w, i32) hook" where
  "ExecuteOnDestContextByCallerWithHost E onDest gasLimit addressOffset valueOffset functionOffset functionLength
     numArguments argumentsLengthOffset dataOffset h = do {
     (callArgs, h) \<leftarrow> extractIndirectContractCallArgumentsWithValue addressOffset valueOffset functionOffset
        functionLength numArguments argumentsLengthOffset dataOffset h;
     or_fault E callArgs BaseOpsErrorShouldFailExecution 1 h (\<lambda>a.
       ExecuteOnDestContextByCallerWithTypedArgs E onDest gasLimit (ia_value a) (ia_function a) (ia_dest a)
         (ia_args a) h)
   }"

definition v1_3_executeOnDestContextByCaller ::
  "'w vmEnv \<Rightarrow> 'w dest_call \<Rightarrow> i64 \<Rightarrow> i32 \<Rightarrow> i32 \<Rightarrow> i32 \<Rightarrow> i32 \<Rightarrow> i32 \<Rightarrow> i32 \<Rightarrow> i32 \<Rightarrow> ('w, i32) hook" where
  "v1_3_executeOnDestContextByCaller = ExecuteOnDestContextByCallerWithHost"

definition DelegateExecutionWithTypedArgs ::
  "'w vmEnv \<Rightarrow> 'w dest_call \<Rightarrow> i64 \<Rightarrow> bytes \<Rightarrow> address \<Rightarrow> bytes list \<Rightarrow> ('w, i32) hook" where
  "DelegateExecutionWithTypedArgs E onDest gasLimit function dest args h = do {
     let gasToUse = baseOpsCost DelegateExecutionCost h;
     h \<leftarrow> UseGas gasToUse h;
     let sender = rc_scAddress (host_runtime h);
     let val = vi_CallValue (rc_vmInput (host_runtime h));
     or_fault E (prepareIndirectContractCallInput E sender val gasLimit dest function args gasToUse True h)
       BaseOpsErrorShouldFailExecution 1 h (\<lambda>contractCallInput.
       if isBuiltInCall E (bytes_of_string (ci_Function contractCallInput)) then Some (1, h)
       else do {
         ((_, err), h) \<leftarrow> ExecuteOnSameContext E onDest contractCallInput h;
         no_fault E err BaseOpsErrorShouldFailExecution 1 h (Some (0, h))
       })
   }"

definition DelegateExecutionWithHost ::
  "'w vmEnv \<Rightarrow> 'w dest_call \<Rightarrow> i64 \<Rightarrow> i32 \<Rightarrow> i32 \<Rightarrow> i32 \<Rightarrow> i32 \<Rightarrow> i32 \<Rightarrow> i32 \<Rightarrow> ('w, i32) hook" where
  "DelegateExecutionWithHost E onDest gasLimit addressOffset functionOffset functionLength
     numArguments argumentsLengthOffset dataOffset h = do {
     (callArgs, h) \<leftarrow> extractIndirectContractCallArgumentsWithoutValue addressOffset functionOffset
        functionLength numArguments argumentsLengthOffset dataOffset h;
     or_fault E callArgs BaseOpsErrorShouldFailExecution 1 h (\<lambda>a.
       DelegateExecutionWithTypedArgs E onDest gasLimit (ia_function a) (ia_dest a) (ia_args a) h)
   }"

definition v1_3_delegateExecution ::
  "'w vmEnv \<Rightarrow> 'w dest_call \<Rightarrow> i64 \<Rightarrow> i32 \<Rightarrow> i32 \<Rightarrow> i32 \<Rightarrow> i32 \<Rightarrow> i32 \<Rightarrow> i32 \<Rightarrow> ('w, i32) hook" where
  "v1_3_delegateExecution = DelegateExecutionWithHost"

text \<open>Read-only mode is switched off afterwards, whatever it was before.\<close>

definition ExecuteReadOnlyWithTypedArguments ::
  "'w vmEnv \<Rightarrow> 'w dest_call \<Rightarrow> i64 \<Rightarrow> bytes \<Rightarrow> address \<Rightarrow> bytes list \<Rightarrow> ('w, i32) hook" where
  "ExecuteReadOnlyWithTypedArguments E onDest gasLimit function dest args h = do {
     let gasToUse = baseOpsCost ExecuteReadOnlyCost h;
     h \<leftarrow> UseGas gasToUse h;
     let sender = rc_scAddress (host_runtime h);
     let val = vi_CallValue (rc_vmInput (host_runtime h));
     or_fault E (prepareIndirectContractCallInput E sender val gasLimit dest function args gasToUse True h)
       BaseOpsErrorShouldFailExecution 1 h (\<lambda>contractCallInput.
       if isBuiltInCall E (bytes_of_string (ci_Function contractCallInput)) then Some (1, h)
       else do {
         let h = upd_runtime (SetReadOnly True) h;
         ((_, err), h) \<leftarrow> ExecuteOnSameContext E onDest contractCallInput h;
         let h = upd_runtime (SetReadOnly False) h;
         no_fault E err BaseOpsErrorShouldFailExecution 1 h (Some (0, h))
       })
   }"

definition ExecuteReadOnlyWithHost ::
  "'w vmEnv \<Rightarrow> 'w dest_call \<Rightarrow> i64 \<Rightarrow> i32 \<Rightarrow> i32 \<Rightarrow> i32 \<Rightarrow> i32 \<Rightarrow> i32 \<Rightarrow> i32 \<Rightarrow> ('w, i32) hook" where
  "ExecuteReadOnlyWithHost E onDest gasLimit addressOffset functionOffset functionLength
     numArguments argumentsLengthOffset dataOffset h = do {
     (callArgs, h) \<leftarrow> extractIndirectContractCallArgumentsWithoutValue addressOffset functionOffset
        functionLength numArguments argumentsLengthOffset dataOffset h;
     or_fault E callArgs BaseOpsErrorShouldFailExecution 1 h (\<lambda>a.
       ExecuteReadOnlyWithTypedArguments E onDest gasLimit (ia_function a) (ia_dest a) (ia_args a) h)
   }"

definition v1_3_executeReadOnly ::
  "'w vmEnv \<Rightarrow> 'w dest_call \<Rightarrow> i64 \<Rightarrow> i32 \<Rightarrow> i32 \<Rightarrow> i32 \<Rightarrow> i32 \<Rightarrow> i32 \<Rightarrow> i32 \<Rightarrow> ('w, i32) hook" where
  "v1_3_executeReadOnly = ExecuteReadOnlyWithHost"

section \<open>Deployments\<close>

definition createContract ::
  "'w vmEnv \<Rightarrow> 'w dest_call \<Rightarrow> address \<Rightarrow> bytes list \<Rightarrow> int \<Rightarrow> i64 \<Rightarrow> bytes \<Rightarrow> bytes \<Rightarrow>
   ('w, go_error + address) hook" where
  "createContract E onDest sender data val gasLimit code codeMetadata h =
     CreateNewContract E onDest
       \<lparr>cc_VMInput = emptyVMInput\<lparr>vi_CallerAddr := sender, vi_Arguments := data, vi_CallValue := Some val,
          vi_GasProvided := BoundGasLimit gasLimit h\<rparr>,
        cc_ContractCode = code, cc_ContractCodeMetadata = codeMetadata\<rparr> h"

definition v1_3_createContract ::
  "'w vmEnv \<Rightarrow> 'w dest_call \<Rightarrow> i64 \<Rightarrow> i32 \<Rightarrow> i32 \<Rightarrow> i32 \<Rightarrow> i32 \<Rightarrow> i32 \<Rightarrow> i32 \<Rightarrow> i32 \<Rightarrow> i32 \<Rightarrow> ('w, i32) hook" where
  "v1_3_createContract E onDest gasLimit valueOffset codeOffset codeMetadataOffset len resultOffset
     numArguments argumentsLengthOffset dataOffset h = do {
     h \<leftarrow> UseGas (baseOpsCost CreateContractCost h) h;
     let sender = rc_scAddress (host_runtime h);
     load_then E valueOffset (of_nat BalanceLen) BaseOpsErrorShouldFailExecution 1 h (\<lambda>val.
     load_then E codeOffset len BaseOpsErrorShouldFailExecution 1 h (\<lambda>code.
     load_then E codeMetadataOffset (of_nat CodeMetadataLen) BaseOpsErrorShouldFailExecution 1 h (\<lambda>codeMetadata. do {
       (data, actualLen, err) \<leftarrow> getArgumentsFromMemory numArguments argumentsLengthOffset dataOffset h;
       h \<leftarrow> UseGas (MulUint64 (baseCost DataCopyPerByte h) (u64_of_i32 actualLen)) h;
       no_fault E err BaseOpsErrorShouldFailExecution 1 h (do {
         (r, h) \<leftarrow> createContract E onDest sender data (big_SetBytes val) gasLimit code codeMetadata h;
         case r of
           Inl _ \<Rightarrow> Some (1, h)
         | Inr newAddress \<Rightarrow>
             store_then E resultOffset newAddress BaseOpsErrorShouldFailExecution 1 h (\<lambda>h. Some (0, h))
       })
     })))
   }"

definition DeployFromSourceContractWithTypedArgs ::
  "'w vmEnv \<Rightarrow> 'w dest_call \<Rightarrow> address \<Rightarrow> bytes \<Rightarrow> int \<Rightarrow> bytes list \<Rightarrow> i64 \<Rightarrow> ('w, go_error + address) hook" where
  "DeployFromSourceContractWithTypedArgs E onDest sourceContractAddress codeMetadata val data gasLimit h =
     (let sender = rc_scAddress (host_runtime h);
          (r, h) = blockchain_GetCode E sourceContractAddress h
      in case r of
           Inl err \<Rightarrow> fault E err BaseOpsErrorShouldFailExecution (Inl err) h
         | Inr code \<Rightarrow> createContract E onDest sender data val gasLimit code codeMetadata h)"

definition v1_3_deployFromSourceContract ::
  "'w vmEnv \<Rightarrow> 'w dest_call \<Rightarrow> i64 \<Rightarrow> i32 \<Rightarrow> i32 \<Rightarrow> i32 \<Rightarrow> i32 \<Rightarrow> i32 \<Rightarrow> i32 \<Rightarrow> i32 \<Rightarrow> ('w, i32) hook" where
  "v1_3_deployFromSourceContract E onDest gasLimit valueOffset sourceContractAddressOffset codeMetadataOffset
     resultAddressOffset numArguments argumentsLengthOffset dataOffset h = do {
     h \<leftarrow> UseGas (baseOpsCost CreateContractCost h) h;
     load_then E valueOffset (of_nat BalanceLen) BaseOpsErrorShouldFailExecution 1 h (\<lambda>val.
     load_then E sourceContractAddressOffset (of_nat AddressLen) BaseOpsErrorShouldFailExecution 1 h (\<lambda>sourceContractAddress.
     load_then E codeMetadataOffset (of_nat CodeMetadataLen) BaseOpsErrorShouldFailExecution 1 h (\<lambda>codeMetadata. do {
       (data, actualLen, err) \<leftarrow> getArgumentsFromMemory numArguments argumentsLengthOffset dataOffset h;
       h \<leftarrow> UseGas (MulUint64 (baseCost DataCopyPerByte h) (u64_of_i32 actualLen)) h;
       no_fault E err BaseOpsErrorShouldFailExecution 1 h (do {
         (r, h) \<leftarrow> DeployFromSourceContractWithTypedArgs E onDest sourceContractAddress codeMetadata
            (big_SetBytes val) data gasLimit h;
         case r of
           Inl _ \<Rightarrow> Some (1, h)
         | Inr newAddress \<Rightarrow>
             store_then E resultAddressOffset newAddress BaseOpsErrorShouldFailExecution 1 h (\<lambda>h. Some (0, h))
       })
     })))
   }"

end
