(* ===== verification/CryptoOps.thy ===== *)
theory CryptoOps
  imports VMHooks
begin

text \<open>
  The cryptographic hooks of \<open>cryptoapi/cryptoei.go\<close>. The hash functions and the verification
  of signatures are parameters of the model.
\<close>

definition blsPublicKeyLength :: i32 where "blsPublicKeyLength = 96"
definition blsSignatureLength :: i32 where "blsSignatureLength = 48"
definition ed25519PublicKeyLength :: i32 where "ed25519PublicKeyLength = 32"
definition ed25519SignatureLength :: i32 where "ed25519SignatureLength = 64"
definition secp256k1CompressedPublicKeyLength :: i32 where "secp256k1CompressedPublicKeyLength = 33"
definition secp256k1UncompressedPublicKeyLength :: i32 where "secp256k1UncompressedPublicKeyLength = 65"

definition v1_3_sha256 ::
  "'w vmEnv \<Rightarrow> i32 \<Rightarrow> i32 \<Rightarrow> i32 \<Rightarrow> ('w, i32) hook" where
  "v1_3_sha256 E dataOffset len resultOffset h = do {
     let memLoadGas = MulUint64 (baseCost DataCopyPerByte h) (u64_of_i32 len);
     h \<leftarrow> UseGas (AddUint64 (cryptoCost SHA256Cost h) memLoadGas) h;
     load_then E dataOffset len CryptoAPIErrorShouldFailExecution 1 h (\<lambda>data.
       case env_Sha256 E data of
         Inl err \<Rightarrow> Some (1, h)
       | Inr result \<Rightarrow> store_then E resultOffset result CryptoAPIErrorShouldFailExecution 1 h (\<lambda>h. Some (0, h)))
   }"

definition v1_3_keccak256 ::
  "'w vmEnv \<Rightarrow> i32 \<Rightarrow> i32 \<Rightarrow> i32 \<Rightarrow> ('w, i32) hook" where
  "v1_3_keccak256 E dataOffset len resultOffset h = do {
     let memLoadGas = MulUint64 (baseCost DataCopyPerByte h) (u64_of_i32 len);
     h \<leftarrow> UseGas (AddUint64 (cryptoCost Keccak256Cost h) memLoadGas) h;
     load_then E dataOffset len CryptoAPIErrorShouldFailExecution 1 h (\<lambda>data.
       case env_Keccak256 E data of
         Inl err \<Rightarrow> Some (1, h)
       | Inr result \<Rightarrow> store_then E resultOffset result CryptoAPIErrorShouldFailExecution 1 h (\<lambda>h. Some (0, h)))
   }"

definition v1_3_ripemd160 ::
  "'w vmEnv \<Rightarrow> i32 \<Rightarrow> i32 \<Rightarrow> i32 \<Rightarrow> ('w, i32) hook" where
  "v1_3_ripemd160 E dataOffset len resultOffset h = do {
     let memLoadGas = MulUint64 (baseCost DataCopyPerByte h) (u64_of_i32 len);
     h \<leftarrow> UseGas (AddUint64 (cryptoCost Ripemd160Cost h) memLoadGas) h;
     load_then E dataOffset len CryptoAPIErrorShouldFailExecution 1 h (\<lambda>data.
       case env_Ripemd160 E data of
         Inl err \<Rightarrow> Some (1, h)
       | Inr result \<Rightarrow> store_then E resultOffset result CryptoAPIErrorShouldFailExecution 1 h (\<lambda>h. Some (0, h)))
   }"

definition v1_3_verifyBLS ::
  "'w vmEnv \<Rightarrow> i32 \<Rightarrow> i32 \<Rightarrow> i32 \<Rightarrow> i32 \<Rightarrow> ('w, i32) hook" where
  "v1_3_verifyBLS E keyOffset messageOffset messageLength sigOffset h = do {
     h \<leftarrow> UseGas (cryptoCost VerifyBLSCost h) h;
     load_then E keyOffset blsPublicKeyLength CryptoAPIErrorShouldFailExecution 1 h (\<lambda>key. do {
       h \<leftarrow> UseGas (MulUint64 (baseCost DataCopyPerByte h) (u64_of_i32 messageLength)) h;
       load_then E messageOffset messageLength CryptoAPIErrorShouldFailExecution 1 h (\<lambda>message.
       load_then E sigOffset blsSignatureLength CryptoAPIErrorShouldFailExecution 1 h (\<lambda>sig.
         Some (if env_VerifyBLS E key message sig \<noteq> None then -1 else 0, h)))
     })
   }"

definition v1_3_verifyEd25519 ::
  "'w vmEnv \<Rightarrow> i32 \<Rightarrow> i32 \<Rightarrow> i32 \<Rightarrow> i32 \<Rightarrow> ('w, i32) hook" where
  "v1_3_verifyEd25519 E keyOffset messageOffset messageLength sigOffset h = do {
     h \<leftarrow> UseGas (cryptoCost VerifyEd25519Cost h) h;
     load_then E keyOffset ed25519PublicKeyLength CryptoAPIErrorShouldFailExecution 1 h (\<lambda>key. do {
       h \<leftarrow> UseGas (MulUint64 (baseCost DataCopyPerByte h) (u64_of_i32 messageLength)) h;
       load_then E messageOffset messageLength CryptoAPIErrorShouldFailExecution 1 h (\<lambda>message.
       load_then E sigOffset ed25519SignatureLength CryptoAPIErrorShouldFailExecution 1 h (\<lambda>sig.
         Some (if env_VerifyEd25519 E key message sig \<noteq> None then -1 else 0, h)))
     })
   }"

text \<open>
  The second byte of a DER signature is the length of what follows the first two.
\<close>

definition v1_3_verifySecp256k1 ::
  "'w vmEnv \<Rightarrow> i32 \<Rightarrow> i32 \<Rightarrow> i32 \<Rightarrow> i32 \<Rightarrow> i32 \<Rightarrow> ('w, i32) hook" where
  "v1_3_verifySecp256k1 E keyOffset keyLength messageOffset messageLength sigOffset h = do {
     h \<leftarrow> UseGas (cryptoCost VerifySecp256k1Cost h) h;
     if keyLength \<noteq> secp256k1CompressedPublicKeyLength \<and> keyLength \<noteq> secp256k1UncompressedPublicKeyLength
     then fault E (Sentinel ErrInvalidPublicKeySize) BaseOpsErrorShouldFailExecution 1 h
     else load_then E keyOffset keyLength CryptoAPIErrorShouldFailExecution 1 h (\<lambda>key. do {
       h \<leftarrow> UseGas (MulUint64 (baseCost DataCopyPerByte h) (u64_of_i32 messageLength)) h;
       load_then E messageOffset messageLength CryptoAPIErrorShouldFailExecution 1 h (\<lambda>message.
       load_then E sigOffset 2 CryptoAPIErrorShouldFailExecution 1 h (\<lambda>sigHeader. do {
         remaining \<leftarrow> go_index sigHeader 1;
         let sigLength = ucast remaining + 2;
         load_then E sigOffset sigLength CryptoAPIErrorShouldFailExecution 1 h (\<lambda>sig.
           Some (if env_VerifySecp256k1 E key message sig \<noteq> None then -1 else 0, h))
       }))
     })
   }"

end
