(* ===== verification/HookKeeps.thy ===== *)
theory HookKeeps
  imports SameContext SmallIntOps BigIntOps CallOps CryptoOps
begin

text \<open>
  Every hook keeps the state stacks of the contexts and their well-formedness, in the sense of
  the theory HostKeeps. The rules for the shared building blocks come first; with them each hook
  follows from its definition.
\<close>

section \<open>Building blocks\<close>

lemmas kept_value_hooks [keeps_intros] =
  kept_value [where v = "v :: (go_error + bytes) option" for v]
  kept_value [where v = "v :: (go_error + bytes list) option" for v]
  kept_value [where v = "v :: bytes option" for v]
  kept_value [where v = "v :: byte option" for v]
  kept_value [where v = "v :: ESDigitalToken option" for v]
  kept_value [where v = "v :: (bytes list \<times> i32 \<times> go_error option) option" for v]

lemma kept_WithFault [keeps_intros]:
  "keeps h h' \<Longrightarrow> kept h (WithFaultAndHost E err fail h')"
  unfolding WithFaultAndHost_def by (auto intro!: keeps_intros split: option.split)

lemma kept_fault [keeps_intros]: "keeps h h' \<Longrightarrow> kept h (fault E err fail r h')"
  unfolding fault_def by (auto intro!: keeps_intros)

lemma kept_or_fault [keeps_intros]:
  "keeps h h' \<Longrightarrow> (\<And>v. kept h (k v)) \<Longrightarrow> kept h (or_fault E result fail r h' k)"
  unfolding or_fault_def by (auto intro!: keeps_intros split: sum.split)

lemma kept_no_fault [keeps_intros]:
  "keeps h h' \<Longrightarrow> kept h k \<Longrightarrow> kept h (no_fault E err fail r h' k)"
  unfolding no_fault_def by (auto intro!: keeps_intros split: option.split)

lemma kept_load_then [keeps_intros]:
  "keeps h h' \<Longrightarrow> (\<And>v. kept h (k v)) \<Longrightarrow> kept h (load_then E offset len fail r h' k)"
  unfolding load_then_def by (auto intro!: keeps_intros)

lemma set_memory_keeps: "set_memory mem c = Some c' \<Longrightarrow> keeps_runtime c c'"
  by (auto simp: set_memory_def upd_instance_def split: option.splits intro!: keeps_runtime_fields)

text \<open>The control flow of \<open>MemStore\<close>, whatever its bounds are.\<close>

lemma store_steps:
  assumes "(if nothing then Some (None, c)
     else do {
       inst \<leftarrow> i; view \<leftarrow> m inst;
       if low then Some (Some e1, c)
       else do {
         grown \<leftarrow> (if short view
           then (case g view of Inl err \<Rightarrow> Some (Inl err)
                 | Inr mem \<Rightarrow> do { c \<leftarrow> set_memory mem c; Some (Inr (mem, c)) })
           else Some (Inr (view, c)));
         (case grown of Inl err \<Rightarrow> Some (Some err, c)
          | Inr (view, c) \<Rightarrow> if short view then Some (Some e2, c)
              else do { mem \<leftarrow> q view; c \<leftarrow> set_memory mem c; Some (None, c) })
       }
     }) = Some (r, c')"
  shows "keeps_runtime c c'"
  using assms
  by (auto split: Option.bind_split_asm if_split_asm sum.split_asm prod.split_asm
      dest!: set_memory_keeps intro: keeps_runtime_trans)

lemma MemStore_keeps: "MemStore E offset data c = Some (r, c') \<Longrightarrow> keeps_runtime c c'"
  unfolding MemStore_def Let_def by (rule store_steps)

lemma kept_memStore [keeps_intros]: "keeps h h' \<Longrightarrow> kept h (memStore E offset data h')"
  unfolding memStore_def
  by (rule kept_runtime_step, assumption, erule MemStore_keeps) (auto intro!: keeps_intros)

lemma kept_store_then [keeps_intros]:
  "keeps h h' \<Longrightarrow> (\<And>h2. keeps h h2 \<Longrightarrow> kept h (k h2)) \<Longrightarrow> kept h (store_then E offset data fail r h' k)"
  unfolding store_then_def by (auto intro!: keeps_intros)

lemma keeps_bigInt_update [keeps_intros]:
  "keeps h h' \<Longrightarrow> bi_stateStack c = bi_stateStack (host_bigInt h') \<Longrightarrow>
   (wf_bigInt (host_bigInt h') \<Longrightarrow> wf_bigInt c) \<Longrightarrow> keeps h (h'\<lparr>host_bigInt := c\<rparr>)"
  by (simp add: keeps_def keeps_others_def)

lemma wf_bigInt_put: "wf_bigInt c \<Longrightarrow> wf_bigInt (c\<lparr>bi_values := map_put k v (bi_values c)\<rparr>)"
  by (simp add: wf_bigInt_def)

lemma bigInt_GetOne_frame:
  "bi_stateStack (snd (bigInt_GetOne k c)) = bi_stateStack c"
  "wf_bigInt c \<Longrightarrow> wf_bigInt (snd (bigInt_GetOne k c))"
  by (auto simp: bigInt_GetOne_def wf_bigInt_put split: option.split)

lemma keeps_getters [keeps_intros]:
  assumes "keeps h h'"
  shows "keeps h (snd (getOne k h'))" "keeps h (snd (getTwo k1 k2 h'))" "keeps h (snd (getThree k1 k2 k3 h'))"
    "keeps h (set_big k v h')"
  using assms
  by (auto simp: getOne_def getTwo_def getThree_def set_big_def bigInt_GetTwo_def bigInt_GetThree_def
      case_prod_beta Let_def bigInt_GetOne_frame wf_bigInt_put intro!: keeps_bigInt_update)

lemma kept_useExtraGas [keeps_intros]: "keeps h h' \<Longrightarrow> kept_host h (useExtraGasForOperations vs h')"
  by (induction vs arbitrary: h') (auto simp: Let_def intro!: keeps_intros)

lemma kept_storage_reads [keeps_intros]:
  assumes "keeps h h'"
  shows "kept h (GetStorage E key h')" "kept h (GetStorageFromAddress E addr key h')"
  unfolding GetStorage_def GetStorageFromAddress_def Let_def case_prod_beta
  using assms by (auto intro!: keeps_intros)

lemma kept_GetBalance [keeps_intros]: "keeps h h' \<Longrightarrow> kept h (GetBalance E addr h')"
  unfolding GetBalance_def by (auto intro!: keeps_intros)

lemma kept_SignalUserError [keeps_intros]: "keeps h h' \<Longrightarrow> kept_host h (SignalUserError E message h')"
  unfolding SignalUserError_def Let_def by (auto intro!: keeps_intros)

lemma keeps_WriteLog [keeps_intros]: "keeps h h' \<Longrightarrow> keeps h (WriteLog addr topics data h')"
  unfolding WriteLog_def Let_def by (auto intro!: keeps_output_update keeps_output_fields)

lemma kept_getESDTData [keeps_intros]:
  "keeps h h' \<Longrightarrow> kept h (getESDTDataFromBlockchainHook E a t l n h')"
  unfolding getESDTDataFromBlockchainHook_def by (auto intro!: keeps_intros split: sum.split)

lemma kept_bigInt_Put [keeps_intros]:
  "keeps h h' \<Longrightarrow>
   kept h (Option.bind (bigInt_Put v (host_bigInt h')) (\<lambda>p. Some (f p, h'\<lparr>host_bigInt := snd p\<rparr>)))"
  by (auto simp: bigInt_Put_def kept_def bind_eq_Some_conv wf_bigInt_put intro!: keeps_bigInt_update)

declare useExtraGasForOperations.simps [simp del]

section \<open>The hooks\<close>

lemma smallInt_kept [keeps_intros]:
  assumes "keeps h h'"
  shows "kept h (v1_3_smallIntGetUnsignedArgument E a1 h')"
    "kept h (v1_3_smallIntGetSignedArgument E a1 h')"
    "kept h (v1_3_smallIntFinishUnsigned E l1 h')"
    "kept h (v1_3_smallIntFinishSigned E l1 h')"
    "kept h (v1_3_smallIntStorageStoreUnsigned E a1 a2 l1 h')"
    "kept h (v1_3_smallIntStorageStoreSigned E a1 a2 l1 h')"
    "kept h (v1_3_smallIntStorageLoadUnsigned E a1 a2 h')"
    "kept h (v1_3_smallIntStorageLoadSigned E a1 a2 h')"
  unfolding v1_3_smallIntGetUnsignedArgument_def v1_3_smallIntGetSignedArgument_def
    v1_3_smallIntFinishUnsigned_def v1_3_smallIntFinishSigned_def v1_3_smallIntStorageStoreUnsigned_def
    v1_3_smallIntStorageStoreSigned_def v1_3_smallIntStorageLoadUnsigned_def
    v1_3_smallIntStorageLoadSigned_def Let_def case_prod_beta
  using assms by (auto intro!: keeps_intros split: sum.split option.split list.split)

lemma int64_kept [keeps_intros]:
  assumes "keeps h h'"
  shows "kept h (v1_3_int64getArgument E a1 h')"
    "kept h (v1_3_int64finish E l1 h')"
    "kept h (v1_3_int64storageStore E a1 a2 l1 h')"
    "kept h (v1_3_int64storageLoad E a1 a2 h')"
  unfolding v1_3_int64getArgument_def v1_3_int64finish_def v1_3_int64storageStore_def v1_3_int64storageLoad_def
    Let_def case_prod_beta
  using assms by (auto intro!: keeps_intros split: sum.split option.split list.split)

lemma bigInt_access_kept [keeps_intros]:
  assumes "keeps h h'"
  shows "kept h (v1_3_bigIntGetUnsignedArgument E a1 a2 h')"
    "kept h (v1_3_bigIntGetSignedArgument E a1 a2 h')"
    "kept h (v1_3_bigIntStorageStoreUnsigned E a1 a2 a3 h')"
    "kept h (v1_3_bigIntStorageLoadUnsigned E a1 a2 a3 h')"
    "kept h (v1_3_bigIntGetCallValue E a1 h')"
    "kept h (v1_3_bigIntGetESDTCallValue E a1 h')"
    "kept h (v1_3_bigIntGetExternalBalance E a1 a2 h')"
    "kept h (v1_3_bigIntGetESDTExternalBalance E a1 a2 a3 l1 a4 h')"
    "kept h (v1_3_bigIntNew E l1 h')"
    "kept h (v1_3_bigIntUnsignedByteLength E a1 h')"
    "kept h (v1_3_bigIntSignedByteLength E a1 h')"
    "kept h (v1_3_bigIntGetUnsignedBytes E a1 a2 h')"
    "kept h (v1_3_bigIntGetSignedBytes E a1 a2 h')"
    "kept h (v1_3_bigIntSetUnsignedBytes E a1 a2 a3 h')"
  unfolding v1_3_bigIntGetUnsignedArgument_def v1_3_bigIntGetSignedArgument_def
    v1_3_bigIntStorageStoreUnsigned_def v1_3_bigIntStorageLoadUnsigned_def v1_3_bigIntGetCallValue_def
    v1_3_bigIntGetESDTCallValue_def v1_3_bigIntGetExternalBalance_def
    v1_3_bigIntGetESDTExternalBalance_def v1_3_bigIntNew_def v1_3_bigIntUnsignedByteLength_def
    v1_3_bigIntSignedByteLength_def v1_3_bigIntGetUnsignedBytes_def v1_3_bigIntGetSignedBytes_def
    v1_3_bigIntSetUnsignedBytes_def Let_def case_prod_beta
  using assms by (auto intro!: keeps_intros split: sum.split option.split list.split)

lemma bigInt_arith_kept [keeps_intros]:
  assumes "keeps h h'"
  shows "kept h (v1_3_bigIntSetSignedBytes E a1 a2 a3 h')"
    "kept h (v1_3_bigIntIsInt64 E a1 h')"
    "kept h (v1_3_bigIntGetInt64 E a1 h')"
    "kept h (v1_3_bigIntSetInt64 E a1 l1 h')"
    "kept h (v1_3_bigIntAdd E a1 a2 a3 h')"
    "kept h (v1_3_bigIntSub E a1 a2 a3 h')"
    "kept h (v1_3_bigIntMul E a1 a2 a3 h')"
    "kept h (v1_3_bigIntTDiv E a1 a2 a3 h')"
    "kept h (v1_3_bigIntTMod E a1 a2 a3 h')"
    "kept h (v1_3_bigIntEDiv E a1 a2 a3 h')"
    "kept h (v1_3_bigIntEMod E a1 a2 a3 h')"
    "kept h (v1_3_bigIntAbs E a1 a2 h')"
    "kept h (v1_3_bigIntNeg E a1 a2 h')"
  unfolding v1_3_bigIntSetSignedBytes_def v1_3_bigIntIsInt64_def v1_3_bigIntGetInt64_def v1_3_bigIntSetInt64_def
    v1_3_bigIntAdd_def v1_3_bigIntSub_def v1_3_bigIntMul_def v1_3_bigIntTDiv_def v1_3_bigIntTMod_def
    v1_3_bigIntEDiv_def v1_3_bigIntEMod_def v1_3_bigIntAbs_def v1_3_bigIntNeg_def Let_def case_prod_beta
  using assms by (auto intro!: keeps_intros split: sum.split option.split list.split)

lemma bigInt_rest_kept [keeps_intros]:
  assumes "keeps h h'"
  shows "kept h (v1_3_bigIntSign E a1 h')"
    "kept h (v1_3_bigIntCmp E a1 a2 h')"
    "kept h (v1_3_bigIntNot E a1 a2 h')"
    "kept h (v1_3_bigIntAnd E a1 a2 a3 h')"
    "kept h (v1_3_bigIntOr E a1 a2 a3 h')"
    "kept h (v1_3_bigIntXor E a1 a2 a3 h')"
    "kept h (v1_3_bigIntShr E a1 a2 a3 h')"
    "kept h (v1_3_bigIntShl E a1 a2 a3 h')"
    "kept h (v1_3_bigIntFinishUnsigned E a1 h')"
    "kept h (v1_3_bigIntFinishSigned E a1 h')"
  unfolding v1_3_bigIntSign_def v1_3_bigIntCmp_def v1_3_bigIntNot_def v1_3_bigIntAnd_def v1_3_bigIntOr_def
    v1_3_bigIntXor_def v1_3_bigIntShr_def v1_3_bigIntShl_def v1_3_bigIntFinishUnsigned_def
    v1_3_bigIntFinishSigned_def Let_def case_prod_beta
  using assms by (auto intro!: keeps_intros split: sum.split option.split list.split)

lemma crypto_kept [keeps_intros]:
  assumes "keeps h h'"
  shows "kept h (v1_3_sha256 E a1 a2 a3 h')"
    "kept h (v1_3_keccak256 E a1 a2 a3 h')"
    "kept h (v1_3_ripemd160 E a1 a2 a3 h')"
    "kept h (v1_3_verifyBLS E a1 a2 a3 a4 h')"
    "kept h (v1_3_verifyEd25519 E a1 a2 a3 a4 h')"
    "kept h (v1_3_verifySecp256k1 E a1 a2 a3 a4 a5 h')"
  unfolding v1_3_sha256_def v1_3_keccak256_def v1_3_ripemd160_def v1_3_verifyBLS_def v1_3_verifyEd25519_def
    v1_3_verifySecp256k1_def Let_def case_prod_beta
  using assms by (auto intro!: keeps_intros split: sum.split option.split list.split)

lemma baseOps_first_kept [keeps_intros]:
  assumes "keeps h h'"
  shows "kept h (store_meta_data E md1 a1 a2 a3 a4 a5 a6 a7 h')"
    "kept h (v1_3_setStorageLock E a1 a2 l1 h')"
    "kept h (v1_3_getStorageLock E a1 a2 h')"
    "kept h (v1_3_getBlockTimestamp E h')"
  unfolding store_meta_data_def v1_3_setStorageLock_def v1_3_getStorageLock_def v1_3_getBlockTimestamp_def
    Let_def case_prod_beta
  using assms by (auto intro!: keeps_intros split: sum.split option.split list.split)

lemma baseOps_account_kept [keeps_intros]:
  assumes "keeps h h'"
  shows "kept h (v1_3_getGasLeft E h')"
    "kept h (v1_3_getSCAddress E a1 h')"
    "kept h (v1_3_getOwnerAddress E a1 h')"
    "kept h (v1_3_getShardOfAddress E a1 h')"
    "kept h (v1_3_isSmartContract E a1 h')"
    "kept h (v1_3_signalError E a1 a2 h')"
    "kept h (v1_3_getExternalBalance E a1 a2 h')"
    "kept h (v1_3_blockHash E l1 a1 h')"
    "kept h (v1_3_getESDTBalance E a1 a2 a3 l1 a4 h')"
    "kept h (v1_3_getESDTNFTNameLength E a1 a2 a3 l1 h')"
    "kept h (v1_3_getESDTNFTAttributeLength E a1 a2 a3 l1 h')"
    "kept h (v1_3_getESDTNFTURILength E a1 a2 a3 l1 h')"
    "kept h (v1_3_getESDTTokenData E a1 a2 a3 l1 a4 a5 a6 a7 a8 a9 a10 a11 h')"
  unfolding v1_3_getGasLeft_def v1_3_getSCAddress_def v1_3_getOwnerAddress_def v1_3_getShardOfAddress_def
    v1_3_isSmartContract_def v1_3_signalError_def v1_3_getExternalBalance_def v1_3_blockHash_def
    v1_3_getESDTBalance_def v1_3_getESDTNFTNameLength_def v1_3_getESDTNFTAttributeLength_def
    v1_3_getESDTNFTURILength_def v1_3_getESDTTokenData_def Let_def case_prod_beta
  using assms by (auto intro!: keeps_intros split: sum.split option.split list.split)

lemma baseOps_call_kept [keeps_intros]:
  assumes "keeps h h'"
  shows "kept h (v1_3_getArgumentLength E a1 h')"
    "kept h (v1_3_getArgument E a1 a2 h')"
    "kept h (v1_3_getFunction E a1 h')"
    "kept h (v1_3_getNumArguments E h')"
    "kept h (v1_3_getCaller E a1 h')"
    "kept h (v1_3_checkNoPayment E h')"
    "kept h (v1_3_callValue E a1 h')"
    "kept h (v1_3_getESDTValue E a1 h')"
    "kept h (v1_3_getESDTTokenName E a1 h')"
    "kept h (v1_3_getESDTTokenNonce E h')"
    "kept h (v1_3_getESDTTokenType E h')"
    "kept h (v1_3_getCallValueTokenName E a1 a2 h')"
    "kept h (v1_3_getOriginalTxHash E a1 h')"
    "kept h (v1_3_storageStore E a1 a2 a3 a4 h')"
  unfolding v1_3_getArgumentLength_def v1_3_getArgument_def v1_3_getFunction_def v1_3_getNumArguments_def
    v1_3_getCaller_def v1_3_checkNoPayment_def v1_3_callValue_def v1_3_getESDTValue_def
    v1_3_getESDTTokenName_def v1_3_getESDTTokenNonce_def v1_3_getESDTTokenType_def
    v1_3_getCallValueTokenName_def v1_3_getOriginalTxHash_def v1_3_storageStore_def Let_def
    case_prod_beta
  using assms by (auto intro!: keeps_intros split: sum.split option.split list.split)

lemma baseOps_rest_kept [keeps_intros]:
  assumes "keeps h h'"
  shows "kept h (v1_3_storageLoadLength E a1 a2 h')"
    "kept h (v1_3_storageLoadFromAddress E a1 a2 a3 a4 h')"
    "kept h (v1_3_storageLoad E a1 a2 a3 h')"
    "kept h (v1_3_isStorageLocked E a1 a2 h')"
    "kept h (v1_3_clearStorageLock E a1 a2 h')"
    "kept h (v1_3_getCurrentESDTNFTNonce E a1 a2 a3 h')"
    "kept h (v1_3_writeLog E a1 a2 a3 a4 h')"
    "kept h (v1_3_writeEventLog E a1 a2 a3 a4 a5 h')"
    "kept h (v1_3_returnData E a1 a2 h')"
    "kept h (v1_3_getNumReturnData E h')"
    "kept h (v1_3_getReturnDataSize E a1 h')"
    "kept h (v1_3_getReturnData E a1 a2 h')"
    "kept h (v1_3_getBlockNonce E h')"
    "kept h (v1_3_getBlockRound E h')"
    "kept h (v1_3_getBlockEpoch E h')"
    "kept h (v1_3_getBlockRandomSeed E a1 h')"
    "kept h (v1_3_getStateRootHash E a1 h')"
    "kept h (v1_3_getPrevBlockTimestamp E h')"
    "kept h (v1_3_getPrevBlockNonce E h')"
    "kept h (v1_3_getPrevBlockRound E h')"
    "kept h (v1_3_getPrevBlockEpoch E h')"
    "kept h (v1_3_getPrevBlockRandomSeed E a1 h')"
  unfolding v1_3_storageLoadLength_def v1_3_storageLoadFromAddress_def v1_3_storageLoad_def
    v1_3_isStorageLocked_def v1_3_clearStorageLock_def v1_3_getCurrentESDTNFTNonce_def v1_3_writeLog_def
    v1_3_writeEventLog_def v1_3_returnData_def v1_3_getNumReturnData_def v1_3_getReturnDataSize_def
    v1_3_getReturnData_def v1_3_getBlockNonce_def v1_3_getBlockRound_def v1_3_getBlockEpoch_def
    v1_3_getBlockRandomSeed_def v1_3_getStateRootHash_def v1_3_getPrevBlockTimestamp_def
    v1_3_getPrevBlockNonce_def v1_3_getPrevBlockRound_def v1_3_getPrevBlockEpoch_def
    v1_3_getPrevBlockRandomSeed_def Let_def case_prod_beta
  using assms by (auto intro!: keeps_intros split: sum.split option.split list.split)

section \<open>Calls and transfers\<close>

text \<open>Operations that return two values beside the host.\<close>

definition kept2 :: "'w vmHost \<Rightarrow> ('a \<times> 'b \<times> 'w vmHost) option \<Rightarrow> bool" where
  "kept2 h m \<longleftrightarrow> (\<forall>a b h'. m = Some (a, b, h') \<longrightarrow> keeps h h')"

lemma kept2_Some [keeps_intros]: "keeps h (snd (snd p)) \<Longrightarrow> kept2 h (Some p)"
  by (cases p) (simp add: kept2_def)

lemma kept2_bind [keeps_intros]:
  "kept2 h m2 \<Longrightarrow> (\<And>a b h'. keeps h h' \<Longrightarrow> kept h (f (a, b, h'))) \<Longrightarrow> kept h (Option.bind m2 f)"
  "kept2 h m2 \<Longrightarrow> (\<And>a b h'. keeps h h' \<Longrightarrow> kept2 h (f2 (a, b, h'))) \<Longrightarrow> kept2 h (Option.bind m2 f2)"
  "kept h m \<Longrightarrow> (\<And>r h'. keeps h h' \<Longrightarrow> kept2 h (g (r, h'))) \<Longrightarrow> kept2 h (Option.bind m g)"
  "kept_host h n \<Longrightarrow> (\<And>h'. keeps h h' \<Longrightarrow> kept2 h (g' h')) \<Longrightarrow> kept2 h (Option.bind n g')"
  by (auto simp: kept_def kept_host_def kept2_def bind_eq_Some_conv)

lemma kept_TransferESDT [keeps_intros]:
  assumes "keeps h h'"
  shows "kept2 h (ExecuteESDTTransfer E dest sender token nonce v ct h')"
    "kept2 h (TransferESDT E dest sender token nonce v input h')"
proof -
  have logs: "keeps_output c c' \<Longrightarrow> keeps_output c (c'\<lparr>oc_outputState := (oc_outputState c')\<lparr>vo_Logs := l\<rparr>\<rparr>)" for c c' l
    by (erule keeps_output_trans) (simp add: keeps_output_fields)
  have esdt: "kept2 h (ExecuteESDTTransfer E dest sender token nonce v ct h')" for ct
    unfolding ExecuteESDTTransfer_def ProcessBuiltInFunction_def Let_def case_prod_beta
    using assms by (auto intro!: keeps_intros split: sum.split)
  then show "kept2 h (ExecuteESDTTransfer E dest sender token nonce v ct h')" .
  show "kept2 h (TransferESDT E dest sender token nonce v input h')"
    unfolding TransferESDT_def Let_def case_prod_beta
    using esdt by (auto intro!: keeps_intros logs split: sum.split option.split)
qed

lemma kept_UseGasBounded [keeps_intros]:
  assumes "keeps h h'"
  shows "kept h (UseGasBounded g h')" "kept h (UseGasForAsyncStep h')"
  unfolding UseGasForAsyncStep_def UseGasBounded_def Let_def using assms by (auto intro!: keeps_intros)

lemma kept_ExecuteAsyncCall [keeps_intros]: "keeps h h' \<Longrightarrow> kept h (ExecuteAsyncCall E dest data v h')"
  unfolding ExecuteAsyncCall_def Let_def case_prod_beta by (auto intro!: keeps_intros)

lemma keeps_async_context [keeps_intros]:
  assumes "keeps_runtime c c'"
  shows "keeps_runtime c (AddAsyncContextCall k call c')" "keeps_runtime c (set_context_callback k ctx c')"
    "keeps_runtime c (SetReadOnly ro c')"
  by (rule keeps_runtime_trans [OF assms];
      auto intro!: keeps_runtime_fields simp: AddAsyncContextCall_def set_context_callback_def SetReadOnly_def Let_def
        split: option.split)+

lemma keeps_RevertToSnapshot [keeps_intros]: "keeps h h' \<Longrightarrow> keeps h (RevertToSnapshot E s h')"
  unfolding RevertToSnapshot_def by (rule keeps_world_update)

lemma kept_extract [keeps_intros]:
  assumes "keeps h h'"
  shows "kept h (extractIndirectContractCallArguments a1 a2 b a3 a4 a5 a6 a7 h')"
    "kept h (extractIndirectContractCallArgumentsWithValue a1 a2 a3 a4 a5 a6 a7 h')"
    "kept h (extractIndirectContractCallArgumentsWithoutValue a1 a3 a4 a5 a6 a7 h')"
  unfolding extractIndirectContractCallArgumentsWithValue_def extractIndirectContractCallArgumentsWithoutValue_def
    extractIndirectContractCallArguments_def Let_def case_prod_beta
  using assms by (auto intro!: keeps_intros split: sum.split)

lemma upgradeContract_hook_kept [keeps_intros]:
  assumes "keeps h h'"
  shows "kept h (upgradeContract_hook E d1 d2 d3 d4 ds1 l1 h')"
  unfolding upgradeContract_hook_def Let_def case_prod_beta
  using assms by (auto intro!: keeps_intros split: sum.split option.split list.split)

lemma upgradeFromSource_kept [keeps_intros]:
  assumes "keeps h h'"
  shows "kept h (UpgradeFromSourceContractWithTypedArgs E d1 d2 d3 ds1 l1 d4 h')"
  unfolding UpgradeFromSourceContractWithTypedArgs_def Let_def case_prod_beta
  using assms by (auto intro!: keeps_intros split: sum.split option.split list.split)

lemma call_simple_kept [keeps_intros]:
  assumes "keeps h h'"
  shows "kept h (v1_3_transferValue E a1 a2 a3 a4 h')"
    "kept h (v1_3_transferESDT E a1 a2 a3 a4 l1 a5 a6 h')"
    "kept h (v1_3_createAsyncCall E a1 a2 a3 a4 a5 a6 a7 a8 a9 a10 l1 h')"
    "kept h (v1_3_setAsyncContextCallback E a1 a2 a3 a4 h')"
    "kept h (v1_3_asyncCall E a1 a2 a3 a4 h')"
    "kept h (v1_3_upgradeContract E a1 l1 a2 a3 a4 a5 a6 a7 a8 h')"
    "kept h (v1_3_upgradeFromSourceContract E a1 l1 a2 a3 a4 a5 a6 a7 h')"
  unfolding v1_3_transferValue_def v1_3_transferESDT_def v1_3_createAsyncCall_def
    v1_3_setAsyncContextCallback_def v1_3_asyncCall_def v1_3_upgradeContract_def
    v1_3_upgradeFromSourceContract_def Let_def case_prod_beta
  using assms by (auto intro!: keeps_intros split: sum.split option.split list.split)

context nested_call
begin

lemma createContract_kept [keeps_intros]:
  assumes "keeps h h'"
  shows "kept h (createContract E onDest d1 ds1 v1 l1 d2 d3 h')"
  unfolding createContract_def Let_def case_prod_beta
  using assms by (auto intro!: keeps_intros split: sum.split option.split list.split)

lemma typedArgs_kept [keeps_intros]:
  assumes "keeps h h'"
  shows "kept h (TransferValueExecuteWithTypedArgs E onDest d1 vo1 l1 bo1 ds1 h')"
    "kept h (TransferESDTNFTExecuteWithTypedArgs E onDest v1 d1 d2 l1 l2 bo1 ds1 h')"
    "kept h (ExecuteOnSameContextWithTypedArgs E onDest l1 vo1 d1 d2 ds1 h')"
    "kept h (ExecuteOnDestContextWithTypedArgs E onDest l1 vo1 d1 d2 ds1 h')"
    "kept h (ExecuteOnDestContextByCallerWithTypedArgs E onDest l1 vo1 d1 d2 ds1 h')"
    "kept h (DelegateExecutionWithTypedArgs E onDest l1 d1 d2 ds1 h')"
    "kept h (ExecuteReadOnlyWithTypedArguments E onDest l1 d1 d2 ds1 h')"
    "kept h (DeployFromSourceContractWithTypedArgs E onDest d1 d2 v1 ds1 l1 h')"
  unfolding TransferValueExecuteWithTypedArgs_def TransferESDTNFTExecuteWithTypedArgs_def
    ExecuteOnSameContextWithTypedArgs_def ExecuteOnDestContextWithTypedArgs_def
    ExecuteOnDestContextByCallerWithTypedArgs_def DelegateExecutionWithTypedArgs_def
    ExecuteReadOnlyWithTypedArguments_def DeployFromSourceContractWithTypedArgs_def Let_def
    case_prod_beta
  using assms by (auto intro!: keeps_intros split: sum.split option.split list.split)

lemma withHost_kept [keeps_intros]:
  assumes "keeps h h'"
  shows "kept h (TransferValueExecuteWithHost E onDest a1 a2 l1 a3 a4 a5 a6 a7 h')"
    "kept h (TransferESDTNFTExecuteWithHost E onDest a1 a2 a3 a4 l1 l2 a5 a6 a7 a8 a9 h')"
    "kept h (ExecuteOnSameContextWithHost E onDest l1 a1 a2 a3 a4 a5 a6 a7 h')"
    "kept h (ExecuteOnDestContextWithHost E onDest l1 a1 a2 a3 a4 a5 a6 a7 h')"
    "kept h (ExecuteOnDestContextByCallerWithHost E onDest l1 a1 a2 a3 a4 a5 a6 a7 h')"
    "kept h (DelegateExecutionWithHost E onDest l1 a1 a2 a3 a4 a5 a6 h')"
    "kept h (ExecuteReadOnlyWithHost E onDest l1 a1 a2 a3 a4 a5 a6 h')"
  unfolding TransferValueExecuteWithHost_def TransferESDTNFTExecuteWithHost_def ExecuteOnSameContextWithHost_def
    ExecuteOnDestContextWithHost_def ExecuteOnDestContextByCallerWithHost_def
    DelegateExecutionWithHost_def ExecuteReadOnlyWithHost_def Let_def case_prod_beta
  using assms by (auto intro!: keeps_intros split: sum.split option.split list.split)

lemma call_hooks_kept [keeps_intros]:
  assumes "keeps h h'"
  shows "kept h (v1_3_transferValueExecute E onDest a1 a2 l1 a3 a4 a5 a6 a7 h')"
    "kept h (v1_3_transferESDTNFTExecute E onDest a1 a2 a3 a4 l1 l2 a5 a6 a7 a8 a9 h')"
    "kept h (v1_3_executeOnSameContext E onDest l1 a1 a2 a3 a4 a5 a6 a7 h')"
    "kept h (v1_3_executeOnDestContext E onDest l1 a1 a2 a3 a4 a5 a6 a7 h')"
    "kept h (v1_3_executeOnDestContextByCaller E onDest l1 a1 a2 a3 a4 a5 a6 a7 h')"
    "kept h (v1_3_delegateExecution E onDest l1 a1 a2 a3 a4 a5 a6 h')"
    "kept h (v1_3_executeReadOnly E onDest l1 a1 a2 a3 a4 a5 a6 h')"
    "kept h (v1_3_createContract E onDest l1 a1 a2 a3 a4 a5 a6 a7 a8 h')"
    "kept h (v1_3_deployFromSourceContract E onDest l1 a1 a2 a3 a4 a5 a6 a7 h')"
  unfolding v1_3_transferValueExecute_def v1_3_transferESDTNFTExecute_def v1_3_executeOnSameContext_def
    v1_3_executeOnDestContext_def v1_3_executeOnDestContextByCaller_def v1_3_delegateExecution_def
    v1_3_executeReadOnly_def v1_3_createContract_def v1_3_deployFromSourceContract_def Let_def
    case_prod_beta
  using assms by (auto intro!: keeps_intros split: sum.split option.split list.split)

lemma transferESDTExecute_kept [keeps_intros]:
  assumes "keeps h h'"
  shows "kept h (v1_3_transferESDTExecute E onDest a1 a2 a3 a4 l1 a5 a6 a7 a8 a9 h')"
  unfolding v1_3_transferESDTExecute_def Let_def case_prod_beta
  using assms by (auto intro!: keeps_intros split: sum.split option.split list.split)

end

end
