(* ===== verification/Contracts.thy ===== *)
theory Contracts
  imports HookKeeps
begin

text \<open>
  Contracts that run inside the host. The tables of imports give the functions a contract can
  call their names (\<open>BaseOpsAPIImports\<close> and its siblings). A contract is a tree: it computes on
  its memory, spending gas, calls an import and continues with its result, or ends. An engine
  that runs contracts in this way is lawful for every contract, so what the theory HostNesting
  shows of nested calls holds without any assumption on the code of the contracts.
\<close>

section \<open>Imports\<close>

text \<open>The engine passes the values of a call as 64-bit words.\<close>

type_synonym 'w import_table = "(string \<times> (u64 list \<Rightarrow> ('w, u64) hook)) list"

definition arg32 :: "u64 list \<Rightarrow> nat \<Rightarrow> i32" where
  "arg32 args n = ucast (args ! n)"

definition arg64 :: "u64 list \<Rightarrow> nat \<Rightarrow> i64" where
  "arg64 args n = args ! n"

definition ret32 :: "('w, i32) hook \<Rightarrow> ('w, u64) hook" where
  "ret32 f h = map_option (\<lambda>(r, h). (ucast r, h)) (f h)"

definition ret64 :: "('w, i64) hook \<Rightarrow> ('w, u64) hook" where
  "ret64 f = f"

definition ret0 :: "('w, unit) hook \<Rightarrow> ('w, u64) hook" where
  "ret0 f h = map_option (\<lambda>(_, h). (0, h)) (f h)"

definition linked :: "nat \<Rightarrow> (u64 list \<Rightarrow> ('w, u64) hook) \<Rightarrow> u64 list \<Rightarrow> ('w, u64) hook" where
  "linked n f args h = (if length args = n then f args h else None)"

definition BaseOpsAPIImports :: "'w vmEnv \<Rightarrow> 'w dest_call \<Rightarrow> 'w import_table" where
  "BaseOpsAPIImports E onDest = [
      (''getSCAddress'', linked 1 (\<lambda>args. ret0 (v1_3_getSCAddress E (arg32 args 0)))),
      (''getOwnerAddress'', linked 1 (\<lambda>args. ret0 (v1_3_getOwnerAddress E (arg32 args 0)))),
      (''getShardOfAddress'', linked 1 (\<lambda>args. ret32 (v1_3_getShardOfAddress E (arg32 args 0)))),
      (''isSmartContract'', linked 1 (\<lambda>args. ret32 (v1_3_isSmartContract E (arg32 args 0)))),
      (''getExternalBalance'', linked 2 (\<lambda>args. ret0 (v1_3_getExternalBalance E (arg32 args 0) (arg32 args 1)))),
      (''getBlockHash'', linked 2 (\<lambda>args. ret32 (v1_3_blockHash E (arg64 args 0) (arg32 args 1)))),
      (''transferValue'', linked 4 (\<lambda>args. ret32 (v1_3_transferValue E (arg32 args 0) (arg32 args 1) (arg32 args 2) (arg32 args 3)))),
      (''transferESDTExecute'', linked 10 (\<lambda>args. ret32 (v1_3_transferESDTExecute E onDest (arg32 args 0) (arg32 args 1) (arg32 args 2) (arg32 args 3) (arg64 args 4) (arg32 args 5) (arg32 args 6) (arg32 args 7) (arg32 args 8) (arg32 args 9)))),
      (''transferESDTNFTExecute'', linked 11 (\<lambda>args. ret32 (v1_3_transferESDTNFTExecute E onDest (arg32 args 0) (arg32 args 1) (arg32 args 2) (arg32 args 3) (arg64 args 4) (arg64 args 5) (arg32 args 6) (arg32 args 7) (arg32 args 8) (arg32 args 9) (arg32 args 10)))),
      (''transferESDT'', linked 7 (\<lambda>args. ret32 (v1_3_transferESDT E (arg32 args 0) (arg32 args 1) (arg32 args 2) (arg32 args 3) (arg64 args 4) (arg32 args 5) (arg32 args 6)))),
      (''transferValueExecute'', linked 8 (\<lambda>args. ret32 (v1_3_transferValueExecute E onDest (arg32 args 0) (arg32 args 1) (arg64 args 2) (arg32 args 3) (arg32 args 4) (arg32 args 5) (arg32 args 6) (arg32 args 7)))),
      (''asyncCall'', linked 4 (\<lambda>args. ret0 (v1_3_asyncCall E (arg32 args 0) (arg32 args 1) (arg32 args 2) (arg32 args 3)))),
      (''getArgumentLength'', linked 1 (\<lambda>args. ret32 (v1_3_getArgumentLength E (arg32 args 0)))),
      (''getArgument'', linked 2 (\<lambda>args. ret32 (v1_3_getArgument E (arg32 args 0) (arg32 args 1)))),
      (''getFunction'', linked 1 (\<lambda>args. ret32 (v1_3_getFunction E (arg32 args 0)))),
      (''getNumArguments'', linked 0 (\<lambda>args. ret32 (v1_3_getNumArguments E))),
      (''storageStore'', linked 4 (\<lambda>args. ret32 (v1_3_storageStore E (arg32 args 0) (arg32 args 1) (arg32 args 2) (arg32 args 3)))),
      (''storageLoadLength'', linked 2 (\<lambda>args. ret32 (v1_3_storageLoadLength E (arg32 args 0) (arg32 args 1)))),
      (''storageLoad'', linked 3 (\<lambda>args. ret32 (v1_3_storageLoad E (arg32 args 0) (arg32 args 1) (arg32 args 2)))),
      (''storageLoadFromAddress'', linked 4 (\<lambda>args. ret32 (v1_3_storageLoadFromAddress E (arg32 args 0) (arg32 args 1) (arg32 args 2) (arg32 args 3)))),
      (''getStorageLock'', linked 2 (\<lambda>args. ret64 (v1_3_getStorageLock E (arg32 args 0) (arg32 args 1)))),
      (''setStorageLock'', linked 3 (\<lambda>args. ret32 (v1_3_setStorageLock E (arg32 args 0) (arg32 args 1) (arg64 args 2)))),
      (''isStorageLocked'', linked 2 (\<lambda>args. ret32 (v1_3_isStorageLocked E (arg32 args 0) (arg32 args 1)))),
      (''clearStorageLock'', linked 2 (\<lambda>args. ret32 (v1_3_clearStorageLock E (arg32 args 0) (arg32 args 1)))),
      (''getCaller'', linked 1 (\<lambda>args. ret0 (v1_3_getCaller E (arg32 args 0)))),
      (''checkNoPayment'', linked 0 (\<lambda>args. ret0 (v1_3_checkNoPayment E))),
      (''getCallValue'', linked 1 (\<lambda>args. ret32 (v1_3_callValue E (arg32 args 0)))),
      (''getESDTValue'', linked 1 (\<lambda>args. ret32 (v1_3_getESDTValue E (arg32 args 0)))),
      (''getESDTTokenName'', linked 1 (\<lambda>args. ret32 (v1_3_getESDTTokenName E (arg32 args 0)))),
      (''getESDTTokenType'', linked 0 (\<lambda>args. ret32 (v1_3_getESDTTokenType E))),
      (''getESDTTokenNonce'', linked 0 (\<lambda>args. ret64 (v1_3_getESDTTokenNonce E))),
      (''getCurrentESDTNFTNonce'', linked 3 (\<lambda>args. ret64 (v1_3_getCurrentESDTNFTNonce E (arg32 args 0) (arg32 args 1) (arg32 args 2)))),
      (''getCallValueTokenName'', linked 2 (\<lambda>args. ret32 (v1_3_getCallValueTokenName E (arg32 args 0) (arg32 args 1)))),
      (''writeLog'', linked 4 (\<lambda>args. ret0 (v1_3_writeLog E (arg32 args 0) (arg32 args 1) (arg32 args 2) (arg32 args 3)))),
      (''writeEventLog'', linked 5 (\<lambda>args. ret0 (v1_3_writeEventLog E (arg32 args 0) (arg32 args 1) (arg32 args 2) (arg32 args 3) (arg32 args 4)))),
      (''finish'', linked 2 (\<lambda>args. ret0 (v1_3_returnData E (arg32 args 0) (arg32 args 1)))),
      (''signalError'', linked 2 (\<lambda>args. ret0 (v1_3_signalError E (arg32 args 0) (arg32 args 1)))),
      (''getBlockTimestamp'', linked 0 (\<lambda>args. ret64 (v1_3_getBlockTimestamp E))),
      (''getBlockNonce'', linked 0 (\<lambda>args. ret64 (v1_3_getBlockNonce E))),
      (''getBlockRound'', linked 0 (\<lambda>args. ret64 (v1_3_getBlockRound E))),
      (''getBlockEpoch'', linked 0 (\<lambda>args. ret64 (v1_3_getBlockEpoch E))),
      (''getBlockRandomSeed'', linked 1 (\<lambda>args. ret0 (v1_3_getBlockRandomSeed E (arg32 args 0)))),
      (''getStateRootHash'', linked 1 (\<lambda>args. ret0 (v1_3_getStateRootHash E (arg32 args 0)))),
      (''getPrevBlockTimestamp'', linked 0 (\<lambda>args. ret64 (v1_3_getPrevBlockTimestamp E))),
      (''getPrevBlockNonce'', linked 0 (\<lambda>args. ret64 (v1_3_getPrevBlockNonce E))),
      (''getPrevBlockRound'', linked 0 (\<lambda>args. ret64 (v1_3_getPrevBlockRound E))),
      (''getPrevBlockEpoch'', linked 0 (\<lambda>args. ret64 (v1_3_getPrevBlockEpoch E))),
      (''getPrevBlockRandomSeed'', linked 1 (\<lambda>args. ret0 (v1_3_getPrevBlockRandomSeed E (arg32 args 0)))),
      (''getOriginalTxHash'', linked 1 (\<lambda>args. ret0 (v1_3_getOriginalTxHash E (arg32 args 0)))),
      (''getGasLeft'', linked 0 (\<lambda>args. ret64 (v1_3_getGasLeft E))),
      (''executeOnDestContext'', linked 8 (\<lambda>args. ret32 (v1_3_executeOnDestContext E onDest (arg64 args 0) (arg32 args 1) (arg32 args 2) (arg32 args 3) (arg32 args 4) (arg32 args 5) (arg32 args 6) (arg32 args 7)))),
      (''executeOnDestContextByCaller'', linked 8 (\<lambda>args. ret32 (v1_3_executeOnDestContextByCaller E onDest (arg64 args 0) (arg32 args 1) (arg32 args 2) (arg32 args 3) (arg32 args 4) (arg32 args 5) (arg32 args 6) (arg32 args 7)))),
      (''executeOnSameContext'', linked 8 (\<lambda>args. ret32 (v1_3_executeOnSameContext E onDest (arg64 args 0) (arg32 args 1) (arg32 args 2) (arg32 args 3) (arg32 args 4) (arg32 args 5) (arg32 args 6) (arg32 args 7)))),
      (''delegateExecution'', linked 7 (\<lambda>args. ret32 (v1_3_delegateExecution E onDest (arg64 args 0) (arg32 args 1) (arg32 args 2) (arg32 args 3) (arg32 args 4) (arg32 args 5) (arg32 args 6)))),
      (''createContract'', linked 9 (\<lambda>args. ret32 (v1_3_createContract E onDest (arg64 args 0) (arg32 args 1) (arg32 args 2) (arg32 args 3) (arg32 args 4) (arg32 args 5) (arg32 args 6) (arg32 args 7) (arg32 args 8)))),
      (''deployFromSourceContract'', linked 8 (\<lambda>args. ret32 (v1_3_deployFromSourceContract E onDest (arg64 args 0) (arg32 args 1) (arg32 args 2) (arg32 args 3) (arg32 args 4) (arg32 args 5) (arg32 args 6) (arg32 args 7)))),
      (''upgradeContract'', linked 9 (\<lambda>args. ret0 (v1_3_upgradeContract E (arg32 args 0) (arg64 args 1) (arg32 args 2) (arg32 args 3) (arg32 args 4) (arg32 args 5) (arg32 args 6) (arg32 args 7) (arg32 args 8)))),
      (''upgradeFromSourceContract'', linked 8 (\<lambda>args. ret0 (v1_3_upgradeFromSourceContract E (arg32 args 0) (arg64 args 1) (arg32 args 2) (arg32 args 3) (arg32 args 4) (arg32 args 5) (arg32 args 6) (arg32 args 7)))),
      (''executeReadOnly'', linked 7 (\<lambda>args. ret32 (v1_3_executeReadOnly E onDest (arg64 args 0) (arg32 args 1) (arg32 args 2) (arg32 args 3) (arg32 args 4) (arg32 args 5) (arg32 args 6)))),
      (''getNumReturnData'', linked 0 (\<lambda>args. ret32 (v1_3_getNumReturnData E))),
      (''getReturnDataSize'', linked 1 (\<lambda>args. ret32 (v1_3_getReturnDataSize E (arg32 args 0)))),
      (''getReturnData'', linked 2 (\<lambda>args. ret32 (v1_3_getReturnData E (arg32 args 0) (arg32 args 1)))),
      (''getESDTBalance'', linked 5 (\<lambda>args. ret32 (v1_3_getESDTBalance E (arg32 args 0) (arg32 args 1) (arg32 args 2) (arg64 args 3) (arg32 args 4)))),
      (''getESDTTokenData'', linked 12 (\<lambda>args. ret32 (v1_3_getESDTTokenData E (arg32 args 0) (arg32 args 1) (arg32 args 2) (arg64 args 3) (arg32 args 4) (arg32 args 5) (arg32 args 6) (arg32 args 7) (arg32 args 8) (arg32 args 9) (arg32 args 10) (arg32 args 11)))),
      (''getESDTNFTNameLength'', linked 4 (\<lambda>args. ret32 (v1_3_getESDTNFTNameLength E (arg32 args 0) (arg32 args 1) (arg32 args 2) (arg64 args 3)))),
      (''getESDTNFTAttributeLength'', linked 4 (\<lambda>args. ret32 (v1_3_getESDTNFTAttributeLength E (arg32 args 0) (arg32 args 1) (arg32 args 2) (arg64 args 3)))),
      (''getESDTNFTURILength'', linked 4 (\<lambda>args. ret32 (v1_3_getESDTNFTURILength E (arg32 args 0) (arg32 args 1) (arg32 args 2) (arg64 args 3))))]"

definition BigIntImports :: "'w vmEnv \<Rightarrow> 'w dest_call \<Rightarrow> 'w import_table" where
  "BigIntImports E onDest = [
      (''bigIntNew'', linked 1 (\<lambda>args. ret32 (v1_3_bigIntNew E (arg64 args 0)))),
      (''bigIntUnsignedByteLength'', linked 1 (\<lambda>args. ret32 (v1_3_bigIntUnsignedByteLength E (arg32 args 0)))),
      (''bigIntSignedByteLength'', linked 1 (\<lambda>args. ret32 (v1_3_bigIntSignedByteLength E (arg32 args 0)))),
      (''bigIntGetUnsignedBytes'', linked 2 (\<lambda>args. ret32 (v1_3_bigIntGetUnsignedBytes E (arg32 args 0) (arg32 args 1)))),
      (''bigIntGetSignedBytes'', linked 2 (\<lambda>args. ret32 (v1_3_bigIntGetSignedBytes E (arg32 args 0) (arg32 args 1)))),
      (''bigIntSetUnsignedBytes'', linked 3 (\<lambda>args. ret0 (v1_3_bigIntSetUnsignedBytes E (arg32 args 0) (arg32 args 1) (arg32 args 2)))),
      (''bigIntSetSignedBytes'', linked 3 (\<lambda>args. ret0 (v1_3_bigIntSetSignedBytes E (arg32 args 0) (arg32 args 1) (arg32 args 2)))),
      (''bigIntIsInt64'', linked 1 (\<lambda>args. ret32 (v1_3_bigIntIsInt64 E (arg32 args 0)))),
      (''bigIntGetInt64'', linked 1 (\<lambda>args. ret64 (v1_3_bigIntGetInt64 E (arg32 args 0)))),
      (''bigIntSetInt64'', linked 2 (\<lambda>args. ret0 (v1_3_bigIntSetInt64 E (arg32 args 0) (arg64 args 1)))),
      (''bigIntAdd'', linked 3 (\<lambda>args. ret0 (v1_3_bigIntAdd E (arg32 args 0) (arg32 args 1) (arg32 args 2)))),
      (''bigIntSub'', linked 3 (\<lambda>args. ret0 (v1_3_bigIntSub E (arg32 args 0) (arg32 args 1) (arg32 args 2)))),
      (''bigIntMul'', linked 3 (\<lambda>args. ret0 (v1_3_bigIntMul E (arg32 args 0) (arg32 args 1) (arg32 args 2)))),
      (''bigIntTDiv'', linked 3 (\<lambda>args. ret0 (v1_3_bigIntTDiv E (arg32 args 0) (arg32 args 1) (arg32 args 2)))),
      (''bigIntTMod'', linked 3 (\<lambda>args. ret0 (v1_3_bigIntTMod E (arg32 args 0) (arg32 args 1) (arg32 args 2)))),
      (''bigIntEDiv'', linked 3 (\<lambda>args. ret0 (v1_3_bigIntEDiv E (arg32 args 0) (arg32 args 1) (arg32 args 2)))),
      (''bigIntEMod'', linked 3 (\<lambda>args. ret0 (v1_3_bigIntEMod E (arg32 args 0) (arg32 args 1) (arg32 args 2)))),
      (''bigIntAbs'', linked 2 (\<lambda>args. ret0 (v1_3_bigIntAbs E (arg32 args 0) (arg32 args 1)))),
      (''bigIntNeg'', linked 2 (\<lambda>args. ret0 (v1_3_bigIntNeg E (arg32 args 0) (arg32 args 1)))),
      (''bigIntSign'', linked 1 (\<lambda>args. ret32 (v1_3_bigIntSign E (arg32 args 0)))),
      (''bigIntCmp'', linked 2 (\<lambda>args. ret32 (v1_3_bigIntCmp E (arg32 args 0) (arg32 args 1)))),
      (''bigIntNot'', linked 2 (\<lambda>args. ret0 (v1_3_bigIntNot E (arg32 args 0) (arg32 args 1)))),
      (''bigIntAnd'', linked 3 (\<lambda>args. ret0 (v1_3_bigIntAnd E (arg32 args 0) (arg32 args 1) (arg32 args 2)))),
      (''bigIntOr'', linked 3 (\<lambda>args. ret0 (v1_3_bigIntOr E (arg32 args 0) (arg32 args 1) (arg32 args 2)))),
      (''bigIntXor'', linked 3 (\<lambda>args. ret0 (v1_3_bigIntXor E (arg32 args 0) (arg32 args 1) (arg32 args 2)))),
      (''bigIntShr'', linked 3 (\<lambda>args. ret0 (v1_3_bigIntShr E (arg32 args 0) (arg32 args 1) (arg32 args 2)))),
      (''bigIntShl'', linked 3 (\<lambda>args. ret0 (v1_3_bigIntShl E (arg32 args 0) (arg32 args 1) (arg32 args 2)))),
      (''bigIntFinishUnsigned'', linked 1 (\<lambda>args. ret0 (v1_3_bigIntFinishUnsigned E (arg32 args 0)))),
      (''bigIntFinishSigned'', linked 1 (\<lambda>args. ret0 (v1_3_bigIntFinishSigned E (arg32 args 0)))),
      (''bigIntStorageStoreUnsigned'', linked 3 (\<lambda>args. ret32 (v1_3_bigIntStorageStoreUnsigned E (arg32 args 0) (arg32 args 1) (arg32 args 2)))),
      (''bigIntStorageLoadUnsigned'', linked 3 (\<lambda>args. ret32 (v1_3_bigIntStorageLoadUnsigned E (arg32 args 0) (arg32 args 1) (arg32 args 2)))),
      (''bigIntGetUnsignedArgument'', linked 2 (\<lambda>args. ret0 (v1_3_bigIntGetUnsignedArgument E (arg32 args 0) (arg32 args 1)))),
      (''bigIntGetSignedArgument'', linked 2 (\<lambda>args. ret0 (v1_3_bigIntGetSignedArgument E (arg32 args 0) (arg32 args 1)))),
      (''bigIntGetCallValue'', linked 1 (\<lambda>args. ret0 (v1_3_bigIntGetCallValue E (arg32 args 0)))),
      (''bigIntGetESDTCallValue'', linked 1 (\<lambda>args. ret0 (v1_3_bigIntGetESDTCallValue E (arg32 args 0)))),
      (''bigIntGetESDTExternalBalance'', linked 5 (\<lambda>args. ret0 (v1_3_bigIntGetESDTExternalBalance E (arg32 args 0) (arg32 args 1) (arg32 args 2) (arg64 args 3) (arg32 args 4)))),
      (''bigIntGetExternalBalance'', linked 2 (\<lambda>args. ret0 (v1_3_bigIntGetExternalBalance E (arg32 args 0) (arg32 args 1))))]"

definition SmallIntImports :: "'w vmEnv \<Rightarrow> 'w dest_call \<Rightarrow> 'w import_table" where
  "SmallIntImports E onDest = [
      (''smallIntGetUnsignedArgument'', linked 1 (\<lambda>args. ret64 (v1_3_smallIntGetUnsignedArgument E (arg32 args 0)))),
      (''smallIntGetSignedArgument'', linked 1 (\<lambda>args. ret64 (v1_3_smallIntGetSignedArgument E (arg32 args 0)))),
      (''smallIntFinishUnsigned'', linked 1 (\<lambda>args. ret0 (v1_3_smallIntFinishUnsigned E (arg64 args 0)))),
      (''smallIntFinishSigned'', linked 1 (\<lambda>args. ret0 (v1_3_smallIntFinishSigned E (arg64 args 0)))),
      (''smallIntStorageStoreUnsigned'', linked 3 (\<lambda>args. ret32 (v1_3_smallIntStorageStoreUnsigned E (arg32 args 0) (arg32 args 1) (arg64 args 2)))),
      (''smallIntStorageStoreSigned'', linked 3 (\<lambda>args. ret32 (v1_3_smallIntStorageStoreSigned E (arg32 args 0) (arg32 args 1) (arg64 args 2)))),
      (''smallIntStorageLoadUnsigned'', linked 2 (\<lambda>args. ret64 (v1_3_smallIntStorageLoadUnsigned E (arg32 args 0) (arg32 args 1)))),
      (''smallIntStorageLoadSigned'', linked 2 (\<lambda>args. ret64 (v1_3_smallIntStorageLoadSigned E (arg32 args 0) (arg32 args 1)))),
      (''int64getArgument'', linked 1 (\<lambda>args. ret64 (v1_3_int64getArgument E (arg32 args 0)))),
      (''int64storageStore'', linked 3 (\<lambda>args. ret32 (v1_3_int64storageStore E (arg32 args 0) (arg32 args 1) (arg64 args 2)))),
      (''int64storageLoad'', linked 2 (\<lambda>args. ret64 (v1_3_int64storageLoad E (arg32 args 0) (arg32 args 1)))),
      (''int64finish'', linked 1 (\<lambda>args. ret0 (v1_3_int64finish E (arg64 args 0))))]"

definition CryptoImports :: "'w vmEnv \<Rightarrow> 'w dest_call \<Rightarrow> 'w import_table" where
  "CryptoImports E onDest = [
      (''sha256'', linked 3 (\<lambda>args. ret32 (v1_3_sha256 E (arg32 args 0) (arg32 args 1) (arg32 args 2)))),
      (''keccak256'', linked 3 (\<lambda>args. ret32 (v1_3_keccak256 E (arg32 args 0) (arg32 args 1) (arg32 args 2)))),
      (''ripemd160'', linked 3 (\<lambda>args. ret32 (v1_3_ripemd160 E (arg32 args 0) (arg32 args 1) (arg32 args 2)))),
      (''verifyBLS'', linked 4 (\<lambda>args. ret32 (v1_3_verifyBLS E (arg32 args 0) (arg32 args 1) (arg32 args 2) (arg32 args 3)))),
      (''verifyEd25519'', linked 4 (\<lambda>args. ret32 (v1_3_verifyEd25519 E (arg32 args 0) (arg32 args 1) (arg32 args 2) (arg32 args 3)))),
      (''verifySecp256k1'', linked 5 (\<lambda>args. ret32 (v1_3_verifySecp256k1 E (arg32 args 0) (arg32 args 1) (arg32 args 2) (arg32 args 3) (arg32 args 4))))]"

definition scAPIMethods :: "'w vmEnv \<Rightarrow> 'w dest_call \<Rightarrow> 'w import_table" where
  "scAPIMethods E onDest = BaseOpsAPIImports E onDest @ BigIntImports E onDest @ SmallIntImports E onDest
     @ CryptoImports E onDest"

section \<open>Contract code\<close>

text \<open>
  \<open>Compute cost step rest\<close> reads the memory and replaces it by \<open>step memory\<close> for \<open>cost memory\<close>
  units of gas; the code that follows may depend on what was read. After a call of an import the
  engine stops if the host has set a breakpoint; it also stops when the gas limit is exceeded.
\<close>

datatype code =
    Done "go_error option"
  | Compute "bytes \<Rightarrow> u64" "bytes \<Rightarrow> bytes" "bytes \<Rightarrow> code"
  | Call string "u64 list" "u64 \<Rightarrow> code"

definition spend :: "u64 \<Rightarrow> bytes \<Rightarrow> runtimeContext \<Rightarrow> runtimeContext option" where
  "spend cost mem c = upd_instance (\<lambda>i. i\<lparr>wi_PointsUsed := AddUint64 (wi_PointsUsed i) cost,
     wi_Memory := Some mem\<rparr>) c"

definition out_of_gas :: "runtimeContext \<Rightarrow> bool option" where
  "out_of_gas c = map_option (\<lambda>i. wi_GasLimit i < wi_PointsUsed i) (current_instance c)"

primrec run_code :: "'w vmEnv \<Rightarrow> 'w dest_call \<Rightarrow> code \<Rightarrow> ('w, go_error option) hook" where
  "run_code E onDest (Done err) h = Some (err, h)"
| "run_code E onDest (Compute cost step rest) h = do {
     inst \<leftarrow> current_instance (host_runtime h);
     mem \<leftarrow> wi_Memory inst;
     h \<leftarrow> with_runtime (spend (cost mem) (step mem)) h;
     gone \<leftarrow> out_of_gas (host_runtime h);
     if gone then do {
       h \<leftarrow> with_runtime (SetRuntimeBreakpointValue BreakpointOutOfGas) h;
       Some (Some (OtherError ''out of gas''), h)
     }
     else run_code E onDest (rest mem) h
   }"
| "run_code E onDest (Call name args rest) h =
     (case map_of (scAPIMethods E onDest) name of
        None \<Rightarrow> Some (Some (OtherError ''unknown import''), h)
      | Some f \<Rightarrow> do {
          (r, h) \<leftarrow> f args h;
          bp \<leftarrow> GetRuntimeBreakpointValue (host_runtime h);
          if bp \<noteq> breakpoint_value BreakpointNone then Some (Some (OtherError ''breakpoint''), h)
          else run_code E onDest (rest r) h
        })"

text \<open>
  The environment in which exported functions are run: \<open>program f h\<close> is the code of the function
  \<open>f\<close> of the contract that runs in \<open>h\<close>. The fuel bounds the depth of calls between contracts.
\<close>

primrec contract_env :: "nat \<Rightarrow> 'w vmEnv \<Rightarrow> (string \<Rightarrow> 'w vmHost \<Rightarrow> code) \<Rightarrow> 'w vmEnv" where
  "contract_env 0 E program = E\<lparr>env_CallExport := (\<lambda>f h. None)\<rparr>"
| "contract_env (Suc n) E program =
     E\<lparr>env_CallExport := (\<lambda>f h. run_code (contract_env n E program)
         (ExecuteOnDestContext n (contract_env n E program)) (program f h) h)\<rparr>"

section \<open>Every import and every contract is lawful\<close>

definition lawful_import :: "(u64 list \<Rightarrow> ('w, u64) hook) \<Rightarrow> bool" where
  "lawful_import f \<longleftrightarrow> (\<forall>args h. kept h (f args h))"

lemma kept_rets:
  "kept h (f h') \<Longrightarrow> kept h (ret32 f h')" "kept h (f' h') \<Longrightarrow> kept h (ret64 f' h')"
  "kept h (f0 h') \<Longrightarrow> kept h (ret0 f0 h')"
  by (auto simp: ret32_def ret64_def ret0_def kept_def)

lemma lawful_imports:
  "(\<And>args h. kept h (f args h)) \<Longrightarrow> lawful_import (linked n f)"
  by (simp add: lawful_import_def linked_def)

context nested_call
begin

lemma BaseOpsAPIImports_lawful: "list_all (\<lambda>(name, f). lawful_import f) (BaseOpsAPIImports E onDest)"
  unfolding BaseOpsAPIImports_def
  by (simp only: append.simps list.pred_inject prod.case, intro conjI TrueI; intro lawful_imports kept_rets keeps_intros keeps_refls)

lemma BigIntImports_lawful: "list_all (\<lambda>(name, f). lawful_import f) (BigIntImports E onDest)"
  unfolding BigIntImports_def
  by (simp only: append.simps list.pred_inject prod.case, intro conjI TrueI; intro lawful_imports kept_rets keeps_intros keeps_refls)

lemma SmallInt_Crypto_lawful: "list_all (\<lambda>(name, f). lawful_import f) (SmallIntImports E onDest @ CryptoImports E onDest)"
  unfolding SmallIntImports_def CryptoImports_def
  by (simp only: append.simps list.pred_inject prod.case, intro conjI TrueI; intro lawful_imports kept_rets keeps_intros keeps_refls)

lemma import_kept:
  assumes "map_of (scAPIMethods E onDest) name = Some f"
  shows "kept h (f args h)"
proof -
  have "list_all (\<lambda>(name, f). lawful_import f) (scAPIMethods E onDest)"
    using BaseOpsAPIImports_lawful BigIntImports_lawful SmallInt_Crypto_lawful by (simp add: scAPIMethods_def)
  moreover have "(name, f) \<in> set (scAPIMethods E onDest)" using assms by (rule map_of_SomeD)
  ultimately show ?thesis by (auto simp: list_all_iff lawful_import_def)
qed

lemma spend_keeps: "keeps_runtime c c' \<Longrightarrow> kept_runtime c (spend cost mem c')"
  unfolding spend_def by (rule keeps_intros)

lemma run_code_kept: "keeps h h' \<Longrightarrow> kept h (run_code E onDest c h')"
proof (induction c arbitrary: h')
  case (Compute cost step rest)
  then show ?case
    by (auto intro!: keeps_intros kept_value [where v = "v :: WasmInstance option" for v] spend_keeps)
next
  case (Call name args rest)
  then show ?case
    using import_kept by (auto intro!: keeps_intros intro: kept_trans split: option.split)
qed simp

end
end
