(* ===== verification/HostFuel.thy ===== *)
theory HostFuel
  imports HostNesting
begin

text \<open>
  The fuel of \<open>ExecuteOnDestContext\<close> bounds the depth of nested calls that the host itself makes
  for asynchronous calls and callbacks. The code has its own bound: an instance is not started
  when the stack of instances has reached its limit. So a fuel that covers the levels left under
  the limit is enough: with it the result does not depend on the fuel any more, and \<open>None\<close> can
  only be a panic.

  The locale \<open>agreeing_calls\<close> compares two nested calls that agree on every host with the stacks
  of a given one; each execution function then computes the same with both.
\<close>

named_theorems same_intros

lemma same_bind [same_intros]:
  "m = m' \<Longrightarrow> kept h m \<Longrightarrow> (\<And>r h'. keeps h h' \<Longrightarrow> F (r, h') = G (r, h')) \<Longrightarrow>
   Option.bind m F = Option.bind m' G"
  "n = n' \<Longrightarrow> kept_host h n \<Longrightarrow> (\<And>h'. keeps h h' \<Longrightarrow> F' h' = G' h') \<Longrightarrow>
   Option.bind n F' = Option.bind n' G'"
  by (cases m; auto simp: kept_def) (cases n; auto simp: kept_host_def)

lemma same_value: "(\<And>x. F x = G x) \<Longrightarrow> Option.bind v F = Option.bind v G"
  by (cases v) auto

lemmas same_values [same_intros] =
  same_value [where v = "v :: u64 option" for v] same_value [where v = "v :: bool option" for v]
  same_value [where v = "v :: int option" for v] same_value [where v = "v :: VMOutput option" for v]
  same_value [where v = "v :: AsyncCallInfo option" for v]
  same_value [where v = "v :: AsyncContextInfo option" for v]
  same_value [where v = "v :: string option option" for v]
  same_value [where v = "v :: (go_error + string) option" for v]
  same_value [where v = "v :: (go_error + ContractCallInput) option" for v]

locale agreeing_calls = nested_call E f for E :: "'w vmEnv" and f +
  fixes g :: "'w dest_call" and h0 :: "'w vmHost"
  assumes agree: "keeps h0 h \<Longrightarrow> f input h = g input h"
begin

lemma same_sync_destination [same_intros]:
  "keeps h0 h \<Longrightarrow> executeSyncDestinationCall E f info h = executeSyncDestinationCall E g info h"
  unfolding executeSyncDestinationCall_def by (auto simp: agree split: sum.split)

lemma same_sync_callback [same_intros]:
  "keeps h0 h \<Longrightarrow> executeSyncCallbackCall E f info out err h = executeSyncCallbackCall E g info out err h"
  unfolding executeSyncCallbackCall_def
  by (auto intro!: same_intros keeps_intros agree split: sum.split)

lemma same_async_breakpoint [same_intros]:
  "keeps h0 h \<Longrightarrow> handleAsyncCallBreakpoint E f h = handleAsyncCallBreakpoint E g h"
  unfolding handleAsyncCallBreakpoint_def Let_def case_prod_beta
  by (auto intro!: same_intros keeps_intros split: sum.split)

lemma same_breakpoint [same_intros]:
  "keeps h0 h \<Longrightarrow> handleBreakpoint E f bp h = handleBreakpoint E g bp h"
  unfolding handleBreakpoint_def by (auto intro!: same_intros)

lemma same_breakpoint_if_any [same_intros]:
  "keeps h0 h \<Longrightarrow> handleBreakpointIfAny E f err h = handleBreakpointIfAny E g err h"
  unfolding handleBreakpointIfAny_def by (auto intro!: same_intros keeps_intros)

lemma same_init [same_intros]:
  "keeps h0 h \<Longrightarrow> callInitFunction E f h = callInitFunction E g h"
  unfolding callInitFunction_def by (auto intro!: same_intros keeps_intros split: option.split)

lemma same_method [same_intros]:
  "keeps h0 h \<Longrightarrow> callSCMethodIndirect E f h = callSCMethodIndirect E g h"
  unfolding callSCMethodIndirect_def by (auto intro!: same_intros keeps_intros split: sum.split)

lemma same_upgrade [same_intros]:
  "keeps h0 h \<Longrightarrow> executeUpgrade E f input h = executeUpgrade E g input h"
  unfolding executeUpgrade_def Let_def case_prod_beta
  by (auto intro!: same_intros keeps_intros split: option.split sum.split)

lemma same_execute [same_intros]:
  "keeps h0 h \<Longrightarrow> execute E f input h = execute E g input h"
  unfolding execute_def Let_def case_prod_beta
  by (auto intro!: same_intros keeps_intros split: sum.split)

lemma same_callbackAsync [same_intros]:
  "keeps h0 h \<Longrightarrow> callbackAsync E f call out err h = callbackAsync E g call out err h"
  unfolding callbackAsync_def Let_def case_prod_beta
  by (auto intro!: same_intros keeps_intros agree split: sum.split)

lemma same_processAsyncCall [same_intros]:
  "keeps h0 h \<Longrightarrow> processAsyncCall E f call h = processAsyncCall E g call h"
  unfolding processAsyncCall_def case_prod_beta
  by (auto intro!: same_intros keeps_intros agree split: sum.split)

lemma same_process_calls [same_intros]:
  "keeps h0 h \<Longrightarrow> process_calls E f calls h = process_calls E g calls h"
proof (induction calls arbitrary: h)
  case (Cons call calls)
  then show ?case by (auto simp: Let_def case_prod_beta intro!: same_intros keeps_intros)
qed simp

lemma same_process_contexts [same_intros]:
  "keeps h0 h \<Longrightarrow> process_contexts E f m h = process_contexts E g m h"
proof (induction m arbitrary: h)
  case (Cons p m)
  then show ?case by (cases p) (auto simp: Let_def case_prod_beta intro!: same_intros keeps_intros)
qed simp

lemma same_processAsyncInfo [same_intros]:
  "keeps h0 h \<Longrightarrow> processAsyncInfo E f info h = processAsyncInfo E g info h"
  unfolding processAsyncInfo_def Let_def case_prod_beta
  by (auto intro!: same_intros keeps_intros split: sum.split option.split)

lemma same_runOnDestContext:
  "keeps h0 h \<Longrightarrow> runOnDestContext E f input h = runOnDestContext E g input h"
  unfolding runOnDestContext_def Let_def case_prod_beta
  by (auto intro!: same_intros keeps_intros)

end

section \<open>At the limit nothing is called\<close>

text \<open>No contract runs when the stack of instances is full, so the nested call is not used.\<close>

definition full :: "'w vmHost \<Rightarrow> bool" where
  "full h \<longleftrightarrow> rc_maxWasmerInstances (host_runtime h) \<le> RunningInstancesCount (host_runtime h)"

lemma full_keeps: "keeps h h' \<Longrightarrow> full h' = full h"
  by (simp add: full_def keeps_def keeps_runtime_def RunningInstancesCount_def)

lemma full_start:
  assumes "full h0" and "keeps h0 h" and "\<And>e h'. F (Some e, h') = G (Some e, h')"
  shows "Option.bind (StartWasmerInstance E contract gasLimit newCode h) F =
    Option.bind (StartWasmerInstance E contract gasLimit newCode h) G"
  using assms full_keeps [OF assms(2)] by (simp add: StartWasmerInstance_def full_def)

lemma full_start_error:
  assumes "full h0" and "keeps h0 h" and "StartWasmerInstance E contract gasLimit newCode h = Some (err, h')"
  shows "err \<noteq> None"
  using assms full_keeps [OF assms(2)] by (auto simp: StartWasmerInstance_def full_def)

lemma full_execute:
  assumes "full h"
  shows "execute E f input h = execute E g input h"
proof -
  have upgrade: "executeUpgrade E f input h' = executeUpgrade E g input h'" if "keeps h h'" for h'
    unfolding executeUpgrade_def Let_def case_prod_beta
    using that by (auto intro!: full_start [OF assms] keeps_intros split: option.split sum.split)
  show ?thesis
    unfolding execute_def Let_def case_prod_beta
    by (auto intro!: same_bind(2) upgrade full_start [OF assms] keeps_intros split: sum.split)
qed

definition fails :: "(go_error option \<times> 'w vmHost) option \<Rightarrow> bool" where
  "fails m \<longleftrightarrow> (\<forall>err h. m = Some (err, h) \<longrightarrow> err \<noteq> None)"

lemma fails_Some [simp]: "fails (Some p) \<longleftrightarrow> fst p \<noteq> None"
  by (cases p) (simp add: fails_def)

lemma fails_bind:
  "kept_host h n \<Longrightarrow> (\<And>h'. keeps h h' \<Longrightarrow> fails (F h')) \<Longrightarrow> fails (Option.bind n F)"
  by (auto simp: fails_def kept_host_def bind_eq_Some_conv)

lemma fails_start:
  assumes "full h0" and "keeps h0 h" and "\<And>e h'. fails (F (Some e, h'))"
  shows "fails (Option.bind (StartWasmerInstance E contract gasLimit newCode h) F)"
  using assms full_keeps [OF assms(2)] by (simp add: StartWasmerInstance_def full_def)

lemma full_execute_fails:
  assumes "full h"
  shows "fails (execute E f input h)"
proof -
  have upgrade: "fails (executeUpgrade E f input h')" if "keeps h h'" for h'
    unfolding executeUpgrade_def Let_def case_prod_beta
    using that by (auto intro!: fails_start [OF assms] keeps_intros split: option.split sum.split)
  show ?thesis
    unfolding execute_def Let_def case_prod_beta
    by (auto intro!: fails_bind upgrade fails_start [OF assms] keeps_intros split: sum.split)
qed

lemma full_runOnDestContext:
  assumes "full h"
  shows "runOnDestContext E f input h = runOnDestContext E g input h"
proof -
  have run: "Option.bind (execute E f input h') F = Option.bind (execute E g input h') G"
    if "keeps h h'" and FG: "\<And>e h'. F (Some e, h') = G (Some e, h')"
    for h' and F G :: "go_error option \<times> 'a vmHost \<Rightarrow> 'b option"
  proof -
    have full: "full h'" using full_keeps [OF that(1)] assms by simp
    have "Option.bind m F = Option.bind m G" if "fails m" for m
      using that FG by (cases m) (auto simp: fails_def)
    then show ?thesis
      using full_execute [OF full, of E f input g] full_execute_fails [OF full, of E f input] by simp
  qed
  show ?thesis
    unfolding runOnDestContext_def Let_def case_prod_beta
    by (intro same_value same_bind(1) refl) (auto intro!: keeps_intros run)
qed

section \<open>Enough fuel\<close>

lemma agreeing_NoBuiltin:
  assumes "nested_call E f"
    and "enterDestContext E input h = (input', h1)"
    and "full h1 \<or> (\<forall>i h'. keeps h1 h' \<longrightarrow> f i h' = g i h')"
  shows "executeOnDestContextNoBuiltinFunction E f input h = executeOnDestContextNoBuiltinFunction E g input h"
proof -
  have "runOnDestContext E f input' h1 = runOnDestContext E g input' h1"
    using assms(3)
  proof
    assume "full h1"
    then show ?thesis by (rule full_runOnDestContext)
  next
    assume "\<forall>i h'. keeps h1 h' \<longrightarrow> f i h' = g i h'"
    then have "agreeing_calls E f g h1"
      using assms(1) by (simp add: agreeing_calls_def agreeing_calls_axioms_def)
    then show ?thesis using agreeing_calls.same_runOnDestContext keeps_refls(4) by blast
  qed
  then show ?thesis
    using assms(2) by (simp add: executeOnDestContextNoBuiltinFunction_def)
qed

abbreviation depth :: "'w vmHost \<Rightarrow> nat" where
  "depth h \<equiv> length (rc_instanceStack (host_runtime h))"

abbreviation limit :: "'w vmHost \<Rightarrow> nat" where
  "limit h \<equiv> unat (rc_maxWasmerInstances (host_runtime h))"

lemma keeps_depth: "keeps h h' \<Longrightarrow> depth h' = depth h \<and> limit h' = limit h"
  by (simp add: keeps_def keeps_runtime_def)

lemma agreeing_body:
  assumes nested: "nested_call E f"
    and agree: "\<And>i h'. depth h' = Suc (depth h) \<Longrightarrow> limit h' = limit h \<Longrightarrow> \<not> full h' \<Longrightarrow> f i h' = g i h'"
  shows "ExecuteOnDestContext_body E f input h = ExecuteOnDestContext_body E g input h"
proof -
  have same: "executeOnDestContextNoBuiltinFunction E f i h1 = executeOnDestContextNoBuiltinFunction E g i h1"
    if "depth h1 = depth h" "limit h1 = limit h" for i h1
  proof -
    obtain i' h2 where enter: "enterDestContext E i h1 = (i', h2)" by fastforce
    have "depth h2 = Suc (depth h)" "limit h2 = limit h"
      using enterDestContext_spec(5,6) [OF enter] that by simp_all
    then have "full h2 \<or> (\<forall>i h'. keeps h2 h' \<longrightarrow> f i h' = g i h')"
      using agree keeps_depth full_keeps by metis
    then show ?thesis using agreeing_NoBuiltin [OF nested enter] by blast
  qed
  have step: "depth h1 = depth h \<and> limit h1 = limit h"
    if "builtinStep E input (blockchain_PushState E h) = Some (r, h1)" for r h1
    using keeps_depth [OF keptD [OF nested_call.builtinStep_kept [OF nested keeps_refls(4)] that]] by simp
  show ?thesis
  proof (cases "builtinStep E input (blockchain_PushState E h)")
    case (Some p)
    obtain r h1 where p: "p = (r, h1)" by (cases p)
    with Some step have "depth h1 = depth h \<and> limit h1 = limit h" by simp
    then show ?thesis
      using Some p same by (simp add: ExecuteOnDestContext_body_def split: sum.split option.split)
  qed (simp add: ExecuteOnDestContext_body_def)
qed

lemma not_full:
  assumes "depth h < 2 ^ 64" and "\<not> full h"
  shows "depth h < limit h"
  using assms by (simp add: full_def RunningInstancesCount_def word_le_nat_alt unat_of_nat take_bit_nat_eq_self not_le)

lemma fuel_irrelevant:
  assumes "lawful_env E"
  shows "0 < n \<Longrightarrow> 0 < m \<Longrightarrow> limit h \<le> depth h + n \<Longrightarrow> limit h \<le> depth h + m \<Longrightarrow> Suc (depth h) < 2 ^ 64 \<Longrightarrow>
    ExecuteOnDestContext n E input h = ExecuteOnDestContext m E input h"
proof (induction n arbitrary: m input h)
  case (Suc n)
  obtain m' where m: "m = Suc m'" using Suc.prems(2) by (cases m) auto
  have "ExecuteOnDestContext n E i h' = ExecuteOnDestContext m' E i h'"
    if "depth h' = Suc (depth h)" "limit h' = limit h" "\<not> full h'" for i h'
  proof -
    have "Suc (depth h) < limit h" using not_full [of h'] that Suc.prems(5) by simp
    then have "0 < n" "0 < m'" "Suc (Suc (depth h)) < 2 ^ 64"
      using Suc.prems(3,4) m unat_le_u64 [of "rc_maxWasmerInstances (host_runtime h)"]
      by (simp_all del: unat_le_u64)
    then show ?thesis using Suc.IH [of m' h' i] Suc.prems(3,4) that m by simp
  qed
  then show ?case
    unfolding m ExecuteOnDestContext.simps
    by (intro agreeing_body nested_ExecuteOnDestContext assms)
qed simp

end
