(* ===== verification/HostGuarantees.thy ===== *)
theory HostGuarantees
  imports HostFuel Sample
begin

text \<open>
  The guarantees of nested calls, for the model's \<open>ExecuteOnDestContext\<close>: the caller gets its
  contexts back, a failed call is undone, and the fuel of the model does not matter once it
  covers the levels that the limit on instances leaves. The node and the contracts of the sample
  environment satisfy the assumptions.
\<close>

interpretation sample_lawful: lawful_env sample_env
  by unfold_locales (simp_all add: sample_env_def sample_hook_def)

interpretation sample_nested: nested_call sample_env "ExecuteOnDestContext n sample_env" for n
  by (rule nested_ExecuteOnDestContext) (rule sample_lawful.lawful_env_axioms)

lemma sample_wf: "wf_host sample_host"
  by (simp add: wf_host_def wf_bigInt_def wf_output_def wf_vmOutput_def wf_metering_def wf_runtime_def
      normal_input_def sample_host_def sample_output_def sample_runtime_def sample_input_def)

lemma sample_builtin: "\<not> IsBuiltinFunctionName sample_env (ci_Function (sample_call v))"
  by (simp add: sample_call_def IsBuiltinFunctionName_def sample_env_def)

text \<open>A nested call that transfers more than the caller has.\<close>

lemma sample_overdraft:
  assumes "enterDestContext sample_env (sample_call 5000) (blockchain_PushState sample_env sample_host) = (i, h1)"
  shows "\<exists>h2. runOnDestContext sample_env f i h1 =
    Some ((None, Some (Sentinel ErrTransferInsufficientFunds)), h2)"
proof -
  have ih: "i = fst (enterDestContext sample_env (sample_call 5000) (blockchain_PushState sample_env sample_host))"
    "h1 = snd (enterDestContext sample_env (sample_call 5000) (blockchain_PushState sample_env sample_host))"
    using assms by simp_all
  have i: "vi_CallType (ci_VMInput i) = DirectCall" "vi_CallValue (ci_VMInput i) = Some 5000"
    "vi_CallerAddr (ci_VMInput i) = [1]" "ci_RecipientAddr i = [2]"
    unfolding ih enterDestContext_def copyTxHashesFromContext_def Let_def case_prod_beta sample_call_def
      metering_InitStateFromContractCallInput_def unlockGasIfAsyncCallback_def
    by (simp_all add: sample_input_def)
  have out: "GetOutputAccounts (host_output h1) = []"
    unfolding ih enterDestContext_def Let_def case_prod_beta
    by (simp add: CensorVMOutput_def output_PushState_def GetOutputAccounts_def sample_host_def sample_output_def)
  have "\<exists>h2. TransferValueOnly sample_env [2] [1] 5000 False h1 =
      Some (Some (Sentinel ErrTransferInsufficientFunds), h2)"
    using out
    by (simp add: TransferValueOnly_def hasSufficientBalance_def GetBalanceBigInt_def GetOutputAccount_def
        NewVMOutputAccount_def sample_env_def sample_hook_def sample_account_def)
  then show ?thesis by (auto simp: runOnDestContext_def i Let_def)
qed

lemma sample_failing_call:
  "\<exists>out h'. ExecuteOnDestContext 1 sample_env (sample_call 5000) sample_host =
     Some ((Some out, None, Some (Sentinel ErrTransferInsufficientFunds)), h')"
proof -
  let ?h0 = "blockchain_PushState sample_env sample_host"
  let ?f = "ExecuteOnDestContext 0 sample_env"
  obtain i h1 where enter: "enterDestContext sample_env (sample_call 5000) ?h0 = (i, h1)" by fastforce
  obtain h2 where run: "runOnDestContext sample_env ?f i h1 =
      Some ((None, Some (Sentinel ErrTransferInsufficientFunds)), h2)"
    using sample_overdraft [OF enter, of ?f] by blast
  have k: "keeps h1 h2" using keptD [OF sample_nested.runOnDestContext_kept [OF keeps_refls(4)] run] .
  have "rc_stateStack (host_runtime h2) \<noteq> []" "rc_instanceStack (host_runtime h2) = [Some 0]"
    using enterDestContext_spec(4,5) [OF enter] k
    by (simp_all add: keeps_def keeps_runtime_def pop_push_stacks sample_host_def sample_runtime_def)
  then obtain out h3 where "finishExecuteOnDestContext sample_env (Some (Sentinel ErrTransferInsufficientFunds)) h2
      = Some (out, h3)"
    using finish_error_returns [of "Sentinel ErrTransferInsufficientFunds" h2 sample_env] by auto
  then show ?thesis
    using run enter sample_builtin
    by (simp add: ExecuteOnDestContext_body_def builtinStep_def executeOnDestContextNoBuiltinFunction_def)
qed

text \<open>
  C15. A nested call always gives the caller its contexts back. Whatever the called contract
  does, and however deeply it nests further calls, a call of \<open>ExecuteOnDestContext\<close> that
  returns leaves every state stack, the stack of instances and the instance limit as they
  were and keeps the contexts well-formed. Contract code is only assumed to balance its own
  nested calls, and built-in functions to file their accounts under their addresses.
\<close>

theorem ExecuteOnDestContext_keeps_stacks:
  assumes "lawful_env E" and "ExecuteOnDestContext n E input h = Some (res, h')"
  shows "keeps h h'"
  using nested_call.nested_keeps [OF nested_ExecuteOnDestContext [OF assms(1)]] assms(2) by (rule keptD)

theorem ExecuteOnDestContext_keeps_stacks_witness:
  "\<exists>res h'. ExecuteOnDestContext 1 sample_env (sample_call 5000) sample_host = Some (res, h')
     \<and> keeps sample_host h'"
proof -
  obtain res h' where "ExecuteOnDestContext 1 sample_env (sample_call 5000) sample_host = Some (res, h')"
    using sample_failing_call by blast
  then show ?thesis
    using ExecuteOnDestContext_keeps_stacks [OF sample_lawful.lawful_env_axioms] by blast
qed




text \<open>
  C16. The fuel of the model is no restriction: as soon as it covers the levels that the limit on
  running instances still allows, every larger fuel gives the same result, so that \<open>None\<close>
  stands for a panic of the code and never for a lack of fuel.
\<close>

theorem ExecuteOnDestContext_fuel:
  assumes "lawful_env E" and "0 < n" and "n \<le> m"
    and "unat (rc_maxWasmerInstances (host_runtime h)) \<le> length (rc_instanceStack (host_runtime h)) + n"
    and "length (rc_instanceStack (host_runtime h)) < 2 ^ 63"
  shows "ExecuteOnDestContext m E input h = ExecuteOnDestContext n E input h"
  using assms by (intro fuel_irrelevant) simp_all

theorem ExecuteOnDestContext_fuel_witness:
  "ExecuteOnDestContext 1000 sample_env (sample_call 10) sample_host =
   ExecuteOnDestContext 10 sample_env (sample_call 10) sample_host"
  by (rule ExecuteOnDestContext_fuel [OF sample_lawful.lawful_env_axioms])
    (simp_all add: sample_host_def sample_runtime_def)

end
