(* ===== verification/HookGuarantees.thy ===== *)
theory HookGuarantees
  imports Contracts HostGuarantees
begin

text \<open>
  What contracts can and cannot do through the hooks: the guarantees of the imports as a whole,
  and the behaviour of single hooks.
\<close>

section \<open>Contracts\<close>

definition lawful_builtins :: "'w vmEnv \<Rightarrow> bool" where
  "lawful_builtins E \<longleftrightarrow> (\<forall>w input out w'. hook_ProcessBuiltInFunction (env_hook E) w input = (Inr out, w') \<longrightarrow>
     filed_accounts (vo_OutputAccounts out))"

lemma contract_env_hook [simp]: "env_hook (contract_env n E program) = env_hook E"
  by (cases n) simp_all

lemma contract_env_lawful:
  assumes "lawful_builtins E"
  shows "lawful_env (contract_env n E program)"
proof (induction n)
  case 0
  show ?case using assms by unfold_locales (auto simp: lawful_builtins_def)
next
  case (Suc n)
  note nested = nested_ExecuteOnDestContext [OF Suc, of n]
  show ?case
    using assms nested_call.run_code_kept [OF nested keeps_refls(4)]
    by unfold_locales (auto simp: lawful_builtins_def)
qed

definition sample_program :: "string \<Rightarrow> nat vmHost \<Rightarrow> code" where
  "sample_program f h = Compute (\<lambda>mem. 3) (\<lambda>mem. mem) (\<lambda>mem. Call ''smallIntFinishUnsigned'' [7] (\<lambda>r. Done None))"

lemma sample_lawful_builtins: "lawful_builtins sample_env"
  by (simp add: lawful_builtins_def sample_env_def sample_hook_def)

text \<open>
  C3. No contract can disturb the contexts of its callers. Whatever code a contract has - any
  computation on its memory and any sequence of calls of the 122 imported functions, with any
  arguments, nested calls of other contracts included - running one of its functions leaves
  every state stack and the stack of instances as it found them and the host well-formed, and so
  does every nested call in which such contracts run.
\<close>

theorem contracts_cannot_escape:
  assumes "lawful_builtins E" and "wf_host h"
  shows "(\<forall>f err h'. env_CallExport (contract_env n E program) f h = Some (err, h') \<longrightarrow> keeps h h' \<and> wf_host h')
    \<and> (\<forall>input res h'. ExecuteOnDestContext m (contract_env n E program) input h = Some (res, h') \<longrightarrow>
         keeps h h' \<and> wf_host h')"
proof -
  note lawful = contract_env_lawful [OF assms(1), of n program]
  note nested = nested_ExecuteOnDestContext [OF lawful, of m]
  have "keeps h h'" if "env_CallExport (contract_env n E program) f h = Some (err, h')" for f err h'
    using lawful_env.export_keeps [OF lawful] that by (rule keptD)
  moreover have "keeps h h'" if "ExecuteOnDestContext m (contract_env n E program) input h = Some (res, h')"
    for input res h'
    using nested_call.nested_keeps [OF nested] that by (rule keptD)
  ultimately show ?thesis using assms(2) keeps_wf by blast
qed

lemma smallIntFinish_import:
  "map_of (scAPIMethods E onDest) ''smallIntFinishUnsigned'' =
     Some (linked 1 (\<lambda>args. ret0 (v1_3_smallIntFinishUnsigned E (arg64 args 0))))"
  by (simp add: scAPIMethods_def BaseOpsAPIImports_def BigIntImports_def SmallIntImports_def)

lemma sample_program_runs:
  "\<exists>h'. env_CallExport (contract_env 1 sample_env sample_program) f sample_host = Some (None, h')
     \<and> vo_ReturnData (oc_outputState (host_output h')) = [[7]]"
proof -
  have "big_Bytes 7 = [7]" by code_simp
  moreover have "AddUint64 10 3 = 13" by code_simp
  ultimately show ?thesis
    by (simp add: sample_program_def smallIntFinish_import linked_def ret0_def arg64_def
        v1_3_smallIntFinishUnsigned_def current_instance_def out_of_gas_def with_runtime_def spend_def
        upd_instance_def UseGas_def SetPointsUsed_def GetPointsUsed_def GetRuntimeBreakpointValue_def
        Finish_def sample_host_def sample_runtime_def sample_instance_def sample_output_def Let_def)
qed

theorem contracts_cannot_escape_witness:
  "\<exists>h'. env_CallExport (contract_env 1 sample_env sample_program) ''pay'' sample_host = Some (None, h')
     \<and> vo_ReturnData (oc_outputState (host_output h')) = [[7]] \<and> keeps sample_host h' \<and> wf_host h'"
  using sample_program_runs [of "''pay''"] contracts_cannot_escape [OF sample_lawful_builtins sample_wf]
  by blast

section \<open>Hooks that do not do what they are meant to\<close>

text \<open>The name of the transferred token is copied into a slice of length zero and never arrives.\<close>

lemma getCallValueTokenName_unnamed:
  assumes "v1_3_getCallValueTokenName E callValueOffset tokenNameOffset h = Some (r, h')"
  shows "r = 0 \<or> r = -1"
  using assms
  by (auto simp: v1_3_getCallValueTokenName_def bind_eq_Some_conv Let_def store_then_def no_fault_def fault_def
      go_copy_new_def split: if_splits option.splits prod.splits)

text \<open>A negative index passes the check against the length and is out of range for the slice.\<close>

lemma len32_not_le_negative:
  assumes "(index :: i32) <s 0" and "length xs < 2 ^ 31"
  shows "\<not> len32 xs \<le>s index"
proof -
  have "sint (len32 xs) = int (length xs)"
    using assms(2) by (simp add: sint_uint uint_nat unat_of_nat  signed_take_bit_int_eq_self)
  then show ?thesis using assms(1) by (simp add: word_sle_eq word_sless_alt)
qed

lemma go_index_negative: "index <s (0 :: i32) \<Longrightarrow> go_index xs (sint index) = None"
  by (simp add: go_index_def word_sless_alt)

lemma UseGas_inputs:
  assumes "UseGas g h = Some h'"
  shows "rc_vmInput (host_runtime h') = rc_vmInput (host_runtime h)" "host_output h' = host_output h"
  using UseGas_cases(2) [OF assms] by auto

lemma bind_none: "(\<And>h'. m = Some h' \<Longrightarrow> f h' = None) \<Longrightarrow> Option.bind m f = None"
  by (cases m) simp_all

lemma negative_argument_index_panics:
  assumes "index <s 0" and "length (vi_Arguments (rc_vmInput (host_runtime h))) < 2 ^ 31"
  shows "v1_3_bigIntGetUnsignedArgument E index d h = None" "v1_3_bigIntGetSignedArgument E index d h = None"
  unfolding v1_3_bigIntGetUnsignedArgument_def v1_3_bigIntGetSignedArgument_def
  by (rule bind_none, simp only: Let_def UseGas_inputs len32_not_le_negative [OF assms] if_False
      go_index_negative [OF assms(1)] bind.simps split: prod.split, blast)+

lemma negative_result_index_panics:
  assumes "index <s 0" and "length (vo_ReturnData (oc_outputState (host_output h))) < 2 ^ 31"
  shows "v1_3_getReturnDataSize E index h = None" "v1_3_getReturnData E index d h = None"
  unfolding v1_3_getReturnDataSize_def v1_3_getReturnData_def
  by (rule bind_none, simp only: Let_def UseGas_inputs len32_not_le_negative [OF assms] if_False
      go_index_negative [OF assms(1)] bind.simps)+

end
