(* ===== verification/HookStorage.thy ===== *)
theory HookStorage
  imports BaseOps SmallIntOps
begin

text \<open>
  Storage as contracts see it: the hooks that take a key from the memory of the contract and
  store or load a value under it. The two ways of writing, as a contract and as the VM itself,
  share an interface, from which the behaviour of the hooks follows.
\<close>

section \<open>The hooks in general form\<close>

text \<open>
  A store hook pays, reads the key from memory and writes the value; a load hook pays, reads
  the key and hands the stored bytes on.
\<close>

definition store_hook ::
  "'w vmEnv \<Rightarrow> (bytes \<Rightarrow> bytes \<Rightarrow> 'w vmHost \<Rightarrow> ((StorageStatus \<times> go_error option) \<times> 'w vmHost) option) \<Rightarrow>
   (bytes \<Rightarrow> bytes) \<Rightarrow> u64 \<Rightarrow> i32 \<Rightarrow> i32 \<Rightarrow> bytes \<Rightarrow> ('w, i32) hook" where
  "store_hook E put full_key gas keyOffset keyLength val h = do {
     h \<leftarrow> UseGas gas h;
     load_then E keyOffset keyLength True (-1) h (\<lambda>key. do {
       ((storageStatus, err), h) \<leftarrow> put (full_key key) val h;
       no_fault E err True (-1) h (Some (storage_status_int storageStatus, h))
     })
   }"

definition load_hook ::
  "'w vmEnv \<Rightarrow> (bytes \<Rightarrow> bytes) \<Rightarrow> u64 \<Rightarrow> 'r \<Rightarrow> i32 \<Rightarrow> i32 \<Rightarrow> (bytes \<Rightarrow> ('w, 'r) hook) \<Rightarrow> ('w, 'r) hook" where
  "load_hook E full_key gas r keyOffset keyLength use h = do {
     h \<leftarrow> UseGas gas h;
     load_then E keyOffset keyLength True r h (\<lambda>key. do {
       (data, h) \<leftarrow> GetStorage E (full_key key) h;
       use data h
     })
   }"

definition lock_key :: "bytes \<Rightarrow> bytes" where
  "lock_key key = CustomStorageKey TimeLockKeyPrefix key"

lemmas hook_flags = BaseOpsErrorShouldFailExecution_def BigIntAPIErrorShouldFailExecution_def

lemma store_hooks:
  "v1_3_smallIntStorageStoreUnsigned E keyOffset keyLength v h =
     store_hook E (SetStorage E) (\<lambda>k. k) (baseOpsCost Int64StorageStoreCost h) keyOffset keyLength (big_Bytes (uint v)) h"
  "v1_3_smallIntStorageStoreSigned E keyOffset keyLength v h =
     store_hook E (SetStorage E) (\<lambda>k. k) (baseOpsCost Int64StorageStoreCost h) keyOffset keyLength
       (env_twos_ToBytes E (sint v)) h"
  "v1_3_setStorageLock E keyOffset keyLength v h =
     store_hook E (SetProtectedStorage E) lock_key (baseOpsCost Int64StorageStoreCost h) keyOffset keyLength
       (big_Bytes (sint v)) h"
  by (simp_all add: v1_3_smallIntStorageStoreUnsigned_def v1_3_smallIntStorageStoreSigned_def
      v1_3_setStorageLock_def store_hook_def hook_flags lock_key_def)

text \<open>The number that is read, or a fault when it does not fit into 64 bits.\<close>

definition in_range :: "'w vmEnv \<Rightarrow> bool \<Rightarrow> int \<Rightarrow> ('w, u64) hook" where
  "in_range E fits z h =
     (if \<not> fits then fault E (Sentinel ErrStorageValueOutOfRange) True 0 h else Some (low64 z, h))"

lemma load_hooks:
  "v1_3_smallIntStorageLoadUnsigned E keyOffset keyLength h =
     load_hook E (\<lambda>k. k) (baseOpsCost Int64StorageLoadCost h) 0 keyOffset keyLength
       (\<lambda>data. in_range E (IsUint64 (big_SetBytes data)) (big_SetBytes data)) h"
  "v1_3_smallIntStorageLoadSigned E keyOffset keyLength h =
     load_hook E (\<lambda>k. k) (baseOpsCost Int64StorageLoadCost h) 0 keyOffset keyLength
       (\<lambda>data. in_range E (IsInt64 (env_twos_SetBytes E data)) (env_twos_SetBytes E data)) h"
  "v1_3_getStorageLock E keyOffset keyLength h =
     load_hook E lock_key (baseOpsCost StorageLoadCost h) (-1) keyOffset keyLength
       (\<lambda>data. in_range E True (big_SetBytes data)) h"
  unfolding v1_3_smallIntStorageLoadUnsigned_def v1_3_smallIntStorageLoadSigned_def
    v1_3_getStorageLock_def load_hook_def hook_flags lock_key_def Let_def in_range_def by simp_all

section \<open>A contract that can pay and reach its memory\<close>

definition hook_ready :: "bytes \<Rightarrow> 'w vmHost \<Rightarrow> bool" where
  "hook_ready m h \<longleftrightarrow> memory_of (host_runtime h) = Some m \<and> length m < 2 ^ 31 \<and> points h \<le> max_points"

lemma memory_of_set_points [simp]: "memory_of (host_runtime (set_points x h)) = memory_of (host_runtime h)"
  by (cases "rc_instance (host_runtime h)") (simp_all add: set_points_def memory_of_def current_instance_def)

lemma hook_ready_instance: "hook_ready m h \<Longrightarrow> has_instance h"
  by (auto simp: hook_ready_def memory_of_Some has_instance_def)

lemma storage_frame_memory:
  assumes "storage_frame h h'"
  shows "memory_of (host_runtime h') = memory_of (host_runtime h)"
proof -
  have eq: "h' = set_points (GetPointsUsed (host_runtime h')) (h\<lparr>host_output := host_output h'\<rparr>)"
    using assms by (simp add: storage_frame_def)
  show ?thesis by (subst eq) simp
qed

lemma hook_ready_frame:
  assumes "hook_ready m h" and "storage_frame h h'" and "points h' \<le> max_points"
  shows "hook_ready m h'"
  using assms storage_frame_memory [OF assms(2)] by (simp add: hook_ready_def)

lemma ready_load_then:
  assumes "hook_ready m h" and "load_error m offset len = None"
  shows "load_then E offset len failExecution r h k = k (read_bytes m (unat offset) (unat len))"
  using assms MemLoad_spec [of "host_runtime h" m offset len]
  by (simp add: hook_ready_def load_then_def memLoad_def or_fault_def)

lemma ready_UseGas:
  assumes "hook_ready m h"
  obtains h' where "UseGas gas h = Some h'" and "hook_ready m h'" and "storage_frame h h'"
    and "host_output h' = host_output h" and "points h' = min (points h + unat gas) max_points"
    and "storage_view E h' = storage_view E h"
  using UseGas_Some [OF hook_ready_instance [OF assms], of gas E] hook_ready_frame [OF assms] min.cobounded2
  by metis

section \<open>Writing\<close>

text \<open>What contracts and the VM itself share: a permitted write is done as specified.\<close>

locale storage_writer =
  fixes E :: "'w vmEnv"
    and put :: "bytes \<Rightarrow> bytes \<Rightarrow> 'w vmHost \<Rightarrow> ((StorageStatus \<times> go_error option) \<times> 'w vmHost) option"
    and permitted :: "'w vmHost \<Rightarrow> bytes \<Rightarrow> bool"
  assumes writes: "permitted h key \<Longrightarrow> has_instance h \<Longrightarrow> points h \<le> max_points \<Longrightarrow>
      GetRefund (host_output h) = Some r \<Longrightarrow> addr = sc_address (host_storage h) \<Longrightarrow>
      old = storage_view E h addr key \<Longrightarrow>
      length key < 2 ^ 63 \<Longrightarrow> length old < 2 ^ 63 \<Longrightarrow> length val < 2 ^ 63 \<Longrightarrow>
      \<exists>h'. put key val h = Some ((storage_status old val, None), h')
        \<and> write_done E h addr key val r (key_cost h key + write_cost h old val) (write_refund h old val) h'"
    and permitted_frame: "storage_frame h h' \<Longrightarrow> permitted h' key \<longleftrightarrow> permitted h key"
begin

lemma store_hook_writes:
  assumes ready: "hook_ready m h" and bounds: "load_error m keyOffset keyLength = None"
    and key: "key = full_key (read_bytes m (unat keyOffset) (unat keyLength))" "length key < 2 ^ 63"
    and may: "permitted h key" and r: "GetRefund (host_output h) = Some r"
    and addr: "addr = sc_address (host_storage h)"
    and old: "old = storage_view E h addr key" "length old < 2 ^ 63" and val: "length val < 2 ^ 63"
  obtains h' where "store_hook E put full_key gas keyOffset keyLength val h =
      Some (storage_status_int (storage_status old val), h')" and "hook_ready m h'"
    and "write_done E h addr key val r (unat gas + key_cost h key + write_cost h old val) (write_refund h old val) h'"
proof -
  obtain h1 where h1: "UseGas gas h = Some h1" "hook_ready m h1" "storage_frame h h1"
    "host_output h1 = host_output h" "points h1 = min (points h + unat gas) max_points"
    "storage_view E h1 = storage_view E h"
    using ready_UseGas [OF ready] by metis
  note f = storage_frame_fields [OF h1(3)]
  have costs: "key_cost h1 key = key_cost h key" "write_cost h1 old val = write_cost h old val"
    "write_refund h1 old val = write_refund h old val"
    using f(1) by (simp_all add: key_cost_def write_cost_def write_refund_def copy_cost_def)
  have "permitted h1 key" using permitted_frame [OF h1(3)] may by simp
  moreover have "GetRefund (host_output h1) = Some r" "addr = sc_address (host_storage h1)"
    "old = storage_view E h1 addr key" "points h1 \<le> max_points"
    using r addr old h1 f(2) by simp_all
  ultimately obtain h' where put: "put key val h1 = Some ((storage_status old val, None), h')"
    and d: "write_done E h1 addr key val r (key_cost h key + write_cost h old val) (write_refund h old val) h'"
    using writes [OF _ hook_ready_instance [OF h1(2)]] key(2) old(2) val costs by metis
  have "store_hook E put full_key gas keyOffset keyLength val h =
      Some (storage_status_int (storage_status old val), h')"
    using put h1(1) by (simp add: store_hook_def ready_load_then [OF h1(2) bounds] key(1) no_fault_def)
  moreover have d': "write_done E h addr key val r (unat gas + key_cost h key + write_cost h old val)
      (write_refund h old val) h'"
    using d h1(5,6) storage_frame_trans [OF h1(3)] by (simp add: write_done_def add.assoc)
  moreover have "hook_ready m h'" using hook_ready_frame [OF ready] d' by (simp add: write_done_def)
  ultimately show thesis using that by blast
qed

end

lemma may_write_frame: "storage_frame h h' \<Longrightarrow> may_write h' key \<longleftrightarrow> may_write h key"
  using storage_frame_fields [of h h'] by (simp add: may_write_def)

interpretation contract_writer: storage_writer E "SetStorage E" may_write for E
proof unfold_locales
  show "\<exists>h'. SetStorage E key val h = Some ((storage_status old val, None), h')
      \<and> write_done E h addr key val r (key_cost h key + write_cost h old val) (write_refund h old val) h'"
    if "may_write h key" "has_instance h" "points h \<le> max_points" "GetRefund (host_output h) = Some r"
      "addr = sc_address (host_storage h)" "old = storage_view E h addr key"
      "length key < 2 ^ 63" "length old < 2 ^ 63" "length val < 2 ^ 63"
    for h :: "'a vmHost" and key val old addr r
    using SetStorage_spec [OF that] by metis
qed (rule may_write_frame)

text \<open>The VM itself may write every key the node does not reserve, while its protection is on.\<close>

definition vm_may_write :: "'w vmHost \<Rightarrow> bytes \<Rightarrow> bool" where
  "vm_may_write h key \<longleftrightarrow> \<not> rc_readOnly (host_runtime h) \<and> \<not> isProtocolProtectedKey (host_storage h) key
     \<and> sc_vmStorageProtectionEnabled (host_storage h)"

lemma upd_storage_set_points: "upd_storage f (set_points x h) = set_points x (upd_storage f h)"
  by (cases h) (simp add: set_points_def cong: if_cong)

lemma points_upd_storage [simp]: "GetPointsUsed (host_runtime (upd_storage f h)) = GetPointsUsed (host_runtime h)"
  by simp

lemma output_upd_storage: "host_output (upd_storage f h) = host_output h"
  by simp

lemma delta_upd_storage: "delta_of (upd_storage f h) a = delta_of h a"
  by (simp add: delta_of_def)

lemma storage_frame_unprotected:
  assumes "storage_frame (upd_storage disableStorageProtection h) h1"
    and "sc_vmStorageProtectionEnabled (host_storage h)"
  shows "storage_frame h (upd_storage enableStorageProtection h1)"
proof -
  have "h1 = set_points (GetPointsUsed (host_runtime h1))
      ((upd_storage disableStorageProtection h)\<lparr>host_output := host_output h1\<rparr>)"
    using assms(1) by (simp add: storage_frame_def)
  then have "upd_storage enableStorageProtection h1 = set_points (GetPointsUsed (host_runtime h1))
      (upd_storage enableStorageProtection ((upd_storage disableStorageProtection h)\<lparr>host_output := host_output h1\<rparr>))"
    by (metis upd_storage_set_points)
  also have "upd_storage enableStorageProtection ((upd_storage disableStorageProtection h)\<lparr>host_output := host_output h1\<rparr>)
      = h\<lparr>host_output := host_output h1\<rparr>"
    using assms(2) by (cases h) (simp add: enableStorageProtection_def disableStorageProtection_def)
  finally have eq: "upd_storage enableStorageProtection h1 =
      set_points (GetPointsUsed (host_runtime h1)) (h\<lparr>host_output := host_output h1\<rparr>)" .
  then show ?thesis
    using assms(1) unfolding storage_frame_def points_upd_storage output_upd_storage delta_upd_storage by blast
qed

lemma storage_view_upd_storage [simp]: "storage_view E (upd_storage f h) = storage_view E h"
  by (simp add: storage_view_def fun_eq_iff)

lemma SetProtectedStorage_spec:
  assumes may: "vm_may_write h key" and inst: "has_instance h" and pts: "points h \<le> max_points"
    and r: "GetRefund (host_output h) = Some r" and addr: "addr = sc_address (host_storage h)"
    and old: "old = storage_view E h addr key"
    and lens: "length key < 2 ^ 63" "length old < 2 ^ 63" "length val < 2 ^ 63"
  shows "\<exists>h'. SetProtectedStorage E key val h = Some ((storage_status old val, None), h')
    \<and> write_done E h addr key val r (key_cost h key + write_cost h old val) (write_refund h old val) h'"
proof -
  let ?h = "upd_storage disableStorageProtection h"
  have h: "may_write ?h key" "has_instance ?h" "points ?h \<le> max_points" "GetRefund (host_output ?h) = Some r"
    "addr = sc_address (host_storage ?h)" "old = storage_view E ?h addr key"
    using assms by (auto simp: vm_may_write_def may_write_def disableStorageProtection_def
        isProtocolProtectedKey_def has_instance_def)
  have costs: "key_cost ?h = key_cost h" "write_cost ?h = write_cost h" "write_refund ?h = write_refund h"
    by (simp_all add: key_cost_def write_cost_def write_refund_def copy_cost_def fun_eq_iff)
  obtain h1 where set: "SetStorage E key val ?h = Some ((storage_status old val, None), h1)"
    and d: "write_done E ?h addr key val r (key_cost h key + write_cost h old val) (write_refund h old val) h1"
    using SetStorage_spec [OF h lens] unfolding costs by metis
  have "write_done E h addr key val r (key_cost h key + write_cost h old val) (write_refund h old val)
      (upd_storage enableStorageProtection h1)"
    using d storage_frame_unprotected [of h h1] may by (auto simp: write_done_def vm_may_write_def)
  then show ?thesis using set by (simp add: SetProtectedStorage_def)
qed

interpretation vm_writer: storage_writer E "SetProtectedStorage E" vm_may_write for E
proof unfold_locales
  show "vm_may_write h' key \<longleftrightarrow> vm_may_write h key" if "storage_frame h h'" for h h' :: "'a vmHost" and key
    using storage_frame_fields [OF that] by (simp add: vm_may_write_def)
qed (rule SetProtectedStorage_spec)

section \<open>Reading\<close>

lemma load_hook_reads:
  assumes ready: "hook_ready m h" and bounds: "load_error m keyOffset keyLength = None"
    and key: "key = full_key (read_bytes m (unat keyOffset) (unat keyLength))" "length key < 2 ^ 63"
    and v: "v = storage_view E h (sc_address (host_storage h)) key" "length v < 2 ^ 63"
  obtains h' where "load_hook E full_key gas r keyOffset keyLength k h = k v h'" and "hook_ready m h'"
    and "storage_frame h h'" and "storage_view E h' = storage_view E h"
    and "points h' = min (points h + unat gas + key_cost h key + copy_cost h v) max_points"
proof -
  obtain h1 where h1: "UseGas gas h = Some h1" "hook_ready m h1" "storage_frame h h1"
    "host_output h1 = host_output h" "points h1 = min (points h + unat gas) max_points"
    "storage_view E h1 = storage_view E h"
    using ready_UseGas [OF ready] by metis
  note f = storage_frame_fields [OF h1(3)]
  have costs: "key_cost h1 key = key_cost h key" "copy_cost h1 v = copy_cost h v"
    using f(1) by (simp_all add: key_cost_def copy_cost_def)
  have pts: "points h1 \<le> max_points" and v1: "v = storage_view E h1 (sc_address (host_storage h1)) key"
    using h1(5,6) v f(2) by simp_all
  obtain h' where h': "GetStorage E key h1 = Some (v, h')" "storage_frame h1 h'" 
    "storage_view E h' = storage_view E h1" "points h' = min (points h1 + key_cost h key + copy_cost h v) max_points"
    using GetStorage_spec [OF hook_ready_instance [OF h1(2)] key(2) pts v1 v(2)] unfolding costs by blast
  have pts': "points h' = min (points h + unat gas + key_cost h key + copy_cost h v) max_points"
    using h'(4) h1(5) by (simp add: min_def)
  have fr: "storage_frame h h'" by (rule storage_frame_trans [OF h1(3) h'(2)])
  have "load_hook E full_key gas r keyOffset keyLength k h = k v h'"
    using h1(1) h'(1) by (simp add: load_hook_def ready_load_then [OF h1(2) bounds] key(1))
  moreover have "hook_ready m h'" using hook_ready_frame [OF ready fr] pts' by simp
  moreover have "storage_view E h' = storage_view E h" using h'(3) h1(6) by simp
  ultimately show thesis using that fr pts' by blast
qed

lemma length_hook_key: "length (read_bytes m start (unat (len :: i32))) < 2 ^ 63"
proof -
  have "unat len < 2 ^ LENGTH(32)" by (rule unsigned_less)
  then have "unat len < 2 ^ 63" by (rule less_le_trans) simp
  then show ?thesis by simp
qed

section \<open>Values that are stored and read back\<close>

lemma length_nat_to_be: "n < 256 ^ k \<Longrightarrow> length (nat_to_be n) \<le> k"
proof (induction k arbitrary: n)
  case 0
  then show ?case by (simp add: nat_to_be.simps)
next
  case (Suc k)
  then have "n div 256 < 256 ^ k" by (simp add: less_mult_imp_div_less mult.commute)
  with Suc.IH show ?case by (simp add: nat_to_be.simps [of n])
qed

lemma length_big_Bytes_64: "\<bar>z\<bar> \<le> 2 ^ 64 - 1 \<Longrightarrow> length (big_Bytes z) \<le> 8"
  unfolding big_Bytes_def by (rule length_nat_to_be) simp

lemma big_Bytes_word: "length (big_Bytes (uint (v :: u64))) \<le> 8" "length (big_Bytes (sint (v :: u64))) \<le> 8"
proof -
  have "uint v < 2 ^ LENGTH(64)" by (rule unsigned_less)
  then show "length (big_Bytes (uint v)) \<le> 8" by (intro length_big_Bytes_64) simp
  have "- (2 ^ 63) \<le> sint v" "sint v < 2 ^ 63"
    using sint_greater_eq [of v] sint_less [of v] by simp_all
  then show "length (big_Bytes (sint v)) \<le> 8" by (intro length_big_Bytes_64) simp
qed

lemma low64_uint [simp]: "low64 (uint v) = v"
  by (simp add: low64_def)

lemma low64_sint [simp]: "low64 (sint v) = v"
  by (simp add: low64_def)

lemma IsUint64_uint [simp]: "IsUint64 (uint (v :: u64))"
proof -
  have "uint v < 2 ^ LENGTH(64)" by (rule unsigned_less)
  then show ?thesis by (simp add: IsUint64_def del: unsigned_less)
qed

lemma IsInt64_sint [simp]: "IsInt64 (sint (v :: u64))"
  using sint_greater_eq [of v] sint_less [of v] by (simp add: IsInt64_def)

text \<open>The two's complement codec reads back what it wrote, for numbers of 64 bits.\<close>

definition twos_codec :: "'w vmEnv \<Rightarrow> bool" where
  "twos_codec E \<longleftrightarrow> (\<forall>z. IsInt64 z \<longrightarrow> env_twos_SetBytes E (env_twos_ToBytes E z) = z
     \<and> length (env_twos_ToBytes E z) \<le> 9)"

text \<open>One lemma for every pair of a store and a load hook.\<close>

context storage_writer
begin

lemma store_then_load:
  assumes ready: "hook_ready m h" and bounds: "load_error m keyOffset keyLength = None"
    and key: "key = full_key (read_bytes m (unat keyOffset) (unat keyLength))" "length key < 2 ^ 63"
    and may: "permitted h key" and r: "GetRefund (host_output h) = Some r"
    and addr: "addr = sc_address (host_storage h)"
    and old: "old = storage_view E h addr key" "length old < 2 ^ 63" and val: "length val < 2 ^ 63"
  obtains h1 h2 where
    "store_hook E put full_key gas keyOffset keyLength val h = Some (storage_status_int (storage_status old val), h1)"
    and "load_hook E full_key (gas' h1) r' keyOffset keyLength k h1 = k val h2"
    and "hook_ready m h2" and "storage_frame h h2"
    and "\<And>a k. storage_view E h2 a k = (if a = addr \<and> k = key then val else storage_view E h a k)"
proof -
  obtain h1 where h1: "store_hook E put full_key gas keyOffset keyLength val h =
      Some (storage_status_int (storage_status old val), h1)" "hook_ready m h1"
    and d: "write_done E h addr key val r (unat gas + key_cost h key + write_cost h old val) (write_refund h old val) h1"
    by (rule store_hook_writes [of m h keyOffset keyLength key full_key, OF assms])
  have view: "storage_view E h1 a k = (if a = addr \<and> k = key then val else storage_view E h a k)" for a k
    using d by (simp add: write_done_def)
  have f: "storage_frame h h1" using d by (simp add: write_done_def)
  have v: "val = storage_view E h1 (sc_address (host_storage h1)) key"
    using view addr storage_frame_fields(2) [OF f] by simp
  obtain h2 where h2: "load_hook E full_key (gas' h1) r' keyOffset keyLength k h1 = k val h2"
    "hook_ready m h2" "storage_frame h1 h2" "storage_view E h2 = storage_view E h1"
    by (rule load_hook_reads [of m h1 keyOffset keyLength key full_key, OF h1(2) bounds key v val])
  show thesis
    using that [OF h1(1) h2(1,2) storage_frame_trans [OF f h2(3)]] view h2(4) by simp
qed

end

text \<open>
  A number that a contract stores is the number it reads: after a permitted
  \<open>smallIntStorageStoreUnsigned\<close> the matching load of the same key returns the stored 64-bit
  number, for every number, and so do the signed hooks, provided the two's complement codec they
  use reads back what it wrote. The status that the store reports is the specified one, and no
  other key of any contract changes.
\<close>

theorem stored_integers_read_back:
  assumes "hook_ready m h" and "load_error m keyOffset keyLength = None"
    and "key = read_bytes m (unat keyOffset) (unat keyLength)" and "may_write h key"
    and "GetRefund (host_output h) = Some r" and "addr = sc_address (host_storage h)"
    and "old = storage_view E h addr key" and "length old < 2 ^ 63"
  shows "(\<exists>h1 h2. v1_3_smallIntStorageStoreUnsigned E keyOffset keyLength v h =
        Some (storage_status_int (storage_status old (big_Bytes (uint v))), h1)
      \<and> v1_3_smallIntStorageLoadUnsigned E keyOffset keyLength h1 = Some (v, h2)
      \<and> (\<forall>a k. \<not> (a = addr \<and> k = key) \<longrightarrow> storage_view E h2 a k = storage_view E h a k))
    \<and> (twos_codec E \<longrightarrow> (\<exists>h1 h2. v1_3_smallIntStorageStoreSigned E keyOffset keyLength v h =
        Some (storage_status_int (storage_status old (env_twos_ToBytes E (sint v))), h1)
      \<and> v1_3_smallIntStorageLoadSigned E keyOffset keyLength h1 = Some (v, h2)
      \<and> (\<forall>a k. \<not> (a = addr \<and> k = key) \<longrightarrow> storage_view E h2 a k = storage_view E h a k)))"
proof -
  have key: "length key < 2 ^ 63" using length_hook_key assms(3) by blast
  have pair: "\<exists>h1 h2. store_hook E (SetStorage E) (\<lambda>k. k) (baseOpsCost Int64StorageStoreCost h) keyOffset keyLength val h =
        Some (storage_status_int (storage_status old val), h1)
      \<and> load_hook E (\<lambda>k. k) (baseOpsCost Int64StorageLoadCost h1) 0 keyOffset keyLength
          (\<lambda>data. in_range E (fits (dec data)) (dec data)) h1 = Some (v, h2)
      \<and> (\<forall>a k. \<not> (a = addr \<and> k = key) \<longrightarrow> storage_view E h2 a k = storage_view E h a k)"
    if "length val \<le> 9" "fits (dec val)" "low64 (dec val) = v" for val fits dec
  proof -
    have "length val < 2 ^ 63" using that(1) by (rule le_less_trans) simp
    show ?thesis
      by (rule contract_writer.store_then_load [of m h keyOffset keyLength key "\<lambda>k. k", OF assms(1-3) key assms(4-8)
            \<open>length val < 2 ^ 63\<close>, where r' = 0 and gas' = "baseOpsCost Int64StorageLoadCost" and
            k = "\<lambda>data. in_range E (fits (dec data)) (dec data)"])
        (auto simp: in_range_def that)
  qed
  show ?thesis
    unfolding store_hooks load_hooks
    using pair [of "big_Bytes (uint v)" IsUint64 big_SetBytes] le_trans [OF big_Bytes_word(1), of 9 v]
      pair [of "env_twos_ToBytes E (sint v)" IsInt64 "env_twos_SetBytes E"]
    by (simp add: big_SetBytes_Bytes twos_codec_def)
qed

lemma sample_ready: "hook_ready [1, 2, 3, 4, 5, 6, 7, 8] sample_host"
  using sample_memory sample_may_write(3) by (simp add: hook_ready_def sample_host_def)

lemma sample_twos_codec: "twos_codec sample_env"
proof -
  have "length (sample_twos_ToBytes z) \<le> 9" if "IsInt64 z" for z
  proof -
    have "\<bar>z\<bar> \<le> 2 ^ 64 - 1" using that by (simp add: IsInt64_def abs_le_iff)
    then show ?thesis using length_big_Bytes_64 [of z] by (simp add: sample_twos_ToBytes_def)
  qed
  moreover have "sample_twos_SetBytes (sample_twos_ToBytes z) = z" for z
    by (simp add: sample_twos_SetBytes_def sample_twos_ToBytes_def big_SetBytes_Bytes)
  ultimately show ?thesis by (simp add: twos_codec_def sample_env_def)
qed

lemma sample_key: "load_error [1, 2, 3, 4, 5, 6, 7, 8] 6 1 = None"
  "read_bytes [1, 2, 3, 4, 5, 6, 7, 8] (unat (6 :: i32)) (unat (1 :: i32)) = [7]"
  by (simp_all add: load_error_def read_bytes_def go_copy_new_def word_sless_alt)

theorem stored_integers_read_back_witness:
  "(\<exists>s h1 h2. v1_3_smallIntStorageStoreUnsigned sample_env 6 1 500 sample_host = Some (s, h1)
     \<and> v1_3_smallIntStorageLoadUnsigned sample_env 6 1 h1 = Some (500, h2))
   \<and> (\<exists>s h1 h2. v1_3_smallIntStorageStoreSigned sample_env 6 1 (-500) sample_host = Some (s, h1)
     \<and> v1_3_smallIntStorageLoadSigned sample_env 6 1 h1 = Some (-500, h2))"
proof -
  note at = stored_integers_read_back [OF sample_ready sample_key(1) sample_key(2) [symmetric] sample_may_write(1,4)
      sample_may_write(5,6) [symmetric]]
  show ?thesis using at [of 500] at [of "-500"] sample_twos_codec by fastforce
qed

lemma length_lock_key: "length (lock_key (read_bytes m start (unat (len :: i32)))) < 2 ^ 63"
proof -
  have "unat len < 2 ^ LENGTH(32)" by (rule unsigned_less)
  then have "unat len < 2 ^ 63 - 14" by (rule less_le_trans) simp
  then show ?thesis
    by (simp add: lock_key_def CustomStorageKey_def TimeLockKeyPrefix_def ProtectedStoragePrefix_def bytes_of_string_def)
qed

lemma nonneg_low64:
  assumes "0 \<le> z" and "z < 2 ^ 63"
  shows "sint (low64 z) = z"
  using assms by (simp add: low64_def signed_of_int signed_take_bit_int_eq_self)

text \<open>
  A storage lock holds until its time: after \<open>setStorageLock\<close> the lock of that key is
  reported as set exactly as long as the time stamp of the block is smaller than the time stamp
  of the lock. A negative time stamp is stored by its magnitude, so it locks until that time
  and is not expired, as its value suggests.
\<close>

theorem storage_lock_holds:
  assumes "hook_ready m h" and "load_error m keyOffset keyLength = None"
    and "key = lock_key (read_bytes m (unat keyOffset) (unat keyLength))" and "vm_may_write h key"
    and "GetRefund (host_output h) = Some r" and "addr = sc_address (host_storage h)"
    and "old = storage_view E h addr key" and "length old < 2 ^ 63" and "sint timestamp \<noteq> - (2 ^ 63)"
  shows "\<exists>s h1 h2. v1_3_setStorageLock E keyOffset keyLength timestamp h = Some (s, h1)
    \<and> v1_3_isStorageLocked E keyOffset keyLength h1 =
        Some (if \<bar>sint timestamp\<bar> \<le> sint (CurrentTimeStamp E h) then 0 else 1, h2)"
proof -
  have key: "length key < 2 ^ 63" using length_lock_key assms(3) by blast
  let ?t = "\<bar>sint timestamp\<bar>"
  have t: "?t < 2 ^ 63" using sint_greater_eq [of timestamp] sint_less [of timestamp] assms(9) by simp
  have val: "length (big_Bytes (sint timestamp)) < 2 ^ 63" by (rule le_less_trans [OF big_Bytes_word(2)]) simp
  obtain h1 h2 where st: "v1_3_setStorageLock E keyOffset keyLength timestamp h =
      Some (storage_status_int (storage_status old (big_Bytes (sint timestamp))), h1)"
    and ld: "v1_3_getStorageLock E keyOffset keyLength h1 = Some (low64 ?t, h2)"
    and r: "hook_ready m h2" and f: "storage_frame h h2"
    unfolding store_hooks load_hooks
    by (rule vm_writer.store_then_load [of m h keyOffset keyLength key lock_key, OF assms(1-3) key assms(4-8) val,
          where r' = "-1" and gas' = "baseOpsCost StorageLoadCost" and k = "\<lambda>data. in_range E True (big_SetBytes data)"])
      (auto simp: in_range_def big_SetBytes_Bytes)
  obtain h3 where h3: "UseGas (baseOpsCost GetBlockTimeStampCost h2) h2 = Some h3" "storage_frame h2 h3"
    using ready_UseGas [OF r] by metis
  have now: "CurrentTimeStamp E h3 = CurrentTimeStamp E h"
    using storage_frame_fields(3) [OF f] storage_frame_fields(3) [OF h3(2)] by (simp add: CurrentTimeStamp_def)
  have "v1_3_isStorageLocked E keyOffset keyLength h1 =
      Some (if ?t \<le> sint (CurrentTimeStamp E h) then 0 else 1, h3)"
    using ld h3(1) nonneg_low64 [OF abs_ge_zero t]
    by (simp add: v1_3_isStorageLocked_def v1_3_getBlockTimestamp_def word_sless_alt word_sle_eq now)
  then show ?thesis using st by blast
qed

theorem storage_lock_holds_witness:
  "\<exists>s h1 h2. v1_3_setStorageLock sample_env 6 1 (- 5000) sample_host = Some (s, h1)
    \<and> v1_3_isStorageLocked sample_env 6 1 h1 = Some (1, h2)"
proof -
  let ?key = "lock_key [7]"
  have k: "?key \<noteq> [7]" and "vm_may_write sample_host ?key"
    by (simp_all add: lock_key_def CustomStorageKey_def TimeLockKeyPrefix_def ProtectedStoragePrefix_def
        bytes_of_string_def vm_may_write_def isProtocolProtectedKey_def has_prefix_def sample_defs)
  moreover have "[] = storage_view sample_env sample_host [1] ?key"
    using k by (simp add: storage_view_def cached_update_def GetOutputAccounts_def sample_hook_def sample_host_def
        sample_output_def sample_env_def)
  moreover have "CurrentTimeStamp sample_env sample_host = 1000"
    by (simp add: CurrentTimeStamp_def sample_env_def sample_hook_def)
  ultimately show ?thesis
    using storage_lock_holds [OF sample_ready sample_key(1) _ _ sample_may_write(4) sample_may_write(5) [symmetric],
        of ?key "[]" sample_env "-5000"] sample_key(2) by simp
qed

end
