(* ===== verification/HookArithmetic.thy ===== *)
theory HookArithmetic
  imports BigIntOps HookStorage
begin

text \<open>
  Arithmetic on big integer handles: every operation with two operands has the same shape, so
  its effect is shown once; the two kinds of division share the laws of a quotient and a remainder.
\<close>

section \<open>Operations with two operands\<close>

text \<open>The number behind a handle; a handle that was never used stands for zero.\<close>

definition big_value :: "'w vmHost \<Rightarrow> i32 \<Rightarrow> int" where
  "big_value h handle = map_get_or 0 (bi_values (host_bigInt h)) handle"

definition binary_hook ::
  "'w vmEnv \<Rightarrow> u64 \<Rightarrow> (int \<Rightarrow> int \<Rightarrow> go_error option) \<Rightarrow> (int \<Rightarrow> int \<Rightarrow> int) \<Rightarrow> i32 \<Rightarrow> i32 \<Rightarrow> i32 \<Rightarrow> ('w, unit) hook" where
  "binary_hook E gas err f destination op1 op2 h = do {
     h \<leftarrow> UseGas gas h;
     let ((dest, a, b), h) = getThree destination op1 op2 h;
     h \<leftarrow> useExtraGasForOperations [dest, a, b] h;
     no_fault E (err a b) True () h (Some ((), set_big destination (f a b) h))
   }"

definition no_error :: "int \<Rightarrow> int \<Rightarrow> go_error option" where
  "no_error a b = None"

definition zero_divisor :: "int \<Rightarrow> int \<Rightarrow> go_error option" where
  "zero_divisor a b = (if b = 0 then Some (Sentinel ErrDivZero) else None)"

lemma binary_hooks:
  "v1_3_bigIntAdd E d op1 op2 h = binary_hook E (bigIntCost BigIntSub h) no_error (+) d op1 op2 h"
  "v1_3_bigIntSub E d op1 op2 h = binary_hook E (bigIntCost BigIntSub h) no_error (-) d op1 op2 h"
  "v1_3_bigIntMul E d op1 op2 h = binary_hook E (bigIntCost BigIntMul h) no_error (*) d op1 op2 h"
  "v1_3_bigIntTDiv E d op1 op2 h = binary_hook E (bigIntCost BigIntTDiv h) zero_divisor big_Quo d op1 op2 h"
  "v1_3_bigIntTMod E d op1 op2 h = binary_hook E (bigIntCost BigIntSub h) zero_divisor big_Rem d op1 op2 h"
  "v1_3_bigIntEDiv E d op1 op2 h = binary_hook E (bigIntCost BigIntSub h) zero_divisor big_Div d op1 op2 h"
  "v1_3_bigIntEMod E d op1 op2 h = binary_hook E (bigIntCost BigIntSub h) zero_divisor big_Mod d op1 op2 h"
  unfolding v1_3_bigIntAdd_def v1_3_bigIntSub_def v1_3_bigIntMul_def v1_3_bigIntTDiv_def v1_3_bigIntTMod_def
    v1_3_bigIntEDiv_def v1_3_bigIntEMod_def binary_hook_def hook_flags no_fault_def
  by (simp_all add: no_error_def zero_divisor_def if_distrib [of "case_option _ _"] cong: if_cong)

text \<open>What an arithmetic operation leaves alone: everything but the big integers and the gas.\<close>

definition arith_frame :: "'w vmHost \<Rightarrow> 'w vmHost \<Rightarrow> bool" where
  "arith_frame h h' \<longleftrightarrow> (\<exists>x c. h' = (set_points x h)\<lparr>host_bigInt := c\<rparr>)"

lemma set_points_bigInt [simp]: "set_points x (h\<lparr>host_bigInt := c\<rparr>) = (set_points x h)\<lparr>host_bigInt := c\<rparr>"
  by (cases h) (simp add: set_points_def cong: if_cong)

lemma has_instance_bigInt [simp]: "has_instance (h\<lparr>host_bigInt := c\<rparr>) = has_instance h"
  by (simp add: has_instance_def)

lemma arith_frame_refl: "arith_frame h h"
  unfolding arith_frame_def
  by (rule exI [of _ "GetPointsUsed (host_runtime h)"], rule exI [of _ "host_bigInt h"])
    (simp add: set_points_id)

lemma arith_frame_trans: "arith_frame h h1 \<Longrightarrow> arith_frame h1 h2 \<Longrightarrow> arith_frame h h2"
  by (fastforce simp: arith_frame_def)

lemma arith_frame_instance: "arith_frame h h' \<Longrightarrow> has_instance h' = has_instance h"
  by (auto simp: arith_frame_def)

lemma arith_frame_bigInt: "arith_frame h (h\<lparr>host_bigInt := c\<rparr>)"
  unfolding arith_frame_def
  by (rule exI [of _ "GetPointsUsed (host_runtime h)"], rule exI [of _ c]) (simp add: set_points_id)

lemma arith_UseGas:
  assumes "has_instance h"
  shows "\<exists>h'. UseGas gas h = Some h' \<and> arith_frame h h' \<and> big_value h' = big_value h"
proof -
  obtain h' where h': "UseGas gas h = Some h'" using assms by (auto simp: UseGas_eq)
  then obtain x where "h' = set_points x h" using UseGas_cases(2) by blast
  moreover have "arith_frame h (set_points x h)"
    unfolding arith_frame_def by (rule exI [of _ x], rule exI [of _ "host_bigInt h"]) simp
  ultimately show ?thesis using h' by (simp add: big_value_def fun_eq_iff)
qed

lemma arith_extra_gas:
  assumes "has_instance h"
  shows "\<exists>h'. useExtraGasForOperations vs h = Some h' \<and> arith_frame h h' \<and> big_value h' = big_value h"
  using assms
proof (induction vs arbitrary: h)
  case Nil
  then show ?case by (simp add: arith_frame_refl)
next
  case (Cons v vs)
  obtain h1 where h1: "(if BitLen v div 8 > maxBigIntByteLenForNormalCost
      then UseGas (MulUint64 (of_nat (BitLen v div 8)) (baseCost DataCopyPerByte h)) h else Some h) = Some h1"
    and f: "arith_frame h h1" "big_value h1 = big_value h"
    using arith_UseGas [OF Cons.prems] arith_frame_refl by (metis (full_types))
  have "has_instance h1" using arith_frame_instance [OF f(1)] Cons.prems by simp
  from Cons.IH [OF this] obtain h2 where "useExtraGasForOperations vs h1 = Some h2" "arith_frame h1 h2"
    "big_value h2 = big_value h1" by blast
  then show ?case using h1 f arith_frame_trans [OF f(1)] by auto
qed

lemma getOne_value:
  "\<exists>c. getOne handle h = (big_value h handle, h\<lparr>host_bigInt := c\<rparr>) \<and> big_value (h\<lparr>host_bigInt := c\<rparr>) = big_value h"
  by (rule exI [of _ "snd (bigInt_GetOne handle (host_bigInt h))"])
    (auto simp: getOne_def bigInt_GetOne_def big_value_def map_get_or_def fun_eq_iff split: option.splits)

lemma getThree_value:
  "\<exists>c. getThree d op1 op2 h = ((big_value h d, big_value h op1, big_value h op2), h\<lparr>host_bigInt := c\<rparr>)
     \<and> big_value (h\<lparr>host_bigInt := c\<rparr>) = big_value h"
proof -
  have "getThree d op1 op2 h =
      (let (v1, h) = getOne d h; (v2, h) = getOne op1 h; (v3, h) = getOne op2 h in ((v1, v2, v3), h))"
    by (simp add: getThree_def bigInt_GetThree_def getOne_def split: prod.split)
  moreover obtain c1 where 1: "getOne d h = (big_value h d, h\<lparr>host_bigInt := c1\<rparr>)"
    "big_value (h\<lparr>host_bigInt := c1\<rparr>) = big_value h" using getOne_value by blast
  moreover obtain c2 where 2: "getOne op1 (h\<lparr>host_bigInt := c1\<rparr>) = (big_value h op1, h\<lparr>host_bigInt := c2\<rparr>)"
    "big_value (h\<lparr>host_bigInt := c2\<rparr>) = big_value h"
    using getOne_value [of op1 "h\<lparr>host_bigInt := c1\<rparr>"] 1(2) by auto
  moreover obtain c3 where "getOne op2 (h\<lparr>host_bigInt := c2\<rparr>) = (big_value h op2, h\<lparr>host_bigInt := c3\<rparr>)"
    "big_value (h\<lparr>host_bigInt := c3\<rparr>) = big_value h"
    using getOne_value [of op2 "h\<lparr>host_bigInt := c2\<rparr>"] 2(2) by auto
  ultimately show ?thesis by auto
qed

lemma binary_hook_spec:
  assumes "has_instance h"
  obtains h1 where "arith_frame h h1" and "big_value h1 = big_value h" and "has_instance h1"
    and "binary_hook E gas err f d op1 op2 h =
      no_fault E (err (big_value h op1) (big_value h op2)) True () h1
        (Some ((), set_big d (f (big_value h op1) (big_value h op2)) h1))"
proof -
  obtain h1 where h1: "UseGas gas h = Some h1" "arith_frame h h1" "big_value h1 = big_value h"
    using arith_UseGas [OF assms] by blast
  obtain c where c: "getThree d op1 op2 h1 = ((big_value h d, big_value h op1, big_value h op2), h1\<lparr>host_bigInt := c\<rparr>)"
    "big_value (h1\<lparr>host_bigInt := c\<rparr>) = big_value h"
    using getThree_value [of d op1 op2 h1] h1(3) by auto
  have i: "has_instance (h1\<lparr>host_bigInt := c\<rparr>)" using arith_frame_instance [OF h1(2)] assms by simp
  obtain h2 where h2: "useExtraGasForOperations [big_value h d, big_value h op1, big_value h op2] (h1\<lparr>host_bigInt := c\<rparr>) = Some h2"
    "arith_frame (h1\<lparr>host_bigInt := c\<rparr>) h2" "big_value h2 = big_value h"
    using arith_extra_gas [OF i] c(2) by metis
  have "arith_frame h h2" by (rule arith_frame_trans [OF h1(2) arith_frame_trans [OF arith_frame_bigInt h2(2)]])
  moreover have "has_instance h2" using arith_frame_instance [OF h2(2)] i by simp
  moreover have "binary_hook E gas err f d op1 op2 h =
      no_fault E (err (big_value h op1) (big_value h op2)) True () h2
        (Some ((), set_big d (f (big_value h op1) (big_value h op2)) h2))"
    using h1(1) c(1) h2(1) by (simp add: binary_hook_def)
  ultimately show thesis using that h2(3) by blast
qed

lemma set_big_value [simp]: "big_value (set_big d v h) = (big_value h)(d := v)"
  by (auto simp: big_value_def set_big_def fun_eq_iff)

lemma arith_frame_set_big: "arith_frame h (set_big d v h)"
  unfolding set_big_def by (rule arith_frame_bigInt)

lemma has_instance_set_big [simp]: "has_instance (set_big d v h) = has_instance h"
  by (rule arith_frame_instance [OF arith_frame_set_big])

lemma binary_hook_computes:
  assumes "has_instance h" and "err (big_value h op1) (big_value h op2) = None"
  obtains h' where "binary_hook E gas err f d op1 op2 h = Some ((), h')" and "arith_frame h h'"
    and "big_value h' = (big_value h)(d := f (big_value h op1) (big_value h op2))"
  using binary_hook_spec [OF assms(1)] assms(2) arith_frame_trans [OF _ arith_frame_set_big] set_big_value
  by (metis (no_types, lifting) no_fault_def option.simps(4))

section \<open>Addition, subtraction, multiplication\<close>

text \<open>
  C18. The arithmetic hooks compute on the numbers behind the handles, whatever their size and
  also when the destination is one of the operands or a handle that was never used: they always
  return, leave exactly the sum, difference or product behind the destination handle, and change
  nothing but that number and the gas.
\<close>

theorem arithmetic_hooks_compute:
  assumes "has_instance h"
  shows "(\<exists>h'. v1_3_bigIntAdd E d op1 op2 h = Some ((), h') \<and> arith_frame h h'
      \<and> big_value h' = (big_value h)(d := big_value h op1 + big_value h op2))
    \<and> (\<exists>h'. v1_3_bigIntSub E d op1 op2 h = Some ((), h') \<and> arith_frame h h'
      \<and> big_value h' = (big_value h)(d := big_value h op1 - big_value h op2))
    \<and> (\<exists>h'. v1_3_bigIntMul E d op1 op2 h = Some ((), h') \<and> arith_frame h h'
      \<and> big_value h' = (big_value h)(d := big_value h op1 * big_value h op2))"
  unfolding binary_hooks
  by (intro conjI; rule binary_hook_computes [OF assms, of no_error op1 op2]; auto simp: no_error_def)

theorem arithmetic_hooks_compute_witness:
  "\<exists>h'. v1_3_bigIntAdd sample_env 3 3 3 sample_host = Some ((), h')
     \<and> big_value h' 3 = 2 * big_value sample_host 3"
  using arithmetic_hooks_compute [OF sample_may_write(2), of sample_env 3 3 3] by auto

section \<open>Division\<close>

text \<open>What the two kinds of division share.\<close>

locale division =
  fixes quo rem :: "int \<Rightarrow> int \<Rightarrow> int" and fits :: "int \<Rightarrow> int \<Rightarrow> int \<Rightarrow> bool"
  assumes recompose: "b \<noteq> 0 \<Longrightarrow> quo a b * b + rem a b = a"
    and bounded: "b \<noteq> 0 \<Longrightarrow> fits a b (rem a b)"
begin

lemma quotient_then_remainder:
  assumes inst: "has_instance h" and b: "big_value h op2 \<noteq> 0"
    and apart: "q \<noteq> op1" "q \<noteq> op2" "q \<noteq> r"
  obtains h1 h2 where "binary_hook E gas zero_divisor quo q op1 op2 h = Some ((), h1)"
    and "binary_hook E (gas' h1) zero_divisor rem r op1 op2 h1 = Some ((), h2)"
    and "big_value h2 q * big_value h op2 + big_value h2 r = big_value h op1"
    and "fits (big_value h op1) (big_value h op2) (big_value h2 r)"
proof -
  have ok: "zero_divisor (big_value h op1) (big_value h op2) = None" using b by (simp add: zero_divisor_def)
  obtain h1 where h1: "binary_hook E gas zero_divisor quo q op1 op2 h = Some ((), h1)" "arith_frame h h1"
    "big_value h1 = (big_value h)(q := quo (big_value h op1) (big_value h op2))"
    by (rule binary_hook_computes [of h zero_divisor op1 op2, OF inst ok])
  have i1: "has_instance h1" using arith_frame_instance [OF h1(2)] inst by simp
  have same: "big_value h1 op1 = big_value h op1" "big_value h1 op2 = big_value h op2"
    using h1(3) apart by simp_all
  obtain h2 where h2: "binary_hook E (gas' h1) zero_divisor rem r op1 op2 h1 = Some ((), h2)"
    "big_value h2 = (big_value h1)(r := rem (big_value h op1) (big_value h op2))"
    using binary_hook_computes [OF i1, of zero_divisor op1 op2] ok unfolding same by metis
  have "big_value h2 q = quo (big_value h op1) (big_value h op2)"
    "big_value h2 r = rem (big_value h op1) (big_value h op2)"
    using h1(3) h2(2) apart(3) by simp_all
  then show thesis using that [OF h1(1) h2(1)] recompose [OF b] bounded [OF b] by simp
qed

end

lemma big_Quo_Rem: "big_Quo a b * b + big_Rem a b = a"
proof -
  have "big_Quo a b * b = (b * sgn b) * (sgn a * (\<bar>a\<bar> div \<bar>b\<bar>))" by (simp add: big_Quo_def ac_simps)
  also have "\<dots> = \<bar>b\<bar> * (sgn a * (\<bar>a\<bar> div \<bar>b\<bar>))" by (simp only: abs_sgn [symmetric])
  finally have quo: "big_Quo a b * b = \<bar>b\<bar> * (sgn a * (\<bar>a\<bar> div \<bar>b\<bar>))" .
  have "big_Quo a b * b + big_Rem a b = sgn a * (\<bar>b\<bar> * (\<bar>a\<bar> div \<bar>b\<bar>) + \<bar>a\<bar> mod \<bar>b\<bar>)"
    unfolding quo big_Rem_def by (simp only: distrib_left mult.left_commute)
  also have "\<dots> = a" by (simp add: sgn_mult_abs)
  finally show ?thesis .
qed

lemma big_Div_Mod: "big_Div a b * b + big_Mod a b = a"
proof -
  have "big_Div a b * b = (b * sgn b) * (a div \<bar>b\<bar>)" by (simp add: big_Div_def ac_simps)
  also have "\<dots> = \<bar>b\<bar> * (a div \<bar>b\<bar>)" by (simp only: abs_sgn [symmetric])
  finally show ?thesis by (simp add: big_Mod_def)
qed

interpretation truncated: division big_Quo big_Rem
    "\<lambda>a b r. \<bar>r\<bar> < \<bar>b\<bar> \<and> (r = 0 \<or> sgn r = sgn a)"
proof unfold_locales
  show "\<bar>big_Rem a b\<bar> < \<bar>b\<bar> \<and> (big_Rem a b = 0 \<or> sgn (big_Rem a b) = sgn a)" if "b \<noteq> 0" for a b
  proof -
    define m where "m = \<bar>a\<bar> mod \<bar>b\<bar>"
    have "0 \<le> m" "m < \<bar>b\<bar>" using that by (simp_all add: m_def)
    moreover have "big_Rem a b = sgn a * m" by (simp add: big_Rem_def m_def)
    ultimately show ?thesis by (cases a "0 :: int" rule: linorder_cases) (auto simp: sgn_if)
  qed
qed (rule big_Quo_Rem)

interpretation euclidean: division big_Div big_Mod "\<lambda>a b r. 0 \<le> r \<and> r < \<bar>b\<bar>"
  by unfold_locales (auto simp: big_Div_Mod, auto simp: big_Mod_def)

text \<open>
  C19. The two pairs of division hooks are divisions: for a divisor other than zero, the quotient
  and the remainder that the hooks leave behind their destination handles recompose the dividend.
  \<open>EDiv\<close> and \<open>EMod\<close> give a remainder between zero and the magnitude of the divisor, \<open>TDiv\<close> and
  \<open>TMod\<close> one that is smaller in magnitude than the divisor and has the sign of the dividend.
\<close>

theorem division_hooks_divide:
  assumes "has_instance h" and "big_value h op2 \<noteq> 0" and "q \<noteq> op1" and "q \<noteq> op2" and "q \<noteq> r"
  shows "(\<exists>h1 h2. v1_3_bigIntTDiv E q op1 op2 h = Some ((), h1) \<and> v1_3_bigIntTMod E r op1 op2 h1 = Some ((), h2)
      \<and> big_value h2 q * big_value h op2 + big_value h2 r = big_value h op1
      \<and> \<bar>big_value h2 r\<bar> < \<bar>big_value h op2\<bar>
      \<and> (big_value h2 r = 0 \<or> sgn (big_value h2 r) = sgn (big_value h op1)))
    \<and> (\<exists>h1 h2. v1_3_bigIntEDiv E q op1 op2 h = Some ((), h1) \<and> v1_3_bigIntEMod E r op1 op2 h1 = Some ((), h2)
      \<and> big_value h2 q * big_value h op2 + big_value h2 r = big_value h op1
      \<and> 0 \<le> big_value h2 r \<and> big_value h2 r < \<bar>big_value h op2\<bar>)"
  unfolding binary_hooks
  by (rule conjI,
      rule truncated.quotient_then_remainder [OF assms, where gas' = "bigIntCost BigIntSub"], blast,
      rule euclidean.quotient_then_remainder [OF assms, where gas' = "bigIntCost BigIntSub"], blast)

text \<open>
  A division by zero fails the execution: each of the four division hooks raises
  \<open>ErrDivZero\<close> on a divisor of zero, in a state in which all big integers are as they were.
\<close>

theorem division_by_zero_faults:
  assumes "has_instance h" and "big_value h op2 = 0"
    and "hook \<in> {v1_3_bigIntTDiv, v1_3_bigIntTMod, v1_3_bigIntEDiv, v1_3_bigIntEMod}"
  shows "\<exists>h1. arith_frame h h1 \<and> big_value h1 = big_value h
    \<and> hook E d op1 op2 h = fault E (Sentinel ErrDivZero) BigIntAPIErrorShouldFailExecution () h1"
proof -
  have "\<exists>h1. arith_frame h h1 \<and> big_value h1 = big_value h
    \<and> binary_hook E gas zero_divisor f d op1 op2 h = fault E (Sentinel ErrDivZero) True () h1" for gas f
    by (rule binary_hook_spec [OF assms(1), of E gas zero_divisor f d op1 op2])
      (auto simp: zero_divisor_def no_fault_def assms(2))
  then show ?thesis
    using assms(3) unfolding hook_flags
    by (elim insertE emptyE) (simp_all only: binary_hooks)
qed

lemma sample_big_values: "big_value sample_host 7 = 0"
  by (simp add: big_value_def map_get_or_def sample_defs)

theorem division_by_zero_faults_witness:
  "\<exists>h1. big_value h1 = big_value sample_host
    \<and> v1_3_bigIntTDiv sample_env 1 2 7 sample_host =
        fault sample_env (Sentinel ErrDivZero) BigIntAPIErrorShouldFailExecution () h1"
  using division_by_zero_faults [OF sample_may_write(2) sample_big_values, of v1_3_bigIntTDiv sample_env 1 2] by blast

theorem division_hooks_divide_witness:
  "\<exists>h1 h2. v1_3_bigIntEDiv sample_env 2 1 3 (set_big 1 (-7) (set_big 3 2 sample_host)) = Some ((), h1)
     \<and> v1_3_bigIntEMod sample_env 4 1 3 h1 = Some ((), h2)
     \<and> big_value h2 2 * 2 + big_value h2 4 = -7 \<and> 0 \<le> big_value h2 4 \<and> big_value h2 4 < 2"
proof -
  let ?h = "set_big 1 (-7) (set_big 3 2 sample_host)"
  have "has_instance ?h" "big_value ?h 1 = -7" "big_value ?h 3 = 2"
    using sample_may_write(2) by auto
  then show ?thesis using division_hooks_divide [of ?h 3 2 1 4 sample_env] by auto
qed

end
