(* ===== verification/HookArguments.thy ===== *)
theory HookArguments
  imports CallOps HookStorage
begin

text \<open>
  How contracts hand over lists of arguments: the lengths as 32-bit little-endian numbers in one
  place of the memory, the bytes of all arguments one after the other in another.
\<close>

section \<open>Lengths\<close>

definition le32 :: "nat \<Rightarrow> bytes" where
  "le32 n = [of_nat n, of_nat (n div 256), of_nat (n div 65536), of_nat (n div 16777216)]"

definition arg_lengths :: "bytes list \<Rightarrow> bytes" where
  "arg_lengths args = concat (map (\<lambda>a. le32 (length a)) args)"

lemma length_arg_lengths [simp]: "length (arg_lengths args) = 4 * length args"
  by (induction args) (simp_all add: arg_lengths_def le32_def)

lemma ucast_of_nat_byte: "ucast (of_nat n :: byte) = (of_nat (n mod 256) :: u32)"
  by (simp add: word_eq_iff_unsigned unsigned_of_nat take_bit_eq_mod unsigned_ucast_eq)

lemma four_bytes:
  fixes n :: nat
  shows "n mod 256 + n div 256 mod 256 * 2 ^ 8 + n div 65536 mod 256 * 2 ^ 16 + n div 16777216 mod 256 * 2 ^ 24
    = n mod 2 ^ 32"
  using mod_mult2_eq [of n 256 256] mod_mult2_eq [of n 65536 256] mod_mult2_eq [of n 16777216 256] by simp

lemma le32_read:
  "(ucast (of_nat n :: byte) + push_bit 8 (ucast (of_nat (n div 256) :: byte))
     + push_bit 16 (ucast (of_nat (n div 65536) :: byte)) + push_bit 24 (ucast (of_nat (n div 16777216) :: byte)) :: u32)
   = of_nat n"
proof -
  have shifted: "push_bit k (of_nat x :: u32) = of_nat (x * 2 ^ k)" for k x
    by (simp add: push_bit_eq_mult)
  have "ucast (of_nat n :: byte) + push_bit 8 (ucast (of_nat (n div 256) :: byte))
     + push_bit 16 (ucast (of_nat (n div 65536) :: byte)) + push_bit 24 (ucast (of_nat (n div 16777216) :: byte))
    = (of_nat (n mod 256 + n div 256 mod 256 * 2 ^ 8 + n div 65536 mod 256 * 2 ^ 16
        + n div 16777216 mod 256 * 2 ^ 24) :: u32)"
    unfolding ucast_of_nat_byte shifted by (simp only: of_nat_add)
  also have "\<dots> = of_nat (n mod 2 ^ 32)" by (simp only: four_bytes)
  also have "\<dots> = of_nat n" by (rule word_eqI_unat) (simp add: unat_of_nat take_bit_eq_mod)
  finally show ?thesis .
qed

lemma int32_entries_arg_lengths:
  "int32_entries (arg_lengths args) = Some (map (\<lambda>a. of_nat (length a)) args)"
  by (induction args) (simp_all add: arg_lengths_def le32_def le32_read)

section \<open>Bytes\<close>

lemma MemLoadMultiple_concat:
  assumes "memory_of c = Some m" and "length m < 2 ^ 31" and "start + length (concat args) \<le> length m"
    and "take (length (concat args)) (drop start m) = concat args"
  shows "MemLoadMultiple (of_nat start) (map (\<lambda>a. of_nat (length a)) args) c = Some (Inr args)"
  using assms(3,4)
proof (induction args arbitrary: start)
  case Nil
  then show ?case by simp
next
  case (Cons a args)
  have small: "unat (of_nat start :: i32) = start" "unat (of_nat (length a) :: i32) = length a"
    using Cons.prems(1) assms(2) by (simp_all add: unat_of_nat_u32)
  have pos: "\<not> (of_nat start :: i32) <s 0" "\<not> (of_nat (length a) :: i32) <s 0"
    using Cons.prems(1) assms(2) by (simp_all add: word_sless_alt signed_of_nat signed_take_bit_int_eq_self)
  have a: "take (length a) (drop start m) = a"
    using arg_cong [OF Cons.prems(2), of "take (length a)"] by (simp add: min_def)
  have "load_error m (of_nat start) (of_nat (length a)) = None"
    using small pos Cons.prems(1) by (simp add: load_error_def)
  moreover have "read_bytes m start (length a) = a"
    using a Cons.prems(1) by (simp add: read_bytes_def go_copy_new_def)
  ultimately have load: "MemLoad (of_nat start) (of_nat (length a)) c = Some (Inr a)"
    using MemLoad_spec [OF assms(1,2)] small by simp
  have "take (length (concat args)) (drop (start + length a) m) = concat args"
    using arg_cong [OF Cons.prems(2), of "drop (length a)"] by (simp add: drop_take add.commute)
  with Cons.IH [of "start + length a"] Cons.prems(1) load show ?case by simp
qed

section \<open>Argument lists\<close>

lemma sum_of_nat_lengths: "sum_list (map (\<lambda>a. of_nat (length a)) args) = (of_nat (length (concat args)) :: i32)"
  by (induction args) simp_all

text \<open>
  C20. Arguments arrive as they were passed: when the memory of a contract holds the lengths of a
  list of arguments and, elsewhere, their bytes one after the other, the host reads exactly that
  list and the total number of its bytes, for every list that fits into the memory, empty
  arguments and the empty list included.
\<close>

theorem arguments_arrive:
  assumes "hook_ready m h"
    and "lengthOffset + 4 * length args \<le> length m"
    and "take (4 * length args) (drop lengthOffset m) = arg_lengths args"
    and "dataOffset + length (concat args) \<le> length m"
    and "take (length (concat args)) (drop dataOffset m) = concat args"
  shows "getArgumentsFromMemory (of_nat (length args)) (of_nat lengthOffset) (of_nat dataOffset) h =
    Some (args, of_nat (length (concat args)), None)"
proof -
  have mem: "memory_of (host_runtime h) = Some m" "length m < 2 ^ 31" using assms(1) by (simp_all add: hook_ready_def)
  have n: "\<not> (of_nat (length args) :: i32) <s 0" "sint (of_nat (length args) :: i32) = int (length args)"
    using assms(2) mem(2) by (simp_all add: word_sless_alt signed_of_nat signed_take_bit_int_eq_self)
  have four: "concat [arg_lengths args] = arg_lengths args" "length (concat [arg_lengths args]) = 4 * length args"
    by simp_all
  have "MemLoadMultiple (of_nat lengthOffset) (map (\<lambda>a. of_nat (length a)) [arg_lengths args]) (host_runtime h) =
      Some (Inr [arg_lengths args])"
    using MemLoadMultiple_concat [OF mem, of lengthOffset "[arg_lengths args]"] assms(2,3) by simp
  then have "memLoad (of_nat lengthOffset) (of_nat (length args) * 4) h = Some (Inr (arg_lengths args))"
    by (auto simp: memLoad_def mult.commute split: option.splits sum.splits)
  moreover have "createInt32Array (arg_lengths args) (of_nat (length args)) = Some (map (\<lambda>a. of_nat (length a)) args)"
    using n(2) by (simp add: createInt32Array_def int32_entries_arg_lengths)
  ultimately show ?thesis
    using n(1) MemLoadMultiple_concat [OF mem assms(4,5)]
    by (simp add: getArgumentsFromMemory_def sum_of_nat_lengths)
qed

definition passing_host :: "nat vmHost" where
  "passing_host = sample_host\<lparr>host_runtime := with_memory [2, 0, 0, 0, 1, 0, 0, 0, 9, 8, 7] sample_runtime\<rparr>"

theorem arguments_arrive_witness:
  "getArgumentsFromMemory 2 0 8 passing_host = Some ([[9, 8], [7]], 3, None)"
proof -
  have "hook_ready [2, 0, 0, 0, 1, 0, 0, 0, 9, 8, 7] passing_host"
    using sample_memory
    by (simp add: hook_ready_def passing_host_def with_memory_def set_memory_def upd_instance_def memory_of_def current_instance_def GetPointsUsed_def
        sample_runtime_def sample_instance_def)
  then show ?thesis
    using arguments_arrive [of _ passing_host 0 "[[9, 8], [7]]" 8] by (simp add: arg_lengths_def le32_def)
qed

text \<open>
  The number of arguments is multiplied by four in 32 bits, so a contract that passes
  \<open>0x40000000\<close> reads no lengths at all, whatever its memory holds, and makes the host build a
  list of more than a thousand million empty arguments, for which it pays nothing.
\<close>

theorem argument_count_wraps:
  "getArgumentsFromMemory 0x40000000 lengthOffset dataOffset h = Some (replicate (2 ^ 30) [], 0, None)"
proof -
  have multiple: "MemLoadMultiple start (replicate k 0) c = Some (Inr (replicate k []))" for start k c
    by (induction k arbitrary: start) (simp_all add: MemLoad_def)
  have "createInt32Array [] 0x40000000 = Some (replicate (2 ^ 30) 0)"
    by (simp add: createInt32Array_def)
  moreover have "memLoad lengthOffset (0x40000000 * 4) h = Some (Inr [])"
    by (simp add: memLoad_def MemLoad_def)
  moreover have "\<not> (0x40000000 :: i32) <s 0" by (simp add: word_sless_alt)
  ultimately show ?thesis using multiple [of dataOffset "2 ^ 30" "host_runtime h"]
    by (simp only: getArgumentsFromMemory_def if_False bind.simps sum.case)
      (simp add: sum_list_replicate)
qed

end
