(* ===== verification/AsyncGas.thy ===== *)
theory AsyncGas
  imports AsyncCalls Sample
begin

text \<open>
  The gas of asynchronous calls: how \<open>setupAsyncCallsGas\<close> divides the gas that is left among
  the calls that a contract has registered.
\<close>

section \<open>Specification\<close>

definition all_calls :: "AsyncContextInfo \<Rightarrow> AsyncGeneratedCall list" where
  "all_calls asyncInfo = concat (map (\<lambda>(_, asyncContext). ac_AsyncCalls asyncContext) (aco_AsyncContextMap asyncInfo))"

definition provided_gas :: "AsyncGeneratedCall list \<Rightarrow> nat" where
  "provided_gas calls = sum_list (map (\<lambda>c. unat (agc_ProvidedGas c)) calls)"

definition open_calls :: "AsyncGeneratedCall list \<Rightarrow> nat" where
  "open_calls calls = length (filter (\<lambda>c. agc_ProvidedGas c = 0) calls)"

text \<open>A call gets what it asked for, and an equal share of the rest if it asked for nothing.\<close>

definition limit_gas :: "u64 \<Rightarrow> AsyncGeneratedCall \<Rightarrow> AsyncGeneratedCall" where
  "limit_gas share c = c\<lparr>agc_GasLimit := if agc_ProvidedGas c = 0 then share else agc_ProvidedGas c\<rparr>"

definition map_calls :: "(AsyncGeneratedCall \<Rightarrow> AsyncGeneratedCall) \<Rightarrow> AsyncContextInfo \<Rightarrow> AsyncContextInfo" where
  "map_calls f asyncInfo = asyncInfo\<lparr>aco_AsyncContextMap := map_vals
     (\<lambda>asyncContext. asyncContext\<lparr>ac_AsyncCalls := map f (ac_AsyncCalls asyncContext)\<rparr>) (aco_AsyncContextMap asyncInfo)\<rparr>"

definition paid :: "AsyncGeneratedCall \<Rightarrow> AsyncGeneratedCall" where
  "paid c = (if agc_ProvidedGas c = 0 then c else c\<lparr>agc_GasLimit := agc_ProvidedGas c\<rparr>)"

lemma provided_gas_simps [simp]:
  "provided_gas [] = 0" "provided_gas (c # cs) = unat (agc_ProvidedGas c) + provided_gas cs"
  "provided_gas (xs @ ys) = provided_gas xs + provided_gas ys"
  by (simp_all add: provided_gas_def)

lemma open_calls_simps [simp]:
  "open_calls [] = 0" "open_calls (c # cs) = (if agc_ProvidedGas c = 0 then Suc (open_calls cs) else open_calls cs)"
  "open_calls (xs @ ys) = open_calls xs + open_calls ys"
  by (simp_all add: open_calls_def)

section \<open>The loops\<close>

lemma needed_calls_enough:
  assumes "unat g + provided_gas calls \<le> unat left"
  shows "needed_calls left calls g z =
    Inr (g + of_nat (provided_gas calls), z + of_nat (open_calls calls), map paid calls)"
  using assms
proof (induction calls arbitrary: g z)
  case Nil
  then show ?case by simp
next
  case (Cons c cs)
  let ?g = "g + agc_ProvidedGas c"
  have "unat g + unat (agc_ProvidedGas c) \<le> unat left" using Cons.prems by simp
  also have "unat left \<le> max_u64" by simp
  finally have fits: "unat g + unat (agc_ProvidedGas c) \<le> max_u64" .
  then have g: "unat ?g = unat g + unat (agc_ProvidedGas c)" by (simp add: unat_plus_if')
  have "AddUint64WithErr g (agc_ProvidedGas c) = (?g, None)" using fits by (simp add: AddUint64WithErr_iff)
  moreover have "\<not> left < ?g" using Cons.prems g by (simp add: word_less_nat_alt)
  ultimately show ?case
    using Cons.IH [of ?g] Cons.prems g by (simp add: paid_def Let_def add.assoc)
qed

lemma needed_calls_short:
  assumes "unat g \<le> unat left" and "unat left < unat g + provided_gas calls"
  shows "\<exists>err. needed_calls left calls g z = Inl err"
  using assms
proof (induction calls arbitrary: g z)
  case Nil
  then show ?case by simp
next
  case (Cons c cs)
  let ?g = "g + agc_ProvidedGas c"
  show ?case
  proof (cases "unat g + unat (agc_ProvidedGas c) \<le> max_u64")
    case True
    then have g: "unat ?g = unat g + unat (agc_ProvidedGas c)" by (simp add: unat_plus_if')
    have add: "AddUint64WithErr g (agc_ProvidedGas c) = (?g, None)" using True by (simp add: AddUint64WithErr_iff)
    show ?thesis
    proof (cases "left < ?g")
      case False
      then have "\<exists>err. needed_calls left cs ?g z' = Inl err" for z'
        using Cons.IH [of ?g z'] Cons.prems g by (simp add: word_less_nat_alt)
      then obtain e1 e2 where "needed_calls left cs ?g z = Inl e1" "needed_calls left cs ?g (z + 1) = Inl e2"
        by blast
      then show ?thesis using add False by (cases "agc_ProvidedGas c = 0") (simp_all add: Let_def)
    qed (simp add: add)
  next
    case False
    then show ?thesis by (simp add: AddUint64WithErr_iff)
  qed
qed

definition paid_context :: "AsyncContext \<Rightarrow> AsyncContext" where
  "paid_context asyncContext = asyncContext\<lparr>ac_AsyncCalls := map paid (ac_AsyncCalls asyncContext)\<rparr>"

abbreviation calls_of :: "(bytes, AsyncContext) gomap \<Rightarrow> AsyncGeneratedCall list" where
  "calls_of m \<equiv> concat (map (\<lambda>(_, asyncContext). ac_AsyncCalls asyncContext) m)"

lemma unat_add_gas:
  fixes g left :: u64
  assumes "unat g + n \<le> unat left"
  shows "unat (g + of_nat n) = unat g + n"
proof -
  have "unat left \<le> max_u64" by simp
  with assms have "unat g + n \<le> max_u64" by (rule le_trans)
  then show ?thesis by (simp add: unat_plus_if' unat_of_nat take_bit_nat_eq_self)
qed

lemma needed_contexts_enough:
  assumes "unat g + provided_gas (calls_of m) \<le> unat left"
  shows "needed_contexts left m g z =
    Inr (g + of_nat (provided_gas (calls_of m)), z + of_nat (open_calls (calls_of m)), map_vals paid_context m)"
  using assms
proof (induction m arbitrary: g z)
  case Nil
  then show ?case by (simp add: map_vals_def)
next
  case (Cons x m)
  obtain k ctx where x: "x = (k, ctx)" by (cases x)
  have here: "unat g + provided_gas (ac_AsyncCalls ctx) \<le> unat left" using Cons.prems by (simp add: x)
  note unat_add_gas [OF this]
  with Cons.IH Cons.prems show ?case
    using needed_calls_enough [OF here, of z] by (simp add: x map_vals_def paid_context_def add.assoc)
qed

lemma needed_contexts_short:
  assumes "unat g \<le> unat left" and "unat left < unat g + provided_gas (calls_of m)"
  shows "\<exists>err. needed_contexts left m g z = Inl err"
  using assms
proof (induction m arbitrary: g z)
  case Nil
  then show ?case by simp
next
  case (Cons x m)
  obtain k ctx where x: "x = (k, ctx)" by (cases x)
  show ?case
  proof (cases "unat g + provided_gas (ac_AsyncCalls ctx) \<le> unat left")
    case True
    note unat_add_gas [OF True]
    then obtain err where "needed_contexts left m (g + of_nat (provided_gas (ac_AsyncCalls ctx)))
        (z + of_nat (open_calls (ac_AsyncCalls ctx))) = Inl err"
      using Cons.IH [of "g + of_nat (provided_gas (ac_AsyncCalls ctx))"] Cons.prems True by (fastforce simp: x)
    then show ?thesis using needed_calls_enough [OF True, of z] by (simp add: x)
  next
    case False
    then show ?thesis using needed_calls_short [OF Cons.prems(1), of "ac_AsyncCalls ctx" z] by (auto simp: x)
  qed
qed

section \<open>The division of the gas\<close>

lemma unat_gas_share:
  fixes left :: u64
  assumes "p \<le> unat left" and "n < 2 ^ 64" and "0 < n"
  shows "unat ((left - of_nat p) div of_nat n) = (unat left - p) div n"
proof -
  have "unat left \<le> max_u64" by simp
  with assms(1) have "p \<le> max_u64" by (rule le_trans)
  then have p: "unat (of_nat p :: u64) = p" by (simp add: unat_of_nat take_bit_nat_eq_self)
  then have "unat (left - of_nat p) = unat left - p" using assms(1) by (simp add: unat_sub_if_size)
  moreover have "unat (of_nat n :: u64) = n" using assms(2) by (simp add: unat_of_nat take_bit_nat_eq_self)
  ultimately show ?thesis by (simp add: unat_div)
qed

lemma share_paid: "share_gas share (paid_context c) = c\<lparr>ac_AsyncCalls := map (limit_gas share) (ac_AsyncCalls c)\<rparr>"
  by (simp add: share_gas_def paid_context_def limit_gas_def paid_def)

lemma map_vals_comp: "map_vals f (map_vals g m) = map_vals (\<lambda>x. f (g x)) m"
  by (simp add: map_vals_def case_prod_beta comp_def)

lemma limits_sum:
  "sum_list (map (\<lambda>c. unat (agc_GasLimit (limit_gas share c))) calls) = provided_gas calls + open_calls calls * unat share"
  by (induction calls) (simp_all add: limit_gas_def)

lemma paid_limit: "open_calls calls = 0 \<Longrightarrow> map paid calls = map (limit_gas share) calls"
  by (induction calls) (simp_all add: paid_def limit_gas_def split: if_splits)

lemma paid_contexts_limit:
  "open_calls (calls_of m) = 0 \<Longrightarrow> map_vals paid_context m =
     map_vals (\<lambda>c. c\<lparr>ac_AsyncCalls := map (limit_gas share) (ac_AsyncCalls c)\<rparr>) m"
  by (induction m) (auto simp: map_vals_def paid_context_def paid_limit [of _ share])

text \<open>
  C21. The gas that is left when a contract ends is divided among its asynchronous calls exactly
  as specified: setting up the gas fails when the calls ask for more than is left, or for all of
  it while some call asks for nothing; otherwise every call gets what it asked for, the calls
  that asked for nothing get equal shares of the rest, nothing else of any call changes, and all
  limits together do not exceed the gas that is left.
\<close>

theorem setupAsyncCallsGas_divides:
  assumes calls: "calls = all_calls asyncInfo" and few: "length calls < 2 ^ 64"
    and left: "left = unat (GasLeft h)"
  shows "if left < provided_gas calls \<or> (0 < open_calls calls \<and> left = provided_gas calls)
    then \<exists>err. setupAsyncCallsGas asyncInfo h = Inl err
    else \<exists>share asyncInfo'. unat share = (left - provided_gas calls) div open_calls calls
      \<and> setupAsyncCallsGas asyncInfo h = Inr asyncInfo'
      \<and> asyncInfo' = map_calls (limit_gas share) asyncInfo
      \<and> sum_list (map (\<lambda>c. unat (agc_GasLimit c)) (all_calls asyncInfo')) \<le> left"
proof -
  let ?m = "aco_AsyncContextMap asyncInfo"
  let ?share = "(GasLeft h - of_nat (provided_gas calls)) div of_nat (open_calls calls) :: u64"
  have c: "calls = calls_of ?m" using calls by (simp add: all_calls_def)
  have few_open: "open_calls calls < 2 ^ 64"
    unfolding open_calls_def by (rule le_less_trans [OF length_filter_le few])
  have limits: "sum_list (map (\<lambda>c. unat (agc_GasLimit c)) (all_calls (map_calls (limit_gas share) asyncInfo)))
      = provided_gas calls + open_calls calls * unat share" for share
    by (simp add: limits_sum [symmetric] calls all_calls_def map_calls_def map_vals_def map_concat comp_def case_prod_beta)
  show ?thesis
  proof (cases "left < provided_gas calls")
    case True
    then show ?thesis
      using needed_contexts_short [of 0 "GasLeft h" ?m 0] left c by (auto simp: setupAsyncCallsGas_def)
  next
    case enough: False
    then have needed: "needed_contexts (GasLeft h) ?m 0 0 =
        Inr (of_nat (provided_gas calls), of_nat (open_calls calls), map_vals paid_context ?m)"
      using needed_contexts_enough [of 0 ?m "GasLeft h" 0] left c by simp
    have p: "unat (of_nat (provided_gas calls) :: u64) = provided_gas calls"
      using unat_add_gas [of 0 "provided_gas calls" "GasLeft h"] enough left by simp
    have z: "(of_nat (open_calls calls) :: u64) = 0 \<longleftrightarrow> open_calls calls = 0"
    proof -
      have "unat (of_nat (open_calls calls) :: u64) = open_calls calls"
        using few_open by (simp add: unat_of_nat take_bit_nat_eq_self)
      then show ?thesis by (metis unat_eq_zero)
    qed
    show ?thesis
    proof (cases "open_calls calls = 0")
      case True
      then have "setupAsyncCallsGas asyncInfo h = Inr (map_calls (limit_gas 0) asyncInfo)"
        using needed paid_contexts_limit [of ?m 0] c by (simp add: setupAsyncCallsGas_def map_calls_def)
      moreover have "\<not> (left < provided_gas calls \<or> (0 < open_calls calls \<and> left = provided_gas calls))"
        using True enough by simp
      moreover have "sum_list (map (\<lambda>c. unat (agc_GasLimit c)) (all_calls (map_calls (limit_gas 0) asyncInfo))) \<le> left"
        unfolding limits using True enough by simp
      ultimately show ?thesis using True by (simp only: if_False) (intro exI [of _ 0] exI conjI; simp)
    next
      case False
      let ?s = "(GasLeft h - of_nat (provided_gas calls)) div of_nat (open_calls calls) :: u64"
      have share: "unat ?s = (left - provided_gas calls) div open_calls calls"
        unfolding left by (rule unat_gas_share) (use enough few_open False left in auto)
      have "setupAsyncCallsGas asyncInfo h =
        (if left = provided_gas calls then Inl (Sentinel ErrNotEnoughGas) else Inr (map_calls (limit_gas ?s) asyncInfo))"
        using needed z False enough left p
        by (auto simp: setupAsyncCallsGas_def map_calls_def map_vals_comp share_paid word_le_nat_alt Let_def)
      moreover have "provided_gas calls + open_calls calls * unat ?s \<le> left"
      proof -
        have "open_calls calls * unat ?s \<le> left - provided_gas calls"
          unfolding share by (rule times_div_less_eq_dividend)
        then show ?thesis using enough by linarith
      qed
      ultimately show ?thesis using share False enough limits [of ?s] by (cases "left = provided_gas calls") auto
    qed
  qed
qed

definition sample_calls :: AsyncContextInfo where
  "sample_calls =
     (let call = (\<lambda>gas. \<lparr>agc_Status = AsyncCallPending, agc_Destination = [2], agc_Data = [], agc_GasLimit = 0,
        agc_ValueBytes = [], agc_SuccessCallback = [], agc_ErrorCallback = [], agc_ProvidedGas = gas\<rparr>)
      in \<lparr>aco_CallerAddr = [], aco_ReturnData = [],
          aco_AsyncContextMap = [([1], \<lparr>ac_Callback = [], ac_AsyncCalls = [call 100, call 0, call 0]\<rparr>)]\<rparr>)"

theorem setupAsyncCallsGas_divides_witness:
  "\<exists>asyncInfo'. setupAsyncCallsGas sample_calls sample_host = Inr asyncInfo'
     \<and> map (\<lambda>c. unat (agc_GasLimit c)) (all_calls asyncInfo') = [100, 195, 195]"
proof -
  let ?calls = "all_calls sample_calls"
  have calls: "provided_gas ?calls = 100" "open_calls ?calls = 2" "length ?calls = 3"
    by (simp_all add: sample_calls_def all_calls_def)
  have left: "unat (GasLeft sample_host) = 490"
    by (simp add: unat_GasLeft GetPointsUsed_def sample_defs)
  obtain share asyncInfo' where "unat share = 195" "setupAsyncCallsGas sample_calls sample_host = Inr asyncInfo'"
    "asyncInfo' = map_calls (limit_gas share) sample_calls"
    using setupAsyncCallsGas_divides [OF refl _ refl, of sample_calls sample_host] calls left by auto
  then show ?thesis
    by (simp add: sample_calls_def all_calls_def map_calls_def map_vals_def limit_gas_def)
qed

end
