(* ===== verification/HostTransactions.thy ===== *)
theory HostTransactions
  imports HostEntry HostGuarantees
begin

text \<open>
  What a transaction may rely on: it starts from a clean slate whatever the transaction before
  it left behind, and it has all of its effects or none.
\<close>

section \<open>Isolation\<close>

text \<open>
  Everything that the previous transaction may have left in the contexts, taken from arbitrary
  other contexts: its output, its big integers, its gas counters and the state of its call. What
  is meant to last stays: the world, the gas schedule, the instances and the settings.
\<close>

definition left_behind ::
  "outputContext \<Rightarrow> bigIntContext \<Rightarrow> meteringContext \<Rightarrow> runtimeContext \<Rightarrow> address list \<Rightarrow> 'w vmHost \<Rightarrow> 'w vmHost" where
  "left_behind out big m r stack h = h\<lparr>
     host_output := out,
     host_bigInt := big,
     host_metering := m\<lparr>mc_gasSchedule := mc_gasSchedule (host_metering h),
       mc_blockGasLimit := mc_blockGasLimit (host_metering h)\<rparr>,
     host_runtime := (host_runtime h)\<lparr>rc_vmInput := rc_vmInput r, rc_scAddress := rc_scAddress r,
       rc_callFunction := rc_callFunction r, rc_readOnly := rc_readOnly r, rc_verifyCode := rc_verifyCode r,
       rc_stateStack := rc_stateStack r, rc_asyncCallInfo := rc_asyncCallInfo r,
       rc_asyncContextInfo := rc_asyncContextInfo r, rc_errors := rc_errors r\<rparr>,
     host_storage := (host_storage h)\<lparr>sc_stateStack := stack\<rparr>\<rparr>"

lemma InitState_left_behind: "host_InitState (left_behind out big m r stack h) = host_InitState h"
  by (simp add: host_InitState_def initContexts_def ClearContextStateStack_def left_behind_def
      bigInt_ClearStateStack_def bigInt_InitState_def output_ClearStateStack_def output_InitState_def
      metering_ClearStateStack_def metering_InitState_def runtime_ClearStateStack_def runtime_InitState_def
      storage_ClearStateStack_def storage_InitState_def)


section \<open>All or nothing\<close>

definition effect_free :: "VMOutput \<Rightarrow> bool" where
  "effect_free out \<longleftrightarrow> vo_ReturnCode out \<noteq> Ok \<and> vo_OutputAccounts out = [] \<and> vo_ReturnData out = []
     \<and> vo_Logs out = [] \<and> vo_DeletedAccounts out = [] \<and> vo_TouchedAccounts out = []
     \<and> vo_GasRemaining out = 0 \<and> vo_GasRefund out = Some 0"

text \<open>
  The function that the transaction called, or the constructor of the code it deployed, returned
  without an error, and the output is what it had produced when the final gas accounting succeeded.
\<close>

definition completed :: "'w vmEnv \<Rightarrow> 'w dest_call \<Rightarrow> VMOutput \<Rightarrow> bool" where
  "completed E onDest out \<longleftrightarrow> (\<exists>h1 h2 h3. GetVMOutput E h2 = Some (out, h3)
     \<and> (callSCMethod E onDest h1 = Some (None, h2)
        \<or> (\<exists>input h. callInitFunction E onDest h1 = Some (None, h) \<and> h2 = upd_output (DeployCode input) h)))"

definition all_or_nothing :: "'w vmEnv \<Rightarrow> 'w dest_call \<Rightarrow> (VMOutput \<times> 'w vmHost) option \<Rightarrow> bool" where
  "all_or_nothing E onDest m \<longleftrightarrow> (\<forall>out h'. m = Some (out, h') \<longrightarrow> effect_free out \<or> completed E onDest out)"

lemma all_or_nothing_error [intro]: "all_or_nothing E onDest (CreateVMOutputInCaseOfError E err h)"
proof -
  have "effect_free out" if "CreateVMOutputInCaseOfError E err h = Some (out, h')" for out h'
  proof -
    have "vo_DeletedAccounts out = []" "vo_TouchedAccounts out = []"
      using that by (auto simp: CreateVMOutputInCaseOfError_def Let_def split: bind_splits)
    then show ?thesis using CreateVMOutputInCaseOfError_fields [OF that] by (simp add: effect_free_def)
  qed
  then show ?thesis by (auto simp: all_or_nothing_def)
qed

lemma all_or_nothing_none [simp]: "all_or_nothing E onDest None"
  by (simp add: all_or_nothing_def)

lemma all_or_nothing_bind:
  "(\<And>x h1. m = Some (x, h1) \<Longrightarrow> all_or_nothing E onDest (f x h1)) \<Longrightarrow>
   all_or_nothing E onDest (Option.bind m (\<lambda>(x, h). f x h))"
  by (cases m) (auto simp: all_or_nothing_def)

lemma all_or_nothing_then:
  "all_or_nothing E onDest m \<Longrightarrow> all_or_nothing E onDest (Option.bind m (\<lambda>(out, h). Some (out, f h)))"
  by (cases m) (auto simp: all_or_nothing_def)

lemma all_or_nothing_completed:
  assumes "GetVMOutput E h = Some (out, h3)" and "callSCMethod E onDest h1 = Some (None, h)"
  shows "all_or_nothing E onDest (Some (out, h'))"
  using assms unfolding all_or_nothing_def completed_def by blast

lemma all_or_nothing_deployment: "all_or_nothing E onDest (deploymentOutput E onDest input h)"
proof -
  have "completed E onDest out" if p: "performCodeDeployment E onDest input h = Some (Inr out, h1)" for out h1
  proof -
    obtain h2 h3 h4 where "callInitFunction E onDest h2 = Some (None, h3)"
      "GetVMOutput E (upd_output (DeployCode input) h3) = Some (out, h4)"
      using p unfolding performCodeDeployment_def Let_def
      by (auto split: option.splits if_splits prod.splits bind_splits)
    then show ?thesis unfolding completed_def by blast
  qed
  then have "all_or_nothing E onDest (Some (out, h1))"
    if "performCodeDeployment E onDest input h = Some (Inr out, h1)" for out h1
    using that by (simp add: all_or_nothing_def)
  then show ?thesis
    unfolding deploymentOutput_def by (intro all_or_nothing_bind) (auto split: sum.split)
qed

lemma all_or_nothing_call: "all_or_nothing E onDest (doRunSmartContractCall E onDest input h)"
  unfolding doRunSmartContractCall_def
  by (rule all_or_nothing_bind, rule all_or_nothing_then,
      auto simp: Let_def split: sum.split prod.split option.split intro!: all_or_nothing_bind all_or_nothing_error)
    (rule all_or_nothing_completed)

lemma all_or_nothing_upgrade: "all_or_nothing E onDest (doRunSmartContractUpgrade E onDest input h)"
  unfolding doRunSmartContractUpgrade_def Let_def
  by (intro all_or_nothing_bind) (auto intro!: all_or_nothing_then all_or_nothing_deployment split: prod.split sum.split)

lemma all_or_nothing_create: "all_or_nothing E onDest (doRunSmartContractCreate E onDest input h)"
  unfolding doRunSmartContractCreate_def Let_def case_prod_beta
  by (rule all_or_nothing_then [unfolded case_prod_beta], auto split: sum.split bind_splits
      intro!: all_or_nothing_deployment simp: all_or_nothing_none)

text \<open>
  C1. A transaction has all of its effects or none: when a call, an upgrade or a deployment
  returns an output, either the output carries no effects at all - no accounts, no transfers, no
  logs, no return data, no gas left, no refund - and a return code other than \<open>Ok\<close>, or the
  called function returned without an error, and so did the asynchronous calls it made.
\<close>

theorem transactions_all_or_nothing:
  "(\<forall>out h'. RunSmartContractCall fuel E input h = Inr (out, h') \<longrightarrow>
      effect_free out \<or> completed E (ExecuteOnDestContext fuel E) out)
   \<and> (\<forall>out h'. RunSmartContractCreate fuel E create h = Inr (out, h') \<longrightarrow>
      effect_free out \<or> completed E (ExecuteOnDestContext fuel E) out)"
  using all_or_nothing_call [of E "ExecuteOnDestContext fuel E" input h]
    all_or_nothing_upgrade [of E "ExecuteOnDestContext fuel E" input h]
    all_or_nothing_create [of E "ExecuteOnDestContext fuel E" create h]
  by (auto simp: RunSmartContractCall_def RunSmartContractCreate_def all_or_nothing_def Let_def
      split: if_splits option.splits)

definition poor_call :: ContractCallInput where
  "poor_call = \<lparr>ci_VMInput = sample_input\<lparr>vi_CallerAddr := [1], vi_CallValue := Some 5, vi_GasProvided := 0,
     vi_CallType := DirectCall\<rparr>, ci_RecipientAddr = [2], ci_Function = ''pay'', ci_AllowInitFunction = False\<rparr>"

lemma poor_call_entered:
  "\<exists>v h1. enterDirectCall poor_call sample_host = Some (poor_call\<lparr>ci_VMInput := v\<rparr>, h1)
      \<and> vi_GasProvided v = 0 \<and> mc_gasSchedule (host_metering h1) = sample_schedule"
proof -
  let ?h = "host_InitState sample_host"
  have out: "host_output ?h = NewOutputContext" and m: "mc_gasSchedule (host_metering ?h) = sample_schedule"
    by (simp_all add: host_InitState_def initContexts_def ClearContextStateStack_def NewOutputContext_def
        output_ClearStateStack_def output_InitState_def metering_ClearStateStack_def metering_InitState_def sample_host_def)
  have "\<exists>c. AddTxValueToAccount [2] (Some 5) NewOutputContext = Some c"
    by (simp add: AddTxValueToAccount_def GetOutputAccount_def NewOutputContext_def newVMOutput_def
        NewVMOutputAccount_def GetOutputAccounts_def)
  then show ?thesis
    using m by (auto simp: enterDirectCall_def out poor_call_def metering_InitStateFromContractCallInput_def
        metering_InitState_def unlockGasIfAsyncCallback_def Let_def)
qed

lemma poor_call_refused: "\<exists>out h'. RunSmartContractCall 1 sample_env poor_call sample_host = Inr (out, h')"
proof -
  obtain v h1 where h1: "enterDirectCall poor_call sample_host = Some (poor_call\<lparr>ci_VMInput := v\<rparr>, h1)"
    "vi_GasProvided v = 0" "mc_gasSchedule (host_metering h1) = sample_schedule"
    using poor_call_entered by blast
  have "checkGasForGetCode sample_env (poor_call\<lparr>ci_VMInput := v\<rparr>) h1 = Some (Sentinel ErrNotEnoughGas)"
    using h1(2,3) by (simp add: checkGasForGetCode_def IsVMV2Enabled_def sample_env_def sample_schedule_def)
  moreover obtain out h2 where "CreateVMOutputInCaseOfError sample_env (Sentinel ErrNotEnoughGas) h1 = Some (out, h2)"
    using CreateVMOutputInCaseOfError_plain [of "Sentinel ErrNotEnoughGas" sample_env h1] by auto
  moreover have "ci_Function poor_call \<noteq> UpgradeFunctionName"
    by (simp add: poor_call_def UpgradeFunctionName_def)
  ultimately show ?thesis
    using h1(1) by (simp add: RunSmartContractCall_def doRunSmartContractCall_def)
qed

theorem transactions_all_or_nothing_witness:
  "\<exists>out h'. RunSmartContractCall 1 sample_env poor_call sample_host = Inr (out, h')
     \<and> (effect_free out \<or> completed sample_env (ExecuteOnDestContext 1 sample_env) out)"
  using poor_call_refused transactions_all_or_nothing [of 1 sample_env poor_call sample_host] by blast

section \<open>Upgrades\<close>



end
