(* ===== verification/Opcodes.thy ===== *)
theory Opcodes
  imports GasSchedule
begin

text \<open>
  The opcode costs of the gas schedule: the fields of \<open>WASMOpcodeCost\<close> and the conversion to
  the array that is handed to the engine (\<open>config/gasCost.go\<close>), whose index is the opcode
  (the constants of \<open>wasmer/opcodes.go\<close>, numbered from zero), and the test schedule's opcode
  values (\<open>config/gasSchedule.go\<close>). Long lists are cut into parts.
\<close>

section \<open>Fields\<close>

definition opcode_fields_1 :: "string list" where
  "opcode_fields_1 = [
     ''Unreachable'', ''Nop'', ''Block'', ''Loop'', ''If'', ''Else'', ''End'', ''Br'', ''BrIf'',
     ''BrTable'', ''Return'', ''Call'', ''CallIndirect'', ''Drop'', ''Select'', ''TypedSelect'',
     ''LocalGet'', ''LocalSet'', ''LocalTee'', ''GlobalGet'', ''GlobalSet'', ''I32Load'', ''I64Load'',
     ''F32Load'', ''F64Load'', ''I32Load8S'', ''I32Load8U'', ''I32Load16S'', ''I32Load16U'', ''I64Load8S'',
     ''I64Load8U'', ''I64Load16S'', ''I64Load16U'', ''I64Load32S'', ''I64Load32U'', ''I32Store'',
     ''I64Store'', ''F32Store'', ''F64Store'', ''I32Store8'', ''I32Store16'', ''I64Store8'',
     ''I64Store16'', ''I64Store32'', ''MemorySize'', ''MemoryGrow'', ''I32Const'', ''I64Const'',
     ''F32Const'', ''F64Const'', ''RefNull'', ''RefIsNull'', ''RefFunc'', ''I32Eqz'', ''I32Eq'', ''I32Ne'',
     ''I32LtS'', ''I32LtU'', ''I32GtS'', ''I32GtU'', ''I32LeS'', ''I32LeU'', ''I32GeS'', ''I32GeU'',
     ''I64Eqz'', ''I64Eq'', ''I64Ne'', ''I64LtS'', ''I64LtU'', ''I64GtS'', ''I64GtU'', ''I64LeS'',
     ''I64LeU'', ''I64GeS'', ''I64GeU'', ''F32Eq'', ''F32Ne'', ''F32Lt'', ''F32Gt'', ''F32Le'', ''F32Ge'',
     ''F64Eq'', ''F64Ne'', ''F64Lt'', ''F64Gt'', ''F64Le'', ''F64Ge'', ''I32Clz'', ''I32Ctz'',
     ''I32Popcnt'', ''I32Add'', ''I32Sub'', ''I32Mul'', ''I32DivS'', ''I32DivU'', ''I32RemS'', ''I32RemU'',
     ''I32And'', ''I32Or'', ''I32Xor'', ''I32Shl'', ''I32ShrS'', ''I32ShrU'', ''I32Rotl'', ''I32Rotr'',
     ''I64Clz'', ''I64Ctz'', ''I64Popcnt'', ''I64Add'', ''I64Sub'', ''I64Mul'', ''I64DivS'', ''I64DivU'',
     ''I64RemS'', ''I64RemU'', ''I64And'', ''I64Or'', ''I64Xor'', ''I64Shl'', ''I64ShrS'', ''I64ShrU'',
     ''I64Rotl'', ''I64Rotr'', ''F32Abs'', ''F32Neg'', ''F32Ceil'', ''F32Floor'', ''F32Trunc'',
     ''F32Nearest'', ''F32Sqrt'', ''F32Add'', ''F32Sub'', ''F32Mul'', ''F32Div'', ''F32Min'', ''F32Max'',
     ''F32Copysign'', ''F64Abs'', ''F64Neg'', ''F64Ceil'', ''F64Floor'', ''F64Trunc'', ''F64Nearest'',
     ''F64Sqrt'', ''F64Add'', ''F64Sub'', ''F64Mul'', ''F64Div'', ''F64Min'', ''F64Max'']"

definition opcode_fields_2 :: "string list" where
  "opcode_fields_2 = [
     ''F64Copysign'', ''I32WrapI64'', ''I32TruncF32S'', ''I32TruncF32U'', ''I32TruncF64S'',
     ''I32TruncF64U'', ''I64ExtendI32S'', ''I64ExtendI32U'', ''I64TruncF32S'', ''I64TruncF32U'',
     ''I64TruncF64S'', ''I64TruncF64U'', ''F32ConvertI32S'', ''F32ConvertI32U'', ''F32ConvertI64S'',
     ''F32ConvertI64U'', ''F32DemoteF64'', ''F64ConvertI32S'', ''F64ConvertI32U'', ''F64ConvertI64S'',
     ''F64ConvertI64U'', ''F64PromoteF32'', ''I32ReinterpretF32'', ''I64ReinterpretF64'',
     ''F32ReinterpretI32'', ''F64ReinterpretI64'', ''I32Extend8S'', ''I32Extend16S'', ''I64Extend8S'',
     ''I64Extend16S'', ''I64Extend32S'', ''I32TruncSatF32S'', ''I32TruncSatF32U'', ''I32TruncSatF64S'',
     ''I32TruncSatF64U'', ''I64TruncSatF32S'', ''I64TruncSatF32U'', ''I64TruncSatF64S'',
     ''I64TruncSatF64U'', ''MemoryInit'', ''DataDrop'', ''MemoryCopy'', ''MemoryFill'', ''TableInit'',
     ''ElemDrop'', ''TableCopy'', ''TableFill'', ''TableGet'', ''TableSet'', ''TableGrow'', ''TableSize'',
     ''AtomicNotify'', ''I32AtomicWait'', ''I64AtomicWait'', ''AtomicFence'', ''I32AtomicLoad'',
     ''I64AtomicLoad'', ''I32AtomicLoad8U'', ''I32AtomicLoad16U'', ''I64AtomicLoad8U'',
     ''I64AtomicLoad16U'', ''I64AtomicLoad32U'', ''I32AtomicStore'', ''I64AtomicStore'',
     ''I32AtomicStore8'', ''I32AtomicStore16'', ''I64AtomicStore8'', ''I64AtomicStore16'',
     ''I64AtomicStore32'', ''I32AtomicRmwAdd'', ''I64AtomicRmwAdd'', ''I32AtomicRmw8AddU'',
     ''I32AtomicRmw16AddU'', ''I64AtomicRmw8AddU'', ''I64AtomicRmw16AddU'', ''I64AtomicRmw32AddU'',
     ''I32AtomicRmwSub'', ''I64AtomicRmwSub'', ''I32AtomicRmw8SubU'', ''I32AtomicRmw16SubU'',
     ''I64AtomicRmw8SubU'', ''I64AtomicRmw16SubU'', ''I64AtomicRmw32SubU'', ''I32AtomicRmwAnd'',
     ''I64AtomicRmwAnd'', ''I32AtomicRmw8AndU'', ''I32AtomicRmw16AndU'', ''I64AtomicRmw8AndU'',
     ''I64AtomicRmw16AndU'', ''I64AtomicRmw32AndU'', ''I32AtomicRmwOr'', ''I64AtomicRmwOr'',
     ''I32AtomicRmw8OrU'', ''I32AtomicRmw16OrU'', ''I64AtomicRmw8OrU'', ''I64AtomicRmw16OrU'',
     ''I64AtomicRmw32OrU'', ''I32AtomicRmwXor'', ''I64AtomicRmwXor'', ''I32AtomicRmw8XorU'',
     ''I32AtomicRmw16XorU'', ''I64AtomicRmw8XorU'', ''I64AtomicRmw16XorU'', ''I64AtomicRmw32XorU'',
     ''I32AtomicRmwXchg'', ''I64AtomicRmwXchg'', ''I32AtomicRmw8XchgU'', ''I32AtomicRmw16XchgU'',
     ''I64AtomicRmw8XchgU'', ''I64AtomicRmw16XchgU'', ''I64AtomicRmw32XchgU'', ''I32AtomicRmwCmpxchg'',
     ''I64AtomicRmwCmpxchg'', ''I32AtomicRmw8CmpxchgU'', ''I32AtomicRmw16CmpxchgU'',
     ''I64AtomicRmw8CmpxchgU'', ''I64AtomicRmw16CmpxchgU'', ''I64AtomicRmw32CmpxchgU'', ''V128Load'',
     ''V128Store'', ''V128Const'', ''I8x16Splat'', ''I8x16ExtractLaneS'', ''I8x16ExtractLaneU'',
     ''I8x16ReplaceLane'', ''I16x8Splat'', ''I16x8ExtractLaneS'', ''I16x8ExtractLaneU'',
     ''I16x8ReplaceLane'', ''I32x4Splat'', ''I32x4ExtractLane'', ''I32x4ReplaceLane'', ''I64x2Splat'',
     ''I64x2ExtractLane'', ''I64x2ReplaceLane'', ''F32x4Splat'', ''F32x4ExtractLane'',
     ''F32x4ReplaceLane'', ''F64x2Splat'', ''F64x2ExtractLane'', ''F64x2ReplaceLane'', ''I8x16Eq'',
     ''I8x16Ne'', ''I8x16LtS'', ''I8x16LtU'', ''I8x16GtS'', ''I8x16GtU'', ''I8x16LeS'', ''I8x16LeU'',
     ''I8x16GeS'']"

definition opcode_fields_3 :: "string list" where
  "opcode_fields_3 = [
     ''I8x16GeU'', ''I16x8Eq'', ''I16x8Ne'', ''I16x8LtS'', ''I16x8LtU'', ''I16x8GtS'', ''I16x8GtU'',
     ''I16x8LeS'', ''I16x8LeU'', ''I16x8GeS'', ''I16x8GeU'', ''I32x4Eq'', ''I32x4Ne'', ''I32x4LtS'',
     ''I32x4LtU'', ''I32x4GtS'', ''I32x4GtU'', ''I32x4LeS'', ''I32x4LeU'', ''I32x4GeS'', ''I32x4GeU'',
     ''F32x4Eq'', ''F32x4Ne'', ''F32x4Lt'', ''F32x4Gt'', ''F32x4Le'', ''F32x4Ge'', ''F64x2Eq'',
     ''F64x2Ne'', ''F64x2Lt'', ''F64x2Gt'', ''F64x2Le'', ''F64x2Ge'', ''V128Not'', ''V128And'',
     ''V128AndNot'', ''V128Or'', ''V128Xor'', ''V128Bitselect'', ''I8x16Neg'', ''I8x16AnyTrue'',
     ''I8x16AllTrue'', ''I8x16Shl'', ''I8x16ShrS'', ''I8x16ShrU'', ''I8x16Add'', ''I8x16AddSaturateS'',
     ''I8x16AddSaturateU'', ''I8x16Sub'', ''I8x16SubSaturateS'', ''I8x16SubSaturateU'', ''I8x16MinS'',
     ''I8x16MinU'', ''I8x16MaxS'', ''I8x16MaxU'', ''I8x16Mul'', ''I16x8Neg'', ''I16x8AnyTrue'',
     ''I16x8AllTrue'', ''I16x8Shl'', ''I16x8ShrS'', ''I16x8ShrU'', ''I16x8Add'', ''I16x8AddSaturateS'',
     ''I16x8AddSaturateU'', ''I16x8Sub'', ''I16x8SubSaturateS'', ''I16x8SubSaturateU'', ''I16x8Mul'',
     ''I16x8MinS'', ''I16x8MinU'', ''I16x8MaxS'', ''I16x8MaxU'', ''I32x4Neg'', ''I32x4AnyTrue'',
     ''I32x4AllTrue'', ''I32x4Shl'', ''I32x4ShrS'', ''I32x4ShrU'', ''I32x4Add'', ''I32x4Sub'',
     ''I32x4Mul'', ''I32x4MinS'', ''I32x4MinU'', ''I32x4MaxS'', ''I32x4MaxU'', ''I64x2Neg'',
     ''I64x2AnyTrue'', ''I64x2AllTrue'', ''I64x2Shl'', ''I64x2ShrS'', ''I64x2ShrU'', ''I64x2Add'',
     ''I64x2Sub'', ''I64x2Mul'', ''F32x4Abs'', ''F32x4Neg'', ''F32x4Sqrt'', ''F32x4Add'', ''F32x4Sub'',
     ''F32x4Mul'', ''F32x4Div'', ''F32x4Min'', ''F32x4Max'', ''F64x2Abs'', ''F64x2Neg'', ''F64x2Sqrt'',
     ''F64x2Add'', ''F64x2Sub'', ''F64x2Mul'', ''F64x2Div'', ''F64x2Min'', ''F64x2Max'',
     ''I32x4TruncSatF32x4S'', ''I32x4TruncSatF32x4U'', ''I64x2TruncSatF64x2S'', ''I64x2TruncSatF64x2U'',
     ''F32x4ConvertI32x4S'', ''F32x4ConvertI32x4U'', ''F64x2ConvertI64x2S'', ''F64x2ConvertI64x2U'',
     ''V8x16Swizzle'', ''V8x16Shuffle'', ''V8x16LoadSplat'', ''V16x8LoadSplat'', ''V32x4LoadSplat'',
     ''V64x2LoadSplat'', ''I8x16NarrowI16x8S'', ''I8x16NarrowI16x8U'', ''I16x8NarrowI32x4S'',
     ''I16x8NarrowI32x4U'', ''I16x8WidenLowI8x16S'', ''I16x8WidenHighI8x16S'', ''I16x8WidenLowI8x16U'',
     ''I16x8WidenHighI8x16U'', ''I32x4WidenLowI16x8S'', ''I32x4WidenHighI16x8S'', ''I32x4WidenLowI16x8U'',
     ''I32x4WidenHighI16x8U'', ''I16x8Load8x8S'', ''I16x8Load8x8U'', ''I32x4Load16x4S'',
     ''I32x4Load16x4U'', ''I64x2Load32x2S'', ''I64x2Load32x2U'', ''I8x16RoundingAverageU'',
     ''I16x8RoundingAverageU'', ''LocalAllocate'', ''LocalsUnmetered'']"

definition WASMOpcodeCost_fields :: "string list" where
  "WASMOpcodeCost_fields = opcode_fields_1 @ opcode_fields_2 @ opcode_fields_3"

section \<open>The array for the engine\<close>

definition opcode_assignments_1 :: "(nat \<times> string) list" where
  "opcode_assignments_1 = [
     (0, ''Unreachable''), (1, ''Nop''), (2, ''Block''), (3, ''Loop''), (4, ''If''), (5, ''Else''),
     (6, ''End''), (7, ''Br''), (8, ''BrIf''), (9, ''BrTable''), (10, ''Return''), (11, ''Call''),
     (12, ''CallIndirect''), (13, ''Drop''), (14, ''Select''), (15, ''TypedSelect''), (16, ''LocalGet''),
     (17, ''LocalSet''), (18, ''LocalTee''), (19, ''GlobalGet''), (20, ''GlobalSet''), (21, ''I32Load''),
     (22, ''I64Load''), (23, ''F32Load''), (24, ''F64Load''), (25, ''I32Load8S''), (26, ''I32Load8U''),
     (27, ''I32Load16S''), (28, ''I32Load16U''), (29, ''I64Load8S''), (30, ''I64Load8U''),
     (31, ''I64Load16S''), (32, ''I64Load16U''), (33, ''I64Load32S''), (34, ''I64Load32U''),
     (35, ''I32Store''), (36, ''I64Store''), (37, ''F32Store''), (38, ''F64Store''), (39, ''I32Store8''),
     (40, ''I32Store16''), (41, ''I64Store8''), (42, ''I64Store16''), (43, ''I64Store32''),
     (44, ''MemorySize''), (45, ''MemoryGrow''), (46, ''I32Const''), (47, ''I64Const''),
     (48, ''F32Const''), (49, ''F64Const''), (50, ''RefNull''), (51, ''RefIsNull''), (52, ''RefFunc''),
     (53, ''I32Eqz''), (54, ''I32Eq''), (55, ''I32Ne''), (56, ''I32LtS''), (57, ''I32LtU''),
     (58, ''I32GtS''), (59, ''I32GtU''), (60, ''I32LeS''), (61, ''I32LeU''), (62, ''I32GeS''),
     (63, ''I32GeU''), (64, ''I64Eqz''), (65, ''I64Eq''), (66, ''I64Ne''), (67, ''I64LtS''),
     (68, ''I64LtU''), (69, ''I64GtS''), (70, ''I64GtU''), (71, ''I64LeS''), (72, ''I64LeU''),
     (73, ''I64GeS''), (74, ''I64GeU''), (75, ''F32Eq''), (76, ''F32Ne''), (77, ''F32Lt''),
     (78, ''F32Gt''), (79, ''F32Le''), (80, ''F32Ge''), (81, ''F64Eq''), (82, ''F64Ne''), (83, ''F64Lt''),
     (84, ''F64Gt''), (85, ''F64Le''), (86, ''F64Ge''), (87, ''I32Clz''), (88, ''I32Ctz''),
     (89, ''I32Popcnt''), (90, ''I32Add''), (91, ''I32Sub''), (92, ''I32Mul''), (93, ''I32DivS''),
     (94, ''I32DivU''), (95, ''I32RemS''), (96, ''I32RemU''), (97, ''I32And''), (98, ''I32Or''),
     (99, ''I32Xor''), (100, ''I32Shl''), (101, ''I32ShrS''), (102, ''I32ShrU''), (103, ''I32Rotl''),
     (104, ''I32Rotr''), (105, ''I64Clz''), (106, ''I64Ctz''), (107, ''I64Popcnt''), (108, ''I64Add''),
     (109, ''I64Sub''), (110, ''I64Mul''), (111, ''I64DivS''), (112, ''I64DivU''), (113, ''I64RemS''),
     (114, ''I64RemU''), (115, ''I64And''), (116, ''I64Or''), (117, ''I64Xor''), (118, ''I64Shl''),
     (119, ''I64ShrS''), (120, ''I64ShrU''), (121, ''I64Rotl''), (122, ''I64Rotr''), (123, ''F32Abs''),
     (124, ''F32Neg''), (125, ''F32Ceil''), (126, ''F32Floor''), (127, ''F32Trunc''),
     (128, ''F32Nearest''), (129, ''F32Sqrt''), (130, ''F32Add''), (131, ''F32Sub''), (132, ''F32Mul''),
     (133, ''F32Div''), (134, ''F32Min''), (135, ''F32Max''), (136, ''F32Copysign''), (137, ''F64Abs''),
     (138, ''F64Neg''), (139, ''F64Ceil''), (140, ''F64Floor''), (141, ''F64Trunc''),
     (142, ''F64Nearest''), (143, ''F64Sqrt''), (144, ''F64Add''), (145, ''F64Sub''), (146, ''F64Mul''),
     (147, ''F64Div''), (148, ''F64Min''), (149, ''F64Max'')]"

definition opcode_assignments_2 :: "(nat \<times> string) list" where
  "opcode_assignments_2 = [
     (150, ''F64Copysign''), (151, ''I32WrapI64''), (152, ''I32TruncF32S''), (153, ''I32TruncF32U''),
     (154, ''I32TruncF64S''), (155, ''I32TruncF64U''), (156, ''I64ExtendI32S''), (157, ''I64ExtendI32U''),
     (158, ''I64TruncF32S''), (159, ''I64TruncF32U''), (160, ''I64TruncF64S''), (161, ''I64TruncF64U''),
     (162, ''F32ConvertI32S''), (163, ''F32ConvertI32U''), (164, ''F32ConvertI64S''),
     (165, ''F32ConvertI64U''), (166, ''F32DemoteF64''), (167, ''F64ConvertI32S''),
     (168, ''F64ConvertI32U''), (169, ''F64ConvertI64S''), (170, ''F64ConvertI64U''),
     (171, ''F64PromoteF32''), (172, ''I32ReinterpretF32''), (173, ''I64ReinterpretF64''),
     (174, ''F32ReinterpretI32''), (175, ''F64ReinterpretI64''), (176, ''I32Extend8S''),
     (177, ''I32Extend16S''), (178, ''I64Extend8S''), (179, ''I64Extend16S''), (180, ''I64Extend32S''),
     (181, ''I32TruncSatF32S''), (182, ''I32TruncSatF32U''), (183, ''I32TruncSatF64S''),
     (184, ''I32TruncSatF64U''), (185, ''I64TruncSatF32S''), (186, ''I64TruncSatF32U''),
     (187, ''I64TruncSatF64S''), (188, ''I64TruncSatF64U''), (189, ''MemoryInit''), (190, ''DataDrop''),
     (191, ''MemoryCopy''), (192, ''MemoryFill''), (193, ''TableInit''), (194, ''ElemDrop''),
     (195, ''TableCopy''), (196, ''TableFill''), (197, ''TableGet''), (198, ''TableSet''),
     (199, ''TableGrow''), (200, ''TableSize''), (201, ''AtomicNotify''), (202, ''I32AtomicWait''),
     (203, ''I64AtomicWait''), (204, ''AtomicFence''), (205, ''I32AtomicLoad''), (206, ''I64AtomicLoad''),
     (207, ''I32AtomicLoad8U''), (208, ''I32AtomicLoad16U''), (209, ''I64AtomicLoad8U''),
     (210, ''I64AtomicLoad16U''), (211, ''I64AtomicLoad32U''), (212, ''I32AtomicStore''),
     (213, ''I64AtomicStore''), (214, ''I32AtomicStore8''), (215, ''I32AtomicStore16''),
     (216, ''I64AtomicStore8''), (217, ''I64AtomicStore16''), (218, ''I64AtomicStore32''),
     (219, ''I32AtomicRmwAdd''), (220, ''I64AtomicRmwAdd''), (221, ''I32AtomicRmw8AddU''),
     (222, ''I32AtomicRmw16AddU''), (223, ''I64AtomicRmw8AddU''), (224, ''I64AtomicRmw16AddU''),
     (225, ''I64AtomicRmw32AddU''), (226, ''I32AtomicRmwSub''), (227, ''I64AtomicRmwSub''),
     (228, ''I32AtomicRmw8SubU''), (229, ''I32AtomicRmw16SubU''), (230, ''I64AtomicRmw8SubU''),
     (231, ''I64AtomicRmw16SubU''), (232, ''I64AtomicRmw32SubU''), (233, ''I32AtomicRmwAnd''),
     (234, ''I64AtomicRmwAnd''), (235, ''I32AtomicRmw8AndU''), (236, ''I32AtomicRmw16AndU''),
     (237, ''I64AtomicRmw8AndU''), (238, ''I64AtomicRmw16AndU''), (239, ''I64AtomicRmw32AndU''),
     (240, ''I32AtomicRmwOr''), (241, ''I64AtomicRmwOr''), (242, ''I32AtomicRmw8OrU''),
     (243, ''I32AtomicRmw16OrU''), (244, ''I64AtomicRmw8OrU''), (245, ''I64AtomicRmw16OrU''),
     (246, ''I64AtomicRmw32OrU''), (247, ''I32AtomicRmwXor''), (248, ''I64AtomicRmwXor''),
     (249, ''I32AtomicRmw8XorU''), (250, ''I32AtomicRmw16XorU''), (251, ''I64AtomicRmw8XorU''),
     (252, ''I64AtomicRmw16XorU''), (253, ''I64AtomicRmw32XorU''), (254, ''I32AtomicRmwXchg''),
     (255, ''I64AtomicRmwXchg''), (256, ''I32AtomicRmw8XchgU''), (257, ''I32AtomicRmw16XchgU''),
     (258, ''I64AtomicRmw8XchgU''), (259, ''I64AtomicRmw16XchgU''), (260, ''I64AtomicRmw32XchgU''),
     (261, ''I32AtomicRmwCmpxchg''), (262, ''I64AtomicRmwCmpxchg''), (263, ''I32AtomicRmw8CmpxchgU''),
     (264, ''I32AtomicRmw16CmpxchgU''), (265, ''I64AtomicRmw8CmpxchgU''),
     (266, ''I64AtomicRmw16CmpxchgU''), (267, ''I64AtomicRmw32CmpxchgU''), (268, ''V128Load''),
     (269, ''V128Store''), (270, ''V128Const''), (271, ''I8x16Splat''), (272, ''I8x16ExtractLaneS''),
     (273, ''I8x16ExtractLaneU''), (274, ''I8x16ReplaceLane''), (275, ''I16x8Splat''),
     (276, ''I16x8ExtractLaneS''), (277, ''I16x8ExtractLaneU''), (278, ''I16x8ReplaceLane''),
     (279, ''I32x4Splat''), (280, ''I32x4ExtractLane''), (281, ''I32x4ReplaceLane''),
     (282, ''I64x2Splat''), (283, ''I64x2ExtractLane''), (284, ''I64x2ReplaceLane''),
     (285, ''F32x4Splat''), (286, ''F32x4ExtractLane''), (287, ''F32x4ReplaceLane''),
     (288, ''F64x2Splat''), (289, ''F64x2ExtractLane''), (290, ''F64x2ReplaceLane''), (291, ''I8x16Eq''),
     (292, ''I8x16Ne''), (293, ''I8x16LtS''), (294, ''I8x16LtU''), (295, ''I8x16GtS''),
     (296, ''I8x16GtU''), (297, ''I8x16LeS''), (298, ''I8x16LeU''), (299, ''I8x16GeS'')]"

definition opcode_assignments_3 :: "(nat \<times> string) list" where
  "opcode_assignments_3 = [
     (300, ''I8x16GeU''), (301, ''I16x8Eq''), (302, ''I16x8Ne''), (303, ''I16x8LtS''), (304, ''I16x8LtU''),
     (305, ''I16x8GtS''), (306, ''I16x8GtU''), (307, ''I16x8LeS''), (308, ''I16x8LeU''),
     (309, ''I16x8GeS''), (310, ''I16x8GeU''), (311, ''I32x4Eq''), (312, ''I32x4Ne''), (313, ''I32x4LtS''),
     (314, ''I32x4LtU''), (315, ''I32x4GtS''), (316, ''I32x4GtU''), (317, ''I32x4LeS''),
     (318, ''I32x4LeU''), (319, ''I32x4GeS''), (320, ''I32x4GeU''), (321, ''F32x4Eq''), (322, ''F32x4Ne''),
     (323, ''F32x4Lt''), (324, ''F32x4Gt''), (325, ''F32x4Le''), (326, ''F32x4Ge''), (327, ''F64x2Eq''),
     (328, ''F64x2Ne''), (329, ''F64x2Lt''), (330, ''F64x2Gt''), (331, ''F64x2Le''), (332, ''F64x2Ge''),
     (333, ''V128Not''), (334, ''V128And''), (335, ''V128AndNot''), (336, ''V128Or''), (337, ''V128Xor''),
     (338, ''V128Bitselect''), (339, ''I8x16Neg''), (340, ''I8x16AnyTrue''), (341, ''I8x16AllTrue''),
     (342, ''I8x16Shl''), (343, ''I8x16ShrS''), (344, ''I8x16ShrU''), (345, ''I8x16Add''),
     (346, ''I8x16AddSaturateS''), (347, ''I8x16AddSaturateU''), (348, ''I8x16Sub''),
     (349, ''I8x16SubSaturateS''), (350, ''I8x16SubSaturateU''), (351, ''I8x16MinS''),
     (352, ''I8x16MinU''), (353, ''I8x16MaxS''), (354, ''I8x16MaxU''), (355, ''I8x16Mul''),
     (356, ''I16x8Neg''), (357, ''I16x8AnyTrue''), (358, ''I16x8AllTrue''), (359, ''I16x8Shl''),
     (360, ''I16x8ShrS''), (361, ''I16x8ShrU''), (362, ''I16x8Add''), (363, ''I16x8AddSaturateS''),
     (364, ''I16x8AddSaturateU''), (365, ''I16x8Sub''), (366, ''I16x8SubSaturateS''),
     (367, ''I16x8SubSaturateU''), (368, ''I16x8Mul''), (369, ''I16x8MinS''), (370, ''I16x8MinU''),
     (371, ''I16x8MaxS''), (372, ''I16x8MaxU''), (373, ''I32x4Neg''), (374, ''I32x4AnyTrue''),
     (375, ''I32x4AllTrue''), (376, ''I32x4Shl''), (377, ''I32x4ShrS''), (378, ''I32x4ShrU''),
     (379, ''I32x4Add''), (380, ''I32x4Sub''), (381, ''I32x4Mul''), (382, ''I32x4MinS''),
     (383, ''I32x4MinU''), (384, ''I32x4MaxS''), (385, ''I32x4MaxU''), (386, ''I64x2Neg''),
     (387, ''I64x2AnyTrue''), (388, ''I64x2AllTrue''), (389, ''I64x2Shl''), (390, ''I64x2ShrS''),
     (391, ''I64x2ShrU''), (392, ''I64x2Add''), (393, ''I64x2Sub''), (394, ''I64x2Mul''),
     (395, ''F32x4Abs''), (396, ''F32x4Neg''), (397, ''F32x4Sqrt''), (398, ''F32x4Add''),
     (399, ''F32x4Sub''), (400, ''F32x4Mul''), (401, ''F32x4Div''), (402, ''F32x4Min''),
     (403, ''F32x4Max''), (404, ''F64x2Abs''), (405, ''F64x2Neg''), (406, ''F64x2Sqrt''),
     (407, ''F64x2Add''), (408, ''F64x2Sub''), (409, ''F64x2Mul''), (410, ''F64x2Div''),
     (411, ''F64x2Min''), (412, ''F64x2Max''), (413, ''I32x4TruncSatF32x4S''),
     (414, ''I32x4TruncSatF32x4U''), (415, ''I64x2TruncSatF64x2S''), (416, ''I64x2TruncSatF64x2U''),
     (417, ''F32x4ConvertI32x4S''), (418, ''F32x4ConvertI32x4U''), (419, ''F64x2ConvertI64x2S''),
     (420, ''F64x2ConvertI64x2U''), (421, ''V8x16Swizzle''), (422, ''V8x16Shuffle''),
     (423, ''V8x16LoadSplat''), (424, ''V16x8LoadSplat''), (425, ''V32x4LoadSplat''),
     (426, ''V64x2LoadSplat''), (427, ''I8x16NarrowI16x8S''), (428, ''I8x16NarrowI16x8U''),
     (429, ''I16x8NarrowI32x4S''), (430, ''I16x8NarrowI32x4U''), (431, ''I16x8WidenLowI8x16S''),
     (432, ''I16x8WidenHighI8x16S''), (433, ''I16x8WidenLowI8x16U''), (434, ''I16x8WidenHighI8x16U''),
     (435, ''I32x4WidenLowI16x8S''), (436, ''I32x4WidenHighI16x8S''), (437, ''I32x4WidenLowI16x8U''),
     (438, ''I32x4WidenHighI16x8U''), (439, ''I16x8Load8x8S''), (440, ''I16x8Load8x8U''),
     (441, ''I32x4Load16x4S''), (442, ''I32x4Load16x4U''), (443, ''I64x2Load32x2S''),
     (444, ''I64x2Load32x2U''), (445, ''I8x16RoundingAverageU''), (446, ''I16x8RoundingAverageU''),
     (447, ''LocalAllocate'')]"

definition OPCODE_COUNT :: nat where "OPCODE_COUNT = 448"

definition ToOpcodeCostsArray :: "WASMOpcodeCost \<Rightarrow> u32 list" where
  "ToOpcodeCostsArray costs =
     foldl (\<lambda>opcode_costs (opcode, field). opcode_costs[opcode := costs field]) (replicate OPCODE_COUNT 0)
       (opcode_assignments_1 @ opcode_assignments_2 @ opcode_assignments_3)"

section \<open>Test values\<close>

definition filled_opcodes_1 :: "string list" where
  "filled_opcodes_1 = [
     ''Unreachable'', ''Nop'', ''Block'', ''Loop'', ''If'', ''Else'', ''End'', ''Br'', ''BrIf'',
     ''BrTable'', ''Return'', ''Call'', ''CallIndirect'', ''Drop'', ''Select'', ''TypedSelect'',
     ''LocalGet'', ''LocalSet'', ''LocalTee'', ''GlobalGet'', ''GlobalSet'', ''I32Load'', ''I64Load'',
     ''F32Load'', ''F64Load'', ''I32Load8S'', ''I32Load8U'', ''I32Load16S'', ''I32Load16U'', ''I64Load8S'',
     ''I64Load8U'', ''I64Load16S'', ''I64Load16U'', ''I64Load32S'', ''I64Load32U'', ''I32Store'',
     ''I64Store'', ''F32Store'', ''F64Store'', ''I32Store8'', ''I32Store16'', ''I64Store8'',
     ''I64Store16'', ''I64Store32'', ''MemorySize'', ''MemoryGrow'', ''I32Const'', ''I64Const'',
     ''F32Const'', ''F64Const'', ''RefNull'', ''RefIsNull'', ''RefFunc'', ''I32Eqz'', ''I32Eq'', ''I32Ne'',
     ''I32LtS'', ''I32LtU'', ''I32GtS'', ''I32GtU'', ''I32LeS'', ''I32LeU'', ''I32GeS'', ''I32GeU'',
     ''I64Eqz'', ''I64Eq'', ''I64Ne'', ''I64LtS'', ''I64LtU'', ''I64GtS'', ''I64GtU'', ''I64LeS'',
     ''I64LeU'', ''I64GeS'', ''I64GeU'', ''F32Eq'', ''F32Ne'', ''F32Lt'', ''F32Gt'', ''F32Le'', ''F32Ge'',
     ''F64Eq'', ''F64Ne'', ''F64Lt'', ''F64Gt'', ''F64Le'', ''F64Ge'', ''I32Clz'', ''I32Ctz'',
     ''I32Popcnt'', ''I32Add'', ''I32Sub'', ''I32Mul'', ''I32DivS'', ''I32DivU'', ''I32RemS'', ''I32RemU'',
     ''I32And'', ''I32Or'', ''I32Xor'', ''I32Shl'', ''I32ShrS'', ''I32ShrU'', ''I32Rotl'', ''I32Rotr'',
     ''I64Clz'', ''I64Ctz'', ''I64Popcnt'', ''I64Add'', ''I64Sub'', ''I64Mul'', ''I64DivS'', ''I64DivU'',
     ''I64RemS'', ''I64RemU'', ''I64And'', ''I64Or'', ''I64Xor'', ''I64Shl'', ''I64ShrS'', ''I64ShrU'',
     ''I64Rotl'', ''I64Rotr'', ''F32Abs'', ''F32Neg'', ''F32Ceil'', ''F32Floor'', ''F32Trunc'',
     ''F32Nearest'', ''F32Sqrt'', ''F32Add'', ''F32Sub'', ''F32Mul'', ''F32Div'', ''F32Min'', ''F32Max'',
     ''F32Copysign'', ''F64Abs'', ''F64Neg'', ''F64Ceil'', ''F64Floor'', ''F64Trunc'', ''F64Nearest'',
     ''F64Sqrt'', ''F64Add'', ''F64Sub'', ''F64Mul'', ''F64Div'', ''F64Min'', ''F64Max'']"

definition filled_opcodes_2 :: "string list" where
  "filled_opcodes_2 = [
     ''F64Copysign'', ''I32WrapI64'', ''I32TruncF32S'', ''I32TruncF32U'', ''I32TruncF64S'',
     ''I32TruncF64U'', ''I64ExtendI32S'', ''I64ExtendI32U'', ''I64TruncF32S'', ''I64TruncF32U'',
     ''I64TruncF64S'', ''I64TruncF64U'', ''F32ConvertI32S'', ''F32ConvertI32U'', ''F32ConvertI64S'',
     ''F32ConvertI64U'', ''F32DemoteF64'', ''F64ConvertI32S'', ''F64ConvertI32U'', ''F64ConvertI64S'',
     ''F64ConvertI64U'', ''F64PromoteF32'', ''I32ReinterpretF32'', ''I64ReinterpretF64'',
     ''F32ReinterpretI32'', ''F64ReinterpretI64'', ''I32Extend8S'', ''I32Extend16S'', ''I64Extend8S'',
     ''I64Extend16S'', ''I64Extend32S'', ''I32TruncSatF32S'', ''I32TruncSatF32U'', ''I32TruncSatF64S'',
     ''I32TruncSatF64U'', ''I64TruncSatF32S'', ''I64TruncSatF32U'', ''I64TruncSatF64S'',
     ''I64TruncSatF64U'', ''MemoryInit'', ''DataDrop'', ''MemoryCopy'', ''MemoryFill'', ''TableInit'',
     ''ElemDrop'', ''TableCopy'', ''TableFill'', ''TableGet'', ''TableSet'', ''TableGrow'', ''TableSize'',
     ''AtomicNotify'', ''I32AtomicWait'', ''I64AtomicWait'', ''AtomicFence'', ''I32AtomicLoad'',
     ''I64AtomicLoad'', ''I32AtomicLoad8U'', ''I32AtomicLoad16U'', ''I64AtomicLoad8U'',
     ''I64AtomicLoad16U'', ''I64AtomicLoad32U'', ''I32AtomicStore'', ''I64AtomicStore'',
     ''I32AtomicStore8'', ''I32AtomicStore16'', ''I64AtomicStore8'', ''I64AtomicStore16'',
     ''I64AtomicStore32'', ''I32AtomicRmwAdd'', ''I64AtomicRmwAdd'', ''I32AtomicRmw8AddU'',
     ''I32AtomicRmw16AddU'', ''I64AtomicRmw8AddU'', ''I64AtomicRmw16AddU'', ''I64AtomicRmw32AddU'',
     ''I32AtomicRmwSub'', ''I64AtomicRmwSub'', ''I32AtomicRmw8SubU'', ''I32AtomicRmw16SubU'',
     ''I64AtomicRmw8SubU'', ''I64AtomicRmw16SubU'', ''I64AtomicRmw32SubU'', ''I32AtomicRmwAnd'',
     ''I64AtomicRmwAnd'', ''I32AtomicRmw8AndU'', ''I32AtomicRmw16AndU'', ''I64AtomicRmw8AndU'',
     ''I64AtomicRmw16AndU'', ''I64AtomicRmw32AndU'', ''I32AtomicRmwOr'', ''I64AtomicRmwOr'',
     ''I32AtomicRmw8OrU'', ''I32AtomicRmw16OrU'', ''I64AtomicRmw8OrU'', ''I64AtomicRmw16OrU'',
     ''I64AtomicRmw32OrU'', ''I32AtomicRmwXor'', ''I64AtomicRmwXor'', ''I32AtomicRmw8XorU'',
     ''I32AtomicRmw16XorU'', ''I64AtomicRmw8XorU'', ''I64AtomicRmw16XorU'', ''I64AtomicRmw32XorU'',
     ''I32AtomicRmwXchg'', ''I64AtomicRmwXchg'', ''I32AtomicRmw8XchgU'', ''I32AtomicRmw16XchgU'',
     ''I64AtomicRmw8XchgU'', ''I64AtomicRmw16XchgU'', ''I64AtomicRmw32XchgU'', ''I32AtomicRmwCmpxchg'',
     ''I64AtomicRmwCmpxchg'', ''I32AtomicRmw8CmpxchgU'', ''I32AtomicRmw16CmpxchgU'',
     ''I64AtomicRmw8CmpxchgU'', ''I64AtomicRmw16CmpxchgU'', ''I64AtomicRmw32CmpxchgU'', ''V128Load'',
     ''V128Store'', ''V128Const'', ''I8x16Splat'', ''I8x16ExtractLaneS'', ''I8x16ExtractLaneU'',
     ''I8x16ReplaceLane'', ''I16x8Splat'', ''I16x8ExtractLaneS'', ''I16x8ExtractLaneU'',
     ''I16x8ReplaceLane'', ''I32x4Splat'', ''I32x4ExtractLane'', ''I32x4ReplaceLane'', ''I64x2Splat'',
     ''I64x2ExtractLane'', ''I64x2ReplaceLane'', ''F32x4Splat'', ''F32x4ExtractLane'',
     ''F32x4ReplaceLane'', ''F64x2Splat'', ''F64x2ExtractLane'', ''F64x2ReplaceLane'', ''I8x16Eq'',
     ''I8x16Ne'', ''I8x16LtS'', ''I8x16LtU'', ''I8x16GtS'', ''I8x16GtU'', ''I8x16LeS'', ''I8x16LeU'',
     ''I8x16GeS'']"

definition filled_opcodes_3 :: "string list" where
  "filled_opcodes_3 = [
     ''I8x16GeU'', ''I16x8Eq'', ''I16x8Ne'', ''I16x8LtS'', ''I16x8LtU'', ''I16x8GtS'', ''I16x8GtU'',
     ''I16x8LeS'', ''I16x8LeU'', ''I16x8GeS'', ''I16x8GeU'', ''I32x4Eq'', ''I32x4Ne'', ''I32x4LtS'',
     ''I32x4LtU'', ''I32x4GtS'', ''I32x4GtU'', ''I32x4LeS'', ''I32x4LeU'', ''I32x4GeS'', ''I32x4GeU'',
     ''F32x4Eq'', ''F32x4Ne'', ''F32x4Lt'', ''F32x4Gt'', ''F32x4Le'', ''F32x4Ge'', ''F64x2Eq'',
     ''F64x2Ne'', ''F64x2Lt'', ''F64x2Gt'', ''F64x2Le'', ''F64x2Ge'', ''V128Not'', ''V128And'',
     ''V128AndNot'', ''V128Or'', ''V128Xor'', ''V128Bitselect'', ''I8x16Neg'', ''I8x16AnyTrue'',
     ''I8x16AllTrue'', ''I8x16Shl'', ''I8x16ShrS'', ''I8x16ShrU'', ''I8x16Add'', ''I8x16AddSaturateS'',
     ''I8x16AddSaturateU'', ''I8x16Sub'', ''I8x16SubSaturateS'', ''I8x16SubSaturateU'', ''I8x16MinS'',
     ''I8x16MinU'', ''I8x16MaxS'', ''I8x16MaxU'', ''I8x16Mul'', ''I16x8Neg'', ''I16x8AnyTrue'',
     ''I16x8AllTrue'', ''I16x8Shl'', ''I16x8ShrS'', ''I16x8ShrU'', ''I16x8Add'', ''I16x8AddSaturateS'',
     ''I16x8AddSaturateU'', ''I16x8Sub'', ''I16x8SubSaturateS'', ''I16x8SubSaturateU'', ''I16x8Mul'',
     ''I16x8MinS'', ''I16x8MinU'', ''I16x8MaxS'', ''I16x8MaxU'', ''I32x4Neg'', ''I32x4AnyTrue'',
     ''I32x4AllTrue'', ''I32x4Shl'', ''I32x4ShrS'', ''I32x4ShrU'', ''I32x4Add'', ''I32x4Sub'',
     ''I32x4Mul'', ''I32x4MinS'', ''I32x4MinU'', ''I32x4MaxS'', ''I32x4MaxU'', ''I64x2Neg'',
     ''I64x2AnyTrue'', ''I64x2AllTrue'', ''I64x2Shl'', ''I64x2ShrS'', ''I64x2ShrU'', ''I64x2Add'',
     ''I64x2Sub'', ''I64x2Mul'', ''F32x4Abs'', ''F32x4Neg'', ''F32x4Sqrt'', ''F32x4Add'', ''F32x4Sub'',
     ''F32x4Mul'', ''F32x4Div'', ''F32x4Min'', ''F32x4Max'', ''F64x2Abs'', ''F64x2Neg'', ''F64x2Sqrt'',
     ''F64x2Add'', ''F64x2Sub'', ''F64x2Mul'', ''F64x2Div'', ''F64x2Min'', ''F64x2Max'',
     ''I32x4TruncSatF32x4S'', ''I32x4TruncSatF32x4U'', ''I64x2TruncSatF64x2S'', ''I64x2TruncSatF64x2U'',
     ''F32x4ConvertI32x4S'', ''F32x4ConvertI32x4U'', ''F64x2ConvertI64x2S'', ''F64x2ConvertI64x2U'',
     ''V8x16Swizzle'', ''V8x16Shuffle'', ''V8x16LoadSplat'', ''V16x8LoadSplat'', ''V32x4LoadSplat'',
     ''V64x2LoadSplat'', ''I8x16NarrowI16x8S'', ''I8x16NarrowI16x8U'', ''I16x8NarrowI32x4S'',
     ''I16x8NarrowI32x4U'', ''I16x8WidenLowI8x16S'', ''I16x8WidenHighI8x16S'', ''I16x8WidenLowI8x16U'',
     ''I16x8WidenHighI8x16U'', ''I32x4WidenLowI16x8S'', ''I32x4WidenHighI16x8S'', ''I32x4WidenLowI16x8U'',
     ''I32x4WidenHighI16x8U'', ''I16x8Load8x8S'', ''I16x8Load8x8U'', ''I32x4Load16x4S'',
     ''I32x4Load16x4U'', ''I64x2Load32x2S'', ''I64x2Load32x2U'', ''I8x16RoundingAverageU'',
     ''I16x8RoundingAverageU'', ''LocalAllocate'', ''LocalsUnmetered'']"

definition fill_names :: "'v \<Rightarrow> string list \<Rightarrow> (string, 'v) gomap" where
  "fill_names val names = foldl (\<lambda>gasMap name. map_put name val gasMap) [] names"

definition FillGasMap_WASMOpcodeValues :: "u64 \<Rightarrow> (string, u64) gomap" where
  "FillGasMap_WASMOpcodeValues val = fill_names val (filled_opcodes_1 @ filled_opcodes_2 @ filled_opcodes_3)"

section \<open>The array is complete\<close>

lemma foldl_update_enumerated:
  "n + length names \<le> length arr \<Longrightarrow>
   foldl (\<lambda>a (i, x). a[i := f x]) arr (zip [n..<n + length names] names) =
     take n arr @ map f names @ drop (n + length names) arr"
proof (induction names arbitrary: n arr)
  case Nil
  then show ?case by simp
next
  case (Cons x names)
  have "[n..<n + length (x # names)] = n # [Suc n..<Suc n + length names]" by (simp add: upt_conv_Cons del: upt_Suc)
  moreover have "take (Suc n) (arr[n := f x]) = take n arr @ [f x]"
    using Cons.prems by (simp add: take_Suc_conv_app_nth)
  ultimately show ?case using Cons.IH [of "Suc n" "arr[n := f x]"] Cons.prems by simp
qed

abbreviation opcode_assignments :: "(nat \<times> string) list" where
  "opcode_assignments \<equiv> opcode_assignments_1 @ opcode_assignments_2 @ opcode_assignments_3"

lemmas opcode_assignments_defs = opcode_assignments_1_def opcode_assignments_2_def opcode_assignments_3_def
lemmas opcode_fields_defs = WASMOpcodeCost_fields_def opcode_fields_1_def opcode_fields_2_def opcode_fields_3_def

lemma opcode_indices: "map fst opcode_assignments = [0..<448]"
  by (simp add: opcode_assignments_defs upt_rec [of 0] upt_rec [of "Suc 0"] upt_rec_numeral numeral_2_eq_2 [symmetric])

lemma opcode_names: "map snd opcode_assignments @ [''LocalsUnmetered''] = WASMOpcodeCost_fields"
  by (simp only: opcode_assignments_defs opcode_fields_defs append.simps list.map snd_conv)

lemma filled_opcode_names: "filled_opcodes_1 @ filled_opcodes_2 @ filled_opcodes_3 = WASMOpcodeCost_fields"
  by (simp only: filled_opcodes_1_def filled_opcodes_2_def filled_opcodes_3_def opcode_fields_defs append.simps)

lemma length_opcode_assignments: "length opcode_assignments = 448"
  using arg_cong [OF opcode_indices, of length] by (simp only: length_map length_upt)

lemma opcode_costs_of_fields:
  "ToOpcodeCostsArray costs = map costs (butlast WASMOpcodeCost_fields)"
proof -
  have "opcode_assignments = zip [0..<448] (map snd opcode_assignments)"
    using zip_map_fst_snd [of opcode_assignments] unfolding opcode_indices by (rule sym)
  note same = arg_cong [OF this, of "foldl (\<lambda>a (i, x). a[i := costs x]) (replicate 448 0)"]
  have "ToOpcodeCostsArray costs = foldl (\<lambda>a (i, x). a[i := costs x]) (replicate 448 0)
      (zip [0..<0 + length (map snd opcode_assignments)] (map snd opcode_assignments))"
    unfolding ToOpcodeCostsArray_def OPCODE_COUNT_def length_map length_opcode_assignments add_0
    by (rule same)
  also have "\<dots> = map costs (map snd opcode_assignments)"
    by (subst foldl_update_enumerated) (simp_all only: length_map length_opcode_assignments length_replicate
        take_0 append_Nil drop_replicate, simp_all)
  also have "map snd opcode_assignments = butlast WASMOpcodeCost_fields"
    by (simp only: opcode_names [symmetric] butlast_snoc)
  finally show ?thesis .
qed

text \<open>
  The engine gets the cost of every opcode: the array that is handed to it holds, at the
  number of each of the 448 opcodes, the cost of the field of the schedule with the same
  position, so no opcode is left without a cost and none gets the cost of another; the last
  field, which is no opcode, is not in the array.
\<close>

theorem ToOpcodeCostsArray_complete:
  "ToOpcodeCostsArray costs = map costs (butlast WASMOpcodeCost_fields)"
  by (rule opcode_costs_of_fields)

end
