(* ===== verification/GasConfig.thy ===== *)
theory GasConfig
  imports Opcodes MeteringContext
begin

text \<open>
  Loading of the gas schedule (\<open>config/gasSchedule.go\<close>): the configuration maps are decoded
  into the sections of the schedule, sections with a cost of zero are refused. The package
  that decodes a map into a structure is not part of the repository: it is the parameter
  \<open>decode\<close>, which is given the map and the field names of the structure and returns the values
  of the fields; \<open>decode32\<close> is the same for the fields of 32 bits of the opcodes. The fields of a
  structure, which the code visits by reflection, are lists of names and selectors.
\<close>

type_synonym GasScheduleMap = "(string, (string, u64) gomap) gomap"
type_synonym 'v decoder = "(string, u64) gomap option \<Rightarrow> string list \<Rightarrow> go_error + (string \<Rightarrow> 'v)"

section \<open>The fields of the sections\<close>

definition BaseOperationCost_fields :: "(string \<times> (BaseOperationCost \<Rightarrow> u64)) list" where
  "BaseOperationCost_fields = [
     (''StorePerByte'', StorePerByte), (''ReleasePerByte'', ReleasePerByte),
     (''DataCopyPerByte'', DataCopyPerByte), (''PersistPerByte'', PersistPerByte),
     (''CompilePerByte'', CompilePerByte), (''AoTPreparePerByte'', AoTPreparePerByte),
     (''GetCode'', GetCodeCost)]"

definition read_BaseOperationCost :: "(string \<Rightarrow> u64) \<Rightarrow> BaseOperationCost" where
  "read_BaseOperationCost val = \<lparr>
     StorePerByte = val ''StorePerByte'', ReleasePerByte = val ''ReleasePerByte'',
     DataCopyPerByte = val ''DataCopyPerByte'', PersistPerByte = val ''PersistPerByte'',
     CompilePerByte = val ''CompilePerByte'', AoTPreparePerByte = val ''AoTPreparePerByte'',
     GetCodeCost = val ''GetCode''\<rparr>"

definition BaseOpsAPICost_fields :: "(string \<times> (BaseOpsAPICost \<Rightarrow> u64)) list" where
  "BaseOpsAPICost_fields = [
     (''GetSCAddress'', GetSCAddressCost), (''GetOwnerAddress'', GetOwnerAddressCost),
     (''IsSmartContract'', IsSmartContractCost), (''GetShardOfAddress'', GetShardOfAddressCost),
     (''GetExternalBalance'', GetExternalBalanceCost), (''GetBlockHash'', GetBlockHashCost),
     (''TransferValue'', TransferValueCost), (''GetArgument'', GetArgumentCost),
     (''GetFunction'', GetFunctionCost), (''GetNumArguments'', GetNumArgumentsCost),
     (''StorageStore'', StorageStoreCost), (''StorageLoad'', StorageLoadCost),
     (''GetCaller'', GetCallerCost), (''GetCallValue'', GetCallValueCost), (''Log'', LogCost),
     (''Finish'', FinishCost), (''SignalError'', SignalErrorCost),
     (''GetBlockTimeStamp'', GetBlockTimeStampCost), (''GetGasLeft'', GetGasLeftCost),
     (''Int64GetArgument'', Int64GetArgumentCost), (''Int64StorageStore'', Int64StorageStoreCost),
     (''Int64StorageLoad'', Int64StorageLoadCost), (''Int64Finish'', Int64FinishCost),
     (''GetStateRootHash'', GetStateRootHashCost), (''GetBlockNonce'', GetBlockNonceCost),
     (''GetBlockEpoch'', GetBlockEpochCost), (''GetBlockRound'', GetBlockRoundCost),
     (''GetBlockRandomSeed'', GetBlockRandomSeedCost),
     (''ExecuteOnSameContext'', ExecuteOnSameContextCost),
     (''ExecuteOnDestContext'', ExecuteOnDestContextCost), (''DelegateExecution'', DelegateExecutionCost),
     (''ExecuteReadOnly'', ExecuteReadOnlyCost), (''AsyncCallStep'', AsyncCallStep),
     (''AsyncCallbackGasLock'', AsyncCallbackGasLock), (''CreateContract'', CreateContractCost),
     (''GetReturnData'', GetReturnDataCost), (''GetNumReturnData'', GetNumReturnDataCost),
     (''GetReturnDataSize'', GetReturnDataSizeCost)]"

definition read_BaseOpsAPICost :: "(string \<Rightarrow> u64) \<Rightarrow> BaseOpsAPICost" where
  "read_BaseOpsAPICost val = \<lparr>
     GetSCAddressCost = val ''GetSCAddress'', GetOwnerAddressCost = val ''GetOwnerAddress'',
     IsSmartContractCost = val ''IsSmartContract'', GetShardOfAddressCost = val ''GetShardOfAddress'',
     GetExternalBalanceCost = val ''GetExternalBalance'', GetBlockHashCost = val ''GetBlockHash'',
     TransferValueCost = val ''TransferValue'', GetArgumentCost = val ''GetArgument'',
     GetFunctionCost = val ''GetFunction'', GetNumArgumentsCost = val ''GetNumArguments'',
     StorageStoreCost = val ''StorageStore'', StorageLoadCost = val ''StorageLoad'',
     GetCallerCost = val ''GetCaller'', GetCallValueCost = val ''GetCallValue'', LogCost = val ''Log'',
     FinishCost = val ''Finish'', SignalErrorCost = val ''SignalError'',
     GetBlockTimeStampCost = val ''GetBlockTimeStamp'', GetGasLeftCost = val ''GetGasLeft'',
     Int64GetArgumentCost = val ''Int64GetArgument'', Int64StorageStoreCost = val ''Int64StorageStore'',
     Int64StorageLoadCost = val ''Int64StorageLoad'', Int64FinishCost = val ''Int64Finish'',
     GetStateRootHashCost = val ''GetStateRootHash'', GetBlockNonceCost = val ''GetBlockNonce'',
     GetBlockEpochCost = val ''GetBlockEpoch'', GetBlockRoundCost = val ''GetBlockRound'',
     GetBlockRandomSeedCost = val ''GetBlockRandomSeed'',
     ExecuteOnSameContextCost = val ''ExecuteOnSameContext'',
     ExecuteOnDestContextCost = val ''ExecuteOnDestContext'',
     DelegateExecutionCost = val ''DelegateExecution'', ExecuteReadOnlyCost = val ''ExecuteReadOnly'',
     AsyncCallStep = val ''AsyncCallStep'', AsyncCallbackGasLock = val ''AsyncCallbackGasLock'',
     CreateContractCost = val ''CreateContract'', GetReturnDataCost = val ''GetReturnData'',
     GetNumReturnDataCost = val ''GetNumReturnData'', GetReturnDataSizeCost = val ''GetReturnDataSize''\<rparr>"

definition EthAPICost_fields :: "(string \<times> (EthAPICost \<Rightarrow> u64)) list" where
  "EthAPICost_fields = [
     (''UseGas'', EthUseGas), (''GetAddress'', EthGetAddress),
     (''GetExternalBalance'', EthGetExternalBalance), (''GetBlockHash'', EthGetBlockHash),
     (''Call'', EthCall), (''CallDataCopy'', EthCallDataCopy), (''GetCallDataSize'', EthGetCallDataSize),
     (''CallCode'', EthCallCode), (''CallDelegate'', EthCallDelegate), (''CallStatic'', EthCallStatic),
     (''StorageStore'', EthStorageStore), (''StorageLoad'', EthStorageLoad), (''GetCaller'', EthGetCaller),
     (''GetCallValue'', EthGetCallValue), (''CodeCopy'', EthCodeCopy), (''GetCodeSize'', EthGetCodeSize),
     (''GetBlockCoinbase'', EthGetBlockCoinbase), (''Create'', EthCreate),
     (''GetBlockDifficulty'', EthGetBlockDifficulty), (''ExternalCodeCopy'', EthExternalCodeCopy),
     (''GetExternalCodeSize'', EthGetExternalCodeSize), (''GetGasLeft'', EthGetGasLeft),
     (''GetBlockGasLimit'', EthGetBlockGasLimit), (''GetTxGasPrice'', EthGetTxGasPrice), (''Log'', EthLog),
     (''GetBlockNumber'', EthGetBlockNumber), (''GetTxOrigin'', EthGetTxOrigin), (''Finish'', EthFinish),
     (''Revert'', EthRevert), (''GetReturnDataSize'', EthGetReturnDataSize),
     (''ReturnDataCopy'', EthReturnDataCopy), (''SelfDestruct'', EthSelfDestruct),
     (''GetBlockTimeStamp'', EthGetBlockTimeStamp)]"

definition read_EthAPICost :: "(string \<Rightarrow> u64) \<Rightarrow> EthAPICost" where
  "read_EthAPICost val = \<lparr>
     EthUseGas = val ''UseGas'', EthGetAddress = val ''GetAddress'',
     EthGetExternalBalance = val ''GetExternalBalance'', EthGetBlockHash = val ''GetBlockHash'',
     EthCall = val ''Call'', EthCallDataCopy = val ''CallDataCopy'',
     EthGetCallDataSize = val ''GetCallDataSize'', EthCallCode = val ''CallCode'',
     EthCallDelegate = val ''CallDelegate'', EthCallStatic = val ''CallStatic'',
     EthStorageStore = val ''StorageStore'', EthStorageLoad = val ''StorageLoad'',
     EthGetCaller = val ''GetCaller'', EthGetCallValue = val ''GetCallValue'',
     EthCodeCopy = val ''CodeCopy'', EthGetCodeSize = val ''GetCodeSize'',
     EthGetBlockCoinbase = val ''GetBlockCoinbase'', EthCreate = val ''Create'',
     EthGetBlockDifficulty = val ''GetBlockDifficulty'', EthExternalCodeCopy = val ''ExternalCodeCopy'',
     EthGetExternalCodeSize = val ''GetExternalCodeSize'', EthGetGasLeft = val ''GetGasLeft'',
     EthGetBlockGasLimit = val ''GetBlockGasLimit'', EthGetTxGasPrice = val ''GetTxGasPrice'',
     EthLog = val ''Log'', EthGetBlockNumber = val ''GetBlockNumber'',
     EthGetTxOrigin = val ''GetTxOrigin'', EthFinish = val ''Finish'', EthRevert = val ''Revert'',
     EthGetReturnDataSize = val ''GetReturnDataSize'', EthReturnDataCopy = val ''ReturnDataCopy'',
     EthSelfDestruct = val ''SelfDestruct'', EthGetBlockTimeStamp = val ''GetBlockTimeStamp''\<rparr>"

definition BigIntAPICost_fields :: "(string \<times> (BigIntAPICost \<Rightarrow> u64)) list" where
  "BigIntAPICost_fields = [
     (''BigIntNew'', BigIntNew), (''BigIntUnsignedByteLength'', BigIntUnsignedByteLength),
     (''BigIntSignedByteLength'', BigIntSignedByteLength),
     (''BigIntGetUnsignedBytes'', BigIntGetUnsignedBytes),
     (''BigIntGetSignedBytes'', BigIntGetSignedBytes),
     (''BigIntSetUnsignedBytes'', BigIntSetUnsignedBytes),
     (''BigIntSetSignedBytes'', BigIntSetSignedBytes), (''BigIntIsInt64'', BigIntIsInt64),
     (''BigIntGetInt64'', BigIntGetInt64), (''BigIntSetInt64'', BigIntSetInt64),
     (''BigIntAdd'', BigIntAdd), (''BigIntSub'', BigIntSub), (''BigIntMul'', BigIntMul),
     (''BigIntTDiv'', BigIntTDiv), (''BigIntTMod'', BigIntTMod), (''BigIntEDiv'', BigIntEDiv),
     (''BigIntEMod'', BigIntEMod), (''BigIntAbs'', BigIntAbs), (''BigIntNeg'', BigIntNeg),
     (''BigIntSign'', BigIntSign), (''BigIntCmp'', BigIntCmp), (''BigIntNot'', BigIntNot),
     (''BigIntAnd'', BigIntAnd), (''BigIntOr'', BigIntOr), (''BigIntXor'', BigIntXor),
     (''BigIntShr'', BigIntShr), (''BigIntShl'', BigIntShl),
     (''BigIntFinishUnsigned'', BigIntFinishUnsigned), (''BigIntFinishSigned'', BigIntFinishSigned),
     (''BigIntStorageLoadUnsigned'', BigIntStorageLoadUnsigned),
     (''BigIntStorageStoreUnsigned'', BigIntStorageStoreUnsigned),
     (''BigIntGetUnsignedArgument'', BigIntGetUnsignedArgument),
     (''BigIntGetSignedArgument'', BigIntGetSignedArgument), (''BigIntGetCallValue'', BigIntGetCallValue),
     (''BigIntGetExternalBalance'', BigIntGetExternalBalance)]"

definition read_BigIntAPICost :: "(string \<Rightarrow> u64) \<Rightarrow> BigIntAPICost" where
  "read_BigIntAPICost val = \<lparr>
     BigIntNew = val ''BigIntNew'', BigIntUnsignedByteLength = val ''BigIntUnsignedByteLength'',
     BigIntSignedByteLength = val ''BigIntSignedByteLength'',
     BigIntGetUnsignedBytes = val ''BigIntGetUnsignedBytes'',
     BigIntGetSignedBytes = val ''BigIntGetSignedBytes'',
     BigIntSetUnsignedBytes = val ''BigIntSetUnsignedBytes'',
     BigIntSetSignedBytes = val ''BigIntSetSignedBytes'', BigIntIsInt64 = val ''BigIntIsInt64'',
     BigIntGetInt64 = val ''BigIntGetInt64'', BigIntSetInt64 = val ''BigIntSetInt64'',
     BigIntAdd = val ''BigIntAdd'', BigIntSub = val ''BigIntSub'', BigIntMul = val ''BigIntMul'',
     BigIntTDiv = val ''BigIntTDiv'', BigIntTMod = val ''BigIntTMod'', BigIntEDiv = val ''BigIntEDiv'',
     BigIntEMod = val ''BigIntEMod'', BigIntAbs = val ''BigIntAbs'', BigIntNeg = val ''BigIntNeg'',
     BigIntSign = val ''BigIntSign'', BigIntCmp = val ''BigIntCmp'', BigIntNot = val ''BigIntNot'',
     BigIntAnd = val ''BigIntAnd'', BigIntOr = val ''BigIntOr'', BigIntXor = val ''BigIntXor'',
     BigIntShr = val ''BigIntShr'', BigIntShl = val ''BigIntShl'',
     BigIntFinishUnsigned = val ''BigIntFinishUnsigned'', BigIntFinishSigned = val ''BigIntFinishSigned'',
     BigIntStorageLoadUnsigned = val ''BigIntStorageLoadUnsigned'',
     BigIntStorageStoreUnsigned = val ''BigIntStorageStoreUnsigned'',
     BigIntGetUnsignedArgument = val ''BigIntGetUnsignedArgument'',
     BigIntGetSignedArgument = val ''BigIntGetSignedArgument'',
     BigIntGetCallValue = val ''BigIntGetCallValue'',
     BigIntGetExternalBalance = val ''BigIntGetExternalBalance''\<rparr>"

definition CryptoAPICost_fields :: "(string \<times> (CryptoAPICost \<Rightarrow> u64)) list" where
  "CryptoAPICost_fields = [
     (''SHA256'', SHA256Cost), (''Keccak256'', Keccak256Cost), (''Ripemd160'', Ripemd160Cost),
     (''VerifyBLS'', VerifyBLSCost), (''VerifyEd25519'', VerifyEd25519Cost),
     (''VerifySecp256k1'', VerifySecp256k1Cost)]"

definition read_CryptoAPICost :: "(string \<Rightarrow> u64) \<Rightarrow> CryptoAPICost" where
  "read_CryptoAPICost val = \<lparr>
     SHA256Cost = val ''SHA256'', Keccak256Cost = val ''Keccak256'', Ripemd160Cost = val ''Ripemd160'',
     VerifyBLSCost = val ''VerifyBLS'', VerifyEd25519Cost = val ''VerifyEd25519'',
     VerifySecp256k1Cost = val ''VerifySecp256k1''\<rparr>"

section \<open>Checking and decoding\<close>

fun checkForZeroUint64Fields :: "(string \<times> 'v :: zero) list \<Rightarrow> go_error option" where
  "checkForZeroUint64Fields [] = None"
| "checkForZeroUint64Fields ((name, val) # rest) =
     (if val = 0 then Some (OtherError (''Gas cost for operation '' @ name @ '' has been set to 0 or is not set.''))
      else checkForZeroUint64Fields rest)"

text \<open>The two steps of every section: decode the map, refuse a zero.\<close>

definition decode_section ::
  "'v decoder \<Rightarrow> (string, u64) gomap option \<Rightarrow> string list \<Rightarrow> ((string \<Rightarrow> 'v) \<Rightarrow> 'r) \<Rightarrow> ('r \<Rightarrow> (string \<times> 'v :: zero) list) \<Rightarrow>
   go_error + 'r" where
  "decode_section decode costs names read all_fields =
     (case decode costs names of
        Inl err \<Rightarrow> Inl err
      | Inr val \<Rightarrow>
          let x = read val
          in case checkForZeroUint64Fields (all_fields x) of Some err \<Rightarrow> Inl err | None \<Rightarrow> Inr x)"

definition fields_of :: "(string \<times> ('r \<Rightarrow> 'v)) list \<Rightarrow> 'r \<Rightarrow> (string \<times> 'v) list" where
  "fields_of fs x = map (\<lambda>(name, get). (name, get x)) fs"

definition then_section :: "go_error + 'a \<Rightarrow> ('a \<Rightarrow> go_error + 'b) \<Rightarrow> go_error + 'b" where
  "then_section r k = (case r of Inl err \<Rightarrow> Inl err | Inr x \<Rightarrow> k x)"

definition CreateGasConfig :: "u64 decoder \<Rightarrow> u32 decoder \<Rightarrow> GasScheduleMap \<Rightarrow> go_error + GasCost" where
  "CreateGasConfig decode decode32 gasMap =
     then_section (decode_section decode (map_get gasMap ''BaseOperationCost'') (map fst BaseOperationCost_fields)
       read_BaseOperationCost (fields_of BaseOperationCost_fields)) (\<lambda>baseOps.
     then_section (decode_section decode (map_get gasMap ''BaseOpsAPICost'') (map fst BaseOpsAPICost_fields)
       read_BaseOpsAPICost (fields_of BaseOpsAPICost_fields)) (\<lambda>baseOpsAPI.
     then_section (decode_section decode (map_get gasMap ''BigIntAPICost'') (map fst BigIntAPICost_fields)
       read_BigIntAPICost (fields_of BigIntAPICost_fields)) (\<lambda>bigIntOps.
     then_section (decode_section decode (map_get gasMap ''EthAPICost'') (map fst EthAPICost_fields)
       read_EthAPICost (fields_of EthAPICost_fields)) (\<lambda>ethOps.
     then_section (decode_section decode (map_get gasMap ''CryptoAPICost'') (map fst CryptoAPICost_fields)
       read_CryptoAPICost (fields_of CryptoAPICost_fields)) (\<lambda>cryptOps.
     then_section (decode_section decode32 (map_get gasMap ''WASMOpcodeCost'') WASMOpcodeCost_fields
       (\<lambda>val. val) (\<lambda>val. map (\<lambda>name. (name, val name)) WASMOpcodeCost_fields)) (\<lambda>opcodeCosts.
     Inr \<lparr>gc_BaseOperationCost = baseOps, gc_BigIntAPICost = bigIntOps, gc_EthAPICost = ethOps,
       gc_BaseOpsAPICost = baseOpsAPI, gc_CryptoAPICost = cryptOps, gc_WASMOpcodeCost = opcodeCosts\<rparr>))))))"

section \<open>Schedules for tests\<close>

definition FillGasMap_BuiltInCosts :: "u64 \<Rightarrow> (string, u64) gomap" where
  "FillGasMap_BuiltInCosts val = fill_names val [
     ''ChangeOwnerAddress'', ''ClaimDeveloperRewards'', ''SaveUserName'', ''SaveKeyValue'',
     ''ESDTTransfer'', ''ESDTBurn'', ''ESDTLocalMint'', ''ESDTLocalBurn'', ''ESDTNFTCreate'',
     ''ESDTNFTAddQuantity'', ''ESDTNFTBurn'', ''ESDTNFTTransfer'', ''ESDTNFTChangeCreateOwner'',
     ''ESDTNFTAddUri'', ''ESDTNFTUpdateAttributes'', ''ESDTNFTMultiTransfer'', ''ESDTModifyRoyalties'',
     ''ESDTModifyCreator'', ''ESDTNFTRecreate'', ''ESDTNFTUpdate'', ''ESDTNFTSetNewURIs'', ''SetGuardian'',
     ''GuardAccount'', ''UnGuardAccount'', ''TrieLoadPerNode'', ''TrieStorePerNode'']"

definition FillGasMap_BaseOperationCosts :: "u64 \<Rightarrow> (string, u64) gomap" where
  "FillGasMap_BaseOperationCosts val = fill_names val [
     ''StorePerByte'', ''DataCopyPerByte'', ''ReleasePerByte'', ''PersistPerByte'', ''CompilePerByte'',
     ''AoTPreparePerByte'', ''GetCode'']"

definition FillGasMap_BaseOpsAPICosts :: "u64 \<Rightarrow> u64 \<Rightarrow> (string, u64) gomap" where
  "FillGasMap_BaseOpsAPICosts val asyncCallbackGasLock = foldl (\<lambda>gasMap (name, val). map_put name val gasMap) [] [
     (''GetSCAddress'', val), (''GetOwnerAddress'', val), (''IsSmartContract'', val),
     (''GetShardOfAddress'', val), (''GetExternalBalance'', val), (''GetBlockHash'', val),
     (''TransferValue'', val), (''GetArgument'', val), (''GetFunction'', val), (''GetNumArguments'', val),
     (''StorageStore'', val), (''StorageLoad'', val), (''GetCaller'', val), (''GetCallValue'', val),
     (''Log'', val), (''Finish'', val), (''SignalError'', val), (''GetBlockTimeStamp'', val),
     (''GetGasLeft'', val), (''Int64GetArgument'', val), (''Int64StorageStore'', val),
     (''Int64StorageLoad'', val), (''Int64Finish'', val), (''GetStateRootHash'', val),
     (''GetBlockNonce'', val), (''GetBlockEpoch'', val), (''GetBlockRound'', val),
     (''GetBlockRandomSeed'', val), (''ExecuteOnSameContext'', val), (''ExecuteOnDestContext'', val),
     (''DelegateExecution'', val), (''ExecuteReadOnly'', val), (''AsyncCallStep'', val),
     (''AsyncCallbackGasLock'', asyncCallbackGasLock), (''CreateContract'', val), (''GetReturnData'', val),
     (''GetNumReturnData'', val), (''GetReturnDataSize'', val)]"

definition FillGasMap_EthereumAPICosts :: "u64 \<Rightarrow> (string, u64) gomap" where
  "FillGasMap_EthereumAPICosts val = fill_names val [
     ''UseGas'', ''GetAddress'', ''GetExternalBalance'', ''GetBlockHash'', ''Call'', ''CallDataCopy'',
     ''GetCallDataSize'', ''CallCode'', ''CallDelegate'', ''CallStatic'', ''StorageStore'',
     ''StorageLoad'', ''GetCaller'', ''GetCallValue'', ''CodeCopy'', ''GetCodeSize'', ''GetBlockCoinbase'',
     ''Create'', ''GetBlockDifficulty'', ''ExternalCodeCopy'', ''GetExternalCodeSize'', ''GetGasLeft'',
     ''GetBlockGasLimit'', ''GetTxGasPrice'', ''Log'', ''GetBlockNumber'', ''GetTxOrigin'', ''Finish'',
     ''Revert'', ''GetReturnDataSize'', ''ReturnDataCopy'', ''SelfDestruct'', ''GetBlockTimeStamp'']"

definition FillGasMap_BigIntAPICosts :: "u64 \<Rightarrow> (string, u64) gomap" where
  "FillGasMap_BigIntAPICosts val = fill_names val [
     ''BigIntNew'', ''BigIntUnsignedByteLength'', ''BigIntSignedByteLength'', ''BigIntGetUnsignedBytes'',
     ''BigIntGetSignedBytes'', ''BigIntSetUnsignedBytes'', ''BigIntSetSignedBytes'', ''BigIntIsInt64'',
     ''BigIntGetInt64'', ''BigIntSetInt64'', ''BigIntAdd'', ''BigIntSub'', ''BigIntMul'', ''BigIntTDiv'',
     ''BigIntTMod'', ''BigIntEDiv'', ''BigIntEMod'', ''BigIntAbs'', ''BigIntNeg'', ''BigIntSign'',
     ''BigIntCmp'', ''BigIntNot'', ''BigIntAnd'', ''BigIntOr'', ''BigIntXor'', ''BigIntShr'',
     ''BigIntShl'', ''BigIntFinishUnsigned'', ''BigIntFinishSigned'', ''BigIntStorageLoadUnsigned'',
     ''BigIntStorageStoreUnsigned'', ''BigIntGetUnsignedArgument'', ''BigIntGetSignedArgument'',
     ''BigIntGetCallValue'', ''BigIntGetExternalBalance'']"

definition FillGasMap_CryptoAPICosts :: "u64 \<Rightarrow> (string, u64) gomap" where
  "FillGasMap_CryptoAPICosts val = fill_names val [
     ''SHA256'', ''Keccak256'', ''Ripemd160'', ''VerifyBLS'', ''VerifyEd25519'', ''VerifySecp256k1'']"

definition FillGasMap :: "GasScheduleMap \<Rightarrow> u64 \<Rightarrow> u64 \<Rightarrow> GasScheduleMap" where
  "FillGasMap gasMap val asyncCallbackGasLock =
     map_put ''WASMOpcodeCost'' (FillGasMap_WASMOpcodeValues val)
     (map_put ''CryptoAPICost'' (FillGasMap_CryptoAPICosts val)
     (map_put ''BigIntAPICost'' (FillGasMap_BigIntAPICosts val)
     (map_put ''EthAPICost'' (FillGasMap_EthereumAPICosts val)
     (map_put ''BaseOpsAPICost'' (FillGasMap_BaseOpsAPICosts val asyncCallbackGasLock)
     (map_put ''BaseOperationCost'' (FillGasMap_BaseOperationCosts val)
     (map_put ''BuiltInCost'' (FillGasMap_BuiltInCosts val) gasMap))))))"

definition MakeGasMap :: "u64 \<Rightarrow> u64 \<Rightarrow> GasScheduleMap" where
  "MakeGasMap val asyncCallbackGasLock = FillGasMap [] val asyncCallbackGasLock"

definition MakeGasMapForTests :: GasScheduleMap where
  "MakeGasMapForTests = MakeGasMap 1 100000"

section \<open>Changing the schedule\<close>

definition SetGasSchedule :: "u64 decoder \<Rightarrow> u32 decoder \<Rightarrow> GasScheduleMap \<Rightarrow> meteringContext \<Rightarrow> meteringContext" where
  "SetGasSchedule decode decode32 gasMap c =
     (case CreateGasConfig decode decode32 gasMap of
        Inl err \<Rightarrow> c
      | Inr gasSchedule \<Rightarrow> c\<lparr>mc_gasSchedule := gasSchedule\<rparr>)"

text \<open>
  A new context, and a change of the schedule of the host. The host also keeps the map itself,
  and the engine the array of opcode costs (\<open>None\<close> before the first change).
\<close>

definition NewMeteringContext ::
  "u64 decoder \<Rightarrow> u32 decoder \<Rightarrow> GasScheduleMap \<Rightarrow> u64 \<Rightarrow> go_error + meteringContext" where
  "NewMeteringContext decode decode32 gasMap blockGasLimit =
     (case CreateGasConfig decode decode32 gasMap of
        Inl err \<Rightarrow> Inl err
      | Inr gasSchedule \<Rightarrow> Inr (metering_InitState \<lparr>mc_stateStack = [], mc_gasSchedule = gasSchedule,
          mc_blockGasLimit = blockGasLimit, mc_initialGasProvided = 0, mc_initialCost = 0,
          mc_gasForExecution = 0, mc_gasUsedByAccounts = []\<rparr>))"

record gasTables =
  gt_gasSchedule :: GasScheduleMap
  gt_opcodeCosts :: "u32 list option"

definition GasScheduleChange ::
  "u64 decoder \<Rightarrow> u32 decoder \<Rightarrow> GasScheduleMap \<Rightarrow> gasTables \<times> 'w vmHost \<Rightarrow> gasTables \<times> 'w vmHost" where
  "GasScheduleChange decode decode32 newGasSchedule = (\<lambda>(tables, h).
     let tables = tables\<lparr>gt_gasSchedule := newGasSchedule\<rparr>
     in case CreateGasConfig decode decode32 newGasSchedule of
          Inl err \<Rightarrow> (tables, h)
        | Inr gasCostConfig \<Rightarrow>
            (tables\<lparr>gt_opcodeCosts := Some (ToOpcodeCostsArray (gc_WASMOpcodeCost gasCostConfig))\<rparr>,
             upd_metering (SetGasSchedule decode decode32 newGasSchedule) h))"

section \<open>Accepted schedules\<close>

lemma check_none: "checkForZeroUint64Fields xs = None \<longleftrightarrow> (\<forall>x \<in> set xs. snd x \<noteq> 0)"
  by (induction xs rule: checkForZeroUint64Fields.induct) auto

lemma decode_section_nonzero:
  "decode_section decode costs names read all_fields = Inr x \<Longrightarrow> \<forall>f \<in> set (all_fields x). snd f \<noteq> 0"
  by (auto simp: decode_section_def Let_def check_none split: sum.splits option.splits)

lemma then_section_Inr: "then_section r k = Inr y \<longleftrightarrow> (\<exists>x. r = Inr x \<and> k x = Inr y)"
  by (auto simp: then_section_def split: sum.splits)

lemma fields_nonzero:
  "(\<forall>f \<in> set (fields_of fs x). snd f \<noteq> 0) \<longleftrightarrow> (\<forall>f \<in> set fs. snd f x \<noteq> 0)"
  by (auto simp: fields_of_def)

text \<open>No operation and no opcode is free.\<close>

definition all_costs_set :: "GasCost \<Rightarrow> bool" where
  "all_costs_set cost \<longleftrightarrow>
     (\<forall>f \<in> set BaseOperationCost_fields. snd f (gc_BaseOperationCost cost) \<noteq> 0)
     \<and> (\<forall>f \<in> set BaseOpsAPICost_fields. snd f (gc_BaseOpsAPICost cost) \<noteq> 0)
     \<and> (\<forall>f \<in> set BigIntAPICost_fields. snd f (gc_BigIntAPICost cost) \<noteq> 0)
     \<and> (\<forall>f \<in> set EthAPICost_fields. snd f (gc_EthAPICost cost) \<noteq> 0)
     \<and> (\<forall>f \<in> set CryptoAPICost_fields. snd f (gc_CryptoAPICost cost) \<noteq> 0)
     \<and> (\<forall>name \<in> set WASMOpcodeCost_fields. gc_WASMOpcodeCost cost name \<noteq> 0)"

lemma CreateGasConfig_all_set:
  assumes "CreateGasConfig decode decode32 gasMap = Inr cost"
  shows "all_costs_set cost"
proof -
  have wasm: "(\<forall>f \<in> set (map (\<lambda>name. (name, val name)) names). snd f \<noteq> 0) \<longleftrightarrow> (\<forall>name \<in> set names. val name \<noteq> 0)"
    for val :: WASMOpcodeCost and names by simp
  show ?thesis
    by (insert assms, unfold CreateGasConfig_def then_section_Inr, elim exE conjE, (drule decode_section_nonzero)+, drule Inr_inject, hypsubst)
      (simp only: all_costs_set_def fields_nonzero wasm GasCost.simps)
qed

section \<open>The test schedule is accepted\<close>

text \<open>
  What the decoding package documents: every field gets the value that the map has under its
  name, converted to the type of the field, and zero if there is none.
\<close>

definition decodes :: "'v decoder \<Rightarrow> (u64 \<Rightarrow> 'v) \<Rightarrow> bool" where
  "decodes decode convert \<longleftrightarrow> (\<forall>m names. \<exists>val. decode (Some m) names = Inr val
     \<and> (\<forall>name \<in> set names. val name = convert (map_get_or 0 m name)))"

lemma decode_section_ok:
  assumes "decodes decode convert"
    and "\<And>val. all_fields (read val) = map (\<lambda>name. (name, val name)) names"
    and "\<And>name. name \<in> set names \<Longrightarrow> convert (map_get_or 0 m name) \<noteq> 0"
  obtains val where "decode_section decode (Some m) names read all_fields = Inr (read val)"
    and "\<And>name. name \<in> set names \<Longrightarrow> val name = convert (map_get_or 0 m name)"
proof -
  obtain val where val: "decode (Some m) names = Inr val"
    "\<forall>name \<in> set names. val name = convert (map_get_or 0 m name)"
    using assms(1) unfolding decodes_def by blast
  then have "checkForZeroUint64Fields (all_fields (read val)) = None"
    using assms(2,3) by (simp add: check_none)
  then show thesis using that [of val] val by (simp add: decode_section_def)
qed

lemma read_back_fields:
  "fields_of BaseOperationCost_fields (read_BaseOperationCost val) =
     map (\<lambda>name. (name, val name)) (map fst BaseOperationCost_fields)"
  "fields_of BaseOpsAPICost_fields (read_BaseOpsAPICost val) =
     map (\<lambda>name. (name, val name)) (map fst BaseOpsAPICost_fields)"
  "fields_of BigIntAPICost_fields (read_BigIntAPICost val) =
     map (\<lambda>name. (name, val name)) (map fst BigIntAPICost_fields)"
  "fields_of EthAPICost_fields (read_EthAPICost val) = map (\<lambda>name. (name, val name)) (map fst EthAPICost_fields)"
  "fields_of CryptoAPICost_fields (read_CryptoAPICost val) =
     map (\<lambda>name. (name, val name)) (map fst CryptoAPICost_fields)"
  by (simp_all add: fields_of_def BaseOperationCost_fields_def read_BaseOperationCost_def
      BaseOpsAPICost_fields_def read_BaseOpsAPICost_def BigIntAPICost_fields_def read_BigIntAPICost_def
      EthAPICost_fields_def read_EthAPICost_def CryptoAPICost_fields_def read_CryptoAPICost_def)

lemma fill_names_lookup:
  assumes "name \<in> set names"
  shows "map_get_or 0 (fill_names v names) name = v"
proof -
  have "map_get (foldl (\<lambda>gasMap name. map_put name v gasMap) m names) name =
      (if name \<in> set names then Some v else map_get m name)" for m
    by (induction names arbitrary: m) auto
  then show ?thesis using assms by (simp add: fill_names_def map_get_or_def)
qed

definition test_costs :: "u64 \<Rightarrow> u64 \<Rightarrow> GasCost \<Rightarrow> bool" where
  "test_costs v lock cost \<longleftrightarrow>
     (\<forall>f \<in> set BaseOperationCost_fields. snd f (gc_BaseOperationCost cost) = v)
     \<and> (\<forall>f \<in> set BaseOpsAPICost_fields. snd f (gc_BaseOpsAPICost cost) =
          (if fst f = ''AsyncCallbackGasLock'' then lock else v))
     \<and> (\<forall>f \<in> set BigIntAPICost_fields. snd f (gc_BigIntAPICost cost) = v)
     \<and> (\<forall>f \<in> set EthAPICost_fields. snd f (gc_EthAPICost cost) = v)
     \<and> (\<forall>f \<in> set CryptoAPICost_fields. snd f (gc_CryptoAPICost cost) = v)
     \<and> (\<forall>name \<in> set WASMOpcodeCost_fields. gc_WASMOpcodeCost cost name = ucast v)"

lemma filled_sections:
  "name \<in> set (map fst BaseOperationCost_fields) \<Longrightarrow> map_get_or 0 (FillGasMap_BaseOperationCosts v) name = v"
  "name \<in> set (map fst BigIntAPICost_fields) \<Longrightarrow> map_get_or 0 (FillGasMap_BigIntAPICosts v) name = v"
  "name \<in> set (map fst EthAPICost_fields) \<Longrightarrow> map_get_or 0 (FillGasMap_EthereumAPICosts v) name = v"
  "name \<in> set (map fst CryptoAPICost_fields) \<Longrightarrow> map_get_or 0 (FillGasMap_CryptoAPICosts v) name = v"
  "name \<in> set WASMOpcodeCost_fields \<Longrightarrow> map_get_or 0 (FillGasMap_WASMOpcodeValues v) name = v"
  unfolding FillGasMap_BaseOperationCosts_def FillGasMap_BigIntAPICosts_def FillGasMap_EthereumAPICosts_def
    FillGasMap_CryptoAPICosts_def FillGasMap_WASMOpcodeValues_def filled_opcode_names
  subgoal by (rule fill_names_lookup) (auto simp: BaseOperationCost_fields_def)
  subgoal by (rule fill_names_lookup) (simp only: BigIntAPICost_fields_def list.map fst_conv)
  subgoal by (rule fill_names_lookup) (simp only: EthAPICost_fields_def list.map fst_conv)
  subgoal by (rule fill_names_lookup) (simp only: CryptoAPICost_fields_def list.map fst_conv)
  subgoal by (rule fill_names_lookup)
  done

lemma filled_pairs:
  assumes "\<forall>x \<in> set xs. snd x = f (fst x)" and "name \<in> set (map fst xs)"
  shows "map_get_or 0 (foldl (\<lambda>gasMap (name, val). map_put name val gasMap) [] xs) name = f name"
proof -
  have fold: "map_get (foldl (\<lambda>gasMap (name, val). map_put name val gasMap) m xs) =
      (map_get m ++ map_of (rev xs))" for m and xs :: "('a \<times> 'b) list"
    by (induction xs arbitrary: m) auto
  obtain w where w: "map_of (rev xs) name = Some w"
    using assms(2) map_of_eq_None_iff [of "rev xs" name] by fastforce
  then have "(name, w) \<in> set xs" using map_of_SomeD by fastforce
  then have "w = f name" using assms(1) by auto
  then show ?thesis using w by (simp add: map_get_or_def fold)
qed

lemma filled_baseOps:
  assumes "name \<in> set (map fst BaseOpsAPICost_fields)"
  shows "map_get_or 0 (FillGasMap_BaseOpsAPICosts v lock) name = (if name = ''AsyncCallbackGasLock'' then lock else v)"
  unfolding FillGasMap_BaseOpsAPICosts_def
  by (rule filled_pairs [where f = "\<lambda>name. if name = ''AsyncCallbackGasLock'' then lock else v"],
      simp, insert assms, simp only: BaseOpsAPICost_fields_def list.map fst_conv)

lemma test_sections:
  "map_get (MakeGasMap v lock) ''BaseOperationCost'' = Some (FillGasMap_BaseOperationCosts v)"
  "map_get (MakeGasMap v lock) ''BaseOpsAPICost'' = Some (FillGasMap_BaseOpsAPICosts v lock)"
  "map_get (MakeGasMap v lock) ''BigIntAPICost'' = Some (FillGasMap_BigIntAPICosts v)"
  "map_get (MakeGasMap v lock) ''EthAPICost'' = Some (FillGasMap_EthereumAPICosts v)"
  "map_get (MakeGasMap v lock) ''CryptoAPICost'' = Some (FillGasMap_CryptoAPICosts v)"
  "map_get (MakeGasMap v lock) ''WASMOpcodeCost'' = Some (FillGasMap_WASMOpcodeValues v)"
  by (simp_all add: MakeGasMap_def FillGasMap_def)

lemma section_ok:
  assumes "decodes decode (\<lambda>v. v)"
    and read: "\<And>val. fields_of fs (read val) = map (\<lambda>name. (name, val name)) (map fst fs)"
    and "\<And>name. name \<in> set (map fst fs) \<Longrightarrow> map_get_or 0 m name = g name"
    and "\<And>name. g name \<noteq> 0"
  shows "\<exists>x. decode_section decode (Some m) (map fst fs) read (fields_of fs) = Inr x \<and> (\<forall>f \<in> set fs. snd f x = g (fst f))"
proof -
  obtain val where val: "decode_section decode (Some m) (map fst fs) read (fields_of fs) = Inr (read val)"
    "\<And>name. name \<in> set (map fst fs) \<Longrightarrow> val name = g name"
  proof (rule decode_section_ok [OF assms(1), of "fields_of fs" read "map fst fs" m])
    show "map_get_or 0 m name \<noteq> 0" if "name \<in> set (map fst fs)" for name
      unfolding assms(3) [OF that] by (rule assms(4))
    fix val
    assume ok: "decode_section decode (Some m) (map fst fs) read (fields_of fs) = Inr (read val)"
      and val: "\<And>name. name \<in> set (map fst fs) \<Longrightarrow> val name = map_get_or 0 m name"
    show thesis by (rule that [OF ok]) (simp only: val assms(3))
  qed (rule read)
  have "snd f (read val) = g (fst f)" if "f \<in> set fs" for f
  proof -
    have "(fst f, snd f (read val)) \<in> set (fields_of fs (read val))"
      using that by (auto simp: fields_of_def case_prod_beta)
    then show ?thesis using read [of val] val(2) that by auto
  qed
  then show ?thesis using val(1) by blast
qed

lemma test_schedule:
  assumes d: "decodes decode (\<lambda>v. v)" and d32: "decodes decode32 ucast"
    and v: "v \<noteq> 0" "ucast v \<noteq> (0 :: u32)" and lock: "lock \<noteq> 0"
  shows "\<exists>cost. CreateGasConfig decode decode32 (MakeGasMap v lock) = Inr cost \<and> test_costs v lock cost"
proof -
  note read = read_back_fields and same = v(1)
  obtain x1 where 1: "decode_section decode (Some (FillGasMap_BaseOperationCosts v)) (map fst BaseOperationCost_fields)
      read_BaseOperationCost (fields_of BaseOperationCost_fields) = Inr x1"
    "\<forall>f \<in> set BaseOperationCost_fields. snd f x1 = v"
    using section_ok [where g = "\<lambda>_. v", OF d read(1) filled_sections(1) same] by blast
  obtain x2 where 2: "decode_section decode (Some (FillGasMap_BaseOpsAPICosts v lock)) (map fst BaseOpsAPICost_fields)
      read_BaseOpsAPICost (fields_of BaseOpsAPICost_fields) = Inr x2"
    "\<forall>f \<in> set BaseOpsAPICost_fields. snd f x2 = (if fst f = ''AsyncCallbackGasLock'' then lock else v)"
    using section_ok [where g = "\<lambda>name. if name = ''AsyncCallbackGasLock'' then lock else v", OF d read(2) filled_baseOps]
      same lock by metis
  obtain x3 where 3: "decode_section decode (Some (FillGasMap_BigIntAPICosts v)) (map fst BigIntAPICost_fields)
      read_BigIntAPICost (fields_of BigIntAPICost_fields) = Inr x3" "\<forall>f \<in> set BigIntAPICost_fields. snd f x3 = v"
    using section_ok [where g = "\<lambda>_. v", OF d read(3) filled_sections(2) same] by blast
  obtain x4 where 4: "decode_section decode (Some (FillGasMap_EthereumAPICosts v)) (map fst EthAPICost_fields)
      read_EthAPICost (fields_of EthAPICost_fields) = Inr x4" "\<forall>f \<in> set EthAPICost_fields. snd f x4 = v"
    using section_ok [where g = "\<lambda>_. v", OF d read(4) filled_sections(3) same] by blast
  obtain x5 where 5: "decode_section decode (Some (FillGasMap_CryptoAPICosts v)) (map fst CryptoAPICost_fields)
      read_CryptoAPICost (fields_of CryptoAPICost_fields) = Inr x5" "\<forall>f \<in> set CryptoAPICost_fields. snd f x5 = v"
    using section_ok [where g = "\<lambda>_. v", OF d read(5) filled_sections(4) same] by blast
  obtain x6 where 6: "decode_section decode32 (Some (FillGasMap_WASMOpcodeValues v)) WASMOpcodeCost_fields
      (\<lambda>val. val) (\<lambda>val. map (\<lambda>name. (name, val name)) WASMOpcodeCost_fields) = Inr x6"
    "\<And>name. name \<in> set WASMOpcodeCost_fields \<Longrightarrow> x6 name = ucast (map_get_or 0 (FillGasMap_WASMOpcodeValues v) name)"
    by (rule decode_section_ok [OF d32, of "\<lambda>val. map (\<lambda>name. (name, val name)) WASMOpcodeCost_fields" "\<lambda>val. val"
          WASMOpcodeCost_fields "FillGasMap_WASMOpcodeValues v"])
      (rule refl, simp only: filled_sections(5) v(2) not_False_eq_True, rule that)
  show ?thesis
    unfolding CreateGasConfig_def then_section_def test_sections 1(1) 2(1) 3(1) 4(1) 5(1) 6(1) sum.case
    by (rule exI, rule conjI, rule refl)
      (unfold test_costs_def GasCost.simps, intro conjI 1(2) 2(2) 3(2) 4(2) 5(2) ballI,
        simp only: 6(2) filled_sections(5))
qed


definition plain_decoder :: "(u64 \<Rightarrow> 'v) \<Rightarrow> 'v decoder" where
  "plain_decoder convert costs names = Inr (\<lambda>name. convert (map_get_or 0 (case costs of None \<Rightarrow> [] | Some m \<Rightarrow> m) name))"

lemma plain_decodes: "decodes (plain_decoder convert) convert"
  by (simp add: decodes_def plain_decoder_def)


section \<open>A change of the schedule\<close>

text \<open>
  C31. A change of the gas schedule is safe: if all costs were set before, they are set after any
  change, accepted or not. A schedule that is refused leaves the costs of the host and the opcode
  costs of the engine as they were; one that is accepted replaces both, consistently. The map
  that the host reports as its schedule is replaced even if it was refused.
\<close>

theorem GasScheduleChange_safe:
  assumes "all_costs_set (mc_gasSchedule (host_metering h))"
    and change: "GasScheduleChange decode decode32 new (tables, h) = (tables', h')"
  shows "all_costs_set (mc_gasSchedule (host_metering h')) \<and> gt_gasSchedule tables' = new
    \<and> (case CreateGasConfig decode decode32 new of
         Inl err \<Rightarrow> h' = h \<and> gt_opcodeCosts tables' = gt_opcodeCosts tables
       | Inr cost \<Rightarrow> h' = upd_metering (\<lambda>c. c\<lparr>mc_gasSchedule := cost\<rparr>) h
           \<and> gt_opcodeCosts tables' = Some (map (gc_WASMOpcodeCost cost) (butlast WASMOpcodeCost_fields)))"
proof (cases "CreateGasConfig decode decode32 new")
  case (Inl err)
  then show ?thesis using assms by (auto simp: GasScheduleChange_def Let_def)
next
  case (Inr cost)
  then have "all_costs_set cost" by (rule CreateGasConfig_all_set)
  then show ?thesis
    using change Inr by (auto simp: GasScheduleChange_def SetGasSchedule_def opcode_costs_of_fields Let_def)
qed

theorem GasScheduleChange_safe_witness:
  "\<exists>cost. all_costs_set cost \<and> (let h = sample_host\<lparr>host_metering := (host_metering sample_host)\<lparr>mc_gasSchedule := cost\<rparr>\<rparr>
     in snd (GasScheduleChange (plain_decoder (\<lambda>v. v)) (plain_decoder ucast) []
          (\<lparr>gt_gasSchedule = [], gt_opcodeCosts = None\<rparr>, h)) = h)"
proof -
  obtain cost where cost: "all_costs_set cost"
    using CreateGasConfig_all_set test_schedule [OF plain_decodes plain_decodes, of 1 1] by fastforce
  let ?h = "sample_host\<lparr>host_metering := (host_metering sample_host)\<lparr>mc_gasSchedule := cost\<rparr>\<rparr>"
  have "CreateGasConfig (plain_decoder (\<lambda>v. v)) (plain_decoder ucast) [] \<noteq> Inr c" for c
    by (auto simp: CreateGasConfig_def then_section_Inr decode_section_def plain_decoder_def fields_of_def
        BaseOperationCost_fields_def read_BaseOperationCost_def map_get_or_def)
  then obtain err where "CreateGasConfig (plain_decoder (\<lambda>v. v)) (plain_decoder ucast) [] = Inl err"
    by (cases "CreateGasConfig (plain_decoder (\<lambda>v. v)) (plain_decoder ucast) []") auto
  moreover obtain tables' h' where "GasScheduleChange (plain_decoder (\<lambda>v. v)) (plain_decoder ucast) []
      (\<lparr>gt_gasSchedule = [], gt_opcodeCosts = None\<rparr>, ?h) = (tables', h')" by fastforce
  ultimately show ?thesis
    using GasScheduleChange_safe [of ?h "plain_decoder (\<lambda>v. v)" "plain_decoder ucast" "[]"] cost by fastforce
qed

end
