(* ===== verification/IPCMessages.thy ===== *)
theory IPCMessages
  imports GasConfig
begin

text \<open>
  The messages of the dialogue between the node and the VM process (\<open>ipc/common\<close>): the kinds of
  messages, the message structures and their constructors, the factory that creates an empty
  message for a kind read from the pipe, the serializable forms of maps and of the VM output,
  the account structure and the errors of the dialogue.

  A message is the embedded structure \<open>Message\<close> together with its body, a value of the
  datatype \<open>MessageBody\<close> whose constructors are the message structures: a type assertion of the
  code is a match on the constructor. A pointer field is an option, the zero value of a
  structure has \<open>None\<close> there. The marshalizers (\<open>encoding/json\<close> or \<open>encoding/gob\<close> behind the
  interface \<open>Marshalizer\<close>) are a parameter.
\<close>

section \<open>Kinds of messages\<close>

type_synonym MessageKind = u32

named_theorems kind_defs \<open>the numbers of the message kinds\<close>

definition FirstKind :: MessageKind where [kind_defs]: "FirstKind = 0"
definition Initialize :: MessageKind where [kind_defs]: "Initialize = 1"
definition Stop :: MessageKind where [kind_defs]: "Stop = 2"
definition ContractDeployRequest :: MessageKind where [kind_defs]: "ContractDeployRequest = 3"
definition ContractCallRequest :: MessageKind where [kind_defs]: "ContractCallRequest = 4"
definition ContractResponse :: MessageKind where [kind_defs]: "ContractResponse = 5"
definition GasScheduleChangeRequest :: MessageKind where [kind_defs]: "GasScheduleChangeRequest = 6"
definition GasScheduleChangeResponse :: MessageKind where [kind_defs]: "GasScheduleChangeResponse = 7"
definition BlockchainNewAddressRequest :: MessageKind where [kind_defs]: "BlockchainNewAddressRequest = 8"
definition BlockchainNewAddressResponse :: MessageKind where [kind_defs]: "BlockchainNewAddressResponse = 9"
definition BlockchainGetStorageDataRequest :: MessageKind where [kind_defs]: "BlockchainGetStorageDataRequest = 10"
definition BlockchainGetStorageDataResponse :: MessageKind where [kind_defs]: "BlockchainGetStorageDataResponse = 11"
definition BlockchainGetBlockhashRequest :: MessageKind where [kind_defs]: "BlockchainGetBlockhashRequest = 12"
definition BlockchainGetBlockhashResponse :: MessageKind where [kind_defs]: "BlockchainGetBlockhashResponse = 13"
definition BlockchainLastNonceRequest :: MessageKind where [kind_defs]: "BlockchainLastNonceRequest = 14"
definition BlockchainLastNonceResponse :: MessageKind where [kind_defs]: "BlockchainLastNonceResponse = 15"
definition BlockchainLastRoundRequest :: MessageKind where [kind_defs]: "BlockchainLastRoundRequest = 16"
definition BlockchainLastRoundResponse :: MessageKind where [kind_defs]: "BlockchainLastRoundResponse = 17"
definition BlockchainLastTimeStampRequest :: MessageKind where [kind_defs]: "BlockchainLastTimeStampRequest = 18"
definition BlockchainLastTimeStampResponse :: MessageKind where [kind_defs]: "BlockchainLastTimeStampResponse = 19"
definition BlockchainLastRandomSeedRequest :: MessageKind where [kind_defs]: "BlockchainLastRandomSeedRequest = 20"
definition BlockchainLastRandomSeedResponse :: MessageKind where [kind_defs]: "BlockchainLastRandomSeedResponse = 21"
definition BlockchainLastEpochRequest :: MessageKind where [kind_defs]: "BlockchainLastEpochRequest = 22"
definition BlockchainLastEpochResponse :: MessageKind where [kind_defs]: "BlockchainLastEpochResponse = 23"
definition BlockchainGetStateRootHashRequest :: MessageKind where [kind_defs]: "BlockchainGetStateRootHashRequest = 24"
definition BlockchainGetStateRootHashResponse :: MessageKind where [kind_defs]: "BlockchainGetStateRootHashResponse = 25"
definition BlockchainCurrentNonceRequest :: MessageKind where [kind_defs]: "BlockchainCurrentNonceRequest = 26"
definition BlockchainCurrentNonceResponse :: MessageKind where [kind_defs]: "BlockchainCurrentNonceResponse = 27"
definition BlockchainCurrentRoundRequest :: MessageKind where [kind_defs]: "BlockchainCurrentRoundRequest = 28"
definition BlockchainCurrentRoundResponse :: MessageKind where [kind_defs]: "BlockchainCurrentRoundResponse = 29"
definition BlockchainCurrentTimeStampRequest :: MessageKind where [kind_defs]: "BlockchainCurrentTimeStampRequest = 30"
definition BlockchainCurrentTimeStampResponse :: MessageKind where [kind_defs]: "BlockchainCurrentTimeStampResponse = 31"
definition BlockchainCurrentRandomSeedRequest :: MessageKind where [kind_defs]: "BlockchainCurrentRandomSeedRequest = 32"
definition BlockchainCurrentRandomSeedResponse :: MessageKind where [kind_defs]: "BlockchainCurrentRandomSeedResponse = 33"
definition BlockchainCurrentEpochRequest :: MessageKind where [kind_defs]: "BlockchainCurrentEpochRequest = 34"
definition BlockchainCurrentEpochResponse :: MessageKind where [kind_defs]: "BlockchainCurrentEpochResponse = 35"
definition BlockchainProcessBuiltinFunctionRequest :: MessageKind where [kind_defs]: "BlockchainProcessBuiltinFunctionRequest = 36"
definition BlockchainProcessBuiltinFunctionResponse :: MessageKind where [kind_defs]: "BlockchainProcessBuiltinFunctionResponse = 37"
definition BlockchainGetESDTTokenRequest :: MessageKind where [kind_defs]: "BlockchainGetESDTTokenRequest = 38"
definition BlockchainGetESDTTokenResponse :: MessageKind where [kind_defs]: "BlockchainGetESDTTokenResponse = 39"
definition BlockchainGetBuiltinFunctionNamesRequest :: MessageKind where [kind_defs]: "BlockchainGetBuiltinFunctionNamesRequest = 40"
definition BlockchainGetBuiltinFunctionNamesResponse :: MessageKind where [kind_defs]: "BlockchainGetBuiltinFunctionNamesResponse = 41"
definition BlockchainGetAllStateRequest :: MessageKind where [kind_defs]: "BlockchainGetAllStateRequest = 42"
definition BlockchainGetAllStateResponse :: MessageKind where [kind_defs]: "BlockchainGetAllStateResponse = 43"
definition BlockchainGetUserAccountRequest :: MessageKind where [kind_defs]: "BlockchainGetUserAccountRequest = 44"
definition BlockchainGetUserAccountResponse :: MessageKind where [kind_defs]: "BlockchainGetUserAccountResponse = 45"
definition BlockchainGetCodeRequest :: MessageKind where [kind_defs]: "BlockchainGetCodeRequest = 46"
definition BlockchainGetCodeResponse :: MessageKind where [kind_defs]: "BlockchainGetCodeResponse = 47"
definition BlockchainGetShardOfAddressRequest :: MessageKind where [kind_defs]: "BlockchainGetShardOfAddressRequest = 48"
definition BlockchainGetShardOfAddressResponse :: MessageKind where [kind_defs]: "BlockchainGetShardOfAddressResponse = 49"
definition BlockchainIsPayableRequest :: MessageKind where [kind_defs]: "BlockchainIsPayableRequest = 50"
definition BlockchainIsPayableResponse :: MessageKind where [kind_defs]: "BlockchainIsPayableResponse = 51"
definition BlockchainIsSmartContractRequest :: MessageKind where [kind_defs]: "BlockchainIsSmartContractRequest = 52"
definition BlockchainIsSmartContractResponse :: MessageKind where [kind_defs]: "BlockchainIsSmartContractResponse = 53"
definition BlockchainSaveCompiledCodeRequest :: MessageKind where [kind_defs]: "BlockchainSaveCompiledCodeRequest = 54"
definition BlockchainSaveCompiledCodeResponse :: MessageKind where [kind_defs]: "BlockchainSaveCompiledCodeResponse = 55"
definition BlockchainGetCompiledCodeRequest :: MessageKind where [kind_defs]: "BlockchainGetCompiledCodeRequest = 56"
definition BlockchainGetCompiledCodeResponse :: MessageKind where [kind_defs]: "BlockchainGetCompiledCodeResponse = 57"
definition DiagnoseWaitRequest :: MessageKind where [kind_defs]: "DiagnoseWaitRequest = 58"
definition DiagnoseWaitResponse :: MessageKind where [kind_defs]: "DiagnoseWaitResponse = 59"
definition VersionRequest :: MessageKind where [kind_defs]: "VersionRequest = 60"
definition VersionResponse :: MessageKind where [kind_defs]: "VersionResponse = 61"
definition BlockchainClearCompiledCodesRequest :: MessageKind where [kind_defs]: "BlockchainClearCompiledCodesRequest = 62"
definition BlockchainClearCompiledCodesResponse :: MessageKind where [kind_defs]: "BlockchainClearCompiledCodesResponse = 63"
definition BlockchainGetSnapshotRequest :: MessageKind where [kind_defs]: "BlockchainGetSnapshotRequest = 64"
definition BlockchainGetSnapshotResponse :: MessageKind where [kind_defs]: "BlockchainGetSnapshotResponse = 65"
definition BlockchainIsInterfaceNilRequest :: MessageKind where [kind_defs]: "BlockchainIsInterfaceNilRequest = 66"
definition BlockchainIsInterfaceNilResponse :: MessageKind where [kind_defs]: "BlockchainIsInterfaceNilResponse = 67"
definition BlockchainRevertToSnapshotRequest :: MessageKind where [kind_defs]: "BlockchainRevertToSnapshotRequest = 68"
definition BlockchainRevertToSnapshotResponse :: MessageKind where [kind_defs]: "BlockchainRevertToSnapshotResponse = 69"
definition BlockchainProcessBuiltInFunctionRequest :: MessageKind where [kind_defs]: "BlockchainProcessBuiltInFunctionRequest = 70"
definition BlockchainProcessBuiltInFunctionResponse :: MessageKind where [kind_defs]: "BlockchainProcessBuiltInFunctionResponse = 71"
definition UndefinedRequestOrResponse :: MessageKind where [kind_defs]: "UndefinedRequestOrResponse = 72"
definition LastKind :: MessageKind where [kind_defs]: "LastKind = 73"

definition messageKindNameByID :: "(MessageKind, string) gomap" where
  "messageKindNameByID =
     [(FirstKind, ''FirstKind''),
      (Initialize, ''Initialize''),
      (Stop, ''Stop''),
      (ContractDeployRequest, ''ContractDeployRequest''),
      (ContractCallRequest, ''ContractCallRequest''),
      (ContractResponse, ''ContractResponse''),
      (GasScheduleChangeRequest, ''GasScheduleChangeRequest''),
      (GasScheduleChangeResponse, ''GasScheduleChangeResponse''),
      (BlockchainNewAddressRequest, ''BlockchainNewAddressRequest''),
      (BlockchainNewAddressResponse, ''BlockchainNewAddressResponse''),
      (BlockchainGetStorageDataRequest, ''BlockchainGetStorageDataRequest''),
      (BlockchainGetStorageDataResponse, ''BlockchainGetStorageDataResponse''),
      (BlockchainGetBlockhashRequest, ''BlockchainGetBlockhashRequest''),
      (BlockchainGetBlockhashResponse, ''BlockchainGetBlockhashResponse''),
      (BlockchainLastNonceRequest, ''BlockchainLastNonceRequest''),
      (BlockchainLastNonceResponse, ''BlockchainLastNonceResponse''),
      (BlockchainLastRoundRequest, ''BlockchainLastRoundRequest''),
      (BlockchainLastRoundResponse, ''BlockchainLastRoundResponse''),
      (BlockchainLastTimeStampRequest, ''BlockchainLastTimeStampRequest''),
      (BlockchainLastTimeStampResponse, ''BlockchainLastTimeStampResponse''),
      (BlockchainLastRandomSeedRequest, ''BlockchainLastRandomSeedRequest''),
      (BlockchainLastRandomSeedResponse, ''BlockchainLastRandomSeedResponse''),
      (BlockchainLastEpochRequest, ''BlockchainLastEpochRequest''),
      (BlockchainLastEpochResponse, ''BlockchainLastEpochResponse''),
      (BlockchainGetStateRootHashRequest, ''BlockchainGetStateRootHashRequest''),
      (BlockchainGetStateRootHashResponse, ''BlockchainGetStateRootHashResponse''),
      (BlockchainCurrentNonceRequest, ''BlockchainCurrentNonceRequest''),
      (BlockchainCurrentNonceResponse, ''BlockchainCurrentNonceResponse''),
      (BlockchainCurrentRoundRequest, ''BlockchainCurrentRoundRequest''),
      (BlockchainCurrentRoundResponse, ''BlockchainCurrentRoundResponse''),
      (BlockchainCurrentTimeStampRequest, ''BlockchainCurrentTimeStampRequest''),
      (BlockchainCurrentTimeStampResponse, ''BlockchainCurrentTimeStampResponse''),
      (BlockchainCurrentRandomSeedRequest, ''BlockchainCurrentRandomSeedRequest''),
      (BlockchainCurrentRandomSeedResponse, ''BlockchainCurrentRandomSeedResponse''),
      (BlockchainCurrentEpochRequest, ''BlockchainCurrentEpochRequest''),
      (BlockchainCurrentEpochResponse, ''BlockchainCurrentEpochResponse''),
      (BlockchainProcessBuiltinFunctionRequest, ''BlockchainProcessBuiltinFunctionRequest''),
      (BlockchainProcessBuiltinFunctionResponse, ''BlockchainProcessBuiltinFunctionResponse''),
      (BlockchainGetESDTTokenRequest, ''BlockchainGetESDTTokenRequest''),
      (BlockchainGetESDTTokenResponse, ''BlockchainGetESDTTokenResponse''),
      (BlockchainGetBuiltinFunctionNamesRequest, ''BlockchainGetBuiltinFunctionNamesRequest''),
      (BlockchainGetBuiltinFunctionNamesResponse, ''BlockchainGetBuiltinFunctionNamesResponse''),
      (BlockchainGetAllStateRequest, ''BlockchainGetAllStateRequest''),
      (BlockchainGetAllStateResponse, ''BlockchainGetAllStateResponse''),
      (BlockchainGetUserAccountRequest, ''BlockchainGetUserAccountRequest''),
      (BlockchainGetUserAccountResponse, ''BlockchainGetUserAccountResponse''),
      (BlockchainGetCodeRequest, ''BlockchainGetCodeRequest''),
      (BlockchainGetCodeResponse, ''BlockchainGetCodeResponse''),
      (BlockchainGetShardOfAddressRequest, ''BlockchainGetShardOfAddressRequest''),
      (BlockchainGetShardOfAddressResponse, ''BlockchainGetShardOfAddressResponse''),
      (BlockchainIsSmartContractRequest, ''BlockchainIsSmartContractRequest''),
      (BlockchainIsSmartContractResponse, ''BlockchainIsSmartContractResponse''),
      (BlockchainIsPayableRequest, ''BlockchainIsPayableRequest''),
      (BlockchainIsPayableResponse, ''BlockchainIsPayableResponse''),
      (BlockchainGetCompiledCodeResponse, ''BlockchainGetCompiledCodeResponse''),
      (BlockchainGetCompiledCodeRequest, ''BlockchainGetCompiledCodeRequest''),
      (BlockchainSaveCompiledCodeRequest, ''BlockchainSaveCompiledCodeRequest''),
      (BlockchainSaveCompiledCodeResponse, ''BlockchainSaveCompiledCodeResponse''),
      (DiagnoseWaitRequest, ''DiagnoseWaitRequest''),
      (DiagnoseWaitResponse, ''DiagnoseWaitResponse''),
      (VersionRequest, ''VersionRequest''),
      (VersionResponse, ''VersionResponse''),
      (BlockchainClearCompiledCodesRequest, ''BlockchainClearCompiledCodesRequest''),
      (BlockchainClearCompiledCodesResponse, ''BlockchainClearCompiledCodesResponse''),
      (BlockchainGetSnapshotRequest, ''BlockchainGetSnapshotRequest''),
      (BlockchainGetSnapshotResponse, ''BlockchainGetSnapshotResponse''),
      (BlockchainIsInterfaceNilRequest, ''BlockchainIsInterfaceNilRequest''),
      (BlockchainIsInterfaceNilResponse, ''BlockchainIsInterfaceNilResponse''),
      (BlockchainRevertToSnapshotRequest, ''BlockchainRevertToSnapshotRequest''),
      (BlockchainRevertToSnapshotResponse, ''BlockchainRevertToSnapshotResponse''),
      (BlockchainProcessBuiltInFunctionRequest, ''BlockchainProcessBuiltInFunctionRequest''),
      (BlockchainProcessBuiltInFunctionResponse, ''BlockchainProcessBuiltInFunctionResponse'' @ [CHR 0x09]),
      (UndefinedRequestOrResponse, ''UndefinedRequestOrResponse''),
      (LastKind, ''LastKind'')]"

section \<open>Errors of the dialogue\<close>

text \<open>
  The sentinels are critical errors with a fixed text, \<open>CriticalError\<close> wraps another error,
  \<open>HostError\<close> is an error of the VM host or of the blockchain hook, and \<open>IOError\<close> an error of the
  operating system or of the marshalizer.
\<close>

datatype ipc_error =
    ErrBadVMArguments
  | ErrVMClosed
  | ErrVMTimeExpired
  | ErrVMNotFound
  | ErrInvalidMessageNonce
  | ErrStopPerNodeRequest
  | ErrBadRequestFromNode
  | ErrBadMessageFromVM
  | ErrCannotSendContractRequest
  | ErrCannotSendHookCallResponse
  | ErrCannotSendHookCallRequest
  | ErrCannotReceiveHookCallResponse
  | ErrBadHookResponseFromNode
  | CriticalError ipc_error
  | HostError go_error
  | IOError string

fun ipc_error_text :: "ipc_error \<Rightarrow> string" where
  "ipc_error_text ErrBadVMArguments = ''critical error: '' @ ''bad arguments passed to vm''"
| "ipc_error_text ErrVMClosed = ''critical error: '' @ ''vm closed''"
| "ipc_error_text ErrVMTimeExpired = ''critical error: '' @ ''vm time expired''"
| "ipc_error_text ErrVMNotFound = ''critical error: '' @ ''vm binary not found''"
| "ipc_error_text ErrInvalidMessageNonce = ''critical error: '' @ ''invalid dialogue nonce''"
| "ipc_error_text ErrStopPerNodeRequest = ''critical error: '' @ ''vm will stop, as requested''"
| "ipc_error_text ErrBadRequestFromNode = ''critical error: '' @ ''bad message from node''"
| "ipc_error_text ErrBadMessageFromVM = ''critical error: '' @ ''bad message from vm''"
| "ipc_error_text ErrCannotSendContractRequest = ''critical error: '' @ ''cannot send contract request''"
| "ipc_error_text ErrCannotSendHookCallResponse = ''critical error: '' @ ''cannot send hook call response''"
| "ipc_error_text ErrCannotSendHookCallRequest = ''critical error: '' @ ''cannot send hook call request''"
| "ipc_error_text ErrCannotReceiveHookCallResponse = ''critical error: '' @ ''cannot receive hook call response''"
| "ipc_error_text ErrBadHookResponseFromNode = ''critical error: '' @ ''bad hook response from node''"
| "ipc_error_text (CriticalError err) = ''critical error: '' @ ipc_error_text err"
| "ipc_error_text (HostError e) = error_text e"
| "ipc_error_text (IOError t) = t"

definition WrapCriticalError :: "ipc_error \<Rightarrow> ipc_error" where
  "WrapCriticalError err = CriticalError err"

definition IsCriticalError :: "ipc_error \<Rightarrow> bool" where
  "IsCriticalError err = (case err of HostError _ \<Rightarrow> False | IOError _ \<Rightarrow> False | _ \<Rightarrow> True)"

text \<open>
  \<open>fmt.Errorf\<close> without operands: every directive of the format is answered with a complaint
  about the missing operand. Flags, explicit argument indexes, widths and precisions are skipped
  the way the formatter reads them; a verb is one character.
\<close>

fun parse_number :: "nat \<Rightarrow> string \<Rightarrow> string" where
  "parse_number num [] = []"
| "parse_number num (c # cs) =
     (if c \<in> set ''0123456789''
      then if num > 1000000 then [] else parse_number (num * 10 + (of_char c - 48)) cs
      else c # cs)"

definition starts_number :: "string \<Rightarrow> bool" where
  "starts_number cs = (case cs of [] \<Rightarrow> False | c # _ \<Rightarrow> c \<in> set ''0123456789'')"

text \<open>
  \<open>[n]\<close>: the rest of the format and whether the index was well formed; any index is bad, because
  there are no operands.
\<close>

definition arg_index :: "string \<Rightarrow> string \<times> bool" where
  "arg_index cs =
     (case cs of
        c # rest \<Rightarrow>
          if length cs < 3 \<or> CHR '']'' \<notin> set rest then (rest, False)
          else let inside = takeWhile (\<lambda>x. x \<noteq> CHR '']'') rest;
                   rest = drop (length inside + 1) rest
               in (rest, starts_number inside \<and> parse_number 0 inside = [])
      | [] \<Rightarrow> ([], False))"

text \<open>The state of one directive: what was written, the rest of the format, whether the last
  thing read was a well formed index, and whether the argument number is still good.\<close>

type_synonym directive = "string \<times> string \<times> bool \<times> bool"

definition next_is :: "char \<Rightarrow> string \<Rightarrow> bool" where
  "next_is c cs = (case cs of [] \<Rightarrow> False | x # _ \<Rightarrow> x = c)"

definition read_index :: "directive \<Rightarrow> directive" where
  "read_index d =
     (case d of (out, cs, afterIndex, good) \<Rightarrow>
        if next_is CHR ''['' cs
        then (let (rest, ok) = arg_index cs in (out, rest, ok, False))
        else (out, cs, False, good))"

definition read_width :: "directive \<Rightarrow> directive" where
  "read_width d =
     (case d of (out, cs, afterIndex, good) \<Rightarrow>
        if next_is CHR ''*'' cs then (out @ ''%!(BADWIDTH)'', tl cs, False, good)
        else (out, parse_number 0 cs, afterIndex,
              if afterIndex \<and> starts_number cs then False else good))"

definition read_precision :: "directive \<Rightarrow> directive" where
  "read_precision d =
     (case d of (out, cs, afterIndex, good) \<Rightarrow>
        if next_is CHR ''.'' cs then
          (let (out, cs, afterIndex, good) =
                 read_index (out, tl cs, afterIndex, if afterIndex then False else good)
           in if next_is CHR ''*'' cs then (out @ ''%!(BADPREC)'', tl cs, False, good)
              else (out, parse_number 0 cs, afterIndex, good))
        else d)"

definition read_directive :: "string \<Rightarrow> string \<times> string" where
  "read_directive cs =
     (let d = read_precision (read_width (read_index
                ([], dropWhile (\<lambda>c. c \<in> set ''#0+- '') cs, False, True)));
          (out, cs, afterIndex, good) = (if fst (snd (snd d)) then d else read_index d)
      in case cs of
           [] \<Rightarrow> (out @ ''%!(NOVERB)'', [])
         | verb # rest \<Rightarrow>
             if verb = CHR ''%'' then (out @ ''%'', rest)
             else if \<not> good then (out @ ''%!'' @ [verb] @ ''(BADINDEX)'', rest)
             else (out @ ''%!'' @ [verb] @ ''(MISSING)'', rest))"

lemma length_parse_number: "length (parse_number n cs) \<le> length cs"
  by (induction n cs rule: parse_number.induct) auto

lemma length_arg_index: "length (fst (arg_index cs)) \<le> length cs"
  by (auto simp: arg_index_def Let_def split: list.splits)

lemma length_read_index: "length (fst (snd (read_index d))) \<le> length (fst (snd d))"
  using length_arg_index [of "fst (snd d)"]
  by (auto simp: read_index_def split: prod.splits)

lemma length_read_width: "length (fst (snd (read_width d))) \<le> length (fst (snd d))"
  using length_parse_number [of 0 "fst (snd d)"]
  by (auto simp: read_width_def split: prod.splits)

lemma length_read_precision: "length (fst (snd (read_precision d))) \<le> length (fst (snd d))"
proof -
  obtain out cs afterIndex good where d: "d = (out, cs, afterIndex, good)" by (cases d)
  let ?d = "read_index (out, tl cs, afterIndex, if afterIndex then False else good)"
  have "length (fst (snd ?d)) \<le> length cs"
    using length_read_index [of "(out, tl cs, afterIndex, if afterIndex then False else good)"]
    by simp
  then show ?thesis
    using length_parse_number [of 0 "fst (snd ?d)"]
    by (auto simp: d read_precision_def split: prod.splits)
qed

lemma length_read_directive: "length (snd (read_directive cs)) \<le> length cs"
proof -
  define cs0 where "cs0 = dropWhile (\<lambda>c. c \<in> set ''#0+- '') cs"
  define d where "d = read_precision (read_width (read_index ([], cs0, False, True)))"
  define d' where "d' = (if fst (snd (snd d)) then d else read_index d)"
  have "length cs0 \<le> length cs" by (simp add: cs0_def length_dropWhile_le)
  moreover have "length (fst (snd d)) \<le> length cs0"
    unfolding d_def
    using length_read_precision [of "read_width (read_index ([], cs0, False, True))"]
      length_read_width [of "read_index ([], cs0, False, True)"]
      length_read_index [of "([], cs0, False, True)"]
    by simp
  moreover have "length (fst (snd d')) \<le> length (fst (snd d))"
    using length_read_index [of d] by (simp add: d'_def)
  moreover have "length (snd (read_directive cs)) \<le> length (fst (snd d'))"
    by (auto simp: read_directive_def Let_def d'_def d_def cs0_def
        split: prod.splits list.splits)
  ultimately show ?thesis by linarith
qed

function Errorf :: "string \<Rightarrow> string" where
  "Errorf [] = []"
| "Errorf (c # cs) =
     (if c \<noteq> CHR ''%'' then c # Errorf cs
      else fst (read_directive cs) @ Errorf (snd (read_directive cs)))"
  by pat_completeness auto
termination
  by (relation "measure length") (auto simp: length_read_directive le_imp_less_Suc)

lemma Errorf_plain: "CHR ''%'' \<notin> set msg \<Longrightarrow> Errorf msg = msg"
  by (induction msg) auto

section \<open>Serializable maps and VM outputs\<close>

record SerializableMapStringBytes =
  sm_Keys :: "bytes list"
  sm_Values :: "bytes list"

definition NewSerializableMapStringBytes :: "(bytes, bytes) gomap \<Rightarrow> SerializableMapStringBytes" where
  "NewSerializableMapStringBytes data = \<lparr>sm_Keys = map fst data, sm_Values = map snd data\<rparr>"

text \<open>The loop indexes the values with the indexes of the keys: too few values are a panic.\<close>

definition ConvertToMap :: "SerializableMapStringBytes \<Rightarrow> (bytes, bytes) gomap option" where
  "ConvertToMap s =
     (if length (sm_Keys s) \<le> length (sm_Values s)
      then Some (fold (\<lambda>(k, v). map_put k v) (zip (sm_Keys s) (sm_Values s)) [])
      else None)"

record SerializableOutputTransfer =
  st_Value :: int
  st_Data :: bytes
  st_GasLimit :: u64
  st_GasLocked :: u64
  st_CallType :: CallType
  st_SenderAddress :: address

record SerializableOutputAccount =
  sa_Address :: address
  sa_Nonce :: u64
  sa_Balance :: "int option"
  sa_BalanceDelta :: "int option"
  sa_StorageUpdates :: "StorageUpdate list"
  sa_Code :: bytes
  sa_CodeMetadata :: bytes
  sa_GasUsed :: u64
  sa_Transfers :: "SerializableOutputTransfer list"
  sa_CodeDeployerAddress :: "address option"

record SerializableVMOutput =
  so_ReturnData :: "bytes list"
  so_ReturnCode :: ReturnCode
  so_ReturnMessage :: string
  so_GasRemaining :: u64
  so_GasRefund :: "int option"
  so_CorrectedOutputAccounts :: "SerializableOutputAccount list"
  so_DeletedAccounts :: "address list"
  so_TouchedAccounts :: "address list"
  so_Logs :: "LogEntry list"

definition serializable_transfer :: "OutputTransfer \<Rightarrow> SerializableOutputTransfer" where
  "serializable_transfer transfer =
     \<lparr>st_Value = ot_Value transfer,
      st_Data = ot_Data transfer,
      st_GasLimit = ot_GasLimit transfer,
      st_GasLocked = ot_GasLocked transfer,
      st_CallType = ot_CallType transfer,
      st_SenderAddress = ot_SenderAddress transfer\<rparr>"

definition output_transfer :: "SerializableOutputTransfer \<Rightarrow> OutputTransfer" where
  "output_transfer transfer =
     \<lparr>ot_Value = st_Value transfer,
      ot_GasLimit = st_GasLimit transfer,
      ot_GasLocked = st_GasLocked transfer,
      ot_Data = st_Data transfer,
      ot_CallType = st_CallType transfer,
      ot_SenderAddress = st_SenderAddress transfer\<rparr>"

definition NewSerializableOutputAccount :: "OutputAccount \<Rightarrow> SerializableOutputAccount" where
  "NewSerializableOutputAccount account =
     \<lparr>sa_Address = oa_Address account,
      sa_Nonce = oa_Nonce account,
      sa_Balance = oa_Balance account,
      sa_BalanceDelta = oa_BalanceDelta account,
      sa_StorageUpdates = map snd (oa_StorageUpdates account),
      sa_Code = oa_Code account,
      sa_CodeMetadata = oa_CodeMetadata account,
      sa_GasUsed = oa_GasUsed account,
      sa_Transfers = map serializable_transfer (oa_OutputTransfers account),
      sa_CodeDeployerAddress = oa_CodeDeployerAddress account\<rparr>"

definition ConvertToOutputAccount :: "SerializableOutputAccount \<Rightarrow> OutputAccount" where
  "ConvertToOutputAccount a =
     \<lparr>oa_Address = sa_Address a,
      oa_Nonce = sa_Nonce a,
      oa_Balance = sa_Balance a,
      oa_BalanceDelta = sa_BalanceDelta a,
      oa_StorageUpdates = fold (\<lambda>item. map_put (su_Offset item) item) (sa_StorageUpdates a) [],
      oa_Code = sa_Code a,
      oa_CodeMetadata = sa_CodeMetadata a,
      oa_CodeDeployerAddress = sa_CodeDeployerAddress a,
      oa_OutputTransfers = map output_transfer (sa_Transfers a),
      oa_GasUsed = sa_GasUsed a\<rparr>"

text \<open>A nil output becomes the zero structure.\<close>

definition NewSerializableVMOutput :: "VMOutput option \<Rightarrow> SerializableVMOutput" where
  "NewSerializableVMOutput vmOutput =
     (case vmOutput of
        None \<Rightarrow>
          \<lparr>so_ReturnData = [], so_ReturnCode = Ok, so_ReturnMessage = [], so_GasRemaining = 0,
           so_GasRefund = None, so_CorrectedOutputAccounts = [], so_DeletedAccounts = [],
           so_TouchedAccounts = [], so_Logs = []\<rparr>
      | Some o' \<Rightarrow>
          \<lparr>so_ReturnData = vo_ReturnData o',
           so_ReturnCode = vo_ReturnCode o',
           so_ReturnMessage = vo_ReturnMessage o',
           so_GasRemaining = vo_GasRemaining o',
           so_GasRefund = vo_GasRefund o',
           so_CorrectedOutputAccounts =
             map (\<lambda>(_, account). NewSerializableOutputAccount account) (vo_OutputAccounts o'),
           so_DeletedAccounts = vo_DeletedAccounts o',
           so_TouchedAccounts = vo_TouchedAccounts o',
           so_Logs = vo_Logs o'\<rparr>)"

definition ConvertToVMOutput :: "SerializableVMOutput \<Rightarrow> VMOutput" where
  "ConvertToVMOutput s =
     \<lparr>vo_ReturnData = so_ReturnData s,
      vo_ReturnCode = so_ReturnCode s,
      vo_ReturnMessage = so_ReturnMessage s,
      vo_GasRemaining = so_GasRemaining s,
      vo_GasRefund = so_GasRefund s,
      vo_OutputAccounts =
        fold (\<lambda>item. map_put (sa_Address item) (ConvertToOutputAccount item))
          (so_CorrectedOutputAccounts s) [],
      vo_DeletedAccounts = so_DeletedAccounts s,
      vo_TouchedAccounts = so_TouchedAccounts s,
      vo_Logs = so_Logs s\<rparr>"

section \<open>Accounts\<close>

record Account =
  acc_Nonce :: u64
  acc_Balance :: "int option"
  acc_CodeHash :: bytes
  acc_RootHash :: bytes
  acc_Address :: address
  acc_DeveloperReward :: "int option"
  acc_OwnerAddress :: address
  acc_UserName :: bytes
  acc_CodeMetadata :: bytes

definition Account_GetBalance :: "Account \<Rightarrow> int" where
  "Account_GetBalance a = (case acc_Balance a of None \<Rightarrow> 0 | Some b \<Rightarrow> b)"

definition Account_GetDeveloperReward :: "Account \<Rightarrow> int" where
  "Account_GetDeveloperReward a = (case acc_DeveloperReward a of None \<Rightarrow> 0 | Some r \<Rightarrow> r)"

section \<open>Messages\<close>

type_synonym FunctionNames = "(string, unit) gomap"

text \<open>
  The arguments of the VM process. The two interfaces among the host parameters (the container
  of the built-in functions and the epoch flags) cannot be sent through a pipe and are left out.
\<close>

record VMArguments =
  va_VMType :: bytes
  va_BlockGasLimit :: u64
  va_GasSchedule :: GasScheduleMap
  va_ProtectedKeyPrefix :: bytes
  va_WasmerSIGSEGVPassthrough :: bool
  va_UseWarmInstance :: bool
  va_LogsMarshalizer :: u32
  va_MessagesMarshalizer :: u32

datatype HookRequest =
    MessageBlockchainNewAddressRequest bytes u64 bytes
  | MessageBlockchainGetStorageDataRequest bytes bytes
  | MessageBlockchainGetBlockhashRequest u64
  | MessageBlockchainLastNonceRequest
  | MessageBlockchainLastRoundRequest
  | MessageBlockchainLastTimeStampRequest
  | MessageBlockchainLastRandomSeedRequest
  | MessageBlockchainLastEpochRequest
  | MessageBlockchainGetStateRootHashRequest
  | MessageBlockchainCurrentNonceRequest
  | MessageBlockchainCurrentRoundRequest
  | MessageBlockchainCurrentTimeStampRequest
  | MessageBlockchainCurrentRandomSeedRequest
  | MessageBlockchainCurrentEpochRequest
  | MessageBlockchainProcessBuiltInFunctionRequest "ContractCallInput option"
  | MessageBlockchainGetBuiltinFunctionNamesRequest
  | MessageBlockchainGetAllStateRequest bytes
  | MessageBlockchainGetUserAccountRequest bytes
  | MessageBlockchainGetCodeRequest "Account option"
  | MessageBlockchainGetShardOfAddressRequest bytes
  | MessageBlockchainIsSmartContractRequest bytes
  | MessageBlockchainIsPayableRequest bytes
  | MessageBlockchainSaveCompiledCodeRequest bytes bytes
  | MessageBlockchainGetCompiledCodeRequest bytes
  | MessageBlockchainClearCompiledCodesRequest
  | MessageBlockchainGetESDTTokenRequest bytes bytes u64
  | MessageBlockchainIsInterfaceNilRequest
  | MessageBlockchainGetSnapshotRequest
  | MessageBlockchainRevertToSnapshotRequest int

datatype HookResponse =
    MessageBlockchainNewAddressResponse bytes
  | MessageBlockchainGetStorageDataResponse bytes
  | MessageBlockchainGetBlockhashResponse bytes
  | MessageBlockchainLastNonceResponse u64
  | MessageBlockchainLastRoundResponse u64
  | MessageBlockchainLastTimeStampResponse u64
  | MessageBlockchainLastRandomSeedResponse bytes
  | MessageBlockchainLastEpochResponse u32
  | MessageBlockchainGetStateRootHashResponse bytes
  | MessageBlockchainCurrentNonceResponse u64
  | MessageBlockchainCurrentRoundResponse u64
  | MessageBlockchainCurrentTimeStampResponse u64
  | MessageBlockchainCurrentRandomSeedResponse bytes
  | MessageBlockchainCurrentEpochResponse u32
  | MessageBlockchainProcessBuiltInFunctionResponse "SerializableVMOutput option"
  | MessageBlockchainGetBuiltinFunctionNamesResponse FunctionNames
  | MessageBlockchainGetAllStateResponse "SerializableMapStringBytes option"
  | MessageBlockchainGetUserAccountResponse "Account option"
  | MessageBlockchainGetCodeResponse bytes
  | MessageBlockchainGetShardOfAddressResponse u32
  | MessageBlockchainIsSmartContractResponse bool
  | MessageBlockchainIsPayableResponse bool
  | MessageBlockchainSaveCompiledCodeResponse
  | MessageBlockchainGetCompiledCodeResponse bool bytes
  | MessageBlockchainClearCompiledCodesResponse
  | MessageBlockchainGetESDTTokenResponse "ESDigitalToken option"
  | MessageBlockchainIsInterfaceNilResponse bool
  | MessageBlockchainGetSnapshotResponse int
  | MessageBlockchainRevertToSnapshotResponse

datatype MessageBody =
    MessageInitialize "VMArguments option"
  | MessageStop
  | MessageContractDeployRequest "ContractCreateInput option"
  | MessageContractCallRequest "ContractCallInput option"
  | MessageContractResponse "SerializableVMOutput option"
  | MessageDiagnoseWaitRequest u32
  | MessageDiagnoseWaitResponse
  | MessageVersionRequest
  | MessageVersionResponse string
  | MessageGasScheduleChangeRequest GasScheduleMap
  | BareMessage
  | UndefinedMessage
  | HookRequest HookRequest
  | HookResponse HookResponse

record Message =
  msg_DialogueNonce :: u32
  msg_Kind :: MessageKind
  msg_ErrorMessage :: string
  msg_Body :: MessageBody

definition SetNonce :: "u32 \<Rightarrow> Message \<Rightarrow> Message" where
  "SetNonce nonce message = message\<lparr>msg_DialogueNonce := nonce\<rparr>"

definition SetKind :: "MessageKind \<Rightarrow> Message \<Rightarrow> Message" where
  "SetKind kind message = message\<lparr>msg_Kind := kind\<rparr>"

definition GetError :: "Message \<Rightarrow> ipc_error option" where
  "GetError message =
     (if msg_ErrorMessage message = [] then None
      else Some (HostError (OtherError (Errorf (msg_ErrorMessage message)))))"

definition SetError :: "ipc_error option \<Rightarrow> Message \<Rightarrow> Message" where
  "SetError err message =
     (case err of None \<Rightarrow> message | Some e \<Rightarrow> message\<lparr>msg_ErrorMessage := ipc_error_text e\<rparr>)"

definition GetKindName :: "Message \<Rightarrow> string" where
  "GetKindName message = map_get_or [] messageKindNameByID (msg_Kind message)"

text \<open>A fresh structure with its kind.\<close>

abbreviation new_message :: "MessageKind \<Rightarrow> MessageBody \<Rightarrow> Message" where
  "new_message kind body \<equiv>
     \<lparr>msg_DialogueNonce = 0, msg_Kind = kind, msg_ErrorMessage = [], msg_Body = body\<rparr>"

definition NewMessageInitialize :: "VMArguments \<Rightarrow> Message" where
  "NewMessageInitialize arguments = new_message Initialize (MessageInitialize (Some arguments))"

definition NewMessageStop :: Message where
  "NewMessageStop = new_message Stop MessageStop"

definition NewUndefinedMessage :: Message where
  "NewUndefinedMessage = SetNonce 0xFFFFFFFF (new_message UndefinedRequestOrResponse UndefinedMessage)"

definition NewMessageContractDeployRequest :: "ContractCreateInput option \<Rightarrow> Message" where
  "NewMessageContractDeployRequest input =
     new_message ContractDeployRequest (MessageContractDeployRequest input)"

definition NewMessageContractCallRequest :: "ContractCallInput option \<Rightarrow> Message" where
  "NewMessageContractCallRequest input =
     new_message ContractCallRequest (MessageContractCallRequest input)"

definition NewMessageContractResponse :: "VMOutput option \<Rightarrow> ipc_error option \<Rightarrow> Message" where
  "NewMessageContractResponse vmOutput err =
     SetError err (new_message ContractResponse
       (MessageContractResponse (Some (NewSerializableVMOutput vmOutput))))"

definition NewMessageVersionRequest :: Message where
  "NewMessageVersionRequest = new_message VersionRequest MessageVersionRequest"

definition NewMessageVersionResponse :: "string \<Rightarrow> Message" where
  "NewMessageVersionResponse version = new_message VersionResponse (MessageVersionResponse version)"

definition NewMessageGasScheduleChangeRequest :: "GasScheduleMap \<Rightarrow> Message" where
  "NewMessageGasScheduleChangeRequest gasSchedule =
     new_message GasScheduleChangeRequest (MessageGasScheduleChangeRequest gasSchedule)"

definition NewGasScheduleChangeResponse :: Message where
  "NewGasScheduleChangeResponse = new_message GasScheduleChangeResponse BareMessage"

definition NewMessageDiagnoseWaitRequest :: "u32 \<Rightarrow> Message" where
  "NewMessageDiagnoseWaitRequest milliseconds =
     new_message DiagnoseWaitRequest (MessageDiagnoseWaitRequest milliseconds)"

definition NewMessageDiagnoseWaitResponse :: Message where
  "NewMessageDiagnoseWaitResponse = new_message DiagnoseWaitResponse MessageDiagnoseWaitResponse"

section \<open>Messages of the blockchain hook\<close>

definition NewMessageBlockchainNewAddressRequest :: "bytes \<Rightarrow> u64 \<Rightarrow> bytes \<Rightarrow> Message" where
  "NewMessageBlockchainNewAddressRequest creatorAddress creatorNonce vmType =
     new_message BlockchainNewAddressRequest (HookRequest (MessageBlockchainNewAddressRequest creatorAddress creatorNonce vmType))"

definition NewMessageBlockchainNewAddressResponse :: "bytes \<Rightarrow> (ipc_error option) \<Rightarrow> Message" where
  "NewMessageBlockchainNewAddressResponse result err =
     SetError err
       (new_message BlockchainNewAddressResponse (HookResponse (MessageBlockchainNewAddressResponse result)))"

definition NewMessageBlockchainGetStorageDataRequest :: "bytes \<Rightarrow> bytes \<Rightarrow> Message" where
  "NewMessageBlockchainGetStorageDataRequest accountAddress index =
     new_message BlockchainGetStorageDataRequest (HookRequest (MessageBlockchainGetStorageDataRequest accountAddress index))"

definition NewMessageBlockchainGetStorageDataResponse :: "bytes \<Rightarrow> (ipc_error option) \<Rightarrow> Message" where
  "NewMessageBlockchainGetStorageDataResponse data err =
     SetError err
       (new_message BlockchainGetStorageDataResponse (HookResponse (MessageBlockchainGetStorageDataResponse data)))"

definition NewMessageBlockchainGetBlockhashRequest :: "u64 \<Rightarrow> Message" where
  "NewMessageBlockchainGetBlockhashRequest nonce =
     new_message BlockchainGetBlockhashRequest (HookRequest (MessageBlockchainGetBlockhashRequest nonce))"

definition NewMessageBlockchainGetBlockhashResponse :: "bytes \<Rightarrow> (ipc_error option) \<Rightarrow> Message" where
  "NewMessageBlockchainGetBlockhashResponse result err =
     SetError err
       (new_message BlockchainGetBlockhashResponse (HookResponse (MessageBlockchainGetBlockhashResponse result)))"

definition NewMessageBlockchainLastNonceRequest :: "Message" where
  "NewMessageBlockchainLastNonceRequest =
     new_message BlockchainLastNonceRequest (HookRequest MessageBlockchainLastNonceRequest)"

definition NewMessageBlockchainLastNonceResponse :: "u64 \<Rightarrow> Message" where
  "NewMessageBlockchainLastNonceResponse result =
     new_message BlockchainLastNonceResponse (HookResponse (MessageBlockchainLastNonceResponse result))"

definition NewMessageBlockchainLastRoundRequest :: "Message" where
  "NewMessageBlockchainLastRoundRequest =
     new_message BlockchainLastRoundRequest (HookRequest MessageBlockchainLastRoundRequest)"

definition NewMessageBlockchainLastRoundResponse :: "u64 \<Rightarrow> Message" where
  "NewMessageBlockchainLastRoundResponse result =
     new_message BlockchainLastRoundResponse (HookResponse (MessageBlockchainLastRoundResponse result))"

definition NewMessageBlockchainLastTimeStampRequest :: "Message" where
  "NewMessageBlockchainLastTimeStampRequest =
     new_message BlockchainLastTimeStampRequest (HookRequest MessageBlockchainLastTimeStampRequest)"

definition NewMessageBlockchainLastTimeStampResponse :: "u64 \<Rightarrow> Message" where
  "NewMessageBlockchainLastTimeStampResponse result =
     new_message BlockchainLastTimeStampResponse (HookResponse (MessageBlockchainLastTimeStampResponse result))"

definition NewMessageBlockchainLastRandomSeedRequest :: "Message" where
  "NewMessageBlockchainLastRandomSeedRequest =
     new_message BlockchainLastRandomSeedRequest (HookRequest MessageBlockchainLastRandomSeedRequest)"

definition NewMessageBlockchainLastRandomSeedResponse :: "bytes \<Rightarrow> Message" where
  "NewMessageBlockchainLastRandomSeedResponse result =
     new_message BlockchainLastRandomSeedResponse (HookResponse (MessageBlockchainLastRandomSeedResponse result))"

definition NewMessageBlockchainLastEpochRequest :: "Message" where
  "NewMessageBlockchainLastEpochRequest =
     new_message BlockchainLastEpochRequest (HookRequest MessageBlockchainLastEpochRequest)"

definition NewMessageBlockchainLastEpochResponse :: "u32 \<Rightarrow> Message" where
  "NewMessageBlockchainLastEpochResponse result =
     new_message BlockchainLastEpochResponse (HookResponse (MessageBlockchainLastEpochResponse result))"

definition NewMessageBlockchainGetStateRootHashRequest :: "Message" where
  "NewMessageBlockchainGetStateRootHashRequest =
     new_message BlockchainGetStateRootHashRequest (HookRequest MessageBlockchainGetStateRootHashRequest)"

definition NewMessageBlockchainGetStateRootHashResponse :: "bytes \<Rightarrow> Message" where
  "NewMessageBlockchainGetStateRootHashResponse result =
     new_message BlockchainGetStateRootHashResponse (HookResponse (MessageBlockchainGetStateRootHashResponse result))"

definition NewMessageBlockchainCurrentNonceRequest :: "Message" where
  "NewMessageBlockchainCurrentNonceRequest =
     new_message BlockchainCurrentNonceRequest (HookRequest MessageBlockchainCurrentNonceRequest)"

definition NewMessageBlockchainCurrentNonceResponse :: "u64 \<Rightarrow> Message" where
  "NewMessageBlockchainCurrentNonceResponse result =
     new_message BlockchainCurrentNonceResponse (HookResponse (MessageBlockchainCurrentNonceResponse result))"

definition NewMessageBlockchainCurrentRoundRequest :: "Message" where
  "NewMessageBlockchainCurrentRoundRequest =
     new_message BlockchainCurrentRoundRequest (HookRequest MessageBlockchainCurrentRoundRequest)"

definition NewMessageBlockchainCurrentRoundResponse :: "u64 \<Rightarrow> Message" where
  "NewMessageBlockchainCurrentRoundResponse result =
     new_message BlockchainCurrentRoundResponse (HookResponse (MessageBlockchainCurrentRoundResponse result))"

definition NewMessageBlockchainCurrentTimeStampRequest :: "Message" where
  "NewMessageBlockchainCurrentTimeStampRequest =
     new_message BlockchainCurrentTimeStampRequest (HookRequest MessageBlockchainCurrentTimeStampRequest)"

definition NewMessageBlockchainCurrentTimeStampResponse :: "u64 \<Rightarrow> Message" where
  "NewMessageBlockchainCurrentTimeStampResponse result =
     new_message BlockchainCurrentTimeStampResponse (HookResponse (MessageBlockchainCurrentTimeStampResponse result))"

definition NewMessageBlockchainCurrentRandomSeedRequest :: "Message" where
  "NewMessageBlockchainCurrentRandomSeedRequest =
     new_message BlockchainCurrentRandomSeedRequest (HookRequest MessageBlockchainCurrentRandomSeedRequest)"

definition NewMessageBlockchainCurrentRandomSeedResponse :: "bytes \<Rightarrow> Message" where
  "NewMessageBlockchainCurrentRandomSeedResponse result =
     new_message BlockchainCurrentRandomSeedResponse (HookResponse (MessageBlockchainCurrentRandomSeedResponse result))"

definition NewMessageBlockchainCurrentEpochRequest :: "Message" where
  "NewMessageBlockchainCurrentEpochRequest =
     new_message BlockchainCurrentEpochRequest (HookRequest MessageBlockchainCurrentEpochRequest)"

definition NewMessageBlockchainCurrentEpochResponse :: "u32 \<Rightarrow> Message" where
  "NewMessageBlockchainCurrentEpochResponse result =
     new_message BlockchainCurrentEpochResponse (HookResponse (MessageBlockchainCurrentEpochResponse result))"

definition NewMessageBlockchainProcessBuiltInFunctionRequest :: "(ContractCallInput option) \<Rightarrow> Message" where
  "NewMessageBlockchainProcessBuiltInFunctionRequest input =
     new_message BlockchainProcessBuiltInFunctionRequest (HookRequest (MessageBlockchainProcessBuiltInFunctionRequest input))"

definition NewMessageBlockchainProcessBuiltInFunctionResponse :: "(VMOutput option) \<Rightarrow> (ipc_error option) \<Rightarrow> Message" where
  "NewMessageBlockchainProcessBuiltInFunctionResponse vmOutput err =
     SetError err
       (new_message BlockchainProcessBuiltInFunctionResponse (HookResponse (MessageBlockchainProcessBuiltInFunctionResponse (Some (NewSerializableVMOutput vmOutput)))))"

definition NewMessageBlockchainGetBuiltinFunctionNamesRequest :: "Message" where
  "NewMessageBlockchainGetBuiltinFunctionNamesRequest =
     new_message BlockchainGetBuiltinFunctionNamesRequest (HookRequest MessageBlockchainGetBuiltinFunctionNamesRequest)"

definition NewMessageBlockchainGetBuiltinFunctionNamesResponse :: "FunctionNames \<Rightarrow> Message" where
  "NewMessageBlockchainGetBuiltinFunctionNamesResponse result =
     new_message BlockchainGetBuiltinFunctionNamesResponse (HookResponse (MessageBlockchainGetBuiltinFunctionNamesResponse result))"

definition NewMessageBlockchainGetAllStateRequest :: "bytes \<Rightarrow> Message" where
  "NewMessageBlockchainGetAllStateRequest address =
     new_message BlockchainGetAllStateRequest (HookRequest (MessageBlockchainGetAllStateRequest address))"

definition NewMessageBlockchainGetAllStateResponse :: "((bytes, bytes) gomap) \<Rightarrow> (ipc_error option) \<Rightarrow> Message" where
  "NewMessageBlockchainGetAllStateResponse result err =
     SetError err
       (new_message BlockchainGetAllStateResponse (HookResponse (MessageBlockchainGetAllStateResponse (Some (NewSerializableMapStringBytes result)))))"

definition NewMessageBlockchainGetUserAccountRequest :: "bytes \<Rightarrow> Message" where
  "NewMessageBlockchainGetUserAccountRequest address =
     new_message BlockchainGetUserAccountRequest (HookRequest (MessageBlockchainGetUserAccountRequest address))"

definition NewMessageBlockchainGetUserAccountResponse :: "(Account option) \<Rightarrow> (ipc_error option) \<Rightarrow> Message" where
  "NewMessageBlockchainGetUserAccountResponse result err =
     SetError err
       (new_message BlockchainGetUserAccountResponse (HookResponse (MessageBlockchainGetUserAccountResponse result)))"

definition NewMessageBlockchainGetCodeRequest :: "(Account option) \<Rightarrow> Message" where
  "NewMessageBlockchainGetCodeRequest account =
     new_message BlockchainGetCodeRequest (HookRequest (MessageBlockchainGetCodeRequest account))"

definition NewMessageBlockchainGetCodeResponse :: "bytes \<Rightarrow> Message" where
  "NewMessageBlockchainGetCodeResponse code =
     new_message BlockchainGetCodeResponse (HookResponse (MessageBlockchainGetCodeResponse code))"

definition NewMessageBlockchainGetShardOfAddressRequest :: "bytes \<Rightarrow> Message" where
  "NewMessageBlockchainGetShardOfAddressRequest address =
     new_message BlockchainGetShardOfAddressRequest (HookRequest (MessageBlockchainGetShardOfAddressRequest address))"

definition NewMessageBlockchainGetShardOfAddressResponse :: "u32 \<Rightarrow> Message" where
  "NewMessageBlockchainGetShardOfAddressResponse result =
     new_message BlockchainGetShardOfAddressResponse (HookResponse (MessageBlockchainGetShardOfAddressResponse result))"

definition NewMessageBlockchainIsSmartContractRequest :: "bytes \<Rightarrow> Message" where
  "NewMessageBlockchainIsSmartContractRequest address =
     new_message BlockchainIsSmartContractRequest (HookRequest (MessageBlockchainIsSmartContractRequest address))"

definition NewMessageBlockchainIsSmartContractResponse :: "bool \<Rightarrow> Message" where
  "NewMessageBlockchainIsSmartContractResponse result =
     new_message BlockchainIsSmartContractResponse (HookResponse (MessageBlockchainIsSmartContractResponse result))"

definition NewMessageBlockchainIsPayableRequest :: "bytes \<Rightarrow> Message" where
  "NewMessageBlockchainIsPayableRequest address =
     new_message BlockchainIsPayableRequest (HookRequest (MessageBlockchainIsPayableRequest address))"

definition NewMessageBlockchainIsPayableResponse :: "bool \<Rightarrow> (ipc_error option) \<Rightarrow> Message" where
  "NewMessageBlockchainIsPayableResponse result err =
     SetError err
       (new_message BlockchainIsPayableResponse (HookResponse (MessageBlockchainIsPayableResponse result)))"

definition NewMessageBlockchainSaveCompiledCodeRequest :: "bytes \<Rightarrow> bytes \<Rightarrow> Message" where
  "NewMessageBlockchainSaveCompiledCodeRequest codeHash code =
     new_message BlockchainSaveCompiledCodeRequest (HookRequest (MessageBlockchainSaveCompiledCodeRequest codeHash code))"

definition NewMessageBlockchainSaveCompiledCodeResponse :: "Message" where
  "NewMessageBlockchainSaveCompiledCodeResponse =
     new_message BlockchainSaveCompiledCodeResponse (HookResponse MessageBlockchainSaveCompiledCodeResponse)"

definition NewMessageBlockchainGetCompiledCodeRequest :: "bytes \<Rightarrow> Message" where
  "NewMessageBlockchainGetCompiledCodeRequest codeHash =
     new_message BlockchainGetCompiledCodeRequest (HookRequest (MessageBlockchainGetCompiledCodeRequest codeHash))"

definition NewMessageBlockchainGetCompiledCodeResponse :: "bool \<Rightarrow> bytes \<Rightarrow> Message" where
  "NewMessageBlockchainGetCompiledCodeResponse found code =
     new_message BlockchainGetCompiledCodeResponse (HookResponse (MessageBlockchainGetCompiledCodeResponse found code))"

definition NewMessageBlockchainClearCompiledCodesRequest :: "Message" where
  "NewMessageBlockchainClearCompiledCodesRequest =
     new_message BlockchainClearCompiledCodesRequest (HookRequest MessageBlockchainClearCompiledCodesRequest)"

definition NewMessageBlockchainClearCompiledCodesResponse :: "Message" where
  "NewMessageBlockchainClearCompiledCodesResponse =
     new_message BlockchainClearCompiledCodesResponse (HookResponse MessageBlockchainClearCompiledCodesResponse)"

definition NewMessageBlockchainGetESDTTokenRequest :: "bytes \<Rightarrow> bytes \<Rightarrow> u64 \<Rightarrow> Message" where
  "NewMessageBlockchainGetESDTTokenRequest address tokenID nonce =
     new_message BlockchainGetESDTTokenRequest (HookRequest (MessageBlockchainGetESDTTokenRequest address tokenID nonce))"

definition NewMessageBlockchainGetESDTTokenResponse :: "(ESDigitalToken option) \<Rightarrow> (ipc_error option) \<Rightarrow> Message" where
  "NewMessageBlockchainGetESDTTokenResponse result err =
     SetError err
       (new_message BlockchainGetESDTTokenResponse (HookResponse (MessageBlockchainGetESDTTokenResponse result)))"

definition NewMessageBlockchainIsInterfaceNilRequest :: "Message" where
  "NewMessageBlockchainIsInterfaceNilRequest =
     new_message BlockchainIsInterfaceNilRequest (HookRequest MessageBlockchainIsInterfaceNilRequest)"

definition NewMessageBlockchainIsInterfaceNilResponse :: "bool \<Rightarrow> Message" where
  "NewMessageBlockchainIsInterfaceNilResponse result =
     new_message BlockchainIsInterfaceNilResponse (HookResponse (MessageBlockchainIsInterfaceNilResponse result))"

definition NewMessageBlockchainGetSnapshotRequest :: "Message" where
  "NewMessageBlockchainGetSnapshotRequest =
     new_message BlockchainGetSnapshotRequest (HookRequest MessageBlockchainGetSnapshotRequest)"

definition NewMessageBlockchainGetSnapshotResponse :: "int \<Rightarrow> Message" where
  "NewMessageBlockchainGetSnapshotResponse result =
     new_message BlockchainGetSnapshotResponse (HookResponse (MessageBlockchainGetSnapshotResponse result))"

definition NewMessageBlockchainRevertToSnapshotRequest :: "int \<Rightarrow> Message" where
  "NewMessageBlockchainRevertToSnapshotRequest snapshot =
     new_message BlockchainRevertToSnapshotRequest (HookRequest (MessageBlockchainRevertToSnapshotRequest snapshot))"

definition NewMessageBlockchainRevertToSnapshotResponse :: "(ipc_error option) \<Rightarrow> Message" where
  "NewMessageBlockchainRevertToSnapshotResponse err =
     SetError err
       (new_message BlockchainRevertToSnapshotResponse (HookResponse MessageBlockchainRevertToSnapshotResponse))"

section \<open>Message factory\<close>

text \<open>
  The structures that \<open>messageCreators\<close> allocates, by kind; every other kind gets an undefined
  message. The changes of the gas schedule and the unused kind
  \<open>BlockchainProcessBuiltinFunctionRequest\<close> have no entry.
\<close>

definition messageCreators :: "(MessageKind, MessageBody) gomap" where
  "messageCreators =
     [(Initialize, MessageInitialize None),
      (Stop, MessageStop),
      (ContractDeployRequest, MessageContractDeployRequest None),
      (ContractCallRequest, MessageContractCallRequest None),
      (ContractResponse, MessageContractResponse None),
      (DiagnoseWaitRequest, MessageDiagnoseWaitRequest 0),
      (DiagnoseWaitResponse, MessageDiagnoseWaitResponse),
      (VersionRequest, MessageVersionRequest),
      (VersionResponse, MessageVersionResponse []),
      (BlockchainNewAddressRequest, HookRequest (MessageBlockchainNewAddressRequest [] 0 [])),
      (BlockchainNewAddressResponse, HookResponse (MessageBlockchainNewAddressResponse [])),
      (BlockchainGetStorageDataRequest, HookRequest (MessageBlockchainGetStorageDataRequest [] [])),
      (BlockchainGetStorageDataResponse, HookResponse (MessageBlockchainGetStorageDataResponse [])),
      (BlockchainGetBlockhashRequest, HookRequest (MessageBlockchainGetBlockhashRequest 0)),
      (BlockchainGetBlockhashResponse, HookResponse (MessageBlockchainGetBlockhashResponse [])),
      (BlockchainLastNonceRequest, HookRequest MessageBlockchainLastNonceRequest),
      (BlockchainLastNonceResponse, HookResponse (MessageBlockchainLastNonceResponse 0)),
      (BlockchainLastRoundRequest, HookRequest MessageBlockchainLastRoundRequest),
      (BlockchainLastRoundResponse, HookResponse (MessageBlockchainLastRoundResponse 0)),
      (BlockchainLastTimeStampRequest, HookRequest MessageBlockchainLastTimeStampRequest),
      (BlockchainLastTimeStampResponse, HookResponse (MessageBlockchainLastTimeStampResponse 0)),
      (BlockchainLastRandomSeedRequest, HookRequest MessageBlockchainLastRandomSeedRequest),
      (BlockchainLastRandomSeedResponse, HookResponse (MessageBlockchainLastRandomSeedResponse [])),
      (BlockchainLastEpochRequest, HookRequest MessageBlockchainLastEpochRequest),
      (BlockchainLastEpochResponse, HookResponse (MessageBlockchainLastEpochResponse 0)),
      (BlockchainGetStateRootHashRequest, HookRequest MessageBlockchainGetStateRootHashRequest),
      (BlockchainGetStateRootHashResponse, HookResponse (MessageBlockchainGetStateRootHashResponse [])),
      (BlockchainCurrentNonceRequest, HookRequest MessageBlockchainCurrentNonceRequest),
      (BlockchainCurrentNonceResponse, HookResponse (MessageBlockchainCurrentNonceResponse 0)),
      (BlockchainCurrentRoundRequest, HookRequest MessageBlockchainCurrentRoundRequest),
      (BlockchainCurrentRoundResponse, HookResponse (MessageBlockchainCurrentRoundResponse 0)),
      (BlockchainCurrentTimeStampRequest, HookRequest MessageBlockchainCurrentTimeStampRequest),
      (BlockchainCurrentTimeStampResponse, HookResponse (MessageBlockchainCurrentTimeStampResponse 0)),
      (BlockchainCurrentRandomSeedRequest, HookRequest MessageBlockchainCurrentRandomSeedRequest),
      (BlockchainCurrentRandomSeedResponse, HookResponse (MessageBlockchainCurrentRandomSeedResponse [])),
      (BlockchainCurrentEpochRequest, HookRequest MessageBlockchainCurrentEpochRequest),
      (BlockchainCurrentEpochResponse, HookResponse (MessageBlockchainCurrentEpochResponse 0)),
      (BlockchainProcessBuiltInFunctionRequest, HookRequest (MessageBlockchainProcessBuiltInFunctionRequest None)),
      (BlockchainProcessBuiltInFunctionResponse, HookResponse (MessageBlockchainProcessBuiltInFunctionResponse None)),
      (BlockchainGetBuiltinFunctionNamesRequest, HookRequest MessageBlockchainGetBuiltinFunctionNamesRequest),
      (BlockchainGetBuiltinFunctionNamesResponse, HookResponse (MessageBlockchainGetBuiltinFunctionNamesResponse [])),
      (BlockchainGetAllStateRequest, HookRequest (MessageBlockchainGetAllStateRequest [])),
      (BlockchainGetAllStateResponse, HookResponse (MessageBlockchainGetAllStateResponse None)),
      (BlockchainGetUserAccountRequest, HookRequest (MessageBlockchainGetUserAccountRequest [])),
      (BlockchainGetUserAccountResponse, HookResponse (MessageBlockchainGetUserAccountResponse None)),
      (BlockchainGetCodeRequest, HookRequest (MessageBlockchainGetCodeRequest None)),
      (BlockchainGetCodeResponse, HookResponse (MessageBlockchainGetCodeResponse [])),
      (BlockchainGetShardOfAddressRequest, HookRequest (MessageBlockchainGetShardOfAddressRequest [])),
      (BlockchainGetShardOfAddressResponse, HookResponse (MessageBlockchainGetShardOfAddressResponse 0)),
      (BlockchainIsSmartContractRequest, HookRequest (MessageBlockchainIsSmartContractRequest [])),
      (BlockchainIsSmartContractResponse, HookResponse (MessageBlockchainIsSmartContractResponse False)),
      (BlockchainIsPayableRequest, HookRequest (MessageBlockchainIsPayableRequest [])),
      (BlockchainIsPayableResponse, HookResponse (MessageBlockchainIsPayableResponse False)),
      (BlockchainSaveCompiledCodeRequest, HookRequest (MessageBlockchainSaveCompiledCodeRequest [] [])),
      (BlockchainSaveCompiledCodeResponse, HookResponse MessageBlockchainSaveCompiledCodeResponse),
      (BlockchainGetCompiledCodeRequest, HookRequest (MessageBlockchainGetCompiledCodeRequest [])),
      (BlockchainGetCompiledCodeResponse, HookResponse (MessageBlockchainGetCompiledCodeResponse False [])),
      (BlockchainClearCompiledCodesRequest, HookRequest MessageBlockchainClearCompiledCodesRequest),
      (BlockchainClearCompiledCodesResponse, HookResponse MessageBlockchainClearCompiledCodesResponse),
      (BlockchainGetESDTTokenRequest, HookRequest (MessageBlockchainGetESDTTokenRequest [] [] 0)),
      (BlockchainGetESDTTokenResponse, HookResponse (MessageBlockchainGetESDTTokenResponse None)),
      (BlockchainIsInterfaceNilRequest, HookRequest MessageBlockchainIsInterfaceNilRequest),
      (BlockchainIsInterfaceNilResponse, HookResponse (MessageBlockchainIsInterfaceNilResponse False)),
      (BlockchainGetSnapshotRequest, HookRequest MessageBlockchainGetSnapshotRequest),
      (BlockchainGetSnapshotResponse, HookResponse (MessageBlockchainGetSnapshotResponse 0)),
      (BlockchainRevertToSnapshotRequest, HookRequest (MessageBlockchainRevertToSnapshotRequest 0)),
      (BlockchainRevertToSnapshotResponse, HookResponse MessageBlockchainRevertToSnapshotResponse)]"

definition CreateMessage :: "MessageKind \<Rightarrow> Message" where
  "CreateMessage kind =
     (if kind < LastKind then
        (case map_get messageCreators kind of
           Some body \<Rightarrow> SetKind kind (new_message 0 body)
         | None \<Rightarrow> SetKind kind NewUndefinedMessage)
      else NewUndefinedMessage)"

section \<open>Classification of messages\<close>

definition IsHookCall :: "Message \<Rightarrow> bool" where
  "IsHookCall message \<longleftrightarrow>
     msg_Kind message \<ge> BlockchainNewAddressRequest \<and>
     msg_Kind message \<le> BlockchainGetCompiledCodeResponse"

definition IsStopRequest :: "Message \<Rightarrow> bool" where
  "IsStopRequest message \<longleftrightarrow> msg_Kind message = Stop"

definition IsVersionResponse :: "Message \<Rightarrow> bool" where
  "IsVersionResponse message \<longleftrightarrow> msg_Kind message = VersionResponse"

definition IsContractResponse :: "Message \<Rightarrow> bool" where
  "IsContractResponse message \<longleftrightarrow> msg_Kind message = ContractResponse"

definition IsGasScheduleChangeResponse :: "Message \<Rightarrow> bool" where
  "IsGasScheduleChangeResponse message \<longleftrightarrow> msg_Kind message = GasScheduleChangeResponse"

definition IsDiagnose :: "Message \<Rightarrow> bool" where
  "IsDiagnose message \<longleftrightarrow>
     msg_Kind message \<ge> DiagnoseWaitRequest \<and> msg_Kind message \<le> DiagnoseWaitResponse"

section \<open>Marshalizers\<close>

record marshalizer =
  mz_Marshal :: "Message \<Rightarrow> ipc_error + bytes"
  mz_Unmarshal :: "Message \<Rightarrow> bytes \<Rightarrow> ipc_error + Message"

definition JSON :: u32 where "JSON = 0"
definition Gob :: u32 where "Gob = 1"

text \<open>\<open>ParseKind\<close>: upper case without surrounding blanks.\<close>

definition to_upper :: "char \<Rightarrow> char" where
  "to_upper c = (if 97 \<le> (of_char c :: nat) \<and> (of_char c :: nat) \<le> 122
     then char_of ((of_char c :: nat) - 32) else c)"

definition ParseKind :: "string \<Rightarrow> u32" where
  "ParseKind str =
     (let str = map to_upper str;
          str = rev (dropWhile (\<lambda>c. c = CHR '' '') (rev (dropWhile (\<lambda>c. c = CHR '' '') str)))
      in if str = ''JSON'' then JSON else if str = ''GOB'' then Gob else JSON)"

definition CreateMarshalizer :: "marshalizer \<Rightarrow> marshalizer \<Rightarrow> u32 \<Rightarrow> marshalizer" where
  "CreateMarshalizer jsonMarshalizer gobMarshalizer kind =
     (if kind = JSON then jsonMarshalizer
      else if kind = Gob then gobMarshalizer
      else jsonMarshalizer)"

section \<open>Serializable forms are read back\<close>

lemma fold_map_put_new:
  "distinct (map f xs) \<Longrightarrow> set (map f xs) \<inter> fst ` set m = {} \<Longrightarrow>
   fold (\<lambda>x. map_put (f x) (g x)) xs m = m @ map (\<lambda>x. (f x, g x)) xs"
proof (induction xs arbitrary: m)
  case (Cons x xs)
  then have "map_put (f x) (g x) m = m @ [(f x, g x)]" by (intro map_put_new) auto
  then show ?case using Cons by auto
qed simp

lemmas fold_map_put_fresh = fold_map_put_new [where m = "[]", simplified]

lemma ConvertToMap_round_trip:
  assumes "wf_map m"
  shows "ConvertToMap (NewSerializableMapStringBytes m) = Some m"
proof -
  have "fold (\<lambda>x. map_put (fst x) (snd x)) m [] = m"
    using assms fold_map_put_fresh [where f = fst and g = snd and xs = m]
    by (simp add: wf_map_def)
  then show ?thesis
    by (simp add: ConvertToMap_def NewSerializableMapStringBytes_def zip_map_fst_snd
        case_prod_unfold)
qed

lemma output_transfer_round_trip [simp]: "output_transfer (serializable_transfer t) = t"
  by (simp add: output_transfer_def serializable_transfer_def)

definition storage_by_offset :: "OutputAccount \<Rightarrow> bool" where
  "storage_by_offset a \<longleftrightarrow> (\<forall>(key, update) \<in> set (oa_StorageUpdates a). su_Offset update = key)"

lemma ConvertToOutputAccount_round_trip:
  assumes "wf_map (oa_StorageUpdates a)" and "storage_by_offset a"
  shows "ConvertToOutputAccount (NewSerializableOutputAccount a) = a"
proof -
  let ?us = "oa_StorageUpdates a"
  have keys: "map (\<lambda>x. su_Offset (snd x)) ?us = map fst ?us"
    and pairs: "map (\<lambda>x. (su_Offset (snd x), snd x)) ?us = ?us"
    using assms(2) by (auto simp: storage_by_offset_def intro!: map_idI)
  have "fold (\<lambda>u. map_put (su_Offset u) u) (map snd ?us) [] = ?us"
    using fold_map_put_fresh [where f = su_Offset and g = "\<lambda>u. u" and xs = "map snd ?us"] assms(1)
    by (simp add: keys pairs wf_map_def comp_def)
  then show ?thesis
    by (simp add: ConvertToOutputAccount_def NewSerializableOutputAccount_def comp_def)
qed

text \<open>
  A VM output whose accounts satisfy the invariant of the output context and whose storage updates
  are filed under their keys comes out of its serializable form unchanged.
\<close>

lemma vm_output_read_back:
  assumes "wf_accounts (vo_OutputAccounts v)"
    and "\<forall>(addr, a) \<in> set (vo_OutputAccounts v). storage_by_offset a"
  shows "ConvertToVMOutput (NewSerializableVMOutput (Some v)) = v"
proof -
  let ?as = "vo_OutputAccounts v"
  have wf: "wf_map ?as" and acc: "\<And>addr a. (addr, a) \<in> set ?as \<Longrightarrow>
      oa_Address a = addr \<and> ConvertToOutputAccount (NewSerializableOutputAccount a) = a"
    using assms by (auto simp: wf_accounts_def wf_account_def
        intro!: ConvertToOutputAccount_round_trip)
  let ?f = "\<lambda>x. sa_Address (NewSerializableOutputAccount (snd x))"
  have addr: "\<And>x. x \<in> set ?as \<Longrightarrow> ?f x = fst x"
    using acc by (auto simp: NewSerializableOutputAccount_def)
  then have keys: "map ?f ?as = map fst ?as" by simp
  have "map (\<lambda>x. (?f x, ConvertToOutputAccount (NewSerializableOutputAccount (snd x)))) ?as = ?as"
    using addr acc by (auto intro!: map_idI)
  then have "fold (\<lambda>x. map_put (?f x) (ConvertToOutputAccount (NewSerializableOutputAccount (snd x)))) ?as [] = ?as"
    using fold_map_put_fresh [where f = ?f
        and g = "\<lambda>x. ConvertToOutputAccount (NewSerializableOutputAccount (snd x))" and xs = ?as] wf
    by (simp add: keys wf_map_def)
  then show ?thesis
    by (simp add: ConvertToVMOutput_def NewSerializableVMOutput_def fold_map comp_def case_prod_unfold)
qed

end
