(* ===== verification/IPCChannel.thy ===== *)
theory IPCChannel
  imports IPCMessages
begin

unbundle bit_operations_syntax

text \<open>
  The channel between the node and the VM process: pipes, the frames that the sender writes and
  the receiver reads (\<open>ipc/common/sender.go\<close>, \<open>receiver.go\<close>) and the messengers that number the
  messages of a dialogue (\<open>ipc/common/messenger.go\<close>). A pipe is the bytes written and not yet
  read; a read that finds too few bytes is an error (the end of a closed pipe, or the deadline
  of the receiver), the waiting itself is part of the dialogue and not of the channel.
\<close>

section \<open>Pipes and frames\<close>

record pipe =
  pp_bytes :: bytes
  pp_open :: bool

definition PutUint32 :: "u32 \<Rightarrow> bytes" where
  "PutUint32 x = map (\<lambda>i. ucast (drop_bit (8 * i) x)) [0, 1, 2, 3]"

definition Uint32 :: "bytes \<Rightarrow> u32" where
  "Uint32 bs = foldr (\<lambda>b acc. ucast b OR push_bit 8 acc) bs 0"

definition pipe_Write :: "bytes \<Rightarrow> pipe \<Rightarrow> ipc_error option \<times> pipe" where
  "pipe_Write bs p =
     (if pp_open p then (None, p\<lparr>pp_bytes := pp_bytes p @ bs\<rparr>)
      else (Some (IOError ''write: broken pipe''), p))"

definition io_ReadFull :: "nat \<Rightarrow> pipe \<Rightarrow> (ipc_error + bytes) \<times> pipe" where
  "io_ReadFull n p =
     (if n \<le> length (pp_bytes p)
      then (Inr (take n (pp_bytes p)), p\<lparr>pp_bytes := drop n (pp_bytes p)\<rparr>)
      else (Inl (IOError ''unexpected EOF''), p\<lparr>pp_bytes := []\<rparr>))"

definition sendMessageLengthAndKind :: "nat \<Rightarrow> MessageKind \<Rightarrow> pipe \<Rightarrow> ipc_error option \<times> pipe" where
  "sendMessageLengthAndKind len kind p = pipe_Write (PutUint32 (of_nat len) @ PutUint32 kind) p"

definition Sender_Send :: "marshalizer \<Rightarrow> Message \<Rightarrow> pipe \<Rightarrow> (ipc_error + nat) \<times> pipe" where
  "Sender_Send mz message p =
     (case mz_Marshal mz message of
        Inl err \<Rightarrow> (Inl err, p)
      | Inr dataBytes \<Rightarrow>
          (case sendMessageLengthAndKind (length dataBytes) (msg_Kind message) p of
             (Some err, p) \<Rightarrow> (Inl err, p)
           | (None, p) \<Rightarrow>
               (case pipe_Write dataBytes p of
                  (Some err, p) \<Rightarrow> (Inl err, p)
                | (None, p) \<Rightarrow> (Inr (length dataBytes), p))))"

definition receiveMessageLengthAndKind :: "pipe \<Rightarrow> (ipc_error + nat \<times> MessageKind) \<times> pipe" where
  "receiveMessageLengthAndKind p =
     (case io_ReadFull 8 p of
        (Inl err, p) \<Rightarrow> (Inl err, p)
      | (Inr buffer, p) \<Rightarrow>
          (Inr (unat (Uint32 (take 4 buffer)), Uint32 (take 4 (drop 4 buffer))), p))"

definition readMessage ::
  "marshalizer \<Rightarrow> MessageKind \<Rightarrow> nat \<Rightarrow> pipe \<Rightarrow> (ipc_error + Message) \<times> pipe" where
  "readMessage mz kind len p =
     (case io_ReadFull len p of
        (Inl err, p) \<Rightarrow> (Inl err, p)
      | (Inr buffer, p) \<Rightarrow> (mz_Unmarshal mz (CreateMessage kind) buffer, p))"

text \<open>Without its deadline, which is an event of the dialogue.\<close>

definition Receiver_Receive :: "marshalizer \<Rightarrow> pipe \<Rightarrow> (ipc_error + Message \<times> nat) \<times> pipe" where
  "Receiver_Receive mz p =
     (case receiveMessageLengthAndKind p of
        (Inl err, p) \<Rightarrow> (Inl err, p)
      | (Inr (len, kind), p) \<Rightarrow>
          (case readMessage mz kind len p of
             (Inl err, p) \<Rightarrow> (Inl err, p)
           | (Inr message, p) \<Rightarrow> (Inr (message, len), p)))"

definition pipe_Shutdown :: "pipe \<Rightarrow> pipe" where
  "pipe_Shutdown p = p\<lparr>pp_open := False\<rparr>"

section \<open>Messengers\<close>

definition Messenger_Send ::
  "marshalizer \<Rightarrow> Message \<Rightarrow> u32 \<Rightarrow> pipe \<Rightarrow> ipc_error option \<times> u32 \<times> pipe" where
  "Messenger_Send mz message nonce p =
     (let nonce = nonce + 1;
          message = SetNonce nonce message
      in case Sender_Send mz message p of
           (Inl err, p) \<Rightarrow> (Some err, nonce, p)
         | (Inr _, p) \<Rightarrow> (None, nonce, p))"

definition Messenger_Receive ::
  "marshalizer \<Rightarrow> u32 \<Rightarrow> pipe \<Rightarrow> (ipc_error + Message) \<times> u32 \<times> pipe" where
  "Messenger_Receive mz nonce p =
     (case Receiver_Receive mz p of
        (Inl err, p) \<Rightarrow> (Inl err, nonce, p)
      | (Inr (message, _), p) \<Rightarrow>
          let messageNonce = msg_DialogueNonce message
          in if messageNonce \<noteq> nonce + 1 then (Inl ErrInvalidMessageNonce, nonce, p)
             else (Inr message, messageNonce, p))"

definition ResetDialogue :: "u32 \<Rightarrow> u32" where
  "ResetDialogue nonce = 0"

section \<open>The arguments of the VM process\<close>

text \<open>The arguments travel alone through a pipe of their own; the marshalizer is the JSON one.\<close>

definition SendVMArguments :: "marshalizer \<Rightarrow> VMArguments \<Rightarrow> pipe \<Rightarrow> ipc_error option \<times> pipe" where
  "SendVMArguments jsonMarshalizer arguments p =
     (case Sender_Send jsonMarshalizer (NewMessageInitialize arguments) p of
        (Inl err, p) \<Rightarrow> (Some err, p)
      | (Inr _, p) \<Rightarrow> (None, p))"

definition GetVMArguments :: "marshalizer \<Rightarrow> pipe \<Rightarrow> ((ipc_error + VMArguments option) \<times> pipe) option" where
  "GetVMArguments jsonMarshalizer p =
     (case Receiver_Receive jsonMarshalizer p of
        (Inl err, p) \<Rightarrow> Some (Inl err, p)
      | (Inr (message, _), p) \<Rightarrow>
          (case msg_Body message of
             MessageInitialize arguments \<Rightarrow> Some (Inr arguments, p)
           | _ \<Rightarrow> None))"

section \<open>Frames are read back\<close>

lemma length_PutUint32 [simp]: "length (PutUint32 x) = 4"
  by (simp add: PutUint32_def)

lemma Uint32_PutUint32 [simp]: "Uint32 (PutUint32 x) = x"
proof (rule bit_word_eqI)
  fix n :: nat
  assume "n < LENGTH(32)"
  then show "bit (Uint32 (PutUint32 x)) n = bit x n"
    by (cases "24 \<le> n"; cases "16 \<le> n"; cases "8 \<le> n") (auto simp: Uint32_def PutUint32_def bit_simps)
qed

text \<open>
  What the channel expects of a marshalizer for a message: whatever its dialogue nonce is, the
  message is encoded in less than \<open>2^32\<close> bytes, and the bytes are decoded into the empty message
  of its kind as the message that was encoded.
\<close>

definition transmits :: "marshalizer \<Rightarrow> Message \<Rightarrow> bool" where
  "transmits mz message \<longleftrightarrow>
     (\<forall>nonce. case mz_Marshal mz (SetNonce nonce message) of
        Inl _ \<Rightarrow> False
      | Inr bs \<Rightarrow> length bs < 4294967296 \<and>
          mz_Unmarshal mz (CreateMessage (msg_Kind message)) bs = Inr (SetNonce nonce message))"

lemma transmitsE:
  assumes "transmits mz message"
  obtains bs where "mz_Marshal mz (SetNonce nonce message) = Inr bs"
    and "length bs < 4294967296"
    and "mz_Unmarshal mz (CreateMessage (msg_Kind message)) bs = Inr (SetNonce nonce message)"
proof -
  have *: "case mz_Marshal mz (SetNonce nonce message) of
      Inl _ \<Rightarrow> False
    | Inr bs \<Rightarrow> length bs < 4294967296 \<and>
        mz_Unmarshal mz (CreateMessage (msg_Kind message)) bs = Inr (SetNonce nonce message)"
    using assms unfolding transmits_def by blast
  show ?thesis
  proof (cases "mz_Marshal mz (SetNonce nonce message)")
    case (Inl err)
    then show ?thesis using * by simp
  next
    case (Inr bs)
    then show ?thesis using * by (intro that [of bs]) simp_all
  qed
qed

lemma msg_Kind_SetNonce [simp]: "msg_Kind (SetNonce nonce m) = msg_Kind m"
  and msg_Body_SetNonce [simp]: "msg_Body (SetNonce nonce m) = msg_Body m"
  and msg_ErrorMessage_SetNonce [simp]: "msg_ErrorMessage (SetNonce nonce m) = msg_ErrorMessage m"
  and msg_DialogueNonce_SetNonce [simp]: "msg_DialogueNonce (SetNonce nonce m) = nonce"
  and SetNonce_SetNonce [simp]: "SetNonce nonce (SetNonce nonce' m) = SetNonce nonce m"
  by (simp_all add: SetNonce_def)

lemma GetError_SetNonce [simp]: "GetError (SetNonce nonce m) = GetError m"
  by (simp add: GetError_def)

text \<open>The bytes of one message on the pipe.\<close>

definition frame :: "MessageKind \<Rightarrow> bytes \<Rightarrow> bytes" where
  "frame kind bs = PutUint32 (of_nat (length bs)) @ PutUint32 kind @ bs"

lemma Sender_Send_frame:
  "mz_Marshal mz m = Inr bs \<Longrightarrow> pp_open p \<Longrightarrow>
   Sender_Send mz m p = (Inr (length bs), p\<lparr>pp_bytes := pp_bytes p @ frame (msg_Kind m) bs\<rparr>)"
  by (simp add: Sender_Send_def sendMessageLengthAndKind_def pipe_Write_def frame_def)

lemma Receiver_Receive_frame:
  assumes "length bs < 4294967296"
  shows "Receiver_Receive mz (p\<lparr>pp_bytes := frame kind bs @ rest\<rparr>) =
    (case mz_Unmarshal mz (CreateMessage kind) bs of
       Inl err \<Rightarrow> Inl err
     | Inr m \<Rightarrow> Inr (m, length bs), p\<lparr>pp_bytes := rest\<rparr>)"
proof -
  have len: "unat (word_of_nat (length bs) :: u32) = length bs"
    using assms by (simp add: unat_of_nat take_bit_eq_mod)
  show ?thesis
    by (simp add: Receiver_Receive_def receiveMessageLengthAndKind_def io_ReadFull_def frame_def
        readMessage_def len split: sum.splits)
qed

text \<open>One message through an open pipe that holds nothing else.\<close>

lemma Messenger_exchange:
  assumes "transmits mz m" and "pp_open p" and "pp_bytes p = []"
  shows "\<exists>p'. Messenger_Send mz m n p = (None, n + 1, p') \<and>
    Messenger_Receive mz n p' = (Inr (SetNonce (n + 1) m), n + 1, p)"
proof -
  obtain bs where bs: "mz_Marshal mz (SetNonce (n + 1) m) = Inr bs" "length bs < 4294967296"
    "mz_Unmarshal mz (CreateMessage (msg_Kind m)) bs = Inr (SetNonce (n + 1) m)"
    using assms(1) by (rule transmitsE)
  have "p\<lparr>pp_bytes := []\<rparr> = p" using assms(3) by simp
  then show ?thesis
    using Receiver_Receive_frame [OF bs(2), where mz = mz and p = p and rest = "[]"] bs assms(2,3)
    by (simp add: Messenger_Send_def Sender_Send_frame Messenger_Receive_def Let_def)
qed

lemma VMArguments_arrive:
  assumes "transmits mz (NewMessageInitialize arguments)" and "pp_open p" and "pp_bytes p = []"
  shows "\<exists>p'. SendVMArguments mz arguments p = (None, p') \<and>
    GetVMArguments mz p' = Some (Inr (Some arguments), p)"
proof -
  let ?m = "NewMessageInitialize arguments"
  have m: "SetNonce 0 ?m = ?m" by (simp add: SetNonce_def NewMessageInitialize_def)
  obtain bs where bs: "mz_Marshal mz ?m = Inr bs" "length bs < 4294967296"
    "mz_Unmarshal mz (CreateMessage (msg_Kind ?m)) bs = Inr ?m"
    using transmitsE [OF assms(1), of 0] m by metis
  have "p\<lparr>pp_bytes := []\<rparr> = p" using assms(3) by simp
  then show ?thesis
    using Receiver_Receive_frame [OF bs(2), where mz = mz and p = p and rest = "[]"] bs assms(2,3)
    by (simp add: SendVMArguments_def Sender_Send_frame GetVMArguments_def)
      (simp add: NewMessageInitialize_def)
qed

section \<open>Streams of messages\<close>

text \<open>Sending and receiving several messages one after the other.\<close>

fun send_all :: "marshalizer \<Rightarrow> Message list \<Rightarrow> u32 \<Rightarrow> pipe \<Rightarrow> ipc_error option \<times> u32 \<times> pipe" where
  "send_all mz [] nonce p = (None, nonce, p)"
| "send_all mz (m # ms) nonce p =
     (case Messenger_Send mz m nonce p of
        (Some err, nonce, p) \<Rightarrow> (Some err, nonce, p)
      | (None, nonce, p) \<Rightarrow> send_all mz ms nonce p)"

fun receive_all :: "marshalizer \<Rightarrow> nat \<Rightarrow> u32 \<Rightarrow> pipe \<Rightarrow> (ipc_error + Message list) \<times> u32 \<times> pipe" where
  "receive_all mz 0 nonce p = (Inr [], nonce, p)"
| "receive_all mz (Suc n) nonce p =
     (case Messenger_Receive mz nonce p of
        (Inl err, nonce, p) \<Rightarrow> (Inl err, nonce, p)
      | (Inr m, nonce, p) \<Rightarrow>
          (case receive_all mz n nonce p of
             (Inl err, nonce, p) \<Rightarrow> (Inl err, nonce, p)
           | (Inr ms, nonce, p) \<Rightarrow> (Inr (m # ms), nonce, p)))"

fun number_from :: "u32 \<Rightarrow> Message list \<Rightarrow> Message list" where
  "number_from nonce [] = []"
| "number_from nonce (m # ms) = SetNonce (nonce + 1) m # number_from (nonce + 1) ms"

definition frames :: "marshalizer \<Rightarrow> u32 \<Rightarrow> Message list \<Rightarrow> bytes" where
  "frames mz nonce ms =
     concat (map (\<lambda>m. case mz_Marshal mz m of Inl _ \<Rightarrow> [] | Inr bs \<Rightarrow> frame (msg_Kind m) bs)
       (number_from nonce ms))"

lemma send_all_frames:
  "\<lbrakk>\<forall>m \<in> set ms. transmits mz m; pp_open p\<rbrakk> \<Longrightarrow>
   send_all mz ms nonce p =
     (None, nonce + of_nat (length ms), p\<lparr>pp_bytes := pp_bytes p @ frames mz nonce ms\<rparr>)"
proof (induction ms arbitrary: nonce p)
  case Nil
  then show ?case by (simp add: frames_def)
next
  case (Cons m ms)
  obtain bs where "mz_Marshal mz (SetNonce (nonce + 1) m) = Inr bs"
    using Cons.prems(1) by (meson list.set_intros(1) transmitsE)
  then show ?case
    using Cons by (simp add: Messenger_Send_def Sender_Send_frame frames_def Let_def ac_simps)
qed

lemma receive_all_frames:
  "\<forall>m \<in> set ms. transmits mz m \<Longrightarrow>
   receive_all mz (length ms) nonce (p\<lparr>pp_bytes := frames mz nonce ms @ rest\<rparr>) =
     (Inr (number_from nonce ms), nonce + of_nat (length ms), p\<lparr>pp_bytes := rest\<rparr>)"
proof (induction ms arbitrary: nonce)
  case Nil
  then show ?case by (simp add: frames_def)
next
  case (Cons m ms)
  obtain bs where bs: "mz_Marshal mz (SetNonce (nonce + 1) m) = Inr bs" "length bs < 4294967296"
    "mz_Unmarshal mz (CreateMessage (msg_Kind m)) bs = Inr (SetNonce (nonce + 1) m)"
    using Cons.prems by (meson list.set_intros(1) transmitsE)
  have "frames mz nonce (m # ms) = frame (msg_Kind m) bs @ frames mz (nonce + 1) ms"
    using bs(1) by (simp add: frames_def)
  then have "Messenger_Receive mz nonce (p\<lparr>pp_bytes := frames mz nonce (m # ms) @ rest\<rparr>) =
      (Inr (SetNonce (nonce + 1) m), nonce + 1, p\<lparr>pp_bytes := frames mz (nonce + 1) ms @ rest\<rparr>)"
    using bs by (simp add: Messenger_Receive_def Receiver_Receive_frame Let_def)
  then show ?case using Cons by (simp add: ac_simps)
qed

text \<open>
  C28. Messages that the marshalizer can transmit arrive in the order in which they were sent,
  each with the next dialogue nonce, the receiver reads exactly the bytes that were written, and
  both ends agree on the nonce afterwards.
\<close>

theorem messages_arrive_in_order:
  assumes "\<forall>m \<in> set ms. transmits mz m" and "pp_open p" and "pp_bytes p = []"
  shows "\<exists>p'. send_all mz ms nonce p = (None, nonce + of_nat (length ms), p') \<and>
    receive_all mz (length ms) nonce p' =
      (Inr (number_from nonce ms), nonce + of_nat (length ms), p)"
proof -
  have "p\<lparr>pp_bytes := []\<rparr> = p" using assms(3) by simp
  then show ?thesis
    using send_all_frames [OF assms(1,2), of nonce] receive_all_frames [OF assms(1), where nonce = nonce and p = p and rest = "[]"]
      assms(3)
    by simp
qed

section \<open>A marshalizer for a table of messages\<close>

text \<open>
  A concrete marshalizer, which the examples use: it writes the index of a message in a table and
  its nonce.
\<close>

fun index_of :: "'a \<Rightarrow> 'a list \<Rightarrow> nat" where
  "index_of x [] = 0"
| "index_of x (y # ys) = (if x = y then 0 else Suc (index_of x ys))"

definition table_marshalizer :: "Message list \<Rightarrow> marshalizer" where
  "table_marshalizer table =
     \<lparr>mz_Marshal = (\<lambda>m.
        let i = index_of (SetNonce 0 m) table
        in if i < length table then Inr (of_nat i # PutUint32 (msg_DialogueNonce m))
           else Inl (IOError ''unknown message'')),
      mz_Unmarshal = (\<lambda>_ bs.
        case bs of
          [] \<Rightarrow> Inl (IOError ''no data'')
        | i # bs \<Rightarrow>
            if unat i < length table then Inr (SetNonce (Uint32 bs) (table ! unat i))
            else Inl (IOError ''unknown index''))\<rparr>"

lemma index_of_mem: "x \<in> set xs \<Longrightarrow> index_of x xs < length xs \<and> xs ! index_of x xs = x"
  by (induction xs) auto

lemma table_transmits:
  assumes "SetNonce 0 m \<in> set table" and "length table \<le> 256"
  shows "transmits (table_marshalizer table) m"
proof -
  have i: "index_of (SetNonce 0 m) table < length table"
    "table ! index_of (SetNonce 0 m) table = SetNonce 0 m"
    using index_of_mem [OF assms(1)] by auto
  then have "unat (word_of_nat (index_of (SetNonce 0 m) table) :: byte) =
      index_of (SetNonce 0 m) table"
    using assms(2) by (simp add: unat_of_nat take_bit_eq_mod)
  with i show ?thesis
    by (simp add: transmits_def table_marshalizer_def Let_def)
qed

theorem messages_arrive_in_order_witness:
  "\<exists>p'. send_all (table_marshalizer [NewMessageStop]) [NewMessageStop, NewMessageStop] 0
        \<lparr>pp_bytes = [], pp_open = True\<rparr> = (None, 2, p') \<and>
      receive_all (table_marshalizer [NewMessageStop]) 2 0 p' =
        (Inr [SetNonce 1 NewMessageStop, SetNonce 2 NewMessageStop], 2,
         \<lparr>pp_bytes = [], pp_open = True\<rparr>)"
proof -
  have "SetNonce 0 NewMessageStop = NewMessageStop"
    by (simp add: SetNonce_def NewMessageStop_def)
  then have "transmits (table_marshalizer [NewMessageStop]) NewMessageStop"
    by (intro table_transmits) simp_all
  then show ?thesis
    using messages_arrive_in_order [of "[NewMessageStop, NewMessageStop]"
        "table_marshalizer [NewMessageStop]" "\<lparr>pp_bytes = [], pp_open = True\<rparr>" 0]
    by (simp add: numeral_2_eq_2)
qed

end
