(* ===== verification/IPCNode.thy ===== *)
theory IPCNode
  imports IPCChannel
begin

text \<open>
  The node's end of the dialogue: the repliers that answer the hook calls of the VM
  (\<open>ipc/nodepart/blockchainRepliers.go\<close>), the table of repliers and the message loop
  (\<open>ipc/nodepart/part.go\<close>, \<open>ipc/nodepart/messenger.go\<close>). The blockchain hook of the node is the
  parameter \<open>NodeHook\<close>, every operation of which may change the state \<open>'w\<close> of the node; a replier
  returns \<open>None\<close> where its type assertion panics.

  The state \<open>'w ipc\<close> holds both ends of the dialogue: the two pipes, the nonces of the two
  messengers, the state of the node, the milliseconds that the node's loop has left and the number
  of messages the node has waited for. How long a wait takes, and whether its deadline expires
  first, is the clock of the configuration.
\<close>

section \<open>The hook of the node and its repliers\<close>

record 'w NodeHook =
  nh_NewAddress :: "'w \<Rightarrow> bytes \<Rightarrow> u64 \<Rightarrow> bytes \<Rightarrow> (bytes \<times> ipc_error option) \<times> 'w"
  nh_GetStorageData :: "'w \<Rightarrow> bytes \<Rightarrow> bytes \<Rightarrow> (bytes \<times> u32 \<times> ipc_error option) \<times> 'w"
  nh_GetBlockhash :: "'w \<Rightarrow> u64 \<Rightarrow> (bytes \<times> ipc_error option) \<times> 'w"
  nh_LastNonce :: "'w \<Rightarrow> u64 \<times> 'w"
  nh_LastRound :: "'w \<Rightarrow> u64 \<times> 'w"
  nh_LastTimeStamp :: "'w \<Rightarrow> u64 \<times> 'w"
  nh_LastRandomSeed :: "'w \<Rightarrow> bytes \<times> 'w"
  nh_LastEpoch :: "'w \<Rightarrow> u32 \<times> 'w"
  nh_GetStateRootHash :: "'w \<Rightarrow> bytes \<times> 'w"
  nh_CurrentNonce :: "'w \<Rightarrow> u64 \<times> 'w"
  nh_CurrentRound :: "'w \<Rightarrow> u64 \<times> 'w"
  nh_CurrentTimeStamp :: "'w \<Rightarrow> u64 \<times> 'w"
  nh_CurrentRandomSeed :: "'w \<Rightarrow> bytes \<times> 'w"
  nh_CurrentEpoch :: "'w \<Rightarrow> u32 \<times> 'w"
  nh_ProcessBuiltInFunction :: "'w \<Rightarrow> (ContractCallInput option) \<Rightarrow> (VMOutput option \<times> ipc_error option) \<times> 'w"
  nh_GetBuiltinFunctionNames :: "'w \<Rightarrow> FunctionNames \<times> 'w"
  nh_GetAllState :: "'w \<Rightarrow> bytes \<Rightarrow> ((bytes, bytes) gomap \<times> ipc_error option) \<times> 'w"
  nh_GetUserAccount :: "'w \<Rightarrow> bytes \<Rightarrow> (Account option \<times> ipc_error option) \<times> 'w"
  nh_GetCode :: "'w \<Rightarrow> (Account option) \<Rightarrow> bytes \<times> 'w"
  nh_GetShardOfAddress :: "'w \<Rightarrow> bytes \<Rightarrow> u32 \<times> 'w"
  nh_IsSmartContract :: "'w \<Rightarrow> bytes \<Rightarrow> bool \<times> 'w"
  nh_IsPayable :: "'w \<Rightarrow> bytes \<Rightarrow> bytes \<Rightarrow> (bool \<times> ipc_error option) \<times> 'w"
  nh_SaveCompiledCode :: "'w \<Rightarrow> bytes \<Rightarrow> bytes \<Rightarrow> 'w"
  nh_GetCompiledCode :: "'w \<Rightarrow> bytes \<Rightarrow> (bool \<times> bytes) \<times> 'w"
  nh_ClearCompiledCodes :: "'w \<Rightarrow> 'w"
  nh_GetESDTToken :: "'w \<Rightarrow> bytes \<Rightarrow> bytes \<Rightarrow> u64 \<Rightarrow> (ESDigitalToken option \<times> ipc_error option) \<times> 'w"
  nh_IsInterfaceNil :: "'w \<Rightarrow> bool \<times> 'w"
  nh_GetSnapshot :: "'w \<Rightarrow> int \<times> 'w"
  nh_RevertToSnapshot :: "'w \<Rightarrow> int \<Rightarrow> ipc_error option \<times> 'w"

type_synonym 'w replier = "'w NodeHook \<Rightarrow> Message \<Rightarrow> 'w \<Rightarrow> (Message \<times> 'w) option"

text \<open>The copy of an account that travels in a message: what the getters return.\<close>

definition copy_account :: "Account \<Rightarrow> Account" where
  "copy_account a =
     \<lparr>acc_Nonce = acc_Nonce a,
      acc_Balance = Some (Account_GetBalance a),
      acc_CodeHash = acc_CodeHash a,
      acc_RootHash = acc_RootHash a,
      acc_Address = acc_Address a,
      acc_DeveloperReward = Some (Account_GetDeveloperReward a),
      acc_OwnerAddress = acc_OwnerAddress a,
      acc_UserName = acc_UserName a,
      acc_CodeMetadata = acc_CodeMetadata a\<rparr>"

definition replyToBlockchainNewAddress :: "'w replier" where
  "replyToBlockchainNewAddress H request w =
     (case msg_Body request of
        HookRequest (MessageBlockchainNewAddressRequest creatorAddress creatorNonce vmType) \<Rightarrow>
          (let ((result, err), w) = nh_NewAddress H w creatorAddress creatorNonce vmType
           in Some (NewMessageBlockchainNewAddressResponse result err, w))
      | _ \<Rightarrow> None)"

definition replyToBlockchainGetStorageData :: "'w replier" where
  "replyToBlockchainGetStorageData H request w =
     (case msg_Body request of
        HookRequest (MessageBlockchainGetStorageDataRequest accountAddress index) \<Rightarrow>
          (let ((data, _, err), w) = nh_GetStorageData H w accountAddress index
           in Some (NewMessageBlockchainGetStorageDataResponse data err, w))
      | _ \<Rightarrow> None)"

definition replyToBlockchainGetBlockhash :: "'w replier" where
  "replyToBlockchainGetBlockhash H request w =
     (case msg_Body request of
        HookRequest (MessageBlockchainGetBlockhashRequest nonce) \<Rightarrow>
          (let ((result, err), w) = nh_GetBlockhash H w nonce
           in Some (NewMessageBlockchainGetBlockhashResponse result err, w))
      | _ \<Rightarrow> None)"

definition replyToBlockchainLastNonce :: "'w replier" where
  "replyToBlockchainLastNonce H request w =
     (let (result, w) = nh_LastNonce H w
      in Some (NewMessageBlockchainLastNonceResponse result, w))"

definition replyToBlockchainLastRound :: "'w replier" where
  "replyToBlockchainLastRound H request w =
     (let (result, w) = nh_LastRound H w
      in Some (NewMessageBlockchainLastRoundResponse result, w))"

definition replyToBlockchainLastTimeStamp :: "'w replier" where
  "replyToBlockchainLastTimeStamp H request w =
     (let (result, w) = nh_LastTimeStamp H w
      in Some (NewMessageBlockchainLastTimeStampResponse result, w))"

definition replyToBlockchainLastRandomSeed :: "'w replier" where
  "replyToBlockchainLastRandomSeed H request w =
     (let (result, w) = nh_LastRandomSeed H w
      in Some (NewMessageBlockchainLastRandomSeedResponse result, w))"

definition replyToBlockchainLastEpoch :: "'w replier" where
  "replyToBlockchainLastEpoch H request w =
     (let (result, w) = nh_LastEpoch H w
      in Some (NewMessageBlockchainLastEpochResponse result, w))"

definition replyToBlockchainGetStateRootHash :: "'w replier" where
  "replyToBlockchainGetStateRootHash H request w =
     (let (result, w) = nh_GetStateRootHash H w
      in Some (NewMessageBlockchainGetStateRootHashResponse result, w))"

definition replyToBlockchainCurrentNonce :: "'w replier" where
  "replyToBlockchainCurrentNonce H request w =
     (let (result, w) = nh_CurrentNonce H w
      in Some (NewMessageBlockchainCurrentNonceResponse result, w))"

definition replyToBlockchainCurrentRound :: "'w replier" where
  "replyToBlockchainCurrentRound H request w =
     (let (result, w) = nh_CurrentRound H w
      in Some (NewMessageBlockchainCurrentRoundResponse result, w))"

definition replyToBlockchainCurrentTimeStamp :: "'w replier" where
  "replyToBlockchainCurrentTimeStamp H request w =
     (let (result, w) = nh_CurrentTimeStamp H w
      in Some (NewMessageBlockchainCurrentTimeStampResponse result, w))"

definition replyToBlockchainCurrentRandomSeed :: "'w replier" where
  "replyToBlockchainCurrentRandomSeed H request w =
     (let (result, w) = nh_CurrentRandomSeed H w
      in Some (NewMessageBlockchainCurrentRandomSeedResponse result, w))"

definition replyToBlockchainCurrentEpoch :: "'w replier" where
  "replyToBlockchainCurrentEpoch H request w =
     (let (result, w) = nh_CurrentEpoch H w
      in Some (NewMessageBlockchainCurrentEpochResponse result, w))"

definition replyToBlockchainProcessBuiltInFunction :: "'w replier" where
  "replyToBlockchainProcessBuiltInFunction H request w =
     (case msg_Body request of
        HookRequest (MessageBlockchainProcessBuiltInFunctionRequest input) \<Rightarrow>
          (let ((vmOutput, err), w) = nh_ProcessBuiltInFunction H w input
           in Some (NewMessageBlockchainProcessBuiltInFunctionResponse vmOutput err, w))
      | _ \<Rightarrow> None)"

definition replyToBlockchainGetBuiltinFunctionNames :: "'w replier" where
  "replyToBlockchainGetBuiltinFunctionNames H request w =
     (let (result, w) = nh_GetBuiltinFunctionNames H w
      in Some (NewMessageBlockchainGetBuiltinFunctionNamesResponse result, w))"

definition replyToBlockchainGetAllState :: "'w replier" where
  "replyToBlockchainGetAllState H request w =
     (case msg_Body request of
        HookRequest (MessageBlockchainGetAllStateRequest address) \<Rightarrow>
          (let ((result, err), w) = nh_GetAllState H w address
           in Some (NewMessageBlockchainGetAllStateResponse result err, w))
      | _ \<Rightarrow> None)"

definition replyToBlockchainGetUserAccount :: "'w replier" where
  "replyToBlockchainGetUserAccount H request w =
     (case msg_Body request of
        HookRequest (MessageBlockchainGetUserAccountRequest address) \<Rightarrow>
          (let ((result, err), w) = nh_GetUserAccount H w address
           in case (err, result) of
                (None, Some account) \<Rightarrow>
                  Some (NewMessageBlockchainGetUserAccountResponse (Some (copy_account account)) err, w)
              | _ \<Rightarrow> Some (NewMessageBlockchainGetUserAccountResponse None err, w))
      | _ \<Rightarrow> None)"

definition replyToBlockchainGetCode :: "'w replier" where
  "replyToBlockchainGetCode H request w =
     (case msg_Body request of
        HookRequest (MessageBlockchainGetCodeRequest account) \<Rightarrow>
          (let (code, w) = nh_GetCode H w account
           in Some (NewMessageBlockchainGetCodeResponse code, w))
      | _ \<Rightarrow> None)"

definition replyToBlockchainGetShardOfAddress :: "'w replier" where
  "replyToBlockchainGetShardOfAddress H request w =
     (case msg_Body request of
        HookRequest (MessageBlockchainGetShardOfAddressRequest address) \<Rightarrow>
          (let (result, w) = nh_GetShardOfAddress H w address
           in Some (NewMessageBlockchainGetShardOfAddressResponse result, w))
      | _ \<Rightarrow> None)"

definition replyToBlockchainIsSmartContract :: "'w replier" where
  "replyToBlockchainIsSmartContract H request w =
     (case msg_Body request of
        HookRequest (MessageBlockchainIsSmartContractRequest address) \<Rightarrow>
          (let (result, w) = nh_IsSmartContract H w address
           in Some (NewMessageBlockchainIsSmartContractResponse result, w))
      | _ \<Rightarrow> None)"

definition replyToBlockchainIsPayable :: "'w replier" where
  "replyToBlockchainIsPayable H request w =
     (case msg_Body request of
        HookRequest (MessageBlockchainIsPayableRequest address) \<Rightarrow>
          (let ((result, err), w) = nh_IsPayable H w [] address
           in Some (NewMessageBlockchainIsPayableResponse result err, w))
      | _ \<Rightarrow> None)"

definition replyToBlockchainSaveCompiledCode :: "'w replier" where
  "replyToBlockchainSaveCompiledCode H request w =
     (case msg_Body request of
        HookRequest (MessageBlockchainSaveCompiledCodeRequest codeHash code) \<Rightarrow>
          (let w = nh_SaveCompiledCode H w codeHash code
           in Some (NewMessageBlockchainSaveCompiledCodeResponse, w))
      | _ \<Rightarrow> None)"

definition replyToBlockchainGetCompiledCode :: "'w replier" where
  "replyToBlockchainGetCompiledCode H request w =
     (case msg_Body request of
        HookRequest (MessageBlockchainGetCompiledCodeRequest codeHash) \<Rightarrow>
          (let ((found, code), w) = nh_GetCompiledCode H w codeHash
           in Some (NewMessageBlockchainGetCompiledCodeResponse found code, w))
      | _ \<Rightarrow> None)"

definition replyToBlockchainClearCompiledCodes :: "'w replier" where
  "replyToBlockchainClearCompiledCodes H request w =
     (let w = nh_ClearCompiledCodes H w
      in Some (NewMessageBlockchainClearCompiledCodesResponse, w))"

definition replyToBlockchainGetESDTToken :: "'w replier" where
  "replyToBlockchainGetESDTToken H request w =
     (case msg_Body request of
        HookRequest (MessageBlockchainGetESDTTokenRequest address tokenID nonce) \<Rightarrow>
          (let ((result, err), w) = nh_GetESDTToken H w address tokenID nonce
           in Some (NewMessageBlockchainGetESDTTokenResponse result err, w))
      | _ \<Rightarrow> None)"

definition replyToBlockchainIsInterfaceNil :: "'w replier" where
  "replyToBlockchainIsInterfaceNil H request w =
     (let (result, w) = nh_IsInterfaceNil H w
      in Some (NewMessageBlockchainIsInterfaceNilResponse result, w))"

definition replyToBlockchainGetSnapshot :: "'w replier" where
  "replyToBlockchainGetSnapshot H request w =
     (let (result, w) = nh_GetSnapshot H w
      in Some (NewMessageBlockchainGetSnapshotResponse result, w))"

definition replyToBlockchainRevertToSnapshot :: "'w replier" where
  "replyToBlockchainRevertToSnapshot H request w =
     (case msg_Body request of
        HookRequest (MessageBlockchainRevertToSnapshotRequest snapshot) \<Rightarrow>
          (let (err, w) = nh_RevertToSnapshot H w snapshot
           in Some (NewMessageBlockchainRevertToSnapshotResponse err, w))
      | _ \<Rightarrow> None)"

definition noopReplier :: "'w replier" where
  "noopReplier H request w = Some (CreateMessage UndefinedRequestOrResponse, w)"

text \<open>The slots that \<open>NewNodePart\<close> fills; all others hold \<open>noopReplier\<close>.\<close>

definition node_Repliers :: "(MessageKind, 'w replier) gomap" where
  "node_Repliers =
     [(BlockchainNewAddressRequest, replyToBlockchainNewAddress),
      (BlockchainGetStorageDataRequest, replyToBlockchainGetStorageData),
      (BlockchainGetBlockhashRequest, replyToBlockchainGetBlockhash),
      (BlockchainLastNonceRequest, replyToBlockchainLastNonce),
      (BlockchainLastRoundRequest, replyToBlockchainLastRound),
      (BlockchainLastTimeStampRequest, replyToBlockchainLastTimeStamp),
      (BlockchainLastRandomSeedRequest, replyToBlockchainLastRandomSeed),
      (BlockchainLastEpochRequest, replyToBlockchainLastEpoch),
      (BlockchainGetStateRootHashRequest, replyToBlockchainGetStateRootHash),
      (BlockchainCurrentNonceRequest, replyToBlockchainCurrentNonce),
      (BlockchainCurrentRoundRequest, replyToBlockchainCurrentRound),
      (BlockchainCurrentTimeStampRequest, replyToBlockchainCurrentTimeStamp),
      (BlockchainCurrentRandomSeedRequest, replyToBlockchainCurrentRandomSeed),
      (BlockchainCurrentEpochRequest, replyToBlockchainCurrentEpoch),
      (BlockchainProcessBuiltInFunctionRequest, replyToBlockchainProcessBuiltInFunction),
      (BlockchainGetBuiltinFunctionNamesRequest, replyToBlockchainGetBuiltinFunctionNames),
      (BlockchainGetAllStateRequest, replyToBlockchainGetAllState),
      (BlockchainGetUserAccountRequest, replyToBlockchainGetUserAccount),
      (BlockchainGetCodeRequest, replyToBlockchainGetCode),
      (BlockchainGetShardOfAddressRequest, replyToBlockchainGetShardOfAddress),
      (BlockchainIsSmartContractRequest, replyToBlockchainIsSmartContract),
      (BlockchainIsPayableRequest, replyToBlockchainIsPayable),
      (BlockchainSaveCompiledCodeRequest, replyToBlockchainSaveCompiledCode),
      (BlockchainGetCompiledCodeRequest, replyToBlockchainGetCompiledCode),
      (BlockchainClearCompiledCodesRequest, replyToBlockchainClearCompiledCodes),
      (BlockchainGetESDTTokenRequest, replyToBlockchainGetESDTToken),
      (BlockchainIsInterfaceNilRequest, replyToBlockchainIsInterfaceNil),
      (BlockchainGetSnapshotRequest, replyToBlockchainGetSnapshot),
      (BlockchainRevertToSnapshotRequest, replyToBlockchainRevertToSnapshot)]"

text \<open>\<open>part.Repliers[kind]\<close>: there are \<open>LastKind\<close> slots.\<close>

definition hook_reply :: "'w replier" where
  "hook_reply H request w =
     (if msg_Kind request < LastKind
      then map_get_or noopReplier node_Repliers (msg_Kind request) H request w
      else None)"

section \<open>State and configuration of a dialogue\<close>

record 'w ipc =
  ipc_nodeNonce :: u32
  ipc_vmNonce :: u32
  ipc_toVM :: pipe
  ipc_toNode :: pipe
  ipc_world :: 'w
  ipc_remaining :: int
  ipc_received :: nat

record ipc_config =
  cfg_marshalizer :: marshalizer
  cfg_MaxLoopTime :: int
  cfg_clock :: "nat \<Rightarrow> int \<times> bool"

section \<open>The message loop of the node\<close>

definition node_Send :: "ipc_config \<Rightarrow> Message \<Rightarrow> 'w ipc \<Rightarrow> ipc_error option \<times> 'w ipc" where
  "node_Send cfg message s =
     (let (err, nonce, p) = Messenger_Send (cfg_marshalizer cfg) message (ipc_nodeNonce s) (ipc_toVM s)
      in (err, s\<lparr>ipc_nodeNonce := nonce, ipc_toVM := p\<rparr>))"

definition SendContractRequest :: "ipc_config \<Rightarrow> Message \<Rightarrow> 'w ipc \<Rightarrow> ipc_error option \<times> 'w ipc" where
  "SendContractRequest cfg request s =
     (case node_Send cfg request s of
        (Some err, s) \<Rightarrow> (Some ErrCannotSendContractRequest, s)
      | (None, s) \<Rightarrow> (None, s))"

definition SendHookCallResponse :: "ipc_config \<Rightarrow> Message \<Rightarrow> 'w ipc \<Rightarrow> ipc_error option \<times> 'w ipc" where
  "SendHookCallResponse cfg response s =
     (case node_Send cfg response s of
        (Some err, s) \<Rightarrow> (Some ErrCannotSendHookCallResponse, s)
      | (None, s) \<Rightarrow> (None, s))"

text \<open>Only a positive timeout sets a deadline.\<close>

definition ReceiveHookCallRequestOrContractResponse ::
  "ipc_config \<Rightarrow> int \<Rightarrow> 'w ipc \<Rightarrow> ((ipc_error + Message) \<times> int) \<times> 'w ipc" where
  "ReceiveHookCallRequestOrContractResponse cfg timeout s =
     (let (duration, expired) = cfg_clock cfg (ipc_received s);
          s = s\<lparr>ipc_received := Suc (ipc_received s)\<rparr>
      in if timeout > 0 \<and> expired then ((Inl (IOError ''i/o timeout''), duration), s)
         else let (r, nonce, p) =
                    Messenger_Receive (cfg_marshalizer cfg) (ipc_nodeNonce s) (ipc_toNode s)
              in ((r, duration), s\<lparr>ipc_nodeNonce := nonce, ipc_toNode := p\<rparr>))"

datatype node_exit =
    NodeReturns Message
  | NodeFails ipc_error
  | NodePanics

text \<open>\<open>None\<close>: the loop goes on.\<close>

definition replyToHookCallRequest ::
  "ipc_config \<Rightarrow> 'w NodeHook \<Rightarrow> Message \<Rightarrow> 'w ipc \<Rightarrow> node_exit option \<times> 'w ipc" where
  "replyToHookCallRequest cfg H request s =
     (case hook_reply H request (ipc_world s) of
        None \<Rightarrow> (Some NodePanics, s)
      | Some (hookResponse, w) \<Rightarrow>
          (case SendHookCallResponse cfg hookResponse (s\<lparr>ipc_world := w\<rparr>) of
             (Some err, s) \<Rightarrow> (Some (NodeFails err), s)
           | (None, s) \<Rightarrow> (None, s)))"

text \<open>One iteration of \<open>doLoop\<close>.\<close>

definition node_doLoop :: "ipc_config \<Rightarrow> 'w NodeHook \<Rightarrow> 'w ipc \<Rightarrow> node_exit option \<times> 'w ipc" where
  "node_doLoop cfg H s =
     (case ReceiveHookCallRequestOrContractResponse cfg (ipc_remaining s) s of
        ((Inl err, _), s) \<Rightarrow> (Some (NodeFails err), s)
      | ((Inr message, duration), s) \<Rightarrow>
          let s = s\<lparr>ipc_remaining := ipc_remaining s - duration\<rparr>
          in if ipc_remaining s < 0 then (Some (NodeFails ErrVMTimeExpired), s)
             else if IsHookCall message then replyToHookCallRequest cfg H message s
             else if IsVersionResponse message then (Some (NodeReturns message), s)
             else if IsContractResponse message then (Some (NodeReturns message), s)
             else if IsDiagnose message then (Some (NodeReturns message), s)
             else if IsGasScheduleChangeResponse message then (Some (NodeReturns message), s)
             else (Some (NodeFails ErrBadMessageFromVM), s))"

end
