(* ===== verification/IPCGateway.thy ===== *)
theory IPCGateway
  imports IPCNode
begin

text \<open>
  The VM's view of the blockchain when it runs in a process of its own
  (\<open>ipc/vmpart/blockchainGateway.go\<close>): every hook is a message to the node and the answer that
  comes back. The operation that sends a request and waits for its answer is the parameter \<open>send\<close>
  of the gateway, \<open>SendHookCallRequest\<close> of the VM's messenger; it is \<open>None\<close> when the call does not
  return, because the node has left the dialogue, and so are the gateway operations then and where
  their type assertions panic.

  The locale \<open>hook_channel\<close> is the contract between the gateway and the channel: a request that
  is a hook call is answered with the response of the node's replier. In it every gateway
  operation whose requests count as hook calls returns what the node's hook returns.
\<close>

section \<open>Operations of the gateway\<close>

type_synonym 's hook_sender = "Message \<Rightarrow> 's \<Rightarrow> ((ipc_error + Message) \<times> 's) option"

definition gateway_NewAddress ::
  "'s hook_sender \<Rightarrow> bytes \<Rightarrow> u64 \<Rightarrow> bytes \<Rightarrow> 's \<Rightarrow> ((bytes \<times> ipc_error option) \<times> 's) option" where
  "gateway_NewAddress send creatorAddress creatorNonce vmType s = do {
     (r, s) \<leftarrow> send (NewMessageBlockchainNewAddressRequest creatorAddress creatorNonce vmType) s;
     case r of
       Inl err \<Rightarrow> Some (([], Some err), s)
     | Inr rawResponse \<Rightarrow>
         if msg_Kind rawResponse \<noteq> BlockchainNewAddressResponse then Some (([], Some ErrBadHookResponseFromNode), s)
         else (case msg_Body rawResponse of
                 HookResponse (MessageBlockchainNewAddressResponse result) \<Rightarrow>
                   Some ((result, GetError rawResponse), s)
               | _ \<Rightarrow> None) }"

definition gateway_GetStorageData ::
  "'s hook_sender \<Rightarrow> bytes \<Rightarrow> bytes \<Rightarrow> 's \<Rightarrow> ((bytes \<times> u32 \<times> ipc_error option) \<times> 's) option" where
  "gateway_GetStorageData send accountAddress index s = do {
     (r, s) \<leftarrow> send (NewMessageBlockchainGetStorageDataRequest accountAddress index) s;
     case r of
       Inl err \<Rightarrow> Some (([], 0, Some err), s)
     | Inr rawResponse \<Rightarrow>
         if msg_Kind rawResponse \<noteq> BlockchainGetStorageDataResponse then Some (([], 0, Some ErrBadHookResponseFromNode), s)
         else (case msg_Body rawResponse of
                 HookResponse (MessageBlockchainGetStorageDataResponse data) \<Rightarrow>
                   Some ((data, 0, GetError rawResponse), s)
               | _ \<Rightarrow> None) }"

definition gateway_GetBlockhash ::
  "'s hook_sender \<Rightarrow> u64 \<Rightarrow> 's \<Rightarrow> ((bytes \<times> ipc_error option) \<times> 's) option" where
  "gateway_GetBlockhash send nonce s = do {
     (r, s) \<leftarrow> send (NewMessageBlockchainGetBlockhashRequest nonce) s;
     case r of
       Inl err \<Rightarrow> Some (([], Some err), s)
     | Inr rawResponse \<Rightarrow>
         if msg_Kind rawResponse \<noteq> BlockchainGetBlockhashResponse then Some (([], Some ErrBadHookResponseFromNode), s)
         else (case msg_Body rawResponse of
                 HookResponse (MessageBlockchainGetBlockhashResponse result) \<Rightarrow>
                   Some ((result, GetError rawResponse), s)
               | _ \<Rightarrow> None) }"

definition gateway_LastNonce ::
  "'s hook_sender \<Rightarrow> 's \<Rightarrow> ((u64) \<times> 's) option" where
  "gateway_LastNonce send s = do {
     (r, s) \<leftarrow> send (NewMessageBlockchainLastNonceRequest) s;
     case r of
       Inl err \<Rightarrow> Some (0, s)
     | Inr rawResponse \<Rightarrow>
         if msg_Kind rawResponse \<noteq> BlockchainLastNonceResponse then Some (0, s)
         else (case msg_Body rawResponse of
                 HookResponse (MessageBlockchainLastNonceResponse result) \<Rightarrow>
                   Some (result, s)
               | _ \<Rightarrow> None) }"

definition gateway_LastRound ::
  "'s hook_sender \<Rightarrow> 's \<Rightarrow> ((u64) \<times> 's) option" where
  "gateway_LastRound send s = do {
     (r, s) \<leftarrow> send (NewMessageBlockchainLastRoundRequest) s;
     case r of
       Inl err \<Rightarrow> Some (0, s)
     | Inr rawResponse \<Rightarrow>
         if msg_Kind rawResponse \<noteq> BlockchainLastRoundResponse then Some (0, s)
         else (case msg_Body rawResponse of
                 HookResponse (MessageBlockchainLastRoundResponse result) \<Rightarrow>
                   Some (result, s)
               | _ \<Rightarrow> None) }"

definition gateway_LastTimeStamp ::
  "'s hook_sender \<Rightarrow> 's \<Rightarrow> ((u64) \<times> 's) option" where
  "gateway_LastTimeStamp send s = do {
     (r, s) \<leftarrow> send (NewMessageBlockchainLastTimeStampRequest) s;
     case r of
       Inl err \<Rightarrow> Some (0, s)
     | Inr rawResponse \<Rightarrow>
         if msg_Kind rawResponse \<noteq> BlockchainLastTimeStampResponse then Some (0, s)
         else (case msg_Body rawResponse of
                 HookResponse (MessageBlockchainLastTimeStampResponse result) \<Rightarrow>
                   Some (result, s)
               | _ \<Rightarrow> None) }"

definition gateway_LastRandomSeed ::
  "'s hook_sender \<Rightarrow> 's \<Rightarrow> ((bytes) \<times> 's) option" where
  "gateway_LastRandomSeed send s = do {
     (r, s) \<leftarrow> send (NewMessageBlockchainLastRandomSeedRequest) s;
     case r of
       Inl err \<Rightarrow> Some ([], s)
     | Inr rawResponse \<Rightarrow>
         if msg_Kind rawResponse \<noteq> BlockchainLastRandomSeedResponse then Some ([], s)
         else (case msg_Body rawResponse of
                 HookResponse (MessageBlockchainLastRandomSeedResponse result) \<Rightarrow>
                   Some (result, s)
               | _ \<Rightarrow> None) }"

definition gateway_LastEpoch ::
  "'s hook_sender \<Rightarrow> 's \<Rightarrow> ((u32) \<times> 's) option" where
  "gateway_LastEpoch send s = do {
     (r, s) \<leftarrow> send (NewMessageBlockchainLastEpochRequest) s;
     case r of
       Inl err \<Rightarrow> Some (0, s)
     | Inr rawResponse \<Rightarrow>
         if msg_Kind rawResponse \<noteq> BlockchainLastEpochResponse then Some (0, s)
         else (case msg_Body rawResponse of
                 HookResponse (MessageBlockchainLastEpochResponse result) \<Rightarrow>
                   Some (result, s)
               | _ \<Rightarrow> None) }"

definition gateway_GetStateRootHash ::
  "'s hook_sender \<Rightarrow> 's \<Rightarrow> ((bytes) \<times> 's) option" where
  "gateway_GetStateRootHash send s = do {
     (r, s) \<leftarrow> send (NewMessageBlockchainGetStateRootHashRequest) s;
     case r of
       Inl err \<Rightarrow> Some ([], s)
     | Inr rawResponse \<Rightarrow>
         if msg_Kind rawResponse \<noteq> BlockchainGetStateRootHashResponse then Some ([], s)
         else (case msg_Body rawResponse of
                 HookResponse (MessageBlockchainGetStateRootHashResponse result) \<Rightarrow>
                   Some (result, s)
               | _ \<Rightarrow> None) }"

definition gateway_CurrentNonce ::
  "'s hook_sender \<Rightarrow> 's \<Rightarrow> ((u64) \<times> 's) option" where
  "gateway_CurrentNonce send s = do {
     (r, s) \<leftarrow> send (NewMessageBlockchainCurrentNonceRequest) s;
     case r of
       Inl err \<Rightarrow> Some (0, s)
     | Inr rawResponse \<Rightarrow>
         if msg_Kind rawResponse \<noteq> BlockchainCurrentNonceResponse then Some (0, s)
         else (case msg_Body rawResponse of
                 HookResponse (MessageBlockchainCurrentNonceResponse result) \<Rightarrow>
                   Some (result, s)
               | _ \<Rightarrow> None) }"

definition gateway_CurrentRound ::
  "'s hook_sender \<Rightarrow> 's \<Rightarrow> ((u64) \<times> 's) option" where
  "gateway_CurrentRound send s = do {
     (r, s) \<leftarrow> send (NewMessageBlockchainCurrentRoundRequest) s;
     case r of
       Inl err \<Rightarrow> Some (0, s)
     | Inr rawResponse \<Rightarrow>
         if msg_Kind rawResponse \<noteq> BlockchainCurrentRoundResponse then Some (0, s)
         else (case msg_Body rawResponse of
                 HookResponse (MessageBlockchainCurrentRoundResponse result) \<Rightarrow>
                   Some (result, s)
               | _ \<Rightarrow> None) }"

definition gateway_CurrentTimeStamp ::
  "'s hook_sender \<Rightarrow> 's \<Rightarrow> ((u64) \<times> 's) option" where
  "gateway_CurrentTimeStamp send s = do {
     (r, s) \<leftarrow> send (NewMessageBlockchainCurrentTimeStampRequest) s;
     case r of
       Inl err \<Rightarrow> Some (0, s)
     | Inr rawResponse \<Rightarrow>
         if msg_Kind rawResponse \<noteq> BlockchainCurrentTimeStampResponse then Some (0, s)
         else (case msg_Body rawResponse of
                 HookResponse (MessageBlockchainCurrentTimeStampResponse result) \<Rightarrow>
                   Some (result, s)
               | _ \<Rightarrow> None) }"

definition gateway_CurrentRandomSeed ::
  "'s hook_sender \<Rightarrow> 's \<Rightarrow> ((bytes) \<times> 's) option" where
  "gateway_CurrentRandomSeed send s = do {
     (r, s) \<leftarrow> send (NewMessageBlockchainCurrentRandomSeedRequest) s;
     case r of
       Inl err \<Rightarrow> Some ([], s)
     | Inr rawResponse \<Rightarrow>
         if msg_Kind rawResponse \<noteq> BlockchainCurrentRandomSeedResponse then Some ([], s)
         else (case msg_Body rawResponse of
                 HookResponse (MessageBlockchainCurrentRandomSeedResponse result) \<Rightarrow>
                   Some (result, s)
               | _ \<Rightarrow> None) }"

definition gateway_CurrentEpoch ::
  "'s hook_sender \<Rightarrow> 's \<Rightarrow> ((u32) \<times> 's) option" where
  "gateway_CurrentEpoch send s = do {
     (r, s) \<leftarrow> send (NewMessageBlockchainCurrentEpochRequest) s;
     case r of
       Inl err \<Rightarrow> Some (0, s)
     | Inr rawResponse \<Rightarrow>
         if msg_Kind rawResponse \<noteq> BlockchainCurrentEpochResponse then Some (0, s)
         else (case msg_Body rawResponse of
                 HookResponse (MessageBlockchainCurrentEpochResponse result) \<Rightarrow>
                   Some (result, s)
               | _ \<Rightarrow> None) }"

definition gateway_ProcessBuiltInFunction ::
  "'s hook_sender \<Rightarrow> (ContractCallInput option) \<Rightarrow> 's \<Rightarrow> ((VMOutput option \<times> ipc_error option) \<times> 's) option" where
  "gateway_ProcessBuiltInFunction send input s = do {
     (r, s) \<leftarrow> send (NewMessageBlockchainProcessBuiltInFunctionRequest input) s;
     case r of
       Inl err \<Rightarrow> Some ((None, Some err), s)
     | Inr rawResponse \<Rightarrow>
         if msg_Kind rawResponse \<noteq> BlockchainProcessBuiltInFunctionResponse then Some ((None, Some ErrBadHookResponseFromNode), s)
         else (case msg_Body rawResponse of
                 HookResponse (MessageBlockchainProcessBuiltInFunctionResponse vmOutput) \<Rightarrow>
                   do { o' \<leftarrow> vmOutput; Some ((Some (ConvertToVMOutput o'), GetError rawResponse), s) }
               | _ \<Rightarrow> None) }"

definition gateway_GetBuiltinFunctionNames ::
  "'s hook_sender \<Rightarrow> 's \<Rightarrow> ((FunctionNames) \<times> 's) option" where
  "gateway_GetBuiltinFunctionNames send s = do {
     (r, s) \<leftarrow> send (NewMessageBlockchainGetBuiltinFunctionNamesRequest) s;
     case r of
       Inl err \<Rightarrow> Some ([], s)
     | Inr rawResponse \<Rightarrow>
         if msg_Kind rawResponse \<noteq> BlockchainGetBuiltinFunctionNamesResponse then Some ([], s)
         else (case msg_Body rawResponse of
                 HookResponse (MessageBlockchainGetBuiltinFunctionNamesResponse result) \<Rightarrow>
                   Some (result, s)
               | _ \<Rightarrow> None) }"

definition gateway_GetAllState ::
  "'s hook_sender \<Rightarrow> bytes \<Rightarrow> 's \<Rightarrow> (((bytes, bytes) gomap \<times> ipc_error option) \<times> 's) option" where
  "gateway_GetAllState send address s = do {
     (r, s) \<leftarrow> send (NewMessageBlockchainGetAllStateRequest address) s;
     case r of
       Inl err \<Rightarrow> Some (([], Some err), s)
     | Inr rawResponse \<Rightarrow>
         if msg_Kind rawResponse \<noteq> BlockchainGetAllStateResponse then Some (([], Some ErrBadHookResponseFromNode), s)
         else (case msg_Body rawResponse of
                 HookResponse (MessageBlockchainGetAllStateResponse result) \<Rightarrow>
                   do { m \<leftarrow> result; m \<leftarrow> ConvertToMap m; Some ((m, GetError rawResponse), s) }
               | _ \<Rightarrow> None) }"

definition gateway_GetUserAccount ::
  "'s hook_sender \<Rightarrow> bytes \<Rightarrow> 's \<Rightarrow> ((Account option \<times> ipc_error option) \<times> 's) option" where
  "gateway_GetUserAccount send address s = do {
     (r, s) \<leftarrow> send (NewMessageBlockchainGetUserAccountRequest address) s;
     case r of
       Inl err \<Rightarrow> Some ((None, Some err), s)
     | Inr rawResponse \<Rightarrow>
         if msg_Kind rawResponse \<noteq> BlockchainGetUserAccountResponse then Some ((None, Some ErrBadHookResponseFromNode), s)
         else (case msg_Body rawResponse of
                 HookResponse (MessageBlockchainGetUserAccountResponse result) \<Rightarrow>
                   Some ((result, GetError rawResponse), s)
               | _ \<Rightarrow> None) }"

definition gateway_GetCode ::
  "'s hook_sender \<Rightarrow> Account \<Rightarrow> 's \<Rightarrow> ((bytes) \<times> 's) option" where
  "gateway_GetCode send account s = do {
     (r, s) \<leftarrow> send (NewMessageBlockchainGetCodeRequest (Some (copy_account account))) s;
     case r of
       Inl err \<Rightarrow> Some ([], s)
     | Inr rawResponse \<Rightarrow>
         if msg_Kind rawResponse \<noteq> BlockchainGetCodeResponse then Some ([], s)
         else (case msg_Body rawResponse of
                 HookResponse (MessageBlockchainGetCodeResponse code) \<Rightarrow>
                   Some (code, s)
               | _ \<Rightarrow> None) }"

definition gateway_GetShardOfAddress ::
  "'s hook_sender \<Rightarrow> bytes \<Rightarrow> 's \<Rightarrow> ((u32) \<times> 's) option" where
  "gateway_GetShardOfAddress send address s = do {
     (r, s) \<leftarrow> send (NewMessageBlockchainGetShardOfAddressRequest address) s;
     case r of
       Inl err \<Rightarrow> Some (0, s)
     | Inr rawResponse \<Rightarrow>
         if msg_Kind rawResponse \<noteq> BlockchainGetShardOfAddressResponse then Some (0, s)
         else (case msg_Body rawResponse of
                 HookResponse (MessageBlockchainGetShardOfAddressResponse result) \<Rightarrow>
                   Some (result, s)
               | _ \<Rightarrow> None) }"

definition gateway_IsSmartContract ::
  "'s hook_sender \<Rightarrow> bytes \<Rightarrow> 's \<Rightarrow> ((bool) \<times> 's) option" where
  "gateway_IsSmartContract send address s = do {
     (r, s) \<leftarrow> send (NewMessageBlockchainIsSmartContractRequest address) s;
     case r of
       Inl err \<Rightarrow> Some (False, s)
     | Inr rawResponse \<Rightarrow>
         if msg_Kind rawResponse \<noteq> BlockchainIsSmartContractResponse then Some (False, s)
         else (case msg_Body rawResponse of
                 HookResponse (MessageBlockchainIsSmartContractResponse result) \<Rightarrow>
                   Some (result, s)
               | _ \<Rightarrow> None) }"

definition gateway_IsPayable ::
  "'s hook_sender \<Rightarrow> bytes \<Rightarrow> bytes \<Rightarrow> 's \<Rightarrow> ((bool \<times> ipc_error option) \<times> 's) option" where
  "gateway_IsPayable send sndAddress address s = do {
     (r, s) \<leftarrow> send (NewMessageBlockchainIsPayableRequest address) s;
     case r of
       Inl err \<Rightarrow> Some ((False, Some err), s)
     | Inr rawResponse \<Rightarrow>
         if msg_Kind rawResponse \<noteq> BlockchainIsPayableResponse then Some ((False, Some ErrBadHookResponseFromNode), s)
         else (case msg_Body rawResponse of
                 HookResponse (MessageBlockchainIsPayableResponse result) \<Rightarrow>
                   Some ((result, GetError rawResponse), s)
               | _ \<Rightarrow> None) }"

definition gateway_SaveCompiledCode ::
  "'s hook_sender \<Rightarrow> bytes \<Rightarrow> bytes \<Rightarrow> 's \<Rightarrow> ((unit) \<times> 's) option" where
  "gateway_SaveCompiledCode send codeHash code s = do {
     (r, s) \<leftarrow> send (NewMessageBlockchainSaveCompiledCodeRequest codeHash code) s;
     case r of
       Inl err \<Rightarrow> Some ((), s)
     | Inr rawResponse \<Rightarrow>
         if msg_Kind rawResponse \<noteq> BlockchainSaveCompiledCodeResponse then Some ((), s)
         else Some ((), s) }"

definition gateway_GetCompiledCode ::
  "'s hook_sender \<Rightarrow> bytes \<Rightarrow> 's \<Rightarrow> ((bool \<times> bytes) \<times> 's) option" where
  "gateway_GetCompiledCode send codeHash s = do {
     (r, s) \<leftarrow> send (NewMessageBlockchainGetCompiledCodeRequest codeHash) s;
     case r of
       Inl err \<Rightarrow> Some ((False, []), s)
     | Inr rawResponse \<Rightarrow>
         if msg_Kind rawResponse \<noteq> BlockchainGetCompiledCodeResponse then Some ((False, []), s)
         else (case msg_Body rawResponse of
                 HookResponse (MessageBlockchainGetCompiledCodeResponse found code) \<Rightarrow>
                   Some ((found, code), s)
               | _ \<Rightarrow> None) }"

definition gateway_ClearCompiledCodes ::
  "'s hook_sender \<Rightarrow> 's \<Rightarrow> ((unit) \<times> 's) option" where
  "gateway_ClearCompiledCodes send s = do {
     (r, s) \<leftarrow> send (NewMessageBlockchainClearCompiledCodesRequest) s;
     case r of
       Inl err \<Rightarrow> Some ((), s)
     | Inr rawResponse \<Rightarrow>
         if msg_Kind rawResponse \<noteq> BlockchainClearCompiledCodesResponse then Some ((), s)
         else Some ((), s) }"

definition gateway_GetESDTToken ::
  "'s hook_sender \<Rightarrow> bytes \<Rightarrow> bytes \<Rightarrow> u64 \<Rightarrow> 's \<Rightarrow> ((ESDigitalToken option \<times> ipc_error option) \<times> 's) option" where
  "gateway_GetESDTToken send address tokenID nonce s = do {
     (r, s) \<leftarrow> send (NewMessageBlockchainGetESDTTokenRequest address tokenID nonce) s;
     case r of
       Inl err \<Rightarrow> Some ((None, Some err), s)
     | Inr rawResponse \<Rightarrow>
         if msg_Kind rawResponse \<noteq> BlockchainGetESDTTokenResponse then Some ((None, Some ErrBadHookResponseFromNode), s)
         else (case msg_Body rawResponse of
                 HookResponse (MessageBlockchainGetESDTTokenResponse result) \<Rightarrow>
                   Some ((result, GetError rawResponse), s)
               | _ \<Rightarrow> None) }"

definition gateway_GetSnapshot ::
  "'s hook_sender \<Rightarrow> 's \<Rightarrow> ((int) \<times> 's) option" where
  "gateway_GetSnapshot send s = do {
     (r, s) \<leftarrow> send (NewMessageBlockchainGetSnapshotRequest) s;
     case r of
       Inl err \<Rightarrow> Some (0, s)
     | Inr rawResponse \<Rightarrow>
         if msg_Kind rawResponse \<noteq> BlockchainGetSnapshotResponse then Some (0, s)
         else (case msg_Body rawResponse of
                 HookResponse (MessageBlockchainGetSnapshotResponse result) \<Rightarrow>
                   Some (result, s)
               | _ \<Rightarrow> None) }"

definition gateway_RevertToSnapshot ::
  "'s hook_sender \<Rightarrow> int \<Rightarrow> 's \<Rightarrow> ((ipc_error option) \<times> 's) option" where
  "gateway_RevertToSnapshot send snapshot s = do {
     (r, s) \<leftarrow> send (NewMessageBlockchainRevertToSnapshotRequest snapshot) s;
     case r of
       Inl err \<Rightarrow> Some (Some err, s)
     | Inr rawResponse \<Rightarrow>
         if msg_Kind rawResponse \<noteq> BlockchainRevertToSnapshotResponse then Some (Some ErrBadHookResponseFromNode, s)
         else Some (None, s) }"

text \<open>The hooks that are not used in this version of the VM.\<close>

definition gateway_IsPaused :: "bytes \<Rightarrow> bool" where
  "gateway_IsPaused tokenID = False"

definition gateway_IsLimitedTransfer :: "bytes \<Rightarrow> bool" where
  "gateway_IsLimitedTransfer tokenID = False"

definition gateway_ExecuteSmartContractCallOnOtherVM ::
  "ContractCallInput option \<Rightarrow> VMOutput option \<times> ipc_error option" where
  "gateway_ExecuteSmartContractCallOnOtherVM input =
     (None, Some (HostError (OtherError ''not implemented'')))"

section \<open>What arrives in the answer\<close>

text \<open>
  An error travels as its text, which the VM reads as a format: a text without a percent sign
  arrives as it is, an error with an empty text is lost.
\<close>

definition received_error :: "ipc_error option \<Rightarrow> ipc_error option" where
  "received_error err =
     (case err of
        None \<Rightarrow> None
      | Some e \<Rightarrow>
          if ipc_error_text e = [] then None
          else Some (HostError (OtherError (Errorf (ipc_error_text e)))))"

definition sent_account :: "Account option \<Rightarrow> ipc_error option \<Rightarrow> Account option" where
  "sent_account result err = (if err = None then map_option copy_account result else None)"

lemma GetError_SetError:
  "msg_ErrorMessage m = [] \<Longrightarrow> GetError (SetError err m) = received_error err"
  by (simp add: GetError_def SetError_def received_error_def split: option.splits)

lemma SetError_fields [simp]:
  "msg_Kind (SetError err m) = msg_Kind m" "msg_Body (SetError err m) = msg_Body m"
  by (simp_all add: SetError_def split: option.splits)

lemmas forward_simps =
  hook_reply_def node_Repliers_def map_get_or_def IsHookCall_def kind_defs GetError_SetError
  sent_account_def case_prod_unfold ConvertToMap_round_trip
  NewMessageBlockchainNewAddressRequest_def NewMessageBlockchainNewAddressResponse_def
  NewMessageBlockchainGetStorageDataRequest_def NewMessageBlockchainGetStorageDataResponse_def
  NewMessageBlockchainGetBlockhashRequest_def NewMessageBlockchainGetBlockhashResponse_def
  NewMessageBlockchainLastNonceRequest_def NewMessageBlockchainLastNonceResponse_def
  NewMessageBlockchainLastRoundRequest_def NewMessageBlockchainLastRoundResponse_def
  NewMessageBlockchainLastTimeStampRequest_def NewMessageBlockchainLastTimeStampResponse_def
  NewMessageBlockchainLastRandomSeedRequest_def NewMessageBlockchainLastRandomSeedResponse_def
  NewMessageBlockchainLastEpochRequest_def NewMessageBlockchainLastEpochResponse_def
  NewMessageBlockchainGetStateRootHashRequest_def NewMessageBlockchainGetStateRootHashResponse_def
  NewMessageBlockchainCurrentNonceRequest_def NewMessageBlockchainCurrentNonceResponse_def
  NewMessageBlockchainCurrentRoundRequest_def NewMessageBlockchainCurrentRoundResponse_def
  NewMessageBlockchainCurrentTimeStampRequest_def NewMessageBlockchainCurrentTimeStampResponse_def
  NewMessageBlockchainCurrentRandomSeedRequest_def NewMessageBlockchainCurrentRandomSeedResponse_def
  NewMessageBlockchainCurrentEpochRequest_def NewMessageBlockchainCurrentEpochResponse_def
  NewMessageBlockchainGetBuiltinFunctionNamesRequest_def NewMessageBlockchainGetBuiltinFunctionNamesResponse_def
  NewMessageBlockchainGetAllStateRequest_def NewMessageBlockchainGetAllStateResponse_def
  NewMessageBlockchainGetUserAccountRequest_def NewMessageBlockchainGetUserAccountResponse_def
  NewMessageBlockchainGetCodeRequest_def NewMessageBlockchainGetCodeResponse_def
  NewMessageBlockchainGetShardOfAddressRequest_def NewMessageBlockchainGetShardOfAddressResponse_def
  NewMessageBlockchainIsSmartContractRequest_def NewMessageBlockchainIsSmartContractResponse_def
  NewMessageBlockchainIsPayableRequest_def NewMessageBlockchainIsPayableResponse_def
  NewMessageBlockchainSaveCompiledCodeRequest_def NewMessageBlockchainSaveCompiledCodeResponse_def
  NewMessageBlockchainGetCompiledCodeRequest_def NewMessageBlockchainGetCompiledCodeResponse_def
  NewMessageBlockchainGetESDTTokenRequest_def NewMessageBlockchainGetESDTTokenResponse_def

section \<open>The channel as an interface\<close>

locale hook_channel =
  fixes send :: "'s hook_sender"
    and H :: "'w NodeHook"
    and world :: "'s \<Rightarrow> 'w"
    and ready :: "'s \<Rightarrow> bool"
    and carries :: "Message \<Rightarrow> bool"
  assumes answered:
    "\<lbrakk>ready s; IsHookCall request; hook_reply H request (world s) = Some (response, w);
      carries request; carries response\<rbrakk> \<Longrightarrow>
     \<exists>n s'. send request s = Some (Inr (SetNonce n response), s') \<and> world s' = w \<and> ready s'"
begin

lemma NewAddress_forwarded:
  assumes "ready s" and "nh_NewAddress H (world s) creatorAddress creatorNonce vmType = ((result, err), w)"
    and "carries (NewMessageBlockchainNewAddressRequest creatorAddress creatorNonce vmType)" and "carries (NewMessageBlockchainNewAddressResponse result err)"
  shows "\<exists>s'. gateway_NewAddress send creatorAddress creatorNonce vmType s = Some ((result, received_error err), s') \<and> world s' = w \<and> ready s'"
  using answered [of s "NewMessageBlockchainNewAddressRequest creatorAddress creatorNonce vmType" "NewMessageBlockchainNewAddressResponse result err" w] assms
  by (auto simp: gateway_NewAddress_def replyToBlockchainNewAddress_def forward_simps)

lemma GetStorageData_forwarded:
  assumes "ready s" and "nh_GetStorageData H (world s) accountAddress index = ((data, len, err), w)"
    and "carries (NewMessageBlockchainGetStorageDataRequest accountAddress index)" and "carries (NewMessageBlockchainGetStorageDataResponse data err)"
  shows "\<exists>s'. gateway_GetStorageData send accountAddress index s = Some ((data, 0, received_error err), s') \<and> world s' = w \<and> ready s'"
  using answered [of s "NewMessageBlockchainGetStorageDataRequest accountAddress index" "NewMessageBlockchainGetStorageDataResponse data err" w] assms
  by (auto simp: gateway_GetStorageData_def replyToBlockchainGetStorageData_def forward_simps)

lemma GetBlockhash_forwarded:
  assumes "ready s" and "nh_GetBlockhash H (world s) nonce = ((result, err), w)"
    and "carries (NewMessageBlockchainGetBlockhashRequest nonce)" and "carries (NewMessageBlockchainGetBlockhashResponse result err)"
  shows "\<exists>s'. gateway_GetBlockhash send nonce s = Some ((result, received_error err), s') \<and> world s' = w \<and> ready s'"
  using answered [of s "NewMessageBlockchainGetBlockhashRequest nonce" "NewMessageBlockchainGetBlockhashResponse result err" w] assms
  by (auto simp: gateway_GetBlockhash_def replyToBlockchainGetBlockhash_def forward_simps)

lemma LastNonce_forwarded:
  assumes "ready s" and "nh_LastNonce H (world s) = (result, w)"
    and "carries (NewMessageBlockchainLastNonceRequest)" and "carries (NewMessageBlockchainLastNonceResponse result)"
  shows "\<exists>s'. gateway_LastNonce send s = Some (result, s') \<and> world s' = w \<and> ready s'"
  using answered [of s "NewMessageBlockchainLastNonceRequest" "NewMessageBlockchainLastNonceResponse result" w] assms
  by (auto simp: gateway_LastNonce_def replyToBlockchainLastNonce_def forward_simps)

lemma LastRound_forwarded:
  assumes "ready s" and "nh_LastRound H (world s) = (result, w)"
    and "carries (NewMessageBlockchainLastRoundRequest)" and "carries (NewMessageBlockchainLastRoundResponse result)"
  shows "\<exists>s'. gateway_LastRound send s = Some (result, s') \<and> world s' = w \<and> ready s'"
  using answered [of s "NewMessageBlockchainLastRoundRequest" "NewMessageBlockchainLastRoundResponse result" w] assms
  by (auto simp: gateway_LastRound_def replyToBlockchainLastRound_def forward_simps)

lemma LastTimeStamp_forwarded:
  assumes "ready s" and "nh_LastTimeStamp H (world s) = (result, w)"
    and "carries (NewMessageBlockchainLastTimeStampRequest)" and "carries (NewMessageBlockchainLastTimeStampResponse result)"
  shows "\<exists>s'. gateway_LastTimeStamp send s = Some (result, s') \<and> world s' = w \<and> ready s'"
  using answered [of s "NewMessageBlockchainLastTimeStampRequest" "NewMessageBlockchainLastTimeStampResponse result" w] assms
  by (auto simp: gateway_LastTimeStamp_def replyToBlockchainLastTimeStamp_def forward_simps)

lemma LastRandomSeed_forwarded:
  assumes "ready s" and "nh_LastRandomSeed H (world s) = (result, w)"
    and "carries (NewMessageBlockchainLastRandomSeedRequest)" and "carries (NewMessageBlockchainLastRandomSeedResponse result)"
  shows "\<exists>s'. gateway_LastRandomSeed send s = Some (result, s') \<and> world s' = w \<and> ready s'"
  using answered [of s "NewMessageBlockchainLastRandomSeedRequest" "NewMessageBlockchainLastRandomSeedResponse result" w] assms
  by (auto simp: gateway_LastRandomSeed_def replyToBlockchainLastRandomSeed_def forward_simps)

lemma LastEpoch_forwarded:
  assumes "ready s" and "nh_LastEpoch H (world s) = (result, w)"
    and "carries (NewMessageBlockchainLastEpochRequest)" and "carries (NewMessageBlockchainLastEpochResponse result)"
  shows "\<exists>s'. gateway_LastEpoch send s = Some (result, s') \<and> world s' = w \<and> ready s'"
  using answered [of s "NewMessageBlockchainLastEpochRequest" "NewMessageBlockchainLastEpochResponse result" w] assms
  by (auto simp: gateway_LastEpoch_def replyToBlockchainLastEpoch_def forward_simps)

lemma GetStateRootHash_forwarded:
  assumes "ready s" and "nh_GetStateRootHash H (world s) = (result, w)"
    and "carries (NewMessageBlockchainGetStateRootHashRequest)" and "carries (NewMessageBlockchainGetStateRootHashResponse result)"
  shows "\<exists>s'. gateway_GetStateRootHash send s = Some (result, s') \<and> world s' = w \<and> ready s'"
  using answered [of s "NewMessageBlockchainGetStateRootHashRequest" "NewMessageBlockchainGetStateRootHashResponse result" w] assms
  by (auto simp: gateway_GetStateRootHash_def replyToBlockchainGetStateRootHash_def forward_simps)

lemma CurrentNonce_forwarded:
  assumes "ready s" and "nh_CurrentNonce H (world s) = (result, w)"
    and "carries (NewMessageBlockchainCurrentNonceRequest)" and "carries (NewMessageBlockchainCurrentNonceResponse result)"
  shows "\<exists>s'. gateway_CurrentNonce send s = Some (result, s') \<and> world s' = w \<and> ready s'"
  using answered [of s "NewMessageBlockchainCurrentNonceRequest" "NewMessageBlockchainCurrentNonceResponse result" w] assms
  by (auto simp: gateway_CurrentNonce_def replyToBlockchainCurrentNonce_def forward_simps)

lemma CurrentRound_forwarded:
  assumes "ready s" and "nh_CurrentRound H (world s) = (result, w)"
    and "carries (NewMessageBlockchainCurrentRoundRequest)" and "carries (NewMessageBlockchainCurrentRoundResponse result)"
  shows "\<exists>s'. gateway_CurrentRound send s = Some (result, s') \<and> world s' = w \<and> ready s'"
  using answered [of s "NewMessageBlockchainCurrentRoundRequest" "NewMessageBlockchainCurrentRoundResponse result" w] assms
  by (auto simp: gateway_CurrentRound_def replyToBlockchainCurrentRound_def forward_simps)

lemma CurrentTimeStamp_forwarded:
  assumes "ready s" and "nh_CurrentTimeStamp H (world s) = (result, w)"
    and "carries (NewMessageBlockchainCurrentTimeStampRequest)" and "carries (NewMessageBlockchainCurrentTimeStampResponse result)"
  shows "\<exists>s'. gateway_CurrentTimeStamp send s = Some (result, s') \<and> world s' = w \<and> ready s'"
  using answered [of s "NewMessageBlockchainCurrentTimeStampRequest" "NewMessageBlockchainCurrentTimeStampResponse result" w] assms
  by (auto simp: gateway_CurrentTimeStamp_def replyToBlockchainCurrentTimeStamp_def forward_simps)

lemma CurrentRandomSeed_forwarded:
  assumes "ready s" and "nh_CurrentRandomSeed H (world s) = (result, w)"
    and "carries (NewMessageBlockchainCurrentRandomSeedRequest)" and "carries (NewMessageBlockchainCurrentRandomSeedResponse result)"
  shows "\<exists>s'. gateway_CurrentRandomSeed send s = Some (result, s') \<and> world s' = w \<and> ready s'"
  using answered [of s "NewMessageBlockchainCurrentRandomSeedRequest" "NewMessageBlockchainCurrentRandomSeedResponse result" w] assms
  by (auto simp: gateway_CurrentRandomSeed_def replyToBlockchainCurrentRandomSeed_def forward_simps)

lemma CurrentEpoch_forwarded:
  assumes "ready s" and "nh_CurrentEpoch H (world s) = (result, w)"
    and "carries (NewMessageBlockchainCurrentEpochRequest)" and "carries (NewMessageBlockchainCurrentEpochResponse result)"
  shows "\<exists>s'. gateway_CurrentEpoch send s = Some (result, s') \<and> world s' = w \<and> ready s'"
  using answered [of s "NewMessageBlockchainCurrentEpochRequest" "NewMessageBlockchainCurrentEpochResponse result" w] assms
  by (auto simp: gateway_CurrentEpoch_def replyToBlockchainCurrentEpoch_def forward_simps)

lemma GetBuiltinFunctionNames_forwarded:
  assumes "ready s" and "nh_GetBuiltinFunctionNames H (world s) = (result, w)"
    and "carries (NewMessageBlockchainGetBuiltinFunctionNamesRequest)" and "carries (NewMessageBlockchainGetBuiltinFunctionNamesResponse result)"
  shows "\<exists>s'. gateway_GetBuiltinFunctionNames send s = Some (result, s') \<and> world s' = w \<and> ready s'"
  using answered [of s "NewMessageBlockchainGetBuiltinFunctionNamesRequest" "NewMessageBlockchainGetBuiltinFunctionNamesResponse result" w] assms
  by (auto simp: gateway_GetBuiltinFunctionNames_def replyToBlockchainGetBuiltinFunctionNames_def forward_simps)

lemma GetAllState_forwarded:
  assumes "ready s" and "nh_GetAllState H (world s) address = ((result, err), w)" and "wf_map result"
    and "carries (NewMessageBlockchainGetAllStateRequest address)" and "carries (NewMessageBlockchainGetAllStateResponse result err)"
  shows "\<exists>s'. gateway_GetAllState send address s = Some ((result, received_error err), s') \<and> world s' = w \<and> ready s'"
  using answered [of s "NewMessageBlockchainGetAllStateRequest address" "NewMessageBlockchainGetAllStateResponse result err" w] assms
  by (auto simp: gateway_GetAllState_def replyToBlockchainGetAllState_def forward_simps)

lemma GetUserAccount_forwarded:
  assumes "ready s" and "nh_GetUserAccount H (world s) address = ((result, err), w)"
    and "carries (NewMessageBlockchainGetUserAccountRequest address)" and "carries (NewMessageBlockchainGetUserAccountResponse (sent_account result err) err)"
  shows "\<exists>s'. gateway_GetUserAccount send address s = Some ((sent_account result err, received_error err), s') \<and> world s' = w \<and> ready s'"
  using answered [of s "NewMessageBlockchainGetUserAccountRequest address" "NewMessageBlockchainGetUserAccountResponse (sent_account result err) err" w] assms
  by (cases err; cases result)
    (auto simp: gateway_GetUserAccount_def replyToBlockchainGetUserAccount_def forward_simps)

lemma GetCode_forwarded:
  assumes "ready s" and "nh_GetCode H (world s) (Some (copy_account account)) = (code, w)"
    and "carries (NewMessageBlockchainGetCodeRequest (Some (copy_account account)))" and "carries (NewMessageBlockchainGetCodeResponse code)"
  shows "\<exists>s'. gateway_GetCode send account s = Some (code, s') \<and> world s' = w \<and> ready s'"
  using answered [of s "NewMessageBlockchainGetCodeRequest (Some (copy_account account))" "NewMessageBlockchainGetCodeResponse code" w] assms
  by (auto simp: gateway_GetCode_def replyToBlockchainGetCode_def forward_simps)

lemma GetShardOfAddress_forwarded:
  assumes "ready s" and "nh_GetShardOfAddress H (world s) address = (result, w)"
    and "carries (NewMessageBlockchainGetShardOfAddressRequest address)" and "carries (NewMessageBlockchainGetShardOfAddressResponse result)"
  shows "\<exists>s'. gateway_GetShardOfAddress send address s = Some (result, s') \<and> world s' = w \<and> ready s'"
  using answered [of s "NewMessageBlockchainGetShardOfAddressRequest address" "NewMessageBlockchainGetShardOfAddressResponse result" w] assms
  by (auto simp: gateway_GetShardOfAddress_def replyToBlockchainGetShardOfAddress_def forward_simps)

lemma IsSmartContract_forwarded:
  assumes "ready s" and "nh_IsSmartContract H (world s) address = (result, w)"
    and "carries (NewMessageBlockchainIsSmartContractRequest address)" and "carries (NewMessageBlockchainIsSmartContractResponse result)"
  shows "\<exists>s'. gateway_IsSmartContract send address s = Some (result, s') \<and> world s' = w \<and> ready s'"
  using answered [of s "NewMessageBlockchainIsSmartContractRequest address" "NewMessageBlockchainIsSmartContractResponse result" w] assms
  by (auto simp: gateway_IsSmartContract_def replyToBlockchainIsSmartContract_def forward_simps)

lemma IsPayable_forwarded:
  assumes "ready s" and "nh_IsPayable H (world s) [] address = ((result, err), w)"
    and "carries (NewMessageBlockchainIsPayableRequest address)" and "carries (NewMessageBlockchainIsPayableResponse result err)"
  shows "\<exists>s'. gateway_IsPayable send sndAddress address s = Some ((result, received_error err), s') \<and> world s' = w \<and> ready s'"
  using answered [of s "NewMessageBlockchainIsPayableRequest address" "NewMessageBlockchainIsPayableResponse result err" w] assms
  by (auto simp: gateway_IsPayable_def replyToBlockchainIsPayable_def forward_simps)

lemma SaveCompiledCode_forwarded:
  assumes "ready s" and "nh_SaveCompiledCode H (world s) codeHash code = w"
    and "carries (NewMessageBlockchainSaveCompiledCodeRequest codeHash code)" and "carries (NewMessageBlockchainSaveCompiledCodeResponse)"
  shows "\<exists>s'. gateway_SaveCompiledCode send codeHash code s = Some ((), s') \<and> world s' = w \<and> ready s'"
  using answered [of s "NewMessageBlockchainSaveCompiledCodeRequest codeHash code" "NewMessageBlockchainSaveCompiledCodeResponse" w] assms
  by (auto simp: gateway_SaveCompiledCode_def replyToBlockchainSaveCompiledCode_def forward_simps)

lemma GetCompiledCode_forwarded:
  assumes "ready s" and "nh_GetCompiledCode H (world s) codeHash = ((found, code), w)"
    and "carries (NewMessageBlockchainGetCompiledCodeRequest codeHash)" and "carries (NewMessageBlockchainGetCompiledCodeResponse found code)"
  shows "\<exists>s'. gateway_GetCompiledCode send codeHash s = Some ((found, code), s') \<and> world s' = w \<and> ready s'"
  using answered [of s "NewMessageBlockchainGetCompiledCodeRequest codeHash" "NewMessageBlockchainGetCompiledCodeResponse found code" w] assms
  by (auto simp: gateway_GetCompiledCode_def replyToBlockchainGetCompiledCode_def forward_simps)

lemma GetESDTToken_forwarded:
  assumes "ready s" and "nh_GetESDTToken H (world s) address tokenID nonce = ((result, err), w)"
    and "carries (NewMessageBlockchainGetESDTTokenRequest address tokenID nonce)" and "carries (NewMessageBlockchainGetESDTTokenResponse result err)"
  shows "\<exists>s'. gateway_GetESDTToken send address tokenID nonce s = Some ((result, received_error err), s') \<and> world s' = w \<and> ready s'"
  using answered [of s "NewMessageBlockchainGetESDTTokenRequest address tokenID nonce" "NewMessageBlockchainGetESDTTokenResponse result err" w] assms
  by (auto simp: gateway_GetESDTToken_def replyToBlockchainGetESDTToken_def forward_simps)

end

end
