(* ===== verification/IPCDialogue.thy ===== *)
theory IPCDialogue
  imports IPCGateway
begin

text \<open>
  The dialogue between the node and the VM process: the VM's messenger (\<open>ipc/vmpart/messenger.go\<close>),
  the message loop of the VM with its repliers (\<open>ipc/vmpart/part.go\<close>) and the node's
  \<open>StartLoop\<close> (\<open>ipc/nodepart/part.go\<close>). The two processes take turns: the node waits while the VM
  computes, the VM waits while the node answers a hook call, so one definition follows the thread
  of control from one process to the other.

  The VM host is a parameter, the record \<open>vmHandler\<close>. A run of the host is a tree: it finishes
  with a result, panics, or calls a hook and continues with the answer. The host reads the answer
  through the gateway, which looks at the kind, the error and the body of a response and never at
  its nonce; the nonce is set to zero before the answer is handed over.
\<close>

section \<open>The messenger of the VM\<close>

definition vm_Send :: "ipc_config \<Rightarrow> Message \<Rightarrow> 'w ipc \<Rightarrow> ipc_error option \<times> 'w ipc" where
  "vm_Send cfg message s =
     (let (err, nonce, p) = Messenger_Send (cfg_marshalizer cfg) message (ipc_vmNonce s) (ipc_toNode s)
      in (err, s\<lparr>ipc_vmNonce := nonce, ipc_toNode := p\<rparr>))"

definition ReceiveNodeRequest :: "ipc_config \<Rightarrow> 'w ipc \<Rightarrow> (ipc_error + Message) \<times> 'w ipc" where
  "ReceiveNodeRequest cfg s =
     (let (r, nonce, p) = Messenger_Receive (cfg_marshalizer cfg) (ipc_vmNonce s) (ipc_toVM s)
      in (r, s\<lparr>ipc_vmNonce := nonce, ipc_toVM := p\<rparr>))"

text \<open>
  A hook call: the VM sends the request and waits, the node goes once round its loop. \<open>Inl\<close>: the
  node left its loop instead of answering, and the VM waits in vain.
\<close>

definition SendHookCallRequest ::
  "ipc_config \<Rightarrow> 'w NodeHook \<Rightarrow> Message \<Rightarrow> 'w ipc \<Rightarrow> (node_exit + (ipc_error + Message)) \<times> 'w ipc" where
  "SendHookCallRequest cfg H request s =
     (case vm_Send cfg request s of
        (Some err, s) \<Rightarrow> (Inr (Inl ErrCannotSendHookCallRequest), s)
      | (None, s) \<Rightarrow>
          (case node_doLoop cfg H s of
             (Some exit, s) \<Rightarrow> (Inl exit, s)
           | (None, s) \<Rightarrow>
               (case ReceiveNodeRequest cfg s of
                  (Inl err, s) \<Rightarrow> (Inr (Inl ErrCannotReceiveHookCallResponse), s)
                | (Inr response, s) \<Rightarrow> (Inr (Inr response), s))))"

definition pipe_sender :: "ipc_config \<Rightarrow> 'w NodeHook \<Rightarrow> 'w ipc hook_sender" where
  "pipe_sender cfg H request s =
     (case SendHookCallRequest cfg H request s of
        (Inl exit, s) \<Rightarrow> None
      | (Inr r, s) \<Rightarrow> Some (r, s))"

section \<open>The VM host and the repliers of the VM\<close>

text \<open>The request that the gateway sends for a hook.\<close>

fun request_message :: "HookRequest \<Rightarrow> Message" where
  "request_message (MessageBlockchainNewAddressRequest creatorAddress creatorNonce vmType) = NewMessageBlockchainNewAddressRequest creatorAddress creatorNonce vmType"
| "request_message (MessageBlockchainGetStorageDataRequest accountAddress index) = NewMessageBlockchainGetStorageDataRequest accountAddress index"
| "request_message (MessageBlockchainGetBlockhashRequest nonce) = NewMessageBlockchainGetBlockhashRequest nonce"
| "request_message MessageBlockchainLastNonceRequest = NewMessageBlockchainLastNonceRequest"
| "request_message MessageBlockchainLastRoundRequest = NewMessageBlockchainLastRoundRequest"
| "request_message MessageBlockchainLastTimeStampRequest = NewMessageBlockchainLastTimeStampRequest"
| "request_message MessageBlockchainLastRandomSeedRequest = NewMessageBlockchainLastRandomSeedRequest"
| "request_message MessageBlockchainLastEpochRequest = NewMessageBlockchainLastEpochRequest"
| "request_message MessageBlockchainGetStateRootHashRequest = NewMessageBlockchainGetStateRootHashRequest"
| "request_message MessageBlockchainCurrentNonceRequest = NewMessageBlockchainCurrentNonceRequest"
| "request_message MessageBlockchainCurrentRoundRequest = NewMessageBlockchainCurrentRoundRequest"
| "request_message MessageBlockchainCurrentTimeStampRequest = NewMessageBlockchainCurrentTimeStampRequest"
| "request_message MessageBlockchainCurrentRandomSeedRequest = NewMessageBlockchainCurrentRandomSeedRequest"
| "request_message MessageBlockchainCurrentEpochRequest = NewMessageBlockchainCurrentEpochRequest"
| "request_message (MessageBlockchainProcessBuiltInFunctionRequest input) = NewMessageBlockchainProcessBuiltInFunctionRequest input"
| "request_message MessageBlockchainGetBuiltinFunctionNamesRequest = NewMessageBlockchainGetBuiltinFunctionNamesRequest"
| "request_message (MessageBlockchainGetAllStateRequest address) = NewMessageBlockchainGetAllStateRequest address"
| "request_message (MessageBlockchainGetUserAccountRequest address) = NewMessageBlockchainGetUserAccountRequest address"
| "request_message (MessageBlockchainGetCodeRequest account) = NewMessageBlockchainGetCodeRequest account"
| "request_message (MessageBlockchainGetShardOfAddressRequest address) = NewMessageBlockchainGetShardOfAddressRequest address"
| "request_message (MessageBlockchainIsSmartContractRequest address) = NewMessageBlockchainIsSmartContractRequest address"
| "request_message (MessageBlockchainIsPayableRequest address) = NewMessageBlockchainIsPayableRequest address"
| "request_message (MessageBlockchainSaveCompiledCodeRequest codeHash code) = NewMessageBlockchainSaveCompiledCodeRequest codeHash code"
| "request_message (MessageBlockchainGetCompiledCodeRequest codeHash) = NewMessageBlockchainGetCompiledCodeRequest codeHash"
| "request_message MessageBlockchainClearCompiledCodesRequest = NewMessageBlockchainClearCompiledCodesRequest"
| "request_message (MessageBlockchainGetESDTTokenRequest address tokenID nonce) = NewMessageBlockchainGetESDTTokenRequest address tokenID nonce"
| "request_message MessageBlockchainIsInterfaceNilRequest = NewMessageBlockchainIsInterfaceNilRequest"
| "request_message MessageBlockchainGetSnapshotRequest = NewMessageBlockchainGetSnapshotRequest"
| "request_message (MessageBlockchainRevertToSnapshotRequest snapshot) = NewMessageBlockchainRevertToSnapshotRequest snapshot"

datatype 'a vm_run =
    Finished 'a
  | HookCall HookRequest "ipc_error + Message \<Rightarrow> 'a vm_run"
  | Panicked

record 'h vmHandler =
  vh_RunSmartContractCreate ::
    "ContractCreateInput option \<Rightarrow> 'h \<Rightarrow> ((VMOutput option \<times> ipc_error option) \<times> 'h) vm_run"
  vh_RunSmartContractCall ::
    "ContractCallInput option \<Rightarrow> 'h \<Rightarrow> ((VMOutput option \<times> ipc_error option) \<times> 'h) vm_run"
  vh_GasScheduleChange :: "GasScheduleMap \<Rightarrow> 'h \<Rightarrow> 'h"
  vh_Version :: string

type_synonym 'h vm_replier = "'h vmHandler \<Rightarrow> Message \<Rightarrow> 'h \<Rightarrow> (Message \<times> 'h) vm_run"

definition contract_response ::
  "(VMOutput option \<times> ipc_error option) \<times> 'h \<Rightarrow> Message \<times> 'h" where
  "contract_response r = (NewMessageContractResponse (fst (fst r)) (snd (fst r)), snd r)"

definition replyToRunSmartContractCreate :: "'h vm_replier" where
  "replyToRunSmartContractCreate V request h =
     (case msg_Body request of
        MessageContractDeployRequest input \<Rightarrow>
          map_vm_run contract_response (vh_RunSmartContractCreate V input h)
      | _ \<Rightarrow> Panicked)"

definition replyToRunSmartContractCall :: "'h vm_replier" where
  "replyToRunSmartContractCall V request h =
     (case msg_Body request of
        MessageContractCallRequest input \<Rightarrow>
          map_vm_run contract_response (vh_RunSmartContractCall V input h)
      | _ \<Rightarrow> Panicked)"

definition replyToDiagnoseWait :: "'h vm_replier" where
  "replyToDiagnoseWait V request h =
     (case msg_Body request of
        MessageDiagnoseWaitRequest milliseconds \<Rightarrow> Finished (NewMessageDiagnoseWaitResponse, h)
      | _ \<Rightarrow> Panicked)"

definition replyToVersionRequest :: "'h vm_replier" where
  "replyToVersionRequest V request h = Finished (NewMessageVersionResponse (vh_Version V), h)"

definition replyToGasScheduleChange :: "'h vm_replier" where
  "replyToGasScheduleChange V request h =
     (case msg_Body request of
        MessageGasScheduleChangeRequest gasSchedule \<Rightarrow>
          Finished (NewGasScheduleChangeResponse, vh_GasScheduleChange V gasSchedule h)
      | _ \<Rightarrow> Panicked)"

definition vm_noopReplier :: "'h vm_replier" where
  "vm_noopReplier V request h = Finished (CreateMessage UndefinedRequestOrResponse, h)"

definition vm_Repliers :: "(MessageKind, 'h vm_replier) gomap" where
  "vm_Repliers =
     [(ContractDeployRequest, replyToRunSmartContractCreate),
      (ContractCallRequest, replyToRunSmartContractCall),
      (DiagnoseWaitRequest, replyToDiagnoseWait),
      (VersionRequest, replyToVersionRequest),
      (GasScheduleChangeRequest, replyToGasScheduleChange)]"

definition replyToNodeRequest :: "'h vm_replier" where
  "replyToNodeRequest V request h =
     (if msg_Kind request < LastKind
      then map_get_or vm_noopReplier vm_Repliers (msg_Kind request) V request h
      else Panicked)"

section \<open>The two loops together\<close>

text \<open>
  How a dialogue ends for the node: with a response (and the VM, in its new state, waits for the
  next request), with an error, with a panic of the node, or not at all, because both processes
  wait.
\<close>

datatype 'h dialogue_end =
    Answered Message 'h
  | Broken ipc_error
  | NodePanicked
  | BothWait

text \<open>A VM process that exits closes its pipes: the node reads the end of the pipe.\<close>

definition vm_exits :: "'w ipc \<Rightarrow> 'h dialogue_end \<times> 'w ipc" where
  "vm_exits s = (Broken (IOError ''EOF''),
     s\<lparr>ipc_toVM := pipe_Shutdown (ipc_toVM s), ipc_toNode := pipe_Shutdown (ipc_toNode s)\<rparr>)"

definition node_leaves :: "node_exit \<Rightarrow> 'w ipc \<Rightarrow> 'h \<Rightarrow> 'h dialogue_end \<times> 'w ipc" where
  "node_leaves exit s h =
     (case exit of
        NodeReturns message \<Rightarrow> (Answered message h, s)
      | NodeFails err \<Rightarrow> (Broken err, s)
      | NodePanics \<Rightarrow> (NodePanicked, s))"

text \<open>\<open>SendContractResponse\<close>, the last iteration of the node's loop, and \<open>ResetDialogue\<close>.\<close>

definition SendContractResponse ::
  "ipc_config \<Rightarrow> 'w NodeHook \<Rightarrow> Message \<Rightarrow> 'h \<Rightarrow> 'w ipc \<Rightarrow> 'h dialogue_end \<times> 'w ipc" where
  "SendContractResponse cfg H response h s =
     (case vm_Send cfg response s of
        (Some err, s) \<Rightarrow> vm_exits s
      | (None, s) \<Rightarrow>
          let s = s\<lparr>ipc_vmNonce := ResetDialogue (ipc_vmNonce s)\<rparr>
          in case node_doLoop cfg H s of
               (Some exit, s) \<Rightarrow> node_leaves exit s h
             | (None, s) \<Rightarrow> (BothWait, s))"

text \<open>The run of the host while the node waits.\<close>

primrec serve ::
  "(Message \<times> 'h) vm_run \<Rightarrow> ipc_config \<Rightarrow> 'w NodeHook \<Rightarrow> 'h \<Rightarrow> 'w ipc \<Rightarrow> 'h dialogue_end \<times> 'w ipc" where
  "serve (Finished r) cfg H h s = SendContractResponse cfg H (fst r) (snd r) s"
| "serve (HookCall request k) cfg H h s =
     (case SendHookCallRequest cfg H (request_message request) s of
        (Inl exit, s) \<Rightarrow> node_leaves exit s h
      | (Inr r, s) \<Rightarrow> serve (k (map_sum id (SetNonce 0) r)) cfg H h s)"
| "serve Panicked cfg H h s = vm_exits s"

text \<open>One iteration of the VM's loop.\<close>

definition vm_doLoop ::
  "ipc_config \<Rightarrow> 'w NodeHook \<Rightarrow> 'h vmHandler \<Rightarrow> 'h \<Rightarrow> 'w ipc \<Rightarrow> 'h dialogue_end \<times> 'w ipc" where
  "vm_doLoop cfg H V h s =
     (case ReceiveNodeRequest cfg s of
        (Inl err, s) \<Rightarrow> vm_exits s
      | (Inr request, s) \<Rightarrow>
          if IsStopRequest request then vm_exits s
          else serve (replyToNodeRequest V request h) cfg H h s)"

definition StartLoop ::
  "ipc_config \<Rightarrow> 'w NodeHook \<Rightarrow> 'h vmHandler \<Rightarrow> Message \<Rightarrow> 'h \<Rightarrow> 'w ipc \<Rightarrow>
   'h dialogue_end \<times> 'w ipc" where
  "StartLoop cfg H V request h s =
     (case SendContractRequest cfg request s of
        (Some err, s) \<Rightarrow> (Broken err, s)
      | (None, s) \<Rightarrow>
          let (r, s) = vm_doLoop cfg H V h (s\<lparr>ipc_remaining := cfg_MaxLoopTime cfg\<rparr>)
          in (r, s\<lparr>ipc_nodeNonce := ResetDialogue (ipc_nodeNonce s)\<rparr>))"

section \<open>The run of the host without pipes\<close>

primrec run_direct :: "'a vm_run \<Rightarrow> 'w NodeHook \<Rightarrow> 'w \<Rightarrow> ('a \<times> 'w) option" where
  "run_direct (Finished a) H w = Some (a, w)"
| "run_direct (HookCall request k) H w =
     (case hook_reply H (request_message request) w of
        None \<Rightarrow> None
      | Some (response, w) \<Rightarrow> run_direct (k (Inr (SetNonce 0 response))) H w)"
| "run_direct Panicked H w = None"

text \<open>
  The messages of a run that the channel has to carry: all its requests are hook calls for the
  node, and the marshalizer transmits them and their responses.
\<close>

primrec carried :: "'a vm_run \<Rightarrow> marshalizer \<Rightarrow> 'w NodeHook \<Rightarrow> 'w \<Rightarrow> bool" where
  "carried (Finished a) mz H w \<longleftrightarrow> True"
| "carried (HookCall request k) mz H w \<longleftrightarrow>
     IsHookCall (request_message request) \<and> transmits mz (request_message request) \<and>
     (case hook_reply H (request_message request) w of
        None \<Rightarrow> False
      | Some (response, w) \<Rightarrow>
          transmits mz response \<and> carried (k (Inr (SetNonce 0 response))) mz H w)"
| "carried Panicked mz H w \<longleftrightarrow> False"

section \<open>The pipes are a hook channel\<close>

definition on_time :: "ipc_config \<Rightarrow> nat \<Rightarrow> int \<Rightarrow> bool" where
  "on_time cfg n remaining \<longleftrightarrow>
     (\<forall>i. \<not> snd (cfg_clock cfg i)) \<and>
     (\<forall>m. (\<Sum>i<m. fst (cfg_clock cfg (n + i))) \<le> remaining)"

text \<open>The VM computes: nothing is in flight and both messengers have the same nonce.\<close>

definition in_step :: "'w ipc \<Rightarrow> bool" where
  "in_step s \<longleftrightarrow> ipc_vmNonce s = ipc_nodeNonce s
     \<and> pp_open (ipc_toVM s) \<and> pp_bytes (ipc_toVM s) = []
     \<and> pp_open (ipc_toNode s) \<and> pp_bytes (ipc_toNode s) = []"

definition dialogue_ready :: "ipc_config \<Rightarrow> 'w ipc \<Rightarrow> bool" where
  "dialogue_ready cfg s \<longleftrightarrow> in_step s \<and> on_time cfg (ipc_received s) (ipc_remaining s)"

lemma on_time_next:
  assumes "on_time cfg n remaining"
  shows "on_time cfg (Suc n) (remaining - fst (cfg_clock cfg n))"
    and "fst (cfg_clock cfg n) \<le> remaining" and "\<not> snd (cfg_clock cfg n)"
proof -
  have sums: "(\<Sum>i<m. fst (cfg_clock cfg (n + i))) \<le> remaining" for m
    using assms by (simp add: on_time_def)
  show "on_time cfg (Suc n) (remaining - fst (cfg_clock cfg n))"
  proof -
    have "(\<Sum>i<m. fst (cfg_clock cfg (Suc n + i))) \<le> remaining - fst (cfg_clock cfg n)" for m
      using sums [of "Suc m"] by (simp add: sum.lessThan_Suc_shift del: sum.lessThan_Suc)
    then show ?thesis using assms by (simp add: on_time_def)
  qed
  show "fst (cfg_clock cfg n) \<le> remaining" using sums [of 1] by simp
  show "\<not> snd (cfg_clock cfg n)" using assms by (simp add: on_time_def)
qed

text \<open>A message from the VM reaches the node's loop, with the time it took taken off.\<close>

lemma vm_to_node:
  assumes "dialogue_ready cfg s" and "transmits (cfg_marshalizer cfg) m"
  obtains s1 s2 where "vm_Send cfg m s = (None, s1)"
    and "ReceiveHookCallRequestOrContractResponse cfg (ipc_remaining s1) s1 =
      ((Inr (SetNonce (ipc_vmNonce s + 1) m), fst (cfg_clock cfg (ipc_received s))), s2)"
    and "s2 = s\<lparr>ipc_vmNonce := ipc_vmNonce s + 1, ipc_nodeNonce := ipc_vmNonce s + 1,
                ipc_received := Suc (ipc_received s)\<rparr>"
    and "ipc_vmNonce s1 = ipc_vmNonce s + 1"
proof -
  have ready: "ipc_vmNonce s = ipc_nodeNonce s" "pp_open (ipc_toNode s)" "pp_bytes (ipc_toNode s) = []"
    and time: "\<not> snd (cfg_clock cfg (ipc_received s))"
    using assms(1) on_time_next(3) by (auto simp: dialogue_ready_def in_step_def)
  obtain p where p: "Messenger_Send (cfg_marshalizer cfg) m (ipc_nodeNonce s) (ipc_toNode s) =
      (None, ipc_nodeNonce s + 1, p)"
    "Messenger_Receive (cfg_marshalizer cfg) (ipc_nodeNonce s) p =
      (Inr (SetNonce (ipc_nodeNonce s + 1) m), ipc_nodeNonce s + 1, ipc_toNode s)"
    using Messenger_exchange [OF assms(2) ready(2,3), of "ipc_nodeNonce s"] by blast
  show thesis
  proof (rule that)
    show "vm_Send cfg m s = (None, s\<lparr>ipc_vmNonce := ipc_vmNonce s + 1, ipc_toNode := p\<rparr>)"
      using p(1) ready(1) by (simp add: vm_Send_def)
    show "ReceiveHookCallRequestOrContractResponse cfg
        (ipc_remaining (s\<lparr>ipc_vmNonce := ipc_vmNonce s + 1, ipc_toNode := p\<rparr>))
        (s\<lparr>ipc_vmNonce := ipc_vmNonce s + 1, ipc_toNode := p\<rparr>) =
      ((Inr (SetNonce (ipc_vmNonce s + 1) m), fst (cfg_clock cfg (ipc_received s))),
       s\<lparr>ipc_vmNonce := ipc_vmNonce s + 1, ipc_nodeNonce := ipc_vmNonce s + 1,
         ipc_received := Suc (ipc_received s)\<rparr>)"
      using p(2) ready(1) time
      by (simp add: ReceiveHookCallRequestOrContractResponse_def case_prod_unfold)
  qed simp_all
qed

text \<open>The repliers read the kind and the body of a request.\<close>

lemmas replier_defs =
  replyToBlockchainNewAddress_def replyToBlockchainGetStorageData_def
  replyToBlockchainGetBlockhash_def replyToBlockchainLastNonce_def
  replyToBlockchainLastRound_def replyToBlockchainLastTimeStamp_def
  replyToBlockchainLastRandomSeed_def replyToBlockchainLastEpoch_def
  replyToBlockchainGetStateRootHash_def replyToBlockchainCurrentNonce_def
  replyToBlockchainCurrentRound_def replyToBlockchainCurrentTimeStamp_def
  replyToBlockchainCurrentRandomSeed_def replyToBlockchainCurrentEpoch_def
  replyToBlockchainProcessBuiltInFunction_def replyToBlockchainGetBuiltinFunctionNames_def
  replyToBlockchainGetAllState_def replyToBlockchainGetUserAccount_def
  replyToBlockchainGetCode_def replyToBlockchainGetShardOfAddress_def
  replyToBlockchainIsSmartContract_def replyToBlockchainIsPayable_def
  replyToBlockchainSaveCompiledCode_def replyToBlockchainGetCompiledCode_def
  replyToBlockchainClearCompiledCodes_def replyToBlockchainGetESDTToken_def
  replyToBlockchainIsInterfaceNil_def replyToBlockchainGetSnapshot_def
  replyToBlockchainRevertToSnapshot_def

lemma replier_SetNonce:
  "(kind, r) \<in> set node_Repliers \<Longrightarrow> r H (SetNonce n m) w = r H m w"
  unfolding node_Repliers_def set_simps insert_iff empty_iff prod.inject
  by (elim disjE conjE; simp add: replier_defs)

lemma hook_reply_SetNonce [simp]:
  fixes H :: "'w NodeHook"
  shows "hook_reply H (SetNonce n m) w = hook_reply H m w"
proof (cases "map_get (node_Repliers :: (MessageKind, 'w replier) gomap) (msg_Kind m)")
  case None
  then show ?thesis by (simp add: hook_reply_def map_get_or_def noopReplier_def)
next
  case (Some r)
  then show ?thesis
    using replier_SetNonce [OF map_of_SomeD [OF Some]] by (simp add: hook_reply_def map_get_or_def)
qed

lemma IsHookCall_SetNonce [simp]: "IsHookCall (SetNonce n m) = IsHookCall m"
  by (simp add: IsHookCall_def)

lemma SendHookCallRequest_answered:
  assumes "dialogue_ready cfg s" and "IsHookCall request"
    and "hook_reply H request (ipc_world s) = Some (response, w)"
    and "transmits (cfg_marshalizer cfg) request" and "transmits (cfg_marshalizer cfg) response"
  shows "\<exists>n s'. SendHookCallRequest cfg H request s = (Inr (Inr (SetNonce n response)), s') \<and>
    ipc_world s' = w \<and> dialogue_ready cfg s'"
proof -
  obtain s1 s2 where s1: "vm_Send cfg request s = (None, s1)"
    and s2: "ReceiveHookCallRequestOrContractResponse cfg (ipc_remaining s1) s1 =
      ((Inr (SetNonce (ipc_vmNonce s + 1) request), fst (cfg_clock cfg (ipc_received s))), s2)"
    and s2_eq: "s2 = s\<lparr>ipc_vmNonce := ipc_vmNonce s + 1, ipc_nodeNonce := ipc_vmNonce s + 1,
      ipc_received := Suc (ipc_received s)\<rparr>"
    using assms(1,4) by (rule vm_to_node)
  let ?d = "fst (cfg_clock cfg (ipc_received s))"
  let ?n = "ipc_vmNonce s + 1"
  have time: "on_time cfg (Suc (ipc_received s)) (ipc_remaining s - ?d)" "?d \<le> ipc_remaining s"
    using assms(1) on_time_next(1,2) by (auto simp: dialogue_ready_def)
  have pipes: "pp_open (ipc_toVM s)" "pp_bytes (ipc_toVM s) = []"
    "pp_open (ipc_toNode s)" "pp_bytes (ipc_toNode s) = []"
    using assms(1) by (auto simp: dialogue_ready_def in_step_def)
  obtain p where p: "Messenger_Send (cfg_marshalizer cfg) response ?n (ipc_toVM s) = (None, ?n + 1, p)"
    "Messenger_Receive (cfg_marshalizer cfg) ?n p = (Inr (SetNonce (?n + 1) response), ?n + 1, ipc_toVM s)"
    using Messenger_exchange [OF assms(5) pipes(1,2), of ?n] by blast
  let ?s3 = "s2\<lparr>ipc_remaining := ipc_remaining s - ?d, ipc_world := w,
    ipc_nodeNonce := ?n + 1, ipc_toVM := p\<rparr>"
  have "node_doLoop cfg H s1 = (None, ?s3)"
    using s2 assms(2,3) p(1) time(2)
    by (simp add: node_doLoop_def s2_eq replyToHookCallRequest_def SendHookCallResponse_def
        node_Send_def)
  moreover have "ReceiveNodeRequest cfg ?s3 = (Inr (SetNonce (?n + 1) response),
      ?s3\<lparr>ipc_vmNonce := ?n + 1, ipc_toVM := ipc_toVM s\<rparr>)"
    using p(2) by (simp add: ReceiveNodeRequest_def s2_eq)
  ultimately have "SendHookCallRequest cfg H request s = (Inr (Inr (SetNonce (?n + 1) response)),
      ?s3\<lparr>ipc_vmNonce := ?n + 1, ipc_toVM := ipc_toVM s\<rparr>)"
    using s1 by (simp add: SendHookCallRequest_def)
  then show ?thesis
    using time(1) pipes by (simp add: dialogue_ready_def in_step_def s2_eq) blast
qed

interpretation pipes: hook_channel "pipe_sender cfg H" H ipc_world "dialogue_ready cfg"
  "transmits (cfg_marshalizer cfg)"
  for cfg :: ipc_config and H :: "'w NodeHook"
proof unfold_locales
  fix s :: "'w ipc" and request response w
  assume "dialogue_ready cfg s" "IsHookCall request"
    "hook_reply H request (ipc_world s) = Some (response, w)"
    "transmits (cfg_marshalizer cfg) request" "transmits (cfg_marshalizer cfg) response"
  then show "\<exists>n s'. pipe_sender cfg H request s = Some (Inr (SetNonce n response), s') \<and>
      ipc_world s' = w \<and> dialogue_ready cfg s'"
    using SendHookCallRequest_answered [of cfg s request H response w]
    by (auto simp: pipe_sender_def)
qed

section \<open>A dialogue computes what the direct run computes\<close>

definition is_answer :: "Message \<Rightarrow> bool" where
  "is_answer m \<longleftrightarrow> IsVersionResponse m \<or> IsContractResponse m \<or> IsDiagnose m"

lemma is_answer_not_hook: "is_answer m \<Longrightarrow> \<not> IsHookCall m"
  by (auto simp: is_answer_def IsVersionResponse_def IsContractResponse_def IsDiagnose_def
      IsHookCall_def kind_defs word_le_nat_alt)

lemma node_receives_answer:
  assumes "dialogue_ready cfg s" and "is_answer m" and "transmits (cfg_marshalizer cfg) m"
  shows "\<exists>n s'. SendContractResponse cfg H m h s = (Answered (SetNonce n m) h, s') \<and>
    ipc_world s' = ipc_world s \<and> ipc_vmNonce s' = 0 \<and> in_step (s'\<lparr>ipc_nodeNonce := 0\<rparr>)"
proof -
  obtain s1 s2 where s1: "vm_Send cfg m s = (None, s1)"
    and s2: "ReceiveHookCallRequestOrContractResponse cfg (ipc_remaining s1) s1 =
      ((Inr (SetNonce (ipc_vmNonce s + 1) m), fst (cfg_clock cfg (ipc_received s))), s2)"
    and s2_eq: "s2 = s\<lparr>ipc_vmNonce := ipc_vmNonce s + 1, ipc_nodeNonce := ipc_vmNonce s + 1,
      ipc_received := Suc (ipc_received s)\<rparr>"
    using assms(1,3) by (rule vm_to_node)
  have reset: "ReceiveHookCallRequestOrContractResponse cfg t (x\<lparr>ipc_vmNonce := 0\<rparr>) =
      (let (r, x') = ReceiveHookCallRequestOrContractResponse cfg t x in (r, x'\<lparr>ipc_vmNonce := 0\<rparr>))"
    for t x
    by (simp add: ReceiveHookCallRequestOrContractResponse_def case_prod_unfold Let_def)
  have "fst (cfg_clock cfg (ipc_received s)) \<le> ipc_remaining s"
    using assms(1) on_time_next(2) by (auto simp: dialogue_ready_def)
  then show ?thesis
    using s1 s2 assms(1,2) is_answer_not_hook [OF assms(2)]
    by (auto simp: SendContractResponse_def node_doLoop_def reset ResetDialogue_def s2_eq
        is_answer_def IsVersionResponse_def IsContractResponse_def IsDiagnose_def
        node_leaves_def dialogue_ready_def in_step_def Let_def)
qed

lemma serve_runs_direct:
  assumes "dialogue_ready cfg s" and "carried t (cfg_marshalizer cfg) H (ipc_world s)"
    and "\<And>m h w. run_direct t H (ipc_world s) = Some ((m, h), w) \<Longrightarrow>
           is_answer m \<and> transmits (cfg_marshalizer cfg) m"
  shows "\<exists>m h' w n s'. run_direct t H (ipc_world s) = Some ((m, h'), w) \<and>
    serve t cfg H h s = (Answered (SetNonce n m) h', s') \<and> ipc_world s' = w \<and>
    ipc_vmNonce s' = 0 \<and> in_step (s'\<lparr>ipc_nodeNonce := 0\<rparr>)"
  using assms
proof (induction t arbitrary: s)
  case (Finished r)
  then show ?case
    using node_receives_answer [of cfg s "fst r" H "snd r"] by (cases r) auto
next
  case (HookCall request k)
  then obtain response w where reply: "hook_reply H (request_message request) (ipc_world s) = Some (response, w)"
    and call: "IsHookCall (request_message request)" "transmits (cfg_marshalizer cfg) (request_message request)"
      "transmits (cfg_marshalizer cfg) response"
    and rest: "carried (k (Inr (SetNonce 0 response))) (cfg_marshalizer cfg) H w"
    by (auto split: option.splits prod.splits)
  obtain n s' where s': "SendHookCallRequest cfg H (request_message request) s =
      (Inr (Inr (SetNonce n response)), s')"
    "ipc_world s' = w" "dialogue_ready cfg s'"
    using SendHookCallRequest_answered [OF HookCall.prems(1) call(1) reply call(2,3)] by blast
  show ?case
    using HookCall.IH [of "k (Inr (SetNonce 0 response))" s'] HookCall.prems(3) s' rest reply
    by auto
next
  case Panicked
  then show ?case by simp
qed

end
