(* ===== verification/IPCDriver.thy ===== *)
theory IPCDriver
  imports IPCDialogue
begin

text \<open>
  The driver of the VM process (\<open>ipc/nodepart/vmDriver.go\<close>): it starts the process when it is not
  running, passes each operation of the VM to it as a dialogue and closes the process after a
  critical failure. Starting a process and building its host happens outside the node; it is the
  parameter \<open>start\<close>, which is given the arguments of the VM and returns an error or the state of
  the new host. The operations hold the driver's mutex from start to end, so they never overlap;
  \<open>None\<close> is a panic or a call that never returns.
\<close>

section \<open>The driver\<close>

record ('w, 'h) VMDriver =
  dr_ipc :: "'w ipc"
  dr_vm :: 'h
  dr_alive :: bool
  dr_arguments :: VMArguments
  dr_counterDeploy :: u64
  dr_counterCall :: u64

type_synonym 'h starter = "VMArguments \<Rightarrow> ipc_error + 'h"

text \<open>New pipes and a new node part; the compiled code that the node keeps is cleared.\<close>

definition new_pipe :: pipe where
  "new_pipe = \<lparr>pp_bytes = [], pp_open = True\<rparr>"

definition fresh_ipc :: "'w NodeHook \<Rightarrow> 'w ipc \<Rightarrow> 'w ipc" where
  "fresh_ipc H s = s\<lparr>ipc_nodeNonce := 0, ipc_vmNonce := 0, ipc_toVM := new_pipe,
     ipc_toNode := new_pipe, ipc_world := nh_ClearCompiledCodes H (ipc_world s)\<rparr>"

definition startVM ::
  "'w NodeHook \<Rightarrow> 'h starter \<Rightarrow> ('w, 'h) VMDriver \<Rightarrow> ipc_error option \<times> ('w, 'h) VMDriver" where
  "startVM H start d =
     (case start (dr_arguments d) of
        Inl err \<Rightarrow> (Some err, d)
      | Inr h \<Rightarrow> (None, d\<lparr>dr_vm := h, dr_alive := True, dr_ipc := fresh_ipc H (dr_ipc d)\<rparr>))"

definition IsClosed :: "('w, 'h) VMDriver \<Rightarrow> bool" where
  "IsClosed d \<longleftrightarrow> \<not> dr_alive d"

definition RestartVMIfNecessary ::
  "'w NodeHook \<Rightarrow> 'h starter \<Rightarrow> ('w, 'h) VMDriver \<Rightarrow> ipc_error option \<times> ('w, 'h) VMDriver" where
  "RestartVMIfNecessary H start d = (if \<not> IsClosed d then (None, d) else startVM H start d)"

definition stopVM :: "('w, 'h) VMDriver \<Rightarrow> ('w, 'h) VMDriver" where
  "stopVM d = d\<lparr>dr_alive := False\<rparr>"

definition driver_Close :: "('w, 'h) VMDriver \<Rightarrow> ('w, 'h) VMDriver" where
  "driver_Close d = stopVM d"

text \<open>\<open>driver.part.StartLoop\<close>: the response, or the error of a critical failure.\<close>

definition driver_StartLoop ::
  "ipc_config \<Rightarrow> 'w NodeHook \<Rightarrow> 'h vmHandler \<Rightarrow> Message \<Rightarrow> ('w, 'h) VMDriver \<Rightarrow>
   ((ipc_error + Message) \<times> ('w, 'h) VMDriver) option" where
  "driver_StartLoop cfg H V request d =
     (case StartLoop cfg H V request (dr_vm d) (dr_ipc d) of
        (Answered response h, s) \<Rightarrow> Some (Inr response, d\<lparr>dr_ipc := s, dr_vm := h\<rparr>)
      | (Broken err, s) \<Rightarrow> Some (Inl err, d\<lparr>dr_ipc := s\<rparr>)
      | (NodePanicked, _) \<Rightarrow> None
      | (BothWait, _) \<Rightarrow> None)"

definition GetVersion ::
  "ipc_config \<Rightarrow> 'w NodeHook \<Rightarrow> 'h vmHandler \<Rightarrow> 'h starter \<Rightarrow> ('w, 'h) VMDriver \<Rightarrow>
   (string \<times> ('w, 'h) VMDriver) option" where
  "GetVersion cfg H V start d =
     (case RestartVMIfNecessary H start d of
        (Some err, d) \<Rightarrow> Some ([], d)
      | (None, d) \<Rightarrow> do {
          (r, d) \<leftarrow> driver_StartLoop cfg H V NewMessageVersionRequest d;
          case r of
            Inl err \<Rightarrow> Some ([], driver_Close d)
          | Inr response \<Rightarrow>
              (case msg_Body response of MessageVersionResponse version \<Rightarrow> Some (version, d) | _ \<Rightarrow> None)
        })"

definition driver_GasScheduleChange ::
  "ipc_config \<Rightarrow> 'w NodeHook \<Rightarrow> 'h vmHandler \<Rightarrow> 'h starter \<Rightarrow> GasScheduleMap \<Rightarrow> ('w, 'h) VMDriver \<Rightarrow>
   (unit \<times> ('w, 'h) VMDriver) option" where
  "driver_GasScheduleChange cfg H V start newGasSchedule d =
     (let d = d\<lparr>dr_arguments := (dr_arguments d)\<lparr>va_GasSchedule := newGasSchedule\<rparr>\<rparr>
      in case RestartVMIfNecessary H start d of
           (Some err, d) \<Rightarrow> Some ((), d)
         | (None, d) \<Rightarrow> do {
             (r, d) \<leftarrow> driver_StartLoop cfg H V (NewMessageGasScheduleChangeRequest newGasSchedule) d;
             case r of
               Inl err \<Rightarrow> Some ((), driver_Close d)
             | Inr response \<Rightarrow> if GetError response \<noteq> None then Some ((), driver_Close d) else Some ((), d)
           })"

text \<open>The common part of the two contract operations, after the counter.\<close>

definition run_contract ::
  "ipc_config \<Rightarrow> 'w NodeHook \<Rightarrow> 'h vmHandler \<Rightarrow> 'h starter \<Rightarrow> Message \<Rightarrow> ('w, 'h) VMDriver \<Rightarrow>
   ((VMOutput option \<times> ipc_error option) \<times> ('w, 'h) VMDriver) option" where
  "run_contract cfg H V start request d =
     (case RestartVMIfNecessary H start d of
        (Some err, d) \<Rightarrow> Some ((None, Some (WrapCriticalError err)), d)
      | (None, d) \<Rightarrow> do {
          (r, d) \<leftarrow> driver_StartLoop cfg H V request d;
          case r of
            Inl err \<Rightarrow> Some ((None, Some (WrapCriticalError err)), driver_Close d)
          | Inr response \<Rightarrow>
              (case msg_Body response of
                 MessageContractResponse (Some serializable) \<Rightarrow>
                   (case GetError response of
                      Some err \<Rightarrow> Some ((None, Some err), d)
                    | None \<Rightarrow> Some ((Some (ConvertToVMOutput serializable), None), d))
               | _ \<Rightarrow> None)
        })"

definition driver_RunSmartContractCreate ::
  "ipc_config \<Rightarrow> 'w NodeHook \<Rightarrow> 'h vmHandler \<Rightarrow> 'h starter \<Rightarrow> ContractCreateInput option \<Rightarrow>
   ('w, 'h) VMDriver \<Rightarrow> ((VMOutput option \<times> ipc_error option) \<times> ('w, 'h) VMDriver) option" where
  "driver_RunSmartContractCreate cfg H V start input d =
     (let d = d\<lparr>dr_counterDeploy := dr_counterDeploy d + 1\<rparr>
      in run_contract cfg H V start (NewMessageContractDeployRequest input) d)"

text \<open>The trace line of a call reads the input: a nil input panics.\<close>

definition driver_RunSmartContractCall ::
  "ipc_config \<Rightarrow> 'w NodeHook \<Rightarrow> 'h vmHandler \<Rightarrow> 'h starter \<Rightarrow> ContractCallInput option \<Rightarrow>
   ('w, 'h) VMDriver \<Rightarrow> ((VMOutput option \<times> ipc_error option) \<times> ('w, 'h) VMDriver) option" where
  "driver_RunSmartContractCall cfg H V start input d =
     (let d = d\<lparr>dr_counterCall := dr_counterCall d + 1\<rparr>
      in if input = None then None
         else run_contract cfg H V start (NewMessageContractCallRequest input) d)"

definition DiagnoseWait ::
  "ipc_config \<Rightarrow> 'w NodeHook \<Rightarrow> 'h vmHandler \<Rightarrow> 'h starter \<Rightarrow> u32 \<Rightarrow> ('w, 'h) VMDriver \<Rightarrow>
   (ipc_error option \<times> ('w, 'h) VMDriver) option" where
  "DiagnoseWait cfg H V start milliseconds d =
     (case RestartVMIfNecessary H start d of
        (Some err, d) \<Rightarrow> Some (Some (WrapCriticalError err), d)
      | (None, d) \<Rightarrow> do {
          (r, d) \<leftarrow> driver_StartLoop cfg H V (NewMessageDiagnoseWaitRequest milliseconds) d;
          case r of
            Inl err \<Rightarrow> Some (Some (WrapCriticalError err), driver_Close d)
          | Inr response \<Rightarrow> Some (GetError response, d)
        })"

section \<open>Between two operations\<close>

definition idle :: "'w ipc \<Rightarrow> bool" where
  "idle s \<longleftrightarrow> in_step s \<and> ipc_nodeNonce s = 0"

definition wf_driver :: "('w, 'h) VMDriver \<Rightarrow> bool" where
  "wf_driver d \<longleftrightarrow> (dr_alive d \<longrightarrow> idle (dr_ipc d))"

lemma fresh_ipc_idle: "idle (fresh_ipc H s)"
  by (simp add: idle_def in_step_def fresh_ipc_def new_pipe_def)

lemma RestartVMIfNecessary_idle:
  "wf_driver d \<Longrightarrow> RestartVMIfNecessary H start d = (err, d') \<Longrightarrow>
   wf_driver d' \<and> (err = None \<longrightarrow> idle (dr_ipc d'))"
  by (auto simp: RestartVMIfNecessary_def IsClosed_def startVM_def wf_driver_def fresh_ipc_idle
      split: if_splits sum.splits)

subsection \<open>No bytes are left behind\<close>

text \<open>
  What the loops rely on: a message takes less than \<open>2^32\<close> bytes, and what is decoded from it,
  into whatever message, has its kind.
\<close>

definition framing :: "marshalizer \<Rightarrow> bool" where
  "framing mz \<longleftrightarrow>
     (\<forall>m bs. mz_Marshal mz m = Inr bs \<longrightarrow> length bs < 4294967296 \<and>
        (\<forall>d m'. mz_Unmarshal mz d bs = Inr m' \<longrightarrow> msg_Kind m' = msg_Kind m))"

text \<open>A pipe that is open and holds at most one frame.\<close>

definition quiet :: "pipe \<Rightarrow> bool" where
  "quiet p \<longleftrightarrow> pp_open p \<and> pp_bytes p = []"

lemma Messenger_turn:
  assumes "framing mz" and "quiet p" and "Messenger_Send mz m n p = (None, n', p')"
    and "Messenger_Receive mz k p' = (r, k', p'')"
  shows "quiet p''" and "\<And>m'. r = Inr m' \<Longrightarrow> msg_Kind m' = msg_Kind m"
proof -
  obtain bs where bs: "mz_Marshal mz (SetNonce (n + 1) m) = Inr bs"
    using assms(3) by (cases "mz_Marshal mz (SetNonce (n + 1) m)")
      (auto simp: Messenger_Send_def Sender_Send_def Let_def)
  then have len: "length bs < 4294967296"
    and kind: "\<And>d m'. mz_Unmarshal mz d bs = Inr m' \<Longrightarrow> msg_Kind m' = msg_Kind m"
    using assms(1) by (auto simp: framing_def)
  have p': "p' = p\<lparr>pp_bytes := frame (msg_Kind m) bs @ []\<rparr>"
    using assms(2,3) bs by (simp add: Messenger_Send_def Sender_Send_frame quiet_def Let_def)
  show "quiet p''"
    using assms(2,4) Receiver_Receive_frame [OF len, where mz = mz and p = p and rest = "[]"] p'
    by (auto simp: Messenger_Receive_def quiet_def Let_def split: sum.splits if_splits)
  show "msg_Kind m' = msg_Kind m" if "r = Inr m'" for m'
    using assms(4) Receiver_Receive_frame [OF len, where mz = mz and p = p and rest = "[]"] p' kind that
    by (auto simp: Messenger_Receive_def Let_def split: sum.splits if_splits)
qed

lemma Messenger_Send_refused:
  "quiet p \<Longrightarrow> Messenger_Send mz m n p = (Some err, n', p') \<Longrightarrow> p' = p"
  by (auto simp: Messenger_Send_def Sender_Send_def sendMessageLengthAndKind_def pipe_Write_def
      quiet_def Let_def split: sum.splits)

definition quiet_pipes :: "'w ipc \<Rightarrow> bool" where
  "quiet_pipes s \<longleftrightarrow> quiet (ipc_toVM s) \<and> quiet (ipc_toNode s)"

lemma in_step_quiet: "in_step s \<longleftrightarrow> ipc_vmNonce s = ipc_nodeNonce s \<and> quiet_pipes s"
  by (auto simp: in_step_def quiet_pipes_def quiet_def)

text \<open>A pipe on which exactly one message was sent.\<close>

definition holds_frame :: "marshalizer \<Rightarrow> pipe \<Rightarrow> bool" where
  "holds_frame mz p \<longleftrightarrow> (\<exists>m n n' q. quiet q \<and> Messenger_Send mz m n q = (None, n', p))"

lemma holds_frameI: "quiet q \<Longrightarrow> Messenger_Send mz m n q = (None, n', p) \<Longrightarrow> holds_frame mz p"
  by (auto simp: holds_frame_def)

text \<open>
  The VM sends a message and the node goes once round its loop: afterwards the pipe to the node is
  empty, and the pipe to the VM holds the answer to a hook call or nothing.
\<close>

lemma node_turn:
  assumes "framing (cfg_marshalizer cfg)" and "quiet_pipes s" and "vm_Send cfg m s = (None, s1)"
    and "node_doLoop cfg H (s1\<lparr>ipc_vmNonce := n\<rparr>) = (exit, s2)"
  shows "exit = Some (NodeReturns m') \<Longrightarrow> quiet_pipes s2 \<and> ipc_vmNonce s2 = n \<and>
      (is_answer m \<or> IsGasScheduleChangeResponse m)"
    and "exit = None \<Longrightarrow> quiet (ipc_toNode s2) \<and> holds_frame (cfg_marshalizer cfg) (ipc_toVM s2)"
proof -
  obtain err nonce p where send:
    "Messenger_Send (cfg_marshalizer cfg) m (ipc_vmNonce s) (ipc_toNode s) = (err, nonce, p)"
    by (cases "Messenger_Send (cfg_marshalizer cfg) m (ipc_vmNonce s) (ipc_toNode s)")
  then have s1: "err = None" "s1 = s\<lparr>ipc_vmNonce := nonce, ipc_toNode := p\<rparr>"
    using assms(3) by (auto simp: vm_Send_def)
  obtain r nonce' p' where recv:
    "Messenger_Receive (cfg_marshalizer cfg) (ipc_nodeNonce s) p = (r, nonce', p')"
    by (cases "Messenger_Receive (cfg_marshalizer cfg) (ipc_nodeNonce s) p")
  have quiet: "quiet p'" and kind: "\<And>m'. r = Inr m' \<Longrightarrow> msg_Kind m' = msg_Kind m"
    using Messenger_turn [OF assms(1) _ send [unfolded s1(1)] recv] assms(2)
    by (simp_all add: quiet_pipes_def)
  have toVM: "quiet (ipc_toVM s)" using assms(2) by (simp add: quiet_pipes_def)
  note node_defs = node_doLoop_def ReceiveHookCallRequestOrContractResponse_def Let_def
    replyToHookCallRequest_def SendHookCallResponse_def node_Send_def quiet_pipes_def
  show "quiet_pipes s2 \<and> ipc_vmNonce s2 = n \<and> (is_answer m \<or> IsGasScheduleChangeResponse m)"
    if "exit = Some (NodeReturns m')"
    using that assms(4) recv s1(2) quiet toVM kind
    by (auto simp: node_defs is_answer_def IsVersionResponse_def IsContractResponse_def
        IsDiagnose_def IsGasScheduleChangeResponse_def
        split: sum.splits if_splits option.splits prod.splits)
  show "quiet (ipc_toNode s2) \<and> holds_frame (cfg_marshalizer cfg) (ipc_toVM s2)" if "exit = None"
    using that assms(4) recv s1(2) quiet toVM
    by (auto simp: node_defs intro: holds_frameI
        split: sum.splits if_splits option.splits prod.splits)
qed

lemma SendHookCallRequest_quiet:
  assumes "framing (cfg_marshalizer cfg)" and "quiet_pipes s"
    and "SendHookCallRequest cfg H request s = (Inr r, s')"
  shows "quiet_pipes s'"
proof (cases "vm_Send cfg request s")
  case (Pair err s1)
  show ?thesis
  proof (cases err)
    case (Some e)
    obtain n p where "Messenger_Send (cfg_marshalizer cfg) request (ipc_vmNonce s) (ipc_toNode s) =
        (Some e, n, p)" "s1 = s\<lparr>ipc_vmNonce := n, ipc_toNode := p\<rparr>"
      using Pair Some by (auto simp: vm_Send_def Let_def split: prod.splits)
    moreover from this(1) have "p = ipc_toNode s"
      using assms(2) by (auto simp: quiet_pipes_def dest: Messenger_Send_refused [rotated])
    ultimately have "quiet_pipes s1" using assms(2) by (simp add: quiet_pipes_def)
    then show ?thesis using assms(3) Pair Some by (simp add: SendHookCallRequest_def)
  next
    case None
    obtain s2 where s2: "node_doLoop cfg H s1 = (None, s2)"
      using assms(3) Pair None
      by (auto simp: SendHookCallRequest_def split: prod.splits option.splits)
    then have "quiet (ipc_toNode s2)" and "holds_frame (cfg_marshalizer cfg) (ipc_toVM s2)"
      using node_turn(2) [OF assms(1,2) Pair [unfolded None], where n = "ipc_vmNonce s1"] by auto
    then show ?thesis
      using assms(3) Pair None s2 Messenger_turn(1) [OF assms(1)]
      by (auto simp: SendHookCallRequest_def ReceiveNodeRequest_def quiet_pipes_def Let_def
          holds_frame_def split: prod.splits sum.splits)
  qed
qed

lemmas request_defs =
  NewMessageBlockchainNewAddressRequest_def NewMessageBlockchainGetStorageDataRequest_def
  NewMessageBlockchainGetBlockhashRequest_def NewMessageBlockchainLastNonceRequest_def
  NewMessageBlockchainLastRoundRequest_def NewMessageBlockchainLastTimeStampRequest_def
  NewMessageBlockchainLastRandomSeedRequest_def NewMessageBlockchainLastEpochRequest_def
  NewMessageBlockchainGetStateRootHashRequest_def
  NewMessageBlockchainCurrentNonceRequest_def NewMessageBlockchainCurrentRoundRequest_def
  NewMessageBlockchainCurrentTimeStampRequest_def
  NewMessageBlockchainCurrentRandomSeedRequest_def
  NewMessageBlockchainCurrentEpochRequest_def
  NewMessageBlockchainProcessBuiltInFunctionRequest_def
  NewMessageBlockchainGetBuiltinFunctionNamesRequest_def
  NewMessageBlockchainGetAllStateRequest_def NewMessageBlockchainGetUserAccountRequest_def
  NewMessageBlockchainGetCodeRequest_def NewMessageBlockchainGetShardOfAddressRequest_def
  NewMessageBlockchainIsSmartContractRequest_def NewMessageBlockchainIsPayableRequest_def
  NewMessageBlockchainSaveCompiledCodeRequest_def
  NewMessageBlockchainGetCompiledCodeRequest_def
  NewMessageBlockchainClearCompiledCodesRequest_def
  NewMessageBlockchainGetESDTTokenRequest_def NewMessageBlockchainIsInterfaceNilRequest_def
  NewMessageBlockchainGetSnapshotRequest_def NewMessageBlockchainRevertToSnapshotRequest_def

lemma request_message_not_answer:
  "\<not> is_answer (request_message r)" "\<not> IsGasScheduleChangeResponse (request_message r)"
  by (cases r; simp add: request_defs is_answer_def IsVersionResponse_def IsContractResponse_def
      IsDiagnose_def IsGasScheduleChangeResponse_def kind_defs)+

lemma serve_quiet:
  assumes "framing (cfg_marshalizer cfg)" and "quiet_pipes s"
    and "serve t cfg H h s = (Answered m h', s')"
  shows "quiet_pipes s' \<and> ipc_vmNonce s' = 0"
  using assms(2,3)
proof (induction t arbitrary: s)
  case (Finished r)
  then show ?case
    using node_turn(1) [OF assms(1) Finished.prems(1), where n = 0]
    by (auto simp: SendContractResponse_def ResetDialogue_def vm_exits_def node_leaves_def Let_def
        split: prod.splits option.splits node_exit.splits)
next
  case (HookCall request k)
  show ?case
  proof (cases "SendHookCallRequest cfg H (request_message request) s")
    case (Pair r s2)
    show ?thesis
    proof (cases r)
      case (Inr a)
      have "quiet_pipes s2"
        using SendHookCallRequest_quiet [OF assms(1) HookCall.prems(1)] Pair Inr by blast
      moreover have "serve (k (map_sum id (SetNonce 0) a)) cfg H h s2 = (Answered m h', s')"
        using HookCall.prems(2) Pair Inr by simp
      ultimately show ?thesis by (rule HookCall.IH [OF rangeI])
    next
      case (Inl exit)
      then obtain s1 where s1: "vm_Send cfg (request_message request) s = (None, s1)"
        and loop: "node_doLoop cfg H s1 = (Some exit, s2)"
        using Pair by (auto simp: SendHookCallRequest_def split: prod.splits option.splits sum.splits)
      then have "exit \<noteq> NodeReturns m'" for m'
        using node_turn(1) [OF assms(1) HookCall.prems(1) s1, where n = "ipc_vmNonce s1"]
          request_message_not_answer [of request] by auto
      then show ?thesis
        using HookCall.prems(2) Pair Inl by (auto simp: node_leaves_def split: node_exit.splits)
    qed
  qed
qed (simp add: vm_exits_def)

lemma StartLoop_idle:
  assumes "framing (cfg_marshalizer cfg)" and "idle s"
    and "StartLoop cfg H V request h s = (Answered m h', s')"
  shows "idle s'"
proof -
  have q: "quiet_pipes s" using assms(2) by (simp add: idle_def in_step_quiet)
  obtain n p where send: "Messenger_Send (cfg_marshalizer cfg) request (ipc_nodeNonce s) (ipc_toVM s) =
      (None, n, p)"
    using assms(3) by (auto simp: StartLoop_def SendContractRequest_def node_Send_def Let_def
        split: prod.splits option.splits)
  then have frame: "holds_frame (cfg_marshalizer cfg) p"
    using q by (auto simp: quiet_pipes_def intro: holds_frameI)
  let ?s1 = "s\<lparr>ipc_nodeNonce := n, ipc_toVM := p, ipc_remaining := cfg_MaxLoopTime cfg\<rparr>"
  obtain s2 where loop: "vm_doLoop cfg H V h ?s1 = (Answered m h', s2)"
    and s': "s' = s2\<lparr>ipc_nodeNonce := 0\<rparr>"
    using assms(3) send by (auto simp: StartLoop_def SendContractRequest_def node_Send_def
        ResetDialogue_def split: prod.splits)
  obtain r s3 where recv: "ReceiveNodeRequest cfg ?s1 = (r, s3)" by (cases "ReceiveNodeRequest cfg ?s1")
  have "quiet_pipes s3"
    using recv frame q Messenger_turn(1) [OF assms(1)]
    by (auto simp: ReceiveNodeRequest_def holds_frame_def quiet_pipes_def Let_def split: prod.splits)
  moreover obtain t where "serve t cfg H h s3 = (Answered m h', s2)"
    using loop recv by (auto simp: vm_doLoop_def vm_exits_def split: sum.splits if_splits)
  ultimately have "quiet_pipes s2 \<and> ipc_vmNonce s2 = 0" by (rule serve_quiet [OF assms(1)])
  then show ?thesis by (simp add: s' idle_def in_step_quiet quiet_pipes_def)
qed

lemma driver_StartLoop_wf:
  assumes "framing (cfg_marshalizer cfg)" and "idle (dr_ipc d)"
    and "driver_StartLoop cfg H V request d = Some (r, d')"
  shows "wf_driver (driver_Close d')" and "\<And>m. r = Inr m \<Longrightarrow> wf_driver d'"
  using assms StartLoop_idle [OF assms(1,2)]
  by (auto simp: driver_StartLoop_def wf_driver_def driver_Close_def stopVM_def
      split: prod.splits dialogue_end.splits)

section \<open>Every operation leaves the driver ready for the next\<close>

text \<open>All operations have this shape; the last step keeps the driver or closes it.\<close>

lemma operation_wf:
  assumes "framing (cfg_marshalizer cfg)" and "wf_driver d"
    and op: "(case RestartVMIfNecessary H start d of
        (Some err, d) \<Rightarrow> Some (f err, d)
      | (None, d) \<Rightarrow> do {
          (r, d) \<leftarrow> driver_StartLoop cfg H V request d;
          case r of Inl err \<Rightarrow> Some (g err, driver_Close d) | Inr response \<Rightarrow> finish response d
        }) = Some (x, d')"
    and finish: "\<And>response d d'. finish response d = Some (x, d') \<Longrightarrow> d' = d \<or> d' = driver_Close d"
  shows "wf_driver d'"
proof -
  obtain err d0 where restart: "RestartVMIfNecessary H start d = (err, d0)"
    by (cases "RestartVMIfNecessary H start d")
  note d0 = RestartVMIfNecessary_idle [OF assms(2) restart]
  show ?thesis
  proof (cases err)
    case (Some e)
    then show ?thesis using op restart d0 by simp
  next
    case None
    then obtain r d1 where loop: "driver_StartLoop cfg H V request d0 = Some (r, d1)"
      and rest: "(case r of Inl err \<Rightarrow> Some (g err, driver_Close d1)
        | Inr response \<Rightarrow> finish response d1) = Some (x, d')"
      using op restart by (auto simp: bind_Some_iff)
    note wf = driver_StartLoop_wf [OF assms(1) _ loop]
    show ?thesis
      using rest wf d0 None finish by (cases r) auto
  qed
qed

lemma driver_operation_wf:
  assumes "framing (cfg_marshalizer cfg)" and "wf_driver d"
  shows "driver_RunSmartContractCall cfg H V start callInput d = Some (r1, d1) \<Longrightarrow> wf_driver d1"
    and "driver_RunSmartContractCreate cfg H V start createInput d = Some (r2, d2) \<Longrightarrow> wf_driver d2"
    and "driver_GasScheduleChange cfg H V start schedule d = Some (r3, d3) \<Longrightarrow> wf_driver d3"
    and "GetVersion cfg H V start d = Some (r4, d4) \<Longrightarrow> wf_driver d4"
    and "DiagnoseWait cfg H V start ms d = Some (r5, d5) \<Longrightarrow> wf_driver d5"
proof -
  have wf: "wf_driver (d\<lparr>dr_counterCall := x\<rparr>)" "wf_driver (d\<lparr>dr_counterDeploy := y\<rparr>)"
    "wf_driver (d\<lparr>dr_arguments := z\<rparr>)" for x y z
    using assms(2) by (simp_all add: wf_driver_def)
  have contract: "wf_driver d'"
    if "run_contract cfg H V start request d0 = Some (r, d')" "wf_driver d0" for request r d0 d'
    using that(1) unfolding run_contract_def
    by (rule operation_wf [OF assms(1) that(2)])
      (auto split: MessageBody.splits option.splits)
  show "wf_driver d1" if "driver_RunSmartContractCall cfg H V start callInput d = Some (r1, d1)"
    using that contract [OF _ wf(1)]
    by (auto simp: driver_RunSmartContractCall_def Let_def split: if_splits)
  show "wf_driver d2" if "driver_RunSmartContractCreate cfg H V start createInput d = Some (r2, d2)"
    using that contract [OF _ wf(2)] by (auto simp: driver_RunSmartContractCreate_def Let_def)
  show "wf_driver d4" if "GetVersion cfg H V start d = Some (r4, d4)"
    using that unfolding GetVersion_def
    by (rule operation_wf [OF assms]) (auto split: MessageBody.splits)
  show "wf_driver d5" if "DiagnoseWait cfg H V start ms d = Some (r5, d5)"
    using that unfolding DiagnoseWait_def by (rule operation_wf [OF assms]) auto
  show "wf_driver d3" if "driver_GasScheduleChange cfg H V start schedule d = Some (r3, d3)"
    using that unfolding driver_GasScheduleChange_def Let_def
    by (rule operation_wf [OF assms(1) wf(3)]) (auto split: if_splits)
qed


end
