(* ===== verification/IPCGuarantees.thy ===== *)
theory IPCGuarantees
  imports IPCDriver
begin

text \<open>
  What the node can rely on when the VM runs in a process of its own: the hooks that travel
  through the pipes, contract calls that give the result of a direct call, the hook calls that the
  node refuses, and the change of the gas schedule.
\<close>

section \<open>A dialogue from its request to its end\<close>

lemma replyToNodeRequest_SetNonce [simp]:
  "replyToNodeRequest V (SetNonce n m) h = replyToNodeRequest V m h"
  by (simp add: replyToNodeRequest_def vm_Repliers_def map_get_or_def vm_noopReplier_def
      replyToRunSmartContractCreate_def replyToRunSmartContractCall_def replyToDiagnoseWait_def
      replyToVersionRequest_def replyToGasScheduleChange_def)

lemma StartLoop_serves:
  assumes "idle s" and "on_time cfg (ipc_received s) (cfg_MaxLoopTime cfg)"
    and "transmits (cfg_marshalizer cfg) request" and "msg_Kind request \<noteq> Stop"
  obtains s1 where "dialogue_ready cfg s1" and "ipc_world s1 = ipc_world s"
    and "StartLoop cfg H V request h s =
      (let (r, s') = serve (replyToNodeRequest V request h) cfg H h s1 in (r, s'\<lparr>ipc_nodeNonce := 0\<rparr>))"
proof -
  have s: "ipc_nodeNonce s = 0" "ipc_vmNonce s = 0" "pp_open (ipc_toVM s)" "pp_bytes (ipc_toVM s) = []"
    using assms(1) by (auto simp: idle_def in_step_def)
  obtain p where p: "Messenger_Send (cfg_marshalizer cfg) request 0 (ipc_toVM s) = (None, 1, p)"
    "Messenger_Receive (cfg_marshalizer cfg) 0 p = (Inr (SetNonce 1 request), 1, ipc_toVM s)"
    using Messenger_exchange [OF assms(3) s(3,4), of 0] by auto
  let ?s1 = "s\<lparr>ipc_nodeNonce := 1, ipc_remaining := cfg_MaxLoopTime cfg, ipc_vmNonce := 1\<rparr>"
  show thesis
  proof (rule that)
    show "dialogue_ready cfg ?s1"
      using assms(1,2) by (simp add: dialogue_ready_def idle_def in_step_def)
    show "ipc_world ?s1 = ipc_world s" by simp
    show "StartLoop cfg H V request h s =
        (let (r, s') = serve (replyToNodeRequest V request h) cfg H h ?s1
         in (r, s'\<lparr>ipc_nodeNonce := 0\<rparr>))"
      using p s assms(4)
      by (simp add: StartLoop_def SendContractRequest_def node_Send_def vm_doLoop_def
          ReceiveNodeRequest_def IsStopRequest_def ResetDialogue_def case_prod_unfold Let_def)
  qed
qed

lemma run_direct_map:
  "run_direct (map_vm_run f t) H w = map_option (apfst f) (run_direct t H w)"
  by (induction t arbitrary: w) (auto split: option.splits)

lemma carried_map: "carried (map_vm_run f t) mz H w = carried t mz H w"
  by (induction t arbitrary: w) (auto split: option.splits)

lemma contract_response_is_answer: "is_answer (NewMessageContractResponse o' err)"
  by (simp add: is_answer_def IsContractResponse_def NewMessageContractResponse_def)

lemma GetError_contract_response: "GetError (NewMessageContractResponse o' err) = received_error err"
  by (simp add: NewMessageContractResponse_def GetError_SetError)

text \<open>
  A request whose replier runs the host: the driver returns the result of the direct run, in its
  serializable form.
\<close>

lemma run_contract_runs_direct:
  assumes "dr_alive d" and "wf_driver d"
    and "on_time cfg (ipc_received (dr_ipc d)) (cfg_MaxLoopTime cfg)"
    and "transmits (cfg_marshalizer cfg) request" and "msg_Kind request \<noteq> Stop"
    and run: "replyToNodeRequest V request (dr_vm d) = map_vm_run contract_response t"
    and "carried t (cfg_marshalizer cfg) H (ipc_world (dr_ipc d))"
    and direct: "run_direct t H (ipc_world (dr_ipc d)) = Some (((o', err), h'), w)"
    and "transmits (cfg_marshalizer cfg) (NewMessageContractResponse o' err)"
  shows "\<exists>d'. run_contract cfg H V start request d =
      Some ((case received_error err of
               Some e \<Rightarrow> (None, Some e)
             | None \<Rightarrow> (Some (ConvertToVMOutput (NewSerializableVMOutput o')), None)), d') \<and>
    dr_vm d' = h' \<and> ipc_world (dr_ipc d') = w \<and> dr_alive d' \<and> wf_driver d'"
proof -
  have idle: "idle (dr_ipc d)" using assms(1,2) by (simp add: wf_driver_def)
  obtain s1 where s1: "dialogue_ready cfg s1" "ipc_world s1 = ipc_world (dr_ipc d)"
    and loop: "StartLoop cfg H V request (dr_vm d) (dr_ipc d) =
      (let (r, s') = serve (map_vm_run contract_response t) cfg H (dr_vm d) s1
       in (r, s'\<lparr>ipc_nodeNonce := 0\<rparr>))"
    using StartLoop_serves [OF idle assms(3-5), of H V "dr_vm d"] run by metis
  have "\<exists>m h'' w'' n s'.
      run_direct (map_vm_run contract_response t) H (ipc_world s1) = Some ((m, h''), w'') \<and>
      serve (map_vm_run contract_response t) cfg H (dr_vm d) s1 = (Answered (SetNonce n m) h'', s') \<and>
      ipc_world s' = w'' \<and> ipc_vmNonce s' = 0 \<and> in_step (s'\<lparr>ipc_nodeNonce := 0\<rparr>)"
    by (rule serve_runs_direct)
      (use s1 assms(7,9) direct in \<open>auto simp: carried_map run_direct_map contract_response_def
        contract_response_is_answer\<close>)
  then obtain n s' where serve: "serve (map_vm_run contract_response t) cfg H (dr_vm d) s1 =
      (Answered (SetNonce n (NewMessageContractResponse o' err)) h', s')"
    and s': "ipc_world s' = w" "in_step (s'\<lparr>ipc_nodeNonce := 0\<rparr>)"
    using s1 direct by (auto simp: run_direct_map contract_response_def)
  have body: "msg_Body (NewMessageContractResponse o' err) =
      MessageContractResponse (Some (NewSerializableVMOutput o'))"
    by (simp add: NewMessageContractResponse_def)
  show ?thesis
    using assms(1) serve loop s' GetError_contract_response [of o' err] body
    by (auto simp: run_contract_def RestartVMIfNecessary_def IsClosed_def driver_StartLoop_def
        wf_driver_def idle_def split: option.splits)
qed

section \<open>Remote calls\<close>

lemma remote_call:
  assumes "dr_alive d" and "wf_driver d"
    and "on_time cfg (ipc_received (dr_ipc d)) (cfg_MaxLoopTime cfg)"
    and "transmits (cfg_marshalizer cfg) (NewMessageContractCallRequest (Some input))"
    and "carried (vh_RunSmartContractCall V (Some input) (dr_vm d)) (cfg_marshalizer cfg) H
           (ipc_world (dr_ipc d))"
    and "run_direct (vh_RunSmartContractCall V (Some input) (dr_vm d)) H (ipc_world (dr_ipc d)) =
           Some (((Some v, err), h'), w)"
    and "transmits (cfg_marshalizer cfg) (NewMessageContractResponse (Some v) err)"
    and "wf_accounts (vo_OutputAccounts v)"
    and "\<forall>(addr, a) \<in> set (vo_OutputAccounts v). storage_by_offset a"
    and "\<forall>e. err = Some e \<longrightarrow> ipc_error_text e \<noteq> []"
  shows "\<exists>d'. driver_RunSmartContractCall cfg H V start (Some input) d =
      Some (if err = None then (Some v, None) else (None, received_error err), d') \<and>
    dr_vm d' = h' \<and> ipc_world (dr_ipc d') = w \<and> dr_alive d' \<and> wf_driver d'"
proof -
  let ?request = "NewMessageContractCallRequest (Some input)"
  let ?d = "d\<lparr>dr_counterCall := dr_counterCall d + 1\<rparr>"
  have "replyToNodeRequest V ?request (dr_vm ?d) =
      map_vm_run contract_response (vh_RunSmartContractCall V (Some input) (dr_vm d))"
    by (simp add: replyToNodeRequest_def vm_Repliers_def map_get_or_def NewMessageContractCallRequest_def
        replyToRunSmartContractCall_def kind_defs)
  moreover have "msg_Kind ?request \<noteq> Stop"
    by (simp add: NewMessageContractCallRequest_def kind_defs)
  moreover have "wf_driver ?d" using assms(2) by (simp add: wf_driver_def)
  ultimately have "\<exists>d'. run_contract cfg H V start ?request ?d =
      Some ((case received_error err of
               Some e \<Rightarrow> (None, Some e)
             | None \<Rightarrow> (Some (ConvertToVMOutput (NewSerializableVMOutput (Some v))), None)), d') \<and>
    dr_vm d' = h' \<and> ipc_world (dr_ipc d') = w \<and> dr_alive d' \<and> wf_driver d'"
    using assms(1,3-7) by (intro run_contract_runs_direct) simp_all
  moreover have "ConvertToVMOutput (NewSerializableVMOutput (Some v)) = v"
    using assms(8,9) by (rule vm_output_read_back)
  ultimately show ?thesis
    using assms(10)
    by (auto simp: driver_RunSmartContractCall_def received_error_def split: option.splits)
qed


section \<open>The hooks through the pipes\<close>

text \<open>The answer of the gateway to a hook, if the request and its response can be transmitted.\<close>

definition forwarded ::
  "ipc_config \<Rightarrow> Message \<Rightarrow> Message \<Rightarrow> 'w \<Rightarrow> ('v \<times> 'w ipc) option \<Rightarrow> 'v \<Rightarrow> bool" where
  "forwarded cfg request response w r v \<longleftrightarrow>
     (transmits (cfg_marshalizer cfg) request \<longrightarrow> transmits (cfg_marshalizer cfg) response \<longrightarrow>
      (\<exists>s'. r = Some (v, s') \<and> ipc_world s' = w \<and> dialogue_ready cfg s'))"

lemmas forwarded_rules =
  pipes.NewAddress_forwarded pipes.GetStorageData_forwarded pipes.GetBlockhash_forwarded
  pipes.LastNonce_forwarded pipes.LastRound_forwarded pipes.LastTimeStamp_forwarded
  pipes.LastRandomSeed_forwarded pipes.LastEpoch_forwarded pipes.GetStateRootHash_forwarded
  pipes.CurrentNonce_forwarded pipes.CurrentRound_forwarded pipes.CurrentTimeStamp_forwarded
  pipes.CurrentRandomSeed_forwarded pipes.CurrentEpoch_forwarded
  pipes.GetBuiltinFunctionNames_forwarded pipes.GetAllState_forwarded
  pipes.GetUserAccount_forwarded pipes.GetCode_forwarded pipes.GetShardOfAddress_forwarded
  pipes.IsSmartContract_forwarded pipes.IsPayable_forwarded pipes.SaveCompiledCode_forwarded
  pipes.GetCompiledCode_forwarded pipes.GetESDTToken_forwarded


section \<open>Hook calls that the node refuses\<close>

lemma node_refuses:
  assumes "dialogue_ready cfg s" and "transmits (cfg_marshalizer cfg) m"
    and "\<not> IsHookCall m" and "\<not> is_answer m" and "\<not> IsGasScheduleChangeResponse m"
  shows "\<exists>s'. SendHookCallRequest cfg H m s = (Inl (NodeFails ErrBadMessageFromVM), s')"
proof -
  obtain s1 s2 where s1: "vm_Send cfg m s = (None, s1)"
    and s2: "ReceiveHookCallRequestOrContractResponse cfg (ipc_remaining s1) s1 =
      ((Inr (SetNonce (ipc_vmNonce s + 1) m), fst (cfg_clock cfg (ipc_received s))), s2)"
    and s2_eq: "s2 = s\<lparr>ipc_vmNonce := ipc_vmNonce s + 1, ipc_nodeNonce := ipc_vmNonce s + 1,
      ipc_received := Suc (ipc_received s)\<rparr>"
    using assms(1,2) by (rule vm_to_node)
  have "fst (cfg_clock cfg (ipc_received s)) \<le> ipc_remaining s"
    using assms(1) on_time_next(2) by (auto simp: dialogue_ready_def)
  then show ?thesis
    using s1 s2 assms(3-5)
    by (auto simp: SendHookCallRequest_def node_doLoop_def s2_eq is_answer_def IsVersionResponse_def
        IsContractResponse_def IsDiagnose_def IsGasScheduleChangeResponse_def Let_def)
qed

text \<open>
  A run that comes to a hook call whose kind is outside of the range of hook calls, after calls
  that are served.
\<close>

primrec asks_unserved :: "'a vm_run \<Rightarrow> marshalizer \<Rightarrow> 'w NodeHook \<Rightarrow> 'w \<Rightarrow> bool" where
  "asks_unserved (Finished a) mz H w \<longleftrightarrow> False"
| "asks_unserved (HookCall request k) mz H w \<longleftrightarrow>
     transmits mz (request_message request) \<and>
     (IsHookCall (request_message request) \<longrightarrow>
       (case hook_reply H (request_message request) w of
          None \<Rightarrow> False
        | Some (response, w) \<Rightarrow>
            transmits mz response \<and> asks_unserved (k (Inr (SetNonce 0 response))) mz H w))"
| "asks_unserved Panicked mz H w \<longleftrightarrow> False"

lemma serve_unserved:
  assumes "dialogue_ready cfg s" and "asks_unserved t (cfg_marshalizer cfg) H (ipc_world s)"
  shows "\<exists>s'. serve t cfg H h s = (Broken ErrBadMessageFromVM, s')"
  using assms
proof (induction t arbitrary: s)
  case (HookCall request k)
  show ?case
  proof (cases "IsHookCall (request_message request)")
    case False
    then show ?thesis
      using HookCall.prems node_refuses [OF HookCall.prems(1) _ False, of H]
        request_message_not_answer [of request]
      by (auto simp: node_leaves_def)
  next
    case True
    then obtain response w where reply:
        "hook_reply H (request_message request) (ipc_world s) = Some (response, w)"
      and tr: "transmits (cfg_marshalizer cfg) (request_message request)"
        "transmits (cfg_marshalizer cfg) response"
      and rest: "asks_unserved (k (Inr (SetNonce 0 response))) (cfg_marshalizer cfg) H w"
      using HookCall.prems(2) by (auto split: option.splits prod.splits)
    then obtain n s' where "SendHookCallRequest cfg H (request_message request) s =
        (Inr (Inr (SetNonce n response)), s')" "ipc_world s' = w" "dialogue_ready cfg s'"
      using SendHookCallRequest_answered [OF HookCall.prems(1) True reply tr] by blast
    then show ?thesis using HookCall.IH [OF rangeI, of s'] rest by auto
  qed
qed simp_all

lemma asks_unserved_map: "asks_unserved (map_vm_run f t) mz H w = asks_unserved t mz H w"
  by (induction t arbitrary: w) (auto split: option.splits)

lemma unserved_hooks:
  "\<not> IsHookCall (request_message request) \<longleftrightarrow>
     request \<in> {MessageBlockchainClearCompiledCodesRequest, MessageBlockchainIsInterfaceNilRequest,
       MessageBlockchainGetSnapshotRequest} \<union> range MessageBlockchainRevertToSnapshotRequest
       \<union> range MessageBlockchainProcessBuiltInFunctionRequest"
  by (cases request; simp add: request_defs IsHookCall_def kind_defs image_iff)

lemma unserved_call:
  assumes "dr_alive d" and "wf_driver d"
    and time: "on_time cfg (ipc_received (dr_ipc d)) (cfg_MaxLoopTime cfg)"
    and tr: "transmits (cfg_marshalizer cfg) (NewMessageContractCallRequest (Some input))"
    and asks: "asks_unserved (vh_RunSmartContractCall V (Some input) (dr_vm d)) (cfg_marshalizer cfg) H
      (ipc_world (dr_ipc d))"
  shows "\<exists>d'. driver_RunSmartContractCall cfg H V start (Some input) d =
      Some ((None, Some (CriticalError ErrBadMessageFromVM)), d') \<and> \<not> dr_alive d'"
proof -
  let ?request = "NewMessageContractCallRequest (Some input)"
  have idle: "idle (dr_ipc d)" using \<open>dr_alive d\<close> \<open>wf_driver d\<close> by (simp add: wf_driver_def)
  have kind: "msg_Kind ?request \<noteq> Stop"
    and reply: "replyToNodeRequest V ?request (dr_vm d) =
      map_vm_run contract_response (vh_RunSmartContractCall V (Some input) (dr_vm d))"
    by (simp_all add: NewMessageContractCallRequest_def kind_defs replyToNodeRequest_def
        vm_Repliers_def map_get_or_def replyToRunSmartContractCall_def)
  obtain s1 where s1: "dialogue_ready cfg s1" "ipc_world s1 = ipc_world (dr_ipc d)"
    and loop: "StartLoop cfg H V ?request (dr_vm d) (dr_ipc d) =
      (let (r, s') = serve (replyToNodeRequest V ?request (dr_vm d)) cfg H (dr_vm d) s1
       in (r, s'\<lparr>ipc_nodeNonce := 0\<rparr>))"
    using StartLoop_serves [OF idle time tr kind, of H V "dr_vm d"] by metis
  have asks': "asks_unserved (replyToNodeRequest V ?request (dr_vm d)) (cfg_marshalizer cfg) H (ipc_world s1)"
    using asks s1 by (simp add: reply asks_unserved_map)
  obtain s' where "serve (replyToNodeRequest V ?request (dr_vm d)) cfg H (dr_vm d) s1 =
      (Broken ErrBadMessageFromVM, s')"
    using serve_unserved [OF s1(1) asks', of "dr_vm d"] by blast
  then show ?thesis
    using \<open>dr_alive d\<close> loop
    by (simp add: driver_RunSmartContractCall_def run_contract_def RestartVMIfNecessary_def IsClosed_def
        driver_StartLoop_def WrapCriticalError_def driver_Close_def stopVM_def Let_def)
qed

text \<open>
  C26. Five hooks are not hook calls for the node, because their kinds were added after the range
  that \<open>IsHookCall\<close> tests: as soon as the VM asks for one of them (a snapshot before a nested call,
  the revert of a snapshot, a built-in function), the call ends with a critical error and the VM
  process is closed.
\<close>

theorem unserved_hooks_break_the_dialogue:
  assumes "dr_alive d" and "wf_driver d"
    and "on_time cfg (ipc_received (dr_ipc d)) (cfg_MaxLoopTime cfg)"
    and "transmits (cfg_marshalizer cfg) (NewMessageContractCallRequest (Some input))"
    and "asks_unserved (vh_RunSmartContractCall V (Some input) (dr_vm d)) (cfg_marshalizer cfg) H
      (ipc_world (dr_ipc d))"
  shows "(\<forall>request. \<not> IsHookCall (request_message request) \<longleftrightarrow>
      request \<in> {MessageBlockchainClearCompiledCodesRequest, MessageBlockchainIsInterfaceNilRequest,
        MessageBlockchainGetSnapshotRequest} \<union> range MessageBlockchainRevertToSnapshotRequest
        \<union> range MessageBlockchainProcessBuiltInFunctionRequest) \<and>
    (\<exists>d'. driver_RunSmartContractCall cfg H V start (Some input) d =
      Some ((None, Some (CriticalError ErrBadMessageFromVM)), d') \<and> \<not> dr_alive d')"
  using unserved_hooks unserved_call [OF assms] by blast

section \<open>Changes of the gas schedule\<close>

text \<open>Unmarshalling fills the message it is given: an undefined message stays one.\<close>

definition keeps_undefined :: "marshalizer \<Rightarrow> bool" where
  "keeps_undefined mz \<longleftrightarrow>
     (\<forall>d bs m. msg_Body d = UndefinedMessage \<longrightarrow> mz_Unmarshal mz d bs = Inr m \<longrightarrow>
        msg_Body m = UndefinedMessage)"

lemma created_schedule_request: "msg_Body (CreateMessage GasScheduleChangeRequest) = UndefinedMessage"
  by (simp add: CreateMessage_def messageCreators_def kind_defs SetKind_def NewUndefinedMessage_def
      SetNonce_def)

lemma schedule_request_panics:
  assumes "msg_Kind m = GasScheduleChangeRequest" and "msg_Body m = UndefinedMessage"
  shows "replyToNodeRequest V m h = Panicked" and "\<not> IsStopRequest m"
  using assms by (simp_all add: replyToNodeRequest_def vm_Repliers_def map_get_or_def kind_defs
      replyToGasScheduleChange_def IsStopRequest_def)

lemma schedule_request_breaks:
  assumes "framing (cfg_marshalizer cfg)" and "keeps_undefined (cfg_marshalizer cfg)" and "idle s"
  shows "\<exists>err s'. StartLoop cfg H V (NewMessageGasScheduleChangeRequest g) h s = (Broken err, s')"
proof -
  let ?m = "NewMessageGasScheduleChangeRequest g" and ?mz = "cfg_marshalizer cfg"
  have kind: "msg_Kind ?m = GasScheduleChangeRequest"
    by (simp add: NewMessageGasScheduleChangeRequest_def)
  have s: "ipc_nodeNonce s = 0" "ipc_vmNonce s = 0" "pp_open (ipc_toVM s)" "pp_bytes (ipc_toVM s) = []"
    using assms(3) by (auto simp: idle_def in_step_def)
  show ?thesis
  proof (cases "mz_Marshal ?mz (SetNonce 1 ?m)")
    case (Inl err)
    then show ?thesis
      using s by (simp add: StartLoop_def SendContractRequest_def node_Send_def Messenger_Send_def
          Sender_Send_def)
  next
    case (Inr bs)
    then have len: "length bs < 4294967296"
      and decoded: "\<And>m'. mz_Unmarshal ?mz (CreateMessage GasScheduleChangeRequest) bs = Inr m' \<Longrightarrow>
        msg_Kind m' = GasScheduleChangeRequest \<and> msg_Body m' = UndefinedMessage"
      using assms(1,2) created_schedule_request kind by (auto simp: framing_def keeps_undefined_def)
    have send: "Messenger_Send ?mz ?m 0 (ipc_toVM s) =
        (None, 1, (ipc_toVM s)\<lparr>pp_bytes := frame GasScheduleChangeRequest bs @ []\<rparr>)"
      using s Inr kind by (simp add: Messenger_Send_def Sender_Send_frame)
    note recv = Receiver_Receive_frame [OF len, where mz = ?mz and p = "ipc_toVM s" and rest = "[]"
        and kind = GasScheduleChangeRequest]
    show ?thesis
      using send s recv decoded
      by (cases "mz_Unmarshal ?mz (CreateMessage GasScheduleChangeRequest) bs")
        (auto simp: StartLoop_def SendContractRequest_def node_Send_def vm_doLoop_def
          ReceiveNodeRequest_def Messenger_Receive_def vm_exits_def Let_def schedule_request_panics)
  qed
qed


section \<open>An example\<close>

text \<open>
  A node that counts the questions for its nonce, a VM that asks for the nonce and returns an empty
  output, one that asks for a snapshot, and a driver whose VM process runs.
\<close>

definition example_hook :: "nat NodeHook" where
  "example_hook =
     \<lparr>nh_NewAddress = (\<lambda>w _ _ _. (([], None), w)),
      nh_GetStorageData = (\<lambda>w _ _. (([7], 0, None), w)),
      nh_GetBlockhash = (\<lambda>w _. (([], None), w)),
      nh_LastNonce = (\<lambda>w. (0, w)),
      nh_LastRound = (\<lambda>w. (0, w)),
      nh_LastTimeStamp = (\<lambda>w. (0, w)),
      nh_LastRandomSeed = (\<lambda>w. ([], w)),
      nh_LastEpoch = (\<lambda>w. (0, w)),
      nh_GetStateRootHash = (\<lambda>w. ([], w)),
      nh_CurrentNonce = (\<lambda>w. (5, Suc w)),
      nh_CurrentRound = (\<lambda>w. (0, w)),
      nh_CurrentTimeStamp = (\<lambda>w. (0, w)),
      nh_CurrentRandomSeed = (\<lambda>w. ([], w)),
      nh_CurrentEpoch = (\<lambda>w. (0, w)),
      nh_ProcessBuiltInFunction = (\<lambda>w _. ((None, None), w)),
      nh_GetBuiltinFunctionNames = (\<lambda>w. ([], w)),
      nh_GetAllState = (\<lambda>w _. (([], None), w)),
      nh_GetUserAccount = (\<lambda>w _. ((None, None), w)),
      nh_GetCode = (\<lambda>w _. ([], w)),
      nh_GetShardOfAddress = (\<lambda>w _. (0, w)),
      nh_IsSmartContract = (\<lambda>w _. (False, w)),
      nh_IsPayable = (\<lambda>w _ _. ((False, None), w)),
      nh_SaveCompiledCode = (\<lambda>w _ _. w),
      nh_GetCompiledCode = (\<lambda>w _. ((False, []), w)),
      nh_ClearCompiledCodes = (\<lambda>w. w),
      nh_GetESDTToken = (\<lambda>w _ _ _. ((None, None), w)),
      nh_IsInterfaceNil = (\<lambda>w. (False, w)),
      nh_GetSnapshot = (\<lambda>w. (0, w)),
      nh_RevertToSnapshot = (\<lambda>w _. (None, w))\<rparr>"

definition example_vm :: "HookRequest \<Rightarrow> nat vmHandler" where
  "example_vm request =
     \<lparr>vh_RunSmartContractCreate = (\<lambda>_ h. Finished ((Some newVMOutput, None), h)),
      vh_RunSmartContractCall =
        (\<lambda>_ h. HookCall request (\<lambda>_. Finished ((Some newVMOutput, None), Suc h))),
      vh_GasScheduleChange = (\<lambda>_ h. h),
      vh_Version = ''v1.3''\<rparr>"

definition example_config :: ipc_config where
  "example_config =
     \<lparr>cfg_marshalizer = table_marshalizer
        [NewMessageContractCallRequest (Some (sample_call 0)),
         NewMessageBlockchainCurrentNonceRequest,
         NewMessageBlockchainCurrentNonceResponse 5,
         NewMessageBlockchainGetSnapshotRequest,
         NewMessageContractResponse (Some newVMOutput) None],
      cfg_MaxLoopTime = 1000, cfg_clock = (\<lambda>i. (if i = 0 then 10 else 0, False))\<rparr>"

definition example_driver :: "(nat, nat) VMDriver" where
  "example_driver =
     \<lparr>dr_ipc = fresh_ipc example_hook
        \<lparr>ipc_nodeNonce = 0, ipc_vmNonce = 0, ipc_toVM = new_pipe, ipc_toNode = new_pipe,
         ipc_world = 0, ipc_remaining = 0, ipc_received = 0\<rparr>,
      dr_vm = 0, dr_alive = True,
      dr_arguments = \<lparr>va_VMType = [], va_BlockGasLimit = 0, va_GasSchedule = [],
        va_ProtectedKeyPrefix = [], va_WasmerSIGSEGVPassthrough = False, va_UseWarmInstance = False,
        va_LogsMarshalizer = JSON, va_MessagesMarshalizer = JSON\<rparr>,
      dr_counterDeploy = 0, dr_counterCall = 0\<rparr>"

lemmas example_defs = example_config_def example_driver_def fresh_ipc_def new_pipe_def

lemma example_on_time: "on_time example_config 0 1000"
proof -
  have "(\<Sum>i<m. if i = 0 then (10 :: int) else 0) \<le> 1000" for m :: nat
    by (simp add: sum.delta)
  then show ?thesis by (simp add: on_time_def example_config_def)
qed

lemma example_driver_ready:
  "dr_alive example_driver" "wf_driver example_driver" "dr_vm example_driver = 0"
  "ipc_received (dr_ipc example_driver) = 0" "cfg_MaxLoopTime example_config = 1000"
  "ipc_world (dr_ipc example_driver) = 0"
  by (simp_all add: example_defs wf_driver_def idle_def in_step_def example_hook_def)

lemma example_transmits:
  "transmits (cfg_marshalizer example_config) (NewMessageContractCallRequest (Some (sample_call 0)))"
  "transmits (cfg_marshalizer example_config) NewMessageBlockchainCurrentNonceRequest"
  "transmits (cfg_marshalizer example_config) (NewMessageBlockchainCurrentNonceResponse 5)"
  "transmits (cfg_marshalizer example_config) NewMessageBlockchainGetSnapshotRequest"
  "transmits (cfg_marshalizer example_config) (NewMessageContractResponse (Some newVMOutput) None)"
  unfolding example_config_def ipc_config.simps
  by (rule table_transmits; simp add: SetNonce_def NewMessageContractCallRequest_def
      NewMessageBlockchainCurrentNonceRequest_def NewMessageBlockchainCurrentNonceResponse_def
      NewMessageBlockchainGetSnapshotRequest_def NewMessageContractResponse_def SetError_def)+

lemma example_reply:
  "hook_reply example_hook NewMessageBlockchainCurrentNonceRequest w =
     Some (NewMessageBlockchainCurrentNonceResponse 5, Suc w)"
  by (simp add: hook_reply_def node_Repliers_def map_get_or_def kind_defs example_hook_def
      NewMessageBlockchainCurrentNonceRequest_def replyToBlockchainCurrentNonce_def)

lemma example_vm_call:
  "vh_RunSmartContractCall (example_vm request) input h =
     HookCall request (\<lambda>_. Finished ((Some newVMOutput, None), Suc h))"
  by (simp add: example_vm_def)

lemma newVMOutput_accounts: "vo_OutputAccounts newVMOutput = []"
  by (simp add: newVMOutput_def)

lemma example_hook_call: "IsHookCall NewMessageBlockchainCurrentNonceRequest"
  by (simp add: IsHookCall_def NewMessageBlockchainCurrentNonceRequest_def kind_defs)

text \<open>The call of the example, through the pipes.\<close>

lemma example_call:
  "\<exists>d'. driver_RunSmartContractCall example_config example_hook
      (example_vm MessageBlockchainCurrentNonceRequest) start (Some (sample_call 0)) example_driver =
    Some ((Some newVMOutput, None), d') \<and>
    dr_vm d' = 1 \<and> ipc_world (dr_ipc d') = 1 \<and> dr_alive d' \<and> wf_driver d'"
  using remote_call [of example_driver example_config "sample_call 0"
      "example_vm MessageBlockchainCurrentNonceRequest" example_hook newVMOutput None 1 1 start]
  by (simp add: example_driver_ready example_on_time example_transmits example_reply
      example_hook_call example_vm_call newVMOutput_accounts)


theorem unserved_hooks_break_the_dialogue_witness:
  "\<exists>d'. driver_RunSmartContractCall example_config example_hook
      (example_vm MessageBlockchainGetSnapshotRequest) (\<lambda>_. Inl ErrVMNotFound)
      (Some (sample_call 0)) example_driver =
    Some ((None, Some (CriticalError ErrBadMessageFromVM)), d') \<and> \<not> dr_alive d'"
proof -
  have "\<not> IsHookCall NewMessageBlockchainGetSnapshotRequest"
    by (simp add: IsHookCall_def NewMessageBlockchainGetSnapshotRequest_def kind_defs)
  then show ?thesis
    using unserved_hooks_break_the_dialogue [of example_driver example_config "sample_call 0"
        "example_vm MessageBlockchainGetSnapshotRequest" example_hook "\<lambda>_. Inl ErrVMNotFound"]
    by (simp add: example_driver_ready example_on_time example_transmits example_vm_call)
qed

lemma index_of_found: "index_of x xs < length xs \<Longrightarrow> xs ! index_of x xs = x"
  by (induction xs) auto

lemma table_framing:
  assumes "length table \<le> 256"
  shows "framing (table_marshalizer table)"
proof -
  have "msg_Kind (table ! unat (word_of_nat (index_of (SetNonce 0 m) table) :: byte)) = msg_Kind m"
    if "index_of (SetNonce 0 m) table < length table" for m
    using that assms index_of_found [OF that]
    by (simp add: unat_of_nat take_bit_eq_mod)
  then show ?thesis
    by (auto simp: framing_def table_marshalizer_def Let_def split: if_splits)
qed

lemma example_framing: "framing (cfg_marshalizer example_config)"
  by (simp add: example_config_def table_framing)


text \<open>A marshalizer that writes and fills the header of a message only.\<close>

definition header_marshalizer :: marshalizer where
  "header_marshalizer =
     \<lparr>mz_Marshal = (\<lambda>m. Inr (PutUint32 (msg_DialogueNonce m) @ PutUint32 (msg_Kind m))),
      mz_Unmarshal = (\<lambda>d bs. Inr (d\<lparr>msg_DialogueNonce := Uint32 (take 4 bs),
        msg_Kind := Uint32 (drop 4 bs)\<rparr>))\<rparr>"

lemma header_marshalizer_laws: "framing header_marshalizer" "keeps_undefined header_marshalizer"
  by (simp_all add: framing_def keeps_undefined_def header_marshalizer_def)



end
