(* ===== verification/HostConstruction.thy ===== *)
theory HostConstruction
  imports HookGuarantees GasConfig
begin

text \<open>
  The construction of the host (\<open>NewVMHost\<close> of \<open>hostCore/host.go\<close>) from its parameters, with the
  constructors of the contexts it calls. What a node passes in - the handler of the feature flags
  and the container of the built-in functions - becomes part of the environment of the new host; a
  missing handler or container is \<open>None\<close>. The compatibility check of the handler is code of the
  package \<open>core\<close> and the import of functions into the engine is native code: both are parameters.
  The signal handlers of the engine are not modelled, and neither is the Ethereum input.
\<close>

section \<open>Parameters\<close>

type_synonym EnableEpochsHandler = "EnableEpochFlag \<Rightarrow> bool"

record BuiltInFunctionContainer =
  bf_Get :: "string \<Rightarrow> go_error + bool"
  bf_Keys :: "string list"

record VMHostParameters =
  hp_VMType :: bytes
  hp_BlockGasLimit :: u64
  hp_GasSchedule :: GasScheduleMap
  hp_BuiltInFuncContainer :: "BuiltInFunctionContainer option"
  hp_ProtectedKeyPrefix :: bytes
  hp_WasmerSIGSEGVPassthrough :: bool
  hp_UseWarmInstance :: bool
  hp_EnableEpochsHandler :: "EnableEpochsHandler option"

record engine =
  CheckHandlerCompatibility :: "EnableEpochsHandler \<Rightarrow> EnableEpochFlag list \<Rightarrow> go_error option"
  SetImports :: "string list \<Rightarrow> go_error option"
  engine_decode64 :: "u64 decoder"
  engine_decode32 :: "u32 decoder"

definition allFlags :: "EnableEpochFlag list" where
  "allFlags = [SCDeployFlag, BuiltInFunctionsFlag, RepairCallbackFlag, AheadOfTimeGasUsageFlag]"

definition MaximumWasmerInstanceCount :: u64 where
  "MaximumWasmerInstanceCount = 10"

definition NewBlockchainContext :: blockchainContext where
  "NewBlockchainContext = \<lparr>bc_stateStack = []\<rparr>"

section \<open>The host\<close>

definition import_names :: "'w import_table \<Rightarrow> string list" where
  "import_names imports = remdups (map fst imports)"

text \<open>
  The constructor panics (\<open>None\<close>) on a missing container of built-in functions, whose keys the
  code validator asks for; every other failure is an error.
\<close>

definition NewVMHost ::
  "engine \<Rightarrow> 'w vmEnv \<Rightarrow> 'w dest_call \<Rightarrow> VMHostParameters \<Rightarrow> 'w \<Rightarrow>
   (go_error + 'w vmEnv \<times> gasTables \<times> 'w vmHost) option" where
  "NewVMHost W E onDest hostParameters world =
     (case hp_EnableEpochsHandler hostParameters of
        None \<Rightarrow> Some (Inl (Sentinel ErrNilEnableEpochsHandler))
      | Some handler \<Rightarrow>
          (case CheckHandlerCompatibility W handler allFlags of
             Some err \<Rightarrow> Some (Inl err)
           | None \<Rightarrow>
               let E = E\<lparr>env_IsFlagEnabled := handler\<rparr>;
                   scAPINames = import_names (scAPIMethods E onDest)
               in case SetImports W scAPINames of
                    Some err \<Rightarrow> Some (Inl err)
                  | None \<Rightarrow>
                      (case hp_BuiltInFuncContainer hostParameters of
                         None \<Rightarrow> None
                       | Some container \<Rightarrow>
                           let E = E\<lparr>env_BuiltInGet := bf_Get container, env_BuiltInKeys := bf_Keys container\<rparr>;
                               runtime = NewRuntimeContext E scAPINames (hp_VMType hostParameters)
                                           (hp_UseWarmInstance hostParameters)
                           in case NewMeteringContext (engine_decode64 W) (engine_decode32 W) (hp_GasSchedule hostParameters)
                                     (hp_BlockGasLimit hostParameters) of
                                Inl err \<Rightarrow> Some (Inl err)
                              | Inr metering \<Rightarrow>
                                  (case NewStorageContext (hp_ProtectedKeyPrefix hostParameters) of
                                     Inl err \<Rightarrow> Some (Inl err)
                                   | Inr storage \<Rightarrow>
                                       (case CreateGasConfig (engine_decode64 W) (engine_decode32 W) (hp_GasSchedule hostParameters) of
                                          Inl err \<Rightarrow> Some (Inl err)
                                        | Inr gasCostConfig \<Rightarrow>
                                            let h = \<lparr>host_bigInt = NewBigIntContext,
                                                     host_blockchain = NewBlockchainContext,
                                                     host_metering = metering, host_output = NewOutputContext,
                                                     host_runtime = SetMaxInstanceCount MaximumWasmerInstanceCount runtime,
                                                     host_storage = storage, host_world = world\<rparr>;
                                                tables = \<lparr>gt_gasSchedule = hp_GasSchedule hostParameters,
                                                  gt_opcodeCosts =
                                                    Some (ToOpcodeCostsArray (gc_WASMOpcodeCost gasCostConfig))\<rparr>
                                            in Some (Inr (E, tables, initContexts h)))))))"

section \<open>A new host\<close>

definition no_state_left :: "'w vmHost \<Rightarrow> bool" where
  "no_state_left h \<longleftrightarrow> bi_values (host_bigInt h) = [] \<and> bi_stateStack (host_bigInt h) = []
     \<and> bc_stateStack (host_blockchain h) = [] \<and> mc_stateStack (host_metering h) = []
     \<and> mc_gasUsedByAccounts (host_metering h) = [] \<and> oc_outputState (host_output h) = newVMOutput
     \<and> oc_stateStack (host_output h) = [] \<and> oc_codeUpdates (host_output h) = []
     \<and> rc_stateStack (host_runtime h) = [] \<and> rc_instanceStack (host_runtime h) = []
     \<and> rc_instance (host_runtime h) = None \<and> rc_vmInput (host_runtime h) = emptyVMInput
     \<and> \<not> rc_readOnly (host_runtime h) \<and> rc_errors (host_runtime h) = None
     \<and> sc_stateStack (host_storage h) = []"

lemma no_state_left_wf:
  "no_state_left h \<Longrightarrow> wf_host (upd_runtime (runtime_InitStateFromContractCallInput input) h)"
  by (simp add: wf_host_def no_state_left_def wf_bigInt_def wf_output_def wf_metering_def wf_runtime_def
      runtime_InitStateFromContractCallInput_def SetVMInput_def Let_def normal_input_def copyVMInput_def)

lemma initContexts_idem: "initContexts (initContexts h) = initContexts h"
  by (simp add: initContexts_def ClearContextStateStack_def Let_def bigInt_ClearStateStack_def bigInt_InitState_def
      output_ClearStateStack_def output_InitState_def metering_ClearStateStack_def metering_InitState_def
      runtime_ClearStateStack_def runtime_InitState_def storage_ClearStateStack_def storage_InitState_def)

lemma import_names_set: "set (import_names imports) = fst ` set imports"
  by (simp add: import_names_def)

lemma import_names_same: "map fst (scAPIMethods E onDest) = map fst (scAPIMethods E' onDest')"
  by (simp add: scAPIMethods_def BaseOpsAPIImports_def BigIntImports_def SmallIntImports_def CryptoImports_def)

lemma new_settings:
  fixes E E' :: "'w vmEnv" and onDest :: "'w dest_call" and m s w vmType warm
  defines "h \<equiv> initContexts \<lparr>host_bigInt = NewBigIntContext, host_blockchain = NewBlockchainContext,
     host_metering = m, host_output = NewOutputContext,
     host_runtime = SetMaxInstanceCount MaximumWasmerInstanceCount
       (NewRuntimeContext E (import_names (scAPIMethods E' onDest)) vmType warm),
     host_storage = s, host_world = w\<rparr>"
  shows "rc_maxWasmerInstances (host_runtime h) = 10"
    and "mc_gasSchedule (host_metering h) = mc_gasSchedule m"
    and "sc_vmStorageProtectionEnabled (host_storage h) = sc_vmStorageProtectionEnabled s"
    and "sc_protectedKeyPrefix (host_storage h) = sc_protectedKeyPrefix s"
    and "set (rc_reserved (host_runtime h)) = {f \<in> set (env_BuiltInKeys E). IsBuiltinFunctionName E f}
      \<union> fst ` set (scAPIMethods E onDest) \<union> {UpgradeFunctionName}"
proof -
  note init = initContexts_def ClearContextStateStack_def Let_def runtime_ClearStateStack_def runtime_InitState_def
    storage_ClearStateStack_def storage_InitState_def metering_ClearStateStack_def metering_InitState_def
  show "rc_maxWasmerInstances (host_runtime h) = 10"
    by (simp add: h_def init SetMaxInstanceCount_def MaximumWasmerInstanceCount_def)
  show "mc_gasSchedule (host_metering h) = mc_gasSchedule m" by (simp add: h_def init)
  show "sc_vmStorageProtectionEnabled (host_storage h) = sc_vmStorageProtectionEnabled s"
    "sc_protectedKeyPrefix (host_storage h) = sc_protectedKeyPrefix s"
    by (simp_all add: h_def init)
  have "fst ` set (scAPIMethods E' onDest) = fst ` set (scAPIMethods E onDest)"
    using arg_cong [where f = set, OF import_names_same [of E' onDest E onDest]] by simp
  moreover have "rc_reserved (host_runtime h) = NewReservedFunctions E (import_names (scAPIMethods E' onDest))"
    by (simp add: h_def init SetMaxInstanceCount_def NewRuntimeContext_def)
  ultimately show "set (rc_reserved (host_runtime h)) = {f \<in> set (env_BuiltInKeys E). IsBuiltinFunctionName E f}
      \<union> fst ` set (scAPIMethods E onDest) \<union> {UpgradeFunctionName}"
    by (simp add: set_NewReservedFunctions import_names_set)
qed

lemma fresh_host:
  "no_state_left (initContexts \<lparr>host_bigInt = NewBigIntContext, host_blockchain = NewBlockchainContext,
     host_metering = m, host_output = NewOutputContext,
     host_runtime = SetMaxInstanceCount n (NewRuntimeContext E names vmType warm), host_storage = s, host_world = w\<rparr>)"
  by (simp add: no_state_left_def initContexts_def ClearContextStateStack_def Let_def bigInt_ClearStateStack_def
      bigInt_InitState_def output_ClearStateStack_def output_InitState_def metering_ClearStateStack_def
      metering_InitState_def runtime_ClearStateStack_def runtime_InitState_def storage_ClearStateStack_def
      storage_InitState_def NewBigIntContext_def NewBlockchainContext_def NewOutputContext_def
      SetMaxInstanceCount_def NewRuntimeContext_def)

text \<open>What the settings of the new host are.\<close>

definition configured :: "VMHostParameters \<Rightarrow> 'w dest_call \<Rightarrow> 'w vmEnv \<Rightarrow> gasTables \<Rightarrow> 'w vmHost \<Rightarrow> bool" where
  "configured params onDest E tables h \<longleftrightarrow>
     rc_maxWasmerInstances (host_runtime h) = 10
     \<and> all_costs_set (mc_gasSchedule (host_metering h))
     \<and> gt_opcodeCosts tables
         = Some (map (gc_WASMOpcodeCost (mc_gasSchedule (host_metering h))) (butlast WASMOpcodeCost_fields))
     \<and> sc_vmStorageProtectionEnabled (host_storage h)
     \<and> sc_protectedKeyPrefix (host_storage h) = hp_ProtectedKeyPrefix params
     \<and> hp_ProtectedKeyPrefix params \<noteq> []
     \<and> hp_EnableEpochsHandler params = Some (env_IsFlagEnabled E)
     \<and> (\<forall>name. IsReserved (rc_reserved (host_runtime h)) name \<longleftrightarrow>
          name = UpgradeFunctionName \<or> name \<in> fst ` set (scAPIMethods E onDest)
          \<or> (name \<in> set (env_BuiltInKeys E) \<and> IsBuiltinFunctionName E name))"

definition refused :: "engine \<Rightarrow> string list \<Rightarrow> VMHostParameters \<Rightarrow> go_error \<Rightarrow> bool" where
  "refused W names params err \<longleftrightarrow>
     (hp_EnableEpochsHandler params = None \<and> err = Sentinel ErrNilEnableEpochsHandler)
     \<or> (\<exists>handler. hp_EnableEpochsHandler params = Some handler
          \<and> CheckHandlerCompatibility W handler allFlags = Some err)
     \<or> SetImports W names = Some err
     \<or> CreateGasConfig (engine_decode64 W) (engine_decode32 W) (hp_GasSchedule params) = Inl err
     \<or> (hp_ProtectedKeyPrefix params = [] \<and> err = OtherError ''ProtectedKeyPrefix cannot be empty'')"

lemma NewMeteringContext_ok:
  "NewMeteringContext decode decode32 gasMap blockGasLimit = Inr m \<longleftrightarrow>
     (\<exists>cost. CreateGasConfig decode decode32 gasMap = Inr cost
        \<and> m = \<lparr>mc_stateStack = [], mc_gasSchedule = cost, mc_blockGasLimit = blockGasLimit, mc_initialGasProvided = 0,
               mc_initialCost = 0, mc_gasForExecution = 0, mc_gasUsedByAccounts = []\<rparr>)"
  by (auto simp: NewMeteringContext_def metering_InitState_def split: sum.split)

definition accepted :: "engine \<Rightarrow> string list \<Rightarrow> VMHostParameters \<Rightarrow> bool" where
  "accepted W names params \<longleftrightarrow>
     (\<exists>handler. hp_EnableEpochsHandler params = Some handler \<and> CheckHandlerCompatibility W handler allFlags = None)
     \<and> SetImports W names = None \<and> hp_BuiltInFuncContainer params \<noteq> None
     \<and> (\<exists>cost. CreateGasConfig (engine_decode64 W) (engine_decode32 W) (hp_GasSchedule params) = Inr cost)
     \<and> hp_ProtectedKeyPrefix params \<noteq> []"

text \<open>A host with the schedule that the tests use is accepted.\<close>

lemma test_host_accepted:
  assumes "SetImports W names = None" and "\<And>handler. CheckHandlerCompatibility W handler allFlags = None"
    and "engine_decode64 W = plain_decoder (\<lambda>v. v)" and "engine_decode32 W = plain_decoder ucast"
  shows "accepted W names \<lparr>hp_VMType = [5, 0], hp_BlockGasLimit = 1000, hp_GasSchedule = MakeGasMapForTests,
    hp_BuiltInFuncContainer = Some \<lparr>bf_Get = (\<lambda>_. Inr False), bf_Keys = []\<rparr>, hp_ProtectedKeyPrefix = [69],
    hp_WasmerSIGSEGVPassthrough = False, hp_UseWarmInstance = False, hp_EnableEpochsHandler = Some (\<lambda>_. True)\<rparr>"
  using assms test_schedule [OF plain_decodes plain_decodes, of 1 100000]
  by (auto simp: accepted_def MakeGasMapForTests_def)

lemma new_host:
  assumes new: "NewVMHost W E onDest params world = Some (Inr (E', tables, h))"
  shows "no_state_left h \<and> (\<forall>input. wf_host (upd_runtime (runtime_InitStateFromContractCallInput input) h))
    \<and> host_InitState h = h \<and> configured params onDest E' tables h"
proof -
  obtain handler container m s cost where parts: "hp_EnableEpochsHandler params = Some handler"
    "hp_BuiltInFuncContainer params = Some container"
    "NewMeteringContext (engine_decode64 W) (engine_decode32 W) (hp_GasSchedule params) (hp_BlockGasLimit params) = Inr m"
    "NewStorageContext (hp_ProtectedKeyPrefix params) = Inr s"
    "CreateGasConfig (engine_decode64 W) (engine_decode32 W) (hp_GasSchedule params) = Inr cost"
    "E' = E\<lparr>env_IsFlagEnabled := handler, env_BuiltInGet := bf_Get container, env_BuiltInKeys := bf_Keys container\<rparr>"
    "gt_opcodeCosts tables = Some (ToOpcodeCostsArray (gc_WASMOpcodeCost cost))"
    "h = initContexts \<lparr>host_bigInt = NewBigIntContext, host_blockchain = NewBlockchainContext, host_metering = m,
       host_output = NewOutputContext, host_runtime = SetMaxInstanceCount MaximumWasmerInstanceCount
         (NewRuntimeContext E' (import_names (scAPIMethods (E\<lparr>env_IsFlagEnabled := handler\<rparr>) onDest))
           (hp_VMType params) (hp_UseWarmInstance params)), host_storage = s, host_world = world\<rparr>"
    using new by (auto simp: NewVMHost_def Let_def split: option.splits sum.splits)
  have m: "mc_gasSchedule m = cost" using parts by (auto simp: NewMeteringContext_ok)
  have s: "sc_vmStorageProtectionEnabled s" "sc_protectedKeyPrefix s = hp_ProtectedKeyPrefix params"
    "hp_ProtectedKeyPrefix params \<noteq> []"
    using parts(4) by (auto simp: NewStorageContext_def split: if_splits)
  have "no_state_left h" unfolding parts(8) by (rule fresh_host)
  moreover have "host_InitState h = h"
    by (simp add: host_InitState_def parts(8) initContexts_idem)
  moreover have "configured params onDest E' tables h"
  proof -
    have handler: "hp_EnableEpochsHandler params = Some (env_IsFlagEnabled E')" by (simp add: parts(1,6))
    show ?thesis
      unfolding configured_def IsReserved_def parts(7,8) new_settings handler m opcode_costs_of_fields
      using s CreateGasConfig_all_set [OF parts(5)] by auto
  qed
  ultimately show ?thesis by (simp add: no_state_left_wf)
qed

text \<open>
  C29. Constructing the host has exactly these outcomes. It succeeds exactly for acceptable parameters, and panics only
  when the container of built-in functions is missing. It fails with the error of a missing or incompatible handler of the feature flags, of
  the engine, of a refused gas schedule or of an empty protected key prefix. Otherwise nothing is left in any context or on any stack of the new host, it is well formed
  as soon as a call input is set, and resetting it changes nothing; at most ten
  instances may run, no operation and no opcode is free, the engine has the opcode costs of the
  same schedule, the protection of storage keys is on with a non-empty prefix, and exactly the
  upgrade function, the imported functions and the active built-in functions are reserved.
\<close>

theorem NewVMHost_outcomes:
  "((\<exists>new. NewVMHost W E onDest params world = Some (Inr new))
     \<longleftrightarrow> accepted W (import_names (scAPIMethods E onDest)) params)
   \<and> (case NewVMHost W E onDest params world of
     None \<Rightarrow> hp_BuiltInFuncContainer params = None
   | Some (Inl err) \<Rightarrow> refused W (import_names (scAPIMethods E onDest)) params err
   | Some (Inr (E', tables, h)) \<Rightarrow>
       no_state_left h \<and> (\<forall>input. wf_host (upd_runtime (runtime_InitStateFromContractCallInput input) h)) \<and> host_InitState h = h \<and> configured params onDest E' tables h)"
proof -
  have names: "import_names (scAPIMethods (E\<lparr>env_IsFlagEnabled := f\<rparr>) onDest) = import_names (scAPIMethods E onDest)"
    for f by (simp add: import_names_def import_names_same [of "E\<lparr>env_IsFlagEnabled := f\<rparr>" onDest E onDest])
  have "refused W (import_names (scAPIMethods E onDest)) params err" if "NewVMHost W E onDest params world = Some (Inl err)" for err
    using that by (auto simp: NewVMHost_def Let_def refused_def names NewMeteringContext_def NewStorageContext_def
        split: option.splits sum.splits if_splits)
  moreover have "hp_BuiltInFuncContainer params = None" if "NewVMHost W E onDest params world = None"
    using that by (auto simp: NewVMHost_def Let_def split: option.splits sum.splits)
  moreover have "(\<exists>new. NewVMHost W E onDest params world = Some (Inr new))
     \<longleftrightarrow> accepted W (import_names (scAPIMethods E onDest)) params"
    by (auto simp: NewVMHost_def Let_def accepted_def names NewMeteringContext_def NewStorageContext_def
        split: option.splits sum.splits)
  ultimately show ?thesis using new_host [of W E onDest params world] by (auto split: option.split sum.split)
qed

end
