(* ===== verification/OrderedJSON.thy ===== *)
theory OrderedJSON
  imports Errors "HOL-Library.List_Lexorder" "HOL-Library.Char_ord"
begin

text \<open>
  JSON documents with ordered maps, the format of scenarios (\<open>scenarios/orderedjson\<close>): the model of
  documents, the writer and the parser, which is a state machine with a stack of states. A Go
  string is a list of 8-bit characters. The top of the stack of the parser is the head of the
  list. Reading the previous character before the first one, slicing a text that is too short and
  looking at the top of an empty stack are panics (\<open>None\<close>); the parser is shown to have none,
  and to read back every document that the writer produces.
\<close>

section \<open>Documents\<close>

text \<open>A value of a map may be nil; the items of a list are objects.\<close>

datatype OJsonObject =
    OJsonMap "(string, bool) gomap" "(string \<times> OJsonObject option) list"
  | OJsonList "OJsonObject list"
  | OJsonString string
  | OJsonBool bool

type_synonym ojson_map = "(string, bool) gomap \<times> (string \<times> OJsonObject option) list"

definition NewMap :: ojson_map where
  "NewMap = ([], [])"

definition Put :: "string \<Rightarrow> OJsonObject option \<Rightarrow> ojson_map \<Rightarrow> ojson_map" where
  "Put key value = (\<lambda>(KeySet, OrderedKV).
     if map_get KeySet key = None then (map_put key True KeySet, OrderedKV @ [(key, value)])
     else (KeySet, OrderedKV))"

definition Size :: "ojson_map \<Rightarrow> nat" where
  "Size m = length (snd m)"

definition RefreshKeySet :: "ojson_map \<Rightarrow> ojson_map" where
  "RefreshKeySet m = (fold (\<lambda>(key, _). map_put key True) (snd m) [], snd m)"

text \<open>The order of \<open>sort.Slice\<close> is the order of the bytes; keys are distinct.\<close>

definition KeyValuePairsSortedByKey :: "ojson_map \<Rightarrow> (string \<times> OJsonObject option) list" where
  "KeyValuePairsSortedByKey m = sort_key fst (snd m)"

section \<open>Writing\<close>

abbreviation newline :: char where
  "newline \<equiv> CHR 0x0A"

abbreviation quote :: char where
  "quote \<equiv> CHR 0x22"

abbreviation backslash :: char where
  "backslash \<equiv> CHR 0x5C"

primrec addIndent :: "nat \<Rightarrow> string" where
  "addIndent 0 = []"
| "addIndent (Suc indent) = ''    '' @ addIndent indent"

fun write_pairs :: "nat \<Rightarrow> (string \<times> (nat \<Rightarrow> string) option) list \<Rightarrow> string" where
  "write_pairs indent [] = []"
| "write_pairs indent ((key, value) # rest) =
     newline # addIndent (indent + 1) @ [quote] @ key @ [quote] @ '': ''
     @ (case value of None \<Rightarrow> [] | Some write \<Rightarrow> write (indent + 1))
     @ (if rest \<noteq> [] then '','' else []) @ write_pairs indent rest"

fun write_items :: "nat \<Rightarrow> (nat \<Rightarrow> string) list \<Rightarrow> string" where
  "write_items indent [] = []"
| "write_items indent (write # rest) =
     newline # addIndent (indent + 1) @ write (indent + 1)
     @ (if rest \<noteq> [] then '','' else []) @ write_items indent rest"

primrec writeJSON :: "OJsonObject \<Rightarrow> nat \<Rightarrow> string" where
  "writeJSON (OJsonMap KeySet OrderedKV) = (\<lambda>indent.
     if length OrderedKV = 0 then ''{}''
     else ''{'' @ write_pairs indent (map (map_prod id (map_option writeJSON)) OrderedKV)
            @ [newline] @ addIndent indent @ ''}'')"
| "writeJSON (OJsonList collection) = (\<lambda>indent.
     if length collection = 0 then ''[]''
     else ''['' @ write_items indent (map writeJSON collection) @ [newline] @ addIndent indent @ '']'')"
| "writeJSON (OJsonString value) = (\<lambda>indent. [quote] @ value @ [quote])"
| "writeJSON (OJsonBool b) = (\<lambda>indent. if b then ''true'' else ''false'')"

definition JSONString :: "OJsonObject \<Rightarrow> string" where
  "JSONString j = writeJSON j 0"

section \<open>Parsing\<close>

datatype jsonParserState =
    StateAnyObjPlaceholder
  | StateSingleValue (sv_buffer: string) (sv_stringEscape: bool)
  | StateMap ojson_map
  | StateMapKeyValue (kv_keyBuffer: string) (kv_state: nat)
  | StateList "OJsonObject list"

type_synonym parser = "jsonParserState list \<times> OJsonObject option"

definition isWhitespace :: "char \<Rightarrow> bool" where
  "isWhitespace c \<longleftrightarrow> c = CHR '' '' \<or> c = newline \<or> c = CHR 0x0D \<or> c = CHR 0x09"

definition quoted :: "string \<Rightarrow> bool" where
  "quoted str \<longleftrightarrow> take 1 str = [quote] \<and> str \<noteq> [] \<and> last str = quote"

definition strip_quotes :: "string \<Rightarrow> string option" where
  "strip_quotes str = (if length str < 2 then None else Some (butlast (tl str)))"

definition finalize :: "string \<Rightarrow> (go_error + OJsonObject) option" where
  "finalize str =
     (if quoted str then map_option (\<lambda>s. Inr (OJsonString s)) (strip_quotes str)
      else if str = ''true'' then Some (Inr (OJsonBool True))
      else if str = ''false'' then Some (Inr (OJsonBool False))
      else Some (Inl (OtherError (''Invalid value: '' @ str))))"

text \<open>
  One round of the inner loop for a character. The first component of the result says whether the
  character is used up; otherwise it is looked at again in the new state.
\<close>

definition finish_value ::
  "bool \<Rightarrow> string \<Rightarrow> jsonParserState list \<Rightarrow> (go_error + bool \<times> parser) option" where
  "finish_value used buffer stack =
     (case finalize buffer of
        None \<Rightarrow> None
      | Some (Inl err) \<Rightarrow> Some (Inl err)
      | Some (Inr value) \<Rightarrow> Some (Inr (used, stack, Some value)))"

fun parse_step :: "char option \<Rightarrow> char \<Rightarrow> parser \<Rightarrow> (go_error + bool \<times> parser) option" where
  "parse_step prevChar c ([], pendingResult) =
     (if isWhitespace c then Some (Inr (True, [], pendingResult))
      else Some (Inl (OtherError ''unexpected characters at the end'')))"
| "parse_step prevChar c (StateAnyObjPlaceholder # stack, pendingResult) =
     (if pendingResult \<noteq> None then Some (Inl (OtherError ''invalid state''))
      else if isWhitespace c then Some (Inr (True, StateAnyObjPlaceholder # stack, None))
      else if c = CHR ''{'' then Some (Inr (True, StateMap NewMap # stack, None))
      else if c = CHR ''['' then Some (Inr (True, StateList [] # stack, None))
      else if c = CHR '']'' \<or> c = CHR ''}'' \<or> c = CHR '','' then Some (Inl (OtherError ''misplaced character''))
      else Some (Inr (False, StateSingleValue [] False # stack, None)))"
| "parse_step prevChar c (StateSingleValue buffer stringEscape # stack, pendingResult) =
     (if length buffer = 0
      then Some (Inr (True, StateSingleValue [c] (c = quote) # stack, pendingResult))
      else case prevChar of
             None \<Rightarrow> None
           | Some prev \<Rightarrow>
               if stringEscape then
                 (if c = quote \<and> prev \<noteq> backslash then finish_value True (buffer @ [c]) stack
                  else Some (Inr (True, StateSingleValue (buffer @ [c]) stringEscape # stack, pendingResult)))
               else if c = CHR '']'' \<or> c = CHR ''}'' \<or> c = CHR '','' \<or> isWhitespace c
                 then finish_value False buffer stack
               else Some (Inr (True, StateSingleValue (buffer @ [c]) stringEscape # stack, pendingResult)))"
| "parse_step prevChar c (StateList list # stack, pendingResult) =
     (let list = (case pendingResult of None \<Rightarrow> list | Some item \<Rightarrow> list @ [item])
      in if isWhitespace c then Some (Inr (True, StateList list # stack, None))
         else if c = CHR '']'' then Some (Inr (True, stack, Some (OJsonList list)))
         else if length list = 0 then Some (Inr (False, StateAnyObjPlaceholder # StateList list # stack, None))
         else if c = CHR '','' then Some (Inr (True, StateAnyObjPlaceholder # StateList list # stack, None))
         else Some (Inr (True, StateList list # stack, None)))"
| "parse_step prevChar c (StateMap currentMap # stack, pendingResult) =
     (if isWhitespace c then Some (Inr (True, StateMap currentMap # stack, pendingResult))
      else if c = CHR ''}'' then Some (Inr (True, stack, Some (OJsonMap (fst currentMap) (snd currentMap))))
      else if c = CHR '',''
        then Some (Inr (True, StateMapKeyValue [] 0 # StateMap currentMap # stack, pendingResult))
      else if Size currentMap = 0
        then Some (Inr (False, StateMapKeyValue [] 0 # StateMap currentMap # stack, pendingResult))
      else Some (Inl (OtherError ''invalid map state'')))"
| "parse_step prevChar c (StateMapKeyValue keyBuffer state # stack, pendingResult) =
     (if state = 0 then
        (if length keyBuffer = 0 then
           (if isWhitespace c then Some (Inr (True, StateMapKeyValue keyBuffer state # stack, pendingResult))
            else if c \<noteq> quote then Some (Inl (OtherError ''map key must start with a quote''))
            else Some (Inr (True, StateMapKeyValue [c] state # stack, pendingResult)))
         else case prevChar of
                None \<Rightarrow> None
              | Some prev \<Rightarrow>
                  Some (Inr (True, StateMapKeyValue (keyBuffer @ [c])
                    (if c = quote \<and> prev \<noteq> backslash then 1 else state) # stack, pendingResult)))
      else if state = 1 then
        (if isWhitespace c then Some (Inr (True, StateMapKeyValue keyBuffer state # stack, pendingResult))
         else if c = CHR '':''
           then Some (Inr (True, StateAnyObjPlaceholder # StateMapKeyValue keyBuffer 2 # stack, pendingResult))
         else Some (Inl (OtherError ''invalid character in map definition, colon expected'')))
      else if state = 2 then
        (if pendingResult = None then Some (Inl (OtherError ''missing value in map''))
         else if \<not> quoted keyBuffer
           then Some (Inl (OtherError ''map key should be a string enclosed in quotes''))
         else case strip_quotes keyBuffer of
                None \<Rightarrow> None
              | Some key \<Rightarrow>
                  (case stack of
                     [] \<Rightarrow> None
                   | StateMap currentMap # rest \<Rightarrow>
                       Some (Inr (False, StateMap (Put key pendingResult currentMap) # rest, None))
                   | _ \<Rightarrow> Some (Inl (OtherError ''map key value state, but no map state underneath''))))
      else Some (Inl (OtherError ''unknown jsonStateMapKeyValue state'')))"

text \<open>The inner loop ends: a state that hands a character on leaves a smaller stack or a fresh state.\<close>

fun state_weight :: "jsonParserState \<Rightarrow> nat" where
  "state_weight StateAnyObjPlaceholder = 1"
| "state_weight (StateSingleValue buffer _) = (if buffer = [] then 0 else 20)"
| "state_weight (StateMap _) = 12"
| "state_weight (StateMapKeyValue _ state) = (if state = 2 then 5 else 0)"
| "state_weight (StateList _) = 12"

fun parser_weight :: "parser \<Rightarrow> nat" where
  "parser_weight ([], _) = 0"
| "parser_weight (state # stack, _) = 10 * length (state # stack) + state_weight state"

lemma finish_value_used: "finish_value used buffer stack = Some (Inr (used', s)) \<Longrightarrow> used' = used \<and> fst s = stack"
  by (auto simp: finish_value_def split: sum.splits option.splits)

lemma parser_weight_pop: "parser_weight (stack, r) \<le> 10 * length stack + 20"
proof (cases stack)
  case (Cons state rest)
  then show ?thesis by (cases state) auto
qed simp

lemma parse_step_weight:
  assumes "parse_step prevChar c s = Some (Inr (False, s'))"
  shows "parser_weight s' < parser_weight s"
  using assms
proof (cases "(prevChar, c, s)" rule: parse_step.cases)
  case (3 prevChar c buffer stringEscape stack pendingResult)
  then show ?thesis
    using assms parser_weight_pop [of stack "snd s'"]
    by (cases s') (auto split: if_splits option.splits dest!: finish_value_used)
qed (auto simp: Let_def Size_def split: if_splits option.splits list.splits jsonParserState.splits)

function parse_char :: "char option \<Rightarrow> char \<Rightarrow> parser \<Rightarrow> (go_error + parser) option" where
  "parse_char prevChar c s =
     (case parse_step prevChar c s of
        None \<Rightarrow> None
      | Some (Inl err) \<Rightarrow> Some (Inl err)
      | Some (Inr (used, s')) \<Rightarrow> if used then Some (Inr s') else parse_char prevChar c s')"
  by pat_completeness auto
termination
  by (relation "measure (\<lambda>(_, _, s). parser_weight s)") (auto dest: parse_step_weight)

declare parse_char.simps [simp del]

fun parse_loop :: "char option \<Rightarrow> string \<Rightarrow> parser \<Rightarrow> (go_error + parser) option" where
  "parse_loop prevChar [] s = Some (Inr s)"
| "parse_loop prevChar (c # input) s =
     (case parse_char prevChar c s of
        None \<Rightarrow> None
      | Some (Inl err) \<Rightarrow> Some (Inl err)
      | Some (Inr s') \<Rightarrow> parse_loop (Some c) input s')"

definition ParseOrderedJSON :: "string \<Rightarrow> (go_error + OJsonObject option) option" where
  "ParseOrderedJSON input =
     (case parse_loop None input ([StateAnyObjPlaceholder], None) of
        None \<Rightarrow> None
      | Some (Inl err) \<Rightarrow> Some (Inl err)
      | Some (Inr (stack, pendingResult)) \<Rightarrow>
          if length stack \<noteq> 0 then Some (Inl (OtherError ''state stack should be empty at the end''))
          else Some (Inr pendingResult))"

section \<open>The parser never panics\<close>

text \<open>
  What holds of every state that the parser reaches: a text that starts with a quote is a
  string, the key of a pair is complete once its colon is looked for, and a pair
  is always read on top of the map it goes to.
\<close>

fun state_ok :: "bool \<Rightarrow> jsonParserState \<Rightarrow> bool" where
  "state_ok started (StateSingleValue buffer stringEscape) \<longleftrightarrow>
     (buffer \<noteq> [] \<longrightarrow> started \<and> (stringEscape \<longleftrightarrow> hd buffer = quote))"
| "state_ok started (StateMapKeyValue keyBuffer state) \<longleftrightarrow>
     (keyBuffer \<noteq> [] \<longrightarrow> started) \<and> state \<le> 2 \<and> (state \<noteq> 0 \<longrightarrow> length keyBuffer \<ge> 2)"
| "state_ok started _ \<longleftrightarrow> True"

fun pairs_on_maps :: "jsonParserState list \<Rightarrow> bool" where
  "pairs_on_maps (StateMapKeyValue keyBuffer state # stack) \<longleftrightarrow>
     (case stack of StateMap _ # _ \<Rightarrow> True | _ \<Rightarrow> False) \<and> pairs_on_maps stack"
| "pairs_on_maps (_ # stack) = pairs_on_maps stack"
| "pairs_on_maps [] = True"

definition parser_ok :: "bool \<Rightarrow> parser \<Rightarrow> bool" where
  "parser_ok started s \<longleftrightarrow> list_all (state_ok started) (fst s) \<and> pairs_on_maps (fst s)"

lemma finish_value_ok:
  assumes "hd buffer = quote \<Longrightarrow> length buffer \<ge> 2"
  shows "\<exists>r. finish_value used buffer stack = Some r"
  using assms
  by (cases buffer) (auto simp: finish_value_def finalize_def quoted_def strip_quotes_def split: sum.split)

lemma state_ok_mono: "state_ok b x \<Longrightarrow> b' \<or> \<not> b \<Longrightarrow> state_ok b' x"
  by (cases x) auto

lemma list_all_state_ok_mono: "list_all (state_ok b) xs \<Longrightarrow> b' \<or> \<not> b \<Longrightarrow> list_all (state_ok b') xs"
  using state_ok_mono by (auto simp: list_all_iff)

lemma parse_step_ok:
  assumes "parser_ok (prevChar \<noteq> None) s"
  shows "\<exists>r. parse_step prevChar c s = Some r
    \<and> (\<forall>used s'. r = Inr (used, s') \<longrightarrow> parser_ok (used \<or> prevChar \<noteq> None) s')"
  using assms
proof (cases "(prevChar, c, s)" rule: parse_step.cases)
  case (3 prevChar' c' buffer stringEscape stack pendingResult)
  show ?thesis
  proof (cases "buffer = []")
    case True
    then show ?thesis using 3 assms list_all_state_ok_mono by (auto simp: parser_ok_def)
  next
    case False
    then obtain prev where prev: "prevChar = Some prev" and hd: "stringEscape \<longleftrightarrow> hd buffer = quote"
      using 3 assms by (auto simp: parser_ok_def)
    have "\<exists>r. finish_value True (buffer @ [c]) stack = Some r"
      by (rule finish_value_ok) (use False in \<open>cases buffer; auto\<close>)
    moreover have "\<exists>r. finish_value False buffer stack = Some r" if "\<not> stringEscape"
      by (rule finish_value_ok) (use that hd in auto)
    ultimately show ?thesis
      using 3 assms prev hd False by (auto simp: parser_ok_def dest!: finish_value_used)
  qed
next
  case (6 prevChar' c' keyBuffer state stack pendingResult)
  have "state \<le> 2" using 6 assms by (simp add: parser_ok_def)
  then consider "state = 0" | "state = 1" | "state = 2" by linarith
  then show ?thesis
  proof cases
    case 3
    have key: "strip_quotes keyBuffer = Some (butlast (tl keyBuffer))"
      using 6 3 assms by (simp add: parser_ok_def strip_quotes_def)
    obtain m rest where "stack = StateMap m # rest"
      using 6 assms by (auto simp: parser_ok_def split: list.splits jsonParserState.splits)
    then show ?thesis using 6 3 key assms by (auto simp: parser_ok_def)
  qed (use 6 assms list_all_state_ok_mono in \<open>auto simp: parser_ok_def Suc_le_eq\<close>)
qed (use assms list_all_state_ok_mono in \<open>auto simp: parser_ok_def Let_def Size_def\<close>)

lemma parse_char_ok:
  "parser_ok (prevChar \<noteq> None) s \<Longrightarrow>
   \<exists>r. parse_char prevChar c s = Some r \<and> (\<forall>s'. r = Inr s' \<longrightarrow> parser_ok True s')"
proof (induction prevChar c s rule: parse_char.induct)
  case (1 prevChar c s)
  obtain r where r: "parse_step prevChar c s = Some r"
    "\<And>used s'. r = Inr (used, s') \<Longrightarrow> parser_ok (used \<or> prevChar \<noteq> None) s'"
    using parse_step_ok [OF "1.prems"] by blast
  show ?case
  proof (cases r)
    case (Inr p)
    obtain used s' where p: "p = (used, s')" by (cases p)
    have ok: "parser_ok (used \<or> prevChar \<noteq> None) s'" using r Inr p by blast
    show ?thesis
    proof (cases used)
      case True
      then show ?thesis using r Inr p ok by (cases s') (auto simp: parse_char.simps [of prevChar c s])
    next
      case False
      then show ?thesis using "1.IH" [OF r(1) Inr p [symmetric]] r Inr p ok
        by (cases s') (auto simp: parse_char.simps [of prevChar c s])
    qed
  qed (use r in \<open>simp add: parse_char.simps [of prevChar c s]\<close>)
qed

lemma parse_loop_ok: "parser_ok (prevChar \<noteq> None) s \<Longrightarrow> parse_loop prevChar input s \<noteq> None"
proof (induction input arbitrary: prevChar s)
  case (Cons c input)
  obtain r where "parse_char prevChar c s = Some r" "\<forall>s'. r = Inr s' \<longrightarrow> parser_ok True s'"
    using parse_char_ok [OF Cons.prems] by blast
  then show ?case using Cons.IH [of "Some c"] by (cases r) auto
qed simp

lemma ParseOrderedJSON_total: "\<exists>r. ParseOrderedJSON input = Some r"
proof -
  have "parse_loop None input ([StateAnyObjPlaceholder], None) \<noteq> None"
    by (rule parse_loop_ok) (simp add: parser_ok_def)
  then show ?thesis by (auto simp: ParseOrderedJSON_def split: sum.split)
qed

section \<open>Reading back\<close>

text \<open>
  A text can be put between quotes if the closing quote is the first one that is not behind a
  backslash.
\<close>

fun quotable :: "char \<Rightarrow> string \<Rightarrow> bool" where
  "quotable prev [] \<longleftrightarrow> prev \<noteq> backslash"
| "quotable prev (c # str) \<longleftrightarrow> (c = quote \<longrightarrow> prev = backslash) \<and> quotable c str"

primrec wf_json :: "OJsonObject \<Rightarrow> bool" where
  "wf_json (OJsonMap KeySet OrderedKV) \<longleftrightarrow>
     distinct (map fst OrderedKV) \<and> KeySet = map (\<lambda>(key, _). (key, True)) OrderedKV
     \<and> list_all (\<lambda>(key, wf). quotable quote key \<and> wf = Some True)
         (map (map_prod id (map_option wf_json)) OrderedKV)"
| "wf_json (OJsonList collection) \<longleftrightarrow> list_all (\<lambda>wf. wf) (map wf_json collection)"
| "wf_json (OJsonString value) \<longleftrightarrow> quotable quote value"
| "wf_json (OJsonBool b) \<longleftrightarrow> True"

text \<open>The previous character only matters inside of a text.\<close>

fun calm :: "jsonParserState list \<Rightarrow> bool" where
  "calm (StateSingleValue buffer _ # _) \<longleftrightarrow> buffer = []"
| "calm (StateMapKeyValue keyBuffer state # _) \<longleftrightarrow> keyBuffer = [] \<or> state \<noteq> 0"
| "calm _ \<longleftrightarrow> True"

lemma parse_step_calm:
  "calm (fst s) \<Longrightarrow> parse_step p c s = parse_step p' c s
     \<and> (\<forall>s'. parse_step p c s = Some (Inr (False, s')) \<longrightarrow> calm (fst s'))"
  by (cases "(p, c, s)" rule: parse_step.cases)
    (auto simp: Let_def split: list.split jsonParserState.split option.split)

lemma parse_char_calm: "calm (fst s) \<Longrightarrow> parse_char p c s = parse_char p' c s"
proof (induction p c s rule: parse_char.induct)
  case (1 p c s)
  have step: "parse_step p c s = parse_step p' c s"
    "\<And>s'. parse_step p c s = Some (Inr (False, s')) \<Longrightarrow> calm (fst s')"
    using parse_step_calm [OF "1.prems"] by blast+
  show ?case
    unfolding parse_char.simps [of p c s] parse_char.simps [of p' c s] step(1) [symmetric]
    using "1.IH" step(2) by (auto split: option.split sum.split)
qed

lemma parse_loop_calm: "calm S \<Longrightarrow> parse_loop p rest (S, r) = parse_loop None rest (S, r)"
  by (cases rest) (auto simp: parse_char_calm [of "(S, r)" p _ None])

lemma spaces_not_braces [simp]:
  "\<not> isWhitespace (CHR ''{'')" "\<not> isWhitespace (CHR ''}'')" "\<not> isWhitespace (CHR ''['')" "\<not> isWhitespace (CHR '']'')"
  "\<not> isWhitespace (CHR '','')" "\<not> isWhitespace (CHR '':'')" "\<not> isWhitespace quote"
  "\<not> isWhitespace (CHR ''t'')" "\<not> isWhitespace (CHR ''f'')" "isWhitespace newline" "isWhitespace (CHR '' '')"
  by (simp_all add: isWhitespace_def)

lemmas parse_chars = parse_char.simps [where s = "(state # S, r)" for state S r]

lemma parse_string:
  "quotable p str \<Longrightarrow>
   parse_loop (Some p) (str @ quote # rest) (StateSingleValue (quote # buffer) True # S, None)
     = parse_loop (Some quote) rest (S, Some (OJsonString (buffer @ str)))"
  by (induction str arbitrary: p buffer)
    (auto simp: parse_chars finish_value_def finalize_def quoted_def strip_quotes_def)

lemma parse_key:
  "quotable p str \<Longrightarrow>
   parse_loop (Some p) (str @ quote # rest) (StateMapKeyValue (quote # buffer) 0 # S, None)
     = parse_loop (Some quote) rest (StateMapKeyValue (quote # buffer @ str @ [quote]) 1 # S, None)"
  by (induction str arbitrary: p buffer) (auto simp: parse_chars)

lemma parse_space:
  assumes "isWhitespace c"
  shows "parse_char p c (StateAnyObjPlaceholder # S, None) = Some (Inr (StateAnyObjPlaceholder # S, None))"
    and "parse_char p c (StateList xs # S, None) = Some (Inr (StateList xs # S, None))"
    and "parse_char p c (StateMap m # S, None) = Some (Inr (StateMap m # S, None))"
    and "parse_char p c (StateMapKeyValue [] 0 # S, None) = Some (Inr (StateMapKeyValue [] 0 # S, None))"
  using assms by (simp_all add: parse_chars)

lemma parse_spaces:
  assumes "\<forall>c \<in> set ws. isWhitespace c"
    and "S = StateAnyObjPlaceholder # S' \<or> S = StateList xs # S' \<or> S = StateMap m # S' \<or> S = StateMapKeyValue [] 0 # S'"
  shows "parse_loop p (ws @ rest) (S, None) = parse_loop None rest (S, None)"
  using assms(1)
proof (induction ws arbitrary: p)
  case Nil
  have "calm S" using assms(2) by auto
  then show ?case by (simp add: parse_loop_calm [of S p])
next
  case (Cons c ws)
  have "parse_char p c (S, None) = Some (Inr (S, None))"
    using assms(2) Cons.prems parse_space [of c p] by (elim disjE) simp_all
  then show ?case using Cons by simp
qed

lemma addIndent_spaces: "\<forall>c \<in> set (addIndent n). isWhitespace c"
  by (induction n) auto

definition plain :: "char \<Rightarrow> bool" where
  "plain c \<longleftrightarrow> \<not> (c = CHR '']'' \<or> c = CHR ''}'' \<or> c = CHR '','' \<or> isWhitespace c)"

lemma parse_letters:
  "\<forall>c \<in> set w. plain c \<Longrightarrow>
   parse_loop (Some q) (w @ rest) (StateSingleValue (x # b) False # S, None)
     = parse_loop (Some (last (q # w))) rest (StateSingleValue (x # b @ w) False # S, None)"
proof (induction w arbitrary: q b)
  case (Cons c w)
  have "parse_char (Some q) c (StateSingleValue (x # b) False # S, None)
    = Some (Inr (StateSingleValue (x # (b @ [c])) False # S, None))"
    using Cons.prems by (simp add: parse_chars plain_def)
  then show ?case using Cons.IH [of c "b @ [c]"] Cons.prems by simp
qed simp

lemma parse_word:
  assumes "c = CHR '','' \<or> c = newline" and "calm S"
  shows "parse_loop p (writeJSON (OJsonBool b) n @ c # rest) (StateAnyObjPlaceholder # S, None)
    = parse_loop None (c # rest) (S, Some (OJsonBool b))"
proof -
  have finish: "parse_char (Some q) c (StateSingleValue word False # S, None) = parse_char None c (S, Some v)"
    if "finalize word = Some (Inr v)" and "word \<noteq> []" for q word v
    using assms(1) that parse_char_calm [of "(S, Some v)" "Some q" c None] assms(2)
    by (auto simp: parse_chars finish_value_def)
  have words: "finalize ''true'' = Some (Inr (OJsonBool True))" "finalize ''false'' = Some (Inr (OJsonBool False))"
    by (simp_all add: finalize_def quoted_def)
  have first: "parse_loop p (x # w @ c # rest) (StateAnyObjPlaceholder # S, None)
      = parse_loop (Some (last (x # w))) (c # rest) (StateSingleValue (x # w) False # S, None)"
    if "plain x" "x \<noteq> CHR ''{''" "x \<noteq> CHR ''[''" "x \<noteq> quote" "\<forall>y \<in> set w. plain y" for x w
    using that parse_letters [OF that(5), of x "c # rest" x "[]" S] by (auto simp: parse_chars plain_def)
  have "parse_loop p (''true'' @ c # rest) (StateAnyObjPlaceholder # S, None)
    = parse_loop None (c # rest) (S, Some (OJsonBool True))"
    using first [of "CHR ''t''" "''rue''"] finish [OF words(1)] by (simp add: plain_def isWhitespace_def)
  moreover have "parse_loop p (''false'' @ c # rest) (StateAnyObjPlaceholder # S, None)
    = parse_loop None (c # rest) (S, Some (OJsonBool False))"
    using first [of "CHR ''f''" "''alse''"] finish [OF words(2)] by (simp add: plain_def isWhitespace_def)
  ultimately show ?thesis by simp
qed

text \<open>A document in front of a comma or the end of a line, and a document that ends by itself.\<close>

definition reads :: "OJsonObject \<Rightarrow> bool" where
  "reads j \<longleftrightarrow> (\<forall>n p c rest S. (c = CHR '','' \<or> c = newline) \<and> calm S \<longrightarrow>
     parse_loop p (writeJSON j n @ c # rest) (StateAnyObjPlaceholder # S, None) = parse_loop None (c # rest) (S, Some j))"

definition reads_alone :: "OJsonObject \<Rightarrow> bool" where
  "reads_alone j \<longleftrightarrow> (\<forall>n p rest S. calm S \<longrightarrow>
     parse_loop p (writeJSON j n @ rest) (StateAnyObjPlaceholder # S, None) = parse_loop None rest (S, Some j))"

lemma reads_alone_reads: "reads_alone j \<Longrightarrow> reads j"
  by (simp add: reads_def reads_alone_def)

lemma readsD:
  "reads j \<Longrightarrow> c = CHR '','' \<or> c = newline \<Longrightarrow> calm S \<Longrightarrow>
   parse_loop p (writeJSON j n @ c # rest) (StateAnyObjPlaceholder # S, None) = parse_loop None (c # rest) (S, Some j)"
  unfolding reads_def by blast

lemma writeJSON_first: "\<exists>x t. writeJSON j n = x # t \<and> \<not> isWhitespace x \<and> x \<noteq> CHR '']''"
  by (cases j) auto

declare addIndent.simps(2) [simp del] parse_loop.simps(2) [simp del]

lemmas parse_loop_Cons = parse_loop.simps(2)

subsection \<open>Lists\<close>

lemma parse_line:
  assumes "S = StateAnyObjPlaceholder # S' \<or> S = StateList xs # S' \<or> S = StateMap m # S' \<or> S = StateMapKeyValue [] 0 # S'"
  shows "parse_loop p (newline # addIndent n @ rest) (S, None) = parse_loop None rest (S, None)"
  using parse_spaces [of "newline # addIndent n", OF _ assms] addIndent_spaces by simp

lemma list_chars:
  "parse_loop p (newline # rest) (StateList acc # S, Some j) = parse_loop None rest (StateList (acc @ [j]) # S, None)"
  "parse_loop p (CHR '','' # rest) (StateList acc # S, Some j)
    = parse_loop None rest (StateAnyObjPlaceholder # StateList (acc @ [j]) # S, None)"
  "parse_loop p (CHR ''['' # rest) (StateAnyObjPlaceholder # S, None) = parse_loop None rest (StateList [] # S, None)"
  "calm S \<Longrightarrow> parse_loop p (CHR '']'' # rest) (StateList acc # S, None) = parse_loop None rest (S, Some (OJsonList acc))"
  by (simp_all add: parse_loop_Cons parse_chars parse_loop_calm [of _ "Some newline"] parse_loop_calm [of _ "Some (CHR '','')"]
      parse_loop_calm [of _ "Some (CHR ''['')"] parse_loop_calm [of _ "Some (CHR '']'')"])

lemma parse_items:
  assumes "\<forall>j \<in> set js. reads j" and "js \<noteq> []"
  shows "parse_loop p (write_items n (map writeJSON js) @ newline # rest) (StateAnyObjPlaceholder # StateList acc # S, None)
    = parse_loop None rest (StateList (acc @ js) # S, None)"
  using assms
proof (induction js arbitrary: acc p)
  case (Cons j js)
  let ?S = "StateList acc # S"
  have r: "reads j" using Cons.prems by simp
  show ?case
  proof (cases "js = []")
    case True
    then show ?thesis
      using readsD [OF r, of newline ?S None "n + 1" rest] by (simp add: parse_line list_chars)
  next
    case False
    then have "parse_loop None (write_items n (map writeJSON js) @ newline # rest)
        (StateAnyObjPlaceholder # StateList (acc @ [j]) # S, None) = parse_loop None rest (StateList (acc @ j # js) # S, None)"
      using Cons.IH [of None "acc @ [j]"] Cons.prems by simp
    then show ?thesis
      using False readsD [OF r, of "CHR '',''" ?S None "n + 1" "write_items n (map writeJSON js) @ newline # rest"]
      by (simp add: parse_line list_chars)
  qed
qed simp

lemma parse_first_item:
  assumes "js \<noteq> []"
  shows "parse_loop p (write_items n (map writeJSON js) @ rest) (StateList [] # S, None)
    = parse_loop None (write_items n (map writeJSON js) @ rest) (StateAnyObjPlaceholder # StateList [] # S, None)"
proof -
  obtain j js' where js: "js = j # js'" using assms by (cases js) auto
  obtain x t where x: "writeJSON j (Suc n) = x # t" "\<not> isWhitespace x" "x \<noteq> CHR '']''"
    using writeJSON_first by blast
  have "parse_char None x (StateList [] # S, None) = parse_char None x (StateAnyObjPlaceholder # StateList [] # S, None)"
    using x by (simp add: parse_chars [of _ _ "StateList []"])
  then show ?thesis by (simp add: js parse_line x parse_loop_Cons [of None x])
qed

lemma reads_list:
  assumes "\<forall>j \<in> set js. reads j"
  shows "reads_alone (OJsonList js)"
  unfolding reads_alone_def
proof (intro allI impI)
  fix n p rest S assume calm: "calm S"
  show "parse_loop p (writeJSON (OJsonList js) n @ rest) (StateAnyObjPlaceholder # S, None)
    = parse_loop None rest (S, Some (OJsonList js))"
  proof (cases "js = []")
    case True
    then show ?thesis using calm by (simp add: list_chars)
  next
    case False
    have "parse_loop None (addIndent n @ CHR '']'' # rest) (StateList js # S, None)
      = parse_loop None rest (S, Some (OJsonList js))"
      using calm parse_spaces [of "addIndent n" "StateList js # S" S js] addIndent_spaces
      by (simp add: list_chars)
    then show ?thesis
      using False parse_items [OF assms False, of None n "addIndent n @ CHR '']'' # rest" "[]" S]
      by (simp add: list_chars parse_first_item [of _ None])
  qed
qed

subsection \<open>Maps\<close>

abbreviation key_set :: "(string \<times> OJsonObject option) list \<Rightarrow> (string, bool) gomap" where
  "key_set \<equiv> map (\<lambda>(key, _). (key, True))"

lemma Put_new: "key \<notin> fst ` set ks \<Longrightarrow> Put key v (ks, kvs) = (ks @ [(key, True)], kvs @ [(key, v)])"
  by (simp add: Put_def map_get_None map_put_new)

lemma quoted_key: "quoted (quote # key @ [quote])" "strip_quotes (quote # key @ [quote]) = Some key"
  by (simp_all add: quoted_def strip_quotes_def)

lemma map_chars:
  "parse_loop p (CHR ''{'' # rest) (StateAnyObjPlaceholder # S, None) = parse_loop None rest (StateMap NewMap # S, None)"
  "calm S \<Longrightarrow> parse_loop p (CHR ''}'' # rest) (StateMap m # S, None)
    = parse_loop None rest (S, Some (OJsonMap (fst m) (snd m)))"
  "parse_loop p (CHR '','' # rest) (StateMap m # S, None) = parse_loop None rest (StateMapKeyValue [] 0 # StateMap m # S, None)"
  "parse_loop p (quote # rest) (StateMapKeyValue [] 0 # S, None) = parse_loop (Some quote) rest (StateMapKeyValue [quote] 0 # S, None)"
  "parse_loop p (CHR '':'' # CHR '' '' # rest) (StateMapKeyValue key (Suc 0) # S, None)
    = parse_loop None rest (StateAnyObjPlaceholder # StateMapKeyValue key 2 # S, None)"
  by (simp_all add: parse_loop_Cons parse_chars parse_loop_calm [of _ "Some (CHR ''{'')"]
      parse_loop_calm [of _ "Some (CHR ''}'')"] parse_loop_calm [of _ "Some (CHR '','')"] parse_loop_calm [of _ "Some (CHR '' '')"])

lemma pair_chars:
  assumes "c = CHR '','' \<or> c = newline"
  shows "parse_loop p (c # rest) (StateMapKeyValue (quote # key @ [quote]) 2 # StateMap m # S, Some j)
    = parse_loop p (c # rest) (StateMap (Put key (Some j) m) # S, None)"
  by (simp add: parse_loop_Cons parse_chars [of _ _ "StateMapKeyValue _ _"] quoted_key)

lemma parse_pair:
  assumes "reads j" and "quotable quote key" and "c = CHR '','' \<or> c = newline"
  shows "parse_loop p (newline # addIndent n @ quote # key @ quote # CHR '':'' # CHR '' '' # writeJSON j n @ c # rest)
      (StateMapKeyValue [] 0 # StateMap m # S, None)
    = parse_loop None (c # rest) (StateMap (Put key (Some j) m) # S, None)"
  using parse_key [OF assms(2), of "CHR '':'' # CHR '' '' # writeJSON j n @ c # rest" "[]" "StateMap m # S"]
    readsD [OF assms(1,3), of "StateMapKeyValue (quote # key @ [quote]) 2 # StateMap m # S" None n rest]
  by (simp add: parse_line map_chars pair_chars [OF assms(3)])

lemma parse_pairs:
  assumes "\<forall>(key, v) \<in> set kvs. quotable quote key \<and> (\<exists>j. v = Some j \<and> reads j)" and "kvs \<noteq> []"
    and "distinct (map fst kvs)" and "fst ` set ks \<inter> fst ` set kvs = {}"
  shows "parse_loop p (write_pairs n (map (map_prod id (map_option writeJSON)) kvs) @ newline # rest)
      (StateMapKeyValue [] 0 # StateMap (ks, acc) # S, None)
    = parse_loop None rest (StateMap (ks @ key_set kvs, acc @ kvs) # S, None)"
  using assms
proof (induction kvs arbitrary: acc ks p)
  case (Cons kv kvs)
  obtain key j where kv: "kv = (key, Some j)" "quotable quote key" "reads j"
    using Cons.prems(1) by (cases kv) auto
  have put: "Put key (Some j) (ks, acc) = (ks @ [(key, True)], acc @ [kv])"
    using Cons.prems(4) kv by (simp add: Put_new)
  show ?case
  proof (cases "kvs = []")
    case True
    then show ?thesis
      using parse_pair [OF kv(3,2), of newline p "n + 1" rest "(ks, acc)" S]
        parse_spaces [of "[newline]" "StateMap (ks @ [(key, True)], acc @ [kv]) # S" S]
      by (simp add: kv(1) put [unfolded kv(1)])
  next
    case False
    have rest: "fst ` set (ks @ [(key, True)]) \<inter> fst ` set kvs = {}" using Cons.prems(3,4) by (auto simp: kv(1))
    let ?rest = "write_pairs n (map (map_prod id (map_option writeJSON)) kvs) @ newline # rest"
    have "parse_loop None ?rest (StateMapKeyValue [] 0 # StateMap (ks @ [(key, True)], acc @ [kv]) # S, None)
      = parse_loop None rest (StateMap (ks @ key_set (kv # kvs), acc @ kv # kvs) # S, None)"
      using Cons.IH [of "ks @ [(key, True)]" None "acc @ [kv]"] Cons.prems(1,3) rest False by (simp add: kv(1) id_def)
    then show ?thesis
      using False parse_pair [OF kv(3,2), of "CHR '',''" p "n + 1" ?rest "(ks, acc)" S]
      by (simp add: kv(1) put [unfolded kv(1)] map_chars id_def)
  qed
qed simp

lemma parse_first_pair:
  assumes "kvs \<noteq> []"
  shows "parse_loop p (write_pairs n kvs @ rest) (StateMap NewMap # S, None)
    = parse_loop None (write_pairs n kvs @ rest) (StateMapKeyValue [] 0 # StateMap NewMap # S, None)"
proof -
  obtain key v kvs' where kvs: "kvs = (key, v) # kvs'" using assms by (cases kvs) auto
  have "parse_char None quote (StateMap NewMap # S, None) = parse_char None quote (StateMapKeyValue [] 0 # StateMap NewMap # S, None)"
    by (simp add: parse_chars Size_def NewMap_def)
  then show ?thesis by (simp add: kvs parse_line parse_loop_Cons [of None quote])
qed

lemma reads_map:
  assumes "\<forall>(key, v) \<in> set kvs. quotable quote key \<and> (\<exists>j. v = Some j \<and> reads j)" and "distinct (map fst kvs)"
  shows "reads_alone (OJsonMap (key_set kvs) kvs)"
  unfolding reads_alone_def
proof (intro allI impI)
  fix n p rest S assume calm: "calm S"
  show "parse_loop p (writeJSON (OJsonMap (key_set kvs) kvs) n @ rest) (StateAnyObjPlaceholder # S, None)
    = parse_loop None rest (S, Some (OJsonMap (key_set kvs) kvs))"
  proof (cases "kvs = []")
    case True
    then show ?thesis using calm by (simp add: map_chars NewMap_def)
  next
    case False
    have "parse_loop None (addIndent n @ CHR ''}'' # rest) (StateMap (key_set kvs, kvs) # S, None)
      = parse_loop None rest (S, Some (OJsonMap (key_set kvs) kvs))"
      using calm parse_spaces [of "addIndent n" "StateMap (key_set kvs, kvs) # S" S] addIndent_spaces
      by (simp add: map_chars)
    then show ?thesis
      using False parse_pairs [OF assms(1) False assms(2), of "[]" None n "addIndent n @ CHR ''}'' # rest" "[]" S]
      by (simp add: map_chars parse_first_pair [of _ None] NewMap_def [symmetric])
  qed
qed

section \<open>Round trip\<close>

fun is_bool :: "OJsonObject \<Rightarrow> bool" where
  "is_bool (OJsonBool _) = True"
| "is_bool _ = False"

lemma reads_string: "quotable quote str \<Longrightarrow> reads_alone (OJsonString str)"
  using parse_string [of quote str _ "[]"]
  by (simp add: reads_alone_def parse_loop_Cons [of _ quote] parse_chars parse_loop_calm [of _ "Some quote"])

lemma reads_bool: "reads (OJsonBool b)"
  using parse_word by (simp add: reads_def)

lemma written_documents_read: "wf_json j \<Longrightarrow> reads j \<and> (\<not> is_bool j \<longrightarrow> reads_alone j)"
proof (induction j)
  case (OJsonMap KeySet OrderedKV)
  have "quotable quote key \<and> (\<exists>j. v = Some j \<and> reads j)" if kv: "(key, v) \<in> set OrderedKV" for key v
  proof -
    have "quotable quote key" and "map_option wf_json v = Some True"
      using OJsonMap.prems kv by (auto simp: list_all_iff)
    then show ?thesis using OJsonMap.IH [OF kv] by fastforce
  qed
  then have "reads_alone (OJsonMap KeySet OrderedKV)"
    using reads_map [of OrderedKV] OJsonMap.prems by auto
  then show ?case by (simp add: reads_alone_reads)
next
  case (OJsonList collection)
  then have "reads_alone (OJsonList collection)" by (auto simp: list_all_iff intro!: reads_list)
  then show ?case by (simp add: reads_alone_reads)
qed (auto simp: reads_string reads_bool reads_alone_reads)

section \<open>What the parser returns\<close>

text \<open>A part of a text in which every quote is behind a backslash.\<close>

fun escaped :: "char \<Rightarrow> string \<Rightarrow> bool" where
  "escaped prev [] \<longleftrightarrow> True"
| "escaped prev (c # str) \<longleftrightarrow> (c = quote \<longrightarrow> prev = backslash) \<and> escaped c str"

lemma escaped_snoc: "escaped p (str @ [c]) \<longleftrightarrow> escaped p str \<and> (c = quote \<longrightarrow> last (p # str) = backslash)"
  by (induction str arbitrary: p) auto

lemma quotable_escaped: "quotable p str \<longleftrightarrow> escaped p str \<and> last (p # str) \<noteq> backslash"
  by (induction str arbitrary: p) auto

fun state_wf :: "jsonParserState \<Rightarrow> bool" where
  "state_wf (StateMap m) \<longleftrightarrow> wf_json (OJsonMap (fst m) (snd m))"
| "state_wf (StateList list) \<longleftrightarrow> list_all wf_json list"
| "state_wf (StateMapKeyValue keyBuffer state) \<longleftrightarrow>
     (state \<noteq> 0 \<longrightarrow> (\<exists>key. keyBuffer = quote # key @ [quote] \<and> quotable quote key))"
| "state_wf _ \<longleftrightarrow> True"

definition open_text :: "char option \<Rightarrow> string \<Rightarrow> bool" where
  "open_text prevChar buffer \<longleftrightarrow>
     (\<exists>str. buffer = quote # str \<and> escaped quote str \<and> prevChar = Some (last (quote # str)))"

fun top_wf :: "char option \<Rightarrow> jsonParserState list \<Rightarrow> bool" where
  "top_wf prevChar (StateSingleValue buffer stringEscape # _) \<longleftrightarrow>
     buffer = [] \<or> (if stringEscape then open_text prevChar buffer else hd buffer \<noteq> quote)"
| "top_wf prevChar (StateMapKeyValue keyBuffer state # _) \<longleftrightarrow> keyBuffer = [] \<or> state \<noteq> 0 \<or> open_text prevChar keyBuffer"
| "top_wf prevChar _ \<longleftrightarrow> True"

fun settled :: "jsonParserState \<Rightarrow> bool" where
  "settled (StateSingleValue _ _) = False"
| "settled (StateMapKeyValue _ state) = (state \<noteq> 0)"
| "settled _ = True"

definition parser_wf :: "char option \<Rightarrow> parser \<Rightarrow> bool" where
  "parser_wf prevChar s \<longleftrightarrow> list_all state_wf (fst s) \<and> top_wf prevChar (fst s) \<and> list_all settled (tl (fst s))
     \<and> (\<forall>j. snd s = Some j \<longrightarrow> wf_json j)"

lemma settled_top_wf: "list_all settled S \<Longrightarrow> top_wf p S"
  by (cases "(p, S)" rule: top_wf.cases) auto

lemma open_text_char:
  assumes "open_text (Some p) buffer" and "c = quote \<longrightarrow> p = backslash"
  shows "open_text (Some c) (buffer @ [c])"
proof -
  obtain str where str: "buffer = quote # str" "escaped quote str" "p = last (quote # str)"
    using assms(1) unfolding open_text_def by blast
  then have "escaped quote (str @ [c])" using assms(2) by (simp add: escaped_snoc)
  then show ?thesis unfolding open_text_def str(1) by (intro exI [of _ "str @ [c]"]) simp
qed

lemma open_text_close:
  assumes "open_text (Some p) buffer" and "p \<noteq> backslash"
  shows "\<exists>str. buffer @ [quote] = quote # str @ [quote] \<and> quotable quote str"
proof -
  obtain str where str: "buffer = quote # str" "escaped quote str" "p = last (quote # str)"
    using assms(1) unfolding open_text_def by blast
  then have "quotable quote str" using assms(2) by (simp add: quotable_escaped)
  then show ?thesis by (simp add: str(1))
qed

lemma Put_wf:
  assumes "wf_json (OJsonMap (fst m) (snd m))" and "quotable quote key" and "wf_json j"
  shows "wf_json (OJsonMap (fst (Put key (Some j) m)) (snd (Put key (Some j) m)))"
  using assms by (cases m) (auto simp: Put_def map_get_None map_put_new image_image case_prod_beta split: option.split)

lemma finish_value_wf:
  assumes "finish_value used buffer S = Some (Inr (used', s'))" and "list_all state_wf S" and "list_all settled S"
    and "hd buffer = quote \<Longrightarrow> \<exists>str. buffer = quote # str @ [quote] \<and> quotable quote str"
  shows "parser_wf p s'"
proof -
  obtain v where v: "finalize buffer = Some (Inr v)" "s' = (S, Some v)"
    using assms(1) by (auto simp: finish_value_def split: option.splits sum.splits)
  have "wf_json v"
  proof (cases "quoted buffer")
    case True
    then have "hd buffer = quote" by (cases buffer) (auto simp: quoted_def)
    then obtain str where "buffer = quote # str @ [quote]" "quotable quote str" using assms(4) by blast
    then show ?thesis using v by (auto simp: finalize_def quoted_def strip_quotes_def)
  qed (use v in \<open>auto simp: finalize_def split: if_splits\<close>)
  then show ?thesis
    using v assms(2,3) settled_top_wf [OF assms(3)] by (cases S) (auto simp: parser_wf_def)
qed

lemma list_all_tl: "list_all P xs \<Longrightarrow> list_all P (tl xs)"
  by (cases xs) auto

lemma single_value_wf:
  assumes wf: "parser_wf p (StateSingleValue buffer stringEscape # S, r)"
    and step: "parse_step p c (StateSingleValue buffer stringEscape # S, r) = Some (Inr (used, s'))"
  shows "parser_wf (if used then Some c else p) s'"
proof (cases "buffer = []")
  case True
  then show ?thesis using assms by (auto simp: parser_wf_def open_text_def)
next
  case False
  have S: "list_all state_wf S" "list_all settled S" using wf by (auto simp: parser_wf_def)
  obtain prev where p: "p = Some prev" using step False by (cases p) auto
  show ?thesis
  proof (cases stringEscape)
    case True
    then have op: "open_text (Some prev) buffer" using wf False p by (simp add: parser_wf_def)
    show ?thesis
    proof (cases "c = quote \<and> prev \<noteq> backslash")
      case quote: True
      then have "finish_value True (buffer @ [c]) S = Some (Inr (used, s'))"
        using step False p True by simp
      then show ?thesis by (rule finish_value_wf [OF _ S]) (use open_text_close [OF op] quote in auto)
    next
      case other: False
      then have "s' = (StateSingleValue (buffer @ [c]) True # S, r)" "used"
        using step False p True by (auto split: if_splits)
      then show ?thesis using wf open_text_char [OF op, of c] other by (auto simp: parser_wf_def)
    qed
  next
    case plain: False
    then have hd: "hd buffer \<noteq> quote" using wf False by (simp add: parser_wf_def)
    show ?thesis
    proof (cases "c = CHR '']'' \<or> c = CHR ''}'' \<or> c = CHR '','' \<or> isWhitespace c")
      case True
      then have "finish_value False buffer S = Some (Inr (used, s'))" using step False p plain by simp
      then show ?thesis by (rule finish_value_wf [OF _ S]) (use hd in auto)
    next
      case other: False
      then have "s' = (StateSingleValue (buffer @ [c]) False # S, r)" "used"
        using step False p plain by (auto split: if_splits)
      then show ?thesis using wf hd False by (auto simp: parser_wf_def)
    qed
  qed
qed

lemma key_value_wf:
  assumes wf: "parser_wf p (StateMapKeyValue keyBuffer state # S, r)"
    and step: "parse_step p c (StateMapKeyValue keyBuffer state # S, r) = Some (Inr (used, s'))"
  shows "parser_wf (if used then Some c else p) s'"
proof -
  consider "state = 0" | "state = 1" | "state = 2" | "state > 2" by linarith
  then show ?thesis
  proof cases
    case 1
    show ?thesis
    proof (cases "keyBuffer = []")
      case True
      then show ?thesis using assms 1 by (auto simp: parser_wf_def open_text_def split: if_splits)
    next
      case False
      obtain prev where p: "p = Some prev" using step False 1 by (cases p) auto
      have op: "open_text (Some prev) keyBuffer" using wf False 1 p by (simp add: parser_wf_def)
      have s': "s' = (StateMapKeyValue (keyBuffer @ [c]) (if c = quote \<and> prev \<noteq> backslash then 1 else 0) # S, r)" "used"
        using step False p 1 by auto
      show ?thesis
        using wf s' open_text_char [OF op, of c] open_text_close [OF op] by (auto simp: parser_wf_def)
    qed
  next
    case 2
    then show ?thesis using assms by (auto simp: parser_wf_def split: if_splits)
  next
    case 3
    obtain key where key: "keyBuffer = quote # key @ [quote]" "quotable quote key"
      using wf 3 by (auto simp: parser_wf_def)
    then obtain m S' j where "S = StateMap m # S'" "r = Some j"
      "s' = (StateMap (Put key (Some j) m) # S', None)" "\<not> used"
      using step 3 by (cases r; cases S) (auto simp: quoted_key split: jsonParserState.splits)
    then show ?thesis using wf key Put_wf [of m key j] by (auto simp: parser_wf_def)
  qed (use step in simp)
qed

lemma parse_step_wf:
  assumes "parser_wf p s" and "parse_step p c s = Some (Inr (used, s'))"
  shows "parser_wf (if used then Some c else p) s'"
  using assms
proof (cases "(p, c, s)" rule: parse_step.cases)
  case (3 p' c' buffer stringEscape stack pendingResult)
  then show ?thesis using single_value_wf assms by blast
next
  case (4 p' c' list stack pendingResult)
  have S: "list_all state_wf stack" "list_all settled stack" using 4 assms(1) by (auto simp: parser_wf_def)
  then have "list_all settled (tl stack)" "\<And>q. top_wf q stack"
    by (simp_all add: settled_top_wf list_all_tl)
  then show ?thesis
    using 4 assms S by (cases pendingResult) (auto simp: parser_wf_def list_all_iff Let_def split: if_splits)
next
  case (5 p' c' m stack pendingResult)
  have "list_all state_wf stack" "list_all settled stack" using 5 assms(1) by (auto simp: parser_wf_def)
  then have "list_all settled (tl stack)" "\<And>q. top_wf q stack"
    by (simp_all add: settled_top_wf list_all_tl)
  then show ?thesis
    using 5 assms by (auto simp: parser_wf_def split: if_splits)
next
  case (6 p' c' keyBuffer state stack pendingResult)
  then show ?thesis using key_value_wf assms by blast
qed (auto simp: parser_wf_def NewMap_def split: if_splits)

lemma parse_char_wf: "parser_wf p s \<Longrightarrow> parse_char p c s = Some (Inr s') \<Longrightarrow> parser_wf (Some c) s'"
proof (induction p c s rule: parse_char.induct)
  case (1 p c s)
  obtain used s1 where step: "parse_step p c s = Some (Inr (used, s1))"
    using "1.prems"(2) parse_char.simps [of p c s] by (cases "parse_step p c s") (auto split: sum.splits)
  have wf: "parser_wf (if used then Some c else p) s1" using parse_step_wf [OF "1.prems"(1) step] .
  show ?case
  proof (cases used)
    case True
    then show ?thesis using "1.prems"(2) step wf parse_char.simps [of p c s] by simp
  next
    case False
    then show ?thesis using "1.IH" [OF step refl refl False] "1.prems"(2) step wf parse_char.simps [of p c s] by simp
  qed
qed

lemma parse_loop_wf:
  "parser_wf p s \<Longrightarrow> parse_loop p input s = Some (Inr s') \<Longrightarrow> \<exists>p'. parser_wf p' s'"
proof (induction input arbitrary: p s)
  case (Cons c input)
  obtain s1 where "parse_char p c s = Some (Inr s1)" "parse_loop (Some c) input s1 = Some (Inr s')"
    using Cons.prems(2) by (auto simp: parse_loop_Cons split: option.splits sum.splits)
  then show ?case using Cons.IH parse_char_wf [OF Cons.prems(1)] by blast
qed auto

lemma parsed_wf:
  assumes "ParseOrderedJSON input = Some (Inr (Some j))"
  shows "wf_json j"
proof -
  have start: "parser_wf None ([StateAnyObjPlaceholder], None)" by (simp add: parser_wf_def)
  have "parse_loop None input ([StateAnyObjPlaceholder], None) = Some (Inr ([], Some j))"
    using assms by (auto simp: ParseOrderedJSON_def split: option.splits sum.splits if_splits)
  then show ?thesis using parse_loop_wf [OF start] by (auto simp: parser_wf_def)
qed

lemma written_documents_parse:
  assumes "wf_json j" and "\<not> is_bool j"
  shows "ParseOrderedJSON (JSONString j) = Some (Inr (Some j))"
proof -
  have "reads_alone j" using written_documents_read assms by blast
  then have "parse_loop None (writeJSON j 0 @ []) ([StateAnyObjPlaceholder], None) = parse_loop None [] ([], Some j)"
    unfolding reads_alone_def by (metis calm.simps(3))
  then show ?thesis by (simp add: ParseOrderedJSON_def JSONString_def)
qed

text \<open>A document in which a map is written twice by mistake keeps the first of the values.\<close>

lemma Put_first: "Put key v' (Put key v m) = Put key v m"
  by (cases m) (auto simp: Put_def)

text \<open>
  C37. The reader of scenario files never panics and always returns. A document that it returns has distinct keys,
  no missing values and no text that would end early; writing it and reading it again gives the same
  document, as does every such document that is built by hand. The one exception is a bare boolean, which
  is read only if white space follows, so that its written form is refused.
\<close>

theorem documents_read_back:
  "(\<exists>r. ParseOrderedJSON input = Some r)
   \<and> (\<forall>j. ParseOrderedJSON input = Some (Inr (Some j)) \<longrightarrow> wf_json j)
   \<and> (\<forall>j. wf_json j \<longrightarrow> ParseOrderedJSON (JSONString j) =
        (if is_bool j then Some (Inl (OtherError ''state stack should be empty at the end'')) else Some (Inr (Some j))))"
proof -
  have "ParseOrderedJSON (JSONString j) = Some (Inl (OtherError ''state stack should be empty at the end''))"
    if "is_bool j" for j
    using that by (cases j) (auto simp: ParseOrderedJSON_def JSONString_def parse_loop_Cons parse_chars isWhitespace_def)
  then show ?thesis using ParseOrderedJSON_total parsed_wf written_documents_parse by auto
qed

theorem documents_read_back_witness:
  "\<exists>j. ParseOrderedJSON ''{ \"a\" : [ true, \"x\" ] , \"b\": {} }'' = Some (Inr (Some j))
     \<and> wf_json j \<and> ParseOrderedJSON (JSONString j) = Some (Inr (Some j))"
proof -
  let ?j = "OJsonMap [(''a'', True), (''b'', True)]
    [(''a'', Some (OJsonList [OJsonBool True, OJsonString ''x''])), (''b'', Some (OJsonMap [] []))]"
  have "ParseOrderedJSON ''{ \"a\" : [ true, \"x\" ] , \"b\": {} }'' = Some (Inr (Some ?j))"
    by code_simp
  then show ?thesis
    using documents_read_back [of "''{ \"a\" : [ true, \"x\" ] , \"b\": {} }''"] by auto
qed

end
