(* ===== verification/ScenarioValues.thy ===== *)
theory ScenarioValues
  imports OrderedJSON
begin

text \<open>
  The value expressions of scenario files: the interpreter that turns an expression into bytes
  (\<open>scenarios/expression/interpreter\<close>) and the reconstructor that prints bytes as an expression
  (\<open>scenarios/expression/reconstructor\<close>). The file resolver (nil if absent), the hash function, the two's complement
  codec and the quoting of unprintable text belong to other packages and are fields of a record. An index out of range is a panic
  (\<open>None\<close>). Texts of errors leave out the value they complain about.
\<close>

section \<open>Strings and numbers of the standard library\<close>

type_synonym 'a result = "(go_error + 'a) option"

definition HasPrefix :: "string \<Rightarrow> string \<Rightarrow> bool" where
  "HasPrefix s prefix \<longleftrightarrow> take (length prefix) s = prefix"

fun split_at :: "char \<Rightarrow> string \<Rightarrow> string list" where
  "split_at sep [] = [[]]"
| "split_at sep (c # s) =
     (if c = sep then [] # split_at sep s
      else case split_at sep s of [] \<Rightarrow> [[c]] | part # parts \<Rightarrow> (c # part) # parts)"

definition TrimRight :: "char \<Rightarrow> string \<Rightarrow> string" where
  "TrimRight c s = rev (dropWhile (\<lambda>x. x = c) (rev s))"

definition ReplaceAll :: "char \<Rightarrow> string \<Rightarrow> string" where
  "ReplaceAll c s = filter (\<lambda>x. x \<noteq> c) s"

definition hexDigit :: "nat \<Rightarrow> char" where
  "hexDigit n = char_of (if n < 10 then 48 + n else 87 + n)"

definition fromHexChar :: "char \<Rightarrow> nat option" where
  "fromHexChar c =
     (let n = (of_char c :: nat)
      in if 48 \<le> n \<and> n \<le> 57 then Some (n - 48)
         else if 97 \<le> n \<and> n \<le> 102 then Some (n - 87)
         else if 65 \<le> n \<and> n \<le> 70 then Some (n - 55)
         else None)"

abbreviation invalid_byte :: go_error where
  "invalid_byte \<equiv> OtherError ''encoding/hex: invalid byte''"

fun DecodeString :: "string \<Rightarrow> go_error + bytes" where
  "DecodeString [] = Inr []"
| "DecodeString [c] =
     (if fromHexChar c = None then Inl invalid_byte else Inl (OtherError ''encoding/hex: odd length hex string''))"
| "DecodeString (a # b # rest) =
     (case fromHexChar a of
        None \<Rightarrow> Inl invalid_byte
      | Some x \<Rightarrow>
          (case fromHexChar b of
             None \<Rightarrow> Inl invalid_byte
           | Some y \<Rightarrow>
               (case DecodeString rest of
                  Inl err \<Rightarrow> Inl err
                | Inr bs \<Rightarrow> Inr (of_nat (16 * x + y) # bs))))"

definition EncodeToString :: "bytes \<Rightarrow> string" where
  "EncodeToString bs = concat (map (\<lambda>b. [hexDigit (unat b div 16), hexDigit (unat b mod 16)]) bs)"

fun decimal :: "nat \<Rightarrow> string" where
  "decimal n = (if n < 10 then [hexDigit n] else decimal (n div 10) @ [hexDigit (n mod 10)])"

declare decimal.simps [simp del]

text \<open>\<open>big.Int.SetString\<close> with a base of at most ten: an optional sign and at least one digit.\<close>

fun read_digits :: "nat \<Rightarrow> nat \<Rightarrow> string \<Rightarrow> nat option" where
  "read_digits base acc [] = Some acc"
| "read_digits base acc (c # s) =
     (let n = (of_char c :: nat)
      in if 48 \<le> n \<and> n < 48 + base then read_digits base (base * acc + (n - 48)) s else None)"

definition read_nat :: "nat \<Rightarrow> string \<Rightarrow> nat option" where
  "read_nat base s = (if s = [] then None else read_digits base 0 s)"

definition big_SetString :: "string \<Rightarrow> nat \<Rightarrow> int option" where
  "big_SetString s base =
     (case s of
        [] \<Rightarrow> None
      | c # rest \<Rightarrow>
          if c = CHR ''-'' then map_option (\<lambda>n. - int n) (read_nat base rest)
          else if c = CHR ''+'' then map_option int (read_nat base rest)
          else map_option int (read_nat base s))"

section \<open>Interpreter\<close>

record exprInterpreter =
  ei_FileResolver :: "(string \<Rightarrow> go_error + bytes) option"
  ei_Keccak256 :: "bytes \<Rightarrow> bytes"
  ei_twos_ToBytes :: "int \<Rightarrow> bytes"
  ei_twos_ToBytesOfLength :: "int \<Rightarrow> nat \<Rightarrow> go_error + bytes"
  ei_twos_CopyAlignRight :: "bytes \<Rightarrow> nat \<Rightarrow> bytes"

definition SCAddressNumLeadingZeros :: nat where
  "SCAddressNumLeadingZeros = 8"

definition decodeShardId :: "string \<Rightarrow> go_error + byte" where
  "decodeShardId shardIdRaw =
     (case DecodeString shardIdRaw of
        Inl err \<Rightarrow> Inl (Wrapf ''could not parse address shard id'' err)
      | Inr shardId \<Rightarrow>
          if length shardId \<noteq> 1 then Inl (OtherError ''bad address shard id length'') else Inr (shardId ! 0))"

text \<open>An array of 32 bytes: the prefix from \<open>startIndex\<close> on, cut or filled with underscores up to \<open>endIndex\<close>.\<close>

definition createAddressFromPrefix :: "bytes \<Rightarrow> nat \<Rightarrow> nat \<Rightarrow> bytes" where
  "createAddressFromPrefix prefix startIndex endIndex =
     replicate startIndex 0 @ take (endIndex - startIndex) prefix
     @ replicate (endIndex - (length prefix + startIndex)) 95 @ replicate (32 - endIndex) 0"

definition createAddressOptionalShardId :: "string \<Rightarrow> nat \<Rightarrow> go_error + bytes" where
  "createAddressOptionalShardId input numLeadingZeros =
     (case split_at (CHR ''#'') input of
        [name] \<Rightarrow> Inr (createAddressFromPrefix (bytes_of_string name) numLeadingZeros 32)
      | [name, shard] \<Rightarrow>
          (case decodeShardId shard of
             Inl err \<Rightarrow> Inl err
           | Inr shardId \<Rightarrow> Inr ((createAddressFromPrefix (bytes_of_string name) numLeadingZeros 32)[31 := shardId]))
      | _ \<Rightarrow> Inl (OtherError ''only one shard id separator allowed in address expression''))"

definition addressExpression :: "string \<Rightarrow> go_error + bytes" where
  "addressExpression input = createAddressOptionalShardId input 0"

definition scExpression :: "string \<Rightarrow> go_error + bytes" where
  "scExpression input = createAddressOptionalShardId input SCAddressNumLeadingZeros"

definition interpretUnsignedNumber :: "string \<Rightarrow> go_error + bytes" where
  "interpretUnsignedNumber strRaw =
     (let str = ReplaceAll (CHR '','') (ReplaceAll (CHR ''_'') strRaw)
      in if HasPrefix strRaw ''0x'' \<or> HasPrefix strRaw ''0X'' then
           (let str = drop 2 strRaw
            in DecodeString (if length str mod 2 = 1 then CHR ''0'' # str else str))
         else if HasPrefix strRaw ''0b'' \<or> HasPrefix strRaw ''0B'' then
           (case big_SetString (drop 2 str) 2 of
              None \<Rightarrow> Inl (OtherError ''could not parse binary value'')
            | Some result \<Rightarrow> Inr (big_Bytes result))
         else
           (case big_SetString str 10 of
              None \<Rightarrow> Inl (OtherError ''could not parse base 10 value'')
            | Some result \<Rightarrow>
                if result < 0 then Inl (OtherError ''negative numbers not allowed in this context'')
                else Inr (big_Bytes result)))"

definition interpretUnsignedNumberFixedWidth :: "exprInterpreter \<Rightarrow> string \<Rightarrow> nat \<Rightarrow> go_error + bytes" where
  "interpretUnsignedNumberFixedWidth ei strRaw targetWidth =
     (case interpretUnsignedNumber strRaw of
        Inl err \<Rightarrow> Inl err
      | Inr numberBytes \<Rightarrow>
          if targetWidth = 0 then Inr numberBytes
          else if length numberBytes > targetWidth then Inl (OtherError ''representation does not fit'')
          else Inr (ei_twos_CopyAlignRight ei numberBytes targetWidth))"

text \<open>The first character of an empty text does not exist.\<close>

definition interpretNumber :: "exprInterpreter \<Rightarrow> string \<Rightarrow> nat \<Rightarrow> bytes result" where
  "interpretNumber ei strRaw targetWidth =
     (case strRaw of
        [] \<Rightarrow> None
      | c # rest \<Rightarrow>
          if c = CHR ''-'' \<or> c = CHR ''+'' then
            (case interpretUnsignedNumber rest of
               Inl err \<Rightarrow> Some (Inl err)
             | Inr numberBytes \<Rightarrow>
                 let number = big_SetBytes numberBytes;
                     number = (if c = CHR ''-'' then - number else number)
                 in if targetWidth = 0 then Some (Inr (ei_twos_ToBytes ei number))
                    else Some (ei_twos_ToBytesOfLength ei number targetWidth))
          else if targetWidth = 0 then Some (interpretUnsignedNumber strRaw)
          else Some (interpretUnsignedNumberFixedWidth ei strRaw targetWidth))"

text \<open>A value behind its length in four bytes.\<close>

definition length_prefixed :: "exprInterpreter \<Rightarrow> bytes \<Rightarrow> bytes" where
  "length_prefixed ei bs = ei_twos_CopyAlignRight ei (big_Bytes (int (length bs))) 4 @ bs"

definition tryInterpretFixedWidth ::
  "exprInterpreter \<Rightarrow> (string \<Rightarrow> bytes result) \<Rightarrow> string \<Rightarrow> (bool \<times> bytes) result" where
  "tryInterpretFixedWidth ei InterpretString strRaw =
     (let parsed = map_option (map_sum (\<lambda>err. err) (Pair True))
      in if HasPrefix strRaw ''u64:'' then parsed (Some (interpretUnsignedNumberFixedWidth ei (drop 4 strRaw) 8))
         else if HasPrefix strRaw ''u32:'' then parsed (Some (interpretUnsignedNumberFixedWidth ei (drop 4 strRaw) 4))
         else if HasPrefix strRaw ''u16:'' then parsed (Some (interpretUnsignedNumberFixedWidth ei (drop 4 strRaw) 2))
         else if HasPrefix strRaw ''u8:'' then parsed (Some (interpretUnsignedNumberFixedWidth ei (drop 3 strRaw) 1))
         else if HasPrefix strRaw ''i64:'' then parsed (interpretNumber ei (drop 4 strRaw) 8)
         else if HasPrefix strRaw ''i32:'' then parsed (interpretNumber ei (drop 4 strRaw) 4)
         else if HasPrefix strRaw ''i16:'' then parsed (interpretNumber ei (drop 4 strRaw) 2)
         else if HasPrefix strRaw ''i8:'' then parsed (interpretNumber ei (drop 3 strRaw) 1)
         else if HasPrefix strRaw ''biguint:'' then
           parsed (Some (map_sum (\<lambda>err. err) (length_prefixed ei) (interpretUnsignedNumber (drop 8 strRaw))))
         else if HasPrefix strRaw ''nested:'' then
           parsed (map_option (map_sum (\<lambda>err. err) (length_prefixed ei)) (InterpretString (drop 7 strRaw)))
         else Some (Inr (False, [])))"

lemma tryInterpretFixedWidth_cong [fundef_cong]:
  "ei = ei' \<Longrightarrow> s = s' \<Longrightarrow> (HasPrefix s' ''nested:'' \<Longrightarrow> f (drop 7 s') = f' (drop 7 s'))
   \<Longrightarrow> tryInterpretFixedWidth ei f s = tryInterpretFixedWidth ei' f' s'"
  by (cases "HasPrefix s' ''nested:''") (simp_all add: tryInterpretFixedWidth_def Let_def cong: if_cong)

fun concat_values :: "bytes result list \<Rightarrow> bytes \<Rightarrow> bytes result" where
  "concat_values [] acc = Some (Inr acc)"
| "concat_values (r # rs) acc =
     (case r of
        None \<Rightarrow> None
      | Some (Inl err) \<Rightarrow> Some (Inl err)
      | Some (Inr v) \<Rightarrow> concat_values rs (acc @ v))"

fun interpret_ascii :: "string list \<Rightarrow> string \<Rightarrow> bytes option" where
  "interpret_ascii [] strRaw = None"
| "interpret_ascii (strPrefix # rest) strRaw =
     (if HasPrefix strRaw strPrefix then Some (bytes_of_string (drop (length strPrefix) strRaw))
      else interpret_ascii rest strRaw)"

definition strPrefixes :: "string list" where
  "strPrefixes = [''str:'', [CHR 0x60, CHR 0x60], [CHR 0x27, CHR 0x27]]"

lemma split_at_nonempty [simp]: "split_at sep s \<noteq> []"
  by (induction s) (auto split: list.split)

lemma split_at_length: "part \<in> set (split_at sep s) \<Longrightarrow> length part \<le> length s"
  by (induction s arbitrary: part) (fastforce split: if_splits list.splits)+

lemma split_at_shorter:
  "part \<in> set (split_at sep s) \<Longrightarrow> length (split_at sep s) > 1 \<Longrightarrow> length part < length s"
proof (induction s arbitrary: part)
  case (Cons c s)
  show ?case
  proof (cases "c = sep")
    case True
    then show ?thesis using Cons.prems split_at_length [of part sep s] by auto
  next
    case False
    then obtain part0 parts where parts: "split_at sep s = part0 # parts" by (cases "split_at sep s") auto
    then show ?thesis using Cons.prems Cons.IH False by (auto simp: less_SucI)
  qed
qed simp

lemma HasPrefix_length: "HasPrefix s p \<Longrightarrow> length p \<le> length s"
  by (metis HasPrefix_def length_take min.cobounded1)

function InterpretString :: "exprInterpreter \<Rightarrow> string \<Rightarrow> bytes result" where
  "InterpretString ei strRaw =
     (if length strRaw = 0 then Some (Inr [])
      else if HasPrefix strRaw ''file:'' then
        (case ei_FileResolver ei of
           None \<Rightarrow> Some (Inl (OtherError ''parser FileResolver not provided''))
         | Some ResolveFileValue \<Rightarrow> Some (ResolveFileValue (drop 5 strRaw)))
      else if HasPrefix strRaw ''keccak256:'' then
        map_option (map_sum (Wrapf ''cannot parse keccak256 argument'') (ei_Keccak256 ei))
          (InterpretString ei (drop 10 strRaw))
      else
        let parts = split_at (CHR ''|'') strRaw
        in if length parts > 1 then concat_values (map (InterpretString ei) parts) []
           else if strRaw = ''false'' then Some (Inr [])
           else if strRaw = ''true'' then Some (Inr [1])
           else (case interpret_ascii strPrefixes strRaw of
                   Some str \<Rightarrow> Some (Inr str)
                 | None \<Rightarrow>
                     if HasPrefix strRaw ''address:'' then Some (addressExpression (drop 8 strRaw))
                     else if HasPrefix strRaw ''sc:'' then Some (scExpression (drop 3 strRaw))
                     else
                       (case tryInterpretFixedWidth ei (InterpretString ei) strRaw of
                          None \<Rightarrow> None
                        | Some (Inl err) \<Rightarrow> Some (Inl err)
                        | Some (Inr (parsed, result)) \<Rightarrow>
                            if parsed then Some (Inr result) else interpretNumber ei strRaw 0)))"
  by pat_completeness auto
termination
  by (relation "measure (\<lambda>(_, s). length s)") (auto dest: HasPrefix_length intro: split_at_shorter)

declare InterpretString.simps [simp del]

text \<open>
  The values of a map are put together in the order of their keys. Sorting the pairs before or after
  their values are interpreted is the same, since sorting only looks at the keys.
\<close>

primrec InterpretSubTree :: "OJsonObject \<Rightarrow> exprInterpreter \<Rightarrow> bytes result" where
  "InterpretSubTree (OJsonMap KeySet OrderedKV) = (\<lambda>ei.
     concat_values
       (map (\<lambda>(_, value). case value of
                None \<Rightarrow> Some (Inl (OtherError ''cannot interpret given JSON subtree as value''))
              | Some interpret \<Rightarrow> interpret ei)
          (sort_key fst (map (map_prod id (map_option InterpretSubTree)) OrderedKV))) [])"
| "InterpretSubTree (OJsonList list) = (\<lambda>ei. concat_values (map (\<lambda>interpret. interpret ei) (map InterpretSubTree list)) [])"
| "InterpretSubTree (OJsonString str) = (\<lambda>ei. InterpretString ei str)"
| "InterpretSubTree (OJsonBool b) = (\<lambda>ei. Some (Inl (OtherError ''cannot interpret given JSON subtree as value'')))"

section \<open>Reconstructor\<close>

datatype ExprReconstructorHint = NoHint | NumberHint | AddressHint | StrHint | CodeHint

definition maxBytesInterpretedAsNumber :: nat where
  "maxBytesInterpretedAsNumber = 15"

fun canInterpretAsString :: "bytes \<Rightarrow> bool" where
  "canInterpretAsString [] = False"
| "canInterpretAsString bs = list_all (\<lambda>b. 32 \<le> b \<and> b \<le> 126) bs"

definition unknownByteArrayPretty :: "(string \<Rightarrow> string) \<Rightarrow> bytes \<Rightarrow> string" where
  "unknownByteArrayPretty Quote bs =
     (if length bs = 0 then []
      else if canInterpretAsString bs
        then ''0x'' @ EncodeToString bs @ '' (str:'' @ string_of_bytes bs @ '')''
      else if length bs < maxBytesInterpretedAsNumber
        then ''0x'' @ EncodeToString bs @ '' ('' @ decimal (nat (big_SetBytes bs)) @ '')''
      else ''0x'' @ EncodeToString bs @ '' (str:'' @ Quote (string_of_bytes bs) @ '')'')"

definition hex_byte :: "byte \<Rightarrow> string" where
  "hex_byte b = (if unat b < 16 then [hexDigit (unat b)] else [hexDigit (unat b div 16), hexDigit (unat b mod 16)])"

definition hex_byte_padded :: "byte \<Rightarrow> string" where
  "hex_byte_padded b = [hexDigit (unat b div 16), hexDigit (unat b mod 16)]"

definition addressPretty :: "(string \<Rightarrow> string) \<Rightarrow> bytes \<Rightarrow> string" where
  "addressPretty Quote bs =
     (if length bs \<noteq> 32 then unknownByteArrayPretty Quote bs
      else if take SCAddressNumLeadingZeros bs = replicate SCAddressNumLeadingZeros 0 then
        (if bs ! 31 = 95
         then ''sc:'' @ TrimRight (CHR ''_'') (string_of_bytes (drop SCAddressNumLeadingZeros bs))
         else ''sc:'' @ TrimRight (CHR ''_'') (string_of_bytes (drop SCAddressNumLeadingZeros (take 31 bs)))
                @ ''#'' @ hex_byte (bs ! 31))
      else
        (if bs ! 31 = 95
         then ''address:'' @ TrimRight (CHR ''_'') (string_of_bytes bs)
         else ''address:'' @ TrimRight (CHR ''_'') (string_of_bytes (take 31 bs))
                @ ''#'' @ hex_byte_padded (bs ! 31)))"

definition codePretty :: "bytes \<Rightarrow> string" where
  "codePretty bs =
     (if length bs = 0 then []
      else let encoded = EncodeToString bs
           in if length encoded > 20 then ''0x'' @ take 20 encoded @ ''...'' else ''0x'' @ encoded)"

definition Reconstruct :: "(string \<Rightarrow> string) \<Rightarrow> bytes \<Rightarrow> ExprReconstructorHint \<Rightarrow> string" where
  "Reconstruct Quote bs hint =
     (case hint of
        NumberHint \<Rightarrow> decimal (nat (big_SetBytes bs))
      | StrHint \<Rightarrow> ''str:'' @ string_of_bytes bs
      | AddressHint \<Rightarrow> addressPretty Quote bs
      | CodeHint \<Rightarrow> codePretty bs
      | NoHint \<Rightarrow> unknownByteArrayPretty Quote bs)"

definition ReconstructFromBigInt :: "(string \<Rightarrow> string) \<Rightarrow> int \<Rightarrow> string" where
  "ReconstructFromBigInt Quote n = Reconstruct Quote (big_Bytes n) NumberHint"

definition ReconstructFromUint64 :: "(string \<Rightarrow> string) \<Rightarrow> u64 \<Rightarrow> string" where
  "ReconstructFromUint64 Quote n = Reconstruct Quote (big_Bytes (uint n)) NumberHint"

section \<open>Text and bytes\<close>

lemma byte_less: "unat (b :: byte) < 256"
  using unsigned_less [of b] by simp

lemma string_of_bytes_mem: "char_of n \<in> set (string_of_bytes bs) \<longleftrightarrow> of_nat n \<in> set bs" if "n < 256"
proof -
  have "(char_of (unat b) = (char_of n :: char)) = (b = of_nat n)" for b :: byte
  proof -
    have b: "unat b < 256" using byte_less [of b] by simp
    have "(char_of (unat b) = (char_of n :: char)) \<longleftrightarrow> (of_char (char_of (unat b) :: char) :: nat) = of_char (char_of n :: char)"
      by simp
    also have "\<dots> \<longleftrightarrow> unat b = n" using that b by (simp only: of_char_of mod_less)
    also have "\<dots> \<longleftrightarrow> b = of_nat n" using that by (auto simp: unsigned_of_nat take_bit_eq_mod)
    finally show ?thesis .
  qed
  then have "(char_of n = (char_of (unat b) :: char)) = (b = of_nat n)" for b :: byte by (metis (no_types))
  then show ?thesis by (simp only: string_of_bytes_def set_map image_iff) auto
qed

lemma HasPrefix_Cons: "HasPrefix s (c # p) \<longleftrightarrow> (\<exists>t. s = c # t \<and> HasPrefix t p)"
  by (cases s) (auto simp: HasPrefix_def)

lemma HasPrefix_Nil [simp]: "HasPrefix s []"
  by (simp add: HasPrefix_def)

lemma split_at_none: "sep \<notin> set s \<Longrightarrow> split_at sep s = [s]"
  by (induction s) auto

lemma split_at_one: "sep \<notin> set s \<Longrightarrow> split_at sep (s @ sep # t) = s # split_at sep t"
  by (induction s) auto

lemma TrimRight_pad: "\<exists>k. s = TrimRight c s @ replicate k c"
proof -
  have "rev s = takeWhile (\<lambda>x. x = c) (rev s) @ dropWhile (\<lambda>x. x = c) (rev s)" by simp
  then have "s = TrimRight c s @ rev (takeWhile (\<lambda>x. x = c) (rev s))"
    by (metis TrimRight_def rev_append rev_rev_ident)
  moreover have "rev (takeWhile (\<lambda>x. x = c) (rev s)) = replicate (length (takeWhile (\<lambda>x. x = c) (rev s))) c"
    by (intro replicate_eqI) (auto dest: set_takeWhileD)
  ultimately show ?thesis by metis
qed

section \<open>Numbers\<close>

definition digit :: "char \<Rightarrow> bool" where
  "digit c \<longleftrightarrow> 48 \<le> (of_char c :: nat) \<and> (of_char c :: nat) \<le> 57"

lemma hexDigit_code: "n < 16 \<Longrightarrow> of_char (hexDigit n) = (if n < 10 then 48 + n else 87 + n)"
  by (simp add: hexDigit_def)

lemma fromHexChar_digit: "n < 16 \<Longrightarrow> fromHexChar (hexDigit n) = Some n"
  by (auto simp: fromHexChar_def hexDigit_code Let_def)

lemma decimal_digits: "\<forall>c \<in> set (decimal n). digit c"
proof (induction n rule: decimal.induct)
  case (1 n)
  then show ?case using decimal.simps [of n] by (auto simp: digit_def hexDigit_code)
qed

lemma decimal_nonempty: "decimal n \<noteq> []"
  using decimal.simps [of n] by simp

lemma read_digits_append:
  "read_digits base acc (s @ t) = Option.bind (read_digits base acc s) (\<lambda>n. read_digits base n t)"
  by (induction base acc s rule: read_digits.induct) (auto simp: Let_def)

lemma read_decimal: "read_digits 10 0 (decimal n) = Some n"
proof (induction n rule: decimal.induct)
  case (1 n)
  then show ?case using decimal.simps [of n] by (simp add: read_digits_append hexDigit_code)
qed

lemma not_digit:
  "\<not> digit (CHR ''f'')" "\<not> digit (CHR ''k'')" "\<not> digit (CHR ''t'')" "\<not> digit (CHR ''s'')" "\<not> digit (CHR 0x60)"
  "\<not> digit (CHR 0x27)" "\<not> digit (CHR ''a'')" "\<not> digit (CHR ''u'')" "\<not> digit (CHR ''i'')" "\<not> digit (CHR ''b'')"
  "\<not> digit (CHR ''n'')" "\<not> digit (CHR ''|'')" "\<not> digit (CHR ''_'')" "\<not> digit (CHR '','')" "\<not> digit (CHR ''-'')"
  "\<not> digit (CHR ''+'')" "\<not> digit (CHR ''x'')" "\<not> digit (CHR ''X'')" "\<not> digit (CHR ''B'')"
  by (simp_all add: digit_def)

lemma number_text:
  assumes "\<forall>c \<in> set s. digit c" and "\<not> digit c"
  shows "c \<notin> set s" and "\<not> HasPrefix s (c # p)" and "\<not> HasPrefix s (d # c # p)" and "s \<noteq> c # p"
  using assms by (auto simp: HasPrefix_Cons)

lemma interpret_decimal: "interpretUnsignedNumber (decimal n) = Inr (big_Bytes (int n))"
proof -
  note d = number_text [OF decimal_digits]
  have "ReplaceAll c (decimal n) = decimal n" if "\<not> digit c" for c
    using d(1) [OF that] by (auto simp: ReplaceAll_def filter_id_conv)
  moreover have "big_SetString (decimal n) 10 = Some (int n)"
    using read_decimal [of n] decimal_nonempty [of n] d(4) [OF not_digit(15)] d(4) [OF not_digit(16)]
    by (auto simp: big_SetString_def read_nat_def split: list.split)
  ultimately show ?thesis
    using d(3) [OF not_digit(17)] d(3) [OF not_digit(18)] d(3) [OF not_digit(10)] d(3) [OF not_digit(19)]
    by (simp add: interpretUnsignedNumber_def not_digit)
qed

lemma InterpretString_decimal: "InterpretString ei (decimal n) = Some (Inr (big_Bytes (int n)))"
proof -
  note d = number_text [OF decimal_digits]
  have parts: "split_at (CHR ''|'') (decimal n) = [decimal n]" by (rule split_at_none) (rule d(1) [OF not_digit(12)])
  have first: "\<not> HasPrefix (decimal n) (c # p)" if "\<not> digit c" for c p using d(2) [OF that] .
  have other: "decimal n \<noteq> c # p" if "\<not> digit c" for c p using d(4) [OF that] .
  have "interpretNumber ei (decimal n) 0 = Some (Inr (big_Bytes (int n)))"
    using decimal_nonempty [of n] other [of "CHR ''-''"] other [of "CHR ''+''"] interpret_decimal [of n]
    by (auto simp: interpretNumber_def not_digit split: list.split)
  then show ?thesis
    using decimal_nonempty [of n]
    by (simp add: InterpretString.simps first other not_digit parts strPrefixes_def tryInterpretFixedWidth_def)
qed

section \<open>Addresses\<close>

lemma separators: "char_of (35 :: nat) = CHR ''#''" "char_of (124 :: nat) = CHR ''|''"
  by code_simp+

lemma separator_free:
  "CHR ''#'' \<in> set (string_of_bytes bs) \<longleftrightarrow> 35 \<in> set bs" "CHR ''|'' \<in> set (string_of_bytes bs) \<longleftrightarrow> 124 \<in> set bs"
  using string_of_bytes_mem [of 35 bs] string_of_bytes_mem [of 124 bs] by (simp_all add: separators)

lemma set_TrimRight: "x \<in> set (TrimRight c s) \<Longrightarrow> x \<in> set s"
  by (auto simp: TrimRight_def dest: set_dropWhileD)

lemma underscore: "bytes_of_string (replicate k (CHR ''_'')) = replicate k 95"
  by (simp add: bytes_of_string_def)

text \<open>Cutting the trailing underscores and filling up with underscores again.\<close>

lemma createAddress_trimmed:
  assumes "length bs \<le> 32 - zeros" and "zeros \<le> 32"
  shows "createAddressFromPrefix (bytes_of_string (TrimRight (CHR ''_'') (string_of_bytes bs))) zeros 32
    = replicate zeros 0 @ bs @ replicate (32 - zeros - length bs) 95"
proof -
  obtain k where k: "string_of_bytes bs = TrimRight (CHR ''_'') (string_of_bytes bs) @ replicate k (CHR ''_'')"
    using TrimRight_pad by blast
  let ?t = "bytes_of_string (TrimRight (CHR ''_'') (string_of_bytes bs))"
  have bs: "bs = ?t @ replicate k 95"
    using arg_cong [OF k, of bytes_of_string] by (simp add: underscore)
  then have len: "length bs = length ?t + k" by (metis length_append length_replicate)
  have "replicate (32 - (length ?t + zeros)) (95 :: byte) = replicate k 95 @ replicate (32 - zeros - length bs) 95"
    using len assms by (simp add: replicate_add [symmetric])
  then show ?thesis
    using len assms bs by (simp add: createAddressFromPrefix_def)
qed

lemma decode_padded: "decodeShardId (hex_byte_padded b) = Inr b"
proof -
  have "unat b div 16 < 16" "unat b mod 16 < 16" using byte_less [of b] by auto
  then show ?thesis by (simp add: decodeShardId_def hex_byte_padded_def fromHexChar_digit)
qed

lemma decode_unpadded:
  "decodeShardId (hex_byte b) =
     (if b < 16 then Inl (Wrapf ''could not parse address shard id'' (OtherError ''encoding/hex: odd length hex string''))
      else Inr b)"
proof -
  have small: "b < 16 \<longleftrightarrow> unat b < 16" by (simp add: word_less_nat_alt)
  show ?thesis
    using decode_padded [of b] by (simp add: hex_byte_def hex_byte_padded_def small decodeShardId_def fromHexChar_digit)
qed

text \<open>An expression for an address, with and without an explicit shard.\<close>

lemma address_plain:
  assumes "length bs = 32 - zeros" and "zeros \<le> 32" and "35 \<notin> set bs"
  shows "createAddressOptionalShardId (TrimRight (CHR ''_'') (string_of_bytes bs)) zeros = Inr (replicate zeros 0 @ bs)"
proof -
  have "CHR ''#'' \<notin> set (string_of_bytes bs)" using assms(3) by (simp add: separator_free)
  then have "split_at (CHR ''#'') (TrimRight (CHR ''_'') (string_of_bytes bs)) = [TrimRight (CHR ''_'') (string_of_bytes bs)]"
    using split_at_none set_TrimRight by metis
  then show ?thesis
    using assms by (simp add: createAddressOptionalShardId_def createAddress_trimmed)
qed

lemma address_shard:
  assumes "length bs = 31 - zeros" and "zeros \<le> 31" and "35 \<notin> set bs" and "CHR ''#'' \<notin> set shard"
  shows "createAddressOptionalShardId (TrimRight (CHR ''_'') (string_of_bytes bs) @ ''#'' @ shard) zeros
    = (case decodeShardId shard of Inl err \<Rightarrow> Inl err | Inr b \<Rightarrow> Inr (replicate zeros 0 @ bs @ [b]))"
proof -
  let ?t = "TrimRight (CHR ''_'') (string_of_bytes bs)"
  have "CHR ''#'' \<notin> set (string_of_bytes bs)" using assms(3) by (simp add: separator_free)
  then have "split_at (CHR ''#'') (?t @ CHR ''#'' # shard) = [?t, shard]"
    using split_at_one [of "CHR ''#''" ?t shard] split_at_none [OF assms(4)] set_TrimRight by metis
  moreover have "createAddressFromPrefix (bytes_of_string ?t) zeros 32 = replicate zeros 0 @ bs @ [95]"
    using createAddress_trimmed [of bs zeros] assms by (simp add: Suc_diff_le)
  moreover have "(replicate zeros 0 @ bs @ [95])[31 := b] = replicate zeros 0 @ bs @ [b]" for b
    using assms by (simp add: list_update_append)
  ultimately show ?thesis by (simp add: createAddressOptionalShardId_def split: sum.split)
qed

section \<open>Reading reconstructed values\<close>

lemma InterpretString_prefixed:
  assumes "CHR ''|'' \<notin> set s"
  shows "InterpretString ei (''str:'' @ s) = Some (Inr (bytes_of_string s))"
    and "InterpretString ei (''address:'' @ s) = Some (addressExpression s)"
    and "InterpretString ei (''sc:'' @ s) = Some (scExpression s)"
proof -
  have parts: "split_at (CHR ''|'') (p @ s) = [p @ s]" if "CHR ''|'' \<notin> set p" for p
    using assms that by (intro split_at_none) simp
  note simps = InterpretString.simps HasPrefix_Cons strPrefixes_def
  show "InterpretString ei (''str:'' @ s) = Some (Inr (bytes_of_string s))"
    using parts [of "''str:''"] by (simp add: simps)
  show "InterpretString ei (''address:'' @ s) = Some (addressExpression s)"
    using parts [of "''address:''"] by (simp add: simps)
  show "InterpretString ei (''sc:'' @ s) = Some (scExpression s)"
    using parts [of "''sc:''"] by (simp add: simps)
qed

lemmas InterpretString_texts = InterpretString_prefixed [simplified]

lemma hexDigit_plain: "n < 16 \<Longrightarrow> hexDigit n \<noteq> CHR ''#'' \<and> hexDigit n \<noteq> CHR ''|''"
proof -
  have "fromHexChar (CHR ''#'') = None" "fromHexChar (CHR ''|'') = None" by (simp_all add: fromHexChar_def)
  then show "n < 16 \<Longrightarrow> hexDigit n \<noteq> CHR ''#'' \<and> hexDigit n \<noteq> CHR ''|''"
    using fromHexChar_digit [of n] by (metis option.distinct(1))
qed

lemma hex_byte_plain:
  "CHR ''#'' \<notin> set (hex_byte b)" "CHR ''|'' \<notin> set (hex_byte b)"
  "CHR ''#'' \<notin> set (hex_byte_padded b)" "CHR ''|'' \<notin> set (hex_byte_padded b)"
proof -
  have "unat b div 16 < 16" "unat b mod 16 < 16" using byte_less [of b] by auto
  then show "CHR ''#'' \<notin> set (hex_byte b)" "CHR ''|'' \<notin> set (hex_byte b)"
    "CHR ''#'' \<notin> set (hex_byte_padded b)" "CHR ''|'' \<notin> set (hex_byte_padded b)"
    using hexDigit_plain [of "unat b div 16"] hexDigit_plain [of "unat b mod 16"] hexDigit_plain [of "unat b"]
    by (auto simp: hex_byte_def hex_byte_padded_def simp del: mod_less)
qed

lemma trimmed_plain: "124 \<notin> set bs \<Longrightarrow> CHR ''|'' \<notin> set (TrimRight (CHR ''_'') (string_of_bytes bs))"
  using set_TrimRight separator_free(2) by metis

lemma address_parts:
  assumes "length bs = 32"
  shows "take 31 bs @ [bs ! 31] = bs"
    and "take 8 bs = replicate 8 0 \<Longrightarrow> replicate 8 0 @ drop 8 (take 31 bs) = take 31 bs"
proof -
  show bs: "take 31 bs @ [bs ! 31] = bs"
    using assms take_Suc_conv_app_nth [of 31 bs] by simp
  have "take 8 (take 31 bs) = take 8 bs" by simp
  then show "take 8 bs = replicate 8 0 \<Longrightarrow> replicate 8 0 @ drop 8 (take 31 bs) = take 31 bs"
    by (metis append_take_drop_id)
qed

lemma reconstructed_address:
  assumes "length bs = 32" and "35 \<notin> set (take 31 bs)" and "124 \<notin> set (take 31 bs)"
  shows "InterpretString ei (Reconstruct Quote bs AddressHint) =
    (if take 8 bs = replicate 8 0 \<and> bs ! 31 < 16
     then Some (Inl (Wrapf ''could not parse address shard id'' (OtherError ''encoding/hex: odd length hex string'')))
     else Some (Inr bs))"
proof -
  note parts = address_parts [OF assms(1)]
  have mem: "x \<in> set bs \<longleftrightarrow> x \<in> set (take 31 bs) \<or> x = bs ! 31" for x
    using arg_cong [OF parts(1), of set] by auto
  have sep: "35 \<notin> set (drop 8 (take 31 bs))" "124 \<notin> set (drop 8 (take 31 bs))"
    using assms(2,3) by (auto dest: in_set_dropD)
  show ?thesis
  proof (cases "take 8 bs = replicate 8 0")
    case sc: True
    show ?thesis
    proof (cases "bs ! 31 = 95")
      case True
      then have free: "35 \<notin> set (drop 8 bs)" "124 \<notin> set (drop 8 bs)"
        using mem assms(2,3) by (auto dest!: in_set_dropD)
      have "replicate 8 0 @ drop 8 bs = bs" using sc by (metis append_take_drop_id)
      then show ?thesis
        using True sc assms(1) free address_plain [of "drop 8 bs" 8] trimmed_plain
        by (simp add: Reconstruct_def addressPretty_def SCAddressNumLeadingZeros_def InterpretString_texts scExpression_def)
    next
      case False
      have "replicate 8 0 @ drop 8 (take 31 bs) @ [bs ! 31] = bs" using parts(1) parts(2) [OF sc] by (metis append_assoc)
      then have "createAddressOptionalShardId (TrimRight (CHR ''_'') (string_of_bytes (drop 8 (take 31 bs))) @ ''#'' @ hex_byte (bs ! 31)) 8
        = (if bs ! 31 < 16 then Inl (Wrapf ''could not parse address shard id'' (OtherError ''encoding/hex: odd length hex string'')) else Inr bs)"
        using address_shard [of "drop 8 (take 31 bs)" 8] assms(1) sep(1) hex_byte_plain(1)
        by (simp add: decode_unpadded)
      then show ?thesis
        using False sc assms(1) trimmed_plain [OF sep(2)] hex_byte_plain(2)
        by (simp add: Reconstruct_def addressPretty_def SCAddressNumLeadingZeros_def InterpretString_texts scExpression_def)
    qed
  next
    case eoa: False
    show ?thesis
    proof (cases "bs ! 31 = 95")
      case True
      then have free: "35 \<notin> set bs" "124 \<notin> set bs" using mem assms(2,3) by auto
      then show ?thesis
        using True eoa assms(1) address_plain [of bs 0] trimmed_plain [OF free(2)]
        by (simp add: Reconstruct_def addressPretty_def SCAddressNumLeadingZeros_def InterpretString_texts addressExpression_def)
    next
      case False
      then show ?thesis
        using eoa assms address_shard [of "take 31 bs" 0 "hex_byte_padded (bs ! 31)"] parts(1) trimmed_plain [OF assms(3)]
        by (simp add: Reconstruct_def addressPretty_def SCAddressNumLeadingZeros_def InterpretString_texts addressExpression_def
            hex_byte_plain decode_padded)
    qed
  qed
qed

text \<open>The value of a map does not depend on the order of its pairs.\<close>

lemma map_value_order:
  assumes "mset kvs = mset kvs'" and "distinct (map fst kvs)"
  shows "InterpretSubTree (OJsonMap K kvs) ei = InterpretSubTree (OJsonMap K' kvs') ei"
proof -
  let ?f = "map_prod id (map_option InterpretSubTree)"
  have "distinct (map fst (map ?f kvs))" using assms(2) by (simp add: comp_def)
  then have "inj_on fst (set (map ?f kvs))" using distinct_map by blast
  moreover have "mset (map ?f kvs) = mset (sort_key fst (map ?f kvs'))" using assms(1) by simp
  ultimately have "sort_key fst (map ?f kvs) = sort_key fst (map ?f kvs')"
    by (intro sort_key_inj_key_eq) auto
  then show ?thesis by (simp only: InterpretSubTree.simps)
qed

text \<open>An expression for a signed number of fixed width that has no digits makes the interpreter panic.\<close>

lemma empty_signed_number_panics: "InterpretString ei ''i8:'' = None"
  by (simp add: InterpretString.simps HasPrefix_Cons strPrefixes_def tryInterpretFixedWidth_def interpretNumber_def)

text \<open>
  The expressions that the tools print are read back: a number as its shortest representation, a text
  without a bar as itself, and an address of 32 bytes whose name has no bar and no hash sign as itself - but for contract
  addresses whose last byte is below 16: their shard is printed with one hexadecimal digit, which the
  interpreter refuses. The value of a map does not depend on the order in which its pairs are written.
\<close>

theorem reconstructed_values_read_back:
  "InterpretString ei (Reconstruct Quote bs NumberHint) = Some (Inr (big_Bytes (big_SetBytes bs)))
   \<and> (124 \<notin> set bs \<longrightarrow> InterpretString ei (Reconstruct Quote bs StrHint) = Some (Inr bs))
   \<and> (length bs = 32 \<and> 35 \<notin> set (take 31 bs) \<and> 124 \<notin> set (take 31 bs) \<longrightarrow>
       InterpretString ei (Reconstruct Quote bs AddressHint) =
         (if take 8 bs = replicate 8 0 \<and> bs ! 31 < 16
          then Some (Inl (Wrapf ''could not parse address shard id'' (OtherError ''encoding/hex: odd length hex string'')))
          else Some (Inr bs)))
   \<and> (mset kvs = mset kvs' \<and> distinct (map fst kvs) \<longrightarrow>
       InterpretSubTree (OJsonMap K kvs) ei = InterpretSubTree (OJsonMap K' kvs') ei)"
proof (intro conjI impI)
  show "InterpretString ei (Reconstruct Quote bs NumberHint) = Some (Inr (big_Bytes (big_SetBytes bs)))"
    by (simp add: Reconstruct_def InterpretString_decimal)
  show "InterpretString ei (Reconstruct Quote bs StrHint) = Some (Inr bs)" if "124 \<notin> set bs"
    using that by (simp add: Reconstruct_def InterpretString_texts separator_free)
qed (blast intro: reconstructed_address map_value_order)+

theorem reconstructed_values_read_back_witness:
  "\<exists>ei. InterpretString ei (Reconstruct id (replicate 8 0 @ replicate 23 97 @ [1]) AddressHint)
       = Some (Inl (Wrapf ''could not parse address shard id'' (OtherError ''encoding/hex: odd length hex string'')))
     \<and> InterpretString ei (Reconstruct id (replicate 8 0 @ replicate 23 97 @ [95]) AddressHint)
       = Some (Inr (replicate 8 0 @ replicate 23 97 @ [95]))
     \<and> InterpretString ei (Reconstruct id [7, 97] StrHint) = Some (Inr [7, 97])"
proof -
  let ?ei = "\<lparr>ei_FileResolver = None, ei_Keccak256 = id, ei_twos_ToBytes = big_Bytes,
    ei_twos_ToBytesOfLength = (\<lambda>n _. Inr (big_Bytes n)), ei_twos_CopyAlignRight = (\<lambda>bs n. replicate (n - length bs) 0 @ bs)\<rparr>" and ?a = "\<lambda>b. replicate 8 0 @ replicate 23 97 @ [b :: byte]"
  have a: "length (?a b) = 32" "35 \<notin> set (take 31 (?a b))" "124 \<notin> set (take 31 (?a b))" "take 8 (?a b) = replicate 8 0"
    "?a b ! 31 = b" for b
    by (simp_all add: nth_append)
  show ?thesis
    using reconstructed_values_read_back [of ?ei id "?a 1" "[]" "[]" "[]" "[]"]
      reconstructed_values_read_back [of ?ei id "?a 95" "[]" "[]" "[]" "[]"]
      reconstructed_values_read_back [of ?ei id "[7, 97]" "[]" "[]" "[]" "[]"] a [of 1] a [of 95]
    by (intro exI [of _ ?ei]) auto
qed

end
