(* ===== verification/ScenarioModel.thy ===== *)
theory ScenarioModel
  imports OrderedJSON
begin

text \<open>
  Scenarios as data (\<open>scenarios/json/model\<close>): accounts to set up, transactions, expected results and states,
  and the steps of a scenario. A value keeps the text it was read from. An expected value is a star, which
  accepts everything, or a value; \<open>Unspecified\<close> marks a field that the file does not have. The nil number of a
  star or of a record that was never filled is 0 here; nothing reads it. The names ending in \<open>_zero\<close> are the zero values of Go. The record
  \<open>Account\<close> of the source is \<open>ScenAccount\<close> and its \<open>LogEntry\<close>, \<open>BlockInfo\<close> and \<open>NewAddressMock\<close> carry the same prefix.
\<close>

section \<open>Values\<close>

record JSONBytesFromString =
  jbs_Value :: bytes
  jbs_Original :: string

record JSONBytesFromTree =
  jbt_Value :: bytes
  jbt_Original :: "OJsonObject option"

record JSONBigInt =
  jbi_Value :: int
  jbi_Original :: string

record JSONUint64 =
  ju_Value :: u64
  ju_Original :: string

definition NewJSONBytesFromString :: "bytes \<Rightarrow> string \<Rightarrow> JSONBytesFromString" where
  "NewJSONBytesFromString val originalStr = \<lparr>jbs_Value = val, jbs_Original = originalStr\<rparr>"

definition JSONBytesFromTree_zero :: JSONBytesFromTree where
  "JSONBytesFromTree_zero = \<lparr>jbt_Value = [], jbt_Original = None\<rparr>"

definition JSONBigIntZero :: JSONBigInt where
  "JSONBigIntZero = \<lparr>jbi_Value = 0, jbi_Original = []\<rparr>"

definition JSONUint64Zero :: JSONUint64 where
  "JSONUint64Zero = \<lparr>ju_Value = 0, ju_Original = []\<rparr>"

definition is_empty_string :: "OJsonObject option \<Rightarrow> bool" where
  "is_empty_string j = (case j of Some (OJsonString s) \<Rightarrow> s = [] | _ \<Rightarrow> False)"

definition tree_OriginalEmpty :: "JSONBytesFromTree \<Rightarrow> bool" where
  "tree_OriginalEmpty jb = is_empty_string (jbt_Original jb)"

record JSONCheckBytes =
  jcb_Value :: bytes
  jcb_IsStar :: bool
  jcb_Original :: "OJsonObject option"
  jcb_Unspecified :: bool

record JSONCheckBigInt =
  jci_Value :: int
  jci_IsStar :: bool
  jci_Original :: string
  jci_Unspecified :: bool

record JSONCheckUint64 =
  jcu_Value :: u64
  jcu_IsStar :: bool
  jcu_Original :: string
  jcu_Unspecified :: bool

definition JSONCheckBytesUnspecified :: JSONCheckBytes where
  "JSONCheckBytesUnspecified =
     \<lparr>jcb_Value = [], jcb_IsStar = False, jcb_Original = Some (OJsonString []), jcb_Unspecified = True\<rparr>"

definition JSONCheckBytesStar :: JSONCheckBytes where
  "JSONCheckBytesStar =
     \<lparr>jcb_Value = [], jcb_IsStar = True, jcb_Original = Some (OJsonString ''*''), jcb_Unspecified = False\<rparr>"

definition JSONCheckBytesReconstructed :: "bytes \<Rightarrow> string \<Rightarrow> JSONCheckBytes" where
  "JSONCheckBytesReconstructed val originalString =
     \<lparr>jcb_Value = val, jcb_IsStar = False, jcb_Original = Some (OJsonString originalString), jcb_Unspecified = False\<rparr>"

definition JSONCheckBytes_zero :: JSONCheckBytes where
  "JSONCheckBytes_zero = \<lparr>jcb_Value = [], jcb_IsStar = False, jcb_Original = None, jcb_Unspecified = False\<rparr>"

definition check_OriginalEmpty :: "JSONCheckBytes \<Rightarrow> bool" where
  "check_OriginalEmpty jcbytes = is_empty_string (jcb_Original jcbytes)"

definition check_bytes :: "JSONCheckBytes \<Rightarrow> bytes \<Rightarrow> bool" where
  "check_bytes jcbytes other \<longleftrightarrow> jcb_IsStar jcbytes \<or> jcb_Value jcbytes = other"

definition JSONCheckBigIntUnspecified :: JSONCheckBigInt where
  "JSONCheckBigIntUnspecified = \<lparr>jci_Value = 0, jci_IsStar = False, jci_Original = [], jci_Unspecified = True\<rparr>"

text \<open>Comparing with a nil number panics, unless every number is accepted.\<close>

definition check_bigint :: "JSONCheckBigInt \<Rightarrow> int option \<Rightarrow> bool option" where
  "check_bigint jcbi other = (if jci_IsStar jcbi then Some True else map_option (\<lambda>v. jci_Value jcbi = v) other)"

definition JSONCheckUint64Unspecified :: JSONCheckUint64 where
  "JSONCheckUint64Unspecified = \<lparr>jcu_Value = 0, jcu_IsStar = False, jcu_Original = [], jcu_Unspecified = True\<rparr>"

definition JSONCheckUint64_zero :: JSONCheckUint64 where
  "JSONCheckUint64_zero = \<lparr>jcu_Value = 0, jcu_IsStar = False, jcu_Original = [], jcu_Unspecified = False\<rparr>"

definition check_uint64 :: "JSONCheckUint64 \<Rightarrow> u64 \<Rightarrow> bool" where
  "check_uint64 jcu other \<longleftrightarrow> jcu_IsStar jcu \<or> jcu_Value jcu = other"

definition CheckBool :: "JSONCheckUint64 \<Rightarrow> bool \<Rightarrow> bool" where
  "CheckBool jcu other \<longleftrightarrow> jcu_IsStar jcu \<or> (jcu_Value jcu > 0) = other"

section \<open>Tokens\<close>

record ESDTTxData =
  etd_TokenIdentifier :: JSONBytesFromString
  etd_Nonce :: JSONUint64
  etd_Value :: JSONBigInt

record ESDTInstance =
  ei_Nonce :: JSONUint64
  ei_Balance :: JSONBigInt
  ei_Creator :: JSONBytesFromString
  ei_Royalties :: JSONUint64
  ei_Hash :: JSONBytesFromString
  ei_Uri :: JSONBytesFromTree
  ei_Attributes :: JSONBytesFromString

record ESDTData =
  ed_TokenIdentifier :: JSONBytesFromString
  ed_Instances :: "ESDTInstance list"
  ed_LastNonce :: JSONUint64
  ed_Roles :: "string list"
  ed_Frozen :: JSONUint64

record CheckESDTInstance =
  cei_Nonce :: JSONCheckUint64
  cei_Balance :: JSONCheckBigInt
  cei_Creator :: JSONCheckBytes
  cei_Royalties :: JSONCheckUint64
  cei_Hash :: JSONCheckBytes
  cei_Uri :: JSONCheckBytes
  cei_Attributes :: JSONCheckBytes

definition NewCheckESDTInstance :: CheckESDTInstance where
  "NewCheckESDTInstance = \<lparr>cei_Nonce = JSONCheckUint64Unspecified, cei_Balance = JSONCheckBigIntUnspecified,
     cei_Creator = JSONCheckBytesUnspecified, cei_Royalties = JSONCheckUint64Unspecified, cei_Hash = JSONCheckBytesUnspecified,
     cei_Uri = JSONCheckBytesUnspecified, cei_Attributes = JSONCheckBytesUnspecified\<rparr>"

record CheckESDTData =
  ced_TokenIdentifier :: JSONBytesFromString
  ced_Instances :: "CheckESDTInstance list"
  ced_LastNonce :: JSONCheckUint64
  ced_Roles :: "string list"
  ced_Frozen :: JSONCheckUint64

section \<open>Accounts\<close>

record StorageKeyValuePair =
  skv_Key :: JSONBytesFromString
  skv_Value :: JSONBytesFromTree

record ScenAccount =
  sac_Address :: JSONBytesFromString
  sac_Shard :: JSONUint64
  sac_IsSmartContract :: bool
  sac_Comment :: string
  sac_Nonce :: JSONUint64
  sac_Balance :: JSONBigInt
  sac_Username :: JSONBytesFromString
  sac_Storage :: "StorageKeyValuePair list"
  sac_Code :: JSONBytesFromString
  sac_Owner :: JSONBytesFromString
  sac_AsyncCallData :: string
  sac_ESDTData :: "ESDTData list"

record CheckStorageKeyValuePair =
  cskv_Key :: JSONBytesFromString
  cskv_CheckValue :: JSONCheckBytes

record CheckAccount =
  ca_Address :: JSONBytesFromString
  ca_Comment :: string
  ca_Nonce :: JSONCheckUint64
  ca_Balance :: JSONCheckBigInt
  ca_Username :: JSONCheckBytes
  ca_CheckStorage :: "CheckStorageKeyValuePair list"
  ca_IgnoreStorage :: bool
  ca_MoreStorageAllowed :: bool
  ca_Code :: JSONCheckBytes
  ca_Owner :: JSONCheckBytes
  ca_AsyncCallData :: JSONCheckBytes
  ca_CheckESDTData :: "CheckESDTData list"
  ca_IgnoreESDT :: bool
  ca_MoreESDTTokensAllowed :: bool

record CheckAccounts =
  cas_Accounts :: "CheckAccount list"
  cas_MoreAccountsAllowed :: bool

fun FindAccount :: "ScenAccount list \<Rightarrow> bytes \<Rightarrow> ScenAccount option" where
  "FindAccount [] addr = None"
| "FindAccount (acct # accounts) addr = (if jbs_Value (sac_Address acct) = addr then Some acct else FindAccount accounts addr)"

fun FindCheckAccount :: "CheckAccount list \<Rightarrow> bytes \<Rightarrow> CheckAccount option" where
  "FindCheckAccount [] addr = None"
| "FindCheckAccount (acct # accounts) addr = (if jbs_Value (ca_Address acct) = addr then Some acct else FindCheckAccount accounts addr)"

section \<open>Transactions\<close>

text \<open>The type is a number; \<open>UnknownType\<close> stands for a number without a name. \<open>Transfer_tx\<close> is \<open>Transfer\<close> of the source.\<close>

datatype TransactionType = ScDeploy | ScCall | ScQuery | Transfer_tx | ValidatorReward | UnknownType

definition HasSender :: "TransactionType \<Rightarrow> bool" where
  "HasSender tt \<longleftrightarrow> tt \<noteq> ScQuery \<and> tt \<noteq> ValidatorReward"

definition HasReceiver :: "TransactionType \<Rightarrow> bool" where
  "HasReceiver tt \<longleftrightarrow> tt \<noteq> ScDeploy"

definition IsSmartContractTx :: "TransactionType \<Rightarrow> bool" where
  "IsSmartContractTx tt \<longleftrightarrow> tt = ScDeploy \<or> tt = ScCall \<or> tt = ScQuery"

definition HasValue :: "TransactionType \<Rightarrow> bool" where
  "HasValue tt \<longleftrightarrow> tt \<noteq> ScQuery"

definition HasESDT :: "TransactionType \<Rightarrow> bool" where
  "HasESDT tt \<longleftrightarrow> tt \<noteq> ScQuery \<and> tt \<noteq> ValidatorReward"

definition HasFunction :: "TransactionType \<Rightarrow> bool" where
  "HasFunction tt \<longleftrightarrow> tt = ScCall \<or> tt = ScQuery"

definition HasGas :: "TransactionType \<Rightarrow> bool" where
  "HasGas tt \<longleftrightarrow> tt = ScDeploy \<or> tt = ScCall \<or> HasESDT tt"

record Transaction =
  tx_Type :: TransactionType
  tx_Nonce :: JSONUint64
  tx_Value :: JSONBigInt
  tx_ESDTValue :: "ESDTTxData option"
  tx_From :: JSONBytesFromString
  tx_To :: JSONBytesFromString
  tx_Function :: string
  tx_Code :: JSONBytesFromString
  tx_Arguments :: "JSONBytesFromTree list"
  tx_GasPrice :: JSONUint64
  tx_GasLimit :: JSONUint64

record ScenLogEntry =
  sle_Address :: JSONCheckBytes
  sle_Identifier :: JSONCheckBytes
  sle_Topics :: "JSONCheckBytes list"
  sle_Data :: JSONCheckBytes

record TransactionResult =
  tr_Out :: "JSONCheckBytes list"
  tr_Status :: JSONCheckBigInt
  tr_Message :: JSONCheckBytes
  tr_Gas :: JSONCheckUint64
  tr_Refund :: JSONCheckBigInt
  tr_LogsStar :: bool
  tr_LogsUnspecified :: bool
  tr_LogHash :: string
  tr_Logs :: "ScenLogEntry list"

definition JSONBytesFromStringValues :: "JSONBytesFromString list \<Rightarrow> bytes list" where
  "JSONBytesFromStringValues jbs = map jbs_Value jbs"

definition JSONBytesFromTreeValues :: "JSONBytesFromTree list \<Rightarrow> bytes list" where
  "JSONBytesFromTreeValues jbs = map jbt_Value jbs"

definition ResultEqual :: "JSONBytesFromString \<Rightarrow> bytes \<Rightarrow> bool" where
  "ResultEqual expected actual \<longleftrightarrow> jbs_Value expected = actual \<or> big_SetBytes (jbs_Value expected) = big_SetBytes actual"

section \<open>Scenarios and tests\<close>

datatype GasSchedule = GasScheduleDefault | GasScheduleDummy | GasScheduleV1 | GasScheduleV2 | GasScheduleV3 | UnknownGasSchedule

record ScenNewAddressMock =
  snm_CreatorAddress :: JSONBytesFromString
  snm_CreatorNonce :: JSONUint64
  snm_NewAddress :: JSONBytesFromString

record ScenBlockInfo =
  sbi_BlockTimestamp :: JSONUint64
  sbi_BlockNonce :: JSONUint64
  sbi_BlockRound :: JSONUint64
  sbi_BlockEpoch :: JSONUint64
  sbi_BlockRandomSeed :: "JSONBytesFromTree option"

record SetState =
  sst_Comment :: string
  sst_Accounts :: "ScenAccount list"
  sst_PreviousBlockInfo :: "ScenBlockInfo option"
  sst_CurrentBlockInfo :: "ScenBlockInfo option"
  sst_BlockHashes :: "JSONBytesFromString list"
  sst_NewAddressMocks :: "ScenNewAddressMock list"

text \<open>A file may leave out the accounts of a check and the transaction of a step; the pointers are nil then.\<close>

datatype Step =
    ExternalStepsStep string string
  | SetStateStep SetState
  | CheckStateStep string "CheckAccounts option"
  | DumpStateStep string
  | TxStep string string "Transaction option" "TransactionResult option"

definition tx_StepTypeName :: "TransactionType \<Rightarrow> string option" where
  "tx_StepTypeName tt =
     (case tt of ScCall \<Rightarrow> Some ''scCall'' | ScDeploy \<Rightarrow> Some ''scDeploy'' | ScQuery \<Rightarrow> Some ''scQuery''
      | Transfer_tx \<Rightarrow> Some ''transfer'' | ValidatorReward \<Rightarrow> Some ''validatorReward'' | UnknownType \<Rightarrow> None)"

definition StepTypeName :: "Step \<Rightarrow> string option" where
  "StepTypeName step =
     (case step of ExternalStepsStep _ _ \<Rightarrow> Some ''externalSteps'' | SetStateStep _ \<Rightarrow> Some ''setState''
      | CheckStateStep _ _ \<Rightarrow> Some ''checkState'' | DumpStateStep _ \<Rightarrow> Some ''dumpState''
      | TxStep _ _ None _ \<Rightarrow> None | TxStep _ _ (Some tx) _ \<Rightarrow> tx_StepTypeName (tx_Type tx))"

record Scenario =
  scn_Name :: string
  scn_Comment :: string
  scn_CheckGas :: bool
  scn_GasSchedule :: GasSchedule
  scn_Steps :: "Step list"

record BlockHeader =
  bh_Beneficiary :: JSONBigInt
  bh_Difficulty :: JSONBigInt
  bh_Number :: JSONBigInt
  bh_GasLimit :: JSONBigInt
  bh_Timestamp :: JSONUint64

record Block =
  blk_Results :: "TransactionResult list"
  blk_Transactions :: "Transaction list"
  blk_BlockHeader :: "BlockHeader option"

record Test =
  tst_TestName :: string
  tst_CheckGas :: bool
  tst_Pre :: "ScenAccount list"
  tst_Blocks :: "Block list"
  tst_Network :: string
  tst_BlockHashes :: "JSONBytesFromString list"
  tst_PostState :: "CheckAccounts option"

end
