(* ===== verification/ScenarioParse.thy ===== *)
theory ScenarioParse
  imports ScenarioModel ScenarioValues
begin

text \<open>
  The reader of scenario files (\<open>scenarios/json/parse\<close>): it turns an ordered JSON document into the data of
  \<open>ScenarioModel\<close>. A map is read pair by pair in the order of the file; every reader is a step function on the record
  under construction, folded over the pairs. A result is an error, a value or a panic (\<open>None\<close>). Texts of errors leave out the
  value they complain about. The interpreter of value expressions is the one of \<open>ScenarioValues\<close>; two's complement is
  another package and a field of the parser.
\<close>

section \<open>Results\<close>

record Parser =
  p_ExprInterpreter :: exprInterpreter
  p_twos_FromBytes :: "bytes \<Rightarrow> int"

definition NewParser :: "Parser \<Rightarrow> (string \<Rightarrow> go_error + bytes) option \<Rightarrow> Parser" where
  "NewParser packages fileResolver =
     packages\<lparr>p_ExprInterpreter := (p_ExprInterpreter packages)\<lparr>ei_FileResolver := fileResolver\<rparr>\<rparr>"

definition fail :: "string \<Rightarrow> 'a result" where
  "fail msg = Some (Inl (OtherError msg))"

definition ok :: "'a \<Rightarrow> 'a result" where
  "ok a = Some (Inr a)"

definition andThen :: "'a result \<Rightarrow> ('a \<Rightarrow> 'b result) \<Rightarrow> 'b result" where
  "andThen r f = (case r of None \<Rightarrow> None | Some (Inl err) \<Rightarrow> Some (Inl err) | Some (Inr a) \<Rightarrow> f a)"

text \<open>Wrapping an error, replacing it, and storing a value in a field.\<close>

definition wrapping :: "string \<Rightarrow> 'a result \<Rightarrow> 'a result" where
  "wrapping msg r = map_option (map_sum (Wrapf msg) id) r"

definition replacing :: "string \<Rightarrow> 'a result \<Rightarrow> 'a result" where
  "replacing msg r = map_option (map_sum (\<lambda>_. OtherError msg) id) r"

definition setting :: "'a result \<Rightarrow> ('a \<Rightarrow> 's) \<Rightarrow> 's result" where
  "setting r f = andThen r (\<lambda>a. ok (f a))"

fun fold_result :: "('a \<Rightarrow> 's \<Rightarrow> 's result) \<Rightarrow> 'a list \<Rightarrow> 's \<Rightarrow> 's result" where
  "fold_result f [] s = ok s"
| "fold_result f (x # xs) s = andThen (f x s) (fold_result f xs)"

fun map_result :: "('a \<Rightarrow> 'b result) \<Rightarrow> 'a list \<Rightarrow> 'b list result" where
  "map_result f [] = ok []"
| "map_result f (x # xs) = andThen (f x) (\<lambda>y. setting (map_result f xs) (\<lambda>ys. y # ys))"

type_synonym 's field_reader = "string \<times> OJsonObject option \<Rightarrow> 's \<Rightarrow> 's result"

definition as_map :: "string \<Rightarrow> OJsonObject option \<Rightarrow> (string \<times> OJsonObject option) list result" where
  "as_map msg obj = (case obj of Some (OJsonMap _ OrderedKV) \<Rightarrow> ok OrderedKV | _ \<Rightarrow> fail msg)"

definition as_list :: "string \<Rightarrow> OJsonObject option \<Rightarrow> OJsonObject list result" where
  "as_list msg obj = (case obj of Some (OJsonList items) \<Rightarrow> ok items | _ \<Rightarrow> fail msg)"

definition read_map :: "string \<Rightarrow> 's field_reader \<Rightarrow> 's \<Rightarrow> OJsonObject option \<Rightarrow> 's result" where
  "read_map msg step start obj = andThen (as_map msg obj) (\<lambda>OrderedKV. fold_result step OrderedKV start)"

definition read_list :: "string \<Rightarrow> (OJsonObject option \<Rightarrow> 'a result) \<Rightarrow> OJsonObject option \<Rightarrow> 'a list result" where
  "read_list msg read obj = andThen (as_list msg obj) (map_result (\<lambda>item. read (Some item)))"

section \<open>Values\<close>

datatype bigIntParseFormat = bigIntSignedBytes | bigIntUnsignedBytes

definition parseString :: "OJsonObject option \<Rightarrow> string result" where
  "parseString obj = (case obj of Some (OJsonString str) \<Rightarrow> ok str | _ \<Rightarrow> fail ''not a string value'')"

definition IsStar :: "OJsonObject option \<Rightarrow> bool" where
  "IsStar obj = (case obj of Some (OJsonString str) \<Rightarrow> str = ''*'' | _ \<Rightarrow> False)"

definition interpret_text :: "Parser \<Rightarrow> string \<Rightarrow> bytes result" where
  "interpret_text p str = InterpretString (p_ExprInterpreter p) str"

definition parseBigInt :: "Parser \<Rightarrow> string \<Rightarrow> bigIntParseFormat \<Rightarrow> int result" where
  "parseBigInt p strRaw format =
     setting (interpret_text p strRaw)
       (\<lambda>bs. case format of bigIntSignedBytes \<Rightarrow> p_twos_FromBytes p bs | bigIntUnsignedBytes \<Rightarrow> big_SetBytes bs)"

definition processBigInt :: "Parser \<Rightarrow> OJsonObject option \<Rightarrow> bigIntParseFormat \<Rightarrow> JSONBigInt result" where
  "processBigInt p obj format =
     andThen (parseString obj) (\<lambda>strVal.
     setting (parseBigInt p strVal format) (\<lambda>bi. \<lparr>jbi_Value = bi, jbi_Original = strVal\<rparr>))"

definition processCheckBigInt :: "Parser \<Rightarrow> OJsonObject option \<Rightarrow> bigIntParseFormat \<Rightarrow> JSONCheckBigInt result" where
  "processCheckBigInt p obj format =
     (if IsStar obj then ok \<lparr>jci_Value = 0, jci_IsStar = True, jci_Original = ''*'', jci_Unspecified = False\<rparr>
      else setting (processBigInt p obj format)
             (\<lambda>jbi. \<lparr>jci_Value = jbi_Value jbi, jci_IsStar = False, jci_Original = jbi_Original jbi, jci_Unspecified = False\<rparr>))"

definition processUint64 :: "Parser \<Rightarrow> OJsonObject option \<Rightarrow> JSONUint64 result" where
  "processUint64 p obj =
     andThen (processBigInt p obj bigIntUnsignedBytes) (\<lambda>bi.
     if 0 \<le> jbi_Value bi \<and> jbi_Value bi < 2 ^ 64 then ok \<lparr>ju_Value = of_int (jbi_Value bi), ju_Original = jbi_Original bi\<rparr>
     else fail ''value is not uint64'')"

definition processCheckUint64 :: "Parser \<Rightarrow> OJsonObject option \<Rightarrow> JSONCheckUint64 result" where
  "processCheckUint64 p obj =
     (if IsStar obj then ok \<lparr>jcu_Value = 0, jcu_IsStar = True, jcu_Original = ''*'', jcu_Unspecified = False\<rparr>
      else setting (processUint64 p obj)
             (\<lambda>ju. \<lparr>jcu_Value = ju_Value ju, jcu_IsStar = False, jcu_Original = ju_Original ju, jcu_Unspecified = False\<rparr>))"

definition processStringAsByteArray :: "Parser \<Rightarrow> OJsonObject option \<Rightarrow> JSONBytesFromString result" where
  "processStringAsByteArray p obj =
     andThen (parseString obj) (\<lambda>strVal.
     setting (interpret_text p strVal) (\<lambda>bs. NewJSONBytesFromString bs strVal))"

definition processSubTreeAsByteArray :: "Parser \<Rightarrow> OJsonObject option \<Rightarrow> JSONBytesFromTree result" where
  "processSubTreeAsByteArray p obj =
     setting (case obj of None \<Rightarrow> fail ''cannot interpret given JSON subtree as value''
              | Some tree \<Rightarrow> InterpretSubTree tree (p_ExprInterpreter p))
       (\<lambda>bs. \<lparr>jbt_Value = bs, jbt_Original = obj\<rparr>)"

definition parseCheckBytes :: "Parser \<Rightarrow> OJsonObject option \<Rightarrow> JSONCheckBytes result" where
  "parseCheckBytes p obj =
     (if IsStar obj then ok JSONCheckBytesStar
      else setting (processSubTreeAsByteArray p obj)
             (\<lambda>jb. \<lparr>jcb_Value = jbt_Value jb, jcb_IsStar = False, jcb_Original = jbt_Original jb, jcb_Unspecified = False\<rparr>))"

definition processStringList :: "OJsonObject option \<Rightarrow> string list result" where
  "processStringList obj = read_list ''not a JSON list'' parseString obj"

definition parseByteArrayList :: "Parser \<Rightarrow> OJsonObject option \<Rightarrow> JSONBytesFromString list result" where
  "parseByteArrayList p obj = read_list ''not a JSON list'' (processStringAsByteArray p) obj"

definition parseSubTreeList :: "Parser \<Rightarrow> OJsonObject option \<Rightarrow> JSONBytesFromTree list result" where
  "parseSubTreeList p obj = read_list ''not a JSON list'' (processSubTreeAsByteArray p) obj"

definition parseCheckBytesList :: "Parser \<Rightarrow> OJsonObject option \<Rightarrow> JSONCheckBytes list result" where
  "parseCheckBytesList p obj = read_list ''not a JSON list'' (parseCheckBytes p) obj"

definition parseAccountAddress :: "Parser \<Rightarrow> string \<Rightarrow> JSONBytesFromString result" where
  "parseAccountAddress p addrRaw =
     (if length addrRaw = 0 then fail ''missing account address''
      else andThen (interpret_text p addrRaw) (\<lambda>addrBytes.
        if length addrBytes \<noteq> 32 then fail ''account address is not 32 bytes in length''
        else ok (NewJSONBytesFromString addrBytes addrRaw)))"

section \<open>Tokens\<close>

definition ESDTInstance_zero :: ESDTInstance where
  "ESDTInstance_zero = \<lparr>ei_Nonce = JSONUint64Zero, ei_Balance = JSONBigIntZero, ei_Creator = NewJSONBytesFromString [] [],
     ei_Royalties = JSONUint64Zero, ei_Hash = NewJSONBytesFromString [] [], ei_Uri = JSONBytesFromTree_zero,
     ei_Attributes = NewJSONBytesFromString [] []\<rparr>"

text \<open>Whether the pair was a field of an instance, and the instance.\<close>

definition tryProcessESDTInstanceField :: "Parser \<Rightarrow> string \<times> OJsonObject option \<Rightarrow> ESDTInstance \<Rightarrow> (bool \<times> ESDTInstance) result" where
  "tryProcessESDTInstanceField p = (\<lambda>(key, val) target.
     if key = ''nonce'' then
       setting (wrapping ''invalid account nonce'' (processUint64 p val)) (\<lambda>v. (True, target\<lparr>ei_Nonce := v\<rparr>))
     else if key = ''balance'' then
       setting (wrapping ''invalid ESDT balance'' (processBigInt p val bigIntUnsignedBytes)) (\<lambda>v. (True, target\<lparr>ei_Balance := v\<rparr>))
     else if key = ''creator'' then
       andThen (wrapping ''invalid ESDT NFT creator address'' (processStringAsByteArray p val)) (\<lambda>v.
         if length (jbs_Value v) \<noteq> 32 then fail ''invalid ESDT NFT creator address'' else ok (True, target\<lparr>ei_Creator := v\<rparr>))
     else if key = ''royalties'' then
       andThen (wrapping ''invalid ESDT NFT royalties'' (processUint64 p val)) (\<lambda>v.
         if ju_Value v > 10000 then fail ''invalid ESDT NFT royalties'' else ok (True, target\<lparr>ei_Royalties := v\<rparr>))
     else if key = ''hash'' then
       setting (wrapping ''invalid ESDT NFT hash'' (processStringAsByteArray p val)) (\<lambda>v. (True, target\<lparr>ei_Hash := v\<rparr>))
     else if key = ''uri'' then
       setting (wrapping ''invalid ESDT NFT URI'' (processSubTreeAsByteArray p val)) (\<lambda>v. (True, target\<lparr>ei_Uri := v\<rparr>))
     else if key = ''attributes'' then
       setting (wrapping ''invalid ESDT NFT attributes'' (processStringAsByteArray p val)) (\<lambda>v. (True, target\<lparr>ei_Attributes := v\<rparr>))
     else ok (False, target))"

definition listed_instance_field :: "('i \<Rightarrow> (bool \<times> 'i) result) \<Rightarrow> 'i \<Rightarrow> 'i result" where
  "listed_instance_field try inst =
     andThen (wrapping ''invalid account ESDT instance field in instances list'' (try inst)) (\<lambda>(instanceFieldLoaded, inst).
       if instanceFieldLoaded then ok inst else fail ''invalid account ESDT instance field in instances list'')"

definition processESDTInstances :: "Parser \<Rightarrow> OJsonObject option \<Rightarrow> ESDTInstance list result" where
  "processESDTInstances p obj =
     read_list ''esdt instances object is not a list''
       (read_map ''JSON map expected as esdt instances list item''
          (\<lambda>kvp. listed_instance_field (tryProcessESDTInstanceField p kvp)) ESDTInstance_zero) obj"

text \<open>The token, the instance given directly, whether there is one, and the instances of the list.\<close>

definition esdt_data_field ::
  "Parser \<Rightarrow> (ESDTData \<times> ESDTInstance \<times> bool \<times> ESDTInstance list) field_reader" where
  "esdt_data_field p = (\<lambda>(key, val) (esdtData, firstInstance, firstInstanceLoaded, explicitInstances).
     andThen (wrapping ''invalid account ESDT instance field'' (tryProcessESDTInstanceField p (key, val) firstInstance))
       (\<lambda>(instanceFieldLoaded, firstInstance).
          if instanceFieldLoaded then ok (esdtData, firstInstance, True, explicitInstances)
          else if key = ''instances'' then
            setting (wrapping ''invalid account ESDT instances'' (processESDTInstances p val))
              (\<lambda>v. (esdtData, firstInstance, firstInstanceLoaded, v))
          else if key = ''lastNonce'' then
            setting (wrapping ''invalid account ESDT lastNonce'' (processUint64 p val))
              (\<lambda>v. (esdtData\<lparr>ed_LastNonce := v\<rparr>, firstInstance, firstInstanceLoaded, explicitInstances))
          else if key = ''roles'' then
            setting (wrapping ''invalid account ESDT roles'' (processStringList val))
              (\<lambda>v. (esdtData\<lparr>ed_Roles := v\<rparr>, firstInstance, firstInstanceLoaded, explicitInstances))
          else if key = ''frozen'' then
            setting (wrapping ''invalid ESDT frozen flag'' (processUint64 p val))
              (\<lambda>v. (esdtData\<lparr>ed_Frozen := v\<rparr>, firstInstance, firstInstanceLoaded, explicitInstances))
          else fail ''unknown ESDT data field''))"

definition ESDTData_zero :: "JSONBytesFromString \<Rightarrow> ESDTData" where
  "ESDTData_zero tokenName = \<lparr>ed_TokenIdentifier = tokenName, ed_Instances = [], ed_LastNonce = JSONUint64Zero, ed_Roles = [],
     ed_Frozen = JSONUint64Zero\<rparr>"

definition processESDTDataMap :: "Parser \<Rightarrow> JSONBytesFromString \<Rightarrow> (string \<times> OJsonObject option) list \<Rightarrow> ESDTData result" where
  "processESDTDataMap p tokenName OrderedKV =
     setting (fold_result (esdt_data_field p) OrderedKV (ESDTData_zero tokenName, ESDTInstance_zero, False, []))
       (\<lambda>(esdtData, firstInstance, firstInstanceLoaded, explicitInstances).
          esdtData\<lparr>ed_Instances := (if firstInstanceLoaded then [firstInstance] else []) @ explicitInstances\<rparr>)"

definition processESDTData :: "Parser \<Rightarrow> JSONBytesFromString \<Rightarrow> OJsonObject option \<Rightarrow> ESDTData result" where
  "processESDTData p tokenName esdtDataRaw =
     (case esdtDataRaw of
        Some (OJsonString _) \<Rightarrow>
          setting (wrapping ''invalid ESDT balance'' (processBigInt p esdtDataRaw bigIntUnsignedBytes))
            (\<lambda>balance. (ESDTData_zero tokenName)\<lparr>ed_Instances := [ESDTInstance_zero\<lparr>ei_Balance := balance\<rparr>]\<rparr>)
      | Some (OJsonMap _ OrderedKV) \<Rightarrow> processESDTDataMap p tokenName OrderedKV
      | _ \<Rightarrow> fail ''invalid JSON object for ESDT'')"

definition tryProcessCheckESDTInstanceField ::
  "Parser \<Rightarrow> string \<times> OJsonObject option \<Rightarrow> CheckESDTInstance \<Rightarrow> (bool \<times> CheckESDTInstance) result" where
  "tryProcessCheckESDTInstanceField p = (\<lambda>(key, val) target.
     if key = ''nonce'' then
       setting (wrapping ''invalid account nonce'' (processCheckUint64 p val)) (\<lambda>v. (True, target\<lparr>cei_Nonce := v\<rparr>))
     else if key = ''balance'' then
       setting (wrapping ''invalid ESDT balance'' (processCheckBigInt p val bigIntUnsignedBytes)) (\<lambda>v. (True, target\<lparr>cei_Balance := v\<rparr>))
     else if key = ''creator'' then
       setting (wrapping ''invalid ESDT NFT creator address'' (parseCheckBytes p val)) (\<lambda>v. (True, target\<lparr>cei_Creator := v\<rparr>))
     else if key = ''royalties'' then
       andThen (wrapping ''invalid ESDT NFT royalties'' (processCheckUint64 p val)) (\<lambda>v.
         if jcu_Value v > 10000 then fail ''invalid ESDT NFT royalties: value exceeds maximum allowed 10000''
         else ok (True, target\<lparr>cei_Royalties := v\<rparr>))
     else if key = ''hash'' then
       setting (wrapping ''invalid ESDT NFT hash'' (parseCheckBytes p val)) (\<lambda>v. (True, target\<lparr>cei_Hash := v\<rparr>))
     else if key = ''uri'' then
       setting (wrapping ''invalid ESDT NFT URI'' (parseCheckBytes p val)) (\<lambda>v. (True, target\<lparr>cei_Uri := v\<rparr>))
     else if key = ''attributes'' then
       setting (wrapping ''invalid ESDT NFT attributes'' (parseCheckBytes p val)) (\<lambda>v. (True, target\<lparr>cei_Attributes := v\<rparr>))
     else ok (False, target))"

definition processCheckESDTInstances :: "Parser \<Rightarrow> OJsonObject option \<Rightarrow> CheckESDTInstance list result" where
  "processCheckESDTInstances p obj =
     read_list ''esdt instances object is not a list''
       (read_map ''JSON map expected as esdt instances list item''
          (\<lambda>kvp. listed_instance_field (tryProcessCheckESDTInstanceField p kvp)) NewCheckESDTInstance) obj"

definition check_esdt_data_field ::
  "Parser \<Rightarrow> (CheckESDTData \<times> CheckESDTInstance \<times> bool \<times> CheckESDTInstance list) field_reader" where
  "check_esdt_data_field p = (\<lambda>(key, val) (esdtData, firstInstance, firstInstanceLoaded, explicitInstances).
     andThen (wrapping ''invalid account ESDT instance field'' (tryProcessCheckESDTInstanceField p (key, val) firstInstance))
       (\<lambda>(instanceFieldLoaded, firstInstance).
          if instanceFieldLoaded then ok (esdtData, firstInstance, True, explicitInstances)
          else if key = ''instances'' then
            setting (wrapping ''invalid account ESDT instances'' (processCheckESDTInstances p val))
              (\<lambda>v. (esdtData, firstInstance, firstInstanceLoaded, v))
          else if key = ''lastNonce'' then
            setting (wrapping ''invalid account ESDT lastNonce'' (processCheckUint64 p val))
              (\<lambda>v. (esdtData\<lparr>ced_LastNonce := v\<rparr>, firstInstance, firstInstanceLoaded, explicitInstances))
          else if key = ''roles'' then
            setting (wrapping ''invalid account ESDT roles'' (processStringList val))
              (\<lambda>v. (esdtData\<lparr>ced_Roles := v\<rparr>, firstInstance, firstInstanceLoaded, explicitInstances))
          else if key = ''frozen'' then
            setting (wrapping ''invalid ESDT frozen flag'' (processCheckUint64 p val))
              (\<lambda>v. (esdtData\<lparr>ced_Frozen := v\<rparr>, firstInstance, firstInstanceLoaded, explicitInstances))
          else fail ''unknown ESDT data field''))"

definition CheckESDTData_zero :: "JSONBytesFromString \<Rightarrow> CheckESDTData" where
  "CheckESDTData_zero tokenName = \<lparr>ced_TokenIdentifier = tokenName, ced_Instances = [], ced_LastNonce = JSONCheckUint64_zero, ced_Roles = [],
     ced_Frozen = JSONCheckUint64_zero\<rparr>"

definition processCheckESDTDataMap :: "Parser \<Rightarrow> JSONBytesFromString \<Rightarrow> (string \<times> OJsonObject option) list \<Rightarrow> CheckESDTData result" where
  "processCheckESDTDataMap p tokenName OrderedKV =
     setting (fold_result (check_esdt_data_field p) OrderedKV (CheckESDTData_zero tokenName, NewCheckESDTInstance, False, []))
       (\<lambda>(esdtData, firstInstance, firstInstanceLoaded, explicitInstances).
          esdtData\<lparr>ced_Instances := (if firstInstanceLoaded then [firstInstance] else []) @ explicitInstances\<rparr>)"

text \<open>The short form checks for a zero nonce and for empty data, since the other fields have their zero values.\<close>

definition processCheckESDTData :: "Parser \<Rightarrow> JSONBytesFromString \<Rightarrow> OJsonObject option \<Rightarrow> CheckESDTData result" where
  "processCheckESDTData p tokenName esdtDataRaw =
     (case esdtDataRaw of
        Some (OJsonString _) \<Rightarrow>
          setting (wrapping ''invalid ESDT balance'' (processCheckBigInt p esdtDataRaw bigIntUnsignedBytes))
            (\<lambda>balance. (CheckESDTData_zero tokenName)\<lparr>ced_Instances :=
               [\<lparr>cei_Nonce = JSONCheckUint64_zero, cei_Balance = balance, cei_Creator = JSONCheckBytes_zero,
                 cei_Royalties = JSONCheckUint64_zero, cei_Hash = JSONCheckBytes_zero, cei_Uri = JSONCheckBytes_zero,
                 cei_Attributes = JSONCheckBytes_zero\<rparr>]\<rparr>)
      | Some (OJsonMap _ OrderedKV) \<Rightarrow> processCheckESDTDataMap p tokenName OrderedKV
      | _ \<Rightarrow> fail ''invalid JSON object for ESDT'')"

definition tx_esdt_field :: "Parser \<Rightarrow> ESDTTxData field_reader" where
  "tx_esdt_field p = (\<lambda>(key, val) esdtData.
     if key = ''tokenIdentifier'' then
       setting (wrapping ''invalid ESDT token name'' (processStringAsByteArray p val)) (\<lambda>v. esdtData\<lparr>etd_TokenIdentifier := v\<rparr>)
     else if key = ''nonce'' then
       setting (replacing ''invalid account nonce'' (processUint64 p val)) (\<lambda>v. esdtData\<lparr>etd_Nonce := v\<rparr>)
     else if key = ''value'' then
       setting (wrapping ''invalid ESDT balance'' (processBigInt p val bigIntUnsignedBytes)) (\<lambda>v. esdtData\<lparr>etd_Value := v\<rparr>)
     else fail ''unknown transaction ESDT data field'')"

definition ESDTTxData_zero :: ESDTTxData where
  "ESDTTxData_zero = \<lparr>etd_TokenIdentifier = NewJSONBytesFromString [] [], etd_Nonce = JSONUint64Zero, etd_Value = JSONBigIntZero\<rparr>"

definition processTxESDT :: "Parser \<Rightarrow> OJsonObject option \<Rightarrow> ESDTTxData result" where
  "processTxESDT p obj = read_map ''unmarshalled account object is not a map'' (tx_esdt_field p) ESDTTxData_zero obj"

section \<open>Accounts\<close>

definition ScenAccount_zero :: ScenAccount where
  "ScenAccount_zero = \<lparr>sac_Address = NewJSONBytesFromString [] [], sac_Shard = JSONUint64Zero, sac_IsSmartContract = False,
     sac_Comment = [], sac_Nonce = JSONUint64Zero, sac_Balance = JSONBigIntZero, sac_Username = NewJSONBytesFromString [] [],
     sac_Storage = [], sac_Code = NewJSONBytesFromString [] [], sac_Owner = NewJSONBytesFromString [] [],
     sac_AsyncCallData = [], sac_ESDTData = []\<rparr>"

definition account_esdt_field :: "Parser \<Rightarrow> ScenAccount field_reader" where
  "account_esdt_field p = (\<lambda>(key, val) acct.
     andThen (wrapping ''invalid esdt token identifer'' (interpret_text p key)) (\<lambda>tokenNameStr.
     setting (wrapping ''invalid esdt value'' (processESDTData p (NewJSONBytesFromString tokenNameStr key) val))
       (\<lambda>esdtItem. acct\<lparr>sac_ESDTData := sac_ESDTData acct @ [esdtItem]\<rparr>)))"

definition account_storage_field :: "Parser \<Rightarrow> ScenAccount field_reader" where
  "account_storage_field p = (\<lambda>(key, val) acct.
     andThen (wrapping ''invalid account storage key'' (interpret_text p key)) (\<lambda>byteKey.
     setting (wrapping ''invalid account storage value'' (processSubTreeAsByteArray p val))
       (\<lambda>byteVal. acct\<lparr>sac_Storage := sac_Storage acct @ [\<lparr>skv_Key = NewJSONBytesFromString byteKey key, skv_Value = byteVal\<rparr>]\<rparr>)))"

definition account_field :: "Parser \<Rightarrow> ScenAccount field_reader" where
  "account_field p = (\<lambda>(key, val) acct.
     if key = ''comment'' then
       setting (wrapping ''invalid account comment'' (parseString val)) (\<lambda>v. acct\<lparr>sac_Comment := v\<rparr>)
     else if key = ''shard'' then
       setting (wrapping ''invalid shard number'' (processUint64 p val)) (\<lambda>v. acct\<lparr>sac_Shard := v\<rparr>)
     else if key = ''nonce'' then
       setting (replacing ''invalid account nonce'' (processUint64 p val)) (\<lambda>v. acct\<lparr>sac_Nonce := v\<rparr>)
     else if key = ''balance'' then
       setting (replacing ''invalid account balance'' (processBigInt p val bigIntUnsignedBytes)) (\<lambda>v. acct\<lparr>sac_Balance := v\<rparr>)
     else if key = ''esdt'' then read_map ''invalid ESDT map'' (account_esdt_field p) acct val
     else if key = ''username'' then
       setting (wrapping ''invalid account username'' (processStringAsByteArray p val)) (\<lambda>v. acct\<lparr>sac_Username := v\<rparr>)
     else if key = ''storage'' then read_map ''invalid account storage'' (account_storage_field p) acct val
     else if key = ''code'' then
       setting (wrapping ''invalid account code'' (processStringAsByteArray p val)) (\<lambda>v. acct\<lparr>sac_Code := v\<rparr>)
     else if key = ''owner'' then
       setting (wrapping ''invalid account owner'' (processStringAsByteArray p val)) (\<lambda>v. acct\<lparr>sac_Owner := v\<rparr>)
     else if key = ''asyncCallData'' then
       setting (wrapping ''invalid asyncCallData string'' (parseString val)) (\<lambda>v. acct\<lparr>sac_AsyncCallData := v\<rparr>)
     else fail ''unknown account field'')"

definition processAccount :: "Parser \<Rightarrow> OJsonObject option \<Rightarrow> ScenAccount result" where
  "processAccount p acctRaw = read_map ''unmarshalled account object is not a map'' (account_field p) ScenAccount_zero acctRaw"

definition account_entry :: "Parser \<Rightarrow> ScenAccount list field_reader" where
  "account_entry p = (\<lambda>(key, val) accounts.
     andThen (processAccount p val) (\<lambda>acct.
     setting (parseAccountAddress p key) (\<lambda>acctAddr. accounts @ [acct\<lparr>sac_Address := acctAddr\<rparr>])))"

definition processAccountMap :: "Parser \<Rightarrow> OJsonObject option \<Rightarrow> ScenAccount list result" where
  "processAccountMap p acctMapRaw = read_map ''unmarshalled account map object is not a map'' (account_entry p) [] acctMapRaw"

definition CheckAccount_zero :: CheckAccount where
  "CheckAccount_zero = \<lparr>ca_Address = NewJSONBytesFromString [] [], ca_Comment = [], ca_Nonce = JSONCheckUint64Unspecified,
     ca_Balance = JSONCheckBigIntUnspecified, ca_Username = JSONCheckBytesUnspecified, ca_CheckStorage = [], ca_IgnoreStorage = False,
     ca_MoreStorageAllowed = False, ca_Code = JSONCheckBytesUnspecified, ca_Owner = JSONCheckBytesUnspecified,
     ca_AsyncCallData = JSONCheckBytesUnspecified, ca_CheckESDTData = [], ca_IgnoreESDT = False, ca_MoreESDTTokensAllowed = False\<rparr>"

definition check_esdt_field :: "Parser \<Rightarrow> CheckAccount field_reader" where
  "check_esdt_field p = (\<lambda>(key, val) acct.
     if key = ''+'' then ok (acct\<lparr>ca_MoreESDTTokensAllowed := True\<rparr>)
     else
       andThen (wrapping ''invalid esdt token identifer'' (interpret_text p key)) (\<lambda>tokenNameStr.
       setting (wrapping ''invalid esdt value'' (processCheckESDTData p (NewJSONBytesFromString tokenNameStr key) val))
         (\<lambda>esdtItem. acct\<lparr>ca_CheckESDTData := ca_CheckESDTData acct @ [esdtItem]\<rparr>)))"

definition check_storage_field :: "Parser \<Rightarrow> CheckAccount field_reader" where
  "check_storage_field p = (\<lambda>(key, val) acct.
     if key = ''+'' then ok (acct\<lparr>ca_MoreStorageAllowed := True\<rparr>)
     else
       andThen (wrapping ''invalid account storage key'' (interpret_text p key)) (\<lambda>byteKey.
       setting (wrapping ''invalid account storage value'' (parseCheckBytes p val))
         (\<lambda>byteVal. acct\<lparr>ca_CheckStorage := ca_CheckStorage acct @ [\<lparr>cskv_Key = NewJSONBytesFromString byteKey key, cskv_CheckValue = byteVal\<rparr>]\<rparr>)))"

definition check_account_field :: "Parser \<Rightarrow> CheckAccount field_reader" where
  "check_account_field p = (\<lambda>(key, val) acct.
     if key = ''comment'' then
       setting (wrapping ''invalid check account comment'' (parseString val)) (\<lambda>v. acct\<lparr>ca_Comment := v\<rparr>)
     else if key = ''nonce'' then
       setting (replacing ''invalid account nonce'' (processCheckUint64 p val)) (\<lambda>v. acct\<lparr>ca_Nonce := v\<rparr>)
     else if key = ''balance'' then
       setting (replacing ''invalid account balance'' (processCheckBigInt p val bigIntUnsignedBytes)) (\<lambda>v. acct\<lparr>ca_Balance := v\<rparr>)
     else if key = ''esdt'' then
       (let acct = acct\<lparr>ca_IgnoreESDT := IsStar val\<rparr>
        in if ca_IgnoreESDT acct then ok acct else read_map ''invalid ESDT map'' (check_esdt_field p) acct val)
     else if key = ''username'' then
       setting (wrapping ''invalid account username'' (parseCheckBytes p val)) (\<lambda>v. acct\<lparr>ca_Username := v\<rparr>)
     else if key = ''storage'' then
       (let acct = acct\<lparr>ca_IgnoreStorage := IsStar val\<rparr>
        in if ca_IgnoreStorage acct then ok acct else read_map ''invalid account storage'' (check_storage_field p) acct val)
     else if key = ''code'' then
       setting (wrapping ''invalid account code'' (parseCheckBytes p val)) (\<lambda>v. acct\<lparr>ca_Code := v\<rparr>)
     else if key = ''owner'' then
       setting (wrapping ''invalid account owner'' (parseCheckBytes p val)) (\<lambda>v. acct\<lparr>ca_Owner := v\<rparr>)
     else if key = ''asyncCallData'' then
       setting (wrapping ''invalid asyncCallData'' (parseCheckBytes p val)) (\<lambda>v. acct\<lparr>ca_AsyncCallData := v\<rparr>)
     else fail ''unknown account field'')"

definition processCheckAccount :: "Parser \<Rightarrow> OJsonObject option \<Rightarrow> CheckAccount result" where
  "processCheckAccount p acctRaw =
     read_map ''unmarshalled account object is not a map'' (check_account_field p) CheckAccount_zero acctRaw"

definition check_account_entry :: "Parser \<Rightarrow> CheckAccounts field_reader" where
  "check_account_entry p = (\<lambda>(key, val) checkAccounts.
     if key = ''+'' then ok (checkAccounts\<lparr>cas_MoreAccountsAllowed := True\<rparr>)
     else
       andThen (processCheckAccount p val) (\<lambda>acct.
       setting (parseAccountAddress p key)
         (\<lambda>acctAddr. checkAccounts\<lparr>cas_Accounts := cas_Accounts checkAccounts @ [acct\<lparr>ca_Address := acctAddr\<rparr>]\<rparr>)))"

definition processCheckAccountMap :: "Parser \<Rightarrow> OJsonObject option \<Rightarrow> CheckAccounts result" where
  "processCheckAccountMap p acctMapRaw =
     read_map ''unmarshalled check account map object is not a map'' (check_account_entry p)
       \<lparr>cas_Accounts = [], cas_MoreAccountsAllowed = False\<rparr> acctMapRaw"

section \<open>Transactions\<close>

definition Transaction_zero :: "TransactionType \<Rightarrow> Transaction" where
  "Transaction_zero txType = \<lparr>tx_Type = txType, tx_Nonce = JSONUint64Zero, tx_Value = JSONBigIntZero, tx_ESDTValue = None,
     tx_From = NewJSONBytesFromString [] [], tx_To = NewJSONBytesFromString [] [], tx_Function = [],
     tx_Code = NewJSONBytesFromString [] [], tx_Arguments = [], tx_GasPrice = JSONUint64Zero, tx_GasLimit = JSONUint64Zero\<rparr>"

definition tx_field :: "Parser \<Rightarrow> TransactionType \<Rightarrow> Transaction field_reader" where
  "tx_field p txType = (\<lambda>(key, val) blt.
     if key = ''nonce'' then
       setting (wrapping ''invalid transaction nonce'' (processUint64 p val)) (\<lambda>v. blt\<lparr>tx_Nonce := v\<rparr>)
     else if key = ''from'' then
       (if \<not> HasSender txType then fail ''`from` not allowed in transaction, it is always the zero address''
        else andThen (wrapping ''invalid transaction from'' (parseString val)) (\<lambda>fromStr.
               setting (parseAccountAddress p fromStr) (\<lambda>v. blt\<lparr>tx_From := v\<rparr>)))
     else if key = ''to'' then
       andThen (wrapping ''invalid transaction to'' (parseString val)) (\<lambda>toStr.
         if txType = ScDeploy then
           (if length toStr > 0 then fail ''transaction to field not allowed for scDeploy transactions'' else ok blt)
         else setting (parseAccountAddress p toStr) (\<lambda>v. blt\<lparr>tx_To := v\<rparr>))
     else if key = ''function'' then
       andThen (wrapping ''invalid transaction function'' (parseString val)) (\<lambda>v.
         if \<not> HasFunction txType \<and> length v > 0 then fail ''transaction function field not allowed in this context''
         else ok (blt\<lparr>tx_Function := v\<rparr>))
     else if key = ''value'' then
       (if \<not> HasValue txType then fail ''`value` not allowed in this context''
        else setting (wrapping ''invalid transaction value'' (processBigInt p val bigIntUnsignedBytes)) (\<lambda>v. blt\<lparr>tx_Value := v\<rparr>))
     else if key = ''esdt'' then
       (if \<not> HasESDT txType then fail ''`esdt` not allowed in this context''
        else setting (wrapping ''invalid transaction ESDT value'' (processTxESDT p val)) (\<lambda>v. blt\<lparr>tx_ESDTValue := Some v\<rparr>))
     else if key = ''arguments'' then
       andThen (wrapping ''invalid transaction arguments'' (parseSubTreeList p val)) (\<lambda>v.
         if txType = Transfer_tx \<and> length v > 0 then fail ''function arguments not allowed for transfer transactions''
         else ok (blt\<lparr>tx_Arguments := v\<rparr>))
     else if key = ''contractCode'' then
       andThen (wrapping ''invalid transaction contract code'' (processStringAsByteArray p val)) (\<lambda>v.
         if txType \<noteq> ScDeploy \<and> length (jbs_Value v) > 0
         then fail ''transaction contractCode field only allowed int scDeploy transactions''
         else ok (blt\<lparr>tx_Code := v\<rparr>))
     else if key = ''gasPrice'' then
       (if \<not> HasGas txType then fail ''`gasPrice` not allowed in this context''
        else setting (wrapping ''invalid transaction gasPrice'' (processUint64 p val)) (\<lambda>v. blt\<lparr>tx_GasPrice := v\<rparr>))
     else if key = ''gasLimit'' then
       (if \<not> HasGas txType then fail ''`gasLimit` not allowed in this context''
        else setting (wrapping ''invalid transaction gasLimit'' (processUint64 p val)) (\<lambda>v. blt\<lparr>tx_GasLimit := v\<rparr>))
     else fail ''unknown field in transaction'')"

definition processTx :: "Parser \<Rightarrow> TransactionType \<Rightarrow> OJsonObject option \<Rightarrow> Transaction result" where
  "processTx p txType blrRaw =
     read_map ''unmarshalled transaction is not a map'' (tx_field p txType) (Transaction_zero txType) blrRaw"

definition ScenLogEntry_zero :: ScenLogEntry where
  "ScenLogEntry_zero = \<lparr>sle_Address = JSONCheckBytes_zero, sle_Identifier = JSONCheckBytes_zero, sle_Topics = [], sle_Data = JSONCheckBytes_zero\<rparr>"

definition log_field :: "Parser \<Rightarrow> ScenLogEntry field_reader" where
  "log_field p = (\<lambda>(key, val) logEntry.
     if key = ''address'' then
       setting (wrapping ''invalid log address'' (parseCheckBytes p val)) (\<lambda>v. logEntry\<lparr>sle_Address := v\<rparr>)
     else if key = ''identifier'' then
       setting (wrapping ''invalid log identifier'' (parseCheckBytes p val)) (\<lambda>v. logEntry\<lparr>sle_Identifier := v\<rparr>)
     else if key = ''topics'' then
       setting (wrapping ''invalid log entry topics'' (parseCheckBytesList p val)) (\<lambda>v. logEntry\<lparr>sle_Topics := v\<rparr>)
     else if key = ''data'' then
       setting (wrapping ''invalid log data'' (parseCheckBytes p val)) (\<lambda>v. logEntry\<lparr>sle_Data := v\<rparr>)
     else fail ''unknown log field'')"

definition processLogList :: "Parser \<Rightarrow> OJsonObject option \<Rightarrow> ScenLogEntry list result" where
  "processLogList p logsRaw =
     read_list ''unmarshalled logs list is not a list''
       (read_map ''unmarshalled log entry is not a map'' (log_field p) ScenLogEntry_zero) logsRaw"

definition TransactionResult_zero :: TransactionResult where
  "TransactionResult_zero = \<lparr>tr_Out = [], tr_Status = JSONCheckBigIntUnspecified, tr_Message = JSONCheckBytesUnspecified,
     tr_Gas = JSONCheckUint64Unspecified, tr_Refund = JSONCheckBigIntUnspecified, tr_LogsStar = True, tr_LogsUnspecified = True,
     tr_LogHash = [], tr_Logs = []\<rparr>"

definition result_field :: "Parser \<Rightarrow> TransactionResult field_reader" where
  "result_field p = (\<lambda>(key, val) blr.
     if key = ''out'' then
       setting (wrapping ''invalid block result out'' (parseCheckBytesList p val)) (\<lambda>v. blr\<lparr>tr_Out := v\<rparr>)
     else if key = ''status'' then
       setting (wrapping ''invalid block result status'' (processCheckBigInt p val bigIntSignedBytes)) (\<lambda>v. blr\<lparr>tr_Status := v\<rparr>)
     else if key = ''message'' then
       setting (wrapping ''invalid block result message'' (parseCheckBytes p val)) (\<lambda>v. blr\<lparr>tr_Message := v\<rparr>)
     else if key = ''logs'' then
       (let blr = blr\<lparr>tr_LogsUnspecified := False\<rparr>
        in if IsStar val then ok (blr\<lparr>tr_LogsStar := True\<rparr>)
           else
             let blr = blr\<lparr>tr_LogsStar := False\<rparr>
             in case parseString val of
                  Some (Inr LogHash) \<Rightarrow> ok (blr\<lparr>tr_LogHash := LogHash\<rparr>)
                | _ \<Rightarrow> setting (processLogList p val) (\<lambda>v. blr\<lparr>tr_LogHash := [], tr_Logs := v\<rparr>))
     else if key = ''gas'' then
       setting (wrapping ''invalid block result gas'' (processCheckUint64 p val)) (\<lambda>v. blr\<lparr>tr_Gas := v\<rparr>)
     else if key = ''refund'' then
       setting (wrapping ''invalid block result refund'' (processCheckBigInt p val bigIntUnsignedBytes)) (\<lambda>v. blr\<lparr>tr_Refund := v\<rparr>)
     else fail ''unknown tx result field'')"

definition processTxExpectedResult :: "Parser \<Rightarrow> OJsonObject option \<Rightarrow> TransactionResult result" where
  "processTxExpectedResult p blrRaw =
     read_map ''unmarshalled block result is not a map'' (result_field p) TransactionResult_zero blrRaw"

section \<open>Blocks and new addresses\<close>

definition ScenBlockInfo_zero :: ScenBlockInfo where
  "ScenBlockInfo_zero = \<lparr>sbi_BlockTimestamp = JSONUint64Zero, sbi_BlockNonce = JSONUint64Zero, sbi_BlockRound = JSONUint64Zero,
     sbi_BlockEpoch = JSONUint64Zero, sbi_BlockRandomSeed = None\<rparr>"

definition block_info_field :: "Parser \<Rightarrow> ScenBlockInfo field_reader" where
  "block_info_field p = (\<lambda>(key, val) blockInfo.
     if key = ''blockTimestamp'' then
       setting (wrapping ''error parsing blockTimestamp'' (processUint64 p val)) (\<lambda>v. blockInfo\<lparr>sbi_BlockTimestamp := v\<rparr>)
     else if key = ''blockNonce'' then
       setting (wrapping ''error parsing blockNonce'' (processUint64 p val)) (\<lambda>v. blockInfo\<lparr>sbi_BlockNonce := v\<rparr>)
     else if key = ''blockRound'' then
       setting (wrapping ''error parsing blockRound'' (processUint64 p val)) (\<lambda>v. blockInfo\<lparr>sbi_BlockRound := v\<rparr>)
     else if key = ''blockEpoch'' then
       setting (wrapping ''error parsing blockEpoch'' (processUint64 p val)) (\<lambda>v. blockInfo\<lparr>sbi_BlockEpoch := v\<rparr>)
     else if key = ''blockRandomSeed'' then
       andThen (wrapping ''error parsing blockEpoch'' (processSubTreeAsByteArray p val)) (\<lambda>v.
         if length (jbt_Value v) \<noteq> 48 then fail ''blockRandomSeed must be 48 bytes long.''
         else ok (blockInfo\<lparr>sbi_BlockRandomSeed := Some v\<rparr>))
     else fail ''unknown block info field'')"

definition processBlockInfo :: "Parser \<Rightarrow> OJsonObject option \<Rightarrow> ScenBlockInfo result" where
  "processBlockInfo p blockInfoRaw =
     read_map ''unmarshalled block info object is not a map'' (block_info_field p) ScenBlockInfo_zero blockInfoRaw"

definition ScenNewAddressMock_zero :: ScenNewAddressMock where
  "ScenNewAddressMock_zero = \<lparr>snm_CreatorAddress = NewJSONBytesFromString [] [], snm_CreatorNonce = JSONUint64Zero,
     snm_NewAddress = NewJSONBytesFromString [] []\<rparr>"

definition new_address_field :: "Parser \<Rightarrow> ScenNewAddressMock field_reader" where
  "new_address_field p = (\<lambda>(key, val) namEntry.
     if key = ''creatorAddress'' then
       andThen (wrapping ''creatorAddress is not a json string'' (parseString val)) (\<lambda>caStr.
         setting (parseAccountAddress p caStr) (\<lambda>v. namEntry\<lparr>snm_CreatorAddress := v\<rparr>))
     else if key = ''creatorNonce'' then
       setting (replacing ''invalid creatorNonce'' (processUint64 p val)) (\<lambda>v. namEntry\<lparr>snm_CreatorNonce := v\<rparr>)
     else if key = ''newAddress'' then
       andThen (wrapping ''newAddress is not a json string'' (parseString val)) (\<lambda>naStr.
         setting (parseAccountAddress p naStr) (\<lambda>v. namEntry\<lparr>snm_NewAddress := v\<rparr>))
     else fail ''unknown nam field'')"

definition processNewAddressMocks :: "Parser \<Rightarrow> OJsonObject option \<Rightarrow> ScenNewAddressMock list result" where
  "processNewAddressMocks p namsRaw =
     read_list ''newAddresses list is not a list''
       (read_map ''new address mock entry is not a map'' (new_address_field p) ScenNewAddressMock_zero) namsRaw"

section \<open>Scenarios\<close>

definition parseGasSchedule :: "OJsonObject option \<Rightarrow> GasSchedule result" where
  "parseGasSchedule val =
     andThen (wrapping ''gasSchedule type not a string'' (parseString val)) (\<lambda>gasScheduleStr.
       if gasScheduleStr = ''default'' then ok GasScheduleDefault
       else if gasScheduleStr = ''dummy'' then ok GasScheduleDummy
       else if gasScheduleStr = ''v1'' then ok GasScheduleV1
       else if gasScheduleStr = ''v2'' then ok GasScheduleV2
       else if gasScheduleStr = ''v3'' then ok GasScheduleV3
       else fail ''invalid gasSchedule'')"

text \<open>
  One step of each kind. The steps are pairs or tuples of their fields while they are read. A transaction step
  looks at the type of its transaction when it meets the expected result, which is a panic if the
  transaction comes later in the file.
\<close>

definition external_field :: "(string \<times> string) field_reader" where
  "external_field = (\<lambda>(key, val) (Comment, Path).
     if key = ''step'' then ok (Comment, Path)
     else if key = ''comment'' then setting (wrapping ''bad externalSteps step comment'' (parseString val)) (\<lambda>v. (v, Path))
     else if key = ''path'' then setting (wrapping ''bad externalSteps path'' (parseString val)) (\<lambda>v. (Comment, v))
     else fail ''invalid externalSteps field'')"

definition SetState_zero :: SetState where
  "SetState_zero = \<lparr>sst_Comment = [], sst_Accounts = [], sst_PreviousBlockInfo = None, sst_CurrentBlockInfo = None,
     sst_BlockHashes = [], sst_NewAddressMocks = []\<rparr>"

definition set_state_field :: "Parser \<Rightarrow> SetState field_reader" where
  "set_state_field p = (\<lambda>(key, val) step.
     if key = ''step'' then ok step
     else if key = ''comment'' then
       setting (wrapping ''bad set state step comment'' (parseString val)) (\<lambda>v. step\<lparr>sst_Comment := v\<rparr>)
     else if key = ''accounts'' then
       setting (wrapping ''cannot parse set state step'' (processAccountMap p val)) (\<lambda>v. step\<lparr>sst_Accounts := v\<rparr>)
     else if key = ''newAddresses'' then
       setting (wrapping ''error parsing new addresses'' (processNewAddressMocks p val)) (\<lambda>v. step\<lparr>sst_NewAddressMocks := v\<rparr>)
     else if key = ''previousBlockInfo'' then
       setting (wrapping ''error parsing previousBlockInfo'' (processBlockInfo p val)) (\<lambda>v. step\<lparr>sst_PreviousBlockInfo := Some v\<rparr>)
     else if key = ''currentBlockInfo'' then
       setting (wrapping ''error parsing currentBlockInfo'' (processBlockInfo p val)) (\<lambda>v. step\<lparr>sst_CurrentBlockInfo := Some v\<rparr>)
     else if key = ''blockHashes'' then
       setting (wrapping ''error parsing block hashes'' (parseByteArrayList p val)) (\<lambda>v. step\<lparr>sst_BlockHashes := v\<rparr>)
     else fail ''invalid set state field'')"

definition check_state_field :: "Parser \<Rightarrow> (string \<times> CheckAccounts option) field_reader" where
  "check_state_field p = (\<lambda>(key, val) (Comment, checks).
     if key = ''step'' then ok (Comment, checks)
     else if key = ''comment'' then setting (wrapping ''bad check state step comment'' (parseString val)) (\<lambda>v. (v, checks))
     else if key = ''accounts'' then
       setting (wrapping ''cannot parse check state step'' (processCheckAccountMap p val)) (\<lambda>v. (Comment, Some v))
     else fail ''invalid check state field'')"

definition dump_state_field :: "string field_reader" where
  "dump_state_field = (\<lambda>(key, val) Comment.
     if key = ''step'' then ok Comment
     else if key = ''comment'' then wrapping ''bad check state step comment'' (parseString val)
     else fail ''invalid check state field'')"

definition tx_step_field ::
  "Parser \<Rightarrow> TransactionType \<Rightarrow> (string \<times> string \<times> Transaction option \<times> TransactionResult option) field_reader" where
  "tx_step_field p txType = (\<lambda>(key, val) (TxIdent, Comment, Tx, ExpectedResult).
     if key = ''step'' then ok (TxIdent, Comment, Tx, ExpectedResult)
     else if key = ''txId'' then
       setting (wrapping ''bad tx step id'' (parseString val)) (\<lambda>v. (v, Comment, Tx, ExpectedResult))
     else if key = ''comment'' then
       setting (wrapping ''bad tx step comment'' (parseString val)) (\<lambda>v. (TxIdent, v, Tx, ExpectedResult))
     else if key = ''tx'' then
       setting (wrapping ''cannot parse tx step transaction'' (processTx p txType val)) (\<lambda>v. (TxIdent, Comment, Some v, ExpectedResult))
     else if key = ''expect'' then
       (case Tx of
          None \<Rightarrow> None
        | Some tx \<Rightarrow>
            if \<not> IsSmartContractTx (tx_Type tx) then fail ''no expected result allowed for step of type''
            else setting (wrapping ''cannot parse tx expected result'' (processTxExpectedResult p val))
                   (\<lambda>v. (TxIdent, Comment, Tx, Some v)))
     else fail ''invalid tx step field'')"

definition parseTxStep :: "Parser \<Rightarrow> TransactionType \<Rightarrow> (string \<times> OJsonObject option) list \<Rightarrow> Step result" where
  "parseTxStep p txType OrderedKV =
     setting (fold_result (tx_step_field p txType) OrderedKV ([], [], None, None))
       (\<lambda>(TxIdent, Comment, Tx, ExpectedResult). TxStep TxIdent Comment Tx ExpectedResult)"

definition step_type_field :: "string field_reader" where
  "step_type_field = (\<lambda>(key, val) stepTypeStr.
     if key = ''step'' then wrapping ''step type not a string'' (parseString val) else ok stepTypeStr)"

definition step_of_type :: "Parser \<Rightarrow> (string \<times> OJsonObject option) list \<Rightarrow> string \<Rightarrow> Step result" where
  "step_of_type p OrderedKV stepTypeStr =
     (if stepTypeStr = [] then fail ''no step type field provided''
      else if stepTypeStr = ''externalSteps'' then
        setting (fold_result external_field OrderedKV ([], [])) (\<lambda>(Comment, Path). ExternalStepsStep Comment Path)
      else if stepTypeStr = ''setState'' then setting (fold_result (set_state_field p) OrderedKV SetState_zero) SetStateStep
      else if stepTypeStr = ''checkState'' then
        setting (fold_result (check_state_field p) OrderedKV ([], None)) (\<lambda>(Comment, checks). CheckStateStep Comment checks)
      else if stepTypeStr = ''dumpState'' then setting (fold_result dump_state_field OrderedKV []) DumpStateStep
      else if stepTypeStr = ''scCall'' then parseTxStep p ScCall OrderedKV
      else if stepTypeStr = ''scDeploy'' then parseTxStep p ScDeploy OrderedKV
      else if stepTypeStr = ''scQuery'' then parseTxStep p ScQuery OrderedKV
      else if stepTypeStr = ''transfer'' then parseTxStep p Transfer_tx OrderedKV
      else if stepTypeStr = ''validatorReward'' then parseTxStep p ValidatorReward OrderedKV
      else fail ''unknown step type'')"

definition processScenarioStep :: "Parser \<Rightarrow> OJsonObject option \<Rightarrow> Step result" where
  "processScenarioStep p stepObj =
     andThen (as_map ''unmarshalled step object is not a map'' stepObj) (\<lambda>OrderedKV.
     andThen (fold_result step_type_field OrderedKV []) (step_of_type p OrderedKV))"

definition processScenarioStepList :: "Parser \<Rightarrow> OJsonObject option \<Rightarrow> Step list result" where
  "processScenarioStepList p obj = read_list ''steps not a JSON list'' (processScenarioStep p) obj"

definition ParseScenarioStep :: "Parser \<Rightarrow> string \<Rightarrow> Step result" where
  "ParseScenarioStep p jsonSnippet = andThen (ParseOrderedJSON jsonSnippet) (processScenarioStep p)"

definition Scenario_zero :: Scenario where
  "Scenario_zero = \<lparr>scn_Name = [], scn_Comment = [], scn_CheckGas = True, scn_GasSchedule = GasScheduleDefault, scn_Steps = []\<rparr>"

definition parse_flag :: "string \<Rightarrow> OJsonObject option \<Rightarrow> bool result" where
  "parse_flag msg val = (case val of Some (OJsonBool b) \<Rightarrow> ok b | _ \<Rightarrow> fail msg)"

definition scenario_field :: "Parser \<Rightarrow> Scenario field_reader" where
  "scenario_field p = (\<lambda>(key, val) scenario.
     if key = ''name'' then setting (wrapping ''bad scenario name'' (parseString val)) (\<lambda>v. scenario\<lparr>scn_Name := v\<rparr>)
     else if key = ''comment'' then setting (wrapping ''bad scenario comment'' (parseString val)) (\<lambda>v. scenario\<lparr>scn_Comment := v\<rparr>)
     else if key = ''checkGas'' then
       setting (parse_flag ''scenario checkGas flag is not boolean'' val) (\<lambda>v. scenario\<lparr>scn_CheckGas := v\<rparr>)
     else if key = ''gasSchedule'' then
       setting (wrapping ''bad scenario gasSchedule'' (parseGasSchedule val)) (\<lambda>v. scenario\<lparr>scn_GasSchedule := v\<rparr>)
     else if key = ''steps'' then
       setting (wrapping ''error processing steps'' (processScenarioStepList p val)) (\<lambda>v. scenario\<lparr>scn_Steps := v\<rparr>)
     else fail ''unknown scenario field'')"

definition ParseScenarioFile :: "Parser \<Rightarrow> string \<Rightarrow> Scenario result" where
  "ParseScenarioFile p jsonString =
     andThen (ParseOrderedJSON jsonString)
       (read_map ''unmarshalled test top level object is not a map'' (scenario_field p) Scenario_zero)"

section \<open>Tests in the old format\<close>

fun txIsCreate_pairs :: "(string \<times> OJsonObject option) list \<Rightarrow> bool result" where
  "txIsCreate_pairs [] = ok False"
| "txIsCreate_pairs ((key, val) # kvs) =
     (if key = ''to'' then setting (wrapping ''invalid block transaction to'' (parseString val)) (\<lambda>toStr. length toStr = 0)
      else txIsCreate_pairs kvs)"

definition txIsCreate :: "OJsonObject option \<Rightarrow> bool result" where
  "txIsCreate txRaw = andThen (as_map ''unmarshalled block transaction is not a map'' txRaw) txIsCreate_pairs"

definition block_transaction :: "Parser \<Rightarrow> OJsonObject option \<Rightarrow> Transaction result" where
  "block_transaction p trRaw = andThen (txIsCreate trRaw) (\<lambda>isCreate. processTx p (if isCreate then ScDeploy else ScCall) trRaw)"

definition BlockHeader_zero :: BlockHeader where
  "BlockHeader_zero = \<lparr>bh_Beneficiary = JSONBigIntZero, bh_Difficulty = JSONBigIntZero, bh_Number = JSONBigIntZero,
     bh_GasLimit = JSONBigIntZero, bh_Timestamp = JSONUint64Zero\<rparr>"

definition block_header_field :: "Parser \<Rightarrow> BlockHeader field_reader" where
  "block_header_field p = (\<lambda>(key, val) blh.
     if key = ''gasLimit'' then
       setting (wrapping ''invalid block header gasLimit'' (processBigInt p val bigIntUnsignedBytes)) (\<lambda>v. blh\<lparr>bh_GasLimit := v\<rparr>)
     else if key = ''number'' then
       setting (wrapping ''invalid block header number'' (processBigInt p val bigIntUnsignedBytes)) (\<lambda>v. blh\<lparr>bh_Number := v\<rparr>)
     else if key = ''difficulty'' then
       setting (wrapping ''invalid block header difficulty'' (processBigInt p val bigIntUnsignedBytes)) (\<lambda>v. blh\<lparr>bh_Difficulty := v\<rparr>)
     else if key = ''timestamp'' then
       setting (wrapping ''invalid block header timestamp'' (processUint64 p val)) (\<lambda>v. blh\<lparr>bh_Timestamp := v\<rparr>)
     else if key = ''coinbase'' then
       setting (wrapping ''invalid block header coinbase'' (processBigInt p val bigIntUnsignedBytes)) (\<lambda>v. blh\<lparr>bh_Beneficiary := v\<rparr>)
     else fail ''unknown block header field'')"

definition processBlockHeader :: "Parser \<Rightarrow> OJsonObject option \<Rightarrow> BlockHeader result" where
  "processBlockHeader p blhRaw = read_map ''unmarshalled block header is not a map'' (block_header_field p) BlockHeader_zero blhRaw"

definition block_field :: "Parser \<Rightarrow> Block field_reader" where
  "block_field p = (\<lambda>(key, val) bl.
     if key = ''results'' then
       setting (read_list ''unmarshalled block results object is not a list'' (processTxExpectedResult p) val)
         (\<lambda>v. bl\<lparr>blk_Results := blk_Results bl @ v\<rparr>)
     else if key = ''transactions'' then
       setting (read_list ''unmarshalled block transactions object is not a list'' (block_transaction p) val)
         (\<lambda>v. bl\<lparr>blk_Transactions := blk_Transactions bl @ v\<rparr>)
     else if key = ''blockHeader'' then setting (processBlockHeader p val) (\<lambda>v. bl\<lparr>blk_BlockHeader := Some v\<rparr>)
     else fail ''unknown block field'')"

definition processBlock :: "Parser \<Rightarrow> OJsonObject option \<Rightarrow> Block result" where
  "processBlock p blockRaw =
     andThen (read_map ''unmarshalled block object is not a map'' (block_field p)
                \<lparr>blk_Results = [], blk_Transactions = [], blk_BlockHeader = None\<rparr> blockRaw) (\<lambda>bl.
       if length (blk_Results bl) \<noteq> length (blk_Transactions bl) then fail ''mismatched number of blocks and transactions'' else ok bl)"

definition Test_zero :: Test where
  "Test_zero = \<lparr>tst_TestName = [], tst_CheckGas = True, tst_Pre = [], tst_Blocks = [], tst_Network = [], tst_BlockHashes = [],
     tst_PostState = None\<rparr>"

definition test_field :: "Parser \<Rightarrow> Test field_reader" where
  "test_field p = (\<lambda>(key, val) test.
     if key = ''checkGas'' then
       setting (parse_flag ''unmarshalled test checkGas flag is not boolean'' val) (\<lambda>v. test\<lparr>tst_CheckGas := v\<rparr>)
     else if key = ''pre'' then setting (wrapping ''cannot parse pre'' (processAccountMap p val)) (\<lambda>v. test\<lparr>tst_Pre := v\<rparr>)
     else if key = ''blocks'' then
       setting (read_list ''unmarshalled blocks object is not a list'' (processBlock p) val) (\<lambda>v. test\<lparr>tst_Blocks := tst_Blocks test @ v\<rparr>)
     else if key = ''network'' then
       setting (wrapping ''test network value not a string'' (parseString val)) (\<lambda>v. test\<lparr>tst_Network := v\<rparr>)
     else if key = ''blockHashes'' then
       setting (wrapping ''unmarshalled blockHashes object is not a list'' (parseByteArrayList p val)) (\<lambda>v. test\<lparr>tst_BlockHashes := v\<rparr>)
     else if key = ''postState'' then
       setting (wrapping ''cannot parse postState'' (processCheckAccountMap p val)) (\<lambda>v. test\<lparr>tst_PostState := Some v\<rparr>)
     else fail ''unknown test'')"

definition processTest :: "Parser \<Rightarrow> OJsonObject option \<Rightarrow> Test result" where
  "processTest p testObj = read_map ''unmarshalled test object is not a map'' (test_field p) Test_zero testObj"

definition test_entry :: "Parser \<Rightarrow> Test list field_reader" where
  "test_entry p = (\<lambda>(key, val) top. setting (processTest p val) (\<lambda>t. top @ [t\<lparr>tst_TestName := key\<rparr>]))"

definition ParseTestFile :: "Parser \<Rightarrow> string \<Rightarrow> Test list result" where
  "ParseTestFile p jsonString =
     andThen (ParseOrderedJSON jsonString)
       (read_map ''unmarshalled test top level object is not a map'' (test_entry p) [])"

end
