(* ===== verification/ScenarioWrite.thy ===== *)
theory ScenarioWrite
  imports ScenarioModel ScenarioValues
begin

text \<open>
  The writer of scenario files (\<open>scenarios/json/write\<close>): scenarios and tests as ordered JSON documents. A value is
  written as the text it was read from. \<open>put_if\<close> is a \<open>Put\<close> under a condition. \<open>None\<close> is a panic: a step without its
  transaction or its accounts, a block without header, a transaction type without a name. A list of
  documents cannot have a nil item here; the source builds such a list and panics when it is printed, the model
  panics when it is built.
\<close>

section \<open>Values\<close>

definition map_OJ :: "ojson_map \<Rightarrow> OJsonObject" where
  "map_OJ m = OJsonMap (fst m) (snd m)"

definition put_if :: "bool \<Rightarrow> string \<Rightarrow> OJsonObject option \<Rightarrow> ojson_map \<Rightarrow> ojson_map" where
  "put_if c key val m = (if c then Put key val m else m)"

definition stringToOJ :: "string \<Rightarrow> OJsonObject option" where
  "stringToOJ str = Some (OJsonString str)"

text \<open>The text of a number in base 16, without leading zeros.\<close>

fun hex_text :: "nat \<Rightarrow> string" where
  "hex_text n = (if n < 16 then [hexDigit n] else hex_text (n div 16) @ [hexDigit (n mod 16)])"

declare hex_text.simps [simp del]

definition intToString :: "int option \<Rightarrow> string" where
  "intToString i =
     (case i of
        None \<Rightarrow> []
      | Some i \<Rightarrow>
          if i = 0 then ''0x00''
          else
            let str = hex_text (nat \<bar>i\<bar>);
                str = ''0x'' @ (if length str mod 2 \<noteq> 0 then ''0'' @ str else str)
            in if i < 0 then ''-'' @ str else str)"

definition bigIntToOJ :: "JSONBigInt \<Rightarrow> OJsonObject option" where
  "bigIntToOJ i = Some (OJsonString (jbi_Original i))"

definition checkBigIntToOJ :: "JSONCheckBigInt \<Rightarrow> OJsonObject option" where
  "checkBigIntToOJ i = Some (OJsonString (jci_Original i))"

definition bytesFromStringToString :: "JSONBytesFromString \<Rightarrow> string" where
  "bytesFromStringToString bs =
     (if length (jbs_Original bs) = 0 \<and> length (jbs_Value bs) > 0 then EncodeToString (jbs_Value bs) else jbs_Original bs)"

definition bytesFromStringToOJ :: "JSONBytesFromString \<Rightarrow> OJsonObject option" where
  "bytesFromStringToOJ bs = Some (OJsonString (bytesFromStringToString bs))"

definition bytesFromTreeToOJ :: "JSONBytesFromTree \<Rightarrow> OJsonObject option" where
  "bytesFromTreeToOJ bs =
     (if tree_OriginalEmpty bs then Some (OJsonString (EncodeToString (jbt_Value bs))) else jbt_Original bs)"

definition checkBytesToOJ :: "JSONCheckBytes \<Rightarrow> OJsonObject option" where
  "checkBytesToOJ checkBytes =
     (if check_OriginalEmpty checkBytes \<and> length (jcb_Value checkBytes) > 0
      then Some (OJsonString (EncodeToString (jcb_Value checkBytes))) else jcb_Original checkBytes)"

definition uint64ToOJ :: "JSONUint64 \<Rightarrow> OJsonObject option" where
  "uint64ToOJ i = Some (OJsonString (ju_Original i))"

definition checkUint64ToOJ :: "JSONCheckUint64 \<Rightarrow> OJsonObject option" where
  "checkUint64ToOJ i = Some (OJsonString (jcu_Original i))"

definition list_OJ :: "OJsonObject option list \<Rightarrow> OJsonObject option" where
  "list_OJ items = map_option OJsonList (those items)"

definition blockHashesToOJ :: "JSONBytesFromString list \<Rightarrow> OJsonObject option" where
  "blockHashesToOJ blockHashes = list_OJ (map bytesFromStringToOJ blockHashes)"

section \<open>Tokens\<close>

definition esdtTxDataToOJ :: "ESDTTxData \<Rightarrow> OJsonObject" where
  "esdtTxDataToOJ esdtItem = map_OJ
     (put_if (length (jbi_Original (etd_Value esdtItem)) > 0) ''value'' (bigIntToOJ (etd_Value esdtItem))
     (put_if (length (ju_Original (etd_Nonce esdtItem)) > 0) ''nonce'' (uint64ToOJ (etd_Nonce esdtItem))
     (put_if (length (jbs_Original (etd_TokenIdentifier esdtItem)) > 0) ''tokenIdentifier''
        (bytesFromStringToOJ (etd_TokenIdentifier esdtItem)) NewMap)))"

definition appendESDTInstanceToOJ :: "ESDTInstance \<Rightarrow> ojson_map \<Rightarrow> ojson_map" where
  "appendESDTInstanceToOJ inst target =
     put_if (length (jbs_Original (ei_Attributes inst)) > 0) ''attributes'' (bytesFromStringToOJ (ei_Attributes inst))
     (put_if (length (jbt_Value (ei_Uri inst)) > 0) ''uri'' (bytesFromTreeToOJ (ei_Uri inst))
     (put_if (length (jbs_Original (ei_Hash inst)) > 0) ''hash'' (bytesFromStringToOJ (ei_Hash inst))
     (put_if (length (ju_Original (ei_Royalties inst)) > 0) ''royalties'' (uint64ToOJ (ei_Royalties inst))
     (put_if (length (jbs_Original (ei_Creator inst)) > 0) ''creator'' (bytesFromStringToOJ (ei_Creator inst))
     (put_if (length (jbi_Original (ei_Balance inst)) > 0) ''balance'' (bigIntToOJ (ei_Balance inst))
     (put_if (length (ju_Original (ei_Nonce inst)) > 0) ''nonce'' (uint64ToOJ (ei_Nonce inst)) target))))))"

definition isCompactESDT :: "ESDTData \<Rightarrow> bool" where
  "isCompactESDT esdtItem =
     (case ed_Instances esdtItem of
        [inst] \<Rightarrow> length (ju_Original (ei_Nonce inst)) = 0 \<and> length (ed_Roles esdtItem) = 0
                  \<and> length (ju_Original (ed_Frozen esdtItem)) = 0
      | _ \<Rightarrow> False)"

definition roles_OJ :: "string list \<Rightarrow> OJsonObject" where
  "roles_OJ roles = OJsonList (map OJsonString roles)"

definition esdtItemToOJ :: "ESDTData \<Rightarrow> OJsonObject option" where
  "esdtItemToOJ esdtItem =
     (if isCompactESDT esdtItem then bigIntToOJ (ei_Balance (hd (ed_Instances esdtItem)))
      else Some (map_OJ
        (put_if (length (ju_Original (ed_Frozen esdtItem)) > 0) ''frozen'' (uint64ToOJ (ed_Frozen esdtItem))
        (put_if (length (ed_Roles esdtItem) > 0) ''roles'' (Some (roles_OJ (ed_Roles esdtItem)))
        (put_if (length (ju_Original (ed_LastNonce esdtItem)) > 0) ''lastNonce'' (uint64ToOJ (ed_LastNonce esdtItem))
        (case ed_Instances esdtItem of
           [inst] \<Rightarrow> appendESDTInstanceToOJ inst NewMap
         | instances \<Rightarrow>
             Put ''instances'' (Some (OJsonList (map (\<lambda>inst. map_OJ (appendESDTInstanceToOJ inst NewMap)) instances))) NewMap))))))"

definition esdtDataToOJ :: "ESDTData list \<Rightarrow> OJsonObject" where
  "esdtDataToOJ esdtItems =
     map_OJ (fold (\<lambda>esdtItem. Put (jbs_Original (ed_TokenIdentifier esdtItem)) (esdtItemToOJ esdtItem)) esdtItems NewMap)"

text \<open>Under \<open>uri\<close> the creator is written.\<close>

definition appendCheckESDTInstanceToOJ :: "CheckESDTInstance \<Rightarrow> ojson_map \<Rightarrow> ojson_map" where
  "appendCheckESDTInstanceToOJ inst target =
     put_if (\<not> jcb_Unspecified (cei_Attributes inst) \<and> length (jcb_Value (cei_Attributes inst)) > 0) ''attributes''
       (checkBytesToOJ (cei_Attributes inst))
     (put_if (\<not> jcb_Unspecified (cei_Uri inst) \<and> length (jcb_Value (cei_Uri inst)) > 0) ''uri'' (checkBytesToOJ (cei_Creator inst))
     (put_if (\<not> jcb_Unspecified (cei_Hash inst) \<and> length (jcb_Value (cei_Hash inst)) > 0) ''hash'' (checkBytesToOJ (cei_Hash inst))
     (put_if (\<not> jcu_Unspecified (cei_Royalties inst) \<and> length (jcu_Original (cei_Royalties inst)) > 0) ''royalties''
       (checkUint64ToOJ (cei_Royalties inst))
     (put_if (\<not> jcb_Unspecified (cei_Creator inst) \<and> length (jcb_Value (cei_Creator inst)) > 0) ''creator''
       (checkBytesToOJ (cei_Creator inst))
     (put_if (length (jci_Original (cei_Balance inst)) > 0) ''balance'' (checkBigIntToOJ (cei_Balance inst))
     (put_if (length (jcu_Original (cei_Nonce inst)) > 0) ''nonce'' (checkUint64ToOJ (cei_Nonce inst)) target))))))"

definition isCompactCheckESDT :: "CheckESDTData \<Rightarrow> bool" where
  "isCompactCheckESDT esdtItem =
     (case ced_Instances esdtItem of
        [inst] \<Rightarrow> length (jcu_Original (cei_Nonce inst)) = 0 \<and> length (ced_Roles esdtItem) = 0
                  \<and> length (jcu_Original (ced_Frozen esdtItem)) = 0
      | _ \<Rightarrow> False)"

definition checkESDTItemToOJ :: "CheckESDTData \<Rightarrow> OJsonObject option" where
  "checkESDTItemToOJ esdtItem =
     (if isCompactCheckESDT esdtItem then checkBigIntToOJ (cei_Balance (hd (ced_Instances esdtItem)))
      else Some (map_OJ
        (put_if (length (jcu_Original (ced_Frozen esdtItem)) > 0) ''frozen'' (checkUint64ToOJ (ced_Frozen esdtItem))
        (put_if (length (ced_Roles esdtItem) > 0) ''roles'' (Some (roles_OJ (ced_Roles esdtItem)))
        (put_if (length (jcu_Original (ced_LastNonce esdtItem)) > 0) ''lastNonce'' (checkUint64ToOJ (ced_LastNonce esdtItem))
        (case ced_Instances esdtItem of
           [inst] \<Rightarrow> appendCheckESDTInstanceToOJ inst NewMap
         | instances \<Rightarrow>
             Put ''instances'' (Some (OJsonList (map (\<lambda>inst. map_OJ (appendCheckESDTInstanceToOJ inst NewMap)) instances))) NewMap))))))"

definition checkESDTDataToOJ :: "CheckESDTData list \<Rightarrow> bool \<Rightarrow> OJsonObject" where
  "checkESDTDataToOJ esdtItems moreESDTTokensAllowed = map_OJ
     (put_if moreESDTTokensAllowed ''+'' (stringToOJ [])
     (fold (\<lambda>esdtItem. Put (jbs_Original (ced_TokenIdentifier esdtItem)) (checkESDTItemToOJ esdtItem)) esdtItems NewMap))"

section \<open>Accounts\<close>

definition accountToOJ :: "ScenAccount \<Rightarrow> OJsonObject" where
  "accountToOJ account =
     (let storageOJ = fold (\<lambda>st. Put (bytesFromStringToString (skv_Key st)) (bytesFromTreeToOJ (skv_Value st))) (sac_Storage account) NewMap
      in map_OJ
        (put_if (length (sac_AsyncCallData account) > 0) ''asyncCallData'' (stringToOJ (sac_AsyncCallData account))
        (put_if (length (jbs_Value (sac_Owner account)) > 0) ''owner'' (bytesFromStringToOJ (sac_Owner account))
        (Put ''code'' (bytesFromStringToOJ (sac_Code account))
        (Put ''storage'' (Some (map_OJ storageOJ))
        (put_if (length (jbs_Value (sac_Username account)) > 0) ''username'' (bytesFromStringToOJ (sac_Username account))
        (put_if (length (sac_ESDTData account) > 0) ''esdt'' (Some (esdtDataToOJ (sac_ESDTData account)))
        (Put ''balance'' (bigIntToOJ (sac_Balance account))
        (Put ''nonce'' (uint64ToOJ (sac_Nonce account))
        (put_if (length (sac_Comment account) > 0) ''comment'' (stringToOJ (sac_Comment account)) NewMap))))))))))"

definition AccountsToOJ :: "ScenAccount list \<Rightarrow> OJsonObject" where
  "AccountsToOJ accounts =
     map_OJ (fold (\<lambda>account. Put (bytesFromStringToString (sac_Address account)) (Some (accountToOJ account))) accounts NewMap)"

definition checkAccountToOJ :: "CheckAccount \<Rightarrow> OJsonObject" where
  "checkAccountToOJ acct =
     (let storageOJ =
            (if ca_IgnoreStorage acct then stringToOJ ''*''
             else Some (map_OJ (put_if (ca_MoreStorageAllowed acct) ''+'' (stringToOJ [])
               (fold (\<lambda>st. Put (bytesFromStringToString (cskv_Key st)) (checkBytesToOJ (cskv_CheckValue st))) (ca_CheckStorage acct) NewMap))))
      in map_OJ
        (put_if (\<not> jcb_Unspecified (ca_AsyncCallData acct)) ''asyncCallData'' (checkBytesToOJ (ca_AsyncCallData acct))
        (put_if (\<not> jcb_Unspecified (ca_Owner acct)) ''owner'' (checkBytesToOJ (ca_Owner acct))
        (put_if (\<not> jcb_Unspecified (ca_Code acct)) ''code'' (checkBytesToOJ (ca_Code acct))
        (Put ''storage'' storageOJ
        (put_if (\<not> jcb_Unspecified (ca_Username acct)) ''username'' (checkBytesToOJ (ca_Username acct))
        (put_if (ca_IgnoreESDT acct \<or> length (ca_CheckESDTData acct) > 0) ''esdt''
           (if ca_IgnoreESDT acct then stringToOJ ''*''
            else Some (checkESDTDataToOJ (ca_CheckESDTData acct) (ca_MoreESDTTokensAllowed acct)))
        (put_if (\<not> jci_Unspecified (ca_Balance acct)) ''balance'' (checkBigIntToOJ (ca_Balance acct))
        (put_if (\<not> jcu_Unspecified (ca_Nonce acct)) ''nonce'' (checkUint64ToOJ (ca_Nonce acct))
        (put_if (length (ca_Comment acct) > 0) ''comment'' (stringToOJ (ca_Comment acct)) NewMap))))))))))"

definition checkAccountsToOJ :: "CheckAccounts option \<Rightarrow> OJsonObject option" where
  "checkAccountsToOJ checks = map_option (\<lambda>checks. map_OJ
     (put_if (cas_MoreAccountsAllowed checks) ''+'' (stringToOJ [])
     (fold (\<lambda>acct. Put (bytesFromStringToString (ca_Address acct)) (Some (checkAccountToOJ acct))) (cas_Accounts checks) NewMap))) checks"

section \<open>Results\<close>

definition logToOJ :: "ScenLogEntry \<Rightarrow> OJsonObject option" where
  "logToOJ logEntry = map_option (\<lambda>topicsOJ. map_OJ
     (Put ''data'' (checkBytesToOJ (sle_Data logEntry))
     (Put ''topics'' (Some topicsOJ)
     (Put ''identifier'' (checkBytesToOJ (sle_Identifier logEntry))
     (Put ''address'' (checkBytesToOJ (sle_Address logEntry)) NewMap))))) (list_OJ (map checkBytesToOJ (sle_Topics logEntry)))"

definition LogToString :: "ScenLogEntry \<Rightarrow> string option" where
  "LogToString logEntry = map_option JSONString (logToOJ logEntry)"

definition logsToOJ :: "ScenLogEntry list \<Rightarrow> OJsonObject option" where
  "logsToOJ logEntries = list_OJ (map logToOJ logEntries)"

text \<open>Without expected logs there is no entry for them, and what \<open>written_logs\<close> gives is not used.\<close>

definition written_logs :: "TransactionResult \<Rightarrow> OJsonObject option" where
  "written_logs res =
     (if tr_LogsUnspecified res then Some (OJsonString [])
      else if tr_LogsStar res then stringToOJ ''*''
      else if length (tr_LogHash res) > 0 then stringToOJ (tr_LogHash res)
      else logsToOJ (tr_Logs res))"

definition resultToOJ :: "TransactionResult \<Rightarrow> OJsonObject option" where
  "resultToOJ res = do {
     outOJ \<leftarrow> list_OJ (map checkBytesToOJ (tr_Out res));
     logs \<leftarrow> written_logs res;
     Some (map_OJ
       (put_if (\<not> jci_Unspecified (tr_Refund res)) ''refund'' (checkBigIntToOJ (tr_Refund res))
       (put_if (\<not> jcu_Unspecified (tr_Gas res)) ''gas'' (checkUint64ToOJ (tr_Gas res))
       (put_if (\<not> tr_LogsUnspecified res) ''logs'' (Some logs)
       (put_if (\<not> jcb_Unspecified (tr_Message res)) ''message'' (checkBytesToOJ (tr_Message res))
       (put_if (\<not> jci_Unspecified (tr_Status res)) ''status'' (checkBigIntToOJ (tr_Status res))
       (Put ''out'' (Some outOJ) NewMap)))))))
   }"

section \<open>Scenarios\<close>

definition transactionToScenarioOJ :: "Transaction \<Rightarrow> OJsonObject option" where
  "transactionToScenarioOJ tx = map_option (\<lambda>argOJ. map_OJ
     (put_if (HasGas (tx_Type tx)) ''gasPrice'' (uint64ToOJ (tx_GasPrice tx))
     (put_if (HasGas (tx_Type tx)) ''gasLimit'' (uint64ToOJ (tx_GasLimit tx))
     (put_if (HasFunction (tx_Type tx) \<or> tx_Type tx = ScDeploy) ''arguments'' (Some argOJ)
     (put_if (tx_Type tx = ScDeploy) ''contractCode'' (bytesFromStringToOJ (tx_Code tx))
     (put_if (HasFunction (tx_Type tx)) ''function'' (stringToOJ (tx_Function tx))
     (put_if (tx_ESDTValue tx \<noteq> None) ''esdt'' (map_option esdtTxDataToOJ (tx_ESDTValue tx))
     (put_if (HasValue (tx_Type tx)) ''value'' (bigIntToOJ (tx_Value tx))
     (put_if (HasReceiver (tx_Type tx)) ''to'' (bytesFromStringToOJ (tx_To tx))
     (put_if (HasSender (tx_Type tx)) ''from'' (bytesFromStringToOJ (tx_From tx)) NewMap))))))))))
       (if HasFunction (tx_Type tx) \<or> tx_Type tx = ScDeploy then list_OJ (map bytesFromTreeToOJ (tx_Arguments tx)) else Some (OJsonList []))"

definition newAddressMocksToOJ :: "ScenNewAddressMock list \<Rightarrow> OJsonObject" where
  "newAddressMocksToOJ newAddressMocks = OJsonList (map (\<lambda>namEntry. map_OJ
     (Put ''newAddress'' (bytesFromStringToOJ (snm_NewAddress namEntry))
     (Put ''creatorNonce'' (uint64ToOJ (snm_CreatorNonce namEntry))
     (Put ''creatorAddress'' (bytesFromStringToOJ (snm_CreatorAddress namEntry)) NewMap)))) newAddressMocks)"

definition blockInfoToOJ :: "ScenBlockInfo \<Rightarrow> OJsonObject" where
  "blockInfoToOJ blockInfo = map_OJ
     (put_if (sbi_BlockRandomSeed blockInfo \<noteq> None) ''blockRandomSeed'' (Option.bind (sbi_BlockRandomSeed blockInfo) bytesFromTreeToOJ)
     (put_if (length (ju_Original (sbi_BlockEpoch blockInfo)) > 0) ''blockEpoch'' (uint64ToOJ (sbi_BlockEpoch blockInfo))
     (put_if (length (ju_Original (sbi_BlockRound blockInfo)) > 0) ''blockRound'' (uint64ToOJ (sbi_BlockRound blockInfo))
     (put_if (length (ju_Original (sbi_BlockNonce blockInfo)) > 0) ''blockNonce'' (uint64ToOJ (sbi_BlockNonce blockInfo))
     (put_if (length (ju_Original (sbi_BlockTimestamp blockInfo)) > 0) ''blockTimestamp'' (uint64ToOJ (sbi_BlockTimestamp blockInfo)) NewMap)))))"

definition gasScheduleToOJ :: "GasSchedule \<Rightarrow> OJsonObject option" where
  "gasScheduleToOJ gasSchedule =
     (case gasSchedule of
        GasScheduleDefault \<Rightarrow> stringToOJ ''default''
      | GasScheduleDummy \<Rightarrow> stringToOJ ''dummy''
      | GasScheduleV1 \<Rightarrow> stringToOJ ''v1''
      | GasScheduleV2 \<Rightarrow> stringToOJ ''v2''
      | GasScheduleV3 \<Rightarrow> stringToOJ ''v3''
      | UnknownGasSchedule \<Rightarrow> stringToOJ [])"

definition stepToOJ :: "Step \<Rightarrow> OJsonObject option" where
  "stepToOJ generalStep = do {
     stepName \<leftarrow> StepTypeName generalStep;
     let stepOJ = Put ''step'' (stringToOJ stepName) NewMap;
     case generalStep of
       ExternalStepsStep Comment Path \<Rightarrow>
         Some (map_OJ (Put ''path'' (stringToOJ Path) (put_if (length Comment > 0) ''comment'' (stringToOJ Comment) stepOJ)))
     | SetStateStep step \<Rightarrow>
         Some (map_OJ
           (put_if (length (sst_BlockHashes step) > 0) ''blockHashes'' (blockHashesToOJ (sst_BlockHashes step))
           (put_if (sst_CurrentBlockInfo step \<noteq> None) ''currentBlockInfo'' (map_option blockInfoToOJ (sst_CurrentBlockInfo step))
           (put_if (sst_PreviousBlockInfo step \<noteq> None) ''previousBlockInfo'' (map_option blockInfoToOJ (sst_PreviousBlockInfo step))
           (put_if (length (sst_NewAddressMocks step) > 0) ''newAddresses'' (Some (newAddressMocksToOJ (sst_NewAddressMocks step)))
           (put_if (length (sst_Accounts step) > 0) ''accounts'' (Some (AccountsToOJ (sst_Accounts step)))
           (put_if (length (sst_Comment step) > 0) ''comment'' (stringToOJ (sst_Comment step)) stepOJ)))))))
     | CheckStateStep Comment checks \<Rightarrow> do {
         accountsOJ \<leftarrow> checkAccountsToOJ checks;
         Some (map_OJ (Put ''accounts'' (Some accountsOJ) (put_if (length Comment > 0) ''comment'' (stringToOJ Comment) stepOJ)))
       }
     | DumpStateStep Comment \<Rightarrow> Some (map_OJ (put_if (length Comment > 0) ''comment'' (stringToOJ Comment) stepOJ))
     | TxStep TxIdent Comment Tx ExpectedResult \<Rightarrow> do {
         tx \<leftarrow> Tx;
         txOJ \<leftarrow> transactionToScenarioOJ tx;
         let stepOJ = Put ''tx'' (Some txOJ)
           (put_if (length Comment > 0) ''comment'' (stringToOJ Comment)
           (put_if (length TxIdent > 0) ''txId'' (stringToOJ TxIdent) stepOJ));
         if IsSmartContractTx (tx_Type tx) \<and> ExpectedResult \<noteq> None
         then do {
           resOJ \<leftarrow> Option.bind ExpectedResult resultToOJ;
           Some (map_OJ (Put ''expect'' (Some resOJ) stepOJ))
         }
         else Some (map_OJ stepOJ)
       }
   }"

definition ScenarioToOrderedJSON :: "Scenario \<Rightarrow> OJsonObject option" where
  "ScenarioToOrderedJSON scenario = map_option (\<lambda>stepsOJ. map_OJ
     (Put ''steps'' (Some stepsOJ)
     (Put ''gasSchedule'' (gasScheduleToOJ (scn_GasSchedule scenario))
     (put_if (\<not> scn_CheckGas scenario) ''checkGas'' (Some (OJsonBool False))
     (put_if (length (scn_Comment scenario) > 0) ''comment'' (stringToOJ (scn_Comment scenario))
     (put_if (length (scn_Name scenario) > 0) ''name'' (stringToOJ (scn_Name scenario)) NewMap))))))
       (list_OJ (map stepToOJ (scn_Steps scenario)))"

definition ScenarioToJSONString :: "Scenario \<Rightarrow> string option" where
  "ScenarioToJSONString scenario = map_option (\<lambda>jobj. JSONString jobj @ [newline]) (ScenarioToOrderedJSON scenario)"

section \<open>Tests in the old format\<close>

definition transactionToTestOJ :: "Transaction \<Rightarrow> OJsonObject option" where
  "transactionToTestOJ tx = map_option (\<lambda>argOJ. map_OJ
     (Put ''from'' (bytesFromStringToOJ (tx_From tx))
     (Put ''gasPrice'' (uint64ToOJ (tx_GasPrice tx))
     (put_if (length (jbs_Original (tx_Code tx)) > 0) ''contractCode'' (bytesFromStringToOJ (tx_Code tx))
     (Put ''arguments'' (Some argOJ)
     (Put ''to'' (bytesFromStringToOJ (tx_To tx))
     (Put ''value'' (bigIntToOJ (tx_Value tx))
     (Put ''gasLimit'' (uint64ToOJ (tx_GasLimit tx))
     (Put ''function'' (stringToOJ (tx_Function tx))
     (Put ''nonce'' (uint64ToOJ (tx_Nonce tx)) NewMap)))))))))) (list_OJ (map bytesFromTreeToOJ (tx_Arguments tx)))"

definition blockToOJ :: "Block \<Rightarrow> OJsonObject option" where
  "blockToOJ block = do {
     resultsOJ \<leftarrow> list_OJ (map resultToOJ (blk_Results block));
     txsOJ \<leftarrow> list_OJ (map transactionToTestOJ (blk_Transactions block));
     blh \<leftarrow> blk_BlockHeader block;
     let blockHeaderOJ = map_OJ
       (Put ''coinbase'' (bigIntToOJ (bh_Beneficiary blh))
       (Put ''timestamp'' (uint64ToOJ (bh_Timestamp blh))
       (Put ''difficulty'' (bigIntToOJ (bh_Difficulty blh))
       (Put ''number'' (bigIntToOJ (bh_Number blh))
       (Put ''gasLimit'' (bigIntToOJ (bh_GasLimit blh)) NewMap)))));
     Some (map_OJ (Put ''blockHeader'' (Some blockHeaderOJ) (Put ''transactions'' (Some txsOJ) (Put ''results'' (Some resultsOJ) NewMap))))
   }"

definition testToOJ :: "Test \<Rightarrow> OJsonObject option" where
  "testToOJ test = do {
     blocksOJ \<leftarrow> list_OJ (map blockToOJ (tst_Blocks test));
     postOJ \<leftarrow> checkAccountsToOJ (tst_PostState test);
     Some (map_OJ
       (Put ''postState'' (Some postOJ)
       (Put ''blockHashes'' (blockHashesToOJ (tst_BlockHashes test))
       (Put ''network'' (stringToOJ (tst_Network test))
       (Put ''blocks'' (Some blocksOJ)
       (Put ''pre'' (Some (AccountsToOJ (tst_Pre test)))
       (put_if (\<not> tst_CheckGas test) ''checkGas'' (Some (OJsonBool False)) NewMap)))))))
   }"

definition TestToOrderedJSON :: "Test list \<Rightarrow> OJsonObject option" where
  "TestToOrderedJSON testTopLevel = do {
     written \<leftarrow> those (map testToOJ testTopLevel);
     Some (map_OJ (fold (\<lambda>(test, testOJ). Put (tst_TestName test) (Some testOJ)) (zip testTopLevel written) NewMap))
   }"

definition TestToJSONString :: "Test list \<Rightarrow> string option" where
  "TestToJSONString testTopLevel = map_option (\<lambda>jobj. JSONString jobj @ [newline]) (TestToOrderedJSON testTopLevel)"

end
