(* ===== verification/ScenarioFiles.thy ===== *)
theory ScenarioFiles
  imports ScenarioParse ScenarioWrite
begin

text \<open>
  Writing a scenario and reading it again. A value is legible if reading what the writer makes of it gives the value;
  every value that the reader returns is. A record survives if its values are legible and if it uses none of
  the forms that the writer drops: these are spelled out in the predicates ending in \<open>_kept\<close>.
\<close>

section \<open>Results\<close>

lemma andThen_ok [simp]: "andThen (ok a) f = f a"
  by (simp add: andThen_def ok_def)

lemma andThen_eq_ok: "andThen r f = ok b \<longleftrightarrow> (\<exists>a. r = ok a \<and> f a = ok b)"
  by (auto simp: andThen_def ok_def split: option.splits sum.splits)

lemma ok_inject [simp]: "ok a = ok b \<longleftrightarrow> a = b"
  by (simp add: ok_def)

lemma fail_not_ok [simp]: "fail msg \<noteq> ok a" "ok a \<noteq> fail msg" "None \<noteq> ok a" "ok a \<noteq> None"
  by (simp_all add: ok_def fail_def)

lemma case_ok [simp]:
  "(case ok a of None \<Rightarrow> x | Some (Inl err) \<Rightarrow> y err | Some (Inr b) \<Rightarrow> z b) = z a"
  "(case fail msg of None \<Rightarrow> x | Some (Inl err) \<Rightarrow> y err | Some (Inr b) \<Rightarrow> z b) = y (OtherError msg)"
  by (simp_all add: ok_def fail_def)

lemma setting_ok [simp]: "setting (ok a) f = ok (f a)"
  by (simp add: setting_def)

lemma setting_eq_ok: "setting r f = ok b \<longleftrightarrow> (\<exists>a. r = ok a \<and> f a = b)"
  by (auto simp: setting_def andThen_eq_ok)

lemma wrapping_ok [simp]: "wrapping msg (ok a) = ok a" "wrapping msg r = ok a \<longleftrightarrow> r = ok a"
  by (auto simp: wrapping_def ok_def map_sum_def split: sum.splits) (metis Inl_Inr_False sumE)

lemma replacing_ok [simp]: "replacing msg (ok a) = ok a" "replacing msg r = ok a \<longleftrightarrow> r = ok a"
  by (auto simp: replacing_def ok_def map_sum_def split: sum.splits) (metis Inl_Inr_False sumE)

lemma fold_result_append: "fold_result f (xs @ ys) s = andThen (fold_result f xs s) (fold_result f ys)"
proof (induction xs arbitrary: s)
  case (Cons x xs)
  then show ?case by (cases "f x s") (auto simp: andThen_def split: sum.splits)
qed simp

lemma map_result_ok: "map_result f xs = ok ys \<longleftrightarrow> list_all2 (\<lambda>x y. f x = ok y) xs ys"
  by (induction xs arbitrary: ys) (auto simp: andThen_eq_ok setting_eq_ok list_all2_Cons1)

lemma map_result_map: "(\<And>y. y \<in> set ys \<Longrightarrow> f (g y) = ok y) \<Longrightarrow> map_result f (map g ys) = ok ys"
  by (induction ys) auto

lemma fold_result_inv:
  "fold_result f xs s = ok s' \<Longrightarrow> P s \<Longrightarrow> (\<And>x s s'. x \<in> set xs \<Longrightarrow> P s \<Longrightarrow> f x s = ok s' \<Longrightarrow> P s') \<Longrightarrow> P s'"
  by (induction xs arbitrary: s) (auto simp: andThen_eq_ok)

section \<open>Maps under construction\<close>

definition opt :: "bool \<Rightarrow> string \<Rightarrow> OJsonObject option \<Rightarrow> (string \<times> OJsonObject option) list" where
  "opt c key val = (if c then [(key, val)] else [])"

definition built :: "ojson_map \<Rightarrow> (string \<times> OJsonObject option) list \<Rightarrow> bool" where
  "built m kvs \<longleftrightarrow> snd m = kvs \<and> (\<forall>k. map_get (fst m) k = None \<longleftrightarrow> k \<notin> fst ` set kvs)"

lemma built_NewMap: "built NewMap []"
  by (simp add: built_def NewMap_def)

lemma built_Put: "built m kvs \<Longrightarrow> key \<notin> fst ` set kvs \<Longrightarrow> built (Put key val m) (kvs @ [(key, val)])"
  by (cases m) (auto simp: built_def Put_def)

lemma built_put_if: "built m kvs \<Longrightarrow> key \<notin> fst ` set kvs \<Longrightarrow> built (put_if c key val m) (kvs @ opt c key val)"
  by (simp add: put_if_def opt_def built_Put)

lemma put_if_simps [simp]: "put_if True key val m = Put key val m" "put_if False key val m = m"
  by (simp_all add: put_if_def)

lemma keys_opt [simp]: "x \<in> fst ` set (opt c key val) \<longleftrightarrow> c \<and> x = key"
  by (auto simp: opt_def)

lemma built_fold:
  "built m kvs \<Longrightarrow> distinct (map key xs) \<Longrightarrow> (\<forall>x \<in> set xs. key x \<notin> fst ` set kvs) \<Longrightarrow>
   built (fold (\<lambda>x. Put (key x) (val x)) xs m) (kvs @ map (\<lambda>x. (key x, val x)) xs)"
proof (induction xs arbitrary: m kvs)
  case (Cons x xs)
  then have put: "built (Put (key x) (val x) m) (kvs @ [(key x, val x)])" by (auto intro: built_Put)
  have "key y \<notin> fst ` set (kvs @ [(key x, val x)])" if "y \<in> set xs" for y
  proof -
    have "key y \<noteq> key x" using Cons.prems(2) that by (metis distinct.simps(2) image_eqI list.set_map list.simps(9))
    then show ?thesis using Cons.prems(3) that by auto
  qed
  with Cons.IH [OF put] Cons.prems(2) show ?case by simp
qed simp

lemmas built_intros = built_put_if built_Put built_NewMap

lemma read_built: "built m kvs \<Longrightarrow> fold_result step kvs start = r \<Longrightarrow> read_map msg step start (Some (map_OJ m)) = r"
  by (simp add: read_map_def as_map_def map_OJ_def built_def)

lemma fold_opt [simp]: "fold_result f (opt c key val) s = (if c then f (key, val) s else ok s)"
  by (simp add: opt_def andThen_def ok_def split: option.splits sum.splits)

lemma skip_ok [simp]: "(\<not> c \<longrightarrow> y = x) \<Longrightarrow> (if c then ok x else ok y) = ok x"
  by auto

lemma read_list_items [simp]: "read_list msg read (Some (OJsonList items)) = map_result (\<lambda>item. read (Some item)) items"
  by (simp add: read_list_def as_list_def)

section \<open>Values\<close>

definition u64_ok :: "Parser \<Rightarrow> JSONUint64 \<Rightarrow> bool" where
  "u64_ok p v \<longleftrightarrow> processUint64 p (uint64ToOJ v) = ok v"

definition big_ok :: "Parser \<Rightarrow> JSONBigInt \<Rightarrow> bool" where
  "big_ok p v \<longleftrightarrow> processBigInt p (bigIntToOJ v) bigIntUnsignedBytes = ok v"

definition str_ok :: "Parser \<Rightarrow> JSONBytesFromString \<Rightarrow> bool" where
  "str_ok p v \<longleftrightarrow> processStringAsByteArray p (bytesFromStringToOJ v) = ok v"

definition tree_ok :: "Parser \<Rightarrow> JSONBytesFromTree \<Rightarrow> bool" where
  "tree_ok p v \<longleftrightarrow> processSubTreeAsByteArray p (bytesFromTreeToOJ v) = ok v"

definition cbytes_ok :: "Parser \<Rightarrow> JSONCheckBytes \<Rightarrow> bool" where
  "cbytes_ok p v \<longleftrightarrow> parseCheckBytes p (checkBytesToOJ v) = ok v"

definition cu64_ok :: "Parser \<Rightarrow> JSONCheckUint64 \<Rightarrow> bool" where
  "cu64_ok p v \<longleftrightarrow> processCheckUint64 p (checkUint64ToOJ v) = ok v"

definition cbig_ok :: "Parser \<Rightarrow> bigIntParseFormat \<Rightarrow> JSONCheckBigInt \<Rightarrow> bool" where
  "cbig_ok p format v \<longleftrightarrow> processCheckBigInt p (checkBigIntToOJ v) format = ok v"

definition addr_ok :: "Parser \<Rightarrow> JSONBytesFromString \<Rightarrow> bool" where
  "addr_ok p v \<longleftrightarrow> parseAccountAddress p (bytesFromStringToString v) = ok v"

lemma interpret_empty [simp]: "interpret_text p [] = ok []"
  by (simp add: interpret_text_def InterpretString.simps ok_def)

lemma parseString_simps [simp]:
  "parseString (Some (OJsonString s)) = ok s" "parseString (stringToOJ s) = ok s"
  "parseString obj = ok s \<longleftrightarrow> obj = Some (OJsonString s)"
  by (auto simp: parseString_def stringToOJ_def split: option.splits OJsonObject.splits)

lemma u64_empty: "u64_ok p v \<Longrightarrow> ju_Original v = [] \<Longrightarrow> v = JSONUint64Zero"
  by (cases v) (auto simp: u64_ok_def processUint64_def processBigInt_def parseBigInt_def uint64ToOJ_def JSONUint64Zero_def big_SetBytes_def)

lemma big_empty: "big_ok p v \<Longrightarrow> jbi_Original v = [] \<Longrightarrow> v = JSONBigIntZero"
  by (cases v) (auto simp: big_ok_def processBigInt_def parseBigInt_def bigIntToOJ_def JSONBigIntZero_def big_SetBytes_def)

lemma str_ok_iff: "str_ok p v \<longleftrightarrow> interpret_text p (jbs_Original v) = ok (jbs_Value v)"
  by (cases v) (auto simp: str_ok_def processStringAsByteArray_def bytesFromStringToOJ_def bytesFromStringToString_def
      NewJSONBytesFromString_def setting_eq_ok split: if_splits)

lemma str_empty: "str_ok p v \<Longrightarrow> jbs_Original v = [] \<Longrightarrow> v = NewJSONBytesFromString [] []"
  by (cases v) (auto simp: str_ok_iff NewJSONBytesFromString_def)

lemma str_text: "str_ok p v \<Longrightarrow> bytesFromStringToString v = jbs_Original v"
  by (auto simp: str_ok_iff bytesFromStringToString_def)

lemma str_key: "str_ok p v \<Longrightarrow> interpret_text p (bytesFromStringToString v) = ok (jbs_Value v)"
  by (simp add: str_text) (simp add: str_ok_iff)

lemma str_remake: "str_ok p v \<Longrightarrow> NewJSONBytesFromString (jbs_Value v) (bytesFromStringToString v) = v"
  by (simp add: str_text NewJSONBytesFromString_def)

lemma legible [simp]:
  "u64_ok p u \<Longrightarrow> processUint64 p (uint64ToOJ u) = ok u"
  "big_ok p b \<Longrightarrow> processBigInt p (bigIntToOJ b) bigIntUnsignedBytes = ok b"
  "str_ok p s \<Longrightarrow> processStringAsByteArray p (bytesFromStringToOJ s) = ok s"
  "tree_ok p t \<Longrightarrow> processSubTreeAsByteArray p (bytesFromTreeToOJ t) = ok t"
  "cbytes_ok p cb \<Longrightarrow> parseCheckBytes p (checkBytesToOJ cb) = ok cb"
  "cu64_ok p cu \<Longrightarrow> processCheckUint64 p (checkUint64ToOJ cu) = ok cu"
  "cbig_ok p format ci \<Longrightarrow> processCheckBigInt p (checkBigIntToOJ ci) format = ok ci"
  "addr_ok p a \<Longrightarrow> parseAccountAddress p (bytesFromStringToString a) = ok a"
  by (simp_all add: u64_ok_def big_ok_def str_ok_def tree_ok_def cbytes_ok_def cu64_ok_def cbig_ok_def addr_ok_def)

section \<open>Tokens in transactions\<close>

definition tx_esdt_ok :: "Parser \<Rightarrow> ESDTTxData \<Rightarrow> bool" where
  "tx_esdt_ok p d \<longleftrightarrow> str_ok p (etd_TokenIdentifier d) \<and> u64_ok p (etd_Nonce d) \<and> big_ok p (etd_Value d)"

lemma tx_esdt_reads:
  assumes "tx_esdt_ok p d"
  shows "processTxESDT p (Some (esdtTxDataToOJ d)) = ok d"
proof -
  obtain t n v where d: "d = \<lparr>etd_TokenIdentifier = t, etd_Nonce = n, etd_Value = v\<rparr>" by (cases d)
  have ok: "str_ok p t" "u64_ok p n" "big_ok p v" using assms by (simp_all add: d tx_esdt_ok_def)
  show ?thesis
    unfolding processTxESDT_def esdtTxDataToOJ_def
    by (rule read_built, (rule built_intros)+)
      (simp_all add: image_Un d fold_result_append tx_esdt_field_def ESDTTxData_zero_def ok u64_empty [OF ok(2)] big_empty [OF ok(3)] str_empty [OF ok(1)]
       cong: if_cong split del: if_split)
qed

section \<open>Tokens of accounts\<close>

definition instance_ok :: "Parser \<Rightarrow> ESDTInstance \<Rightarrow> bool" where
  "instance_ok p i \<longleftrightarrow> u64_ok p (ei_Nonce i) \<and> big_ok p (ei_Balance i) \<and> str_ok p (ei_Creator i) \<and>
     (jbs_Original (ei_Creator i) \<noteq> [] \<longrightarrow> length (jbs_Value (ei_Creator i)) = 32) \<and> u64_ok p (ei_Royalties i) \<and>
     ju_Value (ei_Royalties i) \<le> 10000 \<and> str_ok p (ei_Hash i) \<and> (ei_Uri i = JSONBytesFromTree_zero \<or> tree_ok p (ei_Uri i)) \<and>
     str_ok p (ei_Attributes i)"

definition instance_kept :: "ESDTInstance \<Rightarrow> bool" where
  "instance_kept i \<longleftrightarrow> (jbt_Value (ei_Uri i) = [] \<longrightarrow> ei_Uri i = JSONBytesFromTree_zero)"

definition instance_entries :: "ESDTInstance \<Rightarrow> (string \<times> OJsonObject option) list" where
  "instance_entries i =
     opt (ju_Original (ei_Nonce i) \<noteq> []) ''nonce'' (uint64ToOJ (ei_Nonce i)) @
     opt (jbi_Original (ei_Balance i) \<noteq> []) ''balance'' (bigIntToOJ (ei_Balance i)) @
     opt (jbs_Original (ei_Creator i) \<noteq> []) ''creator'' (bytesFromStringToOJ (ei_Creator i)) @
     opt (ju_Original (ei_Royalties i) \<noteq> []) ''royalties'' (uint64ToOJ (ei_Royalties i)) @
     opt (jbs_Original (ei_Hash i) \<noteq> []) ''hash'' (bytesFromStringToOJ (ei_Hash i)) @
     opt (jbt_Value (ei_Uri i) \<noteq> []) ''uri'' (bytesFromTreeToOJ (ei_Uri i)) @
     opt (jbs_Original (ei_Attributes i) \<noteq> []) ''attributes'' (bytesFromStringToOJ (ei_Attributes i))"

lemma built_eq: "built m kvs \<Longrightarrow> kvs = kvs' \<Longrightarrow> built m kvs'"
  by simp

lemma instance_built: "built (appendESDTInstanceToOJ i NewMap) (instance_entries i)"
  unfolding appendESDTInstanceToOJ_def
  by (rule built_eq, (rule built_intros)+) (simp_all add: image_Un instance_entries_def)

lemma instance_reads:
  assumes "instance_ok p i" and "instance_kept i"
  shows "fold_result (\<lambda>kvp. listed_instance_field (tryProcessESDTInstanceField p kvp)) (instance_entries i) ESDTInstance_zero = ok i"
proof -
  obtain n b c r h u a where i: "i = \<lparr>ei_Nonce = n, ei_Balance = b, ei_Creator = c, ei_Royalties = r, ei_Hash = h, ei_Uri = u, ei_Attributes = a\<rparr>"
    by (cases i)
  have ok: "u64_ok p n" "big_ok p b" "str_ok p c" "u64_ok p r" "str_ok p h" "str_ok p a" "\<not> 10000 < ju_Value r"
    "jbs_Original c \<noteq> [] \<Longrightarrow> length (jbs_Value c) = 32" "jbt_Value u \<noteq> [] \<Longrightarrow> tree_ok p u"
    "jbt_Value u = [] \<Longrightarrow> u = JSONBytesFromTree_zero"
    using assms by (auto simp: i instance_ok_def instance_kept_def JSONBytesFromTree_zero_def)
  show ?thesis
    by (simp add: i instance_entries_def fold_result_append tryProcessESDTInstanceField_def listed_instance_field_def ESDTInstance_zero_def
        ok u64_empty [OF ok(1)] big_empty [OF ok(2)] str_empty [OF ok(3)] u64_empty [OF ok(4)] str_empty [OF ok(5)] str_empty [OF ok(6)]
        cong: if_cong split del: if_split)
qed

lemma direct_instance:
  "fold_result (\<lambda>kvp. listed_instance_field (tryProcessESDTInstanceField p kvp)) kvs i = ok i' \<Longrightarrow>
   fold_result (esdt_data_field p) kvs (d, i, loaded, ex) = ok (d, i', loaded \<or> kvs \<noteq> [], ex)"
  by (induction kvs arbitrary: i loaded)
    (auto simp: andThen_eq_ok listed_instance_field_def esdt_data_field_def split: if_splits)

definition esdt_ok :: "Parser \<Rightarrow> ESDTData \<Rightarrow> bool" where
  "esdt_ok p d \<longleftrightarrow> str_ok p (ed_TokenIdentifier d) \<and> list_all (instance_ok p) (ed_Instances d) \<and> u64_ok p (ed_LastNonce d) \<and>
     u64_ok p (ed_Frozen d)"

definition esdt_kept :: "ESDTData \<Rightarrow> bool" where
  "esdt_kept d \<longleftrightarrow> list_all instance_kept (ed_Instances d) \<and>
     (if isCompactESDT d
      then ed_LastNonce d = JSONUint64Zero \<and> ed_Instances d = [ESDTInstance_zero\<lparr>ei_Balance := ei_Balance (hd (ed_Instances d))\<rparr>]
      else ed_Instances d \<noteq> [ESDTInstance_zero])"

definition esdt_instances_entries :: "ESDTData \<Rightarrow> (string \<times> OJsonObject option) list" where
  "esdt_instances_entries d =
     (case ed_Instances d of
        [inst] \<Rightarrow> instance_entries inst
      | instances \<Rightarrow> [(''instances'', Some (OJsonList (map (\<lambda>inst. map_OJ (appendESDTInstanceToOJ inst NewMap)) instances)))])"

lemma instance_keys: "fst ` set (instance_entries i) \<subseteq> {''nonce'', ''balance'', ''creator'', ''royalties'', ''hash'', ''uri'', ''attributes''}"
  by (auto simp: instance_entries_def image_Un opt_def split: if_splits)

lemma instances_built:
  "built (case ed_Instances d of
      [inst] \<Rightarrow> appendESDTInstanceToOJ inst NewMap
    | instances \<Rightarrow> Put ''instances'' (Some (OJsonList (map (\<lambda>inst. map_OJ (appendESDTInstanceToOJ inst NewMap)) instances))) NewMap)
   (esdt_instances_entries d)"
  using built_Put [OF built_NewMap] instance_built
  by (auto simp: esdt_instances_entries_def split: list.splits)

lemma instances_keys:
  "fst ` set (esdt_instances_entries d) \<subseteq> {''nonce'', ''balance'', ''creator'', ''royalties'', ''hash'', ''uri'', ''attributes'', ''instances''}"
  using instance_keys by (auto simp: esdt_instances_entries_def split: list.splits)

lemma token_fields_apart:
  "''lastNonce'' \<notin> fst ` set (esdt_instances_entries d)" "''roles'' \<notin> fst ` set (esdt_instances_entries d)"
  "''frozen'' \<notin> fst ` set (esdt_instances_entries d)"
  using instances_keys [of d] by auto

lemma listed_instances_read:
  assumes "list_all (instance_ok p) insts" and "list_all instance_kept insts"
  shows "processESDTInstances p (Some (OJsonList (map (\<lambda>inst. map_OJ (appendESDTInstanceToOJ inst NewMap)) insts))) = ok insts"
  unfolding processESDTInstances_def read_list_items
  by (rule map_result_map, rule read_built [OF instance_built], rule instance_reads)
    (use assms in \<open>auto simp: list_all_iff\<close>)

lemma no_entries: "instance_ok p i \<Longrightarrow> instance_kept i \<Longrightarrow> instance_entries i = [] \<Longrightarrow> i = ESDTInstance_zero"
  using instance_reads [of p i] by simp

lemma instances_read:
  assumes "esdt_ok p d" and "esdt_kept d" and "\<not> isCompactESDT d"
  shows "\<exists>inst loaded ex. fold_result (esdt_data_field p) (esdt_instances_entries d) (e, ESDTInstance_zero, False, []) = ok (e, inst, loaded, ex)
    \<and> (if loaded then [inst] else []) @ ex = ed_Instances d"
proof (cases "\<exists>inst. ed_Instances d = [inst]")
  case True
  then obtain inst where inst: "ed_Instances d = [inst]" by blast
  then have "instance_ok p inst" "instance_kept inst" "inst \<noteq> ESDTInstance_zero" using assms by (auto simp: esdt_ok_def esdt_kept_def)
  with direct_instance [OF instance_reads] no_entries inst show ?thesis by (fastforce simp: esdt_instances_entries_def)
next
  case False
  then have "esdt_instances_entries d =
      [(''instances'', Some (OJsonList (map (\<lambda>inst. map_OJ (appendESDTInstanceToOJ inst NewMap)) (ed_Instances d))))]"
    by (auto simp: esdt_instances_entries_def split: list.splits)
  moreover have "processESDTInstances p (Some (OJsonList (map (\<lambda>inst. map_OJ (appendESDTInstanceToOJ inst NewMap)) (ed_Instances d)))) = ok (ed_Instances d)"
    using assms by (intro listed_instances_read) (auto simp: esdt_ok_def esdt_kept_def)
  ultimately show ?thesis
    by (auto simp: esdt_data_field_def tryProcessESDTInstanceField_def)
qed

lemma roles_read [simp]: "processStringList (Some (roles_OJ roles)) = ok roles"
  unfolding processStringList_def roles_OJ_def read_list_items by (rule map_result_map) simp

lemma esdt_full_reads:
  assumes "esdt_ok p d" and "esdt_kept d" and "\<not> isCompactESDT d"
  shows "processESDTDataMap p (ed_TokenIdentifier d)
    (((esdt_instances_entries d @ opt (ju_Original (ed_LastNonce d) \<noteq> []) ''lastNonce'' (uint64ToOJ (ed_LastNonce d)))
      @ opt (ed_Roles d \<noteq> []) ''roles'' (Some (roles_OJ (ed_Roles d))))
      @ opt (ju_Original (ed_Frozen d) \<noteq> []) ''frozen'' (uint64ToOJ (ed_Frozen d))) = ok d"
proof -
  obtain t insts n r f where d: "d = \<lparr>ed_TokenIdentifier = t, ed_Instances = insts, ed_LastNonce = n, ed_Roles = r, ed_Frozen = f\<rparr>" by (cases d)
  have ok: "u64_ok p n" "u64_ok p f" using assms(1) by (simp_all add: d esdt_ok_def)
  obtain inst loaded ex where inst:
    "fold_result (esdt_data_field p) (esdt_instances_entries d) (ESDTData_zero t, ESDTInstance_zero, False, []) =
       ok (ESDTData_zero t, inst, loaded, ex)"
    "(if loaded then [inst] else []) @ ex = insts"
    using instances_read [OF assms] by (fastforce simp: d)
  show ?thesis
    using inst
    by (simp add: processESDTDataMap_def fold_result_append d split del: if_split)
      (simp add: fold_result_append esdt_data_field_def tryProcessESDTInstanceField_def ESDTData_zero_def ok u64_empty [OF ok(1)] u64_empty [OF ok(2)]
       cong: if_cong split del: if_split)
qed

lemma esdt_reads:
  assumes "esdt_ok p d" and "esdt_kept d"
  shows "processESDTData p (ed_TokenIdentifier d) (esdtItemToOJ d) = ok d"
proof (cases "isCompactESDT d")
  case True
  obtain t insts n r f where d: "d = \<lparr>ed_TokenIdentifier = t, ed_Instances = insts, ed_LastNonce = n, ed_Roles = r, ed_Frozen = f\<rparr>" by (cases d)
  obtain b where b: "insts = [ESDTInstance_zero\<lparr>ei_Balance := b\<rparr>]" "n = JSONUint64Zero" using assms(2) True by (auto simp: d esdt_kept_def)
  have ok: "big_ok p b" "u64_ok p f" using assms(1) by (auto simp: d b esdt_ok_def instance_ok_def)
  have "r = []" "ju_Original f = []" using True by (auto simp: d b isCompactESDT_def)
  with True ok show ?thesis
    using ok(1) [unfolded big_ok_def bigIntToOJ_def] u64_empty [OF ok(2)]
    by (simp add: d b esdtItemToOJ_def bigIntToOJ_def processESDTData_def ESDTData_zero_def)
next
  case False
  have "built (put_if (length (ju_Original (ed_Frozen d)) > 0) ''frozen'' (uint64ToOJ (ed_Frozen d))
        (put_if (length (ed_Roles d) > 0) ''roles'' (Some (roles_OJ (ed_Roles d)))
        (put_if (length (ju_Original (ed_LastNonce d)) > 0) ''lastNonce'' (uint64ToOJ (ed_LastNonce d))
        (case ed_Instances d of
           [inst] \<Rightarrow> appendESDTInstanceToOJ inst NewMap
         | instances \<Rightarrow>
             Put ''instances'' (Some (OJsonList (map (\<lambda>inst. map_OJ (appendESDTInstanceToOJ inst NewMap)) instances))) NewMap))))
     (((esdt_instances_entries d @ opt (ju_Original (ed_LastNonce d) \<noteq> []) ''lastNonce'' (uint64ToOJ (ed_LastNonce d)))
      @ opt (ed_Roles d \<noteq> []) ''roles'' (Some (roles_OJ (ed_Roles d))))
      @ opt (ju_Original (ed_Frozen d) \<noteq> []) ''frozen'' (uint64ToOJ (ed_Frozen d)))"
    by (rule built_eq, (rule built_put_if)+, rule instances_built) (simp_all add: image_Un token_fields_apart)
  then show ?thesis
    using esdt_full_reads [OF assms False] False by (simp add: esdtItemToOJ_def processESDTData_def map_OJ_def built_def)
qed

section \<open>Expected tokens\<close>

lemma specified:
  "cbytes_ok p cb \<Longrightarrow> \<not> jcb_Unspecified cb" "cu64_ok p cu \<Longrightarrow> \<not> jcu_Unspecified cu" "cbig_ok p format ci \<Longrightarrow> \<not> jci_Unspecified ci"
  by (auto simp: cbytes_ok_def parseCheckBytes_def JSONCheckBytesStar_def cu64_ok_def processCheckUint64_def cbig_ok_def
      processCheckBigInt_def setting_eq_ok split: if_splits)

lemma unspecified [simp]:
  "jcb_Unspecified JSONCheckBytesUnspecified" "jcb_Value JSONCheckBytesUnspecified = []"
  "jcu_Unspecified JSONCheckUint64Unspecified" "jcu_Original JSONCheckUint64Unspecified = []"
  "jci_Unspecified JSONCheckBigIntUnspecified" "jci_Original JSONCheckBigIntUnspecified = []"
  by (simp_all add: JSONCheckBytesUnspecified_def JSONCheckUint64Unspecified_def JSONCheckBigIntUnspecified_def)

definition cbytes_given :: "Parser \<Rightarrow> JSONCheckBytes \<Rightarrow> bool" where
  "cbytes_given p v \<longleftrightarrow> v = JSONCheckBytesUnspecified \<or> cbytes_ok p v"

definition cu64_given :: "Parser \<Rightarrow> JSONCheckUint64 \<Rightarrow> bool" where
  "cu64_given p v \<longleftrightarrow> v = JSONCheckUint64Unspecified \<or> cu64_ok p v"

definition cbig_given :: "Parser \<Rightarrow> bigIntParseFormat \<Rightarrow> JSONCheckBigInt \<Rightarrow> bool" where
  "cbig_given p format v \<longleftrightarrow> v = JSONCheckBigIntUnspecified \<or> cbig_ok p format v"

definition short_check :: "JSONCheckBigInt \<Rightarrow> CheckESDTInstance" where
  "short_check balance = \<lparr>cei_Nonce = JSONCheckUint64_zero, cei_Balance = balance, cei_Creator = JSONCheckBytes_zero,
     cei_Royalties = JSONCheckUint64_zero, cei_Hash = JSONCheckBytes_zero, cei_Uri = JSONCheckBytes_zero,
     cei_Attributes = JSONCheckBytes_zero\<rparr>"

definition check_instance_ok :: "Parser \<Rightarrow> CheckESDTInstance \<Rightarrow> bool" where
  "check_instance_ok p i \<longleftrightarrow> cu64_given p (cei_Nonce i) \<and> cbig_given p bigIntUnsignedBytes (cei_Balance i) \<and> cbytes_given p (cei_Creator i) \<and>
     cu64_given p (cei_Royalties i) \<and> jcu_Value (cei_Royalties i) \<le> 10000 \<and> cbytes_given p (cei_Hash i) \<and> cbytes_given p (cei_Uri i) \<and>
     cbytes_given p (cei_Attributes i)"

definition check_instance_kept :: "CheckESDTInstance \<Rightarrow> bool" where
  "check_instance_kept i \<longleftrightarrow>
     (jcu_Original (cei_Nonce i) = [] \<longrightarrow> cei_Nonce i = JSONCheckUint64Unspecified) \<and>
     (jci_Original (cei_Balance i) = [] \<longrightarrow> cei_Balance i = JSONCheckBigIntUnspecified) \<and>
     (jcu_Original (cei_Royalties i) = [] \<longrightarrow> cei_Royalties i = JSONCheckUint64Unspecified) \<and>
     (jcb_Value (cei_Creator i) = [] \<longrightarrow> cei_Creator i = JSONCheckBytesUnspecified) \<and>
     (jcb_Value (cei_Hash i) = [] \<longrightarrow> cei_Hash i = JSONCheckBytesUnspecified) \<and>
     (cei_Uri i = JSONCheckBytesUnspecified \<or> cei_Uri i = cei_Creator i) \<and>
     (jcb_Value (cei_Attributes i) = [] \<longrightarrow> cei_Attributes i = JSONCheckBytesUnspecified)"

definition has_bytes :: "JSONCheckBytes \<Rightarrow> bool" where
  "has_bytes v \<longleftrightarrow> \<not> jcb_Unspecified v \<and> jcb_Value v \<noteq> []"

definition has_number :: "JSONCheckUint64 \<Rightarrow> bool" where
  "has_number v \<longleftrightarrow> \<not> jcu_Unspecified v \<and> jcu_Original v \<noteq> []"

definition check_instance_entries :: "CheckESDTInstance \<Rightarrow> (string \<times> OJsonObject option) list" where
  "check_instance_entries i =
     opt (jcu_Original (cei_Nonce i) \<noteq> []) ''nonce'' (checkUint64ToOJ (cei_Nonce i)) @
     opt (jci_Original (cei_Balance i) \<noteq> []) ''balance'' (checkBigIntToOJ (cei_Balance i)) @
     opt (has_bytes (cei_Creator i)) ''creator'' (checkBytesToOJ (cei_Creator i)) @
     opt (has_number (cei_Royalties i)) ''royalties'' (checkUint64ToOJ (cei_Royalties i)) @
     opt (has_bytes (cei_Hash i)) ''hash'' (checkBytesToOJ (cei_Hash i)) @
     opt (has_bytes (cei_Uri i)) ''uri'' (checkBytesToOJ (cei_Creator i)) @
     opt (has_bytes (cei_Attributes i)) ''attributes'' (checkBytesToOJ (cei_Attributes i))"

lemma check_instance_built: "built (appendCheckESDTInstanceToOJ i NewMap) (check_instance_entries i)"
  unfolding appendCheckESDTInstanceToOJ_def
  by (rule built_eq, (rule built_intros)+) (simp_all add: image_Un check_instance_entries_def has_bytes_def has_number_def)

lemma given_bytes: "cbytes_given p v \<Longrightarrow> jcb_Value v = [] \<longrightarrow> v = JSONCheckBytesUnspecified \<Longrightarrow>
   (has_bytes v \<longrightarrow> cbytes_ok p v) \<and> (\<not> has_bytes v \<longrightarrow> JSONCheckBytesUnspecified = v)"
  using specified(1) by (auto simp: cbytes_given_def has_bytes_def)

lemma given_u64: "cu64_given p v \<Longrightarrow> jcu_Original v = [] \<longrightarrow> v = JSONCheckUint64Unspecified \<Longrightarrow>
   (has_number v \<longleftrightarrow> jcu_Original v \<noteq> []) \<and> (jcu_Original v \<noteq> [] \<longrightarrow> cu64_ok p v) \<and> (jcu_Original v = [] \<longrightarrow> JSONCheckUint64Unspecified = v)"
  using specified(2) by (auto simp: cu64_given_def has_number_def)

lemma given_big: "cbig_given p format v \<Longrightarrow> jci_Original v = [] \<longrightarrow> v = JSONCheckBigIntUnspecified \<Longrightarrow>
   (jci_Original v \<noteq> [] \<longrightarrow> cbig_ok p format v) \<and> (jci_Original v = [] \<longrightarrow> JSONCheckBigIntUnspecified = v)"
  using specified(3) by (auto simp: cbig_given_def)

lemma check_instance_reads:
  assumes "check_instance_ok p i" and "check_instance_kept i"
  shows "fold_result (\<lambda>kvp. listed_instance_field (tryProcessCheckESDTInstanceField p kvp)) (check_instance_entries i) NewCheckESDTInstance = ok i"
proof -
  obtain n b c r h u a where i: "i = \<lparr>cei_Nonce = n, cei_Balance = b, cei_Creator = c, cei_Royalties = r, cei_Hash = h, cei_Uri = u, cei_Attributes = a\<rparr>"
    by (cases i)
  have given: "cu64_given p n" "cbig_given p bigIntUnsignedBytes b" "cbytes_given p c" "cu64_given p r" "cbytes_given p h" "cbytes_given p u"
    "cbytes_given p a" "\<not> 10000 < jcu_Value r"
    using assms(1) by (auto simp: i check_instance_ok_def)
  have kept: "jcu_Original n = [] \<longrightarrow> n = JSONCheckUint64Unspecified" "jci_Original b = [] \<longrightarrow> b = JSONCheckBigIntUnspecified"
    "jcb_Value c = [] \<longrightarrow> c = JSONCheckBytesUnspecified" "jcu_Original r = [] \<longrightarrow> r = JSONCheckUint64Unspecified"
    "jcb_Value h = [] \<longrightarrow> h = JSONCheckBytesUnspecified" "jcb_Value u = [] \<longrightarrow> u = JSONCheckBytesUnspecified"
    "jcb_Value a = [] \<longrightarrow> a = JSONCheckBytesUnspecified"
    "u \<noteq> JSONCheckBytesUnspecified \<longrightarrow> u = c"
    using assms(2) by (auto simp: i check_instance_kept_def)
  note ok = given_u64 [OF given(1) kept(1)] given_big [OF given(2) kept(2)] given_bytes [OF given(3) kept(3)]
    given_u64 [OF given(4) kept(4)] given_bytes [OF given(5) kept(5)] given_bytes [OF given(6) kept(6)] given_bytes [OF given(7) kept(7)]
  have uri: "has_bytes u \<longrightarrow> parseCheckBytes p (checkBytesToOJ c) = ok u" using ok(6) kept(8) by (auto simp: has_bytes_def)
  show ?thesis
    using ok uri
    by (simp add: i check_instance_entries_def fold_result_append tryProcessCheckESDTInstanceField_def listed_instance_field_def
        NewCheckESDTInstance_def given(8) cong: if_cong split del: if_split)
qed

lemma direct_check_instance:
  "fold_result (\<lambda>kvp. listed_instance_field (tryProcessCheckESDTInstanceField p kvp)) kvs i = ok i' \<Longrightarrow>
   fold_result (check_esdt_data_field p) kvs (d, i, loaded, ex) = ok (d, i', loaded \<or> kvs \<noteq> [], ex)"
  by (induction kvs arbitrary: i loaded)
    (auto simp: andThen_eq_ok listed_instance_field_def check_esdt_data_field_def split: if_splits)

definition check_esdt_ok :: "Parser \<Rightarrow> CheckESDTData \<Rightarrow> bool" where
  "check_esdt_ok p d \<longleftrightarrow> str_ok p (ced_TokenIdentifier d) \<and> cu64_ok p (ced_LastNonce d) \<and> cu64_ok p (ced_Frozen d) \<and>
     (list_all (check_instance_ok p) (ced_Instances d) \<or>
      (\<exists>b. cbig_ok p bigIntUnsignedBytes b \<and> d = (CheckESDTData_zero (ced_TokenIdentifier d))\<lparr>ced_Instances := [short_check b]\<rparr>))"

definition check_esdt_kept :: "CheckESDTData \<Rightarrow> bool" where
  "check_esdt_kept d \<longleftrightarrow>
     (if isCompactCheckESDT d
      then d = (CheckESDTData_zero (ced_TokenIdentifier d))\<lparr>ced_Instances := [short_check (cei_Balance (hd (ced_Instances d)))]\<rparr>
      else list_all check_instance_kept (ced_Instances d) \<and> ced_Instances d \<noteq> [NewCheckESDTInstance])"

definition check_instances_entries :: "CheckESDTData \<Rightarrow> (string \<times> OJsonObject option) list" where
  "check_instances_entries d =
     (case ced_Instances d of
        [inst] \<Rightarrow> check_instance_entries inst
      | instances \<Rightarrow> [(''instances'', Some (OJsonList (map (\<lambda>inst. map_OJ (appendCheckESDTInstanceToOJ inst NewMap)) instances)))])"

lemma check_instance_keys: "fst ` set (check_instance_entries i) \<subseteq> {''nonce'', ''balance'', ''creator'', ''royalties'', ''hash'', ''uri'', ''attributes''}"
  by (auto simp: check_instance_entries_def image_Un opt_def split: if_splits)

lemma check_instances_built:
  "built (case ced_Instances d of
      [inst] \<Rightarrow> appendCheckESDTInstanceToOJ inst NewMap
    | instances \<Rightarrow> Put ''instances'' (Some (OJsonList (map (\<lambda>inst. map_OJ (appendCheckESDTInstanceToOJ inst NewMap)) instances))) NewMap)
   (check_instances_entries d)"
  using built_Put [OF built_NewMap] check_instance_built
  by (auto simp: check_instances_entries_def split: list.splits)

lemma check_instances_keys:
  "fst ` set (check_instances_entries d) \<subseteq> {''nonce'', ''balance'', ''creator'', ''royalties'', ''hash'', ''uri'', ''attributes'', ''instances''}"
  using check_instance_keys by (auto simp: check_instances_entries_def split: list.splits)

lemma check_token_fields_apart:
  "''lastNonce'' \<notin> fst ` set (check_instances_entries d)" "''roles'' \<notin> fst ` set (check_instances_entries d)"
  "''frozen'' \<notin> fst ` set (check_instances_entries d)"
  using check_instances_keys [of d] by auto

lemma listed_check_instances_read:
  assumes "list_all (check_instance_ok p) insts" and "list_all check_instance_kept insts"
  shows "processCheckESDTInstances p (Some (OJsonList (map (\<lambda>inst. map_OJ (appendCheckESDTInstanceToOJ inst NewMap)) insts))) = ok insts"
  unfolding processCheckESDTInstances_def read_list_items
  by (rule map_result_map, rule read_built [OF check_instance_built], rule check_instance_reads)
    (use assms in \<open>auto simp: list_all_iff\<close>)

lemma short_form_compact: "isCompactCheckESDT ((CheckESDTData_zero t)\<lparr>ced_Instances := [short_check b]\<rparr>)"
  by (simp add: isCompactCheckESDT_def CheckESDTData_zero_def short_check_def JSONCheckUint64_zero_def)

lemma full_check_instances:
  "check_esdt_ok p d \<Longrightarrow> \<not> isCompactCheckESDT d \<Longrightarrow> list_all (check_instance_ok p) (ced_Instances d)"
  unfolding check_esdt_ok_def by (metis short_form_compact)

lemma check_instances_read:
  assumes "check_esdt_ok p d" and "check_esdt_kept d" and "\<not> isCompactCheckESDT d"
  shows "\<exists>inst loaded ex. fold_result (check_esdt_data_field p) (check_instances_entries d) (e, NewCheckESDTInstance, False, []) = ok (e, inst, loaded, ex)
    \<and> (if loaded then [inst] else []) @ ex = ced_Instances d"
proof (cases "\<exists>inst. ced_Instances d = [inst]")
  case True
  then obtain inst where inst: "ced_Instances d = [inst]" by blast
  have ok: "check_instance_ok p inst" "check_instance_kept inst" "inst \<noteq> NewCheckESDTInstance"
    using assms full_check_instances [OF assms(1,3)] by (auto simp: check_esdt_kept_def inst)
  note read = check_instance_reads [OF ok(1,2)]
  then have "check_instance_entries inst \<noteq> []" using ok(3) by auto
  with direct_check_instance [OF read] inst show ?thesis by (fastforce simp: check_instances_entries_def)
next
  case False
  then have "check_instances_entries d =
      [(''instances'', Some (OJsonList (map (\<lambda>inst. map_OJ (appendCheckESDTInstanceToOJ inst NewMap)) (ced_Instances d))))]"
    by (auto simp: check_instances_entries_def split: list.splits)
  moreover have "processCheckESDTInstances p (Some (OJsonList (map (\<lambda>inst. map_OJ (appendCheckESDTInstanceToOJ inst NewMap)) (ced_Instances d)))) =
      ok (ced_Instances d)"
    using assms full_check_instances [OF assms(1,3)] by (intro listed_check_instances_read) (auto simp: check_esdt_kept_def)
  ultimately show ?thesis
    by (auto simp: check_esdt_data_field_def tryProcessCheckESDTInstanceField_def)
qed

lemma cu64_empty: "cu64_ok p v \<Longrightarrow> jcu_Original v = [] \<Longrightarrow> v = JSONCheckUint64_zero"
  by (cases v) (auto simp: cu64_ok_def processCheckUint64_def processUint64_def processBigInt_def parseBigInt_def checkUint64ToOJ_def
      JSONCheckUint64_zero_def big_SetBytes_def IsStar_def split: if_splits)

lemma check_esdt_full_reads:
  assumes "check_esdt_ok p d" and "check_esdt_kept d" and "\<not> isCompactCheckESDT d"
  shows "processCheckESDTDataMap p (ced_TokenIdentifier d)
    (((check_instances_entries d @ opt (jcu_Original (ced_LastNonce d) \<noteq> []) ''lastNonce'' (checkUint64ToOJ (ced_LastNonce d)))
      @ opt (ced_Roles d \<noteq> []) ''roles'' (Some (roles_OJ (ced_Roles d))))
      @ opt (jcu_Original (ced_Frozen d) \<noteq> []) ''frozen'' (checkUint64ToOJ (ced_Frozen d))) = ok d"
proof -
  obtain t insts n r f where d: "d = \<lparr>ced_TokenIdentifier = t, ced_Instances = insts, ced_LastNonce = n, ced_Roles = r, ced_Frozen = f\<rparr>" by (cases d)
  have ok: "cu64_ok p n" "cu64_ok p f" using assms(1) by (simp_all add: d check_esdt_ok_def)
  obtain inst loaded ex where inst:
    "fold_result (check_esdt_data_field p) (check_instances_entries d) (CheckESDTData_zero t, NewCheckESDTInstance, False, []) =
       ok (CheckESDTData_zero t, inst, loaded, ex)"
    "(if loaded then [inst] else []) @ ex = insts"
    using check_instances_read [OF assms] by (fastforce simp: d)
  show ?thesis
    using inst
    by (simp add: processCheckESDTDataMap_def fold_result_append d split del: if_split)
      (simp add: fold_result_append check_esdt_data_field_def tryProcessCheckESDTInstanceField_def CheckESDTData_zero_def ok
       cu64_empty [OF ok(1)] cu64_empty [OF ok(2)] cong: if_cong split del: if_split)
qed

lemma short_not_full: "\<not> check_instance_ok p (short_check b)"
  by (auto simp: check_instance_ok_def short_check_def cbytes_given_def JSONCheckBytes_zero_def JSONCheckBytesUnspecified_def cbytes_ok_def
      checkBytesToOJ_def check_OriginalEmpty_def is_empty_string_def parseCheckBytes_def IsStar_def processSubTreeAsByteArray_def setting_eq_ok)

lemma check_esdt_reads:
  assumes "check_esdt_ok p d" and "check_esdt_kept d"
  shows "processCheckESDTData p (ced_TokenIdentifier d) (checkESDTItemToOJ d) = ok d"
proof (cases "isCompactCheckESDT d")
  case True
  then obtain t b where d: "d = (CheckESDTData_zero t)\<lparr>ced_Instances := [short_check b]\<rparr>" using assms(2) by (auto simp: check_esdt_kept_def)
  have "cbig_ok p bigIntUnsignedBytes b"
    using assms(1) short_not_full [of p b] by (auto simp: d check_esdt_ok_def CheckESDTData_zero_def short_check_def)
  then have "processCheckBigInt p (Some (OJsonString (jci_Original b))) bigIntUnsignedBytes = ok b" by (simp add: cbig_ok_def checkBigIntToOJ_def)
  with True show ?thesis
    by (simp add: d checkESDTItemToOJ_def checkBigIntToOJ_def processCheckESDTData_def CheckESDTData_zero_def short_check_def)
next
  case False
  have "built (put_if (length (jcu_Original (ced_Frozen d)) > 0) ''frozen'' (checkUint64ToOJ (ced_Frozen d))
        (put_if (length (ced_Roles d) > 0) ''roles'' (Some (roles_OJ (ced_Roles d)))
        (put_if (length (jcu_Original (ced_LastNonce d)) > 0) ''lastNonce'' (checkUint64ToOJ (ced_LastNonce d))
        (case ced_Instances d of
           [inst] \<Rightarrow> appendCheckESDTInstanceToOJ inst NewMap
         | instances \<Rightarrow>
             Put ''instances'' (Some (OJsonList (map (\<lambda>inst. map_OJ (appendCheckESDTInstanceToOJ inst NewMap)) instances))) NewMap))))
     (((check_instances_entries d @ opt (jcu_Original (ced_LastNonce d) \<noteq> []) ''lastNonce'' (checkUint64ToOJ (ced_LastNonce d)))
      @ opt (ced_Roles d \<noteq> []) ''roles'' (Some (roles_OJ (ced_Roles d))))
      @ opt (jcu_Original (ced_Frozen d) \<noteq> []) ''frozen'' (checkUint64ToOJ (ced_Frozen d)))"
    by (rule built_eq, (rule built_put_if)+, rule check_instances_built) (simp_all add: image_Un check_token_fields_apart)
  then show ?thesis
    using check_esdt_full_reads [OF assms False] False by (simp add: checkESDTItemToOJ_def processCheckESDTData_def map_OJ_def built_def)
qed

section \<open>Accounts\<close>

lemma fold_entries:
  "(\<And>x s. x \<in> set xs \<Longrightarrow> step (entry x) s = ok (upd x s)) \<Longrightarrow> fold_result step (map entry xs) s = ok (fold upd xs s)"
  by (induction xs arbitrary: s) auto

lemma read_fold:
  assumes "distinct (map key xs)" and "\<And>x s. x \<in> set xs \<Longrightarrow> step (key x, val x) s = ok (upd x s)"
  shows "read_map msg step start (Some (map_OJ (fold (\<lambda>x. Put (key x) (val x)) xs NewMap))) = ok (fold upd xs start)"
  using built_fold [OF built_NewMap assms(1), of val] fold_entries [where entry = "\<lambda>x. (key x, val x)" and step = step and upd = upd, OF assms(2)]
  by (auto intro: read_built)

text \<open>The same with an entry \<open>+\<close> at the end.\<close>

lemma read_fold_more:
  assumes "distinct (map key xs)" and "''+'' \<notin> key ` set xs" and "\<And>x s. x \<in> set xs \<Longrightarrow> step (key x, val x) s = ok (upd x s)"
    and "\<And>s. step (''+'', stringToOJ []) s = ok (mark s)"
  shows "read_map msg step start (Some (map_OJ (put_if c ''+'' (stringToOJ []) (fold (\<lambda>x. Put (key x) (val x)) xs NewMap)))) =
    ok (if c then mark (fold upd xs start) else fold upd xs start)"
proof -
  have "built (put_if c ''+'' (stringToOJ []) (fold (\<lambda>x. Put (key x) (val x)) xs NewMap)) (map (\<lambda>x. (key x, val x)) xs @ opt c ''+'' (stringToOJ []))"
    using built_fold [OF built_NewMap assms(1), of val] assms(2) by (intro built_put_if) auto
  moreover have "fold_result step (map (\<lambda>x. (key x, val x)) xs @ opt c ''+'' (stringToOJ [])) start =
      ok (if c then mark (fold upd xs start) else fold upd xs start)"
    using fold_entries [where entry = "\<lambda>x. (key x, val x)" and step = step and upd = upd, OF assms(3)]
    by (simp add: fold_result_append assms(4))
  ultimately show ?thesis by (rule read_built)
qed

definition storage_ok :: "Parser \<Rightarrow> StorageKeyValuePair \<Rightarrow> bool" where
  "storage_ok p st \<longleftrightarrow> str_ok p (skv_Key st) \<and> tree_ok p (skv_Value st)"

definition account_ok :: "Parser \<Rightarrow> ScenAccount \<Rightarrow> bool" where
  "account_ok p a \<longleftrightarrow> addr_ok p (sac_Address a) \<and> u64_ok p (sac_Shard a) \<and> \<not> sac_IsSmartContract a \<and> u64_ok p (sac_Nonce a) \<and>
     big_ok p (sac_Balance a) \<and> str_ok p (sac_Username a) \<and> list_all (storage_ok p) (sac_Storage a) \<and> str_ok p (sac_Code a) \<and>
     str_ok p (sac_Owner a) \<and> list_all (esdt_ok p) (sac_ESDTData a)"

definition account_kept :: "ScenAccount \<Rightarrow> bool" where
  "account_kept a \<longleftrightarrow> sac_Shard a = JSONUint64Zero \<and>
     (jbs_Value (sac_Username a) = [] \<longrightarrow> jbs_Original (sac_Username a) = []) \<and>
     (jbs_Value (sac_Owner a) = [] \<longrightarrow> jbs_Original (sac_Owner a) = []) \<and>
     distinct (map (\<lambda>st. bytesFromStringToString (skv_Key st)) (sac_Storage a)) \<and>
     distinct (map (\<lambda>d. jbs_Original (ed_TokenIdentifier d)) (sac_ESDTData a)) \<and> list_all esdt_kept (sac_ESDTData a)"

lemma str_blank: "str_ok p v \<Longrightarrow> (jbs_Value v = [] \<longrightarrow> jbs_Original v = []) \<Longrightarrow> jbs_Value v = [] \<Longrightarrow> NewJSONBytesFromString [] [] = v"
  by (cases v) (auto simp: NewJSONBytesFromString_def)

lemma token_name: "str_ok p t \<Longrightarrow> interpret_text p (jbs_Original t) = ok (jbs_Value t) \<and> NewJSONBytesFromString (jbs_Value t) (jbs_Original t) = t"
  by (simp add: str_ok_iff NewJSONBytesFromString_def)

lemma fold_tokens: "fold (\<lambda>d a. a\<lparr>sac_ESDTData := sac_ESDTData a @ [d]\<rparr>) ds a = a\<lparr>sac_ESDTData := sac_ESDTData a @ ds\<rparr>"
  by (induction ds arbitrary: a) auto

lemma fold_storage: "fold (\<lambda>d a. a\<lparr>sac_Storage := sac_Storage a @ [d]\<rparr>) ds a = a\<lparr>sac_Storage := sac_Storage a @ ds\<rparr>"
  by (induction ds arbitrary: a) auto

lemma tokens_read:
  assumes "list_all (esdt_ok p) ds" and "list_all esdt_kept ds" and "distinct (map (\<lambda>d. jbs_Original (ed_TokenIdentifier d)) ds)"
  shows "read_map msg (account_esdt_field p) a (Some (esdtDataToOJ ds)) = ok (a\<lparr>sac_ESDTData := sac_ESDTData a @ ds\<rparr>)"
  unfolding esdtDataToOJ_def
  by (rule trans [OF read_fold [OF assms(3), where upd = "\<lambda>d a. a\<lparr>sac_ESDTData := sac_ESDTData a @ [d]\<rparr>"]])
    (use assms(1,2) in \<open>auto simp: fold_tokens account_esdt_field_def list_all_iff esdt_reads token_name esdt_ok_def\<close>)

lemma storage_reads:
  assumes "list_all (storage_ok p) sts" and "distinct (map (\<lambda>st. bytesFromStringToString (skv_Key st)) sts)"
  shows "read_map msg (account_storage_field p) a
    (Some (map_OJ (fold (\<lambda>st. Put (bytesFromStringToString (skv_Key st)) (bytesFromTreeToOJ (skv_Value st))) sts NewMap))) =
    ok (a\<lparr>sac_Storage := sac_Storage a @ sts\<rparr>)"
  by (rule trans [OF read_fold [OF assms(2), where upd = "\<lambda>d a. a\<lparr>sac_Storage := sac_Storage a @ [d]\<rparr>"]])
    (use assms(1) in \<open>auto simp: fold_storage account_storage_field_def list_all_iff storage_ok_def str_key str_remake\<close>)

lemma account_reads:
  assumes "account_ok p a" and "account_kept a"
  shows "processAccount p (Some (accountToOJ a)) = ok (a\<lparr>sac_Address := NewJSONBytesFromString [] []\<rparr>)"
proof -
  obtain ad sh sc co n b u st c ow ac es where a: "a = \<lparr>sac_Address = ad, sac_Shard = sh, sac_IsSmartContract = sc, sac_Comment = co,
      sac_Nonce = n, sac_Balance = b, sac_Username = u, sac_Storage = st, sac_Code = c, sac_Owner = ow, sac_AsyncCallData = ac, sac_ESDTData = es\<rparr>"
    by (cases a)
  have ok: "u64_ok p n" "big_ok p b" "str_ok p u" "str_ok p c" "str_ok p ow" "sc = False" "sh = JSONUint64Zero"
    using assms by (auto simp: a account_ok_def account_kept_def)
  have blank: "jbs_Value u = [] \<Longrightarrow> NewJSONBytesFromString [] [] = u" "jbs_Value ow = [] \<Longrightarrow> NewJSONBytesFromString [] [] = ow"
    using assms by (auto simp: a account_ok_def account_kept_def intro: str_blank)
  have es: "read_map ''invalid ESDT map'' (account_esdt_field p) x (Some (esdtDataToOJ es)) = ok (x\<lparr>sac_ESDTData := sac_ESDTData x @ es\<rparr>)" for x
    using assms by (intro tokens_read) (auto simp: a account_ok_def account_kept_def)
  have st: "read_map ''invalid account storage'' (account_storage_field p) x
      (Some (map_OJ (fold (\<lambda>st. Put (bytesFromStringToString (skv_Key st)) (bytesFromTreeToOJ (skv_Value st))) st NewMap))) =
      ok (x\<lparr>sac_Storage := sac_Storage x @ st\<rparr>)" for x
    using assms by (intro storage_reads) (auto simp: a account_ok_def account_kept_def)
  show ?thesis
    unfolding processAccount_def accountToOJ_def Let_def
    by (rule read_built, (rule built_intros)+)
      (simp_all add: image_Un a fold_result_append account_field_def ScenAccount_zero_def ok es st blank cong: if_cong split del: if_split)
qed

definition accounts_kept :: "ScenAccount list \<Rightarrow> bool" where
  "accounts_kept as \<longleftrightarrow> list_all account_kept as \<and> distinct (map (\<lambda>a. bytesFromStringToString (sac_Address a)) as)"

lemma fold_snoc: "fold (\<lambda>x xs. xs @ [x]) ys xs = xs @ ys"
  by (induction ys arbitrary: xs) auto

lemma accounts_read:
  assumes "list_all (account_ok p) as" and "accounts_kept as"
  shows "processAccountMap p (Some (AccountsToOJ as)) = ok as"
proof -
  have keys: "distinct (map (\<lambda>a. bytesFromStringToString (sac_Address a)) as)" using assms(2) by (simp add: accounts_kept_def)
  have entry: "account_entry p (bytesFromStringToString (sac_Address a), Some (accountToOJ a)) accts = ok (accts @ [a])" if "a \<in> set as" for a accts
  proof -
    have "account_ok p a" "account_kept a" "addr_ok p (sac_Address a)"
      using assms that by (auto simp: accounts_kept_def list_all_iff account_ok_def)
    then show ?thesis by (simp add: account_entry_def account_reads)
  qed
  show ?thesis
    unfolding processAccountMap_def AccountsToOJ_def
    by (rule trans [OF read_fold [OF keys, where upd = "\<lambda>x xs. xs @ [x]"]]) (simp_all add: entry fold_snoc)
qed

section \<open>Expected accounts\<close>

lemma given_check_bytes: "cbytes_given p v \<Longrightarrow> (jcb_Unspecified v \<longrightarrow> JSONCheckBytesUnspecified = v) \<and> (\<not> jcb_Unspecified v \<longrightarrow> cbytes_ok p v)"
  using specified(1) by (auto simp: cbytes_given_def)

lemma given_check_u64: "cu64_given p v \<Longrightarrow> (jcu_Unspecified v \<longrightarrow> JSONCheckUint64Unspecified = v) \<and> (\<not> jcu_Unspecified v \<longrightarrow> cu64_ok p v)"
  using specified(2) by (auto simp: cu64_given_def)

lemma given_check_big:
  "cbig_given p format v \<Longrightarrow> (jci_Unspecified v \<longrightarrow> JSONCheckBigIntUnspecified = v) \<and> (\<not> jci_Unspecified v \<longrightarrow> cbig_ok p format v)"
  using specified(3) by (auto simp: cbig_given_def)

lemmas given_checks = given_check_bytes given_check_u64 given_check_big

definition check_storage_ok :: "Parser \<Rightarrow> CheckStorageKeyValuePair \<Rightarrow> bool" where
  "check_storage_ok p st \<longleftrightarrow> str_ok p (cskv_Key st) \<and> cbytes_ok p (cskv_CheckValue st)"

definition check_account_ok :: "Parser \<Rightarrow> CheckAccount \<Rightarrow> bool" where
  "check_account_ok p a \<longleftrightarrow> addr_ok p (ca_Address a) \<and> cu64_given p (ca_Nonce a) \<and> cbig_given p bigIntUnsignedBytes (ca_Balance a) \<and>
     cbytes_given p (ca_Username a) \<and> list_all (check_storage_ok p) (ca_CheckStorage a) \<and> cbytes_given p (ca_Code a) \<and>
     cbytes_given p (ca_Owner a) \<and> cbytes_given p (ca_AsyncCallData a) \<and> list_all (check_esdt_ok p) (ca_CheckESDTData a)"

definition check_account_kept :: "CheckAccount \<Rightarrow> bool" where
  "check_account_kept a \<longleftrightarrow>
     (ca_IgnoreStorage a \<longrightarrow> ca_CheckStorage a = [] \<and> \<not> ca_MoreStorageAllowed a) \<and>
     (ca_IgnoreESDT a \<longrightarrow> ca_CheckESDTData a = []) \<and> (ca_CheckESDTData a = [] \<longrightarrow> \<not> ca_MoreESDTTokensAllowed a) \<and>
     distinct (''+'' # map (\<lambda>st. bytesFromStringToString (cskv_Key st)) (ca_CheckStorage a)) \<and>
     distinct (''+'' # map (\<lambda>d. jbs_Original (ced_TokenIdentifier d)) (ca_CheckESDTData a)) \<and> list_all check_esdt_kept (ca_CheckESDTData a)"

lemma fold_check_tokens: "fold (\<lambda>d a. a\<lparr>ca_CheckESDTData := ca_CheckESDTData a @ [d]\<rparr>) ds a = a\<lparr>ca_CheckESDTData := ca_CheckESDTData a @ ds\<rparr>"
  by (induction ds arbitrary: a) auto

lemma fold_check_storage: "fold (\<lambda>d a. a\<lparr>ca_CheckStorage := ca_CheckStorage a @ [d]\<rparr>) ds a = a\<lparr>ca_CheckStorage := ca_CheckStorage a @ ds\<rparr>"
  by (induction ds arbitrary: a) auto

lemma check_tokens_read:
  assumes "list_all (check_esdt_ok p) ds" and "list_all check_esdt_kept ds"
    and "distinct (''+'' # map (\<lambda>d. jbs_Original (ced_TokenIdentifier d)) ds)"
  shows "read_map msg (check_esdt_field p) a (Some (checkESDTDataToOJ ds c)) =
    ok (a\<lparr>ca_CheckESDTData := ca_CheckESDTData a @ ds, ca_MoreESDTTokensAllowed := ca_MoreESDTTokensAllowed a \<or> c\<rparr>)"
proof -
  let ?upd = "\<lambda>d a. a\<lparr>ca_CheckESDTData := ca_CheckESDTData a @ [d]\<rparr>" and ?key = "\<lambda>d. jbs_Original (ced_TokenIdentifier d)"
  have keys: "distinct (map ?key ds)" "''+'' \<notin> ?key ` set ds" using assms(3) by auto
  have entry: "check_esdt_field p (?key d, checkESDTItemToOJ d) x = ok (?upd d x)" if "d \<in> set ds" for d x
  proof -
    have "check_esdt_ok p d" "check_esdt_kept d" "str_ok p (ced_TokenIdentifier d)"
      using that assms(1,2) by (auto simp: list_all_iff check_esdt_ok_def)
    moreover have "?key d \<noteq> ''+''" using keys(2) that by (metis image_eqI)
    ultimately show ?thesis by (simp add: check_esdt_field_def token_name check_esdt_reads)
  qed
  have "check_esdt_field p (''+'', stringToOJ []) x = ok (x\<lparr>ca_MoreESDTTokensAllowed := True\<rparr>)" for x by (simp add: check_esdt_field_def)
  note plus = this
  show ?thesis
    unfolding checkESDTDataToOJ_def
    by (rule trans [OF read_fold_more [OF keys, where upd = ?upd and mark = "\<lambda>a. a\<lparr>ca_MoreESDTTokensAllowed := True\<rparr>"]])
      (simp_all add: entry plus fold_check_tokens)
qed

lemma check_storage_reads:
  assumes "list_all (check_storage_ok p) sts" and "distinct (''+'' # map (\<lambda>st. bytesFromStringToString (cskv_Key st)) sts)"
  shows "read_map msg (check_storage_field p) a
    (Some (map_OJ (put_if c ''+'' (stringToOJ [])
      (fold (\<lambda>st. Put (bytesFromStringToString (cskv_Key st)) (checkBytesToOJ (cskv_CheckValue st))) sts NewMap)))) =
    ok (a\<lparr>ca_CheckStorage := ca_CheckStorage a @ sts, ca_MoreStorageAllowed := ca_MoreStorageAllowed a \<or> c\<rparr>)"
proof -
  let ?upd = "\<lambda>d a. a\<lparr>ca_CheckStorage := ca_CheckStorage a @ [d]\<rparr>" and ?key = "\<lambda>st. bytesFromStringToString (cskv_Key st)"
  have keys: "distinct (map ?key sts)" "''+'' \<notin> ?key ` set sts" using assms(2) by auto
  have entry: "check_storage_field p (?key d, checkBytesToOJ (cskv_CheckValue d)) x = ok (?upd d x)" if "d \<in> set sts" for d x
  proof -
    have "str_ok p (cskv_Key d)" "cbytes_ok p (cskv_CheckValue d)"
      using that assms(1) by (auto simp: list_all_iff check_storage_ok_def)
    moreover have "?key d \<noteq> ''+''" using keys(2) that by (metis image_eqI)
    ultimately show ?thesis by (simp add: check_storage_field_def str_key str_remake)
  qed
  have "check_storage_field p (''+'', stringToOJ []) x = ok (x\<lparr>ca_MoreStorageAllowed := True\<rparr>)" for x by (simp add: check_storage_field_def)
  note plus = this
  show ?thesis
    by (rule trans [OF read_fold_more [OF keys, where upd = ?upd and mark = "\<lambda>a. a\<lparr>ca_MoreStorageAllowed := True\<rparr>"]])
      (simp_all add: entry plus fold_check_storage)
qed

lemma IsStar_simps [simp]: "\<not> IsStar (Some (map_OJ m))" "IsStar (stringToOJ s) \<longleftrightarrow> s = ''*''" "\<not> IsStar (Some (OJsonList l))"
  by (simp_all add: IsStar_def map_OJ_def stringToOJ_def)

lemma check_account_reads:
  assumes "check_account_ok p a" and "check_account_kept a"
  shows "processCheckAccount p (Some (checkAccountToOJ a)) = ok (a\<lparr>ca_Address := NewJSONBytesFromString [] []\<rparr>)"
proof -
  obtain ad co n b u st ist mst c ow ac es ies mes where a: "a = \<lparr>ca_Address = ad, ca_Comment = co, ca_Nonce = n, ca_Balance = b,
      ca_Username = u, ca_CheckStorage = st, ca_IgnoreStorage = ist, ca_MoreStorageAllowed = mst, ca_Code = c, ca_Owner = ow,
      ca_AsyncCallData = ac, ca_CheckESDTData = es, ca_IgnoreESDT = ies, ca_MoreESDTTokensAllowed = mes\<rparr>"
    by (cases a)
  have given: "cu64_given p n" "cbig_given p bigIntUnsignedBytes b" "cbytes_given p u" "cbytes_given p c" "cbytes_given p ow" "cbytes_given p ac"
    using assms by (auto simp: a check_account_ok_def)
  note ok = given(1) [THEN given_checks(2)] given(2) [THEN given_checks(3)] given(3-6) [THEN given_checks(1)]
  have kept: "ist \<Longrightarrow> st = [] \<and> \<not> mst" "ies \<Longrightarrow> es = []" "es = [] \<Longrightarrow> \<not> mes" using assms(2) by (auto simp: a check_account_kept_def)
  have es: "read_map ''invalid ESDT map'' (check_esdt_field p) x (Some (checkESDTDataToOJ es mes)) =
      ok (x\<lparr>ca_CheckESDTData := ca_CheckESDTData x @ es, ca_MoreESDTTokensAllowed := ca_MoreESDTTokensAllowed x \<or> mes\<rparr>)" for x
    using assms by (intro check_tokens_read) (auto simp: a check_account_ok_def check_account_kept_def)
  have star: "\<not> IsStar (Some (checkESDTDataToOJ es mes))" by (simp add: checkESDTDataToOJ_def)
  have st: "read_map ''invalid account storage'' (check_storage_field p) x (Some (map_OJ (put_if mst ''+'' (stringToOJ [])
      (fold (\<lambda>st. Put (bytesFromStringToString (cskv_Key st)) (checkBytesToOJ (cskv_CheckValue st))) st NewMap)))) =
      ok (x\<lparr>ca_CheckStorage := ca_CheckStorage x @ st, ca_MoreStorageAllowed := ca_MoreStorageAllowed x \<or> mst\<rparr>)" for x
    using assms by (intro check_storage_reads) (auto simp: a check_account_ok_def check_account_kept_def)
  show ?thesis
    unfolding processCheckAccount_def checkAccountToOJ_def Let_def
    by (insert ok kept, cases ist; cases ies; (rule read_built, (rule built_intros)+,
      simp_all add: image_Un a fold_result_append check_account_field_def CheckAccount_zero_def es st star cong: if_cong split del: if_split))
qed

definition check_accounts_ok :: "Parser \<Rightarrow> CheckAccounts \<Rightarrow> bool" where
  "check_accounts_ok p cs \<longleftrightarrow> list_all (check_account_ok p) (cas_Accounts cs)"

definition check_accounts_kept :: "CheckAccounts \<Rightarrow> bool" where
  "check_accounts_kept cs \<longleftrightarrow> list_all check_account_kept (cas_Accounts cs) \<and>
     distinct (''+'' # map (\<lambda>a. bytesFromStringToString (ca_Address a)) (cas_Accounts cs))"

lemma fold_check_accounts: "fold (\<lambda>d a. a\<lparr>cas_Accounts := cas_Accounts a @ [d]\<rparr>) ds a = a\<lparr>cas_Accounts := cas_Accounts a @ ds\<rparr>"
  by (induction ds arbitrary: a) auto

lemma check_accounts_read:
  assumes "check_accounts_ok p cs" and "check_accounts_kept cs"
  shows "\<exists>j. checkAccountsToOJ (Some cs) = Some j \<and> processCheckAccountMap p (Some j) = ok cs"
proof -
  let ?upd = "\<lambda>d a. a\<lparr>cas_Accounts := cas_Accounts a @ [d]\<rparr>" and ?key = "\<lambda>a. bytesFromStringToString (ca_Address a)"
  have keys: "distinct (map ?key (cas_Accounts cs))" "''+'' \<notin> ?key ` set (cas_Accounts cs)" using assms(2) by (auto simp: check_accounts_kept_def)
  have entry: "check_account_entry p (?key a, Some (checkAccountToOJ a)) x = ok (?upd a x)" if "a \<in> set (cas_Accounts cs)" for a x
  proof -
    have "check_account_ok p a" "check_account_kept a" "addr_ok p (ca_Address a)"
      using that assms by (auto simp: list_all_iff check_accounts_ok_def check_accounts_kept_def check_account_ok_def)
    moreover have "?key a \<noteq> ''+''" using keys(2) that by (metis image_eqI)
    ultimately show ?thesis by (simp add: check_account_entry_def check_account_reads)
  qed
  have "check_account_entry p (''+'', stringToOJ []) x = ok (x\<lparr>cas_MoreAccountsAllowed := True\<rparr>)" for x by (simp add: check_account_entry_def)
  note plus = this
  show ?thesis
    unfolding processCheckAccountMap_def checkAccountsToOJ_def
    by (simp, rule trans [OF read_fold_more [OF keys, where upd = ?upd and mark = "\<lambda>a. a\<lparr>cas_MoreAccountsAllowed := True\<rparr>"]])
      (cases cs; simp add: entry plus fold_check_accounts)+
qed

section \<open>Transactions\<close>

lemma list_written:
  "(\<And>x. x \<in> set xs \<Longrightarrow> f x \<noteq> None \<and> read (f x) = ok x) \<Longrightarrow>
   \<exists>items. list_OJ (map f xs) = Some (OJsonList items) \<and> read_list msg read (Some (OJsonList items)) = ok xs"
proof (induction xs)
  case (Cons x xs)
  then obtain item items where "f x = Some item" "read (Some item) = ok x" "list_OJ (map f xs) = Some (OJsonList items)"
    "read_list msg read (Some (OJsonList items)) = ok xs"
    by (metis list.set_intros not_Some_eq)
  then show ?case by (auto simp: list_OJ_def)
qed (simp add: list_OJ_def)

lemma written:
  "tree_ok p t \<Longrightarrow> bytesFromTreeToOJ t \<noteq> None" "cbytes_ok p cb \<Longrightarrow> checkBytesToOJ cb \<noteq> None"
  by (cases "bytesFromTreeToOJ t"; auto simp: tree_ok_def processSubTreeAsByteArray_def setting_eq_ok)
    (cases "checkBytesToOJ cb"; auto simp: cbytes_ok_def parseCheckBytes_def processSubTreeAsByteArray_def setting_eq_ok IsStar_def)

definition addr_or_blank :: "Parser \<Rightarrow> JSONBytesFromString \<Rightarrow> bool" where
  "addr_or_blank p v \<longleftrightarrow> v = NewJSONBytesFromString [] [] \<or> addr_ok p v"

definition tx_ok :: "Parser \<Rightarrow> Transaction \<Rightarrow> bool" where
  "tx_ok p t \<longleftrightarrow> tx_Type t \<noteq> UnknownType \<and> u64_ok p (tx_Nonce t) \<and> big_ok p (tx_Value t) \<and>
     (\<forall>d. tx_ESDTValue t = Some d \<longrightarrow> HasESDT (tx_Type t) \<and> tx_esdt_ok p d) \<and>
     addr_or_blank p (tx_From t) \<and> addr_or_blank p (tx_To t) \<and> str_ok p (tx_Code t) \<and> list_all (tree_ok p) (tx_Arguments t) \<and>
     u64_ok p (tx_GasPrice t) \<and> u64_ok p (tx_GasLimit t) \<and>
     (\<not> HasSender (tx_Type t) \<longrightarrow> tx_From t = NewJSONBytesFromString [] []) \<and>
     (tx_Type t = ScDeploy \<longrightarrow> tx_To t = NewJSONBytesFromString [] []) \<and>
     (\<not> HasFunction (tx_Type t) \<longrightarrow> tx_Function t = []) \<and> (\<not> HasValue (tx_Type t) \<longrightarrow> tx_Value t = JSONBigIntZero) \<and>
     (tx_Type t = Transfer_tx \<longrightarrow> tx_Arguments t = []) \<and>
     (\<not> HasGas (tx_Type t) \<longrightarrow> tx_GasPrice t = JSONUint64Zero \<and> tx_GasLimit t = JSONUint64Zero)"

definition tx_kept :: "Transaction \<Rightarrow> bool" where
  "tx_kept t \<longleftrightarrow> tx_Nonce t = JSONUint64Zero \<and> (HasSender (tx_Type t) \<longrightarrow> jbs_Original (tx_From t) \<noteq> []) \<and>
     (HasReceiver (tx_Type t) \<longrightarrow> jbs_Original (tx_To t) \<noteq> []) \<and>
     (tx_Type t \<noteq> ScDeploy \<longrightarrow> jbs_Original (tx_Code t) = []) \<and> (tx_Type t = ValidatorReward \<longrightarrow> tx_Arguments t = [])"

lemma addr_given: "addr_or_blank p v \<Longrightarrow> jbs_Original v \<noteq> [] \<Longrightarrow> addr_ok p v"
  by (auto simp: addr_or_blank_def NewJSONBytesFromString_def)

lemma parseString_bytes [simp]: "parseString (bytesFromStringToOJ v) = ok (bytesFromStringToString v)"
  by (simp add: bytesFromStringToOJ_def)

lemma tx_reads:
  assumes "tx_ok p t" and "tx_kept t"
  shows "\<exists>j. transactionToScenarioOJ t = Some j \<and> processTx p (tx_Type t) (Some j) = ok t"
proof -
  obtain ty n v es fr to fu co ar gp gl where t: "t = \<lparr>tx_Type = ty, tx_Nonce = n, tx_Value = v, tx_ESDTValue = es, tx_From = fr, tx_To = to,
      tx_Function = fu, tx_Code = co, tx_Arguments = ar, tx_GasPrice = gp, tx_GasLimit = gl\<rparr>"
    by (cases t)
  have ok: "big_ok p v" "str_ok p co" "u64_ok p gp" "u64_ok p gl" using assms by (auto simp: t tx_ok_def)
  have sender: "HasSender ty \<Longrightarrow> addr_ok p fr" and receiver: "HasReceiver ty \<Longrightarrow> addr_ok p to"
    using assms by (auto simp: t tx_ok_def tx_kept_def intro: addr_given)
  have none: "\<not> HasSender ty \<Longrightarrow> fr = NewJSONBytesFromString [] []" "ty = ScDeploy \<Longrightarrow> to = NewJSONBytesFromString [] []"
    "\<not> HasFunction ty \<Longrightarrow> fu = []" "\<not> HasValue ty \<Longrightarrow> v = JSONBigIntZero" "\<not> HasGas ty \<Longrightarrow> gp = JSONUint64Zero \<and> gl = JSONUint64Zero"
    "n = JSONUint64Zero" "\<not> HasFunction ty \<Longrightarrow> ty \<noteq> ScDeploy \<Longrightarrow> ar = []" "ty \<noteq> ScDeploy \<Longrightarrow> co = NewJSONBytesFromString [] []"
    "ty \<noteq> UnknownType"
    using assms str_empty [OF ok(2)] by (cases ty; auto simp: t tx_ok_def tx_kept_def HasFunction_def)+
  have esdt: "es \<noteq> None \<Longrightarrow> HasESDT ty" "es \<noteq> None \<Longrightarrow> processTxESDT p (map_option esdtTxDataToOJ es) = ok (the es)"
    using assms(1) by (auto simp: t tx_ok_def tx_esdt_reads)
  obtain items where items: "list_OJ (map bytesFromTreeToOJ ar) = Some (OJsonList items)" "parseSubTreeList p (Some (OJsonList items)) = ok ar"
    using list_written [of ar bytesFromTreeToOJ "processSubTreeAsByteArray p" "''not a JSON list''"] written(1) [of p] assms(1)
    by (auto simp: t tx_ok_def list_all_iff parseSubTreeList_def)
  have "read_map ''unmarshalled transaction is not a map'' (tx_field p ty) (Transaction_zero ty)
      (Some (map_OJ
     (put_if (HasGas ty) ''gasPrice'' (uint64ToOJ gp)
     (put_if (HasGas ty) ''gasLimit'' (uint64ToOJ gl)
     (put_if (HasFunction ty \<or> ty = ScDeploy) ''arguments'' (Some (OJsonList items))
     (put_if (ty = ScDeploy) ''contractCode'' (bytesFromStringToOJ co)
     (put_if (HasFunction ty) ''function'' (stringToOJ fu)
     (put_if (es \<noteq> None) ''esdt'' (map_option esdtTxDataToOJ es)
     (put_if (HasValue ty) ''value'' (bigIntToOJ v)
     (put_if (HasReceiver ty) ''to'' (bytesFromStringToOJ to)
     (put_if (HasSender ty) ''from'' (bytesFromStringToOJ fr) NewMap))))))))))) = ok t"
    by (insert sender receiver none esdt, cases ty; cases es; (rule read_built, (rule built_intros)+,
      simp_all add: image_Un t fold_result_append tx_field_def Transaction_zero_def ok items HasSender_def HasReceiver_def HasValue_def
        HasFunction_def HasGas_def HasESDT_def cong: if_cong split del: if_split))
  moreover have "(if HasFunction ty \<or> ty = ScDeploy then list_OJ (map bytesFromTreeToOJ ar) else Some (OJsonList [])) = Some (OJsonList items)"
    using items(1) none(7) by (auto simp: list_OJ_def)
  ultimately show ?thesis unfolding t transactionToScenarioOJ_def processTx_def Transaction.select_convs
    by (simp only: option.map) (metis (mono_tags, lifting))
qed

section \<open>Expected results\<close>

definition cbytes_or_zero :: "Parser \<Rightarrow> JSONCheckBytes \<Rightarrow> bool" where
  "cbytes_or_zero p v \<longleftrightarrow> v = JSONCheckBytes_zero \<or> cbytes_ok p v"

definition log_ok :: "Parser \<Rightarrow> ScenLogEntry \<Rightarrow> bool" where
  "log_ok p l \<longleftrightarrow> cbytes_or_zero p (sle_Address l) \<and> cbytes_or_zero p (sle_Identifier l) \<and> list_all (cbytes_ok p) (sle_Topics l) \<and>
     cbytes_or_zero p (sle_Data l)"

definition log_kept :: "ScenLogEntry \<Rightarrow> bool" where
  "log_kept l \<longleftrightarrow> jcb_Original (sle_Address l) \<noteq> None \<and> jcb_Original (sle_Identifier l) \<noteq> None \<and> jcb_Original (sle_Data l) \<noteq> None"

definition result_ok :: "Parser \<Rightarrow> TransactionResult \<Rightarrow> bool" where
  "result_ok p r \<longleftrightarrow> list_all (cbytes_ok p) (tr_Out r) \<and> cbig_given p bigIntSignedBytes (tr_Status r) \<and> cbytes_given p (tr_Message r) \<and>
     cu64_given p (tr_Gas r) \<and> cbig_given p bigIntUnsignedBytes (tr_Refund r) \<and> list_all (log_ok p) (tr_Logs r) \<and>
     (tr_LogsUnspecified r \<longrightarrow> tr_LogsStar r \<and> tr_LogHash r = [] \<and> tr_Logs r = []) \<and> tr_LogHash r \<noteq> ''*''"

definition result_kept :: "TransactionResult \<Rightarrow> bool" where
  "result_kept r \<longleftrightarrow> list_all log_kept (tr_Logs r) \<and> (tr_LogsStar r \<or> tr_LogHash r \<noteq> [] \<longrightarrow> tr_Logs r = []) \<and>
     (tr_LogsStar r \<longrightarrow> tr_LogHash r = [])"

lemma check_bytes_written:
  "list_all (cbytes_ok p) vs \<Longrightarrow> \<exists>items. list_OJ (map checkBytesToOJ vs) = Some (OJsonList items) \<and> parseCheckBytesList p (Some (OJsonList items)) = ok vs"
  unfolding parseCheckBytesList_def by (rule list_written) (auto simp: list_all_iff dest: written(2))

lemma log_reads:
  assumes "log_ok p l" and "log_kept l"
  shows "\<exists>j. logToOJ l = Some j \<and> read_map msg (log_field p) ScenLogEntry_zero (Some j) = ok l"
proof -
  obtain a i ts d where l: "l = \<lparr>sle_Address = a, sle_Identifier = i, sle_Topics = ts, sle_Data = d\<rparr>" by (cases l)
  have ok: "cbytes_ok p a" "cbytes_ok p i" "cbytes_ok p d" "list_all (cbytes_ok p) ts"
    using assms by (auto simp: l log_ok_def log_kept_def cbytes_or_zero_def JSONCheckBytes_zero_def)
  obtain items where items: "list_OJ (map checkBytesToOJ ts) = Some (OJsonList items)" "parseCheckBytesList p (Some (OJsonList items)) = ok ts"
    using check_bytes_written [OF ok(4)] by blast
  have "read_map msg (log_field p) ScenLogEntry_zero (Some (map_OJ
     (Put ''data'' (checkBytesToOJ d)
     (Put ''topics'' (Some (OJsonList items))
     (Put ''identifier'' (checkBytesToOJ i)
     (Put ''address'' (checkBytesToOJ a) NewMap)))))) = ok l"
    by (rule read_built, (rule built_intros)+) (simp_all add: l log_field_def ScenLogEntry_zero_def ok items)
  then show ?thesis by (simp add: l logToOJ_def items)
qed

lemma logs_read:
  assumes "list_all (log_ok p) ls" and "list_all log_kept ls"
  shows "\<exists>items. logsToOJ ls = Some (OJsonList items) \<and> processLogList p (Some (OJsonList items)) = ok ls"
  unfolding logsToOJ_def processLogList_def
proof (rule list_written)
  fix l assume "l \<in> set ls"
  then have "log_ok p l" "log_kept l" using assms by (auto simp: list_all_iff)
  from log_reads [OF this] show "logToOJ l \<noteq> None \<and> read_map ''unmarshalled log entry is not a map'' (log_field p) ScenLogEntry_zero (logToOJ l) = ok l"
    by fastforce
qed

lemma result_logs_read:
  assumes "result_ok p r" and "result_kept r" and "\<not> tr_LogsUnspecified r" and "tr_LogsStar x" and "tr_LogHash x = []" and "tr_Logs x = []"
  shows "\<exists>j. written_logs r = Some j \<and> result_field p (''logs'', Some j) x =
    ok (x\<lparr>tr_LogsUnspecified := False, tr_LogsStar := tr_LogsStar r, tr_LogHash := tr_LogHash r, tr_Logs := tr_Logs r\<rparr>)"
proof -
  obtain items where items: "logsToOJ (tr_Logs r) = Some (OJsonList items)" "processLogList p (Some (OJsonList items)) = ok (tr_Logs r)"
    using logs_read [of p "tr_Logs r"] assms(1,2) by (auto simp: result_ok_def result_kept_def)
  have "parseString (Some (OJsonList items)) = fail ''not a string value''" by (simp add: parseString_def)
  then show ?thesis
    using assms items by (cases x; cases r) (auto simp: written_logs_def result_ok_def result_kept_def result_field_def stringToOJ_def IsStar_def Let_def)
qed

lemma result_fields:
  "result_field p (''out'', val) x = setting (wrapping ''invalid block result out'' (parseCheckBytesList p val)) (\<lambda>v. x\<lparr>tr_Out := v\<rparr>)"
  "result_field p (''status'', val) x =
     setting (wrapping ''invalid block result status'' (processCheckBigInt p val bigIntSignedBytes)) (\<lambda>v. x\<lparr>tr_Status := v\<rparr>)"
  "result_field p (''message'', val) x = setting (wrapping ''invalid block result message'' (parseCheckBytes p val)) (\<lambda>v. x\<lparr>tr_Message := v\<rparr>)"
  "result_field p (''gas'', val) x = setting (wrapping ''invalid block result gas'' (processCheckUint64 p val)) (\<lambda>v. x\<lparr>tr_Gas := v\<rparr>)"
  "result_field p (''refund'', val) x =
     setting (wrapping ''invalid block result refund'' (processCheckBigInt p val bigIntUnsignedBytes)) (\<lambda>v. x\<lparr>tr_Refund := v\<rparr>)"
  by (simp_all add: result_field_def)

lemma result_reads:
  assumes "result_ok p r" and "result_kept r"
  shows "\<exists>j. resultToOJ r = Some j \<and> processTxExpectedResult p (Some j) = ok r"
proof -
  obtain out st me ga re ls lu lh lo where r: "r = \<lparr>tr_Out = out, tr_Status = st, tr_Message = me, tr_Gas = ga, tr_Refund = re, tr_LogsStar = ls,
      tr_LogsUnspecified = lu, tr_LogHash = lh, tr_Logs = lo\<rparr>"
    by (cases r)
  have given: "cbig_given p bigIntSignedBytes st" "cbytes_given p me" "cu64_given p ga" "cbig_given p bigIntUnsignedBytes re"
    using assms by (auto simp: r result_ok_def)
  note ok = given(1) [THEN given_checks(3)] given(2) [THEN given_checks(1)] given(3) [THEN given_checks(2)] given(4) [THEN given_checks(3)]
  obtain items where items: "list_OJ (map checkBytesToOJ out) = Some (OJsonList items)" "parseCheckBytesList p (Some (OJsonList items)) = ok out"
    using check_bytes_written [of p out] assms(1) by (auto simp: r result_ok_def)
  have "\<exists>j. written_logs r = Some j"
    using result_logs_read [OF assms, of TransactionResult_zero] by (cases lu) (auto simp: r written_logs_def TransactionResult_zero_def)
  then obtain j where j: "written_logs r = Some j" by blast
  have logs: "result_field p (''logs'', Some j) x = ok (x\<lparr>tr_LogsUnspecified := False, tr_LogsStar := ls, tr_LogHash := lh, tr_Logs := lo\<rparr>)"
    if "\<not> lu" "tr_LogsStar x" "tr_LogHash x = []" "tr_Logs x = []" for x
    using result_logs_read [OF assms _ that(2-)] that(1) j by (simp add: r)
  have none: "lu \<Longrightarrow> ls \<and> lh = [] \<and> lo = []" using assms(1) by (auto simp: r result_ok_def)
  have "read_map ''unmarshalled block result is not a map'' (result_field p) TransactionResult_zero
      (Some (map_OJ
       (put_if (\<not> jci_Unspecified re) ''refund'' (checkBigIntToOJ re)
       (put_if (\<not> jcu_Unspecified ga) ''gas'' (checkUint64ToOJ ga)
       (put_if (\<not> lu) ''logs'' (Some j)
       (put_if (\<not> jcb_Unspecified me) ''message'' (checkBytesToOJ me)
       (put_if (\<not> jci_Unspecified st) ''status'' (checkBigIntToOJ st)
       (Put ''out'' (Some (OJsonList items)) NewMap)))))))) = ok r"
  proof (cases lu)
    case True
    show ?thesis
      by (insert ok none True, (rule read_built, (rule built_intros)+))
        (simp_all add: image_Un r fold_result_append TransactionResult_zero_def items result_fields cong: if_cong split del: if_split)
  next
    case False
    show ?thesis
      by (insert ok False, (rule read_built, (rule built_intros)+))
        (simp_all add: image_Un r fold_result_append TransactionResult_zero_def logs items result_fields cong: if_cong split del: if_split)
  qed
  then show ?thesis
    using items(1) j by (simp add: r resultToOJ_def processTxExpectedResult_def)
qed

section \<open>Blocks and new addresses\<close>

definition block_info_ok :: "Parser \<Rightarrow> ScenBlockInfo \<Rightarrow> bool" where
  "block_info_ok p b \<longleftrightarrow> u64_ok p (sbi_BlockTimestamp b) \<and> u64_ok p (sbi_BlockNonce b) \<and> u64_ok p (sbi_BlockRound b) \<and>
     u64_ok p (sbi_BlockEpoch b) \<and> (\<forall>seed. sbi_BlockRandomSeed b = Some seed \<longrightarrow> tree_ok p seed \<and> length (jbt_Value seed) = 48)"

lemma block_info_reads:
  assumes "block_info_ok p b"
  shows "processBlockInfo p (Some (blockInfoToOJ b)) = ok b"
proof -
  obtain t n r e s where b: "b = \<lparr>sbi_BlockTimestamp = t, sbi_BlockNonce = n, sbi_BlockRound = r, sbi_BlockEpoch = e, sbi_BlockRandomSeed = s\<rparr>"
    by (cases b)
  have ok: "u64_ok p t" "u64_ok p n" "u64_ok p r" "u64_ok p e" and seed: "\<forall>x. s = Some x \<longrightarrow> tree_ok p x \<and> length (jbt_Value x) = 48"
    using assms by (auto simp: b block_info_ok_def)
  show ?thesis
    unfolding processBlockInfo_def blockInfoToOJ_def
    by (insert seed, cases s; (rule read_built, (rule built_intros)+,
      simp_all add: image_Un b fold_result_append block_info_field_def ScenBlockInfo_zero_def ok u64_empty [OF ok(1)] u64_empty [OF ok(2)]
        u64_empty [OF ok(3)] u64_empty [OF ok(4)] cong: if_cong split del: if_split))
qed

definition new_address_ok :: "Parser \<Rightarrow> ScenNewAddressMock \<Rightarrow> bool" where
  "new_address_ok p m \<longleftrightarrow> addr_or_blank p (snm_CreatorAddress m) \<and> u64_ok p (snm_CreatorNonce m) \<and> addr_or_blank p (snm_NewAddress m)"

definition new_address_kept :: "ScenNewAddressMock \<Rightarrow> bool" where
  "new_address_kept m \<longleftrightarrow> jbs_Original (snm_CreatorAddress m) \<noteq> [] \<and> jbs_Original (snm_NewAddress m) \<noteq> []"

lemma new_addresses_read:
  assumes "list_all (new_address_ok p) ms" and "list_all new_address_kept ms"
  shows "processNewAddressMocks p (Some (newAddressMocksToOJ ms)) = ok ms"
  unfolding processNewAddressMocks_def newAddressMocksToOJ_def read_list_items
proof (rule map_result_map)
  fix m assume m: "m \<in> set ms"
  obtain c n a where ms: "m = \<lparr>snm_CreatorAddress = c, snm_CreatorNonce = n, snm_NewAddress = a\<rparr>" by (cases m)
  have ok: "addr_ok p c" "u64_ok p n" "addr_ok p a"
    using assms m by (auto simp: list_all_iff ms new_address_ok_def new_address_kept_def dest!: bspec intro: addr_given)
  show "read_map ''new address mock entry is not a map'' (new_address_field p) ScenNewAddressMock_zero (Some (map_OJ
     (Put ''newAddress'' (bytesFromStringToOJ (snm_NewAddress m))
     (Put ''creatorNonce'' (uint64ToOJ (snm_CreatorNonce m))
     (Put ''creatorAddress'' (bytesFromStringToOJ (snm_CreatorAddress m)) NewMap))))) = ok m"
    by (rule read_built, (rule built_intros)+) (simp_all add: ms new_address_field_def ScenNewAddressMock_zero_def ok)
qed

section \<open>Steps\<close>

definition set_state_ok :: "Parser \<Rightarrow> SetState \<Rightarrow> bool" where
  "set_state_ok p st \<longleftrightarrow> list_all (account_ok p) (sst_Accounts st) \<and> list_all (new_address_ok p) (sst_NewAddressMocks st) \<and>
     (\<forall>b. sst_PreviousBlockInfo st = Some b \<longrightarrow> block_info_ok p b) \<and> (\<forall>b. sst_CurrentBlockInfo st = Some b \<longrightarrow> block_info_ok p b) \<and>
     list_all (str_ok p) (sst_BlockHashes st)"

definition set_state_kept :: "SetState \<Rightarrow> bool" where
  "set_state_kept st \<longleftrightarrow> accounts_kept (sst_Accounts st) \<and> list_all new_address_kept (sst_NewAddressMocks st)"

lemma block_hashes_read:
  assumes "list_all (str_ok p) hs"
  shows "\<exists>items. blockHashesToOJ hs = Some (OJsonList items) \<and> parseByteArrayList p (Some (OJsonList items)) = ok hs"
  unfolding blockHashesToOJ_def parseByteArrayList_def
  by (rule list_written) (use assms in \<open>auto simp: list_all_iff bytesFromStringToOJ_def str_ok_def\<close>)

fun step_ok :: "Parser \<Rightarrow> Step \<Rightarrow> bool" where
  "step_ok p (SetStateStep st) \<longleftrightarrow> set_state_ok p st"
| "step_ok p (CheckStateStep _ checks) \<longleftrightarrow> (\<forall>cs. checks = Some cs \<longrightarrow> check_accounts_ok p cs)"
| "step_ok p (TxStep _ _ tx expected) \<longleftrightarrow> (\<forall>t. tx = Some t \<longrightarrow> tx_ok p t) \<and>
     (\<forall>r. expected = Some r \<longrightarrow> result_ok p r \<and> (\<exists>t. tx = Some t \<and> IsSmartContractTx (tx_Type t)))"
| "step_ok p _ \<longleftrightarrow> True"

fun step_kept :: "Step \<Rightarrow> bool" where
  "step_kept (SetStateStep st) \<longleftrightarrow> set_state_kept st"
| "step_kept (CheckStateStep _ None) \<longleftrightarrow> False"
| "step_kept (CheckStateStep _ (Some cs)) \<longleftrightarrow> check_accounts_kept cs"
| "step_kept (TxStep _ _ None _) \<longleftrightarrow> False"
| "step_kept (TxStep _ _ (Some t) expected) \<longleftrightarrow> tx_kept t \<and> (case expected of None \<Rightarrow> True | Some r \<Rightarrow> result_kept r)"
| "step_kept _ \<longleftrightarrow> True"

lemma step_type_kept: "''step'' \<notin> fst ` set kvs \<Longrightarrow> fold_result step_type_field kvs s = ok s"
  by (induction kvs) (auto simp: step_type_field_def)

lemma step_reads_by_type:
  assumes "built m kvs" and "kvs = (''step'', stringToOJ name) # rest" and "''step'' \<notin> fst ` set rest"
  shows "processScenarioStep p (Some (map_OJ m)) = step_of_type p kvs name"
proof -
  have "fold_result step_type_field kvs [] = ok name" using step_type_kept [OF assms(3)] by (simp add: assms(2) step_type_field_def)
  then show ?thesis using assms(1) by (simp add: processScenarioStep_def as_map_def map_OJ_def built_def)
qed

lemmas step_reading = step_reads_by_type [OF built_eq]

lemma set_state_reads:
  assumes "set_state_ok p st" and "set_state_kept st"
  shows "\<exists>j. stepToOJ (SetStateStep st) = Some j \<and> processScenarioStep p (Some j) = ok (SetStateStep st)"
proof -
  obtain co ac pr cu ha mo where st: "st = \<lparr>sst_Comment = co, sst_Accounts = ac, sst_PreviousBlockInfo = pr, sst_CurrentBlockInfo = cu,
      sst_BlockHashes = ha, sst_NewAddressMocks = mo\<rparr>" by (cases st)
  have ok: "processAccountMap p (Some (AccountsToOJ ac)) = ok ac" "processNewAddressMocks p (Some (newAddressMocksToOJ mo)) = ok mo"
    using assms by (auto simp: st set_state_ok_def set_state_kept_def accounts_read new_addresses_read)
  have infos: "pr \<noteq> None \<Longrightarrow> processBlockInfo p (map_option blockInfoToOJ pr) = ok (the pr)"
    "cu \<noteq> None \<Longrightarrow> processBlockInfo p (map_option blockInfoToOJ cu) = ok (the cu)"
    using assms(1) by (auto simp: st set_state_ok_def block_info_reads)
  obtain items where items: "blockHashesToOJ ha = Some (OJsonList items)" "parseByteArrayList p (Some (OJsonList items)) = ok ha"
    using block_hashes_read assms(1) by (fastforce simp: st set_state_ok_def)
  let ?rest = "opt (co \<noteq> []) ''comment'' (stringToOJ co) @ opt (ac \<noteq> []) ''accounts'' (Some (AccountsToOJ ac)) @
    opt (mo \<noteq> []) ''newAddresses'' (Some (newAddressMocksToOJ mo)) @ opt (pr \<noteq> None) ''previousBlockInfo'' (map_option blockInfoToOJ pr) @
    opt (cu \<noteq> None) ''currentBlockInfo'' (map_option blockInfoToOJ cu) @ opt (ha \<noteq> []) ''blockHashes'' (Some (OJsonList items))"
  have "fold_result (set_state_field p) ((''step'', stringToOJ ''setState'') # ?rest) SetState_zero = ok st"
    by (insert infos, cases pr; cases cu;
      simp add: st fold_result_append set_state_field_def SetState_zero_def ok items cong: if_cong split del: if_split)
  then have read: "step_of_type p ((''step'', stringToOJ ''setState'') # ?rest) ''setState'' = ok (SetStateStep st)"
    by (simp add: step_of_type_def)
  show ?thesis
    unfolding stepToOJ_def StepTypeName_def Let_def st
    by (simp add: items, rule trans [OF step_reading], (rule built_intros)+)
      (use read in \<open>simp add: image_Un st\<close>)+
qed

lemma simple_steps_read:
  "\<exists>j. stepToOJ (ExternalStepsStep co path) = Some j \<and> processScenarioStep p (Some j) = ok (ExternalStepsStep co path)"
  "\<exists>j. stepToOJ (DumpStateStep co) = Some j \<and> processScenarioStep p (Some j) = ok (DumpStateStep co)"
proof -
  let ?rest = "opt (co \<noteq> []) ''comment'' (stringToOJ co) @ [(''path'', stringToOJ path)]"
  have read: "step_of_type p ((''step'', stringToOJ ''externalSteps'') # ?rest) ''externalSteps'' = ok (ExternalStepsStep co path)"
    by (simp add: step_of_type_def fold_result_append external_field_def cong: if_cong split del: if_split)
  show "\<exists>j. stepToOJ (ExternalStepsStep co path) = Some j \<and> processScenarioStep p (Some j) = ok (ExternalStepsStep co path)"
    unfolding stepToOJ_def StepTypeName_def Let_def
    by (simp, rule trans [OF step_reading], (rule built_intros)+) (use read in \<open>simp add: image_Un\<close>)+
  have read: "step_of_type p ((''step'', stringToOJ ''dumpState'') # opt (co \<noteq> []) ''comment'' (stringToOJ co)) ''dumpState'' = ok (DumpStateStep co)"
    by (simp add: step_of_type_def dump_state_field_def cong: if_cong split del: if_split)
  show "\<exists>j. stepToOJ (DumpStateStep co) = Some j \<and> processScenarioStep p (Some j) = ok (DumpStateStep co)"
    unfolding stepToOJ_def StepTypeName_def Let_def
    by (simp, rule trans [OF step_reading], (rule built_intros)+) (use read in \<open>simp add: image_Un\<close>)+
qed

lemma check_state_reads:
  assumes "check_accounts_ok p cs" and "check_accounts_kept cs"
  shows "\<exists>j. stepToOJ (CheckStateStep co (Some cs)) = Some j \<and> processScenarioStep p (Some j) = ok (CheckStateStep co (Some cs))"
proof -
  obtain j where j: "checkAccountsToOJ (Some cs) = Some j" "processCheckAccountMap p (Some j) = ok cs" using check_accounts_read [OF assms] by blast
  let ?rest = "opt (co \<noteq> []) ''comment'' (stringToOJ co) @ [(''accounts'', Some j)]"
  have read: "step_of_type p ((''step'', stringToOJ ''checkState'') # ?rest) ''checkState'' = ok (CheckStateStep co (Some cs))"
    by (simp add: step_of_type_def fold_result_append check_state_field_def j(2) cong: if_cong split del: if_split)
  show ?thesis
    unfolding stepToOJ_def StepTypeName_def Let_def
    by (simp add: j(1), rule trans [OF step_reading], (rule built_intros)+) (use read in \<open>simp add: image_Un\<close>)+
qed

lemma tx_step_types:
  "step_of_type p kvs ''scCall'' = parseTxStep p ScCall kvs" "step_of_type p kvs ''scDeploy'' = parseTxStep p ScDeploy kvs"
  "step_of_type p kvs ''scQuery'' = parseTxStep p ScQuery kvs" "step_of_type p kvs ''transfer'' = parseTxStep p Transfer_tx kvs"
  "step_of_type p kvs ''validatorReward'' = parseTxStep p ValidatorReward kvs"
  by (simp_all add: step_of_type_def)

lemma tx_step_of_type: "tx_StepTypeName ty = Some name \<Longrightarrow> step_of_type p kvs name = parseTxStep p ty kvs"
  by (cases ty; simp add: tx_StepTypeName_def; hypsubst; simp only: tx_step_types)

lemma tx_step_reads:
  assumes "step_ok p (TxStep ident co (Some t) re)" and "step_kept (TxStep ident co (Some t) re)"
  shows "\<exists>j. stepToOJ (TxStep ident co (Some t) re) = Some j \<and> processScenarioStep p (Some j) = ok (TxStep ident co (Some t) re)"
proof -
  obtain j where j: "transactionToScenarioOJ t = Some j" "processTx p (tx_Type t) (Some j) = ok t" using tx_reads assms by fastforce
  have "tx_Type t \<noteq> UnknownType" using assms(1) by (simp add: tx_ok_def)
  then obtain name where name: "tx_StepTypeName (tx_Type t) = Some name" by (cases "tx_Type t") (auto simp: tx_StepTypeName_def)
  let ?c = "IsSmartContractTx (tx_Type t) \<and> re \<noteq> None"
  obtain r where r: "?c \<Longrightarrow> Option.bind re resultToOJ = Some r" "?c \<Longrightarrow> processTxExpectedResult p (Some r) = ok (the re)"
    using result_reads assms by (cases re) (auto dest: result_reads)
  have c: "re \<noteq> None \<longleftrightarrow> ?c" using assms(1) by auto
  let ?rest = "opt (ident \<noteq> []) ''txId'' (stringToOJ ident) @ opt (co \<noteq> []) ''comment'' (stringToOJ co) @ [(''tx'', Some j)] @
    opt ?c ''expect'' (Some r)"
  have "parseTxStep p (tx_Type t) ((''step'', stringToOJ name) # ?rest) = ok (TxStep ident co (Some t) re)"
    using c r by (cases re) (simp_all add: parseTxStep_def fold_result_append tx_step_field_def j(2) cong: if_cong split del: if_split)
  then have read: "step_of_type p ((''step'', stringToOJ name) # ?rest) name = ok (TxStep ident co (Some t) re)"
    using tx_step_of_type [OF name] by simp
  let ?m = "put_if ?c ''expect'' (Some r) (Put ''tx'' (Some j) (put_if (length co > 0) ''comment'' (stringToOJ co)
    (put_if (length ident > 0) ''txId'' (stringToOJ ident) (Put ''step'' (stringToOJ name) NewMap))))"
  have "stepToOJ (TxStep ident co (Some t) re) = Some (map_OJ ?m)"
    using r(1) c by (cases re) (simp_all add: stepToOJ_def StepTypeName_def name j(1) Let_def)
  moreover have "processScenarioStep p (Some (map_OJ ?m)) = ok (TxStep ident co (Some t) re)"
    by (rule trans [OF step_reading], (rule built_intros)+) (use read in \<open>simp add: image_Un\<close>)+
  ultimately show ?thesis by blast
qed

lemma step_reads:
  assumes "step_ok p st" and "step_kept st"
  shows "\<exists>j. stepToOJ st = Some j \<and> processScenarioStep p (Some j) = ok st"
  using assms
proof (cases st)
  case (CheckStateStep co checks)
  then show ?thesis using assms by (cases checks) (auto intro: check_state_reads)
next
  case (TxStep ident co tx re)
  then show ?thesis using assms tx_step_reads by (cases tx) auto
qed (use assms in \<open>auto simp: simple_steps_read intro: set_state_reads\<close>)

section \<open>Scenarios\<close>

definition scenario_ok :: "Parser \<Rightarrow> Scenario \<Rightarrow> bool" where
  "scenario_ok p s \<longleftrightarrow> scn_GasSchedule s \<noteq> UnknownGasSchedule \<and> list_all (step_ok p) (scn_Steps s)"

definition scenario_kept :: "Scenario \<Rightarrow> bool" where
  "scenario_kept s \<longleftrightarrow> list_all step_kept (scn_Steps s)"

lemma gas_schedule_reads: "g \<noteq> UnknownGasSchedule \<Longrightarrow> parseGasSchedule (gasScheduleToOJ g) = ok g"
  by (cases g) (simp_all add: parseGasSchedule_def gasScheduleToOJ_def)

lemma scenario_reads:
  assumes "scenario_ok p s" and "scenario_kept s"
  shows "\<exists>j. ScenarioToOrderedJSON s = Some j \<and> read_map msg (scenario_field p) Scenario_zero (Some j) = ok s \<and> \<not> is_bool j"
proof -
  obtain na co ch ga st where s: "s = \<lparr>scn_Name = na, scn_Comment = co, scn_CheckGas = ch, scn_GasSchedule = ga, scn_Steps = st\<rparr>" by (cases s)
  have "stepToOJ x \<noteq> None \<and> processScenarioStep p (stepToOJ x) = ok x" if "x \<in> set st" for x
    using step_reads [of p x] assms that by (fastforce simp: s scenario_ok_def scenario_kept_def list_all_iff)
  then obtain items where items: "list_OJ (map stepToOJ st) = Some (OJsonList items)" "processScenarioStepList p (Some (OJsonList items)) = ok st"
    using list_written [of st stepToOJ "processScenarioStep p"] unfolding processScenarioStepList_def by blast
  have gas: "parseGasSchedule (gasScheduleToOJ ga) = ok ga" using assms(1) by (simp add: s scenario_ok_def gas_schedule_reads)
  have "read_map msg (scenario_field p) Scenario_zero (Some (map_OJ
     (Put ''steps'' (Some (OJsonList items))
     (Put ''gasSchedule'' (gasScheduleToOJ ga)
     (put_if (\<not> ch) ''checkGas'' (Some (OJsonBool False))
     (put_if (length co > 0) ''comment'' (stringToOJ co)
     (put_if (length na > 0) ''name'' (stringToOJ na) NewMap))))))) = ok s"
    by (cases ch; (rule read_built, (rule built_intros)+, simp_all add: image_Un s fold_result_append scenario_field_def Scenario_zero_def parse_flag_def
      items gas cong: if_cong split del: if_split))
  then show ?thesis by (simp add: s ScenarioToOrderedJSON_def items map_OJ_def)
qed

section \<open>What the reader returns is legible\<close>

lemma read_map_inv:
  "read_map msg step start obj = ok r \<Longrightarrow> P start \<Longrightarrow> (\<And>key val s s'. P s \<Longrightarrow> step (key, val) s = ok s' \<Longrightarrow> P s') \<Longrightarrow> P r"
  by (auto simp: read_map_def andThen_eq_ok intro: fold_result_inv)

lemma read_list_inv: "read_list msg read obj = ok xs \<Longrightarrow> (\<And>item x. read (Some item) = ok x \<Longrightarrow> P x) \<Longrightarrow> list_all P xs"
  by (auto simp: read_list_def andThen_eq_ok map_result_ok list_all_iff list_all2_conv_all_nth in_set_conv_nth) blast

lemma big_read: "processBigInt p obj bigIntUnsignedBytes = ok v \<Longrightarrow> big_ok p v"
  by (auto simp: big_ok_def processBigInt_def bigIntToOJ_def andThen_eq_ok setting_eq_ok)

lemma u64_read: "processUint64 p obj = ok v \<Longrightarrow> u64_ok p v"
  by (auto simp: u64_ok_def processUint64_def processBigInt_def uint64ToOJ_def andThen_eq_ok setting_eq_ok split: if_splits)

lemma str_read: "processStringAsByteArray p obj = ok v \<Longrightarrow> str_ok p v"
  by (auto simp: str_ok_iff processStringAsByteArray_def andThen_eq_ok setting_eq_ok NewJSONBytesFromString_def)

lemma str_made: "interpret_text p str = ok bs \<Longrightarrow> str_ok p (NewJSONBytesFromString bs str)"
  by (simp add: str_ok_iff NewJSONBytesFromString_def)

lemma addr_read: "parseAccountAddress p str = ok v \<Longrightarrow> addr_ok p v"
  by (auto simp: addr_ok_def parseAccountAddress_def andThen_eq_ok NewJSONBytesFromString_def bytesFromStringToString_def split: if_splits)

lemma tree_read: "processSubTreeAsByteArray p obj = ok v \<Longrightarrow> tree_ok p v"
  by (auto simp: tree_ok_def processSubTreeAsByteArray_def setting_eq_ok bytesFromTreeToOJ_def tree_OriginalEmpty_def is_empty_string_def
      interpret_empty [unfolded interpret_text_def] EncodeToString_def split: option.splits OJsonObject.splits)

lemma cbytes_read: "parseCheckBytes p obj = ok v \<Longrightarrow> cbytes_ok p v"
  by (auto simp: cbytes_ok_def parseCheckBytes_def processSubTreeAsByteArray_def setting_eq_ok checkBytesToOJ_def check_OriginalEmpty_def
      is_empty_string_def JSONCheckBytesStar_def IsStar_def interpret_empty [unfolded interpret_text_def]
      split: option.splits OJsonObject.splits if_splits)

lemma u64_text: "processUint64 p obj = ok v \<Longrightarrow> obj = Some (OJsonString (ju_Original v))"
  by (auto simp: processUint64_def processBigInt_def andThen_eq_ok setting_eq_ok split: if_splits)

lemma cu64_read: "processCheckUint64 p obj = ok v \<Longrightarrow> cu64_ok p v"
  using u64_text by (fastforce simp: cu64_ok_def processCheckUint64_def checkUint64ToOJ_def setting_eq_ok IsStar_def split: if_splits)

lemma cbig_read: "processCheckBigInt p obj format = ok v \<Longrightarrow> cbig_ok p format v"
  by (auto simp: cbig_ok_def processCheckBigInt_def processBigInt_def checkBigIntToOJ_def IsStar_def andThen_eq_ok setting_eq_ok split: if_splits)

lemmas values_read = big_read u64_read str_read addr_read tree_read cbytes_read cu64_read cbig_read

lemma zeros_ok [simp]:
  "u64_ok p JSONUint64Zero" "big_ok p JSONBigIntZero" "str_ok p (NewJSONBytesFromString [] [])" "cu64_ok p JSONCheckUint64_zero"
  by (simp_all add: u64_ok_def processUint64_def big_ok_def processBigInt_def parseBigInt_def uint64ToOJ_def bigIntToOJ_def str_ok_iff
      JSONUint64Zero_def JSONBigIntZero_def NewJSONBytesFromString_def big_SetBytes_def cu64_ok_def processCheckUint64_def checkUint64ToOJ_def
      JSONCheckUint64_zero_def IsStar_def)

lemmas reader_results = andThen_eq_ok setting_eq_ok

lemma tx_esdt_parsed: "processTxESDT p obj = ok d \<Longrightarrow> tx_esdt_ok p d"
  unfolding processTxESDT_def
  by (erule read_map_inv)
    (auto simp: tx_esdt_ok_def ESDTTxData_zero_def tx_esdt_field_def reader_results dest: values_read split: if_splits)

lemma instance_field_parsed: "tryProcessESDTInstanceField p kv i = ok (b, i') \<Longrightarrow> instance_ok p i \<Longrightarrow> instance_ok p i'"
  by (cases kv) (auto simp: tryProcessESDTInstanceField_def instance_ok_def reader_results not_less dest: values_read split: if_splits)

lemma zero_instance_ok: "instance_ok p ESDTInstance_zero"
  by (simp add: instance_ok_def ESDTInstance_zero_def) (simp add: NewJSONBytesFromString_def JSONUint64Zero_def)

lemma instances_parsed: "processESDTInstances p obj = ok insts \<Longrightarrow> list_all (instance_ok p) insts"
  unfolding processESDTInstances_def
  by (erule read_list_inv, erule read_map_inv)
    (auto simp: zero_instance_ok listed_instance_field_def reader_results dest: instance_field_parsed split: if_splits)

lemma esdt_parsed: "processESDTData p t obj = ok d \<Longrightarrow> str_ok p t \<Longrightarrow> esdt_ok p d"
proof -
  assume parsed: "processESDTData p t obj = ok d" and t: "str_ok p t"
  have short: "instance_ok p (ESDTInstance_zero\<lparr>ei_Balance := b\<rparr>)" if "big_ok p b" for b
    using zero_instance_ok [of p] that by (simp add: instance_ok_def)
  let ?P = "\<lambda>(e, inst, loaded, ex). esdt_ok p e \<and> instance_ok p inst \<and> list_all (instance_ok p) ex"
  have "?P x" if "fold_result (esdt_data_field p) kvs (ESDTData_zero t, ESDTInstance_zero, False, []) = ok x" for kvs x
    using that
  proof (rule fold_result_inv)
    fix kv s s' assume "?P s" and "esdt_data_field p kv s = ok s'"
    then show "?P s'"
      by (cases kv; cases s) (auto simp: esdt_data_field_def reader_results esdt_ok_def dest: instance_field_parsed instances_parsed values_read split: if_splits)
  qed (use t in \<open>simp add: esdt_ok_def ESDTData_zero_def zero_instance_ok\<close>)
  then show ?thesis
    using parsed t short
    by (fastforce simp: processESDTData_def processESDTDataMap_def reader_results esdt_ok_def ESDTData_zero_def dest: values_read
        split: option.splits OJsonObject.splits)
qed

lemma given_read:
  "parseCheckBytes p obj = ok cb \<Longrightarrow> cbytes_given p cb" "processCheckUint64 p obj = ok cu \<Longrightarrow> cu64_given p cu"
  "processCheckBigInt p obj format = ok ci \<Longrightarrow> cbig_given p format ci"
  by (auto simp: cbytes_given_def cu64_given_def cbig_given_def dest: values_read)

lemma check_instance_field_parsed:
  "tryProcessCheckESDTInstanceField p kv i = ok (b, i') \<Longrightarrow> check_instance_ok p i \<Longrightarrow> check_instance_ok p i'"
  by (cases kv) (auto simp: tryProcessCheckESDTInstanceField_def check_instance_ok_def reader_results not_less dest: given_read split: if_splits)

lemma blank_check_ok: "check_instance_ok p NewCheckESDTInstance"
  by (simp add: check_instance_ok_def NewCheckESDTInstance_def cbytes_given_def cu64_given_def cbig_given_def)
    (simp add: JSONCheckUint64Unspecified_def)

lemma check_instances_parsed: "processCheckESDTInstances p obj = ok insts \<Longrightarrow> list_all (check_instance_ok p) insts"
  unfolding processCheckESDTInstances_def
  by (erule read_list_inv, erule read_map_inv)
    (auto simp: blank_check_ok listed_instance_field_def reader_results dest: check_instance_field_parsed split: if_splits)

definition check_esdt_parts_ok :: "Parser \<Rightarrow> CheckESDTData \<Rightarrow> bool" where
  "check_esdt_parts_ok p d \<longleftrightarrow> str_ok p (ced_TokenIdentifier d) \<and> cu64_ok p (ced_LastNonce d) \<and> cu64_ok p (ced_Frozen d)"

lemma check_esdt_parsed: "processCheckESDTData p t obj = ok d \<Longrightarrow> str_ok p t \<Longrightarrow> check_esdt_ok p d"
proof -
  assume parsed: "processCheckESDTData p t obj = ok d" and t: "str_ok p t"
  let ?P = "\<lambda>(e, inst, loaded, ex). check_esdt_parts_ok p e \<and> check_instance_ok p inst \<and> list_all (check_instance_ok p) ex"
  have "?P x" if "fold_result (check_esdt_data_field p) kvs (CheckESDTData_zero t, NewCheckESDTInstance, False, []) = ok x" for kvs x
    using that
  proof (rule fold_result_inv)
    fix kv s s' assume "?P s" and "check_esdt_data_field p kv s = ok s'"
    then show "?P s'"
      by (cases kv; cases s) (auto simp: check_esdt_data_field_def reader_results check_esdt_parts_ok_def
          dest: check_instance_field_parsed check_instances_parsed values_read split: if_splits)
  qed (use t in \<open>simp add: check_esdt_parts_ok_def CheckESDTData_zero_def blank_check_ok\<close>)
  then have full: "check_esdt_ok p d" if "processCheckESDTDataMap p t kvs = ok d" for kvs
    using that by (fastforce simp: processCheckESDTDataMap_def reader_results check_esdt_ok_def check_esdt_parts_ok_def)
  show ?thesis
  proof (cases "\<exists>k kvs. obj = Some (OJsonMap k kvs)")
    case True
    then show ?thesis using parsed full by (auto simp: processCheckESDTData_def)
  next
    case False
    then obtain b where "cbig_ok p bigIntUnsignedBytes b" "d = (CheckESDTData_zero t)\<lparr>ced_Instances := [short_check b]\<rparr>"
      using parsed by (auto simp: processCheckESDTData_def reader_results short_check_def dest: values_read split: option.splits OJsonObject.splits)
    then show ?thesis using t by (auto simp: check_esdt_ok_def CheckESDTData_zero_def)
  qed
qed

lemma account_parsed: "processAccount p obj = ok a \<Longrightarrow> addr_ok p ad \<Longrightarrow> account_ok p (a\<lparr>sac_Address := ad\<rparr>)"
proof -
  assume parsed: "processAccount p obj = ok a" and ad: "addr_ok p ad"
  let ?P = "\<lambda>a. account_ok p (a\<lparr>sac_Address := ad\<rparr>)"
  have esdt: "?P a'" if "read_map msg (account_esdt_field p) a obj = ok a'" "?P a" for msg a obj a'
    using that by (rule read_map_inv)
      (auto simp: account_esdt_field_def reader_results account_ok_def dest: str_made esdt_parsed)
  have storage: "?P a'" if "read_map msg (account_storage_field p) a obj = ok a'" "?P a" for msg a obj a'
    using that by (rule read_map_inv)
      (auto simp: account_storage_field_def reader_results account_ok_def storage_ok_def dest: str_made tree_read)
  show ?thesis
    using parsed unfolding processAccount_def
  proof (rule read_map_inv)
    show "?P ScenAccount_zero" using ad by (simp add: account_ok_def ScenAccount_zero_def)
  next
    fix key val s s' assume s: "?P s" and step: "account_field p (key, val) s = ok s'"
    show "?P s'"
    proof (cases "key = ''esdt'' \<or> key = ''storage''")
      case True
      then show ?thesis using s step esdt storage by (auto simp: account_field_def)
    next
      case False
      then show ?thesis using s step
        by (auto simp: account_field_def reader_results account_ok_def dest: values_read split: if_splits)
    qed
  qed
qed

lemma accounts_parsed: "processAccountMap p obj = ok as \<Longrightarrow> list_all (account_ok p) as"
  unfolding processAccountMap_def
  by (erule read_map_inv) (auto simp: account_entry_def reader_results dest: addr_read account_parsed)

lemma check_account_parsed: "processCheckAccount p obj = ok a \<Longrightarrow> addr_ok p ad \<Longrightarrow> check_account_ok p (a\<lparr>ca_Address := ad\<rparr>)"
proof -
  assume parsed: "processCheckAccount p obj = ok a" and ad: "addr_ok p ad"
  let ?P = "\<lambda>a. check_account_ok p (a\<lparr>ca_Address := ad\<rparr>)"
  have esdt: "?P a'" if "read_map msg (check_esdt_field p) a obj = ok a'" "?P a" for msg a obj a'
    using that by (rule read_map_inv)
      (auto simp: check_esdt_field_def reader_results check_account_ok_def dest: str_made check_esdt_parsed split: if_splits)
  have storage: "?P a'" if "read_map msg (check_storage_field p) a obj = ok a'" "?P a" for msg a obj a'
    using that by (rule read_map_inv)
      (auto simp: check_storage_field_def reader_results check_account_ok_def check_storage_ok_def dest: str_made cbytes_read split: if_splits)
  show ?thesis
    using parsed unfolding processCheckAccount_def
  proof (rule read_map_inv)
    show "?P CheckAccount_zero"
      using ad by (simp add: check_account_ok_def CheckAccount_zero_def cbytes_given_def cu64_given_def cbig_given_def)
  next
    fix key val s s' assume s: "?P s" and step: "check_account_field p (key, val) s = ok s'"
    show "?P s'"
    proof (cases "key = ''esdt'' \<or> key = ''storage''")
      case True
      have "?P (s\<lparr>ca_IgnoreESDT := c\<rparr>)" "?P (s\<lparr>ca_IgnoreStorage := c\<rparr>)" for c using s by (simp_all add: check_account_ok_def)
      then show ?thesis using True step by (auto simp: check_account_field_def Let_def split: if_splits intro: esdt storage)
    next
      case False
      then show ?thesis using s step
        by (auto simp: check_account_field_def reader_results check_account_ok_def dest: given_read split: if_splits)
    qed
  qed
qed

lemma check_accounts_parsed: "processCheckAccountMap p obj = ok cs \<Longrightarrow> check_accounts_ok p cs"
  unfolding processCheckAccountMap_def
  by (erule read_map_inv)
    (auto simp: check_account_entry_def check_accounts_ok_def reader_results dest: addr_read check_account_parsed split: if_splits)

lemma sub_trees_parsed: "parseSubTreeList p obj = ok vs \<Longrightarrow> list_all (tree_ok p) vs"
  unfolding parseSubTreeList_def by (erule read_list_inv) (rule tree_read)

lemma addr_or_blank_read: "parseAccountAddress p str = ok v \<Longrightarrow> addr_or_blank p v"
  by (simp add: addr_or_blank_def addr_read)

lemma tx_updates:
  "tx_ok p s \<Longrightarrow> u64_ok p u \<Longrightarrow> tx_ok p (s\<lparr>tx_Nonce := u\<rparr>)"
  "tx_ok p s \<Longrightarrow> addr_or_blank p a \<Longrightarrow> HasSender (tx_Type s) \<Longrightarrow> tx_ok p (s\<lparr>tx_From := a\<rparr>)"
  "tx_ok p s \<Longrightarrow> addr_or_blank p a \<Longrightarrow> tx_Type s \<noteq> ScDeploy \<Longrightarrow> tx_ok p (s\<lparr>tx_To := a\<rparr>)"
  "tx_ok p s \<Longrightarrow> HasFunction (tx_Type s) \<Longrightarrow> tx_ok p (s\<lparr>tx_Function := f\<rparr>)"
  "tx_ok p s \<Longrightarrow> tx_ok p (s\<lparr>tx_Function := []\<rparr>)"
  "tx_ok p s \<Longrightarrow> big_ok p b \<Longrightarrow> HasValue (tx_Type s) \<Longrightarrow> tx_ok p (s\<lparr>tx_Value := b\<rparr>)"
  "tx_ok p s \<Longrightarrow> tx_esdt_ok p d \<Longrightarrow> HasESDT (tx_Type s) \<Longrightarrow> tx_ok p (s\<lparr>tx_ESDTValue := Some d\<rparr>)"
  "tx_ok p s \<Longrightarrow> list_all (tree_ok p) args \<Longrightarrow> tx_Type s \<noteq> Transfer_tx \<Longrightarrow> tx_ok p (s\<lparr>tx_Arguments := args\<rparr>)"
  "tx_ok p s \<Longrightarrow> tx_ok p (s\<lparr>tx_Arguments := []\<rparr>)"
  "tx_ok p s \<Longrightarrow> str_ok p c \<Longrightarrow> tx_ok p (s\<lparr>tx_Code := c\<rparr>)"
  "tx_ok p s \<Longrightarrow> u64_ok p u \<Longrightarrow> HasGas (tx_Type s) \<Longrightarrow> tx_ok p (s\<lparr>tx_GasPrice := u\<rparr>)"
  "tx_ok p s \<Longrightarrow> u64_ok p u \<Longrightarrow> HasGas (tx_Type s) \<Longrightarrow> tx_ok p (s\<lparr>tx_GasLimit := u\<rparr>)"
  by (simp_all add: tx_ok_def)

lemma tx_parsed: "processTx p ty obj = ok t \<Longrightarrow> ty \<noteq> UnknownType \<Longrightarrow> tx_ok p t \<and> tx_Type t = ty"
  unfolding processTx_def
proof (erule read_map_inv)
  assume "ty \<noteq> UnknownType"
  then show "tx_ok p (Transaction_zero ty) \<and> tx_Type (Transaction_zero ty) = ty"
    by (simp add: tx_ok_def Transaction_zero_def addr_or_blank_def)
next
  fix key val s s' assume s: "tx_ok p s \<and> tx_Type s = ty" and step: "tx_field p ty (key, val) s = ok s'"
  show "tx_ok p s' \<and> tx_Type s' = ty"
    using s step
    by (auto simp: tx_field_def reader_results split: if_splits intro: tx_updates
        dest: big_read u64_read str_read addr_or_blank_read tx_esdt_parsed sub_trees_parsed)
qed

lemma check_bytes_list_parsed: "parseCheckBytesList p obj = ok vs \<Longrightarrow> list_all (cbytes_ok p) vs"
  unfolding parseCheckBytesList_def by (erule read_list_inv) (rule cbytes_read)

lemma logs_parsed: "processLogList p obj = ok ls \<Longrightarrow> list_all (log_ok p) ls"
  unfolding processLogList_def
  by (erule read_list_inv, erule read_map_inv)
    (auto simp: log_ok_def ScenLogEntry_zero_def cbytes_or_zero_def log_field_def reader_results dest: cbytes_read check_bytes_list_parsed split: if_splits)

lemma result_parsed: "processTxExpectedResult p obj = ok r \<Longrightarrow> result_ok p r"
  unfolding processTxExpectedResult_def
proof (erule read_map_inv)
  show "result_ok p TransactionResult_zero"
    by (simp add: result_ok_def TransactionResult_zero_def cbytes_given_def cu64_given_def cbig_given_def)
next
  fix key val s s' assume s: "result_ok p s" and step: "result_field p (key, val) s = ok s'"
  show "result_ok p s'"
  proof (cases "key = ''logs''")
    case True
    show ?thesis
    proof (cases "\<exists>str. val = Some (OJsonString str)")
      case True
      then show ?thesis using s step \<open>key = ''logs''\<close> by (auto simp: result_field_def result_ok_def Let_def IsStar_def split: if_splits)
    next
      case False
      then have "parseString val = fail ''not a string value''" "\<not> IsStar val"
        by (auto simp: parseString_def IsStar_def split: option.splits OJsonObject.splits)
      then show ?thesis
        using s step \<open>key = ''logs''\<close> by (auto simp: result_field_def result_ok_def Let_def reader_results dest: logs_parsed)
    qed
  next
    case False
    then show ?thesis using s step
      by (auto simp: result_field_def reader_results result_ok_def dest: given_read check_bytes_list_parsed split: if_splits)
  qed
qed

lemma block_info_parsed: "processBlockInfo p obj = ok b \<Longrightarrow> block_info_ok p b"
  unfolding processBlockInfo_def
  by (erule read_map_inv)
    (auto simp: block_info_ok_def ScenBlockInfo_zero_def block_info_field_def reader_results dest: values_read split: if_splits)

lemma new_addresses_parsed: "processNewAddressMocks p obj = ok ms \<Longrightarrow> list_all (new_address_ok p) ms"
  unfolding processNewAddressMocks_def
  by (erule read_list_inv, erule read_map_inv)
    (auto simp: new_address_ok_def ScenNewAddressMock_zero_def addr_or_blank_def new_address_field_def reader_results dest: values_read split: if_splits)

lemma byte_arrays_parsed: "parseByteArrayList p obj = ok hs \<Longrightarrow> list_all (str_ok p) hs"
  unfolding parseByteArrayList_def by (erule read_list_inv) (rule str_read)

lemma set_state_parsed: "fold_result (set_state_field p) kvs SetState_zero = ok st \<Longrightarrow> set_state_ok p st"
  by (erule fold_result_inv)
    (auto simp: set_state_ok_def SetState_zero_def set_state_field_def reader_results
      dest!: accounts_parsed new_addresses_parsed block_info_parsed byte_arrays_parsed split: if_splits)

lemma check_state_parsed:
  "fold_result (check_state_field p) kvs ([], None) = ok (co, checks) \<Longrightarrow> step_ok p (CheckStateStep co checks)"
  by (drule fold_result_inv [where P = "\<lambda>(co, checks). step_ok p (CheckStateStep co checks)"])
    (auto simp: check_state_field_def reader_results dest: check_accounts_parsed split: if_splits)

lemma tx_step_parsed: "parseTxStep p ty kvs = ok st \<Longrightarrow> ty \<noteq> UnknownType \<Longrightarrow> step_ok p st"
proof -
  assume parsed: "parseTxStep p ty kvs = ok st" and ty: "ty \<noteq> UnknownType"
  let ?P = "\<lambda>(ident, co, tx, re). step_ok p (TxStep ident co tx re) \<and> (\<forall>t. tx = Some t \<longrightarrow> tx_Type t = ty)"
  have "?P x" if "fold_result (tx_step_field p ty) kvs ([], [], None, None) = ok x" for x
    using that
  proof (rule fold_result_inv)
    fix kv s s' assume s: "?P s" and step: "tx_step_field p ty kv s = ok s'"
    obtain key val where kv: "kv = (key, val)" by (cases kv)
    obtain ident co tx re where s_def: "s = (ident, co, tx, re)" by (cases s)
    obtain ident' co' tx' re' where s': "s' = (ident', co', tx', re')" by (cases s')
    have "tx' = tx \<and> re' = re \<or> (\<exists>t. tx' = Some t \<and> processTx p ty val = ok t) \<and> re' = re \<or>
        tx' = tx \<and> (\<exists>r t. re' = Some r \<and> processTxExpectedResult p val = ok r \<and> tx = Some t \<and> IsSmartContractTx (tx_Type t))"
      using step by (simp add: kv s_def s' tx_step_field_def reader_results split: if_splits option.splits) blast+
    then show "?P s'"
    proof (elim disjE conjE exE)
      fix t assume "tx' = Some t" "processTx p ty val = ok t" "re' = re"
      then show ?thesis using s tx_parsed [OF _ ty] by (fastforce simp: s_def s')
    qed (use s result_parsed in \<open>auto simp: s_def s'\<close>)
  qed simp
  then show ?thesis using parsed by (auto simp: parseTxStep_def reader_results)
qed

lemma step_parsed: "processScenarioStep p obj = ok st \<Longrightarrow> step_ok p st"
  by (auto simp: processScenarioStep_def step_of_type_def reader_results
      dest: set_state_parsed check_state_parsed tx_step_parsed split: if_splits)

lemma steps_parsed: "processScenarioStepList p obj = ok sts \<Longrightarrow> list_all (step_ok p) sts"
  unfolding processScenarioStepList_def by (erule read_list_inv) (rule step_parsed)

lemma scenario_parsed: "ParseScenarioFile p jsonString = ok s \<Longrightarrow> scenario_ok p s"
proof -
  assume "ParseScenarioFile p jsonString = ok s"
  then obtain j where "read_map ''unmarshalled test top level object is not a map'' (scenario_field p) Scenario_zero j = ok s"
    by (auto simp: ParseScenarioFile_def reader_results)
  then show ?thesis
  proof (rule read_map_inv)
    fix key val s s' assume "scenario_ok p s" and "scenario_field p (key, val) s = ok s'"
    then show "scenario_ok p s'"
      by (auto simp: scenario_field_def reader_results scenario_ok_def parseGasSchedule_def
          dest: steps_parsed split: if_splits)
  qed (simp add: scenario_ok_def Scenario_zero_def)
qed

section \<open>Files\<close>

lemma written_file_parses: "wf_json j \<Longrightarrow> ParseOrderedJSON (JSONString j @ [newline]) = Some (Inr (Some j))"
proof -
  assume "wf_json j"
  then have "reads j" using written_documents_read by blast
  from readsD [OF this, of newline "[]" None 0 "[]"] show ?thesis
    by (simp add: ParseOrderedJSON_def JSONString_def parse_loop_Cons parse_char.simps isWhitespace_def)
qed

text \<open>
  C36. A scenario that was read from a file, written to a file and read again is the same scenario, provided that it
  uses none of the forms that the writer loses (\<open>scenario_kept\<close>) and that none of its texts ends early when it is put
  between quotes (\<open>wf_json\<close> of the written document). The writer does not panic on such a scenario. The forms that are lost
  are few and each of them is named: shards of accounts, values that are empty although their text is not, nonces of transactions, tokens
  in the short form with further fields, expected tokens with stars or with a uri of their own, and steps without
  accounts or transaction.
\<close>

theorem scenario_files_read_back:
  assumes "ParseScenarioFile p file = Some (Inr s)" and "scenario_kept s"
  shows "\<exists>j text. ScenarioToOrderedJSON s = Some j \<and> ScenarioToJSONString s = Some text
    \<and> (wf_json j \<longrightarrow> ParseScenarioFile p text = Some (Inr s))"
proof -
  have "scenario_ok p s" using assms(1) by (intro scenario_parsed) (simp add: ok_def)
  then obtain j where j: "ScenarioToOrderedJSON s = Some j"
    "read_map ''unmarshalled test top level object is not a map'' (scenario_field p) Scenario_zero (Some j) = ok s"
    using scenario_reads assms(2) by blast
  then have "ParseScenarioFile p (JSONString j @ [newline]) = Some (Inr s)" if "wf_json j"
    using written_file_parses [OF that] by (simp add: ParseScenarioFile_def andThen_def ok_def)
  then show ?thesis using j(1) by (simp add: ScenarioToJSONString_def)
qed

section \<open>A small file\<close>

definition sample_parser :: Parser where
  "sample_parser = \<lparr>p_ExprInterpreter = \<lparr>ei_FileResolver = None, ei_Keccak256 = (\<lambda>bs. bs), ei_twos_ToBytes = big_Bytes,
       ei_twos_ToBytesOfLength = (\<lambda>z n. Inr (big_Bytes z)), ei_twos_CopyAlignRight = (\<lambda>bs n. replicate (n - length bs) 0 @ bs)\<rparr>,
     p_twos_FromBytes = (\<lambda>bs. big_SetBytes bs - (if bs \<noteq> [] \<and> hd bs \<ge> 128 then 2 ^ (8 * length bs) else 0))\<rparr>"

definition sample_file :: string where
  "sample_file = ''{\"steps\":[{\"step\":\"setState\",\"accounts\":{\"address:a\":{\"balance\":\"9\",\"storage\":{\"str:k\":\"5\"}}}},{\"step\":\"scCall\",\"tx\":{\"from\":\"address:a\",\"to\":\"sc:b\",\"value\":\"1\",\"function\":\"f\",\"arguments\":[\"2\"],\"gasLimit\":\"7\"},\"expect\":{\"status\":\"0\"}},{\"step\":\"checkState\",\"accounts\":{\"address:a\":{\"balance\":\"*\"},\"+\":\"\"}}]}''"

definition parsed_sample :: "Scenario option" where
  "parsed_sample = (case ParseScenarioFile sample_parser sample_file of Some (Inr s) \<Rightarrow> Some s | _ \<Rightarrow> None)"

theorem scenario_files_read_back_witness:
  "\<exists>s text. ParseScenarioFile sample_parser sample_file = Some (Inr s) \<and> length (scn_Steps s) = 3
     \<and> ScenarioToJSONString s = Some text \<and> ParseScenarioFile sample_parser text = Some (Inr s)"
proof -
  have "case parsed_sample of None \<Rightarrow> False
    | Some s \<Rightarrow> scenario_kept s \<and> wf_json (the (ScenarioToOrderedJSON s)) \<and> length (scn_Steps s) = 3"
    by code_simp
  then obtain s where s: "ParseScenarioFile sample_parser sample_file = Some (Inr s)" "scenario_kept s"
    "wf_json (the (ScenarioToOrderedJSON s))" "length (scn_Steps s) = 3"
    by (auto simp: parsed_sample_def split: option.splits sum.splits)
  from scenario_files_read_back [OF s(1,2)] s show ?thesis by auto
qed

text \<open>An expected result in front of its transaction is a panic, and the uri of an expected token is written as its creator.\<close>

lemma early_result_panics: "ParseScenarioStep sample_parser ''{\"step\":\"scCall\",\"expect\":{}}'' = None"
  by code_simp

lemma uri_written_as_creator:
  "has_bytes (cei_Uri inst) \<Longrightarrow> map_get (check_instance_entries inst) ''uri'' = Some (checkBytesToOJ (cei_Creator inst))"
  by (auto simp: check_instance_entries_def opt_def)

end
