(* ===== verification/MockWorld.thy ===== *)
theory MockWorld
  imports StorageContext
begin

text \<open>
  The world behind the VM in scenarios and tests (\<open>mock/world\<close>): a node with accounts in memory,
  snapshots of them, block information and compiled code, which implements the blockchain hook
  and takes over the output of a transaction. An account is changed through its pointer in the
  map, here by its address. Hashing, code metadata, built-in functions, the protocol buffers of tokens and
  the address format and the constants of the protocol are code of other packages and fields of a record. Error
  texts leave out the addresses and numbers that the code prints into them.
  A missing account or block seed that is dereferenced is a panic (\<open>None\<close>).
\<close>

section \<open>Accounts\<close>

text \<open>\<open>wa_MockWorld\<close> tells whether the account knows its world; \<open>wa_Balance\<close> is nil if an output said so.\<close>

record WorldAccount =
  wa_Exists :: bool
  wa_Address :: address
  wa_Nonce :: u64
  wa_Balance :: "int option"
  wa_BalanceDelta :: int
  wa_Storage :: "(bytes, bytes) gomap"
  wa_RootHash :: bytes
  wa_Code :: bytes
  wa_CodeHash :: bytes
  wa_CodeMetadata :: bytes
  wa_OwnerAddress :: address
  wa_AsyncCallData :: bytes
  wa_Username :: bytes
  wa_DeveloperReward :: int
  wa_ShardID :: u32
  wa_IsSmartContract :: bool
  wa_MockWorld :: bool

type_synonym AccountMap = "(address, WorldAccount) gomap"

record NewAddressMock =
  nam_CreatorAddress :: address
  nam_CreatorNonce :: u64
  nam_NewAddress :: address

record BlockInfo =
  bli_BlockTimestamp :: u64
  bli_BlockNonce :: u64
  bli_BlockRound :: u64
  bli_BlockEpoch :: u32
  bli_RandomSeed :: "bytes option"

text \<open>\<open>mw_Snapshots\<close> belongs to the accounts adapter of the world; \<open>mw_BuiltinFuncs\<close> tells whether the wrapper is there.\<close>

record MockWorld =
  mw_SelfShardID :: u32
  mw_AcctMap :: AccountMap
  mw_Snapshots :: "AccountMap list"
  mw_PreviousBlockInfo :: "BlockInfo option"
  mw_CurrentBlockInfo :: "BlockInfo option"
  mw_Blockhashes :: "bytes list"
  mw_NewAddressMocks :: "NewAddressMock list"
  mw_StateRootHash :: bytes
  mw_Err :: "go_error option"
  mw_LastCreatedContractAddress :: address
  mw_CompiledCode :: "(bytes, bytes) gomap"
  mw_BuiltinFuncs :: bool

record worldEnv =
  we_Sha256 :: "bytes \<Rightarrow> go_error + bytes"
  we_CodeMetadata_ToBytes :: "CodeMetadata \<Rightarrow> bytes"
  we_CodeMetadataFromBytes :: "bytes \<Rightarrow> CodeMetadata"
  we_IsSmartContractAddress :: "address \<Rightarrow> bool"
  we_SystemAccountAddress :: address
  we_MetadataPayable :: byte
  we_BuiltInKeys :: "string list"
  we_MarshalToken :: "ESDigitalToken \<Rightarrow> go_error + bytes"
  we_UnmarshalToken :: "bytes \<Rightarrow> go_error + ESDigitalToken"
  we_MarshalRoles :: "bytes list \<Rightarrow> go_error + bytes"
  we_UnmarshalRoles :: "bytes \<Rightarrow> go_error + bytes list"
  we_ProtectedKeyPrefix :: string
  we_ESDTKeyIdentifier :: string
  we_ESDTRoleIdentifier :: string
  we_ESDTNFTLatestNonceIdentifier :: string
  we_ESDTTransfer :: string
  we_ESDTNFTTransfer :: string
  we_Fungible :: u32
  we_NonFungible :: u32
  we_UserMetadata_ToBytes :: "bool \<Rightarrow> bytes"
  we_ProcessBuiltinFunction ::
    "WorldAccount option \<Rightarrow> WorldAccount option \<Rightarrow> ContractCallInput \<Rightarrow> MockWorld \<Rightarrow> (go_error + VMOutput) \<times> MockWorld"

definition ErrInsufficientFunds :: go_error where
  "ErrInsufficientFunds = OtherError ''insufficient funds''"

definition ErrOperationNotPermitted :: go_error where
  "ErrOperationNotPermitted = OtherError ''operation not permitted''"

definition ErrInvalidAddressLength :: go_error where
  "ErrInvalidAddressLength = OtherError ''invalid address length''"

definition ErrNilWorldMock :: go_error where
  "ErrNilWorldMock = OtherError ''nil worldmock''"

definition ErrBuiltinFuncWrapperNotInitialized :: go_error where
  "ErrBuiltinFuncWrapperNotInitialized = OtherError ''builtin function not found or container not initialized''"

definition StorageValue :: "WorldAccount \<Rightarrow> bytes \<Rightarrow> bytes" where
  "StorageValue a key = (case map_get (wa_Storage a) key of None \<Rightarrow> [] | Some v \<Rightarrow> v)"

definition account_hash :: "worldEnv \<Rightarrow> bytes \<Rightarrow> bytes" where
  "account_hash W code = (case we_Sha256 W code of Inl err \<Rightarrow> [] | Inr hash \<Rightarrow> hash)"

definition SetCodeAndMetadata :: "worldEnv \<Rightarrow> bytes \<Rightarrow> CodeMetadata \<Rightarrow> WorldAccount \<Rightarrow> WorldAccount" where
  "SetCodeAndMetadata W code codeMetadata a = a\<lparr>wa_Code := code, wa_CodeHash := account_hash W code,
     wa_IsSmartContract := True, wa_CodeMetadata := we_CodeMetadata_ToBytes W codeMetadata\<rparr>"

definition SetCode :: "worldEnv \<Rightarrow> bytes \<Rightarrow> WorldAccount \<Rightarrow> WorldAccount" where
  "SetCode W code a = a\<lparr>wa_Code := code, wa_CodeHash := account_hash W code, wa_IsSmartContract := True\<rparr>"

definition SetBalance :: "int \<Rightarrow> WorldAccount \<Rightarrow> WorldAccount" where
  "SetBalance balance a = a\<lparr>wa_Balance := Some balance\<rparr>"

definition AddToBalance :: "int \<Rightarrow> WorldAccount \<Rightarrow> (go_error option \<times> WorldAccount) option" where
  "AddToBalance v a = do {
     balance \<leftarrow> wa_Balance a;
     let newBalance = balance + v;
     Some (if newBalance < 0 then (Some ErrInsufficientFunds, a) else (None, a\<lparr>wa_Balance := Some newBalance\<rparr>))
   }"

definition SubFromBalance :: "int \<Rightarrow> WorldAccount \<Rightarrow> (go_error option \<times> WorldAccount) option" where
  "SubFromBalance v a = do {
     balance \<leftarrow> wa_Balance a;
     let newBalance = balance - v;
     Some (if newBalance < 0 then (Some ErrInsufficientFunds, a) else (None, a\<lparr>wa_Balance := Some newBalance\<rparr>))
   }"

definition ClaimDeveloperRewards :: "address \<Rightarrow> WorldAccount \<Rightarrow> (go_error + int) \<times> WorldAccount" where
  "ClaimDeveloperRewards sender a =
     (if sender \<noteq> wa_OwnerAddress a then (Inl ErrOperationNotPermitted, a)
      else (Inr (wa_DeveloperReward a), a\<lparr>wa_DeveloperReward := 0\<rparr>))"

definition AddToDeveloperReward :: "int \<Rightarrow> WorldAccount \<Rightarrow> WorldAccount" where
  "AddToDeveloperReward v a = a\<lparr>wa_DeveloperReward := wa_DeveloperReward a + v\<rparr>"

definition ChangeOwnerAddress :: "address \<Rightarrow> address \<Rightarrow> WorldAccount \<Rightarrow> go_error option \<times> WorldAccount" where
  "ChangeOwnerAddress sender newAddress a =
     (if sender \<noteq> wa_OwnerAddress a then (Some ErrOperationNotPermitted, a)
      else if length newAddress \<noteq> length (wa_Address a) then (Some ErrInvalidAddressLength, a)
      else (None, a\<lparr>wa_OwnerAddress := newAddress\<rparr>))"

definition SetCodeMetadata :: "bytes \<Rightarrow> WorldAccount \<Rightarrow> WorldAccount" where
  "SetCodeMetadata codeMetadata a = a\<lparr>wa_CodeMetadata := codeMetadata\<rparr>"

definition SetCodeHash :: "bytes \<Rightarrow> WorldAccount \<Rightarrow> WorldAccount" where
  "SetCodeHash hash a = a\<lparr>wa_CodeHash := hash\<rparr>"

definition SetRootHash :: "bytes \<Rightarrow> WorldAccount \<Rightarrow> WorldAccount" where
  "SetRootHash hash a = a\<lparr>wa_RootHash := hash\<rparr>"

definition SetOwnerAddress :: "address \<Rightarrow> WorldAccount \<Rightarrow> WorldAccount" where
  "SetOwnerAddress addr a = a\<lparr>wa_OwnerAddress := addr\<rparr>"

definition SetUserName :: "bytes \<Rightarrow> WorldAccount \<Rightarrow> WorldAccount" where
  "SetUserName userName a = a\<lparr>wa_Username := userName\<rparr>"

definition account_IncreaseNonce :: "u64 \<Rightarrow> WorldAccount \<Rightarrow> WorldAccount" where
  "account_IncreaseNonce nonce a = a\<lparr>wa_Nonce := wa_Nonce a + nonce\<rparr>"

text \<open>A deep copy shares nothing with the original, which values never do; copying a nil balance panics.\<close>

definition account_Clone :: "WorldAccount \<Rightarrow> WorldAccount option" where
  "account_Clone a = (if wa_Balance a = None then None else Some a)"

text \<open>Contract addresses start with eight zeros; a shorter address panics.\<close>

definition IsSmartContractAddress :: "address \<Rightarrow> bool option" where
  "IsSmartContractAddress addr = (if length addr < 8 then None else Some (take 8 addr = replicate 8 0))"

definition Validate :: "WorldAccount \<Rightarrow> go_error option option" where
  "Validate a =
     (if length (wa_Address a) \<noteq> 32 then Some (Some (OtherError ''account address should be 32 bytes long''))
      else do {
        scAddress \<leftarrow> IsSmartContractAddress (wa_Address a);
        Some (if length (wa_Code a) > 0 then
                (if \<not> scAddress then Some (OtherError ''account has a smart contract address, but has no code'') else None)
              else (if scAddress then Some (OtherError ''account has code but not a smart contract address'') else None))
      })"

section \<open>Maps of accounts\<close>

definition PutAccount :: "WorldAccount \<Rightarrow> AccountMap \<Rightarrow> AccountMap" where
  "PutAccount account am = map_put (wa_Address account) account am"

definition PutAccounts :: "WorldAccount list \<Rightarrow> AccountMap \<Rightarrow> AccountMap" where
  "PutAccounts accounts am = fold PutAccount accounts am"

definition GetAccount :: "AccountMap \<Rightarrow> address \<Rightarrow> WorldAccount option" where
  "GetAccount am addr = map_get am addr"

definition DeleteAccount :: "address \<Rightarrow> AccountMap \<Rightarrow> AccountMap" where
  "DeleteAccount addr am = map_delete addr am"

definition newAccount :: "address \<Rightarrow> WorldAccount" where
  "newAccount addr = \<lparr>wa_Exists = True, wa_Address = addr, wa_Nonce = 0, wa_Balance = Some 0, wa_BalanceDelta = 0,
     wa_Storage = [], wa_RootHash = [], wa_Code = [], wa_CodeHash = [], wa_CodeMetadata = [], wa_OwnerAddress = [],
     wa_AsyncCallData = [], wa_Username = [], wa_DeveloperReward = 0, wa_ShardID = 0, wa_IsSmartContract = False,
     wa_MockWorld = True\<rparr>"

definition CreateAccount :: "address \<Rightarrow> AccountMap \<Rightarrow> WorldAccount \<times> AccountMap" where
  "CreateAccount addr am = (newAccount addr, PutAccount (newAccount addr) am)"

definition CreateSmartContractAccount ::
  "worldEnv \<Rightarrow> address \<Rightarrow> address \<Rightarrow> bytes \<Rightarrow> AccountMap \<Rightarrow> WorldAccount \<times> AccountMap" where
  "CreateSmartContractAccount W owner addr code am =
     (let (a, am) = CreateAccount addr am;
          a = a\<lparr>wa_Code := code, wa_IsSmartContract := True, wa_OwnerAddress := owner,
                wa_CodeMetadata := [0, we_MetadataPayable W]\<rparr>
      in (a, PutAccount a am))"

fun AccountMap_Clone :: "AccountMap \<Rightarrow> AccountMap option" where
  "AccountMap_Clone [] = Some []"
| "AccountMap_Clone ((addr, account) # rest) = do {
     a \<leftarrow> account_Clone account;
     clone \<leftarrow> AccountMap_Clone rest;
     Some ((addr, a) # clone)
   }"

text \<open>
  The storage of every account is replaced by its storage in another map. An account that the other map
  does not have ends the loop with an error; the accounts visited before it are changed already.
\<close>

fun LoadAccountStorageFrom :: "worldEnv \<Rightarrow> AccountMap \<Rightarrow> AccountMap \<Rightarrow> go_error option \<times> AccountMap" where
  "LoadAccountStorageFrom W otherAM [] = (None, [])"
| "LoadAccountStorageFrom W otherAM ((addr, account) # rest) =
     (case map_get otherAM addr of
        None \<Rightarrow>
          if addr = we_SystemAccountAddress W then
            (let (err, am) = LoadAccountStorageFrom W otherAM rest in (err, (addr, account) # am))
          else (Some (OtherError ''account could not be loaded from AccountMap''), (addr, account) # rest)
      | Some otherAccount \<Rightarrow>
          (let (err, am) = LoadAccountStorageFrom W otherAM rest
           in (err, (addr, account\<lparr>wa_Storage := wa_Storage otherAccount\<rparr>) # am)))"

abbreviation upd_accounts :: "(AccountMap \<Rightarrow> AccountMap) \<Rightarrow> MockWorld \<Rightarrow> MockWorld" where
  "upd_accounts f w \<equiv> w\<lparr>mw_AcctMap := f (mw_AcctMap w)\<rparr>"

section \<open>The accounts adapter\<close>

definition GetExistingAccount :: "address \<Rightarrow> MockWorld \<Rightarrow> go_error + WorldAccount" where
  "GetExistingAccount addr w =
     (case map_get (mw_AcctMap w) addr of None \<Rightarrow> Inl (Sentinel ErrInvalidAccount) | Some account \<Rightarrow> Inr account)"

definition LoadAccount :: "address \<Rightarrow> MockWorld \<Rightarrow> WorldAccount \<times> MockWorld" where
  "LoadAccount addr w =
     (case map_get (mw_AcctMap w) addr of
        None \<Rightarrow> (let (account, am) = CreateAccount addr (mw_AcctMap w) in (account, w\<lparr>mw_AcctMap := am\<rparr>))
      | Some account \<Rightarrow> (account, w))"

definition SaveAccount :: "WorldAccount \<Rightarrow> MockWorld \<Rightarrow> MockWorld" where
  "SaveAccount account w = upd_accounts (PutAccount account) w"

definition RemoveAccount :: "address \<Rightarrow> MockWorld \<Rightarrow> go_error option \<times> MockWorld" where
  "RemoveAccount addr w =
     (if map_get (mw_AcctMap w) addr = None then (Some (Sentinel ErrInvalidAccount), w)
      else (None, upd_accounts (DeleteAccount addr) w))"

definition Commit :: "MockWorld \<Rightarrow> MockWorld" where
  "Commit w = w\<lparr>mw_Snapshots := []\<rparr>"

definition JournalLen :: "MockWorld \<Rightarrow> int" where
  "JournalLen w = int (length (mw_Snapshots w)) - 1"

definition adapter_RevertToSnapshot :: "worldEnv \<Rightarrow> int \<Rightarrow> MockWorld \<Rightarrow> go_error option \<times> MockWorld" where
  "adapter_RevertToSnapshot W snapshotIndex w =
     (if length (mw_Snapshots w) = 0 then (Some (OtherError ''no snapshots''), w)
      else if snapshotIndex \<ge> int (length (mw_Snapshots w)) \<or> snapshotIndex < 0
      then (Some (OtherError ''snapshot out of bounds''), w)
      else
        let snapshot = mw_Snapshots w ! nat snapshotIndex;
            w = w\<lparr>mw_Snapshots := take (nat snapshotIndex) (mw_Snapshots w)\<rparr>;
            (err, am) = LoadAccountStorageFrom W snapshot (mw_AcctMap w)
        in (err, w\<lparr>mw_AcctMap := am\<rparr>))"

definition GetNumCheckpoints :: "MockWorld \<Rightarrow> u32" where
  "GetNumCheckpoints w = of_nat (length (mw_Snapshots w))"

fun code_with_hash :: "bytes \<Rightarrow> AccountMap \<Rightarrow> bytes" where
  "code_with_hash codeHash [] = []"
| "code_with_hash codeHash ((_, account) # rest) =
     (if wa_CodeHash account = codeHash then wa_Code account else code_with_hash codeHash rest)"

definition adapter_GetCode :: "bytes \<Rightarrow> MockWorld \<Rightarrow> bytes" where
  "adapter_GetCode codeHash w = code_with_hash codeHash (mw_AcctMap w)"

definition SnapshotState :: "MockWorld \<Rightarrow> MockWorld option" where
  "SnapshotState w = do {
     snapshot \<leftarrow> AccountMap_Clone (mw_AcctMap w);
     Some (w\<lparr>mw_Snapshots := mw_Snapshots w @ [snapshot]\<rparr>)
   }"

section \<open>The world\<close>

definition zeroBlockInfo :: BlockInfo where
  "zeroBlockInfo = \<lparr>bli_BlockTimestamp = 0, bli_BlockNonce = 0, bli_BlockRound = 0, bli_BlockEpoch = 0,
     bli_RandomSeed = None\<rparr>"

definition NewMockWorld :: MockWorld where
  "NewMockWorld = \<lparr>mw_SelfShardID = 0, mw_AcctMap = [], mw_Snapshots = [], mw_PreviousBlockInfo = None,
     mw_CurrentBlockInfo = Some zeroBlockInfo, mw_Blockhashes = [], mw_NewAddressMocks = [], mw_StateRootHash = [],
     mw_Err = None, mw_LastCreatedContractAddress = [], mw_CompiledCode = [], mw_BuiltinFuncs = False\<rparr>"

definition Clear :: "MockWorld \<Rightarrow> MockWorld" where
  "Clear w = w\<lparr>mw_AcctMap := [], mw_Snapshots := [], mw_PreviousBlockInfo := None, mw_CurrentBlockInfo := None,
     mw_Blockhashes := [], mw_NewAddressMocks := [], mw_CompiledCode := []\<rparr>"

definition SetCurrentBlockHash :: "bytes \<Rightarrow> MockWorld \<Rightarrow> MockWorld" where
  "SetCurrentBlockHash blockHash w =
     (let w = (if mw_CurrentBlockInfo w = None then w\<lparr>mw_CurrentBlockInfo := Some zeroBlockInfo\<rparr> else w)
      in w\<lparr>mw_Blockhashes := [blockHash]\<rparr>)"

definition NumberOfShards :: "MockWorld \<Rightarrow> u32" where
  "NumberOfShards w =
     fold (\<lambda>(_, account) maxShardID. if wa_ShardID account > maxShardID then wa_ShardID account else maxShardID)
       (mw_AcctMap w) 0 + 1"

definition ComputeId :: "address \<Rightarrow> MockWorld \<Rightarrow> u32 option" where
  "ComputeId addr w = map_option wa_ShardID (GetAccount (mw_AcctMap w) addr)"

definition SameShard :: "address \<Rightarrow> address \<Rightarrow> MockWorld \<Rightarrow> bool option" where
  "SameShard firstAddress secondAddress w = do {
     first \<leftarrow> GetAccount (mw_AcctMap w) firstAddress;
     second \<leftarrow> GetAccount (mw_AcctMap w) secondAddress;
     Some (wa_ShardID first = wa_ShardID second)
   }"

definition GetSnapshot :: "MockWorld \<Rightarrow> int" where
  "GetSnapshot w = JournalLen w"

definition world_RevertToSnapshot :: "worldEnv \<Rightarrow> int \<Rightarrow> MockWorld \<Rightarrow> go_error option \<times> MockWorld" where
  "world_RevertToSnapshot W snapshot w = adapter_RevertToSnapshot W snapshot w"

section \<open>The blockchain hook\<close>

text \<open>The address of a contract from the address of its creator, which must have at least 30 bytes, and a nonce.\<close>

definition GenerateMockAddress :: "address \<Rightarrow> u64 \<Rightarrow> address option" where
  "GenerateMockAddress creatorAddress creatorNonce =
     (if length creatorAddress < 30 then None
      else Some (replicate 10 0 @ replicate 4 0x11 @ take 15 creatorAddress @ [ucast creatorNonce]
             @ take 2 (take 2 (drop 30 creatorAddress) @ replicate 2 0)))"

fun find_mock :: "address \<Rightarrow> u64 \<Rightarrow> NewAddressMock list \<Rightarrow> address option" where
  "find_mock creatorAddress creatorNonce [] = None"
| "find_mock creatorAddress creatorNonce (newAddressMock # rest) =
     (if creatorAddress = nam_CreatorAddress newAddressMock \<and> creatorNonce = nam_CreatorNonce newAddressMock
      then Some (nam_NewAddress newAddressMock) else find_mock creatorAddress creatorNonce rest)"

definition world_NewAddress :: "address \<Rightarrow> u64 \<Rightarrow> MockWorld \<Rightarrow> ((go_error + address) \<times> MockWorld) option" where
  "world_NewAddress creatorAddress creatorNonce w =
     (case mw_Err w of
        Some err \<Rightarrow> Some (Inl err, w)
      | None \<Rightarrow>
          (case find_mock creatorAddress creatorNonce (mw_NewAddressMocks w) of
             Some addr \<Rightarrow> Some (Inr addr, w\<lparr>mw_LastCreatedContractAddress := addr\<rparr>)
           | None \<Rightarrow> do {
               result \<leftarrow> GenerateMockAddress creatorAddress creatorNonce;
               Some (Inr result, w\<lparr>mw_LastCreatedContractAddress := result\<rparr>)
             }))"

definition world_GetStorageData :: "MockWorld \<Rightarrow> address \<Rightarrow> bytes \<Rightarrow> go_error + bytes" where
  "world_GetStorageData w accountAddress key =
     (case mw_Err w of
        Some err \<Rightarrow> Inl err
      | None \<Rightarrow>
          (case GetAccount (mw_AcctMap w) accountAddress of
             None \<Rightarrow> Inr []
           | Some acct \<Rightarrow> Inr (StorageValue acct key)))"

definition block_value :: "(BlockInfo \<Rightarrow> 'a) \<Rightarrow> 'a \<Rightarrow> BlockInfo option \<Rightarrow> 'a" where
  "block_value f z b = (case b of None \<Rightarrow> z | Some info \<Rightarrow> f info)"

definition block_seed :: "BlockInfo option \<Rightarrow> bytes option" where
  "block_seed b = (case b of None \<Rightarrow> Some [] | Some info \<Rightarrow> bli_RandomSeed info)"

definition world_CurrentNonce :: "MockWorld \<Rightarrow> u64" where
  "world_CurrentNonce w = block_value bli_BlockNonce 0 (mw_CurrentBlockInfo w)"

definition world_CurrentRound :: "MockWorld \<Rightarrow> u64" where
  "world_CurrentRound w = block_value bli_BlockRound 0 (mw_CurrentBlockInfo w)"

definition world_CurrentTimeStamp :: "MockWorld \<Rightarrow> u64" where
  "world_CurrentTimeStamp w = block_value bli_BlockTimestamp 0 (mw_CurrentBlockInfo w)"

definition world_CurrentEpoch :: "MockWorld \<Rightarrow> u32" where
  "world_CurrentEpoch w = block_value bli_BlockEpoch 0 (mw_CurrentBlockInfo w)"

definition world_CurrentRandomSeed :: "MockWorld \<Rightarrow> bytes option" where
  "world_CurrentRandomSeed w = block_seed (mw_CurrentBlockInfo w)"

definition world_LastNonce :: "MockWorld \<Rightarrow> u64" where
  "world_LastNonce w = block_value bli_BlockNonce 0 (mw_PreviousBlockInfo w)"

definition world_LastRound :: "MockWorld \<Rightarrow> u64" where
  "world_LastRound w = block_value bli_BlockRound 0 (mw_PreviousBlockInfo w)"

definition world_LastTimeStamp :: "MockWorld \<Rightarrow> u64" where
  "world_LastTimeStamp w = block_value bli_BlockTimestamp 0 (mw_PreviousBlockInfo w)"

definition world_LastEpoch :: "MockWorld \<Rightarrow> u32" where
  "world_LastEpoch w = block_value bli_BlockEpoch 0 (mw_PreviousBlockInfo w)"

definition world_LastRandomSeed :: "MockWorld \<Rightarrow> bytes option" where
  "world_LastRandomSeed w = block_seed (mw_PreviousBlockInfo w)"

text \<open>The offset of a block is a signed number, so a difference of \<open>2^63\<close> or more indexes below zero.\<close>

definition world_GetBlockhash :: "u64 \<Rightarrow> MockWorld \<Rightarrow> (go_error + bytes) option" where
  "world_GetBlockhash nonce w =
     (case mw_Err w of
        Some err \<Rightarrow> Some (Inl err)
      | None \<Rightarrow>
          let currentNonce = world_CurrentNonce w
          in if nonce > currentNonce then Some (Inl (OtherError ''requested nonce is greater than current nonce''))
             else let offset = sint (currentNonce - nonce)
                  in if offset \<ge> int (length (mw_Blockhashes w))
                     then Some (Inl (OtherError ''requested nonce is older than the oldest available block nonce''))
                     else if offset < 0 then None
                     else Some (Inr (mw_Blockhashes w ! nat offset)))"

definition world_GetUserAccount :: "address \<Rightarrow> MockWorld \<Rightarrow> go_error + WorldAccount" where
  "world_GetUserAccount addr w =
     (case mw_Err w of
        Some err \<Rightarrow> Inl err
      | None \<Rightarrow>
          (case GetAccount (mw_AcctMap w) addr of None \<Rightarrow> Inl (OtherError ''account not found'') | Some a \<Rightarrow> Inr a))"

definition GetAllState :: "address \<Rightarrow> MockWorld \<Rightarrow> go_error + (bytes, bytes) gomap" where
  "GetAllState accountAddress w =
     (case GetAccount (mw_AcctMap w) accountAddress of
        None \<Rightarrow> Inl (OtherError ''account not found'') | Some a \<Rightarrow> Inr (wa_Storage a))"

definition world_GetCode :: "WorldAccount \<Rightarrow> MockWorld \<Rightarrow> bytes" where
  "world_GetCode acc w =
     (case GetAccount (mw_AcctMap w) (wa_Address acc) of None \<Rightarrow> [] | Some account \<Rightarrow> wa_Code account)"

definition world_GetShardOfAddress :: "address \<Rightarrow> MockWorld \<Rightarrow> u32" where
  "world_GetShardOfAddress addr w =
     (case GetAccount (mw_AcctMap w) addr of None \<Rightarrow> 0 | Some account \<Rightarrow> wa_ShardID account)"

definition world_IsSmartContract :: "worldEnv \<Rightarrow> address \<Rightarrow> MockWorld \<Rightarrow> bool" where
  "world_IsSmartContract W addr w =
     (case GetAccount (mw_AcctMap w) addr of
        None \<Rightarrow> we_IsSmartContractAddress W addr | Some account \<Rightarrow> wa_IsSmartContract account)"

definition world_IsPayable :: "worldEnv \<Rightarrow> address \<Rightarrow> MockWorld \<Rightarrow> bool" where
  "world_IsPayable W addr w =
     (case GetAccount (mw_AcctMap w) addr of
        None \<Rightarrow> True
      | Some account \<Rightarrow>
          if \<not> wa_IsSmartContract account then True
          else cm_Payable (we_CodeMetadataFromBytes W (wa_CodeMetadata account)))"

definition world_SaveCompiledCode :: "bytes \<Rightarrow> bytes \<Rightarrow> MockWorld \<Rightarrow> MockWorld" where
  "world_SaveCompiledCode codeHash code w = w\<lparr>mw_CompiledCode := map_put codeHash code (mw_CompiledCode w)\<rparr>"

definition world_GetCompiledCode :: "bytes \<Rightarrow> MockWorld \<Rightarrow> bool \<times> bytes" where
  "world_GetCompiledCode codeHash w =
     (case map_get (mw_CompiledCode w) codeHash of None \<Rightarrow> (False, []) | Some code \<Rightarrow> (True, code))"

definition ClearCompiledCodes :: "MockWorld \<Rightarrow> MockWorld" where
  "ClearCompiledCodes w = w\<lparr>mw_CompiledCode := []\<rparr>"

text \<open>An account of another shard is nil for a built-in function; an unknown address panics. That a function is not in the container is an error of \<open>we_ProcessBuiltinFunction\<close>.\<close>

definition getAccountSharded :: "address \<Rightarrow> MockWorld \<Rightarrow> WorldAccount option option" where
  "getAccountSharded addr w = do {
     accountShard \<leftarrow> ComputeId addr w;
     Some (if accountShard \<noteq> mw_SelfShardID w then None else GetAccount (mw_AcctMap w) addr)
   }"

definition wrapper_ProcessBuiltInFunction ::
  "worldEnv \<Rightarrow> ContractCallInput \<Rightarrow> MockWorld \<Rightarrow> ((go_error + VMOutput) \<times> MockWorld) option" where
  "wrapper_ProcessBuiltInFunction W input w = do {
     caller \<leftarrow> getAccountSharded (vi_CallerAddr (ci_VMInput input)) w;
     recipient \<leftarrow> getAccountSharded (ci_RecipientAddr input) w;
     Some (we_ProcessBuiltinFunction W caller recipient input w)
   }"

definition world_ProcessBuiltInFunction ::
  "worldEnv \<Rightarrow> ContractCallInput \<Rightarrow> MockWorld \<Rightarrow> ((go_error + VMOutput) \<times> MockWorld) option" where
  "world_ProcessBuiltInFunction W input w =
     (case mw_Err w of
        Some err \<Rightarrow> Some (Inl err, w)
      | None \<Rightarrow>
          if \<not> mw_BuiltinFuncs w then Some (Inl ErrBuiltinFuncWrapperNotInitialized, w)
          else wrapper_ProcessBuiltInFunction W input w)"

definition world_GetBuiltinFunctionNames :: "worldEnv \<Rightarrow> MockWorld \<Rightarrow> string list option" where
  "world_GetBuiltinFunctionNames W w = (if mw_BuiltinFuncs w then Some (we_BuiltInKeys W) else None)"

section \<open>Taking over the output of a transaction\<close>

definition UpdateBalance :: "address \<Rightarrow> int \<Rightarrow> MockWorld \<Rightarrow> go_error option \<times> MockWorld" where
  "UpdateBalance addr newBalance w =
     (case GetAccount (mw_AcctMap w) addr of
        None \<Rightarrow> (Some (OtherError ''method UpdateBalance expects an existing address''), w)
      | Some acct \<Rightarrow> (None, upd_accounts (map_put addr (acct\<lparr>wa_Balance := Some newBalance\<rparr>)) w))"

definition UpdateBalanceWithDelta :: "address \<Rightarrow> int \<Rightarrow> MockWorld \<Rightarrow> (go_error option \<times> MockWorld) option" where
  "UpdateBalanceWithDelta addr balanceDelta w =
     (case GetAccount (mw_AcctMap w) addr of
        None \<Rightarrow> Some (Some (OtherError ''method UpdateBalanceWithDelta expects an existing address''), w)
      | Some acct \<Rightarrow> do {
          balance \<leftarrow> wa_Balance acct;
          Some (None, upd_accounts (map_put addr (acct\<lparr>wa_Balance := Some (balance + balanceDelta)\<rparr>)) w)
        })"

definition UpdateWorldStateBefore ::
  "address \<Rightarrow> u64 \<Rightarrow> u64 \<Rightarrow> MockWorld \<Rightarrow> (go_error option \<times> MockWorld) option" where
  "UpdateWorldStateBefore fromAddr gasLimit gasPrice w =
     (case GetAccount (mw_AcctMap w) fromAddr of
        None \<Rightarrow> Some (Some (OtherError ''method UpdateWorldStateBefore expects an existing address''), w)
      | Some acct \<Rightarrow> do {
          let acct = acct\<lparr>wa_Nonce := wa_Nonce acct + 1\<rparr>;
          let gasPayment = uint gasLimit * uint gasPrice;
          balance \<leftarrow> wa_Balance acct;
          Some (if balance < gasPayment
                then (Some (OtherError ''not enough balance to pay gas upfront''), upd_accounts (map_put fromAddr acct) w)
                else (None, upd_accounts (map_put fromAddr (acct\<lparr>wa_Balance := Some (balance - gasPayment)\<rparr>)) w))
        })"

definition take_over :: "worldEnv \<Rightarrow> OutputAccount \<Rightarrow> WorldAccount \<Rightarrow> WorldAccount option" where
  "take_over W modAcct acct = do {
     let acct = acct\<lparr>wa_Exists := True\<rparr>;
     acct \<leftarrow> (case oa_BalanceDelta modAcct of
               Some delta \<Rightarrow> do { balance \<leftarrow> wa_Balance acct; Some (acct\<lparr>wa_Balance := Some (balance + delta)\<rparr>) }
             | None \<Rightarrow> Some (acct\<lparr>wa_Balance := oa_Balance modAcct\<rparr>));
     let acct = (if oa_Nonce modAcct > wa_Nonce acct then acct\<lparr>wa_Nonce := oa_Nonce modAcct\<rparr> else acct);
     let acct = (if length (oa_Code modAcct) > 0
                 then SetCodeAndMetadata W (oa_Code modAcct)
                        \<lparr>cm_Payable = True, cm_Upgradeable = True, cm_Readable = True\<rparr> acct
                 else acct);
     let acct = (case oa_OutputTransfers modAcct of
                   [] \<Rightarrow> acct
                 | transfer # _ \<Rightarrow>
                     if length (ot_Data transfer) > 0 then acct\<lparr>wa_AsyncCallData := ot_Data transfer\<rparr> else acct);
     Some (acct\<lparr>wa_Storage := fold (\<lambda>(_, stu). map_put (su_Offset stu) (su_Data stu)) (oa_StorageUpdates modAcct)
                               (wa_Storage acct)\<rparr>)
   }"

definition UpdateAccountFromOutputAccount :: "worldEnv \<Rightarrow> OutputAccount \<Rightarrow> AccountMap \<Rightarrow> AccountMap option" where
  "UpdateAccountFromOutputAccount W modAcct am = do {
     let (acct, am) =
       (case GetAccount am (oa_Address modAcct) of
          Some acct \<Rightarrow> (acct, am)
        | None \<Rightarrow>
            (let (acct, am) = CreateAccount (oa_Address modAcct) am;
                 acct = acct\<lparr>wa_OwnerAddress := (case oa_CodeDeployerAddress modAcct of None \<Rightarrow> [] | Some a \<Rightarrow> a)\<rparr>
             in (acct, PutAccount acct am)));
     acct \<leftarrow> take_over W modAcct acct;
     Some (map_put (oa_Address modAcct) acct am)
   }"

fun update_accounts :: "worldEnv \<Rightarrow> (address, OutputAccount) gomap \<Rightarrow> AccountMap \<Rightarrow> AccountMap option" where
  "update_accounts W [] am = Some am"
| "update_accounts W ((_, modAcct) # rest) am = do {
     am \<leftarrow> UpdateAccountFromOutputAccount W modAcct am;
     update_accounts W rest am
   }"

definition UpdateAccounts ::
  "worldEnv \<Rightarrow> (address, OutputAccount) gomap \<Rightarrow> address list \<Rightarrow> MockWorld \<Rightarrow> MockWorld option" where
  "UpdateAccounts W outputAccounts accountsToDelete w = do {
     am \<leftarrow> update_accounts W outputAccounts (mw_AcctMap w);
     Some (w\<lparr>mw_AcctMap := fold DeleteAccount accountsToDelete am\<rparr>)
   }"

definition CreateStateBackup :: "MockWorld \<Rightarrow> MockWorld option" where
  "CreateStateBackup w = SnapshotState w"

definition CommitChanges :: "MockWorld \<Rightarrow> MockWorld" where
  "CommitChanges w = Commit w"

definition RollbackChanges :: "worldEnv \<Rightarrow> MockWorld \<Rightarrow> go_error option \<times> MockWorld" where
  "RollbackChanges W w = adapter_RevertToSnapshot W 0 w"

definition SaveKeyValue ::
  "address \<Rightarrow> bytes \<Rightarrow> bytes \<Rightarrow> MockWorld \<Rightarrow> (go_error option \<times> MockWorld) option" where
  "SaveKeyValue addr key val w = do {
     a \<leftarrow> GetAccount (mw_AcctMap w) addr;
     let w = upd_accounts (map_put addr (a\<lparr>wa_Storage := map_put key val (wa_Storage a)\<rparr>)) w;
     if \<not> wa_MockWorld a then Some (Some ErrNilWorldMock, w)
     else do { w \<leftarrow> CreateStateBackup w; Some (None, w) }
   }"

end
