(* ===== verification/WorldTokens.thy ===== *)
theory WorldTokens
  imports MockWorld
begin

text \<open>
  Tokens in the accounts of the world in memory (\<open>mockESDTAccount.go\<close>, \<open>mockESDT.go\<close>): a token, the roles
  for it and its last nonce are values in the storage of an account, under keys made of a prefix and the
  name of the token. The keys of an account are visited in the order of its storage map. A token that was
  decoded has a value.
\<close>

section \<open>Keys\<close>

definition ErrNegativeValue :: go_error where
  "ErrNegativeValue = OtherError ''negative value''"

definition ESDTTokenKeyPrefix :: "worldEnv \<Rightarrow> bytes" where
  "ESDTTokenKeyPrefix W = bytes_of_string (we_ProtectedKeyPrefix W @ we_ESDTKeyIdentifier W)"

definition ESDTRoleKeyPrefix :: "worldEnv \<Rightarrow> bytes" where
  "ESDTRoleKeyPrefix W = bytes_of_string (we_ProtectedKeyPrefix W @ we_ESDTRoleIdentifier W @ we_ESDTKeyIdentifier W)"

definition ESDTNonceKeyPrefix :: "worldEnv \<Rightarrow> bytes" where
  "ESDTNonceKeyPrefix W = bytes_of_string (we_ProtectedKeyPrefix W @ we_ESDTNFTLatestNonceIdentifier W)"

definition MakeTokenKey :: "worldEnv \<Rightarrow> bytes \<Rightarrow> u64 \<Rightarrow> bytes" where
  "MakeTokenKey W tokenName nonce = ESDTTokenKeyPrefix W @ tokenName @ big_Bytes (uint nonce)"

definition MakeTokenRolesKey :: "worldEnv \<Rightarrow> bytes \<Rightarrow> bytes" where
  "MakeTokenRolesKey W tokenName = ESDTRoleKeyPrefix W @ tokenName"

definition MakeLastNonceKey :: "worldEnv \<Rightarrow> bytes \<Rightarrow> bytes" where
  "MakeLastNonceKey W tokenName = ESDTNonceKeyPrefix W @ tokenName"

definition IsTokenKey :: "worldEnv \<Rightarrow> bytes \<Rightarrow> bool" where
  "IsTokenKey W key = has_prefix key (ESDTTokenKeyPrefix W)"

definition IsRoleKey :: "worldEnv \<Rightarrow> bytes \<Rightarrow> bool" where
  "IsRoleKey W key = has_prefix key (ESDTRoleKeyPrefix W)"

definition IsNonceKey :: "worldEnv \<Rightarrow> bytes \<Rightarrow> bool" where
  "IsNonceKey W key = has_prefix key (ESDTNonceKeyPrefix W)"

definition IsESDTKey :: "worldEnv \<Rightarrow> bytes \<Rightarrow> bool" where
  "IsESDTKey W key \<longleftrightarrow> IsTokenKey W key \<or> IsRoleKey W key \<or> IsNonceKey W key"

text \<open>A key that is shorter than the prefix panics.\<close>

definition GetTokenNameFromKey :: "worldEnv \<Rightarrow> bytes \<Rightarrow> bytes option" where
  "GetTokenNameFromKey W key =
     (if length key < length (ESDTTokenKeyPrefix W) then None else Some (drop (length (ESDTTokenKeyPrefix W)) key))"

section \<open>Tokens of an account\<close>

definition plain_metadata :: "bytes \<Rightarrow> u64 \<Rightarrow> ESDTMetaData" where
  "plain_metadata name nonce = \<lparr>md_Nonce = nonce, md_Name = name, md_Creator = [], md_Royalties = 0, md_Hash = [],
     md_URIs = [], md_Attributes = []\<rparr>"

definition GetTokenData :: "worldEnv \<Rightarrow> bytes \<Rightarrow> WorldAccount \<Rightarrow> (go_error + ESDigitalToken) option" where
  "GetTokenData W tokenKey a = do {
     name \<leftarrow> GetTokenNameFromKey W tokenKey;
     let marshaledData = map_get_or [] (wa_Storage a) tokenKey;
     if marshaledData = []
     then Some (Inr \<lparr>tok_Type = we_Fungible W, tok_Value = 0, tok_Properties = [],
                    tok_TokenMetaData = Some (plain_metadata name 0)\<rparr>)
     else Some (we_UnmarshalToken W marshaledData)
   }"

definition SetTokenData :: "worldEnv \<Rightarrow> bytes \<Rightarrow> ESDigitalToken \<Rightarrow> WorldAccount \<Rightarrow> go_error option \<times> WorldAccount" where
  "SetTokenData W tokenKey tokenData a =
     (case we_MarshalToken W tokenData of
        Inl err \<Rightarrow> (Some err, a)
      | Inr marshaledData \<Rightarrow> (None, a\<lparr>wa_Storage := map_put tokenKey marshaledData (wa_Storage a)\<rparr>))"

definition GetTokenBalance :: "worldEnv \<Rightarrow> bytes \<Rightarrow> WorldAccount \<Rightarrow> (go_error + int) option" where
  "GetTokenBalance W tokenKey a = map_option (map_sum (\<lambda>err. err) tok_Value) (GetTokenData W tokenKey a)"

definition GetTokenBalanceByName :: "worldEnv \<Rightarrow> bytes \<Rightarrow> WorldAccount \<Rightarrow> (go_error + int) option" where
  "GetTokenBalanceByName W tokenName a = GetTokenBalance W (MakeTokenKey W tokenName 0) a"

definition SetTokenBalance :: "worldEnv \<Rightarrow> bytes \<Rightarrow> int \<Rightarrow> WorldAccount \<Rightarrow> (go_error option \<times> WorldAccount) option" where
  "SetTokenBalance W tokenKey balance a = do {
     r \<leftarrow> GetTokenData W tokenKey a;
     case r of
       Inl err \<Rightarrow> Some (Some err, a)
     | Inr tokenData \<Rightarrow>
         if balance < 0 then Some (Some ErrNegativeValue, a)
         else Some (SetTokenData W tokenKey (tokenData\<lparr>tok_Value := balance\<rparr>) a)
   }"

definition GetTokenBalanceUint64 :: "worldEnv \<Rightarrow> bytes \<Rightarrow> WorldAccount \<Rightarrow> (go_error + u64) option" where
  "GetTokenBalanceUint64 W tokenKey a =
     map_option (map_sum (\<lambda>err. err) (\<lambda>t. word_of_int (tok_Value t))) (GetTokenData W tokenKey a)"

text \<open>The check that an unsigned balance is not negative never fails.\<close>

definition SetTokenBalanceUint64 :: "worldEnv \<Rightarrow> bytes \<Rightarrow> u64 \<Rightarrow> WorldAccount \<Rightarrow> (go_error option \<times> WorldAccount) option" where
  "SetTokenBalanceUint64 W tokenKey balance a = do {
     r \<leftarrow> GetTokenData W tokenKey a;
     case r of
       Inl err \<Rightarrow> Some (Some err, a)
     | Inr tokenData \<Rightarrow>
         if balance < 0 then Some (Some ErrNegativeValue, a)
         else Some (SetTokenData W tokenKey (tokenData\<lparr>tok_Value := uint balance\<rparr>) a)
   }"

definition SetTokenRoles :: "worldEnv \<Rightarrow> bytes \<Rightarrow> bytes list \<Rightarrow> WorldAccount \<Rightarrow> go_error option \<times> WorldAccount" where
  "SetTokenRoles W tokenName roles a =
     (case we_MarshalRoles W roles of
        Inl err \<Rightarrow> (Some err, a)
      | Inr marshaledData \<Rightarrow>
          (None, a\<lparr>wa_Storage := map_put (MakeTokenRolesKey W tokenName) marshaledData (wa_Storage a)\<rparr>))"

definition SetTokenRolesAsStrings :: "worldEnv \<Rightarrow> bytes \<Rightarrow> string list \<Rightarrow> WorldAccount \<Rightarrow> go_error option \<times> WorldAccount" where
  "SetTokenRolesAsStrings W tokenName rolesAsStrings a = SetTokenRoles W tokenName (map bytes_of_string rolesAsStrings) a"

definition SetLastNonce :: "worldEnv \<Rightarrow> bytes \<Rightarrow> u64 \<Rightarrow> WorldAccount \<Rightarrow> WorldAccount" where
  "SetLastNonce W tokenName lastNonce a =
     a\<lparr>wa_Storage := map_put (MakeLastNonceKey W tokenName) (big_Bytes (uint lastNonce)) (wa_Storage a)\<rparr>"

definition SetLastNonces :: "worldEnv \<Rightarrow> (bytes, u64) gomap \<Rightarrow> WorldAccount \<Rightarrow> WorldAccount" where
  "SetLastNonces W lastNonces a = fold (\<lambda>(tokenName, nonce). SetLastNonce W tokenName nonce) lastNonces a"

definition GetTokenRoles :: "worldEnv \<Rightarrow> bytes \<Rightarrow> WorldAccount \<Rightarrow> go_error + bytes list" where
  "GetTokenRoles W tokenName a =
     (let marshaledData = map_get_or [] (wa_Storage a) (MakeTokenRolesKey W tokenName)
      in if marshaledData = [] then Inr [] else we_UnmarshalRoles W marshaledData)"

definition GetTokenKeys :: "worldEnv \<Rightarrow> WorldAccount \<Rightarrow> bytes list" where
  "GetTokenKeys W a = filter (IsTokenKey W) (map fst (wa_Storage a))"

section \<open>All tokens of an account\<close>

record MockESDTData =
  me_TokenIdentifier :: bytes
  me_Instances :: "ESDigitalToken list"
  me_LastNonce :: u64
  me_Roles :: "bytes list"

definition getOrCreateMockESDTData :: "bytes \<Rightarrow> (bytes, MockESDTData) gomap \<Rightarrow> MockESDTData" where
  "getOrCreateMockESDTData tokenName resultMap =
     (case map_get resultMap tokenName of
        None \<Rightarrow> \<lparr>me_TokenIdentifier = tokenName, me_Instances = [], me_LastNonce = 0, me_Roles = []\<rparr>
      | Some resultObj \<Rightarrow> resultObj)"

text \<open>The key of a token with a nonce ends in the nonce; a key that is shorter than the nonce panics.\<close>

definition loadMockESDTDataInstance ::
  "worldEnv \<Rightarrow> bytes \<Rightarrow> WorldAccount \<Rightarrow> (go_error + bytes \<times> ESDigitalToken) option" where
  "loadMockESDTDataInstance W tokenKey a = do {
     r \<leftarrow> GetTokenData W tokenKey a;
     case r of
       Inl err \<Rightarrow> Some (Inl err)
     | Inr tokenInstance \<Rightarrow> do {
         tokenNameFromKey \<leftarrow> GetTokenNameFromKey W tokenKey;
         let nonce = (case tok_TokenMetaData tokenInstance of None \<Rightarrow> 0 | Some metaData \<Rightarrow> md_Nonce metaData);
         if nonce = 0
         then Some (Inr (tokenNameFromKey, tokenInstance\<lparr>tok_TokenMetaData := Some (plain_metadata tokenNameFromKey 0)\<rparr>))
         else
           let nonceAsBytes = big_Bytes (uint nonce)
           in if length tokenNameFromKey < length nonceAsBytes then None
              else
                let tokenNameLen = length tokenNameFromKey - length nonceAsBytes
                in if nonceAsBytes \<noteq> drop tokenNameLen tokenNameFromKey
                   then Some (Inl (OtherError ''Invalid key for NFT (key does not end in nonce)''))
                   else Some (Inr (take tokenNameLen tokenNameFromKey, tokenInstance))
       }
   }"

fun collect_tokens ::
  "worldEnv \<Rightarrow> WorldAccount \<Rightarrow> bytes list \<Rightarrow> (bytes, MockESDTData) gomap \<Rightarrow> (go_error + (bytes, MockESDTData) gomap) option" where
  "collect_tokens W a [] resultMap = Some (Inr resultMap)"
| "collect_tokens W a (key # keys) resultMap =
     (if IsTokenKey W key then do {
        r \<leftarrow> loadMockESDTDataInstance W key a;
        case r of
          Inl err \<Rightarrow> Some (Inl err)
        | Inr (tokenName, tokenInstance) \<Rightarrow>
            if tok_Value tokenInstance > 0 then
              let resultObj = getOrCreateMockESDTData tokenName resultMap;
                  resultObj = resultObj\<lparr>me_Instances := me_Instances resultObj @ [tokenInstance]\<rparr>
              in collect_tokens W a keys (map_put tokenName resultObj resultMap)
            else collect_tokens W a keys resultMap
      }
      else if IsNonceKey W key then
        let tokenName = drop (length (ESDTNonceKeyPrefix W)) key;
            resultObj = (getOrCreateMockESDTData tokenName resultMap)
              \<lparr>me_LastNonce := word_of_int (big_SetBytes (map_get_or [] (wa_Storage a) key))\<rparr>
        in collect_tokens W a keys (map_put tokenName resultObj resultMap)
      else if IsRoleKey W key then
        let tokenName = drop (length (ESDTRoleKeyPrefix W)) key
        in case GetTokenRoles W tokenName a of
             Inl err \<Rightarrow> Some (Inl err)
           | Inr roles \<Rightarrow>
               let resultObj = (getOrCreateMockESDTData tokenName resultMap)\<lparr>me_Roles := roles\<rparr>
               in collect_tokens W a keys (map_put tokenName resultObj resultMap)
      else collect_tokens W a keys resultMap)"

definition GetFullMockESDTData :: "worldEnv \<Rightarrow> WorldAccount \<Rightarrow> (go_error + (bytes, MockESDTData) gomap) option" where
  "GetFullMockESDTData W a = collect_tokens W a (map fst (wa_Storage a)) []"

section \<open>Tokens in the world\<close>

text \<open>An unknown address panics.\<close>

definition wrapper_GetTokenBalance :: "worldEnv \<Rightarrow> address \<Rightarrow> bytes \<Rightarrow> MockWorld \<Rightarrow> (go_error + int) option" where
  "wrapper_GetTokenBalance W addr tokenKey w = do {
     account \<leftarrow> GetAccount (mw_AcctMap w) addr;
     GetTokenBalance W tokenKey account
   }"

definition wrapper_SetTokenBalance ::
  "worldEnv \<Rightarrow> address \<Rightarrow> bytes \<Rightarrow> int \<Rightarrow> MockWorld \<Rightarrow> (go_error option \<times> MockWorld) option" where
  "wrapper_SetTokenBalance W addr tokenKey balance w = do {
     account \<leftarrow> GetAccount (mw_AcctMap w) addr;
     (err, account) \<leftarrow> SetTokenBalance W tokenKey balance account;
     Some (err, upd_accounts (map_put addr account) w)
   }"

definition wrapper_GetTokenData :: "worldEnv \<Rightarrow> address \<Rightarrow> bytes \<Rightarrow> MockWorld \<Rightarrow> (go_error + ESDigitalToken) option" where
  "wrapper_GetTokenData W addr tokenKey w = do {
     account \<leftarrow> GetAccount (mw_AcctMap w) addr;
     GetTokenData W tokenKey account
   }"

definition wrapper_SetTokenData ::
  "worldEnv \<Rightarrow> address \<Rightarrow> bytes \<Rightarrow> ESDigitalToken \<Rightarrow> MockWorld \<Rightarrow> (go_error option \<times> MockWorld) option" where
  "wrapper_SetTokenData W addr tokenKey tokenData w = do {
     account \<leftarrow> GetAccount (mw_AcctMap w) addr;
     let (err, account) = SetTokenData W tokenKey tokenData account;
     Some (err, upd_accounts (map_put addr account) w)
   }"

definition world_GetESDTToken :: "worldEnv \<Rightarrow> address \<Rightarrow> bytes \<Rightarrow> u64 \<Rightarrow> MockWorld \<Rightarrow> (go_error + ESDigitalToken) option" where
  "world_GetESDTToken W addr tokenName nonce w =
     (case mw_Err w of
        Some err \<Rightarrow> Some (Inl err)
      | None \<Rightarrow>
          if \<not> mw_BuiltinFuncs w then Some (Inl ErrBuiltinFuncWrapperNotInitialized)
          else wrapper_GetTokenData W addr (MakeTokenKey W tokenName nonce) w)"

definition direct_transfer_input ::
  "worldEnv \<Rightarrow> address \<Rightarrow> address \<Rightarrow> bytes \<Rightarrow> u64 \<Rightarrow> int \<Rightarrow> CallType \<Rightarrow> u64 \<Rightarrow> u64 \<Rightarrow> ContractCallInput" where
  "direct_transfer_input W sender receiver token nonce val callType gasLimit gasPrice =
     \<lparr>ci_VMInput = \<lparr>vi_CallerAddr = sender,
        vi_Arguments = (if nonce > 0 then [token, big_Bytes (uint nonce), big_Bytes val, receiver] else [token, big_Bytes val]),
        vi_CallValue = Some 0, vi_CallType = callType, vi_GasPrice = gasPrice, vi_GasProvided = gasLimit, vi_GasLocked = 0,
        vi_ESDTTransfers = [], vi_ReturnCallAfterError = False, vi_OriginalTxHash = [], vi_CurrentTxHash = [],
        vi_PrevTxHash = []\<rparr>,
      ci_RecipientAddr = (if nonce > 0 then sender else receiver),
      ci_Function = (if nonce > 0 then we_ESDTNFTTransfer W else we_ESDTTransfer W),
      ci_AllowInitFunction = False\<rparr>"

definition PerformDirectESDTTransfer ::
  "worldEnv \<Rightarrow> address \<Rightarrow> address \<Rightarrow> bytes \<Rightarrow> u64 \<Rightarrow> int \<Rightarrow> CallType \<Rightarrow> u64 \<Rightarrow> u64 \<Rightarrow> MockWorld \<Rightarrow>
   ((go_error + u64) \<times> MockWorld) option" where
  "PerformDirectESDTTransfer W sender receiver token nonce val callType gasLimit gasPrice w = do {
     (r, w) \<leftarrow> wrapper_ProcessBuiltInFunction W
       (direct_transfer_input W sender receiver token nonce val callType gasLimit gasPrice) w;
     case r of
       Inl err \<Rightarrow> Some (Inl err, w)
     | Inr vmOutput \<Rightarrow>
         if vo_ReturnCode vmOutput \<noteq> Ok then Some (Inl (OtherError ''ESDTtransfer failed''), w)
         else Some (Inr (vo_GasRemaining vmOutput), w)
   }"

section \<open>Balances read back\<close>

definition token_codec :: "worldEnv \<Rightarrow> bool" where
  "token_codec W \<longleftrightarrow> (\<forall>t b. we_MarshalToken W t = Inr b \<longrightarrow> b \<noteq> [] \<and> we_UnmarshalToken W b = Inr t)"

lemma GetTokenData_after_Set:
  assumes "token_codec W" and "SetTokenData W key t a = (None, a')"
  shows "GetTokenData W key' a' = (if key' = key then map_option (\<lambda>_. Inr t) (GetTokenNameFromKey W key) else GetTokenData W key' a)"
  using assms
  by (auto simp: SetTokenData_def GetTokenData_def token_codec_def map_get_or_def split: sum.splits option.splits bind_splits)

text \<open>Setting a balance refuses negative values and otherwise changes that balance and no other token.\<close>

theorem token_balances_read_back:
  assumes "token_codec W" and "SetTokenBalance W key balance a = Some (err, a')"
  shows "(balance < 0 \<longrightarrow> err \<noteq> None) \<and> (err \<noteq> None \<longrightarrow> a' = a)
    \<and> (err = None \<longrightarrow> GetTokenBalance W key a' = Some (Inr balance)
         \<and> (\<forall>key'. key' \<noteq> key \<longrightarrow> GetTokenData W key' a' = GetTokenData W key' a))"
proof -
  obtain r where r: "GetTokenData W key a = Some r" using assms(2) by (auto simp: SetTokenBalance_def bind_eq_Some_conv)
  then have name: "GetTokenNameFromKey W key \<noteq> None" by (auto simp: GetTokenData_def bind_eq_Some_conv)
  show ?thesis
  proof (cases r)
    case (Inl e)
    then show ?thesis using assms(2) r by (auto simp: SetTokenBalance_def)
  next
    case (Inr t)
    then have set: "(err, a') = (if balance < 0 then (Some ErrNegativeValue, a) else SetTokenData W key (t\<lparr>tok_Value := balance\<rparr>) a)"
      using assms(2) r by (simp add: SetTokenBalance_def split: if_splits)
    have "a' = a" if "err \<noteq> None" using set that by (auto simp: SetTokenData_def split: if_splits sum.splits)
    moreover have "GetTokenBalance W key a' = Some (Inr balance) \<and> (\<forall>key'. key' \<noteq> key \<longrightarrow> GetTokenData W key' a' = GetTokenData W key' a)"
      if "err = None"
    proof -
      have "SetTokenData W key (t\<lparr>tok_Value := balance\<rparr>) a = (None, a')" using set that by (simp split: if_splits)
      note get = GetTokenData_after_Set [OF assms(1) this]
      show ?thesis using name by (auto simp: GetTokenBalance_def get)
    qed
    ultimately show ?thesis using set by auto
  qed
qed

end
