(* ===== verification/ScenarioExecutor.thy ===== *)
theory ScenarioExecutor
  imports WorldTokens ScenarioParse GasConfig
begin

text \<open>
  The executor of scenarios (\<open>scenarioexec\<close>): it sets up the world in memory, runs transactions on the VM,
  takes over their output or rolls back, and compares results and accounts with what the scenario
  expects. The VM is the interface \<open>VMExecutionHandler\<close>, two operations on a pair of the VM's own state and the
  world. The file system, the packages of the parser and the gas schedules of the main network are parameters. Error texts leave out the
  values printed into them. \<open>None\<close> is a panic.
\<close>

section \<open>The executor\<close>

record DefaultFileResolver =
  fr_contextPath :: string
  fr_contractPathReplacements :: "(string, string) gomap"

record 'v VMTestExecutor =
  ex_World :: MockWorld
  ex_vm :: 'v
  ex_checkGas :: bool
  ex_scenGasScheduleLoaded :: bool
  ex_fileResolver :: DefaultFileResolver

record 'v execEnv =
  xe_world :: worldEnv
  xe_RunSmartContractCreate :: "ContractCreateInput \<Rightarrow> 'v \<times> MockWorld \<Rightarrow> (go_error + VMOutput) \<times> 'v \<times> MockWorld"
  xe_RunSmartContractCall :: "ContractCallInput \<Rightarrow> 'v \<times> MockWorld \<Rightarrow> (go_error + VMOutput) \<times> 'v \<times> MockWorld"
  xe_GasScheduleChange :: "GasScheduleMap \<Rightarrow> 'v \<Rightarrow> 'v"
  xe_LoadGasSchedule :: "nat \<Rightarrow> go_error + GasScheduleMap"
  xe_ReturnCodeInt :: "ReturnCode \<Rightarrow> int"
  xe_GetFirstDataItem :: "LogEntry \<Rightarrow> bytes"
  xe_Quote :: "string \<Rightarrow> string"
  xe_ReadFile :: "string \<Rightarrow> go_error + bytes"
  xe_Abs :: "string \<Rightarrow> go_error + string"
  xe_Parser :: Parser

abbreviation upd_world :: "(MockWorld \<Rightarrow> MockWorld) \<Rightarrow> 'v VMTestExecutor \<Rightarrow> 'v VMTestExecutor" where
  "upd_world f ex \<equiv> ex\<lparr>ex_World := f (ex_World ex)\<rparr>"

definition gasScheduleMapFromScenarios :: "'v execEnv \<Rightarrow> GasSchedule \<Rightarrow> go_error + GasScheduleMap" where
  "gasScheduleMapFromScenarios X scenGasSchedule =
     (case scenGasSchedule of
        GasScheduleDefault \<Rightarrow> xe_LoadGasSchedule X 3
      | GasScheduleDummy \<Rightarrow> Inr MakeGasMapForTests
      | GasScheduleV1 \<Rightarrow> xe_LoadGasSchedule X 1
      | GasScheduleV2 \<Rightarrow> xe_LoadGasSchedule X 2
      | GasScheduleV3 \<Rightarrow> xe_LoadGasSchedule X 3
      | UnknownGasSchedule \<Rightarrow> Inl (OtherError ''unknown scenario GasSchedule''))"

definition SetScenariosGasSchedule :: "'v execEnv \<Rightarrow> GasSchedule \<Rightarrow> 'v VMTestExecutor \<Rightarrow> go_error option \<times> 'v VMTestExecutor" where
  "SetScenariosGasSchedule X newGasSchedule ex =
     (if ex_scenGasScheduleLoaded ex then (None, ex)
      else case gasScheduleMapFromScenarios X newGasSchedule of
             Inl err \<Rightarrow> (Some err, ex)
           | Inr gasSchedule \<Rightarrow>
               (None, ex\<lparr>ex_scenGasScheduleLoaded := True, ex_vm := xe_GasScheduleChange X gasSchedule (ex_vm ex)\<rparr>))"

section \<open>Files\<close>

text \<open>Paths as in \<open>path/filepath\<close>: the elements between slashes, with dots resolved.\<close>

fun clean_elements :: "bool \<Rightarrow> string list \<Rightarrow> string list \<Rightarrow> string list" where
  "clean_elements rooted done [] = rev done"
| "clean_elements rooted done (e # es) =
     (if e = [] \<or> e = ''.'' then clean_elements rooted done es
      else if e = ''..'' then
        (case done of
           d # ds \<Rightarrow> if d \<noteq> ''..'' then clean_elements rooted ds es else clean_elements rooted (e # done) es
         | [] \<Rightarrow> if rooted then clean_elements rooted [] es else clean_elements rooted [e] es)
      else clean_elements rooted (e # done) es)"

fun join_elements :: "string list \<Rightarrow> string" where
  "join_elements [] = []"
| "join_elements [e] = e"
| "join_elements (e # es) = e @ ''/'' @ join_elements es"

definition path_Clean :: "string \<Rightarrow> string" where
  "path_Clean path =
     (let rooted = (case path of c # _ \<Rightarrow> c = CHR ''/'' | [] \<Rightarrow> False);
          cleaned = join_elements (clean_elements rooted [] (split_at (CHR ''/'') path))
      in if rooted then ''/'' @ cleaned else if cleaned = [] then ''.'' else cleaned)"

definition path_Join :: "string \<Rightarrow> string \<Rightarrow> string" where
  "path_Join a b = (if a \<noteq> [] then path_Clean (a @ ''/'' @ b) else if b \<noteq> [] then path_Clean b else [])"

definition path_Dir :: "string \<Rightarrow> string" where
  "path_Dir path = path_Clean (rev (dropWhile (\<lambda>c. c \<noteq> CHR ''/'') (rev path)))"

definition resolver_Clone :: "DefaultFileResolver \<Rightarrow> DefaultFileResolver" where
  "resolver_Clone fr = \<lparr>fr_contextPath = fr_contextPath fr, fr_contractPathReplacements = fr_contractPathReplacements fr\<rparr>"

definition NewDefaultFileResolver :: DefaultFileResolver where
  "NewDefaultFileResolver = \<lparr>fr_contextPath = [], fr_contractPathReplacements = []\<rparr>"

definition ReplacePath :: "string \<Rightarrow> string \<Rightarrow> DefaultFileResolver \<Rightarrow> DefaultFileResolver" where
  "ReplacePath pathInTest actualPath fr =
     fr\<lparr>fr_contractPathReplacements := map_put pathInTest actualPath (fr_contractPathReplacements fr)\<rparr>"

definition SetContext :: "string \<Rightarrow> DefaultFileResolver \<Rightarrow> DefaultFileResolver" where
  "SetContext contextPath fr = fr\<lparr>fr_contextPath := contextPath\<rparr>"

definition ResolveAbsolutePath :: "string \<Rightarrow> DefaultFileResolver \<Rightarrow> string" where
  "ResolveAbsolutePath val fr =
     (case map_get (fr_contractPathReplacements fr) val of
        Some replacement \<Rightarrow> replacement
      | None \<Rightarrow> path_Join (path_Dir (fr_contextPath fr)) val)"

definition ResolveFileValue :: "'v execEnv \<Rightarrow> string \<Rightarrow> DefaultFileResolver \<Rightarrow> go_error + bytes" where
  "ResolveFileValue X val fr = (if val = [] then Inr [] else xe_ReadFile X (ResolveAbsolutePath val fr))"

definition scenario_parser :: "'v execEnv \<Rightarrow> DefaultFileResolver \<Rightarrow> Parser" where
  "scenario_parser X fileResolver = NewParser (xe_Parser X) (Some (\<lambda>val. ResolveFileValue X val fileResolver))"

section \<open>Setting up the world\<close>

fun convert_instances ::
  "worldEnv \<Rightarrow> ESDTData \<Rightarrow> ESDTInstance list \<Rightarrow> WorldAccount \<Rightarrow> go_error + WorldAccount" where
  "convert_instances W scenESDTData [] account = Inr account"
| "convert_instances W scenESDTData (inst # instances) account =
     (let tokenName = jbs_Value (ed_TokenIdentifier scenESDTData);
          isFrozen = ju_Value (ed_Frozen scenESDTData) > 0;
          tokenNonce = ju_Value (ei_Nonce inst);
          tokenData = \<lparr>tok_Type = we_Fungible W, tok_Value = jbi_Value (ei_Balance inst),
            tok_Properties = we_UserMetadata_ToBytes W isFrozen,
            tok_TokenMetaData = Some \<lparr>md_Nonce = tokenNonce, md_Name = tokenName, md_Creator = jbs_Value (ei_Creator inst),
              md_Royalties = ucast (ju_Value (ei_Royalties inst)), md_Hash = jbs_Value (ei_Hash inst),
              md_URIs = [jbt_Value (ei_Uri inst)], md_Attributes = jbs_Value (ei_Attributes inst)\<rparr>\<rparr>
      in case SetTokenData W (MakeTokenKey W tokenName tokenNonce) tokenData account of
           (Some err, _) \<Rightarrow> Inl err
         | (None, account) \<Rightarrow>
             convert_instances W scenESDTData instances (SetLastNonce W tokenName (ju_Value (ed_LastNonce scenESDTData)) account))"

fun convert_tokens :: "worldEnv \<Rightarrow> ESDTData list \<Rightarrow> WorldAccount \<Rightarrow> go_error + WorldAccount" where
  "convert_tokens W [] account = Inr account"
| "convert_tokens W (scenESDTData # rest) account =
     (case convert_instances W scenESDTData (ed_Instances scenESDTData) account of
        Inl err \<Rightarrow> Inl err
      | Inr account \<Rightarrow>
          (case SetTokenRolesAsStrings W (jbs_Value (ed_TokenIdentifier scenESDTData)) (ed_Roles scenESDTData) account of
             (Some err, _) \<Rightarrow> Inl err
           | (None, account) \<Rightarrow> convert_tokens W rest account))"

definition convertAccount :: "worldEnv \<Rightarrow> ScenAccount \<Rightarrow> go_error + WorldAccount" where
  "convertAccount W testAcct =
     (let storage = fold (\<lambda>stkvp. map_put (jbs_Value (skv_Key stkvp)) (jbt_Value (skv_Value stkvp))) (sac_Storage testAcct) []
      in if length (jbs_Value (sac_Address testAcct)) \<noteq> 32
         then Inl (OtherError ''bad test: account address should be 32 bytes long'')
         else convert_tokens W (sac_ESDTData testAcct)
           \<lparr>wa_Exists = False, wa_Address = jbs_Value (sac_Address testAcct), wa_Nonce = ju_Value (sac_Nonce testAcct),
            wa_Balance = Some (jbi_Value (sac_Balance testAcct)), wa_BalanceDelta = 0, wa_Storage = storage, wa_RootHash = [],
            wa_Code = jbs_Value (sac_Code testAcct), wa_CodeHash = [],
            wa_CodeMetadata = we_CodeMetadata_ToBytes W \<lparr>cm_Payable = True, cm_Upgradeable = True, cm_Readable = True\<rparr>,
            wa_OwnerAddress = jbs_Value (sac_Owner testAcct), wa_AsyncCallData = bytes_of_string (sac_AsyncCallData testAcct),
            wa_Username = jbs_Value (sac_Username testAcct), wa_DeveloperReward = 0, wa_ShardID = ucast (ju_Value (sac_Shard testAcct)),
            wa_IsSmartContract = length (jbs_Value (sac_Code testAcct)) > 0, wa_MockWorld = True\<rparr>)"

definition validateSetStateAccount :: "WorldAccount \<Rightarrow> go_error option option" where
  "validateSetStateAccount converted =
     map_option (map_option (Wrapf ''\"setState\" step validation failed for account'')) (Validate converted)"

fun set_accounts :: "worldEnv \<Rightarrow> ScenAccount list \<Rightarrow> MockWorld \<Rightarrow> (go_error option \<times> MockWorld) option" where
  "set_accounts W [] w = Some (None, w)"
| "set_accounts W (scenAccount # rest) w =
     (case convertAccount W scenAccount of
        Inl err \<Rightarrow> Some (Some err, w)
      | Inr worldAccount \<Rightarrow> do {
          err \<leftarrow> validateSetStateAccount worldAccount;
          if err \<noteq> None then Some (err, w)
          else set_accounts W rest (upd_accounts (PutAccount worldAccount) w)
        })"

fun validateNewAddressMocks :: "ScenNewAddressMock list \<Rightarrow> go_error option option" where
  "validateNewAddressMocks [] = Some None"
| "validateNewAddressMocks (testNAM # rest) = do {
     valid \<leftarrow> IsSmartContractAddress (jbs_Value (snm_NewAddress testNAM));
     if \<not> valid then Some (Some (OtherError ''address in \"setState\" \"newAddresses\" field should have SC format''))
     else validateNewAddressMocks rest
   }"

definition convertNewAddressMocks :: "ScenNewAddressMock list \<Rightarrow> NewAddressMock list" where
  "convertNewAddressMocks testNAMs =
     map (\<lambda>testNAM. \<lparr>nam_CreatorAddress = jbs_Value (snm_CreatorAddress testNAM),
       nam_CreatorNonce = ju_Value (snm_CreatorNonce testNAM), nam_NewAddress = jbs_Value (snm_NewAddress testNAM)\<rparr>) testNAMs"

text \<open>The seed is an array of 48 bytes.\<close>

definition convertBlockInfo :: "ScenBlockInfo option \<Rightarrow> BlockInfo option" where
  "convertBlockInfo testBlockInfo = map_option (\<lambda>info.
     \<lparr>bli_BlockTimestamp = ju_Value (sbi_BlockTimestamp info), bli_BlockNonce = ju_Value (sbi_BlockNonce info),
      bli_BlockRound = ju_Value (sbi_BlockRound info), bli_BlockEpoch = ucast (ju_Value (sbi_BlockEpoch info)),
      bli_RandomSeed = Some (take 48
        ((case sbi_BlockRandomSeed info of None \<Rightarrow> [] | Some seed \<Rightarrow> jbt_Value seed) @ replicate 48 0))\<rparr>) testBlockInfo"

definition ExecuteSetStateStep ::
  "'v execEnv \<Rightarrow> SetState \<Rightarrow> 'v VMTestExecutor \<Rightarrow> (go_error option \<times> 'v VMTestExecutor) option" where
  "ExecuteSetStateStep X step ex = do {
     (err, w) \<leftarrow> set_accounts (xe_world X) (sst_Accounts step) (ex_World ex);
     if err \<noteq> None then Some (err, ex\<lparr>ex_World := w\<rparr>)
     else do {
       let w = w\<lparr>mw_PreviousBlockInfo := convertBlockInfo (sst_PreviousBlockInfo step),
                 mw_CurrentBlockInfo := convertBlockInfo (sst_CurrentBlockInfo step),
                 mw_Blockhashes := JSONBytesFromStringValues (sst_BlockHashes step)\<rparr>;
       err \<leftarrow> validateNewAddressMocks (sst_NewAddressMocks step);
       if err \<noteq> None then Some (err, ex\<lparr>ex_World := w\<rparr>)
       else Some (None, ex\<lparr>ex_World := w\<lparr>mw_NewAddressMocks := mw_NewAddressMocks w @ convertNewAddressMocks (sst_NewAddressMocks step)\<rparr>\<rparr>)
     }
   }"

section \<open>Transactions\<close>

definition RewardKey :: "worldEnv \<Rightarrow> bytes" where
  "RewardKey W = bytes_of_string (we_ProtectedKeyPrefix W @ ''reward'')"

definition generateTxHash :: "string \<Rightarrow> bytes" where
  "generateTxHash txIndex =
     (let txIndexBytes = bytes_of_string txIndex
      in if length txIndexBytes > 32 then take 32 txIndexBytes
         else txIndexBytes @ replicate (32 - length txIndexBytes) 46)"

definition addESDTToVMInput :: "worldEnv \<Rightarrow> ESDTTxData option \<Rightarrow> VMInput \<Rightarrow> VMInput" where
  "addESDTToVMInput W esdtData vmInput =
     (case esdtData of
        None \<Rightarrow> vmInput
      | Some d \<Rightarrow> vmInput\<lparr>vi_ESDTTransfers := [\<lparr>et_Value = jbi_Value (etd_Value d),
          et_TokenType = (if ju_Value (etd_Nonce d) \<noteq> 0 then we_NonFungible W else we_Fungible W),
          et_TokenNonce = ju_Value (etd_Nonce d), et_TokenName = jbs_Value (etd_TokenIdentifier d)\<rparr>]\<rparr>)"

text \<open>The input that a deployment and a call have in common.\<close>

definition tx_input :: "worldEnv \<Rightarrow> string \<Rightarrow> Transaction \<Rightarrow> u64 \<Rightarrow> VMInput" where
  "tx_input W txIndex tx gasLimit = addESDTToVMInput W (tx_ESDTValue tx)
     \<lparr>vi_CallerAddr = jbs_Value (tx_From tx), vi_Arguments = JSONBytesFromTreeValues (tx_Arguments tx),
      vi_CallValue = Some (jbi_Value (tx_Value tx)), vi_CallType = DirectCall, vi_GasPrice = ju_Value (tx_GasPrice tx),
      vi_GasProvided = gasLimit, vi_GasLocked = 0, vi_ESDTTransfers = [], vi_ReturnCallAfterError = False,
      vi_OriginalTxHash = generateTxHash txIndex, vi_CurrentTxHash = generateTxHash txIndex, vi_PrevTxHash = []\<rparr>"

definition run_vm ::
  "('v \<times> MockWorld \<Rightarrow> (go_error + VMOutput) \<times> 'v \<times> MockWorld) \<Rightarrow> 'v VMTestExecutor \<Rightarrow> (go_error + VMOutput) \<times> 'v VMTestExecutor" where
  "run_vm f ex = (let (r, v, w) = f (ex_vm ex, ex_World ex) in (r, ex\<lparr>ex_vm := v, ex_World := w\<rparr>))"

definition scCreate ::
  "'v execEnv \<Rightarrow> string \<Rightarrow> Transaction \<Rightarrow> u64 \<Rightarrow> 'v VMTestExecutor \<Rightarrow> (go_error + VMOutput) \<times> 'v VMTestExecutor" where
  "scCreate X txIndex tx gasLimit ex =
     run_vm (xe_RunSmartContractCreate X \<lparr>cc_VMInput = tx_input (xe_world X) txIndex tx gasLimit,
       cc_ContractCode = jbs_Value (tx_Code tx), cc_ContractCodeMetadata = []\<rparr>) ex"

definition scCall ::
  "'v execEnv \<Rightarrow> string \<Rightarrow> Transaction \<Rightarrow> u64 \<Rightarrow> 'v VMTestExecutor \<Rightarrow> (go_error + VMOutput) \<times> 'v VMTestExecutor" where
  "scCall X txIndex tx gasLimit ex =
     (case GetAccount (mw_AcctMap (ex_World ex)) (jbs_Value (tx_To tx)) of
        None \<Rightarrow> (Inl (OtherError ''tx recipient does not exist''), ex)
      | Some recipient \<Rightarrow>
          if length (wa_Code recipient) = 0 then (Inl (OtherError ''tx recipient is not a smart contract''), ex)
          else run_vm (xe_RunSmartContractCall X \<lparr>ci_VMInput = tx_input (xe_world X) txIndex tx gasLimit,
            ci_RecipientAddr = jbs_Value (tx_To tx), ci_Function = tx_Function tx, ci_AllowInitFunction = False\<rparr>) ex)"

definition plain_output :: "ReturnCode \<Rightarrow> (address, OutputAccount) gomap \<Rightarrow> VMOutput" where
  "plain_output code outputAccounts = \<lparr>vo_ReturnData = [], vo_ReturnCode = code, vo_ReturnMessage = [], vo_GasRemaining = 0,
     vo_GasRefund = Some 0, vo_OutputAccounts = outputAccounts, vo_DeletedAccounts = [], vo_TouchedAccounts = [], vo_Logs = []\<rparr>"

definition paid_account :: "address \<Rightarrow> int \<Rightarrow> (bytes, StorageUpdate) gomap \<Rightarrow> OutputAccount" where
  "paid_account addr amount updates = \<lparr>oa_Address = addr, oa_Nonce = 0, oa_Balance = None, oa_BalanceDelta = Some amount,
     oa_StorageUpdates = updates, oa_Code = [], oa_CodeMetadata = [], oa_CodeDeployerAddress = None,
     oa_OutputTransfers = [], oa_GasUsed = 0\<rparr>"

definition simpleTransferOutput :: "Transaction \<Rightarrow> VMOutput" where
  "simpleTransferOutput tx =
     plain_output Ok [(jbs_Value (tx_To tx), paid_account (jbs_Value (tx_To tx)) (jbi_Value (tx_Value tx)) [])]"

text \<open>The balance delta that the recipient gets here is not read anywhere.\<close>

definition validatorRewardOutput ::
  "worldEnv \<Rightarrow> Transaction \<Rightarrow> MockWorld \<Rightarrow> (go_error + VMOutput) \<times> MockWorld" where
  "validatorRewardOutput W tx w =
     (let reward = jbi_Value (tx_Value tx); addr = jbs_Value (tx_To tx)
      in case GetAccount (mw_AcctMap w) addr of
           None \<Rightarrow> (Inl (OtherError ''tx recipient does not exist''), w)
         | Some recipient \<Rightarrow>
             let storageReward = big_Bytes (big_SetBytes (StorageValue recipient (RewardKey W)) + reward)
             in (Inr (plain_output Ok [(addr, paid_account addr reward
                   [(RewardKey W, \<lparr>su_Offset = RewardKey W, su_Data = storageReward\<rparr>)])]),
                 upd_accounts (map_put addr (recipient\<lparr>wa_BalanceDelta := reward\<rparr>)) w))"

definition outOfFundsResult :: VMOutput where
  "outOfFundsResult = plain_output OutOfFunds []"

definition senderHasEnoughBalance :: "Transaction \<Rightarrow> MockWorld \<Rightarrow> bool option" where
  "senderHasEnoughBalance tx w =
     (if \<not> HasSender (tx_Type tx) then Some True
      else do {
        sender \<leftarrow> GetAccount (mw_AcctMap w) (jbs_Value (tx_From tx));
        balance \<leftarrow> wa_Balance sender;
        Some (balance \<ge> jbi_Value (tx_Value tx))
      })"

definition directESDTTransferFromTx ::
  "worldEnv \<Rightarrow> Transaction \<Rightarrow> ESDTTxData \<Rightarrow> MockWorld \<Rightarrow> ((go_error + u64) \<times> MockWorld) option" where
  "directESDTTransferFromTx W tx esdtValue w =
     (if \<not> mw_BuiltinFuncs w then None
      else PerformDirectESDTTransfer W (jbs_Value (tx_From tx)) (jbs_Value (tx_To tx))
        (jbs_Value (etd_TokenIdentifier esdtValue)) (ju_Value (etd_Nonce esdtValue)) (jbi_Value (etd_Value esdtValue))
        DirectCall (ju_Value (tx_GasLimit tx)) (ju_Value (tx_GasPrice tx)) w)"

fun sum_of_deltas :: "(address, OutputAccount) gomap \<Rightarrow> int option" where
  "sum_of_deltas [] = Some 0"
| "sum_of_deltas ((_, oa) # rest) = do {
     delta \<leftarrow> oa_BalanceDelta oa;
     sum \<leftarrow> sum_of_deltas rest;
     Some (delta + sum)
   }"

definition updateStateAfterTx ::
  "worldEnv \<Rightarrow> Transaction \<Rightarrow> VMOutput \<Rightarrow> MockWorld \<Rightarrow> (go_error option \<times> MockWorld) option" where
  "updateStateAfterTx W tx output w = do {
     (_, w) \<leftarrow> (if HasSender (tx_Type tx)
                then UpdateBalanceWithDelta (jbs_Value (tx_From tx)) (- jbi_Value (tx_Value tx)) w
                else Some (None, w));
     w \<leftarrow> UpdateAccounts W (vo_OutputAccounts output) (vo_DeletedAccounts output) w;
     if HasSender (tx_Type tx) then do {
       sum \<leftarrow> sum_of_deltas (vo_OutputAccounts output);
       if sum \<noteq> jbi_Value (tx_Value tx)
       then Some (Some (OtherError ''sum of balance deltas should equal call value''), w)
       else Some (None, w)
     }
     else Some (None, w)
   }"

text \<open>
  The body of \<open>executeTx\<close> has two results: what it returns, and the value of the variable \<open>err\<close> that the
  deferred function looks at to roll back or to commit. The two differ where an inner variable of the same
  name hides the outer one, and where an error is returned without being assigned.
\<close>

definition tx_before ::
  "'v execEnv \<Rightarrow> Transaction \<Rightarrow> 'v VMTestExecutor \<Rightarrow> ((go_error \<times> bool + u64) \<times> 'v VMTestExecutor) option" where
  "tx_before X tx ex =
     (if \<not> HasSender (tx_Type tx) then Some (Inr 0, ex)
      else do {
        (beforeErr, w) \<leftarrow> UpdateWorldStateBefore (jbs_Value (tx_From tx)) (ju_Value (tx_GasLimit tx)) (ju_Value (tx_GasPrice tx)) (ex_World ex);
        let ex = ex\<lparr>ex_World := w\<rparr>;
        case beforeErr of
          Some e \<Rightarrow> Some (Inl (Wrapf ''could not set up tx'' e, True), ex)
        | None \<Rightarrow>
            (case tx_ESDTValue tx of
               None \<Rightarrow> Some (Inr (ju_Value (tx_GasLimit tx)), ex)
             | Some esdtValue \<Rightarrow> do {
                 (r, w) \<leftarrow> directESDTTransferFromTx (xe_world X) tx esdtValue (ex_World ex);
                 let ex = ex\<lparr>ex_World := w\<rparr>;
                 case r of
                   Inl err \<Rightarrow> Some (Inl (err, False), ex)
                 | Inr gasRemaining \<Rightarrow> Some (Inr gasRemaining, ex)
               })
      })"

definition tx_run ::
  "'v execEnv \<Rightarrow> string \<Rightarrow> Transaction \<Rightarrow> u64 \<Rightarrow> 'v VMTestExecutor \<Rightarrow> ((go_error \<times> bool + VMOutput) \<times> 'v VMTestExecutor)" where
  "tx_run X txIndex tx gasForExecution ex =
     (case tx_Type tx of
        ScDeploy \<Rightarrow> map_prod (map_sum (\<lambda>err. (err, True)) (\<lambda>out. out)) (\<lambda>ex. ex) (scCreate X txIndex tx gasForExecution ex)
      | ScQuery \<Rightarrow> map_prod (map_sum (\<lambda>err. (err, True)) (\<lambda>out. out)) (\<lambda>ex. ex)
          (scCall X txIndex (tx\<lparr>tx_From := tx_To tx, tx_GasLimit := (tx_GasLimit tx)\<lparr>ju_Value := MaxUint64\<rparr>\<rparr>) MaxUint64 ex)
      | ScCall \<Rightarrow> map_prod (map_sum (\<lambda>err. (err, True)) (\<lambda>out. out)) (\<lambda>ex. ex) (scCall X txIndex tx gasForExecution ex)
      | Transfer_tx \<Rightarrow> (Inr (simpleTransferOutput tx), ex)
      | ValidatorReward \<Rightarrow>
          (let (r, w) = validatorRewardOutput (xe_world X) tx (ex_World ex)
           in (map_sum (\<lambda>err. (err, True)) (\<lambda>out. out) r, ex\<lparr>ex_World := w\<rparr>))
      | UnknownType \<Rightarrow> (Inl (OtherError ''unknown transaction type'', False), ex))"

definition tx_after ::
  "'v execEnv \<Rightarrow> Transaction \<Rightarrow> go_error \<times> bool + VMOutput \<Rightarrow> 'v VMTestExecutor \<Rightarrow>
   (((go_error + VMOutput) \<times> bool) \<times> 'v VMTestExecutor) option" where
  "tx_after X tx r ex =
     (case r of
        Inl (err, failed) \<Rightarrow> Some ((Inl err, failed), ex)
      | Inr output \<Rightarrow>
          if vo_ReturnCode output = Ok then do {
            (err, w) \<leftarrow> updateStateAfterTx (xe_world X) tx output (ex_World ex);
            Some ((case err of Some e \<Rightarrow> Inl e | None \<Rightarrow> Inr output, False), ex\<lparr>ex_World := w\<rparr>)
          }
          else Some ((Inr output, True), ex))"

definition tx_body ::
  "'v execEnv \<Rightarrow> string \<Rightarrow> Transaction \<Rightarrow> 'v VMTestExecutor \<Rightarrow> (((go_error + VMOutput) \<times> bool) \<times> 'v VMTestExecutor) option" where
  "tx_body X txIndex tx ex = do {
     (before, ex) \<leftarrow> tx_before X tx ex;
     case before of
       Inl (err, failed) \<Rightarrow> Some ((Inl err, failed), ex)
     | Inr gasForExecution \<Rightarrow> do {
         enough \<leftarrow> senderHasEnoughBalance tx (ex_World ex);
         let (r, ex) = (if \<not> enough then (Inr outOfFundsResult, ex) else tx_run X txIndex tx gasForExecution ex);
         tx_after X tx r ex
       }
   }"

text \<open>The results of the function are not named, so an error of the roll-back is lost.\<close>

definition executeTx ::
  "'v execEnv \<Rightarrow> string \<Rightarrow> Transaction \<Rightarrow> 'v VMTestExecutor \<Rightarrow> ((go_error + VMOutput) \<times> 'v VMTestExecutor) option" where
  "executeTx X txIndex tx ex = do {
     w \<leftarrow> CreateStateBackup (ex_World ex);
     ((r, failed), ex) \<leftarrow> tx_body X txIndex tx (ex\<lparr>ex_World := w\<rparr>);
     Some (r, if failed then upd_world (\<lambda>w. snd (RollbackChanges (xe_world X) w)) ex else upd_world CommitChanges ex)
   }"

end
