(* ===== verification/ScenarioChecks.thy ===== *)
theory ScenarioChecks
  imports ScenarioExecutor
begin

text \<open>
  What a scenario checks: the result of a transaction (\<open>stepCheckTxResult.go\<close>) and the accounts of the world
  (\<open>stepCheckAccounts.go\<close>), the dump of the world (\<open>stepDumpWorld.go\<close>), and the steps of a scenario
  (\<open>execScenario.go\<close>, \<open>execTest.go\<close>). The mismatches of an account's storage and tokens are collected
  in a list before they become one error, in the order in which Go visits its maps. Files that include each other without end
  exhaust the stack; the depth of included files is bounded by a number that is used up (\<open>None\<close>).
\<close>

section \<open>Results of a transaction\<close>

definition check_log :: "'v execEnv \<Rightarrow> ScenLogEntry \<Rightarrow> LogEntry \<Rightarrow> go_error option" where
  "check_log X testLog outLog =
     (if \<not> check_bytes (sle_Address testLog) (le_Address outLog) then Some (OtherError ''bad log address'')
      else if \<not> check_bytes (sle_Identifier testLog) (le_Identifier outLog) then Some (OtherError ''bad log identifier'')
      else if length (le_Topics outLog) \<noteq> length (sle_Topics testLog) then Some (OtherError ''wrong number of log topics'')
      else if \<not> list_all2 check_bytes (sle_Topics testLog) (le_Topics outLog) then Some (OtherError ''bad log topic'')
      else if \<not> check_bytes (sle_Data testLog) (xe_GetFirstDataItem X outLog) then Some (OtherError ''bad log data'')
      else None)"

fun check_logs :: "'v execEnv \<Rightarrow> ScenLogEntry list \<Rightarrow> LogEntry list \<Rightarrow> go_error option" where
  "check_logs X (testLog # testLogs) (outLog # outLogs) =
     (case check_log X testLog outLog of Some err \<Rightarrow> Some err | None \<Rightarrow> check_logs X testLogs outLogs)"
| "check_logs X _ _ = None"

definition checkTxResults :: "'v execEnv \<Rightarrow> TransactionResult \<Rightarrow> bool \<Rightarrow> VMOutput \<Rightarrow> go_error option option" where
  "checkTxResults X blResult gasChecked output = do {
     status \<leftarrow> check_bigint (tr_Status blResult) (Some (xe_ReturnCodeInt X (vo_ReturnCode output)));
     if \<not> status then Some (Some (OtherError ''result code mismatch''))
     else if \<not> check_bytes (tr_Message blResult) (bytes_of_string (vo_ReturnMessage output))
     then Some (Some (OtherError ''result message mismatch''))
     else if length (vo_ReturnData output) \<noteq> length (tr_Out blResult) then Some (Some (OtherError ''result length mismatch''))
     else if \<not> list_all2 check_bytes (tr_Out blResult) (vo_ReturnData output) then Some (Some (OtherError ''result mismatch''))
     else do {
       refund \<leftarrow> check_bigint (tr_Refund blResult) (vo_GasRefund output);
       if \<not> refund then Some (Some (OtherError ''result gas refund mismatch''))
       else if gasChecked \<and> \<not> jcu_Unspecified (tr_Gas blResult) \<and> \<not> check_uint64 (tr_Gas blResult) (vo_GasRemaining output)
       then Some (Some (OtherError ''result gas mismatch''))
       else if tr_LogsStar blResult then Some None
       else if length (tr_Logs blResult) \<noteq> length (vo_Logs output) then Some (Some (OtherError ''wrong number of logs''))
       else Some (check_logs X (tr_Logs blResult) (vo_Logs output))
     }
   }"

section \<open>Storage of an account\<close>

definition expected_storage :: "CheckAccount \<Rightarrow> (bytes, JSONCheckBytes) gomap" where
  "expected_storage expectedAcct =
     fold (\<lambda>stkvp. map_put (jbs_Value (cskv_Key stkvp)) (cskv_CheckValue stkvp)) (ca_CheckStorage expectedAcct) []"

definition union_keys :: "('k, 'a) gomap \<Rightarrow> ('k, 'b) gomap \<Rightarrow> 'k list" where
  "union_keys m n = remdups (map fst m @ map fst n)"

definition wrong_storage :: "worldEnv \<Rightarrow> CheckAccount \<Rightarrow> WorldAccount \<Rightarrow> bytes list" where
  "wrong_storage W expectedAcct matchingAcct =
     (let expectedStorage = expected_storage expectedAcct
      in filter (\<lambda>k. \<not> has_prefix k (bytes_of_string (we_ProtectedKeyPrefix W))
             \<and> \<not> check_bytes
                  (case map_get expectedStorage k of
                     Some want \<Rightarrow> want
                   | None \<Rightarrow> if ca_MoreStorageAllowed expectedAcct then JSONCheckBytesStar else JSONCheckBytesUnspecified)
                  (StorageValue matchingAcct k))
           (union_keys expectedStorage (wa_Storage matchingAcct)))"

definition checkAccountStorage :: "worldEnv \<Rightarrow> CheckAccount \<Rightarrow> WorldAccount \<Rightarrow> go_error option" where
  "checkAccountStorage W expectedAcct matchingAcct =
     (if ca_IgnoreStorage expectedAcct then None
      else if wrong_storage W expectedAcct matchingAcct \<noteq> [] then Some (OtherError ''wrong account storage'')
      else None)"

section \<open>Tokens of an account\<close>

definition getExpectedTokens :: "CheckAccount \<Rightarrow> (bytes, CheckESDTData) gomap" where
  "getExpectedTokens expectedAcct =
     fold (\<lambda>d. map_put (jbs_Value (ced_TokenIdentifier d)) d) (ca_CheckESDTData expectedAcct) []"

definition no_token_bytes :: JSONCheckBytes where
  "no_token_bytes = \<lparr>jcb_Value = [], jcb_IsStar = False, jcb_Original = None, jcb_Unspecified = False\<rparr>"

definition zero_uint64 :: "u64 \<Rightarrow> JSONCheckUint64" where
  "zero_uint64 v = \<lparr>jcu_Value = v, jcu_IsStar = False, jcu_Original = [], jcu_Unspecified = False\<rparr>"

definition missing_instance :: "u64 \<Rightarrow> CheckESDTInstance" where
  "missing_instance nonce = \<lparr>cei_Nonce = zero_uint64 nonce,
     cei_Balance = \<lparr>jci_Value = 0, jci_IsStar = False, jci_Original = [], jci_Unspecified = False\<rparr>,
     cei_Creator = no_token_bytes, cei_Royalties = zero_uint64 0, cei_Hash = no_token_bytes, cei_Uri = no_token_bytes,
     cei_Attributes = no_token_bytes\<rparr>"

definition token_errors :: "(bool \<times> string) list \<Rightarrow> go_error list" where
  "token_errors checks = map (\<lambda>(_, message). OtherError message) (filter (\<lambda>(ok, _). \<not> ok) checks)"

text \<open>Where a field is not specified, or where the instance is expected at all, decides whether it is compared.\<close>

definition check_instance :: "CheckESDTInstance \<Rightarrow> ESDigitalToken \<Rightarrow> go_error list option" where
  "check_instance expectedInstance accountInstance = do {
     balance \<leftarrow> check_bigint (cei_Balance expectedInstance) (Some (tok_Value accountInstance));
     metaData \<leftarrow> tok_TokenMetaData accountInstance;
     Some (token_errors
       [(balance, ''Bad balance''),
        (jcb_Unspecified (cei_Creator expectedInstance) \<or> check_bytes (cei_Creator expectedInstance) (md_Creator metaData), ''Bad creator''),
        (jcu_Unspecified (cei_Royalties expectedInstance) \<or> check_uint64 (cei_Royalties expectedInstance) (ucast (md_Royalties metaData)), ''Bad royalties''),
        (jcb_Unspecified (cei_Hash expectedInstance) \<or> check_bytes (cei_Hash expectedInstance) (md_Hash metaData), ''Bad hash''),
        (length (md_URIs metaData) \<le> 1, ''More than one URI currently not supported''),
        (jcb_Unspecified (cei_Uri expectedInstance)
           \<or> check_bytes (cei_Uri expectedInstance) (case md_URIs metaData of [uri] \<Rightarrow> uri | _ \<Rightarrow> []), ''Bad URI''),
        (jcb_Unspecified (cei_Attributes expectedInstance) \<or> check_bytes (cei_Attributes expectedInstance) (md_Attributes metaData), ''Bad attributes'')])
   }"

fun account_instances :: "ESDigitalToken list \<Rightarrow> (u64, ESDigitalToken) gomap \<Rightarrow> (u64, ESDigitalToken) gomap option" where
  "account_instances [] m = Some m"
| "account_instances (accountInstance # rest) m = do {
     metaData \<leftarrow> tok_TokenMetaData accountInstance;
     account_instances rest (map_put (md_Nonce metaData) accountInstance m)
   }"

fun concat_errors :: "go_error list option list \<Rightarrow> go_error list option" where
  "concat_errors [] = Some []"
| "concat_errors (e # es) = do { errors \<leftarrow> e; rest \<leftarrow> concat_errors es; Some (errors @ rest) }"

definition checkTokenInstances :: "bytes \<Rightarrow> CheckESDTData \<Rightarrow> MockESDTData \<Rightarrow> go_error list option" where
  "checkTokenInstances tokenName expectedToken accountToken = do {
     let expectedInstances = fold (\<lambda>i. map_put (jcu_Value (cei_Nonce i)) i) (ced_Instances expectedToken) [];
     accountInstances \<leftarrow> account_instances (me_Instances accountToken) [];
     concat_errors (map (\<lambda>nonce.
       check_instance
         (case map_get expectedInstances nonce of None \<Rightarrow> missing_instance nonce | Some i \<Rightarrow> i)
         (case map_get accountInstances nonce of
            None \<Rightarrow> \<lparr>tok_Type = 0, tok_Value = 0, tok_Properties = [], tok_TokenMetaData = Some (plain_metadata tokenName nonce)\<rparr>
          | Some i \<Rightarrow> i))
       (union_keys expectedInstances accountInstances))
   }"

definition checkTokenRoles :: "CheckESDTData \<Rightarrow> MockESDTData \<Rightarrow> go_error list" where
  "checkTokenRoles expectedToken accountToken =
     (let expectedRoles = map bytes_of_string (ced_Roles expectedToken)
      in concat (map (\<lambda>role. token_errors
           [(role \<in> set expectedRoles, ''unexpected ESDT role''), (role \<in> set (me_Roles accountToken), ''missing ESDT role'')])
         (remdups (expectedRoles @ me_Roles accountToken))))"

definition checkTokenState :: "bytes \<Rightarrow> CheckESDTData \<Rightarrow> MockESDTData \<Rightarrow> go_error list option" where
  "checkTokenState tokenName expectedToken accountToken = do {
     errors \<leftarrow> checkTokenInstances tokenName expectedToken accountToken;
     Some (errors @ token_errors [(check_uint64 (ced_LastNonce expectedToken) (me_LastNonce accountToken), ''bad account ESDT last nonce'')]
       @ checkTokenRoles expectedToken accountToken)
   }"

definition checkAccountESDT :: "'v execEnv \<Rightarrow> CheckAccount \<Rightarrow> WorldAccount \<Rightarrow> go_error option option" where
  "checkAccountESDT X expectedAcct matchingAcct =
     (if ca_IgnoreESDT expectedAcct then Some None
      else do {
        let expectedTokens = getExpectedTokens expectedAcct;
        r \<leftarrow> GetFullMockESDTData (xe_world X) matchingAcct;
        case r of
          Inl err \<Rightarrow> Some (Some err)
        | Inr accountTokens \<Rightarrow> do {
            errors \<leftarrow> concat_errors (map (\<lambda>tokenName.
              checkTokenState tokenName
                (case map_get expectedTokens tokenName of
                   None \<Rightarrow> \<lparr>ced_TokenIdentifier = \<lparr>jbs_Value = tokenName, jbs_Original = Reconstruct (xe_Quote X) tokenName StrHint\<rparr>,
                     ced_Instances = [], ced_LastNonce = zero_uint64 0, ced_Roles = [], ced_Frozen = zero_uint64 0\<rparr>
                 | Some t \<Rightarrow> t)
                (case map_get accountTokens tokenName of
                   None \<Rightarrow> \<lparr>me_TokenIdentifier = tokenName, me_Instances = [], me_LastNonce = 0, me_Roles = []\<rparr>
                 | Some t \<Rightarrow> t))
              (union_keys expectedTokens accountTokens));
            Some (if errors = [] then None else Some (OtherError ''mismatch for account''))
          }
      })"

section \<open>Accounts of the world\<close>

definition checkAccount :: "'v execEnv \<Rightarrow> CheckAccount \<Rightarrow> WorldAccount \<Rightarrow> go_error option option" where
  "checkAccount X expectedAcct matchingAcct =
     (if wa_Address matchingAcct \<noteq> jbs_Value (ca_Address expectedAcct) then Some (Some (OtherError ''bad account address''))
      else if \<not> check_uint64 (ca_Nonce expectedAcct) (wa_Nonce matchingAcct) then Some (Some (OtherError ''bad account nonce''))
      else do {
        balance \<leftarrow> check_bigint (ca_Balance expectedAcct) (wa_Balance matchingAcct);
        if \<not> balance then Some (Some (OtherError ''bad account balance''))
        else if \<not> check_bytes (ca_Username expectedAcct) (wa_Username matchingAcct)
        then Some (Some (OtherError ''bad account username''))
        else if \<not> check_bytes (ca_Code expectedAcct) (wa_Code matchingAcct) then Some (Some (OtherError ''bad account code''))
        else if \<not> jcb_Unspecified (ca_AsyncCallData expectedAcct)
                \<and> \<not> check_bytes (ca_AsyncCallData expectedAcct) (wa_AsyncCallData matchingAcct)
        then Some (Some (OtherError ''bad async call data''))
        else case checkAccountStorage (xe_world X) expectedAcct matchingAcct of
               Some err \<Rightarrow> Some (Some err)
             | None \<Rightarrow> checkAccountESDT X expectedAcct matchingAcct
      })"

fun check_expected :: "'v execEnv \<Rightarrow> CheckAccount list \<Rightarrow> MockWorld \<Rightarrow> go_error option option" where
  "check_expected X [] w = Some None"
| "check_expected X (expectedAcct # rest) w =
     (case map_get (mw_AcctMap w) (jbs_Value (ca_Address expectedAcct)) of
        None \<Rightarrow> Some (Some (OtherError ''account expected but not found after running test''))
      | Some matchingAcct \<Rightarrow> do {
          err \<leftarrow> checkAccount X expectedAcct matchingAcct;
          if err \<noteq> None then Some err else check_expected X rest w
        })"

definition checkAccounts :: "'v execEnv \<Rightarrow> CheckAccounts \<Rightarrow> MockWorld \<Rightarrow> go_error option option" where
  "checkAccounts X checks w =
     (if \<not> cas_MoreAccountsAllowed checks
         \<and> (\<exists>(worldAcctAddr, _) \<in> set (mw_AcctMap w).
               FindCheckAccount (cas_Accounts checks) worldAcctAddr = None \<and> worldAcctAddr \<noteq> we_SystemAccountAddress (xe_world X))
      then Some (Some (OtherError ''unexpected account address''))
      else check_expected X (cas_Accounts checks) w)"

definition ExecuteCheckStateStep :: "'v execEnv \<Rightarrow> CheckAccounts option \<Rightarrow> 'v VMTestExecutor \<Rightarrow> go_error option option" where
  "ExecuteCheckStateStep X checks ex = Option.bind checks (\<lambda>checks. checkAccounts X checks (ex_World ex))"

section \<open>The dump of the world\<close>

definition printed_bytes :: "'v execEnv \<Rightarrow> bytes \<Rightarrow> ExprReconstructorHint \<Rightarrow> JSONBytesFromString" where
  "printed_bytes X val hint = \<lparr>jbs_Value = val, jbs_Original = Reconstruct (xe_Quote X) val hint\<rparr>"

definition printed_tree :: "'v execEnv \<Rightarrow> bytes \<Rightarrow> JSONBytesFromTree" where
  "printed_tree X val = \<lparr>jbt_Value = val, jbt_Original = Some (OJsonString (Reconstruct (xe_Quote X) val NoHint))\<rparr>"

definition printed_uint64 :: "'v execEnv \<Rightarrow> u64 \<Rightarrow> JSONUint64" where
  "printed_uint64 X val = \<lparr>ju_Value = val, ju_Original = ReconstructFromUint64 (xe_Quote X) val\<rparr>"

definition printed_bigint :: "'v execEnv \<Rightarrow> int \<Rightarrow> JSONBigInt" where
  "printed_bigint X val = \<lparr>jbi_Value = val, jbi_Original = ReconstructFromBigInt (xe_Quote X) val\<rparr>"

definition no_bytes :: JSONBytesFromString where
  "no_bytes = \<lparr>jbs_Value = [], jbs_Original = []\<rparr>"

definition dump_instance :: "'v execEnv \<Rightarrow> ESDigitalToken \<Rightarrow> ESDTInstance option" where
  "dump_instance X mockInstance = do {
     metaData \<leftarrow> tok_TokenMetaData mockInstance;
     Some \<lparr>ei_Nonce = printed_uint64 X (md_Nonce metaData), ei_Balance = printed_bigint X (tok_Value mockInstance),
       ei_Creator = (if length (md_Creator metaData) > 0 then printed_bytes X (md_Creator metaData) AddressHint else no_bytes),
       ei_Royalties = (if md_Royalties metaData > 0 then printed_uint64 X (ucast (md_Royalties metaData)) else JSONUint64Zero),
       ei_Hash = (if length (md_Hash metaData) > 0 then printed_bytes X (md_Hash metaData) NoHint else no_bytes),
       ei_Uri = (case md_URIs metaData of [] \<Rightarrow> \<lparr>jbt_Value = [], jbt_Original = None\<rparr> | uri # _ \<Rightarrow> printed_tree X uri),
       ei_Attributes = (if length (md_Attributes metaData) > 0 then printed_bytes X (md_Attributes metaData) NoHint else no_bytes)\<rparr>
   }"

fun map_panic :: "('a \<Rightarrow> 'b option) \<Rightarrow> 'a list \<Rightarrow> 'b list option" where
  "map_panic f [] = Some []"
| "map_panic f (x # xs) = do { y \<leftarrow> f x; ys \<leftarrow> map_panic f xs; Some (y # ys) }"

definition dump_token :: "'v execEnv \<Rightarrow> MockESDTData \<Rightarrow> ESDTData option" where
  "dump_token X esdtObj = do {
     scenInstances \<leftarrow> map_panic (dump_instance X) (me_Instances esdtObj);
     Some \<lparr>ed_TokenIdentifier = printed_bytes X (me_TokenIdentifier esdtObj) StrHint, ed_Instances = scenInstances,
       ed_LastNonce = printed_uint64 X (me_LastNonce esdtObj), ed_Roles = map string_of_bytes (me_Roles esdtObj),
       ed_Frozen = JSONUint64Zero\<rparr>
   }"

definition sort_bytes :: "bytes list \<Rightarrow> bytes list" where
  "sort_bytes keys = sort_key string_of_bytes keys"

definition dump_storage :: "'v execEnv \<Rightarrow> WorldAccount \<Rightarrow> StorageKeyValuePair list" where
  "dump_storage X account =
     map (\<lambda>storageKey. \<lparr>skv_Key = printed_bytes X storageKey NoHint, skv_Value = printed_tree X (StorageValue account storageKey)\<rparr>)
       (filter (\<lambda>storageKey. \<not> has_prefix storageKey (bytes_of_string (we_ProtectedKeyPrefix (xe_world X)))
                  \<and> length (StorageValue account storageKey) > 0)
         (sort_bytes (map fst (wa_Storage account))))"

definition convertMockAccountToScenarioFormat :: "'v execEnv \<Rightarrow> WorldAccount \<Rightarrow> (go_error + ScenAccount) option" where
  "convertMockAccountToScenarioFormat X account = do {
     r \<leftarrow> GetFullMockESDTData (xe_world X) account;
     case r of
       Inl err \<Rightarrow> Some (Inl err)
     | Inr tokenData \<Rightarrow> do {
         scenESDT \<leftarrow> map_panic (\<lambda>esdtName. map_get tokenData esdtName \<bind> dump_token X) (sort_bytes (map fst tokenData));
         balance \<leftarrow> wa_Balance account;
         Some (Inr \<lparr>sac_Address = printed_bytes X (wa_Address account) AddressHint, sac_Shard = JSONUint64Zero,
           sac_IsSmartContract = False, sac_Comment = [], sac_Nonce = printed_uint64 X (wa_Nonce account),
           sac_Balance = printed_bigint X balance, sac_Username = no_bytes, sac_Storage = dump_storage X account,
           sac_Code = no_bytes, sac_Owner = no_bytes, sac_AsyncCallData = [], sac_ESDTData = scenESDT\<rparr>)
       }
   }"

text \<open>The accounts that \<open>DumpWorld\<close> prints, or the error of one of them.\<close>

fun dump_accounts :: "'v execEnv \<Rightarrow> AccountMap \<Rightarrow> (go_error + ScenAccount list) option" where
  "dump_accounts X [] = Some (Inr [])"
| "dump_accounts X ((_, account) # rest) = do {
     r \<leftarrow> convertMockAccountToScenarioFormat X account;
     case r of
       Inl err \<Rightarrow> Some (Inl err)
     | Inr scenAccount \<Rightarrow> map_option (map_sum (\<lambda>err. err) ((#) scenAccount)) (dump_accounts X rest)
   }"

definition DumpWorld :: "'v execEnv \<Rightarrow> 'v VMTestExecutor \<Rightarrow> (go_error + ScenAccount list) option" where
  "DumpWorld X ex = dump_accounts X (mw_AcctMap (ex_World ex))"

section \<open>Steps\<close>

definition executor_Reset :: "'v VMTestExecutor \<Rightarrow> 'v VMTestExecutor" where
  "executor_Reset ex = upd_world Clear ex"

definition ExecuteTxStep ::
  "'v execEnv \<Rightarrow> string \<Rightarrow> Transaction option \<Rightarrow> TransactionResult option \<Rightarrow> 'v VMTestExecutor \<Rightarrow>
   ((go_error + VMOutput) \<times> 'v VMTestExecutor) option" where
  "ExecuteTxStep X TxIdent tx expectedResult ex = do {
     tx \<leftarrow> tx;
     (r, ex) \<leftarrow> executeTx X TxIdent tx ex;
     case r of
       Inl err \<Rightarrow> Some (Inl err, ex)
     | Inr output \<Rightarrow>
         (case expectedResult of
            None \<Rightarrow> Some (Inr output, ex)
          | Some result \<Rightarrow> do {
              err \<leftarrow> checkTxResults X result (ex_checkGas ex) output;
              case err of
                Some e \<Rightarrow> Some (Inl e, ex)
              | None \<Rightarrow> Some (Inr output, ex)
            })
   }"

type_synonym 'v scenario_runner = "string \<Rightarrow> DefaultFileResolver \<Rightarrow> 'v VMTestExecutor \<Rightarrow> (go_error option \<times> 'v VMTestExecutor) option"

text \<open>The resolver is put back only when the included file succeeds; whether gas is checked is not put back at all.\<close>

definition ExecuteExternalStep ::
  "'v scenario_runner \<Rightarrow> string \<Rightarrow> 'v VMTestExecutor \<Rightarrow> (go_error option \<times> 'v VMTestExecutor) option" where
  "ExecuteExternalStep runner path ex = do {
     let fileResolverBackup = ex_fileResolver ex;
     let clonedFileResolver = resolver_Clone (ex_fileResolver ex);
     let extAbsPth = ResolveAbsolutePath path (ex_fileResolver ex);
     (err, ex) \<leftarrow> runner extAbsPth clonedFileResolver ex;
     if err \<noteq> None then Some (err, ex)
     else Some (None, ex\<lparr>ex_fileResolver := fileResolverBackup\<rparr>)
   }"

definition sum_error :: "'e + 'a \<Rightarrow> 'e option" where
  "sum_error r = (case r of Inl err \<Rightarrow> Some err | Inr _ \<Rightarrow> None)"

definition ExecuteStep ::
  "'v execEnv \<Rightarrow> 'v scenario_runner \<Rightarrow> Step \<Rightarrow> 'v VMTestExecutor \<Rightarrow> (go_error option \<times> 'v VMTestExecutor) option" where
  "ExecuteStep X runner generalStep ex =
     (case generalStep of
        ExternalStepsStep comment path \<Rightarrow> ExecuteExternalStep runner path ex
      | SetStateStep step \<Rightarrow> ExecuteSetStateStep X step ex
      | CheckStateStep comment checks \<Rightarrow> map_option (\<lambda>err. (err, ex)) (ExecuteCheckStateStep X checks ex)
      | TxStep TxIdent comment tx expectedResult \<Rightarrow> map_option (map_prod sum_error (\<lambda>ex. ex)) (ExecuteTxStep X TxIdent tx expectedResult ex)
      | DumpStateStep comment \<Rightarrow> map_option (\<lambda>r. (sum_error r, ex)) (DumpWorld X ex))"

fun execute_steps ::
  "'v execEnv \<Rightarrow> 'v scenario_runner \<Rightarrow> Step list \<Rightarrow> 'v VMTestExecutor \<Rightarrow> (go_error option \<times> 'v VMTestExecutor) option" where
  "execute_steps X runner [] ex = Some (None, ex)"
| "execute_steps X runner (generalStep # steps) ex = do {
     (err, ex) \<leftarrow> ExecuteStep X runner generalStep ex;
     if err \<noteq> None then Some (err, ex) else execute_steps X runner steps ex
   }"

definition ExecuteScenario ::
  "'v execEnv \<Rightarrow> 'v scenario_runner \<Rightarrow> Scenario \<Rightarrow> DefaultFileResolver \<Rightarrow> 'v VMTestExecutor \<Rightarrow> (go_error option \<times> 'v VMTestExecutor) option" where
  "ExecuteScenario X runner scenario fileResolver ex =
     (let ex = ex\<lparr>ex_fileResolver := fileResolver, ex_checkGas := scn_CheckGas scenario\<rparr>;
          (err, ex) = SetScenariosGasSchedule X (scn_GasSchedule scenario) ex
      in if err \<noteq> None then Some (err, ex) else execute_steps X runner (scn_Steps scenario) ex)"

definition run_scenario_file :: "'v execEnv \<Rightarrow> 'v scenario_runner \<Rightarrow> 'v scenario_runner" where
  "run_scenario_file X runner contextPath fileResolver ex =
     (case xe_Abs X contextPath of
        Inl err \<Rightarrow> Some (Some err, ex)
      | Inr contextPath \<Rightarrow>
          (case xe_ReadFile X contextPath of
             Inl err \<Rightarrow> Some (Some err, ex)
           | Inr byteValue \<Rightarrow>
               let fileResolver = SetContext contextPath fileResolver
               in case ParseScenarioFile (scenario_parser X fileResolver) (string_of_bytes byteValue) of
                    None \<Rightarrow> None
                  | Some (Inl parseErr) \<Rightarrow> Some (Some parseErr, ex)
                  | Some (Inr scenario) \<Rightarrow> ExecuteScenario X runner scenario fileResolver ex))"

fun RunSingleJSONScenario :: "nat \<Rightarrow> 'v execEnv \<Rightarrow> 'v scenario_runner" where
  "RunSingleJSONScenario 0 X = (\<lambda>_ _ _. None)"
| "RunSingleJSONScenario (Suc levels) X = run_scenario_file X (RunSingleJSONScenario levels X)"

section \<open>Tests in the old format\<close>

fun put_accounts :: "worldEnv \<Rightarrow> ScenAccount list \<Rightarrow> MockWorld \<Rightarrow> go_error option \<times> MockWorld" where
  "put_accounts W [] w = (None, w)"
| "put_accounts W (acct # rest) w =
     (case convertAccount W acct of
        Inl err \<Rightarrow> (Some err, w)
      | Inr account \<Rightarrow> put_accounts W rest (upd_accounts (PutAccount account) w))"

text \<open>A transaction without a result at its index panics after it has run.\<close>

fun execute_block ::
  "'v execEnv \<Rightarrow> bool \<Rightarrow> nat \<Rightarrow> Transaction list \<Rightarrow> TransactionResult list \<Rightarrow> 'v VMTestExecutor \<Rightarrow> (go_error option \<times> 'v VMTestExecutor) option" where
  "execute_block X gasChecked txIndex [] results ex = Some (None, ex)"
| "execute_block X gasChecked txIndex (tx # txs) results ex = do {
     (r, ex) \<leftarrow> executeTx X (decimal txIndex) tx ex;
     case r of
       Inl err \<Rightarrow> Some (Some err, ex)
     | Inr output \<Rightarrow>
         if txIndex < length results then do {
           err \<leftarrow> checkTxResults X (results ! txIndex) gasChecked output;
           if err \<noteq> None then Some (err, ex) else execute_block X gasChecked (Suc txIndex) txs results ex
         }
         else None
   }"

fun execute_blocks ::
  "'v execEnv \<Rightarrow> bool \<Rightarrow> Block list \<Rightarrow> 'v VMTestExecutor \<Rightarrow> (go_error option \<times> 'v VMTestExecutor) option" where
  "execute_blocks X gasChecked [] ex = Some (None, ex)"
| "execute_blocks X gasChecked (block # blocks) ex = do {
     (err, ex) \<leftarrow> execute_block X gasChecked 0 (blk_Transactions block) (blk_Results block) ex;
     if err \<noteq> None then Some (err, ex) else execute_blocks X gasChecked blocks ex
   }"

definition ExecuteTest :: "'v execEnv \<Rightarrow> Test \<Rightarrow> 'v VMTestExecutor \<Rightarrow> (go_error option \<times> 'v VMTestExecutor) option" where
  "ExecuteTest X test ex = do {
     let w = (Clear (ex_World ex))\<lparr>mw_Blockhashes := JSONBytesFromStringValues (tst_BlockHashes test)\<rparr>;
     let (err, w) = put_accounts (xe_world X) (tst_Pre test) w;
     let ex = ex\<lparr>ex_World := w\<rparr>;
     if err \<noteq> None then Some (err, ex)
     else do {
       (err, ex) \<leftarrow> execute_blocks X (tst_CheckGas test) (tst_Blocks test) ex;
       if err \<noteq> None then Some (err, ex)
       else map_option (\<lambda>err. (err, ex)) (Option.bind (tst_PostState test) (\<lambda>checks. checkAccounts X checks (ex_World ex)))
     }
   }"

fun execute_tests :: "'v execEnv \<Rightarrow> Test list \<Rightarrow> 'v VMTestExecutor \<Rightarrow> (go_error option \<times> 'v VMTestExecutor) option" where
  "execute_tests X [] ex = Some (None, ex)"
| "execute_tests X (test # tests) ex = do {
     (err, ex) \<leftarrow> ExecuteTest X test ex;
     if err \<noteq> None then Some (err, ex) else execute_tests X tests ex
   }"

definition RunSingleJSONTest ::
  "'v execEnv \<Rightarrow> string \<Rightarrow> DefaultFileResolver \<Rightarrow> 'v VMTestExecutor \<Rightarrow> (go_error option \<times> 'v VMTestExecutor) option" where
  "RunSingleJSONTest X contextPath fileResolver ex =
     (case xe_Abs X contextPath of
        Inl err \<Rightarrow> Some (Some err, ex)
      | Inr contextPath \<Rightarrow>
          (case xe_ReadFile X contextPath of
             Inl err \<Rightarrow> Some (Some err, ex)
           | Inr byteValue \<Rightarrow>
               (case ParseTestFile (scenario_parser X (SetContext contextPath fileResolver)) (string_of_bytes byteValue) of
                  None \<Rightarrow> None
                | Some (Inl parseErr) \<Rightarrow> Some (Some parseErr, ex)
                | Some (Inr tests) \<Rightarrow> execute_tests X tests ex)))"

definition ConvertTestToScenario :: "Test list \<Rightarrow> go_error + Scenario" where
  "ConvertTestToScenario tests =
     (case tests of
        [test] \<Rightarrow>
          (case tst_Blocks test of
             [block] \<Rightarrow>
               if length (blk_Transactions block) \<noteq> length (blk_Results block)
               then Inl (OtherError ''transactions must match results'')
               else Inr \<lparr>scn_Name = [], scn_Comment = [], scn_CheckGas = tst_CheckGas test, scn_GasSchedule = GasScheduleDefault,
                 scn_Steps =
                   [SetStateStep \<lparr>sst_Comment = [], sst_Accounts = tst_Pre test, sst_PreviousBlockInfo = None,
                      sst_CurrentBlockInfo = None, sst_BlockHashes = tst_BlockHashes test, sst_NewAddressMocks = []\<rparr>]
                   @ map (\<lambda>(txIndex, tx, result). TxStep (decimal (txIndex + 1)) [] (Some tx) (Some result))
                       (zip [0..<length (blk_Transactions block)] (zip (blk_Transactions block) (blk_Results block)))
                   @ [CheckStateStep [] (tst_PostState test)]\<rparr>
           | _ \<Rightarrow> Inl (OtherError ''only one block per test file supported''))
      | _ \<Rightarrow> Inl (OtherError ''only one test per test file supported''))"

end
