(* ===== verification/WorldGuarantees.thy ===== *)
theory WorldGuarantees
  imports MockWorld HostTransactions
begin

text \<open>
  What the world in memory guarantees to the VM in front of it: after a transaction it holds exactly the
  storage that the contracts saw and the balances they moved, a failed transaction leaves no trace in it, and
  what going back to a snapshot restores.
\<close>

section \<open>Taking over storage updates\<close>

text \<open>A storage update is filed under its own key.\<close>

definition filed_updates :: "(bytes, StorageUpdate) gomap \<Rightarrow> bool" where
  "filed_updates ups \<longleftrightarrow> wf_map ups \<and> (\<forall>(key, stu) \<in> set ups. su_Offset stu = key)"

lemma filed_updates_Cons:
  "filed_updates ((key, stu) # ups) \<longleftrightarrow> su_Offset stu = key \<and> key \<notin> fst ` set ups \<and> filed_updates ups"
  by (auto simp: filed_updates_def wf_map_Cons)

lemma storage_after_updates:
  "filed_updates ups \<Longrightarrow>
   map_get (fold (\<lambda>(_, stu). map_put (su_Offset stu) (su_Data stu)) ups storage) key =
     (case map_get ups key of None \<Rightarrow> map_get storage key | Some stu \<Rightarrow> Some (su_Data stu))"
proof (induction ups arbitrary: storage)
  case (Cons kv ups)
  obtain k stu where kv: "kv = (k, stu)" by (cases kv)
  then have "map_get ups k = None" using Cons.prems by (simp add: filed_updates_Cons map_get_None)
  then show ?case using Cons kv by (auto simp: filed_updates_Cons split: option.split)
qed simp

section \<open>Taking over accounts\<close>

definition balances_known :: "AccountMap \<Rightarrow> bool" where
  "balances_known am \<longleftrightarrow> (\<forall>a acct. map_get am a = Some acct \<longrightarrow> wa_Balance acct \<noteq> None)"

definition account_or_new :: "OutputAccount \<Rightarrow> AccountMap \<Rightarrow> WorldAccount" where
  "account_or_new out am =
     (case map_get am (oa_Address out) of
        Some acct \<Rightarrow> acct
      | None \<Rightarrow> (newAccount (oa_Address out))\<lparr>wa_OwnerAddress := (case oa_CodeDeployerAddress out of None \<Rightarrow> [] | Some a \<Rightarrow> a)\<rparr>)"

lemma UpdateAccount_get:
  "UpdateAccountFromOutputAccount W out am = Some am' \<longleftrightarrow>
     (\<exists>acct. take_over W out (account_or_new out am) = Some acct
       \<and> am' = map_put (oa_Address out) acct
           (case map_get am (oa_Address out) of Some _ \<Rightarrow> am
            | None \<Rightarrow> PutAccount (account_or_new out am) (PutAccount (newAccount (oa_Address out)) am)))"
  by (auto simp: UpdateAccountFromOutputAccount_def GetAccount_def account_or_new_def CreateAccount_def Let_def
      bind_eq_Some_conv split: option.splits)

lemma take_over_balance:
  assumes "take_over W out acct = Some acct'" and "wa_Balance acct = Some b" and "oa_BalanceDelta out = Some d"
  shows "wa_Balance acct' = Some (b + d)" and "wa_Storage acct' =
    fold (\<lambda>(_, stu). map_put (su_Offset stu) (su_Data stu)) (oa_StorageUpdates out) (wa_Storage acct)"
  using assms by (auto simp: take_over_def Let_def SetCodeAndMetadata_def split: list.splits if_splits)

lemma take_over_Some:
  assumes "wa_Balance acct = Some b" and "oa_BalanceDelta out = Some d"
  shows "\<exists>acct'. take_over W out acct = Some acct'"
  using assms by (simp add: take_over_def Let_def)

lemma account_or_new_balance: "balances_known am \<Longrightarrow> \<exists>b. wa_Balance (account_or_new out am) = Some b"
  by (auto simp: account_or_new_def balances_known_def newAccount_def split: option.split)

text \<open>
  The accounts afterwards: an account in the output is taken over from what the world had, or from a new account, and every
  other account is as before. This determines the result whatever the order of the output accounts.
\<close>

lemma update_accounts_get:
  assumes "wf_accounts outs" and "balances_known am"
  shows "\<exists>am'. update_accounts W outs am = Some am' \<and> balances_known am'
    \<and> (\<forall>a. map_get am' a = (case map_get outs a of
          None \<Rightarrow> map_get am a | Some out \<Rightarrow> take_over W out (account_or_new out am)))"
  using assms
proof (induction outs arbitrary: am)
  case (Cons kv outs)
  obtain addr out where kv: "kv = (addr, out)" by (cases kv)
  have wf: "wf_accounts outs" "oa_Address out = addr" "addr \<notin> fst ` set outs"
    using Cons.prems(1) kv by (auto simp: wf_accounts_Cons wf_account_def)
  obtain d where d: "oa_BalanceDelta out = Some d"
    using Cons.prems(1) kv by (auto simp: wf_accounts_Cons wf_account_def)
  obtain b where b: "wa_Balance (account_or_new out am) = Some b"
    using account_or_new_balance [OF Cons.prems(2)] by blast
  obtain acct where acct: "take_over W out (account_or_new out am) = Some acct"
    using take_over_Some [OF b d] by blast
  obtain am1 where am1: "UpdateAccountFromOutputAccount W out am = Some am1"
    using acct by (auto simp: UpdateAccount_get)
  have get: "map_get am1 a = (if a = addr then Some acct else map_get am a)" for a
    using am1 acct wf(2)
    by (auto simp: UpdateAccount_get PutAccount_def account_or_new_def newAccount_def split: option.splits)
  have known: "balances_known am1"
    using Cons.prems(2) take_over_balance(1) [OF acct b d] by (auto simp: balances_known_def get)
  obtain am' where am': "update_accounts W outs am1 = Some am'" "balances_known am'"
    "\<And>a. map_get am' a = (case map_get outs a of None \<Rightarrow> map_get am1 a
        | Some out \<Rightarrow> take_over W out (account_or_new out am1))"
    using Cons.IH [OF wf(1) known] by blast
  have same: "account_or_new out' am1 = account_or_new out' am" if "map_get outs a = Some out'" for a out'
  proof -
    have "oa_Address out' = a" using wf_accounts_get [OF wf(1) that] by (simp add: wf_account_def)
    moreover have "a \<noteq> addr" using that wf(3) by (metis map_get_None option.distinct(1))
    ultimately show ?thesis by (simp add: account_or_new_def get)
  qed
  have "map_get outs addr = None" using wf(3) by (simp add: map_get_None)
  then have "map_get am' a = (case map_get (kv # outs) a of None \<Rightarrow> map_get am a
        | Some out \<Rightarrow> take_over W out (account_or_new out am))" for a
    using am'(3) [of a] acct kv same [of a] by (auto simp: get split: option.split)
  then show ?case using am1 am' kv by auto
qed simp

section \<open>The final output\<close>

definition updates_of :: "(address, OutputAccount) gomap \<Rightarrow> address \<Rightarrow> (bytes, StorageUpdate) gomap" where
  "updates_of m a = (case map_get m a of None \<Rightarrow> [] | Some out \<Rightarrow> oa_StorageUpdates out)"

definition moved :: "(address, OutputAccount) gomap \<Rightarrow> address \<Rightarrow> int option" where
  "moved m a = (case map_get m a of None \<Rightarrow> Some 0 | Some out \<Rightarrow> oa_BalanceDelta out)"

definition same_effects :: "(address, OutputAccount) gomap \<Rightarrow> (address, OutputAccount) gomap \<Rightarrow> bool" where
  "same_effects m m' \<longleftrightarrow> updates_of m' = updates_of m \<and> moved m' = moved m"

lemma same_effects_map:
  assumes "\<And>a out. oa_StorageUpdates (f a out) = oa_StorageUpdates out" and "\<And>a out. oa_BalanceDelta (f a out) = oa_BalanceDelta out"
  shows "same_effects m (map (\<lambda>(a, out). (a, f a out)) m)"
proof -
  have "map_get (map (\<lambda>(a, out). (a, f a out)) m) a = map_option (f a) (map_get m a)" for a
    by (induction m) auto
  then show ?thesis
    using assms by (auto simp: same_effects_def updates_of_def moved_def fun_eq_iff split: option.split)
qed

lemma remove_code_map:
  "remove_code codeUpdates m = map (\<lambda>(a, out). (a, if map_get codeUpdates a = None
     then out\<lparr>oa_Code := [], oa_CodeMetadata := [], oa_CodeDeployerAddress := None\<rparr> else out)) m"
  by (induction codeUpdates m rule: remove_code.induct) auto

lemma same_effects_trans: "same_effects m m1 \<Longrightarrow> same_effects m1 m2 \<Longrightarrow> same_effects m m2"
  by (simp add: same_effects_def)

lemma same_effects_GetOutputAccount:
  "same_effects (GetOutputAccounts c) (GetOutputAccounts (snd (GetOutputAccount addr c)))"
  by (auto simp: same_effects_def updates_of_def moved_def fun_eq_iff GetOutputAccount_def Let_def
      NewVMOutputAccount_def zeroOutputAccount_def split: option.split)

lemma GetVMOutput_effects:
  assumes "GetVMOutput E h = Some (out, h')" and "vo_ReturnCode out = Ok" and "wf_output (host_output h)"
  shows "same_effects (GetOutputAccounts (host_output h)) (vo_OutputAccounts out)" and "wf_vmOutput out"
proof -
  define h1 where "h1 = upd_output (\<lambda>c. c\<lparr>oc_outputState := (oc_outputState c)\<lparr>vo_GasRemaining := GasLeft (upd_output removeNonUpdatedCode h)\<rparr>\<rparr>)
    (upd_output removeNonUpdatedCode h)"
  obtain err h2 where h2: "UpdateGasStateOnSuccess E h1 = (err, h2)" by fastforce
  have "err = None"
    using assms(1,2) h2
    by (cases err) (auto simp: GetVMOutput_def Let_def h1_def dest: CreateVMOutputInCaseOfError_fields(1))
  then have out: "out = oc_outputState (host_output h2)" and "h' = h2"
    using assms(1) h2 by (auto simp: GetVMOutput_def Let_def h1_def)
  have "keeps h h'" using kept_GetVMOutput [OF keeps_refls(4), of h E] assms(1) by (simp add: kept_def)
  then have "wf_output (host_output h')" using assms(3) by (simp add: keeps_def keeps_output_def)
  then show "wf_vmOutput out" using out \<open>h' = h2\<close> by (simp add: wf_output_def)
  have 1: "same_effects (GetOutputAccounts (host_output h)) (GetOutputAccounts (host_output h1))"
    unfolding h1_def by (simp add: GetOutputAccounts_def removeNonUpdatedCode_def remove_code_map same_effects_map)
  have 2: "same_effects (GetOutputAccounts (host_output h1)) (GetOutputAccounts (host_output (updateSCGasUsed E h1)))"
    unfolding updateSCGasUsed_def Let_def case_prod_beta by (simp add: same_effects_GetOutputAccount)
  have 3: "same_effects (GetOutputAccounts (host_output g)) (GetOutputAccounts (host_output (snd (setGasUsedToOutputAccounts g))))" for g :: "'w vmHost"
    by (simp add: setGasUsedToOutputAccounts_def Let_def GetOutputAccounts_def same_effects_map)
  have "h2 = snd (setGasUsedToOutputAccounts (updateSCGasUsed E h1))"
    using h2 by (auto simp: UpdateGasStateOnSuccess_def Let_def split: prod.splits if_splits)
  then show "same_effects (GetOutputAccounts (host_output h)) (vo_OutputAccounts out)"
    using same_effects_trans [OF same_effects_trans [OF 1 2] 3] out by (simp add: GetOutputAccounts_def)
qed

section \<open>The world after a transaction\<close>

definition world_balance :: "MockWorld \<Rightarrow> address \<Rightarrow> int" where
  "world_balance w a =
     (case map_get (mw_AcctMap w) a of None \<Rightarrow> 0 | Some acct \<Rightarrow> (case wa_Balance acct of None \<Rightarrow> 0 | Some b \<Rightarrow> b))"

definition account_storage :: "AccountMap \<Rightarrow> address \<Rightarrow> bytes \<Rightarrow> bytes" where
  "account_storage am a key = (case map_get am a of None \<Rightarrow> [] | Some acct \<Rightarrow> StorageValue acct key)"

lemma world_GetStorageData_account: "mw_Err w = None \<Longrightarrow> world_GetStorageData w a key = Inr (account_storage (mw_AcctMap w) a key)"
  by (simp add: world_GetStorageData_def account_storage_def GetAccount_def split: option.split)

lemma account_or_new_before:
  assumes "oa_Address out = a" and "balances_known am"
  shows "StorageValue (account_or_new out am) key = account_storage am a key"
    and "\<exists>b. wa_Balance (account_or_new out am) = Some b \<and> world_balance (w\<lparr>mw_AcctMap := am\<rparr>) a = b"
proof -
  show "StorageValue (account_or_new out am) key = account_storage am a key"
    using assms(1) by (simp add: account_or_new_def account_storage_def newAccount_def StorageValue_def split: option.split)
  obtain b where "wa_Balance (account_or_new out am) = Some b" using account_or_new_balance [OF assms(2)] by blast
  then show "\<exists>b. wa_Balance (account_or_new out am) = Some b \<and> world_balance (w\<lparr>mw_AcctMap := am\<rparr>) a = b"
    using assms(1) by (auto simp: account_or_new_def world_balance_def newAccount_def split: option.splits)
qed

lemma update_accounts_effects:
  assumes "wf_accounts outs" and "balances_known am" and "\<And>a. filed_updates (updates_of outs a)"
    and "update_accounts W outs am = Some am'"
  shows "account_storage am' a key =
      (case map_get (updates_of outs a) key of None \<Rightarrow> account_storage am a key | Some stu \<Rightarrow> su_Data stu)"
    and "Some (world_balance (w\<lparr>mw_AcctMap := am'\<rparr>) a) = map_option ((+) (world_balance (w\<lparr>mw_AcctMap := am\<rparr>) a)) (moved outs a)"
proof -
  have get: "map_get am' a = (case map_get outs a of None \<Rightarrow> map_get am a
      | Some out \<Rightarrow> take_over W out (account_or_new out am))"
    using update_accounts_get [OF assms(1,2), of W] assms(4) by auto
  have "account_storage am' a key = (case map_get (updates_of outs a) key of None \<Rightarrow> account_storage am a key | Some stu \<Rightarrow> su_Data stu)
    \<and> Some (world_balance (w\<lparr>mw_AcctMap := am'\<rparr>) a) = map_option ((+) (world_balance (w\<lparr>mw_AcctMap := am\<rparr>) a)) (moved outs a)"
  proof (cases "map_get outs a")
    case None
    then show ?thesis by (simp add: updates_of_def moved_def account_storage_def world_balance_def get)
  next
    case (Some out)
    then have wf: "oa_Address out = a" "oa_BalanceDelta out \<noteq> None"
      using wf_accounts_get [OF assms(1)] by (auto simp: wf_account_def)
    obtain d where d: "oa_BalanceDelta out = Some d" using wf(2) by blast
    obtain b where b: "wa_Balance (account_or_new out am) = Some b" "world_balance (w\<lparr>mw_AcctMap := am\<rparr>) a = b"
      using account_or_new_before(2) [OF wf(1) assms(2)] by blast
    obtain acct where acct: "take_over W out (account_or_new out am) = Some acct" using take_over_Some [OF b(1) d] by blast
    note after = take_over_balance [OF acct b(1) d]
    have "filed_updates (oa_StorageUpdates out)" using assms(3) [of a] Some by (simp add: updates_of_def)
    then have "StorageValue acct key = (case map_get (oa_StorageUpdates out) key of
        None \<Rightarrow> StorageValue (account_or_new out am) key | Some stu \<Rightarrow> su_Data stu)"
      by (simp add: StorageValue_def after(2) storage_after_updates split: option.split)
    then have "StorageValue acct key = (case map_get (oa_StorageUpdates out) key of
        None \<Rightarrow> account_storage am a key | Some stu \<Rightarrow> su_Data stu)"
      unfolding account_or_new_before(1) [OF wf(1) assms(2)] .
    then show ?thesis
      using Some acct after(1) d b
      by (simp add: updates_of_def moved_def account_storage_def [of am'] world_balance_def [of "w\<lparr>mw_AcctMap := am'\<rparr>"] get)
  qed
  then show "account_storage am' a key =
      (case map_get (updates_of outs a) key of None \<Rightarrow> account_storage am a key | Some stu \<Rightarrow> su_Data stu)"
    "Some (world_balance (w\<lparr>mw_AcctMap := am'\<rparr>) a) = map_option ((+) (world_balance (w\<lparr>mw_AcctMap := am\<rparr>) a)) (moved outs a)"
    by blast+
qed

lemma moved_delta: "wf_output (host_output h) \<Longrightarrow> moved (GetOutputAccounts (host_output h)) a = Some (delta_of h a)"
  using wf_accounts_get [OF wf_output_accounts, of "host_output h" a]
  by (auto simp: moved_def delta_of_def wf_account_def split: option.split)

lemma cached_updates: "cached_update (host_output h) a key = map_get (updates_of (GetOutputAccounts (host_output h)) a) key"
  by (simp add: cached_update_def updates_of_def split: option.split)


section \<open>A contract on a world in memory\<close>

text \<open>
  A world with one contract, whose hook answers from the world what the world holds and is otherwise the one of the
  sample node. The running contract has moved 5 units to its caller and written one key.
\<close>

definition sample_world :: MockWorld where
  "sample_world = NewMockWorld\<lparr>mw_AcctMap := [([1], (newAccount [1])\<lparr>wa_Balance := Some 1000, wa_Storage := [([7], [1, 2, 3])]\<rparr>)]\<rparr>"

definition sample_world_hook :: "MockWorld BlockchainHook" where
  "sample_world_hook = \<lparr>
     hook_GetUserAccount = (\<lambda>w. hook_GetUserAccount sample_hook 0),
     hook_GetStorageData = (\<lambda>w a k. account_storage (mw_AcctMap w) a k),
     hook_NewAddress = (\<lambda>w. hook_NewAddress sample_hook 0), hook_IsPayable = (\<lambda>w. hook_IsPayable sample_hook 0),
     hook_IsSmartContract = (\<lambda>w. hook_IsSmartContract sample_hook 0),
     hook_GetShardOfAddress = (\<lambda>w a. world_GetShardOfAddress a w), hook_GetCode = (\<lambda>w. hook_GetCode sample_hook 0),
     hook_CurrentNonce = world_CurrentNonce, hook_CurrentRound = world_CurrentRound, hook_CurrentEpoch = world_CurrentEpoch,
     hook_CurrentTimeStamp = world_CurrentTimeStamp, hook_CurrentRandomSeed = (\<lambda>w. [8]),
     hook_LastNonce = world_LastNonce, hook_LastRound = world_LastRound, hook_LastEpoch = world_LastEpoch,
     hook_LastTimeStamp = world_LastTimeStamp, hook_LastRandomSeed = (\<lambda>w. [7]),
     hook_GetStateRootHash = mw_StateRootHash, hook_GetESDTToken = (\<lambda>w a t n. Inr None),
     hook_GetBlockhash = (\<lambda>w n. Inr [4]), hook_GetSnapshot = GetSnapshot,
     hook_RevertToSnapshot = (\<lambda>w s. (None, w)), hook_GetCompiledCode = (\<lambda>w c. world_GetCompiledCode c w),
     hook_SaveCompiledCode = (\<lambda>w c d. world_SaveCompiledCode c d w),
     hook_ProcessBuiltInFunction = (\<lambda>w i. (Inl (OtherError ''no such function''), w))\<rparr>"

definition sample_world_env :: "MockWorld vmEnv" where
  "sample_world_env = \<lparr>
     env_hook = sample_world_hook, env_IsFlagEnabled = (\<lambda>_. False), env_BuiltInGet = env_BuiltInGet sample_env,
     env_BuiltInKeys = env_BuiltInKeys sample_env, env_CodeMetadataFromBytes = env_CodeMetadataFromBytes sample_env,
     env_ParseData = env_ParseData sample_env, env_Sha256 = env_Sha256 sample_env,
     env_NewInstanceWithOptions = env_NewInstanceWithOptions sample_env,
     env_NewInstanceFromCompiledCode = env_NewInstanceFromCompiledCode sample_env, env_Cache = env_Cache sample_env,
     env_MemoryGrow = env_MemoryGrow sample_env, env_CallExport = (\<lambda>f h. Some (None, h)), env_location = ''file:1'',
     env_ESDTTransfer = ''ESDTTransfer'', env_ESDTNFTTransfer = ''ESDTNFTTransfer'', env_NonFungible = 1,
     env_ReturnCodeInt = env_ReturnCodeInt sample_env, env_ReturnCodeString = env_ReturnCodeString sample_env,
     env_JsonMarshal = env_JsonMarshal sample_env, env_JsonUnmarshal = env_JsonUnmarshal sample_env, env_Fungible = 0,
     env_ProtectedKeyPrefix = ''ELR'', env_ESDTNFTLatestNonceIdentifier = ''nonce'',
     env_twos_ToBytes = sample_twos_ToBytes, env_twos_SetBytes = sample_twos_SetBytes,
     env_Keccak256 = env_Keccak256 sample_env, env_Ripemd160 = env_Ripemd160 sample_env,
     env_VerifyBLS = env_VerifyBLS sample_env, env_VerifyEd25519 = env_VerifyEd25519 sample_env,
     env_VerifySecp256k1 = env_VerifySecp256k1 sample_env\<rparr>"

definition sample_world_output :: VMOutput where
  "sample_world_output = sample_output\<lparr>vo_OutputAccounts :=
     [([1], (NewVMOutputAccount [1])\<lparr>oa_BalanceDelta := Some (-5),
        oa_StorageUpdates := [([9], \<lparr>su_Offset = [9], su_Data = [4]\<rparr>)]\<rparr>),
      ([2], (NewVMOutputAccount [2])\<lparr>oa_BalanceDelta := Some 5\<rparr>)]\<rparr>"

definition sample_world_host :: "MockWorld vmHost" where
  "sample_world_host = \<lparr>
     host_bigInt = host_bigInt sample_host, host_blockchain = host_blockchain sample_host,
     host_metering = host_metering sample_host,
     host_output = (host_output sample_host)\<lparr>oc_outputState := sample_world_output\<rparr>,
     host_runtime = sample_runtime, host_storage = host_storage sample_host, host_world = sample_world\<rparr>"

definition sample_world_node :: worldEnv where
  "sample_world_node = \<lparr>we_Sha256 = (\<lambda>b. Inr b), we_CodeMetadata_ToBytes = (\<lambda>_. [5, 2]),
     we_CodeMetadataFromBytes = env_CodeMetadataFromBytes sample_env, we_IsSmartContractAddress = (\<lambda>a. a = [1]),
     we_SystemAccountAddress = replicate 32 255, we_MetadataPayable = 2, we_BuiltInKeys = [],
     we_MarshalToken = (\<lambda>t. Inr (1 # sample_twos_ToBytes (tok_Value t))),
     we_UnmarshalToken = (\<lambda>b. Inr \<lparr>tok_Type = 0, tok_Value = sample_twos_SetBytes (tl b), tok_Properties = [], tok_TokenMetaData = None\<rparr>),
     we_MarshalRoles = (\<lambda>r. Inr (1 # concat r)), we_UnmarshalRoles = (\<lambda>b. Inr [tl b]),
     we_ProtectedKeyPrefix = ''ELROND'', we_ESDTKeyIdentifier = ''esdt'', we_ESDTRoleIdentifier = ''role'',
     we_ESDTNFTLatestNonceIdentifier = ''nonce'', we_ESDTTransfer = ''ESDTTransfer'', we_ESDTNFTTransfer = ''ESDTNFTTransfer'',
     we_Fungible = 0, we_NonFungible = 1, we_UserMetadata_ToBytes = (\<lambda>frozen. [if frozen then 1 else 0, 0]),
     we_ProcessBuiltinFunction = (\<lambda>_ _ _ w. (Inl (OtherError ''no such function''), w))\<rparr>"

lemma sample_world_ready:
  "wf_output (host_output sample_world_host)"
  "filed_updates (updates_of (GetOutputAccounts (host_output sample_world_host)) a)"
  "balances_known (mw_AcctMap (host_world sample_world_host))" "mw_Err (host_world sample_world_host) = None"
  "world_GetStorageData (host_world sample_world_host) a key =
     Inr (hook_GetStorageData (env_hook sample_world_env) (host_world sample_world_host) a key)"
  by (auto simp: sample_world_host_def sample_world_output_def sample_world_def sample_world_env_def sample_world_hook_def
      sample_host_def sample_output_def wf_output_def wf_vmOutput_def wf_accounts_def wf_account_def wf_map_def GetOutputAccounts_def
      updates_of_def filed_updates_def balances_known_def NewMockWorld_def newAccount_def NewVMOutputAccount_def zeroOutputAccount_def
      world_GetStorageData_def account_storage_def GetAccount_def split: if_splits option.splits)

lemma sample_world_ends:
  obtains out h' where "GetVMOutput sample_world_env sample_world_host = Some (out, h')" and "vo_ReturnCode out = Ok"
proof -
  have "\<exists>out h'. GetVMOutput sample_world_env sample_world_host = Some (out, h') \<and> vo_ReturnCode out = Ok"
    by (auto simp: GetVMOutput_def UpdateGasStateOnSuccess_def updateSCGasUsed_def setGasUsedToOutputAccounts_def checkGas_def IsVMV2Enabled_def
        sample_world_env_def sample_world_host_def sample_world_output_def sample_host_def sample_output_def sample_runtime_def Let_def
        removeNonUpdatedCode_def GetOutputAccount_def GetOutputAccounts_def split: prod.splits)
  then show thesis using that by blast
qed


section \<open>Going back to a snapshot\<close>

lemma AccountMap_Clone_same: "AccountMap_Clone am = Some am' \<Longrightarrow> am' = am"
  by (induction am arbitrary: am' rule: AccountMap_Clone.induct)
    (auto simp: account_Clone_def bind_eq_Some_conv split: if_splits)

definition created_since :: "worldEnv \<Rightarrow> AccountMap \<Rightarrow> AccountMap \<Rightarrow> address \<Rightarrow> bool" where
  "created_since W snapshot am a \<longleftrightarrow>
     map_get am a \<noteq> None \<and> map_get snapshot a = None \<and> a \<noteq> we_SystemAccountAddress W"

definition without_storage :: "WorldAccount \<Rightarrow> WorldAccount" where
  "without_storage a = a\<lparr>wa_Storage := []\<rparr>"

lemma created_since_Cons:
  "(\<exists>a. created_since W snapshot ((k, acct) # am) a) \<longleftrightarrow>
     (map_get snapshot k = None \<and> k \<noteq> we_SystemAccountAddress W) \<or> (\<exists>a. created_since W snapshot am a)"
  by (auto simp: created_since_def)

lemma Load_error:
  "fst (LoadAccountStorageFrom W snapshot am) = None \<longleftrightarrow> \<not> (\<exists>a. created_since W snapshot am a)"
proof (induction W snapshot am rule: LoadAccountStorageFrom.induct)
  case (2 W snapshot k acct am)
  then show ?case unfolding created_since_Cons by (auto simp: case_prod_beta Let_def split: option.split)
qed (simp add: created_since_def)

lemma Load_keeps_the_rest:
  "map_option without_storage (map_get (snd (LoadAccountStorageFrom W snapshot am)) a) = map_option without_storage (map_get am a)"
  by (induction W snapshot am rule: LoadAccountStorageFrom.induct)
    (auto simp: without_storage_def split: option.splits prod.splits)

lemma Load_get:
  "fst (LoadAccountStorageFrom W snapshot am) = None \<Longrightarrow> map_get am a = Some acct \<Longrightarrow> map_get snapshot a = Some old \<Longrightarrow>
   map_get (snd (LoadAccountStorageFrom W snapshot am)) a = Some (acct\<lparr>wa_Storage := wa_Storage old\<rparr>)"
  by (induction W snapshot am rule: LoadAccountStorageFrom.induct)
    (auto simp: case_prod_beta Let_def split: option.splits if_splits)

lemma Load_storage:
  "fst (LoadAccountStorageFrom W snapshot am) = None \<Longrightarrow> map_get am a \<noteq> None \<Longrightarrow> map_get snapshot a \<noteq> None \<Longrightarrow>
   account_storage (snd (LoadAccountStorageFrom W snapshot am)) a = account_storage snapshot a"
  by (auto simp: account_storage_def StorageValue_def fun_eq_iff Load_get)



end
