(* ===== verification/ScenarioGuarantees.thy ===== *)
theory ScenarioGuarantees
  imports ScenarioChecks ScenarioFiles WorldGuarantees
begin

text \<open>
  What the executor of scenarios guarantees: a failed transaction costs its sender a nonce and the gas and
  has no other effect on the world, a successful one conserves money, and a check of the state passes exactly when the world is
  as the scenario says.
\<close>

section \<open>Money in the world\<close>

definition balance_of :: "WorldAccount \<Rightarrow> int" where
  "balance_of a = (case wa_Balance a of None \<Rightarrow> 0 | Some b \<Rightarrow> b)"

definition total_balance :: "AccountMap \<Rightarrow> int" where
  "total_balance am = sum_list (map (\<lambda>(_, a). balance_of a) am)"

lemma total_balance_Nil [simp]: "total_balance [] = 0"
  by (simp add: total_balance_def)

lemma total_balance_Cons [simp]: "total_balance ((k, a) # am) = balance_of a + total_balance am"
  by (simp add: total_balance_def)

lemma total_balance_put:
  "wf_map am \<Longrightarrow> total_balance (map_put k a am) =
     total_balance am + balance_of a - (case map_get am k of None \<Rightarrow> 0 | Some old \<Rightarrow> balance_of old)"
  by (induction am) (auto simp: wf_map_Cons split: option.split dest: map_of_SomeD)

lemma UpdateAccount_total:
  assumes "UpdateAccountFromOutputAccount W out am = Some am'" and "wf_map am" and "balances_known am" and "oa_BalanceDelta out = Some d"
  shows "total_balance am' = total_balance am + d" and "wf_map am'" and "balances_known am'"
proof -
  obtain b where b: "wa_Balance (account_or_new out am) = Some b" using account_or_new_balance [OF assms(3)] by blast
  obtain acct where acct: "take_over W out (account_or_new out am) = Some acct"
    "am' = map_put (oa_Address out) acct (case map_get am (oa_Address out) of Some _ \<Rightarrow> am
       | None \<Rightarrow> PutAccount (account_or_new out am) (PutAccount (newAccount (oa_Address out)) am))"
    using assms(1) by (auto simp: UpdateAccount_get)
  note after = take_over_balance(1) [OF acct(1) b assms(4)]
  show "total_balance am' = total_balance am + d"
    using acct(2) after b assms(2)
    by (auto simp: account_or_new_def PutAccount_def newAccount_def total_balance_put balance_of_def split: option.splits)
  show "wf_map am'" using acct(2) assms(2) by (auto simp: PutAccount_def split: option.split)
  show "balances_known am'"
    using acct(2) after assms(3)
    by (auto simp: balances_known_def PutAccount_def account_or_new_def newAccount_def split: option.splits if_splits)
qed

lemma update_accounts_total:
  "update_accounts W outs am = Some am' \<Longrightarrow> wf_map am \<Longrightarrow> balances_known am \<Longrightarrow> sum_of_deltas outs = Some s \<Longrightarrow>
   total_balance am' = total_balance am + s"
proof (induction outs arbitrary: am s)
  case (Cons kv outs)
  obtain k out where kv: "kv = (k, out)" by (cases kv)
  obtain d s' where d: "oa_BalanceDelta out = Some d" "sum_of_deltas outs = Some s'" "s = d + s'"
    using Cons.prems(4) kv by (auto simp: bind_eq_Some_conv)
  obtain am1 where am1: "UpdateAccountFromOutputAccount W out am = Some am1" "update_accounts W outs am1 = Some am'"
    using Cons.prems(1) kv by (auto simp: bind_eq_Some_conv)
  note one = UpdateAccount_total [OF am1(1) Cons.prems(2,3) d(1)]
  show ?case using Cons.IH [OF am1(2) one(2,3) d(2)] one(1) d(3) by simp
qed simp

section \<open>Transactions\<close>

text \<open>
  What the executor relies on in a VM: a run that asks for no built-in function leaves the accounts of the world as they are, at most
  forgets snapshots, deletes no account and files its output accounts under their addresses.
\<close>

definition good_output :: "VMOutput \<Rightarrow> bool" where
  "good_output out \<longleftrightarrow> vo_DeletedAccounts out = [] \<and> wf_accounts (vo_OutputAccounts out)"

definition vm_run_ok :: "('v \<times> MockWorld \<Rightarrow> (go_error + VMOutput) \<times> 'v \<times> MockWorld) \<Rightarrow> bool" where
  "vm_run_ok run \<longleftrightarrow> (\<forall>s r v w. run s = (r, v, w) \<longrightarrow>
     mw_AcctMap w = mw_AcctMap (snd s) \<and> (\<exists>n. mw_Snapshots w = take n (mw_Snapshots (snd s)))
     \<and> (\<forall>out. r = Inr out \<longrightarrow> vo_ReturnCode out = Ok \<longrightarrow> good_output out))"

definition lawful_vm :: "'v execEnv \<Rightarrow> bool" where
  "lawful_vm X \<longleftrightarrow> (\<forall>input. vm_run_ok (xe_RunSmartContractCreate X input)) \<and> (\<forall>input. vm_run_ok (xe_RunSmartContractCall X input))"

lemma run_vm_accounts:
  assumes "vm_run_ok run" and "run_vm run ex = (r, ex')"
  shows "mw_AcctMap (ex_World ex') = mw_AcctMap (ex_World ex)"
    and "\<exists>n. mw_Snapshots (ex_World ex') = take n (mw_Snapshots (ex_World ex))"
    and "r = Inr out \<Longrightarrow> vo_ReturnCode out = Ok \<Longrightarrow> good_output out"
  using assms by (auto simp: run_vm_def vm_run_ok_def split: prod.splits)

lemma take_whole: "\<exists>n. xs = take n xs"
  by (rule exI [of _ "length xs"]) simp

lemma tx_run_accounts:
  assumes "lawful_vm X" and "HasSender (tx_Type tx)" and "tx_run X txIndex tx gas ex = (r, ex')"
  shows "mw_AcctMap (ex_World ex') = mw_AcctMap (ex_World ex)
    \<and> (\<exists>n. mw_Snapshots (ex_World ex') = take n (mw_Snapshots (ex_World ex)))
    \<and> (\<forall>out. r = Inr out \<longrightarrow> vo_ReturnCode out = Ok \<longrightarrow> good_output out)"
proof -
  have create: "vm_run_ok (xe_RunSmartContractCreate X input)" and call: "vm_run_ok (xe_RunSmartContractCall X cinput)" for input cinput
    using assms(1) by (simp_all add: lawful_vm_def)
  show ?thesis
  proof (cases "tx_Type tx")
    case ScDeploy
    define run where "run = xe_RunSmartContractCreate X \<lparr>cc_VMInput = tx_input (xe_world X) txIndex tx gas,
       cc_ContractCode = jbs_Value (tx_Code tx), cc_ContractCodeMetadata = []\<rparr>"
    obtain r' ex'' where r': "run_vm run ex = (r', ex'')" by fastforce
    then have "r = map_sum (\<lambda>err. (err, True)) (\<lambda>out. out) r'" "ex'' = ex'"
      using assms(3) ScDeploy by (auto simp: tx_run_def scCreate_def run_def)
    then show ?thesis using run_vm_accounts [OF create r' [unfolded run_def]] by (cases r') auto
  next
    case ScCall
    obtain r' ex'' where r': "scCall X txIndex tx gas ex = (r', ex'')" by fastforce
    then have "r = map_sum (\<lambda>err. (err, True)) (\<lambda>out. out) r'" "ex'' = ex'"
      using assms(3) ScCall by (auto simp: tx_run_def)
    then show ?thesis
      using run_vm_accounts [OF call] take_whole r' by (cases r') (auto simp: scCall_def split: option.splits if_splits)
  qed (use assms take_whole in \<open>auto simp: HasSender_def tx_run_def simpleTransferOutput_def plain_output_def
    good_output_def wf_accounts_def wf_account_def wf_map_def paid_account_def\<close>)
qed

section \<open>Before and after a transaction\<close>

definition tx_gas :: "Transaction \<Rightarrow> int" where
  "tx_gas tx = uint (ju_Value (tx_GasLimit tx)) * uint (ju_Value (tx_GasPrice tx))"

definition charged :: "Transaction \<Rightarrow> WorldAccount \<Rightarrow> WorldAccount" where
  "charged tx acct = acct\<lparr>wa_Nonce := wa_Nonce acct + 1, wa_Balance := map_option (\<lambda>b. b - tx_gas tx) (wa_Balance acct)\<rparr>"

definition charge :: "Transaction \<Rightarrow> AccountMap \<Rightarrow> AccountMap" where
  "charge tx am = (case map_get am (jbs_Value (tx_From tx)) of None \<Rightarrow> am
     | Some acct \<Rightarrow> map_put (jbs_Value (tx_From tx)) (charged tx acct) am)"

lemma tx_before_charges:
  assumes "tx_before X tx ex = Some (Inr gas, ex')" and "HasSender (tx_Type tx)" and "tx_ESDTValue tx = None"
  shows "ex_World ex' = upd_accounts (charge tx) (ex_World ex)"
    and "\<exists>acct b. map_get (mw_AcctMap (ex_World ex)) (jbs_Value (tx_From tx)) = Some acct \<and> wa_Balance acct = Some b \<and> tx_gas tx \<le> b"
  using assms
  by (auto simp: tx_before_def UpdateWorldStateBefore_def GetAccount_def charge_def charged_def tx_gas_def bind_eq_Some_conv Let_def
      split: option.splits if_splits)

lemma charge_total:
  assumes "wf_map am" and "map_get am (jbs_Value (tx_From tx)) = Some acct" and "wa_Balance acct = Some b"
  shows "total_balance (charge tx am) = total_balance am - tx_gas tx" and "wf_map (charge tx am)"
    and "balances_known am \<Longrightarrow> balances_known (charge tx am)"
  using assms by (auto simp: charge_def charged_def total_balance_put balance_of_def balances_known_def split: if_splits)

lemma updateStateAfterTx_total:
  assumes "updateStateAfterTx W tx out w = Some (None, w')" and "HasSender (tx_Type tx)" and "vo_DeletedAccounts out = []"
    and "wf_map (mw_AcctMap w)" and "balances_known (mw_AcctMap w)" and "map_get (mw_AcctMap w) (jbs_Value (tx_From tx)) \<noteq> None"
  shows "total_balance (mw_AcctMap w') = total_balance (mw_AcctMap w)"
proof -
  obtain acct b where acct: "map_get (mw_AcctMap w) (jbs_Value (tx_From tx)) = Some acct" "wa_Balance acct = Some b"
    using assms(5,6) by (force simp: balances_known_def)
  let ?am = "map_put (jbs_Value (tx_From tx)) (acct\<lparr>wa_Balance := Some (b - jbi_Value (tx_Value tx))\<rparr>) (mw_AcctMap w)"
  have "wf_map ?am" "balances_known ?am"
    using assms(4,5) by (auto simp: balances_known_def split: if_splits)
  moreover have "total_balance ?am = total_balance (mw_AcctMap w) - jbi_Value (tx_Value tx)"
    using assms(4) acct by (simp add: total_balance_put balance_of_def)
  moreover have "update_accounts W (vo_OutputAccounts out) ?am = Some (mw_AcctMap w')"
    "sum_of_deltas (vo_OutputAccounts out) = Some (jbi_Value (tx_Value tx))"
    using assms(1-3) acct
    by (auto simp: updateStateAfterTx_def UpdateBalanceWithDelta_def GetAccount_def UpdateAccounts_def bind_eq_Some_conv split: if_splits)
  ultimately show ?thesis using update_accounts_total by fastforce
qed

section \<open>Rolling back\<close>

lemma Load_same:
  "(\<And>a acct. map_get am a = Some acct \<Longrightarrow> \<exists>old. map_get snapshot a = Some old \<and> wa_Storage old = wa_Storage acct) \<Longrightarrow> wf_map am \<Longrightarrow>
   snd (LoadAccountStorageFrom W snapshot am) = am"
proof (induction W snapshot am rule: LoadAccountStorageFrom.induct)
  case (2 W snapshot k acct am)
  obtain old where old: "map_get snapshot k = Some old" "wa_Storage old = wa_Storage acct" using "2.prems"(1) [of k acct] by auto
  have "snd (LoadAccountStorageFrom W snapshot am) = am"
    using "2.IH"(2) [OF old(1)] "2.prems" by (metis map_of_Cons_code(2) map_get_None option.distinct(1) wf_map_Cons)
  then show ?case using old by (simp add: case_prod_beta)
qed simp

lemma rollback_snapshots: "mw_Snapshots (snd (RollbackChanges W w)) = []"
  by (auto simp: RollbackChanges_def adapter_RevertToSnapshot_def Let_def split: prod.splits)

lemma rollback_accounts:
  assumes "mw_Snapshots w = take n [snapshot]" and "wf_map (mw_AcctMap w)"
    and "\<And>a acct. map_get (mw_AcctMap w) a = Some acct \<Longrightarrow> \<exists>old. map_get snapshot a = Some old \<and> wa_Storage old = wa_Storage acct"
  shows "mw_AcctMap (snd (RollbackChanges W w)) = mw_AcctMap w"
  using assms Load_same [OF assms(3,2), of W]
  by (cases n) (auto simp: RollbackChanges_def adapter_RevertToSnapshot_def Let_def split: prod.splits)

lemma charge_storage:
  "map_get (charge tx am) a = Some acct \<Longrightarrow> \<exists>old. map_get am a = Some old \<and> wa_Storage old = wa_Storage acct"
  by (auto simp: charge_def charged_def split: option.splits if_splits)

section \<open>Whole transactions\<close>

lemma balances_known_get: "balances_known am \<Longrightarrow> map_get am a = Some acct \<Longrightarrow> \<exists>b. wa_Balance acct = Some b"
  unfolding balances_known_def by blast

lemma balances_known_put: "balances_known am \<Longrightarrow> wa_Balance acct = Some b \<Longrightarrow> balances_known (map_put a acct am)"
  by (auto simp: balances_known_def split: if_splits)

lemma sum_of_deltas_Some: "wf_accounts outs \<Longrightarrow> \<exists>s. sum_of_deltas outs = Some s"
  by (induction outs) (auto simp: wf_accounts_Cons wf_account_def)

lemma AccountMap_Clone_Some: "wf_map am \<Longrightarrow> balances_known am \<Longrightarrow> AccountMap_Clone am = Some am"
proof (induction am)
  case (Cons kv am)
  obtain k acct where kv: "kv = (k, acct)" by (cases kv)
  have "wa_Balance acct \<noteq> None" using balances_known_get [OF Cons.prems(2), of k acct] kv by auto
  moreover have "balances_known am"
    using Cons.prems kv by (auto simp: balances_known_def wf_map_Cons) (metis map_get_None option.distinct(1))
  ultimately show ?case using Cons kv by (auto simp: wf_map_Cons account_Clone_def)
qed simp

lemma updateStateAfterTx_Some:
  assumes "good_output out" and "balances_known (mw_AcctMap w)"
  shows "\<exists>err w'. updateStateAfterTx W tx out w = Some (err, w')"
proof -
  have upd: "\<exists>w'. UpdateAccounts W (vo_OutputAccounts out) (vo_DeletedAccounts out) w1 = Some w'" if "balances_known (mw_AcctMap w1)" for w1
    using update_accounts_get [of "vo_OutputAccounts out" "mw_AcctMap w1" W] assms(1) that by (auto simp: good_output_def UpdateAccounts_def)
  obtain s where s: "sum_of_deltas (vo_OutputAccounts out) = Some s" using sum_of_deltas_Some assms(1) by (auto simp: good_output_def)
  have "\<exists>e w1. UpdateBalanceWithDelta a d w = Some (e, w1) \<and> balances_known (mw_AcctMap w1)" for a d
  proof (cases "map_get (mw_AcctMap w) a")
    case (Some acct)
    then obtain b where "wa_Balance acct = Some b" using balances_known_get [OF assms(2)] by blast
    then show ?thesis using Some assms(2) by (simp add: UpdateBalanceWithDelta_def GetAccount_def balances_known_put)
  qed (use assms(2) in \<open>simp add: UpdateBalanceWithDelta_def GetAccount_def\<close>)
  then obtain e w1 where "UpdateBalanceWithDelta (jbs_Value (tx_From tx)) (- jbi_Value (tx_Value tx)) w = Some (e, w1)"
    "balances_known (mw_AcctMap w1)" by blast
  then show ?thesis using upd [of w1] upd [OF assms(2)] s by (auto simp: updateStateAfterTx_def)
qed

lemma tx_before_Some:
  assumes "HasSender (tx_Type tx)" and "tx_ESDTValue tx = None" and "balances_known (mw_AcctMap (ex_World ex))"
  shows "\<exists>r ex'. tx_before X tx ex = Some (r, ex')"
proof (cases "map_get (mw_AcctMap (ex_World ex)) (jbs_Value (tx_From tx))")
  case (Some acct)
  then obtain b where "wa_Balance acct = Some b" using balances_known_get [OF assms(3)] by blast
  then show ?thesis using Some assms by (simp add: tx_before_def UpdateWorldStateBefore_def GetAccount_def Let_def)
qed (use assms in \<open>simp add: tx_before_def UpdateWorldStateBefore_def GetAccount_def\<close>)

text \<open>What a transaction that has charged its sender may leave behind.\<close>

definition settled_world :: "Transaction \<Rightarrow> AccountMap \<Rightarrow> (go_error + VMOutput) \<times> bool \<Rightarrow> MockWorld \<Rightarrow> bool" where
  "settled_world tx am res w \<longleftrightarrow>
     (case res of
        (Inr out, failed) \<Rightarrow> failed = (vo_ReturnCode out \<noteq> Ok)
          \<and> (failed \<longrightarrow> mw_AcctMap w = charge tx am \<and> (\<exists>n. mw_Snapshots w = take n [am]))
          \<and> (\<not> failed \<longrightarrow> total_balance (mw_AcctMap w) = total_balance am - tx_gas tx)
      | (Inl err, failed) \<Rightarrow> True)"

lemma tx_after_settles:
  assumes "HasSender (tx_Type tx)" and "map_get am (jbs_Value (tx_From tx)) = Some acct" and "wa_Balance acct = Some b"
    and "wf_map am" and "balances_known am"
    and "mw_AcctMap (ex_World ex) = charge tx am" and "\<exists>n. mw_Snapshots (ex_World ex) = take n [am]"
    and "\<And>out. r = Inr out \<Longrightarrow> vo_ReturnCode out = Ok \<Longrightarrow> good_output out"
  shows "\<exists>res ex'. tx_after X tx r ex = Some (res, ex') \<and> settled_world tx am res (ex_World ex')"
proof (cases r)
  case (Inr out)
  note total = charge_total [OF assms(4,2,3)]
  show ?thesis
  proof (cases "vo_ReturnCode out = Ok")
    case True
    have known: "balances_known (mw_AcctMap (ex_World ex))" "wf_map (mw_AcctMap (ex_World ex))" using assms(4-6) total by simp_all
    have good: "good_output out" using assms(8) [OF Inr True] .
    obtain err w where w: "updateStateAfterTx (xe_world X) tx out (ex_World ex) = Some (err, w)"
      using updateStateAfterTx_Some [OF good known(1)] by blast
    have "total_balance (mw_AcctMap w) = total_balance am - tx_gas tx" if "err = None"
      using updateStateAfterTx_total [OF w [unfolded that] assms(1) _ known(2,1)] good assms(2,6) total(1)
      by (simp add: good_output_def charge_def)
    then show ?thesis using Inr True w by (cases err) (auto simp: tx_after_def settled_world_def)
  next
    case False
    then show ?thesis using Inr assms(6,7) by (auto simp: tx_after_def settled_world_def)
  qed
qed (auto simp: tx_after_def settled_world_def)

lemma tx_body_settles:
  assumes vm: "lawful_vm X" and sender: "HasSender (tx_Type tx)" "tx_ESDTValue tx = None"
    and wf: "wf_map am" "balances_known am" and start: "mw_AcctMap (ex_World ex) = am" "mw_Snapshots (ex_World ex) = [am]"
  shows "\<exists>res ex'. tx_body X txIndex tx ex = Some (res, ex') \<and> settled_world tx am res (ex_World ex')"
proof -
  obtain before ex1 where before: "tx_before X tx ex = Some (before, ex1)" using tx_before_Some [OF sender, of ex X] wf start by auto
  show ?thesis
  proof (cases before)
    case (Inr gas)
    note charge = tx_before_charges [OF before [unfolded Inr] sender]
    obtain acct b where acct: "map_get am (jbs_Value (tx_From tx)) = Some acct" "wa_Balance acct = Some b" using charge(2) start by auto
    have am1: "mw_AcctMap (ex_World ex1) = charge tx am" "mw_Snapshots (ex_World ex1) = [am]" using charge(1) start by simp_all
    obtain enough where enough: "senderHasEnoughBalance tx (ex_World ex1) = Some enough"
      using am1 acct sender by (auto simp: senderHasEnoughBalance_def GetAccount_def charge_def charged_def)
    define run where "run = (if \<not> enough then (Inr outOfFundsResult, ex1) else tx_run X txIndex tx gas ex1)"
    obtain r ex2 where run: "run = (r, ex2)" by fastforce
    have am2: "mw_AcctMap (ex_World ex2) = charge tx am" "\<exists>n. mw_Snapshots (ex_World ex2) = take n [am]"
      "\<And>out. r = Inr out \<Longrightarrow> vo_ReturnCode out = Ok \<Longrightarrow> good_output out"
      using run am1 tx_run_accounts [OF vm sender(1), of txIndex gas ex1 r ex2]
      by (auto simp: run_def outOfFundsResult_def plain_output_def split: if_splits intro: exI [of _ 1])
    have "tx_body X txIndex tx ex = tx_after X tx r ex2" using before Inr enough run by (simp add: tx_body_def run_def)
    then show ?thesis using tx_after_settles [OF sender(1) acct wf am2] by simp
  qed (use before in \<open>auto simp: tx_body_def settled_world_def\<close>)
qed


text \<open>An output whose balance deltas do not add up is an error of the step, but what it changed in the world is kept.\<close>

lemma unbalanced_output_is_kept:
  assumes "vo_ReturnCode out = Ok" and "updateStateAfterTx (xe_world X) tx out (ex_World ex) = Some (Some e, w)"
  shows "tx_after X tx (Inr out) ex = Some ((Inl e, False), ex\<lparr>ex_World := w\<rparr>)"
  using assms by (simp add: tx_after_def)

section \<open>Included files\<close>

text \<open>A bound on the depth of included files that lets a scenario return does not change its result.\<close>

definition runner_le :: "'v scenario_runner \<Rightarrow> 'v scenario_runner \<Rightarrow> bool" where
  "runner_le f g \<longleftrightarrow> (\<forall>path fr ex res. f path fr ex = Some res \<longrightarrow> g path fr ex = Some res)"

lemma bind_eq_SomeE: "Option.bind m f = Some y \<Longrightarrow> (\<And>x. m = Some x \<Longrightarrow> f x = Some y \<Longrightarrow> P) \<Longrightarrow> P"
  by (auto simp: bind_eq_Some_conv)

lemma ExecuteStep_mono: "runner_le f g \<Longrightarrow> ExecuteStep X f step ex = Some res \<Longrightarrow> ExecuteStep X g step ex = Some res"
  by (cases step) (force simp: ExecuteStep_def ExecuteExternalStep_def runner_le_def Let_def elim!: bind_eq_SomeE)+

lemma execute_steps_mono: "runner_le f g \<Longrightarrow> execute_steps X f steps ex = Some res \<Longrightarrow> execute_steps X g steps ex = Some res"
proof (induction steps arbitrary: ex)
  case (Cons step steps)
  obtain err ex1 where one: "ExecuteStep X f step ex = Some (err, ex1)" using Cons.prems(2) by (auto simp: bind_eq_Some_conv)
  then show ?case using Cons ExecuteStep_mono [OF Cons.prems(1) one] by (simp split: if_splits)
qed simp

lemma ExecuteScenario_mono: "runner_le f g \<Longrightarrow> ExecuteScenario X f scenario fr ex = Some res \<Longrightarrow> ExecuteScenario X g scenario fr ex = Some res"
  by (auto simp: ExecuteScenario_def Let_def dest: execute_steps_mono split: prod.splits if_splits)

lemma run_scenario_file_mono: "runner_le f g \<Longrightarrow> runner_le (run_scenario_file X f) (run_scenario_file X g)"
  unfolding runner_le_def [of "run_scenario_file X f"]
  by (auto simp: run_scenario_file_def Let_def dest: ExecuteScenario_mono split: sum.splits option.splits)

lemma RunSingleJSONScenario_Suc: "runner_le (RunSingleJSONScenario levels X) (RunSingleJSONScenario (Suc levels) X)"
  by (induction levels) (simp_all add: run_scenario_file_mono, simp add: runner_le_def)

theorem RunSingleJSONScenario_depth:
  "RunSingleJSONScenario levels X path fr ex = Some res \<Longrightarrow> levels \<le> levels' \<Longrightarrow> RunSingleJSONScenario levels' X path fr ex = Some res"
proof (induction levels')
  case (Suc levels')
  then show ?case using RunSingleJSONScenario_Suc [of levels' X] unfolding runner_le_def by (metis le_Suc_eq)
qed simp

section \<open>Checking the state\<close>

text \<open>The specification of an account check, over all keys, token names and nonces instead of the entries of maps.\<close>

definition wanted_value :: "CheckAccount \<Rightarrow> bytes \<Rightarrow> bytes \<Rightarrow> bool" where
  "wanted_value c k v =
     (case map_get (expected_storage c) k of
        Some want \<Rightarrow> check_bytes want v
      | None \<Rightarrow> ca_MoreStorageAllowed c \<or> v = [])"

definition storage_as_expected :: "worldEnv \<Rightarrow> CheckAccount \<Rightarrow> WorldAccount \<Rightarrow> bool" where
  "storage_as_expected W c a \<longleftrightarrow>
     (\<forall>k. \<not> has_prefix k (bytes_of_string (we_ProtectedKeyPrefix W)) \<longrightarrow> wanted_value c k (StorageValue a k))"

lemma wanted_value_default:
  "check_bytes (case map_get (expected_storage c) k of Some want \<Rightarrow> want
      | None \<Rightarrow> if ca_MoreStorageAllowed c then JSONCheckBytesStar else JSONCheckBytesUnspecified) v = wanted_value c k v"
  by (auto simp: wanted_value_def check_bytes_def JSONCheckBytesStar_def JSONCheckBytesUnspecified_def split: option.split)

lemma set_union_keys: "set (union_keys m n) = fst ` set m \<union> fst ` set n"
  by (auto simp: union_keys_def)

lemma checkAccountStorage_exact:
  "checkAccountStorage W c a = None \<longleftrightarrow> ca_IgnoreStorage c \<or> storage_as_expected W c a"
proof -
  have "wanted_value c k (StorageValue a k)" if "k \<notin> set (union_keys (expected_storage c) (wa_Storage a))" for k
  proof -
    have "map_get (expected_storage c) k = None" "map_get (wa_Storage a) k = None"
      using that by (simp_all add: set_union_keys map_get_None)
    then show ?thesis by (simp add: wanted_value_def StorageValue_def)
  qed
  then have "wrong_storage W c a = [] \<longleftrightarrow> storage_as_expected W c a"
    unfolding wrong_storage_def Let_def wanted_value_default storage_as_expected_def filter_empty_conv by blast
  then show ?thesis by (simp add: checkAccountStorage_def)
qed

lemma concat_errors_none: "concat_errors es = Some [] \<longleftrightarrow> (\<forall>e \<in> set es. e = Some [])"
  by (induction es) (auto simp: bind_eq_Some_conv)

lemma token_errors_none: "token_errors checks = [] \<longleftrightarrow> (\<forall>(good, _) \<in> set checks. good)"
  by (auto simp: token_errors_def filter_empty_conv)

definition expected_instance :: "CheckESDTData \<Rightarrow> u64 \<Rightarrow> CheckESDTInstance" where
  "expected_instance e nonce =
     (case map_get (fold (\<lambda>i. map_put (jcu_Value (cei_Nonce i)) i) (ced_Instances e) []) nonce of
        None \<Rightarrow> missing_instance nonce | Some i \<Rightarrow> i)"

definition held_instance :: "bytes \<Rightarrow> (u64, ESDigitalToken) gomap \<Rightarrow> u64 \<Rightarrow> ESDigitalToken" where
  "held_instance name held nonce =
     (case map_get held nonce of
        None \<Rightarrow> \<lparr>tok_Type = 0, tok_Value = 0, tok_Properties = [], tok_TokenMetaData = Some (plain_metadata name nonce)\<rparr>
      | Some i \<Rightarrow> i)"

definition token_as_expected :: "bytes \<Rightarrow> CheckESDTData \<Rightarrow> MockESDTData \<Rightarrow> bool" where
  "token_as_expected name e t \<longleftrightarrow>
     check_uint64 (ced_LastNonce e) (me_LastNonce t) \<and> bytes_of_string ` set (ced_Roles e) = set (me_Roles t)
     \<and> (\<exists>held. account_instances (me_Instances t) [] = Some held
          \<and> (\<forall>nonce. check_instance (expected_instance e nonce) (held_instance name held nonce) = Some []))"

lemma missing_is_none:
  "check_instance (missing_instance nonce)
     \<lparr>tok_Type = 0, tok_Value = 0, tok_Properties = [], tok_TokenMetaData = Some (plain_metadata name nonce)\<rparr> = Some []"
  by (simp add: check_instance_def missing_instance_def check_bigint_def token_errors_def no_token_bytes_def check_bytes_def
      check_uint64_def zero_uint64_def plain_metadata_def)

lemma checkTokenState_exact: "checkTokenState name e t = Some [] \<longleftrightarrow> token_as_expected name e t"
proof -
  define wanted where "wanted = fold (\<lambda>i. map_put (jcu_Value (cei_Nonce i)) i) (ced_Instances e) []"
  have "check_instance (expected_instance e nonce) (held_instance name held nonce) = Some []"
    if "nonce \<notin> set (union_keys wanted held)" for nonce held
  proof -
    have "map_get wanted nonce = None" "map_get held nonce = None" using that by (simp_all add: set_union_keys map_get_None)
    then show ?thesis by (simp add: expected_instance_def held_instance_def missing_is_none flip: wanted_def)
  qed
  then have "checkTokenInstances name e t = Some [] \<longleftrightarrow> (\<exists>held. account_instances (me_Instances t) [] = Some held
          \<and> (\<forall>nonce. check_instance (expected_instance e nonce) (held_instance name held nonce) = Some []))"
    unfolding checkTokenInstances_def wanted_def [symmetric]
    by (auto simp: bind_eq_Some_conv concat_errors_none expected_instance_def held_instance_def simp flip: wanted_def)
  moreover have "checkTokenRoles e t = [] \<longleftrightarrow> bytes_of_string ` set (ced_Roles e) = set (me_Roles t)"
    by (auto simp: checkTokenRoles_def token_errors_def Let_def)
  ultimately show ?thesis
    by (auto simp: checkTokenState_def token_as_expected_def bind_eq_Some_conv token_errors_def)
qed

definition expected_token :: "'v execEnv \<Rightarrow> CheckAccount \<Rightarrow> bytes \<Rightarrow> CheckESDTData" where
  "expected_token X c name =
     (case map_get (getExpectedTokens c) name of
        None \<Rightarrow> \<lparr>ced_TokenIdentifier = \<lparr>jbs_Value = name, jbs_Original = Reconstruct (xe_Quote X) name StrHint\<rparr>,
          ced_Instances = [], ced_LastNonce = zero_uint64 0, ced_Roles = [], ced_Frozen = zero_uint64 0\<rparr>
      | Some e \<Rightarrow> e)"

definition held_token :: "(bytes, MockESDTData) gomap \<Rightarrow> bytes \<Rightarrow> MockESDTData" where
  "held_token held name =
     (case map_get held name of
        None \<Rightarrow> \<lparr>me_TokenIdentifier = name, me_Instances = [], me_LastNonce = 0, me_Roles = []\<rparr>
      | Some t \<Rightarrow> t)"

definition tokens_as_expected :: "'v execEnv \<Rightarrow> CheckAccount \<Rightarrow> WorldAccount \<Rightarrow> bool" where
  "tokens_as_expected X c a \<longleftrightarrow>
     (\<exists>held. GetFullMockESDTData (xe_world X) a = Some (Inr held)
        \<and> (\<forall>name. token_as_expected name (expected_token X c name) (held_token held name)))"

lemma checkAccountESDT_exact: "checkAccountESDT X c a = Some None \<longleftrightarrow> ca_IgnoreESDT c \<or> tokens_as_expected X c a"
proof -
  have "token_as_expected name (expected_token X c name) (held_token held name)"
    if "name \<notin> set (union_keys (getExpectedTokens c) held)" for name held
  proof -
    have "map_get (getExpectedTokens c) name = None" "map_get held name = None" using that by (simp_all add: set_union_keys map_get_None)
    then show ?thesis
      by (simp add: expected_token_def held_token_def token_as_expected_def check_uint64_def zero_uint64_def expected_instance_def
          held_instance_def missing_is_none)
  qed
  then have "concat_errors (map (\<lambda>name. checkTokenState name (expected_token X c name) (held_token held name))
      (union_keys (getExpectedTokens c) held)) = Some []
      \<longleftrightarrow> (\<forall>name. token_as_expected name (expected_token X c name) (held_token held name))" for held
    by (auto simp: concat_errors_none checkTokenState_exact)
  note names = this
  have eq: "checkAccountESDT X c a = (if ca_IgnoreESDT c then Some None else
      Option.bind (GetFullMockESDTData (xe_world X) a) (\<lambda>r. case r of Inl err \<Rightarrow> Some (Some err)
        | Inr held \<Rightarrow> Option.bind (concat_errors (map (\<lambda>name. checkTokenState name (expected_token X c name) (held_token held name))
            (union_keys (getExpectedTokens c) held))) (\<lambda>errors. Some (if errors = [] then None else Some (OtherError ''mismatch for account'')))))"
    unfolding checkAccountESDT_def Let_def expected_token_def held_token_def ..
  show ?thesis
    by (cases "GetFullMockESDTData (xe_world X) a")
      (auto simp: eq tokens_as_expected_def bind_eq_Some_conv names split: sum.splits if_splits)
qed

definition account_as_expected :: "'v execEnv \<Rightarrow> CheckAccount \<Rightarrow> WorldAccount \<Rightarrow> bool" where
  "account_as_expected X c a \<longleftrightarrow>
     wa_Address a = jbs_Value (ca_Address c) \<and> check_uint64 (ca_Nonce c) (wa_Nonce a)
     \<and> (jci_IsStar (ca_Balance c) \<or> wa_Balance a = Some (jci_Value (ca_Balance c)))
     \<and> check_bytes (ca_Username c) (wa_Username a) \<and> check_bytes (ca_Code c) (wa_Code a)
     \<and> (jcb_Unspecified (ca_AsyncCallData c) \<or> check_bytes (ca_AsyncCallData c) (wa_AsyncCallData a))
     \<and> (ca_IgnoreStorage c \<or> storage_as_expected (xe_world X) c a)
     \<and> (ca_IgnoreESDT c \<or> tokens_as_expected X c a)"

lemma checkAccount_exact: "checkAccount X c a = Some None \<longleftrightarrow> account_as_expected X c a"
proof -
  have "check_bigint (ca_Balance c) (wa_Balance a) = Some True \<longleftrightarrow>
      jci_IsStar (ca_Balance c) \<or> wa_Balance a = Some (jci_Value (ca_Balance c))"
    by (auto simp: check_bigint_def)
  then show ?thesis
    unfolding account_as_expected_def checkAccountStorage_exact [symmetric] checkAccountESDT_exact [symmetric]
    by (auto simp: checkAccount_def bind_eq_Some_conv split: option.splits if_splits)
qed

lemma FindCheckAccount_None: "FindCheckAccount cs a = None \<longleftrightarrow> (\<forall>c \<in> set cs. jbs_Value (ca_Address c) \<noteq> a)"
  by (induction cs) auto

lemma check_expected_exact:
  "check_expected X cs w = Some None \<longleftrightarrow>
     (\<forall>c \<in> set cs. \<exists>a. map_get (mw_AcctMap w) (jbs_Value (ca_Address c)) = Some a \<and> account_as_expected X c a)"
  by (induction cs) (auto simp: bind_eq_Some_conv checkAccount_exact split: option.splits if_splits)


section \<open>A small scenario\<close>

text \<open>A VM whose contracts only accept the value of the call, and a world in which \<open>[1]\<close> calls the contract \<open>[2]\<close>.\<close>

definition accepting_vm :: "unit execEnv" where
  "accepting_vm = \<lparr>xe_world = sample_world_node,
     xe_RunSmartContractCreate = (\<lambda>_ s. (Inr (plain_output ExecutionFailed []), s)),
     xe_RunSmartContractCall = (\<lambda>input s. (Inr (plain_output Ok [(ci_RecipientAddr input, paid_account (ci_RecipientAddr input)
       (case vi_CallValue (ci_VMInput input) of None \<Rightarrow> 0 | Some v \<Rightarrow> v) [])]), s)),
     xe_GasScheduleChange = (\<lambda>_ v. v), xe_LoadGasSchedule = (\<lambda>_. Inl (OtherError ''no schedule'')),
     xe_ReturnCodeInt = (\<lambda>r. if r = Ok then 0 else 4), xe_GetFirstDataItem = (\<lambda>l. case le_Data l of [] \<Rightarrow> [] | d # _ \<Rightarrow> d),
     xe_Quote = (\<lambda>s. s), xe_ReadFile = (\<lambda>_. Inl (OtherError ''no file'')), xe_Abs = Inr,
     xe_Parser = sample_parser\<rparr>"

definition sample_executor :: "unit VMTestExecutor" where
  "sample_executor = \<lparr>ex_World = NewMockWorld\<lparr>mw_AcctMap :=
       [([1], (newAccount [1])\<lparr>wa_Balance := Some 1000\<rparr>), ([2], (newAccount [2])\<lparr>wa_Code := [0]\<rparr>)]\<rparr>,
     ex_vm = (), ex_checkGas = True, ex_scenGasScheduleLoaded = True, ex_fileResolver = NewDefaultFileResolver\<rparr>"

definition sample_tx :: "int \<Rightarrow> Transaction" where
  "sample_tx v = \<lparr>tx_Type = ScCall, tx_Nonce = JSONUint64Zero, tx_Value = \<lparr>jbi_Value = v, jbi_Original = []\<rparr>, tx_ESDTValue = None,
     tx_From = NewJSONBytesFromString [1] [], tx_To = NewJSONBytesFromString [2] [], tx_Function = ''pay'',
     tx_Code = NewJSONBytesFromString [] [], tx_Arguments = [], tx_GasPrice = \<lparr>ju_Value = 2, ju_Original = []\<rparr>,
     tx_GasLimit = \<lparr>ju_Value = 50, ju_Original = []\<rparr>\<rparr>"

lemma accepting_vm_lawful: "lawful_vm accepting_vm"
  by (simp add: lawful_vm_def vm_run_ok_def accepting_vm_def plain_output_def good_output_def wf_accounts_def wf_account_def wf_map_def
      paid_account_def take_whole split_paired_all)


definition sample_check :: "address \<Rightarrow> int \<Rightarrow> bytes \<Rightarrow> CheckAccount" where
  "sample_check addr balance code = \<lparr>ca_Address = NewJSONBytesFromString addr [], ca_Comment = [], ca_Nonce = zero_uint64 0,
     ca_Balance = \<lparr>jci_Value = balance, jci_IsStar = False, jci_Original = [], jci_Unspecified = False\<rparr>,
     ca_Username = JSONCheckBytesStar, ca_CheckStorage = [], ca_IgnoreStorage = False, ca_MoreStorageAllowed = False,
     ca_Code = JSONCheckBytesReconstructed code [], ca_Owner = JSONCheckBytesStar, ca_AsyncCallData = JSONCheckBytesUnspecified,
     ca_CheckESDTData = [], ca_IgnoreESDT = False, ca_MoreESDTTokensAllowed = False\<rparr>"

lemma sample_check_passes:
  assumes "wa_Address a = addr" and "wa_Nonce a = 0" and "wa_Balance a = Some b" and "wa_Code a = code" and "wa_Storage a = []"
  shows "account_as_expected X (sample_check addr b code) a"
proof -
  have "storage_as_expected (xe_world X) (sample_check addr b code) a" "tokens_as_expected X (sample_check addr b code) a"
    using assms(5) missing_is_none
    by (auto simp: storage_as_expected_def wanted_value_def expected_storage_def sample_check_def StorageValue_def tokens_as_expected_def
        GetFullMockESDTData_def token_as_expected_def expected_token_def held_token_def getExpectedTokens_def check_uint64_def zero_uint64_def
        expected_instance_def held_instance_def)
  then show ?thesis
    using assms(1-4)
    by (simp add: account_as_expected_def sample_check_def NewJSONBytesFromString_def check_uint64_def zero_uint64_def check_bytes_def
        JSONCheckBytesStar_def JSONCheckBytesReconstructed_def JSONCheckBytesUnspecified_def)
qed


end
