(* ===== verification/WasmerBindings.thy ===== *)
theory WasmerBindings
  imports Validator ScenarioValues
begin

text \<open>
  The Go side of the WebAssembly engine (\<open>wasmer\<close>): values, memory, the errors of the package,
  the imported functions that are registered with the engine, the exported functions of an
  instance with the check and conversion of their arguments, and the instance itself.

  The engine is C code behind cgo. It is a record of functions, one per declaration of
  \<open>wasmer/bridge.go\<close> that the package uses, over a state \<open>'s\<close> that stands for everything the engine and the
  code it runs can see. A function that only reads the engine has no new state in its result.
  Pointers into the engine are numbers. The engine fills arrays that the Go code gives it: such an
  array is a function from the index, cut to the length that the Go code allocated.

  An exported function is a closure in the code; here it is a record of the variables that the
  closure captures, and \<open>call_exported\<close> is its body.
\<close>

unbundle bit_operations_syntax

section \<open>The engine\<close>

datatype WasmerValueTag = WASM_I32 | WASM_I64 | WASM_F32 | WASM_F64

datatype WasmerExportKind = WASM_FUNCTION | WASM_GLOBAL | WASM_MEMORY | WASM_TABLE

text \<open>A value of the engine: its tag and the 64 bits of the union.\<close>

record cWasmerValueT =
  cv_tag :: WasmerValueTag
  cv_value :: u64

record cWasmerImportT =
  ci_module_name :: string
  ci_import_name :: string
  ci_function :: nat

record CompilationOptions =
  co_GasLimit :: u64
  co_UnmeteredLocals :: u64
  co_MaxMemoryGrow :: u64
  co_MaxMemoryGrowDelta :: u64
  co_OpcodeTrace :: bool
  co_Metering :: bool
  co_RuntimeBreakpoints :: bool

record 's engine =
  cWasmerLastErrorLength :: "'s \<Rightarrow> i32"
  cWasmerLastErrorMessage :: "i32 \<Rightarrow> 's \<Rightarrow> (i32 \<times> bytes) \<times> 's"
  cWasmerImportFuncNew :: "nat \<Rightarrow> WasmerValueTag list \<Rightarrow> WasmerValueTag list \<Rightarrow> 's \<Rightarrow> nat \<times> 's"
  cWasmerImportFuncDestroy :: "nat \<Rightarrow> 's \<Rightarrow> 's"
  cWasmerCacheImportObjectFromImports :: "cWasmerImportT list \<Rightarrow> i32 \<Rightarrow> 's \<Rightarrow> bool \<times> 's"
  cWasmerSetOpcodeCosts :: "u32 list \<Rightarrow> 's \<Rightarrow> 's"
  cWasmerSetSIGSEGVPassthrough :: "'s \<Rightarrow> 's"
  cWasmerInstantiateWithOptions :: "bytes \<Rightarrow> u32 \<Rightarrow> CompilationOptions \<Rightarrow> 's \<Rightarrow> (bool \<times> nat) \<times> 's"
  cWasmerInstanceFromCache :: "bytes \<Rightarrow> u32 \<Rightarrow> CompilationOptions \<Rightarrow> 's \<Rightarrow> (bool \<times> nat) \<times> 's"
  cWasmerInstanceExports :: "nat \<Rightarrow> 's \<Rightarrow> nat \<times> 's"
  cWasmerExportsDestroy :: "nat \<Rightarrow> 's \<Rightarrow> 's"
  cWasmerExportsLen :: "nat \<Rightarrow> 's \<Rightarrow> i32"
  cWasmerExportsGet :: "nat \<Rightarrow> i32 \<Rightarrow> 's \<Rightarrow> nat"
  cWasmerExportKind :: "nat \<Rightarrow> 's \<Rightarrow> WasmerExportKind"
  cWasmerExportName :: "nat \<Rightarrow> 's \<Rightarrow> bytes"
  cWasmerExportToFunc :: "nat \<Rightarrow> 's \<Rightarrow> nat"
  cWasmerExportToMemory :: "nat \<Rightarrow> 's \<Rightarrow> (bool \<times> nat) \<times> 's"
  cWasmerExportFuncParamsArity :: "nat \<Rightarrow> 's \<Rightarrow> bool \<times> u32"
  cWasmerExportFuncParams :: "nat \<Rightarrow> u32 \<Rightarrow> 's \<Rightarrow> bool \<times> (nat \<Rightarrow> WasmerValueTag)"
  cWasmerExportFuncResultsArity :: "nat \<Rightarrow> 's \<Rightarrow> bool \<times> u32"
  cWasmerInstanceCall ::
    "nat \<Rightarrow> string \<Rightarrow> cWasmerValueT list \<Rightarrow> u32 \<Rightarrow> u32 \<Rightarrow> 's \<Rightarrow> (bool \<times> (nat \<Rightarrow> cWasmerValueT)) \<times> 's"
  cWasmerInstanceDestroy :: "nat \<Rightarrow> 's \<Rightarrow> 's"
  cWasmerInstanceContextGet :: "nat \<Rightarrow> 's \<Rightarrow> nat"
  cWasmerInstanceContextMemory :: "nat \<Rightarrow> 's \<Rightarrow> nat option"
  cWasmerInstanceContextDataSet :: "nat option \<Rightarrow> u64 \<Rightarrow> 's \<Rightarrow> 's"
  cWasmerInstanceContextDataGet :: "nat option \<Rightarrow> 's \<Rightarrow> u64"
  cWasmerInstanceGetPointsUsed :: "nat option \<Rightarrow> 's \<Rightarrow> u64"
  cWasmerInstanceSetPointsUsed :: "nat option \<Rightarrow> u64 \<Rightarrow> 's \<Rightarrow> 's"
  cWasmerInstanceSetGasLimit :: "nat option \<Rightarrow> u64 \<Rightarrow> 's \<Rightarrow> 's"
  cWasmerInstanceSetBreakpointValue :: "nat option \<Rightarrow> u64 \<Rightarrow> 's \<Rightarrow> 's"
  cWasmerInstanceGetBreakpointValue :: "nat option \<Rightarrow> 's \<Rightarrow> u64"
  cWasmerInstanceCache :: "nat option \<Rightarrow> 's \<Rightarrow> bytes option \<times> 's"
  cWasmerInstanceIsFunctionImported :: "nat option \<Rightarrow> string \<Rightarrow> 's \<Rightarrow> bool"
  cWasmerMemoryDataLength :: "nat \<Rightarrow> 's \<Rightarrow> u32"
  cWasmerMemoryData :: "nat \<Rightarrow> 's \<Rightarrow> nat \<Rightarrow> byte"
  cWasmerMemoryGrow :: "nat \<Rightarrow> u32 \<Rightarrow> 's \<Rightarrow> bool \<times> 's"
  cWasmerMemoryDestroy :: "nat \<Rightarrow> 's \<Rightarrow> 's"

section \<open>Errors\<close>

text \<open>\<open>fmt.Sprintf\<close> with one string as argument, for formats with the verbs \<open>%s\<close> and \<open>%%\<close>.\<close>

fun sprintf_string :: "string \<Rightarrow> string option \<Rightarrow> string" where
  "sprintf_string [] None = []"
| "sprintf_string [] (Some a) = ''%!(EXTRA string='' @ a @ '')''"
| "sprintf_string [c] a = c # sprintf_string [] a"
| "sprintf_string (c # d # format) a =
     (if c = CHR ''%'' \<and> d = CHR ''s''
      then (case a of None \<Rightarrow> ''%!s(MISSING)'' | Some s \<Rightarrow> s) @ sprintf_string format None
      else if c = CHR ''%'' \<and> d = CHR ''%'' then CHR ''%'' # sprintf_string format a
      else c # sprintf_string (d # format) a)"

datatype wasmer_error =
    ErrFailedInstantiation
  | ErrFailedCacheImports
  | ErrInvalidBytecode
  | ErrCachingFailed
  | PlainError string
  | MemoryError string
  | ImportedFunctionError string string
  | InstanceError string
  | ExportedFunctionError string string
  | WrappedError wasmer_error string

primrec wasmer_error_text :: "wasmer_error \<Rightarrow> string" where
  "wasmer_error_text ErrFailedInstantiation = ''could not create wasmer instance''"
| "wasmer_error_text ErrFailedCacheImports = ''could not cache imports''"
| "wasmer_error_text ErrInvalidBytecode = ''invalid bytecode''"
| "wasmer_error_text ErrCachingFailed = ''instance caching failed''"
| "wasmer_error_text (PlainError message) = message"
| "wasmer_error_text (MemoryError message) = message"
| "wasmer_error_text (ImportedFunctionError functionName message) = sprintf_string message (Some functionName)"
| "wasmer_error_text (InstanceError message) = message"
| "wasmer_error_text (ExportedFunctionError functionName message) = message"
| "wasmer_error_text (WrappedError target lastError) = wasmer_error_text target @ '': '' @ lastError"

text \<open>
  \<open>GetLastError\<close> of the package. A negative length makes the allocation of the buffer panic; the
  message ends at the first zero byte.
\<close>

definition WasmerLastError ::
    "'s engine \<Rightarrow> 's \<Rightarrow> ((string \<times> wasmer_error option) \<times> 's) option" where
  "WasmerLastError G s =
     (let errorLength = cWasmerLastErrorLength G s
      in if errorLength = 0 then Some (([], None), s)
         else if errorLength <s 0 then None
         else (case cWasmerLastErrorMessage G errorLength s of
                 ((errorResult, errorMessage), s) \<Rightarrow>
                   if errorResult = - 1 then Some (([], Some (PlainError ''Cannot read last error'')), s)
                   else Some ((string_of_bytes (takeWhile (\<lambda>b. b \<noteq> 0) errorMessage), None), s)))"

definition newWrappedError :: "'s engine \<Rightarrow> wasmer_error \<Rightarrow> 's \<Rightarrow> (wasmer_error \<times> 's) option" where
  "newWrappedError G target s = do {
     ((lastError, err), s) \<leftarrow> WasmerLastError G s;
     let lastError = (if err \<noteq> None then ''unknown details'' else lastError);
     Some (WrappedError target lastError, s)
   }"

section \<open>Values\<close>

type_synonym ValueType = int

definition TypeI32 :: ValueType where "TypeI32 = 0"

definition TypeI64 :: ValueType where "TypeI64 = 1"

definition TypeVoid :: ValueType where "TypeVoid = 2"

record WasmValue =
  val_value :: u64
  val_ty :: ValueType

definition I32 :: "i32 \<Rightarrow> WasmValue" where
  "I32 v = \<lparr>val_value = scast v, val_ty = TypeI32\<rparr>"

definition I64 :: "i64 \<Rightarrow> WasmValue" where
  "I64 v = \<lparr>val_value = v, val_ty = TypeI64\<rparr>"

definition Void :: WasmValue where
  "Void = \<lparr>val_value = 0, val_ty = TypeVoid\<rparr>"

definition ToI32 :: "WasmValue \<Rightarrow> i32" where
  "ToI32 v = ucast (val_value v)"

definition ToI64 :: "WasmValue \<Rightarrow> i64" where
  "ToI64 v = val_value v"

definition IsVoid :: "WasmValue \<Rightarrow> bool" where
  "IsVoid v \<longleftrightarrow> val_ty v = TypeVoid"

definition signed_text :: "int \<Rightarrow> string" where
  "signed_text n = (if n < 0 then ''-'' @ decimal (nat (- n)) else decimal (nat n))"

definition Value_String :: "WasmValue \<Rightarrow> string" where
  "Value_String v =
     (if val_ty v = TypeI32 then signed_text (sint (ToI32 v))
      else if val_ty v = TypeI64 then signed_text (sint (ToI64 v))
      else if val_ty v = TypeVoid then ''void''
      else [])"

section \<open>Memory\<close>

text \<open>A \<open>Memory\<close> is a pointer into the engine that may be nil.\<close>

type_synonym WasmMemory = "nat option"

definition Memory_Length :: "'s engine \<Rightarrow> WasmMemory \<Rightarrow> 's \<Rightarrow> u32" where
  "Memory_Length G memory s =
     (case memory of None \<Rightarrow> 0 | Some p \<Rightarrow> cWasmerMemoryDataLength G p s)"

text \<open>The slice shares the bytes with the engine; this is what it holds in the state \<open>s\<close>.\<close>

definition Memory_Data :: "'s engine \<Rightarrow> WasmMemory \<Rightarrow> 's \<Rightarrow> bytes" where
  "Memory_Data G memory s =
     (case memory of
        None \<Rightarrow> []
      | Some p \<Rightarrow>
          let len = Memory_Length G memory s;
              data = cWasmerMemoryData G p s
          in map data [0..<unat len])"

definition Memory_Grow ::
    "'s engine \<Rightarrow> WasmMemory \<Rightarrow> u32 \<Rightarrow> 's \<Rightarrow> (wasmer_error option \<times> 's) option" where
  "Memory_Grow G memory numberOfPages s =
     (case memory of
        None \<Rightarrow> Some (None, s)
      | Some p \<Rightarrow>
          (case cWasmerMemoryGrow G p numberOfPages s of
             (ok, s) \<Rightarrow>
               if \<not> ok then do {
                 ((lastError, err), s) \<leftarrow> WasmerLastError G s;
                 let errorMessage = ''Failed to grow the memory:'' @ [CHR 0x0A] @ ''    %s'';
                 let errorMessage =
                   (if err \<noteq> None then sprintf_string errorMessage (Some ''(unknown details)'')
                    else sprintf_string errorMessage (Some lastError));
                 Some (Some (MemoryError errorMessage), s)
               }
               else Some (None, s)))"

definition Memory_Destroy :: "'s engine \<Rightarrow> WasmMemory \<Rightarrow> 's \<Rightarrow> 's" where
  "Memory_Destroy G memory s = (case memory of None \<Rightarrow> s | Some p \<Rightarrow> cWasmerMemoryDestroy G p s)"

section \<open>Imported functions\<close>

text \<open>What \<open>reflect\<close> tells of the type of an implementation: nothing for an untyped nil.\<close>

datatype ReflectKind = Kind_UnsafePointer | Kind_Int32 | Kind_Int64 | Kind_other string

primrec kind_text :: "ReflectKind \<Rightarrow> string" where
  "kind_text Kind_UnsafePointer = ''unsafe.Pointer''"
| "kind_text Kind_Int32 = ''int32''"
| "kind_text Kind_Int64 = ''int64''"
| "kind_text (Kind_other s) = s"

datatype ReflectType =
    FuncType "ReflectKind list" "ReflectKind list"
  | OtherType ReflectKind
  | NilType

record WasmImport =
  im_implementation :: ReflectType
  im_cgoPointer :: nat
  im_importedFunctionPointer :: "nat option"
  im_wasmInputs :: "WasmerValueTag list"
  im_wasmOutputs :: "WasmerValueTag list"
  im_namespace :: string

record WasmImports =
  ims_imports :: "(string, (string, WasmImport) gomap) gomap"
  ims_currentNamespace :: string

definition NewImports :: WasmImports where
  "NewImports = \<lparr>ims_imports = [], ims_currentNamespace = ''env''\<rparr>"

definition Imports_Namespace :: "string \<Rightarrow> WasmImports \<Rightarrow> WasmImports" where
  "Imports_Namespace namespace imports = imports\<lparr>ims_currentNamespace := namespace\<rparr>"

definition Imports_Count :: "WasmImports \<Rightarrow> nat" where
  "Imports_Count imports = sum_list (map (\<lambda>(_, namespaced). length namespaced) (ims_imports imports))"

definition Imports_Names :: "WasmImports \<Rightarrow> string set" where
  "Imports_Names imports = (\<Union>(_, env) \<in> set (ims_imports imports). fst ` set env)"

text \<open>The kinds of the arguments after the first one; and the kind of the result.\<close>

definition only_accept :: string where
  "only_accept = ''; only accept `int32`, `int64`, `float32`, and `float64`.''"

fun import_inputs :: "string \<Rightarrow> ReflectKind list \<Rightarrow> wasmer_error + WasmerValueTag list" where
  "import_inputs importName [] = Inr []"
| "import_inputs importName (k # ks) =
     (case (case k of
              Kind_Int32 \<Rightarrow> Inr WASM_I32
            | Kind_Int64 \<Rightarrow> Inr WASM_I64
            | _ \<Rightarrow> Inl (ImportedFunctionError importName
                 (sprintf_string (''Invalid input type for the `%%s` imported function; given `%s`'' @ only_accept)
                   (Some (kind_text k))))) of
        Inl err \<Rightarrow> Inl err
      | Inr tag \<Rightarrow>
          (case import_inputs importName ks of
             Inl err \<Rightarrow> Inl err
           | Inr tags \<Rightarrow> Inr (tag # tags)))"

definition import_outputs :: "string \<Rightarrow> ReflectKind list \<Rightarrow> wasmer_error + WasmerValueTag list" where
  "import_outputs importName outs =
     (if length outs > 1
      then Inl (ImportedFunctionError importName ''The `%s` imported function must have at most one output value.'')
      else case outs of
        [] \<Rightarrow> Inr []
      | k # _ \<Rightarrow>
          (case k of
             Kind_Int32 \<Rightarrow> Inr [WASM_I32]
           | Kind_Int64 \<Rightarrow> Inr [WASM_I64]
           | _ \<Rightarrow> Inl (ImportedFunctionError importName
                (sprintf_string (''Invalid output type for the `%%s` imported function; given `%s`'' @ only_accept)
                  (Some (kind_text k))))))"

definition Imports_Append ::
    "string \<Rightarrow> ReflectType \<Rightarrow> nat \<Rightarrow> WasmImports \<Rightarrow> (wasmer_error + WasmImports) option" where
  "Imports_Append importName implementation cgoPointer imports =
     (case implementation of
        NilType \<Rightarrow> None
      | OtherType k \<Rightarrow> Some (Inl (ImportedFunctionError importName
          (sprintf_string ''Imported function `%%s` must be a function; given `%s`.'' (Some (kind_text k)))))
      | FuncType ins outs \<Rightarrow> Some
          (case ins of
             [] \<Rightarrow> Inl (ImportedFunctionError importName
               ''Imported function `%s` must at least have one argument for the instance context.'')
           | k # ks \<Rightarrow>
               if k \<noteq> Kind_UnsafePointer
               then Inl (ImportedFunctionError importName (sprintf_string
                 ''The instance context of the `%%s` imported function must be of kind `unsafe.Pointer`; given `%s`; is it missing?''
                 (Some (kind_text k))))
               else (case import_inputs importName ks of
                 Inl err \<Rightarrow> Inl err
               | Inr wasmInputs \<Rightarrow>
                   (case import_outputs importName outs of
                      Inl err \<Rightarrow> Inl err
                    | Inr wasmOutputs \<Rightarrow>
                        let namespace = ims_currentNamespace imports;
                            imp = \<lparr>im_implementation = implementation, im_cgoPointer = cgoPointer,
                              im_importedFunctionPointer = None, im_wasmInputs = wasmInputs,
                              im_wasmOutputs = wasmOutputs, im_namespace = namespace\<rparr>;
                            m = ims_imports imports
                        in Inr (imports\<lparr>ims_imports :=
                             map_put namespace (map_put importName imp (map_get_or [] m namespace)) m\<rparr>)))))"

text \<open>
  \<open>Close\<close> destroys the functions whose pointer is set. The functions that make the imports for
  the engine keep the pointer in a copy of the import.
\<close>

fun close_namespaced :: "'s engine \<Rightarrow> (string, WasmImport) gomap \<Rightarrow> 's \<Rightarrow> 's" where
  "close_namespaced G [] s = s"
| "close_namespaced G ((_, importFunction) # rest) s =
     close_namespaced G rest
       (case im_importedFunctionPointer importFunction of
          None \<Rightarrow> s
        | Some p \<Rightarrow> cWasmerImportFuncDestroy G p s)"

fun close_imports :: "'s engine \<Rightarrow> (string, (string, WasmImport) gomap) gomap \<Rightarrow> 's \<Rightarrow> 's" where
  "close_imports G [] s = s"
| "close_imports G ((_, namespacedImports) # rest) s =
     close_imports G rest (close_namespaced G namespacedImports s)"

definition Imports_Close :: "'s engine \<Rightarrow> WasmImports \<Rightarrow> 's \<Rightarrow> 's" where
  "Imports_Close G imports s = close_imports G (ims_imports imports) s"

definition cNewWasmerImportT :: "string \<Rightarrow> string \<Rightarrow> nat \<Rightarrow> cWasmerImportT" where
  "cNewWasmerImportT moduleName importName p =
     \<lparr>ci_module_name = moduleName, ci_import_name = importName, ci_function = p\<rparr>"

fun generate_namespaced ::
    "'s engine \<Rightarrow> (string, WasmImport) gomap \<Rightarrow> 's \<Rightarrow> cWasmerImportT list \<times> 's" where
  "generate_namespaced G [] s = ([], s)"
| "generate_namespaced G ((importName, importFunction) # rest) s =
     (let (p, s) = cWasmerImportFuncNew G (im_cgoPointer importFunction) (im_wasmInputs importFunction)
            (im_wasmOutputs importFunction) s;
          importedFunction = cNewWasmerImportT (im_namespace importFunction) importName p;
          (wasmImports, s) = generate_namespaced G rest s
      in (importedFunction # wasmImports, s))"

fun generate_imports ::
    "'s engine \<Rightarrow> (string, (string, WasmImport) gomap) gomap \<Rightarrow> 's \<Rightarrow> cWasmerImportT list \<times> 's" where
  "generate_imports G [] s = ([], s)"
| "generate_imports G ((_, namespacedImports) # rest) s =
     (let (first, s) = generate_namespaced G namespacedImports s;
          (others, s) = generate_imports G rest s
      in (first @ others, s))"

definition generateWasmerImports ::
    "'s engine \<Rightarrow> WasmImports \<Rightarrow> 's \<Rightarrow> (cWasmerImportT list \<times> nat) \<times> 's" where
  "generateWasmerImports G imports s =
     (let numberOfImports = Imports_Count imports;
          (wasmImports, s) = generate_imports G (ims_imports imports) s
      in ((wasmImports, numberOfImports), s))"

definition SetImports :: "'s engine \<Rightarrow> WasmImports \<Rightarrow> 's \<Rightarrow> (wasmer_error option \<times> 's) option" where
  "SetImports G imports s =
     (let ((wasmImports, numberOfImports), s) = generateWasmerImports G imports s;
          (ok, s) = cWasmerCacheImportObjectFromImports G wasmImports (word_of_nat numberOfImports) s
      in if \<not> ok then do {
           (err, s) \<leftarrow> newWrappedError G ErrFailedCacheImports s;
           Some (Some err, s)
         }
         else Some (None, s))"

definition SetOpcodeCosts :: "'s engine \<Rightarrow> u32 list \<Rightarrow> 's \<Rightarrow> 's" where
  "SetOpcodeCosts G opcode_costs s = cWasmerSetOpcodeCosts G opcode_costs s"

definition SetSIGSEGVPassthrough :: "'s engine \<Rightarrow> 's \<Rightarrow> 's" where
  "SetSIGSEGVPassthrough G s = cWasmerSetSIGSEGVPassthrough G s"

section \<open>The context of an instance\<close>

text \<open>The interface \<open>MemoryHandler\<close> holds a memory or is nil.\<close>

record InstanceContext =
  ic_context :: "nat option"
  ic_memory :: "WasmMemory option"

definition NewInstanceContext :: "nat option \<Rightarrow> WasmMemory \<Rightarrow> InstanceContext" where
  "NewInstanceContext ctx mem = \<lparr>ic_context = ctx, ic_memory = Some mem\<rparr>"

definition IntoInstanceContext :: "'s engine \<Rightarrow> nat \<Rightarrow> 's \<Rightarrow> InstanceContext" where
  "IntoInstanceContext G instanceContext s =
     (let memory = cWasmerInstanceContextMemory G instanceContext s
      in \<lparr>ic_context = Some instanceContext, ic_memory = Some memory\<rparr>)"

definition IntoInstanceContextDirect :: "'s engine \<Rightarrow> nat \<Rightarrow> 's \<Rightarrow> InstanceContext" where
  "IntoInstanceContextDirect G instanceContext s =
     (let memory = cWasmerInstanceContextMemory G instanceContext s
      in \<lparr>ic_context = Some instanceContext, ic_memory = Some memory\<rparr>)"

definition InstanceContext_Data :: "'s engine \<Rightarrow> InstanceContext \<Rightarrow> 's \<Rightarrow> u64" where
  "InstanceContext_Data G ctx s = cWasmerInstanceContextDataGet G (ic_context ctx) s"

section \<open>Exported functions\<close>

record ExportedFunctionSignature =
  InputArity :: int
  OutputArity :: int

text \<open>What the closure made by \<open>createExportedFunctionWrapper\<close> captures.\<close>

record ExportedFunction =
  ef_instance :: nat
  ef_name :: string
  ef_inputSignatures :: "WasmerValueTag list"
  ef_inputsArity :: u32
  ef_outputsArity :: u32

definition getExportedFunctionSignature ::
    "'s engine \<Rightarrow> nat \<Rightarrow> string \<Rightarrow> 's \<Rightarrow> wasmer_error + WasmerValueTag list \<times> u32" where
  "getExportedFunctionSignature G wasmFunction exportedFunctionName s =
     (let (ok, arity) = cWasmerExportFuncParamsArity G wasmFunction s
      in if \<not> ok then Inl (ExportedFunctionError exportedFunctionName
             ''Failed to read the input arity of the `%s` exported function.'')
         else if arity > 0 then
           (let (ok, params) = cWasmerExportFuncParams G wasmFunction arity s
            in if \<not> ok then Inl (ExportedFunctionError exportedFunctionName
                   ''Failed to read the signature of the `%s` exported function.'')
               else Inr (map params [0..<unat arity], arity))
         else Inr ([], arity))"

definition getExportedFunctionOutputArity :: "'s engine \<Rightarrow> nat \<Rightarrow> string \<Rightarrow> 's \<Rightarrow> wasmer_error + u32" where
  "getExportedFunctionOutputArity G wasmFunction exportedFunctionName s =
     (let (ok, arity) = cWasmerExportFuncResultsArity G wasmFunction s
      in if \<not> ok then Inl (ExportedFunctionError exportedFunctionName
             ''Failed to read the output arity of the `%s` exported function.'')
         else Inr arity)"

definition createExportedFunctionWrapper ::
    "'s engine \<Rightarrow> nat \<Rightarrow> nat \<Rightarrow> string \<Rightarrow> 's \<Rightarrow> wasmer_error + ExportedFunction \<times> ExportedFunctionSignature" where
  "createExportedFunctionWrapper G c_instance wasmFunction exportedFunctionName s =
     (case getExportedFunctionSignature G wasmFunction exportedFunctionName s of
        Inl err \<Rightarrow> Inl err
      | Inr (inputSignatures, inputsArity) \<Rightarrow>
          (case getExportedFunctionOutputArity G wasmFunction exportedFunctionName s of
             Inl err \<Rightarrow> Inl err
           | Inr outputsArity \<Rightarrow>
               Inr (\<lparr>ef_instance = c_instance, ef_name = exportedFunctionName,
                       ef_inputSignatures = inputSignatures, ef_inputsArity = inputsArity,
                       ef_outputsArity = outputsArity\<rparr>,
                    \<lparr>InputArity = uint inputsArity, OutputArity = uint outputsArity\<rparr>)))"

text \<open>The arguments of a call are of any type of Go; these are the ones that the code tells apart.\<close>

datatype GoArgument =
    Arg_int8 "8 word" | Arg_uint8 "8 word" | Arg_int16 "16 word" | Arg_uint16 "16 word"
  | Arg_int32 "32 word" | Arg_uint32 "32 word" | Arg_int64 "64 word" | Arg_int "64 word" | Arg_uint "64 word"
  | Arg_Value WasmValue | Arg_other

definition validateGivenArguments :: "string \<Rightarrow> GoArgument list \<Rightarrow> u32 \<Rightarrow> wasmer_error option" where
  "validateGivenArguments exportedFunctionName arguments inputsArity =
     (let numberOfGivenArguments = int (length arguments);
          diff = uint inputsArity - numberOfGivenArguments;
          expect = ''Expect '' @ signed_text (uint inputsArity) @ '' argument(s), given '' @
            signed_text numberOfGivenArguments @ ''.''
      in if diff > 0 then Some (ExportedFunctionError exportedFunctionName
           (''Missing '' @ signed_text diff @ '' argument(s) when calling the `%s` exported function; '' @ expect))
         else if diff < 0 then Some (ExportedFunctionError exportedFunctionName
           (''Given '' @ signed_text (- diff) @ '' extra argument(s) when calling the `%s` exported function; '' @ expect))
         else None)"

definition argument_error :: "string \<Rightarrow> nat \<Rightarrow> string \<Rightarrow> wasmer_error" where
  "argument_error exportedFunctionName index ty =
     ExportedFunctionError exportedFunctionName
       (''Argument #'' @ signed_text (int index + 1) @ '' of the `%s` exported function must be of type `'' @ ty @
        ''`, cannot cast given value to this type.'')"

text \<open>
  A 32-bit value is stored in the low half of the union; the high half of a new array is zero.
\<close>

definition store_i32 :: "i32 \<Rightarrow> cWasmerValueT \<Rightarrow> cWasmerValueT" where
  "store_i32 v c = c\<lparr>cv_value := (cv_value c AND NOT (mask 32)) OR ucast v\<rparr>"

definition int32_argument :: "GoArgument \<Rightarrow> i32 option" where
  "int32_argument value =
     (case value of
        Arg_int8 w \<Rightarrow> Some (scast w)
      | Arg_uint8 w \<Rightarrow> Some (ucast w)
      | Arg_int16 w \<Rightarrow> Some (scast w)
      | Arg_uint16 w \<Rightarrow> Some (ucast w)
      | Arg_int32 w \<Rightarrow> Some w
      | Arg_int w \<Rightarrow> Some (ucast w)
      | Arg_uint w \<Rightarrow> Some (ucast w)
      | Arg_Value v \<Rightarrow> if val_ty v \<noteq> TypeI32 then None else Some (ToI32 v)
      | _ \<Rightarrow> None)"

definition writeInt32ToWasmInputs ::
    "cWasmerValueT list \<Rightarrow> nat \<Rightarrow> GoArgument \<Rightarrow> string \<Rightarrow> (wasmer_error + cWasmerValueT list) option" where
  "writeInt32ToWasmInputs wasmInputs index value exportedFunctionName =
     (if length wasmInputs \<le> index then None
      else Some
        (let cell = (wasmInputs ! index)\<lparr>cv_tag := WASM_I32\<rparr>
         in case int32_argument value of
              None \<Rightarrow> Inl (argument_error exportedFunctionName index ''i32'')
            | Some v \<Rightarrow> Inr (wasmInputs[index := store_i32 v cell])))"

definition int64_argument :: "GoArgument \<Rightarrow> i64 option" where
  "int64_argument value =
     (case value of
        Arg_int8 w \<Rightarrow> Some (scast w)
      | Arg_uint8 w \<Rightarrow> Some (ucast w)
      | Arg_int16 w \<Rightarrow> Some (scast w)
      | Arg_uint16 w \<Rightarrow> Some (ucast w)
      | Arg_int32 w \<Rightarrow> Some (scast w)
      | Arg_uint32 w \<Rightarrow> Some (ucast w)
      | Arg_int64 w \<Rightarrow> Some w
      | Arg_int w \<Rightarrow> Some w
      | Arg_uint w \<Rightarrow> Some w
      | Arg_Value v \<Rightarrow> if val_ty v \<noteq> TypeI64 then None else Some (ToI64 v)
      | _ \<Rightarrow> None)"

definition writeInt64ToWasmInputs ::
    "cWasmerValueT list \<Rightarrow> nat \<Rightarrow> GoArgument \<Rightarrow> string \<Rightarrow> (wasmer_error + cWasmerValueT list) option" where
  "writeInt64ToWasmInputs wasmInputs index value exportedFunctionName =
     (if length wasmInputs \<le> index then None
      else Some
        (let cell = (wasmInputs ! index)\<lparr>cv_tag := WASM_I64\<rparr>
         in case int64_argument value of
              None \<Rightarrow> Inl (argument_error exportedFunctionName index ''i64'')
            | Some v \<Rightarrow> Inr (wasmInputs[index := cell\<lparr>cv_value := v\<rparr>])))"

text \<open>The loop over the arguments; an index outside of the signature panics.\<close>

fun write_inputs ::
    "GoArgument list \<Rightarrow> nat \<Rightarrow> cWasmerValueT list \<Rightarrow> WasmerValueTag list \<Rightarrow> string
     \<Rightarrow> (wasmer_error + cWasmerValueT list) option" where
  "write_inputs [] index wasmInputs sigs f = Some (Inr wasmInputs)"
| "write_inputs (value # arguments) index wasmInputs sigs f =
     (if length sigs \<le> index then None
      else do {
        r \<leftarrow> (case sigs ! index of
                 WASM_I32 \<Rightarrow> writeInt32ToWasmInputs wasmInputs index value f
               | WASM_I64 \<Rightarrow> writeInt64ToWasmInputs wasmInputs index value f
               | _ \<Rightarrow> Some (Inl (ExportedFunctionError f
                        ''Invalid arguments type when calling the `%s` exported function.'')));
        case r of
          Inl err \<Rightarrow> Some (Inl err)
        | Inr wasmInputs \<Rightarrow> write_inputs arguments (Suc index) wasmInputs sigs f
      })"

definition createWasmInputsFromArguments ::
    "GoArgument list \<Rightarrow> u32 \<Rightarrow> WasmerValueTag list \<Rightarrow> string \<Rightarrow> (wasmer_error + cWasmerValueT list) option" where
  "createWasmInputsFromArguments arguments inputsArity inputSignatures exportedFunctionName =
     write_inputs arguments 0 (replicate (unat inputsArity) \<lparr>cv_tag = WASM_I32, cv_value = 0\<rparr>)
       inputSignatures exportedFunctionName"

definition callWasmFunction ::
    "'s engine \<Rightarrow> nat \<Rightarrow> string \<Rightarrow> u32 \<Rightarrow> u32 \<Rightarrow> cWasmerValueT list \<Rightarrow> 's \<Rightarrow> (cWasmerValueT list \<times> bool) \<times> 's" where
  "callWasmFunction G c_instance exportedFunctionName inputsArity outputsArity wasmInputs s =
     (let ((ok, outputs), s) =
            cWasmerInstanceCall G c_instance exportedFunctionName wasmInputs inputsArity outputsArity s
      in ((map outputs [0..<unat outputsArity], ok), s))"

definition convertWasmOutputToValue ::
    "u32 \<Rightarrow> cWasmerValueT list \<Rightarrow> string \<Rightarrow> (WasmValue \<times> wasmer_error option) option" where
  "convertWasmOutputToValue outputsArity wasmOutputs exportedFunctionName =
     (if outputsArity > 0 then
        (if wasmOutputs = [] then None
         else Some
           (let result = wasmOutputs ! 0
            in case cv_tag result of
                 WASM_I32 \<Rightarrow> (I32 (ucast (cv_value result)), None)
               | WASM_I64 \<Rightarrow> (I64 (cv_value result), None)
               | _ \<Rightarrow> (Void, Some (ExportedFunctionError exportedFunctionName
                        ''Invalid output type retrieved from function `%s`.''))))
      else Some (Void, None))"

definition call_exported ::
    "'s engine \<Rightarrow> ExportedFunction \<Rightarrow> GoArgument list \<Rightarrow> 's \<Rightarrow> ((WasmValue \<times> wasmer_error option) \<times> 's) option" where
  "call_exported G f arguments s =
     (case validateGivenArguments (ef_name f) arguments (ef_inputsArity f) of
        Some err \<Rightarrow> Some ((Void, Some err), s)
      | None \<Rightarrow> do {
          r \<leftarrow> createWasmInputsFromArguments arguments (ef_inputsArity f) (ef_inputSignatures f) (ef_name f);
          case r of
            Inl err \<Rightarrow> Some ((Void, Some err), s)
          | Inr wasmInputs \<Rightarrow>
              (case callWasmFunction G (ef_instance f) (ef_name f) (ef_inputsArity f) (ef_outputsArity f)
                      wasmInputs s of
                 ((wasmOutputs, ok), s) \<Rightarrow>
                   if \<not> ok then do {
                     (err, s) \<leftarrow> newWrappedError G
                       (PlainError (''Failed to call the `'' @ ef_name f @ ''` exported function.'')) s;
                     Some ((Void, Some err), s)
                   }
                   else do {
                     (value, err) \<leftarrow> convertWasmOutputToValue (ef_outputsArity f) wasmOutputs (ef_name f);
                     Some ((value, err), s)
                   })
        })"

section \<open>Instances\<close>

text \<open>The pointer of the empty instance is nil; an instance without exported memory has a nil handler.\<close>

record GoInstance =
  in_instance :: "nat option"
  in_Exports :: "(string, ExportedFunction) gomap"
  in_Signatures :: "(string, ExportedFunctionSignature) gomap"
  in_Memory :: "WasmMemory option"
  in_Data :: "u64 option"
  in_InstanceCtx :: InstanceContext

definition emptyInstance :: GoInstance where
  "emptyInstance = \<lparr>in_instance = None, in_Exports = [], in_Signatures = [], in_Memory = None,
     in_Data = None, in_InstanceCtx = \<lparr>ic_context = None, ic_memory = None\<rparr>\<rparr>"

text \<open>The last exported memory counts.\<close>

fun exported_memory ::
    "'s engine \<Rightarrow> nat \<Rightarrow> nat list \<Rightarrow> WasmMemory \<times> bool \<Rightarrow> 's
     \<Rightarrow> (WasmMemory \<times> bool \<times> wasmer_error option) \<times> 's" where
  "exported_memory G wasmExports [] (memory, hasMemory) s = ((memory, hasMemory, None), s)"
| "exported_memory G wasmExports (n # rest) (memory, hasMemory) s =
     (let wasmExport = cWasmerExportsGet G wasmExports (word_of_nat n) s
      in if cWasmerExportKind G wasmExport s = WASM_MEMORY then
           (let ((ok, wasmMemory), s) = cWasmerExportToMemory G wasmExport s
            in if \<not> ok then ((None, False, Some (InstanceError ''Failed to extract the exported memory.'')), s)
               else exported_memory G wasmExports rest (Some wasmMemory, True) s)
         else exported_memory G wasmExports rest (memory, hasMemory) s)"

definition number_of_exports :: "'s engine \<Rightarrow> nat \<Rightarrow> 's \<Rightarrow> nat" where
  "number_of_exports G wasmExports s = nat (sint (cWasmerExportsLen G wasmExports s))"

definition retrieveExportedMemory ::
    "'s engine \<Rightarrow> nat \<Rightarrow> 's \<Rightarrow> (WasmMemory \<times> bool \<times> wasmer_error option) \<times> 's" where
  "retrieveExportedMemory G wasmExports s =
     exported_memory G wasmExports [0..<number_of_exports G wasmExports s] (None, False) s"

fun exported_functions ::
    "'s engine \<Rightarrow> nat \<Rightarrow> nat \<Rightarrow> 's \<Rightarrow> nat list \<Rightarrow> (string, ExportedFunction) gomap
     \<Rightarrow> (string, ExportedFunctionSignature) gomap
     \<Rightarrow> wasmer_error + (string, ExportedFunction) gomap \<times> (string, ExportedFunctionSignature) gomap" where
  "exported_functions G c_instance wasmExports s [] exports signatures = Inr (exports, signatures)"
| "exported_functions G c_instance wasmExports s (n # rest) exports signatures =
     (let wasmExport = cWasmerExportsGet G wasmExports (word_of_nat n) s
      in if cWasmerExportKind G wasmExport s \<noteq> WASM_FUNCTION
         then exported_functions G c_instance wasmExports s rest exports signatures
         else let wasmFunction = cWasmerExportToFunc G wasmExport s;
                  exportedFunctionName = string_of_bytes (cWasmerExportName G wasmExport s)
              in case createExportedFunctionWrapper G c_instance wasmFunction exportedFunctionName s of
                   Inl err \<Rightarrow> Inl err
                 | Inr (wrappedWasmFunction, signature) \<Rightarrow>
                     exported_functions G c_instance wasmExports s rest
                       (map_put exportedFunctionName wrappedWasmFunction exports)
                       (map_put exportedFunctionName signature signatures))"

definition retrieveExportedFunctions ::
    "'s engine \<Rightarrow> nat \<Rightarrow> nat \<Rightarrow> 's
     \<Rightarrow> wasmer_error + (string, ExportedFunction) gomap \<times> (string, ExportedFunctionSignature) gomap" where
  "retrieveExportedFunctions G c_instance wasmExports s =
     exported_functions G c_instance wasmExports s [0..<number_of_exports G wasmExports s] [] []"

text \<open>The exports of the engine are destroyed on every path, after everything else.\<close>

definition newInstance :: "'s engine \<Rightarrow> nat \<Rightarrow> 's \<Rightarrow> (GoInstance \<times> wasmer_error option) \<times> 's" where
  "newInstance G c_instance s =
     (let (wasmExports, s) = cWasmerInstanceExports G c_instance s
      in case retrieveExportedFunctions G c_instance wasmExports s of
           Inl err \<Rightarrow> ((emptyInstance, Some err), cWasmerExportsDestroy G wasmExports s)
         | Inr (exports, signatures) \<Rightarrow>
             (let ((memory, hasMemory, err), s) = retrieveExportedMemory G wasmExports s;
                  inst = emptyInstance\<lparr>in_instance := Some c_instance, in_Exports := exports,
                    in_Signatures := signatures\<rparr>
              in if err \<noteq> None then ((emptyInstance, err), cWasmerExportsDestroy G wasmExports s)
                 else if \<not> hasMemory then ((inst, None), cWasmerExportsDestroy G wasmExports s)
                 else ((inst\<lparr>in_Memory := Some memory\<rparr>, None), cWasmerExportsDestroy G wasmExports s)))"

definition HasMemory :: "GoInstance \<Rightarrow> bool" where
  "HasMemory inst \<longleftrightarrow> in_Memory inst \<noteq> None"

text \<open>Both ways to an instance end alike.\<close>

definition finish_instance ::
    "'s engine \<Rightarrow> bool \<times> nat \<Rightarrow> 's \<Rightarrow> ((GoInstance \<times> wasmer_error option) \<times> 's) option" where
  "finish_instance G result s =
     (let (ok, c_instance) = result
      in if \<not> ok then do {
           (err, s) \<leftarrow> newWrappedError G ErrFailedInstantiation s;
           Some ((emptyInstance, Some err), s)
         }
         else (let ((inst, err), s) = newInstance G c_instance s;
                   inst = (if in_Memory inst \<noteq> None
                           then inst\<lparr>in_InstanceCtx :=
                             IntoInstanceContextDirect G (cWasmerInstanceContextGet G c_instance s) s\<rparr>
                           else inst)
               in Some ((inst, err), s)))"

definition NewInstanceWithOptions ::
    "'s engine \<Rightarrow> bytes \<Rightarrow> CompilationOptions \<Rightarrow> 's \<Rightarrow> ((GoInstance \<times> wasmer_error option) \<times> 's) option" where
  "NewInstanceWithOptions G code options s =
     (if length code = 0 then do {
        (err, s) \<leftarrow> newWrappedError G ErrInvalidBytecode s;
        Some ((emptyInstance, Some err), s)
      }
      else (let (result, s) = cWasmerInstantiateWithOptions G code (word_of_nat (length code)) options s
            in finish_instance G result s))"

definition NewInstanceFromCompiledCodeWithOptions ::
    "'s engine \<Rightarrow> bytes \<Rightarrow> CompilationOptions \<Rightarrow> 's \<Rightarrow> ((GoInstance \<times> wasmer_error option) \<times> 's) option" where
  "NewInstanceFromCompiledCodeWithOptions G compiledCode options s =
     (if length compiledCode = 0 then do {
        (err, s) \<leftarrow> newWrappedError G ErrInvalidBytecode s;
        Some ((emptyInstance, Some err), s)
      }
      else (let (result, s) = cWasmerInstanceFromCache G compiledCode (word_of_nat (length compiledCode)) options s
            in finish_instance G result s))"

text \<open>The engine gets the address of a copy of the data; here it gets the data.\<close>

definition SetContextData :: "'s engine \<Rightarrow> u64 \<Rightarrow> GoInstance \<Rightarrow> 's \<Rightarrow> GoInstance \<times> 's" where
  "SetContextData G data inst s =
     (inst\<lparr>in_Data := Some data\<rparr>, cWasmerInstanceContextDataSet G (in_instance inst) data s)"

definition Instance_Clean :: "'s engine \<Rightarrow> GoInstance \<Rightarrow> 's \<Rightarrow> 's" where
  "Instance_Clean G inst s =
     (case in_instance inst of
        None \<Rightarrow> s
      | Some c_instance \<Rightarrow>
          (let s = cWasmerInstanceDestroy G c_instance s
           in case in_Memory inst of
                None \<Rightarrow> s
              | Some memory \<Rightarrow> Memory_Destroy G memory s))"

definition Instance_GetPointsUsed :: "'s engine \<Rightarrow> GoInstance \<Rightarrow> 's \<Rightarrow> u64" where
  "Instance_GetPointsUsed G inst s = cWasmerInstanceGetPointsUsed G (in_instance inst) s"

definition Instance_SetPointsUsed :: "'s engine \<Rightarrow> u64 \<Rightarrow> GoInstance \<Rightarrow> 's \<Rightarrow> 's" where
  "Instance_SetPointsUsed G points inst s = cWasmerInstanceSetPointsUsed G (in_instance inst) points s"

definition Instance_SetGasLimit :: "'s engine \<Rightarrow> u64 \<Rightarrow> GoInstance \<Rightarrow> 's \<Rightarrow> 's" where
  "Instance_SetGasLimit G gasLimit inst s = cWasmerInstanceSetGasLimit G (in_instance inst) gasLimit s"

definition Instance_SetBreakpointValue :: "'s engine \<Rightarrow> u64 \<Rightarrow> GoInstance \<Rightarrow> 's \<Rightarrow> 's" where
  "Instance_SetBreakpointValue G v inst s = cWasmerInstanceSetBreakpointValue G (in_instance inst) v s"

definition Instance_GetBreakpointValue :: "'s engine \<Rightarrow> GoInstance \<Rightarrow> 's \<Rightarrow> u64" where
  "Instance_GetBreakpointValue G inst s = cWasmerInstanceGetBreakpointValue G (in_instance inst) s"

text \<open>The bytes are copied with a signed 32-bit length.\<close>

definition Instance_Cache ::
    "'s engine \<Rightarrow> GoInstance \<Rightarrow> 's \<Rightarrow> ((wasmer_error + bytes) \<times> 's) option" where
  "Instance_Cache G inst s =
     (case cWasmerInstanceCache G (in_instance inst) s of
        (None, s) \<Rightarrow> Some (Inl ErrCachingFailed, s)
      | (Some cacheBytes, s) \<Rightarrow>
          if 2 ^ 31 \<le> length cacheBytes then None else Some (Inr cacheBytes, s))"

definition Instance_IsFunctionImported :: "'s engine \<Rightarrow> string \<Rightarrow> GoInstance \<Rightarrow> 's \<Rightarrow> bool" where
  "Instance_IsFunctionImported G name inst s = cWasmerInstanceIsFunctionImported G (in_instance inst) name s"

definition Instance_GetSignature :: "string \<Rightarrow> GoInstance \<Rightarrow> ExportedFunctionSignature option" where
  "Instance_GetSignature functionName inst = map_get (in_Signatures inst) functionName"

definition Instance_GetData :: "GoInstance \<Rightarrow> u64 option" where
  "Instance_GetData inst = in_Data inst"

definition Instance_GetInstanceCtxMemory :: "GoInstance \<Rightarrow> WasmMemory option" where
  "Instance_GetInstanceCtxMemory inst = ic_memory (in_InstanceCtx inst)"

definition Instance_GetMemory :: "GoInstance \<Rightarrow> WasmMemory option" where
  "Instance_GetMemory inst = in_Memory inst"

end
