(* ===== verification/WasmerGuarantees.thy ===== *)
theory WasmerGuarantees
  imports WasmerBindings
begin

text \<open>
  What the Go side of the engine guarantees: the calls of exported functions hand the engine
  exactly the arguments that they were given, or do not reach it; an instance knows the functions
  that the engine exports; code that the validator accepted can be called the way the host calls
  it; and the functions that were made for the imports are never freed.
\<close>

unbundle bit_operations_syntax

section \<open>Arguments and results\<close>

text \<open>
  The specification of a call: the integer that an argument denotes, the parameters that take
  it, and the cell of the engine that holds it.
\<close>

fun argument_int :: "GoArgument \<Rightarrow> int" where
  "argument_int (Arg_int8 w) = sint w"
| "argument_int (Arg_uint8 w) = uint w"
| "argument_int (Arg_int16 w) = sint w"
| "argument_int (Arg_uint16 w) = uint w"
| "argument_int (Arg_int32 w) = sint w"
| "argument_int (Arg_uint32 w) = uint w"
| "argument_int (Arg_int64 w) = sint w"
| "argument_int (Arg_int w) = sint w"
| "argument_int (Arg_uint w) = uint w"
| "argument_int (Arg_Value v) = uint (val_value v)"
| "argument_int Arg_other = 0"

fun accepts :: "WasmerValueTag \<Rightarrow> GoArgument \<Rightarrow> bool" where
  "accepts _ Arg_other = False"
| "accepts WASM_I32 (Arg_uint32 _) = False"
| "accepts WASM_I32 (Arg_int64 _) = False"
| "accepts WASM_I32 (Arg_Value v) = (val_ty v = TypeI32)"
| "accepts WASM_I32 _ = True"
| "accepts WASM_I64 (Arg_Value v) = (val_ty v = TypeI64)"
| "accepts WASM_I64 _ = True"
| "accepts _ _ = False"

definition engine_cell :: "WasmerValueTag \<Rightarrow> GoArgument \<Rightarrow> cWasmerValueT" where
  "engine_cell tag a =
     \<lparr>cv_tag = tag,
      cv_value = (if tag = WASM_I32 then ucast (word_of_int (argument_int a) :: i32)
                  else word_of_int (argument_int a))\<rparr>"

lemma low_half_of_signed: "(scast (w :: i64) :: i32) = ucast w"
proof -
  have "is_down (ucast :: i64 \<Rightarrow> i32)" by (simp add: is_down)
  then have "(ucast :: i64 \<Rightarrow> i32) = scast" by (rule down_cast_same)
  then show ?thesis by simp
qed

lemma int32_argument_spec:
  "int32_argument a = (if accepts WASM_I32 a then Some (word_of_int (argument_int a)) else None)"
  by (cases a) (simp_all add: int32_argument_def ToI32_def low_half_of_signed
    scast_eq [symmetric] ucast_eq [symmetric])

lemma int64_argument_spec:
  "int64_argument a = (if accepts WASM_I64 a then Some (word_of_int (argument_int a)) else None)"
  by (cases a) (simp_all add: int64_argument_def ToI64_def scast_eq [symmetric] ucast_eq [symmetric])

lemma store_i32_zero: "store_i32 v \<lparr>cv_tag = t, cv_value = 0\<rparr> = \<lparr>cv_tag = t, cv_value = ucast v\<rparr>"
  by (simp add: store_i32_def)

lemma accepts_tags: "accepts tag a \<Longrightarrow> tag = WASM_I32 \<or> tag = WASM_I64"
  by (induction tag a rule: accepts.induct) auto

abbreviation zero_cell :: cWasmerValueT where
  "zero_cell \<equiv> \<lparr>cv_tag = WASM_I32, cv_value = 0\<rparr>"

declare write_inputs.simps(2) [simp del]

lemma write_step:
  assumes "length done = index"
  shows "write_inputs (a # args) index (done @ zero_cell # rest) sigs f =
    (if length sigs \<le> index then None
     else if accepts (sigs ! index) a
       then write_inputs args (Suc index) ((done @ [engine_cell (sigs ! index) a]) @ rest) sigs f
       else Some (Inl (ExportedFunctionError f
         (case sigs ! index of
            WASM_I32 \<Rightarrow> ''Argument #'' @ signed_text (int index + 1) @ '' of the `%s` exported function must be of type `i32`, cannot cast given value to this type.''
          | WASM_I64 \<Rightarrow> ''Argument #'' @ signed_text (int index + 1) @ '' of the `%s` exported function must be of type `i64`, cannot cast given value to this type.''
          | _ \<Rightarrow> ''Invalid arguments type when calling the `%s` exported function.''))))"
  using assms
  by (cases "sigs ! index"; cases a)
    (simp_all add: write_inputs.simps(2) writeInt32ToWasmInputs_def writeInt64ToWasmInputs_def int32_argument_spec
      int64_argument_spec argument_error_def engine_cell_def store_i32_zero Let_def nth_append
      list_update_append)

lemma write_inputs_spec:
  assumes "length done = index" "index + length args = length sigs"
  shows "write_inputs args index (done @ replicate (length args) zero_cell) sigs f =
      Some (Inr (done @ map2 engine_cell (drop index sigs) args))
      \<and> list_all2 accepts (drop index sigs) args
    \<or> (\<exists>m. write_inputs args index (done @ replicate (length args) zero_cell) sigs f =
      Some (Inl (ExportedFunctionError f m))) \<and> \<not> list_all2 accepts (drop index sigs) args"
  using assms
proof (induction args arbitrary: index "done")
  case Nil
  then show ?case by simp
next
  case (Cons a args)
  have drop: "drop index sigs = sigs ! index # drop (Suc index) sigs"
    using Cons.prems by (intro Cons_nth_drop_Suc [symmetric]) simp
  show ?case
  proof (cases "accepts (sigs ! index) a")
    case True
    then show ?thesis
      using Cons.IH [of "done @ [engine_cell (sigs ! index) a]" "Suc index"] Cons.prems
      by (simp add: write_step drop)
  next
    case False
    then show ?thesis
      using Cons.prems by (simp add: write_step drop)
  qed
qed

lemma createWasmInputs_spec:
  assumes "length args = length sigs" "unat arity = length sigs"
  shows "createWasmInputsFromArguments args arity sigs f = Some (Inr (map2 engine_cell sigs args))
      \<and> list_all2 accepts sigs args
    \<or> (\<exists>m. createWasmInputsFromArguments args arity sigs f = Some (Inl (ExportedFunctionError f m)))
      \<and> \<not> list_all2 accepts sigs args"
  using write_inputs_spec [of "[]" 0 args sigs f] assms by (simp add: createWasmInputsFromArguments_def)

text \<open>What the engine left in the first result, as the caller sees it.\<close>

definition result_value :: "string \<Rightarrow> u32 \<Rightarrow> cWasmerValueT \<Rightarrow> WasmValue \<times> wasmer_error option" where
  "result_value f arity cell =
     (if arity = 0 then (Void, None)
      else if cv_tag cell = WASM_I32 then (I32 (ucast (cv_value cell)), None)
      else if cv_tag cell = WASM_I64 then (I64 (cv_value cell), None)
      else (Void, Some (ExportedFunctionError f ''Invalid output type retrieved from function `%s`.'')))"

lemma convert_spec:
  "convertWasmOutputToValue arity (map outputs [0..<unat arity]) f = Some (result_value f arity (outputs 0))"
proof (cases "arity = 0")
  case False
  then have "unat arity > 0" by (simp add: unat_gt_0)
  then have "[0..<unat arity] = 0 # [1..<unat arity]" by (simp add: upt_rec)
  with False show ?thesis
    by (cases "cv_tag (outputs 0)")
      (auto simp: convertWasmOutputToValue_def result_value_def Let_def word_neq_0_conv)
qed (simp add: convertWasmOutputToValue_def result_value_def)

lemma I32_reads_back: "ToI32 (I32 v) = v"
  by (rule bit_word_eqI) (auto simp: I32_def ToI32_def bit_simps)

section \<open>Calling an exported function\<close>

definition engine_call ::
    "'s engine \<Rightarrow> ExportedFunction \<Rightarrow> cWasmerValueT list \<Rightarrow> 's \<Rightarrow> ((WasmValue \<times> wasmer_error option) \<times> 's) option" where
  "engine_call G f cells s =
     (case cWasmerInstanceCall G (ef_instance f) (ef_name f) cells (ef_inputsArity f) (ef_outputsArity f) s of
        ((True, outputs), s) \<Rightarrow> Some (result_value (ef_name f) (ef_outputsArity f) (outputs 0), s)
      | ((False, _), s) \<Rightarrow> do {
          (err, s) \<leftarrow> newWrappedError G
            (PlainError (''Failed to call the `'' @ ef_name f @ ''` exported function.'')) s;
          Some ((Void, Some err), s)
        })"

lemma validate_number:
  "if length args = unat arity then validateGivenArguments f args arity = None
   else \<exists>m. validateGivenArguments f args arity = Some (ExportedFunctionError f m)"
proof -
  define n where "n = unat arity"
  have "uint arity = int n" by (simp add: n_def)
  then show ?thesis
    unfolding n_def [symmetric] by (simp add: validateGivenArguments_def Let_def)
qed

lemma call_exported_spec:
  assumes "length (ef_inputSignatures f) = unat (ef_inputsArity f)"
  shows "list_all2 accepts (ef_inputSignatures f) args \<Longrightarrow>
      call_exported G f args s = engine_call G f (map2 engine_cell (ef_inputSignatures f) args) s"
    and "\<not> list_all2 accepts (ef_inputSignatures f) args \<Longrightarrow>
      \<exists>m. call_exported G f args s = Some ((Void, Some (ExportedFunctionError (ef_name f) m)), s)"
proof -
  note number = validate_number [of args "ef_inputsArity f" "ef_name f"]
  show "call_exported G f args s = engine_call G f (map2 engine_cell (ef_inputSignatures f) args) s"
    if accepted: "list_all2 accepts (ef_inputSignatures f) args"
  proof -
    have len: "length args = length (ef_inputSignatures f)"
      using list_all2_lengthD [OF accepted] by simp
    then have "createWasmInputsFromArguments args (ef_inputsArity f) (ef_inputSignatures f) (ef_name f) =
        Some (Inr (map2 engine_cell (ef_inputSignatures f) args))"
      using createWasmInputs_spec [OF len assms [symmetric], of "ef_name f"] accepted by blast
    moreover have "validateGivenArguments (ef_name f) args (ef_inputsArity f) = None"
      using number len assms by simp
    moreover obtain ok outputs s2 where "cWasmerInstanceCall G (ef_instance f) (ef_name f)
        (map2 engine_cell (ef_inputSignatures f) args) (ef_inputsArity f) (ef_outputsArity f) s =
        ((ok, outputs), s2)"
      by (metis prod.exhaust)
    ultimately show ?thesis
      by (cases ok) (simp_all add: call_exported_def engine_call_def callWasmFunction_def convert_spec)
  qed
  show "\<exists>m. call_exported G f args s = Some ((Void, Some (ExportedFunctionError (ef_name f) m)), s)"
    if "\<not> list_all2 accepts (ef_inputSignatures f) args"
  proof (cases "length args = unat (ef_inputsArity f)")
    case True
    then have "validateGivenArguments (ef_name f) args (ef_inputsArity f) = None"
      using number by simp
    moreover from True have "length args = length (ef_inputSignatures f)" using assms by simp
    from createWasmInputs_spec [OF this assms [symmetric], of "ef_name f"] that
    obtain m where "createWasmInputsFromArguments args (ef_inputsArity f) (ef_inputSignatures f) (ef_name f) =
        Some (Inl (ExportedFunctionError (ef_name f) m))" by blast
    ultimately show ?thesis by (simp add: call_exported_def)
  next
    case False
    then show ?thesis using number by (auto simp: call_exported_def)
  qed
qed

section \<open>The exports of an instance\<close>

text \<open>
  An entry of the map of exports: it calls the function of its own name in the instance, its
  signature has as many types as the arity says, and the map of signatures agrees.
\<close>

definition exports_agree ::
    "nat \<Rightarrow> (string, ExportedFunction) gomap \<Rightarrow> (string, ExportedFunctionSignature) gomap \<Rightarrow> bool" where
  "exports_agree c_instance exports signatures \<longleftrightarrow>
     dom (map_get exports) = dom (map_get signatures)
     \<and> (\<forall>name f. map_get exports name = Some f \<longrightarrow>
          ef_instance f = c_instance \<and> ef_name f = name
          \<and> length (ef_inputSignatures f) = unat (ef_inputsArity f)
          \<and> map_get signatures name =
              Some \<lparr>InputArity = uint (ef_inputsArity f), OutputArity = uint (ef_outputsArity f)\<rparr>)"

definition exported_function_names :: "'s engine \<Rightarrow> nat \<Rightarrow> 's \<Rightarrow> nat list \<Rightarrow> string set" where
  "exported_function_names G wasmExports s ns =
     {string_of_bytes (cWasmerExportName G (cWasmerExportsGet G wasmExports (word_of_nat n) s) s) | n.
        n \<in> set ns \<and> cWasmerExportKind G (cWasmerExportsGet G wasmExports (word_of_nat n) s) s = WASM_FUNCTION}"

lemma exports_agree_put:
  assumes "exports_agree c ex sg" "createExportedFunctionWrapper G c wfn name s = Inr (f, sig)"
  shows "exports_agree c (map_put name f ex) (map_put name sig sg)"
proof -
  have "ef_instance f = c \<and> ef_name f = name \<and> length (ef_inputSignatures f) = unat (ef_inputsArity f)
      \<and> sig = \<lparr>InputArity = uint (ef_inputsArity f), OutputArity = uint (ef_outputsArity f)\<rparr>"
    using assms(2)
    by (auto simp: createExportedFunctionWrapper_def getExportedFunctionSignature_def Let_def not_less
        split: sum.splits prod.splits if_splits)
  with assms(1) show ?thesis
    unfolding exports_agree_def by (auto simp: map_get_put)
qed

lemma exported_functions_agree:
  "exported_functions G c we s ns ex sg = Inr (ex', sg') \<Longrightarrow> exports_agree c ex sg \<Longrightarrow>
     exports_agree c ex' sg'
     \<and> dom (map_get ex') = dom (map_get ex) \<union> exported_function_names G we s ns"
proof (induction ns arbitrary: ex sg)
  case Nil
  then show ?case by (simp add: exported_function_names_def)
next
  case (Cons n ns)
  let ?e = "cWasmerExportsGet G we (word_of_nat n) s"
  have names: "exported_function_names G we s (n # ns) =
      (if cWasmerExportKind G ?e s = WASM_FUNCTION then {string_of_bytes (cWasmerExportName G ?e s)} else {})
        \<union> exported_function_names G we s ns"
    by (auto simp: exported_function_names_def)
  show ?case
  proof (cases "cWasmerExportKind G ?e s = WASM_FUNCTION")
    case True
    then obtain f sig where step:
        "createExportedFunctionWrapper G c (cWasmerExportToFunc G ?e s)
          (string_of_bytes (cWasmerExportName G ?e s)) s = Inr (f, sig)"
        "exported_functions G c we s ns (map_put (string_of_bytes (cWasmerExportName G ?e s)) f ex)
          (map_put (string_of_bytes (cWasmerExportName G ?e s)) sig sg) = Inr (ex', sg')"
      using Cons.prems(1) by (auto simp: Let_def split: sum.splits)
    show ?thesis
      using Cons.IH [OF step(2) exports_agree_put [OF Cons.prems(2) step(1)]] True
      by (auto simp: names map_get_put)
  next
    case False
    then show ?thesis using Cons.IH [of ex sg] Cons.prems by (simp add: names)
  qed
qed

text \<open>An instance that was made without an error.\<close>

lemma newInstance_agrees:
  assumes "newInstance G c s = ((inst, None), s')"
    and "cWasmerInstanceExports G c s = (we, s1)"
  shows "in_instance inst = Some c" "exports_agree c (in_Exports inst) (in_Signatures inst)"
    and "dom (map_get (in_Exports inst)) =
      exported_function_names G we s1 [0..<number_of_exports G we s1]"
proof -
  obtain ex sg where collected: "retrieveExportedFunctions G c we s1 = Inr (ex, sg)"
      and inst: "in_instance inst = Some c \<and> in_Exports inst = ex \<and> in_Signatures inst = sg"
    using assms
    by (auto simp: newInstance_def Let_def emptyInstance_def split: sum.splits prod.splits if_splits)
  have "exports_agree c [] []" by (simp add: exports_agree_def)
  from exported_functions_agree [OF collected [unfolded retrieveExportedFunctions_def] this]
  have "exports_agree c ex sg \<and>
      dom (map_get ex) = exported_function_names G we s1 [0..<number_of_exports G we s1]"
    by simp
  with inst show "in_instance inst = Some c" "exports_agree c (in_Exports inst) (in_Signatures inst)"
    "dom (map_get (in_Exports inst)) = exported_function_names G we s1 [0..<number_of_exports G we s1]"
    by auto
qed

lemma instance_of_engine:
  assumes "NewInstanceWithOptions G code options s = Some ((inst, None), s')
    \<or> NewInstanceFromCompiledCodeWithOptions G code options s = Some ((inst, None), s')"
  obtains c where "in_instance inst = Some c" "exports_agree c (in_Exports inst) (in_Signatures inst)"
proof -
  obtain result s1 where "finish_instance G result s1 = Some ((inst, None), s')"
    using assms
    by (auto simp: NewInstanceWithOptions_def NewInstanceFromCompiledCodeWithOptions_def Let_def
        bind_Some_iff split: prod.splits if_splits)
  then obtain c inst' s2 where new: "newInstance G c s1 = ((inst', None), s2)"
      and "in_instance inst = in_instance inst'" "in_Exports inst = in_Exports inst'"
        "in_Signatures inst = in_Signatures inst'"
    by (auto simp: finish_instance_def Let_def bind_Some_iff split: prod.splits if_splits)
  moreover obtain we s3 where "cWasmerInstanceExports G c s1 = (we, s3)" by fastforce
  ultimately show thesis
    using that newInstance_agrees [OF new] by auto
qed

section \<open>An engine for examples\<close>

text \<open>
  A module with the functions \<open>add\<close>, of a 32-bit and a 64-bit parameter and a 64-bit result, and \<open>init\<close>,
  without parameters and result, and a memory of two bytes. The state counts the calls of \<open>init\<close>.
\<close>

definition sample_engine :: "nat engine" where
  "sample_engine =
     \<lparr>cWasmerLastErrorLength = (\<lambda>_. 0),
      cWasmerLastErrorMessage = (\<lambda>_ s. ((0, []), s)),
      cWasmerImportFuncNew = (\<lambda>p _ _ s. (p, s)),
      cWasmerImportFuncDestroy = (\<lambda>_ s. s + 100),
      cWasmerCacheImportObjectFromImports = (\<lambda>_ _ s. (True, s)),
      cWasmerSetOpcodeCosts = (\<lambda>_ s. s),
      cWasmerSetSIGSEGVPassthrough = (\<lambda>s. s),
      cWasmerInstantiateWithOptions = (\<lambda>_ _ _ s. ((True, 7), s)),
      cWasmerInstanceFromCache = (\<lambda>_ _ _ s. ((True, 7), s)),
      cWasmerInstanceExports = (\<lambda>_ s. (9, s)),
      cWasmerExportsDestroy = (\<lambda>_ s. s),
      cWasmerExportsLen = (\<lambda>_ _. 3),
      cWasmerExportsGet = (\<lambda>_ n _. unat n),
      cWasmerExportKind = (\<lambda>e _. if e = 1 then WASM_MEMORY else WASM_FUNCTION),
      cWasmerExportName = (\<lambda>e _. bytes_of_string (if e = 0 then ''add'' else ''init'')),
      cWasmerExportToFunc = (\<lambda>e _. e),
      cWasmerExportToMemory = (\<lambda>e s. ((True, e), s)),
      cWasmerExportFuncParamsArity = (\<lambda>f _. (True, if f = 0 then 2 else 0)),
      cWasmerExportFuncParams = (\<lambda>_ _ _. (True, \<lambda>n. if n = 0 then WASM_I32 else WASM_I64)),
      cWasmerExportFuncResultsArity = (\<lambda>f _. (True, if f = 0 then 1 else 0)),
      cWasmerInstanceCall = (\<lambda>_ name cells _ _ s.
        if name = ''init'' then ((True, \<lambda>_. zero_cell), s + 1)
        else ((True, \<lambda>_. \<lparr>cv_tag = WASM_I64, cv_value = sum_list (map cv_value cells)\<rparr>), s)),
      cWasmerInstanceDestroy = (\<lambda>_ s. s),
      cWasmerInstanceContextGet = (\<lambda>_ _. 5),
      cWasmerInstanceContextMemory = (\<lambda>_ _. Some 1),
      cWasmerInstanceContextDataSet = (\<lambda>_ _ s. s),
      cWasmerInstanceContextDataGet = (\<lambda>_ _. 0),
      cWasmerInstanceGetPointsUsed = (\<lambda>_ _. 0),
      cWasmerInstanceSetPointsUsed = (\<lambda>_ _ s. s),
      cWasmerInstanceSetGasLimit = (\<lambda>_ _ s. s),
      cWasmerInstanceSetBreakpointValue = (\<lambda>_ _ s. s),
      cWasmerInstanceGetBreakpointValue = (\<lambda>_ _. 0),
      cWasmerInstanceCache = (\<lambda>_ s. (Some [1, 2], s)),
      cWasmerInstanceIsFunctionImported = (\<lambda>_ _ _. False),
      cWasmerMemoryDataLength = (\<lambda>_ _. 2),
      cWasmerMemoryData = (\<lambda>_ _ n. of_nat n),
      cWasmerMemoryGrow = (\<lambda>_ _ s. (True, s)),
      cWasmerMemoryDestroy = (\<lambda>_ s. s)\<rparr>"

definition sample_add :: ExportedFunction where
  "sample_add = \<lparr>ef_instance = 7, ef_name = ''add'', ef_inputSignatures = [WASM_I32, WASM_I64],
     ef_inputsArity = 2, ef_outputsArity = 1\<rparr>"

definition sample_init :: ExportedFunction where
  "sample_init = \<lparr>ef_instance = 7, ef_name = ''init'', ef_inputSignatures = [],
     ef_inputsArity = 0, ef_outputsArity = 0\<rparr>"

definition sample_exports :: GoInstance where
  "sample_exports = \<lparr>in_instance = Some 7,
     in_Exports = [(''add'', sample_add), (''init'', sample_init)],
     in_Signatures = [(''add'', \<lparr>InputArity = 2, OutputArity = 1\<rparr>), (''init'', \<lparr>InputArity = 0, OutputArity = 0\<rparr>)],
     in_Memory = Some (Some 1), in_Data = None,
     in_InstanceCtx = \<lparr>ic_context = Some 5, ic_memory = Some (Some 1)\<rparr>\<rparr>"

definition sample_options :: CompilationOptions where
  "sample_options = \<lparr>co_GasLimit = 100, co_UnmeteredLocals = 0, co_MaxMemoryGrow = 0,
     co_MaxMemoryGrowDelta = 0, co_OpcodeTrace = False, co_Metering = True, co_RuntimeBreakpoints = True\<rparr>"

lemma sample_instantiated:
  "NewInstanceWithOptions sample_engine [0, 97] sample_options 0 = Some ((sample_exports, None), 0)"
  by code_simp

section \<open>What a call does\<close>

text \<open>
  C11. Calling an exported function of an instance. When the number of arguments is the one of the
  signature and each is of a type that the parameter takes, the engine is called once, for the
  function of this name in this instance, with cells that hold the integers that the arguments
  denote, cut to the width of the parameter, and the caller gets the first result or the wrapped
  failure of the engine. Otherwise the engine is not reached, and the error names the function.
\<close>

theorem exported_calls_convert:
  assumes "NewInstanceWithOptions G code options s0 = Some ((inst, None), s1)
      \<or> NewInstanceFromCompiledCodeWithOptions G code options s0 = Some ((inst, None), s1)"
    and "map_get (in_Exports inst) name = Some f"
  shows "in_instance inst = Some (ef_instance f) \<and> ef_name f = name
    \<and> (if list_all2 accepts (ef_inputSignatures f) args
       then call_exported G f args s = engine_call G f (map2 engine_cell (ef_inputSignatures f) args) s
       else \<exists>m. call_exported G f args s = Some ((Void, Some (ExportedFunctionError name m)), s))"
proof -
  obtain c where "in_instance inst = Some c" "exports_agree c (in_Exports inst) (in_Signatures inst)"
    using assms(1) by (rule instance_of_engine)
  with assms(2) have "in_instance inst = Some (ef_instance f)" "ef_name f = name"
      "length (ef_inputSignatures f) = unat (ef_inputsArity f)"
    by (auto simp: exports_agree_def)
  then show ?thesis using call_exported_spec [of f args G s] by auto
qed

lemma exported_calls_convert_witness:
  "call_exported sample_engine sample_add [Arg_int8 (- 3), Arg_uint32 5] 0 = Some ((I64 0x100000002, None), 0)
   \<and> (\<exists>m. call_exported sample_engine sample_add [Arg_int8 1] 0 =
        Some ((Void, Some (ExportedFunctionError ''add'' m)), 0))"
proof -
  have inst: "NewInstanceWithOptions sample_engine [0, 97] sample_options 0 = Some ((sample_exports, None), 0)
      \<or> NewInstanceFromCompiledCodeWithOptions sample_engine [0, 97] sample_options 0 = Some ((sample_exports, None), 0)"
    using sample_instantiated by simp
  have f: "map_get (in_Exports sample_exports) ''add'' = Some sample_add"
    by (simp add: sample_exports_def)
  have sigs: "ef_inputSignatures sample_add = [WASM_I32, WASM_I64]" by (simp add: sample_add_def)
  have "engine_call sample_engine sample_add
      (map2 engine_cell [WASM_I32, WASM_I64] [Arg_int8 (- 3), Arg_uint32 5]) 0 = Some ((I64 0x100000002, None), 0)"
    by code_simp
  with exported_calls_convert [OF inst f, of "[Arg_int8 (- 3), Arg_uint32 5]" 0]
    exported_calls_convert [OF inst f, of "[Arg_int8 1]" 0]
  show ?thesis by (simp add: sigs)
qed

section \<open>Calling verified code\<close>

text \<open>
  How the instance of the package looks to the contexts, which the rest of the development sees
  as a \<open>WasmInstance\<close>: the readable counters, the memory, the exports and their signatures.
\<close>

definition seen_as :: "'s engine \<Rightarrow> GoInstance \<Rightarrow> 's \<Rightarrow> WasmInstance \<Rightarrow> bool" where
  "seen_as G inst s w \<longleftrightarrow>
     wi_PointsUsed w = Instance_GetPointsUsed G inst s
     \<and> wi_BreakpointValue w = Instance_GetBreakpointValue G inst s
     \<and> wi_Memory w = map_option (\<lambda>memory. Memory_Data G memory s) (Instance_GetMemory inst)
     \<and> set (wi_Exports w) = dom (map_get (in_Exports inst))
     \<and> (\<forall>name. map_get (wi_Signatures w) name =
          map_option (\<lambda>sig. (nat (InputArity sig), nat (OutputArity sig))) (Instance_GetSignature name inst))
     \<and> (\<forall>name. name \<in> set (wi_ImportedFunctions w) \<longleftrightarrow> Instance_IsFunctionImported G name inst s)"

lemma seen_as_HasMemory: "seen_as G inst s w \<Longrightarrow> verifyMemoryDeclaration w = None \<longleftrightarrow> HasMemory inst"
  by (auto simp: seen_as_def verifyMemoryDeclaration_def HasMemory_def Instance_GetMemory_def)

lemma verified_export_is_void:
  assumes "exports_agree c (in_Exports inst) (in_Signatures inst)" and "seen_as G inst s w"
    and "verifyFunctions reserved w = None" and f: "map_get (in_Exports inst) name = Some f"
  shows "ef_inputsArity f = 0 \<and> ef_outputsArity f = 0 \<and> ef_inputSignatures f = [] \<and> ef_instance f = c"
proof -
  have agree: "map_get (in_Signatures inst) name =
      Some \<lparr>InputArity = uint (ef_inputsArity f), OutputArity = uint (ef_outputsArity f)\<rparr>"
    "length (ef_inputSignatures f) = unat (ef_inputsArity f)" "ef_instance f = c"
    using assms(1) f by (auto simp: exports_agree_def)
  have "name \<in> set (wi_Exports w)" using assms(2) f by (auto simp: seen_as_def)
  then have "map_get (wi_Signatures w) name = Some (0, 0)"
    using assms(3) by (simp add: verifyFunctions_iff)
  then have "nat (uint (ef_inputsArity f)) = 0 \<and> nat (uint (ef_outputsArity f)) = 0"
    using assms(2) agree(1) by (auto simp: seen_as_def Instance_GetSignature_def)
  then have "ef_inputsArity f = 0" "ef_outputsArity f = 0" by (simp_all add: unat_eq_0 flip: unat_eq_nat_uint)
  with agree(2,3) show ?thesis by simp
qed

text \<open>
  C10. Code that the validator accepted can be called the way the host calls it: every exported
  function, called without arguments, reaches the engine with no arguments and room for no
  results, in the instance that exports it; when the engine succeeds the call returns no
  value and no error, and otherwise the wrapped failure.
\<close>

theorem verified_code_can_be_called:
  assumes "NewInstanceWithOptions G code options s0 = Some ((inst, None), s1)
      \<or> NewInstanceFromCompiledCodeWithOptions G code options s0 = Some ((inst, None), s1)"
    and "seen_as G inst s1 w" and "verifyFunctions reserved w = None"
    and "map_get (in_Exports inst) name = Some f"
  shows "\<exists>c. in_instance inst = Some c \<and> call_exported G f [] s =
    (case cWasmerInstanceCall G c name [] 0 0 s of
       ((True, _), s) \<Rightarrow> Some ((Void, None), s)
     | ((False, _), s) \<Rightarrow> do {
         (err, s) \<leftarrow> newWrappedError G (PlainError (''Failed to call the `'' @ name @ ''` exported function.'')) s;
         Some ((Void, Some err), s)
       })"
proof -
  obtain c where c: "in_instance inst = Some c"
      and agree: "exports_agree c (in_Exports inst) (in_Signatures inst)"
    using assms(1) by (rule instance_of_engine)
  have "ef_name f = name" using agree assms(4) by (auto simp: exports_agree_def)
  with verified_export_is_void [OF agree assms(2,3,4)]
  have "call_exported G f [] s = engine_call G f [] s"
      and f: "ef_inputsArity f = 0" "ef_outputsArity f = 0" "ef_instance f = c" "ef_name f = name"
    using call_exported_spec(1) [of f "[]" G s] by auto
  with c show ?thesis by (auto simp: engine_call_def result_value_def split: prod.splits bool.splits)
qed

text \<open>A module that exports \<open>init\<close> only.\<close>

definition void_engine :: "nat engine" where
  "void_engine = sample_engine\<lparr>cWasmerExportsGet := (\<lambda>_ n _. Suc (unat n)), cWasmerExportsLen := (\<lambda>_ _. 2)\<rparr>"

definition void_instance :: GoInstance where
  "void_instance = sample_exports\<lparr>in_Exports := [(''init'', sample_init)],
     in_Signatures := [(''init'', \<lparr>InputArity = 0, OutputArity = 0\<rparr>)]\<rparr>"

definition void_view :: WasmInstance where
  "void_view = \<lparr>wi_PointsUsed = 0, wi_GasLimit = 100, wi_BreakpointValue = 0, wi_Memory = Some [0, 1],
     wi_Exports = [''init''], wi_Signatures = [(''init'', (0, 0))], wi_ImportedFunctions = [], wi_Cleaned = False\<rparr>"

lemma void_instantiated:
  "NewInstanceWithOptions void_engine [0, 97] sample_options 0 = Some ((void_instance, None), 0)"
  by code_simp

lemma void_seen: "seen_as void_engine void_instance s void_view"
proof -
  have "Memory_Data void_engine (Some 1) s = [0, 1]"
    by (simp add: Memory_Data_def Memory_Length_def void_engine_def sample_engine_def Let_def upt_rec)
  then show ?thesis
    by (simp add: seen_as_def Instance_GetPointsUsed_def Instance_GetBreakpointValue_def
        Instance_GetMemory_def Instance_GetSignature_def Instance_IsFunctionImported_def
        void_instance_def void_view_def sample_exports_def)
      (simp add: void_engine_def sample_engine_def)
qed

lemma verified_code_can_be_called_witness:
  "call_exported void_engine sample_init [] 41 = Some ((Void, None), 42)"
proof -
  have inst: "NewInstanceWithOptions void_engine [0, 97] sample_options 0 = Some ((void_instance, None), 0)
      \<or> NewInstanceFromCompiledCodeWithOptions void_engine [0, 97] sample_options 0 = Some ((void_instance, None), 0)"
    using void_instantiated by simp
  have verified: "verifyFunctions [] void_view = None" by code_simp
  have f: "map_get (in_Exports void_instance) ''init'' = Some sample_init"
    by (simp add: void_instance_def)
  show ?thesis
    using verified_code_can_be_called [OF inst void_seen verified f, of 41]
    by (auto simp: void_engine_def sample_engine_def)
qed

section \<open>Imports\<close>

text \<open>Imports as a program can make them.\<close>

inductive registered :: "WasmImports \<Rightarrow> bool" where
  none: "registered NewImports"
| namespace: "registered ims \<Longrightarrow> registered (Imports_Namespace n ims)"
| append: "registered ims \<Longrightarrow> Imports_Append importName impl p ims = Some (Inr ims') \<Longrightarrow>
    registered ims'"

definition import_tag :: "ReflectKind \<Rightarrow> WasmerValueTag option" where
  "import_tag k = (case k of Kind_Int32 \<Rightarrow> Some WASM_I32 | Kind_Int64 \<Rightarrow> Some WASM_I64 | _ \<Rightarrow> None)"

text \<open>An entry of the imports agrees with the type of its function, and has no function of the engine.\<close>

definition import_ok :: "string \<Rightarrow> WasmImport \<Rightarrow> bool" where
  "import_ok namespace i \<longleftrightarrow>
     im_namespace i = namespace \<and> im_importedFunctionPointer i = None
     \<and> (\<exists>ins outs. im_implementation i = FuncType (Kind_UnsafePointer # ins) outs
          \<and> map import_tag ins = map Some (im_wasmInputs i) \<and> map import_tag outs = map Some (im_wasmOutputs i)
          \<and> length outs \<le> 1)"

lemma import_inputs_tags: "import_inputs f ks = Inr tags \<Longrightarrow> map import_tag ks = map Some tags"
  by (induction ks arbitrary: tags) (auto simp: import_tag_def split: ReflectKind.splits sum.splits)

lemma import_outputs_tags:
  "import_outputs f ks = Inr tags \<Longrightarrow> map import_tag ks = map Some tags \<and> length ks \<le> 1"
  by (cases ks) (auto simp: import_outputs_def import_tag_def split: ReflectKind.splits if_splits)

lemma registered_ok:
  "registered ims \<Longrightarrow>
     wf_map (ims_imports ims)
     \<and> (\<forall>e \<in> set (ims_imports ims). wf_map (snd e) \<and> (\<forall>x \<in> set (snd e). import_ok (fst e) (snd x)))"
proof (induction rule: registered.induct)
  case none
  then show ?case by (simp add: NewImports_def)
next
  case (namespace ims n)
  then show ?case by (simp add: Imports_Namespace_def)
next
  case (append ims importName impl p ims')
  obtain ins outs tags otags where impl: "impl = FuncType (Kind_UnsafePointer # ins) outs"
      and tags: "import_inputs importName ins = Inr tags" "import_outputs importName outs = Inr otags"
      and ims': "ims' = ims\<lparr>ims_imports := map_put (ims_currentNamespace ims)
        (map_put importName \<lparr>im_implementation = impl, im_cgoPointer = p,
           im_importedFunctionPointer = None, im_wasmInputs = tags, im_wasmOutputs = otags,
           im_namespace = ims_currentNamespace ims\<rparr>
          (map_get_or [] (ims_imports ims) (ims_currentNamespace ims))) (ims_imports ims)\<rparr>"
    using append.hyps(2)
    by (auto simp: Imports_Append_def Let_def split: ReflectType.splits list.splits sum.splits if_splits)
  have new: "import_ok (ims_currentNamespace ims) \<lparr>im_implementation = impl, im_cgoPointer = p,
      im_importedFunctionPointer = None, im_wasmInputs = tags, im_wasmOutputs = otags,
      im_namespace = ims_currentNamespace ims\<rparr>"
    using import_inputs_tags [OF tags(1)] import_outputs_tags [OF tags(2)] impl by (auto simp: import_ok_def)
  have old: "wf_map (map_get_or [] (ims_imports ims) n)
      \<and> (\<forall>x \<in> set (map_get_or [] (ims_imports ims) n). import_ok n (snd x))" for n
  proof (cases "map_get (ims_imports ims) n")
    case (Some m)
    then have "(n, m) \<in> set (ims_imports ims)" by (rule map_of_SomeD)
    with append.IH Some show ?thesis by (fastforce simp: map_get_or_def)
  qed (simp add: map_get_or_def)
  show ?case
    using append.IH new old [of "ims_currentNamespace ims"]
    by (auto simp: ims' set_map_put) (fastforce+)
qed

lemma generate_namespaced_names:
  "\<forall>x \<in> set m. im_namespace (snd x) = namespace \<Longrightarrow>
     map (\<lambda>c. (ci_module_name c, ci_import_name c)) (fst (generate_namespaced G m s)) =
       map (\<lambda>(name, _). (namespace, name)) m"
  by (induction m arbitrary: s) (auto simp: Let_def cNewWasmerImportT_def split_beta)

lemma generate_imports_names:
  "\<forall>e \<in> set im. \<forall>x \<in> set (snd e). im_namespace (snd x) = fst e \<Longrightarrow>
     map (\<lambda>c. (ci_module_name c, ci_import_name c)) (fst (generate_imports G im s)) =
       concat (map (\<lambda>(namespace, m). map (\<lambda>(name, _). (namespace, name)) m) im)"
proof (induction im arbitrary: s)
  case (Cons e im)
  obtain namespace m where e: "e = (namespace, m)" by fastforce
  have "map (\<lambda>c. (ci_module_name c, ci_import_name c)) (fst (generate_namespaced G m s)) =
      map (\<lambda>(name, _). (namespace, name)) m"
    using Cons.prems by (intro generate_namespaced_names) (auto simp: e)
  then show ?case using Cons.IH Cons.prems by (simp add: e Let_def split_beta)
qed simp

lemma close_nothing:
  "\<forall>x \<in> set m. im_importedFunctionPointer (snd x) = None \<Longrightarrow> close_namespaced G m s = s"
  by (induction m) auto

lemma close_imports_nothing:
  "\<forall>e \<in> set im. \<forall>x \<in> set (snd e). im_importedFunctionPointer (snd x) = None \<Longrightarrow>
     close_imports G im s = s"
  by (induction im) (auto simp: close_nothing)

text \<open>
  \<open>SetImports\<close> hands the engine one import for every registered function, under its namespace and
  name, and as many as \<open>Count\<close> says. \<open>Close\<close> frees none of the functions that the engine made for them:
  the pointers were stored in copies of the imports.
\<close>

theorem imports_made_and_never_freed:
  assumes "registered ims"
  shows "map (\<lambda>c. (ci_module_name c, ci_import_name c)) (fst (fst (generateWasmerImports G ims s))) =
      concat (map (\<lambda>(namespace, m). map (\<lambda>(name, _). (namespace, name)) m) (ims_imports ims))"
    and "length (fst (fst (generateWasmerImports G ims s))) = Imports_Count ims"
    and "snd (fst (generateWasmerImports G ims s)) = Imports_Count ims"
    and "Imports_Close G ims s = s"
proof -
  have ok: "\<forall>e \<in> set (ims_imports ims). \<forall>x \<in> set (snd e). import_ok (fst e) (snd x)"
    using registered_ok [OF assms] by auto
  show names: "map (\<lambda>c. (ci_module_name c, ci_import_name c)) (fst (fst (generateWasmerImports G ims s))) =
      concat (map (\<lambda>(namespace, m). map (\<lambda>(name, _). (namespace, name)) m) (ims_imports ims))"
    using generate_imports_names [of "ims_imports ims" G s] ok
    by (fastforce simp: generateWasmerImports_def Let_def split_beta import_ok_def)
  have "length (fst (fst (generateWasmerImports G ims s))) =
      length (concat (map (\<lambda>(namespace, m). map (\<lambda>(name, _). (namespace, name)) m) (ims_imports ims)))"
    using arg_cong [OF names, of length] by simp
  then show "length (fst (fst (generateWasmerImports G ims s))) = Imports_Count ims"
    by (simp add: Imports_Count_def length_concat comp_def split_def)
  show "snd (fst (generateWasmerImports G ims s)) = Imports_Count ims"
    by (simp add: generateWasmerImports_def Let_def split_beta)
  show "Imports_Close G ims s = s"
    unfolding Imports_Close_def using ok by (intro close_imports_nothing) (fastforce simp: import_ok_def)
qed

end
