(* ===== verification/Spec2Isabelle.thy ===== *)
theory Spec2Isabelle
  imports HookGuarantees HookStorage HookArithmetic HookArguments AsyncGas HostTransactions GasConfig
    IPCGuarantees HostConstruction ScenarioValues ScenarioFiles ScenarioGuarantees
    WasmerGuarantees
begin

text \<open>
  A verification development for the smart contract virtual machine mx-chain-vm-v1_3-go.

  \<^bold>\<open>The program.\<close> A node asks the VM to deploy, call or upgrade a contract. The host
  (\<open>vmhost/hostCore\<close>) resets its six contexts (\<open>vmhost/contexts\<close>), starts the contract's code
  in a WebAssembly engine and lets it run. The code calls back through the imported functions of
  \<open>vmhost/vmhooks\<close> and \<open>vmhost/cryptoapi\<close>, which charge gas, copy between the contract's memory and
  the host and work on the contexts: big integers by handle, the blockchain behind a hook,
  metering of gas, the output with its accounts and transfers, the runtime with its instances,
  and storage. A contract may call other contracts, synchronously on stacks of context states
  or asynchronously, also across shards. At the end the host hands an output to the node.

  \<^bold>\<open>How it is modelled.\<close> Functions of the code are functions of HOL under the same name (a
  context's operations that share a name, such as \<open>PushState\<close>, carry the name of the context as a
  prefix). The state is one record \<open>vmHost\<close> with a record per context, passed explicitly. A nil
  dereference, an index out of range and every other panic is \<open>None\<close>; errors are values of
  \<open>go_error\<close>; machine integers are words of their width; Go maps are association lists with
  distinct keys. Code outside the repository is a field of the records \<open>vmEnv\<close> and
  \<open>BlockchainHook\<close>: the node, built-in functions, the engine, hashing, signatures, JSON, the
  argument parser, two's complement and the bodies of the contracts (\<open>env_CallExport\<close>). The theory
  Contracts then replaces the last of these by programs that call the model's own imports.

  \<^bold>\<open>Theories.\<close>

  \<^item> Prelude, StateStack, Sample: Go's slices, maps and numbers; the interface of a context with a
    stack of states as a locale, interpreted by every context; a small host for examples.
  \<^item> GoMath (\<open>math/overflow.go\<close>), Errors (\<open>vmhost/errors.go\<close>, \<open>errorWrapping.go\<close>), Helpers
    (\<open>vmhost/helpers.go\<close>), VMTypes (\<open>vmhost/common.go\<close>, \<open>interface.go\<close>), GasSchedule, Opcodes and
    GasConfig (\<open>config\<close>): saturating arithmetic, wrapped errors, codecs, data, and the loading and
    changing of gas schedules.
  \<^item> BigIntContext, BlockchainContext, MeteringContext, OutputState and OutputTransfers,
    RuntimeContext, RuntimeProofs, WasmerInstances and Validator, StorageContext: the contexts
    (\<open>vmhost/contexts\<close>) with their invariants and the properties of their operations.
  \<^item> WasmerBindings, WasmerGuarantees (\<open>wasmer\<close>): the Go side of the engine: values, memory,
    imports, exported functions and instances. The functions of the engine itself are a record
    \<open>engine\<close> over a state.
  \<^item> HostContexts, AsyncCalls, HostExecution, HostEntry, HostConstruction: the host
    (\<open>hostCore/host.go\<close>, \<open>execution.go\<close>, \<open>asyncCall.go\<close>, \<open>breakpoints.go\<close>).
  \<^item> HostKeeps, HostNesting, HostFuel, SameContext, HostGuarantees, HostTransactions, AsyncGas: what
    the host guarantees. \<open>keeps\<close> says that a computation leaves every state stack as it found it
    and the host well-formed; the locale \<open>lawful_env\<close> asks this of contract bodies, \<open>nested_call\<close>
    of nested executions, and \<open>ExecuteOnDestContext\<close> is shown to provide it.
  \<^item> VMHooks, SmallIntOps, BigIntOps, BaseOps, CallOps, CryptoOps: all imported functions
    (\<open>vmhooks/smallIntOps.go\<close>, \<open>bigIntOps.go\<close>, \<open>baseOps.go\<close>, \<open>cryptoapi/cryptoei.go\<close>).
  \<^item> HookKeeps, Contracts, HookGuarantees, HookStorage, HookArithmetic, HookArguments: every import
    satisfies \<open>keeps\<close>; contracts as arbitrary programs over the 122 imports; what storage, big
    integer and argument hooks compute.
  \<^item> IPCMessages, IPCChannel, IPCNode, IPCGateway, IPCDialogue, IPCDriver, IPCGuarantees: the VM in a
    process of its own (\<open>ipc\<close>): messages and their factory, framing and nonces, the repliers and
    the loop of the node, the gateway and the loop of the VM, and the driver that starts, asks
    and closes the VM process. Marshalizers, the clock and the start of the process are
    parameters; a run of the VM host is a tree of hook calls. The locale \<open>hook_channel\<close> is the
    contract between gateway and channel, and the pipes with the node behind them provide it.
  \<^item> OrderedJSON (\<open>scenarios/orderedjson\<close>), ScenarioValues (\<open>scenarios/expression\<close>): the documents
    that scenario files are written in, the parser and writer of documents, and the expressions for
    values in them.
  \<^item> MockWorld, WorldTokens, WorldGuarantees (\<open>mock/world\<close>): the node in memory that stands behind the
    VM in scenarios: accounts and their tokens, snapshots, the blockchain hook and the update from
    an output.
  \<^item> ScenarioModel, ScenarioParse, ScenarioWrite, ScenarioFiles (\<open>scenarios/json/model\<close>, \<open>parse\<close>,
    \<open>write\<close>): scenarios as data, read from documents and written to them. In ScenarioFiles, the
    predicates \<open>_ok\<close> say which records the reader returns, the predicates \<open>_kept\<close> which forms the
    writer does not lose.
  \<^item> ScenarioExecutor, ScenarioChecks, ScenarioGuarantees (\<open>scenarioexec\<close>, \<open>scenarios/fileresolver\<close>,
    \<open>scenarios/controller/scenarioOne.go\<close>, \<open>testOne.go\<close>): the interpretation of files, and the executor that sets up the world, runs transactions on a VM behind its interface and checks
    results and accounts.

  \<^bold>\<open>What is shown.\<close> Transactions start from a clean slate and have all of their effects or none;
  a nested call is all or nothing and cannot disturb its callers, whatever code it runs; storage
  writes do exactly what they say, at the specified price, and respect read-only mode and reserved
  keys; memory access stays in bounds; value transfers conserve money and never overdraw; gas is
  split, accounted for and divided among asynchronous calls as specified; code that enters as new
  code is verified, and code is replaced only by its owner;
  verified code can be called, and calls hand the engine the given integers; numbers, arguments and big integers
  pass between contract and host unchanged; gas schedules are loaded completely; a VM behind pipes
  computes what a VM inside the node computes, as long as it calls the hooks that are served, and
  a failed dialogue leaves nothing behind that could disturb the next; the world in memory ends up
  with what the contracts saw; the transactions of a scenario conserve money, failed ones cost only
  gas, and its checks say the truth; a scenario read from a file is the same
  after it was written and read again, unless it uses one of the named forms that the writer
  loses. Where the code does
  something else than it means to, the theorem says what it does.

  \<^bold>\<open>Bounds.\<close> \<open>ExecuteOnDestContext\<close> takes fuel for the depth of nested calls. The host refuses to
  start more instances than \<open>maxWasmerInstances\<close>, so the depth is bounded, and HostFuel shows that
  more fuel than this bound does not change any result. \<open>contract_env\<close> is indexed by the depth to
  which contracts call each other in the same way. \<open>RunSingleJSONScenario\<close> takes a bound on the depth
  of scenario files that include each other; a bound that suffices may be raised without changing the
  result. All other loops are structural, but for
  \<open>free_handle\<close>, which is \<open>partial_function\<close> and shown to return.

  \<^bold>\<open>Not modelled.\<close> The engine behind \<open>wasmer\<close> and its constants for opcodes, cryptographic
  primitives (\<open>crypto\<close>), process handling and logging pipes of the driver, the command line tools and
  the debugging server (\<open>cmd\<close>, \<open>vmserver\<close>), logging, the mocks of contexts and engine, fuzzers
  and tests. The lock of the host against concurrent changes of
  the gas schedule is left out: an execution sees one schedule. The memory that a contract may
  allocate on the host is not bounded in the model.
\<close>

end
